(* ===== verification/Prelude.thy ===== *)
theory Prelude
  imports Main
begin

text \<open>
  The prelude of the development: how a Go program is embedded.
  A Go function that can stop the process (\<open>log.Fatalf\<close>, an index out of range, a failed
  type assertion, an explicit \<open>panic\<close>) returns a value of \<open>'a res\<close>, with the
  reason on the left; \<open>Diverges\<close> stands for a loop that does not end. Go's \<open>int\<close> is \<open>int\<close>; slices are lists, indexed through
  \<open>go_index\<close> and friends, which make the run-time checks of the language explicit.
  The generic notions the components share follow: reachability and invariants of a step
  relation, majorities, and the interface of an encoder with its decoder.
\<close>

section \<open>Faults and results\<close>

named_theorems go_simps \<open>the run-time operations of Go, unfolded\<close>

datatype fault =
    LogFatal string
  | IndexOutOfRange
  | TypeAssertion
  | GoPanic string
  | Diverges

type_synonym 'a res = "fault + 'a"

definition res_bind :: "'a res \<Rightarrow> ('a \<Rightarrow> 'b res) \<Rightarrow> 'b res" where
  "res_bind m f = (case m of Inl e \<Rightarrow> Inl e | Inr x \<Rightarrow> f x)"

lemma res_bind_Inr [simp]: "res_bind (Inr x) f = f x"
  by (simp add: res_bind_def)

lemma res_bind_Inl [simp]: "res_bind (Inl e) f = Inl e"
  by (simp add: res_bind_def)

lemma res_bind_eq_Inr [simp]:
  "res_bind m f = Inr y \<longleftrightarrow> (\<exists>x. m = Inr x \<and> f x = Inr y)"
  by (cases m) auto

lemma res_bind_eq_Inl:
  "res_bind m f = Inl e \<longleftrightarrow> m = Inl e \<or> (\<exists>x. m = Inr x \<and> f x = Inl e)"
  by (cases m) auto

lemma res_bind_assoc: "res_bind (res_bind m f) g = res_bind m (\<lambda>x. res_bind (f x) g)"
  by (cases m) auto

lemma res_bind_cong [fundef_cong]:
  "m = m' \<Longrightarrow> (\<And>x. m' = Inr x \<Longrightarrow> f x = f' x) \<Longrightarrow> res_bind m f = res_bind m' f'"
  by (cases m') auto

lemma not_isl_Inr: "\<not> isl m \<Longrightarrow> m = Inr (projr m)"
  by (cases m) auto

section \<open>Slices\<close>

definition go_index :: "'a list \<Rightarrow> int \<Rightarrow> 'a res" where
  "go_index xs i =
     (if 0 \<le> i \<and> i < int (length xs) then Inr (xs ! nat i) else Inl IndexOutOfRange)"

definition go_update :: "'a list \<Rightarrow> int \<Rightarrow> 'a \<Rightarrow> 'a list res" where
  "go_update xs i v =
     (if 0 \<le> i \<and> i < int (length xs) then Inr (xs[nat i := v]) else Inl IndexOutOfRange)"

text \<open>
  \<open>xs[:n]\<close> and \<open>xs[n:]\<close>. Go lets the first reach up to the capacity; the
  callers modelled here stay within the length, which their theorems show.
\<close>

definition go_slice_to :: "'a list \<Rightarrow> int \<Rightarrow> 'a list res" where
  "go_slice_to xs n =
     (if 0 \<le> n \<and> n \<le> int (length xs) then Inr (take (nat n) xs) else Inl IndexOutOfRange)"

definition go_slice_from :: "'a list \<Rightarrow> int \<Rightarrow> 'a list res" where
  "go_slice_from xs n =
     (if 0 \<le> n \<and> n \<le> int (length xs) then Inr (drop (nat n) xs) else Inl IndexOutOfRange)"

lemma go_index_ok [simp]:
  "0 \<le> i \<Longrightarrow> i < int (length xs) \<Longrightarrow> go_index xs i = Inr (xs ! nat i)"
  by (simp add: go_index_def)

lemma go_index_Inr:
  "go_index xs i = Inr x \<longleftrightarrow> 0 \<le> i \<and> i < int (length xs) \<and> x = xs ! nat i"
  by (auto simp: go_index_def)

lemma go_update_ok [simp]:
  "0 \<le> i \<Longrightarrow> i < int (length xs) \<Longrightarrow> go_update xs i v = Inr (xs[nat i := v])"
  by (simp add: go_update_def)

lemma go_update_Inr:
  "go_update xs i v = Inr ys \<longleftrightarrow> 0 \<le> i \<and> i < int (length xs) \<and> ys = xs[nat i := v]"
  by (auto simp: go_update_def)

lemma go_slice_to_ok [simp]:
  "0 \<le> n \<Longrightarrow> n \<le> int (length xs) \<Longrightarrow> go_slice_to xs n = Inr (take (nat n) xs)"
  by (simp add: go_slice_to_def)

lemma go_slice_from_ok [simp]:
  "0 \<le> n \<Longrightarrow> n \<le> int (length xs) \<Longrightarrow> go_slice_from xs n = Inr (drop (nat n) xs)"
  by (simp add: go_slice_from_def)

lemmas go_defs [go_simps] = go_index_def go_update_def go_slice_to_def go_slice_from_def

section \<open>Maps\<close>

text \<open>Reading a Go map of integers at an absent key yields the zero value.\<close>

definition go_get :: "('k \<rightharpoonup> int) \<Rightarrow> 'k \<Rightarrow> int" where
  "go_get m k = (case m k of None \<Rightarrow> 0 | Some v \<Rightarrow> v)"

lemma go_get_upd [simp]: "go_get (m(k \<mapsto> v)) k' = (if k' = k then v else go_get m k')"
  by (simp add: go_get_def)

section \<open>Step relations, reachable states, invariants\<close>

inductive reach :: "('s \<Rightarrow> bool) \<Rightarrow> ('s \<Rightarrow> 's \<Rightarrow> bool) \<Rightarrow> 's \<Rightarrow> bool"
  for init :: "'s \<Rightarrow> bool" and step :: "'s \<Rightarrow> 's \<Rightarrow> bool" where
  reach_init: "init s \<Longrightarrow> reach init step s"
| reach_step: "reach init step s \<Longrightarrow> step s t \<Longrightarrow> reach init step t"

locale invariant_of =
  fixes init :: "'s \<Rightarrow> bool" and step :: "'s \<Rightarrow> 's \<Rightarrow> bool" and inv :: "'s \<Rightarrow> bool"
  assumes inv_init: "init s \<Longrightarrow> inv s"
    and inv_step: "inv s \<Longrightarrow> step s t \<Longrightarrow> inv t"
begin

lemma reach_inv: "reach init step s \<Longrightarrow> inv s"
  by (induction rule: reach.induct) (auto intro: inv_init inv_step)

lemma steps_inv: "step\<^sup>*\<^sup>* s t \<Longrightarrow> inv s \<Longrightarrow> inv t"
  by (induction rule: rtranclp_induct) (auto intro: inv_step)

end

text \<open>A quantity that no step decreases from a state that satisfies the invariant.\<close>

locale monotone_of = invariant_of init step inv
  for init :: "'s \<Rightarrow> bool" and step :: "'s \<Rightarrow> 's \<Rightarrow> bool" and inv :: "'s \<Rightarrow> bool" +
  fixes val :: "'s \<Rightarrow> 'v::preorder"
  assumes val_step: "inv s \<Longrightarrow> step s t \<Longrightarrow> val s \<le> val t"
begin

lemma steps_mono: "step\<^sup>*\<^sup>* s t \<Longrightarrow> inv s \<Longrightarrow> val s \<le> val t"
proof (induction rule: rtranclp_induct)
  case base
  show ?case by simp
next
  case (step t u)
  from step.hyps(1) step.prems have "inv t" by (rule steps_inv)
  then have "val t \<le> val u" using step.hyps(2) by (rule val_step)
  with step.IH step.prems show ?case by (blast intro: order_trans)
qed

end

section \<open>Encoders and decoders\<close>

text \<open>
  A value written through an encoder is read back unchanged: the contract that the
  persistence of every component rests on.
\<close>

locale codec =
  fixes enc :: "'v \<Rightarrow> 'b list" and dec :: "'b list \<Rightarrow> 'v res"
  assumes dec_enc: "dec (enc v) = Inr v"
    and enc_nonempty: "enc v \<noteq> []"
begin

lemma enc_inject: "enc v = enc w \<Longrightarrow> v = w"
proof -
  assume "enc v = enc w"
  then have "dec (enc v) = dec (enc w)" by simp
  then show "v = w" by (simp add: dec_enc)
qed

end

section \<open>Majorities\<close>

locale quorum_system =
  fixes quorum :: "'a set \<Rightarrow> bool"
  assumes quorum_meet: "quorum A \<Longrightarrow> quorum B \<Longrightarrow> A \<inter> B \<noteq> {}"
begin

lemma quorum_ne: "quorum A \<Longrightarrow> A \<noteq> {}"
  using quorum_meet [of A A] by auto

text \<open>Two quorums that each picked one value for the voters they share picked the same.\<close>

lemma quorum_agree:
  assumes "quorum A" and "quorum B"
    and "\<And>x. x \<in> A \<Longrightarrow> f x = v" and "\<And>x. x \<in> B \<Longrightarrow> f x = w"
  shows "v = w"
proof -
  from quorum_meet [OF assms(1,2)] obtain x where "x \<in> A" "x \<in> B" by blast
  with assms(3,4) show ?thesis by blast
qed

end

end
