(* ===== verification/Persister.thy ===== *)
theory Persister
  imports Prelude
begin

text \<open>
  Log entries and stable storage: \<open>LogEntity\<close> of raft.go, raft/persister.go, and the
  byte streams that \<open>getPersistData\<close> and \<open>readPersist\<close> write and read through labgob.
  A stream is the list of the values encoded into it, in order, each with its kind; an
  encoder appends a value, a decoder takes the next one and fails on the end of the stream
  or on a value of another kind. The command of an entry has Go's type \<open>interface{}\<close>: it
  is nil, the integer of the sentinel entry, or a command \<open>'c\<close> of the service.
\<close>

datatype 'c iface = NilVal | IntVal int | Cmd 'c

record 'c logEntity =
  Term :: int
  Action :: "'c iface"

datatype 'c raft_tok = TInt int | TLogs "'c logEntity list"

section \<open>The persister\<close>

record ('c, 's) persister =
  raftstate :: "'c raft_tok list"
  snapshot :: "'s list"

definition MakePersister :: "('c, 's) persister" where
  "MakePersister = \<lparr>raftstate = [], snapshot = []\<rparr>"

definition clone :: "'b list \<Rightarrow> 'b list" where
  "clone orig = take (length orig) orig"

lemma clone_id [simp]: "clone xs = xs"
  by (simp add: clone_def)

definition Copy :: "('c, 's) persister \<Rightarrow> ('c, 's) persister" where
  "Copy ps = MakePersister\<lparr>raftstate := raftstate ps, snapshot := snapshot ps\<rparr>"

definition SaveRaftState :: "('c, 's) persister \<Rightarrow> 'c raft_tok list \<Rightarrow> ('c, 's) persister" where
  "SaveRaftState ps state = ps\<lparr>raftstate := clone state\<rparr>"

definition ReadRaftState :: "('c, 's) persister \<Rightarrow> 'c raft_tok list" where
  "ReadRaftState ps = clone (raftstate ps)"

text \<open>The number of bytes of a stream is a parameter: it depends on the gob format.\<close>

definition RaftStateSize :: "('c raft_tok list \<Rightarrow> int) \<Rightarrow> ('c, 's) persister \<Rightarrow> int" where
  "RaftStateSize bytes_len ps = bytes_len (raftstate ps)"

definition SaveStateAndSnapshot ::
  "('c, 's) persister \<Rightarrow> 'c raft_tok list \<Rightarrow> 's list \<Rightarrow> ('c, 's) persister" where
  "SaveStateAndSnapshot ps state snap =
     ps\<lparr>raftstate := clone state, snapshot := clone snap\<rparr>"

definition ReadSnapshot :: "('c, 's) persister \<Rightarrow> 's list" where
  "ReadSnapshot ps = clone (snapshot ps)"

definition SnapshotSize :: "('s list \<Rightarrow> int) \<Rightarrow> ('c, 's) persister \<Rightarrow> int" where
  "SnapshotSize bytes_len ps = bytes_len (snapshot ps)"

lemmas persister_defs =
  MakePersister_def Copy_def SaveRaftState_def ReadRaftState_def RaftStateSize_def
  SaveStateAndSnapshot_def ReadSnapshot_def SnapshotSize_def

section \<open>Decoding a stream\<close>

fun decode_int :: "'c raft_tok list \<Rightarrow> (int \<times> 'c raft_tok list) res" where
  "decode_int (TInt n # r) = Inr (n, r)"
| "decode_int _ = Inl (LogFatal ''read persist error'')"

fun decode_logs :: "'c raft_tok list \<Rightarrow> ('c logEntity list \<times> 'c raft_tok list) res" where
  "decode_logs (TLogs l # r) = Inr (l, r)"
| "decode_logs _ = Inl (LogFatal ''read persist error'')"

text \<open>What Raft keeps on stable storage: term, vote, log, and the extent of the snapshot.\<close>

record 'c pstate =
  p_currentTerm :: int
  p_votedFor :: int
  p_logs :: "'c logEntity list"
  p_snapshotEntriesAmount :: int
  p_lastSnapshotTerm :: int

definition encode_pstate :: "'c pstate \<Rightarrow> 'c raft_tok list" where
  "encode_pstate p =
     [TInt (p_currentTerm p), TInt (p_votedFor p), TLogs (p_logs p),
      TInt (p_snapshotEntriesAmount p), TInt (p_lastSnapshotTerm p)]"

definition decode_pstate :: "'c raft_tok list \<Rightarrow> 'c pstate res" where
  "decode_pstate d =
     res_bind (decode_int d) (\<lambda>(t, d).
     res_bind (decode_int d) (\<lambda>(v, d).
     res_bind (decode_logs d) (\<lambda>(l, d).
     res_bind (decode_int d) (\<lambda>(a, d).
     res_bind (decode_int d) (\<lambda>(s, d).
       Inr \<lparr>p_currentTerm = t, p_votedFor = v, p_logs = l,
            p_snapshotEntriesAmount = a, p_lastSnapshotTerm = s\<rparr>)))))"

interpretation raft_codec: codec encode_pstate decode_pstate
  by unfold_locales (simp_all add: encode_pstate_def decode_pstate_def)

text \<open>A stream cut short is refused, never read as a shorter state.\<close>

lemma decode_pstate_truncated:
  assumes "n < 5"
  shows "\<exists>e. decode_pstate (take n (encode_pstate p)) = Inl e"
proof -
  from assms have "n = 0 \<or> n = 1 \<or> n = 2 \<or> n = 3 \<or> n = 4" by arith
  then show ?thesis
    by (elim disjE) (simp_all add: encode_pstate_def decode_pstate_def)
qed

end
