(* ===== verification/Raft_Log.thy ===== *)
theory Raft_Log
  imports Persister
begin

text \<open>
  The state of one Raft peer (the struct \<open>Raft\<close> of raft.go) and raft/logUtils.go.
  Entries carry two indices: the global index, which commits and RPCs use, and the offset
  into \<open>logs\<close>, which is smaller by \<open>snapshotEntriesAmount\<close>, the number of entries
  that the last snapshot replaced. \<open>log_at\<close> is the log that the peer still holds, by
  global index; the locale \<open>log_store\<close> says what the operations of logUtils.go do to it.
\<close>

datatype raftStatus = Follower | Candidate | Leader

record ('c, 's) raft =
  npeers :: nat
  persister :: "('c, 's) persister"
  me :: int
  dead :: int
  status :: raftStatus
  numVoteGathered :: int
  nextElectionTimeout :: int
  currentTerm :: int
  votedFor :: int
  logs :: "'c logEntity list"
  snapshotEntriesAmount :: int
  lastSnapshotTerm :: int
  commitIndex :: int
  lastApplied :: int
  nextIndex :: "int list"
  matchIndex :: "int list"

section \<open>The operations of logUtils.go\<close>

definition getLastLogEntryIndex :: "('c, 's) raft \<Rightarrow> int" where
  "getLastLogEntryIndex rf = int (length (logs rf)) - 1 + snapshotEntriesAmount rf"

definition getLogFullLength :: "('c, 's) raft \<Rightarrow> int" where
  "getLogFullLength rf = int (length (logs rf)) + snapshotEntriesAmount rf"

definition getLogLengthWithoutSnapshot :: "('c, 's) raft \<Rightarrow> int" where
  "getLogLengthWithoutSnapshot rf = int (length (logs rf))"

definition logIndexCheck :: "('c, 's) raft \<Rightarrow> int \<Rightarrow> bool \<Rightarrow> bool \<Rightarrow> unit res" where
  "logIndexCheck rf index lowerBoundCheck upperBoundCheck =
     (if lowerBoundCheck \<and> index < snapshotEntriesAmount rf
      then Inl (LogFatal ''trying to access index in snapshot'')
      else if upperBoundCheck \<and> index > getLastLogEntryIndex rf
      then Inl (LogFatal ''trying to access index in bigger than log'')
      else Inr ())"

definition getLogIndexBeforeIndex :: "int \<Rightarrow> int" where
  "getLogIndexBeforeIndex index = (if index = -1 then -1 else index - 1)"

definition getOffsetIndex :: "('c, 's) raft \<Rightarrow> int \<Rightarrow> int" where
  "getOffsetIndex rf index = index - snapshotEntriesAmount rf"

definition getIndexFromOffsetIndex :: "('c, 's) raft \<Rightarrow> int \<Rightarrow> int res" where
  "getIndexFromOffsetIndex rf offsetIndex =
     (let index = offsetIndex + snapshotEntriesAmount rf
      in res_bind (logIndexCheck rf index True True) (\<lambda>_. Inr index))"

definition getLogEntryAtIndex :: "('c, 's) raft \<Rightarrow> int \<Rightarrow> 'c logEntity res" where
  "getLogEntryAtIndex rf index =
     res_bind (logIndexCheck rf index True True) (\<lambda>_.
       if index = -1 then Inl (LogFatal ''trying to access index at -1'')
       else go_index (logs rf) (getOffsetIndex rf index))"

definition getLastLogEntryTerm :: "('c, 's) raft \<Rightarrow> int res" where
  "getLastLogEntryTerm rf =
     (if length (logs rf) = 0 then Inr (lastSnapshotTerm rf)
      else res_bind (getLogEntryAtIndex rf (getLastLogEntryIndex rf)) (\<lambda>e. Inr (Term e)))"

definition getLogTermAtIndex :: "('c, 's) raft \<Rightarrow> int \<Rightarrow> int res" where
  "getLogTermAtIndex rf index =
     (if index + 1 = snapshotEntriesAmount rf then Inr (lastSnapshotTerm rf)
      else res_bind (logIndexCheck rf index True True) (\<lambda>_.
           res_bind (getLogEntryAtIndex rf index) (\<lambda>e. Inr (Term e))))"

definition candidateIsUpToDate :: "('c, 's) raft \<Rightarrow> int \<Rightarrow> int \<Rightarrow> bool res" where
  "candidateIsUpToDate rf candidateLastTerm candidateLastIndex =
     res_bind (getLastLogEntryTerm rf) (\<lambda>t.
       if candidateLastTerm > t then Inr True
       else if candidateLastTerm = t \<and> candidateLastIndex \<ge> getLastLogEntryIndex rf
       then Inr True
       else Inr False)"

definition removeLogFromIndex :: "('c, 's) raft \<Rightarrow> int \<Rightarrow> ('c, 's) raft res" where
  "removeLogFromIndex rf index =
     res_bind (if index + 1 \<noteq> snapshotEntriesAmount rf
               then logIndexCheck rf index True True else Inr ()) (\<lambda>_.
       if index = -1 then Inl (LogFatal ''removeLogFromIndex, trying to access index at -1'')
       else res_bind (go_slice_to (logs rf) (getOffsetIndex rf index + 1)) (\<lambda>l.
            Inr (rf\<lparr>logs := l\<rparr>)))"

definition logMatches :: "('c, 's) raft \<Rightarrow> int \<Rightarrow> int \<Rightarrow> bool res" where
  "logMatches rf term index =
     res_bind (logIndexCheck rf index False True) (\<lambda>_.
       if index = -1 then Inr True
       else if index > getLastLogEntryIndex rf then Inr False
       else res_bind (getLogTermAtIndex rf index) (\<lambda>t. Inr (\<not> t \<noteq> term)))"

definition copyStaringIndex :: "('c, 's) raft \<Rightarrow> int \<Rightarrow> ('c, 's) raft res" where
  "copyStaringIndex rf index =
     res_bind (logIndexCheck rf index True True) (\<lambda>_.
     let rf1 = (if index = -1 then rf\<lparr>logs := []\<rparr> else rf) in
     res_bind (go_slice_to (logs rf1) (getOffsetIndex rf1 index + 1)) (\<lambda>l.
       Inr (rf1\<lparr>logs := l\<rparr>)))"

definition appendToLogEntries :: "('c, 's) raft \<Rightarrow> 'c iface \<Rightarrow> ('c, 's) raft" where
  "appendToLogEntries rf command =
     rf\<lparr>logs := logs rf @ [\<lparr>Term = currentTerm rf, Action = command\<rparr>]\<rparr>"

definition getLogEntryStartingAt :: "('c, 's) raft \<Rightarrow> int \<Rightarrow> 'c logEntity list res" where
  "getLogEntryStartingAt rf index =
     res_bind (logIndexCheck rf index True False) (\<lambda>_.
       let copiedLogs = [] in
       if getOffsetIndex rf index + 1 > int (length (logs rf)) then Inr copiedLogs
       else res_bind (go_slice_from (logs rf) (getOffsetIndex rf index)) (\<lambda>l.
            Inr (copiedLogs @ l)))"

definition appendEntries :: "('c, 's) raft \<Rightarrow> 'c logEntity list \<Rightarrow> ('c, 's) raft" where
  "appendEntries rf entries = rf\<lparr>logs := logs rf @ entries\<rparr>"

lemmas log_index_defs =
  getLastLogEntryIndex_def getLogFullLength_def getLogLengthWithoutSnapshot_def
  getOffsetIndex_def getLogIndexBeforeIndex_def

section \<open>The log by global index\<close>

definition log_at :: "('c, 's) raft \<Rightarrow> int \<Rightarrow> 'c logEntity option" where
  "log_at rf i =
     (if snapshotEntriesAmount rf \<le> i \<and> i \<le> getLastLogEntryIndex rf
      then Some (logs rf ! nat (i - snapshotEntriesAmount rf)) else None)"

text \<open>
  A well-formed log: the snapshot covers a prefix, and as long as there is no snapshot the
  sentinel entry that \<open>Make\<close> puts at index 0 is still there.
\<close>

definition log_ok :: "('c, 's) raft \<Rightarrow> bool" where
  "log_ok rf \<longleftrightarrow> 0 \<le> snapshotEntriesAmount rf \<and> (snapshotEntriesAmount rf = 0 \<longrightarrow> logs rf \<noteq> [])"

lemma log_ok_last_nonneg: "log_ok rf \<Longrightarrow> 0 \<le> getLastLogEntryIndex rf"
  by (cases "logs rf") (auto simp: log_ok_def log_index_defs)

lemma log_at_in_range:
  "log_at rf i \<noteq> None \<longleftrightarrow> snapshotEntriesAmount rf \<le> i \<and> i \<le> getLastLogEntryIndex rf"
  by (simp add: log_at_def)

lemma dom_log_at: "dom (log_at rf) = {snapshotEntriesAmount rf .. getLastLogEntryIndex rf}"
  by (auto simp: dom_def log_at_def split: if_splits)

lemma getLogEntryAtIndex_Inr:
  assumes "log_ok rf"
  shows "getLogEntryAtIndex rf i = Inr e \<longleftrightarrow> log_at rf i = Some e"
  using assms
  by (auto simp: getLogEntryAtIndex_def logIndexCheck_def log_at_def log_ok_def go_index_def
      log_index_defs split: if_splits)

lemma getLogEntryAtIndex_ok:
  assumes "log_ok rf" "snapshotEntriesAmount rf \<le> i" "i \<le> getLastLogEntryIndex rf"
  shows "getLogEntryAtIndex rf i = Inr (logs rf ! nat (i - snapshotEntriesAmount rf))"
  using assms by (simp add: getLogEntryAtIndex_Inr log_at_def)

text \<open>The term at an index: an entry's, or the snapshot's at its last index.\<close>

definition term_at :: "('c, 's) raft \<Rightarrow> int \<Rightarrow> int option" where
  "term_at rf i =
     (if i + 1 = snapshotEntriesAmount rf then Some (lastSnapshotTerm rf)
      else map_option Term (log_at rf i))"

lemma getLogTermAtIndex_Inr:
  assumes "log_ok rf"
  shows "getLogTermAtIndex rf i = Inr t \<longleftrightarrow> term_at rf i = Some t"
proof (cases "i + 1 = snapshotEntriesAmount rf")
  case True
  then show ?thesis by (simp add: getLogTermAtIndex_def term_at_def eq_commute)
next
  case False
  have "(\<exists>u. logIndexCheck rf i True True = Inr u) \<longleftrightarrow> log_at rf i \<noteq> None"
    by (simp add: logIndexCheck_def log_at_def)
  with False getLogEntryAtIndex_Inr [OF assms, of i] show ?thesis
    by (auto simp: getLogTermAtIndex_def term_at_def)
qed

lemma getLogTermAtIndex_ok:
  assumes "log_ok rf" "snapshotEntriesAmount rf - 1 \<le> i" "i \<le> getLastLogEntryIndex rf"
  shows "\<exists>t. getLogTermAtIndex rf i = Inr t \<and> term_at rf i = Some t"
proof -
  from assms have "\<exists>t. term_at rf i = Some t"
    by (auto simp: term_at_def log_at_def)
  with getLogTermAtIndex_Inr [OF assms(1)] show ?thesis by blast
qed

text \<open>On a well-formed log the last term is that of the last index.\<close>

lemma getLastLogEntryTerm_ok:
  assumes "log_ok rf"
  shows "getLastLogEntryTerm rf = Inr (the (term_at rf (getLastLogEntryIndex rf)))"
proof (cases "logs rf = []")
  case True
  then show ?thesis by (simp add: getLastLogEntryTerm_def term_at_def log_index_defs)
next
  case False
  then have "snapshotEntriesAmount rf \<le> getLastLogEntryIndex rf"
    by (cases "logs rf") (simp_all add: log_index_defs)
  with assms False show ?thesis
    by (simp add: getLastLogEntryTerm_def getLogEntryAtIndex_ok term_at_def log_at_def)
qed

lemma candidateIsUpToDate_ok:
  assumes "log_ok rf"
  shows "candidateIsUpToDate rf t i =
    Inr (t > the (term_at rf (getLastLogEntryIndex rf)) \<or>
         t = the (term_at rf (getLastLogEntryIndex rf)) \<and> i \<ge> getLastLogEntryIndex rf)"
  using assms by (auto simp: candidateIsUpToDate_def getLastLogEntryTerm_ok)

lemma logMatches_Inr:
  assumes "log_ok rf" "i \<noteq> -1" "snapshotEntriesAmount rf - 1 \<le> i" "i \<le> getLastLogEntryIndex rf"
  shows "logMatches rf t i = Inr (term_at rf i = Some t)"
proof -
  from getLogTermAtIndex_ok [OF assms(1,3,4)]
  obtain u where "getLogTermAtIndex rf i = Inr u" "term_at rf i = Some u" by blast
  with assms show ?thesis by (simp add: logMatches_def logIndexCheck_def)
qed

section \<open>Truncation, extension and compaction\<close>

text \<open>
  The interface that the handlers of appendEntities.go and installSnapshot.go use: a log
  that can be cut after an index, extended at its end, and compacted up to an index.
\<close>

locale log_store =
  fixes invar :: "'st \<Rightarrow> bool"
    and lookup :: "'st \<Rightarrow> int \<Rightarrow> 'e option"
    and base :: "'st \<Rightarrow> int"
    and top :: "'st \<Rightarrow> int"
    and cut :: "'st \<Rightarrow> int \<Rightarrow> 'st res"
    and extend :: "'st \<Rightarrow> 'e list \<Rightarrow> 'st"
  assumes lookup_dom: "invar s \<Longrightarrow> lookup s i \<noteq> None \<longleftrightarrow> base s \<le> i \<and> i \<le> top s"
    and top_base: "invar s \<Longrightarrow> base s - 1 \<le> top s"
    and cut_ok: "invar s \<Longrightarrow> base s - 1 \<le> i \<Longrightarrow> i \<le> top s \<Longrightarrow> 0 \<le> i \<Longrightarrow> \<exists>s'. cut s i = Inr s'"
    and cut_invar: "invar s \<Longrightarrow> cut s i = Inr s' \<Longrightarrow> invar s'"
    and cut_base: "invar s \<Longrightarrow> cut s i = Inr s' \<Longrightarrow> base s' = base s"
    and cut_top: "invar s \<Longrightarrow> cut s i = Inr s' \<Longrightarrow> top s' = i"
    and cut_lookup: "invar s \<Longrightarrow> cut s i = Inr s' \<Longrightarrow> j \<le> i \<Longrightarrow> lookup s' j = lookup s j"
    and extend_invar: "invar s \<Longrightarrow> invar (extend s es)"
    and extend_base: "invar s \<Longrightarrow> base (extend s es) = base s"
    and extend_top: "invar s \<Longrightarrow> top (extend s es) = top s + int (length es)"
    and extend_old: "invar s \<Longrightarrow> j \<le> top s \<Longrightarrow> lookup (extend s es) j = lookup s j"
    and extend_new: "invar s \<Longrightarrow> k < length es \<Longrightarrow>
          lookup (extend s es) (top s + 1 + int k) = Some (es ! k)"
begin

text \<open>Cutting after \<open>i\<close> and extending by \<open>es\<close>, the write that AppendEntries makes.\<close>

lemma splice_top:
  assumes "invar s" "cut s i = Inr s'"
  shows "top (extend s' es) = i + int (length es)"
  using assms cut_invar [OF assms] by (simp add: extend_top cut_top)

lemma splice_keeps:
  assumes "invar s" "cut s i = Inr s'" "j \<le> i"
  shows "lookup (extend s' es) j = lookup s j"
  using assms cut_invar [OF assms(1,2)] by (simp add: extend_old cut_top cut_lookup)

lemma splice_writes:
  assumes "invar s" "cut s i = Inr s'" "k < length es"
  shows "lookup (extend s' es) (i + 1 + int k) = Some (es ! k)"
proof -
  have "lookup (extend s' es) (top s' + 1 + int k) = Some (es ! k)"
    using cut_invar [OF assms(1,2)] assms(3) by (rule extend_new)
  then show ?thesis using assms(1,2) by (simp add: cut_top)
qed

lemma splice_ends:
  assumes "invar s" "cut s i = Inr s'" "i + int (length es) < j"
  shows "lookup (extend s' es) j = None"
proof -
  have inv: "invar (extend s' es)"
    using cut_invar [OF assms(1,2)] by (rule extend_invar)
  show ?thesis
    using lookup_dom [OF inv, of j] splice_top [OF assms(1,2), of es] assms(3) by auto
qed

text \<open>The log after the write is determined by the part that was kept and the entries.\<close>

lemma splice_eq:
  assumes "invar s" "cut s i = Inr s'"
  shows "lookup (extend s' es) j =
    (if j \<le> i then lookup s j
     else if j \<le> i + int (length es) then Some (es ! nat (j - i - 1)) else None)"
proof -
  consider "j \<le> i" | "i < j" "j \<le> i + int (length es)" | "i + int (length es) < j"
    by linarith
  then show ?thesis
  proof cases
    case 1
    with splice_keeps [OF assms] show ?thesis by simp
  next
    case 2
    define k where "k = nat (j - i - 1)"
    with 2 have k: "k < length es" and j: "i + 1 + int k = j" by auto
    from splice_writes [OF assms k] have "lookup (extend s' es) j = Some (es ! k)"
      unfolding j .
    with 2 show ?thesis by (simp add: k_def)
  next
    case 3
    with splice_ends [OF assms 3] show ?thesis by simp
  qed
qed

end

lemma removeLogFromIndex_Inr:
  assumes "log_ok rf"
  shows "removeLogFromIndex rf i = Inr rf' \<longleftrightarrow>
    0 \<le> i \<and> snapshotEntriesAmount rf - 1 \<le> i \<and> i \<le> getLastLogEntryIndex rf \<and>
    rf' = rf\<lparr>logs := take (nat (i - snapshotEntriesAmount rf + 1)) (logs rf)\<rparr>"
proof -
  have len: "getLastLogEntryIndex rf = int (length (logs rf)) - 1 + snapshotEntriesAmount rf"
    by (simp add: log_index_defs)
  show ?thesis
    using assms
    by (auto simp: removeLogFromIndex_def logIndexCheck_def go_slice_to_def log_ok_def
        getOffsetIndex_def len split: if_splits)
qed

lemma log_at_extend:
  assumes "k < length es"
  shows "log_at (appendEntries rf es) (getLastLogEntryIndex rf + 1 + int k) = Some (es ! k)"
proof -
  have "nat (getLastLogEntryIndex rf + 1 + int k - snapshotEntriesAmount rf)
      = length (logs rf) + k"
    by (simp add: log_index_defs)
  with assms show ?thesis
    by (simp add: log_at_def appendEntries_def log_index_defs)
qed

interpretation raft_log: log_store log_ok log_at snapshotEntriesAmount getLastLogEntryIndex
  removeLogFromIndex appendEntries
proof (unfold_locales, goal_cases)
  case (1 s i)
  show ?case by (rule log_at_in_range)
next
  case (2 s)
  then show ?case by (simp add: log_index_defs)
next
  case (3 s i)
  then show ?case by (simp add: removeLogFromIndex_Inr)
next
  case (4 s i s')
  then show ?case by (auto simp: removeLogFromIndex_Inr log_ok_def)
next
  case (5 s i s')
  then show ?case by (auto simp: removeLogFromIndex_Inr)
next
  case (6 s i s')
  then show ?case by (auto simp: removeLogFromIndex_Inr log_index_defs min_def)
next
  case (7 s i s' j)
  then show ?case by (auto simp: removeLogFromIndex_Inr log_at_def log_index_defs min_def)
next
  case (8 s es)
  then show ?case by (auto simp: log_ok_def appendEntries_def)
next
  case (9 s es)
  then show ?case by (simp add: appendEntries_def)
next
  case (10 s es)
  then show ?case by (simp add: appendEntries_def log_index_defs)
next
  case (11 s j es)
  then show ?case
    by (auto simp: appendEntries_def log_at_def log_index_defs nth_append)
next
  case (12 s k es)
  then show ?case by (simp add: log_at_extend)
qed

lemma getLogEntryStartingAt_ok:
  assumes "snapshotEntriesAmount rf \<le> i"
  shows "getLogEntryStartingAt rf i = Inr (drop (nat (i - snapshotEntriesAmount rf)) (logs rf))"
  using assms
  by (auto simp: getLogEntryStartingAt_def logIndexCheck_def getOffsetIndex_def go_slice_from_def)

text \<open>What \<open>getLogEntryStartingAt\<close> returns is the log from the index on, without gaps.\<close>

lemma getLogEntryStartingAt_nth:
  assumes "snapshotEntriesAmount rf \<le> i" "getLogEntryStartingAt rf i = Inr es" "k < length es"
  shows "log_at rf (i + int k) = Some (es ! k)"
proof -
  from assms have es: "es = drop (nat (i - snapshotEntriesAmount rf)) (logs rf)"
    by (simp add: getLogEntryStartingAt_ok)
  have "nat (i + int k - snapshotEntriesAmount rf) = nat (i - snapshotEntriesAmount rf) + k"
    using assms(1) by (simp add: nat_eq_iff)
  with assms(1,3) es show ?thesis by (auto simp: log_at_def log_index_defs)
qed

lemma getLogEntryStartingAt_length:
  assumes "snapshotEntriesAmount rf \<le> i" "i \<le> getLastLogEntryIndex rf + 1"
    "getLogEntryStartingAt rf i = Inr es"
  shows "i + int (length es) = getLastLogEntryIndex rf + 1"
  using assms by (auto simp: getLogEntryStartingAt_ok log_index_defs)

end
