(* ===== verification/Raft_State.thy ===== *)
theory Raft_State
  imports Raft_Log
begin

text \<open>
  raft/raft.go and raft/raftUtils.go: persistence, the changes of role, \<open>Start\<close>,
  \<open>Make\<close>, and one turn of the ticker. A critical section under \<open>rf.mu\<close> is one
  function from the state before to the state after. What a section starts with \<open>go\<close> is
  returned as a list of tasks, and so is the call of \<open>commitToApplyChannel\<close> that follows
  a section once the lock is released. The clock and the random draw that
  \<open>getNewTimeoutTime\<close> reads are arguments (\<open>env\<close>); a section that calls it more
  than once keeps the last value only, so one reading per section is enough.
\<close>

record env =
  now :: int
  rnd :: int

datatype task =
    SendRequestVote int
  | SendAppendEntries int
  | SendInstallSnapshot int
  | CommitToApply

section \<open>Timeouts\<close>

definition getTimeoutValue :: "env \<Rightarrow> int" where
  "getTimeoutValue ev = 150 + rnd ev"

definition getTimeoutDuration :: "env \<Rightarrow> int" where
  "getTimeoutDuration ev = getTimeoutValue ev * 1000000"

definition getNewTimeoutTime :: "env \<Rightarrow> int" where
  "getNewTimeoutTime ev = now ev + getTimeoutDuration ev"

definition setNewElectionTime :: "env \<Rightarrow> ('c, 's) raft \<Rightarrow> ('c, 's) raft" where
  "setNewElectionTime ev rf = rf\<lparr>nextElectionTimeout := getNewTimeoutTime ev\<rparr>"

section \<open>Persistence\<close>

definition pstate_of :: "('c, 's) raft \<Rightarrow> 'c pstate" where
  "pstate_of rf =
     \<lparr>p_currentTerm = currentTerm rf, p_votedFor = votedFor rf, p_logs = logs rf,
      p_snapshotEntriesAmount = snapshotEntriesAmount rf,
      p_lastSnapshotTerm = lastSnapshotTerm rf\<rparr>"

definition getPersistData :: "('c, 's) raft \<Rightarrow> 'c raft_tok list" where
  "getPersistData rf =
     [TInt (currentTerm rf), TInt (votedFor rf), TLogs (logs rf),
      TInt (snapshotEntriesAmount rf), TInt (lastSnapshotTerm rf)]"

definition persist :: "('c, 's) raft \<Rightarrow> ('c, 's) raft" where
  "persist rf = rf\<lparr>persister := SaveRaftState (persister rf) (getPersistData rf)\<rparr>"

definition persistAndSnapshot :: "('c, 's) raft \<Rightarrow> 's list \<Rightarrow> ('c, 's) raft" where
  "persistAndSnapshot rf snap =
     rf\<lparr>persister := SaveStateAndSnapshot (persister rf) (getPersistData rf) snap\<rparr>"

definition readPersist :: "('c, 's) raft \<Rightarrow> 'c raft_tok list \<Rightarrow> ('c, 's) raft res" where
  "readPersist rf data =
     (if data = [] then Inr rf
      else res_bind (decode_pstate data) (\<lambda>p.
        Inr (rf\<lparr>currentTerm := p_currentTerm p, votedFor := p_votedFor p, logs := p_logs p,
                snapshotEntriesAmount := p_snapshotEntriesAmount p,
                lastSnapshotTerm := p_lastSnapshotTerm p\<rparr>)))"

definition GetState :: "('c, 's) raft \<Rightarrow> int \<times> bool" where
  "GetState rf = (currentTerm rf, status rf = Leader)"

section \<open>Votes and roles\<close>

definition grandOtherVote :: "('c, 's) raft \<Rightarrow> int \<Rightarrow> ('c, 's) raft" where
  "grandOtherVote rf voteForId = rf\<lparr>votedFor := voteForId\<rparr>"

definition hasVotedFor :: "('c, 's) raft \<Rightarrow> int \<Rightarrow> bool" where
  "hasVotedFor rf candidateId \<longleftrightarrow> votedFor rf = candidateId"

definition hasntVote :: "('c, 's) raft \<Rightarrow> bool" where
  "hasntVote rf \<longleftrightarrow> hasVotedFor rf (-1)"

definition isLeader :: "('c, 's) raft \<Rightarrow> bool" where
  "isLeader rf \<longleftrightarrow> status rf = Leader"

text \<open>The peers that a broadcast addresses: every index of \<open>rf.peers\<close> but its own.\<close>

definition other_peers :: "('c, 's) raft \<Rightarrow> int list" where
  "other_peers rf = filter (\<lambda>i. i \<noteq> me rf) (map int [0..<npeers rf])"

definition broadcastAppendEntries :: "('c, 's) raft \<Rightarrow> task list" where
  "broadcastAppendEntries rf = map SendAppendEntries (other_peers rf)"

definition candidateGatherVotes :: "('c, 's) raft \<Rightarrow> task list" where
  "candidateGatherVotes rf = map SendRequestVote (other_peers rf)"

definition becomeLeader :: "env \<Rightarrow> ('c, 's) raft \<Rightarrow> ('c, 's) raft \<times> task list" where
  "becomeLeader ev rf =
     (let rf1 = rf\<lparr>status := Leader, currentTerm := currentTerm rf + 1, votedFor := -1,
                   numVoteGathered := 0, nextElectionTimeout := getNewTimeoutTime ev\<rparr>;
          rf2 = rf1\<lparr>nextIndex := map (\<lambda>i. getLastLogEntryIndex rf1 + 1) [0..<npeers rf1]\<rparr>;
          rf3 = rf2\<lparr>matchIndex := map (\<lambda>i. -1) [0..<npeers rf2]\<rparr>;
          ts = broadcastAppendEntries rf3
      in (persist rf3, ts))"

definition becomeCandidate :: "('c, 's) raft \<Rightarrow> ('c, 's) raft" where
  "becomeCandidate rf =
     persist (rf\<lparr>currentTerm := currentTerm rf + 1, status := Candidate, votedFor := me rf,
                 numVoteGathered := 1\<rparr>)"

definition becomeFollower :: "env \<Rightarrow> ('c, 's) raft \<Rightarrow> int \<Rightarrow> int \<Rightarrow> ('c, 's) raft" where
  "becomeFollower ev rf newTerm votedForId =
     persist (rf\<lparr>currentTerm := newTerm, votedFor := votedForId, status := Follower,
                 numVoteGathered := 0, nextElectionTimeout := getNewTimeoutTime ev\<rparr>)"

definition gainVote :: "('c, 's) raft \<Rightarrow> ('c, 's) raft" where
  "gainVote rf =
     (if status rf = Candidate then rf\<lparr>numVoteGathered := numVoteGathered rf + 1\<rparr> else rf)"

section \<open>The API of raft.go\<close>

definition Start :: "('c, 's) raft \<Rightarrow> 'c iface \<Rightarrow> (int \<times> int \<times> bool) \<times> ('c, 's) raft" where
  "Start rf command =
     (let index = getLastLogEntryIndex rf + 1;
          term = currentTerm rf;
          isLdr = (status rf = Leader)
      in if status rf \<noteq> Leader then ((index, term, isLdr), rf)
         else ((index, term, isLdr), persist (appendToLogEntries rf command)))"

definition Kill :: "('c, 's) raft \<Rightarrow> ('c, 's) raft" where
  "Kill rf = rf\<lparr>dead := 1\<rparr>"

definition killed :: "('c, 's) raft \<Rightarrow> bool" where
  "killed rf \<longleftrightarrow> dead rf = 1"

definition startElection :: "('c, 's) raft \<Rightarrow> ('c, 's) raft \<times> task list" where
  "startElection rf = (let rf1 = becomeCandidate rf in (rf1, candidateGatherVotes rf1))"

text \<open>One turn of the loop of \<open>ticker\<close>, between two sleeps.\<close>

definition ticker :: "env \<Rightarrow> ('c, 's) raft \<Rightarrow> ('c, 's) raft \<times> task list" where
  "ticker ev rf =
     (if killed rf then (rf, [])
      else if isLeader rf then (rf, broadcastAppendEntries rf)
      else if now ev > nextElectionTimeout rf then startElection (setNewElectionTime ev rf)
      else (rf, []))"

definition Make :: "env \<Rightarrow> nat \<Rightarrow> int \<Rightarrow> ('c, 's) persister \<Rightarrow> ('c, 's) raft res" where
  "Make ev peers self ps =
     readPersist
       \<lparr>npeers = peers, persister = ps, me = self, dead = 0, status = Follower,
        numVoteGathered = 0, nextElectionTimeout = getNewTimeoutTime ev, currentTerm = 0,
        votedFor = -1, logs = [\<lparr>Term = -1, Action = IntVal (-1)\<rparr>],
        snapshotEntriesAmount = 0, lastSnapshotTerm = -1, commitIndex = -1,
        lastApplied = -1, nextIndex = [], matchIndex = []\<rparr>
       (ReadRaftState ps)"

lemmas role_defs =
  becomeLeader_def becomeCandidate_def becomeFollower_def gainVote_def grandOtherVote_def
  setNewElectionTime_def

section \<open>What is on disk is what is in memory\<close>

definition init_pstate :: "'c pstate" where
  "init_pstate = \<lparr>p_currentTerm = 0, p_votedFor = -1,
     p_logs = [\<lparr>Term = -1, Action = IntVal (-1)\<rparr>],
     p_snapshotEntriesAmount = 0, p_lastSnapshotTerm = -1\<rparr>"

text \<open>
  A peer is durable when its stored state is the encoding of its term, vote, log and
  snapshot extent; a peer that never wrote anything is in the state of a fresh one.
\<close>

definition durable :: "('c, 's) raft \<Rightarrow> bool" where
  "durable rf \<longleftrightarrow>
     raftstate (persister rf) = encode_pstate (pstate_of rf) \<or>
     raftstate (persister rf) = [] \<and> pstate_of rf = init_pstate"

lemma getPersistData_encode: "getPersistData rf = encode_pstate (pstate_of rf)"
  by (simp add: getPersistData_def encode_pstate_def pstate_of_def)

lemma persist_durable [simp, intro]: "durable (persist rf)"
  by (simp add: durable_def persist_def persister_defs getPersistData_encode pstate_of_def)

lemma persistAndSnapshot_durable [simp, intro]: "durable (persistAndSnapshot rf snap)"
  by (simp add: durable_def persistAndSnapshot_def persister_defs getPersistData_encode
      pstate_of_def)

lemma durable_cong:
  "pstate_of rf' = pstate_of rf \<Longrightarrow> persister rf' = persister rf \<Longrightarrow> durable rf' \<longleftrightarrow> durable rf"
  by (simp add: durable_def)

text \<open>Fields that persisting leaves alone.\<close>

lemma persist_sel [simp]:
  "npeers (persist rf) = npeers rf" "me (persist rf) = me rf" "dead (persist rf) = dead rf"
  "status (persist rf) = status rf" "numVoteGathered (persist rf) = numVoteGathered rf"
  "nextElectionTimeout (persist rf) = nextElectionTimeout rf"
  "currentTerm (persist rf) = currentTerm rf" "votedFor (persist rf) = votedFor rf"
  "logs (persist rf) = logs rf" "snapshotEntriesAmount (persist rf) = snapshotEntriesAmount rf"
  "lastSnapshotTerm (persist rf) = lastSnapshotTerm rf" "commitIndex (persist rf) = commitIndex rf"
  "lastApplied (persist rf) = lastApplied rf" "nextIndex (persist rf) = nextIndex rf"
  "matchIndex (persist rf) = matchIndex rf"
  "snapshot (persister (persist rf)) = snapshot (persister rf)"
  by (simp_all add: persist_def persister_defs)

lemma persistAndSnapshot_sel [simp]:
  "npeers (persistAndSnapshot rf d) = npeers rf" "me (persistAndSnapshot rf d) = me rf"
  "dead (persistAndSnapshot rf d) = dead rf"
  "status (persistAndSnapshot rf d) = status rf"
  "numVoteGathered (persistAndSnapshot rf d) = numVoteGathered rf"
  "nextElectionTimeout (persistAndSnapshot rf d) = nextElectionTimeout rf"
  "currentTerm (persistAndSnapshot rf d) = currentTerm rf"
  "votedFor (persistAndSnapshot rf d) = votedFor rf"
  "logs (persistAndSnapshot rf d) = logs rf"
  "snapshotEntriesAmount (persistAndSnapshot rf d) = snapshotEntriesAmount rf"
  "lastSnapshotTerm (persistAndSnapshot rf d) = lastSnapshotTerm rf"
  "commitIndex (persistAndSnapshot rf d) = commitIndex rf"
  "lastApplied (persistAndSnapshot rf d) = lastApplied rf"
  "nextIndex (persistAndSnapshot rf d) = nextIndex rf"
  "matchIndex (persistAndSnapshot rf d) = matchIndex rf"
  "snapshot (persister (persistAndSnapshot rf d)) = d"
  by (simp_all add: persistAndSnapshot_def persister_defs)

lemma log_view_cong:
  assumes "logs rf' = logs rf" "snapshotEntriesAmount rf' = snapshotEntriesAmount rf"
  shows "log_ok rf' \<longleftrightarrow> log_ok rf" "getLastLogEntryIndex rf' = getLastLogEntryIndex rf"
    "log_at rf' = log_at rf"
  using assms by (auto simp: log_ok_def log_at_def log_index_defs fun_eq_iff)

lemma persist_log [simp]:
  "log_ok (persist rf) = log_ok rf" "getLastLogEntryIndex (persist rf) = getLastLogEntryIndex rf"
  "log_at (persist rf) = log_at rf"
  by (rule log_view_cong; simp)+

lemma becomeFollower_sel [simp]:
  "npeers (becomeFollower ev rf t v) = npeers rf" "me (becomeFollower ev rf t v) = me rf"
  "dead (becomeFollower ev rf t v) = dead rf"
  "status (becomeFollower ev rf t v) = Follower" "numVoteGathered (becomeFollower ev rf t v) = 0"
  "currentTerm (becomeFollower ev rf t v) = t" "votedFor (becomeFollower ev rf t v) = v"
  "logs (becomeFollower ev rf t v) = logs rf"
  "snapshotEntriesAmount (becomeFollower ev rf t v) = snapshotEntriesAmount rf"
  "lastSnapshotTerm (becomeFollower ev rf t v) = lastSnapshotTerm rf"
  "commitIndex (becomeFollower ev rf t v) = commitIndex rf"
  "lastApplied (becomeFollower ev rf t v) = lastApplied rf"
  "nextIndex (becomeFollower ev rf t v) = nextIndex rf"
  "matchIndex (becomeFollower ev rf t v) = matchIndex rf"
  "snapshot (persister (becomeFollower ev rf t v)) = snapshot (persister rf)"
  "durable (becomeFollower ev rf t v)"
  by (simp_all add: becomeFollower_def)

lemma becomeFollower_log [simp]:
  "log_ok (becomeFollower ev rf t v) = log_ok rf"
  "getLastLogEntryIndex (becomeFollower ev rf t v) = getLastLogEntryIndex rf"
  "log_at (becomeFollower ev rf t v) = log_at rf"
  by (rule log_view_cong; simp)+

section \<open>A peer in good order\<close>

text \<open>
  The local invariant of a peer: its log is well formed, it is durable, it is one of the
  peers, and a peer that leads has one slot per peer in its two tables.
\<close>

definition raft_ok :: "('c, 's) raft \<Rightarrow> bool" where
  "raft_ok rf \<longleftrightarrow>
     log_ok rf \<and> durable rf \<and> 0 \<le> me rf \<and> me rf < int (npeers rf) \<and>
     (status rf = Leader \<longrightarrow>
        length (nextIndex rf) = npeers rf \<and> length (matchIndex rf) = npeers rf)"

text \<open>
  The contract of every critical section: it keeps the local invariant, it never goes back
  to an older term, and it changes neither the identity of the peer nor the group.
\<close>

locale peer_op =
  fixes opn :: "('c, 's) raft \<Rightarrow> ('c, 's) raft \<Rightarrow> bool"
  assumes op_ok: "raft_ok rf \<Longrightarrow> opn rf rf' \<Longrightarrow> raft_ok rf'"
    and op_term: "raft_ok rf \<Longrightarrow> opn rf rf' \<Longrightarrow> currentTerm rf \<le> currentTerm rf'"
    and op_frame: "raft_ok rf \<Longrightarrow> opn rf rf' \<Longrightarrow> me rf' = me rf \<and> npeers rf' = npeers rf"
begin

lemma ops_ok: "opn\<^sup>*\<^sup>* rf rf' \<Longrightarrow> raft_ok rf \<Longrightarrow> raft_ok rf' \<and> currentTerm rf \<le> currentTerm rf'"
proof (induction rule: rtranclp_induct)
  case base
  then show ?case by simp
next
  case (step y z)
  then show ?case using op_ok [of y z] op_term [of y z] by force
qed

end

lemma raft_okD:
  assumes "raft_ok rf"
  shows "log_ok rf" "durable rf" "0 \<le> me rf" "me rf < int (npeers rf)"
    "status rf = Leader \<Longrightarrow> length (nextIndex rf) = npeers rf"
    "status rf = Leader \<Longrightarrow> length (matchIndex rf) = npeers rf"
  using assms by (auto simp: raft_ok_def)

lemma becomeFollower_ok [simp]: "raft_ok rf \<Longrightarrow> raft_ok (becomeFollower ev rf t v)"
  by (simp add: raft_ok_def)

lemma becomeLeader_ok: "raft_ok rf \<Longrightarrow> raft_ok (fst (becomeLeader ev rf))"
  by (auto simp: raft_ok_def becomeLeader_def Let_def log_ok_def)

lemma becomeLeader_sel:
  "status (fst (becomeLeader ev rf)) = Leader"
  "currentTerm (fst (becomeLeader ev rf)) = currentTerm rf + 1"
  "me (fst (becomeLeader ev rf)) = me rf" "npeers (fst (becomeLeader ev rf)) = npeers rf"
  "logs (fst (becomeLeader ev rf)) = logs rf"
  "snapshotEntriesAmount (fst (becomeLeader ev rf)) = snapshotEntriesAmount rf"
  "commitIndex (fst (becomeLeader ev rf)) = commitIndex rf"
  "nextIndex (fst (becomeLeader ev rf)) = replicate (npeers rf) (getLastLogEntryIndex rf + 1)"
  "matchIndex (fst (becomeLeader ev rf)) = replicate (npeers rf) (-1)"
  by (simp_all add: becomeLeader_def Let_def map_replicate_const log_index_defs)

lemma becomeCandidate_ok: "raft_ok rf \<Longrightarrow> raft_ok (becomeCandidate rf)"
  by (auto simp: raft_ok_def becomeCandidate_def log_ok_def)

lemma setNewElectionTime_ok [simp]:
  "raft_ok (setNewElectionTime ev rf) = raft_ok rf"
  "currentTerm (setNewElectionTime ev rf) = currentTerm rf"
  "me (setNewElectionTime ev rf) = me rf" "npeers (setNewElectionTime ev rf) = npeers rf"
  by (simp_all add: setNewElectionTime_def raft_ok_def log_ok_def durable_def pstate_of_def)

lemma becomeCandidate_sel [simp]:
  "currentTerm (becomeCandidate rf) = currentTerm rf + 1" "me (becomeCandidate rf) = me rf"
  "npeers (becomeCandidate rf) = npeers rf" "status (becomeCandidate rf) = Candidate"
  "votedFor (becomeCandidate rf) = me rf" "numVoteGathered (becomeCandidate rf) = 1"
  by (simp_all add: becomeCandidate_def)

lemma fst_ticker:
  "fst (ticker ev rf) =
     (if \<not> killed rf \<and> status rf \<noteq> Leader \<and> now ev > nextElectionTimeout rf
      then becomeCandidate (setNewElectionTime ev rf) else rf)"
  by (simp add: ticker_def startElection_def Let_def isLeader_def)

text \<open>A turn of the ticker, and \<open>Start\<close>, honour the contract.\<close>

interpretation ticker_op: peer_op "\<lambda>rf rf'. \<exists>ev. rf' = fst (ticker ev rf)"
  by unfold_locales (auto simp: fst_ticker becomeCandidate_ok)

lemma snd_Start:
  "snd (Start rf c) = (if status rf = Leader then persist (appendToLogEntries rf c) else rf)"
  by (simp add: Start_def)

lemma appendToLogEntries_ok:
  "raft_ok rf \<Longrightarrow> raft_ok (persist (appendToLogEntries rf c))"
  by (simp add: raft_ok_def appendToLogEntries_def log_ok_def)

interpretation start_op: peer_op "\<lambda>rf rf'. \<exists>c. rf' = snd (Start rf c)"
  by unfold_locales
    (auto simp: snd_Start appendToLogEntries_def intro: appendToLogEntries_ok [unfolded appendToLogEntries_def])

section \<open>Restart\<close>

lemma readPersist_encode:
  "readPersist rf (encode_pstate p) =
     Inr (rf\<lparr>currentTerm := p_currentTerm p, votedFor := p_votedFor p, logs := p_logs p,
             snapshotEntriesAmount := p_snapshotEntriesAmount p,
             lastSnapshotTerm := p_lastSnapshotTerm p\<rparr>)"
  by (simp add: readPersist_def raft_codec.enc_nonempty raft_codec.dec_enc)

text \<open>The peer that \<open>Make\<close> builds before it reads the stored state.\<close>

definition fresh_raft :: "env \<Rightarrow> nat \<Rightarrow> int \<Rightarrow> ('c, 's) persister \<Rightarrow> ('c, 's) raft" where
  "fresh_raft ev peers self ps =
     \<lparr>npeers = peers, persister = ps, me = self, dead = 0, status = Follower,
      numVoteGathered = 0, nextElectionTimeout = getNewTimeoutTime ev, currentTerm = 0,
      votedFor = -1, logs = [\<lparr>Term = -1, Action = IntVal (-1)\<rparr>],
      snapshotEntriesAmount = 0, lastSnapshotTerm = -1, commitIndex = -1,
      lastApplied = -1, nextIndex = [], matchIndex = []\<rparr>"

lemma Make_fresh: "Make ev n i ps = readPersist (fresh_raft ev n i ps) (raftstate ps)"
  by (simp add: Make_def fresh_raft_def persister_defs)

lemma fresh_raft_sel [simp]:
  "npeers (fresh_raft ev n i ps) = n" "persister (fresh_raft ev n i ps) = ps"
  "me (fresh_raft ev n i ps) = i" "status (fresh_raft ev n i ps) = Follower"
  "commitIndex (fresh_raft ev n i ps) = -1" "lastApplied (fresh_raft ev n i ps) = -1"
  "pstate_of (fresh_raft ev n i ps) = init_pstate"
  by (simp_all add: fresh_raft_def pstate_of_def init_pstate_def)

text \<open>A restart of a durable peer finds the same term, vote, log and snapshot extent.\<close>

definition restarted :: "env \<Rightarrow> nat \<Rightarrow> int \<Rightarrow> ('c, 's) raft \<Rightarrow> ('c, 's) raft" where
  "restarted ev n i rf =
     (fresh_raft ev n i (persister rf))
       \<lparr>currentTerm := currentTerm rf, votedFor := votedFor rf, logs := logs rf,
        snapshotEntriesAmount := snapshotEntriesAmount rf,
        lastSnapshotTerm := lastSnapshotTerm rf\<rparr>"

lemma restarted_sel [simp]:
  "npeers (restarted ev n i rf) = n" "persister (restarted ev n i rf) = persister rf"
  "me (restarted ev n i rf) = i" "status (restarted ev n i rf) = Follower"
  "commitIndex (restarted ev n i rf) = -1" "lastApplied (restarted ev n i rf) = -1"
  "pstate_of (restarted ev n i rf) = pstate_of rf"
  "currentTerm (restarted ev n i rf) = currentTerm rf"
  "logs (restarted ev n i rf) = logs rf"
  "snapshotEntriesAmount (restarted ev n i rf) = snapshotEntriesAmount rf"
  by (simp_all add: restarted_def fresh_raft_def pstate_of_def)

lemma Make_recovers:
  assumes "durable rf"
  shows "Make ev n i (persister rf) = Inr (restarted ev n i rf)"
proof (cases "raftstate (persister rf) = []")
  case True
  with assms have "pstate_of rf = init_pstate"
    using raft_codec.enc_nonempty [of "pstate_of rf"] by (auto simp: durable_def)
  then show ?thesis using True
    by (simp add: Make_fresh readPersist_def restarted_def fresh_raft_def pstate_of_def
        init_pstate_def)
next
  case False
  with assms have "raftstate (persister rf) = encode_pstate (pstate_of rf)"
    by (simp add: durable_def)
  then show ?thesis
    by (simp add: Make_fresh readPersist_encode restarted_def pstate_of_def)
qed

lemma restarted_ok: "raft_ok rf \<Longrightarrow> raft_ok (restarted ev (npeers rf) (me rf) rf)"
  by (simp add: raft_ok_def durable_def log_ok_def)

lemma Make_fresh_persister: "Make ev n i MakePersister = Inr (fresh_raft ev n i MakePersister)"
  by (simp add: Make_fresh MakePersister_def readPersist_def)

lemma fresh_raft_ok:
  assumes "0 \<le> i" "i < int n"
  shows "raft_ok (fresh_raft ev n i MakePersister)"
proof -
  have "log_ok (fresh_raft ev n i MakePersister)"
    by (simp add: log_ok_def fresh_raft_def)
  moreover have "durable (fresh_raft ev n i MakePersister)"
    by (simp add: durable_def MakePersister_def)
  ultimately show ?thesis using assms by (simp add: raft_ok_def)
qed

section \<open>A concrete peer\<close>

text \<open>Peer \<open>i\<close> of three, just started: the input of the examples that follow.\<close>

definition peer3 :: "int \<Rightarrow> (int, int) raft" where
  "peer3 i = fresh_raft \<lparr>now = 0, rnd = 0\<rparr> 3 i MakePersister"

lemma peer3_ok: "0 \<le> i \<Longrightarrow> i < 3 \<Longrightarrow> raft_ok (peer3 i)"
  by (simp add: peer3_def fresh_raft_ok)

section \<open>Properties\<close>

text \<open>
  C1. Crash and restart: \<open>Make\<close> on the storage of a peer in good order always succeeds,
  and the new incarnation has the term, the vote, the log and the snapshot of the old one,
  is a follower, and has applied nothing. It is in good order again.
\<close>

theorem restart_recovers:
  assumes "raft_ok rf"
  shows "\<exists>rf'. Make ev (npeers rf) (me rf) (persister rf) = Inr rf' \<and>
    currentTerm rf' = currentTerm rf \<and> votedFor rf' = votedFor rf \<and>
    log_at rf' = log_at rf \<and> term_at rf' = term_at rf \<and>
    ReadSnapshot (persister rf') = ReadSnapshot (persister rf) \<and>
    status rf' = Follower \<and> lastApplied rf' = -1 \<and> raft_ok rf'"
proof -
  let ?rf = "restarted ev (npeers rf) (me rf) rf"
  have "log_at ?rf = log_at rf" by (rule log_view_cong) simp_all
  moreover have "lastSnapshotTerm ?rf = lastSnapshotTerm rf" "votedFor ?rf = votedFor rf"
    by (simp_all add: restarted_def)
  ultimately show ?thesis
    using Make_recovers [OF raft_okD(2) [OF assms]] restarted_ok [OF assms]
    by (auto simp: term_at_def fun_eq_iff)
qed

theorem restart_recovers_witness:
  "\<exists>rf'. Make \<lparr>now = 9, rnd = 1\<rparr> 3 1 (persister (peer3 1)) = Inr rf' \<and>
    currentTerm rf' = 0 \<and> raft_ok rf'"
  using restart_recovers [OF peer3_ok, of 1 "\<lparr>now = 9, rnd = 1\<rparr>"]
  by (auto simp: peer3_def fresh_raft_def)

text \<open>
  Only a leader accepts a command; it appends the command, in its term, at the index
  that it returns, and the entry is on stable storage when the call returns. Any other peer
  is left as it was.
\<close>

theorem start_appends:
  assumes "raft_ok rf" "Start rf c = ((index, t, isLdr), rf')"
  shows "isLdr = (GetState rf = (t, True)) \<and> t = currentTerm rf \<and>
    (isLdr \<longrightarrow> log_at rf' index = Some \<lparr>Term = t, Action = c\<rparr> \<and>
      getLastLogEntryIndex rf' = index \<and> (\<forall>j < index. log_at rf' j = log_at rf j) \<and> durable rf') \<and>
    (\<not> isLdr \<longrightarrow> rf' = rf)"
proof (cases "status rf = Leader")
  case False
  with assms(2) show ?thesis by (auto simp: Start_def GetState_def Let_def)
next
  case True
  let ?e = "\<lparr>Term = currentTerm rf, Action = c\<rparr>"
  have ok: "log_ok rf" using assms(1) by (rule raft_okD)
  from True assms(2) have r: "isLdr" "t = currentTerm rf" "index = getLastLogEntryIndex rf + 1"
    "rf' = persist (appendEntries rf [?e])"
    by (auto simp: Start_def Let_def appendToLogEntries_def appendEntries_def)
  have "log_at rf' index = Some ?e"
    using raft_log.extend_new [OF ok, of 0 "[?e]"] by (simp add: r(3,4))
  moreover have "getLastLogEntryIndex rf' = index"
    using raft_log.extend_top [OF ok] by (simp add: r(3,4))
  moreover have "\<forall>j < index. log_at rf' j = log_at rf j"
    using raft_log.extend_old [OF ok] by (simp add: r(3,4))
  ultimately show ?thesis using True r by (simp add: GetState_def)
qed

theorem start_appends_witness:
  "\<exists>rf'. Start (fst (becomeLeader \<lparr>now = 5, rnd = 5\<rparr> (peer3 0))) (Cmd 42) = ((1, 1, True), rf') \<and>
    log_at rf' 1 = Some \<lparr>Term = 1, Action = Cmd 42\<rparr> \<and> durable rf'"
proof -
  let ?rf = "fst (becomeLeader \<lparr>now = 5, rnd = 5\<rparr> (peer3 0))"
  have ok: "raft_ok ?rf" by (simp add: becomeLeader_ok peer3_ok)
  have "fst (Start ?rf (Cmd 42)) = (1, 1, True)" by code_simp
  then obtain rf' where "Start ?rf (Cmd 42) = ((1, 1, True), rf')" by (metis prod.collapse)
  with start_appends [OF ok this] show ?thesis by auto
qed

end
