(* ===== verification/Raft_Vote.thy ===== *)
theory Raft_Vote
  imports Raft_State
begin

text \<open>
  raft/requestVotes.go: the RequestVote handler and the candidate's side of an election.
  \<open>handleSendRequestVote\<close> holds the lock twice, before and after the RPC; its two
  sections are \<open>getRequestVoteArgs\<close> and \<open>handleRequestVoteReply\<close>.
\<close>

record requestVoteArgs =
  rva_Term :: int
  rva_CandidateId :: int
  rva_LastLogIndex :: int
  rva_LastLogTerm :: int

record requestVoteReply =
  rvr_Term :: int
  rvr_VoteGranted :: bool

section \<open>Receiver side\<close>

definition RequestVote ::
  "env \<Rightarrow> ('c, 's) raft \<Rightarrow> requestVoteArgs \<Rightarrow> (('c, 's) raft \<times> requestVoteReply) res" where
  "RequestVote ev rf args =
     (let reply = \<lparr>rvr_Term = currentTerm rf, rvr_VoteGranted = False\<rparr> in
      if currentTerm rf > rva_Term args then Inr (rf, reply)
      else
        let rf1 = (if currentTerm rf < rva_Term args
                   then becomeFollower ev rf (rva_Term args) (rva_CandidateId args) else rf) in
        res_bind (candidateIsUpToDate rf1 (rva_LastLogTerm args) (rva_LastLogIndex args)) (\<lambda>ok.
          if \<not> ok then Inr (rf1, reply)
          else
            let rf2 = (if votedFor rf1 = me rf1 \<and> status rf1 = Candidate
                       then becomeFollower ev rf1 (rva_Term args) (rva_CandidateId args)
                       else rf1);
                rf3 = (if hasntVote rf2 then grandOtherVote rf2 (rva_CandidateId args) else rf2)
            in if hasVotedFor rf3 (rva_CandidateId args)
               then let rf4 = becomeFollower ev rf3 (rva_Term args) (rva_CandidateId args)
                    in Inr (rf4, \<lparr>rvr_Term = currentTerm rf4, rvr_VoteGranted = True\<rparr>)
               else Inr (rf3, reply)))"

section \<open>Sender side\<close>

definition getRequestVoteArgs :: "('c, 's) raft \<Rightarrow> requestVoteArgs res" where
  "getRequestVoteArgs rf =
     res_bind (getLastLogEntryTerm rf) (\<lambda>t.
       Inr \<lparr>rva_Term = currentTerm rf, rva_CandidateId = me rf,
            rva_LastLogIndex = getLastLogEntryIndex rf, rva_LastLogTerm = t\<rparr>)"

definition checkElectionStatus :: "env \<Rightarrow> ('c, 's) raft \<Rightarrow> ('c, 's) raft \<times> task list" where
  "checkElectionStatus ev rf =
     (if status rf = Follower \<or> status rf = Leader then (rf, [])
      else if numVoteGathered rf > int (npeers rf) div 2 then becomeLeader ev rf
      else (rf, []))"

text \<open>The second section; \<open>None\<close> is an RPC that did not come back (\<open>ok\<close> is false).\<close>

definition handleRequestVoteReply ::
  "env \<Rightarrow> ('c, 's) raft \<Rightarrow> requestVoteReply option \<Rightarrow> ('c, 's) raft \<times> task list" where
  "handleRequestVoteReply ev rf ok =
     (case ok of
        None \<Rightarrow> (rf, [])
      | Some reply \<Rightarrow>
          if rvr_Term reply > currentTerm rf
          then (becomeFollower ev rf (rvr_Term reply) (-1), [])
          else
            let rf1 = (if rvr_VoteGranted reply
                       then (if rvr_Term reply = currentTerm rf then gainVote rf else rf)
                       else rf)
            in checkElectionStatus ev rf1)"

section \<open>What a vote means\<close>

text \<open>The Raft paper's order on logs: by the last term, then by the last index.\<close>

definition up_to_date :: "('c, 's) raft \<Rightarrow> requestVoteArgs \<Rightarrow> bool" where
  "up_to_date rf args \<longleftrightarrow>
     the (term_at rf (getLastLogEntryIndex rf)) < rva_LastLogTerm args \<or>
     the (term_at rf (getLastLogEntryIndex rf)) = rva_LastLogTerm args \<and>
     getLastLogEntryIndex rf \<le> rva_LastLogIndex args"

text \<open>The vote of the peer is free for the candidate, given the peer's own role.\<close>

definition vote_free :: "('c, 's) raft \<Rightarrow> requestVoteArgs \<Rightarrow> bool" where
  "vote_free rf args \<longleftrightarrow>
     currentTerm rf < rva_Term args \<or> votedFor rf = -1 \<or> votedFor rf = rva_CandidateId args \<or>
     votedFor rf = me rf \<and> status rf = Candidate"

lemma up_to_date_follower [simp]: "up_to_date (becomeFollower ev rf t v) args = up_to_date rf args"
  by (simp add: up_to_date_def term_at_def)

lemma candidateIsUpToDate_iff:
  assumes "log_ok rf"
  shows "candidateIsUpToDate rf (rva_LastLogTerm args) (rva_LastLogIndex args)
       = Inr (up_to_date rf args)"
  using assms by (auto simp: candidateIsUpToDate_ok up_to_date_def)

text \<open>
  The handler in closed form: on a well-formed log it always answers, and these are its
  four outcomes.
\<close>

lemma grandOtherVote_votedFor [simp]: "votedFor (grandOtherVote rf v) = v"
  by (simp add: grandOtherVote_def)

lemma becomeFollower_grand [simp]:
  "becomeFollower ev (grandOtherVote rf v) t w = becomeFollower ev rf t w"
  by (simp add: becomeFollower_def grandOtherVote_def persist_def getPersistData_def)

lemma becomeFollower_twice [simp]:
  "becomeFollower ev (becomeFollower ev rf t v) u w = becomeFollower ev rf u w"
  by (simp add: becomeFollower_def persist_def getPersistData_def persister_defs)

lemma RequestVote_closed:
  assumes "log_ok rf"
  shows "RequestVote ev rf args = Inr
    (if rva_Term args < currentTerm rf
     then (rf, \<lparr>rvr_Term = currentTerm rf, rvr_VoteGranted = False\<rparr>)
     else if up_to_date rf args \<and> vote_free rf args
     then (becomeFollower ev rf (rva_Term args) (rva_CandidateId args),
           \<lparr>rvr_Term = rva_Term args, rvr_VoteGranted = True\<rparr>)
     else if currentTerm rf < rva_Term args
     then (becomeFollower ev rf (rva_Term args) (rva_CandidateId args),
           \<lparr>rvr_Term = currentTerm rf, rvr_VoteGranted = False\<rparr>)
     else (rf, \<lparr>rvr_Term = currentTerm rf, rvr_VoteGranted = False\<rparr>))"
proof -
  let ?bf = "becomeFollower ev rf (rva_Term args) (rva_CandidateId args)"
  consider "rva_Term args < currentTerm rf" | "currentTerm rf < rva_Term args"
    | "currentTerm rf = rva_Term args" by linarith
  then show ?thesis
  proof cases
    case 1
    then show ?thesis by (simp add: RequestVote_def)
  next
    case 2
    have "log_ok ?bf" using assms by simp
    from candidateIsUpToDate_iff [OF this] 2 show ?thesis
      by (auto simp: RequestVote_def Let_def vote_free_def hasntVote_def hasVotedFor_def)
  next
    case 3
    from candidateIsUpToDate_iff [OF assms] 3 show ?thesis
      by (auto simp: RequestVote_def Let_def vote_free_def hasntVote_def hasVotedFor_def)
  qed
qed

lemma RequestVote_Inr:
  assumes "log_ok rf" "RequestVote ev rf args = Inr (rf', reply)"
  shows "rf' = rf \<or>
    rf' = becomeFollower ev rf (rva_Term args) (rva_CandidateId args) \<and>
    currentTerm rf \<le> rva_Term args"
  using assms(2) unfolding RequestVote_closed [OF assms(1)] by (auto split: if_splits)

lemma RequestVote_contract:
  assumes "raft_ok rf" "RequestVote ev rf args = Inr (rf', reply)"
  shows "raft_ok rf' \<and> currentTerm rf \<le> currentTerm rf' \<and> me rf' = me rf \<and> npeers rf' = npeers rf"
  using RequestVote_Inr [OF raft_okD(1) [OF assms(1)] assms(2)] assms(1) by auto

interpretation request_vote_op: peer_op
  "\<lambda>rf rf'. \<exists>ev args reply. RequestVote ev rf args = Inr (rf', reply)"
  by unfold_locales (use RequestVote_contract in blast)+

section \<open>Counting votes\<close>

lemma fst_checkElectionStatus:
  "fst (checkElectionStatus ev rf) =
     (if status rf = Candidate \<and> numVoteGathered rf > int (npeers rf) div 2
      then fst (becomeLeader ev rf) else rf)"
  by (cases "status rf") (auto simp: checkElectionStatus_def)

lemma gainVote_sel [simp]:
  "currentTerm (gainVote rf) = currentTerm rf" "me (gainVote rf) = me rf"
  "npeers (gainVote rf) = npeers rf" "status (gainVote rf) = status rf"
  "raft_ok (gainVote rf) = raft_ok rf" "votedFor (gainVote rf) = votedFor rf"
  "logs (gainVote rf) = logs rf"
  by (simp_all add: gainVote_def raft_ok_def log_ok_def durable_def pstate_of_def)

lemma checkElectionStatus_ok: "raft_ok rf \<Longrightarrow> raft_ok (fst (checkElectionStatus ev rf))"
  by (simp add: fst_checkElectionStatus becomeLeader_ok)

lemma fst_handleRequestVoteReply:
  "fst (handleRequestVoteReply ev rf (Some reply)) =
     (if rvr_Term reply > currentTerm rf then becomeFollower ev rf (rvr_Term reply) (-1)
      else fst (checkElectionStatus ev
        (if rvr_VoteGranted reply \<and> rvr_Term reply = currentTerm rf then gainVote rf else rf)))"
  by (auto simp: handleRequestVoteReply_def Let_def)

interpretation vote_reply_op: peer_op
  "\<lambda>rf rf'. \<exists>ev ok. rf' = fst (handleRequestVoteReply ev rf ok)"
proof (unfold_locales, goal_cases)
  case (1 rf rf')
  then obtain ev ok where "rf' = fst (handleRequestVoteReply ev rf ok)" by blast
  with 1(1) show ?case
    by (cases ok) (auto simp: handleRequestVoteReply_def [of _ _ None] fst_handleRequestVoteReply
        intro!: checkElectionStatus_ok)
next
  case (2 rf rf')
  then obtain ev ok where "rf' = fst (handleRequestVoteReply ev rf ok)" by blast
  then show ?case
    by (cases ok) (auto simp: handleRequestVoteReply_def [of _ _ None] fst_handleRequestVoteReply
        fst_checkElectionStatus becomeLeader_sel)
next
  case (3 rf rf')
  then obtain ev ok where "rf' = fst (handleRequestVoteReply ev rf ok)" by blast
  then show ?case
    by (cases ok) (auto simp: handleRequestVoteReply_def [of _ _ None] fst_handleRequestVoteReply
        fst_checkElectionStatus becomeLeader_sel)
qed

section \<open>Majorities of peers\<close>

definition majority :: "nat \<Rightarrow> int set \<Rightarrow> bool" where
  "majority n A \<longleftrightarrow> A \<subseteq> {0..<int n} \<and> int (card A) > int n div 2"

interpretation maj: quorum_system "majority n" for n
proof (unfold_locales, goal_cases)
  case (1 A B)
  have fin: "finite A" "finite B" using 1 by (auto simp: majority_def intro: finite_subset)
  show ?case
  proof
    assume "A \<inter> B = {}"
    with fin have "card A + card B = card (A \<union> B)" by (simp add: card_Un_disjoint)
    also have "\<dots> \<le> card {0..<int n}"
      using 1 by (intro card_mono) (auto simp: majority_def)
    finally have "card A + card B \<le> n" by simp
    moreover have "int n div 2 < int (card A)" "int n div 2 < int (card B)"
      using 1 by (simp_all add: majority_def)
    ultimately show False by linarith
  qed
qed

section \<open>Properties\<close>

text \<open>
  C5. On a well-formed log the handler of RequestVote always answers. It grants exactly when
  the candidate's term is not older, its log is at least as up to date as the voter's, and
  the vote is free; then the vote, the term and the role are as the Raft paper asks and on
  stable storage before the reply leaves. Otherwise the reply carries no vote.
\<close>

theorem request_vote_grants:
  assumes "raft_ok rf"
  shows "\<exists>rf' reply. RequestVote ev rf args = Inr (rf', reply) \<and>
    (rvr_VoteGranted reply \<longleftrightarrow>
       currentTerm rf \<le> rva_Term args \<and> up_to_date rf args \<and> vote_free rf args) \<and>
    (rvr_VoteGranted reply \<longrightarrow>
       votedFor rf' = rva_CandidateId args \<and> currentTerm rf' = rva_Term args \<and>
       rvr_Term reply = rva_Term args \<and> status rf' = Follower \<and> durable rf') \<and>
    log_at rf' = log_at rf"
  using RequestVote_closed [OF raft_okD(1) [OF assms], of ev args] by auto

theorem request_vote_grants_witness:
  "\<exists>rf' reply. RequestVote \<lparr>now = 7, rnd = 3\<rparr> (peer3 1) \<lparr>rva_Term = 1, rva_CandidateId = 2,
       rva_LastLogIndex = 0, rva_LastLogTerm = -1\<rparr> = Inr (rf', reply) \<and>
     rvr_VoteGranted reply \<and> votedFor rf' = 2 \<and> currentTerm rf' = 1"
proof -
  let ?args = "\<lparr>rva_Term = 1, rva_CandidateId = 2, rva_LastLogIndex = 0, rva_LastLogTerm = -1\<rparr>"
  have "currentTerm (peer3 1) \<le> 1 \<and> up_to_date (peer3 1) ?args \<and> vote_free (peer3 1) ?args"
    by code_simp
  with request_vote_grants [OF peer3_ok, of 1 "\<lparr>now = 7, rnd = 3\<rparr>" ?args] show ?thesis
    by auto
qed

text \<open>
  C6. A vote survives a crash. A peer that granted its vote to one candidate, crashed and
  restarted from its storage refuses every other candidate of the same term, and its vote
  stays where it was.
\<close>

theorem vote_survives_crash:
  assumes "raft_ok rf" "RequestVote ev rf a = Inr (rf1, ra)" "rvr_VoteGranted ra"
    "Make ev' (npeers rf1) (me rf1) (persister rf1) = Inr rf2"
    "RequestVote ev'' rf2 b = Inr (rf3, rb)"
    "rva_Term b = rva_Term a" "rva_CandidateId b \<noteq> rva_CandidateId a"
    "0 \<le> rva_CandidateId a"
  shows "\<not> rvr_VoteGranted rb \<and> rf3 = rf2 \<and> votedFor rf3 = rva_CandidateId a"
proof -
  from RequestVote_closed [OF raft_okD(1) [OF assms(1)], of ev a] assms(2,3)
  have rf1: "rf1 = becomeFollower ev rf (rva_Term a) (rva_CandidateId a)"
    by (auto split: if_splits)
  then have ok1: "raft_ok rf1" using assms(1) by simp
  have rf2: "rf2 = restarted ev' (npeers rf1) (me rf1) rf1"
    using Make_recovers [OF raft_okD(2) [OF ok1]] assms(4) by simp
  have ok2: "raft_ok rf2" using restarted_ok [OF ok1] by (simp add: rf2)
  have "currentTerm rf2 = rva_Term a" "votedFor rf2 = rva_CandidateId a" "status rf2 = Follower"
    by (simp_all add: rf2 restarted_def rf1 fresh_raft_def)
  with RequestVote_closed [OF raft_okD(1) [OF ok2], of ev'' b] assms(5-8) show ?thesis
    by (auto simp: vote_free_def)
qed

theorem vote_survives_crash_witness:
  "\<exists>rf1 ra rf2 rf3 rb.
     RequestVote \<lparr>now = 1, rnd = 0\<rparr> (peer3 0) \<lparr>rva_Term = 1, rva_CandidateId = 1,
       rva_LastLogIndex = 0, rva_LastLogTerm = -1\<rparr> = Inr (rf1, ra) \<and> rvr_VoteGranted ra \<and>
     Make \<lparr>now = 2, rnd = 0\<rparr> 3 0 (persister rf1) = Inr rf2 \<and>
     RequestVote \<lparr>now = 3, rnd = 0\<rparr> rf2 \<lparr>rva_Term = 1, rva_CandidateId = 2,
       rva_LastLogIndex = 5, rva_LastLogTerm = 0\<rparr> = Inr (rf3, rb) \<and>
     \<not> rvr_VoteGranted rb \<and> votedFor rf3 = 1"
proof -
  let ?a = "\<lparr>rva_Term = 1, rva_CandidateId = 1, rva_LastLogIndex = 0, rva_LastLogTerm = -1\<rparr>"
  let ?b = "\<lparr>rva_Term = 1, rva_CandidateId = 2, rva_LastLogIndex = 5, rva_LastLogTerm = 0\<rparr>"
  let ?rf1 = "becomeFollower \<lparr>now = 1, rnd = 0\<rparr> (peer3 0) 1 1"
  let ?rf2 = "restarted \<lparr>now = 2, rnd = 0\<rparr> 3 0 ?rf1"
  have sel: "npeers ?rf1 = 3" "me ?rf1 = 0" by (simp_all add: peer3_def)
  have 1: "RequestVote \<lparr>now = 1, rnd = 0\<rparr> (peer3 0) ?a =
      Inr (?rf1, \<lparr>rvr_Term = 1, rvr_VoteGranted = True\<rparr>)" by code_simp
  have 2: "Make \<lparr>now = 2, rnd = 0\<rparr> (npeers ?rf1) (me ?rf1) (persister ?rf1) = Inr ?rf2"
    unfolding sel by (rule Make_recovers) simp
  have 3: "RequestVote \<lparr>now = 3, rnd = 0\<rparr> ?rf2 ?b =
      Inr (?rf2, \<lparr>rvr_Term = 1, rvr_VoteGranted = False\<rparr>)" by code_simp
  from vote_survives_crash [OF peer3_ok 1 _ 2 3] have "votedFor ?rf2 = 1" by simp
  with 1 2 [unfolded sel] 3 show ?thesis by fastforce
qed

text \<open>
  The repair. A reply that carries another term than that of the candidate leaves its
  count of votes as it is, whatever the reply says, and it does not make a candidate a leader
  that was none without it: the reply is treated like a refusal.
\<close>

theorem stale_vote_not_counted:
  assumes "rvr_Term reply < currentTerm rf"
  shows "handleRequestVoteReply ev rf (Some reply) =
      handleRequestVoteReply ev rf (Some (reply\<lparr>rvr_VoteGranted := False\<rparr>)) \<and>
    (numVoteGathered rf \<le> int (npeers rf) div 2 \<longrightarrow>
      handleRequestVoteReply ev rf (Some reply) = (rf, []))"
  using assms by (auto simp: handleRequestVoteReply_def checkElectionStatus_def Let_def)

text \<open>Peer 3 in the state in which it counted an old vote in the recorded run (line 10029).\<close>

definition peer3_recorded :: "(int, int) raft" where
  "peer3_recorded = (fresh_raft \<lparr>now = 0, rnd = 0\<rparr> 5 3 MakePersister)\<lparr>currentTerm := 58,
     status := Candidate, votedFor := 3, numVoteGathered := 2\<rparr>"

theorem stale_vote_not_counted_witness:
  "handleRequestVoteReply \<lparr>now = 0, rnd = 0\<rparr> peer3_recorded
     (Some \<lparr>rvr_Term = 54, rvr_VoteGranted = True\<rparr>) = (peer3_recorded, [])"
  using stale_vote_not_counted [of "\<lparr>rvr_Term = 54, rvr_VoteGranted = True\<rparr>" peer3_recorded "\<lparr>now = 0, rnd = 0\<rparr>"]
  by (auto simp: peer3_recorded_def)

end
