(* ===== verification/Raft_Commit.thy ===== *)
theory Raft_Commit
  imports Raft_Vote
begin

text \<open>
  raft/commitAndApplyUtils.go: how the leader advances its commit index, and how a peer
  hands committed entries to the service over \<open>applyCh\<close>. The channel is the list of the
  messages sent on it.
\<close>

record ('c, 's) applyMsg =
  CommandValid :: bool
  Command :: "'c iface"
  CommandIndex :: int
  SnapshotValid :: bool
  Snapshot :: "'s list"
  SnapshotTerm :: int
  SnapshotIndex :: int

definition emptyApplyMsg :: "('c, 's) applyMsg" where
  "emptyApplyMsg = \<lparr>CommandValid = False, Command = NilVal, CommandIndex = 0,
     SnapshotValid = False, Snapshot = [], SnapshotTerm = 0, SnapshotIndex = 0\<rparr>"

section \<open>Advancing the commit index\<close>

text \<open>The inner loop of \<open>leaderUpdateCommit\<close>, over the peers \<open>js\<close> still to count.\<close>

fun count_match :: "('c, 's) raft \<Rightarrow> int \<Rightarrow> int list \<Rightarrow> int \<Rightarrow> int res" where
  "count_match rf i [] count = Inr count"
| "count_match rf i (j # js) count =
     (if j \<noteq> me rf
      then res_bind (go_index (matchIndex rf) j) (\<lambda>m.
             count_match rf i js (if m \<ge> i then count + 1 else count))
      else count_match rf i js count)"

text \<open>The outer loop, over the offsets \<open>js\<close> still to visit.\<close>

fun commit_loop :: "('c, 's) raft \<Rightarrow> int list \<Rightarrow> int \<Rightarrow> int res" where
  "commit_loop rf [] newCommitIndex = Inr newCommitIndex"
| "commit_loop rf (j # js) newCommitIndex =
     res_bind (getIndexFromOffsetIndex rf j) (\<lambda>i.
       if i < newCommitIndex then commit_loop rf js newCommitIndex
       else res_bind (count_match rf i (map int [0..<npeers rf]) 1) (\<lambda>count.
         if count > int (npeers rf) div 2
         then res_bind (getLogEntryAtIndex rf i) (\<lambda>e.
                commit_loop rf js (if Term e = currentTerm rf then i else newCommitIndex))
         else commit_loop rf js newCommitIndex))"

definition leaderUpdateCommit :: "('c, 's) raft \<Rightarrow> ('c, 's) raft res" where
  "leaderUpdateCommit rf =
     res_bind (commit_loop rf (map int [0..<nat (getLogLengthWithoutSnapshot rf)])
                 (commitIndex rf)) (\<lambda>newCommitIndex.
       if newCommitIndex < commitIndex rf
       then Inl (LogFatal ''new commit smaller than previous commit'')
       else res_bind
         (if newCommitIndex > -1 \<and> commitIndex rf \<noteq> newCommitIndex
          then res_bind (getLogEntryAtIndex rf newCommitIndex) (\<lambda>e.
                 if Term e \<noteq> currentTerm rf
                 then Inl (LogFatal ''against 5.4.2'') else Inr ())
          else Inr ()) (\<lambda>_. Inr (rf\<lparr>commitIndex := newCommitIndex\<rparr>)))"

section \<open>Applying\<close>

fun apply_msgs :: "('c, 's) raft \<Rightarrow> int list \<Rightarrow> ('c, 's) applyMsg list res" where
  "apply_msgs rf [] = Inr []"
| "apply_msgs rf (i # is) =
     res_bind (getLogEntryAtIndex rf i) (\<lambda>e.
     res_bind (apply_msgs rf is) (\<lambda>ms.
       Inr (emptyApplyMsg\<lparr>CommandValid := (i \<noteq> 0), Command := Action e, CommandIndex := i\<rparr>
            # ms)))"

definition commitToApplyChannelWithLock ::
  "('c, 's) raft \<Rightarrow> (('c, 's) raft \<times> ('c, 's) applyMsg list) res" where
  "commitToApplyChannelWithLock rf0 =
     (let rf = persist rf0 in
      if lastApplied rf + 1 < snapshotEntriesAmount rf
      then Inr (rf\<lparr>lastApplied := snapshotEntriesAmount rf - 1\<rparr>,
                [emptyApplyMsg\<lparr>CommandValid := False, SnapshotValid := True,
                   Snapshot := ReadSnapshot (persister rf),
                   SnapshotTerm := lastSnapshotTerm rf,
                   SnapshotIndex := snapshotEntriesAmount rf - 1\<rparr>])
      else if lastApplied rf \<ge> commitIndex rf then Inr (rf, [])
      else res_bind (apply_msgs rf [lastApplied rf + 1..commitIndex rf]) (\<lambda>ms.
             Inr (rf\<lparr>lastApplied := commitIndex rf\<rparr>, ms)))"

text \<open>
  \<open>applyMu\<close> serialises the calls, so the messages of one call follow those of the
  call before on the channel.
\<close>

definition commitToApplyChannel ::
  "('c, 's) raft \<Rightarrow> ('c, 's) applyMsg list \<Rightarrow> (('c, 's) raft \<times> ('c, 's) applyMsg list) res" where
  "commitToApplyChannel rf applyCh =
     res_bind (commitToApplyChannelWithLock rf) (\<lambda>(rf', ms). Inr (rf', applyCh @ ms))"

section \<open>The commit rule\<close>

definition replicas :: "('c, 's) raft \<Rightarrow> int \<Rightarrow> int set" where
  "replicas rf i =
     insert (me rf) {j. 0 \<le> j \<and> j < int (npeers rf) \<and> j \<noteq> me rf \<and> matchIndex rf ! nat j \<ge> i}"

definition committable :: "('c, 's) raft \<Rightarrow> int \<Rightarrow> bool" where
  "committable rf i \<longleftrightarrow>
     (\<exists>e. log_at rf i = Some e \<and> Term e = currentTerm rf) \<and> majority (npeers rf) (replicas rf i)"

lemma count_match_eq:
  assumes "\<And>j. j \<in> set js \<Longrightarrow> 0 \<le> j \<and> j < int (length (matchIndex rf))"
  shows "count_match rf i js c =
    Inr (c + int (length (filter (\<lambda>j. j \<noteq> me rf \<and> matchIndex rf ! nat j \<ge> i) js)))"
  using assms by (induction js arbitrary: c) auto

lemma count_match_card:
  assumes "raft_ok rf" "status rf = Leader"
  shows "count_match rf i (map int [0..<npeers rf]) 1 = Inr (int (card (replicas rf i)))"
proof -
  let ?P = "\<lambda>j. j \<noteq> me rf \<and> matchIndex rf ! nat j \<ge> i"
  let ?js = "map int [0..<npeers rf]"
  have "count_match rf i ?js 1 = Inr (1 + int (length (filter ?P ?js)))"
    using raft_okD(6) [OF assms] by (intro count_match_eq) auto
  also have "length (filter ?P ?js) = card (set (filter ?P ?js))"
    by (rule distinct_card [symmetric]) (simp add: distinct_map)
  also have "set (filter ?P ?js) = replicas rf i - {me rf}"
  proof -
    have "set ?js = {j. 0 \<le> j \<and> j < int (npeers rf)}"
      by (auto simp: image_iff) (metis nat_int zero_le_imp_eq_int atLeastLessThan_iff
          nat_less_iff int_nat_eq le0)
    then show ?thesis by (auto simp: replicas_def)
  qed
  finally have "count_match rf i ?js 1 = Inr (1 + int (card (replicas rf i - {me rf})))" .
  moreover have "finite (replicas rf i)"
    by (rule finite_subset [of _ "insert (me rf) {0..<int (npeers rf)}"])
      (auto simp: replicas_def)
  moreover have "me rf \<in> replicas rf i" by (simp add: replicas_def)
  moreover from calculation(2,3) have "0 < card (replicas rf i)" by (auto simp: card_gt_0_iff)
  ultimately show ?thesis by (simp add: card_Diff_singleton of_nat_diff Suc_leI)
qed

lemma replicas_subset: "raft_ok rf \<Longrightarrow> replicas rf i \<subseteq> {0..<int (npeers rf)}"
  by (auto simp: replicas_def dest: raft_okD(3,4))

text \<open>One turn of the outer loop, at a global index of the log.\<close>

lemma commit_loop_Cons:
  assumes "raft_ok rf" "status rf = Leader" "j < length (logs rf)"
  defines "i \<equiv> int j + snapshotEntriesAmount rf"
  shows "commit_loop rf (int j # js) c =
    commit_loop rf js (if c \<le> i \<and> committable rf i then i else c)"
proof -
  have i: "snapshotEntriesAmount rf \<le> i" "i \<le> getLastLogEntryIndex rf"
    using assms(3) by (auto simp: i_def log_index_defs)
  then have idx: "getIndexFromOffsetIndex rf (int j) = Inr i"
    by (simp add: getIndexFromOffsetIndex_def logIndexCheck_def i_def Let_def)
  obtain e where e: "log_at rf i = Some e" "getLogEntryAtIndex rf i = Inr e"
    using i getLogEntryAtIndex_ok [OF raft_okD(1) [OF assms(1)] i]
    by (auto simp: log_at_def)
  from e replicas_subset [OF assms(1)] show ?thesis
    by (auto simp: idx count_match_card [OF assms(1,2)] committable_def majority_def)
qed

lemma commit_loop_spec:
  assumes "raft_ok rf" "status rf = Leader" "n \<le> length (logs rf)"
  shows "\<exists>c'. commit_loop rf (map int [n..<length (logs rf)]) c = Inr c' \<and> c \<le> c' \<and>
    (c' = c \<or> committable rf c') \<and>
    (\<forall>i. int n + snapshotEntriesAmount rf \<le> i \<longrightarrow> committable rf i \<longrightarrow> i \<le> c')"
  using assms(3)
proof (induction arbitrary: c rule: inc_induct)
  case base
  have "\<not> committable rf i" if "int (length (logs rf)) + snapshotEntriesAmount rf \<le> i" for i
    using that by (auto simp: committable_def log_at_def log_index_defs split: if_splits)
  then show ?case by auto
next
  case (step n)
  let ?i = "int n + snapshotEntriesAmount rf"
  let ?d = "if c \<le> ?i \<and> committable rf ?i then ?i else c"
  from step.IH [of ?d] obtain c' where c':
    "commit_loop rf (map int [Suc n..<length (logs rf)]) ?d = Inr c'" "?d \<le> c'"
    "c' = ?d \<or> committable rf c'"
    "\<forall>i. int (Suc n) + snapshotEntriesAmount rf \<le> i \<longrightarrow> committable rf i \<longrightarrow> i \<le> c'"
    by blast
  have run: "commit_loop rf (map int [n..<length (logs rf)]) c = Inr c'"
    using commit_loop_Cons [OF assms(1,2) step.hyps(2)] c'(1) step.hyps(2)
    by (simp add: upt_conv_Cons)
  have "i \<le> c'" if "?i \<le> i" "committable rf i" for i
  proof (cases "i = ?i")
    case True
    with that c'(2) show ?thesis by (auto split: if_splits)
  next
    case False
    with that c'(4) show ?thesis by simp
  qed
  moreover have "c \<le> c'" using c'(2) by (auto split: if_splits)
  ultimately show ?case using run c'(3) by (auto split: if_splits)
qed

lemma committable_range:
  assumes "committable rf i"
  shows "snapshotEntriesAmount rf \<le> i" "i \<le> getLastLogEntryIndex rf"
  using assms by (auto simp: committable_def log_at_def split: if_splits)

lemma leaderUpdateCommit_spec:
  assumes "raft_ok rf" "status rf = Leader"
  obtains c where "leaderUpdateCommit rf = Inr (rf\<lparr>commitIndex := c\<rparr>)" "commitIndex rf \<le> c"
    "c = commitIndex rf \<or> committable rf c" "\<And>i. committable rf i \<Longrightarrow> i \<le> c"
proof -
  from commit_loop_spec [OF assms, of 0 "commitIndex rf"] obtain c where c:
    "commit_loop rf (map int [0..<length (logs rf)]) (commitIndex rf) = Inr c"
    "commitIndex rf \<le> c" "c = commitIndex rf \<or> committable rf c"
    "\<And>i. committable rf i \<Longrightarrow> i \<le> c"
    using committable_range(1) by fastforce
  have "leaderUpdateCommit rf = Inr (rf\<lparr>commitIndex := c\<rparr>)"
  proof (cases "c = commitIndex rf")
    case True
    with c(1) show ?thesis by (simp add: leaderUpdateCommit_def getLogLengthWithoutSnapshot_def)
  next
    case False
    with c(3) obtain e where "log_at rf c = Some e" "Term e = currentTerm rf"
      by (auto simp: committable_def)
    with getLogEntryAtIndex_Inr [OF raft_okD(1) [OF assms(1)], of c e] c(1,2) show ?thesis
      by (simp add: leaderUpdateCommit_def getLogLengthWithoutSnapshot_def)
  qed
  with c(2-4) show ?thesis by (intro that)
qed

section \<open>The messages on the channel\<close>

lemma apply_msgs_ok:
  assumes "log_ok rf" "\<And>i. i \<in> set is \<Longrightarrow> snapshotEntriesAmount rf \<le> i \<and> i \<le> getLastLogEntryIndex rf"
  shows "apply_msgs rf is = Inr (map (\<lambda>i. emptyApplyMsg\<lparr>CommandValid := (i \<noteq> 0),
    Command := Action (the (log_at rf i)), CommandIndex := i\<rparr>) is)"
  using assms(2) by (induction "is") (auto simp: getLogEntryAtIndex_ok [OF assms(1)] log_at_def)

text \<open>
  A stretch of the channel that takes a service from entry \<open>a\<close> to entry \<open>b\<close>: each
  command is the next entry, each snapshot jumps ahead.
\<close>

fun contiguous :: "int \<Rightarrow> ('c, 's) applyMsg list \<Rightarrow> int \<Rightarrow> bool" where
  "contiguous a [] b \<longleftrightarrow> a = b"
| "contiguous a (m # ms) b \<longleftrightarrow>
     (if SnapshotValid m then a < SnapshotIndex m \<and> contiguous (SnapshotIndex m) ms b
      else CommandIndex m = a + 1 \<and> contiguous (a + 1) ms b)"

lemma contiguous_append:
  "contiguous a ms b \<Longrightarrow> contiguous b ns c \<Longrightarrow> contiguous a (ms @ ns) c"
  by (induction a ms b rule: contiguous.induct) (auto split: if_splits)

lemma contiguous_le: "contiguous a ms b \<Longrightarrow> a \<le> b"
  by (induction a ms b rule: contiguous.induct) (auto split: if_splits)

lemma contiguous_commands:
  "a \<le> b \<Longrightarrow> contiguous a (map (\<lambda>i. emptyApplyMsg\<lparr>CommandValid := P i, Command := f i,
     CommandIndex := i\<rparr>) [a + 1..b]) b"
proof (induction "nat (b - a)" arbitrary: a)
  case 0
  then show ?case by simp
next
  case (Suc n)
  then have "a < b" by simp
  then have "[a + 1..b] = (a + 1) # [a + 1 + 1..b]" by (simp add: upto_rec1)
  with Suc(1) [of "a + 1"] Suc(2) \<open>a < b\<close> show ?case by (simp add: emptyApplyMsg_def)
qed

text \<open>Where the peer stands after it applied what it could.\<close>

definition applied_upto :: "('c, 's) raft \<Rightarrow> int" where
  "applied_upto rf =
     (if lastApplied rf + 1 < snapshotEntriesAmount rf then snapshotEntriesAmount rf - 1
      else max (lastApplied rf) (commitIndex rf))"

lemma commitToApplyChannelWithLock_spec:
  assumes "log_ok rf" "commitIndex rf \<le> getLastLogEntryIndex rf"
  obtains ms where
    "commitToApplyChannelWithLock rf = Inr ((persist rf)\<lparr>lastApplied := applied_upto rf\<rparr>, ms)"
    "contiguous (lastApplied rf) ms (applied_upto rf)"
proof (cases "lastApplied rf + 1 < snapshotEntriesAmount rf")
  case True
  then show ?thesis
    by (intro that [of "[emptyApplyMsg\<lparr>CommandValid := False, SnapshotValid := True,
          Snapshot := ReadSnapshot (persister (persist rf)), SnapshotTerm := lastSnapshotTerm rf,
          SnapshotIndex := snapshotEntriesAmount rf - 1\<rparr>]"])
      (auto simp: commitToApplyChannelWithLock_def applied_upto_def emptyApplyMsg_def Let_def)
next
  case False
  show ?thesis
  proof (cases "lastApplied rf \<ge> commitIndex rf")
    case True
    with False show ?thesis
      by (intro that [of "[]"])
        (auto simp: commitToApplyChannelWithLock_def applied_upto_def max_def persist_def)
  next
    case behind: False
    let ?is = "[lastApplied rf + 1..commitIndex rf]"
    have "apply_msgs (persist rf) ?is = Inr (map (\<lambda>i. emptyApplyMsg\<lparr>CommandValid := (i \<noteq> 0),
        Command := Action (the (log_at (persist rf) i)), CommandIndex := i\<rparr>) ?is)"
      using False assms by (intro apply_msgs_ok) auto
    moreover have "contiguous (lastApplied rf) (map (\<lambda>i. emptyApplyMsg\<lparr>CommandValid := (i \<noteq> 0),
        Command := Action (the (log_at (persist rf) i)), CommandIndex := i\<rparr>) ?is) (commitIndex rf)"
      using behind by (intro contiguous_commands) simp
    ultimately show ?thesis using False behind
      by (intro that)
        (auto simp: commitToApplyChannelWithLock_def applied_upto_def max_def)
  qed
qed

text \<open>Whatever the log holds: if the section returns, it sent the next stretch.\<close>

lemma apply_msgs_Inr:
  assumes "apply_msgs rf is = Inr ms"
  shows "ms = map (\<lambda>i. emptyApplyMsg\<lparr>CommandValid := (i \<noteq> 0),
    Command := Action (projr (getLogEntryAtIndex rf i)), CommandIndex := i\<rparr>) is"
  using assms by (induction "is" arbitrary: ms) auto

lemma commitToApply_contiguous:
  assumes "commitToApplyChannelWithLock rf = Inr (rf', ms)"
  shows "contiguous (lastApplied rf) ms (lastApplied rf')"
proof -
  consider "lastApplied rf + 1 < snapshotEntriesAmount rf"
    | "\<not> lastApplied rf + 1 < snapshotEntriesAmount rf" "commitIndex rf \<le> lastApplied rf"
    | "\<not> lastApplied rf + 1 < snapshotEntriesAmount rf" "lastApplied rf < commitIndex rf"
    by linarith
  then show ?thesis
  proof cases
    case 3
    with assms have "apply_msgs (persist rf) [lastApplied rf + 1..commitIndex rf] = Inr ms"
      and "lastApplied rf' = commitIndex rf"
      by (auto simp: commitToApplyChannelWithLock_def Let_def)
    note apply_msgs_Inr [OF this(1)] this(2)
    with contiguous_commands [of "lastApplied rf" "commitIndex rf"] 3 show ?thesis by simp
  qed (use assms in \<open>auto simp: commitToApplyChannelWithLock_def Let_def emptyApplyMsg_def\<close>)
qed

text \<open>The contents of the messages.\<close>

lemma commitToApply_messages:
  assumes "log_ok rf" "commitIndex rf \<le> getLastLogEntryIndex rf"
    "commitToApplyChannelWithLock rf = Inr (rf', ms)" "m \<in> set ms"
  shows "if SnapshotValid m
    then Snapshot m = snapshot (persister rf) \<and> SnapshotIndex m = snapshotEntriesAmount rf - 1
      \<and> SnapshotTerm m = lastSnapshotTerm rf
    else \<exists>e. log_at rf (CommandIndex m) = Some e \<and> Command m = Action e"
proof (cases "lastApplied rf + 1 < snapshotEntriesAmount rf")
  case True
  with assms(3,4) show ?thesis
    by (auto simp: commitToApplyChannelWithLock_def Let_def emptyApplyMsg_def ReadSnapshot_def)
next
  case False
  have "apply_msgs (persist rf) [lastApplied rf + 1..commitIndex rf] = Inr (map (\<lambda>i.
      emptyApplyMsg\<lparr>CommandValid := (i \<noteq> 0), Command := Action (the (log_at (persist rf) i)),
        CommandIndex := i\<rparr>) [lastApplied rf + 1..commitIndex rf])"
    using False assms(1,2) by (intro apply_msgs_ok) auto
  with False assms(3,4) obtain i where i: "lastApplied rf + 1 \<le> i" "i \<le> commitIndex rf"
    "m = emptyApplyMsg\<lparr>CommandValid := (i \<noteq> 0), Command := Action (the (log_at rf i)),
        CommandIndex := i\<rparr>"
    by (auto simp: commitToApplyChannelWithLock_def Let_def split: if_splits)
  with False assms(2) obtain e where "log_at rf i = Some e" by (simp add: log_at_def)
  with i(3) show ?thesis by (simp add: emptyApplyMsg_def)
qed

section \<open>Both sections honour the contract of a peer\<close>

lemma raft_ok_volatile:
  "raft_ok (rf\<lparr>commitIndex := c\<rparr>) = raft_ok rf" "raft_ok (rf\<lparr>lastApplied := a\<rparr>) = raft_ok rf"
  by (simp_all add: raft_ok_def log_ok_def durable_def pstate_of_def)

lemma raft_ok_persist [simp]: "raft_ok rf \<Longrightarrow> raft_ok (persist rf)"
  by (simp add: raft_ok_def)

lemma leaderUpdateCommit_frame:
  assumes "leaderUpdateCommit rf = Inr rf'"
  shows "\<exists>c \<ge> commitIndex rf. rf' = rf\<lparr>commitIndex := c\<rparr>"
  using assms by (auto simp: leaderUpdateCommit_def not_less split: if_splits)

interpretation update_commit_op: peer_op "\<lambda>rf rf'. leaderUpdateCommit rf = Inr rf'"
  by unfold_locales (auto dest!: leaderUpdateCommit_frame simp: raft_ok_volatile)

lemma commitToApply_frame:
  assumes "commitToApplyChannelWithLock rf = Inr (rf', ms)"
  shows "\<exists>a. rf' = (persist rf)\<lparr>lastApplied := a\<rparr>"
proof -
  have "\<exists>a. persist rf = (persist rf)\<lparr>lastApplied := a\<rparr>"
    by (rule exI [of _ "lastApplied rf"]) (simp add: persist_def)
  with assms show ?thesis
    by (auto simp: commitToApplyChannelWithLock_def Let_def split: if_splits)
qed

interpretation apply_op: peer_op
  "\<lambda>rf rf'. \<exists>ms. commitToApplyChannelWithLock rf = Inr (rf', ms)"
  by unfold_locales (auto dest!: commitToApply_frame simp: raft_ok_volatile)

section \<open>Properties\<close>

text \<open>
  C9. The commit rule. A leader in good order always gets through \<open>leaderUpdateCommit\<close>;
  the new commit index is not below the old one, it is at least every index that a majority
  stores with an entry of the leader's term, and if it moved it is such an index itself:
  then every majority of the peers contains one that stores the entry.
\<close>

theorem commit_rule:
  assumes "raft_ok rf" "status rf = Leader"
  shows "\<exists>c. leaderUpdateCommit rf = Inr (rf\<lparr>commitIndex := c\<rparr>) \<and> commitIndex rf \<le> c \<and>
    (\<forall>i. committable rf i \<longrightarrow> i \<le> c) \<and>
    (c \<noteq> commitIndex rf \<longrightarrow> committable rf c \<and>
       (\<forall>Q. majority (npeers rf) Q \<longrightarrow> Q \<inter> replicas rf c \<noteq> {}))"
proof -
  from leaderUpdateCommit_spec [OF assms] obtain c where c:
    "leaderUpdateCommit rf = Inr (rf\<lparr>commitIndex := c\<rparr>)" "commitIndex rf \<le> c"
    "c = commitIndex rf \<or> committable rf c" "\<And>i. committable rf i \<Longrightarrow> i \<le> c" by blast
  have "Q \<inter> replicas rf c \<noteq> {}" if "committable rf c" "majority (npeers rf) Q" for Q
    using that by (intro maj.quorum_meet [of "npeers rf"]) (simp_all add: committable_def)
  with c show ?thesis by blast
qed

text \<open>A leader of three that stored one command, acknowledged by peer 2.\<close>

definition leader3 :: "(int, int) raft" where
  "leader3 = (snd (Start (fst (becomeLeader \<lparr>now = 5, rnd = 5\<rparr> (peer3 0))) (Cmd 42)))
     \<lparr>matchIndex := [-1, -1, 1]\<rparr>"

lemma leader3_ok: "raft_ok leader3" "status leader3 = Leader" "commitIndex leader3 = -1"
  "getLastLogEntryIndex leader3 = 1"
  by code_simp+

text \<open>
  C10. Applying. As long as the commit index is within the log, \<open>commitToApplyChannel\<close>
  gets through without a fatal error. It sends the messages that lead the service from
  \<open>lastApplied\<close> to the new \<open>lastApplied\<close> without gap or repetition; every command
  it sends is the entry of the log at the index of the message, and a snapshot it sends is
  the stored one, with its own index and term.
\<close>

theorem apply_in_order:
  assumes "log_ok rf" "commitIndex rf \<le> getLastLogEntryIndex rf"
  shows "\<exists>rf' ms. commitToApplyChannel rf ch = Inr (rf', ch @ ms) \<and>
    contiguous (lastApplied rf) ms (lastApplied rf') \<and> lastApplied rf' = applied_upto rf \<and>
    (\<forall>m \<in> set ms. if SnapshotValid m
       then Snapshot m = snapshot (persister rf) \<and> SnapshotIndex m = snapshotEntriesAmount rf - 1
         \<and> SnapshotTerm m = lastSnapshotTerm rf
       else \<exists>e. log_at rf (CommandIndex m) = Some e \<and> Command m = Action e)"
proof -
  from commitToApplyChannelWithLock_spec [OF assms] obtain ms where ms:
    "commitToApplyChannelWithLock rf = Inr ((persist rf)\<lparr>lastApplied := applied_upto rf\<rparr>, ms)"
    "contiguous (lastApplied rf) ms (applied_upto rf)" by blast
  from commitToApply_messages [OF assms ms(1)] ms show ?thesis
    by (auto simp: commitToApplyChannel_def)
qed

theorem apply_in_order_witness:
  "\<exists>rf' ms. commitToApplyChannel (leader3\<lparr>commitIndex := 1\<rparr>) [] = Inr (rf', [] @ ms) \<and>
    contiguous (-1) ms 1"
proof -
  let ?rf = "leader3\<lparr>commitIndex := 1\<rparr>"
  have "log_ok ?rf" "commitIndex ?rf \<le> getLastLogEntryIndex ?rf" "lastApplied ?rf = -1"
    "applied_upto ?rf = 1" by code_simp+
  with apply_in_order [of ?rf "[]"] show ?thesis by metis
qed

end
