(* ===== verification/Raft_Append.thy ===== *)
theory Raft_Append
  imports Raft_Commit
begin

text \<open>
  raft/appendEntities.go: log replication. \<open>AppendEntries\<close> is the locked section of the
  handler, with the call of \<open>commitToApplyChannel\<close> that follows it as a task;
  \<open>handleSendAppendEntries\<close> and \<open>handleAppendEntriesReply\<close> are the two sections of
  the sender, before and after the RPC.
\<close>

record 'c appendEntriesArgs =
  aea_Term :: int
  aea_LeaderId :: int
  aea_PrevLogIndex :: int
  aea_PrevLogTerm :: int
  aea_Entries :: "'c logEntity list"
  aea_LeaderCommit :: int

record appendEntriesReply =
  aer_Term :: int
  aer_Success :: bool
  aer_InSnapshot :: bool
  aer_SnapshotAmount :: int

definition emptyAppendEntriesReply :: appendEntriesReply where
  "emptyAppendEntriesReply =
     \<lparr>aer_Term = 0, aer_Success = False, aer_InSnapshot = False, aer_SnapshotAmount = 0\<rparr>"

section \<open>Receiver side\<close>

definition AppendEntriesWithLock ::
  "env \<Rightarrow> ('c, 's) raft \<Rightarrow> 'c appendEntriesArgs \<Rightarrow>
   (('c, 's) raft \<times> appendEntriesReply \<times> bool) res" where
  "AppendEntriesWithLock ev rf args =
     (let reply = emptyAppendEntriesReply in
      if currentTerm rf > aea_Term args
      then Inr (rf, reply\<lparr>aer_Success := False, aer_Term := currentTerm rf\<rparr>, False)
      else
        let rf1 = persist (becomeFollower ev rf (aea_Term args) (-1));
            fail = reply\<lparr>aer_Success := False, aer_Term := currentTerm rf1\<rparr>
        in if aea_PrevLogIndex args < snapshotEntriesAmount rf1 - 1
           then Inr (rf1, fail\<lparr>aer_InSnapshot := True,
                               aer_SnapshotAmount := snapshotEntriesAmount rf1\<rparr>, False)
           else if aea_PrevLogIndex args > getLastLogEntryIndex rf1 then Inr (rf1, fail, False)
           else res_bind (logMatches rf1 (aea_PrevLogTerm args) (aea_PrevLogIndex args)) (\<lambda>m.
             if \<not> m then Inr (rf1, fail, False)
             else res_bind (removeLogFromIndex rf1 (aea_PrevLogIndex args)) (\<lambda>rf2.
               let rf3 = appendEntries rf2 (aea_Entries args);
                   rf4 = (if commitIndex rf3 < aea_LeaderCommit args
                          then rf3\<lparr>commitIndex := aea_LeaderCommit args\<rparr> else rf3)
               in Inr (persist rf4, reply\<lparr>aer_Success := True, aer_Term := currentTerm rf3\<rparr>,
                       True))))"

definition AppendEntries ::
  "env \<Rightarrow> ('c, 's) raft \<Rightarrow> 'c appendEntriesArgs \<Rightarrow>
   (('c, 's) raft \<times> appendEntriesReply \<times> task list) res" where
  "AppendEntries ev rf args =
     res_bind (AppendEntriesWithLock ev rf args) (\<lambda>(rf', reply, ok).
       Inr (rf', reply, if ok then [CommitToApply] else []))"

section \<open>Sender side\<close>

definition createAppendEntriesArgs :: "('c, 's) raft \<Rightarrow> int \<Rightarrow> 'c appendEntriesArgs res" where
  "createAppendEntriesArgs rf server =
     res_bind (go_index (nextIndex rf) server) (\<lambda>n.
     let prev = getLogIndexBeforeIndex n in
     res_bind (getLogTermAtIndex rf prev) (\<lambda>t.
     res_bind (getLogEntryStartingAt rf (prev + 1)) (\<lambda>es.
       Inr \<lparr>aea_Term = currentTerm rf, aea_LeaderId = me rf, aea_PrevLogIndex = prev,
            aea_PrevLogTerm = t, aea_Entries = es, aea_LeaderCommit = commitIndex rf\<rparr>)))"

definition handleSendAppendEntries ::
  "('c, 's) raft \<Rightarrow> int \<Rightarrow> (('c, 's) raft \<times> task list \<times> 'c appendEntriesArgs option) res" where
  "handleSendAppendEntries rf server =
     res_bind (go_index (nextIndex rf) server) (\<lambda>n.
       if n < snapshotEntriesAmount rf
       then res_bind (go_update (nextIndex rf) server (snapshotEntriesAmount rf)) (\<lambda>ni.
              Inr (rf\<lparr>nextIndex := ni\<rparr>, [SendInstallSnapshot server], None))
       else if status rf \<noteq> Leader then Inr (rf, [], None)
       else res_bind (createAppendEntriesArgs rf server) (\<lambda>args. Inr (rf, [], Some args)))"

text \<open>The loop that skips the entries of one term.\<close>

function backoff_loop :: "('c, 's) raft \<Rightarrow> int \<Rightarrow> int \<Rightarrow> int res" where
  "backoff_loop rf curTerm preCurIndex =
     (if preCurIndex > 1 \<and> preCurIndex > snapshotEntriesAmount rf
      then res_bind (getLogEntryAtIndex rf preCurIndex) (\<lambda>e.
             if Term e = curTerm then backoff_loop rf curTerm (preCurIndex - 1)
             else Inr preCurIndex)
      else Inr preCurIndex)"
  by pat_completeness auto
termination
  by (relation "measure (\<lambda>(rf, t, p). nat p)") auto

declare backoff_loop.simps [simp del]

definition backoff :: "('c, 's) raft \<Rightarrow> int \<Rightarrow> (('c, 's) raft \<times> task list) res" where
  "backoff rf server =
     res_bind (go_index (nextIndex rf) server) (\<lambda>n.
     let n1 = n - 1;
         n2 = (if n1 < snapshotEntriesAmount rf then snapshotEntriesAmount rf else n1);
         n3 = (if n2 < 1 then 1 else n2);
         preCurIndex = n3 - 1
     in res_bind (getLogTermAtIndex rf preCurIndex) (\<lambda>curTerm.
        res_bind (backoff_loop rf curTerm preCurIndex) (\<lambda>p.
        res_bind (go_update (nextIndex rf) server (p + 1)) (\<lambda>ni.
          Inr (rf\<lparr>nextIndex := ni\<rparr>,
               if p + 1 \<le> snapshotEntriesAmount rf \<and> snapshotEntriesAmount rf > 0
               then [SendInstallSnapshot server] else [])))))"

definition handleAppendEntriesReply ::
  "env \<Rightarrow> ('c, 's) raft \<Rightarrow> int \<Rightarrow> 'c appendEntriesArgs \<Rightarrow> appendEntriesReply option \<Rightarrow>
   (('c, 's) raft \<times> task list) res" where
  "handleAppendEntriesReply ev rf server args ok =
     (case ok of
        None \<Rightarrow> Inr (rf, [])
      | Some reply \<Rightarrow>
          if status rf \<noteq> Leader then Inr (rf, [])
          else if aer_Success reply
          then let n = aea_PrevLogIndex args + int (length (aea_Entries args)) in
               res_bind (go_update (nextIndex rf) server (n + 1)) (\<lambda>ni.
               res_bind (go_update (matchIndex rf) server n) (\<lambda>mi.
               res_bind (leaderUpdateCommit (rf\<lparr>nextIndex := ni, matchIndex := mi\<rparr>)) (\<lambda>rf'.
                 Inr (rf', [CommitToApply]))))
          else if aer_InSnapshot reply
          then res_bind (go_update (nextIndex rf) server (aer_SnapshotAmount reply)) (\<lambda>ni.
                 Inr (rf\<lparr>nextIndex := ni\<rparr>, []))
          else if currentTerm rf < aer_Term reply
          then Inr (becomeFollower ev rf (aer_Term reply) (-1), [])
          else backoff rf server)"

section \<open>What the receiver does\<close>

text \<open>The consistency check of the receiver, on its log before the call.\<close>

definition prev_matches :: "('c, 's) raft \<Rightarrow> 'c appendEntriesArgs \<Rightarrow> bool" where
  "prev_matches rf args \<longleftrightarrow>
     snapshotEntriesAmount rf - 1 \<le> aea_PrevLogIndex args \<and>
     aea_PrevLogIndex args \<le> getLastLogEntryIndex rf \<and>
     term_at rf (aea_PrevLogIndex args) = Some (aea_PrevLogTerm args)"

definition spliced :: "('c, 's) raft \<Rightarrow> 'c appendEntriesArgs \<Rightarrow> 'c logEntity list" where
  "spliced rf args =
     take (nat (aea_PrevLogIndex args - snapshotEntriesAmount rf + 1)) (logs rf)
       @ aea_Entries args"

lemma term_at_cong:
  assumes "logs rf' = logs rf" "snapshotEntriesAmount rf' = snapshotEntriesAmount rf"
    "lastSnapshotTerm rf' = lastSnapshotTerm rf"
  shows "term_at rf' = term_at rf"
  using assms log_view_cong(3) [OF assms(1,2)] by (simp add: term_at_def fun_eq_iff)

lemma AppendEntriesWithLock_closed:
  assumes "raft_ok rf" "0 \<le> aea_PrevLogIndex args"
  shows "AppendEntriesWithLock ev rf args = Inr
    (if aea_Term args < currentTerm rf
     then (rf, emptyAppendEntriesReply\<lparr>aer_Term := currentTerm rf\<rparr>, False)
     else if prev_matches rf args
     then (persist ((persist (becomeFollower ev rf (aea_Term args) (-1)))
             \<lparr>logs := spliced rf args, commitIndex := max (commitIndex rf) (aea_LeaderCommit args)\<rparr>),
           emptyAppendEntriesReply\<lparr>aer_Success := True, aer_Term := aea_Term args\<rparr>, True)
     else (persist (becomeFollower ev rf (aea_Term args) (-1)),
           emptyAppendEntriesReply\<lparr>aer_Term := aea_Term args,
             aer_InSnapshot := (aea_PrevLogIndex args < snapshotEntriesAmount rf - 1),
             aer_SnapshotAmount := (if aea_PrevLogIndex args < snapshotEntriesAmount rf - 1
                                    then snapshotEntriesAmount rf else 0)\<rparr>, False))"
proof (cases "currentTerm rf > aea_Term args")
  case True
  then show ?thesis by (simp add: AppendEntriesWithLock_def emptyAppendEntriesReply_def)
next
  case current: False
  define rf1 where "rf1 = persist (becomeFollower ev rf (aea_Term args) (-1))"
  have rf1: "log_ok rf1" "snapshotEntriesAmount rf1 = snapshotEntriesAmount rf"
    "getLastLogEntryIndex rf1 = getLastLogEntryIndex rf" "logs rf1 = logs rf"
    "currentTerm rf1 = aea_Term args" "commitIndex rf1 = commitIndex rf"
    using raft_okD(1) [OF assms(1)] by (simp_all add: rf1_def)
  have term1: "term_at rf1 = term_at rf" by (rule term_at_cong) (simp_all add: rf1_def)
  show ?thesis
  proof (cases "snapshotEntriesAmount rf - 1 \<le> aea_PrevLogIndex args \<and>
      aea_PrevLogIndex args \<le> getLastLogEntryIndex rf")
    case False
    then consider "aea_PrevLogIndex args < snapshotEntriesAmount rf - 1"
      | "\<not> aea_PrevLogIndex args < snapshotEntriesAmount rf - 1"
        "getLastLogEntryIndex rf < aea_PrevLogIndex args" by linarith
    then show ?thesis
    proof cases
      case 1
      with current rf1 show ?thesis
        by (simp add: AppendEntriesWithLock_def prev_matches_def emptyAppendEntriesReply_def
            rf1_def [symmetric])
    next
      case 2
      with current rf1 show ?thesis
        by (simp add: AppendEntriesWithLock_def prev_matches_def emptyAppendEntriesReply_def
            rf1_def [symmetric])
    qed
  next
    case True
    have match: "logMatches rf1 (aea_PrevLogTerm args) (aea_PrevLogIndex args)
        = Inr (prev_matches rf args)"
      using True assms(2) rf1 term1 by (simp add: logMatches_Inr prev_matches_def)
    have cut: "removeLogFromIndex rf1 (aea_PrevLogIndex args) = Inr (rf1\<lparr>logs :=
        take (nat (aea_PrevLogIndex args - snapshotEntriesAmount rf + 1)) (logs rf)\<rparr>)"
      using True assms(2) rf1 by (simp add: removeLogFromIndex_Inr)
    have same_commit: "rf1\<lparr>logs := l, commitIndex := commitIndex rf\<rparr> = rf1\<lparr>logs := l\<rparr>" for l
      using rf1(6) by (cases rf1) simp
    show ?thesis
    proof (cases "prev_matches rf args")
      case False
      with current True rf1 show ?thesis
        by (simp add: AppendEntriesWithLock_def emptyAppendEntriesReply_def match
            rf1_def [symmetric])
    next
      case ok: True
      with current True rf1 show ?thesis
        by (simp add: same_commit AppendEntriesWithLock_def emptyAppendEntriesReply_def match cut
            rf1_def [symmetric] appendEntries_def spliced_def Let_def max_def)
    qed
  qed
qed

lemma spliced_view:
  assumes "raft_ok rf" "0 \<le> aea_PrevLogIndex args" "prev_matches rf args"
    "logs rf' = spliced rf args" "snapshotEntriesAmount rf' = snapshotEntriesAmount rf"
  shows "log_ok rf'"
    and "getLastLogEntryIndex rf' = aea_PrevLogIndex args + int (length (aea_Entries args))"
    and "log_at rf' j =
      (if j \<le> aea_PrevLogIndex args then log_at rf j
       else if j \<le> aea_PrevLogIndex args + int (length (aea_Entries args))
       then Some (aea_Entries args ! nat (j - aea_PrevLogIndex args - 1)) else None)"
proof -
  let ?cut = "rf\<lparr>logs := take (nat (aea_PrevLogIndex args - snapshotEntriesAmount rf + 1)) (logs rf)\<rparr>"
  have ok: "log_ok rf" using assms(1) by (rule raft_okD)
  have cut: "removeLogFromIndex rf (aea_PrevLogIndex args) = Inr ?cut"
    using assms(2,3) ok by (simp add: removeLogFromIndex_Inr prev_matches_def)
  have same: "logs rf' = logs (appendEntries ?cut (aea_Entries args))"
    "snapshotEntriesAmount rf' = snapshotEntriesAmount (appendEntries ?cut (aea_Entries args))"
    using assms(4,5) by (simp_all add: appendEntries_def spliced_def)
  note view = log_view_cong [OF same]
  show "log_ok rf'"
    using raft_log.cut_invar [OF ok cut] raft_log.extend_invar view(1) by blast
  show "getLastLogEntryIndex rf' = aea_PrevLogIndex args + int (length (aea_Entries args))"
    using raft_log.splice_top [OF ok cut] view(2) by simp
  show "log_at rf' j =
      (if j \<le> aea_PrevLogIndex args then log_at rf j
       else if j \<le> aea_PrevLogIndex args + int (length (aea_Entries args))
       then Some (aea_Entries args ! nat (j - aea_PrevLogIndex args - 1)) else None)"
    using raft_log.splice_eq [OF ok cut] view(3) by simp
qed

text \<open>A negative previous index never reaches the log: it is refused or it is fatal.\<close>

lemma AppendEntriesWithLock_neg:
  assumes "raft_ok rf" "aea_PrevLogIndex args < 0"
    "AppendEntriesWithLock ev rf args = Inr (rf', reply, ok)"
  shows "\<not> ok \<and> rf' = (if aea_Term args < currentTerm rf then rf
    else persist (becomeFollower ev rf (aea_Term args) (-1)))"
proof -
  let ?rf1 = "persist (becomeFollower ev rf (aea_Term args) (-1))"
  have "log_ok ?rf1" using raft_okD(1) [OF assms(1)] by simp
  then have "removeLogFromIndex ?rf1 (aea_PrevLogIndex args) \<noteq> Inr r" for r
    using assms(2) by (simp add: removeLogFromIndex_Inr)
  then show ?thesis
    using assms(3) by (auto simp: AppendEntriesWithLock_def Let_def split: if_splits)
qed

lemma AppendEntriesWithLock_cases:
  assumes "raft_ok rf" "AppendEntriesWithLock ev rf args = Inr (rf', reply, ok)"
  obtains (stale) "rf' = rf" "\<not> ok" "aea_Term args < currentTerm rf"
  | (refused) "rf' = persist (becomeFollower ev rf (aea_Term args) (-1))" "\<not> ok"
      "currentTerm rf \<le> aea_Term args"
  | (appended) "ok" "currentTerm rf \<le> aea_Term args" "0 \<le> aea_PrevLogIndex args"
      "prev_matches rf args"
      "rf' = persist ((persist (becomeFollower ev rf (aea_Term args) (-1)))
         \<lparr>logs := spliced rf args,
          commitIndex := max (commitIndex rf) (aea_LeaderCommit args)\<rparr>)"
proof (cases "0 \<le> aea_PrevLogIndex args")
  case True
  note closed = AppendEntriesWithLock_closed [OF assms(1) True, of ev]
  show ?thesis
  proof (cases "aea_Term args < currentTerm rf")
    case True
    with assms(2) closed show ?thesis by (intro stale) auto
  next
    case current: False
    show ?thesis
    proof (cases "prev_matches rf args")
      case True
      with assms(2) closed current \<open>0 \<le> aea_PrevLogIndex args\<close> show ?thesis
        by (intro appended) auto
    next
      case False
      with assms(2) closed current show ?thesis by (intro refused) auto
    qed
  qed
next
  case False
  then have "aea_PrevLogIndex args < 0" by simp
  note neg = AppendEntriesWithLock_neg [OF assms(1) this assms(2)]
  show ?thesis
  proof (cases "aea_Term args < currentTerm rf")
    case True
    with neg show ?thesis by (intro stale) auto
  next
    case False
    with neg show ?thesis by (intro refused) auto
  qed
qed

lemma AppendEntriesWithLock_contract:
  assumes "raft_ok rf" "AppendEntriesWithLock ev rf args = Inr (rf', reply, ok)"
  shows "raft_ok rf' \<and> currentTerm rf \<le> currentTerm rf' \<and> me rf' = me rf \<and> npeers rf' = npeers rf"
  using assms
proof (cases rule: AppendEntriesWithLock_cases)
  case appended
  have "log_ok rf'"
    by (rule spliced_view(1) [OF assms(1) appended(3,4)]) (simp_all add: appended(5))
  with assms(1) appended(2) show ?thesis by (simp add: appended(5) raft_ok_def)
qed (use assms(1) in auto)

interpretation append_op: peer_op
  "\<lambda>rf rf'. \<exists>ev args reply ok. AppendEntriesWithLock ev rf args = Inr (rf', reply, ok)"
  by unfold_locales (use AppendEntriesWithLock_contract in blast)+

section \<open>What the sender does\<close>

text \<open>Arguments that describe the end of a log: its entries after the previous index.\<close>

definition describes :: "('c, 's) raft \<Rightarrow> 'c appendEntriesArgs \<Rightarrow> bool" where
  "describes L args \<longleftrightarrow>
     aea_PrevLogIndex args + int (length (aea_Entries args)) = getLastLogEntryIndex L \<and>
     (\<forall>k < length (aea_Entries args).
        log_at L (aea_PrevLogIndex args + 1 + int k) = Some (aea_Entries args ! k)) \<and>
     term_at L (aea_PrevLogIndex args) = Some (aea_PrevLogTerm args) \<and>
     aea_LeaderCommit args = commitIndex L \<and> aea_Term args = currentTerm L"

lemma createAppendEntriesArgs_ok:
  assumes "raft_ok rf" "0 \<le> server" "server < int (length (nextIndex rf))"
  defines "n \<equiv> nextIndex rf ! nat server"
  assumes "1 \<le> n" "snapshotEntriesAmount rf \<le> n" "n \<le> getLastLogEntryIndex rf + 1"
  obtains args where "createAppendEntriesArgs rf server = Inr args" "describes rf args"
    "aea_PrevLogIndex args = n - 1" "aea_LeaderId args = me rf"
proof -
  have ok: "log_ok rf" using assms(1) by (rule raft_okD)
  obtain t where t: "getLogTermAtIndex rf (n - 1) = Inr t" "term_at rf (n - 1) = Some t"
    using getLogTermAtIndex_ok [OF ok, of "n - 1"] assms(5-7) by auto
  obtain es where es: "getLogEntryStartingAt rf n = Inr es"
    using getLogEntryStartingAt_ok assms(6) by blast
  note ent = getLogEntryStartingAt_nth [OF assms(6) es]
    getLogEntryStartingAt_length [OF assms(6,7) es]
  have prev: "getLogIndexBeforeIndex n = n - 1"
    using assms(5) by (simp add: getLogIndexBeforeIndex_def)
  show ?thesis
    using assms(2,3,5) t es ent prev
    by (intro that) (auto simp: createAppendEntriesArgs_def describes_def n_def [symmetric])
qed

text \<open>
  After a successful call the receiver's log agrees with the sender's (as it was when the
  arguments were made) at every index after the previous one.
\<close>

lemma replicated:
  assumes "raft_ok rf" "describes L args"
    "AppendEntriesWithLock ev rf args = Inr (rf', reply, True)"
  shows "getLastLogEntryIndex rf' = getLastLogEntryIndex L"
    and "aea_PrevLogIndex args < j \<Longrightarrow> log_at rf' j = log_at L j"
    and "j \<le> aea_PrevLogIndex args \<Longrightarrow> log_at rf' j = log_at rf j"
    and "term_at rf (aea_PrevLogIndex args) = term_at L (aea_PrevLogIndex args)"
proof -
  from assms(1,3) have app: "0 \<le> aea_PrevLogIndex args" "prev_matches rf args"
    "logs rf' = spliced rf args" "snapshotEntriesAmount rf' = snapshotEntriesAmount rf"
    by (auto elim!: AppendEntriesWithLock_cases)
  note view = spliced_view(2,3) [OF assms(1) app]
  show top: "getLastLogEntryIndex rf' = getLastLogEntryIndex L"
    using view(1) assms(2) by (simp add: describes_def)
  show "j \<le> aea_PrevLogIndex args \<Longrightarrow> log_at rf' j = log_at rf j"
    by (simp add: view(2))
  show "term_at rf (aea_PrevLogIndex args) = term_at L (aea_PrevLogIndex args)"
    using app(2) assms(2) by (simp add: prev_matches_def describes_def)
  show "log_at rf' j = log_at L j" if "aea_PrevLogIndex args < j"
  proof (cases "j \<le> aea_PrevLogIndex args + int (length (aea_Entries args))")
    case True
    define k where "k = nat (j - aea_PrevLogIndex args - 1)"
    with that True have k: "k < length (aea_Entries args)"
      and j: "aea_PrevLogIndex args + 1 + int k = j" by auto
    from assms(2) k have "log_at L (aea_PrevLogIndex args + 1 + int k) = Some (aea_Entries args ! k)"
      by (simp add: describes_def)
    then have "log_at L j = Some (aea_Entries args ! k)" unfolding j .
    with that True show ?thesis by (simp add: view(2) k_def)
  next
    case False
    then have "log_at L j = None"
      using assms(2) by (simp add: describes_def log_at_def)
    with False that show ?thesis by (simp add: view(2))
  qed
qed

section \<open>Backing off\<close>

lemma backoff_loop_spec:
  assumes "log_ok rf" "p \<le> getLastLogEntryIndex rf"
  shows "\<exists>q. backoff_loop rf t p = Inr q \<and> q \<le> p \<and>
    min p (max 1 (snapshotEntriesAmount rf)) \<le> q \<and>
    (\<forall>k. q < k \<and> k \<le> p \<longrightarrow> term_at rf k = Some t) \<and>
    (q \<le> 1 \<or> q \<le> snapshotEntriesAmount rf \<or> term_at rf q \<noteq> Some t)"
  using assms
proof (induction rf t p rule: backoff_loop.induct)
  case (1 rf t p)
  show ?case
  proof (cases "p > 1 \<and> p > snapshotEntriesAmount rf")
    case False
    then show ?thesis by (subst backoff_loop.simps) auto
  next
    case True
    then obtain e where e: "getLogEntryAtIndex rf p = Inr e" "log_at rf p = Some e"
      using getLogEntryAtIndex_ok [OF 1(2), of p] 1(3) by (auto simp: log_at_def)
    have tp: "term_at rf p = Some (Term e)" using True e by (simp add: term_at_def)
    show ?thesis
    proof (cases "Term e = t")
      case False
      with True e tp show ?thesis by (subst backoff_loop.simps) auto
    next
      case same: True
      from 1(1) [OF True e(1) same 1(2)] 1(3) obtain q where q:
        "backoff_loop rf t (p - 1) = Inr q" "q \<le> p - 1"
        "min (p - 1) (max 1 (snapshotEntriesAmount rf)) \<le> q"
        "\<forall>k. q < k \<and> k \<le> p - 1 \<longrightarrow> term_at rf k = Some t"
        "q \<le> 1 \<or> q \<le> snapshotEntriesAmount rf \<or> term_at rf q \<noteq> Some t" by auto
      have run: "backoff_loop rf t p = Inr q"
        using True e same q(1) by (subst backoff_loop.simps) simp
      have "term_at rf k = Some t" if "q < k" "k \<le> p" for k
        using that q(4) tp same by (cases "k = p") auto
      moreover have "min p (max 1 (snapshotEntriesAmount rf)) \<le> q" using q(3) True by linarith
      ultimately show ?thesis using run q(2,5) by auto
    qed
  qed
qed

text \<open>
  A refusal lowers \<open>nextIndex\<close>, unless it is at the floor already: the first entry
  after the snapshot, or entry 1. There the leader sends its snapshot, if it has one.
\<close>

lemma backoff_spec:
  assumes "raft_ok rf" "0 \<le> server" "server < int (length (nextIndex rf))"
  defines "n \<equiv> nextIndex rf ! nat server" and "low \<equiv> max 1 (snapshotEntriesAmount rf)"
  assumes "1 \<le> n" "n \<le> getLastLogEntryIndex rf + 1"
  obtains n' where "backoff rf server = Inr (rf\<lparr>nextIndex := (nextIndex rf)[nat server := n']\<rparr>,
      if n' \<le> snapshotEntriesAmount rf \<and> snapshotEntriesAmount rf > 0
      then [SendInstallSnapshot server] else [])"
    "low \<le> n'" "n' \<le> max low (n - 1)"
proof -
  have ok: "log_ok rf" using assms(1) by (rule raft_okD)
  define m where "m = max low (n - 1)"
  have m: "(if (if n - 1 < snapshotEntriesAmount rf then snapshotEntriesAmount rf else n - 1) < 1
      then 1 else if n - 1 < snapshotEntriesAmount rf then snapshotEntriesAmount rf else n - 1) = m"
    by (auto simp: m_def low_def)
  have last: "0 \<le> getLastLogEntryIndex rf" by (rule log_ok_last_nonneg [OF ok])
  have bounds: "snapshotEntriesAmount rf - 1 \<le> m - 1" "m - 1 \<le> getLastLogEntryIndex rf"
    using assms(7) last raft_log.top_base [OF ok] by (auto simp: m_def low_def)
  obtain t where t: "getLogTermAtIndex rf (m - 1) = Inr t"
    using getLogTermAtIndex_ok [OF ok bounds] by blast
  from backoff_loop_spec [OF ok bounds(2), of t] obtain q where q:
    "backoff_loop rf t (m - 1) = Inr q" "q \<le> m - 1"
    "min (m - 1) (max 1 (snapshotEntriesAmount rf)) \<le> q" by blast
  have "low \<le> q + 1" using q(3) by (auto simp: m_def low_def)
  moreover have "q + 1 \<le> max low (n - 1)" using q(2) by (simp add: m_def)
  moreover have "backoff rf server = Inr (rf\<lparr>nextIndex := (nextIndex rf)[nat server := q + 1]\<rparr>,
      if q + 1 \<le> snapshotEntriesAmount rf \<and> snapshotEntriesAmount rf > 0
      then [SendInstallSnapshot server] else [])"
    using assms(2,3) t q(1) unfolding backoff_def Let_def
    by (simp add: n_def [symmetric] m)
  ultimately show ?thesis by (intro that)
qed

section \<open>Both sections of the sender honour the contract of a peer\<close>

text \<open>A change of the leader's tables and of its commit index only.\<close>

definition tables_step :: "('c, 's) raft \<Rightarrow> ('c, 's) raft \<Rightarrow> bool" where
  "tables_step rf rf' \<longleftrightarrow>
     rf' = rf\<lparr>nextIndex := nextIndex rf', matchIndex := matchIndex rf',
              commitIndex := commitIndex rf'\<rparr> \<and>
     length (nextIndex rf') = length (nextIndex rf) \<and>
     length (matchIndex rf') = length (matchIndex rf)"

lemma tables_stepI:
  "length ni = length (nextIndex rf) \<Longrightarrow> length mi = length (matchIndex rf) \<Longrightarrow>
   tables_step rf (rf\<lparr>nextIndex := ni, matchIndex := mi, commitIndex := c\<rparr>)"
  "length ni = length (nextIndex rf) \<Longrightarrow> tables_step rf (rf\<lparr>nextIndex := ni\<rparr>)"
  "tables_step rf rf"
  by (simp_all add: tables_step_def)

lemma tables_step_contract:
  assumes "tables_step rf rf'" "raft_ok rf"
  shows "raft_ok rf' \<and> currentTerm rf' = currentTerm rf \<and> me rf' = me rf \<and> npeers rf' = npeers rf"
proof -
  let ?rf = "rf\<lparr>nextIndex := nextIndex rf', matchIndex := matchIndex rf',
      commitIndex := commitIndex rf'\<rparr>"
  have "raft_ok ?rf"
    using assms(2) assms(1) [unfolded tables_step_def, THEN conjunct2]
    by (simp add: raft_ok_def log_ok_def durable_def pstate_of_def)
  moreover have "rf' = ?rf" using assms(1) by (simp add: tables_step_def)
  ultimately have "raft_ok rf'" by (rule subst [OF sym, rotated])
  moreover have "currentTerm rf' = currentTerm rf \<and> me rf' = me rf \<and> npeers rf' = npeers rf"
    by (subst \<open>rf' = ?rf\<close>, subst (2) \<open>rf' = ?rf\<close>, subst (3) \<open>rf' = ?rf\<close>) simp
  ultimately show ?thesis by simp
qed

lemma handleSendAppendEntries_frame:
  assumes "handleSendAppendEntries rf server = Inr (rf', ts, req)"
  shows "tables_step rf rf'"
  using assms
  by (auto simp: handleSendAppendEntries_def go_update_Inr intro: tables_stepI split: if_splits)

interpretation send_append_op: peer_op
  "\<lambda>rf rf'. \<exists>server ts req. handleSendAppendEntries rf server = Inr (rf', ts, req)"
  by unfold_locales (auto dest!: handleSendAppendEntries_frame dest: tables_step_contract)

lemma backoff_frame:
  assumes "backoff rf server = Inr (rf', ts)"
  shows "tables_step rf rf'"
  using assms by (auto simp: backoff_def Let_def go_update_Inr intro: tables_stepI)

lemma handleAppendEntriesReply_frame:
  assumes "handleAppendEntriesReply ev rf server args (Some reply) = Inr (rf', ts)"
  shows "tables_step rf rf' \<or>
    currentTerm rf < aer_Term reply \<and> rf' = becomeFollower ev rf (aer_Term reply) (-1)"
proof -
  consider "status rf \<noteq> Leader" | "status rf = Leader" "aer_Success reply"
    | "status rf = Leader" "\<not> aer_Success reply" "aer_InSnapshot reply"
    | "status rf = Leader" "\<not> aer_Success reply" "\<not> aer_InSnapshot reply" by blast
  then show ?thesis
  proof cases
    case 1
    with assms show ?thesis by (simp add: handleAppendEntriesReply_def tables_stepI)
  next
    case 2
    let ?n = "aea_PrevLogIndex args + int (length (aea_Entries args))"
    from 2 assms have "leaderUpdateCommit (rf\<lparr>nextIndex := (nextIndex rf)[nat server := ?n + 1],
        matchIndex := (matchIndex rf)[nat server := ?n]\<rparr>) = Inr rf'"
      by (auto simp: handleAppendEntriesReply_def Let_def go_update_Inr)
    from leaderUpdateCommit_frame [OF this] show ?thesis by (auto intro: tables_stepI)
  next
    case 3
    with assms show ?thesis
      by (auto simp: handleAppendEntriesReply_def go_update_Inr intro: tables_stepI)
  next
    case 4
    with assms show ?thesis
      by (auto simp: handleAppendEntriesReply_def dest: backoff_frame split: if_splits)
  qed
qed

lemma handleAppendEntriesReply_contract:
  assumes "raft_ok rf" "handleAppendEntriesReply ev rf server args ok = Inr (rf', ts)"
  shows "raft_ok rf' \<and> currentTerm rf \<le> currentTerm rf' \<and> me rf' = me rf \<and> npeers rf' = npeers rf"
proof (cases ok)
  case None
  with assms show ?thesis by (simp add: handleAppendEntriesReply_def)
next
  case (Some reply)
  with handleAppendEntriesReply_frame assms(2) tables_step_contract [OF _ assms(1)] assms(1)
  show ?thesis by fastforce
qed

interpretation append_reply_op: peer_op
  "\<lambda>rf rf'. \<exists>ev server args ok ts. handleAppendEntriesReply ev rf server args ok = Inr (rf', ts)"
  by unfold_locales (use handleAppendEntriesReply_contract in blast)+

section \<open>Properties\<close>

text \<open>
  C3. The handler of AppendEntries. With a previous index that is not negative, which every
  sender has, it returns on every peer in good order. A request of an older term changes
  nothing. Any other request makes the peer a follower in its term; if the previous entry
  does not match, the log stays as it was and the reply says no; if it matches, the log is
  afterwards the old one up to the previous index and the entries of the request behind it,
  the commit index is raised to the leader's, and all of it is on stable storage.
\<close>

theorem append_entries_spec:
  assumes "raft_ok rf" "0 \<le> aea_PrevLogIndex args"
  shows "\<exists>rf' reply ts. AppendEntries ev rf args = Inr (rf', reply, ts) \<and>
    (aea_Term args < currentTerm rf \<longrightarrow>
       rf' = rf \<and> \<not> aer_Success reply \<and> aer_Term reply = currentTerm rf) \<and>
    (currentTerm rf \<le> aea_Term args \<longrightarrow>
       status rf' = Follower \<and> currentTerm rf' = aea_Term args \<and> durable rf' \<and>
       aer_Term reply = aea_Term args \<and> (aer_Success reply \<longleftrightarrow> prev_matches rf args) \<and>
       (ts = [CommitToApply] \<longleftrightarrow> prev_matches rf args)) \<and>
    (currentTerm rf \<le> aea_Term args \<and> \<not> prev_matches rf args \<longrightarrow>
       log_at rf' = log_at rf \<and> commitIndex rf' = commitIndex rf) \<and>
    (currentTerm rf \<le> aea_Term args \<and> prev_matches rf args \<longrightarrow>
       commitIndex rf' = max (commitIndex rf) (aea_LeaderCommit args) \<and>
       (\<forall>j. log_at rf' j =
          (if j \<le> aea_PrevLogIndex args then log_at rf j
           else if j \<le> aea_PrevLogIndex args + int (length (aea_Entries args))
           then Some (aea_Entries args ! nat (j - aea_PrevLogIndex args - 1)) else None)))"
proof -
  note closed = AppendEntriesWithLock_closed [OF assms, of ev]
  consider "aea_Term args < currentTerm rf"
    | "\<not> aea_Term args < currentTerm rf" "\<not> prev_matches rf args"
    | "\<not> aea_Term args < currentTerm rf" "prev_matches rf args" by blast
  then show ?thesis
  proof cases
    case 1
    with closed show ?thesis by (simp add: AppendEntries_def emptyAppendEntriesReply_def)
  next
    case 2
    with closed show ?thesis by (simp add: AppendEntries_def emptyAppendEntriesReply_def)
  next
    case 3
    let ?rf' = "persist ((persist (becomeFollower ev rf (aea_Term args) (-1)))
      \<lparr>logs := spliced rf args, commitIndex := max (commitIndex rf) (aea_LeaderCommit args)\<rparr>)"
    have same: "logs ?rf' = spliced rf args"
      "snapshotEntriesAmount ?rf' = snapshotEntriesAmount rf" by simp_all
    from 3 closed spliced_view(3) [OF assms 3(2) same] show ?thesis
      by (simp add: AppendEntries_def emptyAppendEntriesReply_def)
  qed
qed

theorem append_entries_spec_witness:
  "\<exists>rf' reply ts. AppendEntries \<lparr>now = 1, rnd = 1\<rparr> (peer3 1)
      \<lparr>aea_Term = 2, aea_LeaderId = 0, aea_PrevLogIndex = 0, aea_PrevLogTerm = -1,
       aea_Entries = [\<lparr>Term = 2, Action = Cmd 8\<rparr>], aea_LeaderCommit = 0\<rparr> = Inr (rf', reply, ts) \<and>
    aer_Success reply \<and> log_at rf' 1 = Some \<lparr>Term = 2, Action = Cmd 8\<rparr> \<and> commitIndex rf' = 0"
proof -
  let ?args = "\<lparr>aea_Term = 2, aea_LeaderId = 0, aea_PrevLogIndex = 0, aea_PrevLogTerm = -1,
    aea_Entries = [\<lparr>Term = 2, Action = Cmd 8\<rparr>], aea_LeaderCommit = 0\<rparr>"
  have "prev_matches (peer3 1) ?args" "currentTerm (peer3 1) = 0" "commitIndex (peer3 1) = -1"
    by code_simp+
  with append_entries_spec [OF peer3_ok, of 1 ?args "\<lparr>now = 1, rnd = 1\<rparr>"] show ?thesis by auto
qed

text \<open>
  C4. Replication. When a request that a leader built from its own state succeeds at a
  follower, the two logs end at the same index, agree on every entry after the previous
  index, and have the same term at the previous index itself; what the follower holds
  before is what it held.
\<close>

theorem replication_agrees:
  assumes "raft_ok L" "raft_ok rf" "0 \<le> server" "server < int (length (nextIndex L))"
    "1 \<le> nextIndex L ! nat server" "snapshotEntriesAmount L \<le> nextIndex L ! nat server"
    "nextIndex L ! nat server \<le> getLastLogEntryIndex L + 1"
    "createAppendEntriesArgs L server = Inr args"
    "AppendEntriesWithLock ev rf args = Inr (rf', reply, True)"
  shows "getLastLogEntryIndex rf' = getLastLogEntryIndex L \<and>
    (\<forall>j. aea_PrevLogIndex args < j \<longrightarrow> log_at rf' j = log_at L j) \<and>
    (\<forall>j \<le> aea_PrevLogIndex args. log_at rf' j = log_at rf j) \<and>
    term_at rf (aea_PrevLogIndex args) = term_at L (aea_PrevLogIndex args)"
proof -
  have "describes L args"
    using createAppendEntriesArgs_ok [OF assms(1,3-7)] assms(8) by (metis sum.inject(2))
  from replicated [OF assms(2) this assms(9)] show ?thesis by blast
qed

theorem replication_agrees_witness:
  "\<exists>args rf' reply. createAppendEntriesArgs leader3 1 = Inr args \<and>
     AppendEntriesWithLock \<lparr>now = 9, rnd = 0\<rparr> (peer3 1) args = Inr (rf', reply, True) \<and>
     (\<forall>j. 0 < j \<longrightarrow> log_at rf' j = log_at leader3 j)"
proof -
  let ?args = "\<lparr>aea_Term = 1, aea_LeaderId = 0, aea_PrevLogIndex = 0, aea_PrevLogTerm = -1,
    aea_Entries = [\<lparr>Term = 1, Action = Cmd 42\<rparr>], aea_LeaderCommit = -1\<rparr>"
  have 1: "createAppendEntriesArgs leader3 1 = Inr ?args" by code_simp
  have ni: "nextIndex leader3 = [1, 1, 1]" "snapshotEntriesAmount leader3 = 0" by code_simp+
  have "prev_matches (peer3 1) ?args" "\<not> 1 < currentTerm (peer3 1)" by code_simp+
  with AppendEntriesWithLock_closed [OF peer3_ok, of 1 ?args "\<lparr>now = 9, rnd = 0\<rparr>"]
  obtain rf' reply where 2: "AppendEntriesWithLock \<lparr>now = 9, rnd = 0\<rparr> (peer3 1) ?args =
      Inr (rf', reply, True)" by auto
  from replication_agrees [OF leader3_ok(1) peer3_ok _ _ _ _ _ 1 2] 1 2 show ?thesis
    by (fastforce simp: ni leader3_ok)
qed

text \<open>
  A duplicate is harmless: the network may run a request twice in a row, and the second
  run succeeds and leaves the log and the commit index as the first one left them.
\<close>

theorem append_idempotent:
  assumes "raft_ok rf" "AppendEntriesWithLock ev rf args = Inr (rf1, r1, True)"
  shows "\<exists>rf2 r2. AppendEntriesWithLock ev' rf1 args = Inr (rf2, r2, True) \<and>
    logs rf2 = logs rf1 \<and> commitIndex rf2 = commitIndex rf1 \<and> currentTerm rf2 = currentTerm rf1"
  using assms
proof (cases rule: AppendEntriesWithLock_cases)
  case appended
  have ok1: "raft_ok rf1" using AppendEntriesWithLock_contract [OF assms] by simp
  have logs1: "logs rf1 = spliced rf args" "snapshotEntriesAmount rf1 = snapshotEntriesAmount rf"
    "lastSnapshotTerm rf1 = lastSnapshotTerm rf" "currentTerm rf1 = aea_Term args"
    by (simp_all add: appended(5))
  note view = spliced_view(2,3) [OF assms(1) appended(3,4) logs1(1,2)]
  have "term_at rf1 (aea_PrevLogIndex args) = term_at rf (aea_PrevLogIndex args)"
    using view(2) logs1(2,3) by (simp add: term_at_def)
  then have match: "prev_matches rf1 args"
    using appended(4) view(1) logs1(2) by (simp add: prev_matches_def)
  have "nat (aea_PrevLogIndex args - snapshotEntriesAmount rf + 1) \<le> length (logs rf)"
    using appended(4) by (auto simp: prev_matches_def log_index_defs)
  then have "spliced rf1 args = spliced rf args"
    unfolding spliced_def logs1(2) by (simp add: logs1(1) spliced_def)
  with AppendEntriesWithLock_closed [OF ok1 appended(3), of ev'] match logs1 show ?thesis
    by (simp add: appended(5))
qed auto

theorem append_idempotent_witness:
  "\<exists>rf1 r1 rf2 r2.
     AppendEntriesWithLock \<lparr>now = 1, rnd = 1\<rparr> (peer3 1)
       \<lparr>aea_Term = 2, aea_LeaderId = 0, aea_PrevLogIndex = 0, aea_PrevLogTerm = -1,
        aea_Entries = [\<lparr>Term = 2, Action = Cmd 8\<rparr>], aea_LeaderCommit = 0\<rparr> = Inr (rf1, r1, True) \<and>
     AppendEntriesWithLock \<lparr>now = 2, rnd = 2\<rparr> rf1
       \<lparr>aea_Term = 2, aea_LeaderId = 0, aea_PrevLogIndex = 0, aea_PrevLogTerm = -1,
        aea_Entries = [\<lparr>Term = 2, Action = Cmd 8\<rparr>], aea_LeaderCommit = 0\<rparr> = Inr (rf2, r2, True) \<and>
     logs rf2 = logs rf1"
proof -
  let ?args = "\<lparr>aea_Term = 2, aea_LeaderId = 0, aea_PrevLogIndex = 0, aea_PrevLogTerm = -1,
    aea_Entries = [\<lparr>Term = 2, Action = Cmd 8\<rparr>], aea_LeaderCommit = 0\<rparr>"
  have "prev_matches (peer3 1) ?args" "\<not> 2 < currentTerm (peer3 1)" by code_simp+
  with AppendEntriesWithLock_closed [OF peer3_ok, of 1 ?args "\<lparr>now = 1, rnd = 1\<rparr>"]
  obtain rf1 r1 where "AppendEntriesWithLock \<lparr>now = 1, rnd = 1\<rparr> (peer3 1) ?args =
      Inr (rf1, r1, True)" by auto
  with append_idempotent [OF peer3_ok this, of "\<lparr>now = 2, rnd = 2\<rparr>"] show ?thesis by auto
qed

text \<open>
  C13. Backing off makes progress. Let \<open>nextIndex\<close> of a peer be at least 1 and at most one past
  the end of the log. A leader that is refused by this peer lowers it, and only it, strictly, down to a floor (the first entry after its snapshot, or
  entry 1); so repeated refusals reach the floor, where a leader that has a snapshot sends
  it. The request it builds from there on is within its log.
\<close>

theorem backoff_progress:
  assumes "raft_ok rf" "0 \<le> server" "server < int (length (nextIndex rf))"
    "1 \<le> nextIndex rf ! nat server" "nextIndex rf ! nat server \<le> getLastLogEntryIndex rf + 1"
  shows "\<exists>n ts. backoff rf server = Inr (rf\<lparr>nextIndex := (nextIndex rf)[nat server := n]\<rparr>, ts) \<and>
    max 1 (snapshotEntriesAmount rf) \<le> n \<and> n \<le> getLastLogEntryIndex rf + 1 \<and>
    (n < nextIndex rf ! nat server \<or> n = max 1 (snapshotEntriesAmount rf)) \<and>
    (n = snapshotEntriesAmount rf \<longrightarrow> ts = [SendInstallSnapshot server])"
proof -
  from backoff_spec [OF assms] obtain n where n:
    "backoff rf server = Inr (rf\<lparr>nextIndex := (nextIndex rf)[nat server := n]\<rparr>,
      if n \<le> snapshotEntriesAmount rf \<and> snapshotEntriesAmount rf > 0
      then [SendInstallSnapshot server] else [])"
    "max 1 (snapshotEntriesAmount rf) \<le> n"
    "n \<le> max (max 1 (snapshotEntriesAmount rf)) (nextIndex rf ! nat server - 1)" .
  have "max 1 (snapshotEntriesAmount rf) \<le> getLastLogEntryIndex rf + 1"
    using log_ok_last_nonneg [OF raft_okD(1) [OF assms(1)]]
      raft_log.top_base [OF raft_okD(1) [OF assms(1)]] by simp
  moreover have "n = snapshotEntriesAmount rf \<Longrightarrow> snapshotEntriesAmount rf > 0" using n(2) by simp
  moreover have "n < nextIndex rf ! nat server \<or> n = max 1 (snapshotEntriesAmount rf)"
    "n \<le> max (max 1 (snapshotEntriesAmount rf)) (getLastLogEntryIndex rf + 1)"
    using n(2,3) assms(5) by linarith+
  ultimately have "n \<le> getLastLogEntryIndex rf + 1"
    "n = snapshotEntriesAmount rf \<longrightarrow> (if n \<le> snapshotEntriesAmount rf \<and> snapshotEntriesAmount rf > 0
      then [SendInstallSnapshot server] else []) = [SendInstallSnapshot server]"
    "n < nextIndex rf ! nat server \<or> n = max 1 (snapshotEntriesAmount rf)" by simp_all
  with n(1,2) show ?thesis by blast
qed

theorem backoff_progress_witness:
  "\<exists>n ts. backoff (leader3\<lparr>nextIndex := [1, 2, 1]\<rparr>) 1 =
     Inr (leader3\<lparr>nextIndex := [1, n, 1]\<rparr>, ts) \<and> n = 1"
proof -
  let ?rf = "leader3\<lparr>nextIndex := [1, 2, 1]\<rparr>"
  have "raft_ok ?rf" "getLastLogEntryIndex ?rf = 1" "snapshotEntriesAmount ?rf = 0" by code_simp+
  with backoff_progress [of ?rf 1] show ?thesis by auto
qed

end
