(* ===== verification/Raft_Snapshot.thy ===== *)
theory Raft_Snapshot
  imports Raft_Append
begin

text \<open>
  raft/installSnapshot.go: log compaction by the service and the InstallSnapshot RPC.
  A snapshot that covers the entries up to an index takes their place: from that index on
  the log is what it was.
\<close>

record 's installSnapshotArgs =
  isa_Term :: int
  isa_LeaderId :: int
  isa_LastIncludedIndex :: int
  isa_LastIncludedTerm :: int
  isa_Data :: "'s list"

record installSnapshotReply =
  isr_Term :: int

section \<open>The service's side\<close>

definition CondInstallSnapshot :: "('c, 's) raft \<Rightarrow> int \<Rightarrow> int \<Rightarrow> 's list \<Rightarrow> bool" where
  "CondInstallSnapshot rf lastIncludedTerm lastIncludedIndex snap = True"

definition SnapshotCall :: "('c, 's) raft \<Rightarrow> int \<Rightarrow> 's list \<Rightarrow> ('c, 's) raft res" where
  "SnapshotCall rf index snap =
     (if snapshotEntriesAmount rf - 1 \<ge> index \<or> index > commitIndex rf then Inr rf
      else res_bind (getLogEntryAtIndex rf index) (\<lambda>e.
           let rf1 = rf\<lparr>lastSnapshotTerm := Term e\<rparr> in
           res_bind (getLogEntryStartingAt rf1 (index + 1)) (\<lambda>l.
           let rf2 = rf1\<lparr>logs := l\<rparr>;
               rf3 = rf2\<lparr>snapshotEntriesAmount := index + 1\<rparr>;
               rf4 = (if index > lastApplied rf3 then rf3\<lparr>lastApplied := index\<rparr> else rf3)
           in Inr (persistAndSnapshot rf4 snap))))"

section \<open>Receiver side\<close>

definition InstallSnapshotLocked ::
  "env \<Rightarrow> ('c, 's) raft \<Rightarrow> 's installSnapshotArgs \<Rightarrow>
   (('c, 's) raft \<times> installSnapshotReply \<times> bool \<times> ('c, 's) applyMsg) res" where
  "InstallSnapshotLocked ev rf args =
     (if isa_Term args < currentTerm rf
      then Inr (rf, \<lparr>isr_Term = currentTerm rf\<rparr>, False, emptyApplyMsg)
      else
        let rf1 = persist (becomeFollower ev rf (isa_Term args) (-1));
            reply = \<lparr>isr_Term = currentTerm rf1\<rparr>
        in if snapshotEntriesAmount rf1 > isa_LastIncludedIndex args
           then Inr (rf1, reply, False, emptyApplyMsg)
           else
             let rf2 = rf1\<lparr>lastSnapshotTerm := isa_LastIncludedTerm args\<rparr> in
             res_bind (getLogEntryStartingAt rf2 (isa_LastIncludedIndex args + 1)) (\<lambda>l.
             let rf3 = rf2\<lparr>logs := l\<rparr>;
                 rf4 = rf3\<lparr>snapshotEntriesAmount := isa_LastIncludedIndex args + 1\<rparr>;
                 rf5 = persistAndSnapshot rf4 (isa_Data args)
             in Inr (rf5, reply, True,
                     emptyApplyMsg\<lparr>CommandValid := False, SnapshotValid := True,
                       Snapshot := isa_Data args, SnapshotTerm := lastSnapshotTerm rf5,
                       SnapshotIndex := snapshotEntriesAmount rf5 - 1\<rparr>)))"

text \<open>The handler drops the message that the locked section built.\<close>

definition InstallSnapshot ::
  "env \<Rightarrow> ('c, 's) raft \<Rightarrow> 's installSnapshotArgs \<Rightarrow>
   (('c, 's) raft \<times> installSnapshotReply) res" where
  "InstallSnapshot ev rf args =
     res_bind (InstallSnapshotLocked ev rf args) (\<lambda>(rf', reply, ok, msg). Inr (rf', reply))"

section \<open>Sender side\<close>

definition createInstallSnapshotArgs :: "('c, 's) raft \<Rightarrow> 's installSnapshotArgs" where
  "createInstallSnapshotArgs rf =
     \<lparr>isa_Term = currentTerm rf, isa_LeaderId = me rf,
      isa_LastIncludedIndex = snapshotEntriesAmount rf - 1,
      isa_LastIncludedTerm = lastSnapshotTerm rf,
      isa_Data = ReadSnapshot (persister rf)\<rparr>"

text \<open>
  The second section of \<open>handleSendInstallSnapshot\<close>. It moves the tables when the RPC did
  not come back, as the source does.
\<close>

definition handleInstallSnapshotReply ::
  "env \<Rightarrow> ('c, 's) raft \<Rightarrow> int \<Rightarrow> 's installSnapshotArgs \<Rightarrow> installSnapshotReply option \<Rightarrow>
   ('c, 's) raft res" where
  "handleInstallSnapshotReply ev rf server args ok =
     (case ok of
        Some reply \<Rightarrow>
          Inr (if currentTerm rf < isr_Term reply
               then becomeFollower ev rf (isr_Term reply) (-1) else rf)
      | None \<Rightarrow>
          res_bind (go_update (nextIndex rf) server (isa_LastIncludedIndex args + 1)) (\<lambda>ni.
          res_bind (go_update (matchIndex rf) server (isa_LastIncludedIndex args)) (\<lambda>mi.
            Inr (rf\<lparr>nextIndex := ni, matchIndex := mi\<rparr>))))"

section \<open>Compaction\<close>

text \<open>The log and the snapshot extent after entries up to \<open>index\<close> were dropped.\<close>

lemma compacted_view:
  assumes "snapshotEntriesAmount rf \<le> index" "0 \<le> index"
    "logs rf' = drop (nat (index + 1 - snapshotEntriesAmount rf)) (logs rf)"
    "snapshotEntriesAmount rf' = index + 1"
  shows "log_ok rf'"
    and "getLastLogEntryIndex rf' = max (getLastLogEntryIndex rf) index"
    and "log_at rf' i = (if index < i then log_at rf i else None)"
proof -
  show "log_ok rf'" using assms(2,4) by (simp add: log_ok_def)
  show last: "getLastLogEntryIndex rf' = max (getLastLogEntryIndex rf) index"
    using assms(1,3,4) by (auto simp: log_index_defs)
  show "log_at rf' i = (if index < i then log_at rf i else None)"
  proof (cases "index < i \<and> i \<le> getLastLogEntryIndex rf")
    case True
    have "nat (index + 1 - snapshotEntriesAmount rf) + nat (i - (index + 1))
        = nat (i - snapshotEntriesAmount rf)"
      using True assms(1) by linarith
    with True assms last show ?thesis by (auto simp: log_at_def log_index_defs)
  next
    case False
    with assms last show ?thesis by (auto simp: log_at_def)
  qed
qed

lemma SnapshotCall_cases:
  assumes "raft_ok rf" "SnapshotCall rf index snap = Inr rf'"
  obtains (skipped) "rf' = rf" "index \<le> snapshotEntriesAmount rf - 1 \<or> commitIndex rf < index"
  | (taken) e where "snapshotEntriesAmount rf \<le> index" "index \<le> commitIndex rf"
      "log_at rf index = Some e"
      "rf' = persistAndSnapshot (rf\<lparr>lastSnapshotTerm := Term e,
         logs := drop (nat (index + 1 - snapshotEntriesAmount rf)) (logs rf),
         snapshotEntriesAmount := index + 1, lastApplied := max (lastApplied rf) index\<rparr>) snap"
proof (cases "snapshotEntriesAmount rf - 1 \<ge> index \<or> index > commitIndex rf")
  case True
  with assms(2) show ?thesis by (intro skipped) (auto simp: SnapshotCall_def)
next
  case False
  with assms(2) obtain e where e: "getLogEntryAtIndex rf index = Inr e"
    by (auto simp: SnapshotCall_def)
  then have at: "log_at rf index = Some e"
    by (simp add: getLogEntryAtIndex_Inr [OF raft_okD(1) [OF assms(1)]])
  have "getLogEntryStartingAt (rf\<lparr>lastSnapshotTerm := Term e\<rparr>) (index + 1)
      = Inr (drop (nat (index + 1 - snapshotEntriesAmount rf)) (logs rf))"
    using False by (subst getLogEntryStartingAt_ok) auto
  moreover have "rf\<lparr>lastSnapshotTerm := t, logs := l, snapshotEntriesAmount := a,
      lastApplied := lastApplied rf\<rparr> = rf\<lparr>lastSnapshotTerm := t, logs := l,
      snapshotEntriesAmount := a\<rparr>" for t l a by (cases rf) simp
  ultimately have "rf' = persistAndSnapshot (rf\<lparr>lastSnapshotTerm := Term e,
         logs := drop (nat (index + 1 - snapshotEntriesAmount rf)) (logs rf),
         snapshotEntriesAmount := index + 1, lastApplied := max (lastApplied rf) index\<rparr>) snap"
    using assms(2) False e by (auto simp: SnapshotCall_def Let_def max_def)
  with False at show ?thesis by (intro taken) auto
qed

lemma SnapshotCall_total:
  assumes "raft_ok rf" "commitIndex rf \<le> getLastLogEntryIndex rf"
  shows "\<exists>rf'. SnapshotCall rf index snap = Inr rf'"
proof (cases "snapshotEntriesAmount rf - 1 \<ge> index \<or> index > commitIndex rf")
  case True
  then show ?thesis by (simp add: SnapshotCall_def)
next
  case False
  then obtain e where "getLogEntryAtIndex rf index = Inr e"
    using getLogEntryAtIndex_ok [OF raft_okD(1) [OF assms(1)], of index] assms(2) by fastforce
  moreover have "\<exists>l. getLogEntryStartingAt (rf\<lparr>lastSnapshotTerm := Term e\<rparr>) (index + 1) = Inr l"
    using False by (subst getLogEntryStartingAt_ok) auto
  ultimately show ?thesis using False by (auto simp: SnapshotCall_def Let_def)
qed

text \<open>Compaction as refinement: from \<open>index\<close> on, entries and terms are what they were.\<close>

lemma SnapshotCall_refines:
  assumes "raft_ok rf" "SnapshotCall rf index snap = Inr rf'"
  shows "raft_ok rf'" "getLastLogEntryIndex rf' = getLastLogEntryIndex rf"
    "snapshotEntriesAmount rf' \<le> i \<Longrightarrow> log_at rf' i = log_at rf i"
    "snapshotEntriesAmount rf' - 1 \<le> i \<Longrightarrow> term_at rf' i = term_at rf i"
    "currentTerm rf' = currentTerm rf \<and> me rf' = me rf \<and> npeers rf' = npeers rf"
    "commitIndex rf' = commitIndex rf" "lastApplied rf \<le> lastApplied rf'"
proof -
  from assms have "raft_ok rf' \<and> getLastLogEntryIndex rf' = getLastLogEntryIndex rf \<and>
    (snapshotEntriesAmount rf' \<le> i \<longrightarrow> log_at rf' i = log_at rf i) \<and>
    (snapshotEntriesAmount rf' - 1 \<le> i \<longrightarrow> term_at rf' i = term_at rf i) \<and>
    (currentTerm rf' = currentTerm rf \<and> me rf' = me rf \<and> npeers rf' = npeers rf) \<and>
    commitIndex rf' = commitIndex rf \<and> lastApplied rf \<le> lastApplied rf'"
  proof (cases rule: SnapshotCall_cases)
    case skipped
    with assms(1) show ?thesis by simp
  next
    case (taken e)
    have idx: "0 \<le> index" "index \<le> getLastLogEntryIndex rf"
      using taken(1,3) raft_okD(1) [OF assms(1)]
      by (auto simp: log_ok_def log_at_def split: if_splits)
    have same: "logs rf' = drop (nat (index + 1 - snapshotEntriesAmount rf)) (logs rf)"
      "snapshotEntriesAmount rf' = index + 1" "lastSnapshotTerm rf' = Term e"
      by (simp_all add: taken(4))
    note view = compacted_view [OF taken(1) idx(1) same(1,2)]
    have "raft_ok rf'" using assms(1) view(1) by (simp add: taken(4) raft_ok_def)
    moreover have "term_at rf' i = term_at rf i" if "index \<le> i"
      using that view(3) [of i] taken(1,3) same by (auto simp: term_at_def)
    ultimately show ?thesis
      using view(2,3) idx same(2) by (simp add: taken(4))
  qed
  then show "raft_ok rf'" "getLastLogEntryIndex rf' = getLastLogEntryIndex rf"
    "snapshotEntriesAmount rf' \<le> i \<Longrightarrow> log_at rf' i = log_at rf i"
    "snapshotEntriesAmount rf' - 1 \<le> i \<Longrightarrow> term_at rf' i = term_at rf i"
    "currentTerm rf' = currentTerm rf \<and> me rf' = me rf \<and> npeers rf' = npeers rf"
    "commitIndex rf' = commitIndex rf" "lastApplied rf \<le> lastApplied rf'"
    by blast+
qed

interpretation snapshot_op: peer_op
  "\<lambda>rf rf'. \<exists>index snap. SnapshotCall rf index snap = Inr rf'"
  by unfold_locales (use SnapshotCall_refines(1,5) in fastforce)+

section \<open>Installing a leader's snapshot\<close>

definition installed ::
  "env \<Rightarrow> ('c, 's) raft \<Rightarrow> 's installSnapshotArgs \<Rightarrow> ('c, 's) raft" where
  "installed ev rf args =
     persistAndSnapshot ((persist (becomeFollower ev rf (isa_Term args) (-1)))
       \<lparr>lastSnapshotTerm := isa_LastIncludedTerm args,
        logs := drop (nat (isa_LastIncludedIndex args + 1 - snapshotEntriesAmount rf)) (logs rf),
        snapshotEntriesAmount := isa_LastIncludedIndex args + 1\<rparr>) (isa_Data args)"

lemma InstallSnapshot_closed:
  "InstallSnapshot ev rf args = Inr
    (if isa_Term args < currentTerm rf then (rf, \<lparr>isr_Term = currentTerm rf\<rparr>)
     else (if isa_LastIncludedIndex args < snapshotEntriesAmount rf
           then persist (becomeFollower ev rf (isa_Term args) (-1))
           else installed ev rf args, \<lparr>isr_Term = isa_Term args\<rparr>))"
proof (cases "isa_Term args < currentTerm rf \<or> isa_LastIncludedIndex args < snapshotEntriesAmount rf")
  case True
  then show ?thesis by (auto simp: InstallSnapshot_def InstallSnapshotLocked_def Let_def)
next
  case False
  let ?rf = "(persist (becomeFollower ev rf (isa_Term args) (-1)))
    \<lparr>lastSnapshotTerm := isa_LastIncludedTerm args\<rparr>"
  have "getLogEntryStartingAt ?rf (isa_LastIncludedIndex args + 1) =
      Inr (drop (nat (isa_LastIncludedIndex args + 1 - snapshotEntriesAmount rf)) (logs rf))"
    using False by (subst getLogEntryStartingAt_ok) auto
  with False show ?thesis
    by (simp add: InstallSnapshot_def InstallSnapshotLocked_def Let_def installed_def)
qed

lemma installed_view:
  assumes "raft_ok rf" "snapshotEntriesAmount rf \<le> isa_LastIncludedIndex args"
  shows "raft_ok (installed ev rf args)"
    and "getLastLogEntryIndex (installed ev rf args)
      = max (getLastLogEntryIndex rf) (isa_LastIncludedIndex args)"
    and "log_at (installed ev rf args) i =
      (if isa_LastIncludedIndex args < i then log_at rf i else None)"
    and "term_at (installed ev rf args) (isa_LastIncludedIndex args)
      = Some (isa_LastIncludedTerm args)"
proof -
  have "0 \<le> isa_LastIncludedIndex args"
    using assms raft_okD(1) [OF assms(1)] by (simp add: log_ok_def)
  note view = compacted_view [OF assms(2) this, of "installed ev rf args"]
  show "raft_ok (installed ev rf args)"
    using assms(1) view(1) by (simp add: installed_def raft_ok_def)
  show "getLastLogEntryIndex (installed ev rf args)
      = max (getLastLogEntryIndex rf) (isa_LastIncludedIndex args)"
    "log_at (installed ev rf args) i = (if isa_LastIncludedIndex args < i then log_at rf i else None)"
    using view(2,3) by (simp_all add: installed_def)
  show "term_at (installed ev rf args) (isa_LastIncludedIndex args)
      = Some (isa_LastIncludedTerm args)"
    by (simp add: term_at_def installed_def)
qed

lemma InstallSnapshot_contract:
  assumes "raft_ok rf" "InstallSnapshot ev rf args = Inr (rf', reply)"
  shows "raft_ok rf' \<and> currentTerm rf \<le> currentTerm rf' \<and> me rf' = me rf \<and> npeers rf' = npeers rf"
proof (cases "isa_Term args < currentTerm rf \<or> isa_LastIncludedIndex args < snapshotEntriesAmount rf")
  case True
  with assms show ?thesis by (auto simp: InstallSnapshot_closed split: if_splits)
next
  case False
  then have "rf' = installed ev rf args" using assms(2) by (auto simp: InstallSnapshot_closed)
  with False installed_view(1) [OF assms(1), of args ev] show ?thesis
    by (simp add: installed_def)
qed

interpretation install_op: peer_op
  "\<lambda>rf rf'. \<exists>ev args reply. InstallSnapshot ev rf args = Inr (rf', reply)"
  by unfold_locales (use InstallSnapshot_contract in blast)+

lemma handleInstallSnapshotReply_contract:
  assumes "raft_ok rf" "handleInstallSnapshotReply ev rf server args ok = Inr rf'"
  shows "raft_ok rf' \<and> currentTerm rf \<le> currentTerm rf' \<and> me rf' = me rf \<and> npeers rf' = npeers rf"
proof (cases ok)
  case None
  with assms(2) have "tables_step rf rf'"
    by (auto simp: handleInstallSnapshotReply_def go_update_Inr tables_step_def)
  from tables_step_contract [OF this assms(1)] show ?thesis by simp
next
  case (Some reply)
  with assms show ?thesis by (auto simp: handleInstallSnapshotReply_def)
qed

interpretation install_reply_op: peer_op
  "\<lambda>rf rf'. \<exists>ev server args ok. handleInstallSnapshotReply ev rf server args ok = Inr rf'"
  by unfold_locales (use handleInstallSnapshotReply_contract in blast)+

section \<open>Properties\<close>

text \<open>
  C12. Compaction is a refinement. With the commit index within the log, \<open>Snapshot\<close>
  never fails; whatever the index, the last index, the commit index and every entry and
  term above the new snapshot are what they were. A snapshot that is taken, for an index
  that is committed and not compacted yet, is on stable storage together with the log that
  remains, and its index and term are those of the last entry it replaced.
\<close>

theorem snapshot_refines:
  assumes "raft_ok rf" "commitIndex rf \<le> getLastLogEntryIndex rf"
  shows "\<exists>rf'. SnapshotCall rf index snap = Inr rf' \<and> raft_ok rf' \<and>
    getLastLogEntryIndex rf' = getLastLogEntryIndex rf \<and> commitIndex rf' = commitIndex rf \<and>
    (\<forall>i \<ge> snapshotEntriesAmount rf'. log_at rf' i = log_at rf i) \<and>
    (\<forall>i \<ge> snapshotEntriesAmount rf' - 1. term_at rf' i = term_at rf i) \<and>
    (snapshotEntriesAmount rf \<le> index \<and> index \<le> commitIndex rf \<longrightarrow>
       snapshotEntriesAmount rf' = index + 1 \<and> ReadSnapshot (persister rf') = snap \<and>
       index \<le> lastApplied rf')"
proof -
  from SnapshotCall_total [OF assms] obtain rf' where rf': "SnapshotCall rf index snap = Inr rf'"
    by blast
  from assms(1) rf' have "snapshotEntriesAmount rf \<le> index \<and> index \<le> commitIndex rf \<longrightarrow>
       snapshotEntriesAmount rf' = index + 1 \<and> ReadSnapshot (persister rf') = snap \<and>
       index \<le> lastApplied rf'"
    by (cases rule: SnapshotCall_cases) (auto simp: ReadSnapshot_def)
  with rf' SnapshotCall_refines [OF assms(1) rf'] show ?thesis by blast
qed

theorem snapshot_refines_witness:
  "\<exists>rf'. SnapshotCall (leader3\<lparr>commitIndex := 1\<rparr>) 0 [7, 8] = Inr rf' \<and>
    snapshotEntriesAmount rf' = 1 \<and> log_at rf' 1 = Some \<lparr>Term = 1, Action = Cmd 42\<rparr>"
proof -
  let ?rf = "leader3\<lparr>commitIndex := 1\<rparr>"
  have "raft_ok ?rf" "commitIndex ?rf \<le> getLastLogEntryIndex ?rf" "snapshotEntriesAmount ?rf = 0"
    "log_at ?rf 1 = Some \<lparr>Term = 1, Action = Cmd 42\<rparr>" by code_simp+
  with snapshot_refines [of ?rf 0 "[7, 8]"] show ?thesis by force
qed

text \<open>
  A snapshot lets a peer that lags catch up. A snapshot of the leader that reaches
  beyond what the follower compacted itself is installed: it is stored, the log starts
  behind it, and entries the follower holds behind it stay. Whatever its log was before, it
  then accepts the next request of the leader's term that starts at the end of the snapshot.
\<close>

theorem install_then_append:
  assumes "raft_ok rf" "currentTerm rf \<le> isa_Term args"
    "snapshotEntriesAmount rf \<le> isa_LastIncludedIndex args"
    "InstallSnapshot ev rf args = Inr (rf1, reply)"
    "aea_Term next = isa_Term args" "aea_PrevLogIndex next = isa_LastIncludedIndex args"
    "aea_PrevLogTerm next = isa_LastIncludedTerm args"
  shows "ReadSnapshot (persister rf1) = isa_Data args \<and>
    snapshotEntriesAmount rf1 = isa_LastIncludedIndex args + 1 \<and>
    (\<forall>i > isa_LastIncludedIndex args. log_at rf1 i = log_at rf i) \<and>
    (\<exists>rf2 r. AppendEntriesWithLock ev' rf1 next = Inr (rf2, r, True) \<and> aer_Success r \<and>
       logs rf2 = aea_Entries next)"
proof -
  from assms(2-4) have rf1: "rf1 = installed ev rf args" by (auto simp: InstallSnapshot_closed)
  note view = installed_view [OF assms(1,3), of ev]
  have amount: "snapshotEntriesAmount rf1 = isa_LastIncludedIndex args + 1"
    "currentTerm rf1 = isa_Term args" "ReadSnapshot (persister rf1) = isa_Data args"
    by (simp_all add: rf1 installed_def ReadSnapshot_def)
  have pos: "0 \<le> aea_PrevLogIndex next"
    using assms(3,6) raft_okD(1) [OF assms(1)] by (simp add: log_ok_def)
  have "prev_matches rf1 next"
    using view(2,4) assms(6,7) amount(1) by (simp add: prev_matches_def rf1)
  moreover have "spliced rf1 next = aea_Entries next"
    using assms(6) amount(1) by (simp add: spliced_def)
  ultimately have "\<exists>rf2 r. AppendEntriesWithLock ev' rf1 next = Inr (rf2, r, True) \<and>
      aer_Success r \<and> logs rf2 = aea_Entries next"
    using AppendEntriesWithLock_closed [OF view(1) [folded rf1] pos, of ev'] assms(5) amount(2)
    by (simp add: emptyAppendEntriesReply_def)
  with amount(1,3) view(3) show ?thesis by (simp add: rf1)
qed

theorem install_then_append_witness:
  "\<exists>rf1 reply rf2 r. InstallSnapshot \<lparr>now = 1, rnd = 0\<rparr> (peer3 2) \<lparr>isa_Term = 4, isa_LeaderId = 0,
       isa_LastIncludedIndex = 6, isa_LastIncludedTerm = 3, isa_Data = [11]\<rparr> = Inr (rf1, reply) \<and>
     AppendEntriesWithLock \<lparr>now = 2, rnd = 0\<rparr> rf1 \<lparr>aea_Term = 4, aea_LeaderId = 0,
       aea_PrevLogIndex = 6, aea_PrevLogTerm = 3, aea_Entries = [], aea_LeaderCommit = 6\<rparr>
       = Inr (rf2, r, True) \<and> aer_Success r \<and> snapshotEntriesAmount rf1 = 7"
proof -
  let ?a = "\<lparr>isa_Term = 4, isa_LeaderId = 0, isa_LastIncludedIndex = 6, isa_LastIncludedTerm = 3,
    isa_Data = [11]\<rparr>"
  have "currentTerm (peer3 2) \<le> isa_Term ?a"
    "snapshotEntriesAmount (peer3 2) \<le> isa_LastIncludedIndex ?a" by code_simp+
  moreover obtain rf1 reply where "InstallSnapshot \<lparr>now = 1, rnd = 0\<rparr> (peer3 2) ?a = Inr (rf1, reply)"
    by (metis InstallSnapshot_closed prod.exhaust)
  ultimately show ?thesis
    using install_then_append [OF peer3_ok, of 2 ?a "\<lparr>now = 1, rnd = 0\<rparr>" rf1 reply
        "\<lparr>aea_Term = 4, aea_LeaderId = 0, aea_PrevLogIndex = 6, aea_PrevLogTerm = 3,
          aea_Entries = [], aea_LeaderCommit = 6\<rparr>" "\<lparr>now = 2, rnd = 0\<rparr>"] by auto
qed

end
