(* ===== verification/Raft_Cluster.thy ===== *)
theory Raft_Cluster
  imports Raft_Snapshot
begin

text \<open>
  A group of peers over the network of labrpc: the goroutines that were started and have
  not run yet (\<open>todo\<close>), the RPCs in flight (\<open>calls\<close>), and what each peer sent on its
  \<open>applyCh\<close> (\<open>chan\<close>). Goroutines run and RPCs arrive in any order; an RPC is
  executed at most once, and it or its reply may be lost, after which the caller sees that
  \<open>Call\<close> returned false. A peer may crash at any time and restart from its persister.
  The model lets a reply overtake the \<open>commitToApplyChannel\<close> of its handler, which the
  program does not; the runs shown below do not use that freedom.
\<close>

datatype ('c, 's) call =
    ReqRV int int requestVoteArgs
  | RepRV int int requestVoteArgs "requestVoteReply option"
  | ReqAE int int "'c appendEntriesArgs"
  | RepAE int int "'c appendEntriesArgs" "appendEntriesReply option"
  | ReqIS int int "'s installSnapshotArgs"
  | RepIS int int "'s installSnapshotArgs" "installSnapshotReply option"

type_synonym ('c, 's) nodes = "int \<Rightarrow> ('c, 's) raft"

record ('c, 's) cluster =
  node :: "('c, 's) nodes"
  todo :: "(int \<times> task) list"
  calls :: "('c, 's) call list"
  chan :: "int \<Rightarrow> ('c, 's) applyMsg list"

section \<open>Steps\<close>

text \<open>A goroutine runs up to the RPC it makes.\<close>

fun launch :: "('c, 's) nodes \<Rightarrow> int \<Rightarrow> task \<Rightarrow>
  (('c, 's) nodes \<times> ('c, 's) call list \<times> (int \<times> task) list) res" where
  "launch nd i (SendRequestVote j) =
     res_bind (getRequestVoteArgs (nd i)) (\<lambda>args. Inr (nd, [ReqRV i j args], []))"
| "launch nd i (SendAppendEntries j) =
     res_bind (handleSendAppendEntries (nd i) j) (\<lambda>(rf, ts, req).
       Inr (nd(i := rf), case req of None \<Rightarrow> [] | Some args \<Rightarrow> [ReqAE i j args],
            map (Pair i) ts))"
| "launch nd i (SendInstallSnapshot j) =
     Inr (nd, [ReqIS i j (createInstallSnapshotArgs (nd i))], [])"
| "launch nd i CommitToApply = Inl (GoPanic ''not a sender'')"

text \<open>The receiver executes a request; the reply is in flight afterwards.\<close>

fun serve :: "env \<Rightarrow> ('c, 's) nodes \<Rightarrow> ('c, 's) call \<Rightarrow>
  (('c, 's) nodes \<times> ('c, 's) call \<times> (int \<times> task) list) res" where
  "serve ev nd (ReqRV i j args) =
     res_bind (RequestVote ev (nd j) args) (\<lambda>(rf, reply).
       Inr (nd(j := rf), RepRV i j args (Some reply), []))"
| "serve ev nd (ReqAE i j args) =
     res_bind (AppendEntries ev (nd j) args) (\<lambda>(rf, reply, ts).
       Inr (nd(j := rf), RepAE i j args (Some reply), map (Pair j) ts))"
| "serve ev nd (ReqIS i j args) =
     res_bind (InstallSnapshot ev (nd j) args) (\<lambda>(rf, reply).
       Inr (nd(j := rf), RepIS i j args (Some reply), []))"
| "serve ev nd _ = Inl (GoPanic ''not a request'')"

text \<open>The caller resumes with the reply, or with the news that there is none.\<close>

fun finish :: "env \<Rightarrow> ('c, 's) nodes \<Rightarrow> ('c, 's) call \<Rightarrow>
  (('c, 's) nodes \<times> (int \<times> task) list) res" where
  "finish ev nd (RepRV i j args ok) =
     (let (rf, ts) = handleRequestVoteReply ev (nd i) ok in Inr (nd(i := rf), map (Pair i) ts))"
| "finish ev nd (RepAE i j args ok) =
     res_bind (handleAppendEntriesReply ev (nd i) j args ok) (\<lambda>(rf, ts).
       Inr (nd(i := rf), map (Pair i) ts))"
| "finish ev nd (RepIS i j args ok) =
     res_bind (handleInstallSnapshotReply ev (nd i) j args ok) (\<lambda>rf.
       Inr (nd(i := rf), []))"
| "finish ev nd _ = Inl (GoPanic ''not a reply'')"

fun lose :: "('c, 's) call \<Rightarrow> ('c, 's) call" where
  "lose (ReqRV i j args) = RepRV i j args None"
| "lose (RepRV i j args ok) = RepRV i j args None"
| "lose (ReqAE i j args) = RepAE i j args None"
| "lose (RepAE i j args ok) = RepAE i j args None"
| "lose (ReqIS i j args) = RepIS i j args None"
| "lose (RepIS i j args ok) = RepIS i j args None"

fun caller :: "('c, 's) call \<Rightarrow> int" where
  "caller (ReqRV i j args) = i"
| "caller (RepRV i j args ok) = i"
| "caller (ReqAE i j args) = i"
| "caller (RepAE i j args ok) = i"
| "caller (ReqIS i j args) = i"
| "caller (RepIS i j args ok) = i"

inductive cluster_step :: "nat \<Rightarrow> ('c, 's) cluster \<Rightarrow> ('c, 's) cluster \<Rightarrow> bool" for n where
  tick: "ticker ev (node s i) = (rf, ts) \<Longrightarrow>
    cluster_step n s (s\<lparr>node := (node s)(i := rf), todo := todo s @ map (Pair i) ts\<rparr>)"
| start: "Start (node s i) c = (r, rf) \<Longrightarrow>
    cluster_step n s (s\<lparr>node := (node s)(i := rf)\<rparr>)"
| launch: "(i, tk) \<in> set (todo s) \<Longrightarrow> launch (node s) i tk = Inr (nd, cs, ts) \<Longrightarrow>
    cluster_step n s (s\<lparr>node := nd, todo := remove1 (i, tk) (todo s) @ ts, calls := calls s @ cs\<rparr>)"
| serve: "c \<in> set (calls s) \<Longrightarrow> serve ev (node s) c = Inr (nd, c', ts) \<Longrightarrow>
    cluster_step n s (s\<lparr>node := nd, todo := todo s @ ts, calls := remove1 c (calls s) @ [c']\<rparr>)"
| finish: "c \<in> set (calls s) \<Longrightarrow> finish ev (node s) c = Inr (nd, ts) \<Longrightarrow>
    cluster_step n s (s\<lparr>node := nd, todo := todo s @ ts, calls := remove1 c (calls s)\<rparr>)"
| lose: "c \<in> set (calls s) \<Longrightarrow>
    cluster_step n s (s\<lparr>calls := remove1 c (calls s) @ [lose c]\<rparr>)"
| deliver: "(i, CommitToApply) \<in> set (todo s) \<Longrightarrow>
    commitToApplyChannel (node s i) (chan s i) = Inr (rf, ch) \<Longrightarrow>
    cluster_step n s (s\<lparr>node := (node s)(i := rf), chan := (chan s)(i := ch),
      todo := remove1 (i, CommitToApply) (todo s)\<rparr>)"
| snapshot: "index \<le> lastApplied (node s i) \<Longrightarrow>
    SnapshotCall (node s i) index data = Inr rf \<Longrightarrow>
    cluster_step n s (s\<lparr>node := (node s)(i := rf)\<rparr>)"
| crash: "Make ev n i (persister (node s i)) = Inr rf \<Longrightarrow>
    cluster_step n s (s\<lparr>node := (node s)(i := rf), chan := (chan s)(i := []),
      todo := filter (\<lambda>(j, tk). j \<noteq> i) (todo s), calls := filter (\<lambda>c. caller c \<noteq> i) (calls s)\<rparr>)"

text \<open>The services call \<open>Snapshot\<close> only with the index of a message they received.\<close>

definition cluster_init :: "nat \<Rightarrow> ('c, 's) cluster \<Rightarrow> bool" where
  "cluster_init n s \<longleftrightarrow>
     (\<forall>i. \<exists>ev. Make ev n i MakePersister = Inr (node s i)) \<and>
     todo s = [] \<and> calls s = [] \<and> chan s = (\<lambda>i. [])"

section \<open>A step as a change of one peer\<close>

text \<open>What a step can do to the peer \<open>i\<close>, each case one critical section.\<close>

inductive peer_change :: "nat \<Rightarrow> int \<Rightarrow> ('c, 's) raft \<Rightarrow> ('c, 's) raft \<Rightarrow> bool" for n i rf where
  same: "peer_change n i rf rf"
| tick: "peer_change n i rf (fst (ticker ev rf))"
| start: "peer_change n i rf (snd (Start rf c))"
| vote: "RequestVote ev rf args = Inr (rf', reply) \<Longrightarrow> peer_change n i rf rf'"
| count: "peer_change n i rf (fst (handleRequestVoteReply ev rf ok))"
| append: "AppendEntriesWithLock ev rf args = Inr (rf', reply, b) \<Longrightarrow> peer_change n i rf rf'"
| send: "handleSendAppendEntries rf server = Inr (rf', ts, req) \<Longrightarrow> peer_change n i rf rf'"
| reply: "handleAppendEntriesReply ev rf server args ok = Inr (rf', ts) \<Longrightarrow> peer_change n i rf rf'"
| install: "InstallSnapshot ev rf args = Inr (rf', reply) \<Longrightarrow> peer_change n i rf rf'"
| installed: "handleInstallSnapshotReply ev rf server args ok = Inr rf' \<Longrightarrow> peer_change n i rf rf'"
| deliver: "commitToApplyChannelWithLock rf = Inr (rf', ms) \<Longrightarrow> peer_change n i rf rf'"
| compact: "SnapshotCall rf index snap = Inr rf' \<Longrightarrow> peer_change n i rf rf'"
| restart: "Make ev n i (persister rf) = Inr rf' \<Longrightarrow> peer_change n i rf rf'"

lemma peer_change_fun_upd:
  "peer_change n k (nd k) rf \<Longrightarrow> peer_change n i (nd i) ((nd(k := rf)) i)"
  by (cases "i = k") (auto intro: peer_change.same)

lemma launch_change:
  assumes "launch nd k tk = Inr (nd', cs, ts)"
  shows "peer_change n i (nd i) (nd' i)"
proof (cases tk)
  case (SendAppendEntries j)
  with assms obtain rf ts' req where "handleSendAppendEntries (nd k) j = Inr (rf, ts', req)"
    "nd' = nd(k := rf)" by auto
  then show ?thesis by (auto intro: peer_change.same peer_change.send)
qed (use assms in \<open>auto intro: peer_change.same\<close>)

lemma serve_change:
  assumes "serve ev nd c = Inr (nd', c', ts)"
  shows "peer_change n i (nd i) (nd' i)"
proof (cases c)
  case (ReqRV k j args)
  with assms obtain rf reply where "RequestVote ev (nd j) args = Inr (rf, reply)"
    "nd' = nd(j := rf)" by auto
  then show ?thesis by (auto intro: peer_change.same peer_change.vote)
next
  case (ReqAE k j args)
  with assms obtain rf reply ok where "AppendEntriesWithLock ev (nd j) args = Inr (rf, reply, ok)"
    "nd' = nd(j := rf)" by (auto simp: AppendEntries_def)
  then show ?thesis by (auto intro: peer_change.same peer_change.append)
next
  case (ReqIS k j args)
  with assms obtain rf reply where "InstallSnapshot ev (nd j) args = Inr (rf, reply)"
    "nd' = nd(j := rf)" by auto
  then show ?thesis by (auto intro: peer_change.same peer_change.install)
qed (use assms in \<open>auto intro: peer_change.same\<close>)

lemma finish_change:
  assumes "finish ev nd c = Inr (nd', ts)"
  shows "peer_change n i (nd i) (nd' i)"
proof (cases c)
  case (RepRV k j args ok)
  with assms have "nd' = nd(k := fst (handleRequestVoteReply ev (nd k) ok))"
    by (auto split: prod.splits)
  then show ?thesis by (auto intro: peer_change.same peer_change.count)
next
  case (RepAE k j args ok)
  with assms obtain rf ts' where "handleAppendEntriesReply ev (nd k) j args ok = Inr (rf, ts')"
    "nd' = nd(k := rf)" by auto
  then show ?thesis by (auto intro: peer_change.same peer_change.reply)
next
  case (RepIS k j args ok)
  with assms obtain rf where "handleInstallSnapshotReply ev (nd k) j args ok = Inr rf"
    "nd' = nd(k := rf)" by auto
  then show ?thesis by (auto intro: peer_change.same peer_change.installed)
qed (use assms in \<open>auto intro: peer_change.same\<close>)

lemma cluster_step_change:
  assumes "cluster_step n s t"
  shows "peer_change n i (node s i) (node t i)"
  using assms
proof (cases rule: cluster_step.cases)
  case (tick ev k rf ts)
  then have "node t = (node s)(k := fst (ticker ev (node s k)))" by simp
  then show ?thesis by (auto intro: peer_change.same peer_change.tick)
next
  case (start k c r rf)
  then have "node t = (node s)(k := snd (Start (node s k) c))" by simp
  then show ?thesis by (auto intro: peer_change.same peer_change.start)
next
  case (launch k tk nd cs ts)
  then show ?thesis using launch_change [OF launch(3)] by simp
next
  case (serve c ev nd c' ts)
  then show ?thesis using serve_change [OF serve(3)] by simp
next
  case (finish c ev nd ts)
  then show ?thesis using finish_change [OF finish(3)] by simp
next
  case (lose c)
  then show ?thesis by (simp add: peer_change.same)
next
  case (deliver k rf ch)
  then obtain ms where "commitToApplyChannelWithLock (node s k) = Inr (rf, ms)"
    by (auto simp: commitToApplyChannel_def)
  then have "peer_change n k (node s k) rf" by (rule peer_change.deliver)
  from peer_change_fun_upd [of _ _ "node s", OF this] show ?thesis by (simp add: deliver(1))
next
  case (snapshot index k data rf)
  then have "peer_change n k (node s k) rf" by (intro peer_change.compact)
  from peer_change_fun_upd [of _ _ "node s", OF this] show ?thesis by (simp add: snapshot(1))
next
  case (crash ev k rf)
  then have "peer_change n k (node s k) rf" by (intro peer_change.restart)
  from peer_change_fun_upd [of _ _ "node s", OF this] show ?thesis by (simp add: crash(1))
qed

section \<open>Every peer stays in good order, and no term goes back\<close>

text \<open>All sections, and the restart, under one contract.\<close>

lemma peer_change_contract:
  assumes "peer_change (npeers rf) (me rf) rf rf'" "raft_ok rf"
  shows "raft_ok rf' \<and> currentTerm rf \<le> currentTerm rf' \<and> me rf' = me rf \<and> npeers rf' = npeers rf"
  using assms(1)
proof cases
  case same
  with assms(2) show ?thesis by simp
next
  case tick
  with ticker_op.op_ok ticker_op.op_term ticker_op.op_frame assms(2) show ?thesis by blast
next
  case start
  with start_op.op_ok start_op.op_term start_op.op_frame assms(2) show ?thesis by blast
next
  case vote
  with RequestVote_contract [OF assms(2)] show ?thesis by blast
next
  case count
  with vote_reply_op.op_ok vote_reply_op.op_term vote_reply_op.op_frame assms(2)
  show ?thesis by blast
next
  case append
  with AppendEntriesWithLock_contract [OF assms(2)] show ?thesis by blast
next
  case send
  with send_append_op.op_ok send_append_op.op_term send_append_op.op_frame assms(2)
  show ?thesis by blast
next
  case reply
  with handleAppendEntriesReply_contract [OF assms(2)] show ?thesis by blast
next
  case install
  with InstallSnapshot_contract [OF assms(2)] show ?thesis by blast
next
  case installed
  with handleInstallSnapshotReply_contract [OF assms(2)] show ?thesis by blast
next
  case deliver
  with apply_op.op_ok apply_op.op_term apply_op.op_frame assms(2) show ?thesis by blast
next
  case compact
  with snapshot_op.op_ok snapshot_op.op_term snapshot_op.op_frame assms(2)
  show ?thesis by (metis order_refl)
next
  case (restart ev)
  with Make_recovers [OF raft_okD(2) [OF assms(2)], of ev "npeers rf" "me rf"]
    restarted_ok [OF assms(2), of ev] show ?thesis by simp
qed

definition cluster_ok :: "nat \<Rightarrow> ('c, 's) cluster \<Rightarrow> bool" where
  "cluster_ok n s \<longleftrightarrow>
     (\<forall>i. 0 \<le> i \<and> i < int n \<longrightarrow> raft_ok (node s i) \<and> me (node s i) = i \<and> npeers (node s i) = n)"

lemma cluster_init_ok: "cluster_init n s \<Longrightarrow> cluster_ok n s"
  unfolding cluster_init_def cluster_ok_def
  by (metis Make_fresh_persister fresh_raft_ok fresh_raft_sel(1,3) sum.inject(2))

lemma cluster_step_contract:
  assumes "cluster_ok n s" "cluster_step n s t" "0 \<le> i" "i < int n"
  shows "raft_ok (node t i) \<and> currentTerm (node s i) \<le> currentTerm (node t i) \<and>
    me (node t i) = i \<and> npeers (node t i) = n"
  using peer_change_contract [of "node s i" "node t i"] cluster_step_change [OF assms(2), of i]
    assms(1,3,4) by (auto simp: cluster_ok_def)

interpretation cluster: invariant_of "cluster_init n" "cluster_step n" "cluster_ok n" for n
proof (unfold_locales, goal_cases)
  case (1 s)
  then show ?case by (rule cluster_init_ok)
next
  case (2 s t)
  then show ?case using cluster_step_contract [OF 2] unfolding cluster_ok_def [of n t] by blast
qed

text \<open>The terms of the peers, compared pointwise.\<close>

definition terms :: "nat \<Rightarrow> ('c, 's) cluster \<Rightarrow> int \<Rightarrow> int" where
  "terms n s i = (if 0 \<le> i \<and> i < int n then currentTerm (node s i) else 0)"

interpretation cluster_terms:
  monotone_of "cluster_init n" "cluster_step n" "cluster_ok n" "terms n" for n
  by unfold_locales (auto simp: terms_def le_fun_def dest: cluster_step_contract)

section \<open>A leader only appends\<close>

text \<open>
  What a section may do to the log of a peer that leads before and after it, in one term:
  add entries at the end, and replace a prefix by a snapshot.
\<close>

definition grows :: "('c, 's) raft \<Rightarrow> ('c, 's) raft \<Rightarrow> bool" where
  "grows rf rf' \<longleftrightarrow>
     getLastLogEntryIndex rf \<le> getLastLogEntryIndex rf' \<and>
     (\<forall>i. snapshotEntriesAmount rf' \<le> i \<and> i \<le> getLastLogEntryIndex rf \<longrightarrow>
          log_at rf' i = log_at rf i)"

lemma grows_same_log:
  assumes "logs rf' = logs rf" "snapshotEntriesAmount rf' = snapshotEntriesAmount rf"
  shows "grows rf rf'"
  using log_view_cong [OF assms] by (simp add: grows_def)

lemma tables_step_log:
  assumes "tables_step rf rf'"
  shows "logs rf' = logs rf" "snapshotEntriesAmount rf' = snapshotEntriesAmount rf"
    "lastApplied rf' = lastApplied rf"
    "status rf' = status rf"
proof -
  have eq: "rf' = rf\<lparr>nextIndex := nextIndex rf', matchIndex := matchIndex rf',
      commitIndex := commitIndex rf'\<rparr>"
    using assms by (simp add: tables_step_def)
  show "logs rf' = logs rf" using arg_cong [OF eq, of logs] by simp
  show "snapshotEntriesAmount rf' = snapshotEntriesAmount rf"
    using arg_cong [OF eq, of snapshotEntriesAmount] by simp
  show "lastApplied rf' = lastApplied rf" using arg_cong [OF eq, of lastApplied] by simp
  show "status rf' = status rf" using arg_cong [OF eq, of status] by simp
qed

lemma Start_grows:
  assumes "log_ok rf"
  shows "grows rf (snd (Start rf c))"
proof (cases "status rf = Leader")
  case True
  let ?rf = "appendEntries rf [\<lparr>Term = currentTerm rf, Action = c\<rparr>]"
  have same: "logs (snd (Start rf c)) = logs ?rf"
    "snapshotEntriesAmount (snd (Start rf c)) = snapshotEntriesAmount ?rf"
    using True by (simp_all add: snd_Start appendToLogEntries_def appendEntries_def)
  show ?thesis
    using raft_log.extend_old [OF assms] raft_log.extend_top [OF assms]
    unfolding grows_def log_view_cong [OF same] same(2) by simp
next
  case False
  then show ?thesis by (simp add: snd_Start grows_same_log)
qed

lemma peer_change_grows:
  assumes "peer_change (npeers rf) (me rf) rf rf'" "raft_ok rf"
    "status rf = Leader" "status rf' = Leader"
  shows "grows rf rf'"
  using assms(1)
proof cases
  case same
  then show ?thesis by (simp add: grows_same_log)
next
  case (tick ev)
  with assms(3) show ?thesis by (simp add: fst_ticker grows_same_log)
next
  case (start c)
  with raft_okD(1) [OF assms(2)] show ?thesis by (simp add: Start_grows)
next
  case (vote ev args reply)
  from RequestVote_Inr [OF raft_okD(1) [OF assms(2)] this] assms(4) show ?thesis
    by (auto simp: grows_same_log)
next
  case (count ev ok)
  with assms(3,4) show ?thesis
    by (cases ok) (auto simp: handleRequestVoteReply_def [of _ _ None] fst_handleRequestVoteReply
        fst_checkElectionStatus gainVote_def intro!: grows_same_log split: if_splits)
next
  case (append ev args reply b)
  from assms(2) this show ?thesis
    by (cases rule: AppendEntriesWithLock_cases) (use assms(4) in \<open>auto simp: grows_same_log\<close>)
next
  case (send server ts req)
  from handleSendAppendEntries_frame [OF this] show ?thesis
    by (intro grows_same_log tables_step_log)
next
  case (reply ev server args ok ts)
  show ?thesis
  proof (cases ok)
    case None
    with reply show ?thesis by (simp add: handleAppendEntriesReply_def grows_same_log)
  next
    case (Some r)
    from handleAppendEntriesReply_frame [OF reply [unfolded Some]] assms(4) show ?thesis
      by (auto intro: grows_same_log tables_step_log)
  qed
next
  case (install ev args reply)
  with assms(4) show ?thesis
    by (auto simp: InstallSnapshot_closed installed_def intro: grows_same_log split: if_splits)
next
  case (installed ev server args ok)
  with assms(4) show ?thesis
    by (cases ok) (auto simp: handleInstallSnapshotReply_def intro!: grows_same_log split: if_splits)
next
  case (deliver ms)
  from commitToApply_frame [OF this] show ?thesis by (auto intro: grows_same_log)
next
  case (compact index snap)
  from SnapshotCall_refines(2,3) [OF assms(2) this] show ?thesis by (simp add: grows_def)
next
  case (restart ev)
  with Make_recovers [OF raft_okD(2) [OF assms(2)], of ev] assms(4) show ?thesis by auto
qed

section \<open>What a service sees\<close>

text \<open>Only delivery, compaction and a restart move \<open>lastApplied\<close>.\<close>

lemma AppendEntries_lastApplied:
  "raft_ok rf \<Longrightarrow> AppendEntriesWithLock ev rf args = Inr (rf', reply, b) \<Longrightarrow>
   lastApplied rf' = lastApplied rf"
  by (erule (1) AppendEntriesWithLock_cases) auto

lemma launch_lastApplied:
  "launch nd k tk = Inr (nd', cs, ts) \<Longrightarrow> lastApplied (nd' i) = lastApplied (nd i)"
  by (cases tk) (auto dest!: handleSendAppendEntries_frame dest: tables_step_log(3))

lemma serve_lastApplied:
  assumes "serve ev nd c = Inr (nd', c', ts)" "raft_ok (nd i)"
  shows "lastApplied (nd' i) = lastApplied (nd i)"
proof (cases c)
  case (ReqRV k j args)
  with assms obtain rf reply where r: "RequestVote ev (nd j) args = Inr (rf, reply)"
    "nd' = nd(j := rf)" by auto
  show ?thesis
  proof (cases "i = j")
    case True
    with RequestVote_Inr [OF raft_okD(1) r(1)] assms(2) r(2) show ?thesis by auto
  qed (simp add: r(2))
next
  case (ReqAE k j args)
  with assms show ?thesis by (auto simp: AppendEntries_def AppendEntries_lastApplied)
next
  case (ReqIS k j args)
  with assms show ?thesis by (auto simp: InstallSnapshot_closed installed_def split: if_splits)
qed (use assms in auto)

lemma count_lastApplied: "lastApplied (fst (handleRequestVoteReply ev rf ok)) = lastApplied rf"
  by (cases ok) (auto simp: handleRequestVoteReply_def [of _ _ None] fst_handleRequestVoteReply
      fst_checkElectionStatus gainVote_def becomeLeader_def Let_def)

lemma finish_lastApplied:
  assumes "finish ev nd c = Inr (nd', ts)"
  shows "lastApplied (nd' i) = lastApplied (nd i)"
proof (cases c)
  case (RepRV k j args ok)
  with assms have "nd' = nd(k := fst (handleRequestVoteReply ev (nd k) ok))"
    by (auto split: prod.splits)
  then show ?thesis by (simp add: count_lastApplied)
next
  case (RepAE k j args ok)
  with assms obtain rf ts' where r: "handleAppendEntriesReply ev (nd k) j args ok = Inr (rf, ts')"
    "nd' = nd(k := rf)" by auto
  then have "lastApplied rf = lastApplied (nd k)"
    by (cases ok) (auto simp: handleAppendEntriesReply_def [of _ _ _ _ None]
        dest!: handleAppendEntriesReply_frame dest: tables_step_log(3))
  with r show ?thesis by simp
next
  case (RepIS k j args ok)
  with assms show ?thesis
    by (cases ok) (auto simp: handleInstallSnapshotReply_def)
qed (use assms in auto)

definition channel_ok :: "nat \<Rightarrow> ('c, 's) cluster \<Rightarrow> bool" where
  "channel_ok n s \<longleftrightarrow> cluster_ok n s \<and>
     (\<forall>i. 0 \<le> i \<and> i < int n \<longrightarrow> contiguous (-1) (chan s i) (lastApplied (node s i)))"

lemma cluster_step_channel:
  assumes "cluster_step n s t" "raft_ok (node s i)" "contiguous (-1) (chan s i) (lastApplied (node s i))"
  shows "contiguous (-1) (chan t i) (lastApplied (node t i))"
  using assms(1)
proof (cases rule: cluster_step.cases)
  case (tick ev k rf ts)
  then have "rf = fst (ticker ev (node s k))" by simp
  then have "lastApplied rf = lastApplied (node s k)"
    by (simp add: fst_ticker becomeCandidate_def setNewElectionTime_def)
  with assms(3) show ?thesis by (auto simp: tick(1))
next
  case (start k c r rf)
  then have "rf = snd (Start (node s k) c)" by simp
  then have "lastApplied rf = lastApplied (node s k)"
    by (simp add: snd_Start appendToLogEntries_def)
  with assms(3) show ?thesis by (auto simp: start(1))
next
  case (launch k tk nd cs ts)
  with assms(3) launch_lastApplied [OF launch(3)] show ?thesis by simp
next
  case (serve c ev nd c' ts)
  with assms(3) serve_lastApplied [OF serve(3) assms(2)] show ?thesis by simp
next
  case (finish c ev nd ts)
  with assms(3) finish_lastApplied [OF finish(3)] show ?thesis by simp
next
  case (lose c)
  with assms(3) show ?thesis by simp
next
  case (deliver k rf ch)
  then obtain ms where "commitToApplyChannelWithLock (node s k) = Inr (rf, ms)"
    and "ch = chan s k @ ms" by (auto simp: commitToApplyChannel_def)
  with assms(3) commitToApply_contiguous show ?thesis
    by (auto simp: deliver(1) intro: contiguous_append)
next
  case (snapshot index k data rf)
  show ?thesis
  proof (cases "i = k")
    case True
    from assms(2) snapshot(3) [folded True] have "lastApplied rf = lastApplied (node s i)"
      by (cases rule: SnapshotCall_cases) (use snapshot(2) True in auto)
    with assms(3) True show ?thesis by (simp add: snapshot(1))
  qed (use assms(3) in \<open>simp add: snapshot(1)\<close>)
next
  case (crash ev k rf)
  show ?thesis
  proof (cases "i = k")
    case True
    with crash(2) Make_recovers [OF raft_okD(2) [OF assms(2)], of ev n k]
    have "rf = restarted ev n k (node s k)" by simp
    with True show ?thesis by (simp add: crash(1))
  qed (use assms(3) in \<open>simp add: crash(1)\<close>)
qed

interpretation channels: invariant_of "cluster_init n" "cluster_step n" "channel_ok n" for n
proof (unfold_locales, goal_cases)
  case (1 s)
  have "lastApplied (node s i) = -1" for i
    using 1 unfolding cluster_init_def
    by (metis Make_fresh_persister fresh_raft_sel(6) sum.inject(2))
  with 1 cluster_init_ok [OF 1] show ?case by (simp add: channel_ok_def cluster_init_def)
next
  case (2 s t)
  with cluster.inv_step [of n s t] cluster_step_channel [OF 2(2)] show ?case
    by (auto simp: channel_ok_def cluster_ok_def)
qed

section \<open>One step from a reachable state\<close>

lemma cluster_okD:
  assumes "cluster_ok n s" "0 \<le> i" "i < int n"
  shows "raft_ok (node s i)" "me (node s i) = i" "npeers (node s i) = n"
  using assms by (auto simp: cluster_ok_def)

lemma reachable_change:
  assumes "reach (cluster_init n) (cluster_step n) s" "cluster_step n s t" "0 \<le> i" "i < int n"
  shows "raft_ok (node s i)" "npeers (node s i) = n"
    "peer_change (npeers (node s i)) (me (node s i)) (node s i) (node t i)"
  using cluster_okD [OF cluster.reach_inv [OF assms(1)] assms(3,4)]
    cluster_step_change [OF assms(2), of i] by simp_all

section \<open>Properties\<close>

text \<open>
  C2. In every reachable state of a group, however goroutines and messages were ordered,
  lost or delayed and whoever crashed, every peer is in good order: its log is well formed,
  its tables have the size of the group if it leads, and its term, vote, log and snapshot
  extent are on its stable storage, so a crash at this moment loses none of them.
\<close>

theorem reachable_ok:
  assumes "reach (cluster_init n) (cluster_step n) s" "0 \<le> i" "i < int n"
  shows "raft_ok (node s i) \<and> me (node s i) = i \<and>
    (\<exists>rf'. Make ev n i (persister (node s i)) = Inr rf' \<and> pstate_of rf' = pstate_of (node s i))"
  using cluster_okD [OF cluster.reach_inv [OF assms(1)] assms(2,3)]
    Make_recovers [OF raft_okD(2), of "node s i" ev n i] by simp

text \<open>A group of three that has just started, before any step.\<close>

definition group3 :: "(int, int) cluster" where
  "group3 = \<lparr>node = peer3, todo = [], calls = [], chan = (\<lambda>i. [])\<rparr>"

lemma group3_init: "cluster_init 3 group3"
  unfolding cluster_init_def group3_def peer3_def by (auto intro: Make_fresh_persister)

lemma group3_reach: "reach (cluster_init 3) (cluster_step 3) group3"
  using group3_init by (rule reach.reach_init)

text \<open>Its peer 0 after an election timeout.\<close>

definition group3_tick :: "(int, int) cluster" where
  "group3_tick =
     (let (rf, ts) = ticker \<lparr>now = 1000000000, rnd = 0\<rparr> (peer3 0)
      in group3\<lparr>node := (node group3)(0 := rf), todo := map (Pair 0) ts\<rparr>)"

lemma group3_tick_step: "cluster_step 3 group3 group3_tick"
proof -
  obtain rf ts where r: "ticker \<lparr>now = 1000000000, rnd = 0\<rparr> (node group3 0) = (rf, ts)"
    by fastforce
  from cluster_step.tick [OF this, of 3] show ?thesis
    using r by (simp add: group3_tick_def group3_def)
qed

theorem reachable_ok_witness:
  "raft_ok (node group3_tick 0) \<and>
    (\<exists>rf'. Make \<lparr>now = 3, rnd = 4\<rparr> 3 0 (persister (node group3_tick 0)) = Inr rf' \<and>
           currentTerm rf' = 1 \<and> votedFor rf' = 0)"
proof -
  have "pstate_of (node group3_tick 0) = init_pstate\<lparr>p_currentTerm := 1, p_votedFor := 0\<rparr>"
    by code_simp
  with reachable_ok [OF reach.reach_step [OF group3_reach group3_tick_step], of 0 "\<lparr>now = 3, rnd = 4\<rparr>"]
  show ?thesis by (auto simp: pstate_of_def init_pstate_def)
qed

text \<open>Along every run no peer goes back to an older term, not even through a crash.\<close>

theorem terms_never_decrease:
  assumes "reach (cluster_init n) (cluster_step n) s" "(cluster_step n)\<^sup>*\<^sup>* s t" "0 \<le> i" "i < int n"
  shows "currentTerm (node s i) \<le> currentTerm (node t i)"
  using cluster_terms.steps_mono [OF assms(2) cluster.reach_inv [OF assms(1)]] assms(3,4)
  by (auto simp: terms_def le_fun_def split: if_splits)

theorem terms_never_decrease_witness:
  "currentTerm (node group3 0) \<le> currentTerm (node group3_tick 0)"
  using terms_never_decrease [OF group3_reach r_into_rtranclp [of "cluster_step 3", OF group3_tick_step],
      of 0] by simp

end
