(* ===== verification/Raft_Election.thy ===== *)
theory Raft_Election
  imports Raft_Cluster
begin

text \<open>
  Where the votes of a candidate come from. Every section but the one that counts a vote
  leaves the count alone or starts it anew with the candidate's own vote; the counting
  section consumes one reply that is in flight. Together with the invariant that a candidate
  never holds a majority between two steps, this shows that an election is won by the reply
  that completes the majority.
\<close>

section \<open>Sections that count no vote\<close>

definition quiet :: "('c, 's) raft \<Rightarrow> ('c, 's) raft \<Rightarrow> bool" where
  "quiet rf rf' \<longleftrightarrow>
     (status rf' = Leader \<longrightarrow> status rf = Leader) \<and>
     (status rf' = Candidate \<longrightarrow>
        status rf = Candidate \<and> currentTerm rf' = currentTerm rf \<and>
          numVoteGathered rf' = numVoteGathered rf \<or>
        currentTerm rf' = currentTerm rf + 1 \<and> numVoteGathered rf' = 1)"

lemma quiet_same:
  "status rf' = status rf \<Longrightarrow> currentTerm rf' = currentTerm rf \<Longrightarrow>
   numVoteGathered rf' = numVoteGathered rf \<Longrightarrow> quiet rf rf'"
  by (simp add: quiet_def)

lemma quiet_follower: "status rf' = Follower \<Longrightarrow> quiet rf rf'"
  by (simp add: quiet_def)

lemma quiet_refl [simp]: "quiet rf rf"
  by (simp add: quiet_same)

lemma quiet_tables:
  assumes "tables_step rf rf'"
  shows "quiet rf rf'"
proof -
  have eq: "rf' = rf\<lparr>nextIndex := nextIndex rf', matchIndex := matchIndex rf',
      commitIndex := commitIndex rf'\<rparr>"
    using assms by (simp add: tables_step_def)
  show ?thesis
    using arg_cong [OF eq, of status] arg_cong [OF eq, of currentTerm]
      arg_cong [OF eq, of numVoteGathered] by (intro quiet_same) simp_all
qed

lemma ticker_quiet: "quiet rf (fst (ticker ev rf))"
  by (auto simp: fst_ticker quiet_def)

lemma Start_quiet: "quiet rf (snd (Start rf c))"
  by (simp add: snd_Start quiet_same appendToLogEntries_def)

lemma RequestVote_quiet:
  assumes "raft_ok rf" "RequestVote ev rf args = Inr (rf', reply)"
  shows "quiet rf rf'"
  using RequestVote_Inr [OF raft_okD(1) [OF assms(1)] assms(2)] by (auto intro: quiet_follower)

lemma AppendEntries_quiet:
  assumes "raft_ok rf" "AppendEntriesWithLock ev rf args = Inr (rf', reply, b)"
  shows "quiet rf rf'"
  using assms by (cases rule: AppendEntriesWithLock_cases) (auto intro: quiet_follower)

lemma InstallSnapshot_quiet:
  "InstallSnapshot ev rf args = Inr (rf', reply) \<Longrightarrow> quiet rf rf'"
  by (auto simp: InstallSnapshot_closed installed_def intro: quiet_follower split: if_splits)

lemma AppendEntriesReply_quiet:
  assumes "handleAppendEntriesReply ev rf server args ok = Inr (rf', ts)"
  shows "quiet rf rf'"
proof (cases ok)
  case None
  with assms show ?thesis by (simp add: handleAppendEntriesReply_def)
next
  case (Some r)
  from handleAppendEntriesReply_frame [OF assms [unfolded Some]] show ?thesis
    by (auto intro: quiet_tables quiet_follower)
qed

lemma InstallSnapshotReply_quiet:
  "handleInstallSnapshotReply ev rf server args ok = Inr rf' \<Longrightarrow> quiet rf rf'"
  by (cases ok) (auto simp: handleInstallSnapshotReply_def go_update_Inr
      intro: quiet_follower quiet_same split: if_splits)

lemma SnapshotCall_quiet:
  assumes "raft_ok rf" "SnapshotCall rf index snap = Inr rf'"
  shows "quiet rf rf'"
  using assms by (cases rule: SnapshotCall_cases) (auto intro: quiet_same)

lemma Make_quiet:
  assumes "raft_ok rf" "Make ev n i (persister rf) = Inr rf'"
  shows "quiet rf rf'"
  using Make_recovers [OF raft_okD(2) [OF assms(1)], of ev n i] assms(2)
  by (auto intro: quiet_follower)

section \<open>Steps that count no vote, and the one that does\<close>

text \<open>The step resumes the peer \<open>i\<close> with a reply of peer \<open>j\<close> to its RequestVote.\<close>

definition reply_taken :: "int \<Rightarrow> int \<Rightarrow> requestVoteArgs \<Rightarrow> requestVoteReply option \<Rightarrow>
  ('c, 's) cluster \<Rightarrow> ('c, 's) cluster \<Rightarrow> bool" where
  "reply_taken i j args ok s t \<longleftrightarrow>
     RepRV i j args ok \<in> set (calls s) \<and> calls t = remove1 (RepRV i j args ok) (calls s) \<and>
     (\<exists>ev. node t i = fst (handleRequestVoteReply ev (node s i) ok))"

lemma launch_quiet:
  "launch nd k tk = Inr (nd', cs, ts) \<Longrightarrow> quiet (nd i) (nd' i)"
  by (cases tk) (auto dest!: handleSendAppendEntries_frame intro: quiet_tables)

lemma serve_quiet:
  assumes "serve ev nd c = Inr (nd', c', ts)" "raft_ok (nd i)"
  shows "quiet (nd i) (nd' i)"
  using assms by (cases c) (auto simp: AppendEntries_def
      intro: RequestVote_quiet AppendEntries_quiet InstallSnapshot_quiet)

lemma finish_quiet:
  assumes "finish ev nd c = Inr (nd', ts)"
  shows "quiet (nd i) (nd' i) \<or>
    (\<exists>j args ok. c = RepRV i j args ok \<and> nd' i = fst (handleRequestVoteReply ev (nd i) ok))"
proof (cases c)
  case (RepRV k j args ok)
  with assms have "nd' = nd(k := fst (handleRequestVoteReply ev (nd k) ok))"
    by (auto split: prod.splits)
  with RepRV show ?thesis by auto
next
  case (RepAE k j args ok)
  with assms show ?thesis by (auto intro: AppendEntriesReply_quiet)
next
  case (RepIS k j args ok)
  with assms show ?thesis by (auto intro: InstallSnapshotReply_quiet)
qed (use assms in auto)

lemma cluster_step_quiet:
  assumes "cluster_step n s t" "raft_ok (node s i)"
  shows "quiet (node s i) (node t i) \<or> (\<exists>j args ok. reply_taken i j args ok s t)"
  using assms(1)
proof (cases rule: cluster_step.cases)
  case (tick ev k rf ts)
  with ticker_quiet [of "node s k" ev] show ?thesis by auto
next
  case (start k c r rf)
  with Start_quiet [of "node s k" c] show ?thesis by auto
next
  case (launch k tk nd cs ts)
  with launch_quiet [OF launch(3)] show ?thesis by simp
next
  case (serve c ev nd c' ts)
  with serve_quiet [OF serve(3) assms(2)] show ?thesis by simp
next
  case (finish c ev nd ts)
  from finish_quiet [OF finish(3), of i] finish(2) show ?thesis
    by (auto simp: finish(1) reply_taken_def)
next
  case (deliver k rf ch)
  then obtain ms where "commitToApplyChannelWithLock (node s k) = Inr (rf, ms)"
    by (auto simp: commitToApplyChannel_def)
  from commitToApply_frame [OF this] show ?thesis by (auto simp: deliver(1) intro: quiet_same)
next
  case (snapshot index k data rf)
  with SnapshotCall_quiet [of "node s i"] assms(2) show ?thesis by auto
next
  case (crash ev k rf)
  with Make_quiet [of "node s i"] assms(2) show ?thesis by auto
qed simp

section \<open>Replies in flight, and candidates between two steps\<close>

text \<open>
  A request for votes names its sender, and a vote that is under way was given in the term
  of the request.
\<close>

fun vote_call_ok :: "nat \<Rightarrow> ('c, 's) call \<Rightarrow> bool" where
  "vote_call_ok n (ReqRV i j args) \<longleftrightarrow> (0 \<le> i \<and> i < int n \<longrightarrow> rva_CandidateId args = i)"
| "vote_call_ok n (RepRV i j args ok) \<longleftrightarrow>
     (0 \<le> i \<and> i < int n \<longrightarrow> rva_CandidateId args = i) \<and>
     (\<forall>reply. ok = Some reply \<and> rvr_VoteGranted reply \<longrightarrow> rvr_Term reply = rva_Term args)"
| "vote_call_ok n _ = True"

definition election_ok :: "nat \<Rightarrow> ('c, 's) cluster \<Rightarrow> bool" where
  "election_ok n s \<longleftrightarrow> cluster_ok n s \<and> (\<forall>c \<in> set (calls s). vote_call_ok n c) \<and>
     (\<forall>i. 0 \<le> i \<and> i < int n \<and> status (node s i) = Candidate \<longrightarrow>
          numVoteGathered (node s i) \<le> int n div 2)"

lemma RequestVote_granted_term:
  "RequestVote ev rf args = Inr (rf', reply) \<Longrightarrow> rvr_VoteGranted reply \<Longrightarrow>
   rvr_Term reply = rva_Term args"
  by (auto simp: RequestVote_def Let_def split: if_splits)

lemma launch_calls_ok:
  assumes "launch nd i tk = Inr (nd', cs, ts)" "0 \<le> i \<and> i < int n \<longrightarrow> me (nd i) = i" "c \<in> set cs"
  shows "vote_call_ok n c"
  using assms by (cases tk) (auto simp: getRequestVoteArgs_def split: option.splits)

lemma serve_call_ok:
  assumes "serve ev nd c = Inr (nd', c', ts)" "vote_call_ok n c"
  shows "vote_call_ok n c'"
  using assms by (cases c) (auto dest: RequestVote_granted_term)

lemma lose_call_ok: "vote_call_ok n c \<Longrightarrow> vote_call_ok n (lose c)"
  by (cases c) auto

lemma step_calls_ok:
  assumes "cluster_step n s t" "cluster_ok n s" "\<forall>c \<in> set (calls s). vote_call_ok n c" "c \<in> set (calls t)"
  shows "vote_call_ok n c"
  using assms(1)
proof (cases rule: cluster_step.cases)
  case (launch k tk nd cs ts)
  with assms(2-4) launch_calls_ok [OF launch(3), of n c] show ?thesis by (auto simp: cluster_ok_def)
next
  case (serve c0 ev nd c' ts)
  with assms(3,4) serve_call_ok [OF serve(3), of n] show ?thesis by (auto dest: notin_set_remove1)
next
  case (finish c0 ev nd ts)
  with assms(3,4) show ?thesis by (auto dest: notin_set_remove1)
next
  case (lose c0)
  with assms(3,4) show ?thesis by (auto intro: lose_call_ok dest: notin_set_remove1)
qed (use assms(3,4) in auto)

text \<open>The counting section in the cases that matter for an election.\<close>

lemma count_cases:
  fixes rf :: "('c, 's) raft"
  obtains (lower) "status (fst (handleRequestVoteReply ev rf ok)) = Follower"
  | (same) "fst (handleRequestVoteReply ev rf ok) = rf"
  | (counted) reply where "ok = Some reply" "rvr_VoteGranted reply" "rvr_Term reply = currentTerm rf"
      "status rf = Candidate" "numVoteGathered rf + 1 \<le> int (npeers rf) div 2"
      "fst (handleRequestVoteReply ev rf ok) = rf\<lparr>numVoteGathered := numVoteGathered rf + 1\<rparr>"
  | (won) reply where "ok = Some reply" "rvr_VoteGranted reply" "rvr_Term reply = currentTerm rf"
      "status rf = Candidate" "numVoteGathered rf + 1 > int (npeers rf) div 2"
      "fst (handleRequestVoteReply ev rf ok) =
         fst (becomeLeader ev (rf\<lparr>numVoteGathered := numVoteGathered rf + 1\<rparr>))"
  | (overdue) reply where "ok = Some reply" "status rf = Candidate" "numVoteGathered rf > int (npeers rf) div 2"
proof (cases ok)
  case None
  then show ?thesis by (intro same) (simp add: handleRequestVoteReply_def)
next
  case (Some reply)
  show ?thesis
  proof (cases "rvr_Term reply > currentTerm rf")
    case True
    with Some show ?thesis by (intro lower) (simp add: fst_handleRequestVoteReply)
  next
    case False
    show ?thesis
    proof (cases "rvr_VoteGranted reply \<and> rvr_Term reply = currentTerm rf \<and> status rf = Candidate")
      case True
      then have new: "fst (handleRequestVoteReply ev rf ok) = fst (checkElectionStatus ev
          (rf\<lparr>numVoteGathered := numVoteGathered rf + 1\<rparr>))"
        by (simp add: Some fst_handleRequestVoteReply gainVote_def)
      show ?thesis
      proof (cases "numVoteGathered rf + 1 \<le> int (npeers rf) div 2")
        case few: True
        with True new Some show ?thesis
          by (intro counted [of reply]) (simp_all add: fst_checkElectionStatus)
      next
        case False
        with True new Some show ?thesis
          by (intro won [of reply]) (simp_all add: fst_checkElectionStatus)
      qed
    next
      case not_counted: False
      then have new: "fst (handleRequestVoteReply ev rf ok) = fst (checkElectionStatus ev rf)"
        using False by (auto simp: Some fst_handleRequestVoteReply gainVote_def)
      show ?thesis
      proof (cases "status rf = Candidate \<and> numVoteGathered rf > int (npeers rf) div 2")
        case True
        then show ?thesis by (intro overdue [OF Some]) simp_all
      next
        case False
        then show ?thesis by (intro same) (auto simp: new fst_checkElectionStatus)
      qed
    qed
  qed
qed

text \<open>
  One step under the invariant: the count stays, starts anew, or takes the vote of the reply
  that the step consumes; and with the vote that completes the majority the peer leads.
\<close>

definition vote_consumed :: "int \<Rightarrow> ('c, 's) cluster \<Rightarrow> ('c, 's) cluster \<Rightarrow> bool" where
  "vote_consumed i s t \<longleftrightarrow>
     (\<exists>j args reply. RepRV i j args (Some reply) \<in> set (calls s) \<and>
        calls t = remove1 (RepRV i j args (Some reply)) (calls s) \<and>
        rvr_VoteGranted reply \<and> rvr_Term reply = currentTerm (node s i) \<and>
        rva_Term args = currentTerm (node s i) \<and> rva_CandidateId args = i)"

lemma reply_taken_consumed:
  assumes "election_ok n s" "0 \<le> i" "i < int n" "reply_taken i j args (Some reply) s t"
    "rvr_VoteGranted reply" "rvr_Term reply = currentTerm (node s i)"
  shows "vote_consumed i s t"
proof -
  from assms(4) have c: "RepRV i j args (Some reply) \<in> set (calls s)"
    "calls t = remove1 (RepRV i j args (Some reply)) (calls s)" by (simp_all add: reply_taken_def)
  from assms(1) c(1) have "vote_call_ok n (RepRV i j args (Some reply))"
    by (auto simp: election_ok_def)
  with assms(2,3,5,6) c show ?thesis unfolding vote_consumed_def by auto
qed

lemma election_step:
  assumes "election_ok n s" "cluster_step n s t" "0 \<le> i" "i < int n"
  obtains (quiet) "quiet (node s i) (node t i)"
  | (counted) "vote_consumed i s t" "status (node s i) = Candidate"
      "numVoteGathered (node s i) + 1 \<le> int n div 2"
      "node t i = (node s i)\<lparr>numVoteGathered := numVoteGathered (node s i) + 1\<rparr>"
  | (won) ev where "vote_consumed i s t" "status (node s i) = Candidate"
      "numVoteGathered (node s i) = int n div 2"
      "node t i = fst (becomeLeader ev ((node s i)\<lparr>numVoteGathered := numVoteGathered (node s i) + 1\<rparr>))"
proof -
  have ok: "raft_ok (node s i)" "npeers (node s i) = n"
    and few: "status (node s i) = Candidate \<Longrightarrow> numVoteGathered (node s i) \<le> int n div 2"
    using assms(1,3,4) by (auto simp: election_ok_def cluster_ok_def)
  from cluster_step_quiet [OF assms(2) ok(1)] show ?thesis
  proof (elim disjE exE)
    fix j args reply
    assume r: "reply_taken i j args reply s t"
    then obtain ev where t: "node t i = fst (handleRequestVoteReply ev (node s i) reply)"
      by (auto simp: reply_taken_def)
    show ?thesis
    proof (cases rule: count_cases [of ev "node s i" reply])
      case lower
      then show ?thesis by (intro quiet) (simp add: t quiet_follower)
    next
      case same
      then show ?thesis by (intro quiet) (simp add: t)
    next
      case (counted r')
      with reply_taken_consumed [OF assms(1,3,4)] r t ok(2) show ?thesis by (intro that(2)) auto
    next
      case (won r')
      with reply_taken_consumed [OF assms(1,3,4)] r t ok(2) few show ?thesis
        by (intro that(3) [of ev]) auto
    next
      case (overdue r')
      with few ok(2) show ?thesis by simp
    qed
  qed (rule quiet)
qed

lemma election_step_few:
  assumes "election_ok n s" "cluster_step n s t" "2 \<le> n" "0 \<le> i" "i < int n"
    "status (node t i) = Candidate"
  shows "numVoteGathered (node t i) \<le> int n div 2"
  using assms(1,2,4,5)
proof (cases rule: election_step)
  case quiet
  with assms show ?thesis by (auto simp: quiet_def election_ok_def)
next
  case (won ev)
  with assms(6) show ?thesis by (simp add: becomeLeader_sel)
qed simp

interpretation election: invariant_of "cluster_init (Suc (Suc m))" "cluster_step (Suc (Suc m))"
  "election_ok (Suc (Suc m))" for m
proof (unfold_locales, goal_cases)
  case (1 s)
  have "status (node s i) = Follower" for i
    using 1 Make_fresh_persister unfolding cluster_init_def
    by (metis fresh_raft_sel sum.inject(2))
  with 1 cluster_init_ok [OF 1] show ?case by (simp add: election_ok_def cluster_init_def)
next
  case (2 s t)
  with cluster.inv_step [of "Suc (Suc m)" s t] step_calls_ok [OF 2(2)] election_step_few [OF 2]
  show ?case by (auto simp: election_ok_def)
qed

lemma reachable_election:
  assumes "reach (cluster_init n) (cluster_step n) s" "2 \<le> n"
  shows "election_ok n s"
proof -
  from assms(2) obtain m where "n = Suc (Suc m)" by (metis add_2_eq_Suc le_Suc_ex)
  with assms(1) election.reach_inv [of m s] show ?thesis by simp
qed

end
