(* ===== verification/Raft_Runs.thy ===== *)
theory Raft_Runs
  imports Raft_Election
begin

text \<open>
  Schedules: a run of the cluster given by a list of events, computed step by step. Each
  event picks a goroutine or a call by its position, so a schedule fixes one interleaving.
  A schedule that runs to its end is a run of \<open>cluster_step\<close> (\<open>run_sound\<close>), which is how
  the reachability of a concrete state is shown.
\<close>

datatype ('c, 's) event =
    Tick int env
  | Client int "'c iface"
  | Go nat
  | Arrive nat env
  | Return nat env
  | Drop nat
  | Deliver nat
  | Compact int int "'s list"
  | Crash int env

definition no_such :: "'a res" where
  "no_such = Inl (GoPanic ''no such goroutine or call'')"

fun perform :: "nat \<Rightarrow> ('c, 's) cluster \<Rightarrow> ('c, 's) event \<Rightarrow> ('c, 's) cluster res" where
  "perform n s (Tick i ev) =
     (let (rf, ts) = ticker ev (node s i)
      in Inr (s\<lparr>node := (node s)(i := rf), todo := todo s @ map (Pair i) ts\<rparr>))"
| "perform n s (Client i c) =
     (let (r, rf) = Start (node s i) c in Inr (s\<lparr>node := (node s)(i := rf)\<rparr>))"
| "perform n s (Go k) =
     (if k < length (todo s)
      then let (i, tk) = todo s ! k in
        res_bind (launch (node s) i tk) (\<lambda>(nd, cs, ts).
          Inr (s\<lparr>node := nd, todo := remove1 (i, tk) (todo s) @ ts, calls := calls s @ cs\<rparr>))
      else no_such)"
| "perform n s (Arrive k ev) =
     (if k < length (calls s)
      then let c = calls s ! k in
        res_bind (serve ev (node s) c) (\<lambda>(nd, c', ts).
          Inr (s\<lparr>node := nd, todo := todo s @ ts, calls := remove1 c (calls s) @ [c']\<rparr>))
      else no_such)"
| "perform n s (Return k ev) =
     (if k < length (calls s)
      then let c = calls s ! k in
        res_bind (finish ev (node s) c) (\<lambda>(nd, ts).
          Inr (s\<lparr>node := nd, todo := todo s @ ts, calls := remove1 c (calls s)\<rparr>))
      else no_such)"
| "perform n s (Drop k) =
     (if k < length (calls s)
      then let c = calls s ! k in Inr (s\<lparr>calls := remove1 c (calls s) @ [lose c]\<rparr>)
      else no_such)"
| "perform n s (Deliver k) =
     (if k < length (todo s) \<and> snd (todo s ! k) = CommitToApply
      then let i = fst (todo s ! k) in
        res_bind (commitToApplyChannel (node s i) (chan s i)) (\<lambda>(rf, ch).
          Inr (s\<lparr>node := (node s)(i := rf), chan := (chan s)(i := ch),
                 todo := remove1 (i, CommitToApply) (todo s)\<rparr>))
      else no_such)"
| "perform n s (Compact i index data) =
     (if index \<le> lastApplied (node s i)
      then res_bind (SnapshotCall (node s i) index data) (\<lambda>rf.
        Inr (s\<lparr>node := (node s)(i := rf)\<rparr>))
      else no_such)"
| "perform n s (Crash i ev) =
     res_bind (Make ev n i (persister (node s i))) (\<lambda>rf.
       Inr (s\<lparr>node := (node s)(i := rf), chan := (chan s)(i := []),
              todo := filter (\<lambda>(j, tk). j \<noteq> i) (todo s),
              calls := filter (\<lambda>c. caller c \<noteq> i) (calls s)\<rparr>))"

fun run :: "nat \<Rightarrow> ('c, 's) cluster \<Rightarrow> ('c, 's) event list \<Rightarrow> ('c, 's) cluster res" where
  "run n s [] = Inr s"
| "run n s (e # es) = res_bind (perform n s e) (\<lambda>t. run n t es)"

lemma perform_step: "perform n s e = Inr t \<Longrightarrow> cluster_step n s t"
proof (cases e)
  case (Tick i ev)
  then show "perform n s e = Inr t \<Longrightarrow> cluster_step n s t"
    by (auto split: prod.splits intro: cluster_step.tick)
next
  case (Client i c)
  then show "perform n s e = Inr t \<Longrightarrow> cluster_step n s t"
    by (auto split: prod.splits intro: cluster_step.start)
next
  case (Go k)
  then show "perform n s e = Inr t \<Longrightarrow> cluster_step n s t"
    by (auto simp: no_such_def Let_def split: prod.splits if_splits
        intro!: cluster_step.launch) (metis nth_mem)
next
  case (Arrive k ev)
  then show "perform n s e = Inr t \<Longrightarrow> cluster_step n s t"
    by (auto simp: no_such_def Let_def split: if_splits intro!: cluster_step.serve)
next
  case (Return k ev)
  then show "perform n s e = Inr t \<Longrightarrow> cluster_step n s t"
    by (auto simp: no_such_def Let_def split: if_splits intro!: cluster_step.finish)
next
  case (Drop k)
  then show "perform n s e = Inr t \<Longrightarrow> cluster_step n s t"
    by (auto simp: no_such_def Let_def split: if_splits intro!: cluster_step.lose)
next
  case (Deliver k)
  then show "perform n s e = Inr t \<Longrightarrow> cluster_step n s t"
    by (auto simp: no_such_def Let_def split: if_splits intro!: cluster_step.deliver)
      (metis nth_mem prod.collapse)
next
  case (Compact i index data)
  then show "perform n s e = Inr t \<Longrightarrow> cluster_step n s t"
    by (auto simp: no_such_def split: if_splits intro: cluster_step.snapshot)
next
  case (Crash i ev)
  then show "perform n s e = Inr t \<Longrightarrow> cluster_step n s t"
    by (auto intro: cluster_step.crash)
qed

lemma run_sound:
  assumes "reach (cluster_init n) (cluster_step n) s" "run n s es = Inr t"
  shows "reach (cluster_init n) (cluster_step n) t"
  using assms
proof (induction es arbitrary: s)
  case Nil
  then show ?case by simp
next
  case (Cons e es)
  then obtain u where "perform n s e = Inr u" "run n u es = Inr t" by auto
  with Cons.prems(1) have "reach (cluster_init n) (cluster_step n) u"
    by (blast intro: reach.reach_step perform_step)
  with \<open>run n u es = Inr t\<close> show ?case by (rule Cons.IH [rotated])
qed

text \<open>A group of peers that has just started at time 0.\<close>

definition boot :: "nat \<Rightarrow> ('c, 's) cluster" where
  "boot n = \<lparr>node = (\<lambda>i. fresh_raft \<lparr>now = 0, rnd = 0\<rparr> n i MakePersister),
             todo = [], calls = [], chan = (\<lambda>i. [])\<rparr>"

lemma boot_init: "cluster_init n (boot n)"
  unfolding cluster_init_def boot_def by (auto intro: Make_fresh_persister)

lemma run_boot:
  assumes "case run n (boot n) es of Inl e \<Rightarrow> False | Inr t \<Rightarrow> P t"
  shows "\<exists>t. reach (cluster_init n) (cluster_step n) t \<and> P t"
  using assms run_sound [OF reach.reach_init [of "cluster_init n", OF boot_init]]
  by (auto split: sum.splits)

text \<open>The clock at a whole number of seconds.\<close>

definition at :: "int \<Rightarrow> env" where
  "at t = \<lparr>now = t * 1000000000, rnd = 0\<rparr>"

section \<open>Two schedules\<close>

text \<open>
  Five peers. Peer 0 wins term 1 with the votes of 1 and 2 and, as \<open>becomeLeader\<close>
  increments the term, leads in term 2. Peer 1 stands in term 2 and wins with the votes of
  3 and 4, so it leads in term 3. The heartbeats of peer 0, in term 2, now reach 3 and 4:
  \<open>becomeFollower\<close> clears the votes they cast in that term. Peer 2 stands in term 2,
  gets both votes again, and leads in term 3 beside peer 1.
\<close>

definition two_leaders :: "(int, int) event list" where
  "two_leaders =
     [Tick 0 (at 1), Go 0, Arrive 0 (at 1), Return 0 (at 1), Go 0, Arrive 0 (at 1), Return 0 (at 1),
      Tick 1 (at 2), Go 8, Arrive 0 (at 2), Return 0 (at 2), Go 8, Arrive 0 (at 2), Return 0 (at 2),
      Go 4, Arrive 0 (at 3), Go 4, Arrive 1 (at 3),
      Tick 2 (at 4), Go 14, Arrive 2 (at 4), Return 2 (at 4), Go 14, Arrive 2 (at 4), Return 2 (at 4)]"

text \<open>
  Three peers. Peer 0 leads in term 2 and a first heartbeat to peer 1 is delayed. Command 7
  is replicated to peer 1 at index 1, committed and applied by peer 0. Then the delayed
  heartbeat arrives: it matches at index 0 and carries no entries, so the handler cuts the
  acknowledged entry off. Peer 2 wins the next election with the vote of peer 1 and
  commits command 8 at the same index.
\<close>

definition lost_commit :: "(int, int) event list" where
  "lost_commit =
     [Tick 0 (at 1), Go 0, Arrive 0 (at 1), Return 0 (at 1), Go 1,
      Client 0 (Cmd 7), Tick 0 (at 2), Go 2, Arrive 1 (at 2), Deliver 3, Return 1 (at 2), Deliver 3,
      Arrive 0 (at 3),
      Tick 2 (at 4), Tick 2 (at 5), Tick 2 (at 6), Go 5, Arrive 1 (at 6), Return 1 (at 6),
      Client 2 (Cmd 8), Go 10, Arrive 1 (at 7), Deliver 10, Return 1 (at 7), Deliver 10]"

text \<open>
  Five peers. Peer 0 stands for election, and again before any of the goroutines that ask
  for votes has run. Two of them, one from each election, then ask peer 1. Both read the
  arguments of their request when they run, so both ask in the term of the second election,
  peer 1 grants twice, and both grants are counted.
\<close>

definition double_vote :: "(int, int) event list" where
  "double_vote =
     [Tick 0 (at 1), Tick 0 (at 2), Go 0, Go 3, Arrive 0 (at 2), Arrive 0 (at 2),
      Return 0 (at 2), Return 0 (at 2)]"

section \<open>Properties\<close>

text \<open>The state after the first \<open>k\<close> events of a schedule, and the step to the next one.\<close>

definition after :: "nat \<Rightarrow> (int, int) event list \<Rightarrow> nat \<Rightarrow> (int, int) cluster" where
  "after n es k = projr (run n (boot n) (take k es))"

lemma after_reach:
  assumes "\<not> isl (run n (boot n) (take k es))"
  shows "reach (cluster_init n) (cluster_step n) (after n es k)"
proof -
  from assms obtain s where "run n (boot n) (take k es) = Inr s"
    by (cases "run n (boot n) (take k es)") auto
  with run_sound [OF reach.reach_init [of "cluster_init n", OF boot_init]] show ?thesis
    by (simp add: after_def)
qed

lemma run_append: "run n s (es @ fs) = res_bind (run n s es) (\<lambda>t. run n t fs)"
  by (induction es arbitrary: s) (auto simp: res_bind_assoc)

lemma after_step:
  assumes "\<not> isl (run n (boot n) (take (Suc k) es))" "k < length es"
  shows "cluster_step n (after n es k) (after n es (Suc k))"
proof -
  from assms(1) obtain t where t: "run n (boot n) (take (Suc k) es) = Inr t"
    by (cases "run n (boot n) (take (Suc k) es)") auto
  with assms(2) obtain s where "run n (boot n) (take k es) = Inr s" "perform n s (es ! k) = Inr t"
    by (auto simp: take_Suc_conv_app_nth run_append)
  with t perform_step show ?thesis by (auto simp: after_def)
qed

text \<open>
  C7. Votes are counted one granted reply at a time, and leadership is taken in one way only.
  A peer that is a candidate after a step has just begun an election, in the next term and
  with its own vote alone; or it was a candidate of the same term and holds the votes it
  held; or it holds one more, and the step consumed a reply in flight that grants a vote to
  this peer for a request of its current term. Refusals, replies of other terms and lost
  replies never add to the count. A peer that leads after a step and did not before was a
  candidate whose count was exactly half of the group, rounded down, and consumed such a
  reply; it moves to the next term with its log unchanged, and its tables start at the end of
  that log and at nothing acknowledged. (Counted are replies, not voters: \<open>double_vote\<close>.)
\<close>

theorem leader_by_votes:
  assumes "reach (cluster_init n) (cluster_step n) s" "cluster_step n s t" "0 \<le> i" "i < int n"
    "2 \<le> n"
  shows "(status (node t i) = Candidate \<longrightarrow>
      currentTerm (node t i) = currentTerm (node s i) + 1 \<and> numVoteGathered (node t i) = 1 \<or>
      status (node s i) = Candidate \<and> currentTerm (node t i) = currentTerm (node s i) \<and>
        (numVoteGathered (node t i) = numVoteGathered (node s i) \<or>
         numVoteGathered (node t i) = numVoteGathered (node s i) + 1 \<and> vote_consumed i s t)) \<and>
    (status (node s i) \<noteq> Leader \<and> status (node t i) = Leader \<longrightarrow>
      status (node s i) = Candidate \<and> numVoteGathered (node s i) = int n div 2 \<and>
      vote_consumed i s t \<and>
      currentTerm (node t i) = currentTerm (node s i) + 1 \<and> logs (node t i) = logs (node s i) \<and>
      nextIndex (node t i) = replicate n (getLastLogEntryIndex (node s i) + 1) \<and>
      matchIndex (node t i) = replicate n (-1))"
  using reachable_election [OF assms(1,5)] assms(2-4)
proof (cases rule: election_step)
  case quiet
  then show ?thesis by (auto simp: quiet_def)
next
  case counted
  then show ?thesis by simp
next
  case (won ev)
  then show ?thesis
    using reachable_change(2) [OF assms(1-4)] by (simp add: becomeLeader_sel log_index_defs)
qed

theorem leader_by_votes_witness:
  "numVoteGathered (node (after 5 two_leaders 4) 0) = 2 \<and>
   vote_consumed 0 (after 5 two_leaders 3) (after 5 two_leaders 4) \<and>
   numVoteGathered (node (after 5 two_leaders 6) 0) = 2 \<and>
   vote_consumed 0 (after 5 two_leaders 6) (after 5 two_leaders 7) \<and>
   currentTerm (node (after 5 two_leaders 7) 0) = 2"
proof -
  have 1: "\<not> isl (run 5 (boot 5) (take 3 two_leaders))"
    "\<not> isl (run 5 (boot 5) (take (Suc 3) two_leaders))" "3 < length two_leaders" by code_simp+
  have 2: "status (node (after 5 two_leaders (Suc 3)) 0) = Candidate"
    "currentTerm (node (after 5 two_leaders (Suc 3)) 0) = 1"
    "currentTerm (node (after 5 two_leaders 3) 0) = 1"
    "numVoteGathered (node (after 5 two_leaders 3) 0) = 1"
    "numVoteGathered (node (after 5 two_leaders (Suc 3)) 0) = 2" by code_simp+
  have 3: "\<not> isl (run 5 (boot 5) (take 6 two_leaders))"
    "\<not> isl (run 5 (boot 5) (take (Suc 6) two_leaders))" "6 < length two_leaders" by code_simp+
  have 4: "status (node (after 5 two_leaders 6) 0) \<noteq> Leader"
    "status (node (after 5 two_leaders (Suc 6)) 0) = Leader"
    "currentTerm (node (after 5 two_leaders 6) 0) = 1" by code_simp+
  from leader_by_votes [OF after_reach [OF 1(1)] after_step [OF 1(2,3)], of 0] 2
    leader_by_votes [OF after_reach [OF 3(1)] after_step [OF 3(2,3)], of 0] 4
  show ?thesis by simp
qed

text \<open>
  C8. A leader never overwrites or deletes its own entries: over a step before and after
  which a peer leads, its log keeps every entry that a snapshot does not cover, and at most
  grows.
\<close>

theorem leader_append_only:
  assumes "reach (cluster_init n) (cluster_step n) s" "cluster_step n s t" "0 \<le> i" "i < int n"
    "status (node s i) = Leader" "status (node t i) = Leader"
  shows "getLastLogEntryIndex (node s i) \<le> getLastLogEntryIndex (node t i) \<and>
    (\<forall>j. snapshotEntriesAmount (node t i) \<le> j \<and> j \<le> getLastLogEntryIndex (node s i) \<longrightarrow>
       log_at (node t i) j = log_at (node s i) j)"
  using peer_change_grows [OF reachable_change(3,1) [OF assms(1-4)] assms(5,6)]
  by (simp add: grows_def)

theorem leader_append_only_witness:
  "log_at (node (after 3 lost_commit 6) 0) 0 = log_at (node (after 3 lost_commit 5) 0) 0 \<and>
   getLastLogEntryIndex (node (after 3 lost_commit 6) 0) = 1"
proof -
  have 1: "\<not> isl (run 3 (boot 3) (take 5 lost_commit))"
    "\<not> isl (run 3 (boot 3) (take (Suc 5) lost_commit))" "5 < length lost_commit" by code_simp+
  have 2: "status (node (after 3 lost_commit 5) 0) = Leader"
    "status (node (after 3 lost_commit (Suc 5)) 0) = Leader"
    "snapshotEntriesAmount (node (after 3 lost_commit (Suc 5)) 0) = 0"
    "getLastLogEntryIndex (node (after 3 lost_commit 5) 0) = 0"
    "getLastLogEntryIndex (node (after 3 lost_commit (Suc 5)) 0) = 1" by code_simp+
  from leader_append_only [OF after_reach [OF 1(1)] after_step [OF 1(2,3)] _ _ 2(1,2)] 2(3-5)
  show ?thesis by simp
qed

text \<open>
  C11. What a service reads from its channel since its peer started is gap-free and without
  repetition from entry 0 on: each command is the next index, each snapshot jumps ahead,
  and the stretch ends at \<open>lastApplied\<close>.
\<close>

theorem channel_gap_free:
  assumes "reach (cluster_init n) (cluster_step n) s" "0 \<le> i" "i < int n"
  shows "contiguous (-1) (chan s i) (lastApplied (node s i))"
  using channels.reach_inv [OF assms(1)] assms(2,3) by (simp add: channel_ok_def)

theorem channel_gap_free_witness:
  "contiguous (-1) (chan (after 3 lost_commit 25) 0) (lastApplied (node (after 3 lost_commit 25) 0)) \<and>
   lastApplied (node (after 3 lost_commit 25) 0) = 1"
proof -
  have 1: "\<not> isl (run 3 (boot 3) (take 25 lost_commit))"
    "lastApplied (node (after 3 lost_commit 25) 0) = 1" by code_simp+
  with channel_gap_free [OF after_reach [OF 1(1)], of 0] show ?thesis by simp
qed

text \<open>
  C14. Election safety does not hold. A state is reachable in which two live peers lead in
  the same term, because a vote is forgotten when a heartbeat of the same term arrives and
  because a winner leads in a term that nobody voted in.
\<close>

theorem two_leaders_reachable:
  "\<exists>s :: (int, int) cluster. reach (cluster_init 5) (cluster_step 5) s \<and>
     status (node s 1) = Leader \<and> status (node s 2) = Leader \<and>
     currentTerm (node s 1) = currentTerm (node s 2)"
  by (rule run_boot [where es = two_leaders]) code_simp

text \<open>
  C15. State machine safety does not hold. A state is reachable in which two services were
  handed different commands at the same index, because a delayed request cuts off entries
  that the follower acknowledged.
\<close>

theorem diverging_apply_reachable:
  "\<exists>s :: (int, int) cluster. reach (cluster_init 3) (cluster_step 3) s \<and>
     (\<exists>m \<in> set (chan s 0). \<exists>m' \<in> set (chan s 2). CommandValid m \<and> CommandValid m' \<and>
        CommandIndex m = CommandIndex m' \<and> Command m \<noteq> Command m')"
  by (rule run_boot [where es = lost_commit]) code_simp

text \<open>
  One voter is counted twice. A state is reachable in which a peer leads a group of five
  although the three peers other than itself and one voter have never heard of an election.
\<close>

theorem double_vote_reachable:
  "\<exists>s :: (int, int) cluster. reach (cluster_init 5) (cluster_step 5) s \<and>
     status (node s 0) = Leader \<and>
     (\<forall>i \<in> {2, 3, 4}. currentTerm (node s i) = 0 \<and> votedFor (node s i) = -1)"
  by (rule run_boot [where es = double_vote]) code_simp

end
