(* ===== verification/Service.thy ===== *)
theory Service
  imports Raft_Snapshot
begin

text \<open>
  What the three replicated services (kvraft, shardctrler, shardkv) have in common, as
  interfaces: a state machine that executes every request of a client at most once
  (\<open>dedup_machine\<close>), the table of channels on which RPC handlers wait for their operation
  to come out of Raft (\<open>channel_table\<close>), and the round-robin of a clerk over its servers.
\<close>

section \<open>Running a list of operations\<close>

fun res_fold :: "('s \<Rightarrow> 'a \<Rightarrow> 's res) \<Rightarrow> 's \<Rightarrow> 'a list \<Rightarrow> 's res" where
  "res_fold f s [] = Inr s"
| "res_fold f s (x # xs) = res_bind (f s x) (\<lambda>t. res_fold f t xs)"

lemma res_fold_append: "res_fold f s (xs @ ys) = res_bind (res_fold f s xs) (\<lambda>t. res_fold f t ys)"
  by (induction xs arbitrary: s) (simp_all add: res_bind_assoc)

section \<open>At-most-once execution\<close>

text \<open>A request is seen when a request of its client with that or a later index was executed.\<close>

definition seen :: "(int \<rightharpoonup> int) \<Rightarrow> int \<Rightarrow> int \<Rightarrow> bool" where
  "seen t c r \<longleftrightarrow> (case t c of None \<Rightarrow> False | Some l \<Rightarrow> r \<le> l)"

lemma seen_upd: "seen (t(c \<mapsto> l)) c' r \<longleftrightarrow> (if c' = c then r \<le> l else seen t c' r)"
  by (simp add: seen_def)

text \<open>The operations of a list that are executed, given the table at its start.\<close>

fun fresh_ops :: "('op \<Rightarrow> int) \<Rightarrow> ('op \<Rightarrow> int) \<Rightarrow> (int \<rightharpoonup> int) \<Rightarrow> 'op list \<Rightarrow> 'op list" where
  "fresh_ops client req t [] = []"
| "fresh_ops client req t (x # xs) =
     (if seen t (client x) (req x) then fresh_ops client req t xs
      else x # fresh_ops client req (t(client x \<mapsto> req x)) xs)"

lemma fresh_ops_after:
  "x \<in> set (fresh_ops client req t xs) \<Longrightarrow> \<not> seen t (client x) (req x)"
  by (induction client req t xs rule: fresh_ops.induct)
    (auto simp: seen_upd seen_def split: if_splits option.splits)

text \<open>Of one client, the executed requests have strictly increasing indices.\<close>

lemma fresh_ops_increasing:
  "sorted_wrt (<) (map req (filter (\<lambda>x. client x = c) (fresh_ops client req t xs)))"
proof (induction client req t xs rule: fresh_ops.induct)
  case (2 client req t x xs)
  show ?case
  proof (cases "seen t (client x) (req x)")
    case False
    have "req x < req y" if "y \<in> set (fresh_ops client req (t(client x \<mapsto> req x)) xs)"
      "client y = client x" for y
      using fresh_ops_after [OF that(1)] that(2) by (simp add: seen_upd)
    with 2(2) [OF False] False show ?thesis by (auto simp: fun_upd_def)
  qed (use 2(1) in simp)
qed simp

lemma fresh_ops_distinct:
  "distinct (map (\<lambda>x. (client x, req x)) (fresh_ops client req t xs))"
proof (induction client req t xs rule: fresh_ops.induct)
  case (2 client req t x xs)
  show ?case
  proof (cases "seen t (client x) (req x)")
    case False
    have "(client x, req x) \<noteq> (client y, req y)"
      if "y \<in> set (fresh_ops client req (t(client x \<mapsto> req x)) xs)" for y
      using fresh_ops_after [OF that] by (auto simp: seen_upd)
    with 2(2) [OF False] False show ?thesis by (auto simp: fun_upd_def)
  qed (use 2(1) in simp)
qed simp

locale dedup_machine =
  fixes table :: "'s \<Rightarrow> int \<rightharpoonup> int"
    and store :: "'s \<Rightarrow> 'v"
    and app :: "'s \<Rightarrow> 'op \<Rightarrow> 's res"
    and exec :: "'op \<Rightarrow> 'v \<Rightarrow> 'v"
    and client :: "'op \<Rightarrow> int"
    and req :: "'op \<Rightarrow> int"
  assumes app_seen: "app s x = Inr s' \<Longrightarrow> seen (table s) (client x) (req x) \<Longrightarrow>
      table s' = table s \<and> store s' = store s"
    and app_fresh: "app s x = Inr s' \<Longrightarrow> \<not> seen (table s) (client x) (req x) \<Longrightarrow>
      table s' = (table s)(client x \<mapsto> req x) \<and> store s' = exec x (store s)"
begin

lemma exactly_once:
  "res_fold app s xs = Inr s' \<Longrightarrow>
   store s' = fold exec (fresh_ops client req (table s) xs) (store s)"
proof (induction xs arbitrary: s)
  case (Cons x xs)
  then obtain t where t: "app s x = Inr t" "res_fold app t xs = Inr s'" by auto
  from app_seen [OF t(1)] app_fresh [OF t(1)] Cons.IH [OF t(2)] show ?case
    by (auto simp: fun_upd_def)
qed simp

lemma seen_mono:
  assumes "app s x = Inr s'" "seen (table s) c r"
  shows "seen (table s') c r"
proof (cases "seen (table s) (client x) (req x)")
  case True
  with app_seen [OF assms(1)] assms(2) show ?thesis by simp
next
  case False
  with app_fresh [OF assms(1)] assms(2) show ?thesis
    by (auto simp: seen_upd seen_def split: option.splits if_splits)
qed

lemma seen_self: "app s x = Inr s' \<Longrightarrow> seen (table s') (client x) (req x)"
  using app_seen [of s x s'] app_fresh [of s x s']
  by (cases "seen (table s) (client x) (req x)") (auto simp: seen_upd)

lemma seen_fold: "res_fold app s xs = Inr s' \<Longrightarrow> seen (table s) c r \<Longrightarrow> seen (table s') c r"
  by (induction xs arbitrary: s) (auto intro: seen_mono)

lemma seen_member:
  "res_fold app s xs = Inr s' \<Longrightarrow> x \<in> set xs \<Longrightarrow> seen (table s') (client x) (req x)"
proof (induction xs arbitrary: s)
  case (Cons y ys)
  then obtain t where t: "app s y = Inr t" "res_fold app t ys = Inr s'" by auto
  show ?case
  proof (cases "x = y")
    case True
    with seen_fold [OF t(2) seen_self [OF t(1)]] show ?thesis by simp
  qed (use Cons t in auto)
qed simp

text \<open>A retry that arrives at any later time changes nothing.\<close>

lemma retry_harmless:
  assumes "res_fold app s xs = Inr s'" "x \<in> set xs" "app s' x = Inr s''"
  shows "table s'' = table s' \<and> store s'' = store s'"
  using app_seen [OF assms(3) seen_member [OF assms(1,2)]] .

text \<open>The outcome depends on the table and the store only.\<close>

lemma replicas_agree:
  assumes "res_fold app s xs = Inr s'" "res_fold app t xs = Inr t'"
    "table s = table t" "store s = store t"
  shows "table s' = table t' \<and> store s' = store t'"
  using assms
proof (induction xs arbitrary: s t)
  case (Cons x xs)
  then obtain s1 t1 where 1: "app s x = Inr s1" "res_fold app s1 xs = Inr s'"
    "app t x = Inr t1" "res_fold app t1 xs = Inr t'" by auto
  have "table s1 = table t1 \<and> store s1 = store t1"
    using app_seen [OF 1(1)] app_seen [OF 1(3)] app_fresh [OF 1(1)] app_fresh [OF 1(3)] Cons.prems(3,4)
    by (cases "seen (table s) (client x) (req x)") auto
  with Cons.IH [OF 1(2,4)] show ?case by blast
qed simp

end

section \<open>The table of waiting handlers\<close>

text \<open>
  Channels are numbered in the order in which they are made. A server in good order has
  every channel of its table open and no channel twice, which is what makes
  \<open>close\<close> and the send of the apply loop safe.
\<close>

definition table_ok ::
  "('srv \<Rightarrow> 'k \<Rightarrow> nat option) \<Rightarrow> ('srv \<Rightarrow> nat set) \<Rightarrow> ('srv \<Rightarrow> nat) \<Rightarrow> 'srv \<Rightarrow> bool" where
  "table_ok lookup closed fresh s \<longleftrightarrow>
     (\<forall>k c. lookup s k = Some c \<longrightarrow> c < fresh s \<and> c \<notin> closed s) \<and>
     (\<forall>k k' c. lookup s k = Some c \<longrightarrow> lookup s k' = Some c \<longrightarrow> k = k') \<and>
     (\<forall>c \<in> closed s. c < fresh s)"

locale channel_table =
  fixes lookup :: "'srv \<Rightarrow> 'k \<Rightarrow> nat option"
    and closed :: "'srv \<Rightarrow> nat set"
    and fresh :: "'srv \<Rightarrow> nat"
    and key :: "'op \<Rightarrow> 'k"
    and create :: "'srv \<Rightarrow> 'op \<Rightarrow> 'srv"
    and delete :: "'srv \<Rightarrow> 'op \<Rightarrow> 'srv res"
  assumes lookup_create: "lookup (create s x) k = (if k = key x then Some (fresh s) else lookup s k)"
    and closed_create: "closed (create s x) = closed s"
    and fresh_create: "fresh (create s x) = Suc (fresh s)"
    and delete_none: "lookup s (key x) = None \<Longrightarrow> delete s x = Inr s"
    and delete_closed: "lookup s (key x) = Some c \<Longrightarrow> c \<in> closed s \<Longrightarrow>
      delete s x = Inl (GoPanic ''close of closed channel'')"
    and delete_some: "lookup s (key x) = Some c \<Longrightarrow> c \<notin> closed s \<Longrightarrow>
      \<exists>s'. delete s x = Inr s' \<and> lookup s' = (lookup s)(key x := None) \<and>
        closed s' = insert c (closed s) \<and> fresh s' = fresh s"
begin

lemma table_okD:
  assumes "table_ok lookup closed fresh s"
  shows "lookup s k = Some c \<Longrightarrow> c < fresh s" "lookup s k = Some c \<Longrightarrow> c \<notin> closed s"
    "lookup s k = Some c \<Longrightarrow> lookup s k' = Some c \<Longrightarrow> k = k'" "c \<in> closed s \<Longrightarrow> c < fresh s"
  using assms by (auto simp: table_ok_def)

text \<open>Only the table, the closed channels and the counter matter.\<close>

lemma table_ok_cong:
  "lookup s' = lookup s \<Longrightarrow> closed s' = closed s \<Longrightarrow> fresh s' = fresh s \<Longrightarrow>
   table_ok lookup closed fresh s' \<longleftrightarrow> table_ok lookup closed fresh s"
  by (simp add: table_ok_def)

lemma create_ok:
  assumes "table_ok lookup closed fresh s"
  shows "table_ok lookup closed fresh (create s x)"
proof -
  note d = table_okD [OF assms]
  show ?thesis
    unfolding table_ok_def lookup_create closed_create fresh_create
    using d(1-4) by (auto split: if_splits) (metis less_irrefl less_SucI)+
qed

lemma delete_total:
  assumes "table_ok lookup closed fresh s"
  shows "\<exists>s'. delete s x = Inr s' \<and> table_ok lookup closed fresh s' \<and> lookup s' (key x) = None \<and>
    (\<forall>k. k \<noteq> key x \<longrightarrow> lookup s' k = lookup s k)"
proof (cases "lookup s (key x)")
  case None
  with delete_none assms show ?thesis by simp
next
  case (Some c)
  with delete_some [OF Some table_okD(2) [OF assms Some]] obtain s' where s':
    "delete s x = Inr s'" "lookup s' = (lookup s)(key x := None)" "closed s' = insert c (closed s)"
    "fresh s' = fresh s" by blast
  have "table_ok lookup closed fresh s'"
    using table_okD [OF assms] Some s'(2-4) unfolding table_ok_def by (auto split: if_splits)
  with s'(1,2) show ?thesis by simp
qed

lemma delete_ok:
  assumes "table_ok lookup closed fresh s" "delete s x = Inr s'"
  shows "table_ok lookup closed fresh s'" "lookup s' (key x) = None"
  using delete_total [OF assms(1), of x] assms(2) by auto

end

section \<open>Round robin\<close>

text \<open>Any \<open>n\<close> consecutive attempts of a clerk try each of its \<open>n\<close> servers.\<close>

lemma round_robin_covers:
  assumes "0 < n" "j < n"
  shows "\<exists>k < n. (s + k) mod n = (j :: nat)"
proof -
  define k where "k = (j + (n - s mod n)) mod n"
  have "(s + k) mod n = (s mod n + (j + (n - s mod n))) mod n"
    by (simp add: k_def mod_add_right_eq mod_add_left_eq)
  also have "s mod n + (j + (n - s mod n)) = j + n"
    using mod_less_divisor [OF assms(1), of s] by simp
  finally have "(s + k) mod n = j" using assms(2) by simp
  moreover have "k < n" using assms(1) by (simp add: k_def)
  ultimately show ?thesis by blast
qed

section \<open>A retry loop in general\<close>

text \<open>
  The contract that the loops of all clerks share: an attempt is decided by what it brings
  back; as long as it is not final, the same request goes to the next server.
\<close>

locale retry_loop =
  fixes loop :: "nat \<Rightarrow> 'k \<Rightarrow> 'r option" and final :: "nat \<Rightarrow> 'k \<Rightarrow> 'r option"
    and nxt :: "'k \<Rightarrow> 'k"
  assumes loop_final: "final k ck = Some r \<Longrightarrow> loop k ck = Some r"
    and loop_retry: "final k ck = None \<Longrightarrow> loop k ck = loop (Suc k) (nxt ck)"
begin

lemma loop_skip:
  "(\<And>j. j < m \<Longrightarrow> final (k + j) ((nxt ^^ j) ck) = None) \<Longrightarrow>
   loop k ck = loop (k + m) ((nxt ^^ m) ck)"
proof (induction m)
  case (Suc m)
  then have "loop k ck = loop (k + m) ((nxt ^^ m) ck)" by simp
  also have "\<dots> = loop (Suc (k + m)) (nxt ((nxt ^^ m) ck))"
    using Suc.prems [of m] by (intro loop_retry) simp
  finally show ?case by simp
qed simp

text \<open>It returns as soon as some attempt is final, with what the first such brings.\<close>

lemma loop_returns:
  assumes "\<exists>j < m. final (k + j) ((nxt ^^ j) ck) \<noteq> None"
  shows "\<exists>j < m. \<exists>r. final (k + j) ((nxt ^^ j) ck) = Some r \<and> loop k ck = Some r \<and>
    (\<forall>i < j. final (k + i) ((nxt ^^ i) ck) = None)"
proof -
  define j where "j = (LEAST j. final (k + j) ((nxt ^^ j) ck) \<noteq> None)"
  have j: "final (k + j) ((nxt ^^ j) ck) \<noteq> None"
    unfolding j_def using assms by (metis (mono_tags, lifting) LeastI)
  have before: "final (k + i) ((nxt ^^ i) ck) = None" if "i < j" for i
    using that not_less_Least unfolding j_def by blast
  have "j < m"
    using assms by (metis before linorder_neqE_nat order.strict_trans)
  with j before loop_skip [of j k ck] loop_final show ?thesis by fastforce
qed

lemma loop_returns_start:
  assumes "\<exists>j < m. final j ((nxt ^^ j) ck) \<noteq> None"
  obtains j r where "j < m" "final j ((nxt ^^ j) ck) = Some r" "loop 0 ck = Some r"
  using loop_returns [of m 0 ck] assms by auto

end

end
