(* ===== verification/KV_Server.thy ===== *)
theory KV_Server
  imports Service
begin

text \<open>
  The server of kvraft: the state machine behind Raft (kvServerApplyTicker.go), the table
  of handlers that wait for their operation (utils.go), snapshots (kvServerSnapshot.go), and
  the sections of the two RPC handlers (kvServerGet.go, kvServerPutAppend.go). A section
  under \<open>kv.mu\<close> is one function; a send on a reply channel is returned by the section
  that makes it. Channels are numbers; \<open>nextChan\<close> counts the channels made so far and
  \<open>closedChans\<close> holds those that were closed.
\<close>

datatype err = EmptyErr | OK | ErrNoKey | ErrWrongLeader | ErrOther | ErrTimeout | ErrFiller

datatype opType = GET | APPEND | PUT | OtherType string

record op =
  ServerId :: int
  OpIndex :: int
  Type :: opType
  Key :: string
  Value :: string
  ClientId :: int
  RequestIndex :: int

record kvReplyMsg =
  Error :: err
  MsgValue :: string

record opKVReplyChannel =
  Operation :: op
  ReplyChannel :: nat

record kvState =
  KeyValueStore :: "string \<rightharpoonup> string"
  ClientLastRequest :: "int \<rightharpoonup> int"

datatype kv_tok = KState kvState | KInt int

record kvServer =
  kv_me :: int
  kv_rf :: "(op, kv_tok) raft"
  kv_dead :: int
  maxraftstate :: int
  instoreLogCount :: int
  totalLogCount :: int
  state :: kvState
  startChannels :: "int \<rightharpoonup> (int \<rightharpoonup> opKVReplyChannel)"
  opIndex :: int
  nextChan :: nat
  closedChans :: "nat list"

section \<open>The state machine\<close>

definition makeState :: kvState where
  "makeState = \<lparr>KeyValueStore = Map.empty, ClientLastRequest = Map.empty\<rparr>"

definition getValue :: "kvState \<Rightarrow> op \<Rightarrow> (string \<times> err) res" where
  "getValue st x =
     (if Type x \<noteq> GET then Inl (LogFatal ''In geValue(), op type not GET'')
      else case KeyValueStore st (Key x) of
        Some val \<Rightarrow> Inr (val, OK)
      | None \<Rightarrow> Inr ('''', ErrNoKey))"

definition isDuplicateOp :: "kvState \<Rightarrow> op \<Rightarrow> bool" where
  "isDuplicateOp st x =
     (case ClientLastRequest st (ClientId x) of
        Some lastRequestIndex \<Rightarrow> if RequestIndex x \<le> lastRequestIndex then True else False
      | None \<Rightarrow> False)"

text \<open>The first part of \<open>handleCommandApply\<close>: the operation on the state, and its reply.\<close>

definition executeOp :: "kvState \<Rightarrow> op \<Rightarrow> (kvState \<times> kvReplyMsg) res" where
  "executeOp st x =
     (let reply = \<lparr>Error = ErrFiller, MsgValue = ''''\<rparr> in
      if isDuplicateOp st x
      then if Type x = GET
           then res_bind (getValue st x) (\<lambda>(v, e). Inr (st, \<lparr>Error = e, MsgValue = v\<rparr>))
           else Inr (st, reply\<lparr>Error := OK\<rparr>)
      else
        let st1 = st\<lparr>ClientLastRequest := (ClientLastRequest st)(ClientId x \<mapsto> RequestIndex x)\<rparr>
        in case Type x of
             GET \<Rightarrow> res_bind (getValue st1 x) (\<lambda>(v, e). Inr (st1, \<lparr>Error = e, MsgValue = v\<rparr>))
           | PUT \<Rightarrow> Inr (st1\<lparr>KeyValueStore := (KeyValueStore st1)(Key x \<mapsto> Value x)\<rparr>,
                        reply\<lparr>Error := OK\<rparr>)
           | APPEND \<Rightarrow>
               Inr (case KeyValueStore st1 (Key x) of
                      Some val \<Rightarrow> st1\<lparr>KeyValueStore := (KeyValueStore st1)(Key x \<mapsto> val @ Value x)\<rparr>
                    | None \<Rightarrow> st1\<lparr>KeyValueStore := (KeyValueStore st1)(Key x \<mapsto> Value x)\<rparr>,
                    reply\<lparr>Error := OK\<rparr>)
           | OtherType t \<Rightarrow>
               Inl (LogFatal ''In handleCommandApply(), op.Type not in [GET, PUT, APPEND]''))"

section \<open>The table of waiting handlers\<close>

definition createStartCh :: "kvServer \<Rightarrow> op \<Rightarrow> opKVReplyChannel \<times> kvServer" where
  "createStartCh kv x =
     (let m = (case startChannels kv (ClientId x) of None \<Rightarrow> Map.empty | Some m \<Rightarrow> m);
          opChannel = \<lparr>Operation = x, ReplyChannel = nextChan kv\<rparr>
      in (opChannel,
          kv\<lparr>startChannels := (startChannels kv)(ClientId x \<mapsto> m(RequestIndex x \<mapsto> opChannel)),
             nextChan := Suc (nextChan kv)\<rparr>))"

definition createStartChLocked :: "kvServer \<Rightarrow> op \<Rightarrow> opKVReplyChannel \<times> kvServer" where
  "createStartChLocked kv x = createStartCh kv x"

definition getStartCh :: "kvServer \<Rightarrow> op \<Rightarrow> opKVReplyChannel option" where
  "getStartCh kv x =
     (case startChannels kv (ClientId x) of
        None \<Rightarrow> None
      | Some clientMap \<Rightarrow> clientMap (RequestIndex x))"

definition deleteStartCh :: "kvServer \<Rightarrow> op \<Rightarrow> kvServer res" where
  "deleteStartCh kv x =
     (case startChannels kv (ClientId x) of
        None \<Rightarrow> Inr kv
      | Some clientMap \<Rightarrow>
          (case clientMap (RequestIndex x) of
             None \<Rightarrow> Inr kv
           | Some startCh \<Rightarrow>
               if ReplyChannel startCh \<in> set (closedChans kv)
               then Inl (GoPanic ''close of closed channel'')
               else Inr (kv\<lparr>closedChans := ReplyChannel startCh # closedChans kv,
                           startChannels := (startChannels kv)
                             (ClientId x \<mapsto> clientMap(RequestIndex x := None))\<rparr>)))"

definition deleteStartChLocked :: "kvServer \<Rightarrow> op \<Rightarrow> kvServer res" where
  "deleteStartChLocked kv x = deleteStartCh kv x"

definition opChannelMatch :: "kvServer \<Rightarrow> op \<Rightarrow> bool" where
  "opChannelMatch kv responseOp =
     (if ServerId responseOp \<noteq> kv_me kv then False
      else case getStartCh kv responseOp of
        None \<Rightarrow> False
      | Some startCh \<Rightarrow>
          let originalOp = Operation startCh in
          if Key originalOp \<noteq> Key responseOp \<or> Value originalOp \<noteq> Value responseOp \<or>
             Type originalOp \<noteq> Type responseOp \<or> ClientId originalOp \<noteq> ClientId responseOp \<or>
             RequestIndex originalOp \<noteq> RequestIndex responseOp
          then False else True)"

text \<open>The send on the channel is the second component; the table entry goes after it.\<close>

definition signalStartCh ::
  "kvServer \<Rightarrow> op \<Rightarrow> kvReplyMsg \<Rightarrow> (kvServer \<times> (nat \<times> kvReplyMsg) option) res" where
  "signalStartCh kv responseOp replyMsg =
     (case getStartCh kv responseOp of
        None \<Rightarrow> Inr (kv, None)
      | Some startCh \<Rightarrow>
          if ReplyChannel startCh \<in> set (closedChans kv)
          then Inl (GoPanic ''send on closed channel'')
          else res_bind (deleteStartCh kv responseOp) (\<lambda>kv'.
                 Inr (kv', Some (ReplyChannel startCh, replyMsg))))"

section \<open>Snapshots\<close>

definition makeSnapshot :: "kvServer \<Rightarrow> kv_tok list" where
  "makeSnapshot kv = [KState (state kv), KInt (opIndex kv), KInt (totalLogCount kv)]"

fun readSnapshot :: "kv_tok list \<Rightarrow> (kvState \<times> int) res" where
  "readSnapshot (KState newState # KInt snapShotOpIndex # KInt snapShotTotalLogCount # r) =
     Inr (newState, snapShotTotalLogCount)"
| "readSnapshot _ = Inl (LogFatal ''read persist error'')"

definition installSnapshot :: "kvServer \<Rightarrow> kv_tok list \<Rightarrow> kvServer res" where
  "installSnapshot kv data =
     (if data = [] then Inr kv
      else res_bind (readSnapshot data) (\<lambda>(st, n).
        Inr (kv\<lparr>state := st, totalLogCount := n, instoreLogCount := 0\<rparr>)))"

section \<open>The apply loop\<close>

text \<open>The second part of \<open>handleCommandApply\<close>: a snapshot once Raft's state has grown.\<close>

definition snapshotIfLarge ::
  "(op raft_tok list \<Rightarrow> int) \<Rightarrow> kvServer \<Rightarrow> int \<Rightarrow> kvServer res" where
  "snapshotIfLarge bytes_len kv index =
     (if maxraftstate kv \<noteq> -1 \<and> RaftStateSize bytes_len (persister (kv_rf kv)) \<ge> maxraftstate kv
      then res_bind (SnapshotCall (kv_rf kv) index (makeSnapshot kv)) (\<lambda>rf.
             Inr (kv\<lparr>kv_rf := rf\<rparr>))
      else Inr kv)"

text \<open>The third part: the reply goes to the handler that waits for this operation.\<close>

definition answerOp ::
  "kvServer \<Rightarrow> op \<Rightarrow> kvReplyMsg \<Rightarrow> (kvServer \<times> (nat \<times> kvReplyMsg) option) res" where
  "answerOp kv x replyMsg =
     (let replyMsg = (if \<not> snd (GetState (kv_rf kv))
                      then replyMsg\<lparr>Error := ErrWrongLeader\<rparr> else replyMsg)
      in if opChannelMatch kv x then signalStartCh kv x replyMsg else Inr (kv, None))"

definition handleCommandApply ::
  "(op raft_tok list \<Rightarrow> int) \<Rightarrow> kvServer \<Rightarrow> (op, kv_tok) applyMsg \<Rightarrow>
   (kvServer \<times> (nat \<times> kvReplyMsg) option) res" where
  "handleCommandApply bytes_len kv m =
     (case Command m of
        Cmd x \<Rightarrow>
          res_bind (executeOp (state kv) x) (\<lambda>(st, replyMsg).
          res_bind (snapshotIfLarge bytes_len (kv\<lparr>state := st\<rparr>) (CommandIndex m)) (\<lambda>kv2.
            answerOp kv2 x replyMsg))
      | _ \<Rightarrow> Inl TypeAssertion)"

definition handleApplyMessage ::
  "(op raft_tok list \<Rightarrow> int) \<Rightarrow> kvServer \<Rightarrow> (op, kv_tok) applyMsg \<Rightarrow>
   (kvServer \<times> (nat \<times> kvReplyMsg) option) res" where
  "handleApplyMessage bytes_len kv m =
     (if SnapshotValid m
      then if CondInstallSnapshot (kv_rf kv) (SnapshotTerm m) (SnapshotIndex m) (Snapshot m)
           then res_bind (installSnapshot kv (Snapshot m)) (\<lambda>kv'. Inr (kv', None))
           else Inr (kv, None)
      else if CommandValid m then handleCommandApply bytes_len kv m
      else if CommandIndex m \<noteq> 0
      then Inl (GoPanic ''not snapshot, not command, and index not 0'')
      else Inr (kv, None))"

section \<open>Starting and stopping\<close>

definition StartKVServer ::
  "env \<Rightarrow> nat \<Rightarrow> int \<Rightarrow> (op, kv_tok) persister \<Rightarrow> int \<Rightarrow> kvServer res" where
  "StartKVServer ev servers self ps maxraft =
     res_bind (Make ev servers self ps) (\<lambda>rf.
       installSnapshot
         \<lparr>kv_me = self, kv_rf = rf, kv_dead = 0, maxraftstate = maxraft, instoreLogCount = 0,
          totalLogCount = 0, state = makeState, startChannels = Map.empty, opIndex = 0,
          nextChan = 0, closedChans = []\<rparr> (ReadSnapshot ps))"

definition KVKill :: "kvServer \<Rightarrow> kvServer" where
  "KVKill kv = kv\<lparr>kv_dead := 1, kv_rf := Kill (kv_rf kv)\<rparr>"

definition kv_killed :: "kvServer \<Rightarrow> bool" where
  "kv_killed kv \<longleftrightarrow> kv_dead kv = 1"

section \<open>At-most-once execution\<close>

text \<open>The abstract machine: what a request does to the map of keys to values.\<close>

fun kv_exec :: "op \<Rightarrow> (string \<rightharpoonup> string) \<Rightarrow> (string \<rightharpoonup> string)" where
  "kv_exec x m =
     (case Type x of
        PUT \<Rightarrow> m(Key x \<mapsto> Value x)
      | APPEND \<Rightarrow> m(Key x \<mapsto> (case m (Key x) of None \<Rightarrow> [] | Some v \<Rightarrow> v) @ Value x)
      | _ \<Rightarrow> m)"

definition kv_app :: "kvState \<Rightarrow> op \<Rightarrow> kvState res" where
  "kv_app st x = res_bind (executeOp st x) (\<lambda>(st', reply). Inr st')"

lemma isDuplicateOp_seen:
  "isDuplicateOp st x = seen (ClientLastRequest st) (ClientId x) (RequestIndex x)"
  by (simp add: isDuplicateOp_def seen_def split: option.splits)

lemma executeOp_seen:
  assumes "executeOp st x = Inr (st', r)" "seen (ClientLastRequest st) (ClientId x) (RequestIndex x)"
  shows "st' = st"
  using assms by (auto simp: executeOp_def isDuplicateOp_seen Let_def split: if_splits)

lemma executeOp_fresh:
  assumes "executeOp st x = Inr (st', r)" "\<not> seen (ClientLastRequest st) (ClientId x) (RequestIndex x)"
  shows "st' = \<lparr>KeyValueStore = kv_exec x (KeyValueStore st),
    ClientLastRequest = (ClientLastRequest st)(ClientId x \<mapsto> RequestIndex x)\<rparr>"
  using assms
  by (cases st; cases "Type x")
    (auto simp: executeOp_def isDuplicateOp_seen Let_def split: option.splits)

interpretation kv_machine: dedup_machine ClientLastRequest KeyValueStore kv_app kv_exec
  ClientId RequestIndex
proof (unfold_locales, goal_cases)
  case (1 s x s')
  then show ?case by (auto simp: kv_app_def dest: executeOp_seen)
next
  case (2 s x s')
  then obtain r where "executeOp s x = Inr (s', r)" by (auto simp: kv_app_def)
  from executeOp_fresh [OF this 2(2)] show ?case by simp
qed

text \<open>The reply: what the store holds after the operation, for every operation that is known.\<close>

lemma executeOp_reply:
  assumes "Type x \<in> {GET, PUT, APPEND}"
  obtains st' r where "executeOp st x = Inr (st', r)"
    "Type x \<noteq> GET \<Longrightarrow> Error r = OK"
    "Type x = GET \<Longrightarrow> Error r = (case KeyValueStore st' (Key x) of None \<Rightarrow> ErrNoKey | Some v \<Rightarrow> OK) \<and>
       MsgValue r = (case KeyValueStore st' (Key x) of None \<Rightarrow> '''' | Some v \<Rightarrow> v)"
proof (cases "isDuplicateOp st x")
  case True
  with assms that show ?thesis
    by (cases "KeyValueStore st (Key x)")
      (auto simp: executeOp_def getValue_def Let_def)
next
  case False
  with assms that show ?thesis
    by (cases "KeyValueStore st (Key x)")
      (auto simp: executeOp_def getValue_def Let_def)
qed

section \<open>The table honours its contract\<close>

definition chan_at :: "kvServer \<Rightarrow> int \<times> int \<Rightarrow> nat option" where
  "chan_at kv k =
     (case startChannels kv (fst k) of
        None \<Rightarrow> None
      | Some m \<Rightarrow> map_option ReplyChannel (m (snd k)))"

definition op_key :: "op \<Rightarrow> int \<times> int" where
  "op_key x = (ClientId x, RequestIndex x)"

lemma chan_at_getStartCh: "chan_at kv (op_key x) = map_option ReplyChannel (getStartCh kv x)"
  by (simp add: chan_at_def op_key_def getStartCh_def split: option.splits)

interpretation kv_table: channel_table chan_at "\<lambda>kv. set (closedChans kv)" nextChan op_key
  "\<lambda>kv x. snd (createStartCh kv x)" deleteStartCh
proof (unfold_locales, goal_cases)
  case (1 s x k)
  then show ?case
    by (cases k) (auto simp: chan_at_def op_key_def createStartCh_def Let_def split: option.splits)
next
  case (2 s x)
  then show ?case by (simp add: createStartCh_def Let_def)
next
  case (3 s x)
  then show ?case by (simp add: createStartCh_def Let_def)
next
  case (4 s x)
  then show ?case by (auto simp: chan_at_def op_key_def deleteStartCh_def split: option.splits)
next
  case (5 s x c)
  then show ?case by (auto simp: chan_at_def op_key_def deleteStartCh_def split: option.splits)
next
  case (6 s x c)
  then obtain m ch where m: "startChannels s (ClientId x) = Some m" "m (RequestIndex x) = Some ch"
    "ReplyChannel ch = c" by (auto simp: chan_at_def op_key_def split: option.splits)
  let ?s = "s\<lparr>closedChans := c # closedChans s,
    startChannels := (startChannels s)(ClientId x \<mapsto> m(RequestIndex x := None))\<rparr>"
  have "deleteStartCh s x = Inr ?s" using m 6(2) by (simp add: deleteStartCh_def)
  moreover have "chan_at ?s = (chan_at s)(op_key x := None)"
    using m(1) by (auto simp: chan_at_def op_key_def fun_eq_iff split: option.splits)
  ultimately show ?case by simp
qed

section \<open>Snapshots honour the codec contract\<close>

definition encode_state :: "kvState \<times> int \<times> int \<Rightarrow> kv_tok list" where
  "encode_state p = [KState (fst p), KInt (fst (snd p)), KInt (snd (snd p))]"

lemma makeSnapshot_encode: "makeSnapshot kv = encode_state (state kv, opIndex kv, totalLogCount kv)"
  by (simp add: makeSnapshot_def encode_state_def)

interpretation kv_codec: codec "\<lambda>(st, n). encode_state (st, i, n)" readSnapshot for i
  by unfold_locales (auto simp: encode_state_def)

lemma install_makeSnapshot:
  "installSnapshot kv' (makeSnapshot kv) =
     Inr (kv'\<lparr>state := state kv, totalLogCount := totalLogCount kv, instoreLogCount := 0\<rparr>)"
  using kv_codec.dec_enc [of "opIndex kv" "(state kv, totalLogCount kv)"]
    kv_codec.enc_nonempty [of "opIndex kv" "(state kv, totalLogCount kv)"]
  by (simp add: installSnapshot_def makeSnapshot_encode)

section \<open>What a message does to the server\<close>

text \<open>A committed command as Raft delivers it.\<close>

definition cmd_msg :: "int \<times> op \<Rightarrow> (op, kv_tok) applyMsg" where
  "cmd_msg p = emptyApplyMsg\<lparr>CommandValid := True, Command := Cmd (snd p), CommandIndex := fst p\<rparr>"

definition snap_msg :: "kv_tok list \<Rightarrow> (op, kv_tok) applyMsg" where
  "snap_msg d = emptyApplyMsg\<lparr>SnapshotValid := True, Snapshot := d\<rparr>"

text \<open>The apply loop over a stretch of the channel, without its sends.\<close>

definition feed ::
  "(op raft_tok list \<Rightarrow> int) \<Rightarrow> kvServer \<Rightarrow> (op, kv_tok) applyMsg list \<Rightarrow> kvServer res" where
  "feed bytes_len =
     res_fold (\<lambda>kv m. res_bind (handleApplyMessage bytes_len kv m) (\<lambda>(kv', s). Inr kv'))"

lemma deleteStartCh_frame:
  assumes "deleteStartCh kv x = Inr kv'"
  shows "state kv' = state kv" "kv_rf kv' = kv_rf kv" "kv_me kv' = kv_me kv"
    "maxraftstate kv' = maxraftstate kv"
  using assms by (auto simp: deleteStartCh_def split: option.splits if_splits)

lemma signalStartCh_frame:
  assumes "signalStartCh kv x r = Inr (kv', s)"
  shows "state kv' = state kv" "kv_rf kv' = kv_rf kv" "kv_me kv' = kv_me kv"
  using assms
  by (auto simp: signalStartCh_def deleteStartCh_frame split: option.splits if_splits)

lemma snapshotIfLarge_frame:
  assumes "snapshotIfLarge bl kv i = Inr kv'"
  shows "\<exists>rf. kv' = kv\<lparr>kv_rf := rf\<rparr>"
proof -
  have "\<exists>rf. kv = kv\<lparr>kv_rf := rf\<rparr>" by (rule exI [of _ "kv_rf kv"]) simp
  with assms show ?thesis by (auto simp: snapshotIfLarge_def split: if_splits)
qed

lemma answerOp_frame:
  assumes "answerOp kv x r = Inr (kv', s)"
  shows "state kv' = state kv" "kv_rf kv' = kv_rf kv" "kv_me kv' = kv_me kv"
  using assms by (auto simp: answerOp_def Let_def dest: signalStartCh_frame split: if_splits)

lemma handleCommandApply_Inr:
  assumes "handleCommandApply bl kv m = Inr (kv', s)"
  obtains x st r kv2 where "Command m = Cmd x" "executeOp (state kv) x = Inr (st, r)"
    "snapshotIfLarge bl (kv\<lparr>state := st\<rparr>) (CommandIndex m) = Inr kv2"
    "answerOp kv2 x r = Inr (kv', s)" "state kv2 = st" "kv_me kv2 = kv_me kv"
    "startChannels kv2 = startChannels kv"
proof (cases "Command m")
  case (Cmd x)
  with assms obtain st r kv2 where 1: "executeOp (state kv) x = Inr (st, r)"
    "snapshotIfLarge bl (kv\<lparr>state := st\<rparr>) (CommandIndex m) = Inr kv2"
    "answerOp kv2 x r = Inr (kv', s)"
    by (auto simp: handleCommandApply_def)
  from snapshotIfLarge_frame [OF 1(2)] obtain rf where "kv2 = kv\<lparr>state := st, kv_rf := rf\<rparr>" by auto
  with Cmd 1 that show ?thesis by simp
qed (use assms in \<open>simp_all add: handleCommandApply_def\<close>)

lemma handleCommandApply_state:
  assumes "handleCommandApply bl kv m = Inr (kv', s)" "Command m = Cmd x"
  shows "kv_app (state kv) x = Inr (state kv') \<and> kv_me kv' = kv_me kv"
  using assms(1)
proof (cases rule: handleCommandApply_Inr)
  case (1 x' st r kv2)
  with answerOp_frame [OF 1(4)] assms(2) show ?thesis by (simp add: kv_app_def)
qed

lemma handleApplyMessage_cmd:
  "handleApplyMessage bl kv (cmd_msg p) = handleCommandApply bl kv (cmd_msg p)"
  by (simp add: handleApplyMessage_def cmd_msg_def emptyApplyMsg_def)

text \<open>On commands the loop runs the state machine, whatever else the server holds.\<close>

lemma feed_commands:
  "feed bl kv (map cmd_msg ps) = Inr kv' \<Longrightarrow>
   res_fold kv_app (state kv) (map snd ps) = Inr (state kv')"
proof (induction ps arbitrary: kv)
  case Nil
  then show ?case by (simp add: feed_def)
next
  case (Cons p ps)
  then obtain kv1 s where 1: "handleApplyMessage bl kv (cmd_msg p) = Inr (kv1, s)"
    "feed bl kv1 (map cmd_msg ps) = Inr kv'" by (auto simp: feed_def)
  have "Command (cmd_msg p) = Cmd (snd p)" by (simp add: cmd_msg_def)
  from handleCommandApply_state [OF 1(1) [unfolded handleApplyMessage_cmd] this] Cons.IH [OF 1(2)]
  show ?case by simp
qed

lemma feed_append: "feed bl kv (ms @ ns) = res_bind (feed bl kv ms) (\<lambda>kv'. feed bl kv' ns)"
  by (simp add: feed_def res_fold_append)

lemma feed_snapshot:
  "feed bl kv [snap_msg (makeSnapshot kv0)] =
     Inr (kv\<lparr>state := state kv0, totalLogCount := totalLogCount kv0, instoreLogCount := 0\<rparr>)"
  by (simp add: feed_def handleApplyMessage_def snap_msg_def emptyApplyMsg_def
      CondInstallSnapshot_def install_makeSnapshot)

section \<open>The server keeps going\<close>

definition chans_ok :: "kvServer \<Rightarrow> bool" where
  "chans_ok = table_ok chan_at (\<lambda>kv. set (closedChans kv)) nextChan"

definition kv_ok :: "kvServer \<Rightarrow> bool" where
  "kv_ok kv \<longleftrightarrow> chans_ok kv \<and> raft_ok (kv_rf kv) \<and>
     commitIndex (kv_rf kv) \<le> getLastLogEntryIndex (kv_rf kv)"

lemma chans_ok_frame:
  "startChannels kv' = startChannels kv \<Longrightarrow> closedChans kv' = closedChans kv \<Longrightarrow>
   nextChan kv' = nextChan kv \<Longrightarrow> chans_ok kv' \<longleftrightarrow> chans_ok kv"
  unfolding chans_ok_def by (rule kv_table.table_ok_cong) (simp_all add: chan_at_def fun_eq_iff)

lemma deleteStartCh_ok:
  assumes "chans_ok kv"
  obtains kv' where "deleteStartCh kv x = Inr kv'" "chans_ok kv'" "getStartCh kv' x = None"
proof -
  from kv_table.delete_total [OF assms [unfolded chans_ok_def], of x] obtain kv' where
    "deleteStartCh kv x = Inr kv'" "chans_ok kv'" "chan_at kv' (op_key x) = None"
    by (auto simp: chans_ok_def)
  with that show ?thesis by (simp add: chan_at_getStartCh)
qed

lemma signalStartCh_ok:
  assumes "chans_ok kv"
  obtains kv' s where "signalStartCh kv x r = Inr (kv', s)" "chans_ok kv'"
    "s = map_option (\<lambda>c. (ReplyChannel c, r)) (getStartCh kv x)" "getStartCh kv' x = None"
proof (cases "getStartCh kv x")
  case None
  with assms that show ?thesis by (simp add: signalStartCh_def)
next
  case (Some c)
  then have "chan_at kv (op_key x) = Some (ReplyChannel c)" by (simp add: chan_at_getStartCh)
  from kv_table.table_okD(2) [OF assms [unfolded chans_ok_def] this]
  have "ReplyChannel c \<notin> set (closedChans kv)" .
  moreover from deleteStartCh_ok [OF assms] obtain kv' where
    "deleteStartCh kv x = Inr kv'" "chans_ok kv'" "getStartCh kv' x = None" .
  ultimately show ?thesis using Some that by (simp add: signalStartCh_def)
qed

lemma signalStartCh_sends:
  assumes "chans_ok kv" "signalStartCh kv x r = Inr (kv', Some (c, r'))"
  obtains ch where "r' = r" "getStartCh kv' x = None" "getStartCh kv x = Some ch" "ReplyChannel ch = c"
proof -
  from signalStartCh_ok [OF assms(1), of x r] obtain kv1 s where
    "signalStartCh kv x r = Inr (kv1, s)"
    "s = map_option (\<lambda>c. (ReplyChannel c, r)) (getStartCh kv x)" "getStartCh kv1 x = None" by metis
  with assms(2) that show ?thesis by auto
qed

lemma snapshotIfLarge_ok:
  assumes "kv_ok kv"
  obtains kv' where "snapshotIfLarge bl kv i = Inr kv'" "kv_ok kv'"
proof (cases "maxraftstate kv \<noteq> -1 \<and> RaftStateSize bl (persister (kv_rf kv)) \<ge> maxraftstate kv")
  case True
  have rf: "raft_ok (kv_rf kv)" "commitIndex (kv_rf kv) \<le> getLastLogEntryIndex (kv_rf kv)"
    using assms by (simp_all add: kv_ok_def)
  from SnapshotCall_total [OF rf] obtain rf' where
    rf': "SnapshotCall (kv_rf kv) i (makeSnapshot kv) = Inr rf'" by blast
  have "kv_ok (kv\<lparr>kv_rf := rf'\<rparr>)"
    using assms SnapshotCall_refines(1,2,6) [OF rf(1) rf'] chans_ok_frame [of "kv\<lparr>kv_rf := rf'\<rparr>" kv]
    by (simp add: kv_ok_def)
  with True rf' that show ?thesis by (simp add: snapshotIfLarge_def)
next
  case False
  with assms that show ?thesis by (simp add: snapshotIfLarge_def)
qed

lemma answerOp_ok:
  assumes "kv_ok kv"
  obtains kv' s where "answerOp kv x r = Inr (kv', s)" "kv_ok kv'"
proof (cases "opChannelMatch kv x")
  case True
  let ?r = "if \<not> snd (GetState (kv_rf kv)) then r\<lparr>Error := ErrWrongLeader\<rparr> else r"
  have "chans_ok kv" using assms by (simp add: kv_ok_def)
  from signalStartCh_ok [OF this] obtain kv' s where
    k: "signalStartCh kv x ?r = Inr (kv', s)" "chans_ok kv'" by metis
  with signalStartCh_frame(2) [OF k(1)] assms have "kv_ok kv'" by (simp add: kv_ok_def)
  with k(1) True that show ?thesis by (simp add: answerOp_def Let_def)
next
  case False
  with assms that show ?thesis by (simp add: answerOp_def Let_def)
qed

lemma handleCommandApply_total:
  assumes "kv_ok kv" "Command m = Cmd x" "Type x \<in> {GET, PUT, APPEND}"
  obtains kv' s where "handleCommandApply bl kv m = Inr (kv', s)" "kv_ok kv'"
proof -
  from executeOp_reply [OF assms(3)] obtain st r where st: "executeOp (state kv) x = Inr (st, r)" .
  have "kv_ok (kv\<lparr>state := st\<rparr>)"
    using assms(1) chans_ok_frame [of "kv\<lparr>state := st\<rparr>" kv] by (simp add: kv_ok_def)
  from snapshotIfLarge_ok [OF this] obtain kv2 where
    2: "snapshotIfLarge bl (kv\<lparr>state := st\<rparr>) (CommandIndex m) = Inr kv2" "kv_ok kv2" .
  from answerOp_ok [OF 2(2)] obtain kv' s where "answerOp kv2 x r = Inr (kv', s)" "kv_ok kv'" .
  with st 2(1) assms(2) that show ?thesis by (simp add: handleCommandApply_def)
qed

section \<open>Properties\<close>

text \<open>
  C16. Exactly once. Whatever mix of requests and retries Raft hands to a server as
  committed commands, its store is the result of executing, in order, each request that is
  newer than those of its client before it, and each of those exactly once: of one client
  they have strictly increasing indices. What the server waits for, its role and its
  snapshots do not matter.
\<close>

theorem kv_exactly_once:
  assumes "feed bytes_len kv (map cmd_msg ps) = Inr kv'"
  defines "xs \<equiv> fresh_ops ClientId RequestIndex (ClientLastRequest (state kv)) (map snd ps)"
  shows "KeyValueStore (state kv') = fold kv_exec xs (KeyValueStore (state kv)) \<and>
    (\<forall>c. sorted_wrt (<) (map RequestIndex (filter (\<lambda>x. ClientId x = c) xs)))"
  using kv_machine.exactly_once [OF feed_commands [OF assms(1)]]
  by (simp add: xs_def fresh_ops_increasing)

text \<open>A server of three that has just started, and two requests of client 5.\<close>

definition kv3 :: kvServer where
  "kv3 = projr (StartKVServer \<lparr>now = 0, rnd = 0\<rparr> 3 0 MakePersister (-1))"

definition put_a :: op where
  "put_a = \<lparr>ServerId = 0, OpIndex = 0, Type = PUT, Key = ''k'', Value = ''a'', ClientId = 5,
            RequestIndex = 1\<rparr>"

definition app_b :: op where
  "app_b = \<lparr>ServerId = 0, OpIndex = 1, Type = APPEND, Key = ''k'', Value = ''b'', ClientId = 5,
            RequestIndex = 2\<rparr>"

theorem kv_exactly_once_witness:
  "\<exists>kv'. feed (\<lambda>d. 0) kv3 (map cmd_msg [(1, put_a), (2, app_b), (3, put_a), (4, app_b)]) = Inr kv' \<and>
    KeyValueStore (state kv') ''k'' = Some ''ab''"
proof -
  let ?ps = "[(1, put_a), (2, app_b), (3, put_a), (4, app_b)]"
  have "\<not> isl (feed (\<lambda>d. 0) kv3 (map cmd_msg ?ps))" by code_simp
  then obtain kv' where kv': "feed (\<lambda>d. 0) kv3 (map cmd_msg ?ps) = Inr kv'"
    by (cases "feed (\<lambda>d. 0) kv3 (map cmd_msg ?ps)") auto
  have "fold kv_exec (fresh_ops ClientId RequestIndex (ClientLastRequest (state kv3)) (map snd ?ps))
      (KeyValueStore (state kv3)) ''k'' = Some ''ab''" by code_simp
  with kv_exactly_once [OF kv'] kv' show ?thesis by auto
qed

text \<open>
  C17. Replicas agree. A server is fed a log of commands, \<open>ps\<close> and then \<open>qs\<close>. A second
  server, whose store and request table are the same at the start and whatever its role, its
  waiting handlers and its own snapshots, is fed the same commands: it has the same store and
  request table afterwards. So has a third server, from any state at all, that is not fed
  \<open>ps\<close> but installs the snapshot that the second one takes there and is fed \<open>qs\<close>.
\<close>

theorem kv_replicas_agree:
  assumes "feed bytes_len kv (map cmd_msg (ps @ qs)) = Inr kv1"
    "KeyValueStore (state kv') = KeyValueStore (state kv)"
    "ClientLastRequest (state kv') = ClientLastRequest (state kv)"
    "feed bytes_len' kv' (map cmd_msg ps) = Inr kv2"
    "feed bytes_len' kv2 (map cmd_msg qs) = Inr kv2'"
    "feed bytes_len'' kv'' (snap_msg (makeSnapshot kv2) # map cmd_msg qs) = Inr new"
  shows "KeyValueStore (state kv2') = KeyValueStore (state kv1) \<and>
    ClientLastRequest (state kv2') = ClientLastRequest (state kv1) \<and>
    KeyValueStore (state new) = KeyValueStore (state kv1) \<and>
    ClientLastRequest (state new) = ClientLastRequest (state kv1)"
proof -
  let ?kv = "kv''\<lparr>state := state kv2, totalLogCount := totalLogCount kv2, instoreLogCount := 0\<rparr>"
  have "feed bytes_len'' ?kv (map cmd_msg qs) = Inr new"
    using assms(6) feed_append [of bytes_len'' kv'' "[snap_msg (makeSnapshot kv2)]" "map cmd_msg qs"]
    by (simp add: feed_snapshot)
  from feed_commands [OF this] feed_commands [OF assms(5)]
  have same: "state new = state kv2'" by simp
  have "feed bytes_len' kv' (map cmd_msg (ps @ qs)) = Inr kv2'"
    using assms(4,5) by (simp add: feed_append)
  from kv_machine.replicas_agree [OF feed_commands [OF this] feed_commands [OF assms(1)]] assms(2,3)
  show ?thesis by (simp add: same)
qed

theorem kv_replicas_agree_witness:
  "\<exists>kv1 kv2 kv2' kv3'.
    feed (\<lambda>d. 0) kv3 (map cmd_msg ([(1, put_a)] @ [(2, app_b)])) = Inr kv1 \<and>
    feed (\<lambda>d. 7) (kv3\<lparr>kv_me := 1, maxraftstate := 5\<rparr>) (map cmd_msg [(1, put_a)]) = Inr kv2 \<and>
    feed (\<lambda>d. 7) kv2 (map cmd_msg [(2, app_b)]) = Inr kv2' \<and>
    feed (\<lambda>d. 1) kv1 (snap_msg (makeSnapshot kv2) # map cmd_msg [(2, app_b)]) = Inr kv3' \<and>
    KeyValueStore (state kv2') = KeyValueStore (state kv1) \<and>
    KeyValueStore (state kv3') = KeyValueStore (state kv1) \<and>
    KeyValueStore (state kv1) ''k'' = Some ''ab''"
proof -
  let ?kv' = "kv3\<lparr>kv_me := 1, maxraftstate := 5\<rparr>"
  define kv1 where "kv1 = projr (feed (\<lambda>d. 0) kv3 (map cmd_msg ([(1, put_a)] @ [(2, app_b)])))"
  define kv2 where "kv2 = projr (feed (\<lambda>d. 7) ?kv' (map cmd_msg [(1, put_a)]))"
  define kv2' where "kv2' = projr (feed (\<lambda>d. 7) kv2 (map cmd_msg [(2, app_b)]))"
  define kv3' where "kv3' = projr (feed (\<lambda>d. 1) kv1
    (snap_msg (makeSnapshot kv2) # map cmd_msg [(2, app_b)]))"
  note defs = kv1_def kv2_def kv2'_def kv3'_def
  have "\<not> isl (feed (\<lambda>d. 0) kv3 (map cmd_msg ([(1, put_a)] @ [(2, app_b)])))"
    "\<not> isl (feed (\<lambda>d. 7) ?kv' (map cmd_msg [(1, put_a)]))"
    "\<not> isl (feed (\<lambda>d. 7) kv2 (map cmd_msg [(2, app_b)]))"
    "\<not> isl (feed (\<lambda>d. 1) kv1 (snap_msg (makeSnapshot kv2) # map cmd_msg [(2, app_b)]))"
    unfolding defs by code_simp+
  then have r: "feed (\<lambda>d. 0) kv3 (map cmd_msg ([(1, put_a)] @ [(2, app_b)])) = Inr kv1"
    "feed (\<lambda>d. 7) ?kv' (map cmd_msg [(1, put_a)]) = Inr kv2"
    "feed (\<lambda>d. 7) kv2 (map cmd_msg [(2, app_b)]) = Inr kv2'"
    "feed (\<lambda>d. 1) kv1 (snap_msg (makeSnapshot kv2) # map cmd_msg [(2, app_b)]) = Inr kv3'"
    unfolding defs by (auto dest: not_isl_Inr)
  have "KeyValueStore (state kv1) ''k'' = Some ''ab''" unfolding kv1_def by code_simp
  with kv_replicas_agree [OF r(1) _ _ r(2-4)] r show ?thesis by auto
qed

text \<open>
  The apply loop does not stop the server. With its channel table and its Raft peer in
  good order and the commit index within the log, every committed request of a known kind
  is processed without a fault (no closed channel is closed or sent on, no snapshot fails),
  and the server is in good order afterwards.
\<close>

theorem kv_apply_total:
  assumes "kv_ok kv" "Type x \<in> {GET, PUT, APPEND}"
  shows "\<exists>kv' s. handleApplyMessage bytes_len kv (cmd_msg (i, x)) = Inr (kv', s) \<and> kv_ok kv'"
proof -
  have "Command (cmd_msg (i, x)) = Cmd x" by (simp add: cmd_msg_def)
  from handleCommandApply_total [OF assms(1) this assms(2), of bytes_len] show ?thesis
    by (metis handleApplyMessage_cmd)
qed

lemma kv3_ok: "kv_ok kv3"
proof -
  have "startChannels kv3 = Map.empty" "closedChans kv3 = []"
    unfolding kv3_def StartKVServer_def Make_fresh_persister
    by (simp_all add: installSnapshot_def MakePersister_def ReadSnapshot_def)
  then have "chans_ok kv3" by (simp add: chans_ok_def table_ok_def chan_at_def)
  moreover have "raft_ok (kv_rf kv3)" "commitIndex (kv_rf kv3) \<le> getLastLogEntryIndex (kv_rf kv3)"
    by code_simp+
  ultimately show ?thesis by (simp add: kv_ok_def)
qed

theorem kv_apply_total_witness:
  "\<exists>kv' s. handleApplyMessage (\<lambda>d. 0) kv3 (cmd_msg (1, put_a)) = Inr (kv', s) \<and> kv_ok kv'"
  using kv_apply_total [OF kv3_ok, of put_a "\<lambda>d. 0" 1] by (simp add: put_a_def)

text \<open>
  An answer is the right answer. When processing a command makes the server send on a
  channel, the channel is the one of a handler on this server that registered the same
  request, and it is taken off the table. The reply says so if the server does not lead;
  otherwise it confirms a write, and for a read it carries the value that the store holds
  at this point of the log, or that there is none.
\<close>

theorem kv_answer_right:
  assumes "kv_ok kv" "handleApplyMessage bytes_len kv (cmd_msg (i, x)) = Inr (kv', Some (c, r))"
    "Type x \<in> {GET, PUT, APPEND}"
  shows "\<exists>ch. getStartCh kv x = Some ch \<and> ReplyChannel ch = c \<and> Type (Operation ch) = Type x \<and>
    Key (Operation ch) = Key x \<and> Value (Operation ch) = Value x \<and> ServerId x = kv_me kv \<and>
    getStartCh kv' x = None \<and>
    (if \<not> snd (GetState (kv_rf kv')) then Error r = ErrWrongLeader
     else if Type x = GET
     then Error r = (case KeyValueStore (state kv') (Key x) of None \<Rightarrow> ErrNoKey | Some v \<Rightarrow> OK) \<and>
          MsgValue r = (case KeyValueStore (state kv') (Key x) of None \<Rightarrow> '''' | Some v \<Rightarrow> v)
     else Error r = OK)"
proof -
  have "handleCommandApply bytes_len kv (cmd_msg (i, x)) = Inr (kv', Some (c, r))"
    using assms(2) by (simp add: handleApplyMessage_cmd)
  then show ?thesis
  proof (cases rule: handleCommandApply_Inr)
    case (1 x' st r0 kv2)
    from 1(1) have x': "x' = x" by (simp add: cmd_msg_def)
    let ?r = "if \<not> snd (GetState (kv_rf kv2)) then r0\<lparr>Error := ErrWrongLeader\<rparr> else r0"
    have match: "opChannelMatch kv2 x" "signalStartCh kv2 x ?r = Inr (kv', Some (c, r))"
      using 1(4) by (auto simp: x' answerOp_def Let_def split: if_splits)
    have "kv_ok (kv\<lparr>state := st\<rparr>)"
      using assms(1) chans_ok_frame [of "kv\<lparr>state := st\<rparr>" kv] by (simp add: kv_ok_def)
    then have "chans_ok kv2"
      using snapshotIfLarge_ok [of "kv\<lparr>state := st\<rparr>" bytes_len "CommandIndex (cmd_msg (i, x))"] 1(3)
      by (metis kv_ok_def sum.inject(2))
    from signalStartCh_sends [OF this match(2)] obtain ch where sent: "r = ?r"
      "getStartCh kv' x = None" "getStartCh kv2 x = Some ch" "ReplyChannel ch = c" .
    have same: "getStartCh kv2 x = getStartCh kv x" by (simp add: getStartCh_def 1(7))
    have frame: "state kv' = st" "kv_rf kv' = kv_rf kv2"
      using answerOp_frame [OF 1(4)] 1(5) by simp_all
    from executeOp_reply [OF assms(3), of "state kv"] 1(2) have reply:
      "Type x \<noteq> GET \<longrightarrow> Error r0 = OK"
      "Type x = GET \<longrightarrow> Error r0 = (case KeyValueStore st (Key x) of None \<Rightarrow> ErrNoKey | Some v \<Rightarrow> OK) \<and>
         MsgValue r0 = (case KeyValueStore st (Key x) of None \<Rightarrow> '''' | Some v \<Rightarrow> v)"
      unfolding x' by (metis prod.inject sum.inject(2))+
    from match(1) sent same 1(6) have ch: "getStartCh kv x = Some ch" "ReplyChannel ch = c"
      "Type (Operation ch) = Type x" "Key (Operation ch) = Key x" "Value (Operation ch) = Value x"
      "ServerId x = kv_me kv"
      by (auto simp: opChannelMatch_def Let_def split: if_splits)
    show ?thesis using ch sent(1,2) frame reply by auto
  qed
qed

text \<open>The same server as a leader, with a handler that waits for the first request.\<close>

definition kv3_waiting :: kvServer where
  "kv3_waiting =
     snd (createStartCh (kv3\<lparr>kv_rf := fst (becomeLeader \<lparr>now = 0, rnd = 0\<rparr> (kv_rf kv3))\<rparr>) put_a)"

lemma kv3_waiting_ok: "kv_ok kv3_waiting"
proof -
  let ?kv = "kv3\<lparr>kv_rf := fst (becomeLeader \<lparr>now = 0, rnd = 0\<rparr> (kv_rf kv3))\<rparr>"
  have "chans_ok ?kv" using kv3_ok chans_ok_frame [of ?kv kv3] by (simp add: kv_ok_def)
  then have "chans_ok kv3_waiting"
    unfolding chans_ok_def kv3_waiting_def by (rule kv_table.create_ok)
  moreover have "raft_ok (kv_rf kv3_waiting)"
    "commitIndex (kv_rf kv3_waiting) \<le> getLastLogEntryIndex (kv_rf kv3_waiting)" by code_simp+
  ultimately show ?thesis by (simp add: kv_ok_def)
qed

theorem kv_answer_right_witness:
  "\<exists>kv'. handleApplyMessage (\<lambda>d. 0) kv3_waiting (cmd_msg (1, put_a))
     = Inr (kv', Some (0, \<lparr>Error = OK, MsgValue = ''''\<rparr>)) \<and> getStartCh kv' put_a = None"
proof -
  let ?run = "handleApplyMessage (\<lambda>d. 0) kv3_waiting (cmd_msg (1, put_a))"
  have "\<not> isl ?run" "snd (projr ?run) = Some (0, \<lparr>Error = OK, MsgValue = ''''\<rparr>)" by code_simp+
  then obtain kv' where run: "?run = Inr (kv', Some (0, \<lparr>Error = OK, MsgValue = ''''\<rparr>))"
    by (metis not_isl_Inr prod.collapse)
  with kv_answer_right [OF kv3_waiting_ok run] show ?thesis by (auto simp: put_a_def)
qed

end
