(* ===== verification/KV_Handlers.thy ===== *)
theory KV_Handlers
  imports KV_Server Raft_Cluster
begin

text \<open>
  The RPC handlers of kvraft, section by section, and a server with all the handlers that
  are running on it. A handler checks that its server leads, registers a channel under
  \<open>kv.mu\<close>, calls \<open>Start\<close>, and then waits for a message on the channel or for its
  timer; either way it takes \<open>kv.mu\<close> again before it answers. The apply loop sends on
  the channel while it holds \<open>kv.mu\<close>, and reply channels have no buffer, so the send
  waits until the handler receives.
\<close>

record getArgs =
  ga_Key :: string
  ga_ClientId :: int
  ga_RequestIndex :: int

record getReply =
  gr_Err :: err
  gr_Value :: string

record putAppendArgs =
  pa_Key :: string
  pa_Value :: string
  pa_Op :: opType
  pa_ClientId :: int
  pa_RequestIndex :: int

record putAppendReply =
  pr_Err :: err

section \<open>The sections of \<open>Get\<close>\<close>

definition createGetOp :: "kvServer \<Rightarrow> getArgs \<Rightarrow> op \<times> kvServer" where
  "createGetOp kv args =
     (\<lparr>ServerId = kv_me kv, OpIndex = opIndex kv, Type = GET, Key = ga_Key args, Value = '''',
       ClientId = ga_ClientId args, RequestIndex = ga_RequestIndex args\<rparr>,
      kv\<lparr>opIndex := opIndex kv + 1\<rparr>)"

text \<open>\<open>None\<close> in the place of the channel is the flag that tells the handler to stop.\<close>

definition preGetStart ::
  "kvServer \<Rightarrow> getArgs \<Rightarrow> getReply \<Rightarrow> kvServer \<times> op \<times> opKVReplyChannel option \<times> getReply" where
  "preGetStart kv args reply =
     (let (x, kv1) = createGetOp kv args in
      if kv_killed kv1 then (kv1, x, None, reply\<lparr>gr_Err := ErrWrongLeader\<rparr>)
      else let (startCh, kv2) = createStartCh kv1 x in (kv2, x, Some startCh, reply))"

definition handleGetResult ::
  "kvServer \<Rightarrow> op \<Rightarrow> kvReplyMsg \<Rightarrow> getReply \<Rightarrow> (kvServer \<times> getReply) res" where
  "handleGetResult kv x responseMsg reply =
     res_bind (deleteStartCh kv x) (\<lambda>kv1.
       if Error responseMsg = ErrFiller
       then Inl (LogFatal ''In handleGetResult(), response error is ErrFiller'')
       else Inr (kv1, reply\<lparr>gr_Err := Error responseMsg, gr_Value := MsgValue responseMsg\<rparr>))"

definition getTimeout :: "kvServer \<Rightarrow> op \<Rightarrow> getReply \<Rightarrow> (kvServer \<times> getReply) res" where
  "getTimeout kv x reply =
     res_bind (deleteStartCh kv x) (\<lambda>kv1. Inr (kv1, reply\<lparr>gr_Err := ErrTimeout\<rparr>))"

section \<open>The sections of \<open>PutAppend\<close>\<close>

definition createPutAppendOp :: "kvServer \<Rightarrow> putAppendArgs \<Rightarrow> op \<times> kvServer" where
  "createPutAppendOp kv args =
     (\<lparr>ServerId = kv_me kv, OpIndex = opIndex kv, Type = pa_Op args, Key = pa_Key args,
       Value = pa_Value args, ClientId = pa_ClientId args, RequestIndex = pa_RequestIndex args\<rparr>,
      kv\<lparr>opIndex := opIndex kv + 1\<rparr>)"

definition prePutAppendStart ::
  "kvServer \<Rightarrow> putAppendArgs \<Rightarrow> putAppendReply \<Rightarrow>
   kvServer \<times> op \<times> opKVReplyChannel option \<times> putAppendReply" where
  "prePutAppendStart kv args reply =
     (let (x, kv1) = createPutAppendOp kv args in
      if kv_killed kv1 then (kv1, x, None, reply\<lparr>pr_Err := ErrWrongLeader\<rparr>)
      else let (startCh, kv2) = createStartCh kv1 x in (kv2, x, Some startCh, reply))"

definition handlePutAppendResult ::
  "kvServer \<Rightarrow> op \<Rightarrow> kvReplyMsg \<Rightarrow> putAppendReply \<Rightarrow> (kvServer \<times> putAppendReply) res" where
  "handlePutAppendResult kv x responseMsg reply =
     res_bind (deleteStartCh kv x) (\<lambda>kv1.
       if Error responseMsg = ErrFiller
       then Inl (LogFatal ''In handlePutAppendResult(), response error is ErrFiller'')
       else Inr (kv1, reply\<lparr>pr_Err := Error responseMsg\<rparr>))"

definition putAppendTimeout ::
  "kvServer \<Rightarrow> op \<Rightarrow> putAppendReply \<Rightarrow> (kvServer \<times> putAppendReply) res" where
  "putAppendTimeout kv x reply =
     res_bind (deleteStartCh kv x) (\<lambda>kv1. Inr (kv1, reply\<lparr>pr_Err := ErrTimeout\<rparr>))"

section \<open>Both handlers as one machine\<close>

datatype request = GetReq getArgs | PutReq putAppendArgs

datatype answer = GetRep getReply | PutRep putAppendReply

text \<open>Where a handler is, with what it carries from one section to the next.\<close>

datatype stage =
    Called request
  | Leading request
  | Registered op nat answer
  | Refused op answer
  | Waiting op nat answer
  | Received op kvReplyMsg answer
  | Expired op answer
  | Answered answer

definition empty_answer :: "request \<Rightarrow> answer" where
  "empty_answer r =
     (case r of GetReq a \<Rightarrow> GetRep \<lparr>gr_Err = EmptyErr, gr_Value = ''''\<rparr>
              | PutReq a \<Rightarrow> PutRep \<lparr>pr_Err = EmptyErr\<rparr>)"

fun with_err :: "answer \<Rightarrow> err \<Rightarrow> answer" where
  "with_err (GetRep r) e = GetRep (r\<lparr>gr_Err := e\<rparr>)"
| "with_err (PutRep r) e = PutRep (r\<lparr>pr_Err := e\<rparr>)"

fun answer_err :: "answer \<Rightarrow> err" where
  "answer_err (GetRep r) = gr_Err r"
| "answer_err (PutRep r) = pr_Err r"

text \<open>The check at the entry, the registration, and the call of \<open>Start\<close>.\<close>

definition rpc_check :: "kvServer \<Rightarrow> request \<Rightarrow> stage" where
  "rpc_check kv r =
     (if \<not> snd (GetState (kv_rf kv)) then Answered (with_err (empty_answer r) ErrWrongLeader)
      else Leading r)"

definition rpc_register :: "kvServer \<Rightarrow> request \<Rightarrow> kvServer \<times> stage" where
  "rpc_register kv r =
     (case r of
        GetReq a \<Rightarrow>
          (let (kv', x, ch, reply) = preGetStart kv a \<lparr>gr_Err = EmptyErr, gr_Value = ''''\<rparr> in
           (kv', case ch of None \<Rightarrow> Answered (GetRep reply)
                 | Some c \<Rightarrow> Registered x (ReplyChannel c) (GetRep (reply\<lparr>gr_Err := ErrOther\<rparr>))))
      | PutReq a \<Rightarrow>
          (let (kv', x, ch, reply) = prePutAppendStart kv a \<lparr>pr_Err = EmptyErr\<rparr> in
           (kv', case ch of None \<Rightarrow> Answered (PutRep reply)
                 | Some c \<Rightarrow> Registered x (ReplyChannel c) (PutRep (reply\<lparr>pr_Err := ErrOther\<rparr>)))))"

definition rpc_start :: "kvServer \<Rightarrow> op \<Rightarrow> nat \<Rightarrow> answer \<Rightarrow> kvServer \<times> stage" where
  "rpc_start kv x c a =
     (let ((index, t, isLdr), rf) = Start (kv_rf kv) (Cmd x) in
      (kv\<lparr>kv_rf := rf\<rparr>, if \<not> isLdr then Refused x (with_err a ErrWrongLeader) else Waiting x c a))"

definition rpc_result :: "kvServer \<Rightarrow> op \<Rightarrow> kvReplyMsg \<Rightarrow> answer \<Rightarrow> (kvServer \<times> answer) res" where
  "rpc_result kv x m a =
     (case a of
        GetRep r \<Rightarrow> res_bind (handleGetResult kv x m r) (\<lambda>(kv', r'). Inr (kv', GetRep r'))
      | PutRep r \<Rightarrow> res_bind (handlePutAppendResult kv x m r) (\<lambda>(kv', r'). Inr (kv', PutRep r')))"

definition rpc_timeout :: "kvServer \<Rightarrow> op \<Rightarrow> answer \<Rightarrow> (kvServer \<times> answer) res" where
  "rpc_timeout kv x a =
     (case a of
        GetRep r \<Rightarrow> res_bind (getTimeout kv x r) (\<lambda>(kv', r'). Inr (kv', GetRep r'))
      | PutRep r \<Rightarrow> res_bind (putAppendTimeout kv x r) (\<lambda>(kv', r'). Inr (kv', PutRep r')))"

section \<open>A server with its handlers\<close>

text \<open>
  \<open>sending\<close> is the apply loop inside \<open>signalStartCh\<close>: the channel it sends on, the
  message, and the server as the section leaves it when the send is done. While it is set,
  the loop holds \<open>kv.mu\<close>.
\<close>

record kv_sys =
  server :: kvServer
  handlers :: "nat \<rightharpoonup> stage"
  sending :: "(nat \<times> kvReplyMsg \<times> kvServer) option"

definition zeroMsg :: kvReplyMsg where
  "zeroMsg = \<lparr>Error = EmptyErr, MsgValue = ''''\<rparr>"

inductive kv_step :: "(op raft_tok list \<Rightarrow> int) \<Rightarrow> kv_sys \<Rightarrow> kv_sys \<Rightarrow> bool" for bl where
  call: "handlers s h = None \<Longrightarrow>
    kv_step bl s (s\<lparr>handlers := (handlers s)(h \<mapsto> Called r)\<rparr>)"
| check: "handlers s h = Some (Called r) \<Longrightarrow>
    kv_step bl s (s\<lparr>handlers := (handlers s)(h \<mapsto> rpc_check (server s) r)\<rparr>)"
| register: "handlers s h = Some (Leading r) \<Longrightarrow> sending s = None \<Longrightarrow>
    rpc_register (server s) r = (kv, st) \<Longrightarrow>
    kv_step bl s (s\<lparr>server := kv, handlers := (handlers s)(h \<mapsto> st)\<rparr>)"
| start: "handlers s h = Some (Registered x c a) \<Longrightarrow> rpc_start (server s) x c a = (kv, st) \<Longrightarrow>
    kv_step bl s (s\<lparr>server := kv, handlers := (handlers s)(h \<mapsto> st),
      sending := map_option (\<lambda>(d, m, kv'). (d, m, kv'\<lparr>kv_rf := kv_rf kv\<rparr>)) (sending s)\<rparr>)"
| refused: "handlers s h = Some (Refused x a) \<Longrightarrow> sending s = None \<Longrightarrow>
    deleteStartChLocked (server s) x = Inr kv \<Longrightarrow>
    kv_step bl s (s\<lparr>server := kv, handlers := (handlers s)(h \<mapsto> Answered a)\<rparr>)"
| expire: "handlers s h = Some (Waiting x c a) \<Longrightarrow>
    kv_step bl s (s\<lparr>handlers := (handlers s)(h \<mapsto> Expired x a)\<rparr>)"
| receive: "handlers s h = Some (Waiting x c a) \<Longrightarrow> sending s = Some (c, m, kv) \<Longrightarrow>
    kv_step bl s (s\<lparr>server := kv, handlers := (handlers s)(h \<mapsto> Received x m a), sending := None\<rparr>)"
| receive_closed: "handlers s h = Some (Waiting x c a) \<Longrightarrow> c \<in> set (closedChans (server s)) \<Longrightarrow>
    kv_step bl s (s\<lparr>handlers := (handlers s)(h \<mapsto> Received x zeroMsg a)\<rparr>)"
| result: "handlers s h = Some (Received x m a) \<Longrightarrow> sending s = None \<Longrightarrow>
    rpc_result (server s) x m a = Inr (kv, a') \<Longrightarrow>
    kv_step bl s (s\<lparr>server := kv, handlers := (handlers s)(h \<mapsto> Answered a')\<rparr>)"
| timeout: "handlers s h = Some (Expired x a) \<Longrightarrow> sending s = None \<Longrightarrow>
    rpc_timeout (server s) x a = Inr (kv, a') \<Longrightarrow>
    kv_step bl s (s\<lparr>server := kv, handlers := (handlers s)(h \<mapsto> Answered a')\<rparr>)"
| deliver: "sending s = None \<Longrightarrow> handleApplyMessage bl (server s) m = Inr (kv, None) \<Longrightarrow>
    kv_step bl s (s\<lparr>server := kv\<rparr>)"
| send: "sending s = None \<Longrightarrow> handleApplyMessage bl (server s) m = Inr (kv, Some (c, r)) \<Longrightarrow>
    kv_step bl s (s\<lparr>server := (server s)\<lparr>state := state kv, kv_rf := kv_rf kv\<rparr>,
      sending := Some (c, r, kv)\<rparr>)"
| raft: "peer_change n i (kv_rf (server s)) rf \<Longrightarrow>
    kv_step bl s (s\<lparr>server := (server s)\<lparr>kv_rf := rf\<rparr>,
      sending := map_option (\<lambda>(d, m, kv'). (d, m, kv'\<lparr>kv_rf := rf\<rparr>)) (sending s)\<rparr>)"

definition kv_init :: "kv_sys \<Rightarrow> bool" where
  "kv_init s \<longleftrightarrow> (\<exists>ev n i maxraft. StartKVServer ev n i MakePersister maxraft = Inr (server s)) \<and>
     handlers s = Map.empty \<and> sending s = None"

section \<open>Handlers never stop the process\<close>

lemma executeOp_not_filler: "executeOp st x = Inr (st', r) \<Longrightarrow> Error r \<noteq> ErrFiller"
  by (auto simp: executeOp_def getValue_def Let_def split: if_splits opType.splits option.splits)

lemma signalStartCh_chans:
  assumes "chans_ok kv" "signalStartCh kv x r = Inr (kv', s)"
  shows "chans_ok kv' \<and> (s = None \<or> (\<exists>c. s = Some (c, r)))"
proof -
  from signalStartCh_ok [OF assms(1), of x r] obtain kv1 t where
    "signalStartCh kv x r = Inr (kv1, t)" "chans_ok kv1"
    "t = map_option (\<lambda>c. (ReplyChannel c, r)) (getStartCh kv x)" by metis
  with assms(2) show ?thesis by auto
qed

lemma answerOp_chans:
  assumes "chans_ok kv" "answerOp kv x r = Inr (kv', s)" "Error r \<noteq> ErrFiller"
  shows "chans_ok kv' \<and> (\<forall>c m. s = Some (c, m) \<longrightarrow> Error m \<noteq> ErrFiller)"
proof (cases "opChannelMatch kv x")
  case True
  let ?r = "if \<not> snd (GetState (kv_rf kv)) then r\<lparr>Error := ErrWrongLeader\<rparr> else r"
  from True assms(2) have "signalStartCh kv x ?r = Inr (kv', s)" by (simp add: answerOp_def Let_def)
  note sent = signalStartCh_chans [OF assms(1) this]
  have "Error ?r \<noteq> ErrFiller" using assms(3) by simp
  with sent show ?thesis by blast
next
  case False
  with assms show ?thesis by (auto simp: answerOp_def Let_def)
qed

lemma installSnapshot_chans:
  assumes "installSnapshot kv d = Inr kv'" "chans_ok kv"
  shows "chans_ok kv'"
proof -
  from assms(1) have "startChannels kv' = startChannels kv" "closedChans kv' = closedChans kv"
    "nextChan kv' = nextChan kv"
    by (auto simp: installSnapshot_def split: if_splits)
  from chans_ok_frame [OF this] assms(2) show ?thesis by simp
qed

lemma handleApplyMessage_chans:
  assumes "handleApplyMessage bl kv m = Inr (kv', s)" "chans_ok kv"
  shows "chans_ok kv' \<and> (\<forall>c r. s = Some (c, r) \<longrightarrow> Error r \<noteq> ErrFiller)"
proof (cases "\<not> SnapshotValid m \<and> CommandValid m")
  case True
  with assms(1) have "handleCommandApply bl kv m = Inr (kv', s)"
    by (simp add: handleApplyMessage_def)
  then show ?thesis
  proof (cases rule: handleCommandApply_Inr)
    case (1 x st r kv2)
    from snapshotIfLarge_frame [OF 1(3)] obtain rf where "kv2 = kv\<lparr>state := st, kv_rf := rf\<rparr>" by auto
    with assms(2) have "chans_ok kv2" using chans_ok_frame [of kv2 kv] by simp
    from answerOp_chans [OF this 1(4) executeOp_not_filler [OF 1(2)]] show ?thesis by blast
  qed
next
  case False
  with assms installSnapshot_chans show ?thesis
    by (auto simp: handleApplyMessage_def split: if_splits)
qed

definition sys_ok :: "kv_sys \<Rightarrow> bool" where
  "sys_ok s \<longleftrightarrow> chans_ok (server s) \<and>
     (\<forall>c m kv. sending s = Some (c, m, kv) \<longrightarrow> chans_ok kv \<and> Error m \<noteq> ErrFiller) \<and>
     (\<forall>h x m a. handlers s h = Some (Received x m a) \<longrightarrow> Error m \<noteq> ErrFiller)"

lemma rpc_register_ok:
  assumes "chans_ok kv" "rpc_register kv r = (kv', st)"
  shows "chans_ok kv'" "st \<noteq> Received x m a"
proof -
  have frame: "chans_ok (kv\<lparr>opIndex := i\<rparr>)" for i
    using assms(1) chans_ok_frame [of "kv\<lparr>opIndex := i\<rparr>" kv] by simp
  then have "chans_ok (snd (createStartCh (kv\<lparr>opIndex := i\<rparr>) y))" for i y
    using kv_table.create_ok by (simp add: chans_ok_def)
  with assms(2) frame show "chans_ok kv'" "st \<noteq> Received x m a"
    by (auto simp: rpc_register_def preGetStart_def prePutAppendStart_def createGetOp_def
        createPutAppendOp_def Let_def split: request.splits if_splits prod.splits) (metis snd_conv)+
qed

lemma rpc_result_ok:
  assumes "chans_ok kv" "rpc_result kv x m a = Inr (kv', a')"
  shows "chans_ok kv'"
  using assms kv_table.delete_ok(1) [of kv x]
  by (auto simp: rpc_result_def handleGetResult_def handlePutAppendResult_def chans_ok_def
      split: answer.splits if_splits)

lemma rpc_timeout_ok:
  assumes "chans_ok kv" "rpc_timeout kv x a = Inr (kv', a')"
  shows "chans_ok kv'"
  using assms kv_table.delete_ok(1) [of kv x]
  by (auto simp: rpc_timeout_def getTimeout_def putAppendTimeout_def chans_ok_def
      split: answer.splits)

lemma rpc_start_frame:
  assumes "rpc_start kv x c a = (kv', st)"
  shows "kv' = kv\<lparr>kv_rf := kv_rf kv'\<rparr>" "st \<noteq> Received y m b" "st \<noteq> Registered y d b"
    "st = Waiting y d b \<Longrightarrow> d = c"
  using assms by (auto simp: rpc_start_def Let_def split: prod.splits if_splits)

lemma rpc_check_frame:
  "rpc_check kv r \<noteq> Received x m a" "rpc_check kv r \<noteq> Waiting x c a"
  "rpc_check kv r \<noteq> Registered x c a"
  by (auto simp: rpc_check_def)

lemma chans_ok_rf [simp]: "chans_ok (kv\<lparr>kv_rf := rf\<rparr>) = chans_ok kv"
  by (rule chans_ok_frame) simp_all

interpretation kv_sys: invariant_of kv_init "kv_step bl" sys_ok for bl
proof (unfold_locales, goal_cases)
  case (1 s)
  then obtain ev n i maxraft where
    "StartKVServer ev n i MakePersister maxraft = Inr (server s)" and
    h: "handlers s = Map.empty" "sending s = None" by (auto simp: kv_init_def)
  then have "startChannels (server s) = Map.empty" "closedChans (server s) = []"
    unfolding StartKVServer_def Make_fresh_persister
    by (auto simp: installSnapshot_def MakePersister_def ReadSnapshot_def dest: sym)
  then have "chans_ok (server s)" by (simp add: chans_ok_def table_ok_def chan_at_def)
  with h show ?case by (simp add: sys_ok_def)
next
  case (2 s t)
  from 2(2,1) show ?case
  proof (cases rule: kv_step.cases)
    case (register h r kv st)
    with 2(1) rpc_register_ok [OF _ register(4)] show ?thesis by (auto simp: sys_ok_def)
  next
    case (start h x c a kv st)
    note frame = rpc_start_frame [OF start(3)]
    have "chans_ok kv" using 2(1) frame(1) chans_ok_rf [of "kv_rf kv" "server s"]
      by (simp add: sys_ok_def)
    with 2(1) start(1) frame(2) show ?thesis by (auto simp: sys_ok_def)
  next
    case (refused h x a kv)
    with 2(1) kv_table.delete_ok(1) [of "server s" x kv] show ?thesis
      by (auto simp: sys_ok_def deleteStartChLocked_def chans_ok_def)
  next
    case (result h x m a kv a')
    with 2(1) rpc_result_ok [OF _ result(4)] show ?thesis by (auto simp: sys_ok_def)
  next
    case (timeout h x a kv a')
    with 2(1) rpc_timeout_ok [OF _ timeout(4)] show ?thesis by (auto simp: sys_ok_def)
  next
    case (deliver m kv)
    with 2(1) handleApplyMessage_chans [OF deliver(3)] show ?thesis by (auto simp: sys_ok_def)
  next
    case (send m kv c r)
    have "chans_ok ((server s)\<lparr>state := st, kv_rf := rf\<rparr>)" for st rf
      using 2(1) chans_ok_frame [of "(server s)\<lparr>state := st, kv_rf := rf\<rparr>" "server s"]
      by (simp add: sys_ok_def)
    with 2(1) send handleApplyMessage_chans [OF send(3)] show ?thesis by (auto simp: sys_ok_def)
  qed (auto simp: sys_ok_def rpc_check_frame zeroMsg_def)
qed

section \<open>A send that nobody receives\<close>

definition stuck :: "nat \<Rightarrow> kv_sys \<Rightarrow> bool" where
  "stuck c s \<longleftrightarrow> (\<exists>m kv. sending s = Some (c, m, kv)) \<and>
     (\<forall>h x a. handlers s h \<noteq> Some (Waiting x c a) \<and> handlers s h \<noteq> Some (Registered x c a))"

text \<open>A handler that holds no lock and needs \<open>kv.mu\<close> for its next section.\<close>

fun needs_mu :: "stage \<Rightarrow> bool" where
  "needs_mu (Leading r) = True"
| "needs_mu (Refused x a) = True"
| "needs_mu (Received x m a) = True"
| "needs_mu (Expired x a) = True"
| "needs_mu _ = False"

definition frozen :: "kv_sys \<Rightarrow> kv_sys \<Rightarrow> bool" where
  "frozen s t \<longleftrightarrow> state (server t) = state (server s) \<and>
     (\<forall>h st. handlers s h = Some st \<and> needs_mu st \<longrightarrow> handlers t h = Some st)"

lemma stuck_step:
  assumes "kv_step bl s t" "stuck c s"
  shows "stuck c t \<and> frozen s t"
  using assms(1)
proof (cases rule: kv_step.cases)
  case (start h x d a kv st)
  note frame = rpc_start_frame [OF start(3)]
  have "state kv = state (server s)" using arg_cong [OF frame(1), of state] by simp
  moreover have "d \<noteq> c" using assms(2) start(2) by (auto simp: stuck_def)
  ultimately show ?thesis
    using assms(2) start(1,2) frame(2-4) by (auto simp: stuck_def frozen_def)
qed (use assms(2) in \<open>auto simp: stuck_def frozen_def rpc_check_frame\<close>)

lemma frozen_trans: "frozen s t \<Longrightarrow> frozen t u \<Longrightarrow> frozen s u"
  by (simp add: frozen_def)

lemma stuck_forever: "(kv_step bl)\<^sup>*\<^sup>* s t \<Longrightarrow> stuck c s \<Longrightarrow> stuck c t \<and> frozen s t"
proof (induction rule: rtranclp_induct)
  case base
  then show ?case by (simp add: frozen_def)
next
  case (step t u)
  then show ?case using stuck_step [of bl t u c] frozen_trans by blast
qed

text \<open>
  A run into such a state: a server of three is elected and accepts a Get; the entry is
  replicated and committed; the timer of the handler fires; then the apply loop takes
  \<open>kv.mu\<close> before the handler does.
\<close>

definition dl_get :: request where
  "dl_get = GetReq \<lparr>ga_Key = ''k'', ga_ClientId = 5, ga_RequestIndex = 1\<rparr>"

definition dl_op :: op where
  "dl_op = \<lparr>ServerId = 0, OpIndex = 0, Type = GET, Key = ''k'', Value = '''', ClientId = 5,
            RequestIndex = 1\<rparr>"

definition dl_ans :: answer where
  "dl_ans = GetRep \<lparr>gr_Err = ErrOther, gr_Value = ''''\<rparr>"

definition dl_cand :: "(op, kv_tok) raft" where
  "dl_cand = fst (ticker \<lparr>now = 1000000000, rnd = 0\<rparr> (kv_rf kv3))"

definition dl_lead :: "(op, kv_tok) raft" where
  "dl_lead = fst (handleRequestVoteReply \<lparr>now = 1000000001, rnd = 0\<rparr> dl_cand
     (Some \<lparr>rvr_Term = 1, rvr_VoteGranted = True\<rparr>))"

definition dl_reg :: kvServer where
  "dl_reg = fst (rpc_register (kv3\<lparr>kv_rf := dl_lead\<rparr>) dl_get)"

definition dl_wait :: kvServer where
  "dl_wait = fst (rpc_start dl_reg dl_op 0 dl_ans)"

definition dl_args :: "op appendEntriesArgs" where
  "dl_args = projr (createAppendEntriesArgs (kv_rf dl_wait) 1)"

definition dl_ack :: "appendEntriesReply option" where
  "dl_ack = Some (emptyAppendEntriesReply\<lparr>aer_Success := True, aer_Term := 2\<rparr>)"

definition dl_commit :: "(op, kv_tok) raft" where
  "dl_commit = fst (projr (handleAppendEntriesReply \<lparr>now = 0, rnd = 0\<rparr> (kv_rf dl_wait) 1 dl_args dl_ack))"

definition dl_run :: "(op raft_tok list \<Rightarrow> int) \<Rightarrow> (kvServer \<times> (nat \<times> kvReplyMsg) option) res" where
  "dl_run bl = handleApplyMessage bl (dl_wait\<lparr>kv_rf := dl_commit\<rparr>) (cmd_msg (1, dl_op))"

lemma dl_facts:
  "snd (rpc_register (kv3\<lparr>kv_rf := dl_lead\<rparr>) dl_get) = Registered dl_op 0 dl_ans"
  "snd (rpc_start dl_reg dl_op 0 dl_ans) = Waiting dl_op 0 dl_ans"
  "rpc_check (kv3\<lparr>kv_rf := dl_lead\<rparr>) dl_get = Leading dl_get"
  "\<not> isl (handleAppendEntriesReply \<lparr>now = 0, rnd = 0\<rparr> (kv_rf dl_wait) 1 dl_args dl_ack)"
  "commitIndex dl_commit = 1" "log_at dl_commit 1 = Some \<lparr>Term = 2, Action = Cmd dl_op\<rparr>"
  by code_simp+

lemma dl_sends:
  "\<exists>kv r. dl_run bl = Inr (kv, Some (0, r))"
proof -
  have "handleApplyMessage bl kv (cmd_msg (1, dl_op)) = handleApplyMessage (\<lambda>d. 0) kv (cmd_msg (1, dl_op))"
    if "maxraftstate kv = -1" for kv
    using that unfolding handleApplyMessage_cmd
    by (simp add: handleCommandApply_def snapshotIfLarge_def cmd_msg_def)
  moreover have "maxraftstate (dl_wait\<lparr>kv_rf := dl_commit\<rparr>) = -1" by code_simp
  ultimately have same: "dl_run bl = dl_run (\<lambda>d. 0)" by (simp add: dl_run_def)
  have "\<not> isl (dl_run (\<lambda>d. 0))" "map_option fst (snd (projr (dl_run (\<lambda>d. 0)))) = Some 0" by code_simp+
  then show ?thesis unfolding same by (cases "dl_run (\<lambda>d. 0)") auto
qed

section \<open>Properties\<close>

text \<open>
  C18. Whatever handlers, timers, the apply loop and Raft do, and in whatever order, the
  section that ends a handler never stops the process: no channel is closed twice, and the
  reply that says that a handler forgot to set it does not occur. The entry of the handler
  is gone afterwards, and a handler whose timer fired answers with a timeout.
\<close>

theorem kv_handlers_complete:
  assumes "reach kv_init (kv_step bytes_len) s"
  shows "(handlers s h = Some (Received x m a) \<longrightarrow>
      (\<exists>kv' a'. rpc_result (server s) x m a = Inr (kv', a') \<and> answer_err a' = Error m \<and>
         getStartCh kv' x = None)) \<and>
    (handlers s h = Some (Expired x a) \<longrightarrow>
      (\<exists>kv' a'. rpc_timeout (server s) x a = Inr (kv', a') \<and> answer_err a' = ErrTimeout \<and>
         getStartCh kv' x = None)) \<and>
    (handlers s h = Some (Refused x a) \<longrightarrow>
      (\<exists>kv'. deleteStartChLocked (server s) x = Inr kv' \<and> getStartCh kv' x = None))"
proof -
  have ok: "sys_ok s" by (rule kv_sys.reach_inv [OF assms])
  then have "chans_ok (server s)" by (simp add: sys_ok_def)
  from deleteStartCh_ok [OF this, of x] obtain kv' where
    "deleteStartCh (server s) x = Inr kv'" "getStartCh kv' x = None" .
  moreover have "handlers s h = Some (Received x m a) \<Longrightarrow> Error m \<noteq> ErrFiller"
    using ok unfolding sys_ok_def by blast
  ultimately show ?thesis
    by (cases a) (auto simp: rpc_result_def handleGetResult_def handlePutAppendResult_def
        rpc_timeout_def getTimeout_def putAppendTimeout_def deleteStartChLocked_def)
qed

definition dl_sys :: "kvServer \<Rightarrow> stage option \<Rightarrow> kv_sys" where
  "dl_sys kv st = \<lparr>server = kv, handlers = (case st of None \<Rightarrow> Map.empty | Some x \<Rightarrow> [0 \<mapsto> x]),
     sending = None\<rparr>"

lemma dl_raft:
  "peer_change 3 0 (kv_rf kv) rf \<Longrightarrow> kv_step bl (dl_sys kv st) (dl_sys (kv\<lparr>kv_rf := rf\<rparr>) st)"
  using kv_step.raft [of 3 0 "dl_sys kv st" rf bl] by (simp add: dl_sys_def)

lemma dl_elected: "reach kv_init (kv_step bl) (dl_sys (kv3\<lparr>kv_rf := dl_lead\<rparr>) None)"
proof -
  have "\<not> isl (StartKVServer \<lparr>now = 0, rnd = 0\<rparr> 3 0 MakePersister (-1))" by code_simp
  then have "kv_init (dl_sys kv3 None)"
    using not_isl_Inr unfolding kv_init_def dl_sys_def kv3_def by fastforce
  then have r0: "reach kv_init (kv_step bl) (dl_sys kv3 None)" by (rule reach.reach_init)
  have "kv_step bl (dl_sys kv3 None) (dl_sys (kv3\<lparr>kv_rf := dl_cand\<rparr>) None)"
    unfolding dl_cand_def by (intro dl_raft peer_change.tick)
  from reach.reach_step [OF r0 this]
  have r1: "reach kv_init (kv_step bl) (dl_sys (kv3\<lparr>kv_rf := dl_cand\<rparr>) None)" .
  have "kv_step bl (dl_sys (kv3\<lparr>kv_rf := dl_cand\<rparr>) None) (dl_sys (kv3\<lparr>kv_rf := dl_lead\<rparr>) None)"
    using dl_raft [of "kv3\<lparr>kv_rf := dl_cand\<rparr>" dl_lead bl None]
    by (simp add: dl_lead_def peer_change.count)
  with r1 show ?thesis by (rule reach.reach_step)
qed

lemma dl_registered:
  "reach kv_init (kv_step bl) (dl_sys dl_reg (Some (Registered dl_op 0 dl_ans)))"
proof -
  note r2 = dl_elected [of bl]
  have "kv_step bl (dl_sys (kv3\<lparr>kv_rf := dl_lead\<rparr>) None) (dl_sys (kv3\<lparr>kv_rf := dl_lead\<rparr>) (Some (Called dl_get)))"
    using kv_step.call [of "dl_sys (kv3\<lparr>kv_rf := dl_lead\<rparr>) None" 0 bl dl_get] by (simp add: dl_sys_def)
  from reach.reach_step [OF r2 this]
  have r3: "reach kv_init (kv_step bl) (dl_sys (kv3\<lparr>kv_rf := dl_lead\<rparr>) (Some (Called dl_get)))" .
  have "kv_step bl (dl_sys (kv3\<lparr>kv_rf := dl_lead\<rparr>) (Some (Called dl_get)))
      (dl_sys (kv3\<lparr>kv_rf := dl_lead\<rparr>) (Some (Leading dl_get)))"
    using kv_step.check [of "dl_sys (kv3\<lparr>kv_rf := dl_lead\<rparr>) (Some (Called dl_get))" 0 dl_get bl]
    by (simp add: dl_sys_def dl_facts(3))
  from reach.reach_step [OF r3 this]
  have r4: "reach kv_init (kv_step bl) (dl_sys (kv3\<lparr>kv_rf := dl_lead\<rparr>) (Some (Leading dl_get)))" .
  have "rpc_register (kv3\<lparr>kv_rf := dl_lead\<rparr>) dl_get = (dl_reg, Registered dl_op 0 dl_ans)"
    using dl_facts(1) unfolding dl_reg_def by (metis prod.collapse)
  then have "kv_step bl (dl_sys (kv3\<lparr>kv_rf := dl_lead\<rparr>) (Some (Leading dl_get)))
      (dl_sys dl_reg (Some (Registered dl_op 0 dl_ans)))"
    using kv_step.register [of "dl_sys (kv3\<lparr>kv_rf := dl_lead\<rparr>) (Some (Leading dl_get))" 0 dl_get]
    by (simp add: dl_sys_def)
  with r4 show ?thesis by (rule reach.reach_step)
qed

lemma dl_reach:
  "reach kv_init (kv_step bl) (dl_sys (dl_wait\<lparr>kv_rf := dl_commit\<rparr>) (Some (Expired dl_op dl_ans)))"
proof -
  note r5 = dl_registered [of bl]
  have "rpc_start dl_reg dl_op 0 dl_ans = (dl_wait, Waiting dl_op 0 dl_ans)"
    using dl_facts(2) unfolding dl_wait_def by (metis prod.collapse)
  then have "kv_step bl (dl_sys dl_reg (Some (Registered dl_op 0 dl_ans)))
      (dl_sys dl_wait (Some (Waiting dl_op 0 dl_ans)))"
    using kv_step.start [of "dl_sys dl_reg (Some (Registered dl_op 0 dl_ans))" 0 dl_op 0 dl_ans]
    by (simp add: dl_sys_def)
  from reach.reach_step [OF r5 this]
  have r6: "reach kv_init (kv_step bl) (dl_sys dl_wait (Some (Waiting dl_op 0 dl_ans)))" .
  have "kv_step bl (dl_sys dl_wait (Some (Waiting dl_op 0 dl_ans)))
      (dl_sys dl_wait (Some (Expired dl_op dl_ans)))"
    using kv_step.expire [of "dl_sys dl_wait (Some (Waiting dl_op 0 dl_ans))" 0 dl_op 0 dl_ans bl]
    by (simp add: dl_sys_def)
  from reach.reach_step [OF r6 this]
  have r7: "reach kv_init (kv_step bl) (dl_sys dl_wait (Some (Expired dl_op dl_ans)))" .
  obtain ts where "handleAppendEntriesReply \<lparr>now = 0, rnd = 0\<rparr> (kv_rf dl_wait) 1 dl_args dl_ack = Inr (dl_commit, ts)"
    using not_isl_Inr [OF dl_facts(4)] unfolding dl_commit_def by (metis prod.collapse)
  then have "kv_step bl (dl_sys dl_wait (Some (Expired dl_op dl_ans)))
      (dl_sys (dl_wait\<lparr>kv_rf := dl_commit\<rparr>) (Some (Expired dl_op dl_ans)))"
    by (intro dl_raft peer_change.reply)
  with r7 show ?thesis by (rule reach.reach_step)
qed

theorem kv_handlers_complete_witness:
  "\<exists>kv' a'. rpc_timeout (dl_wait\<lparr>kv_rf := dl_commit\<rparr>) dl_op dl_ans = Inr (kv', a') \<and>
     answer_err a' = ErrTimeout"
  using kv_handlers_complete [OF dl_reach, of 0 dl_op _ dl_ans] by (auto simp: dl_sys_def)

text \<open>
  C19. The server can hang for good. A run leads to a state in which the apply loop holds
  \<open>kv.mu\<close> and sends to a handler that has given up waiting and itself waits for
  \<open>kv.mu\<close>: from there on, whatever happens, the send is never received, the state
  machine never changes and that handler never answers.
\<close>

theorem kv_deadlock_reachable:
  "\<exists>s x a. reach kv_init (kv_step bytes_len) s \<and> stuck 0 s \<and> handlers s 0 = Some (Expired x a) \<and>
     log_at (kv_rf (server s)) (commitIndex (kv_rf (server s))) = Some \<lparr>Term = 2, Action = Cmd x\<rparr> \<and>
     (\<forall>t. (kv_step bytes_len)\<^sup>*\<^sup>* s t \<longrightarrow> stuck 0 t \<and> state (server t) = state (server s) \<and>
        handlers t 0 = Some (Expired x a))"
proof -
  let ?s = "dl_sys (dl_wait\<lparr>kv_rf := dl_commit\<rparr>) (Some (Expired dl_op dl_ans))"
  from dl_sends [of bytes_len] obtain kv r where
    run: "handleApplyMessage bytes_len (server ?s) (cmd_msg (1, dl_op)) = Inr (kv, Some (0, r))"
    by (auto simp: dl_run_def dl_sys_def)
  have rf: "kv_rf kv = dl_commit"
  proof -
    from handleApplyMessage_cmd run have "handleCommandApply bytes_len (dl_wait\<lparr>kv_rf := dl_commit\<rparr>)
        (cmd_msg (1, dl_op)) = Inr (kv, Some (0, r))" by (simp add: dl_sys_def)
    then show ?thesis
    proof (cases rule: handleCommandApply_Inr)
      case (1 x st r' kv2)
      have "maxraftstate dl_wait = -1" by code_simp
      with 1(3) answerOp_frame(2) [OF 1(4)] show ?thesis by (auto simp: snapshotIfLarge_def)
    qed
  qed
  define s where "s = ?s\<lparr>server := (server ?s)\<lparr>state := state kv, kv_rf := kv_rf kv\<rparr>,
    sending := Some (0, r, kv)\<rparr>"
  have "kv_step bytes_len ?s s"
    unfolding s_def by (rule kv_step.send [OF _ run]) (simp add: dl_sys_def)
  with dl_reach have 1: "reach kv_init (kv_step bytes_len) s" by (rule reach.reach_step)
  have 2: "stuck 0 s" "handlers s 0 = Some (Expired dl_op dl_ans)" "kv_rf (server s) = dl_commit"
    by (auto simp: stuck_def s_def dl_sys_def rf split: if_splits)
  have "stuck 0 t \<and> state (server t) = state (server s) \<and> handlers t 0 = Some (Expired dl_op dl_ans)"
    if "(kv_step bytes_len)\<^sup>*\<^sup>* s t" for t
    using stuck_forever [OF that 2(1)] 2(2) by (auto simp: frozen_def)
  moreover have "log_at (kv_rf (server s)) (commitIndex (kv_rf (server s)))
      = Some \<lparr>Term = 2, Action = Cmd dl_op\<rparr>"
    unfolding 2(3) dl_facts(5) by (rule dl_facts(6))
  ultimately show ?thesis using 1 2(1,2) by blast
qed

theorem kv_deadlock_reachable_witness:
  "\<exists>s x a. reach kv_init (kv_step (\<lambda>d. 0)) s \<and> (kv_step (\<lambda>d. 0))\<^sup>*\<^sup>* s s \<and> stuck 0 s \<and>
     handlers s 0 = Some (Expired x a)"
  using kv_deadlock_reachable [of "\<lambda>d. 0"] by blast

end
