(* ===== verification/KV_Clerk.thy ===== *)
theory KV_Clerk
  imports KV_Handlers
begin

text \<open>
  The client of kvraft (client.go and the client side of kvServerGet.go and
  kvServerPutAppend.go). What an RPC brings back is a parameter: \<open>call k server args\<close> is
  the outcome of attempt number \<open>k\<close>, \<open>None\<close> when the network lost it. The loops of
  the clerk end only when a server answers, so they are partial functions: \<open>None\<close> is a
  call that never returns.
\<close>

record clerk =
  nservers :: int
  clerkRandomId :: int
  requestIndex :: int
  lastLeaderServer :: int

text \<open>\<open>rid\<close> is the draw of \<open>nrand\<close>.\<close>

definition MakeClerk :: "int \<Rightarrow> int \<Rightarrow> clerk" where
  "MakeClerk servers rid =
     \<lparr>nservers = servers, clerkRandomId = rid, requestIndex = 0, lastLeaderServer = 0\<rparr>"

definition createGetArgs :: "clerk \<Rightarrow> string \<Rightarrow> getArgs" where
  "createGetArgs ck key =
     \<lparr>ga_Key = key, ga_ClientId = clerkRandomId ck, ga_RequestIndex = requestIndex ck\<rparr>"

definition createPutAppendArgs :: "clerk \<Rightarrow> string \<Rightarrow> string \<Rightarrow> opType \<Rightarrow> putAppendArgs" where
  "createPutAppendArgs ck key val x =
     \<lparr>pa_Key = key, pa_Value = val, pa_Op = x, pa_ClientId = clerkRandomId ck,
      pa_RequestIndex = requestIndex ck\<rparr>"

definition next_server :: "clerk \<Rightarrow> clerk" where
  "next_server ck = ck\<lparr>lastLeaderServer := (lastLeaderServer ck + 1) mod nservers ck\<rparr>"

text \<open>The loops; \<open>k\<close> counts the attempts made so far.\<close>

partial_function (option) get_loop ::
  "(nat \<Rightarrow> int \<Rightarrow> getArgs \<Rightarrow> getReply option) \<Rightarrow> string \<Rightarrow> nat \<Rightarrow> clerk \<Rightarrow> (string \<times> clerk) option"
where
  "get_loop call key k ck =
     (case call k (lastLeaderServer ck) (createGetArgs ck key) of
        None \<Rightarrow> get_loop call key (Suc k) (next_server ck)
      | Some reply \<Rightarrow>
          if gr_Err reply = OK then Some (gr_Value reply, ck)
          else if gr_Err reply = ErrNoKey then Some ('''', ck)
          else get_loop call key (Suc k) (next_server ck))"

definition ClerkGet ::
  "(nat \<Rightarrow> int \<Rightarrow> getArgs \<Rightarrow> getReply option) \<Rightarrow> clerk \<Rightarrow> string \<Rightarrow> (string \<times> clerk) option" where
  "ClerkGet call ck key = get_loop call key 0 (ck\<lparr>requestIndex := requestIndex ck + 1\<rparr>)"

partial_function (option) put_loop ::
  "(nat \<Rightarrow> int \<Rightarrow> putAppendArgs \<Rightarrow> putAppendReply option) \<Rightarrow> string \<Rightarrow> string \<Rightarrow> opType \<Rightarrow>
   nat \<Rightarrow> clerk \<Rightarrow> clerk option"
where
  "put_loop call key val x k ck =
     (case call k (lastLeaderServer ck) (createPutAppendArgs ck key val x) of
        None \<Rightarrow> put_loop call key val x (Suc k) (next_server ck)
      | Some reply \<Rightarrow>
          if pr_Err reply = OK then Some ck
          else put_loop call key val x (Suc k) (next_server ck))"

definition ClerkPutAppend ::
  "(nat \<Rightarrow> int \<Rightarrow> putAppendArgs \<Rightarrow> putAppendReply option) \<Rightarrow> clerk \<Rightarrow> string \<Rightarrow> string \<Rightarrow> opType \<Rightarrow>
   clerk option" where
  "ClerkPutAppend call ck key val x =
     put_loop call key val x 0 (ck\<lparr>requestIndex := requestIndex ck + 1\<rparr>)"

definition ClerkPut ::
  "(nat \<Rightarrow> int \<Rightarrow> putAppendArgs \<Rightarrow> putAppendReply option) \<Rightarrow> clerk \<Rightarrow> string \<Rightarrow> string \<Rightarrow> clerk option"
where
  "ClerkPut call ck key val = ClerkPutAppend call ck key val PUT"

definition ClerkAppend ::
  "(nat \<Rightarrow> int \<Rightarrow> putAppendArgs \<Rightarrow> putAppendReply option) \<Rightarrow> clerk \<Rightarrow> string \<Rightarrow> string \<Rightarrow> clerk option"
where
  "ClerkAppend call ck key val = ClerkPutAppend call ck key val APPEND"

section \<open>The loops return\<close>

lemma next_server_pow:
  assumes "0 < nservers ck" "0 \<le> lastLeaderServer ck" "lastLeaderServer ck < nservers ck"
  shows "(next_server ^^ j) ck = ck\<lparr>lastLeaderServer := (lastLeaderServer ck + int j) mod nservers ck\<rparr>"
proof (induction j)
  case 0
  with assms show ?case by simp
next
  case (Suc j)
  then show ?case by (simp add: next_server_def mod_simps add.commute add.left_commute)
qed

lemma clerk_covers:
  assumes "0 < nservers ck" "0 \<le> lastLeaderServer ck" "lastLeaderServer ck < nservers ck"
    "0 \<le> j" "j < nservers ck"
  shows "\<exists>i < nat (nservers ck). lastLeaderServer ((next_server ^^ (m + i)) ck) = j"
proof -
  let ?n = "nat (nservers ck)" and ?s = "nat (lastLeaderServer ck)"
  from round_robin_covers [of ?n "nat j" "?s + m"] assms obtain i where
    i: "i < ?n" "(?s + m + i) mod ?n = nat j" by auto
  have "(lastLeaderServer ck + int (m + i)) mod nservers ck = int ((?s + m + i) mod ?n)"
    using assms by (simp add: zmod_int add.assoc)
  with i assms(4) next_server_pow [OF assms(1-3)] show ?thesis by auto
qed

definition get_final ::
  "(nat \<Rightarrow> int \<Rightarrow> getArgs \<Rightarrow> getReply option) \<Rightarrow> string \<Rightarrow> nat \<Rightarrow> clerk \<Rightarrow> (string \<times> clerk) option" where
  "get_final call key k ck =
     (case call k (lastLeaderServer ck) (createGetArgs ck key) of
        None \<Rightarrow> None
      | Some reply \<Rightarrow>
          if gr_Err reply = OK then Some (gr_Value reply, ck)
          else if gr_Err reply = ErrNoKey then Some ('''', ck) else None)"

definition put_final ::
  "(nat \<Rightarrow> int \<Rightarrow> putAppendArgs \<Rightarrow> putAppendReply option) \<Rightarrow> string \<Rightarrow> string \<Rightarrow> opType \<Rightarrow>
   nat \<Rightarrow> clerk \<Rightarrow> clerk option" where
  "put_final call key val x k ck =
     (case call k (lastLeaderServer ck) (createPutAppendArgs ck key val x) of
        None \<Rightarrow> None
      | Some reply \<Rightarrow> if pr_Err reply = OK then Some ck else None)"

interpretation get_retry: retry_loop "get_loop call key" "get_final call key" next_server for call key
proof (unfold_locales, goal_cases)
  case (1 k ck r)
  then show ?case by (subst get_loop.simps) (auto simp: get_final_def split: option.splits if_splits)
next
  case (2 k ck)
  then show ?case by (subst get_loop.simps) (auto simp: get_final_def split: option.splits if_splits)
qed

interpretation put_retry: retry_loop "put_loop call key val x" "put_final call key val x" next_server
  for call key val x
proof (unfold_locales, goal_cases)
  case (1 k ck r)
  then show ?case by (subst put_loop.simps) (auto simp: put_final_def split: option.splits if_splits)
next
  case (2 k ck)
  then show ?case by (subst put_loop.simps) (auto simp: put_final_def split: option.splits if_splits)
qed

text \<open>Some attempt is final once a server keeps answering.\<close>

lemma reaches_server:
  assumes "0 < nservers ck" "0 \<le> lastLeaderServer ck" "lastLeaderServer ck < nservers ck"
    "0 \<le> j" "j < nservers ck"
    "\<And>k s. m \<le> k \<Longrightarrow> lastLeaderServer s = j \<Longrightarrow> s = ck\<lparr>lastLeaderServer := j\<rparr> \<Longrightarrow> P k s"
  shows "\<exists>i < m + nat (nservers ck). P i ((next_server ^^ i) ck)"
proof -
  from clerk_covers [OF assms(1-5), of m] obtain i where
    i: "i < nat (nservers ck)" "lastLeaderServer ((next_server ^^ (m + i)) ck) = j" by blast
  have "(next_server ^^ (m + i)) ck = ck\<lparr>lastLeaderServer := j\<rparr>"
    using next_server_pow [OF assms(1-3), of "m + i"] i(2) by auto
  with i assms(6) [of "m + i"] show ?thesis
    by (intro exI [of _ "m + i"]) simp
qed

section \<open>Properties\<close>

text \<open>
  A read comes back. If from some attempt on one of the servers answers a Get with a
  value or with the news that there is none, the clerk returns after at most one more round
  over its servers, whatever the other attempts bring; it returns what an answer to this
  very request said, it sent every attempt under the same request index, which no call of
  this clerk used before, and it remembers the server that answered.
\<close>

theorem clerk_get_returns:
  fixes key :: string
  assumes "0 < nservers ck" "0 \<le> lastLeaderServer ck" "lastLeaderServer ck < nservers ck"
    "0 \<le> j" "j < nservers ck"
  defines "args \<equiv> \<lparr>ga_Key = key, ga_ClientId = clerkRandomId ck, ga_RequestIndex = requestIndex ck + 1\<rparr>"
  assumes "\<And>k. m \<le> k \<Longrightarrow> \<exists>r. call k j args = Some r \<and> gr_Err r \<in> {OK, ErrNoKey}"
  shows "\<exists>i s r v. i < m + nat (nservers ck) \<and> call i s args = Some r \<and>
    (gr_Err r = OK \<and> v = gr_Value r \<or> gr_Err r = ErrNoKey \<and> v = '''') \<and>
    ClerkGet call ck key =
      Some (v, ck\<lparr>requestIndex := requestIndex ck + 1, lastLeaderServer := s\<rparr>)"
proof -
  let ?ck = "ck\<lparr>requestIndex := requestIndex ck + 1\<rparr>"
  have args: "createGetArgs (?ck\<lparr>lastLeaderServer := s\<rparr>) key = args" for s
    by (simp add: createGetArgs_def args_def)
  have n: "nservers ?ck = nservers ck" by simp
  have "\<exists>i < m + nat (nservers ?ck). get_final call key i ((next_server ^^ i) ?ck) \<noteq> None"
  proof (rule reaches_server [where j = j])
    fix k s
    assume s: "m \<le> k" "s = ?ck\<lparr>lastLeaderServer := j\<rparr>"
    with assms(7) [of k] args [of j] show "get_final call key k s \<noteq> None"
      by (auto simp: get_final_def)
  qed (use assms(1-5) in simp_all)
  from get_retry.loop_returns_start [OF this] obtain i r where
    i: "i < m + nat (nservers ?ck)" "get_final call key i ((next_server ^^ i) ?ck) = Some r"
    "get_loop call key 0 ?ck = Some r" .
  obtain s where s: "(next_server ^^ i) ?ck = ?ck\<lparr>lastLeaderServer := s\<rparr>"
    using next_server_pow [of ?ck i] assms(1-3) by auto
  from i(2) obtain rep v where "call i s args = Some rep" "r = (v, ?ck\<lparr>lastLeaderServer := s\<rparr>)"
    "gr_Err rep = OK \<and> v = gr_Value rep \<or> gr_Err rep = ErrNoKey \<and> v = ''''"
    unfolding s by (auto simp: get_final_def args split: option.splits if_splits)
  with i(1,3) show ?thesis unfolding n ClerkGet_def by auto
qed

text \<open>A network where the server that is asked second answers and all others are silent.\<close>

definition second_answers :: "nat \<Rightarrow> int \<Rightarrow> getArgs \<Rightarrow> getReply option" where
  "second_answers k s args = (if s = 1 then Some \<lparr>gr_Err = OK, gr_Value = ''v''\<rparr> else None)"

theorem clerk_get_returns_witness:
  "\<exists>s. ClerkGet second_answers (MakeClerk 3 99) ''k'' =
    Some (''v'', (MakeClerk 3 99)\<lparr>requestIndex := 1, lastLeaderServer := s\<rparr>)"
  using clerk_get_returns [of "MakeClerk 3 99" 1 0 second_answers "''k''"]
  by (auto simp: MakeClerk_def second_answers_def split: if_splits)

text \<open>
  A write comes back confirmed. If from some attempt on one of the servers confirms,
  Put and Append return after at most one more round, and they return on an attempt that
  carried the client's identity and the one request index of this call and was answered OK.
\<close>

theorem clerk_put_confirmed:
  fixes key val :: string and x :: opType
  assumes "0 < nservers ck" "0 \<le> lastLeaderServer ck" "lastLeaderServer ck < nservers ck"
    "0 \<le> j" "j < nservers ck"
  defines "args \<equiv> \<lparr>pa_Key = key, pa_Value = val, pa_Op = x, pa_ClientId = clerkRandomId ck,
    pa_RequestIndex = requestIndex ck + 1\<rparr>"
  assumes "\<And>k. m \<le> k \<Longrightarrow> \<exists>r. call k j args = Some r \<and> pr_Err r = OK"
  shows "\<exists>i s r. i < m + nat (nservers ck) \<and> call i s args = Some r \<and> pr_Err r = OK \<and>
    ClerkPutAppend call ck key val x =
      Some (ck\<lparr>requestIndex := requestIndex ck + 1, lastLeaderServer := s\<rparr>)"
proof -
  let ?ck = "ck\<lparr>requestIndex := requestIndex ck + 1\<rparr>"
  have args: "createPutAppendArgs (?ck\<lparr>lastLeaderServer := s\<rparr>) key val x = args" for s
    by (simp add: createPutAppendArgs_def args_def)
  have n: "nservers ?ck = nservers ck" by simp
  have "\<exists>i < m + nat (nservers ?ck). put_final call key val x i ((next_server ^^ i) ?ck) \<noteq> None"
  proof (rule reaches_server [where j = j])
    fix k s
    assume s: "m \<le> k" "s = ?ck\<lparr>lastLeaderServer := j\<rparr>"
    with assms(7) [of k] args [of j] show "put_final call key val x k s \<noteq> None"
      by (auto simp: put_final_def)
  qed (use assms(1-5) in simp_all)
  from put_retry.loop_returns_start [OF this] obtain i r where
    i: "i < m + nat (nservers ?ck)" "put_final call key val x i ((next_server ^^ i) ?ck) = Some r"
    "put_loop call key val x 0 ?ck = Some r" .
  obtain s where s: "(next_server ^^ i) ?ck = ?ck\<lparr>lastLeaderServer := s\<rparr>"
    using next_server_pow [of ?ck i] assms(1-3) by auto
  from i(2) obtain rep where "call i s args = Some rep" "pr_Err rep = OK"
    "r = ?ck\<lparr>lastLeaderServer := s\<rparr>"
    unfolding s by (auto simp: put_final_def args split: option.splits if_splits)
  with i(1,3) show ?thesis unfolding n ClerkPutAppend_def by auto
qed

definition third_confirms :: "nat \<Rightarrow> int \<Rightarrow> putAppendArgs \<Rightarrow> putAppendReply option" where
  "third_confirms k s args = Some \<lparr>pr_Err = (if s = 2 then OK else ErrWrongLeader)\<rparr>"

theorem clerk_put_confirmed_witness:
  "\<exists>s. ClerkPutAppend third_confirms (MakeClerk 3 99) ''k'' ''v'' PUT =
    Some ((MakeClerk 3 99)\<lparr>requestIndex := 1, lastLeaderServer := s\<rparr>)"
  using clerk_put_confirmed [of "MakeClerk 3 99" 2 0 third_confirms "''k''" "''v''" PUT]
  by (auto simp: MakeClerk_def third_confirms_def split: if_splits)

end
