(* ===== verification/SC_Config.thy ===== *)
theory SC_Config
  imports Service
begin

text \<open>
  Configurations of the shard controller: the helpers of shardctrler/util.go and the
  changes that Join, Leave and Move make (applyTicker.go). A Go map from group identifiers
  to servers is an association list with distinct keys; the code reads such maps by key or
  through \<open>getSortedKeys\<close>, so the order of the list, like the order in which Go ranges
  over a map, does not show in the shards. \<open>redistributeShards\<close> loops until the loads are
  even; it is a partial function, and its termination is a theorem about arrays of
  \<open>NShards\<close> shards.
\<close>

definition NShards :: nat where
  "NShards = 10"

type_synonym groups = "(int \<times> string list) list"

record config =
  Num :: int
  Shards :: "int list"
  Groups :: groups

section \<open>Helpers of util.go\<close>

definition getSortedKeys :: "groups \<Rightarrow> int list" where
  "getSortedKeys curMap = sort (map fst curMap)"

fun contains :: "int list \<Rightarrow> int \<Rightarrow> bool" where
  "contains [] target = False"
| "contains (v # vs) target = (if v = target then True else contains vs target)"

definition makeShallowCopyConfig :: "config \<Rightarrow> config" where
  "makeShallowCopyConfig oldConfig =
     \<lparr>Num = Num oldConfig, Shards = map (\<lambda>i. Shards oldConfig ! i) [0..<NShards],
      Groups = map (\<lambda>(k, v). (k, map (\<lambda>groupName. groupName) v)) (Groups oldConfig)\<rparr>"

text \<open>The loop of \<open>assignVoidShards\<close> over the shards still to visit.\<close>

fun assign_loop :: "int list \<Rightarrow> nat \<Rightarrow> int list \<Rightarrow> int list" where
  "assign_loop keys curInd [] = []"
| "assign_loop keys curInd (v # vs) =
     (if v \<le> 0 then keys ! curInd # assign_loop keys ((curInd + 1) mod length keys) vs
      else v # assign_loop keys curInd vs)"

definition assignVoidShards :: "config \<Rightarrow> config" where
  "assignVoidShards config =
     (let keys = getSortedKeys (Groups config) in
      if length keys = 0 then config
      else config\<lparr>Shards := assign_loop keys 0 (Shards config)\<rparr>)"

definition shard_count :: "int list \<Rightarrow> int \<Rightarrow> int" where
  "shard_count shards g = int (length (filter (\<lambda>s. s = g) shards))"

fun min_max_loop :: "int list \<Rightarrow> int list \<Rightarrow> int \<times> int \<times> int \<times> int \<Rightarrow> int \<times> int \<times> int \<times> int" where
  "min_max_loop shards [] acc = acc"
| "min_max_loop shards (g # gs) (mn, mnG, mx, mxG) =
     (let (mx', mxG') = (if shard_count shards g > mx then (shard_count shards g, g) else (mx, mxG));
          (mn', mnG') = (if shard_count shards g < mn then (shard_count shards g, g) else (mn, mnG))
      in min_max_loop shards gs (mn', mnG', mx', mxG'))"

definition getMinMaxGroup :: "config \<Rightarrow> int \<times> int \<times> int \<times> int" where
  "getMinMaxGroup config =
     min_max_loop (Shards config) (getSortedKeys (Groups config)) (257, 0, 0, 0)"

text \<open>The inner loop of \<open>redistributeShards\<close>: the first shard of one group goes to another.\<close>

fun move_first :: "int \<Rightarrow> int \<Rightarrow> int list \<Rightarrow> int list" where
  "move_first a b [] = []"
| "move_first a b (s # ss) = (if s = a then b # ss else s # move_first a b ss)"

partial_function (option) redistributeShards :: "config \<Rightarrow> config option" where
  "redistributeShards config =
     (case getMinMaxGroup config of (mn, mnG, mx, mxG) \<Rightarrow>
        if mx - mn > 1
        then redistributeShards (config\<lparr>Shards := move_first mxG mnG (Shards config)\<rparr>)
        else Some config)"

declare redistributeShards.simps [code]

section \<open>The changes of a configuration\<close>

definition getLatestConfig :: "config list \<Rightarrow> config res" where
  "getLatestConfig configs = go_index configs (int (length configs) - 1)"

definition makeNextConfig :: "config list \<Rightarrow> config res" where
  "makeNextConfig configs =
     res_bind (getLatestConfig configs) (\<lambda>c.
     let nextConfig = makeShallowCopyConfig c in Inr (nextConfig\<lparr>Num := Num nextConfig + 1\<rparr>))"

text \<open>\<open>m[k] = v\<close> and \<open>delete(m, k)\<close> on a map.\<close>

definition map_put :: "groups \<Rightarrow> int \<Rightarrow> string list \<Rightarrow> groups" where
  "map_put m k v = (k, v) # filter (\<lambda>p. fst p \<noteq> k) m"

definition map_delete :: "groups \<Rightarrow> int \<Rightarrow> groups" where
  "map_delete m k = filter (\<lambda>p. fst p \<noteq> k) m"

definition rebalance :: "config \<Rightarrow> config res" where
  "rebalance newConfig =
     (let c1 = assignVoidShards newConfig in
      if length (Groups c1) > 1
      then (case redistributeShards c1 of None \<Rightarrow> Inl Diverges | Some c2 \<Rightarrow> Inr c2)
      else Inr c1)"

definition handleJoin :: "config list \<Rightarrow> groups \<Rightarrow> config list res" where
  "handleJoin configs servers =
     res_bind (makeNextConfig configs) (\<lambda>newConfig.
     let c0 = newConfig\<lparr>Groups := fold (\<lambda>(k, v) m. map_put m k v) servers (Groups newConfig)\<rparr> in
     res_bind (rebalance c0) (\<lambda>c. Inr (configs @ [c])))"

definition handleLeave :: "config list \<Rightarrow> int list \<Rightarrow> config list res" where
  "handleLeave configs GIDs =
     res_bind (makeNextConfig configs) (\<lambda>newConfig.
     let c0 = newConfig\<lparr>Groups := fold (\<lambda>gid m. map_delete m gid) GIDs (Groups newConfig),
                       Shards := map (\<lambda>gid. if contains GIDs gid then 0 else gid) (Shards newConfig)\<rparr> in
     res_bind (rebalance c0) (\<lambda>c. Inr (configs @ [c])))"

definition handleMove :: "config list \<Rightarrow> int \<Rightarrow> int \<Rightarrow> config list res" where
  "handleMove configs shard gid =
     res_bind (makeNextConfig configs) (\<lambda>newConfig.
     res_bind (go_update (Shards newConfig) shard gid) (\<lambda>ss.
       Inr (configs @ [newConfig\<lparr>Shards := ss\<rparr>])))"

section \<open>Counting\<close>

abbreviation gids :: "config \<Rightarrow> int set" where
  "gids c \<equiv> fst ` set (Groups c)"

lemma set_getSortedKeys [simp]: "set (getSortedKeys m) = fst ` set m"
  by (simp add: getSortedKeys_def)

lemma contains_iff [simp]: "contains xs x \<longleftrightarrow> x \<in> set xs"
  by (induction xs) auto

lemma shard_count_bounds: "0 \<le> shard_count ss g" "shard_count ss g \<le> int (length ss)"
  by (simp_all add: shard_count_def)

lemma shard_count_pos: "0 < shard_count ss g \<Longrightarrow> g \<in> set ss"
  by (auto simp: shard_count_def filter_empty_conv)

lemma shard_count_Cons: "shard_count (s # ss) g = (if s = g then 1 else 0) + shard_count ss g"
  by (simp add: shard_count_def)

lemma min_max_loop_spec:
  assumes "min_max_loop ss gs (mn, mnG, mx, mxG) = (mn', mnG', mx', mxG')"
  shows "mn' \<le> mn \<and> mx \<le> mx' \<and>
    (\<forall>g \<in> set gs. mn' \<le> shard_count ss g \<and> shard_count ss g \<le> mx') \<and>
    (mn' = mn \<and> mnG' = mnG \<or> mnG' \<in> set gs \<and> shard_count ss mnG' = mn') \<and>
    (mx' = mx \<and> mxG' = mxG \<or> mxG' \<in> set gs \<and> shard_count ss mxG' = mx')"
  using assms
proof (induction gs arbitrary: mn mnG mx mxG)
  case (Cons g gs)
  let ?c = "shard_count ss g"
  let ?mx = "if ?c > mx then ?c else mx" and ?mxG = "if ?c > mx then g else mxG"
  let ?mn = "if ?c < mn then ?c else mn" and ?mnG = "if ?c < mn then g else mnG"
  have "min_max_loop ss gs (?mn, ?mnG, ?mx, ?mxG) = (mn', mnG', mx', mxG')"
    using Cons.prems by (simp split: if_splits)
  note ih = Cons.IH [OF this]
  show ?case
  proof (intro conjI)
    show "mn' \<le> mn" "mx \<le> mx'" using ih by (auto split: if_splits)
    show "\<forall>h \<in> set (g # gs). mn' \<le> shard_count ss h \<and> shard_count ss h \<le> mx'"
      using ih by (auto split: if_splits)
    show "mn' = mn \<and> mnG' = mnG \<or> mnG' \<in> set (g # gs) \<and> shard_count ss mnG' = mn'"
      using ih by (auto split: if_splits)
    show "mx' = mx \<and> mxG' = mxG \<or> mxG' \<in> set (g # gs) \<and> shard_count ss mxG' = mx'"
      using ih by (auto split: if_splits)
  qed
qed simp

text \<open>While the loads differ by more than one, there are a fullest and an emptiest group.\<close>

lemma getMinMaxGroup_spec:
  assumes "getMinMaxGroup c = (mn, mnG, mx, mxG)" "length (Shards c) = NShards"
  shows "mx - mn > 1 \<Longrightarrow> mnG \<in> gids c \<and> mxG \<in> gids c \<and> shard_count (Shards c) mnG = mn \<and>
      shard_count (Shards c) mxG = mx"
    and "\<not> mx - mn > 1 \<Longrightarrow> g \<in> gids c \<Longrightarrow> h \<in> gids c \<Longrightarrow>
      shard_count (Shards c) g \<le> shard_count (Shards c) h + 1"
proof -
  note spec = min_max_loop_spec [OF assms(1) [unfolded getMinMaxGroup_def]]
  have small: "shard_count (Shards c) g \<le> 10" for g
    using shard_count_bounds(2) [of "Shards c" g] assms(2) by (simp add: NShards_def)
  show "shard_count (Shards c) g \<le> shard_count (Shards c) h + 1"
    if "\<not> mx - mn > 1" "g \<in> gids c" "h \<in> gids c"
  proof -
    have "shard_count (Shards c) g \<le> mx" "mn \<le> shard_count (Shards c) h"
      using spec that(2,3) by auto
    with that(1) show ?thesis by linarith
  qed
  assume far: "mx - mn > 1"
  have mx: "mx \<le> 10" using spec small [of mxG] by auto
  with far have mn: "mnG \<in> gids c" "shard_count (Shards c) mnG = mn" using spec by auto
  with shard_count_bounds(1) [of "Shards c" mnG] far spec
  show "mnG \<in> gids c \<and> mxG \<in> gids c \<and> shard_count (Shards c) mnG = mn \<and>
      shard_count (Shards c) mxG = mx" by auto
qed

section \<open>Moving one shard\<close>

lemma move_first_length [simp]: "length (move_first a b ss) = length ss"
  by (induction ss) auto

lemma move_first_count:
  assumes "a \<in> set ss" "a \<noteq> b"
  shows "shard_count (move_first a b ss) g =
    shard_count ss g - (if g = a then 1 else 0) + (if g = b then 1 else 0)"
  using assms by (induction ss) (auto simp: shard_count_Cons)

lemma move_first_nth:
  "i < length ss \<Longrightarrow> move_first a b ss ! i = ss ! i \<or> ss ! i = a \<and> move_first a b ss ! i = b"
  by (induction ss arbitrary: i) (auto simp: nth_Cons split: nat.splits)

text \<open>The sum of the squares of the loads of the groups falls with every move.\<close>

definition unevenness :: "config \<Rightarrow> int" where
  "unevenness c = (\<Sum>g \<in> gids c. (shard_count (Shards c) g)\<^sup>2)"

lemma unevenness_nonneg: "0 \<le> unevenness c"
  by (simp add: unevenness_def sum_nonneg)

lemma move_decreases:
  assumes "a \<in> gids c" "b \<in> gids c" "shard_count (Shards c) a > shard_count (Shards c) b + 1"
  shows "unevenness (c\<lparr>Shards := move_first a b (Shards c)\<rparr>) < unevenness c"
proof -
  let ?f = "shard_count (Shards c)" and ?c' = "c\<lparr>Shards := move_first a b (Shards c)\<rparr>"
  let ?f' = "shard_count (move_first a b (Shards c))" and ?R = "gids c - {a, b}"
  have ab: "a \<noteq> b" using assms(3) by auto
  have "a \<in> set (Shards c)"
    using assms(3) shard_count_bounds(1) [of "Shards c" b] by (intro shard_count_pos) simp
  note f' = move_first_count [OF this ab]
  have split: "(\<Sum>g \<in> gids c. h g) = h a + h b + (\<Sum>g \<in> ?R. h g)" for h :: "int \<Rightarrow> int"
  proof -
    have "gids c = insert a (insert b ?R)" using assms(1,2) by auto
    then have "(\<Sum>g \<in> gids c. h g) = (\<Sum>g \<in> insert a (insert b ?R). h g)" by simp
    also have "\<dots> = h a + (h b + (\<Sum>g \<in> ?R. h g))" using ab by simp
    finally show ?thesis by simp
  qed
  have "(\<Sum>g \<in> ?R. (?f' g)\<^sup>2) = (\<Sum>g \<in> ?R. (?f g)\<^sup>2)" by (intro sum.cong) (auto simp: f')
  moreover have "(?f a - 1)\<^sup>2 + (?f b + 1)\<^sup>2 < (?f a)\<^sup>2 + (?f b)\<^sup>2"
    using assms(3) by (simp add: power2_eq_square algebra_simps)
  ultimately show ?thesis using ab by (simp add: unevenness_def split f')
qed

section \<open>Redistribution ends, and evens the loads\<close>

definition balanced :: "config \<Rightarrow> bool" where
  "balanced c \<longleftrightarrow>
     (\<forall>g \<in> gids c. \<forall>h \<in> gids c. shard_count (Shards c) g \<le> shard_count (Shards c) h + 1)"

text \<open>What redistribution may change: shards of groups go to groups, nothing else moves.\<close>

definition shifts :: "config \<Rightarrow> config \<Rightarrow> bool" where
  "shifts c c' \<longleftrightarrow> Num c' = Num c \<and> Groups c' = Groups c \<and> length (Shards c') = length (Shards c) \<and>
     (\<forall>i < length (Shards c). Shards c' ! i = Shards c ! i \<or>
        Shards c ! i \<in> gids c \<and> Shards c' ! i \<in> gids c)"

lemma shifts_trans: "shifts c d \<Longrightarrow> shifts d e \<Longrightarrow> shifts c e"
  unfolding shifts_def by (elim conjE, intro conjI allI impI) (simp_all, metis)

lemma redistributeShards_spec:
  assumes "length (Shards c) = NShards"
  shows "\<exists>c'. redistributeShards c = Some c' \<and> balanced c' \<and> shifts c c'"
  using assms
proof (induction "nat (unevenness c)" arbitrary: c rule: less_induct)
  case less
  obtain mn mnG mx mxG where mm: "getMinMaxGroup c = (mn, mnG, mx, mxG)"
    by (metis prod_cases4)
  note spec = getMinMaxGroup_spec [OF mm less.prems]
  show ?case
  proof (cases "mx - mn > 1")
    case False
    then have "redistributeShards c = Some c" by (subst redistributeShards.simps) (simp add: mm)
    moreover have "balanced c" using spec(2) [OF False] by (simp add: balanced_def)
    ultimately show ?thesis by (simp add: shifts_def)
  next
    case True
    let ?d = "c\<lparr>Shards := move_first mxG mnG (Shards c)\<rparr>"
    have far: "mnG \<in> gids c" "mxG \<in> gids c" "shard_count (Shards c) mxG > shard_count (Shards c) mnG + 1"
      using spec(1) [OF True] True by auto
    have "nat (unevenness ?d) < nat (unevenness c)"
      using move_decreases [OF far(2,1,3)] unevenness_nonneg [of ?d] by simp
    from less.hyps [OF this] less.prems obtain c' where
      c': "redistributeShards ?d = Some c'" "balanced c'" "shifts ?d c'" by auto
    have "redistributeShards c = Some c'"
      using True c'(1) by (subst redistributeShards.simps) (simp add: mm)
    moreover have "shifts c ?d"
      using move_first_nth [of _ "Shards c" mxG mnG] far(1,2) by (auto simp: shifts_def)
    ultimately show ?thesis using c'(2,3) shifts_trans by blast
  qed
qed

section \<open>Filling the void\<close>

lemma assign_loop_spec:
  assumes "keys \<noteq> []" "cur < length keys"
  shows "length (assign_loop keys cur vs) = length vs \<and>
    (\<forall>i < length vs. if vs ! i \<le> 0 then assign_loop keys cur vs ! i \<in> set keys
       else assign_loop keys cur vs ! i = vs ! i)"
  using assms(2)
proof (induction vs arbitrary: cur)
  case (Cons v vs)
  have "(cur + 1) mod length keys < length keys" using assms(1) by simp
  from Cons.IH [OF this] Cons.IH [OF Cons.prems] Cons.prems show ?case
    by (auto simp: nth_Cons split: nat.splits)
qed simp

lemma assignVoidShards_frame [simp]:
  "Num (assignVoidShards c) = Num c" "Groups (assignVoidShards c) = Groups c"
  by (simp_all add: assignVoidShards_def Let_def)

lemma assignVoidShards_spec:
  assumes "Groups c \<noteq> []"
  shows "length (Shards (assignVoidShards c)) = length (Shards c) \<and>
    (\<forall>i < length (Shards c). if Shards c ! i \<le> 0 then Shards (assignVoidShards c) ! i \<in> gids c
       else Shards (assignVoidShards c) ! i = Shards c ! i)"
proof -
  have "length (getSortedKeys (Groups c)) \<noteq> 0" using assms by (simp add: getSortedKeys_def)
  then have "getSortedKeys (Groups c) \<noteq> []" by simp
  then have "Shards (assignVoidShards c) = assign_loop (getSortedKeys (Groups c)) 0 (Shards c)"
    "0 < length (getSortedKeys (Groups c))"
    by (simp_all add: assignVoidShards_def Let_def)
  with assign_loop_spec [of "getSortedKeys (Groups c)" 0 "Shards c"]
    \<open>getSortedKeys (Groups c) \<noteq> []\<close> show ?thesis
    unfolding set_getSortedKeys by simp
qed

section \<open>Valid configurations\<close>

definition valid_config :: "config \<Rightarrow> bool" where
  "valid_config c \<longleftrightarrow> length (Shards c) = NShards \<and> distinct (map fst (Groups c)) \<and>
     (\<forall>g \<in> gids c. 0 < g) \<and>
     (\<forall>s \<in> set (Shards c). if Groups c = [] then s = 0 else s \<in> gids c)"

text \<open>Before rebalancing: shards without a group are marked by 0.\<close>

definition loose_config :: "config \<Rightarrow> bool" where
  "loose_config c \<longleftrightarrow> length (Shards c) = NShards \<and> distinct (map fst (Groups c)) \<and>
     (\<forall>g \<in> gids c. 0 < g) \<and> (\<forall>s \<in> set (Shards c). s = 0 \<or> s \<in> gids c)"

lemma valid_loose: "valid_config c \<Longrightarrow> loose_config c"
  by (cases "Groups c = []") (auto simp: valid_config_def loose_config_def)

lemma assignVoidShards_valid:
  assumes "loose_config c"
  shows "valid_config (assignVoidShards c)"
proof (cases "Groups c = []")
  case True
  then have "assignVoidShards c = c" by (simp add: assignVoidShards_def getSortedKeys_def)
  with True assms show ?thesis by (auto simp: valid_config_def loose_config_def)
next
  case False
  note spec = assignVoidShards_spec [OF False]
  have "Shards (assignVoidShards c) ! i \<in> gids c" if i: "i < length (Shards c)" for i
  proof -
    have "Shards c ! i = 0 \<or> Shards c ! i \<in> gids c"
      using assms nth_mem [OF i] by (auto simp: loose_config_def)
    with spec i show ?thesis by (metis order_refl)
  qed
  with spec have "\<forall>s \<in> set (Shards (assignVoidShards c)). s \<in> gids c"
    by (auto simp: in_set_conv_nth)
  with False assms spec show ?thesis by (auto simp: valid_config_def loose_config_def)
qed

lemma shifts_valid:
  assumes "valid_config c" "shifts c c'" "Groups c \<noteq> []"
  shows "valid_config c'"
proof -
  have "Shards c' ! i \<in> gids c" if i: "i < length (Shards c')" for i
  proof -
    have i': "i < length (Shards c)" using i assms(2) by (auto simp: shifts_def)
    then have "Shards c ! i \<in> gids c"
      using assms(1,3) nth_mem [OF i'] by (simp add: valid_config_def)
    with assms(2) i' show ?thesis unfolding shifts_def by metis
  qed
  then have "\<forall>s \<in> set (Shards c'). s \<in> gids c" by (auto simp: in_set_conv_nth)
  with assms show ?thesis by (auto simp: valid_config_def shifts_def)
qed

lemma rebalance_spec:
  assumes "loose_config c"
  obtains c' where "rebalance c = Inr c'" "valid_config c'" "balanced c'"
    "Num c' = Num c" "Groups c' = Groups c"
proof -
  let ?c = "assignVoidShards c"
  have valid: "valid_config ?c" using assms by (rule assignVoidShards_valid)
  show ?thesis
  proof (cases "length (Groups ?c) > 1")
    case True
    from redistributeShards_spec [of ?c] valid obtain c' where
      c': "redistributeShards ?c = Some c'" "balanced c'" "shifts ?c c'"
      by (auto simp: valid_config_def)
    moreover have "Groups ?c \<noteq> []" using True by auto
    then have "valid_config c'" by (rule shifts_valid [OF valid c'(3)])
    ultimately show ?thesis using True that by (simp add: rebalance_def Let_def shifts_def)
  next
    case False
    then have "Groups c = [] \<or> (\<exists>p. Groups c = [p])"
      by (cases "Groups c") auto
    then have "balanced ?c" by (auto simp: balanced_def)
    with False valid that show ?thesis by (simp add: rebalance_def Let_def)
  qed
qed

text \<open>
  The shards that come out depend on the groups through their sorted identifiers only, so
  the order in which Go ranges over a map cannot make replicas differ.
\<close>

lemma redistributeShards_keys:
  assumes "length (Shards c) = NShards" "Shards d = Shards c"
    "getSortedKeys (Groups d) = getSortedKeys (Groups c)"
  shows "map_option Shards (redistributeShards d) = map_option Shards (redistributeShards c)"
  using assms
proof (induction "nat (unevenness c)" arbitrary: c d rule: less_induct)
  case less
  obtain mn mnG mx mxG where mm: "getMinMaxGroup c = (mn, mnG, mx, mxG)"
    by (metis prod_cases4)
  then have mm': "getMinMaxGroup d = (mn, mnG, mx, mxG)"
    using less.prems by (simp add: getMinMaxGroup_def)
  show ?case
  proof (cases "mx - mn > 1")
    case False
    then show ?thesis using less.prems(2)
      by (subst (1 2) redistributeShards.simps) (simp add: mm mm')
  next
    case True
    let ?c = "c\<lparr>Shards := move_first mxG mnG (Shards c)\<rparr>"
    let ?d = "d\<lparr>Shards := move_first mxG mnG (Shards d)\<rparr>"
    have "unevenness ?c < unevenness c"
      using getMinMaxGroup_spec(1) [OF mm less.prems(1) True] True by (intro move_decreases) auto
    then have "nat (unevenness ?c) < nat (unevenness c)" using unevenness_nonneg [of ?c] by simp
    from less.hyps [OF this, of ?d] less.prems True show ?thesis
      by (subst (1 2) redistributeShards.simps) (simp add: mm mm')
  qed
qed

lemma rebalance_keys:
  assumes "loose_config c" "Shards d = Shards c" "getSortedKeys (Groups d) = getSortedKeys (Groups c)"
    "rebalance c = Inr c'" "rebalance d = Inr d'"
  shows "Shards d' = Shards c'"
proof -
  have same: "Shards (assignVoidShards d) = Shards (assignVoidShards c)"
    using assms(2,3) by (simp add: assignVoidShards_def Let_def)
  have len: "length (Groups d) = length (Groups c)"
    using arg_cong [OF assms(3), of length] by (simp add: getSortedKeys_def)
  have "length (Shards (assignVoidShards c)) = NShards"
    using assignVoidShards_valid [OF assms(1)] by (simp add: valid_config_def)
  from redistributeShards_keys [OF this same] assms(3)
  have "map_option Shards (redistributeShards (assignVoidShards d)) =
      map_option Shards (redistributeShards (assignVoidShards c))" by simp
  with assms(4,5) len same show ?thesis
    by (auto simp: rebalance_def Let_def split: if_splits option.splits)
qed

section \<open>The history of configurations\<close>

definition history_ok :: "config list \<Rightarrow> bool" where
  "history_ok cs \<longleftrightarrow> cs \<noteq> [] \<and> (\<forall>i < length cs. Num (cs ! i) = int i \<and> valid_config (cs ! i))"

lemma history_ok_snoc:
  "history_ok cs \<Longrightarrow> valid_config c \<Longrightarrow> Num c = int (length cs) \<Longrightarrow> history_ok (cs @ [c])"
  by (auto simp: history_ok_def nth_append less_Suc_eq)

lemma makeNextConfig_ok:
  assumes "history_ok cs"
  shows "makeNextConfig cs = Inr ((last cs)\<lparr>Num := int (length cs)\<rparr>)"
proof -
  have last: "last cs = cs ! (length cs - 1)" "cs \<noteq> []"
    using assms by (auto simp: history_ok_def last_conv_nth)
  then have c: "Num (last cs) = int (length cs - 1)" "valid_config (last cs)"
    using assms by (auto simp: history_ok_def)
  have "map (\<lambda>i. Shards (last cs) ! i) [0..<NShards] = Shards (last cs)"
    using c(2) map_nth [of "Shards (last cs)"] by (simp add: valid_config_def)
  moreover have "getLatestConfig cs = Inr (last cs)"
    using last by (simp add: getLatestConfig_def nat_diff_distrib Suc_leI)
  moreover have "int (length cs - 1) + 1 = int (length cs)" using last(2) by (cases cs) auto
  ultimately show ?thesis
    using c(1) by (cases "last cs") (simp add: makeNextConfig_def makeShallowCopyConfig_def Let_def)
qed

lemma last_valid: "history_ok cs \<Longrightarrow> valid_config (last cs)"
  by (auto simp: history_ok_def last_conv_nth)

section \<open>Joining and leaving\<close>

lemma map_put_view:
  "fst ` set (map_put m k v) = insert k (fst ` set m)"
  "distinct (map fst m) \<Longrightarrow> distinct (map fst (map_put m k v))"
  "map_of (map_put m k v) = (map_of m)(k \<mapsto> v)"
proof -
  show "fst ` set (map_put m k v) = insert k (fst ` set m)" by (auto simp: map_put_def image_iff)
  show "distinct (map fst m) \<Longrightarrow> distinct (map fst (map_put m k v))"
    by (auto simp: map_put_def distinct_map inj_on_def)
  have "map_of (filter (\<lambda>p. fst p \<noteq> k) m) j = (if j = k then None else map_of m j)" for j
    by (induction m) auto
  then show "map_of (map_put m k v) = (map_of m)(k \<mapsto> v)"
    by (auto simp: map_put_def fun_eq_iff)
qed

lemma join_groups_view:
  "fst ` set (fold (\<lambda>(k, v) m. map_put m k v) ps m) = fst ` set ps \<union> fst ` set m \<and>
   (distinct (map fst m) \<longrightarrow> distinct (map fst (fold (\<lambda>(k, v) m. map_put m k v) ps m)))"
proof (induction ps arbitrary: m)
  case (Cons p ps)
  obtain k v where p: "p = (k, v)" by fastforce
  from Cons.IH [of "map_put m k v"] map_put_view(1,2) [of m k v] show ?case
    unfolding p by (simp add: Un_commute insert_commute)
qed simp

lemma join_groups_map_of:
  "distinct (map fst ps) \<Longrightarrow> map_of (fold (\<lambda>(k, v) m. map_put m k v) ps m) j =
     (case map_of ps j of None \<Rightarrow> map_of m j | Some v \<Rightarrow> Some v)"
proof (induction ps arbitrary: m)
  case (Cons p ps)
  obtain k v where p: "p = (k, v)" by fastforce
  have "map_of ps k = None" using Cons.prems p by (simp add: map_of_eq_None_iff)
  with Cons.IH [of "map_put m k v"] Cons.prems show ?case
    by (simp add: p map_put_view(3) split: option.splits)
qed simp

lemma leave_groups_view: "fold (\<lambda>gid m. map_delete m gid) gs m = filter (\<lambda>p. fst p \<notin> set gs) m"
proof (induction gs arbitrary: m)
  case (Cons g gs)
  have "filter (\<lambda>p. fst p \<notin> set gs) (filter (\<lambda>p. fst p \<noteq> g) m) = filter (\<lambda>p. fst p \<notin> set (g # gs)) m"
    by (induction m) auto
  with Cons show ?case by (simp add: map_delete_def)
qed simp

lemma handleJoin_spec:
  assumes "history_ok cs" "\<forall>p \<in> set servers. 0 < fst p"
  obtains c where "handleJoin cs servers = Inr (cs @ [c])" "history_ok (cs @ [c])" "balanced c"
    "gids c = fst ` set servers \<union> gids (last cs)"
proof -
  let ?c = "(last cs)\<lparr>Num := int (length cs),
    Groups := fold (\<lambda>(k, v) m. map_put m k v) servers (Groups (last cs))\<rparr>"
  have "loose_config ?c"
    using valid_loose [OF last_valid [OF assms(1)]] assms(2)
      join_groups_view [of servers "Groups (last cs)"] by (auto simp: loose_config_def)
  from rebalance_spec [OF this] obtain c where c: "rebalance ?c = Inr c" "valid_config c" "balanced c"
    "Num c = int (length cs)" "Groups c = Groups ?c" by auto
  have "handleJoin cs servers = Inr (cs @ [c])"
    using c(1) by (simp add: handleJoin_def makeNextConfig_ok [OF assms(1)] Let_def)
  with c history_ok_snoc [OF assms(1) c(2,4)] join_groups_view [of servers "Groups (last cs)"] that
  show ?thesis by simp
qed

lemma handleLeave_spec:
  assumes "history_ok cs"
  obtains c where "handleLeave cs gs = Inr (cs @ [c])" "history_ok (cs @ [c])" "balanced c"
    "gids c = gids (last cs) - set gs"
proof -
  let ?c = "(last cs)\<lparr>Num := int (length cs),
    Groups := fold (\<lambda>gid m. map_delete m gid) gs (Groups (last cs)),
    Shards := map (\<lambda>gid. if contains gs gid then 0 else gid) (Shards (last cs))\<rparr>"
  have left: "gids ?c = gids (last cs) - set gs" by (auto simp: leave_groups_view)
  have "loose_config ?c"
    using valid_loose [OF last_valid [OF assms(1)]] left
    by (auto simp: loose_config_def leave_groups_view distinct_map inj_on_def)
  from rebalance_spec [OF this] obtain c where c: "rebalance ?c = Inr c" "valid_config c" "balanced c"
    "Num c = int (length cs)" "Groups c = Groups ?c" by auto
  have "handleLeave cs gs = Inr (cs @ [c])"
    using c(1) by (simp add: handleLeave_def makeNextConfig_ok [OF assms(1)] Let_def)
  with c history_ok_snoc [OF assms(1) c(2,4)] left that show ?thesis by simp
qed

lemma handleMove_spec:
  assumes "history_ok cs" "0 \<le> shard" "shard < int NShards" "gid \<in> gids (last cs)"
  obtains c where "handleMove cs shard gid = Inr (cs @ [c])" "history_ok (cs @ [c])"
    "Groups c = Groups (last cs)" "Shards c = (Shards (last cs))[nat shard := gid]"
proof -
  let ?c = "(last cs)\<lparr>Num := int (length cs), Shards := (Shards (last cs))[nat shard := gid]\<rparr>"
  note valid = last_valid [OF assms(1)]
  have "valid_config ?c"
    using valid assms(4) set_update_subset_insert [of "Shards (last cs)" "nat shard" gid]
    by (auto simp: valid_config_def split: if_splits)
  moreover have "handleMove cs shard gid = Inr (cs @ [?c])"
    using assms(2,3) valid
    by (simp add: handleMove_def makeNextConfig_ok [OF assms(1)] valid_config_def)
  ultimately show ?thesis using history_ok_snoc [OF assms(1), of ?c] that by simp
qed

section \<open>Properties\<close>

text \<open>
  C20. \<open>redistributeShards\<close> ends, on every assignment of the ten shards and for any set of
  groups: every move lowers the sum of the squares of the loads. Afterwards the loads of
  any two groups differ by at most one, the groups are what they were, and a shard was
  moved only if it belonged to a group, and only to a group.
\<close>

theorem redistribution_ends_balanced:
  assumes "length (Shards c) = NShards"
  shows "\<exists>c'. redistributeShards c = Some c' \<and> balanced c' \<and> Groups c' = Groups c \<and>
    (\<forall>i < NShards. Shards c' ! i = Shards c ! i \<or>
       Shards c ! i \<in> gids c \<and> Shards c' ! i \<in> gids c)"
  using redistributeShards_spec [OF assms] assms by (auto simp: shifts_def)

theorem redistribution_ends_balanced_witness:
  "\<exists>c'. redistributeShards \<lparr>Num = 3, Shards = [1, 1, 1, 1, 1, 1, 1, 2, 2, 7],
      Groups = [(2, []), (1, []), (5, [])]\<rparr> = Some c' \<and> balanced c'"
  using redistribution_ends_balanced [of "\<lparr>Num = 3, Shards = [1, 1, 1, 1, 1, 1, 1, 2, 2, 7],
      Groups = [(2, []), (1, []), (5, [])]\<rparr>"] by (auto simp: NShards_def)

text \<open>
  C21. Joining and leaving. From a history in good order, Join with positive group
  identifiers and Leave with any always succeed and append one configuration with the next
  number: its groups are the old ones with the joined ones, or without those that left;
  every shard belongs to one of its groups, or to group 0 if there is none; and the loads
  differ by at most one.
\<close>

theorem join_leave_valid:
  assumes "history_ok cs" "\<forall>p \<in> set servers. 0 < fst p"
  shows "(\<exists>c. handleJoin cs servers = Inr (cs @ [c]) \<and> history_ok (cs @ [c]) \<and> balanced c \<and>
      gids c = fst ` set servers \<union> gids (last cs)) \<and>
    (\<exists>c. handleLeave cs gs = Inr (cs @ [c]) \<and> history_ok (cs @ [c]) \<and> balanced c \<and>
      gids c = gids (last cs) - set gs)"
  using handleJoin_spec [OF assms] handleLeave_spec [OF assms(1), of gs] by metis

text \<open>The configuration that \<open>makeState\<close> starts with.\<close>

definition config0 :: config where
  "config0 = \<lparr>Num = 0, Shards = replicate NShards 0, Groups = []\<rparr>"

lemma config0_ok: "history_ok [config0]"
  by (simp add: history_ok_def config0_def valid_config_def)

theorem join_leave_valid_witness:
  "(\<exists>c. handleJoin [config0] [(7, [''a'']), (3, [''b''])] = Inr [config0, c] \<and> balanced c \<and>
      gids c = {7, 3}) \<and>
   (\<exists>c. handleLeave [config0] [7] = Inr [config0, c])"
  using join_leave_valid [OF config0_ok, of "[(7, [''a'']), (3, [''b''])]" "[7]"]
  by (auto simp: config0_def)

text \<open>
  C22. Replicas compute the same assignment. The servers of a Join come in a Go map, which
  every replica ranges over in an order of its own; whatever the orders, the new shards and
  the new groups, as a map, are the same.
\<close>

theorem join_order_irrelevant:
  assumes "history_ok cs" "\<forall>p \<in> set ps. 0 < fst p" "distinct (map fst ps)" "distinct (map fst qs)"
    "set qs = set ps"
    "handleJoin cs ps = Inr (cs @ [c])" "handleJoin cs qs = Inr (cs @ [d])"
  shows "Shards d = Shards c \<and> map_of (Groups d) = map_of (Groups c)"
proof -
  let ?g = "\<lambda>ps. fold (\<lambda>(k, v) m. map_put m k v) ps (Groups (last cs))"
  let ?c = "\<lambda>ps. (last cs)\<lparr>Num := int (length cs), Groups := ?g ps\<rparr>"
  have loose: "loose_config (?c rs)" if "set rs = set ps" for rs
    using valid_loose [OF last_valid [OF assms(1)]] assms(2) that
      join_groups_view [of rs "Groups (last cs)"] by (auto simp: loose_config_def)
  have "map_of qs = map_of ps" using map_of_inject_set [OF assms(4,3)] assms(5) by simp
  then have groups: "map_of (?g qs) = map_of (?g ps)"
    using join_groups_map_of [OF assms(3)] join_groups_map_of [OF assms(4)] by (simp add: fun_eq_iff)
  have keys: "getSortedKeys (?g qs) = getSortedKeys (?g ps)"
    using join_groups_view [of qs "Groups (last cs)"] join_groups_view [of ps "Groups (last cs)"]
      last_valid [OF assms(1)] assms(5)
    by (auto simp: getSortedKeys_def valid_config_def intro!: sorted_distinct_set_unique)
  have run: "rebalance (?c ps) = Inr c" "rebalance (?c qs) = Inr d"
    using assms(6,7) by (simp_all add: handleJoin_def makeNextConfig_ok [OF assms(1)] Let_def)
  have "Shards d = Shards c"
    by (rule rebalance_keys [OF loose _ _ run]) (simp_all add: keys)
  moreover have "Groups c = ?g ps" "Groups d = ?g qs"
    using rebalance_spec [OF loose [of ps]] rebalance_spec [OF loose [OF assms(5)]] run by force+
  ultimately show ?thesis using groups by simp
qed

theorem join_order_irrelevant_witness:
  "\<exists>c d. handleJoin [config0] [(7, [''a'']), (3, [''b''])] = Inr [config0, c] \<and>
     handleJoin [config0] [(3, [''b'']), (7, [''a''])] = Inr [config0, d] \<and> Shards d = Shards c"
proof -
  let ?ps = "[(7, [''a'']), (3, [''b''])] :: groups" and ?qs = "[(3, [''b'']), (7, [''a''])] :: groups"
  obtain c where c: "handleJoin [config0] ?ps = Inr ([config0] @ [c])"
    using handleJoin_spec [OF config0_ok, of ?ps] by auto
  obtain d where d: "handleJoin [config0] ?qs = Inr ([config0] @ [d])"
    using handleJoin_spec [OF config0_ok, of ?qs] by auto
  from join_order_irrelevant [OF config0_ok _ _ _ _ c d] c d show ?thesis by auto
qed

end
