(* ===== verification/SC_Server.thy ===== *)
theory SC_Server
  imports SC_Config
begin

text \<open>
  The server of the shard controller: operations and state (common.go, server.go), the
  table of waiting handlers and duplicate detection (util.go), the apply loop
  (applyTicker.go), snapshots (snapshot.go). Names that kvraft uses too carry the prefix
  \<open>sc\<close>. Channels are numbers, as in the model of kvraft.
\<close>

datatype sCtrlType = JOIN | LEAVE | MOVE | QUERY | OtherSCtrl string

datatype errType = SCEmptyErr | SCOK | SCErrNoKey | SCErrWrongLeader | SCErrOther | SCErrTimeout | SCErrFiller

record scOp =
  so_ServerId :: int
  so_OpIndex :: int
  so_Type :: sCtrlType
  so_Servers :: groups
  so_GIDs :: "int list"
  so_Shard :: int
  so_GID :: int
  so_Num :: int
  so_ClientId :: int
  so_RequestIndex :: int

record replyMsg =
  rm_Error :: errType
  rm_Value :: string
  rm_ReturnConfig :: config

record scReplyChannel =
  sc_Operation :: scOp
  sc_ReplyChannel :: nat

record scState =
  Configs :: "config list"
  sc_ClientLastRequest :: "int \<rightharpoonup> int"

datatype sc_tok = SCState scState

record shardCtrler =
  sc_me :: int
  sc_rf :: "(scOp, sc_tok) raft"
  sc_state :: scState
  sc_startChannels :: "int \<rightharpoonup> (int \<rightharpoonup> scReplyChannel)"
  sc_nextChan :: nat
  sc_closedChans :: "nat list"

definition emptyConfig :: config where
  "emptyConfig = \<lparr>Num = 0, Shards = replicate NShards 0, Groups = []\<rparr>"

section \<open>The state machine\<close>

definition sc_makeState :: scState where
  "sc_makeState = \<lparr>Configs = [emptyConfig], sc_ClientLastRequest = Map.empty\<rparr>"

definition sc_isDuplicateOp :: "scState \<Rightarrow> scOp \<Rightarrow> bool" where
  "sc_isDuplicateOp st x =
     (case sc_ClientLastRequest st (so_ClientId x) of
        Some lastRequestIndex \<Rightarrow> if so_RequestIndex x \<le> lastRequestIndex then True else False
      | None \<Rightarrow> False)"

definition sc_getValue :: "scState \<Rightarrow> scOp \<Rightarrow> config res" where
  "sc_getValue st x =
     (if so_Type x \<noteq> QUERY then Inl (LogFatal ''In geValue(), op type not QUERY'')
      else if so_Num x < 0 \<or> so_Num x \<ge> int (length (Configs st))
      then go_index (Configs st) (int (length (Configs st)) - 1)
      else go_index (Configs st) (so_Num x))"

text \<open>The first part of \<open>handleCommandApply\<close>.\<close>

definition sc_executeOp :: "scState \<Rightarrow> scOp \<Rightarrow> (scState \<times> replyMsg) res" where
  "sc_executeOp st x =
     (let reply = \<lparr>rm_Error = SCErrFiller, rm_Value = [], rm_ReturnConfig = emptyConfig\<rparr> in
      if sc_isDuplicateOp st x
      then if so_Type x = QUERY
           then res_bind (sc_getValue st x) (\<lambda>c.
                  Inr (st, reply\<lparr>rm_ReturnConfig := c, rm_Error := SCOK\<rparr>))
           else Inr (st, reply\<lparr>rm_Error := SCOK\<rparr>)
      else
        let st1 = st\<lparr>sc_ClientLastRequest :=
                       (sc_ClientLastRequest st)(so_ClientId x \<mapsto> so_RequestIndex x)\<rparr>;
            done = (\<lambda>cs. Inr (st1\<lparr>Configs := cs\<rparr>, reply\<lparr>rm_Error := SCOK\<rparr>))
        in case so_Type x of
             QUERY \<Rightarrow> res_bind (sc_getValue st1 x) (\<lambda>c.
                        Inr (st1, reply\<lparr>rm_ReturnConfig := c, rm_Error := SCOK\<rparr>))
           | JOIN \<Rightarrow> res_bind (handleJoin (Configs st1) (so_Servers x)) done
           | LEAVE \<Rightarrow> res_bind (handleLeave (Configs st1) (so_GIDs x)) done
           | MOVE \<Rightarrow> res_bind (handleMove (Configs st1) (so_Shard x) (so_GID x)) done
           | OtherSCtrl t \<Rightarrow>
               Inl (LogFatal ''In handleCommandApply(), op.Type not in [JOIN, LEAVE, MOVE, QUERY]''))"

section \<open>The table of waiting handlers\<close>

definition sc_createStartCh :: "shardCtrler \<Rightarrow> scOp \<Rightarrow> scReplyChannel \<times> shardCtrler" where
  "sc_createStartCh sc x =
     (let m = (case sc_startChannels sc (so_ClientId x) of None \<Rightarrow> Map.empty | Some m \<Rightarrow> m);
          opChannel = \<lparr>sc_Operation = x, sc_ReplyChannel = sc_nextChan sc\<rparr>
      in (opChannel,
          sc\<lparr>sc_startChannels := (sc_startChannels sc)
               (so_ClientId x \<mapsto> m(so_RequestIndex x \<mapsto> opChannel)),
             sc_nextChan := Suc (sc_nextChan sc)\<rparr>))"

definition sc_createStartChLocked :: "shardCtrler \<Rightarrow> scOp \<Rightarrow> scReplyChannel \<times> shardCtrler" where
  "sc_createStartChLocked sc x = sc_createStartCh sc x"

definition sc_getStartCh :: "shardCtrler \<Rightarrow> scOp \<Rightarrow> scReplyChannel option" where
  "sc_getStartCh sc x =
     (case sc_startChannels sc (so_ClientId x) of
        None \<Rightarrow> None
      | Some clientMap \<Rightarrow> clientMap (so_RequestIndex x))"

definition sc_deleteStartCh :: "shardCtrler \<Rightarrow> scOp \<Rightarrow> shardCtrler res" where
  "sc_deleteStartCh sc x =
     (case sc_startChannels sc (so_ClientId x) of
        None \<Rightarrow> Inr sc
      | Some clientMap \<Rightarrow>
          (case clientMap (so_RequestIndex x) of
             None \<Rightarrow> Inr sc
           | Some startCh \<Rightarrow>
               if sc_ReplyChannel startCh \<in> set (sc_closedChans sc)
               then Inl (GoPanic ''close of closed channel'')
               else Inr (sc\<lparr>sc_closedChans := sc_ReplyChannel startCh # sc_closedChans sc,
                           sc_startChannels := (sc_startChannels sc)
                             (so_ClientId x \<mapsto> clientMap(so_RequestIndex x := None))\<rparr>)))"

definition sc_deleteStartChLocked :: "shardCtrler \<Rightarrow> scOp \<Rightarrow> shardCtrler res" where
  "sc_deleteStartChLocked sc x = sc_deleteStartCh sc x"

definition sc_opChannelMatch :: "shardCtrler \<Rightarrow> scOp \<Rightarrow> bool" where
  "sc_opChannelMatch sc responseOp =
     (if so_ServerId responseOp \<noteq> sc_me sc then False
      else case sc_getStartCh sc responseOp of
        None \<Rightarrow> False
      | Some startCh \<Rightarrow>
          let originalOp = sc_Operation startCh in
          if so_ServerId originalOp \<noteq> so_ServerId responseOp \<or>
             so_OpIndex originalOp \<noteq> so_OpIndex responseOp \<or>
             so_Type originalOp \<noteq> so_Type responseOp \<or> so_Shard originalOp \<noteq> so_Shard responseOp \<or>
             so_GID originalOp \<noteq> so_GID responseOp \<or> so_Num originalOp \<noteq> so_Num responseOp \<or>
             so_ClientId originalOp \<noteq> so_ClientId responseOp \<or>
             so_RequestIndex originalOp \<noteq> so_RequestIndex responseOp
          then False else True)"

definition sc_signalStartCh ::
  "shardCtrler \<Rightarrow> scOp \<Rightarrow> replyMsg \<Rightarrow> (shardCtrler \<times> (nat \<times> replyMsg) option) res" where
  "sc_signalStartCh sc responseOp reply =
     (case sc_getStartCh sc responseOp of
        None \<Rightarrow> Inr (sc, None)
      | Some startCh \<Rightarrow>
          if sc_ReplyChannel startCh \<in> set (sc_closedChans sc)
          then Inl (GoPanic ''send on closed channel'')
          else res_bind (sc_deleteStartCh sc responseOp) (\<lambda>sc'.
                 Inr (sc', Some (sc_ReplyChannel startCh, reply))))"

section \<open>Snapshots\<close>

definition sc_makeSnapshot :: "shardCtrler \<Rightarrow> sc_tok list" where
  "sc_makeSnapshot sc = [SCState (sc_state sc)]"

fun sc_readSnapshot :: "sc_tok list \<Rightarrow> scState res" where
  "sc_readSnapshot (SCState newState # r) = Inr newState"
| "sc_readSnapshot [] = Inl (LogFatal ''read persist error'')"

definition sc_installSnapshot :: "shardCtrler \<Rightarrow> sc_tok list \<Rightarrow> shardCtrler res" where
  "sc_installSnapshot sc data =
     (if data = [] then Inr sc
      else res_bind (sc_readSnapshot data) (\<lambda>st. Inr (sc\<lparr>sc_state := st\<rparr>)))"

section \<open>The apply loop\<close>

definition sc_answerOp ::
  "shardCtrler \<Rightarrow> scOp \<Rightarrow> replyMsg \<Rightarrow> (shardCtrler \<times> (nat \<times> replyMsg) option) res" where
  "sc_answerOp sc x reply =
     (let reply = (if \<not> snd (GetState (sc_rf sc))
                   then reply\<lparr>rm_Error := SCErrWrongLeader\<rparr> else reply)
      in if sc_opChannelMatch sc x then sc_signalStartCh sc x reply else Inr (sc, None))"

definition sc_handleCommandApply ::
  "shardCtrler \<Rightarrow> (scOp, sc_tok) applyMsg \<Rightarrow> (shardCtrler \<times> (nat \<times> replyMsg) option) res" where
  "sc_handleCommandApply sc m =
     (case Command m of
        Cmd x \<Rightarrow>
          res_bind (sc_executeOp (sc_state sc) x) (\<lambda>(st, reply).
          let sc1 = sc\<lparr>sc_state := st\<rparr> in
          res_bind (SnapshotCall (sc_rf sc1) (CommandIndex m) (sc_makeSnapshot sc1)) (\<lambda>rf.
            sc_answerOp (sc1\<lparr>sc_rf := rf\<rparr>) x reply))
      | _ \<Rightarrow> Inl TypeAssertion)"

text \<open>A snapshot message is accepted and then ignored, as in the source.\<close>

definition sc_handleApplyMessage ::
  "shardCtrler \<Rightarrow> (scOp, sc_tok) applyMsg \<Rightarrow> (shardCtrler \<times> (nat \<times> replyMsg) option) res" where
  "sc_handleApplyMessage sc m =
     (if SnapshotValid m
      then if CondInstallSnapshot (sc_rf sc) (SnapshotTerm m) (SnapshotIndex m) (Snapshot m)
           then Inr (sc, None) else Inr (sc, None)
      else if CommandValid m then sc_handleCommandApply sc m
      else if CommandIndex m \<noteq> 0
      then Inl (GoPanic ''not snapshot, not command, and index not 0'')
      else Inr (sc, None))"

definition StartServer ::
  "env \<Rightarrow> nat \<Rightarrow> int \<Rightarrow> (scOp, sc_tok) persister \<Rightarrow> shardCtrler res" where
  "StartServer ev servers self ps =
     res_bind (Make ev servers self ps) (\<lambda>rf.
       sc_installSnapshot
         \<lparr>sc_me = self, sc_rf = rf, sc_state = sc_makeState, sc_startChannels = Map.empty,
          sc_nextChan = 0, sc_closedChans = []\<rparr> (ReadSnapshot ps))"

definition SCKill :: "shardCtrler \<Rightarrow> shardCtrler" where
  "SCKill sc = sc\<lparr>sc_rf := Kill (sc_rf sc)\<rparr>"

definition sc_Raft :: "shardCtrler \<Rightarrow> (scOp, sc_tok) raft" where
  "sc_Raft sc = sc_rf sc"

section \<open>At-most-once execution\<close>

text \<open>What an operation does to the history, when it gets through.\<close>

definition sc_exec :: "scOp \<Rightarrow> config list \<Rightarrow> config list" where
  "sc_exec x cs =
     (case so_Type x of
        JOIN \<Rightarrow> projr (handleJoin cs (so_Servers x))
      | LEAVE \<Rightarrow> projr (handleLeave cs (so_GIDs x))
      | MOVE \<Rightarrow> projr (handleMove cs (so_Shard x) (so_GID x))
      | _ \<Rightarrow> cs)"

definition sc_app :: "scState \<Rightarrow> scOp \<Rightarrow> scState res" where
  "sc_app st x = res_bind (sc_executeOp st x) (\<lambda>(st', reply). Inr st')"

lemma sc_isDuplicateOp_seen:
  "sc_isDuplicateOp st x = seen (sc_ClientLastRequest st) (so_ClientId x) (so_RequestIndex x)"
  by (simp add: sc_isDuplicateOp_def seen_def split: option.splits)

lemma sc_executeOp_seen:
  assumes "sc_executeOp st x = Inr (st', r)"
    "seen (sc_ClientLastRequest st) (so_ClientId x) (so_RequestIndex x)"
  shows "st' = st"
  using assms by (auto simp: sc_executeOp_def sc_isDuplicateOp_seen Let_def split: if_splits)

lemma sc_executeOp_fresh:
  assumes "sc_executeOp st x = Inr (st', r)"
    "\<not> seen (sc_ClientLastRequest st) (so_ClientId x) (so_RequestIndex x)"
  shows "st' = \<lparr>Configs = sc_exec x (Configs st), sc_ClientLastRequest =
    (sc_ClientLastRequest st)(so_ClientId x \<mapsto> so_RequestIndex x)\<rparr>"
  using assms
  by (cases st; cases "so_Type x")
    (auto simp: sc_executeOp_def sc_isDuplicateOp_seen sc_exec_def Let_def)

interpretation sc_machine: dedup_machine sc_ClientLastRequest Configs sc_app sc_exec
  so_ClientId so_RequestIndex
proof (unfold_locales, goal_cases)
  case (1 s x s')
  then show ?case by (auto simp: sc_app_def dest: sc_executeOp_seen)
next
  case (2 s x s')
  then obtain r where "sc_executeOp s x = Inr (s', r)" by (auto simp: sc_app_def)
  from sc_executeOp_fresh [OF this 2(2)] show ?case by simp
qed

section \<open>The table honours its contract\<close>

definition sc_chan_at :: "shardCtrler \<Rightarrow> int \<times> int \<Rightarrow> nat option" where
  "sc_chan_at sc k =
     (case sc_startChannels sc (fst k) of
        None \<Rightarrow> None
      | Some m \<Rightarrow> map_option sc_ReplyChannel (m (snd k)))"

definition so_key :: "scOp \<Rightarrow> int \<times> int" where
  "so_key x = (so_ClientId x, so_RequestIndex x)"

interpretation sc_table: channel_table sc_chan_at "\<lambda>sc. set (sc_closedChans sc)" sc_nextChan so_key
  "\<lambda>sc x. snd (sc_createStartCh sc x)" sc_deleteStartCh
proof (unfold_locales, goal_cases)
  case (1 s x k)
  then show ?case
    by (cases k) (auto simp: sc_chan_at_def so_key_def sc_createStartCh_def Let_def split: option.splits)
next
  case (2 s x)
  then show ?case by (simp add: sc_createStartCh_def Let_def)
next
  case (3 s x)
  then show ?case by (simp add: sc_createStartCh_def Let_def)
next
  case (4 s x)
  then show ?case by (auto simp: sc_chan_at_def so_key_def sc_deleteStartCh_def split: option.splits)
next
  case (5 s x c)
  then show ?case by (auto simp: sc_chan_at_def so_key_def sc_deleteStartCh_def split: option.splits)
next
  case (6 s x c)
  then obtain m ch where m: "sc_startChannels s (so_ClientId x) = Some m"
    "m (so_RequestIndex x) = Some ch" "sc_ReplyChannel ch = c"
    by (auto simp: sc_chan_at_def so_key_def split: option.splits)
  let ?s = "s\<lparr>sc_closedChans := c # sc_closedChans s,
    sc_startChannels := (sc_startChannels s)(so_ClientId x \<mapsto> m(so_RequestIndex x := None))\<rparr>"
  have "sc_deleteStartCh s x = Inr ?s" using m 6(2) by (simp add: sc_deleteStartCh_def)
  moreover have "sc_chan_at ?s = (sc_chan_at s)(so_key x := None)"
    using m(1) by (auto simp: sc_chan_at_def so_key_def fun_eq_iff split: option.splits)
  ultimately show ?case by simp
qed

interpretation sc_codec: codec "\<lambda>st. [SCState st]" sc_readSnapshot
  by unfold_locales simp_all

section \<open>What a message does to the server\<close>

definition sc_cmd_msg :: "int \<times> scOp \<Rightarrow> (scOp, sc_tok) applyMsg" where
  "sc_cmd_msg p = emptyApplyMsg\<lparr>CommandValid := True, Command := Cmd (snd p), CommandIndex := fst p\<rparr>"

definition sc_snap_msg :: "sc_tok list \<Rightarrow> (scOp, sc_tok) applyMsg" where
  "sc_snap_msg d = emptyApplyMsg\<lparr>SnapshotValid := True, Snapshot := d\<rparr>"

definition sc_feed :: "shardCtrler \<Rightarrow> (scOp, sc_tok) applyMsg list \<Rightarrow> shardCtrler res" where
  "sc_feed = res_fold (\<lambda>sc m. res_bind (sc_handleApplyMessage sc m) (\<lambda>(sc', s). Inr sc'))"

lemma sc_deleteStartCh_frame:
  "sc_deleteStartCh sc x = Inr sc' \<Longrightarrow> sc_state sc' = sc_state sc"
  by (auto simp: sc_deleteStartCh_def split: option.splits if_splits)

lemma sc_answerOp_frame: "sc_answerOp sc x r = Inr (sc', s) \<Longrightarrow> sc_state sc' = sc_state sc"
  by (auto simp: sc_answerOp_def sc_signalStartCh_def Let_def sc_deleteStartCh_frame
      split: option.splits if_splits)

lemma sc_handleApplyMessage_cmd:
  assumes "sc_handleApplyMessage sc (sc_cmd_msg p) = Inr (sc', s)"
  shows "sc_app (sc_state sc) (snd p) = Inr (sc_state sc')"
proof -
  from assms obtain st r rf where "sc_executeOp (sc_state sc) (snd p) = Inr (st, r)"
    "sc_answerOp (sc\<lparr>sc_state := st, sc_rf := rf\<rparr>) (snd p) r = Inr (sc', s)"
    by (auto simp: sc_handleApplyMessage_def sc_handleCommandApply_def sc_cmd_msg_def
        emptyApplyMsg_def Let_def)
  with sc_answerOp_frame [OF this(2)] show ?thesis by (simp add: sc_app_def)
qed

lemma sc_feed_commands:
  "sc_feed sc (map sc_cmd_msg ps) = Inr sc' \<Longrightarrow>
   res_fold sc_app (sc_state sc) (map snd ps) = Inr (sc_state sc')"
proof (induction ps arbitrary: sc)
  case Nil
  then show ?case by (simp add: sc_feed_def)
next
  case (Cons p ps)
  then obtain sc1 s where "sc_handleApplyMessage sc (sc_cmd_msg p) = Inr (sc1, s)"
    "sc_feed sc1 (map sc_cmd_msg ps) = Inr sc'" by (auto simp: sc_feed_def)
  with sc_handleApplyMessage_cmd Cons.IH show ?case by simp
qed

section \<open>The server keeps going\<close>

definition sc_chans_ok :: "shardCtrler \<Rightarrow> bool" where
  "sc_chans_ok = table_ok sc_chan_at (\<lambda>sc. set (sc_closedChans sc)) sc_nextChan"

definition sc_ok :: "shardCtrler \<Rightarrow> bool" where
  "sc_ok sc \<longleftrightarrow> sc_chans_ok sc \<and> history_ok (Configs (sc_state sc)) \<and> raft_ok (sc_rf sc) \<and>
     commitIndex (sc_rf sc) \<le> getLastLogEntryIndex (sc_rf sc)"

lemma sc_chans_ok_frame:
  "sc_startChannels sc' = sc_startChannels sc \<Longrightarrow> sc_closedChans sc' = sc_closedChans sc \<Longrightarrow>
   sc_nextChan sc' = sc_nextChan sc \<Longrightarrow> sc_chans_ok sc' \<longleftrightarrow> sc_chans_ok sc"
  unfolding sc_chans_ok_def by (rule sc_table.table_ok_cong) (simp_all add: sc_chan_at_def fun_eq_iff)

lemma sc_chan_at_getStartCh: "sc_chan_at sc (so_key x) = map_option sc_ReplyChannel (sc_getStartCh sc x)"
  by (simp add: sc_chan_at_def so_key_def sc_getStartCh_def split: option.splits)

lemma sc_deleteStartCh_rf: "sc_deleteStartCh sc x = Inr sc' \<Longrightarrow> sc_rf sc' = sc_rf sc"
  by (auto simp: sc_deleteStartCh_def split: option.splits if_splits)

lemma sc_deleteStartCh_ok:
  assumes "sc_chans_ok sc"
  obtains sc' where "sc_deleteStartCh sc x = Inr sc'" "sc_chans_ok sc'" "sc_getStartCh sc' x = None"
proof -
  from sc_table.delete_total [OF assms [unfolded sc_chans_ok_def], of x] obtain sc' where
    "sc_deleteStartCh sc x = Inr sc'" "sc_chans_ok sc'" "sc_chan_at sc' (so_key x) = None"
    by (auto simp: sc_chans_ok_def)
  with that show ?thesis by (simp add: sc_chan_at_getStartCh)
qed

lemma sc_signalStartCh_ok:
  assumes "sc_chans_ok sc"
  obtains sc' s where "sc_signalStartCh sc x r = Inr (sc', s)" "sc_chans_ok sc'" "sc_rf sc' = sc_rf sc"
    "sc_state sc' = sc_state sc"
proof (cases "sc_getStartCh sc x")
  case None
  with assms that show ?thesis by (simp add: sc_signalStartCh_def)
next
  case (Some c)
  then have "sc_chan_at sc (so_key x) = Some (sc_ReplyChannel c)" by (simp add: sc_chan_at_getStartCh)
  from sc_table.table_okD(2) [OF assms [unfolded sc_chans_ok_def] this]
  have "sc_ReplyChannel c \<notin> set (sc_closedChans sc)" .
  moreover from sc_deleteStartCh_ok [OF assms] obtain sc' where
    "sc_deleteStartCh sc x = Inr sc'" "sc_chans_ok sc'" by metis
  ultimately show ?thesis
    using Some that sc_deleteStartCh_rf sc_deleteStartCh_frame by (simp add: sc_signalStartCh_def)
qed

lemma sc_answerOp_ok:
  assumes "sc_ok sc"
  obtains sc' s where "sc_answerOp sc x r = Inr (sc', s)" "sc_ok sc'" "sc_rf sc' = sc_rf sc"
    "sc_state sc' = sc_state sc"
proof (cases "sc_opChannelMatch sc x")
  case True
  let ?r = "if \<not> snd (GetState (sc_rf sc)) then r\<lparr>rm_Error := SCErrWrongLeader\<rparr> else r"
  have "sc_chans_ok sc" using assms by (simp add: sc_ok_def)
  from sc_signalStartCh_ok [OF this] obtain sc' s where "sc_signalStartCh sc x ?r = Inr (sc', s)"
    "sc_chans_ok sc'" "sc_rf sc' = sc_rf sc" "sc_state sc' = sc_state sc" by metis
  with assms True that show ?thesis by (simp add: sc_answerOp_def sc_ok_def Let_def)
next
  case False
  with assms that show ?thesis by (simp add: sc_answerOp_def Let_def)
qed

lemma StartServer_installs:
  assumes "raft_ok rf" "ReadSnapshot (persister rf) = [SCState st]"
  shows "\<exists>sc. StartServer ev (npeers rf) (me rf) (persister rf) = Inr sc \<and> sc_state sc = st"
  using Make_recovers [OF raft_okD(2) [OF assms(1)], of ev "npeers rf" "me rf"] assms(2)
  by (simp add: StartServer_def sc_installSnapshot_def)

section \<open>Properties\<close>

text \<open>An operation whose arguments fit the latest configuration.\<close>

definition admissible :: "config list \<Rightarrow> scOp \<Rightarrow> bool" where
  "admissible cs x \<longleftrightarrow>
     (case so_Type x of
        JOIN \<Rightarrow> \<forall>p \<in> set (so_Servers x). 0 < fst p
      | LEAVE \<Rightarrow> True
      | MOVE \<Rightarrow> 0 \<le> so_Shard x \<and> so_Shard x < int NShards \<and> so_GID x \<in> gids (last cs)
      | QUERY \<Rightarrow> True
      | OtherSCtrl t \<Rightarrow> False)"

lemma sc_getValue_ok:
  assumes "Configs st \<noteq> []" "so_Type x = QUERY"
  shows "sc_getValue st x = Inr (if 0 \<le> so_Num x \<and> so_Num x < int (length (Configs st))
    then Configs st ! nat (so_Num x) else last (Configs st))"
  using assms by (auto simp: sc_getValue_def last_conv_nth nat_diff_distrib Suc_leI)

lemma sc_exec_step:
  assumes "history_ok cs" "admissible cs x" "so_Type x \<noteq> QUERY"
  obtains c where "sc_exec x cs = cs @ [c]" "history_ok (cs @ [c])"
    "so_Type x = JOIN \<Longrightarrow> handleJoin cs (so_Servers x) = Inr (cs @ [c])"
    "so_Type x = LEAVE \<Longrightarrow> handleLeave cs (so_GIDs x) = Inr (cs @ [c])"
    "so_Type x = MOVE \<Longrightarrow> handleMove cs (so_Shard x) (so_GID x) = Inr (cs @ [c])"
proof (cases "so_Type x")
  case JOIN
  with assms(2) have "\<forall>p \<in> set (so_Servers x). 0 < fst p" by (simp add: admissible_def)
  with handleJoin_spec [OF assms(1)] obtain c where
    "handleJoin cs (so_Servers x) = Inr (cs @ [c])" "history_ok (cs @ [c])" by metis
  with JOIN that show ?thesis by (simp add: sc_exec_def)
next
  case LEAVE
  with handleLeave_spec [OF assms(1)] obtain c where
    "handleLeave cs (so_GIDs x) = Inr (cs @ [c])" "history_ok (cs @ [c])" by metis
  with LEAVE that show ?thesis by (simp add: sc_exec_def)
next
  case MOVE
  with assms(2) have "0 \<le> so_Shard x" "so_Shard x < int NShards" "so_GID x \<in> gids (last cs)"
    by (simp_all add: admissible_def)
  with handleMove_spec [OF assms(1)] obtain c where
    "handleMove cs (so_Shard x) (so_GID x) = Inr (cs @ [c])" "history_ok (cs @ [c])" by metis
  with MOVE that show ?thesis by (simp add: sc_exec_def)
qed (use assms in \<open>auto simp: admissible_def\<close>)

lemma sc_executeOp_query:
  assumes "Configs st \<noteq> []" "so_Type x = QUERY"
  obtains st' r where "sc_executeOp st x = Inr (st', r)" "rm_Error r = SCOK"
    "rm_ReturnConfig r = (if 0 \<le> so_Num x \<and> so_Num x < int (length (Configs st))
       then Configs st ! nat (so_Num x) else last (Configs st))"
    "Configs st' = Configs st"
proof (cases "sc_isDuplicateOp st x")
  case True
  with sc_getValue_ok [OF assms] assms(2) show ?thesis
    by (intro that) (simp add: sc_executeOp_def Let_def, simp_all)
next
  case False
  let ?st = "st\<lparr>sc_ClientLastRequest :=
    (sc_ClientLastRequest st)(so_ClientId x \<mapsto> so_RequestIndex x)\<rparr>"
  from False sc_getValue_ok [of ?st x] assms show ?thesis
    by (intro that) (simp add: sc_executeOp_def Let_def, simp_all)
qed

lemma sc_executeOp_write:
  assumes "history_ok (Configs st)" "admissible (Configs st) x" "so_Type x \<noteq> QUERY"
    "\<not> sc_isDuplicateOp st x"
  obtains st' r c where "sc_executeOp st x = Inr (st', r)" "rm_Error r = SCOK"
    "Configs st' = Configs st @ [c]" "history_ok (Configs st')"
proof -
  from sc_exec_step [OF assms(1-3)] obtain c where "history_ok (Configs st @ [c])"
    "so_Type x = JOIN \<Longrightarrow> handleJoin (Configs st) (so_Servers x) = Inr (Configs st @ [c])"
    "so_Type x = LEAVE \<Longrightarrow> handleLeave (Configs st) (so_GIDs x) = Inr (Configs st @ [c])"
    "so_Type x = MOVE \<Longrightarrow> handleMove (Configs st) (so_Shard x) (so_GID x) = Inr (Configs st @ [c])"
    by blast
  note c = this
  have "sc_executeOp st x = Inr (\<lparr>Configs = Configs st @ [c], sc_ClientLastRequest =
      (sc_ClientLastRequest st)(so_ClientId x \<mapsto> so_RequestIndex x)\<rparr>,
    \<lparr>rm_Error = SCOK, rm_Value = [], rm_ReturnConfig = emptyConfig\<rparr>)"
    using assms(2-4) c(2-4)
    by (cases st; cases "so_Type x") (simp_all add: sc_executeOp_def Let_def admissible_def)
  with c(1) that show ?thesis by simp
qed

lemma sc_executeOp_total:
  assumes "history_ok (Configs st)" "admissible (Configs st) x"
  obtains st' r where "sc_executeOp st x = Inr (st', r)" "history_ok (Configs st')"
proof (cases "so_Type x = QUERY")
  case True
  from assms(1) have "Configs st \<noteq> []" by (simp add: history_ok_def)
  from sc_executeOp_query [OF this True] assms(1) that show ?thesis by metis
next
  case False
  show ?thesis
  proof (cases "sc_isDuplicateOp st x")
    case True
    with False assms(1) that show ?thesis by (simp add: sc_executeOp_def Let_def)
  qed (use sc_executeOp_write [OF assms False] that in metis)
qed

text \<open>
  An operation on the history of configurations. From a history in good order, every
  operation with proper arguments is executed and answered OK; a repeated one changes
  nothing; a new one is remembered and, unless it is a Query, appends exactly one
  configuration with the next number, so that old configurations never change; a Query
  answers with the configuration of the number it asks for, or with the latest one if there
  is no such configuration.
\<close>

theorem sc_execute_spec:
  assumes "history_ok (Configs st)" "admissible (Configs st) x"
  shows "\<exists>st' r. sc_executeOp st x = Inr (st', r) \<and> rm_Error r = SCOK \<and> history_ok (Configs st') \<and>
    (if sc_isDuplicateOp st x then st' = st
     else sc_ClientLastRequest st' = (sc_ClientLastRequest st)(so_ClientId x \<mapsto> so_RequestIndex x) \<and>
       (if so_Type x = QUERY then Configs st' = Configs st
        else \<exists>c. Configs st' = Configs st @ [c] \<and> Num c = int (length (Configs st)))) \<and>
    (so_Type x = QUERY \<longrightarrow>
       rm_ReturnConfig r = (if 0 \<le> so_Num x \<and> so_Num x < int (length (Configs st))
         then Configs st ! nat (so_Num x) else last (Configs st)))"
proof -
  have fresh: "sc_ClientLastRequest st' = (sc_ClientLastRequest st)(so_ClientId x \<mapsto> so_RequestIndex x)"
    if "sc_executeOp st x = Inr (st', r)" "\<not> sc_isDuplicateOp st x" for st' r
    using sc_executeOp_fresh [OF that(1)] that(2) by (simp add: sc_isDuplicateOp_seen)
  have dup: "st' = st" if "sc_executeOp st x = Inr (st', r)" "sc_isDuplicateOp st x" for st' r
    using sc_executeOp_seen [OF that(1)] that(2) by (simp add: sc_isDuplicateOp_seen)
  show ?thesis
  proof (cases "so_Type x = QUERY")
    case True
    from assms(1) have "Configs st \<noteq> []" by (simp add: history_ok_def)
    from sc_executeOp_query [OF this True] obtain st' r where
      "sc_executeOp st x = Inr (st', r)" "rm_Error r = SCOK" "Configs st' = Configs st"
      "rm_ReturnConfig r = (if 0 \<le> so_Num x \<and> so_Num x < int (length (Configs st))
         then Configs st ! nat (so_Num x) else last (Configs st))" by metis
    with True assms(1) fresh dup show ?thesis by auto
  next
    case w: False
    show ?thesis
    proof (cases "sc_isDuplicateOp st x")
      case True
      with w assms(1) show ?thesis by (simp add: sc_executeOp_def Let_def)
    next
      case False
      from sc_executeOp_write [OF assms w False] obtain st' r c where
        run: "sc_executeOp st x = Inr (st', r)" "rm_Error r = SCOK"
        "Configs st' = Configs st @ [c]" "history_ok (Configs st')" by metis
      from run(3,4) have "Num c = int (length (Configs st))"
        by (auto simp: history_ok_def dest: spec [of _ "length (Configs st)"])
      with run w False fresh [OF run(1)] show ?thesis by auto
    qed
  qed
qed

definition join_op :: scOp where
  "join_op = \<lparr>so_ServerId = 0, so_OpIndex = 0, so_Type = JOIN, so_Servers = [(7, [''a'']), (3, [''b''])],
     so_GIDs = [], so_Shard = 0, so_GID = 0, so_Num = 0, so_ClientId = 5, so_RequestIndex = 0\<rparr>"

theorem sc_execute_spec_witness:
  "\<exists>st' r c. sc_executeOp sc_makeState join_op = Inr (st', r) \<and> Configs st' = [emptyConfig, c] \<and>
     Num c = 1 \<and> sc_ClientLastRequest st' 5 = Some 0"
  using sc_execute_spec [of sc_makeState join_op] config0_ok
  by (auto simp: sc_makeState_def emptyConfig_def config0_def join_op_def admissible_def
      sc_isDuplicateOp_def)

text \<open>
  Exactly once. Fed with any mix of requests and retries as committed commands, a
  server has the history that results from executing, in order, each request that is newer
  than those of its client before it, each exactly once; those of one client have strictly
  increasing indices.
\<close>

theorem sc_exactly_once:
  assumes "sc_feed sc (map sc_cmd_msg ps) = Inr sc'"
  defines "xs \<equiv> fresh_ops so_ClientId so_RequestIndex (sc_ClientLastRequest (sc_state sc)) (map snd ps)"
  shows "Configs (sc_state sc') = fold sc_exec xs (Configs (sc_state sc)) \<and>
    (\<forall>c. sorted_wrt (<) (map so_RequestIndex (filter (\<lambda>x. so_ClientId x = c) xs)))"
  using sc_machine.exactly_once [OF sc_feed_commands [OF assms(1)]]
  by (simp add: xs_def fresh_ops_increasing)

text \<open>A server of three that has just started.\<close>

definition sc3 :: shardCtrler where
  "sc3 = projr (StartServer \<lparr>now = 0, rnd = 0\<rparr> 3 0 MakePersister)"

definition move_op :: scOp where
  "move_op = join_op\<lparr>so_Type := MOVE, so_Shard := 4, so_GID := 7, so_RequestIndex := 1\<rparr>"

theorem sc_exactly_once_witness:
  "\<exists>sc'. sc_feed sc3 (map sc_cmd_msg [(1, join_op), (2, move_op), (3, join_op), (4, move_op)]) =
      Inr sc' \<and> length (Configs (sc_state sc')) = 3"
proof -
  let ?ps = "[(1, join_op), (2, move_op), (3, join_op), (4, move_op)]"
  have "\<not> isl (sc_feed sc3 (map sc_cmd_msg ?ps))" by code_simp
  then obtain sc' where sc': "sc_feed sc3 (map sc_cmd_msg ?ps) = Inr sc'" by (metis not_isl_Inr)
  have "length (fold sc_exec (fresh_ops so_ClientId so_RequestIndex
      (sc_ClientLastRequest (sc_state sc3)) (map snd ?ps)) (Configs (sc_state sc3))) = 3" by code_simp
  with sc_exactly_once [OF sc'] sc' show ?thesis by auto
qed

text \<open>
  A committed operation with proper arguments is always processed: a server in good
  order neither panics nor exits on it and stays in good order. If the operation is
  within what Raft has committed and not compacted yet, the whole state with its effect is on
  stable storage when it has been processed: a server that is restarted from that storage
  has the same history and the same table of requests.
\<close>

theorem sc_apply_survives:
  assumes "sc_ok sc" "admissible (Configs (sc_state sc)) x"
  shows "\<exists>sc' s. sc_handleApplyMessage sc (sc_cmd_msg (i, x)) = Inr (sc', s) \<and> sc_ok sc' \<and>
    (snapshotEntriesAmount (sc_rf sc) \<le> i \<and> i \<le> commitIndex (sc_rf sc) \<longrightarrow>
      (\<forall>ev. \<exists>sc''. StartServer ev (npeers (sc_rf sc')) (me (sc_rf sc')) (persister (sc_rf sc')) =
         Inr sc'' \<and> sc_state sc'' = sc_state sc'))"
proof -
  have ok: "raft_ok (sc_rf sc)" "commitIndex (sc_rf sc) \<le> getLastLogEntryIndex (sc_rf sc)"
    "history_ok (Configs (sc_state sc))" "sc_chans_ok sc" using assms(1) by (auto simp: sc_ok_def)
  from sc_executeOp_total [OF ok(3) assms(2)] obtain st r where
    st: "sc_executeOp (sc_state sc) x = Inr (st, r)" "history_ok (Configs st)" .
  from SnapshotCall_total [OF ok(1,2)] obtain rf where
    rf: "SnapshotCall (sc_rf sc) i [SCState st] = Inr rf" by blast
  have "sc_ok (sc\<lparr>sc_state := st, sc_rf := rf\<rparr>)"
    using SnapshotCall_refines(1,2,6) [OF ok(1) rf] ok st(2)
      sc_chans_ok_frame [of "sc\<lparr>sc_state := st, sc_rf := rf\<rparr>" sc] by (simp add: sc_ok_def)
  from sc_answerOp_ok [OF this, of x r] obtain sc' s where
    run: "sc_answerOp (sc\<lparr>sc_state := st, sc_rf := rf\<rparr>) x r = Inr (sc', s)" "sc_ok sc'"
    "sc_rf sc' = rf" "sc_state sc' = st" by auto
  have "ReadSnapshot (persister rf) = [SCState st]"
    if "snapshotEntriesAmount (sc_rf sc) \<le> i" "i \<le> commitIndex (sc_rf sc)"
    using ok(1) rf that by (cases rule: SnapshotCall_cases) (auto simp: ReadSnapshot_def)
  moreover have "sc_handleApplyMessage sc (sc_cmd_msg (i, x)) = Inr (sc', s)"
    using st(1) rf run(1) by (simp add: sc_handleApplyMessage_def sc_handleCommandApply_def
        sc_cmd_msg_def emptyApplyMsg_def sc_makeSnapshot_def Let_def)
  ultimately show ?thesis
    using run(2-4) StartServer_installs SnapshotCall_refines(1) [OF ok(1) rf] by blast
qed

text \<open>The server with a Join in its log that is committed at index 0.\<close>

definition sc3_busy :: shardCtrler where
  "sc3_busy = sc3\<lparr>sc_rf := persist ((sc_rf sc3)\<lparr>logs := [\<lparr>Term = 0, Action = Cmd join_op\<rparr>],
     commitIndex := 0\<rparr>)\<rparr>"

lemma sc3_busy_ok: "sc_ok sc3_busy"
proof -
  have "ReadSnapshot (MakePersister :: (scOp, sc_tok) persister) = []"
    by (simp add: ReadSnapshot_def MakePersister_def)
  then have "sc_startChannels sc3_busy = Map.empty" "set (sc_closedChans sc3_busy) = {}"
    by (simp_all add: sc3_busy_def sc3_def StartServer_def Make_fresh_persister sc_installSnapshot_def)
  then have "sc_chans_ok sc3_busy" by (simp add: sc_chans_ok_def table_ok_def sc_chan_at_def)
  moreover have "history_ok (Configs (sc_state sc3_busy))" "raft_ok (sc_rf sc3_busy)"
    "commitIndex (sc_rf sc3_busy) \<le> getLastLogEntryIndex (sc_rf sc3_busy)" by code_simp+
  ultimately show ?thesis by (simp add: sc_ok_def)
qed

theorem sc_apply_survives_witness:
  "\<exists>sc' s. sc_handleApplyMessage sc3_busy (sc_cmd_msg (0, join_op)) = Inr (sc', s) \<and>
    (\<exists>sc''. StartServer \<lparr>now = 5, rnd = 1\<rparr> (npeers (sc_rf sc')) (me (sc_rf sc'))
       (persister (sc_rf sc')) = Inr sc'' \<and> sc_state sc'' = sc_state sc')"
proof -
  have "admissible (Configs (sc_state sc3_busy)) join_op"
    "snapshotEntriesAmount (sc_rf sc3_busy) \<le> 0" "0 \<le> commitIndex (sc_rf sc3_busy)" by code_simp+
  with sc_apply_survives [OF sc3_busy_ok, of join_op 0] show ?thesis by blast
qed

text \<open>
  A replica that is brought up to date by a snapshot of the leader is not: the message
  is taken from the channel and dropped. The server that executed the Join has two
  configurations, the one that received its snapshot in place of the Join still has one,
  and the same Query gets different answers from them.
\<close>

theorem sc_snapshot_ignored:
  "\<exists>sc1 sc2. sc_feed sc3 (map sc_cmd_msg [(1, join_op)]) = Inr sc1 \<and>
     sc_feed sc3 [sc_snap_msg (sc_makeSnapshot sc1)] = Inr sc2 \<and>
     sc_getValue (sc_state sc1) (join_op\<lparr>so_Type := QUERY, so_Num := -1\<rparr>) \<noteq>
     sc_getValue (sc_state sc2) (join_op\<lparr>so_Type := QUERY, so_Num := -1\<rparr>)"
proof -
  define sc1 where "sc1 = projr (sc_feed sc3 (map sc_cmd_msg [(1, join_op)]))"
  define sc2 where "sc2 = projr (sc_feed sc3 [sc_snap_msg (sc_makeSnapshot sc1)])"
  have "\<not> isl (sc_feed sc3 (map sc_cmd_msg [(1, join_op)]))" by code_simp
  then have 1: "sc_feed sc3 (map sc_cmd_msg [(1, join_op)]) = Inr sc1"
    unfolding sc1_def by (metis not_isl_Inr sum.sel(2))
  have "\<not> isl (sc_feed sc3 [sc_snap_msg (sc_makeSnapshot sc1)])" unfolding sc1_def by code_simp
  then have 2: "sc_feed sc3 [sc_snap_msg (sc_makeSnapshot sc1)] = Inr sc2"
    unfolding sc2_def by (metis not_isl_Inr sum.sel(2))
  have "sc_getValue (sc_state sc1) (join_op\<lparr>so_Type := QUERY, so_Num := -1\<rparr>) \<noteq>
     sc_getValue (sc_state sc2) (join_op\<lparr>so_Type := QUERY, so_Num := -1\<rparr>)"
    unfolding sc2_def sc1_def by code_simp
  with 1 2 show ?thesis by blast
qed

text \<open>
  A Move of a shard that does not exist takes the service down: the operation is not
  checked before it goes into the log, so that every replica that executes it panics.
\<close>

theorem sc_move_panics:
  assumes "history_ok (Configs (sc_state sc))" "\<not> sc_isDuplicateOp (sc_state sc) x"
    "so_Type x = MOVE" "so_Shard x < 0 \<or> int NShards \<le> so_Shard x"
  shows "sc_handleApplyMessage sc (sc_cmd_msg (i, x)) = Inl IndexOutOfRange"
proof -
  have "length (Shards (last (Configs (sc_state sc)))) = NShards"
    using last_valid [OF assms(1)] by (simp add: valid_config_def)
  then have "handleMove (Configs (sc_state sc)) (so_Shard x) (so_GID x) = Inl IndexOutOfRange"
    using assms(4) by (auto simp: handleMove_def makeNextConfig_ok [OF assms(1)] go_update_def)
  with assms(2,3) show ?thesis
    by (simp add: sc_handleApplyMessage_def sc_handleCommandApply_def sc_cmd_msg_def emptyApplyMsg_def
        sc_executeOp_def Let_def)
qed

theorem sc_move_panics_witness:
  "sc_handleApplyMessage sc3 (sc_cmd_msg (1, move_op\<lparr>so_Shard := 10\<rparr>)) = Inl IndexOutOfRange"
proof (rule sc_move_panics)
  show "history_ok (Configs (sc_state sc3))" by code_simp
  show "\<not> sc_isDuplicateOp (sc_state sc3) (move_op\<lparr>so_Shard := 10\<rparr>)" by code_simp
qed (simp_all add: move_op_def NShards_def)

end
