(* ===== verification/SC_Handlers.thy ===== *)
theory SC_Handlers
  imports SC_Server Raft_Cluster
begin

text \<open>
  The RPC handlers of the shard controller (the server side of join.go, leave.go, move.go
  and query.go), section by section, and a controller with all the handlers that are running
  on it. As in kvraft a handler checks that its server leads, registers a channel under
  \<open>sc.mu\<close>, calls \<open>Start\<close> and waits for a message or for its timer; the apply loop sends
  on the channel while it holds \<open>sc.mu\<close>.
\<close>

record joinArgs =
  ja_Servers :: groups
  ja_ClientId :: int
  ja_RequestIndex :: int

record leaveArgs =
  la_GIDs :: "int list"
  la_ClientId :: int
  la_RequestIndex :: int

record moveArgs =
  ma_Shard :: int
  ma_GID :: int
  ma_ClientId :: int
  ma_RequestIndex :: int

record queryArgs =
  qa_Num :: int
  qa_ClientId :: int
  qa_RequestIndex :: int

text \<open>The reply types of Join, Leave and Move are alike.\<close>

record joinReply =
  jr_WrongLeader :: bool
  jr_Err :: errType

record leaveReply =
  lr_WrongLeader :: bool
  lr_Err :: errType

record moveReply =
  mr_WrongLeader :: bool
  mr_Err :: errType

record queryReply =
  qr_WrongLeader :: bool
  qr_Err :: errType
  qr_Config :: config

section \<open>Join\<close>

definition emptyOp :: scOp where
  "emptyOp = \<lparr>so_ServerId = 0, so_OpIndex = 0, so_Type = OtherSCtrl '''', so_Servers = [], so_GIDs = [],
     so_Shard = 0, so_GID = 0, so_Num = 0, so_ClientId = 0, so_RequestIndex = 0\<rparr>"

definition creatJoinOp :: "shardCtrler \<Rightarrow> joinArgs \<Rightarrow> scOp" where
  "creatJoinOp sc args = emptyOp\<lparr>so_ServerId := sc_me sc, so_Type := JOIN, so_Servers := ja_Servers args,
     so_ClientId := ja_ClientId args, so_RequestIndex := ja_RequestIndex args\<rparr>"

definition preJoinStart :: "shardCtrler \<Rightarrow> joinArgs \<Rightarrow> shardCtrler \<times> scOp \<times> scReplyChannel \<times> bool" where
  "preJoinStart sc args =
     (let x = creatJoinOp sc args; (startCh, sc') = sc_createStartCh sc x in (sc', x, startCh, False))"

definition handleJoinResult ::
  "shardCtrler \<Rightarrow> scOp \<Rightarrow> replyMsg \<Rightarrow> joinReply \<Rightarrow> (shardCtrler \<times> joinReply) res" where
  "handleJoinResult sc x m reply =
     res_bind (sc_deleteStartCh sc x) (\<lambda>sc'.
       if rm_Error m = SCErrFiller
       then Inl (LogFatal ''In handleJoinResult(), response error is ErrFiller, which should not be'')
       else let r1 = reply\<lparr>jr_Err := rm_Error m\<rparr> in
            Inr (sc', if jr_Err r1 \<noteq> SCOK then r1\<lparr>jr_WrongLeader := True\<rparr>
                      else r1\<lparr>jr_WrongLeader := False\<rparr>))"

definition joinTimeout :: "shardCtrler \<Rightarrow> scOp \<Rightarrow> joinReply \<Rightarrow> (shardCtrler \<times> joinReply) res" where
  "joinTimeout sc x reply =
     res_bind (sc_deleteStartCh sc x) (\<lambda>sc'.
       Inr (sc', reply\<lparr>jr_Err := SCErrTimeout, jr_WrongLeader := True\<rparr>))"

section \<open>Leave\<close>

definition creatLeaveOp :: "shardCtrler \<Rightarrow> leaveArgs \<Rightarrow> scOp" where
  "creatLeaveOp sc args = emptyOp\<lparr>so_ServerId := sc_me sc, so_Type := LEAVE, so_GIDs := la_GIDs args,
     so_ClientId := la_ClientId args, so_RequestIndex := la_RequestIndex args\<rparr>"

definition preLeaveStart :: "shardCtrler \<Rightarrow> leaveArgs \<Rightarrow> shardCtrler \<times> scOp \<times> scReplyChannel \<times> bool" where
  "preLeaveStart sc args =
     (let x = creatLeaveOp sc args; (startCh, sc') = sc_createStartCh sc x in (sc', x, startCh, False))"

definition handleLeaveResult ::
  "shardCtrler \<Rightarrow> scOp \<Rightarrow> replyMsg \<Rightarrow> leaveReply \<Rightarrow> (shardCtrler \<times> leaveReply) res" where
  "handleLeaveResult sc x m reply =
     res_bind (sc_deleteStartCh sc x) (\<lambda>sc'.
       if rm_Error m = SCErrFiller
       then Inl (LogFatal ''In handleLeaveResult(), response error is ErrFiller, which should not be'')
       else let r1 = reply\<lparr>lr_Err := rm_Error m\<rparr> in
            Inr (sc', if lr_Err r1 \<noteq> SCOK then r1\<lparr>lr_WrongLeader := True\<rparr>
                      else r1\<lparr>lr_WrongLeader := False\<rparr>))"

definition leaveTimeout :: "shardCtrler \<Rightarrow> scOp \<Rightarrow> leaveReply \<Rightarrow> (shardCtrler \<times> leaveReply) res" where
  "leaveTimeout sc x reply =
     res_bind (sc_deleteStartCh sc x) (\<lambda>sc'.
       Inr (sc', reply\<lparr>lr_Err := SCErrTimeout, lr_WrongLeader := True\<rparr>))"

section \<open>Move\<close>

definition creatMoveOp :: "shardCtrler \<Rightarrow> moveArgs \<Rightarrow> scOp" where
  "creatMoveOp sc args = emptyOp\<lparr>so_ServerId := sc_me sc, so_Type := MOVE, so_Shard := ma_Shard args,
     so_GID := ma_GID args, so_ClientId := ma_ClientId args, so_RequestIndex := ma_RequestIndex args\<rparr>"

definition preMoveStart :: "shardCtrler \<Rightarrow> moveArgs \<Rightarrow> shardCtrler \<times> scOp \<times> scReplyChannel \<times> bool" where
  "preMoveStart sc args =
     (let x = creatMoveOp sc args; (startCh, sc') = sc_createStartCh sc x in (sc', x, startCh, False))"

definition handleMoveResult ::
  "shardCtrler \<Rightarrow> scOp \<Rightarrow> replyMsg \<Rightarrow> moveReply \<Rightarrow> (shardCtrler \<times> moveReply) res" where
  "handleMoveResult sc x m reply =
     res_bind (sc_deleteStartCh sc x) (\<lambda>sc'.
       if rm_Error m = SCErrFiller
       then Inl (LogFatal ''In handleMoveResult(), response error is ErrFiller, which should not be'')
       else let r1 = reply\<lparr>mr_Err := rm_Error m\<rparr> in
            Inr (sc', if mr_Err r1 \<noteq> SCOK then r1\<lparr>mr_WrongLeader := True\<rparr>
                      else r1\<lparr>mr_WrongLeader := False\<rparr>))"

definition moveTimeout :: "shardCtrler \<Rightarrow> scOp \<Rightarrow> moveReply \<Rightarrow> (shardCtrler \<times> moveReply) res" where
  "moveTimeout sc x reply =
     res_bind (sc_deleteStartCh sc x) (\<lambda>sc'.
       Inr (sc', reply\<lparr>mr_Err := SCErrTimeout, mr_WrongLeader := True\<rparr>))"

section \<open>Query\<close>

definition createQueryOp :: "shardCtrler \<Rightarrow> queryArgs \<Rightarrow> scOp" where
  "createQueryOp sc args = emptyOp\<lparr>so_ServerId := sc_me sc, so_Type := QUERY, so_Num := qa_Num args,
     so_ClientId := qa_ClientId args, so_RequestIndex := qa_RequestIndex args\<rparr>"

definition preQueryStart :: "shardCtrler \<Rightarrow> queryArgs \<Rightarrow> shardCtrler \<times> scOp \<times> scReplyChannel \<times> bool" where
  "preQueryStart sc args =
     (let x = createQueryOp sc args; (startCh, sc') = sc_createStartCh sc x in (sc', x, startCh, False))"

definition handleQueryResult ::
  "shardCtrler \<Rightarrow> scOp \<Rightarrow> replyMsg \<Rightarrow> queryReply \<Rightarrow> (shardCtrler \<times> queryReply) res" where
  "handleQueryResult sc x m reply =
     res_bind (sc_deleteStartCh sc x) (\<lambda>sc'.
       if rm_Error m = SCErrFiller
       then Inl (LogFatal ''In handleQueryResult(), response error is ErrFiller, which should not be'')
       else let r1 = reply\<lparr>qr_Err := rm_Error m, qr_Config := rm_ReturnConfig m\<rparr> in
            Inr (sc', if qr_Err r1 \<noteq> SCOK then r1\<lparr>qr_WrongLeader := True\<rparr>
                      else r1\<lparr>qr_WrongLeader := False\<rparr>))"

definition queryTimeout :: "shardCtrler \<Rightarrow> scOp \<Rightarrow> queryReply \<Rightarrow> (shardCtrler \<times> queryReply) res" where
  "queryTimeout sc x reply =
     res_bind (sc_deleteStartCh sc x) (\<lambda>sc'.
       Inr (sc', reply\<lparr>qr_Err := SCErrTimeout, qr_WrongLeader := True\<rparr>))"

section \<open>The four handlers as one machine\<close>

datatype sc_request = JoinReq joinArgs | LeaveReq leaveArgs | MoveReq moveArgs | QueryReq queryArgs

datatype sc_answer = JoinRep joinReply | LeaveRep leaveReply | MoveRep moveReply | QueryRep queryReply

fun sc_req_key :: "sc_request \<Rightarrow> int \<times> int" where
  "sc_req_key (JoinReq a) = (ja_ClientId a, ja_RequestIndex a)"
| "sc_req_key (LeaveReq a) = (la_ClientId a, la_RequestIndex a)"
| "sc_req_key (MoveReq a) = (ma_ClientId a, ma_RequestIndex a)"
| "sc_req_key (QueryReq a) = (qa_ClientId a, qa_RequestIndex a)"

text \<open>\<open>reply.Err, reply.WrongLeader = e, true\<close>, on the zero reply of the kind.\<close>

fun wrong_leader :: "errType \<Rightarrow> sc_request \<Rightarrow> sc_answer" where
  "wrong_leader e (JoinReq a) = JoinRep \<lparr>jr_WrongLeader = True, jr_Err = e\<rparr>"
| "wrong_leader e (LeaveReq a) = LeaveRep \<lparr>lr_WrongLeader = True, lr_Err = e\<rparr>"
| "wrong_leader e (MoveReq a) = MoveRep \<lparr>mr_WrongLeader = True, mr_Err = e\<rparr>"
| "wrong_leader e (QueryReq a) = QueryRep \<lparr>qr_WrongLeader = True, qr_Err = e, qr_Config = emptyConfig\<rparr>"

fun sc_answer_err :: "sc_answer \<Rightarrow> errType" where
  "sc_answer_err (JoinRep r) = jr_Err r"
| "sc_answer_err (LeaveRep r) = lr_Err r"
| "sc_answer_err (MoveRep r) = mr_Err r"
| "sc_answer_err (QueryRep r) = qr_Err r"

fun sc_answer_wrong :: "sc_answer \<Rightarrow> bool" where
  "sc_answer_wrong (JoinRep r) = jr_WrongLeader r"
| "sc_answer_wrong (LeaveRep r) = lr_WrongLeader r"
| "sc_answer_wrong (MoveRep r) = mr_WrongLeader r"
| "sc_answer_wrong (QueryRep r) = qr_WrongLeader r"

text \<open>Where a handler is; each stage keeps the request it serves.\<close>

datatype sc_stage =
    ScCalled sc_request
  | ScLeading sc_request
  | ScRegistered sc_request scOp nat
  | ScRefused sc_request scOp
  | ScWaiting sc_request scOp nat
  | ScReceived sc_request scOp replyMsg
  | ScExpired sc_request scOp
  | ScAnswered sc_request sc_answer

definition sc_check :: "shardCtrler \<Rightarrow> sc_request \<Rightarrow> sc_stage" where
  "sc_check sc r =
     (if \<not> snd (GetState (sc_rf sc)) then ScAnswered r (wrong_leader SCErrWrongLeader r)
      else ScLeading r)"

fun sc_register :: "shardCtrler \<Rightarrow> sc_request \<Rightarrow> shardCtrler \<times> sc_stage" where
  "sc_register sc (JoinReq a) =
     (let (sc', x, ch, b) = preJoinStart sc a in (sc', ScRegistered (JoinReq a) x (sc_ReplyChannel ch)))"
| "sc_register sc (LeaveReq a) =
     (let (sc', x, ch, b) = preLeaveStart sc a in (sc', ScRegistered (LeaveReq a) x (sc_ReplyChannel ch)))"
| "sc_register sc (MoveReq a) =
     (let (sc', x, ch, b) = preMoveStart sc a in (sc', ScRegistered (MoveReq a) x (sc_ReplyChannel ch)))"
| "sc_register sc (QueryReq a) =
     (let (sc', x, ch, b) = preQueryStart sc a in (sc', ScRegistered (QueryReq a) x (sc_ReplyChannel ch)))"

definition sc_start :: "shardCtrler \<Rightarrow> sc_request \<Rightarrow> scOp \<Rightarrow> nat \<Rightarrow> shardCtrler \<times> sc_stage" where
  "sc_start sc r x c =
     (let ((index, t, isLdr), rf) = Start (sc_rf sc) (Cmd x) in
      (sc\<lparr>sc_rf := rf\<rparr>, if \<not> isLdr then ScRefused r x else ScWaiting r x c))"

fun sc_result :: "shardCtrler \<Rightarrow> sc_request \<Rightarrow> scOp \<Rightarrow> replyMsg \<Rightarrow> (shardCtrler \<times> sc_answer) res" where
  "sc_result sc (JoinReq a) x m =
     res_bind (handleJoinResult sc x m \<lparr>jr_WrongLeader = True, jr_Err = SCErrOther\<rparr>)
       (\<lambda>(sc', r). Inr (sc', JoinRep r))"
| "sc_result sc (LeaveReq a) x m =
     res_bind (handleLeaveResult sc x m \<lparr>lr_WrongLeader = True, lr_Err = SCErrOther\<rparr>)
       (\<lambda>(sc', r). Inr (sc', LeaveRep r))"
| "sc_result sc (MoveReq a) x m =
     res_bind (handleMoveResult sc x m \<lparr>mr_WrongLeader = True, mr_Err = SCErrOther\<rparr>)
       (\<lambda>(sc', r). Inr (sc', MoveRep r))"
| "sc_result sc (QueryReq a) x m =
     res_bind (handleQueryResult sc x m \<lparr>qr_WrongLeader = True, qr_Err = SCErrOther, qr_Config = emptyConfig\<rparr>)
       (\<lambda>(sc', r). Inr (sc', QueryRep r))"

fun sc_timeout :: "shardCtrler \<Rightarrow> sc_request \<Rightarrow> scOp \<Rightarrow> (shardCtrler \<times> sc_answer) res" where
  "sc_timeout sc (JoinReq a) x =
     res_bind (joinTimeout sc x \<lparr>jr_WrongLeader = True, jr_Err = SCErrOther\<rparr>)
       (\<lambda>(sc', r). Inr (sc', JoinRep r))"
| "sc_timeout sc (LeaveReq a) x =
     res_bind (leaveTimeout sc x \<lparr>lr_WrongLeader = True, lr_Err = SCErrOther\<rparr>)
       (\<lambda>(sc', r). Inr (sc', LeaveRep r))"
| "sc_timeout sc (MoveReq a) x =
     res_bind (moveTimeout sc x \<lparr>mr_WrongLeader = True, mr_Err = SCErrOther\<rparr>)
       (\<lambda>(sc', r). Inr (sc', MoveRep r))"
| "sc_timeout sc (QueryReq a) x =
     res_bind (queryTimeout sc x \<lparr>qr_WrongLeader = True, qr_Err = SCErrOther, qr_Config = emptyConfig\<rparr>)
       (\<lambda>(sc', r). Inr (sc', QueryRep r))"

section \<open>A controller with its handlers\<close>

text \<open>
  \<open>sc_sending\<close> is the apply loop inside \<open>signalStartCh\<close>: the channel it sends on, the
  message, and the server as the section leaves it when the send is done. While it is set,
  the loop holds \<open>sc.mu\<close>. \<open>sc_done\<close> is not state of the program: it is the history of the
  commands that the apply loop has been given, in their order.
\<close>

record sc_sys =
  sc_server :: shardCtrler
  sc_handlers :: "nat \<rightharpoonup> sc_stage"
  sc_sending :: "(nat \<times> replyMsg \<times> shardCtrler) option"
  sc_done :: "scOp list"

text \<open>The command that a message carries, if any.\<close>

definition command_of :: "(scOp, sc_tok) applyMsg \<Rightarrow> scOp list" where
  "command_of m =
     (if \<not> SnapshotValid m \<and> CommandValid m
      then (case Command m of Cmd x \<Rightarrow> [x] | _ \<Rightarrow> []) else [])"

definition sc_zeroMsg :: replyMsg where
  "sc_zeroMsg = \<lparr>rm_Error = SCEmptyErr, rm_Value = '''', rm_ReturnConfig = emptyConfig\<rparr>"

definition sc_set_rf :: "(scOp, sc_tok) raft \<Rightarrow> sc_sys \<Rightarrow> sc_sys" where
  "sc_set_rf rf s = s\<lparr>sc_server := (sc_server s)\<lparr>sc_rf := rf\<rparr>,
     sc_sending := map_option (\<lambda>(d, m, sc). (d, m, sc\<lparr>sc_rf := rf\<rparr>)) (sc_sending s)\<rparr>"

definition sc_goto :: "nat \<Rightarrow> sc_stage \<Rightarrow> sc_sys \<Rightarrow> sc_sys" where
  "sc_goto h st s = s\<lparr>sc_handlers := (sc_handlers s)(h \<mapsto> st)\<rparr>"

inductive sc_step :: "sc_sys \<Rightarrow> sc_sys \<Rightarrow> bool" where
  call: "sc_handlers s h = None \<Longrightarrow> sc_step s (sc_goto h (ScCalled r) s)"
| check: "sc_handlers s h = Some (ScCalled r) \<Longrightarrow> sc_step s (sc_goto h (sc_check (sc_server s) r) s)"
| register: "sc_handlers s h = Some (ScLeading r) \<Longrightarrow> sc_sending s = None \<Longrightarrow>
    sc_register (sc_server s) r = (sc, st) \<Longrightarrow> sc_step s (sc_goto h st (s\<lparr>sc_server := sc\<rparr>))"
| start: "sc_handlers s h = Some (ScRegistered r x c) \<Longrightarrow> sc_start (sc_server s) r x c = (sc, st) \<Longrightarrow>
    sc_step s (sc_goto h st (sc_set_rf (sc_rf sc) s))"
| refused: "sc_handlers s h = Some (ScRefused r x) \<Longrightarrow> sc_sending s = None \<Longrightarrow>
    sc_deleteStartChLocked (sc_server s) x = Inr sc \<Longrightarrow>
    sc_step s (sc_goto h (ScAnswered r (wrong_leader SCErrWrongLeader r)) (s\<lparr>sc_server := sc\<rparr>))"
| expire: "sc_handlers s h = Some (ScWaiting r x c) \<Longrightarrow> sc_step s (sc_goto h (ScExpired r x) s)"
| receive: "sc_handlers s h = Some (ScWaiting r x c) \<Longrightarrow> sc_sending s = Some (c, m, sc) \<Longrightarrow>
    sc_step s (sc_goto h (ScReceived r x m) (s\<lparr>sc_server := sc, sc_sending := None\<rparr>))"
| receive_closed: "sc_handlers s h = Some (ScWaiting r x c) \<Longrightarrow>
    c \<in> set (sc_closedChans (sc_server s)) \<Longrightarrow> sc_step s (sc_goto h (ScReceived r x sc_zeroMsg) s)"
| result: "sc_handlers s h = Some (ScReceived r x m) \<Longrightarrow> sc_sending s = None \<Longrightarrow>
    sc_result (sc_server s) r x m = Inr (sc, a) \<Longrightarrow>
    sc_step s (sc_goto h (ScAnswered r a) (s\<lparr>sc_server := sc\<rparr>))"
| timeout: "sc_handlers s h = Some (ScExpired r x) \<Longrightarrow> sc_sending s = None \<Longrightarrow>
    sc_timeout (sc_server s) r x = Inr (sc, a) \<Longrightarrow>
    sc_step s (sc_goto h (ScAnswered r a) (s\<lparr>sc_server := sc\<rparr>))"
| deliver: "sc_sending s = None \<Longrightarrow> sc_handleApplyMessage (sc_server s) m = Inr (sc, None) \<Longrightarrow>
    sc_step s (s\<lparr>sc_server := sc, sc_done := sc_done s @ command_of m\<rparr>)"
| send: "sc_sending s = None \<Longrightarrow> sc_handleApplyMessage (sc_server s) m = Inr (sc, Some (c, r)) \<Longrightarrow>
    sc_step s (s\<lparr>sc_server := (sc_server s)\<lparr>sc_state := sc_state sc, sc_rf := sc_rf sc\<rparr>,
      sc_sending := Some (c, r, sc), sc_done := sc_done s @ command_of m\<rparr>)"
| raft: "peer_change n i (sc_rf (sc_server s)) rf \<Longrightarrow> sc_step s (sc_set_rf rf s)"

definition sc_init :: "sc_sys \<Rightarrow> bool" where
  "sc_init s \<longleftrightarrow> (\<exists>ev n i. StartServer ev n i MakePersister = Inr (sc_server s)) \<and>
     sc_handlers s = Map.empty \<and> sc_sending s = None \<and> sc_done s = []"

section \<open>What a controller promises to its handlers\<close>

text \<open>The operation that the server \<open>i\<close> starts for a request.\<close>

fun sc_op_of :: "int \<Rightarrow> sc_request \<Rightarrow> scOp" where
  "sc_op_of i (JoinReq a) = emptyOp\<lparr>so_ServerId := i, so_Type := JOIN, so_Servers := ja_Servers a,
     so_ClientId := ja_ClientId a, so_RequestIndex := ja_RequestIndex a\<rparr>"
| "sc_op_of i (LeaveReq a) = emptyOp\<lparr>so_ServerId := i, so_Type := LEAVE, so_GIDs := la_GIDs a,
     so_ClientId := la_ClientId a, so_RequestIndex := la_RequestIndex a\<rparr>"
| "sc_op_of i (MoveReq a) = emptyOp\<lparr>so_ServerId := i, so_Type := MOVE, so_Shard := ma_Shard a,
     so_GID := ma_GID a, so_ClientId := ma_ClientId a, so_RequestIndex := ma_RequestIndex a\<rparr>"
| "sc_op_of i (QueryReq a) = emptyOp\<lparr>so_ServerId := i, so_Type := QUERY, so_Num := qa_Num a,
     so_ClientId := qa_ClientId a, so_RequestIndex := qa_RequestIndex a\<rparr>"

text \<open>
  Two operations that \<open>opChannelMatch\<close> takes for the same: it compares all fields but the
  groups to join and to leave, which Go cannot compare with \<open>!=\<close>.
\<close>

definition same_op :: "scOp \<Rightarrow> scOp \<Rightarrow> bool" where
  "same_op x y \<longleftrightarrow> y\<lparr>so_Servers := so_Servers x, so_GIDs := so_GIDs x\<rparr> = x"

text \<open>
  The message \<open>m\<close> answers an operation like \<open>x\<close>: one stands in the history \<open>ops\<close>, and \<open>m\<close> is
  what executing it there gave.
\<close>

definition served :: "scOp list \<Rightarrow> scOp \<Rightarrow> replyMsg \<Rightarrow> bool" where
  "served ops x m \<longleftrightarrow> (\<exists>us y vs st st'. ops = us @ y # vs \<and> same_op x y \<and>
     res_fold sc_app sc_makeState us = Inr st \<and> sc_executeOp st y = Inr (st', m))"

lemma served_append: "served ops x m \<Longrightarrow> served (ops @ zs) x m"
  unfolding served_def by fastforce

text \<open>The confirmation of a request, with the configuration that a Query asked for.\<close>

fun confirmation :: "sc_request \<Rightarrow> config \<Rightarrow> sc_answer" where
  "confirmation (JoinReq a) cfg = JoinRep \<lparr>jr_WrongLeader = False, jr_Err = SCOK\<rparr>"
| "confirmation (LeaveReq a) cfg = LeaveRep \<lparr>lr_WrongLeader = False, lr_Err = SCOK\<rparr>"
| "confirmation (MoveReq a) cfg = MoveRep \<lparr>mr_WrongLeader = False, mr_Err = SCOK\<rparr>"
| "confirmation (QueryReq a) cfg = QueryRep \<lparr>qr_WrongLeader = False, qr_Err = SCOK, qr_Config = cfg\<rparr>"

lemma confirmation_sel [simp]: "sc_answer_err (confirmation r cfg) = SCOK"
  "\<not> sc_answer_wrong (confirmation r cfg)"
  by (cases r; simp)+

text \<open>The entry of the table of channels for a request.\<close>

definition sc_entry :: "shardCtrler \<Rightarrow> int \<times> int \<Rightarrow> scReplyChannel option" where
  "sc_entry sc k = (case sc_startChannels sc (fst k) of None \<Rightarrow> None | Some m \<Rightarrow> m (snd k))"

lemma sc_chan_at_entry: "sc_chan_at sc k = map_option sc_ReplyChannel (sc_entry sc k)"
  by (simp add: sc_chan_at_def sc_entry_def split: option.splits)

lemma sc_entry_frame: "sc_startChannels sc' = sc_startChannels sc \<Longrightarrow> sc_entry sc' = sc_entry sc"
  by (simp add: sc_entry_def fun_eq_iff)

text \<open>
  How a server may change under a handler that waits: entries get into the table only with
  channels of new numbers.
\<close>

definition evolves :: "shardCtrler \<Rightarrow> shardCtrler \<Rightarrow> bool" where
  "evolves sc sc' \<longleftrightarrow> sc_nextChan sc \<le> sc_nextChan sc' \<and>
     (\<forall>k e. sc_entry sc' k = Some e \<longrightarrow> sc_entry sc k = Some e \<or> sc_nextChan sc \<le> sc_ReplyChannel e)"

lemma evolves_refl [simp]: "evolves sc sc"
  by (simp add: evolves_def)

lemma evolves_trans: "evolves a b \<Longrightarrow> evolves b c \<Longrightarrow> evolves a c"
  unfolding evolves_def by (meson order_trans)

lemma evolves_frame:
  "sc_startChannels sc' = sc_startChannels sc \<Longrightarrow> sc_nextChan sc' = sc_nextChan sc \<Longrightarrow> evolves sc sc'"
  using sc_entry_frame [of sc' sc] by (simp add: evolves_def)

lemma sc_delete_evolves:
  assumes "sc_deleteStartCh sc x = Inr sc'"
  shows "evolves sc sc'" "sc_state sc' = sc_state sc"
  using assms
  by (auto simp: evolves_def sc_deleteStartCh_def sc_entry_def split: option.splits if_splits)

lemma sc_entry_create:
  "sc_entry (snd (sc_createStartCh sc x)) k =
     (if k = so_key x then Some \<lparr>sc_Operation = x, sc_ReplyChannel = sc_nextChan sc\<rparr> else sc_entry sc k)"
  by (cases k) (auto simp: sc_entry_def sc_createStartCh_def so_key_def Let_def split: option.splits)

lemma sc_create_evolves: "evolves sc (snd (sc_createStartCh sc x))"
  by (auto simp: evolves_def sc_entry_create) (simp add: sc_createStartCh_def Let_def)

text \<open>What a stage of a handler may rely on.\<close>

definition holds_chan :: "shardCtrler \<Rightarrow> sc_request \<Rightarrow> scOp \<Rightarrow> nat \<Rightarrow> bool" where
  "holds_chan sc r x c \<longleftrightarrow> x = sc_op_of (so_ServerId x) r \<and> c < sc_nextChan sc \<and>
     (\<forall>k e. sc_entry sc k = Some e \<and> sc_ReplyChannel e = c \<longrightarrow> sc_Operation e = x)"

fun stage_ok :: "shardCtrler \<Rightarrow> scOp list \<Rightarrow> sc_stage \<Rightarrow> bool" where
  "stage_ok sc ops (ScRegistered r x c) \<longleftrightarrow> holds_chan sc r x c"
| "stage_ok sc ops (ScWaiting r x c) \<longleftrightarrow> holds_chan sc r x c"
| "stage_ok sc ops (ScReceived r x m) \<longleftrightarrow> x = sc_op_of (so_ServerId x) r \<and> rm_Error m \<noteq> SCErrFiller \<and>
     (rm_Error m = SCOK \<longrightarrow> served ops x m)"
| "stage_ok sc ops (ScAnswered r a) \<longleftrightarrow>
     (\<not> sc_answer_wrong a \<longrightarrow>
        (\<exists>i m. served ops (sc_op_of i r) m \<and> a = confirmation r (rm_ReturnConfig m)))"
| "stage_ok sc ops st \<longleftrightarrow> True"

lemma holds_chan_evolves: "holds_chan sc r x c \<Longrightarrow> evolves sc sc' \<Longrightarrow> holds_chan sc' r x c"
  by (fastforce simp: holds_chan_def evolves_def)

lemma stage_ok_evolves: "stage_ok sc ops st \<Longrightarrow> evolves sc sc' \<Longrightarrow> stage_ok sc' (ops @ zs) st"
  by (cases st) (auto intro: holds_chan_evolves dest: served_append)

lemma sc_register_spec:
  "sc_register sc r = (sc', st) \<Longrightarrow>
   sc' = snd (sc_createStartCh sc (sc_op_of (sc_me sc) r)) \<and>
   st = ScRegistered r (sc_op_of (sc_me sc) r) (sc_nextChan sc)"
  by (cases r) (auto simp: preJoinStart_def preLeaveStart_def preMoveStart_def preQueryStart_def
      creatJoinOp_def creatLeaveOp_def creatMoveOp_def createQueryOp_def sc_createStartCh_def Let_def)

lemma sc_register_ok:
  assumes "sc_chans_ok sc" "sc_register sc r = (sc', st)"
  shows "sc_chans_ok sc'" "evolves sc sc'" "stage_ok sc' ops st" "sc_state sc' = sc_state sc"
proof -
  let ?x = "sc_op_of (sc_me sc) r"
  note reg = sc_register_spec [OF assms(2)]
  show "sc_chans_ok sc'" "evolves sc sc'"
    using assms(1) sc_table.create_ok [of sc ?x] sc_create_evolves [of sc ?x] reg
    by (simp_all add: sc_chans_ok_def)
  show "sc_state sc' = sc_state sc" using reg by (simp add: sc_createStartCh_def Let_def)
  have "sc_ReplyChannel e \<noteq> sc_nextChan sc" if "sc_entry sc k = Some e" for k e
    using that sc_table.table_okD(1) [OF assms(1) [unfolded sc_chans_ok_def], of k "sc_ReplyChannel e"]
    by (auto simp: sc_chan_at_entry)
  moreover have "?x = sc_op_of (so_ServerId ?x) r" by (cases r) (simp_all add: emptyOp_def)
  ultimately have "holds_chan sc' r ?x (sc_nextChan sc)"
    using reg sc_table.fresh_create [of sc ?x]
    by (auto simp: holds_chan_def sc_entry_create split: if_splits)
  then show "stage_ok sc' ops st" using reg by simp
qed

text \<open>The last section of a handler.\<close>

lemma sc_result_spec:
  assumes "sc_result sc r x m = Inr (sc', a)"
  shows "sc_deleteStartCh sc x = Inr sc'" "sc_answer_wrong a \<longleftrightarrow> rm_Error m \<noteq> SCOK"
    "rm_Error m = SCOK \<Longrightarrow> a = confirmation r (rm_ReturnConfig m)"
  using assms
  by (cases r; auto simp: handleJoinResult_def handleLeaveResult_def handleMoveResult_def
      handleQueryResult_def Let_def split: if_splits)+

lemma sc_result_total:
  "sc_deleteStartCh sc x = Inr sc' \<Longrightarrow> rm_Error m \<noteq> SCErrFiller \<Longrightarrow> \<exists>a. sc_result sc r x m = Inr (sc', a)"
  by (cases r) (auto simp: handleJoinResult_def handleLeaveResult_def handleMoveResult_def
      handleQueryResult_def Let_def)

lemma sc_timeout_spec:
  "sc_timeout sc r x = Inr (sc', a) \<longleftrightarrow>
   sc_deleteStartCh sc x = Inr sc' \<and> a = wrong_leader SCErrTimeout r"
  by (cases r; cases "sc_deleteStartCh sc x")
    (auto simp: joinTimeout_def leaveTimeout_def moveTimeout_def queryTimeout_def)

lemma wrong_leader_wrong [simp]: "sc_answer_wrong (wrong_leader e r)" "sc_answer_err (wrong_leader e r) = e"
  by (cases r; simp)+

section \<open>The apply loop keeps the promise\<close>

lemma sc_executeOp_OK: "sc_executeOp st x = Inr (st', r) \<Longrightarrow> rm_Error r = SCOK"
  by (cases "so_Type x") (auto simp: sc_executeOp_def Let_def split: if_splits)

lemma sc_opChannelMatch_same:
  assumes "sc_opChannelMatch sc x" "sc_getStartCh sc x = Some ch"
  shows "same_op (sc_Operation ch) x"
  using assms by (cases "sc_Operation ch"; cases x)
    (auto simp: sc_opChannelMatch_def same_op_def Let_def split: if_splits)

text \<open>
  The message on its way: the channel is that of an entry of the table, and if it says OK it
  answers the operation of that entry.
\<close>

definition message_ok :: "shardCtrler \<Rightarrow> scOp list \<Rightarrow> nat \<Rightarrow> replyMsg \<Rightarrow> bool" where
  "message_ok sc ops c m \<longleftrightarrow> rm_Error m \<noteq> SCErrFiller \<and>
     (\<exists>k e. sc_entry sc k = Some e \<and> sc_ReplyChannel e = c \<and>
        (rm_Error m = SCOK \<longrightarrow> served ops (sc_Operation e) m))"

lemma message_ok_frame:
  "sc_startChannels sc' = sc_startChannels sc \<Longrightarrow> message_ok sc' ops c m = message_ok sc ops c m"
  by (simp add: message_ok_def sc_entry_frame [of sc' sc])

lemma sc_answerOp_effect:
  assumes "sc_chans_ok sc" "sc_answerOp sc x r = Inr (sc', out)" "rm_Error r = SCOK"
    "\<And>y. same_op y x \<Longrightarrow> served ops y r"
  shows "sc_chans_ok sc' \<and> evolves sc sc' \<and> sc_state sc' = sc_state sc \<and>
    (\<forall>c m. out = Some (c, m) \<longrightarrow> message_ok sc ops c m)"
proof (cases "sc_opChannelMatch sc x \<and> sc_getStartCh sc x \<noteq> None")
  case True
  then obtain ch where ch: "sc_getStartCh sc x = Some ch" by blast
  let ?r = "if \<not> snd (GetState (sc_rf sc)) then r\<lparr>rm_Error := SCErrWrongLeader\<rparr> else r"
  from True assms(2) have "sc_signalStartCh sc x ?r = Inr (sc', out)"
    by (simp add: sc_answerOp_def Let_def)
  with ch have del: "sc_deleteStartCh sc x = Inr sc'" and out: "out = Some (sc_ReplyChannel ch, ?r)"
    by (auto simp: sc_signalStartCh_def split: if_splits)
  have "sc_chans_ok sc'"
    using sc_table.delete_ok(1) [OF _ del] assms(1) by (simp add: sc_chans_ok_def)
  moreover have "sc_entry sc (so_key x) = Some ch"
    using ch by (simp add: sc_entry_def so_key_def sc_getStartCh_def split: option.splits)
  then have "message_ok sc ops (sc_ReplyChannel ch) ?r"
    using assms(3,4) sc_opChannelMatch_same [OF _ ch] True
    unfolding message_ok_def
    by (intro conjI exI [of _ "so_key x"] exI [of _ ch]) (simp_all split: if_splits)
  ultimately show ?thesis
    using sc_delete_evolves [OF del] unfolding out by simp
next
  case False
  with assms(2) have "sc' = sc" "out = None"
    by (auto simp: sc_answerOp_def sc_signalStartCh_def Let_def split: if_splits)
  with assms(1) show ?thesis by simp
qed

lemma sc_apply_effect:
  assumes "sc_chans_ok sc" "sc_handleApplyMessage sc m = Inr (sc', out)"
    "res_fold sc_app sc_makeState ops = Inr (sc_state sc)"
  shows "sc_chans_ok sc' \<and> evolves sc sc' \<and>
    res_fold sc_app sc_makeState (ops @ command_of m) = Inr (sc_state sc') \<and>
    (\<forall>c r. out = Some (c, r) \<longrightarrow> message_ok sc (ops @ command_of m) c r)"
proof (cases "\<not> SnapshotValid m \<and> CommandValid m")
  case False
  with assms show ?thesis by (auto simp: sc_handleApplyMessage_def command_of_def split: if_splits)
next
  case True
  with assms(2) obtain x st r rf where run: "sc_executeOp (sc_state sc) x = Inr (st, r)"
    "sc_answerOp (sc\<lparr>sc_state := st, sc_rf := rf\<rparr>) x r = Inr (sc', out)" "command_of m = [x]"
    by (auto simp: sc_handleApplyMessage_def sc_handleCommandApply_def command_of_def Let_def
        split: iface.splits)
  let ?sc = "sc\<lparr>sc_state := st, sc_rf := rf\<rparr>"
  have ok: "sc_chans_ok ?sc" using assms(1) sc_chans_ok_frame [of ?sc sc] by simp
  have "served (ops @ [x]) y r" if "same_op y x" for y
    using that assms(3) run(1) unfolding served_def by fastforce
  from sc_answerOp_effect [OF ok run(2) sc_executeOp_OK [OF run(1)] this]
  have "sc_chans_ok sc'" "evolves ?sc sc'" "sc_state sc' = st"
    "\<forall>c r. out = Some (c, r) \<longrightarrow> message_ok sc (ops @ [x]) c r"
    by (auto simp: message_ok_frame [of ?sc sc])
  moreover have "evolves sc ?sc" by (rule evolves_frame) simp_all
  moreover have "res_fold sc_app sc_makeState (ops @ [x]) = Inr st"
    using assms(3) run(1) by (simp add: res_fold_append sc_app_def)
  ultimately show ?thesis using run(3) evolves_trans by simp
qed

section \<open>The invariant of a controller and its handlers\<close>

definition sc_sys_ok :: "sc_sys \<Rightarrow> bool" where
  "sc_sys_ok s \<longleftrightarrow> sc_chans_ok (sc_server s) \<and>
     res_fold sc_app sc_makeState (sc_done s) = Inr (sc_state (sc_server s)) \<and>
     (\<forall>h st. sc_handlers s h = Some st \<longrightarrow> stage_ok (sc_server s) (sc_done s) st) \<and>
     (\<forall>c m sc. sc_sending s = Some (c, m, sc) \<longrightarrow> sc_chans_ok sc \<and> evolves (sc_server s) sc \<and>
        sc_state sc = sc_state (sc_server s) \<and> message_ok (sc_server s) (sc_done s) c m)"

lemma sc_sys_okD:
  assumes "sc_sys_ok s"
  shows "sc_chans_ok (sc_server s)"
    "sc_handlers s h = Some st \<Longrightarrow> stage_ok (sc_server s) (sc_done s) st"
    "res_fold sc_app sc_makeState (sc_done s) = Inr (sc_state (sc_server s))"
  using assms by (auto simp: sc_sys_ok_def)

lemmas stage_ok_evolves_same = stage_ok_evolves [where zs = "[]", simplified]

text \<open>A step of one handler on a server that nobody is sending from.\<close>

lemma sc_sys_ok_handler:
  assumes "sc_sys_ok s" "sc_chans_ok sc" "evolves (sc_server s) sc" "stage_ok sc (sc_done s) st"
    "sc_state sc = sc_state (sc_server s)"
  shows "sc_sys_ok (sc_goto h st (s\<lparr>sc_server := sc, sc_sending := None\<rparr>))"
  using assms by (auto simp: sc_sys_ok_def sc_goto_def intro: stage_ok_evolves_same)

lemma sc_sys_ok_goto:
  assumes "sc_sys_ok s" "stage_ok (sc_server s) (sc_done s) st"
  shows "sc_sys_ok (sc_goto h st s)"
  using assms by (auto simp: sc_sys_ok_def sc_goto_def)

lemma sc_sys_ok_set_rf:
  assumes "sc_sys_ok s"
  shows "sc_sys_ok (sc_set_rf rf s)"
proof -
  have frame: "sc_chans_ok (sc\<lparr>sc_rf := rf\<rparr>) = sc_chans_ok sc"
    "sc_entry (sc\<lparr>sc_rf := rf\<rparr>) = sc_entry sc"
    "message_ok (sc\<lparr>sc_rf := rf\<rparr>) ops c m = message_ok sc ops c m" for sc ops c m
    using sc_chans_ok_frame [of "sc\<lparr>sc_rf := rf\<rparr>" sc]
    by (simp_all add: sc_entry_def fun_eq_iff message_ok_def)
  have ev: "evolves (sc\<lparr>sc_rf := rf\<rparr>) (sc'\<lparr>sc_rf := rf\<rparr>) = evolves sc sc'" for sc sc'
    by (simp add: evolves_def frame)
  have "evolves sc (sc\<lparr>sc_rf := rf\<rparr>)" for sc by (rule evolves_frame) simp_all
  note stage_ok_evolves_same [OF _ this]
  with assms show ?thesis
    unfolding sc_sys_ok_def sc_set_rf_def by (auto simp: frame ev simp del: split_paired_Ex)
qed

lemma sending_none: "sc_sending s = None \<Longrightarrow> s\<lparr>sc_server := sc, sc_sending := None\<rparr> = s\<lparr>sc_server := sc\<rparr>"
  by (cases s) simp

interpretation sc_sys: invariant_of sc_init sc_step sc_sys_ok
proof (unfold_locales, goal_cases)
  case (1 s)
  then obtain ev n i where "StartServer ev n i MakePersister = Inr (sc_server s)" and
    h: "sc_handlers s = Map.empty" "sc_sending s = None" "sc_done s = []" by (auto simp: sc_init_def)
  then have "sc_startChannels (sc_server s) = Map.empty" "sc_closedChans (sc_server s) = []"
    "sc_state (sc_server s) = sc_makeState"
    unfolding StartServer_def Make_fresh_persister
    by (auto simp: sc_installSnapshot_def MakePersister_def ReadSnapshot_def dest: sym)
  then have "sc_chans_ok (sc_server s)" "sc_state (sc_server s) = sc_makeState"
    by (simp_all add: sc_chans_ok_def table_ok_def sc_chan_at_def)
  with h show ?case by (simp add: sc_sys_ok_def)
next
  case (2 s t)
  note ok = sc_sys_okD [OF 2(1)]
  have del: "sc_chans_ok sc \<and> evolves (sc_server s) sc \<and> sc_state sc = sc_state (sc_server s)"
    if "sc_deleteStartCh (sc_server s) x = Inr sc" for sc x
    using sc_table.delete_ok(1) [OF _ that] ok(1) sc_delete_evolves [OF that] by (simp add: sc_chans_ok_def)
  from 2(2,1) show ?case
  proof (cases rule: sc_step.cases)
    case (check h r)
    then show ?thesis using 2(1) by (auto simp: sc_check_def intro!: sc_sys_ok_goto)
  next
    case (register h r sc st)
    from sc_register_ok [OF ok(1) register(4)] sc_sys_ok_handler [OF 2(1)] register(1,3) show ?thesis
      by (metis sending_none)
  next
    case (start h r x c sc st)
    have "stage_ok (sc_server (sc_set_rf (sc_rf sc) s)) (sc_done s) st"
      using ok(2) [OF start(2)] start(3)
      by (auto simp: sc_start_def sc_set_rf_def holds_chan_def sc_entry_def Let_def
          split: if_splits prod.splits)
    then have "stage_ok (sc_server (sc_set_rf (sc_rf sc) s)) (sc_done (sc_set_rf (sc_rf sc) s)) st"
      by (simp add: sc_set_rf_def)
    with sc_sys_ok_goto [OF sc_sys_ok_set_rf [OF 2(1)]] start(1) show ?thesis by simp
  next
    case (refused h r x sc)
    with del [of x sc] sc_sys_ok_handler [OF 2(1)] show ?thesis
      by (metis sc_deleteStartChLocked_def sending_none stage_ok.simps(4) wrong_leader_wrong(1))
  next
    case (receive h r x c m sc)
    from 2(1) receive(3) have k: "sc_chans_ok sc" "evolves (sc_server s) sc"
      "sc_state sc = sc_state (sc_server s)" "message_ok (sc_server s) (sc_done s) c m"
      unfolding sc_sys_ok_def by metis+
    with ok(2) [OF receive(2)] have "stage_ok sc (sc_done s) (ScReceived r x m)"
      by (auto simp: message_ok_def holds_chan_def)
    with sc_sys_ok_handler [OF 2(1) k(1,2) _ k(3)] receive(1) show ?thesis by simp
  next
    case (receive_closed h r x c)
    with ok(2) [OF receive_closed(2)] 2(1) show ?thesis
      by (auto simp: sc_zeroMsg_def holds_chan_def intro!: sc_sys_ok_goto)
  next
    case (result h r x m sc a)
    note res = sc_result_spec [OF result(4)]
    from ok(2) [OF result(2)] have x: "x = sc_op_of (so_ServerId x) r"
      and m: "rm_Error m = SCOK \<Longrightarrow> served (sc_done s) (sc_op_of (so_ServerId x) r) m"
      by simp_all
    have "stage_ok sc (sc_done s) (ScAnswered r a)"
      using res(2,3) m by auto
    with del [OF res(1)] sc_sys_ok_handler [OF 2(1)] result(1,3) show ?thesis by (metis sending_none)
  next
    case (timeout h r x sc a)
    with del [of x sc] sc_sys_ok_handler [OF 2(1)] show ?thesis
      by (metis sc_timeout_spec sending_none stage_ok.simps(4) wrong_leader_wrong(1))
  next
    case (deliver m sc)
    from sc_apply_effect [OF ok(1) deliver(3) ok(3)] 2(1) deliver(1,2) show ?thesis
      by (auto simp: sc_sys_ok_def intro: stage_ok_evolves)
  next
    case (send m sc c r)
    let ?sc = "(sc_server s)\<lparr>sc_state := sc_state sc, sc_rf := sc_rf sc\<rparr>"
    note eff = sc_apply_effect [OF ok(1) send(3) ok(3)]
    have at: "sc_entry ?sc = sc_entry (sc_server s)" by (rule sc_entry_frame) simp
    have "evolves (sc_server s) ?sc" "evolves ?sc sc" using eff by (auto simp: evolves_def at)
    moreover have "sc_chans_ok ?sc" using ok(1) sc_chans_ok_frame [of ?sc "sc_server s"] by simp
    ultimately show ?thesis
      using eff ok(2) send(1) message_ok_frame [of ?sc "sc_server s"]
      by (auto simp: sc_sys_ok_def intro: stage_ok_evolves)
  qed (use 2(1) in \<open>auto intro!: sc_sys_ok_goto sc_sys_ok_set_rf\<close>)
qed

section \<open>A request that is served\<close>

definition hw_req :: sc_request where
  "hw_req = JoinReq \<lparr>ja_Servers = [(7, [''a''])], ja_ClientId = 5, ja_RequestIndex = 0\<rparr>"

definition hw_op :: scOp where
  "hw_op = creatJoinOp sc3 \<lparr>ja_Servers = [(7, [''a''])], ja_ClientId = 5, ja_RequestIndex = 0\<rparr>"

definition hw_cand :: "(scOp, sc_tok) raft" where
  "hw_cand = fst (ticker \<lparr>now = 1000000000, rnd = 0\<rparr> (sc_rf sc3))"

definition hw_lead :: "(scOp, sc_tok) raft" where
  "hw_lead = fst (handleRequestVoteReply \<lparr>now = 1000000001, rnd = 0\<rparr> hw_cand
     (Some \<lparr>rvr_Term = 1, rvr_VoteGranted = True\<rparr>))"

definition hw_reg :: shardCtrler where
  "hw_reg = fst (sc_register (sc3\<lparr>sc_rf := hw_lead\<rparr>) hw_req)"

definition hw_wait :: shardCtrler where
  "hw_wait = fst (sc_start hw_reg hw_req hw_op 0)"

definition hw_done :: shardCtrler where
  "hw_done = fst (projr (sc_handleApplyMessage hw_wait (sc_cmd_msg (1, hw_op))))"

definition hw_ok :: replyMsg where
  "hw_ok = \<lparr>rm_Error = SCOK, rm_Value = '''', rm_ReturnConfig = emptyConfig\<rparr>"

definition hw_sys :: "shardCtrler \<Rightarrow> sc_stage option \<Rightarrow> sc_sys" where
  "hw_sys sc st = \<lparr>sc_server = sc, sc_handlers = (case st of None \<Rightarrow> Map.empty | Some x \<Rightarrow> [0 \<mapsto> x]),
     sc_sending = None, sc_done = []\<rparr>"

lemma hw_facts:
  "sc_check (sc3\<lparr>sc_rf := hw_lead\<rparr>) hw_req = ScLeading hw_req"
  "snd (sc_register (sc3\<lparr>sc_rf := hw_lead\<rparr>) hw_req) = ScRegistered hw_req hw_op 0"
  "snd (sc_start hw_reg hw_req hw_op 0) = ScWaiting hw_req hw_op 0"
  "\<not> isl (sc_handleApplyMessage hw_wait (sc_cmd_msg (1, hw_op)))"
  "snd (projr (sc_handleApplyMessage hw_wait (sc_cmd_msg (1, hw_op)))) = Some (0, hw_ok)"
  by code_simp+

lemma hw_goto: "sc_goto 0 st (hw_sys sc st') = hw_sys sc (Some st)"
  by (simp add: sc_goto_def hw_sys_def split: option.splits)

lemma hw_raft: "peer_change 3 0 (sc_rf sc) rf \<Longrightarrow> sc_step (hw_sys sc st) (hw_sys (sc\<lparr>sc_rf := rf\<rparr>) st)"
  using sc_step.raft [of 3 0 "hw_sys sc st" rf] by (simp add: hw_sys_def sc_set_rf_def)

lemma hw_elected: "reach sc_init sc_step (hw_sys (sc3\<lparr>sc_rf := hw_lead\<rparr>) None)"
proof -
  have "\<not> isl (StartServer \<lparr>now = 0, rnd = 0\<rparr> 3 0 MakePersister)" by code_simp
  then have "sc_init (hw_sys sc3 None)"
    using not_isl_Inr unfolding sc_init_def hw_sys_def sc3_def by fastforce
  then have 0: "reach sc_init sc_step (hw_sys sc3 None)" by (rule reach.reach_init)
  have "sc_step (hw_sys sc3 None) (hw_sys (sc3\<lparr>sc_rf := hw_cand\<rparr>) None)"
    unfolding hw_cand_def by (intro hw_raft peer_change.tick)
  from reach.reach_step [OF 0 this]
  have 1: "reach sc_init sc_step (hw_sys (sc3\<lparr>sc_rf := hw_cand\<rparr>) None)" .
  have "sc_step (hw_sys (sc3\<lparr>sc_rf := hw_cand\<rparr>) None) (hw_sys (sc3\<lparr>sc_rf := hw_lead\<rparr>) None)"
    using hw_raft [of "sc3\<lparr>sc_rf := hw_cand\<rparr>" hw_lead None] by (simp add: hw_lead_def peer_change.count)
  with 1 show ?thesis by (rule reach.reach_step)
qed

lemma hw_waiting: "reach sc_init sc_step (hw_sys hw_wait (Some (ScWaiting hw_req hw_op 0)))"
proof -
  let ?sc = "sc3\<lparr>sc_rf := hw_lead\<rparr>"
  have "sc_step (hw_sys ?sc None) (hw_sys ?sc (Some (ScCalled hw_req)))"
    using sc_step.call [of "hw_sys ?sc None" 0 hw_req] by (simp add: hw_goto) (simp add: hw_sys_def)
  from reach.reach_step [OF hw_elected this]
  have 1: "reach sc_init sc_step (hw_sys ?sc (Some (ScCalled hw_req)))" .
  have "sc_step (hw_sys ?sc (Some (ScCalled hw_req))) (hw_sys ?sc (Some (ScLeading hw_req)))"
    using sc_step.check [of "hw_sys ?sc (Some (ScCalled hw_req))" 0 hw_req]
    by (simp add: hw_goto) (simp add: hw_sys_def hw_facts(1))
  from reach.reach_step [OF 1 this] have 2: "reach sc_init sc_step (hw_sys ?sc (Some (ScLeading hw_req)))" .
  have "sc_register ?sc hw_req = (hw_reg, ScRegistered hw_req hw_op 0)"
    using hw_facts(2) unfolding hw_reg_def by (metis prod.collapse)
  then have "sc_step (hw_sys ?sc (Some (ScLeading hw_req))) (hw_sys hw_reg (Some (ScRegistered hw_req hw_op 0)))"
    using sc_step.register [of "hw_sys ?sc (Some (ScLeading hw_req))" 0 hw_req]
    by (simp add: hw_sys_def sc_goto_def)
  from reach.reach_step [OF 2 this]
  have 3: "reach sc_init sc_step (hw_sys hw_reg (Some (ScRegistered hw_req hw_op 0)))" .
  have start: "sc_start hw_reg hw_req hw_op 0 = (hw_wait, ScWaiting hw_req hw_op 0)"
    using hw_facts(3) unfolding hw_wait_def by (metis prod.collapse)
  then obtain rf where rf: "hw_reg\<lparr>sc_rf := rf\<rparr> = hw_wait"
    by (auto simp: sc_start_def Let_def split: prod.splits)
  have "hw_wait = hw_reg\<lparr>sc_rf := sc_rf hw_wait\<rparr>" unfolding rf [symmetric] by simp
  with sc_step.start [of "hw_sys hw_reg (Some (ScRegistered hw_req hw_op 0))" 0 hw_req hw_op 0] start
  have "sc_step (hw_sys hw_reg (Some (ScRegistered hw_req hw_op 0))) (hw_sys hw_wait (Some (ScWaiting hw_req hw_op 0)))"
    by (simp add: hw_sys_def sc_goto_def sc_set_rf_def)
  with 3 show ?thesis by (rule reach.reach_step)
qed

lemma hw_received:
  "reach sc_init sc_step ((hw_sys hw_done (Some (ScReceived hw_req hw_op hw_ok)))\<lparr>sc_done := [hw_op]\<rparr>)"
proof -
  let ?w = "hw_sys hw_wait (Some (ScWaiting hw_req hw_op 0))"
  let ?s = "?w\<lparr>sc_server := hw_wait\<lparr>sc_state := sc_state hw_done, sc_rf := sc_rf hw_done\<rparr>,
    sc_sending := Some (0, hw_ok, hw_done), sc_done := [hw_op]\<rparr>"
  have "sc_handleApplyMessage hw_wait (sc_cmd_msg (1, hw_op)) = Inr (hw_done, Some (0, hw_ok))"
    using not_isl_Inr [OF hw_facts(4)] hw_facts(5) unfolding hw_done_def by (metis prod.collapse)
  moreover have "command_of (sc_cmd_msg (1, hw_op)) = [hw_op]" by code_simp
  ultimately have "sc_step ?w ?s"
    using sc_step.send [of ?w "sc_cmd_msg (1, hw_op)" hw_done 0 hw_ok] by (simp add: hw_sys_def)
  from reach.reach_step [OF hw_waiting this] have 1: "reach sc_init sc_step ?s" .
  have "sc_step ?s ((hw_sys hw_done (Some (ScReceived hw_req hw_op hw_ok)))\<lparr>sc_done := [hw_op]\<rparr>)"
    using sc_step.receive [of ?s 0 hw_req hw_op 0 hw_ok hw_done] by (simp add: hw_sys_def sc_goto_def)
  with 1 show ?thesis by (rule reach.reach_step)
qed

definition hw_final :: shardCtrler where
  "hw_final = fst (projr (sc_result hw_done hw_req hw_op hw_ok))"

lemma hw_answered:
  "reach sc_init sc_step
     ((hw_sys hw_final (Some (ScAnswered hw_req (confirmation hw_req emptyConfig))))\<lparr>sc_done := [hw_op]\<rparr>)"
proof -
  let ?s = "(hw_sys hw_done (Some (ScReceived hw_req hw_op hw_ok)))\<lparr>sc_done := [hw_op]\<rparr>"
  have "\<not> isl (sc_result hw_done hw_req hw_op hw_ok)"
    "snd (projr (sc_result hw_done hw_req hw_op hw_ok)) = confirmation hw_req emptyConfig" by code_simp+
  then have "sc_result hw_done hw_req hw_op hw_ok = Inr (hw_final, confirmation hw_req emptyConfig)"
    unfolding hw_final_def by (metis not_isl_Inr prod.collapse)
  then have "sc_step ?s ((hw_sys hw_final (Some (ScAnswered hw_req (confirmation hw_req emptyConfig))))
      \<lparr>sc_done := [hw_op]\<rparr>)"
    using sc_step.result [of ?s 0 hw_req hw_op hw_ok hw_final "confirmation hw_req emptyConfig"]
    by (simp add: hw_sys_def sc_goto_def)
  with hw_received show ?thesis by (rule reach.reach_step)
qed

section \<open>What it means to carry out an operation\<close>

text \<open>
  From the state \<open>st\<close> to \<open>st'\<close>, with the configuration that a Query gets. If the client has had a
  request with this or a later index executed, nothing changes; otherwise the request is
  recorded and the history of configurations is the one that the handler of the kind makes.
\<close>

definition carried_out :: "scOp \<Rightarrow> scState \<Rightarrow> scState \<Rightarrow> config \<Rightarrow> bool" where
  "carried_out y st st' cfg \<longleftrightarrow>
     (if seen (sc_ClientLastRequest st) (so_ClientId y) (so_RequestIndex y) then st' = st
      else sc_ClientLastRequest st' = (sc_ClientLastRequest st)(so_ClientId y \<mapsto> so_RequestIndex y) \<and>
        (case so_Type y of
           JOIN \<Rightarrow> handleJoin (Configs st) (so_Servers y) = Inr (Configs st')
         | LEAVE \<Rightarrow> handleLeave (Configs st) (so_GIDs y) = Inr (Configs st')
         | MOVE \<Rightarrow> handleMove (Configs st) (so_Shard y) (so_GID y) = Inr (Configs st')
         | QUERY \<Rightarrow> Configs st' = Configs st
         | OtherSCtrl t \<Rightarrow> False)) \<and>
     (so_Type y = QUERY \<longrightarrow>
        cfg = (if 0 \<le> so_Num y \<and> so_Num y < int (length (Configs st))
               then Configs st ! nat (so_Num y) else last (Configs st)))"

lemma sc_getValue_spec:
  "sc_getValue st y = Inr c \<Longrightarrow>
   c = (if 0 \<le> so_Num y \<and> so_Num y < int (length (Configs st))
        then Configs st ! nat (so_Num y) else last (Configs st))"
  by (cases "Configs st") (auto simp: sc_getValue_def go_index_def last_conv_nth split: if_splits)

lemma sc_executeOp_carries_out:
  assumes "sc_executeOp st y = Inr (st', m)"
  shows "carried_out y st st' (rm_ReturnConfig m)"
proof (cases "sc_isDuplicateOp st y")
  case True
  with assms show ?thesis
    by (auto simp: sc_executeOp_def carried_out_def sc_isDuplicateOp_seen Let_def
        split: if_splits dest: sc_getValue_spec)
next
  case False
  with assms show ?thesis
    by (cases "so_Type y") (auto simp: sc_executeOp_def carried_out_def sc_isDuplicateOp_seen Let_def
        dest: sc_getValue_spec)
qed

text \<open>A client's entry in the table of requests comes from an operation in the history.\<close>

lemma seen_from_history:
  "res_fold sc_app sc_makeState us = Inr st \<Longrightarrow> seen (sc_ClientLastRequest st) c i \<Longrightarrow>
   \<exists>z \<in> set us. so_ClientId z = c \<and> i \<le> so_RequestIndex z"
proof (induction us arbitrary: st rule: rev_induct)
  case Nil
  then show ?case by (auto simp: sc_makeState_def seen_def)
next
  case (snoc x us)
  then obtain st1 where st1: "res_fold sc_app sc_makeState us = Inr st1" "sc_app st1 x = Inr st"
    by (auto simp: res_fold_append)
  show ?case
  proof (cases "seen (sc_ClientLastRequest st1) c i")
    case True
    with snoc.IH [OF st1(1)] show ?thesis by auto
  next
    case False
    with sc_machine.app_seen [OF st1(2)] snoc.prems(2)
    have "\<not> seen (sc_ClientLastRequest st1) (so_ClientId x) (so_RequestIndex x)" by auto
    from sc_machine.app_fresh [OF st1(2) this] False snoc.prems(2)
    have "so_ClientId x = c \<and> i \<le> so_RequestIndex x" by (auto simp: seen_def split: if_splits)
    then show ?thesis by simp
  qed
qed

section \<open>Properties\<close>

text \<open>
  C26. A confirmed request was executed. Whatever handlers, timers, the apply loop and Raft
  do, and in whatever order: a handler answers without \<open>WrongLeader\<close> only if an operation of
  its request (the one it started, up to the lists of groups, which the code does not compare)
  stands in the sequence of commands that the state machine was given. The operations before
  it led to a state \<open>st\<close>; there it was carried out: a Join, Leave or Move extended the history of
  configurations as \<open>handleJoin\<close>, \<open>handleLeave\<close> or \<open>handleMove\<close> does, and the answer to a Query has
  the configuration it asked for in \<open>st\<close>. Only if an operation of the same client with the same
  or a later index stands before it did it change nothing. The state of the server is the
  result of the whole sequence. The answer says OK, so that the clerk never meets the one on
  which it exits; and the section that ends a handler never panics or exits.
\<close>

theorem sc_confirmed_executed:
  assumes "reach sc_init sc_step s"
  shows "(sc_handlers s h = Some (ScAnswered r a) \<and> \<not> sc_answer_wrong a \<longrightarrow>
      (\<exists>i us y vs st st' cfg. sc_done s = us @ y # vs \<and> same_op (sc_op_of i r) y \<and>
         res_fold sc_app sc_makeState us = Inr st \<and> sc_app st y = Inr st' \<and>
         carried_out y st st' cfg \<and> a = confirmation r cfg \<and>
         (seen (sc_ClientLastRequest st) (so_ClientId y) (so_RequestIndex y) \<longrightarrow>
            (\<exists>z \<in> set us. so_ClientId z = so_ClientId y \<and> so_RequestIndex y \<le> so_RequestIndex z)))) \<and>
    res_fold sc_app sc_makeState (sc_done s) = Inr (sc_state (sc_server s)) \<and>
    (sc_handlers s h = Some (ScReceived r x m) \<longrightarrow>
      (\<exists>sc' a'. sc_result (sc_server s) r x m = Inr (sc', a'))) \<and>
    (sc_handlers s h = Some (ScExpired r x) \<longrightarrow>
      (\<exists>sc'. sc_timeout (sc_server s) r x = Inr (sc', wrong_leader SCErrTimeout r))) \<and>
    (sc_handlers s h = Some (ScRefused r x) \<longrightarrow> (\<exists>sc'. sc_deleteStartChLocked (sc_server s) x = Inr sc'))"
proof -
  have "sc_sys_ok s" by (rule sc_sys.reach_inv [OF assms])
  note ok = sc_sys_okD [OF this]
  from sc_deleteStartCh_ok [OF ok(1)] obtain sc' where del: "sc_deleteStartCh (sc_server s) x = Inr sc'"
    by metis
  have received: "\<exists>sc' a'. sc_result (sc_server s) r x m = Inr (sc', a')"
    if "sc_handlers s h = Some (ScReceived r x m)"
    using ok(2) [OF that] sc_result_total [OF del] by fastforce
  have answered: "\<exists>i us y vs st st' cfg. sc_done s = us @ y # vs \<and> same_op (sc_op_of i r) y \<and>
      res_fold sc_app sc_makeState us = Inr st \<and> sc_app st y = Inr st' \<and>
      carried_out y st st' cfg \<and> a = confirmation r cfg \<and>
      (seen (sc_ClientLastRequest st) (so_ClientId y) (so_RequestIndex y) \<longrightarrow>
        (\<exists>z \<in> set us. so_ClientId z = so_ClientId y \<and> so_RequestIndex y \<le> so_RequestIndex z))"
    if "sc_handlers s h = Some (ScAnswered r a)" "\<not> sc_answer_wrong a"
  proof -
    from ok(2) [OF that(1)] that(2) obtain i m us y vs st st' where *:
      "sc_done s = us @ y # vs" "same_op (sc_op_of i r) y" "res_fold sc_app sc_makeState us = Inr st"
      "sc_executeOp st y = Inr (st', m)" "a = confirmation r (rm_ReturnConfig m)"
      by (auto simp: served_def)
    then have "sc_app st y = Inr st'" by (simp add: sc_app_def)
    with * show ?thesis
      by (intro exI [of _ i] exI [of _ us] exI [of _ y] exI [of _ vs] exI [of _ st] exI [of _ st']
          exI [of _ "rm_ReturnConfig m"] conjI impI seen_from_history [OF *(3)]
          sc_executeOp_carries_out [OF *(4)]) simp_all
  qed
  from received answered show ?thesis
    using ok(3) del by (simp add: sc_timeout_spec sc_deleteStartChLocked_def)
qed

theorem sc_confirmed_executed_witness:
  "\<exists>st'. carried_out hw_op sc_makeState st' emptyConfig \<and>
     handleJoin [emptyConfig] [(7, [''a''])] = Inr (Configs st')"
proof -
  obtain us y vs st st' cfg where *: "[hw_op] = us @ y # vs" "res_fold sc_app sc_makeState us = Inr st"
    "carried_out y st st' cfg"
    using sc_confirmed_executed [OF hw_answered, of 0 hw_req "confirmation hw_req emptyConfig"]
    by (auto simp: hw_sys_def)
  have y: "us = []" "y = hw_op" using *(1) by (auto simp: Cons_eq_append_conv)
  with *(2) have st: "st = sc_makeState" by simp
  have "so_Type hw_op = JOIN" "so_Servers hw_op = [(7, [''a''])]" "Configs sc_makeState = [emptyConfig]"
    "\<not> seen (sc_ClientLastRequest sc_makeState) (so_ClientId hw_op) (so_RequestIndex hw_op)" by code_simp+
  with *(3) [unfolded y st] show ?thesis by (auto simp: carried_out_def)
qed

end
