(* ===== verification/SC_Clerk.thy ===== *)
theory SC_Clerk
  imports SC_Handlers
begin

text \<open>
  The client of the shard controller (client.go and the client side of join.go, leave.go,
  move.go and query.go). All four calls have the same loop: they try the servers one after
  the other, from the first, round after round, until one answers without \<open>WrongLeader\<close>.
  What an RPC brings back is a parameter: \<open>call k i args\<close> is the outcome of attempt number
  \<open>k\<close>, at server \<open>i\<close>, \<open>None\<close> when the network lost it. The loop is a partial function:
  \<open>None\<close> is a call that never returns.
\<close>

record scClerk =
  sk_servers :: nat
  sk_clerkRandomId :: int
  sk_requestIndex :: int
  sk_lastLeaderServer :: int

text \<open>\<open>rid\<close> is the draw of \<open>nrand\<close>.\<close>

definition sc_MakeClerk :: "nat \<Rightarrow> int \<Rightarrow> scClerk" where
  "sc_MakeClerk servers rid = \<lparr>sk_servers = servers, sk_clerkRandomId = rid, sk_requestIndex = 0,
     sk_lastLeaderServer = 0\<rparr>"

partial_function (option) sc_call_loop ::
  "('r \<Rightarrow> bool) \<Rightarrow> ('r \<Rightarrow> errType) \<Rightarrow> (nat \<Rightarrow> nat \<Rightarrow> 'r option) \<Rightarrow> nat \<Rightarrow> nat \<Rightarrow> nat \<Rightarrow> 'r res option" where
  "sc_call_loop wrong err call n k i =
     (if i < n
      then (case call k i of
              None \<Rightarrow> sc_call_loop wrong err call n (Suc k) (Suc i)
            | Some reply \<Rightarrow>
                if \<not> wrong reply
                then if err reply \<noteq> SCOK
                     then Some (Inl (LogFatal ''In client request side, wrong leader is true but err is not wrong leader bug.''))
                     else Some (Inr reply)
                else sc_call_loop wrong err call n (Suc k) (Suc i))
      else sc_call_loop wrong err call n k 0)"

definition next_index :: "scClerk \<Rightarrow> scClerk" where
  "next_index ck = ck\<lparr>sk_requestIndex := sk_requestIndex ck + 1\<rparr>"

definition ClerkJoin ::
  "(nat \<Rightarrow> nat \<Rightarrow> joinArgs \<Rightarrow> joinReply option) \<Rightarrow> scClerk \<Rightarrow> groups \<Rightarrow> scClerk res option" where
  "ClerkJoin call ck servers =
     (let args = \<lparr>ja_Servers = servers, ja_ClientId = sk_clerkRandomId ck, ja_RequestIndex = sk_requestIndex ck\<rparr>
      in map_option (\<lambda>r. res_bind r (\<lambda>reply. Inr (next_index ck)))
           (sc_call_loop jr_WrongLeader jr_Err (\<lambda>k i. call k i args) (sk_servers ck) 0 0))"

definition ClerkLeave ::
  "(nat \<Rightarrow> nat \<Rightarrow> leaveArgs \<Rightarrow> leaveReply option) \<Rightarrow> scClerk \<Rightarrow> int list \<Rightarrow> scClerk res option" where
  "ClerkLeave call ck gs =
     (let args = \<lparr>la_GIDs = gs, la_ClientId = sk_clerkRandomId ck, la_RequestIndex = sk_requestIndex ck\<rparr>
      in map_option (\<lambda>r. res_bind r (\<lambda>reply. Inr (next_index ck)))
           (sc_call_loop lr_WrongLeader lr_Err (\<lambda>k i. call k i args) (sk_servers ck) 0 0))"

definition ClerkMove ::
  "(nat \<Rightarrow> nat \<Rightarrow> moveArgs \<Rightarrow> moveReply option) \<Rightarrow> scClerk \<Rightarrow> int \<Rightarrow> int \<Rightarrow> scClerk res option" where
  "ClerkMove call ck shard gid =
     (let args = \<lparr>ma_Shard = shard, ma_GID = gid, ma_ClientId = sk_clerkRandomId ck,
                  ma_RequestIndex = sk_requestIndex ck\<rparr>
      in map_option (\<lambda>r. res_bind r (\<lambda>reply. Inr (next_index ck)))
           (sc_call_loop mr_WrongLeader mr_Err (\<lambda>k i. call k i args) (sk_servers ck) 0 0))"

definition ClerkQuery ::
  "(nat \<Rightarrow> nat \<Rightarrow> queryArgs \<Rightarrow> queryReply option) \<Rightarrow> scClerk \<Rightarrow> int \<Rightarrow> (config \<times> scClerk) res option" where
  "ClerkQuery call ck num =
     (let args = \<lparr>qa_Num = num, qa_ClientId = sk_clerkRandomId ck, qa_RequestIndex = sk_requestIndex ck\<rparr>
      in map_option (\<lambda>r. res_bind r (\<lambda>reply. Inr (qr_Config reply, next_index ck)))
           (sc_call_loop qr_WrongLeader qr_Err (\<lambda>k i. call k i args) (sk_servers ck) 0 0))"

section \<open>The loop returns\<close>

text \<open>The server whose turn it is, and the place in the range after it.\<close>

definition turn :: "nat \<Rightarrow> nat \<Rightarrow> nat" where
  "turn n i = (if i < n then i else 0)"

definition after_turn :: "nat \<Rightarrow> nat \<Rightarrow> nat" where
  "after_turn n i = Suc (turn n i)"

definition sc_final ::
  "('r \<Rightarrow> bool) \<Rightarrow> ('r \<Rightarrow> errType) \<Rightarrow> (nat \<Rightarrow> nat \<Rightarrow> 'r option) \<Rightarrow> nat \<Rightarrow> nat \<Rightarrow> nat \<Rightarrow> 'r res option" where
  "sc_final wrong err call n k i =
     (case call k (turn n i) of
        None \<Rightarrow> None
      | Some reply \<Rightarrow>
          if \<not> wrong reply
          then Some (if err reply \<noteq> SCOK
                     then Inl (LogFatal ''In client request side, wrong leader is true but err is not wrong leader bug.'')
                     else Inr reply)
          else None)"

lemma sc_call_loop_wrap: "sc_call_loop wrong err call n k i = sc_call_loop wrong err call n k (turn n i)"
proof (cases "i < n")
  case False
  then show ?thesis by (subst sc_call_loop.simps) (simp add: turn_def)
qed (simp add: turn_def)

lemma sc_call_loop_step:
  "sc_call_loop wrong err call (Suc n) k i =
     (case sc_final wrong err call (Suc n) k i of
        Some r \<Rightarrow> Some r
      | None \<Rightarrow> sc_call_loop wrong err call (Suc n) (Suc k) (after_turn (Suc n) i))"
  by (subst sc_call_loop_wrap, subst sc_call_loop.simps)
    (auto simp: sc_final_def after_turn_def turn_def split: option.splits)

interpretation sc_retry: retry_loop "sc_call_loop wrong err call (Suc n)"
  "sc_final wrong err call (Suc n)" "after_turn (Suc n)" for wrong err call n
  by unfold_locales (subst sc_call_loop_step, simp)+

lemma turns: "0 < n \<Longrightarrow> turn n ((after_turn n ^^ j) 0) = j mod n"
proof (induction j)
  case (Suc j)
  then have "turn n ((after_turn n ^^ Suc j) 0) = turn n (Suc (j mod n))"
    by (simp add: after_turn_def [of n "(after_turn n ^^ j) 0"])
  also have "\<dots> = Suc j mod n"
  proof (cases "Suc (j mod n) = n")
    case False
    with Suc.prems have "Suc (j mod n) < n" by (simp add: Suc_lessI)
    then show ?thesis by (simp add: turn_def mod_Suc)
  qed (simp add: turn_def mod_Suc)
  finally show ?case .
qed (simp add: turn_def)

lemma sc_call_returns:
  assumes "j < n" "\<And>k. m \<le> k \<Longrightarrow> \<exists>r. call k j = Some r \<and> \<not> wrong r \<and> err r = SCOK"
    "\<And>k i r. call k i = Some r \<Longrightarrow> \<not> wrong r \<Longrightarrow> err r = SCOK"
  obtains k i r where "k < m + n" "call k i = Some r" "\<not> wrong r" "err r = SCOK"
    "sc_call_loop wrong err call n 0 0 = Some (Inr r)"
proof -
  from assms(1) obtain n' where n: "n = Suc n'" by (cases n) auto
  from round_robin_covers [of n j m] assms(1) obtain i where i: "i < n" "(m + i) mod n = j" by auto
  have at: "turn n ((after_turn n ^^ k) 0) = k mod n" for k using turns assms(1) by simp
  have "\<exists>k < m + n. sc_final wrong err call n k ((after_turn n ^^ k) 0) \<noteq> None"
    using assms(2) [of "m + i"] i at [of "m + i"]
    by (intro exI [of _ "m + i"]) (auto simp: sc_final_def)
  from sc_retry.loop_returns_start [OF this [unfolded n]] obtain k r where k: "k < m + n"
    "sc_final wrong err call n k ((after_turn n ^^ k) 0) = Some r"
    "sc_call_loop wrong err call n 0 0 = Some r" unfolding n by metis
  from k(2) obtain reply where "call k (k mod n) = Some reply" "\<not> wrong reply"
    "r = (if err reply \<noteq> SCOK then Inl (LogFatal ''In client request side, wrong leader is true but err is not wrong leader bug.'') else Inr reply)"
    unfolding sc_final_def at by (auto split: option.splits if_splits)
  with assms(3) [of k "k mod n" reply] k(1,3) that show ?thesis by auto
qed

section \<open>Properties\<close>

text \<open>
  A call of the controller comes back. If from some attempt on one of the servers
  answers, and no server answers without \<open>WrongLeader\<close> other than with OK, which is what the
  handlers guarantee, Query and Join return after at most one more round over the servers:
  Query with the configuration of an OK answer to this very request, Join on an OK answer to
  this very request. The next call uses the next request index.
\<close>

theorem sc_clerk_returns:
  fixes num :: int and servers :: groups and ck :: scClerk
  defines "q \<equiv> \<lparr>qa_Num = num, qa_ClientId = sk_clerkRandomId ck, qa_RequestIndex = sk_requestIndex ck\<rparr>"
    and "ja \<equiv> \<lparr>ja_Servers = servers, ja_ClientId = sk_clerkRandomId ck, ja_RequestIndex = sk_requestIndex ck\<rparr>"
  assumes "j < sk_servers ck"
    "\<And>k. m \<le> k \<Longrightarrow> \<exists>r. query k j q = Some r \<and> \<not> qr_WrongLeader r \<and> qr_Err r = SCOK"
    "\<And>k i r. query k i q = Some r \<Longrightarrow> \<not> qr_WrongLeader r \<Longrightarrow> qr_Err r = SCOK"
    "\<And>k. m \<le> k \<Longrightarrow> \<exists>r. join k j ja = Some r \<and> \<not> jr_WrongLeader r \<and> jr_Err r = SCOK"
    "\<And>k i r. join k i ja = Some r \<Longrightarrow> \<not> jr_WrongLeader r \<Longrightarrow> jr_Err r = SCOK"
  shows "(\<exists>k i r. k < m + sk_servers ck \<and> query k i q = Some r \<and> qr_Err r = SCOK \<and>
      ClerkQuery query ck num =
        Some (Inr (qr_Config r, ck\<lparr>sk_requestIndex := sk_requestIndex ck + 1\<rparr>))) \<and>
    (\<exists>k i r. k < m + sk_servers ck \<and> join k i ja = Some r \<and> jr_Err r = SCOK \<and>
      ClerkJoin join ck servers = Some (Inr (ck\<lparr>sk_requestIndex := sk_requestIndex ck + 1\<rparr>)))"
proof -
  obtain k i r where 1: "k < m + sk_servers ck" "query k i q = Some r" "qr_Err r = SCOK"
    "sc_call_loop qr_WrongLeader qr_Err (\<lambda>k i. query k i q) (sk_servers ck) 0 0 = Some (Inr r)"
    by (rule sc_call_returns [of j "sk_servers ck" m "\<lambda>k i. query k i q" qr_WrongLeader qr_Err])
      (use assms(3-5) in blast)+
  obtain k' i' r' where 2: "k' < m + sk_servers ck" "join k' i' ja = Some r'" "jr_Err r' = SCOK"
    "sc_call_loop jr_WrongLeader jr_Err (\<lambda>k i. join k i ja) (sk_servers ck) 0 0 = Some (Inr r')"
    by (rule sc_call_returns [of j "sk_servers ck" m "\<lambda>k i. join k i ja" jr_WrongLeader jr_Err])
      (use assms(3,6,7) in blast)+
  have "ClerkQuery query ck num = Some (Inr (qr_Config r, ck\<lparr>sk_requestIndex := sk_requestIndex ck + 1\<rparr>))"
    "ClerkJoin join ck servers = Some (Inr (ck\<lparr>sk_requestIndex := sk_requestIndex ck + 1\<rparr>))"
    using 1(4) 2(4) unfolding q_def ja_def
    by (simp_all add: ClerkQuery_def ClerkJoin_def next_index_def)
  with 1 2 show ?thesis by blast
qed

text \<open>Three servers of which the third leads and answers.\<close>

definition query_third :: "nat \<Rightarrow> nat \<Rightarrow> queryArgs \<Rightarrow> queryReply option" where
  "query_third k i args = Some \<lparr>qr_WrongLeader = (i \<noteq> 2), qr_Err = (if i = 2 then SCOK else SCErrWrongLeader),
     qr_Config = emptyConfig\<rparr>"

definition join_third :: "nat \<Rightarrow> nat \<Rightarrow> joinArgs \<Rightarrow> joinReply option" where
  "join_third k i args =
     (if k = 0 then None
      else Some \<lparr>jr_WrongLeader = (i \<noteq> 2), jr_Err = (if i = 2 then SCOK else SCErrWrongLeader)\<rparr>)"

theorem sc_clerk_returns_witness:
  "\<exists>r. ClerkQuery query_third (sc_MakeClerk 3 99) 4 = Some (Inr (r, (sc_MakeClerk 3 99)\<lparr>sk_requestIndex := 1\<rparr>)) \<and>
     ClerkJoin join_third (sc_MakeClerk 3 99) [] = Some (Inr ((sc_MakeClerk 3 99)\<lparr>sk_requestIndex := 1\<rparr>))"
proof -
  let ?ck = "sc_MakeClerk 3 99"
  have "(\<exists>k i r. k < 1 + sk_servers ?ck \<and> query_third k i \<lparr>qa_Num = 4, qa_ClientId = sk_clerkRandomId ?ck,
        qa_RequestIndex = sk_requestIndex ?ck\<rparr> = Some r \<and> qr_Err r = SCOK \<and>
      ClerkQuery query_third ?ck 4 = Some (Inr (qr_Config r, ?ck\<lparr>sk_requestIndex := sk_requestIndex ?ck + 1\<rparr>))) \<and>
    (\<exists>k i r. k < 1 + sk_servers ?ck \<and> join_third k i \<lparr>ja_Servers = [], ja_ClientId = sk_clerkRandomId ?ck,
        ja_RequestIndex = sk_requestIndex ?ck\<rparr> = Some r \<and> jr_Err r = SCOK \<and>
      ClerkJoin join_third ?ck [] = Some (Inr (?ck\<lparr>sk_requestIndex := sk_requestIndex ?ck + 1\<rparr>)))"
    by (rule sc_clerk_returns [where j = 2])
      (auto simp: sc_MakeClerk_def query_third_def join_third_def split: if_splits)
  moreover have "sk_requestIndex ?ck + 1 = 1" by (simp add: sc_MakeClerk_def)
  ultimately show ?thesis by metis
qed

end
