(* ===== verification/SKV_State.thy ===== *)
theory SKV_State
  imports SC_Config
begin

text \<open>
  The sharded key/value service: its data and state machine (shardkv/common.go, util.go,
  snapshot.go, applyTicker.go). A group serves the shards that the latest configuration
  assigns to it, once it has their data; configurations and data of shards come through the
  log, like the requests of clients. Names that kvraft or shardctrler use too carry the
  prefix \<open>skv\<close>. Channels are numbers, as in the model of kvraft.
\<close>

datatype skvErr = SkEmpty | SkOK | SkErrNoKey | SkErrWrongGroup | SkErrWrongLeader | SkErrNoConfig
  | SkErrUnmatchedConfig | SkErrNotUpToDate | SkErrOther | SkErrTimeout | SkErrFiller

datatype acquireShardErr = ASEmpty | ASOK | ASAhead | ASBehind | ASWrongLeader | ASFiller

datatype skvOpType = SkGET | SkAPPEND | SkPUT | InstallShardConfig | AcquireShard | SkOther string

type_synonym kvstore = "string \<rightharpoonup> string"

text \<open>\<open>ShardData\<close> and \<open>ClientLastRequest\<close> of an operation are nil unless it is AcquireShard.\<close>

record skvOp =
  sk_ServerId :: int
  sk_OpIndex :: int
  sk_ClientId :: int
  sk_RequestIndex :: int
  sk_Type :: skvOpType
  sk_NeedSendBackCh :: bool
  sk_Key :: string
  sk_Value :: string
  sk_ShardConfig :: config
  sk_ShardId :: int
  sk_ShardConfigNum :: int
  sk_ShardData :: kvstore
  sk_ClientLast :: "(int \<times> int) list"

record skvState =
  AllConfigs :: "config list"
  LatestConfig :: config
  ShardKVStore :: "int \<rightharpoonup> kvstore"
  ShardTimestamp :: "int \<rightharpoonup> int"
  skv_ClientLastRequest :: "int \<rightharpoonup> int"

record skvReplyMsg =
  sm_Error :: skvErr
  sm_Value :: string

definition zeroConfig :: config where
  "zeroConfig = \<lparr>Num = 0, Shards = replicate NShards 0, Groups = []\<rparr>"

definition skv_makeState :: skvState where
  "skv_makeState = \<lparr>AllConfigs = [zeroConfig], LatestConfig = zeroConfig, ShardKVStore = Map.empty,
     ShardTimestamp = Map.empty, skv_ClientLastRequest = Map.empty\<rparr>"

section \<open>Helpers\<close>

definition key2shard :: "string \<Rightarrow> int" where
  "key2shard key = (if length key > 0 then of_char (key ! 0) else 0) mod int NShards"

text \<open>
  Cloning copies every entry of a map; in the model, where maps are values, it is the
  identity. A nil map of a missing shard is cloned to an empty one.
\<close>

definition skv_clone :: "kvstore \<Rightarrow> kvstore" where
  "skv_clone m = (\<lambda>k. case m k of None \<Rightarrow> None | Some v \<Rightarrow> Some v)"

definition skv_isDuplicateOp :: "skvState \<Rightarrow> skvOp \<Rightarrow> bool" where
  "skv_isDuplicateOp st x =
     (case skv_ClientLastRequest st (sk_ClientId x) of
        Some lastRequestIndex \<Rightarrow> if sk_RequestIndex x \<le> lastRequestIndex then True else False
      | None \<Rightarrow> False)"

definition getValueWithKey :: "skvState \<Rightarrow> string \<Rightarrow> string option" where
  "getValueWithKey st key =
     (case ShardKVStore st (key2shard key) of None \<Rightarrow> None | Some s \<Rightarrow> s key)"

definition skv_getValue :: "skvState \<Rightarrow> skvOp \<Rightarrow> (string \<times> skvErr) res" where
  "skv_getValue st x =
     (if sk_Type x \<noteq> SkGET then Inl (LogFatal ''In geValue(), op type not GET'')
      else case getValueWithKey st (sk_Key x) of
             Some val \<Rightarrow> Inr (val, SkOK)
           | None \<Rightarrow> Inr ('''', SkErrNoKey))"

definition setKeyValue :: "skvState \<Rightarrow> string \<Rightarrow> string \<Rightarrow> skvState" where
  "setKeyValue st key val =
     (let sid = key2shard key;
          s = (case ShardKVStore st sid of None \<Rightarrow> Map.empty | Some s \<Rightarrow> s)
      in st\<lparr>ShardKVStore := (ShardKVStore st)(sid \<mapsto> s(key \<mapsto> val))\<rparr>)"

text \<open>\<open>gid\<close> is the group of the server.\<close>

definition containShard :: "int \<Rightarrow> skvState \<Rightarrow> string \<Rightarrow> bool res" where
  "containShard gid st key =
     (if Num (LatestConfig st) = 0 then Inl (LogFatal ''Haven't receive config yet'')
      else res_bind (go_index (Shards (LatestConfig st)) (key2shard key)) (\<lambda>g.
             if g = gid then Inr True else Inr False))"

definition curShardUpToDate :: "int \<Rightarrow> skvState \<Rightarrow> int \<Rightarrow> bool res" where
  "curShardUpToDate gid st sid =
     res_bind (go_index (Shards (LatestConfig st)) sid) (\<lambda>g.
       if g \<noteq> gid then Inl (LogFatal ''In curShardUpToDate(), not for this group'')
       else Inr (go_get (ShardTimestamp st) sid \<ge> Num (LatestConfig st)))"

fun lagging_loop :: "int \<Rightarrow> skvState \<Rightarrow> (nat \<times> int) list \<Rightarrow> int list res" where
  "lagging_loop gid st [] = Inr []"
| "lagging_loop gid st ((sid, curGid) # rest) =
     (if curGid = gid
      then res_bind (curShardUpToDate gid st (int sid)) (\<lambda>ok.
           res_bind (lagging_loop gid st rest) (\<lambda>l. Inr (if \<not> ok then int sid # l else l)))
      else lagging_loop gid st rest)"

definition allShardsUpToDate :: "int \<Rightarrow> skvState \<Rightarrow> (int list \<times> bool) res" where
  "allShardsUpToDate gid st =
     res_bind (lagging_loop gid st (enumerate 0 (Shards (LatestConfig st)))) (\<lambda>l. Inr (l, l = []))"

section \<open>The operations of the log\<close>

text \<open>The first configuration gives every shard an empty store.\<close>

fun first_config_loop :: "int \<Rightarrow> int \<Rightarrow> (nat \<times> int) list \<Rightarrow> skvState \<Rightarrow> skvState" where
  "first_config_loop gid num [] st = st"
| "first_config_loop gid num ((i, curGId) # rest) st =
     first_config_loop gid num rest
       (st\<lparr>ShardTimestamp := (ShardTimestamp st)(int i \<mapsto> if curGId = gid then num else 0),
          ShardKVStore := (ShardKVStore st)(int i \<mapsto> Map.empty)\<rparr>)"

fun keep_loop :: "int \<Rightarrow> int \<Rightarrow> int list \<Rightarrow> (nat \<times> int) list \<Rightarrow> skvState \<Rightarrow> skvState res" where
  "keep_loop gid num old [] st = Inr st"
| "keep_loop gid num old ((i, curGId) # rest) st =
     (if curGId = gid
      then res_bind (go_index old (int i)) (\<lambda>g.
             keep_loop gid num old rest
               (if g = gid then st\<lparr>ShardTimestamp := (ShardTimestamp st)(int i \<mapsto> num)\<rparr> else st))
      else keep_loop gid num old rest st)"

definition handleInstallShardConfig :: "int \<Rightarrow> skvState \<Rightarrow> skvOp \<Rightarrow> skvState res" where
  "handleInstallShardConfig gid st x =
     (let newConfig = sk_ShardConfig x in
      if Num newConfig \<noteq> Num (LatestConfig st) + 1 then Inr st
      else
        let oldConfig = LatestConfig st;
            st1 = st\<lparr>LatestConfig := newConfig, AllConfigs := AllConfigs st @ [newConfig]\<rparr>
        in if Num (LatestConfig st1) = 1
           then Inr (first_config_loop gid (Num newConfig) (enumerate 0 (Shards newConfig)) st1)
           else keep_loop gid (Num newConfig) (Shards oldConfig) (enumerate 0 (Shards newConfig)) st1)"

fun merge_requests :: "(int \<times> int) list \<Rightarrow> (int \<rightharpoonup> int) \<Rightarrow> (int \<rightharpoonup> int)" where
  "merge_requests [] m = m"
| "merge_requests ((c, i) # rest) m =
     merge_requests rest (if go_get m c < i then m(c \<mapsto> i) else m)"

definition handleAcquireShard :: "skvState \<Rightarrow> skvOp \<Rightarrow> skvState" where
  "handleAcquireShard st x =
     (let st1 = (if sk_ShardConfigNum x > go_get (ShardTimestamp st) (sk_ShardId x)
                 then st\<lparr>ShardTimestamp := (ShardTimestamp st)(sk_ShardId x \<mapsto> sk_ShardConfigNum x),
                        ShardKVStore := (ShardKVStore st)(sk_ShardId x \<mapsto> skv_clone (sk_ShardData x))\<rparr>
                 else st)
      in st1\<lparr>skv_ClientLastRequest := merge_requests (sk_ClientLast x) (skv_ClientLastRequest st1)\<rparr>)"

text \<open>A request of a client that this group may serve.\<close>

definition serve_request :: "skvState \<Rightarrow> skvOp \<Rightarrow> (skvState \<times> skvReplyMsg) res" where
  "serve_request st x =
     (let reply = \<lparr>sm_Error = SkErrFiller, sm_Value = ''''\<rparr> in
      if skv_isDuplicateOp st x
      then if sk_Type x = SkGET
           then res_bind (skv_getValue st x) (\<lambda>(v, e). Inr (st, \<lparr>sm_Error = e, sm_Value = v\<rparr>))
           else Inr (st, reply\<lparr>sm_Error := SkOK\<rparr>)
      else
        let st1 = st\<lparr>skv_ClientLastRequest :=
                       (skv_ClientLastRequest st)(sk_ClientId x \<mapsto> sk_RequestIndex x)\<rparr>;
            put = (\<lambda>v. let st2 = setKeyValue st1 (sk_Key x) v in
                       if (case getValueWithKey st2 (sk_Key x) of None \<Rightarrow> '''' | Some w \<Rightarrow> w) \<noteq> v
                       then Inl (LogFatal ''In apply ticker, set value does not work!'')
                       else Inr (st2, reply\<lparr>sm_Error := SkOK\<rparr>))
        in case sk_Type x of
             SkGET \<Rightarrow> res_bind (skv_getValue st1 x) (\<lambda>(v, e). Inr (st1, \<lparr>sm_Error = e, sm_Value = v\<rparr>))
           | SkPUT \<Rightarrow> put (sk_Value x)
           | SkAPPEND \<Rightarrow> (case getValueWithKey st1 (sk_Key x) of
                            Some val \<Rightarrow> put (val @ sk_Value x)
                          | None \<Rightarrow> put (sk_Value x))
           | _ \<Rightarrow> Inl (LogFatal ''In handleCommandApply(), op.Type not in [GET, PUT, APPEND]''))"

text \<open>The operation and its reply, the first part of \<open>handleCommandApply\<close>.\<close>

definition skv_executeOp :: "int \<Rightarrow> skvState \<Rightarrow> skvOp \<Rightarrow> (skvState \<times> skvReplyMsg) res" where
  "skv_executeOp gid st x =
     (let reply = \<lparr>sm_Error = SkErrFiller, sm_Value = ''''\<rparr> in
      if \<not> sk_NeedSendBackCh x
      then if sk_Type x = InstallShardConfig
           then res_bind (handleInstallShardConfig gid st x) (\<lambda>st'. Inr (st', reply))
           else if sk_Type x = AcquireShard then Inr (handleAcquireShard st x, reply)
           else Inl (LogFatal ''In handleCommandApply(), op.Type not in [InstallShardConfig, AcquireShard]'')
      else
        res_bind (go_index (Shards (LatestConfig st)) (key2shard (sk_Key x))) (\<lambda>targetGroup.
        if gid \<noteq> targetGroup then Inr (st, reply\<lparr>sm_Error := SkErrWrongGroup\<rparr>)
        else res_bind (allShardsUpToDate gid st) (\<lambda>(l, ok).
          if \<not> ok then Inr (st, reply\<lparr>sm_Error := SkErrNotUpToDate\<rparr>) else serve_request st x)))"

section \<open>Which shards are missing\<close>

text \<open>The shards of the group whose data is older than the latest configuration.\<close>

definition lagging :: "int \<Rightarrow> skvState \<Rightarrow> int list" where
  "lagging gid st = map int (filter (\<lambda>i. Shards (LatestConfig st) ! i = gid \<and>
     go_get (ShardTimestamp st) (int i) < Num (LatestConfig st)) [0..<length (Shards (LatestConfig st))])"

lemma lagging_loop_ok:
  assumes "\<And>i g. (i, g) \<in> set ps \<Longrightarrow> i < length (Shards (LatestConfig st)) \<and> Shards (LatestConfig st) ! i = g"
  shows "lagging_loop gid st ps = Inr (map (int \<circ> fst) (filter (\<lambda>(i, g). g = gid \<and>
    go_get (ShardTimestamp st) (int i) < Num (LatestConfig st)) ps))"
  using assms
proof (induction ps)
  case (Cons p ps)
  obtain i g where p: "p = (i, g)" by (cases p)
  have "i < length (Shards (LatestConfig st)) \<and> Shards (LatestConfig st) ! i = g"
    using Cons.prems [of i g] p by simp
  with Cons p show ?case by (auto simp: curShardUpToDate_def)
qed simp

lemma allShardsUpToDate_ok [simp]:
  "allShardsUpToDate gid st = Inr (lagging gid st, lagging gid st = [])"
proof -
  let ?ss = "Shards (LatestConfig st)"
  have zip: "enumerate 0 ?ss = map (\<lambda>i. (i, ?ss ! i)) [0..<length ?ss]"
    by (rule nth_equalityI) (simp_all add: nth_enumerate_eq)
  have "lagging_loop gid st (enumerate 0 ?ss) = Inr (lagging gid st)"
    by (subst lagging_loop_ok) (auto simp: zip lagging_def filter_map comp_def)
  then show ?thesis by (simp add: allShardsUpToDate_def)
qed

lemma lagging_iff:
  "sid \<in> set (lagging gid st) \<longleftrightarrow> (\<exists>i < length (Shards (LatestConfig st)). sid = int i \<and>
     Shards (LatestConfig st) ! i = gid \<and> go_get (ShardTimestamp st) sid < Num (LatestConfig st))"
  by (auto simp: lagging_def)

lemma key2shard_range: "0 \<le> key2shard k" "key2shard k < int NShards"
  by (simp_all add: key2shard_def NShards_def)

section \<open>Keeping the state in good order\<close>

text \<open>
  A state of group \<open>gid\<close> in good order: the configurations are numbered from 0 without a gap,
  the last of them is the latest one, each is an array of \<open>NShards\<close> shards; no time stamp is
  negative; and a shard that the group had in the configuration before, or that it has in the
  first one, is not missing.
\<close>

definition configs_ok :: "config list \<Rightarrow> bool" where
  "configs_ok cs \<longleftrightarrow> cs \<noteq> [] \<and> (\<forall>i < length cs. Num (cs ! i) = int i \<and> length (Shards (cs ! i)) = NShards)"

definition prevShards :: "skvState \<Rightarrow> int list" where
  "prevShards st = Shards (AllConfigs st ! (length (AllConfigs st) - 2))"

definition skv_inv :: "int \<Rightarrow> skvState \<Rightarrow> bool" where
  "skv_inv gid st \<longleftrightarrow> configs_ok (AllConfigs st) \<and> last (AllConfigs st) = LatestConfig st \<and>
     (\<forall>sid. 0 \<le> go_get (ShardTimestamp st) sid) \<and>
     (\<forall>i < NShards. 0 < Num (LatestConfig st) \<longrightarrow> Shards (LatestConfig st) ! i = gid \<longrightarrow>
        Num (LatestConfig st) = 1 \<or> prevShards st ! i = gid \<longrightarrow>
        Num (LatestConfig st) \<le> go_get (ShardTimestamp st) (int i))"

lemma configs_ok_last:
  assumes "configs_ok cs"
  shows "length (Shards (last cs)) = NShards" "Num (last cs) = int (length cs) - 1" "0 < length cs"
proof -
  show l: "0 < length cs" using assms by (auto simp: configs_ok_def)
  then have "last cs = cs ! (length cs - 1)" "length cs - 1 < length cs" by (simp_all add: last_conv_nth)
  with assms have "Num (last cs) = int (length cs - 1)" "length (Shards (last cs)) = NShards"
    unfolding configs_ok_def by auto
  with l show "length (Shards (last cs)) = NShards" "Num (last cs) = int (length cs) - 1"
    by (simp_all add: of_nat_diff Suc_leI)
qed

lemma configs_ok_snoc:
  "configs_ok cs \<Longrightarrow> Num c = int (length cs) \<Longrightarrow> length (Shards c) = NShards \<Longrightarrow> configs_ok (cs @ [c])"
  by (auto simp: configs_ok_def nth_append less_Suc_eq)

lemma skv_invD:
  assumes "skv_inv gid st"
  shows "configs_ok (AllConfigs st)" "last (AllConfigs st) = LatestConfig st"
    "0 \<le> go_get (ShardTimestamp st) sid"
    "i < NShards \<Longrightarrow> 0 < Num (LatestConfig st) \<Longrightarrow> Shards (LatestConfig st) ! i = gid \<Longrightarrow>
      Num (LatestConfig st) = 1 \<or> prevShards st ! i = gid \<Longrightarrow>
      Num (LatestConfig st) \<le> go_get (ShardTimestamp st) (int i)"
  using assms by (auto simp: skv_inv_def)

lemma skv_inv_latest:
  assumes "skv_inv gid st"
  shows "length (Shards (LatestConfig st)) = NShards"
    "Num (LatestConfig st) = int (length (AllConfigs st)) - 1" "0 < length (AllConfigs st)"
  using configs_ok_last [OF skv_invD(1) [OF assms]] skv_invD(2) [OF assms] by simp_all

lemma skv_makeState_inv: "skv_inv gid skv_makeState"
  by (simp add: skv_inv_def configs_ok_def skv_makeState_def zeroConfig_def go_get_def)

lemma go_index_shard:
  assumes "length ss = NShards"
  shows "go_index ss (key2shard k) = Inr (ss ! nat (key2shard k))"
  using key2shard_range [of k] assms by (simp add: go_index_def)

section \<open>What installing a configuration does\<close>

lemma first_config_loop_frame:
  "AllConfigs (first_config_loop gid num ps st) = AllConfigs st"
  "LatestConfig (first_config_loop gid num ps st) = LatestConfig st"
  "skv_ClientLastRequest (first_config_loop gid num ps st) = skv_ClientLastRequest st"
  by (induction gid num ps st rule: first_config_loop.induct) simp_all

lemma first_config_loop_stamps:
  assumes "distinct (map fst ps)"
  shows "ShardTimestamp (first_config_loop gid num ps st) s =
    (case find (\<lambda>p. int (fst p) = s) ps of None \<Rightarrow> ShardTimestamp st s
     | Some p \<Rightarrow> Some (if snd p = gid then num else 0))"
  using assms
proof (induction gid num ps st rule: first_config_loop.induct)
  case (2 gid num i g rest st)
  have "find (\<lambda>p. int (fst p) = int i) rest = None"
    using "2.prems" by (force simp: find_None_iff)
  with 2 show ?case by (auto split: option.splits)
qed simp

lemma first_config_stamp:
  assumes "i < length ss"
  shows "go_get (ShardTimestamp (first_config_loop gid num (enumerate 0 ss) st)) (int i) =
    (if ss ! i = gid then num else 0)"
proof -
  have "find (\<lambda>p. int (fst p) = int i) (enumerate 0 ss) = Some (i, ss ! i)"
    using assms by (intro find_Some_iff [THEN iffD2] exI [of _ i]) (simp add: nth_enumerate_eq)
  then show ?thesis by (simp add: first_config_loop_stamps go_get_def)
qed

lemma first_config_stamp_nonneg:
  assumes "\<And>s. 0 \<le> go_get (ShardTimestamp st) s" "0 \<le> num"
  shows "0 \<le> go_get (ShardTimestamp (first_config_loop gid num (enumerate 0 ss) st)) s"
  using assms(1) [of s] assms(2)
  by (auto simp: first_config_loop_stamps go_get_def split: option.splits)

lemma keep_loop_frame:
  assumes "keep_loop gid num old ps st = Inr st'"
  shows "AllConfigs st' = AllConfigs st \<and> LatestConfig st' = LatestConfig st \<and>
    ShardKVStore st' = ShardKVStore st \<and> skv_ClientLastRequest st' = skv_ClientLastRequest st"
  using assms by (induction gid num old ps st rule: keep_loop.induct) (auto split: if_splits)

lemma keep_loop_total:
  assumes "\<forall>(i, g) \<in> set ps. i < length old"
  shows "\<exists>st'. keep_loop gid num old ps st = Inr st' \<and> (\<forall>s. ShardTimestamp st' s =
    (if \<exists>i. (i, gid) \<in> set ps \<and> old ! i = gid \<and> s = int i then Some num else ShardTimestamp st s))"
  using assms
proof (induction gid num old ps st rule: keep_loop.induct)
  case (2 gid num old i g rest st)
  then have i: "i < length old" and rest: "\<forall>(i, g) \<in> set rest. i < length old" by auto
  show ?case
  proof (cases "g = gid")
    case False
    from 2(2) [OF False rest] False show ?thesis by simp
  next
    case True
    have "\<exists>st'. keep_loop gid num old rest (if old ! i = gid
        then st\<lparr>ShardTimestamp := (ShardTimestamp st)(int i \<mapsto> num)\<rparr> else st) = Inr st' \<and>
      (\<forall>s. ShardTimestamp st' s = (if \<exists>i. (i, gid) \<in> set rest \<and> old ! i = gid \<and> s = int i then Some num
        else ShardTimestamp (if old ! i = gid then st\<lparr>ShardTimestamp := (ShardTimestamp st)(int i \<mapsto> num)\<rparr> else st) s))"
      using 2(1) [of "old ! i"] True rest i by simp
    with True i show ?thesis by (auto simp: fun_upd_def)
  qed
qed simp

lemma handleInstall_skip:
  "Num (sk_ShardConfig x) \<noteq> Num (LatestConfig st) + 1 \<Longrightarrow> handleInstallShardConfig gid st x = Inr st"
  by (simp add: handleInstallShardConfig_def Let_def)

text \<open>A configuration that fits is taken, and the state stays in good order.\<close>

lemma handleInstall_next:
  assumes inv: "skv_inv gid st" and len: "length (Shards (sk_ShardConfig x)) = NShards"
    and num: "Num (sk_ShardConfig x) = Num (LatestConfig st) + 1"
  shows "\<exists>st'. handleInstallShardConfig gid st x = Inr st' \<and> skv_inv gid st' \<and>
    AllConfigs st' = AllConfigs st @ [sk_ShardConfig x] \<and> LatestConfig st' = sk_ShardConfig x \<and>
    skv_ClientLastRequest st' = skv_ClientLastRequest st \<and>
    (Num (LatestConfig st) \<noteq> 0 \<longrightarrow> ShardKVStore st' = ShardKVStore st)"
proof -
  let ?c = "sk_ShardConfig x" and ?n = "Num (sk_ShardConfig x)"
  let ?st = "st\<lparr>LatestConfig := ?c, AllConfigs := AllConfigs st @ [?c]\<rparr>"
  note latest = skv_inv_latest [OF inv]
  have cs: "configs_ok (AllConfigs st @ [?c])"
    using configs_ok_snoc [OF skv_invD(1) [OF inv] _ len] num latest by simp
  have n: "0 < ?n" using num latest by simp
  show ?thesis
  proof (cases "?n = 1")
    case True
    let ?r = "first_config_loop gid ?n (enumerate 0 (Shards ?c)) ?st"
    have "skv_inv gid ?r"
      using cs n len first_config_stamp_nonneg [of ?st ?n] skv_invD(3) [OF inv]
      by (simp add: skv_inv_def first_config_loop_frame first_config_stamp)
    with True num show ?thesis by (simp add: handleInstallShardConfig_def Let_def first_config_loop_frame)
  next
    case False
    let ?old = "Shards (LatestConfig st)"
    have "\<forall>(i, g) \<in> set (enumerate 0 (Shards ?c)). i < length ?old"
      using len latest(1) by (auto simp: in_set_enumerate_eq)
    from keep_loop_total [OF this, of gid ?n ?st] obtain r where
      r: "keep_loop gid ?n ?old (enumerate 0 (Shards ?c)) ?st = Inr r"
      "\<And>s. ShardTimestamp r s = (if \<exists>i. (i, gid) \<in> set (enumerate 0 (Shards ?c)) \<and> ?old ! i = gid \<and> s = int i
        then Some ?n else ShardTimestamp ?st s)"
      by blast
    note frame = keep_loop_frame [OF r(1)]
    have prev: "prevShards r = ?old"
      using frame latest(3) skv_invD(2) [OF inv]
      by (simp add: prevShards_def nth_append last_conv_nth)
    have "skv_inv gid r"
      using cs n len False frame prev r(2) skv_invD(3) [OF inv]
      by (auto simp: skv_inv_def go_get_def in_set_enumerate_eq)
    with False num r(1) frame show ?thesis by (auto simp: handleInstallShardConfig_def Let_def)
  qed
qed

section \<open>What receiving a shard does\<close>

lemma skv_clone_id [simp]: "skv_clone m = m"
  by (auto simp: skv_clone_def fun_eq_iff split: option.splits)

lemma handleAcquireShard_frame [simp]:
  "AllConfigs (handleAcquireShard st x) = AllConfigs st"
  "LatestConfig (handleAcquireShard st x) = LatestConfig st"
  "prevShards (handleAcquireShard st x) = prevShards st"
  by (simp_all add: handleAcquireShard_def prevShards_def Let_def)

lemma handleAcquireShard_stamp:
  "go_get (ShardTimestamp (handleAcquireShard st x)) s =
    (if s = sk_ShardId x then max (go_get (ShardTimestamp st) s) (sk_ShardConfigNum x)
     else go_get (ShardTimestamp st) s)"
  by (simp add: handleAcquireShard_def go_get_def Let_def)

lemma handleAcquireShard_inv: "skv_inv gid st \<Longrightarrow> skv_inv gid (handleAcquireShard st x)"
  by (auto simp: skv_inv_def handleAcquireShard_stamp intro: le_max_iff_disj [THEN iffD2])

lemma merge_requests_mono: "go_get m c \<le> go_get (merge_requests ps m) c"
proof (induction ps m rule: merge_requests.induct)
  case (2 d i rest m)
  have "go_get m c \<le> go_get (if go_get m d < i then m(d \<mapsto> i) else m) c"
    by (auto simp: go_get_upd)
  from order_trans [OF this 2] show ?case by (simp only: merge_requests.simps)
qed simp

lemma merge_requests_ge: "(c, i) \<in> set ps \<Longrightarrow> i \<le> go_get (merge_requests ps m) c"
proof (induction ps m rule: merge_requests.induct)
  case (2 d k rest m)
  show ?case
  proof (cases "(c, i) = (d, k)")
    case True
    then have "i \<le> go_get (if go_get m d < k then m(d \<mapsto> k) else m) c" by (auto simp: go_get_upd)
    from order_trans [OF this merge_requests_mono] show ?thesis by (simp only: merge_requests.simps)
  next
    case False
    with 2(2) have "(c, i) \<in> set rest" by auto
    from 2(1) [OF this] show ?thesis by (simp only: merge_requests.simps)
  qed
qed simp

text \<open>Entries are only ever added or raised.\<close>

lemma merge_requests_seen: "seen m c r \<Longrightarrow> seen (merge_requests ps m) c r"
proof (induction ps m rule: merge_requests.induct)
  case (2 d i rest m)
  have "seen (if go_get m d < i then m(d \<mapsto> i) else m) c r"
    using 2(2) by (auto simp: seen_def go_get_def split: option.splits if_splits)
  from 2(1) [OF this] show ?case by (simp only: merge_requests.simps)
qed simp

lemma seen_go_get: "0 < go_get m c \<Longrightarrow> r \<le> go_get m c \<Longrightarrow> seen m c r"
  by (auto simp: go_get_def seen_def split: option.splits)

end
