(* ===== verification/SKV_Group.thy ===== *)
theory SKV_Group
  imports SKV_State
begin

text \<open>
  A group of shardkv as a replicated state machine: what a log of operations does to its
  state. Requests of clients are executed at most once and only by the owner of the shard
  when it has the data of all its shards; configurations are taken one after the other; and a
  group never leaves a configuration before it has all the shards of it.
\<close>

section \<open>Requests of clients\<close>

lemma getValueWithKey_set:
  "getValueWithKey (setKeyValue st k v) k' = (if k' = k then Some v else getValueWithKey st k')"
  by (auto simp: getValueWithKey_def setKeyValue_def Let_def split: option.splits)

lemma setKeyValue_frame [simp]:
  "AllConfigs (setKeyValue st k v) = AllConfigs st"
  "LatestConfig (setKeyValue st k v) = LatestConfig st"
  "ShardTimestamp (setKeyValue st k v) = ShardTimestamp st"
  "skv_ClientLastRequest (setKeyValue st k v) = skv_ClientLastRequest st"
  by (simp_all add: setKeyValue_def Let_def)

lemma getValueWithKey_table [simp]:
  "getValueWithKey (st\<lparr>skv_ClientLastRequest := t\<rparr>) = getValueWithKey st"
  by (simp add: getValueWithKey_def fun_eq_iff)

text \<open>What a request does to the store, and what it is answered.\<close>

definition skv_exec :: "skvOp \<Rightarrow> kvstore \<Rightarrow> kvstore" where
  "skv_exec x s =
     (case sk_Type x of
        SkPUT \<Rightarrow> s(sk_Key x \<mapsto> sk_Value x)
      | SkAPPEND \<Rightarrow> s(sk_Key x \<mapsto> (case s (sk_Key x) of None \<Rightarrow> '''' | Some v \<Rightarrow> v) @ sk_Value x)
      | _ \<Rightarrow> s)"

definition skv_reply :: "skvOp \<Rightarrow> kvstore \<Rightarrow> skvReplyMsg" where
  "skv_reply x s =
     (if sk_Type x = SkGET
      then case s (sk_Key x) of
             Some v \<Rightarrow> \<lparr>sm_Error = SkOK, sm_Value = v\<rparr>
           | None \<Rightarrow> \<lparr>sm_Error = SkErrNoKey, sm_Value = ''''\<rparr>
      else \<lparr>sm_Error = SkOK, sm_Value = ''''\<rparr>)"

definition kv_type :: "skvOp \<Rightarrow> bool" where
  "kv_type x \<longleftrightarrow> sk_Type x = SkGET \<or> sk_Type x = SkPUT \<or> sk_Type x = SkAPPEND"

definition client_op :: "skvOp \<Rightarrow> bool" where
  "client_op x \<longleftrightarrow> sk_NeedSendBackCh x \<and> kv_type x"

lemma client_op_type: "client_op x \<Longrightarrow> kv_type x"
  by (simp add: client_op_def)

lemma skv_isDuplicateOp_seen:
  "skv_isDuplicateOp st x = seen (skv_ClientLastRequest st) (sk_ClientId x) (sk_RequestIndex x)"
  by (simp add: skv_isDuplicateOp_def seen_def split: option.splits)

lemma serve_seen:
  assumes "kv_type x" "seen (skv_ClientLastRequest st) (sk_ClientId x) (sk_RequestIndex x)"
  shows "serve_request st x = Inr (st, skv_reply x (getValueWithKey st))"
  using assms
  by (auto simp: serve_request_def skv_isDuplicateOp_seen skv_getValue_def skv_reply_def kv_type_def Let_def
      split: option.splits)

lemma serve_fresh:
  assumes "kv_type x" "\<not> seen (skv_ClientLastRequest st) (sk_ClientId x) (sk_RequestIndex x)"
  shows "\<exists>st'. serve_request st x = Inr (st', skv_reply x (getValueWithKey st)) \<and>
    getValueWithKey st' = skv_exec x (getValueWithKey st) \<and>
    skv_ClientLastRequest st' = (skv_ClientLastRequest st)(sk_ClientId x \<mapsto> sk_RequestIndex x) \<and>
    AllConfigs st' = AllConfigs st \<and> LatestConfig st' = LatestConfig st \<and>
    ShardTimestamp st' = ShardTimestamp st"
  using assms
  by (auto simp: serve_request_def skv_isDuplicateOp_seen skv_getValue_def skv_reply_def skv_exec_def kv_type_def
      getValueWithKey_set Let_def fun_eq_iff split: option.splits)

definition owner :: "skvState \<Rightarrow> string \<Rightarrow> int" where
  "owner st k = Shards (LatestConfig st) ! nat (key2shard k)"

text \<open>The three ways in which the group treats a request.\<close>

lemma skv_executeOp_client:
  assumes "length (Shards (LatestConfig st)) = NShards" "client_op x"
  shows "skv_executeOp gid st x =
    (if owner st (sk_Key x) \<noteq> gid then Inr (st, \<lparr>sm_Error = SkErrWrongGroup, sm_Value = ''''\<rparr>)
     else if lagging gid st \<noteq> [] then Inr (st, \<lparr>sm_Error = SkErrNotUpToDate, sm_Value = ''''\<rparr>)
     else serve_request st x)"
  using assms by (simp add: skv_executeOp_def go_index_shard owner_def client_op_def Let_def)

section \<open>Every operation of the log\<close>

text \<open>The operations that servers put in the log.\<close>

definition skv_op_ok :: "skvOp \<Rightarrow> bool" where
  "skv_op_ok x \<longleftrightarrow> client_op x \<or>
     (\<not> sk_NeedSendBackCh x \<and> (sk_Type x = AcquireShard \<or>
        sk_Type x = InstallShardConfig \<and> length (Shards (sk_ShardConfig x)) = NShards))"

definition skv_app :: "int \<Rightarrow> skvState \<Rightarrow> skvOp \<Rightarrow> skvState res" where
  "skv_app gid st x = res_bind (skv_executeOp gid st x) (\<lambda>(st', reply). Inr st')"

definition skv_run :: "int \<Rightarrow> skvState \<Rightarrow> skvOp list \<Rightarrow> skvState res" where
  "skv_run gid = res_fold (skv_app gid)"

lemma skv_inv_frame:
  "skv_inv gid st \<Longrightarrow> AllConfigs st' = AllConfigs st \<Longrightarrow> LatestConfig st' = LatestConfig st \<Longrightarrow>
   ShardTimestamp st' = ShardTimestamp st \<Longrightarrow> skv_inv gid st'"
  by (simp add: skv_inv_def prevShards_def)

lemma serve_total:
  assumes "kv_type x"
  shows "\<exists>st'. serve_request st x = Inr (st', skv_reply x (getValueWithKey st)) \<and> AllConfigs st' = AllConfigs st \<and>
    LatestConfig st' = LatestConfig st \<and> ShardTimestamp st' = ShardTimestamp st \<and>
    seen (skv_ClientLastRequest st') (sk_ClientId x) (sk_RequestIndex x)"
  using serve_seen [OF assms, of st] serve_fresh [OF assms, of st]
  by (cases "seen (skv_ClientLastRequest st) (sk_ClientId x) (sk_RequestIndex x)")
    (auto simp: seen_upd)

lemma client_executeOp_total:
  assumes "skv_inv gid st" "client_op x"
  shows "\<exists>st' r. skv_executeOp gid st x = Inr (st', r) \<and> skv_inv gid st' \<and>
    AllConfigs st' = AllConfigs st \<and> LatestConfig st' = LatestConfig st \<and>
    ShardTimestamp st' = ShardTimestamp st \<and> sm_Error r \<noteq> SkErrFiller"
proof -
  from serve_total [OF client_op_type [OF assms(2)], of st] obtain st' where st':
    "serve_request st x = Inr (st', skv_reply x (getValueWithKey st))" "AllConfigs st' = AllConfigs st"
    "LatestConfig st' = LatestConfig st" "ShardTimestamp st' = ShardTimestamp st" by blast
  have "sm_Error (skv_reply x (getValueWithKey st)) \<noteq> SkErrFiller"
    by (simp add: skv_reply_def split: option.splits)
  with st' skv_inv_frame [OF assms(1) st'(2-4)] assms(1)
  show ?thesis
    unfolding skv_executeOp_client [OF skv_inv_latest(1) [OF assms(1)] assms(2)]
    by auto
qed

text \<open>
  How the state of a group grows: configurations are only added, and while none is added no
  time stamp goes back.
\<close>

definition skv_le :: "skvState \<Rightarrow> skvState \<Rightarrow> bool" where
  "skv_le st st' \<longleftrightarrow> (\<exists>cs. AllConfigs st' = AllConfigs st @ cs) \<and>
     (AllConfigs st' = AllConfigs st \<longrightarrow> LatestConfig st' = LatestConfig st \<and>
        (\<forall>s. go_get (ShardTimestamp st) s \<le> go_get (ShardTimestamp st') s))"

lemma skv_le_refl [simp]: "skv_le st st"
  by (simp add: skv_le_def)

lemma skv_le_trans:
  assumes "skv_le a b" "skv_le b c"
  shows "skv_le a c"
proof -
  from assms obtain cs ds where eq: "AllConfigs b = AllConfigs a @ cs" "AllConfigs c = AllConfigs b @ ds"
    by (auto simp: skv_le_def)
  then have "AllConfigs c = AllConfigs a \<Longrightarrow> AllConfigs b = AllConfigs a \<and> AllConfigs c = AllConfigs b" by simp
  with assms eq show ?thesis unfolding skv_le_def by (metis append.assoc order_trans)
qed

lemma skv_executeOp_total:
  assumes inv: "skv_inv gid st" and op: "skv_op_ok x"
  shows "\<exists>st' r. skv_executeOp gid st x = Inr (st', r) \<and> skv_inv gid st' \<and> skv_le st st' \<and>
    (sk_NeedSendBackCh x \<longrightarrow> sm_Error r \<noteq> SkErrFiller)"
proof -
  consider "client_op x" | "\<not> sk_NeedSendBackCh x" "sk_Type x = AcquireShard"
    | "\<not> sk_NeedSendBackCh x" "sk_Type x = InstallShardConfig" "length (Shards (sk_ShardConfig x)) = NShards"
    using op by (auto simp: skv_op_ok_def)
  then show ?thesis
  proof cases
    case 1
    from client_executeOp_total [OF inv this] show ?thesis by (force simp: skv_le_def)
  next
    case 2
    then show ?thesis
      using handleAcquireShard_inv [OF inv]
      by (auto simp: skv_executeOp_def skv_le_def handleAcquireShard_stamp Let_def)
  next
    case 3
    show ?thesis
    proof (cases "Num (sk_ShardConfig x) = Num (LatestConfig st) + 1")
      case True
      from handleInstall_next [OF inv 3(3) True] 3(1,2) show ?thesis
        by (auto simp: skv_executeOp_def skv_le_def Let_def)
    next
      case False
      with 3 inv handleInstall_skip show ?thesis by (simp add: skv_executeOp_def Let_def)
    qed
  qed
qed

lemma skv_run_total:
  assumes "skv_inv gid st" "\<forall>x \<in> set xs. skv_op_ok x"
  shows "\<exists>st'. skv_run gid st xs = Inr st' \<and> skv_inv gid st' \<and> skv_le st st'"
  using assms
proof (induction xs arbitrary: st)
  case (Cons x xs)
  then obtain st1 r where 1: "skv_executeOp gid st x = Inr (st1, r)" "skv_inv gid st1" "skv_le st st1"
    using skv_executeOp_total [of gid st x] by auto
  with Cons obtain st' where "skv_run gid st1 xs = Inr st'" "skv_inv gid st'" "skv_le st1 st'" by force
  with 1 skv_le_trans [OF 1(3)] show ?case by (auto simp: skv_run_def skv_app_def)
qed (simp add: skv_run_def)

lemma skv_run_append: "skv_run gid st (xs @ ys) = res_bind (skv_run gid st xs) (\<lambda>t. skv_run gid t ys)"
  by (simp add: skv_run_def res_fold_append)

section \<open>Requests are executed at most once\<close>

definition serve_app :: "skvState \<Rightarrow> skvOp \<Rightarrow> skvState res" where
  "serve_app st x = res_bind (serve_request st x) (\<lambda>(st', reply). Inr st')"

lemma serve_type:
  assumes "serve_request st x = Inr (st', r)" "\<not> seen (skv_ClientLastRequest st) (sk_ClientId x) (sk_RequestIndex x)"
  shows "kv_type x"
  using assms by (cases "sk_Type x") (simp_all add: kv_type_def serve_request_def skv_isDuplicateOp_seen Let_def)

interpretation skv_machine: dedup_machine skv_ClientLastRequest getValueWithKey serve_app skv_exec
  sk_ClientId sk_RequestIndex
proof (unfold_locales, goal_cases)
  case (1 s x s')
  then show ?case
    by (auto simp: serve_app_def serve_request_def skv_isDuplicateOp_seen Let_def split: if_splits)
next
  case (2 s x s')
  then obtain r where r: "serve_request s x = Inr (s', r)" by (auto simp: serve_app_def)
  from serve_fresh [OF serve_type [OF r 2(2)] 2(2)] r show ?case by auto
qed

text \<open>While the configuration stands, a group that has all its data serves the requests for its shards.\<close>

lemma skv_run_clients:
  assumes "skv_inv gid st" "lagging gid st = []" "\<forall>x \<in> set xs. client_op x"
  shows "skv_run gid st xs = res_fold serve_app st (filter (\<lambda>x. owner st (sk_Key x) = gid) xs)"
  using assms
proof (induction xs arbitrary: st)
  case (Cons x xs)
  then have x: "client_op x" and ex: "skv_executeOp gid st x = (if owner st (sk_Key x) \<noteq> gid
      then Inr (st, \<lparr>sm_Error = SkErrWrongGroup, sm_Value = ''''\<rparr>) else serve_request st x)"
    by (simp_all add: skv_executeOp_client [OF skv_inv_latest(1) [OF Cons.prems(1)]])
  show ?case
  proof (cases "owner st (sk_Key x) = gid")
    case False
    with ex Cons show ?thesis by (simp add: skv_run_def skv_app_def)
  next
    case True
    from serve_total [OF client_op_type [OF x], of st] obtain st' r where st': "serve_request st x = Inr (st', r)"
      "AllConfigs st' = AllConfigs st" "LatestConfig st' = LatestConfig st"
      "ShardTimestamp st' = ShardTimestamp st" by blast
    then have "lagging gid st' = []" "owner st' = owner st" using Cons.prems(2)
      unfolding lagging_def owner_def by simp_all
    with Cons.IH [OF skv_inv_frame [OF Cons.prems(1) st'(2-4)]] Cons.prems(3) True ex st'(1)
    show ?thesis by (simp add: skv_run_def skv_app_def serve_app_def)
  qed
qed (simp add: skv_run_def)

section \<open>Properties\<close>

text \<open>
  A group survives every log. From the initial state, whatever servers put in the log
  (requests of a known kind, shards, configurations of ten shards, in any order, repeated or
  out of date) is executed without a fault; configurations are kept in a gapless sequence
  from number 0 with the latest as the last, time stamps stay non-negative, and a shard that
  the group keeps over a change of configuration is never counted as missing.
\<close>

theorem skv_log_total:
  assumes "\<forall>x \<in> set xs. skv_op_ok x"
  shows "\<exists>st. skv_run gid skv_makeState xs = Inr st \<and>
    AllConfigs st \<noteq> [] \<and> last (AllConfigs st) = LatestConfig st \<and>
    (\<forall>i < length (AllConfigs st). Num (AllConfigs st ! i) = int i \<and>
       length (Shards (AllConfigs st ! i)) = NShards) \<and>
    (\<forall>sid. 0 \<le> go_get (ShardTimestamp st) sid) \<and>
    (\<forall>i < NShards. 1 < Num (LatestConfig st) \<longrightarrow> Shards (LatestConfig st) ! i = gid \<longrightarrow>
       Shards (AllConfigs st ! (length (AllConfigs st) - 2)) ! i = gid \<longrightarrow> int i \<notin> set (lagging gid st))"
proof -
  from skv_run_total [OF skv_makeState_inv assms] obtain st where st:
    "skv_run gid skv_makeState xs = Inr st" "skv_inv gid st" by blast
  note d = skv_invD [OF st(2)]
  have "int i \<notin> set (lagging gid st)"
    if "i < NShards" "1 < Num (LatestConfig st)" "Shards (LatestConfig st) ! i = gid" "prevShards st ! i = gid" for i
    using d(4) [of i] that by (auto simp: lagging_iff)
  with st(1) d(1-3) show ?thesis by (auto simp: configs_ok_def prevShards_def)
qed

text \<open>
  A log: configuration 1 gives every shard to group 1, a client writes, configuration 3
  comes too early, configuration 2 moves the shards to group 2.
\<close>

definition all_to :: "int \<Rightarrow> int \<Rightarrow> config" where
  "all_to n g = \<lparr>Num = n, Shards = replicate NShards g, Groups = [(1, [''a'']), (2, [''b'']), (3, [''c''])]\<rparr>"

definition ex_op :: skvOp where
  "ex_op = \<lparr>sk_ServerId = 0, sk_OpIndex = 0, sk_ClientId = 7, sk_RequestIndex = 0, sk_Type = SkPUT,
     sk_NeedSendBackCh = True, sk_Key = ''k'', sk_Value = ''v'', sk_ShardConfig = zeroConfig, sk_ShardId = 0,
     sk_ShardConfigNum = 0, sk_ShardData = Map.empty, sk_ClientLast = []\<rparr>"

definition ex_config :: "int \<Rightarrow> int \<Rightarrow> skvOp" where
  "ex_config n g = ex_op\<lparr>sk_Type := InstallShardConfig, sk_NeedSendBackCh := False, sk_ShardConfig := all_to n g\<rparr>"

theorem skv_log_total_witness:
  "\<exists>st. skv_run 1 skv_makeState [ex_config 1 1, ex_op, ex_config 3 1, ex_config 2 2] = Inr st"
  using skv_log_total [of "[ex_config 1 1, ex_op, ex_config 3 1, ex_config 2 2]" 1]
  by (auto simp: skv_op_ok_def client_op_def kv_type_def ex_config_def ex_op_def all_to_def)

text \<open>
  C27. What a group does with a request of a client. A request for a shard of another group is
  answered ErrWrongGroup, one that comes before the group has the data of all its shards
  ErrNotUpToDate, and neither leaves a trace, not even in the table of requests, so that the
  client may retry with the same index. Otherwise the group answers OK with the value (ErrNoKey
  if there is none), a repeated request changes nothing, and a new one has exactly its own
  effect on the store, without touching any other key, and is recorded.
\<close>

theorem skv_request_spec:
  assumes "skv_inv gid st" "client_op x"
  shows "\<exists>st' r. skv_executeOp gid st x = Inr (st', r) \<and>
    (if owner st (sk_Key x) \<noteq> gid then sm_Error r = SkErrWrongGroup \<and> st' = st
     else if lagging gid st \<noteq> [] then sm_Error r = SkErrNotUpToDate \<and> st' = st
     else
       (sk_Type x \<noteq> SkGET \<longrightarrow> sm_Error r = SkOK) \<and>
       (sk_Type x = SkGET \<longrightarrow>
          (case getValueWithKey st (sk_Key x) of
             Some v \<Rightarrow> sm_Error r = SkOK \<and> sm_Value r = v
           | None \<Rightarrow> sm_Error r = SkErrNoKey \<and> sm_Value r = '''')) \<and>
       (if seen (skv_ClientLastRequest st) (sk_ClientId x) (sk_RequestIndex x) then st' = st
        else skv_ClientLastRequest st' = (skv_ClientLastRequest st)(sk_ClientId x \<mapsto> sk_RequestIndex x) \<and>
          (\<forall>k. getValueWithKey st' k =
             (if k \<noteq> sk_Key x \<or> sk_Type x = SkGET then getValueWithKey st k
              else if sk_Type x = SkPUT then Some (sk_Value x)
              else Some ((case getValueWithKey st k of None \<Rightarrow> '''' | Some v \<Rightarrow> v) @ sk_Value x))) \<and>
          LatestConfig st' = LatestConfig st \<and> ShardTimestamp st' = ShardTimestamp st))"
proof -
  note ex = skv_executeOp_client [OF skv_inv_latest(1) [OF assms(1)] assms(2)]
  note ty = client_op_type [OF assms(2)]
  show ?thesis
  proof (cases "owner st (sk_Key x) = gid \<and> lagging gid st = []")
    case False
    then show ?thesis by (auto simp: ex)
  next
    case True
    have r: "(sk_Type x \<noteq> SkGET \<longrightarrow> sm_Error (skv_reply x s) = SkOK) \<and>
      (sk_Type x = SkGET \<longrightarrow>
         (case s (sk_Key x) of Some v \<Rightarrow> sm_Error (skv_reply x s) = SkOK \<and> sm_Value (skv_reply x s) = v
          | None \<Rightarrow> sm_Error (skv_reply x s) = SkErrNoKey \<and> sm_Value (skv_reply x s) = ''''))" for s
      by (simp add: skv_reply_def split: option.splits)
    show ?thesis
    proof (cases "seen (skv_ClientLastRequest st) (sk_ClientId x) (sk_RequestIndex x)")
      case seen: True
      with True serve_seen [OF ty seen] r show ?thesis by (auto simp: ex)
    next
      case fresh: False
      from serve_fresh [OF ty fresh] obtain st' where
        "serve_request st x = Inr (st', skv_reply x (getValueWithKey st))"
        "getValueWithKey st' = skv_exec x (getValueWithKey st)"
        "skv_ClientLastRequest st' = (skv_ClientLastRequest st)(sk_ClientId x \<mapsto> sk_RequestIndex x)"
        "LatestConfig st' = LatestConfig st" "ShardTimestamp st' = ShardTimestamp st" by blast
      moreover have "skv_exec x s k = (if k \<noteq> sk_Key x \<or> sk_Type x = SkGET then s k
        else if sk_Type x = SkPUT then Some (sk_Value x)
        else Some ((case s k of None \<Rightarrow> '''' | Some v \<Rightarrow> v) @ sk_Value x))" for s k
        using ty by (auto simp: skv_exec_def kv_type_def)
      ultimately show ?thesis using True fresh r [of "getValueWithKey st"]
        by (intro exI [of _ st'] exI [of _ "skv_reply x (getValueWithKey st)"]) (simp add: ex)
    qed
  qed
qed

theorem skv_request_spec_witness:
  "\<exists>st' r. skv_executeOp 1 skv_makeState ex_op = Inr (st', r) \<and> sm_Error r = SkErrWrongGroup \<and> st' = skv_makeState"
proof -
  have "owner skv_makeState (sk_Key ex_op) \<noteq> 1"
    by (simp add: owner_def skv_makeState_def zeroConfig_def ex_op_def key2shard_def NShards_def)
  with skv_request_spec [of 1 skv_makeState ex_op] skv_makeState_inv show ?thesis
    by (auto simp: client_op_def kv_type_def ex_op_def)
qed

text \<open>
  C28. At most once. While a configuration stands and the group has all its shards, its store
  is what executing the new requests for its shards once each, in the order of the log, makes
  of it: no request of a client is executed twice, and those of one client take effect in
  increasing order.
\<close>

theorem skv_exactly_once:
  assumes "skv_inv gid st" "lagging gid st = []" "\<forall>x \<in> set xs. client_op x"
  defines "ys \<equiv> fresh_ops sk_ClientId sk_RequestIndex (skv_ClientLastRequest st)
    (filter (\<lambda>x. owner st (sk_Key x) = gid) xs)"
  shows "\<exists>st'. skv_run gid st xs = Inr st' \<and> getValueWithKey st' = fold skv_exec ys (getValueWithKey st) \<and>
    distinct (map (\<lambda>x. (sk_ClientId x, sk_RequestIndex x)) ys) \<and>
    sorted_wrt (<) (map sk_RequestIndex (filter (\<lambda>x. sk_ClientId x = c) ys))"
proof -
  have "\<forall>x \<in> set xs. skv_op_ok x" using assms(3) by (simp add: skv_op_ok_def)
  from skv_run_total [OF assms(1) this] obtain st' where st': "skv_run gid st xs = Inr st'" by blast
  from skv_machine.exactly_once [OF st' [unfolded skv_run_clients [OF assms(1-3)]]] st'
  show ?thesis unfolding ys_def by (simp add: fresh_ops_distinct fresh_ops_increasing)
qed

text \<open>Group 1 in configuration 1, with all shards.\<close>

definition ex_state :: skvState where
  "ex_state = \<lparr>AllConfigs = [zeroConfig, all_to 1 1], LatestConfig = all_to 1 1, ShardKVStore = Map.empty,
     ShardTimestamp = (\<lambda>s. Some 1), skv_ClientLastRequest = Map.empty\<rparr>"

lemma ex_state_ok:
  "skv_inv 1 ex_state" "lagging 1 ex_state = []" "owner ex_state k = 1"
  "getValueWithKey ex_state = Map.empty" "skv_ClientLastRequest ex_state = Map.empty"
  using key2shard_range [of k]
  by (auto simp: ex_state_def skv_inv_def configs_ok_def zeroConfig_def all_to_def lagging_def go_get_def
      owner_def getValueWithKey_def less_Suc_eq fun_eq_iff)

theorem skv_exactly_once_witness:
  "\<exists>st'. skv_run 1 ex_state [ex_op, ex_op\<lparr>sk_Type := SkAPPEND, sk_RequestIndex := 1\<rparr>,
      ex_op\<lparr>sk_Type := SkAPPEND, sk_RequestIndex := 1\<rparr>] = Inr st' \<and>
    getValueWithKey st' ''k'' = Some ''vv''"
  using skv_exactly_once [OF ex_state_ok(1,2), of "[ex_op, ex_op\<lparr>sk_Type := SkAPPEND, sk_RequestIndex := 1\<rparr>,
    ex_op\<lparr>sk_Type := SkAPPEND, sk_RequestIndex := 1\<rparr>]" 7]
  by (auto simp: ex_state_ok(3-5) client_op_def kv_type_def ex_op_def skv_exec_def seen_def)

end
