(* ===== verification/SKV_Server.thy ===== *)
theory SKV_Server
  imports SKV_Group
begin

text \<open>
  A server of a group of shardkv (server.go, the table of waiting handlers of util.go,
  snapshot.go and the apply loop of applyTicker.go), how it follows the configurations
  (shardConfigTicker.go), and how groups hand shards to each other (acquireShardTicker.go).
  Asking the shard controller and sending RPCs is left to the caller: the functions take what
  comes back as an argument and return the RPCs to send.
\<close>

record skvReplyChannel =
  sk_Operation :: skvOp
  sk_ReplyChannel :: nat

datatype skv_tok = SKVState skvState

record shardKV =
  skv_me :: int
  skv_rf :: "(skvOp, skv_tok) raft"
  skv_gid :: int
  skv_maxraftstate :: int
  skv_state :: skvState
  skv_startChannels :: "int \<rightharpoonup> (int \<rightharpoonup> skvReplyChannel)"
  skv_nextChan :: nat
  skv_closedChans :: "nat list"

section \<open>The table of waiting handlers\<close>

definition skv_createStartCh :: "shardKV \<Rightarrow> skvOp \<Rightarrow> skvReplyChannel \<times> shardKV" where
  "skv_createStartCh kv x =
     (let m = (case skv_startChannels kv (sk_ClientId x) of None \<Rightarrow> Map.empty | Some m \<Rightarrow> m);
          opChannel = \<lparr>sk_Operation = x, sk_ReplyChannel = skv_nextChan kv\<rparr>
      in (opChannel,
          kv\<lparr>skv_startChannels := (skv_startChannels kv)
               (sk_ClientId x \<mapsto> m(sk_RequestIndex x \<mapsto> opChannel)),
             skv_nextChan := Suc (skv_nextChan kv)\<rparr>))"

definition skv_createStartChLocked :: "shardKV \<Rightarrow> skvOp \<Rightarrow> skvReplyChannel \<times> shardKV" where
  "skv_createStartChLocked kv x = skv_createStartCh kv x"

definition skv_getStartCh :: "shardKV \<Rightarrow> skvOp \<Rightarrow> skvReplyChannel option" where
  "skv_getStartCh kv x =
     (case skv_startChannels kv (sk_ClientId x) of
        None \<Rightarrow> None
      | Some clientMap \<Rightarrow> clientMap (sk_RequestIndex x))"

definition skv_deleteStartCh :: "shardKV \<Rightarrow> skvOp \<Rightarrow> shardKV res" where
  "skv_deleteStartCh kv x =
     (case skv_startChannels kv (sk_ClientId x) of
        None \<Rightarrow> Inr kv
      | Some clientMap \<Rightarrow>
          (case clientMap (sk_RequestIndex x) of
             None \<Rightarrow> Inr kv
           | Some startCh \<Rightarrow>
               if sk_ReplyChannel startCh \<in> set (skv_closedChans kv)
               then Inl (GoPanic ''close of closed channel'')
               else Inr (kv\<lparr>skv_closedChans := sk_ReplyChannel startCh # skv_closedChans kv,
                           skv_startChannels := (skv_startChannels kv)
                             (sk_ClientId x \<mapsto> clientMap(sk_RequestIndex x := None))\<rparr>)))"

definition skv_deleteStartChLocked :: "shardKV \<Rightarrow> skvOp \<Rightarrow> shardKV res" where
  "skv_deleteStartChLocked kv x = skv_deleteStartCh kv x"

definition skv_opChannelMatch :: "shardKV \<Rightarrow> skvOp \<Rightarrow> bool" where
  "skv_opChannelMatch kv responseOp =
     (if sk_ServerId responseOp \<noteq> skv_me kv then False
      else case skv_getStartCh kv responseOp of
        None \<Rightarrow> False
      | Some startCh \<Rightarrow>
          let originalOp = sk_Operation startCh in
          if sk_Key originalOp \<noteq> sk_Key responseOp \<or> sk_Value originalOp \<noteq> sk_Value responseOp \<or>
             sk_Type originalOp \<noteq> sk_Type responseOp \<or>
             sk_ClientId originalOp \<noteq> sk_ClientId responseOp \<or>
             sk_RequestIndex originalOp \<noteq> sk_RequestIndex responseOp
          then False else True)"

definition skv_signalStartCh ::
  "shardKV \<Rightarrow> skvOp \<Rightarrow> skvReplyMsg \<Rightarrow> (shardKV \<times> (nat \<times> skvReplyMsg) option) res" where
  "skv_signalStartCh kv responseOp reply =
     (if \<not> (sk_Type responseOp = SkGET \<or> sk_Type responseOp = SkPUT \<or> sk_Type responseOp = SkAPPEND)
      then Inl (LogFatal ''In signalStartCh, operation type not in [GET, PUT, APPEND].'')
      else case skv_getStartCh kv responseOp of
        None \<Rightarrow> Inr (kv, None)
      | Some startCh \<Rightarrow>
          if sk_ReplyChannel startCh \<in> set (skv_closedChans kv)
          then Inl (GoPanic ''send on closed channel'')
          else res_bind (skv_deleteStartCh kv responseOp) (\<lambda>kv'.
                 Inr (kv', Some (sk_ReplyChannel startCh, reply))))"

section \<open>Snapshots\<close>

definition skv_makeSnapshot :: "shardKV \<Rightarrow> skv_tok list" where
  "skv_makeSnapshot kv = [SKVState (skv_state kv)]"

fun skv_readSnapshot :: "skv_tok list \<Rightarrow> skvState res" where
  "skv_readSnapshot (SKVState newState # r) = Inr newState"
| "skv_readSnapshot [] = Inl (LogFatal ''read persist error'')"

definition skv_installSnapshot :: "shardKV \<Rightarrow> skv_tok list \<Rightarrow> shardKV res" where
  "skv_installSnapshot kv data =
     (if data = [] then Inr kv
      else res_bind (skv_readSnapshot data) (\<lambda>st. Inr (kv\<lparr>skv_state := st\<rparr>)))"

section \<open>The apply loop\<close>

text \<open>
  \<open>bytes_len\<close> is the length of the encoding of Raft's state. An operation of the service
  itself is followed by a snapshot at once.
\<close>

definition skv_snapshotIfNeeded ::
  "(skvOp raft_tok list \<Rightarrow> int) \<Rightarrow> shardKV \<Rightarrow> skvOp \<Rightarrow> int \<Rightarrow> shardKV res" where
  "skv_snapshotIfNeeded bytes_len kv x index =
     (if skv_maxraftstate kv \<noteq> -1 \<and> (sk_NeedSendBackCh x = False \<or>
           RaftStateSize bytes_len (persister (skv_rf kv)) \<ge> skv_maxraftstate kv)
      then res_bind (SnapshotCall (skv_rf kv) index (skv_makeSnapshot kv)) (\<lambda>rf. Inr (kv\<lparr>skv_rf := rf\<rparr>))
      else Inr kv)"

definition skv_answerOp ::
  "shardKV \<Rightarrow> skvOp \<Rightarrow> skvReplyMsg \<Rightarrow> (shardKV \<times> (nat \<times> skvReplyMsg) option) res" where
  "skv_answerOp kv x reply =
     (let reply = (if \<not> snd (GetState (skv_rf kv)) then reply\<lparr>sm_Error := SkErrWrongLeader\<rparr> else reply)
      in if sk_NeedSendBackCh x \<and> skv_opChannelMatch kv x then skv_signalStartCh kv x reply
         else Inr (kv, None))"

definition skv_handleCommandApply ::
  "(skvOp raft_tok list \<Rightarrow> int) \<Rightarrow> shardKV \<Rightarrow> (skvOp, skv_tok) applyMsg \<Rightarrow>
   (shardKV \<times> (nat \<times> skvReplyMsg) option) res" where
  "skv_handleCommandApply bytes_len kv m =
     (case Command m of
        Cmd x \<Rightarrow>
          res_bind (skv_executeOp (skv_gid kv) (skv_state kv) x) (\<lambda>(st, reply).
          res_bind (skv_snapshotIfNeeded bytes_len (kv\<lparr>skv_state := st\<rparr>) x (CommandIndex m)) (\<lambda>kv1.
            skv_answerOp kv1 x reply))
      | _ \<Rightarrow> Inl TypeAssertion)"

definition skv_handleApplyMessage ::
  "(skvOp raft_tok list \<Rightarrow> int) \<Rightarrow> shardKV \<Rightarrow> (skvOp, skv_tok) applyMsg \<Rightarrow>
   (shardKV \<times> (nat \<times> skvReplyMsg) option) res" where
  "skv_handleApplyMessage bytes_len kv m =
     (if SnapshotValid m
      then if CondInstallSnapshot (skv_rf kv) (SnapshotTerm m) (SnapshotIndex m) (Snapshot m)
           then res_bind (skv_installSnapshot kv (Snapshot m)) (\<lambda>kv'. Inr (kv', None))
           else Inr (kv, None)
      else if CommandValid m then skv_handleCommandApply bytes_len kv m
      else if CommandIndex m \<noteq> 0
      then Inl (GoPanic ''not snapshot, not command, and index not 0'')
      else Inr (kv, None))"

text \<open>A server does not read its snapshot when it starts; Raft sends it over \<open>applyCh\<close>.\<close>

definition skv_StartServer ::
  "env \<Rightarrow> nat \<Rightarrow> int \<Rightarrow> (skvOp, skv_tok) persister \<Rightarrow> int \<Rightarrow> int \<Rightarrow> shardKV res" where
  "skv_StartServer ev servers self ps maxraft gid =
     res_bind (Make ev servers self ps) (\<lambda>rf.
       Inr \<lparr>skv_me = self, skv_rf = rf, skv_gid = gid, skv_maxraftstate = maxraft,
            skv_state = skv_makeState, skv_startChannels = Map.empty, skv_nextChan = 0,
            skv_closedChans = []\<rparr>)"

definition SKVKill :: "shardKV \<Rightarrow> shardKV" where
  "SKVKill kv = kv\<lparr>skv_rf := Kill (skv_rf kv)\<rparr>"

section \<open>Following the configurations\<close>

definition skv_emptyOp :: skvOp where
  "skv_emptyOp = \<lparr>sk_ServerId = 0, sk_OpIndex = 0, sk_ClientId = 0, sk_RequestIndex = 0,
     sk_Type = SkOther '''', sk_NeedSendBackCh = False, sk_Key = '''', sk_Value = '''',
     sk_ShardConfig = zeroConfig, sk_ShardId = 0, sk_ShardConfigNum = 0, sk_ShardData = Map.empty,
     sk_ClientLast = []\<rparr>"

definition createInstallShardConfigOp :: "shardKV \<Rightarrow> config \<Rightarrow> skvOp" where
  "createInstallShardConfigOp kv shardConfig =
     skv_emptyOp\<lparr>sk_ServerId := skv_me kv, sk_Type := InstallShardConfig, sk_NeedSendBackCh := False,
       sk_ShardConfig := shardConfig\<rparr>"

text \<open>
  One round: the operation that it starts, if any, and the round itself; \<open>query\<close> is what the
  controller answers to \<open>Query\<close>. The round takes no lock but for the look at the shards, and
  the server may apply more of its log meanwhile: \<open>kv0\<close> is the server when the shards are
  checked, \<open>kv1\<close> when the number to ask for is read, \<open>kv2\<close> when the answer is there.
\<close>

definition configTickerOp :: "(int \<Rightarrow> config) \<Rightarrow> shardKV \<Rightarrow> shardKV \<Rightarrow> shardKV \<Rightarrow> skvOp option res" where
  "configTickerOp query kv0 kv1 kv2 =
     (if \<not> snd (GetState (skv_rf kv0)) then Inr None
      else res_bind (allShardsUpToDate (skv_gid kv0) (skv_state kv0)) (\<lambda>(l, allUpToDate).
        if \<not> allUpToDate then Inr None
        else
          let newConfig = query (Num (LatestConfig (skv_state kv1)) + 1) in
          if Num newConfig \<noteq> Num (LatestConfig (skv_state kv2)) + 1 then Inr None
          else if snd (GetState (skv_rf kv2)) then Inr (Some (createInstallShardConfigOp kv2 newConfig))
          else Inr None))"

definition shardConfigTicker :: "(int \<Rightarrow> config) \<Rightarrow> shardKV \<Rightarrow> shardKV \<Rightarrow> shardKV \<Rightarrow> shardKV res" where
  "shardConfigTicker query kv0 kv1 kv2 =
     res_bind (configTickerOp query kv0 kv1 kv2) (\<lambda>p.
       case p of
         None \<Rightarrow> Inr kv2
       | Some x \<Rightarrow> Inr (kv2\<lparr>skv_rf := snd (Start (skv_rf kv2) (Cmd x))\<rparr>))"

section \<open>Handing over shards\<close>

record acquireShardArgs =
  as_Gid :: int
  as_ConfigNum :: int
  as_ShardIndex :: int

record acquireShardReply =
  ar_ConfigNum :: int
  ar_ShardTimestamp :: int
  ar_Error :: acquireShardErr
  ar_ShardData :: kvstore
  ar_ClientLastRequest :: "int \<rightharpoonup> int"

definition createAcquireShards :: "shardKV \<Rightarrow> int \<Rightarrow> config \<Rightarrow> acquireShardArgs" where
  "createAcquireShards kv sid targetConfig =
     \<lparr>as_Gid = skv_gid kv, as_ConfigNum = Num targetConfig, as_ShardIndex = sid\<rparr>"

text \<open>
  The receiver of the RPC, on the server's state machine; \<open>isLdr\<close> is the answer of
  \<open>GetState\<close>.
\<close>

definition acquire_reply :: "bool \<Rightarrow> skvState \<Rightarrow> acquireShardArgs \<Rightarrow> acquireShardReply" where
  "acquire_reply isLdr st args =
     (let reply = \<lparr>ar_ConfigNum = 0, ar_ShardTimestamp = 0, ar_Error = ASFiller,
                   ar_ShardData = Map.empty, ar_ClientLastRequest = Map.empty\<rparr> in
      if \<not> isLdr then reply\<lparr>ar_Error := ASWrongLeader\<rparr>
      else if Num (LatestConfig st) = 0 \<or> Num (LatestConfig st) < as_ConfigNum args
      then reply\<lparr>ar_Error := ASBehind\<rparr>
      else \<lparr>ar_ConfigNum = Num (LatestConfig st),
            ar_ShardTimestamp = go_get (ShardTimestamp st) (as_ShardIndex args),
            ar_Error = ASOK,
            ar_ShardData = skv_clone (case ShardKVStore st (as_ShardIndex args) of
                                        None \<Rightarrow> Map.empty | Some s \<Rightarrow> s),
            ar_ClientLastRequest = skv_ClientLastRequest st\<rparr>)"

definition AcquireShards :: "shardKV \<Rightarrow> acquireShardArgs \<Rightarrow> acquireShardReply" where
  "AcquireShards kv args = acquire_reply (snd (GetState (skv_rf kv))) (skv_state kv) args"

text \<open>
  The map of requests goes into the operation in the order \<open>clients\<close> in which Go ranges
  over it.
\<close>

definition createAcquireShardOp :: "int list \<Rightarrow> int \<Rightarrow> int \<Rightarrow> acquireShardReply \<Rightarrow> skvOp" where
  "createAcquireShardOp clients self sid reply =
     skv_emptyOp\<lparr>sk_ServerId := self, sk_Type := AcquireShard, sk_NeedSendBackCh := False,
       sk_ShardId := sid, sk_ShardConfigNum := ar_ConfigNum reply, sk_ShardData := ar_ShardData reply,
       sk_ClientLast := map (\<lambda>c. (c, go_get (ar_ClientLastRequest reply) c)) clients\<rparr>"

definition handleAcquireShardReply ::
  "int list \<Rightarrow> shardKV \<Rightarrow> int \<Rightarrow> acquireShardReply \<Rightarrow> shardKV" where
  "handleAcquireShardReply clients kv sid reply =
     (if \<not> snd (GetState (skv_rf kv)) then kv
      else kv\<lparr>skv_rf := snd (Start (skv_rf kv) (Cmd (createAcquireShardOp clients (skv_me kv) sid reply)))\<rparr>)"

text \<open>
  The loop over the servers of the previous owner, and the whole call; \<open>call args si\<close> is the
  outcome of the RPC to server number \<open>si\<close>. The loop runs without the lock: \<open>kv0\<close> is the server
  before it, \<open>kv1\<close> after it.
\<close>

fun acquire_loop :: "(nat \<Rightarrow> acquireShardReply option) \<Rightarrow> nat list \<Rightarrow> acquireShardReply option res" where
  "acquire_loop call [] = Inr None"
| "acquire_loop call (si # rest) =
     (case call si of
        None \<Rightarrow> acquire_loop call rest
      | Some reply \<Rightarrow>
          if ar_Error reply = ASFiller
          then Inl (LogFatal ''In acquireShards(), reply.Error is ASFiller, shall not happen'')
          else if ar_Error reply = ASOK then Inr (Some reply)
          else acquire_loop call rest)"

definition acquireShards ::
  "int list \<Rightarrow> (acquireShardArgs \<Rightarrow> nat \<Rightarrow> acquireShardReply option) \<Rightarrow> shardKV \<Rightarrow> shardKV \<Rightarrow> int \<Rightarrow> config \<Rightarrow>
   shardKV res" where
  "acquireShards clients call kv0 kv1 sid targetConfig =
     (let args = createAcquireShards kv0 sid targetConfig in
      res_bind (go_index (Shards targetConfig) sid) (\<lambda>gid.
      let servers = (case map_of (Groups targetConfig) gid of None \<Rightarrow> [] | Some s \<Rightarrow> s) in
      res_bind (acquire_loop (call args) [0..<length servers]) (\<lambda>r.
        case r of
          None \<Rightarrow> Inr kv1
        | Some reply \<Rightarrow> Inr (handleAcquireShardReply clients kv1 sid reply))))"

text \<open>
  One round of the ticker: the shards to ask for, and the configuration to ask under, which
  is read after the lock is released (\<open>kv1\<close>).
\<close>

definition acquireShardTicker :: "shardKV \<Rightarrow> shardKV \<Rightarrow> (int \<times> config) list res" where
  "acquireShardTicker kv0 kv1 =
     (if \<not> snd (GetState (skv_rf kv0)) then Inr []
      else res_bind (allShardsUpToDate (skv_gid kv0) (skv_state kv0)) (\<lambda>(laggingShards, allShardsSynced).
        if \<not> allShardsSynced
        then res_bind (go_index (AllConfigs (skv_state kv1)) (int (length (AllConfigs (skv_state kv1))) - 2))
               (\<lambda>targetConfig. Inr (map (\<lambda>sid. (sid, targetConfig)) laggingShards))
        else Inr []))"

end
