(* ===== verification/SKV_Shards.thy ===== *)
theory SKV_Shards
  imports SKV_Server SC_Server
begin

text \<open>
  How groups of shardkv work together, and with the shard controller: when a group leaves a
  configuration, what is handed over with a shard, and the ways in which the code loses or
  repeats a write or stops serving.
\<close>

section \<open>Leaving a configuration\<close>

text \<open>What a controller with state \<open>sc\<close> answers to \<open>Query\<close>.\<close>

definition answers :: "scState \<Rightarrow> (int \<Rightarrow> config) \<Rightarrow> bool" where
  "answers sc query \<longleftrightarrow> history_ok (Configs sc) \<and>
     (\<forall>n x. so_Type x = QUERY \<longrightarrow> so_Num x = n \<longrightarrow> sc_getValue sc x = Inr (query n))"

lemma answers_spec:
  assumes "answers sc query"
  shows "0 \<le> n \<Longrightarrow> Num (query n) \<le> n" "length (Shards (query n)) = NShards"
proof -
  let ?cs = "Configs sc"
  obtain x :: scOp where x: "so_Type x = QUERY" "so_Num x = n"
    by (metis scOp.select_convs(3) scOp.select_convs(8))
  have h: "history_ok ?cs" "?cs \<noteq> []" using assms by (auto simp: answers_def history_ok_def)
  with assms x sc_getValue_ok [OF h(2) x(1)] have q:
    "query n = (if 0 \<le> n \<and> n < int (length ?cs) then ?cs ! nat n else last ?cs)"
    by (auto simp: answers_def)
  have at: "Num (?cs ! i) = int i \<and> length (Shards (?cs ! i)) = NShards" if "i < length ?cs" for i
    using h(1) that by (simp add: history_ok_def valid_config_def)
  from at [of "length ?cs - 1"] at [of "nat n"] h(2)
  show "0 \<le> n \<Longrightarrow> Num (query n) \<le> n" "length (Shards (query n)) = NShards"
    unfolding q by (auto simp: last_conv_nth nat_less_iff)
qed

text \<open>
  The log of a group. A request or a shard may be appended at any time; a configuration is
  appended by a leader that has applied some prefix of the log when it checks its shards, and
  that is in the same configuration when it reads the number to ask for.
\<close>

inductive skv_log :: "int \<Rightarrow> skvOp list \<Rightarrow> bool" for gid where
  empty: "skv_log gid []"
| request: "skv_log gid L \<Longrightarrow> client_op x \<Longrightarrow> skv_log gid (L @ [x])"
| shard: "skv_log gid L \<Longrightarrow> skv_log gid (L @ [createAcquireShardOp clients self sid reply])"
| config: "skv_log gid L \<Longrightarrow> skv_gid kv0 = gid \<Longrightarrow>
    skv_run gid skv_makeState (take k L) = Inr (skv_state kv0) \<Longrightarrow>
    LatestConfig (skv_state kv1) = LatestConfig (skv_state kv0) \<Longrightarrow> answers sc query \<Longrightarrow>
    configTickerOp query kv0 kv1 kv2 = Inr (Some x) \<Longrightarrow> skv_log gid (L @ [x])"

text \<open>What the ticker starts is a configuration, after a check of the shards.\<close>

lemma configTickerOp_Some:
  assumes "configTickerOp query kv0 kv1 kv2 = Inr (Some x)"
  shows "lagging (skv_gid kv0) (skv_state kv0) = []" "\<not> sk_NeedSendBackCh x" "sk_Type x = InstallShardConfig"
    "sk_ShardConfig x = query (Num (LatestConfig (skv_state kv1)) + 1)"
  using assms
  by (auto simp: configTickerOp_def createInstallShardConfigOp_def skv_emptyOp_def Let_def split: if_splits)

definition is_install :: "skvOp \<Rightarrow> bool" where
  "is_install x \<longleftrightarrow> \<not> sk_NeedSendBackCh x \<and> sk_Type x = InstallShardConfig"

lemma createAcquireShardOp_ok:
  "skv_op_ok (createAcquireShardOp clients self sid reply)" "\<not> is_install (createAcquireShardOp clients self sid reply)"
  by (simp_all add: skv_op_ok_def is_install_def createAcquireShardOp_def skv_emptyOp_def)

lemma client_op_ok: "client_op x \<Longrightarrow> skv_op_ok x" "client_op x \<Longrightarrow> \<not> is_install x"
  by (simp_all add: skv_op_ok_def is_install_def client_op_def)

lemma skv_log_ops: "skv_log gid L \<Longrightarrow> \<forall>x \<in> set L. skv_op_ok x"
proof (induction rule: skv_log.induct)
  case (config L kv0 k kv1 sc query kv2 x)
  from configTickerOp_Some [OF config.hyps(6)] answers_spec(2) [OF config.hyps(5)]
  have "skv_op_ok x" by (simp add: skv_op_ok_def)
  with config show ?case by simp
qed (auto simp: createAcquireShardOp_ok client_op_ok)

text \<open>Behind every configuration of the log there is an earlier complete state.\<close>

definition backed :: "int \<Rightarrow> skvOp list \<Rightarrow> nat \<Rightarrow> bool" where
  "backed gid L i \<longleftrightarrow> (\<exists>k \<le> i. \<exists>st. skv_run gid skv_makeState (take k L) = Inr st \<and>
     lagging gid st = [] \<and> Num (sk_ShardConfig (L ! i)) \<le> Num (LatestConfig st) + 1)"

lemma backed_snoc: "i < length L \<Longrightarrow> backed gid (L @ [x]) i \<longleftrightarrow> backed gid L i"
  by (auto simp: backed_def nth_append intro!: ex_cong1)

lemma skv_log_configs: "skv_log gid L \<Longrightarrow> \<forall>i < length L. is_install (L ! i) \<longrightarrow> backed gid L i"
proof (induction rule: skv_log.induct)
  case (config L kv0 k kv1 sc query kv2 x)
  let ?st = "skv_state kv0" and ?k = "min k (length L)"
  from skv_run_total [OF skv_makeState_inv, of "take k L" gid] skv_log_ops [OF config.hyps(1)] config.hyps(3)
  have "skv_inv gid ?st" by (auto dest: in_set_takeD)
  from skv_inv_latest [OF this] have "0 \<le> Num (LatestConfig ?st) + 1" by simp
  with answers_spec(1) [OF config.hyps(5)] configTickerOp_Some [OF config.hyps(6)] config.hyps(2,4)
  have "Num (sk_ShardConfig x) \<le> Num (LatestConfig ?st) + 1" "lagging gid ?st = []" by auto
  moreover have "take ?k (L @ [x]) = take k L" by (simp add: min_def)
  ultimately have "backed gid (L @ [x]) (length L)"
    using config.hyps(3) unfolding backed_def by (intro exI [of _ ?k]) simp
  with config.IH show ?case by (auto simp: nth_append less_Suc_eq backed_snoc)
qed (auto simp: nth_append less_Suc_eq createAcquireShardOp_ok client_op_ok backed_snoc)

text \<open>A complete state stays complete as long as its configuration stands.\<close>

lemma lagging_mono:
  assumes "skv_le st st'" "AllConfigs st' = AllConfigs st" "lagging gid st = []"
  shows "lagging gid st' = []"
proof -
  have "s \<notin> set (lagging gid st')" for s
  proof
    assume "s \<in> set (lagging gid st')"
    with assms(1,2) have "s \<in> set (lagging gid st)"
      by (auto simp: lagging_iff skv_le_def intro: order.strict_trans1)
    with assms(3) show False by simp
  qed
  then show ?thesis by (cases "lagging gid st'") auto
qed

lemma gated:
  assumes log: "skv_log gid (A @ x # B)" and x: "is_install x"
    and st: "skv_run gid skv_makeState A = Inr st" and num: "Num (sk_ShardConfig x) = Num (LatestConfig st) + 1"
  shows "lagging gid st = []"
proof -
  let ?L = "A @ x # B"
  from skv_log_configs [OF log] x have "backed gid ?L (length A)"
    by (auto simp: nth_append dest!: spec [of _ "length A"])
  then obtain k p where k: "k \<le> length A" "skv_run gid skv_makeState (take k A) = Inr p" "lagging gid p = []"
    "Num (sk_ShardConfig x) \<le> Num (LatestConfig p) + 1"
    by (auto simp: backed_def nth_append)
  have ops: "\<forall>y \<in> set (take k A). skv_op_ok y" "\<forall>y \<in> set (drop k A). skv_op_ok y"
    using skv_log_ops [OF log] by (auto dest: in_set_takeD in_set_dropD)
  from skv_run_total [OF skv_makeState_inv ops(1), of gid] k(2) have p: "skv_inv gid p" by auto
  have "skv_run gid p (drop k A) = Inr st"
    using st k(2) skv_run_append [of gid skv_makeState "take k A" "drop k A"] by simp
  with skv_run_total [OF p ops(2)] have le: "skv_le p st" "skv_inv gid st" by auto
  then obtain cs where cs: "AllConfigs st = AllConfigs p @ cs" by (auto simp: skv_le_def)
  have "int (length (AllConfigs st)) \<le> int (length (AllConfigs p))"
    using k(4) num skv_inv_latest(2) [OF p] skv_inv_latest(2) [OF le(2)] by simp
  with cs have "AllConfigs st = AllConfigs p" by simp
  from lagging_mono [OF le(1) this k(3)] show ?thesis .
qed

section \<open>Handing over a shard\<close>

lemma getValueWithKey_acquired:
  assumes "go_get (ShardTimestamp st) (sk_ShardId x) < sk_ShardConfigNum x"
  shows "getValueWithKey (handleAcquireShard st x) k =
    (if key2shard k = sk_ShardId x then sk_ShardData x k else getValueWithKey st k)"
  using assms by (simp add: getValueWithKey_def handleAcquireShard_def Let_def)

lemma acquire_reply_data:
  assumes "ar_Error (acquire_reply ldr sender args) = ASOK"
  shows "key2shard k = as_ShardIndex args \<Longrightarrow>
      ar_ShardData (acquire_reply ldr sender args) k = getValueWithKey sender k"
    "ar_ConfigNum (acquire_reply ldr sender args) = Num (LatestConfig sender)"
    "ar_ClientLastRequest (acquire_reply ldr sender args) = skv_ClientLastRequest sender"
    "as_ConfigNum args \<le> Num (LatestConfig sender)"
  using assms
  by (auto simp: acquire_reply_def getValueWithKey_def Let_def split: if_splits option.splits)

lemma handed_over_seen:
  assumes "set clients = dom (skv_ClientLastRequest sender)"
    "ar_ClientLastRequest r = skv_ClientLastRequest sender"
    "seen (skv_ClientLastRequest sender) c rq" "0 < go_get (skv_ClientLastRequest sender) c"
  shows "seen (skv_ClientLastRequest (handleAcquireShard st (createAcquireShardOp clients self sid r))) c rq"
proof -
  let ?i = "go_get (skv_ClientLastRequest sender) c"
  have rq: "rq \<le> ?i" using assms(3) by (simp add: seen_def go_get_def split: option.splits)
  have "c \<in> set clients" using assms(1,3) by (auto simp: seen_def split: option.splits)
  then have "(c, ?i) \<in> set (map (\<lambda>c. (c, go_get (ar_ClientLastRequest r) c)) clients)"
    by (simp add: assms(2))
  from merge_requests_ge [OF this] rq assms(4) show ?thesis
    by (auto simp: handleAcquireShard_def createAcquireShardOp_def skv_emptyOp_def Let_def
        intro!: seen_go_get intro: order_trans order.strict_trans2)
qed

section \<open>After a configuration with an orphan\<close>

text \<open>
  What \<open>acquireShards\<close> starts when it gets the shard \<open>sid\<close> from one of the servers that held it in
  \<open>c\<close>, if it does.
\<close>

definition acquireOp :: "int list \<Rightarrow> (acquireShardArgs \<Rightarrow> nat \<Rightarrow> acquireShardReply option) \<Rightarrow> shardKV \<Rightarrow> int \<Rightarrow>
  int \<Rightarrow> config \<Rightarrow> skvOp option res" where
  "acquireOp clients call kv0 self sid c =
     res_bind (go_index (Shards c) sid) (\<lambda>gid.
       let servers = (case map_of (Groups c) gid of None \<Rightarrow> [] | Some s \<Rightarrow> s) in
       res_bind (acquire_loop (call (createAcquireShards kv0 sid c)) [0..<length servers]) (\<lambda>r.
         Inr (map_option (createAcquireShardOp clients self sid) r)))"

lemma acquireShards_acquireOp:
  "acquireShards clients call kv0 kv1 sid c =
     res_bind (acquireOp clients call kv0 (skv_me kv1) sid c) (\<lambda>p.
       case p of
         None \<Rightarrow> Inr kv1
       | Some x \<Rightarrow> Inr (if \<not> snd (GetState (skv_rf kv1)) then kv1
                       else kv1\<lparr>skv_rf := snd (Start (skv_rf kv1) (Cmd x))\<rparr>))"
  by (auto simp: acquireShards_def acquireOp_def handleAcquireShardReply_def res_bind_assoc Let_def
      intro!: res_bind_cong split: option.splits)

text \<open>
  The part of the log of a group that follows a state \<open>st0\<close>, if the rounds of the tickers that
  append to it began when the log had been applied up to \<open>st0\<close> at least. Each look of a round at
  the state sees some prefix of the log applied; clients, controller and network do as they
  like.
\<close>

inductive log_from :: "int \<Rightarrow> skvState \<Rightarrow> skvOp list \<Rightarrow> bool" for gid st0 where
  empty: "log_from gid st0 []"
| request: "log_from gid st0 L \<Longrightarrow> client_op x \<Longrightarrow> log_from gid st0 (L @ [x])"
| shard: "log_from gid st0 L \<Longrightarrow> skv_gid kv0 = gid \<Longrightarrow>
    skv_run gid st0 (take i L) = Inr (skv_state kv0) \<Longrightarrow>
    skv_run gid st0 (take j L) = Inr (skv_state kv1) \<Longrightarrow>
    acquireShardTicker kv0 kv1 = Inr ts \<Longrightarrow> (sid, c) \<in> set ts \<Longrightarrow>
    acquireOp clients call kv2 self sid c = Inr (Some x) \<Longrightarrow> log_from gid st0 (L @ [x])"
| config: "log_from gid st0 L \<Longrightarrow> skv_gid kv0 = gid \<Longrightarrow>
    skv_run gid st0 (take i L) = Inr (skv_state kv0) \<Longrightarrow>
    configTickerOp query kv0 kv1 kv2 = Inr (Some x) \<Longrightarrow> log_from gid st0 (L @ [x])"

text \<open>Operations that do not bring the shard \<open>sid\<close>, and a state from which it stays away.\<close>

definition harmless :: "int \<Rightarrow> skvOp \<Rightarrow> bool" where
  "harmless sid x \<longleftrightarrow> client_op x \<or>
     (\<exists>clients self s r. x = createAcquireShardOp clients self s r \<and> s \<noteq> sid)"

definition missing_in :: "int \<Rightarrow> skvState \<Rightarrow> int \<Rightarrow> skvState \<Rightarrow> bool" where
  "missing_in gid st0 sid st \<longleftrightarrow> skv_inv gid st \<and> AllConfigs st = AllConfigs st0 \<and>
     LatestConfig st = LatestConfig st0 \<and> sid \<in> set (lagging gid st)"

lemma missing_refuses:
  assumes "missing_in gid st0 sid st" "client_op x"
  shows "\<exists>r. skv_executeOp gid st x = Inr (st, r) \<and> sm_Error r \<in> {SkErrWrongGroup, SkErrNotUpToDate}"
  using assms skv_executeOp_client [OF skv_inv_latest(1), of gid st x]
  by (cases "lagging gid st") (auto simp: missing_in_def)

lemma harmless_step:
  assumes "missing_in gid st0 sid st" "harmless sid x"
  shows "\<exists>st'. skv_app gid st x = Inr st' \<and> missing_in gid st0 sid st'"
proof (cases "client_op x")
  case True
  from missing_refuses [OF assms(1) True] obtain r where "skv_executeOp gid st x = Inr (st, r)" by blast
  with assms(1) show ?thesis by (auto simp: skv_app_def)
next
  case False
  with assms(2) obtain clients self s r where x: "x = createAcquireShardOp clients self s r" "s \<noteq> sid"
    by (auto simp: harmless_def)
  let ?st = "handleAcquireShard st x"
  have app: "skv_app gid st x = Inr ?st"
    by (simp add: skv_app_def skv_executeOp_def x(1) createAcquireShardOp_def skv_emptyOp_def)
  have "skv_inv gid ?st"
    using skv_executeOp_total [of gid st x] createAcquireShardOp_ok(1) [of clients self s r] app assms(1)
    by (auto simp: skv_app_def missing_in_def x(1))
  moreover have "AllConfigs ?st = AllConfigs st" "LatestConfig ?st = LatestConfig st"
    "go_get (ShardTimestamp ?st) sid = go_get (ShardTimestamp st) sid"
    using x by (auto simp: handleAcquireShard_def createAcquireShardOp_def skv_emptyOp_def go_get_def Let_def)
  ultimately show ?thesis using assms(1) app by (auto simp: missing_in_def lagging_iff)
qed

lemma harmless_run:
  assumes "missing_in gid st0 sid st" "\<forall>x \<in> set xs. harmless sid x"
  shows "\<exists>st'. skv_run gid st xs = Inr st' \<and> missing_in gid st0 sid st'"
  using assms
proof (induction xs arbitrary: st)
  case (Cons x xs)
  then obtain st1 where "skv_app gid st x = Inr st1" "missing_in gid st0 sid st1"
    using harmless_step [of gid st0 sid st x] by auto
  with Cons show ?case by (auto simp: skv_run_def)
qed (simp add: skv_run_def)

text \<open>The configuration before the latest one has no server that could hand over the shard.\<close>

definition orphan :: "int \<Rightarrow> skvState \<Rightarrow> int \<Rightarrow> bool" where
  "orphan gid st sid \<longleftrightarrow> sid \<in> set (lagging gid st) \<and>
     (let prev = AllConfigs st ! (length (AllConfigs st) - 2) in
      map_of (Groups prev) (Shards prev ! nat sid) \<in> {None, Some []})"

lemma acquireShardTicker_config:
  assumes "acquireShardTicker kv0 kv1 = Inr ts" "(sid, c) \<in> set ts"
  shows "go_index (AllConfigs (skv_state kv1)) (int (length (AllConfigs (skv_state kv1))) - 2) = Inr c"
  using assms by (auto simp: acquireShardTicker_def split: if_splits prod.splits)

lemma orphan_log_harmless:
  assumes "log_from gid st0 L" "skv_inv gid st0" "orphan gid st0 sid"
  shows "\<forall>x \<in> set L. harmless sid x"
  using assms(1)
proof (induction rule: log_from.induct)
  case (request L x)
  then show ?case by (simp add: harmless_def)
next
  case (shard L kv0 i j kv1 ts s c clients call kv2 self x)
  have start: "missing_in gid st0 sid st0" using assms(2,3) by (simp add: missing_in_def orphan_def)
  have "\<forall>x \<in> set (take j L). harmless sid x" using shard.IH by (auto dest: in_set_takeD)
  from harmless_run [OF start this] shard.hyps(4) have "AllConfigs (skv_state kv1) = AllConfigs st0"
    by (simp add: missing_in_def)
  with acquireShardTicker_config [OF shard.hyps(5,6)]
  have c: "c = AllConfigs st0 ! (length (AllConfigs st0) - 2)"
    by (auto simp: go_index_def nat_diff_distrib split: if_splits)
  from shard.hyps(7) obtain g r where g: "go_index (Shards c) s = Inr g"
    "acquire_loop (call (createAcquireShards kv2 s c))
       [0..<length (case map_of (Groups c) g of None \<Rightarrow> [] | Some s \<Rightarrow> s)] = Inr (Some r)"
    "x = createAcquireShardOp clients self s r"
    by (auto simp: acquireOp_def Let_def)
  have "s \<noteq> sid"
  proof
    assume "s = sid"
    with g(1) have "g = Shards c ! nat sid" by (simp add: go_index_def split: if_splits)
    with g(2) assms(3) c show False by (auto simp: orphan_def Let_def)
  qed
  with g(3) have "harmless sid x" unfolding harmless_def by blast
  with shard.IH show ?case by simp
next
  case (config L kv0 i query kv1 kv2 x)
  have start: "missing_in gid st0 sid st0" using assms(2,3) by (simp add: missing_in_def orphan_def)
  have "\<forall>x \<in> set (take i L). harmless sid x" using config.IH by (auto dest: in_set_takeD)
  from harmless_run [OF start this] config.hyps(3) have "sid \<in> set (lagging gid (skv_state kv0))"
    by (simp add: missing_in_def)
  with configTickerOp_Some(1) [OF config.hyps(4)] config.hyps(2) show ?case by simp
qed simp

section \<open>Examples\<close>

text \<open>A server of group \<open>g\<close> that leads, with state \<open>st\<close>; configurations that move one shard.\<close>

definition ex_kv :: "int \<Rightarrow> skvState \<Rightarrow> shardKV" where
  "ex_kv g st = \<lparr>skv_me = 0,
     skv_rf = (fresh_raft \<lparr>now = 0, rnd = 0\<rparr> 3 0 MakePersister)\<lparr>status := Leader, currentTerm := 1\<rparr>,
     skv_gid = g, skv_maxraftstate = -1, skv_state = st, skv_startChannels = Map.empty, skv_nextChan = 0,
     skv_closedChans = []\<rparr>"

definition one_to :: "int \<Rightarrow> int \<Rightarrow> config" where
  "one_to n g = \<lparr>Num = n, Shards = (replicate NShards 9)[7 := g], Groups = [(1, [''a'']), (2, [''b'']), (3, [''c'']), (9, [''d''])]\<rparr>"

definition ex_move :: "int \<Rightarrow> int \<Rightarrow> skvOp" where
  "ex_move n g = skv_emptyOp\<lparr>sk_Type := InstallShardConfig, sk_ShardConfig := one_to n g\<rparr>"

definition ex_req :: "skvOpType \<Rightarrow> int \<Rightarrow> string \<Rightarrow> skvOp" where
  "ex_req t i v = ex_op\<lparr>sk_Type := t, sk_RequestIndex := i, sk_Value := v\<rparr>"

text \<open>The shard of key \<open>k\<close>, asked for under configuration \<open>n\<close> and received from \<open>sender\<close>.\<close>

definition ex_shard :: "int \<Rightarrow> skvState \<Rightarrow> skvOp" where
  "ex_shard n sender = createAcquireShardOp [7] 0 7
     (acquire_reply True sender \<lparr>as_Gid = 0, as_ConfigNum = n, as_ShardIndex = 7\<rparr>)"

lemma ex_leads [simp]: "snd (GetState (skv_rf (ex_kv g st)))" "skv_gid (ex_kv g st) = g" "skv_state (ex_kv g st) = st"
  by (simp_all add: ex_kv_def GetState_def fresh_raft_def)

text \<open>The states of the groups in the scenarios.\<close>

definition run_to :: "int \<Rightarrow> skvOp list \<Rightarrow> skvState" where
  "run_to g xs = projr (skv_run g skv_makeState xs)"

lemma run_to_Inr: "\<not> isl (skv_run g skv_makeState xs) \<Longrightarrow> skv_run g skv_makeState xs = Inr (run_to g xs)"
  by (simp add: run_to_def)

definition lw_A :: skvState where
  "lw_A = run_to 1 [ex_move 1 1, ex_req SkPUT 1 ''a'', ex_move 2 2, ex_move 3 3, ex_move 4 2]"

definition lw_B :: "skvOp list" where
  "lw_B = [ex_move 1 1, ex_move 2 2, ex_shard 1 lw_A, ex_move 3 3]"

definition lw_C :: "skvOp list" where
  "lw_C = [ex_move 1 1, ex_move 2 2, ex_move 3 3, ex_shard 2 (run_to 2 lw_B)]"

text \<open>A log in which every configuration is left complete.\<close>

definition left_complete :: "int \<Rightarrow> skvOp list \<Rightarrow> bool" where
  "left_complete g xs \<longleftrightarrow>
     list_all (\<lambda>k. is_install (xs ! k) \<longrightarrow> lagging g (run_to g (take k xs)) = []) [0..<length xs]"

section \<open>Properties\<close>

text \<open>
  C29. A group never leaves a configuration half-way. If the ticker reads the number to ask
  for in the configuration in which it found all shards present, and the controller has a
  history of valid configurations (as Join and Leave make it; a Move to a group that does not
  exist breaks it), then whatever the order in which leaders propose, requests arrive and
  shards are received: when a configuration of the log takes effect, every shard that the group
  owned until then has a time stamp of that configuration. (So a shard that it keeps is rightly
  stamped as present in the new one. The stamp does not say that the data is the latest: see the
  lost write below.)
\<close>

theorem skv_leaves_complete:
  assumes "skv_log gid (A @ x # B)" "is_install x" "skv_run gid skv_makeState A = Inr st"
    "Num (sk_ShardConfig x) = Num (LatestConfig st) + 1"
  shows "lagging gid st = [] \<and> (\<exists>st'. skv_run gid skv_makeState (A @ [x]) = Inr st' \<and>
    LatestConfig st' = sk_ShardConfig x \<and>
    (\<forall>i < NShards. Shards (LatestConfig st') ! i = gid \<longrightarrow> 1 < Num (LatestConfig st') \<longrightarrow>
       Shards (LatestConfig st) ! i = gid \<longrightarrow> int i \<notin> set (lagging gid st')))"
proof -
  have ops: "\<forall>y \<in> set A. skv_op_ok y" "skv_op_ok x" using skv_log_ops [OF assms(1)] by auto
  from skv_run_total [OF skv_makeState_inv ops(1), of gid] assms(3) have inv: "skv_inv gid st" by auto
  have len: "length (Shards (sk_ShardConfig x)) = NShards"
    using ops(2) assms(2) by (auto simp: skv_op_ok_def is_install_def client_op_def)
  from handleInstall_next [OF inv len assms(4)] obtain st' where st': "handleInstallShardConfig gid st x = Inr st'"
    "skv_inv gid st'" "AllConfigs st' = AllConfigs st @ [sk_ShardConfig x]" "LatestConfig st' = sk_ShardConfig x"
    by blast
  have run: "skv_run gid skv_makeState (A @ [x]) = Inr st'"
    using assms(2,3) st'(1)
    by (simp add: skv_run_append) (simp add: skv_run_def skv_app_def skv_executeOp_def is_install_def Let_def)
  have prev: "prevShards st' = Shards (LatestConfig st)"
    using st'(3) skv_invD(2) [OF inv] skv_inv_latest(3) [OF inv]
    by (simp add: prevShards_def nth_append last_conv_nth)
  have "int i \<notin> set (lagging gid st')"
    if "i < NShards" "Shards (LatestConfig st') ! i = gid" "1 < Num (LatestConfig st')"
      "Shards (LatestConfig st) ! i = gid" for i
    using that skv_invD(4) [OF st'(2), of i] prev by (auto simp: lagging_iff)
  with gated [OF assms] run st'(4) show ?thesis by blast
qed

text \<open>The log of a new group 1 whose leader takes configuration 1.\<close>

definition ex_history :: scState where
  "ex_history = \<lparr>Configs = projr (handleJoin [emptyConfig] [(1, [''a''])]), sc_ClientLastRequest = Map.empty\<rparr>"

definition ex_query :: "int \<Rightarrow> config" where
  "ex_query n = (if 0 \<le> n \<and> n < int (length (Configs ex_history)) then Configs ex_history ! nat n
     else last (Configs ex_history))"

lemma ex_history_ok: "history_ok (Configs ex_history)"
proof -
  have "history_ok [emptyConfig]" using config0_ok by (simp add: config0_def emptyConfig_def)
  then obtain c where "handleJoin [emptyConfig] [(1, [''a''])] = Inr ([emptyConfig] @ [c])"
    "history_ok ([emptyConfig] @ [c])"
    by (rule handleJoin_spec [of _ "[(1, [''a''])]"]) simp_all
  then show ?thesis by (simp add: ex_history_def)
qed

lemma ex_answers: "answers ex_history ex_query"
  using ex_history_ok sc_getValue_ok [of ex_history]
  by (auto simp: answers_def ex_query_def history_ok_def)

theorem skv_leaves_complete_witness:
  "lagging 1 skv_makeState = [] \<and> (\<exists>x. Num (sk_ShardConfig x) = 1 \<and> skv_log 1 [x])"
proof -
  let ?kv = "ex_kv 1 skv_makeState"
  let ?x = "createInstallShardConfigOp ?kv (ex_query 1)"
  have lag: "lagging 1 skv_makeState = []" by code_simp
  have num: "Num (ex_query 1) = 1" by code_simp
  have latest: "Num (LatestConfig skv_makeState) = 0" by (simp add: skv_makeState_def zeroConfig_def)
  have x: "sk_ShardConfig ?x = ex_query 1" "is_install ?x"
    by (simp_all add: createInstallShardConfigOp_def skv_emptyOp_def is_install_def)
  have "configTickerOp ex_query ?kv ?kv ?kv = Inr (Some ?x)"
    by (simp add: configTickerOp_def lag latest num)
  from skv_log.config [OF skv_log.empty, of ?kv 1 0 ?kv, OF _ _ _ ex_answers this]
  have log: "skv_log 1 ([] @ ?x # [])" by (simp add: skv_run_def)
  from skv_leaves_complete [OF log x(2), of skv_makeState] have "lagging 1 skv_makeState = []"
    by (simp add: skv_run_def x(1) num latest)
  moreover have "\<exists>x. Num (sk_ShardConfig x) = 1 \<and> skv_log 1 [x]"
    by (rule exI [of _ ?x]) (use log x(1) num in simp)
  ultimately show ?thesis by blast
qed

text \<open>
  C30. What is handed over with a shard. If a leader of the previous owner answers the request
  for a shard, it is in the configuration asked under or a later one; and when the receiver
  executes the operation made of the answer, and its own copy was older: every key of that
  shard then has the value it had at the sender, all other keys keep theirs, the time stamp
  is the number of the sender's configuration, no request that the receiver had executed is
  forgotten, and no request that the sender had executed will be executed again, for every
  client whose last request at the sender had a positive index.
\<close>

theorem shard_handed_over:
  fixes sender st :: skvState and args :: acquireShardArgs and ldr :: bool and clients :: "int list" and self :: int
  defines "r \<equiv> acquire_reply ldr sender args"
  defines "x \<equiv> createAcquireShardOp clients self (as_ShardIndex args) r"
  assumes "ar_Error r = ASOK" "set clients = dom (skv_ClientLastRequest sender)"
    "go_get (ShardTimestamp st) (as_ShardIndex args) < Num (LatestConfig sender)"
  shows "as_ConfigNum args \<le> Num (LatestConfig sender) \<and>
    (\<exists>st' m. skv_executeOp gid st x = Inr (st', m) \<and> LatestConfig st' = LatestConfig st \<and>
      (\<forall>k. getValueWithKey st' k =
         (if key2shard k = as_ShardIndex args then getValueWithKey sender k else getValueWithKey st k)) \<and>
      (\<forall>s. go_get (ShardTimestamp st') s =
         (if s = as_ShardIndex args then Num (LatestConfig sender) else go_get (ShardTimestamp st) s)) \<and>
      (\<forall>c i. seen (skv_ClientLastRequest st) c i \<longrightarrow> seen (skv_ClientLastRequest st') c i) \<and>
      (\<forall>c i. seen (skv_ClientLastRequest sender) c i \<longrightarrow> 0 < go_get (skv_ClientLastRequest sender) c \<longrightarrow>
         seen (skv_ClientLastRequest st') c i))"
proof -
  note data = acquire_reply_data [OF assms(3) [unfolded r_def], folded r_def]
  let ?st = "handleAcquireShard st x"
  have x: "sk_ShardId x = as_ShardIndex args" "sk_ShardConfigNum x = Num (LatestConfig sender)"
    "sk_ShardData x = ar_ShardData r" "\<not> sk_NeedSendBackCh x" "sk_Type x = AcquireShard"
    by (simp_all add: x_def createAcquireShardOp_def skv_emptyOp_def data(2))
  have newer: "go_get (ShardTimestamp st) (sk_ShardId x) < sk_ShardConfigNum x" using assms(5) x by simp
  have 1: "skv_executeOp gid st x = Inr (?st, \<lparr>sm_Error = SkErrFiller, sm_Value = ''''\<rparr>)"
    using x(4,5) by (simp add: skv_executeOp_def Let_def)
  have 2: "getValueWithKey ?st k =
      (if key2shard k = as_ShardIndex args then getValueWithKey sender k else getValueWithKey st k)" for k
    using getValueWithKey_acquired [OF newer, of k] data(1) [of k] x by simp
  have 3: "go_get (ShardTimestamp ?st) s =
      (if s = as_ShardIndex args then Num (LatestConfig sender) else go_get (ShardTimestamp st) s)" for s
    using newer x by (simp add: handleAcquireShard_stamp)
  have 4: "seen (skv_ClientLastRequest ?st) c i" if "seen (skv_ClientLastRequest st) c i" for c i
    using merge_requests_seen [OF that] by (simp add: handleAcquireShard_def Let_def)
  have 5: "seen (skv_ClientLastRequest ?st) c i"
    if "seen (skv_ClientLastRequest sender) c i" "0 < go_get (skv_ClientLastRequest sender) c" for c i
    using handed_over_seen [OF assms(4) data(3) that] by (simp add: x_def)
  from data(4) 1 2 3 4 5 show ?thesis by auto
qed

text \<open>Group 1, where client 7 wrote with index 1, hands its shard to group 2.\<close>

definition ho_sender :: skvState where
  "ho_sender = \<lparr>AllConfigs = [zeroConfig, one_to 1 1, one_to 2 2], LatestConfig = one_to 2 2,
     ShardKVStore = [7 \<mapsto> [''k'' \<mapsto> ''a'']], ShardTimestamp = [7 \<mapsto> 1], skv_ClientLastRequest = [7 \<mapsto> 1]\<rparr>"

definition ho_receiver :: skvState where
  "ho_receiver = run_to 2 [ex_move 1 1, ex_move 2 2]"

theorem shard_handed_over_witness:
  "\<exists>st' m. skv_executeOp 2 ho_receiver (ex_shard 1 ho_sender) = Inr (st', m) \<and>
     getValueWithKey st' ''k'' = Some ''a'' \<and> seen (skv_ClientLastRequest st') 7 1 \<and> 7 \<notin> set (lagging 2 st')"
proof -
  let ?args = "\<lparr>as_Gid = 0, as_ConfigNum = 1, as_ShardIndex = 7\<rparr>"
  have k: "key2shard ''k'' = 7" by (simp add: key2shard_def NShards_def)
  have v: "getValueWithKey ho_sender ''k'' = Some ''a''" by code_simp
  have ok: "ar_Error (acquire_reply True ho_sender ?args) = ASOK" by code_simp
  have lt: "go_get (ShardTimestamp ho_receiver) 7 < Num (LatestConfig ho_sender)" by code_simp
  have eq: "Num (LatestConfig ho_receiver) = Num (LatestConfig ho_sender)" by code_simp
  have s: "seen (skv_ClientLastRequest ho_sender) 7 1" "0 < go_get (skv_ClientLastRequest ho_sender) 7"
    by code_simp+
  have d: "set [7] = dom (skv_ClientLastRequest ho_sender)"
    by (simp add: ho_sender_def)
  show ?thesis
    using shard_handed_over [OF ok, of "[7]" ho_receiver 2 0] d lt k v s eq
    by (auto simp: ex_shard_def lagging_iff)
qed

text \<open>
  C31. A write can be lost. The receiver of a shard stamps it with the number of the sender's
  configuration, which may be later than its own. One shard goes from group 1 to 2 to 3 and
  back to 2 in configurations 1 to 4; group 1 is in configuration 4 when group 2, in
  configuration 2, asks it for the shard. In the end group 3 has acknowledged a write in
  configuration 3, and group 2, which in configuration 4 counts its old copy as present,
  answers a later read with the value from before the write. Every group leaves every
  configuration complete.
\<close>

theorem skv_lost_write:
  "left_complete 1 [ex_move 1 1, ex_req SkPUT 1 ''a'', ex_move 2 2, ex_move 3 3, ex_move 4 2] \<and>
   left_complete 2 (lw_B @ [ex_move 4 2]) \<and>
   left_complete 3 (lw_C @ [ex_req SkPUT 2 ''b'', ex_move 4 2]) \<and>
   (\<exists>sB sC sC' r r' s. skv_run 3 skv_makeState lw_C = Inr sC \<and>
     skv_executeOp 3 sC (ex_req SkPUT 2 ''b'') = Inr (sC', r) \<and> sm_Error r = SkOK \<and>
     skv_run 2 skv_makeState (lw_B @ [ex_move 4 2]) = Inr sB \<and>
     skv_executeOp 2 sB (ex_req SkGET 3 '''') = Inr (s, r') \<and>
     sm_Error r' = SkOK \<and> sm_Value r' = ''a'')"
proof -
  have 1: "skv_run 3 skv_makeState lw_C = Inr (run_to 3 lw_C)"
    "skv_run 2 skv_makeState (lw_B @ [ex_move 4 2]) = Inr (run_to 2 (lw_B @ [ex_move 4 2]))"
    by (rule run_to_Inr, code_simp)+
  have 2: "case skv_executeOp 3 (run_to 3 lw_C) (ex_req SkPUT 2 ''b'') of
      Inr (s, r) \<Rightarrow> sm_Error r = SkOK | _ \<Rightarrow> False" by code_simp
  have 3: "case skv_executeOp 2 (run_to 2 (lw_B @ [ex_move 4 2])) (ex_req SkGET 3 '''') of
      Inr (s, r) \<Rightarrow> sm_Error r = SkOK \<and> sm_Value r = ''a'' | _ \<Rightarrow> False" by code_simp
  have 4: "left_complete 1 [ex_move 1 1, ex_req SkPUT 1 ''a'', ex_move 2 2, ex_move 3 3, ex_move 4 2]"
    "left_complete 2 (lw_B @ [ex_move 4 2])" "left_complete 3 (lw_C @ [ex_req SkPUT 2 ''b'', ex_move 4 2])"
    by code_simp+
  from 1 2 3 4 show ?thesis by (auto split: sum.splits)
qed

text \<open>
  C32. A request can be executed twice. The first request of a client has index 0, and the
  merge of the table of requests compares with \<open><\<close> against the 0 that a missing entry reads
  as, so that it is not handed over: a client whose first Append was executed by group 1 but
  not answered, and that retries at group 2 after the shard has moved, appends twice.
\<close>

definition da_A :: skvState where
  "da_A = run_to 1 [ex_move 1 1, ex_req SkAPPEND 0 ''x'', ex_move 2 2]"

definition da_B :: "skvOp list" where
  "da_B = [ex_move 1 1, ex_move 2 2, ex_shard 1 da_A]"

theorem skv_double_append:
  "getValueWithKey da_A ''k'' = Some ''x'' \<and> left_complete 2 da_B \<and>
   (\<exists>sB sB' r. skv_run 2 skv_makeState da_B = Inr sB \<and> lagging 2 sB = [] \<and>
     skv_executeOp 2 sB (ex_req SkAPPEND 0 ''x'') = Inr (sB', r) \<and> sm_Error r = SkOK \<and>
     getValueWithKey sB' ''k'' = Some ''xx'')"
proof -
  have 0: "skv_run 2 skv_makeState da_B = Inr (run_to 2 da_B)"
    by (rule run_to_Inr) code_simp
  have 1: "getValueWithKey da_A ''k'' = Some ''x''"
    "left_complete 2 da_B" "lagging 2 (run_to 2 da_B) = []" by code_simp+
  have 2: "case skv_executeOp 2 (run_to 2 da_B) (ex_req SkAPPEND 0 ''x'') of
      Inr (s, r) \<Rightarrow> sm_Error r = SkOK \<and> getValueWithKey s ''k'' = Some ''xx'' | _ \<Rightarrow> False" by code_simp
  from 0 1 2 show ?thesis by (auto split: sum.splits)
qed

text \<open>
  C33. The check of the shards can be outrun. The ticker checks the shards under the lock and
  reads the number of its configuration later without it. If the apply loop installs a
  configuration in between, the ticker asks for the one after it and proposes it although
  shards are missing; installing it marks them as present. Group 2, given a shard in
  configuration 2, then answers ErrNoKey for a key that group 1 holds.
\<close>

definition race_query :: "int \<Rightarrow> config" where
  "race_query n = one_to n (if n = 1 then 1 else 2)"

theorem skv_check_outrun:
  "\<exists>s1 s2 s3 s4 x r. skv_run 2 skv_makeState [ex_move 1 1] = Inr s1 \<and>
     skv_executeOp 2 s1 (ex_move 2 2) = Inr (s2, r) \<and> lagging 2 s2 = [7] \<and>
     configTickerOp race_query (ex_kv 2 s1) (ex_kv 2 s2) (ex_kv 2 s2) = Inr (Some x) \<and>
     skv_run 2 s2 [x] = Inr s3 \<and> lagging 2 s3 = [] \<and>
     skv_executeOp 2 s3 (ex_req SkGET 2 '''') = Inr (s4, \<lparr>sm_Error = SkErrNoKey, sm_Value = ''''\<rparr>) \<and>
     getValueWithKey ho_sender ''k'' = Some ''a''"
proof -
  define s1 where "s1 = run_to 2 [ex_move 1 1]"
  define s2 where "s2 = run_to 2 [ex_move 1 1, ex_move 2 2]"
  define x where "x = createInstallShardConfigOp (ex_kv 2 s2) (race_query 3)"
  define s3 where "s3 = projr (skv_run 2 s2 [x])"
  note defs = s1_def s2_def s3_def x_def
  have 1: "skv_run 2 skv_makeState [ex_move 1 1] = Inr s1"
    unfolding s1_def by (rule run_to_Inr) code_simp
  have 2: "\<exists>r. skv_executeOp 2 s1 (ex_move 2 2) = Inr (s2, r)"
  proof -
    have "skv_run 2 skv_makeState [ex_move 1 1, ex_move 2 2] = Inr s2"
      unfolding s2_def by (rule run_to_Inr) code_simp
    then have "skv_run 2 skv_makeState ([ex_move 1 1] @ [ex_move 2 2]) = Inr s2" by simp
    with 1 show ?thesis by (simp only: skv_run_append) (auto simp: skv_run_def skv_app_def)
  qed
  have 3: "lagging 2 s2 = [7]" "lagging 2 s1 = []" unfolding defs by code_simp+
  have 4: "Num (LatestConfig s2) = 2" unfolding defs by code_simp
  have 5: "configTickerOp race_query (ex_kv 2 s1) (ex_kv 2 s2) (ex_kv 2 s2) = Inr (Some x)"
    by (simp add: configTickerOp_def 3 4 race_query_def one_to_def x_def)
  have 6: "skv_run 2 s2 [x] = Inr s3" "lagging 2 s3 = []"
    unfolding s3_def by (rule sum.collapse(2) [symmetric]) (unfold defs, code_simp+)
  have 7: "case skv_executeOp 2 s3 (ex_req SkGET 2 '''') of
      Inr (s, r) \<Rightarrow> r = \<lparr>sm_Error = SkErrNoKey, sm_Value = ''''\<rparr> | _ \<Rightarrow> False" unfolding defs by code_simp
  have "getValueWithKey ho_sender ''k'' = Some ''a''" by code_simp
  with 1 2 3 5 6 7 show ?thesis by (fastforce split: sum.splits)
qed

text \<open>
  C34. A shard that no group had is not served again. A group is in a configuration in which
  it has been given a shard that in the configuration before belonged to no group (or to one
  without servers). From then on let clients send requests, the controller answer anything
  and the network deliver or lose what it will, and let the rounds of the two tickers that
  begin in or after this state run in any number and order. Then the log is executed without a
  fault, the group is in the same configuration, the shard is still missing, and every request
  of a client, also for the other shards of the group, is refused and leaves no trace. (A round
  that had checked the shards before this configuration took effect may still propose the next
  one: that is the race shown above.)
\<close>

theorem skv_orphan_stuck:
  assumes "skv_inv gid st0" "orphan gid st0 sid" "log_from gid st0 L"
  shows "\<exists>st. skv_run gid st0 L = Inr st \<and> AllConfigs st = AllConfigs st0 \<and>
    LatestConfig st = LatestConfig st0 \<and> sid \<in> set (lagging gid st) \<and>
    (\<forall>x. client_op x \<longrightarrow> (\<exists>r. skv_executeOp gid st x = Inr (st, r) \<and>
       sm_Error r \<in> {SkErrWrongGroup, SkErrNotUpToDate}))"
proof -
  have "missing_in gid st0 sid st0" using assms(1,2) by (simp add: missing_in_def orphan_def)
  from harmless_run [OF this orphan_log_harmless [OF assms(3,1,2)]] missing_refuses show ?thesis
    by (fastforce simp: missing_in_def)
qed

text \<open>
  Group 1 joins, leaves and joins again: the controller hands out three configurations, of
  which the second has no groups, and the group never gets beyond the third.
\<close>

definition rejoin :: "config list" where
  "rejoin = projr (res_bind (handleJoin [emptyConfig] [(1, [''a''])]) (\<lambda>cs.
     res_bind (handleLeave cs [1]) (\<lambda>cs. handleJoin cs [(1, [''a''])])))"

definition rejoin_log :: "skvOp list" where
  "rejoin_log = map (\<lambda>c. skv_emptyOp\<lparr>sk_Type := InstallShardConfig, sk_ShardConfig := c\<rparr>) (tl rejoin)"

text \<open>What the controller hands out.\<close>

definition rejoin_config :: "int \<Rightarrow> int \<Rightarrow> groups \<Rightarrow> config" where
  "rejoin_config n g gs = \<lparr>Num = n, Shards = replicate NShards g, Groups = gs\<rparr>"

definition rejoin_ops :: "skvOp list" where
  "rejoin_ops = map (\<lambda>c. skv_emptyOp\<lparr>sk_Type := InstallShardConfig, sk_ShardConfig := c\<rparr>)
     [rejoin_config 1 1 [(1, [''a''])], rejoin_config 2 0 [], rejoin_config 3 1 [(1, [''a''])]]"

lemma rejoin_log_eq: "rejoin_log = rejoin_ops"
proof -
  have "tl rejoin = [rejoin_config 1 1 [(1, [''a''])], rejoin_config 2 0 [], rejoin_config 3 1 [(1, [''a''])]]"
    by code_simp
  then show ?thesis by (simp add: rejoin_log_def rejoin_ops_def)
qed

theorem skv_orphan_stuck_witness:
  "left_complete 1 rejoin_log \<and> log_from 1 (run_to 1 rejoin_log) [ex_op, ex_op] \<and>
   (\<exists>st r. skv_run 1 (run_to 1 rejoin_log) [ex_op, ex_op] = Inr st \<and> Num (LatestConfig st) = 3 \<and>
     skv_executeOp 1 st ex_op = Inr (st, r) \<and> sm_Error r \<in> {SkErrWrongGroup, SkErrNotUpToDate})"
  unfolding rejoin_log_eq
proof -
  let ?s = "run_to 1 rejoin_ops"
  have run: "skv_run 1 skv_makeState rejoin_ops = Inr ?s" by (rule run_to_Inr) code_simp
  have ops: "\<forall>x \<in> set rejoin_ops. skv_op_ok x" by code_simp
  from skv_run_total [OF skv_makeState_inv ops, of 1] run have inv: "skv_inv 1 ?s" by auto
  have orphan: "orphan 1 ?s 7" by code_simp
  have op: "client_op ex_op" by code_simp
  from log_from.request [OF log_from.request [OF log_from.empty op] op, of 1 ?s]
  have log: "log_from 1 ?s [ex_op, ex_op]" by simp
  have num: "Num (LatestConfig ?s) = 3" by code_simp
  from skv_orphan_stuck [OF inv orphan log] op num have "\<exists>st r. skv_run 1 ?s [ex_op, ex_op] = Inr st \<and>
      Num (LatestConfig st) = 3 \<and> skv_executeOp 1 st ex_op = Inr (st, r) \<and>
      sm_Error r \<in> {SkErrWrongGroup, SkErrNotUpToDate}" by force
  moreover have "left_complete 1 rejoin_ops" by code_simp
  ultimately show "left_complete 1 rejoin_ops \<and> log_from 1 ?s [ex_op, ex_op] \<and>
     (\<exists>st r. skv_run 1 ?s [ex_op, ex_op] = Inr st \<and> Num (LatestConfig st) = 3 \<and>
       skv_executeOp 1 st ex_op = Inr (st, r) \<and> sm_Error r \<in> {SkErrWrongGroup, SkErrNotUpToDate})"
    using log by blast
qed

text \<open>
  C35. The ticker that asks for shards stays in bounds: after any log, also when more of the
  log is applied between its two looks at the state, it does not fail, and every shard it asks
  for is one of the ten, in a configuration of ten shards. As long as no configuration is
  installed between the two looks, it asks under the configuration before the latest one, the
  shard is one that its group owns in the latest one, and it never asks its own group. (If one
  is installed in between, it asks under a later configuration than the one it looked at,
  and may ask its own group.)
\<close>

theorem acquire_ticker_bounds:
  assumes "\<forall>x \<in> set (xs @ ys). skv_op_ok x" "skv_run (skv_gid kv0) skv_makeState xs = Inr (skv_state kv0)"
    "skv_run (skv_gid kv0) skv_makeState (xs @ ys) = Inr (skv_state kv1)"
  shows "\<exists>ts. acquireShardTicker kv0 kv1 = Inr ts \<and> (\<forall>(sid, c) \<in> set ts.
    0 \<le> sid \<and> sid < int NShards \<and> length (Shards c) = NShards \<and>
    (AllConfigs (skv_state kv1) = AllConfigs (skv_state kv0) \<longrightarrow> Num c = Num (LatestConfig (skv_state kv0)) - 1 \<and> Shards c ! nat sid \<noteq> skv_gid kv0 \<and>
       Shards (LatestConfig (skv_state kv0)) ! nat sid = skv_gid kv0))"
proof -
  let ?g = "skv_gid kv0" and ?s0 = "skv_state kv0" and ?s1 = "skv_state kv1"
  have ops: "\<forall>x \<in> set xs. skv_op_ok x" "\<forall>x \<in> set ys. skv_op_ok x" using assms(1) by auto
  from skv_run_total [OF skv_makeState_inv ops(1), of ?g] assms(2) have i0: "skv_inv ?g ?s0" by auto
  from assms(2,3) have "skv_run ?g ?s0 ys = Inr ?s1" by (simp add: skv_run_append)
  with skv_run_total [OF i0 ops(2)] have i1: "skv_inv ?g ?s1" and le: "skv_le ?s0 ?s1" by auto
  show ?thesis
  proof (cases "snd (GetState (skv_rf kv0)) \<and> lagging ?g ?s0 \<noteq> []")
    case False
    then show ?thesis by (auto simp: acquireShardTicker_def)
  next
    case True
    let ?n = "length (AllConfigs ?s1)"
    from True obtain s where "s \<in> set (lagging ?g ?s0)" by (cases "lagging ?g ?s0") auto
    with skv_invD(3) [OF i0, of s] have "0 < Num (LatestConfig ?s0)" by (auto simp: lagging_iff)
    then have "2 \<le> length (AllConfigs ?s0)" using skv_inv_latest(2) [OF i0] by simp
    with le have n: "2 \<le> ?n" by (auto simp: skv_le_def)
    let ?c = "AllConfigs ?s1 ! (?n - 2)"
    have c: "Num ?c = int (?n - 2)" "length (Shards ?c) = NShards"
      using skv_invD(1) [OF i1] n by (auto simp: configs_ok_def)
    have "go_index (AllConfigs ?s1) (int ?n - 2) = Inr ?c"
      using n by (simp add: go_index_def nat_diff_distrib)
    with True have t: "acquireShardTicker kv0 kv1 = Inr (map (\<lambda>sid. (sid, ?c)) (lagging ?g ?s0))"
      by (simp add: acquireShardTicker_def)
    have r: "0 \<le> sid \<and> sid < int NShards \<and> Shards (LatestConfig ?s0) ! nat sid = ?g" if "sid \<in> set (lagging ?g ?s0)" for sid
      using that skv_inv_latest(1) [OF i0] by (auto simp: lagging_iff)
    have o: "Num ?c = Num (LatestConfig ?s0) - 1 \<and> Shards ?c ! nat sid \<noteq> ?g"
      if "sid \<in> set (lagging ?g ?s0)" "AllConfigs ?s1 = AllConfigs ?s0" for sid
      using that skv_invD(4) [OF i0, of "nat sid"] skv_inv_latest [OF i0] n c(1)
      by (auto simp: lagging_iff prevShards_def of_nat_diff)
    from t r o c(2) show ?thesis by auto
  qed
qed

theorem acquire_ticker_bounds_witness:
  "\<exists>ts. acquireShardTicker (ex_kv 2 ho_receiver) (ex_kv 2 ho_receiver) = Inr ts \<and>
     (\<forall>(sid, c) \<in> set ts. 0 \<le> sid \<and> sid < 10 \<and> Num c = 1)"
proof -
  have "skv_run 2 skv_makeState [ex_move 1 1, ex_move 2 2] = Inr ho_receiver"
    unfolding ho_receiver_def by (rule run_to_Inr) code_simp
  moreover have "\<forall>x \<in> set [ex_move 1 1, ex_move 2 2]. skv_op_ok x" by code_simp
  moreover have "Num (LatestConfig ho_receiver) = 2" by code_simp
  ultimately show ?thesis
    using acquire_ticker_bounds [of "[ex_move 1 1, ex_move 2 2]" "[]" "ex_kv 2 ho_receiver" "ex_kv 2 ho_receiver"]
    by (auto simp: NShards_def)
qed

text \<open>
  The other case: group 2 gets shard 7 in configuration 2 and keeps it in configuration 3. If 3
  is installed between the two looks, the ticker asks for the shard under configuration 2, that
  is, it asks the servers of its own group.
\<close>

theorem acquire_asks_itself:
  "\<exists>c. acquireShardTicker (ex_kv 2 (run_to 2 [ex_move 1 1, ex_move 2 2]))
       (ex_kv 2 (run_to 2 [ex_move 1 1, ex_move 2 2, ex_move 3 2])) = Inr [(7, c)] \<and> Shards c ! 7 = 2"
proof -
  have "acquireShardTicker (ex_kv 2 (run_to 2 [ex_move 1 1, ex_move 2 2]))
      (ex_kv 2 (run_to 2 [ex_move 1 1, ex_move 2 2, ex_move 3 2])) = Inr [(7, one_to 2 2)]" by code_simp
  moreover have "Shards (one_to 2 2) ! 7 = 2" by code_simp
  ultimately show ?thesis by blast
qed

end
