(* ===== verification/SKV_Apply.thy ===== *)
theory SKV_Apply
  imports SKV_Server
begin

text \<open>
  A server of shardkv at work: its table of waiting handlers honours the contract of
  \<open>channel_table\<close>, its snapshots that of \<open>codec\<close>, and its apply loop gets through every
  message.
\<close>

section \<open>The table and the snapshots honour their contracts\<close>

definition skv_chan_at :: "shardKV \<Rightarrow> int \<times> int \<Rightarrow> nat option" where
  "skv_chan_at kv k =
     (case skv_startChannels kv (fst k) of
        None \<Rightarrow> None
      | Some m \<Rightarrow> map_option sk_ReplyChannel (m (snd k)))"

definition sk_key :: "skvOp \<Rightarrow> int \<times> int" where
  "sk_key x = (sk_ClientId x, sk_RequestIndex x)"

interpretation skv_table: channel_table skv_chan_at "\<lambda>kv. set (skv_closedChans kv)" skv_nextChan sk_key
  "\<lambda>kv x. snd (skv_createStartCh kv x)" skv_deleteStartCh
proof (unfold_locales, goal_cases)
  case (1 s x k)
  then show ?case
    by (cases k) (auto simp: skv_chan_at_def sk_key_def skv_createStartCh_def Let_def split: option.splits)
next
  case (2 s x)
  then show ?case by (simp add: skv_createStartCh_def Let_def)
next
  case (3 s x)
  then show ?case by (simp add: skv_createStartCh_def Let_def)
next
  case (4 s x)
  then show ?case by (auto simp: skv_chan_at_def sk_key_def skv_deleteStartCh_def split: option.splits)
next
  case (5 s x c)
  then show ?case by (auto simp: skv_chan_at_def sk_key_def skv_deleteStartCh_def split: option.splits)
next
  case (6 s x c)
  then obtain m ch where m: "skv_startChannels s (sk_ClientId x) = Some m"
    "m (sk_RequestIndex x) = Some ch" "sk_ReplyChannel ch = c"
    by (auto simp: skv_chan_at_def sk_key_def split: option.splits)
  let ?s = "s\<lparr>skv_closedChans := c # skv_closedChans s,
    skv_startChannels := (skv_startChannels s)(sk_ClientId x \<mapsto> m(sk_RequestIndex x := None))\<rparr>"
  have "skv_deleteStartCh s x = Inr ?s" using m 6(2) by (simp add: skv_deleteStartCh_def)
  moreover have "skv_chan_at ?s = (skv_chan_at s)(sk_key x := None)"
    using m(1) by (auto simp: skv_chan_at_def sk_key_def fun_eq_iff split: option.splits)
  ultimately show ?case by simp
qed

interpretation skv_codec: codec "\<lambda>st. [SKVState st]" skv_readSnapshot
  by unfold_locales simp_all

definition skv_chans_ok :: "shardKV \<Rightarrow> bool" where
  "skv_chans_ok = table_ok skv_chan_at (\<lambda>kv. set (skv_closedChans kv)) skv_nextChan"

lemma skv_chans_ok_frame:
  "skv_startChannels kv' = skv_startChannels kv \<Longrightarrow> skv_closedChans kv' = skv_closedChans kv \<Longrightarrow>
   skv_nextChan kv' = skv_nextChan kv \<Longrightarrow> skv_chans_ok kv' \<longleftrightarrow> skv_chans_ok kv"
  unfolding skv_chans_ok_def by (rule skv_table.table_ok_cong) (simp_all add: skv_chan_at_def fun_eq_iff)

lemma skv_chan_at_getStartCh:
  "skv_chan_at kv (sk_key x) = map_option sk_ReplyChannel (skv_getStartCh kv x)"
  by (simp add: skv_chan_at_def sk_key_def skv_getStartCh_def split: option.splits)

lemma skv_deleteStartCh_frame:
  assumes "skv_deleteStartCh kv x = Inr kv'"
  shows "skv_rf kv' = skv_rf kv" "skv_state kv' = skv_state kv" "skv_gid kv' = skv_gid kv" "skv_me kv' = skv_me kv"
  using assms by (auto simp: skv_deleteStartCh_def split: option.splits if_splits)

lemma skv_deleteStartCh_ok:
  assumes "skv_chans_ok kv"
  obtains kv' where "skv_deleteStartCh kv x = Inr kv'" "skv_chans_ok kv'" "skv_getStartCh kv' x = None"
proof -
  from skv_table.delete_total [OF assms [unfolded skv_chans_ok_def], of x] obtain kv' where
    "skv_deleteStartCh kv x = Inr kv'" "skv_chans_ok kv'" "skv_chan_at kv' (sk_key x) = None"
    by (auto simp: skv_chans_ok_def)
  with that show ?thesis by (simp add: skv_chan_at_getStartCh)
qed

section \<open>The apply loop\<close>

definition skv_ok :: "shardKV \<Rightarrow> bool" where
  "skv_ok kv \<longleftrightarrow> skv_chans_ok kv \<and> skv_inv (skv_gid kv) (skv_state kv) \<and> raft_ok (skv_rf kv) \<and>
     commitIndex (skv_rf kv) \<le> getLastLogEntryIndex (skv_rf kv)"

text \<open>An answer goes to the handler of the same request on this server, which leaves the table.\<close>

lemma skv_answerOp_ok:
  assumes "skv_ok kv" "client_op x \<or> \<not> sk_NeedSendBackCh x"
  shows "\<exists>kv' s. skv_answerOp kv x r = Inr (kv', s) \<and> skv_ok kv' \<and> skv_rf kv' = skv_rf kv \<and>
    skv_state kv' = skv_state kv \<and> skv_gid kv' = skv_gid kv \<and>
    (case s of
       None \<Rightarrow> kv' = kv
     | Some (c, m) \<Rightarrow> (\<exists>ch. skv_getStartCh kv x = Some ch \<and> sk_ReplyChannel ch = c \<and> sk_ServerId x = skv_me kv \<and>
         sk_Key (sk_Operation ch) = sk_Key x \<and> sk_Value (sk_Operation ch) = sk_Value x \<and>
         sk_Type (sk_Operation ch) = sk_Type x) \<and> skv_getStartCh kv' x = None \<and>
         m = (if snd (GetState (skv_rf kv)) then r else r\<lparr>sm_Error := SkErrWrongLeader\<rparr>))"
proof (cases "sk_NeedSendBackCh x \<and> skv_opChannelMatch kv x")
  case True
  then obtain ch where ch: "skv_getStartCh kv x = Some ch" "sk_ServerId x = skv_me kv"
    "sk_Key (sk_Operation ch) = sk_Key x" "sk_Value (sk_Operation ch) = sk_Value x"
    "sk_Type (sk_Operation ch) = sk_Type x"
    by (auto simp: skv_opChannelMatch_def Let_def split: option.splits if_splits)
  have ok: "skv_chans_ok kv" using assms(1) by (simp add: skv_ok_def)
  from ch(1) have "skv_chan_at kv (sk_key x) = Some (sk_ReplyChannel ch)" by (simp add: skv_chan_at_getStartCh)
  from skv_table.table_okD(2) [OF ok [unfolded skv_chans_ok_def] this]
  have "sk_ReplyChannel ch \<notin> set (skv_closedChans kv)" .
  moreover from skv_deleteStartCh_ok [OF ok, of x] obtain kv' where kv': "skv_deleteStartCh kv x = Inr kv'"
    "skv_chans_ok kv'" "skv_getStartCh kv' x = None" .
  moreover have "kv_type x" using True assms(2) by (auto simp: client_op_def)
  ultimately have "skv_answerOp kv x r = Inr (kv', Some (sk_ReplyChannel ch,
      if snd (GetState (skv_rf kv)) then r else r\<lparr>sm_Error := SkErrWrongLeader\<rparr>))"
    using True ch(1) by (simp add: skv_answerOp_def skv_signalStartCh_def kv_type_def Let_def)
  with kv' ch skv_deleteStartCh_frame [OF kv'(1)] assms(1) show ?thesis by (simp add: skv_ok_def)
next
  case False
  with assms(1) show ?thesis by (auto simp: skv_answerOp_def Let_def)
qed

lemma skv_snapshotIfNeeded_ok:
  assumes "skv_ok kv"
  shows "\<exists>rf. skv_snapshotIfNeeded bytes_len kv x i = Inr (kv\<lparr>skv_rf := rf\<rparr>) \<and> skv_ok (kv\<lparr>skv_rf := rf\<rparr>) \<and>
    (\<not> sk_NeedSendBackCh x \<and> skv_maxraftstate kv \<noteq> -1 \<and> snapshotEntriesAmount (skv_rf kv) \<le> i \<and>
       i \<le> commitIndex (skv_rf kv) \<longrightarrow> ReadSnapshot (persister rf) = [SKVState (skv_state kv)])"
proof -
  have ok: "raft_ok (skv_rf kv)" "commitIndex (skv_rf kv) \<le> getLastLogEntryIndex (skv_rf kv)"
    using assms by (auto simp: skv_ok_def)
  from SnapshotCall_total [OF ok] obtain rf where
    rf: "SnapshotCall (skv_rf kv) i [SKVState (skv_state kv)] = Inr rf" by blast
  have "skv_ok (kv\<lparr>skv_rf := rf\<rparr>)"
    using SnapshotCall_refines(1,2,6) [OF ok(1) rf] assms
      skv_chans_ok_frame [of "kv\<lparr>skv_rf := rf\<rparr>" kv] by (simp add: skv_ok_def)
  moreover have "ReadSnapshot (persister rf) = [SKVState (skv_state kv)]"
    if "snapshotEntriesAmount (skv_rf kv) \<le> i" "i \<le> commitIndex (skv_rf kv)"
    using ok(1) rf that by (cases rule: SnapshotCall_cases) (auto simp: ReadSnapshot_def)
  moreover have "\<exists>rf. kv = kv\<lparr>skv_rf := rf\<rparr> \<and> skv_ok (kv\<lparr>skv_rf := rf\<rparr>)"
    by (rule exI [of _ "skv_rf kv"]) (use assms in simp)
  ultimately show ?thesis
    using rf assms by (auto simp: skv_snapshotIfNeeded_def skv_makeSnapshot_def)
qed

section \<open>Properties\<close>

definition skv_cmd_msg :: "int \<Rightarrow> skvOp \<Rightarrow> (skvOp, skv_tok) applyMsg" where
  "skv_cmd_msg i x = emptyApplyMsg\<lparr>CommandValid := True, Command := Cmd x, CommandIndex := i\<rparr>"

definition skv_snap_msg :: "skv_tok list \<Rightarrow> (skvOp, skv_tok) applyMsg" where
  "skv_snap_msg d = emptyApplyMsg\<lparr>SnapshotValid := True, Snapshot := d\<rparr>"

text \<open>
  The apply loop of shardkv. A server in good order processes every committed operation
  without a fault and stays in good order; its state is that of the state machine. If it sends
  on a channel, it is the channel of a handler on this server that waits for the same request,
  which is taken off the table, and the message is ErrWrongLeader unless the server leads.
  After a configuration or a shard (with snapshots on, within what Raft has committed and not
  compacted) the whole state is on stable storage, and any server that is handed this snapshot
  has that state.
\<close>

theorem skv_apply_survives:
  assumes "skv_ok kv" "skv_op_ok x"
  shows "\<exists>kv' s r. skv_handleApplyMessage bytes_len kv (skv_cmd_msg i x) = Inr (kv', s) \<and> skv_ok kv' \<and>
    skv_executeOp (skv_gid kv) (skv_state kv) x = Inr (skv_state kv', r) \<and>
    (case s of
       None \<Rightarrow> True
     | Some (c, m) \<Rightarrow> (\<exists>ch. skv_getStartCh kv x = Some ch \<and> sk_ReplyChannel ch = c \<and> sk_ServerId x = skv_me kv \<and>
         sk_Key (sk_Operation ch) = sk_Key x \<and> sk_Value (sk_Operation ch) = sk_Value x \<and>
         sk_Type (sk_Operation ch) = sk_Type x) \<and> skv_getStartCh kv' x = None \<and>
         m = (if snd (GetState (skv_rf kv')) then r else r\<lparr>sm_Error := SkErrWrongLeader\<rparr>)) \<and>
    (\<not> sk_NeedSendBackCh x \<and> skv_maxraftstate kv \<noteq> -1 \<and> snapshotEntriesAmount (skv_rf kv) \<le> i \<and>
       i \<le> commitIndex (skv_rf kv) \<longrightarrow>
       (\<forall>kv2. skv_handleApplyMessage bytes_len kv2 (skv_snap_msg (ReadSnapshot (persister (skv_rf kv')))) =
          Inr (kv2\<lparr>skv_state := skv_state kv'\<rparr>, None)))"
proof -
  have inv: "skv_inv (skv_gid kv) (skv_state kv)" using assms(1) by (simp add: skv_ok_def)
  from skv_executeOp_total [OF inv assms(2)] obtain st r where
    ex: "skv_executeOp (skv_gid kv) (skv_state kv) x = Inr (st, r)" "skv_inv (skv_gid kv) st" by blast
  let ?kv1 = "kv\<lparr>skv_state := st\<rparr>"
  have "skv_ok ?kv1" using assms(1) ex(2) skv_chans_ok_frame [of ?kv1 kv] by (simp add: skv_ok_def)
  from skv_snapshotIfNeeded_ok [OF this, of bytes_len x i] obtain rf where
    rf: "skv_snapshotIfNeeded bytes_len ?kv1 x i = Inr (?kv1\<lparr>skv_rf := rf\<rparr>)" "skv_ok (?kv1\<lparr>skv_rf := rf\<rparr>)"
    "\<not> sk_NeedSendBackCh x \<and> skv_maxraftstate kv \<noteq> -1 \<and> snapshotEntriesAmount (skv_rf kv) \<le> i \<and>
       i \<le> commitIndex (skv_rf kv) \<longrightarrow> ReadSnapshot (persister rf) = [SKVState st]" by auto
  let ?kv2 = "?kv1\<lparr>skv_rf := rf\<rparr>"
  have "client_op x \<or> \<not> sk_NeedSendBackCh x" using assms(2) by (auto simp: skv_op_ok_def)
  from skv_answerOp_ok [OF rf(2) this, of r] obtain kv' s where
    an: "skv_answerOp ?kv2 x r = Inr (kv', s)" "skv_ok kv'" "skv_rf kv' = rf" "skv_state kv' = st"
    "case s of None \<Rightarrow> kv' = ?kv2
     | Some (c, m) \<Rightarrow> (\<exists>ch. skv_getStartCh ?kv2 x = Some ch \<and> sk_ReplyChannel ch = c \<and> sk_ServerId x = skv_me ?kv2 \<and>
         sk_Key (sk_Operation ch) = sk_Key x \<and> sk_Value (sk_Operation ch) = sk_Value x \<and>
         sk_Type (sk_Operation ch) = sk_Type x) \<and> skv_getStartCh kv' x = None \<and>
         m = (if snd (GetState (skv_rf ?kv2)) then r else r\<lparr>sm_Error := SkErrWrongLeader\<rparr>)" by auto
  have "skv_handleApplyMessage bytes_len kv (skv_cmd_msg i x) = Inr (kv', s)"
    using ex(1) rf(1) an(1) by (simp add: skv_handleApplyMessage_def skv_handleCommandApply_def skv_cmd_msg_def
        emptyApplyMsg_def)
  moreover have "skv_handleApplyMessage bytes_len kv2 (skv_snap_msg [SKVState st]) = Inr (kv2\<lparr>skv_state := st\<rparr>, None)"
    for kv2
    by (simp add: skv_handleApplyMessage_def skv_snap_msg_def emptyApplyMsg_def CondInstallSnapshot_def
        skv_installSnapshot_def)
  moreover have "skv_getStartCh ?kv2 x = skv_getStartCh kv x" by (simp add: skv_getStartCh_def)
  ultimately show ?thesis using ex(1) an rf(3) by (auto split: option.splits)
qed

text \<open>A server of group 1 with a committed configuration in its log.\<close>

definition skv3 :: shardKV where
  "skv3 = projr (skv_StartServer \<lparr>now = 0, rnd = 0\<rparr> 3 0 MakePersister 1000 1)"

definition skv3_busy :: shardKV where
  "skv3_busy = skv3\<lparr>skv_rf := persist ((skv_rf skv3)\<lparr>logs := [\<lparr>Term = 0, Action = Cmd (ex_config 1 1)\<rparr>],
     commitIndex := 0\<rparr>)\<rparr>"

lemma skv3_busy_ok: "skv_ok skv3_busy"
proof -
  have "skv_startChannels skv3_busy = Map.empty" "set (skv_closedChans skv3_busy) = {}"
    "skv_gid skv3_busy = 1" "skv_state skv3_busy = skv_makeState"
    by (simp_all add: skv3_busy_def skv3_def skv_StartServer_def Make_fresh_persister)
  then have "skv_chans_ok skv3_busy" "skv_inv (skv_gid skv3_busy) (skv_state skv3_busy)"
    by (simp_all add: skv_chans_ok_def table_ok_def skv_chan_at_def skv_makeState_inv)
  moreover have "raft_ok (skv_rf skv3_busy)"
    by (simp add: skv3_busy_def skv3_def skv_StartServer_def Make_fresh_persister raft_ok_def log_ok_def fresh_raft_def)
  moreover have "commitIndex (skv_rf skv3_busy) \<le> getLastLogEntryIndex (skv_rf skv3_busy)" by code_simp
  ultimately show ?thesis by (simp add: skv_ok_def)
qed

theorem skv_apply_survives_witness:
  "\<exists>kv' s. skv_handleApplyMessage (\<lambda>d. 0) skv3_busy (skv_cmd_msg 0 (ex_config 1 1)) = Inr (kv', s) \<and>
     skv_handleApplyMessage (\<lambda>d. 0) skv3 (skv_snap_msg (ReadSnapshot (persister (skv_rf kv')))) =
       Inr (skv3\<lparr>skv_state := skv_state kv'\<rparr>, None)"
proof -
  have "skv_op_ok (ex_config 1 1)" "\<not> sk_NeedSendBackCh (ex_config 1 1)" "skv_maxraftstate skv3_busy \<noteq> -1"
    "snapshotEntriesAmount (skv_rf skv3_busy) \<le> 0" "0 \<le> commitIndex (skv_rf skv3_busy)" by code_simp+
  with skv_apply_survives [OF skv3_busy_ok, of "ex_config 1 1" "\<lambda>d. 0" 0] show ?thesis by blast
qed

end
