(* ===== verification/SKV_Handlers.thy ===== *)
theory SKV_Handlers
  imports SKV_Apply
begin

text \<open>
  The RPC handlers of shardkv (the server side of get.go and putAppend.go), section by section.
  A handler checks that its server leads, then under \<open>kv.mu\<close> that there is a configuration, that
  the shard is the group's and that no shard is missing, registers a channel, calls \<open>Start\<close> and
  waits for a message or for its timer. Names that kvraft uses too carry the prefix \<open>skv\<close>.
\<close>

record skvGetArgs =
  ga_Key :: string
  ga_ClientId :: int
  ga_RequestIndex :: int

record skvGetReply =
  gr_Err :: skvErr
  gr_Value :: string

record skvPutAppendArgs =
  pa_Key :: string
  pa_Value :: string
  pa_Op :: skvOpType
  pa_ClientId :: int
  pa_RequestIndex :: int

record skvPutAppendReply =
  pr_Err :: skvErr

section \<open>Get\<close>

definition skv_createGetOp :: "shardKV \<Rightarrow> skvGetArgs \<Rightarrow> skvOp" where
  "skv_createGetOp kv args = skv_emptyOp\<lparr>sk_ServerId := skv_me kv, sk_Type := SkGET, sk_Key := ga_Key args,
     sk_ClientId := ga_ClientId args, sk_RequestIndex := ga_RequestIndex args, sk_NeedSendBackCh := True\<rparr>"

text \<open>
  The result carries the reply, and the operation with its channel unless the handler is to
  stop.
\<close>

definition skv_preGetStart ::
  "shardKV \<Rightarrow> skvGetArgs \<Rightarrow> skvGetReply \<Rightarrow> (shardKV \<times> skvGetReply \<times> (skvOp \<times> skvReplyChannel) option) res" where
  "skv_preGetStart kv args reply =
     (if Num (LatestConfig (skv_state kv)) = 0 then Inr (kv, reply\<lparr>gr_Err := SkErrNoConfig\<rparr>, None)
      else
        res_bind (go_index (Shards (LatestConfig (skv_state kv))) (key2shard (ga_Key args))) (\<lambda>targetGroup.
        if skv_gid kv \<noteq> targetGroup then Inr (kv, reply\<lparr>gr_Err := SkErrWrongGroup\<rparr>, None)
        else res_bind (allShardsUpToDate (skv_gid kv) (skv_state kv)) (\<lambda>(l, allUpToDate).
          if \<not> allUpToDate then Inr (kv, reply\<lparr>gr_Err := SkErrNotUpToDate\<rparr>, None)
          else let x = skv_createGetOp kv args; (startCh, kv') = skv_createStartCh kv x
               in Inr (kv', reply, Some (x, startCh)))))"

definition skv_handleGetResult ::
  "shardKV \<Rightarrow> skvOp \<Rightarrow> skvReplyMsg \<Rightarrow> skvGetReply \<Rightarrow> (shardKV \<times> skvGetReply) res" where
  "skv_handleGetResult kv x m reply =
     res_bind (skv_deleteStartCh kv x) (\<lambda>kv'.
       if sm_Error m = SkErrFiller
       then Inl (LogFatal ''In handleGetResult(), response error is ErrFiller, which should not be'')
       else Inr (kv', reply\<lparr>gr_Err := sm_Error m, gr_Value := sm_Value m\<rparr>))"

definition skv_getTimeout :: "shardKV \<Rightarrow> skvOp \<Rightarrow> skvGetReply \<Rightarrow> (shardKV \<times> skvGetReply) res" where
  "skv_getTimeout kv x reply =
     res_bind (skv_deleteStartCh kv x) (\<lambda>kv'. Inr (kv', reply\<lparr>gr_Err := SkErrTimeout\<rparr>))"

section \<open>PutAppend\<close>

definition skv_createPutAppendOp :: "shardKV \<Rightarrow> skvPutAppendArgs \<Rightarrow> skvOp" where
  "skv_createPutAppendOp kv args = skv_emptyOp\<lparr>sk_ServerId := skv_me kv, sk_Type := pa_Op args,
     sk_Key := pa_Key args, sk_Value := pa_Value args, sk_ClientId := pa_ClientId args,
     sk_RequestIndex := pa_RequestIndex args, sk_NeedSendBackCh := True\<rparr>"

definition skv_prePutAppendStart ::
  "shardKV \<Rightarrow> skvPutAppendArgs \<Rightarrow> skvPutAppendReply \<Rightarrow>
   (shardKV \<times> skvPutAppendReply \<times> (skvOp \<times> skvReplyChannel) option) res" where
  "skv_prePutAppendStart kv args reply =
     (if Num (LatestConfig (skv_state kv)) = 0 then Inr (kv, reply\<lparr>pr_Err := SkErrNoConfig\<rparr>, None)
      else
        res_bind (go_index (Shards (LatestConfig (skv_state kv))) (key2shard (pa_Key args))) (\<lambda>targetGroup.
        if skv_gid kv \<noteq> targetGroup then Inr (kv, reply\<lparr>pr_Err := SkErrWrongGroup\<rparr>, None)
        else res_bind (allShardsUpToDate (skv_gid kv) (skv_state kv)) (\<lambda>(l, allUpToDate).
          if \<not> allUpToDate then Inr (kv, reply\<lparr>pr_Err := SkErrNotUpToDate\<rparr>, None)
          else let x = skv_createPutAppendOp kv args; (startCh, kv') = skv_createStartCh kv x
               in Inr (kv', reply, Some (x, startCh)))))"

definition skv_handlePutAppendResult ::
  "shardKV \<Rightarrow> skvOp \<Rightarrow> skvReplyMsg \<Rightarrow> skvPutAppendReply \<Rightarrow> (shardKV \<times> skvPutAppendReply) res" where
  "skv_handlePutAppendResult kv x m reply =
     res_bind (skv_deleteStartCh kv x) (\<lambda>kv'.
       if sm_Error m = SkErrFiller
       then Inl (LogFatal ''In handlePutAppendResult(), response error is ErrFiller, which should not be'')
       else Inr (kv', reply\<lparr>pr_Err := sm_Error m\<rparr>))"

definition skv_putAppendTimeout ::
  "shardKV \<Rightarrow> skvOp \<Rightarrow> skvPutAppendReply \<Rightarrow> (shardKV \<times> skvPutAppendReply) res" where
  "skv_putAppendTimeout kv x reply =
     res_bind (skv_deleteStartCh kv x) (\<lambda>kv'. Inr (kv', reply\<lparr>pr_Err := SkErrTimeout\<rparr>))"

section \<open>The handlers, one section at a time\<close>

text \<open>Where a handler is. The two handlers have the same sections.\<close>

datatype skv_request = GetReq skvGetArgs | PutAppendReq skvPutAppendArgs

datatype skv_answer = GetRep skvGetReply | PutAppendRep skvPutAppendReply

datatype skv_stage =
    SkCalled skv_request
  | SkLeading skv_request skv_answer
  | SkRegistered skv_request skv_answer skvOp nat
  | SkRefused skv_request skv_answer skvOp
  | SkWaiting skv_request skv_answer skvOp nat
  | SkReceived skv_request skv_answer skvOp skvReplyMsg
  | SkExpired skv_request skv_answer skvOp
  | SkAnswered skv_request skv_answer

fun skv_filler :: "skv_request \<Rightarrow> skv_answer" where
  "skv_filler (GetReq a) = GetRep \<lparr>gr_Err = SkErrFiller, gr_Value = ''''\<rparr>"
| "skv_filler (PutAppendReq a) = PutAppendRep \<lparr>pr_Err = SkErrFiller\<rparr>"

fun set_err :: "skvErr \<Rightarrow> skv_answer \<Rightarrow> skv_answer" where
  "set_err e (GetRep r) = GetRep (r\<lparr>gr_Err := e\<rparr>)"
| "set_err e (PutAppendRep r) = PutAppendRep (r\<lparr>pr_Err := e\<rparr>)"

fun skv_answer_err :: "skv_answer \<Rightarrow> skvErr" where
  "skv_answer_err (GetRep r) = gr_Err r"
| "skv_answer_err (PutAppendRep r) = pr_Err r"

definition skv_stop_or_register ::
  "skv_request \<Rightarrow> shardKV \<Rightarrow> skv_answer \<Rightarrow> (skvOp \<times> skvReplyChannel) option \<Rightarrow> shardKV \<times> skv_stage" where
  "skv_stop_or_register q kv r p =
     (case p of
        None \<Rightarrow> (kv, SkAnswered q r)
      | Some (x, ch) \<Rightarrow> (kv, SkRegistered q r x (sk_ReplyChannel ch)))"

fun skv_pre :: "shardKV \<Rightarrow> skv_request \<Rightarrow> skv_answer \<Rightarrow> (shardKV \<times> skv_stage) res" where
  "skv_pre kv (GetReq a) (GetRep r) =
     res_bind (skv_preGetStart kv a r) (\<lambda>(kv', r', p). Inr (skv_stop_or_register (GetReq a) kv' (GetRep r') p))"
| "skv_pre kv (PutAppendReq a) (PutAppendRep r) =
     res_bind (skv_prePutAppendStart kv a r) (\<lambda>(kv', r', p).
       Inr (skv_stop_or_register (PutAppendReq a) kv' (PutAppendRep r') p))"
| "skv_pre kv q r = Inr (kv, SkAnswered q r)"

fun skv_received :: "shardKV \<Rightarrow> skvOp \<Rightarrow> skvReplyMsg \<Rightarrow> skv_answer \<Rightarrow> (shardKV \<times> skv_answer) res" where
  "skv_received kv x m (GetRep r) =
     res_bind (skv_handleGetResult kv x m r) (\<lambda>(kv', r'). Inr (kv', GetRep r'))"
| "skv_received kv x m (PutAppendRep r) =
     res_bind (skv_handlePutAppendResult kv x m r) (\<lambda>(kv', r'). Inr (kv', PutAppendRep r'))"

fun skv_expired :: "shardKV \<Rightarrow> skvOp \<Rightarrow> skv_answer \<Rightarrow> (shardKV \<times> skv_answer) res" where
  "skv_expired kv x (GetRep r) = res_bind (skv_getTimeout kv x r) (\<lambda>(kv', r'). Inr (kv', GetRep r'))"
| "skv_expired kv x (PutAppendRep r) =
     res_bind (skv_putAppendTimeout kv x r) (\<lambda>(kv', r'). Inr (kv', PutAppendRep r'))"

text \<open>
  The next section of a handler on the server as it is then. A handler that waits goes on
  when a message comes (\<open>SkReceived\<close>) or its timer fires (\<open>SkExpired\<close>).
\<close>

fun skv_advance :: "shardKV \<Rightarrow> skv_stage \<Rightarrow> (shardKV \<times> skv_stage) res" where
  "skv_advance kv (SkCalled q) =
     (let r = skv_filler q in
      if \<not> snd (GetState (skv_rf kv)) then Inr (kv, SkAnswered q (set_err SkErrWrongLeader r))
      else Inr (kv, SkLeading q r))"
| "skv_advance kv (SkLeading q r) = skv_pre kv q r"
| "skv_advance kv (SkRegistered q r x c) =
     (let ((index, t, isLdr), rf) = Start (skv_rf kv) (Cmd x) in
      Inr (kv\<lparr>skv_rf := rf\<rparr>, if \<not> isLdr then SkRefused q (set_err SkErrWrongLeader r) x else SkWaiting q r x c))"
| "skv_advance kv (SkRefused q r x) =
     res_bind (skv_deleteStartChLocked kv x) (\<lambda>kv'. Inr (kv', SkAnswered q r))"
| "skv_advance kv (SkWaiting q r x c) = Inr (kv, SkWaiting q r x c)"
| "skv_advance kv (SkReceived q r x m) =
     res_bind (skv_received kv x m r) (\<lambda>(kv', r'). Inr (kv', SkAnswered q r'))"
| "skv_advance kv (SkExpired q r x) =
     res_bind (skv_expired kv x r) (\<lambda>(kv', r'). Inr (kv', SkAnswered q r'))"
| "skv_advance kv (SkAnswered q r) = Inr (kv, SkAnswered q r)"

section \<open>What the sections do\<close>

fun req_op :: "shardKV \<Rightarrow> skv_request \<Rightarrow> skvOp" where
  "req_op kv (GetReq a) = skv_createGetOp kv a"
| "req_op kv (PutAppendReq a) = skv_createPutAppendOp kv a"

fun kind_ok :: "skv_request \<Rightarrow> skv_answer \<Rightarrow> bool" where
  "kind_ok (GetReq a) (GetRep r) = True"
| "kind_ok (PutAppendReq a) (PutAppendRep r) = True"
| "kind_ok q r = False"

lemma skv_create_ok:
  assumes "skv_ok kv"
  shows "skv_ok (snd (skv_createStartCh kv x))"
    "skv_getStartCh (snd (skv_createStartCh kv x)) x = Some \<lparr>sk_Operation = x, sk_ReplyChannel = skv_nextChan kv\<rparr>"
    "skv_state (snd (skv_createStartCh kv x)) = skv_state kv" "skv_rf (snd (skv_createStartCh kv x)) = skv_rf kv"
proof -
  have "skv_chans_ok (snd (skv_createStartCh kv x))"
    using skv_table.create_ok [of kv x] assms by (simp add: skv_chans_ok_def skv_ok_def)
  with assms show "skv_ok (snd (skv_createStartCh kv x))"
    by (simp add: skv_ok_def skv_createStartCh_def Let_def)
qed (simp_all add: skv_createStartCh_def skv_getStartCh_def Let_def)

lemma skv_createStartCh_fst: "fst (skv_createStartCh kv x) = \<lparr>sk_Operation = x, sk_ReplyChannel = skv_nextChan kv\<rparr>"
  by (simp add: skv_createStartCh_def Let_def)

text \<open>The section before \<open>Start\<close>, on all its branches.\<close>

lemma skv_pre_spec:
  assumes ok: "skv_ok kv" and kind: "kind_ok q r"
  shows "skv_pre kv q r = Inr
    (if Num (LatestConfig (skv_state kv)) = 0 then (kv, SkAnswered q (set_err SkErrNoConfig r))
     else if owner (skv_state kv) (sk_Key (req_op kv q)) \<noteq> skv_gid kv
     then (kv, SkAnswered q (set_err SkErrWrongGroup r))
     else if lagging (skv_gid kv) (skv_state kv) \<noteq> [] then (kv, SkAnswered q (set_err SkErrNotUpToDate r))
     else (snd (skv_createStartCh kv (req_op kv q)), SkRegistered q r (req_op kv q) (skv_nextChan kv)))"
proof -
  have "length (Shards (LatestConfig (skv_state kv))) = NShards"
    using skv_inv_latest(1) [of "skv_gid kv" "skv_state kv"] ok by (simp add: skv_ok_def)
  note go = go_index_shard [OF this]
  show ?thesis
    using kind
    by (cases q; cases r)
      (auto simp: skv_preGetStart_def skv_prePutAppendStart_def go owner_def skv_createGetOp_def
        skv_createPutAppendOp_def skv_stop_or_register_def skv_createStartCh_fst case_prod_beta Let_def)
qed

text \<open>The last section, whichever it is, takes the channel off the table.\<close>

lemma skv_delete_ok:
  assumes "skv_ok kv"
  obtains kv' where "skv_deleteStartCh kv x = Inr kv'" "skv_ok kv'" "skv_getStartCh kv' x = None"
    "skv_state kv' = skv_state kv" "skv_rf kv' = skv_rf kv"
proof -
  have "skv_chans_ok kv" using assms by (simp add: skv_ok_def)
  from skv_deleteStartCh_ok [OF this, of x] obtain kv' where
    "skv_deleteStartCh kv x = Inr kv'" "skv_chans_ok kv'" "skv_getStartCh kv' x = None" .
  with skv_deleteStartCh_frame [OF this(1)] assms that show ?thesis by (simp add: skv_ok_def)
qed

lemma skv_received_spec:
  "skv_deleteStartCh kv x = Inr kv' \<Longrightarrow> sm_Error m \<noteq> SkErrFiller \<Longrightarrow>
   \<exists>a. skv_received kv x m r = Inr (kv', a) \<and> skv_answer_err a = sm_Error m"
  by (cases r) (auto simp: skv_handleGetResult_def skv_handlePutAppendResult_def)

lemma skv_expired_spec:
  "skv_deleteStartCh kv x = Inr kv' \<Longrightarrow> skv_expired kv x r = Inr (kv', set_err SkErrTimeout r)"
  by (cases r) (auto simp: skv_getTimeout_def skv_putAppendTimeout_def)

section \<open>Properties\<close>

text \<open>
  The handlers of shardkv. On a server in good order no section of a handler panics or
  exits, and each leaves it in good order. A request that comes before the first
  configuration, for a shard of another group, or while shards are missing is answered so at
  once, with no trace on the server; otherwise the handler registers its operation under a
  new channel. Every way out after that (Raft refuses, a message comes, the timer fires) takes
  the channel off the table again, and neither the state machine nor Raft is touched.
\<close>

theorem skv_handler_sections:
  assumes "skv_ok kv" "kind_ok q r" "sm_Error m \<noteq> SkErrFiller"
  shows "(\<exists>kv' st. skv_advance kv (SkLeading q r) = Inr (kv', st) \<and> skv_ok kv' \<and>
      (if Num (LatestConfig (skv_state kv)) = 0 then kv' = kv \<and> st = SkAnswered q (set_err SkErrNoConfig r)
       else if owner (skv_state kv) (sk_Key (req_op kv q)) \<noteq> skv_gid kv
       then kv' = kv \<and> st = SkAnswered q (set_err SkErrWrongGroup r)
       else if lagging (skv_gid kv) (skv_state kv) \<noteq> []
       then kv' = kv \<and> st = SkAnswered q (set_err SkErrNotUpToDate r)
       else st = SkRegistered q r (req_op kv q) (skv_nextChan kv) \<and>
         skv_getStartCh kv' (req_op kv q) =
           Some \<lparr>sk_Operation = req_op kv q, sk_ReplyChannel = skv_nextChan kv\<rparr> \<and>
         skv_state kv' = skv_state kv \<and> skv_rf kv' = skv_rf kv)) \<and>
    (\<forall>s \<in> {SkRefused q r x, SkReceived q r x m, SkExpired q r x}.
      \<exists>kv' a. skv_advance kv s = Inr (kv', SkAnswered q a) \<and> skv_ok kv' \<and> skv_getStartCh kv' x = None \<and>
        skv_state kv' = skv_state kv \<and> skv_rf kv' = skv_rf kv) \<and>
    (\<exists>kv' a. skv_advance kv (SkReceived q r x m) = Inr (kv', SkAnswered q a) \<and> skv_answer_err a = sm_Error m)"
proof -
  from skv_delete_ok [OF assms(1), of x] obtain kv' where del: "skv_deleteStartCh kv x = Inr kv'" "skv_ok kv'"
    "skv_getStartCh kv' x = None" "skv_state kv' = skv_state kv" "skv_rf kv' = skv_rf kv" .
  from skv_received_spec [OF del(1) assms(3), of r] obtain a where
    a: "skv_received kv x m r = Inr (kv', a)" "skv_answer_err a = sm_Error m" by blast
  note e = skv_expired_spec [OF del(1), of r]
  have 2: "\<forall>s \<in> {SkRefused q r x, SkReceived q r x m, SkExpired q r x}.
      \<exists>kv' a. skv_advance kv s = Inr (kv', SkAnswered q a) \<and> skv_ok kv' \<and> skv_getStartCh kv' x = None \<and>
        skv_state kv' = skv_state kv \<and> skv_rf kv' = skv_rf kv"
    using del a(1) e by (auto simp: skv_deleteStartChLocked_def)
  have 3: "\<exists>kv' a. skv_advance kv (SkReceived q r x m) = Inr (kv', SkAnswered q a) \<and> skv_answer_err a = sm_Error m"
    using a by simp
  note new = skv_create_ok [OF assms(1), of "req_op kv q"]
  show ?thesis
    using 2 3 skv_pre_spec [OF assms(1,2)] new assms(1) by (simp only: skv_advance.simps) auto
qed

theorem skv_handler_sections_witness:
  "\<exists>kv'. skv_advance skv3_busy (SkLeading (GetReq \<lparr>ga_Key = ''k'', ga_ClientId = 7, ga_RequestIndex = 0\<rparr>)
       (GetRep \<lparr>gr_Err = SkErrFiller, gr_Value = ''''\<rparr>)) =
     Inr (kv', SkAnswered (GetReq \<lparr>ga_Key = ''k'', ga_ClientId = 7, ga_RequestIndex = 0\<rparr>)
       (GetRep \<lparr>gr_Err = SkErrNoConfig, gr_Value = ''''\<rparr>))"
proof -
  have "Num (LatestConfig (skv_state skv3_busy)) = 0" by code_simp
  with skv_handler_sections [OF skv3_busy_ok, of "GetReq \<lparr>ga_Key = ''k'', ga_ClientId = 7, ga_RequestIndex = 0\<rparr>"
      "GetRep \<lparr>gr_Err = SkErrFiller, gr_Value = ''''\<rparr>" "\<lparr>sm_Error = SkOK, sm_Value = ''''\<rparr>" ex_op]
  show ?thesis by (auto simp del: skv_advance.simps)
qed

end
