(* ===== verification/SKV_Clerk.thy ===== *)
theory SKV_Clerk
  imports SKV_Handlers SC_Clerk
begin

text \<open>
  The client of shardkv (client.go and the client side of get.go and putAppend.go). A call
  looks up the group of the key's shard in the configuration that the clerk holds, tries the
  servers of the group one after the other, leaves the group when it says it is the wrong one,
  and asks the controller for the latest configuration before the next round. Outside code is
  a parameter: \<open>call k srv args\<close> is what attempt number \<open>k\<close> brings back from server \<open>srv\<close>, \<open>None\<close>
  when the network lost it, and \<open>query n\<close> is what the controller answers the \<open>n\<close>-th time.
\<close>

record skvClerk =
  sck_config :: config
  sck_clerkRandomId :: int
  sck_requestIndex :: int
  sck_lastLeaderServer :: int

text \<open>\<open>rid\<close> is the draw of \<open>nrand\<close>; the configuration starts as the zero value.\<close>

definition skv_MakeClerk :: "int \<Rightarrow> skvClerk" where
  "skv_MakeClerk rid = \<lparr>sck_config = zeroConfig, sck_clerkRandomId = rid, sck_requestIndex = 0,
     sck_lastLeaderServer = 0\<rparr>"

definition skv_createGetArgs :: "skvClerk \<Rightarrow> string \<Rightarrow> skvGetArgs \<times> skvClerk" where
  "skv_createGetArgs ck key =
     (\<lparr>ga_Key = key, ga_ClientId = sck_clerkRandomId ck, ga_RequestIndex = sck_requestIndex ck\<rparr>,
      ck\<lparr>sck_requestIndex := sck_requestIndex ck + 1\<rparr>)"

definition skv_createPutAppendArgs :: "skvClerk \<Rightarrow> string \<Rightarrow> string \<Rightarrow> skvOpType \<Rightarrow> skvPutAppendArgs \<times> skvClerk" where
  "skv_createPutAppendArgs ck key v t =
     (\<lparr>pa_Key = key, pa_Value = v, pa_Op = t, pa_ClientId = sck_clerkRandomId ck,
       pa_RequestIndex = sck_requestIndex ck\<rparr>,
      ck\<lparr>sck_requestIndex := sck_requestIndex ck + 1\<rparr>)"

text \<open>
  The loop over the servers of a group; the result comes with the number of attempts so far.
  \<open>fin\<close> says which replies end the call, \<open>wrong\<close> which end the loop.
\<close>

fun skv_round :: "('r \<Rightarrow> bool) \<Rightarrow> ('r \<Rightarrow> bool) \<Rightarrow> (nat \<Rightarrow> string \<Rightarrow> 'r option) \<Rightarrow> string list \<Rightarrow> nat \<Rightarrow> 'r option \<times> nat" where
  "skv_round fin wrong call [] k = (None, k)"
| "skv_round fin wrong call (srv # rest) k =
     (case call k srv of
        None \<Rightarrow> skv_round fin wrong call rest (Suc k)
      | Some reply \<Rightarrow>
          if fin reply then (Some reply, Suc k)
          else if wrong reply then (None, Suc k)
          else skv_round fin wrong call rest (Suc k))"

text \<open>
  One pass of the outer loop on a state \<open>(n, config, k)\<close>: the number of queries so far, the
  configuration, the number of attempts so far.
\<close>

definition skv_attempt ::
  "('r \<Rightarrow> bool) \<Rightarrow> ('r \<Rightarrow> bool) \<Rightarrow> (nat \<Rightarrow> string \<Rightarrow> 'r option) \<Rightarrow> string \<Rightarrow> nat \<times> config \<times> nat \<Rightarrow> ('r option \<times> nat) res" where
  "skv_attempt fin wrong call key s =
     (case s of (n, config, k) \<Rightarrow>
        res_bind (go_index (Shards config) (key2shard key)) (\<lambda>gid.
          case map_of (Groups config) gid of
            None \<Rightarrow> Inr (None, k)
          | Some servers \<Rightarrow> Inr (skv_round fin wrong call servers k)))"

partial_function (option) skv_call_loop ::
  "('r \<Rightarrow> bool) \<Rightarrow> ('r \<Rightarrow> bool) \<Rightarrow> (nat \<Rightarrow> string \<Rightarrow> 'r option) \<Rightarrow> (nat \<Rightarrow> config) \<Rightarrow> string \<Rightarrow>
   nat \<times> config \<times> nat \<Rightarrow> ('r \<times> config) res option" where
  "skv_call_loop fin wrong call query key s =
     (case s of (n, config, k) \<Rightarrow>
        (case skv_attempt fin wrong call key s of
           Inl e \<Rightarrow> Some (Inl e)
         | Inr (Some reply, k') \<Rightarrow> Some (Inr (reply, config))
         | Inr (None, k') \<Rightarrow> skv_call_loop fin wrong call query key (Suc n, query n, k')))"

definition skv_ClerkGet ::
  "(nat \<Rightarrow> string \<Rightarrow> skvGetArgs \<Rightarrow> skvGetReply option) \<Rightarrow> (nat \<Rightarrow> config) \<Rightarrow> skvClerk \<Rightarrow> string \<Rightarrow>
   (string \<times> skvClerk) res option" where
  "skv_ClerkGet call query ck key =
     (let (args, ck1) = skv_createGetArgs ck key in
      map_option (\<lambda>r. res_bind r (\<lambda>(reply, config). Inr (gr_Value reply, ck1\<lparr>sck_config := config\<rparr>)))
        (skv_call_loop (\<lambda>r. gr_Err r = SkOK \<or> gr_Err r = SkErrNoKey) (\<lambda>r. gr_Err r = SkErrWrongGroup)
           (\<lambda>k srv. call k srv args) query key (0, sck_config ck1, 0)))"

definition skv_ClerkPutAppend ::
  "(nat \<Rightarrow> string \<Rightarrow> skvPutAppendArgs \<Rightarrow> skvPutAppendReply option) \<Rightarrow> (nat \<Rightarrow> config) \<Rightarrow> skvClerk \<Rightarrow> string \<Rightarrow>
   string \<Rightarrow> skvOpType \<Rightarrow> skvClerk res option" where
  "skv_ClerkPutAppend call query ck key v t =
     (let (args, ck1) = skv_createPutAppendArgs ck key v t in
      map_option (\<lambda>r. res_bind r (\<lambda>(reply, config). Inr (ck1\<lparr>sck_config := config\<rparr>)))
        (skv_call_loop (\<lambda>r. pr_Err r = SkOK) (\<lambda>r. pr_Err r = SkErrWrongGroup)
           (\<lambda>k srv. call k srv args) query key (0, sck_config ck1, 0)))"

definition skv_ClerkPut ::
  "(nat \<Rightarrow> string \<Rightarrow> skvPutAppendArgs \<Rightarrow> skvPutAppendReply option) \<Rightarrow> (nat \<Rightarrow> config) \<Rightarrow> skvClerk \<Rightarrow> string \<Rightarrow>
   string \<Rightarrow> skvClerk res option" where
  "skv_ClerkPut call query ck key v = skv_ClerkPutAppend call query ck key v SkPUT"

definition skv_ClerkAppend ::
  "(nat \<Rightarrow> string \<Rightarrow> skvPutAppendArgs \<Rightarrow> skvPutAppendReply option) \<Rightarrow> (nat \<Rightarrow> config) \<Rightarrow> skvClerk \<Rightarrow> string \<Rightarrow>
   string \<Rightarrow> skvClerk res option" where
  "skv_ClerkAppend call query ck key v = skv_ClerkPutAppend call query ck key v SkAPPEND"

section \<open>A round\<close>

text \<open>What a round returns came from an attempt of it, and is final.\<close>

lemma skv_round_Some:
  "skv_round fin wrong call servers k = (Some r, k') \<Longrightarrow>
   fin r \<and> (\<exists>j srv. k \<le> j \<and> srv \<in> set servers \<and> call j srv = Some r)"
proof (induction fin wrong call servers k rule: skv_round.induct)
  case (2 fin wrong call srv rest k)
  show ?case
  proof (cases "call k srv")
    case None
    with 2 show ?thesis by (auto intro: Suc_leD)
  next
    case (Some reply)
    with 2 show ?thesis by (cases "fin reply"; cases "wrong reply") (auto intro: Suc_leD)
  qed
qed simp

text \<open>
  A round meets the server that answers, unless a server before it in the list sends the clerk
  away.
\<close>

lemma skv_round_finds:
  assumes "\<And>j. k \<le> j \<Longrightarrow> \<exists>r. call j srv = Some r \<and> fin r"
    "\<And>j s r. k \<le> j \<Longrightarrow> s \<in> set before \<Longrightarrow> call j s = Some r \<Longrightarrow> \<not> fin r \<Longrightarrow> \<not> wrong r"
  shows "fst (skv_round fin wrong call (before @ srv # behind) k) \<noteq> None"
  using assms
proof (induction before arbitrary: k)
  case Nil
  from Nil(1) [of k] show ?case by auto
next
  case (Cons s before)
  have "fst (skv_round fin wrong call (before @ srv # behind) (Suc k)) \<noteq> None"
  proof (rule Cons.IH)
    show "\<exists>r. call j srv = Some r \<and> fin r" if "Suc k \<le> j" for j using Cons.prems(1) that by simp
    show "\<not> wrong r" if "Suc k \<le> j" "s' \<in> set before" "call j s' = Some r" "\<not> fin r" for j s' r
      using Cons.prems(2) [of j s' r] that by simp
  qed
  with Cons.prems(2) [of k s] show ?case by (auto split: option.splits)
qed

lemma skv_round_count:
  "k \<le> snd (skv_round fin wrong call servers k)"
  "servers \<noteq> [] \<Longrightarrow> k < snd (skv_round fin wrong call servers k)"
proof -
  show le: "k \<le> snd (skv_round fin wrong call servers k)" for servers k
    by (induction fin wrong call servers k rule: skv_round.induct)
      (auto split: option.splits intro: Suc_leD)
  show "servers \<noteq> [] \<Longrightarrow> k < snd (skv_round fin wrong call servers k)"
    using le [of "Suc k" "tl servers"] by (cases servers) (auto split: option.splits simp: Suc_le_eq)
qed

section \<open>The loop\<close>

definition skv_final ::
  "('r \<Rightarrow> bool) \<Rightarrow> ('r \<Rightarrow> bool) \<Rightarrow> (nat \<Rightarrow> string \<Rightarrow> 'r option) \<Rightarrow> string \<Rightarrow> nat \<times> config \<times> nat \<Rightarrow>
   ('r \<times> config) res option" where
  "skv_final fin wrong call key s =
     (case skv_attempt fin wrong call key s of
        Inl e \<Rightarrow> Some (Inl e)
      | Inr (Some reply, k') \<Rightarrow> Some (Inr (reply, fst (snd s)))
      | Inr (None, k') \<Rightarrow> None)"

definition skv_next ::
  "('r \<Rightarrow> bool) \<Rightarrow> ('r \<Rightarrow> bool) \<Rightarrow> (nat \<Rightarrow> string \<Rightarrow> 'r option) \<Rightarrow> (nat \<Rightarrow> config) \<Rightarrow> string \<Rightarrow> nat \<times> config \<times> nat \<Rightarrow>
   nat \<times> config \<times> nat" where
  "skv_next fin wrong call query key s =
     (Suc (fst s), query (fst s), (case skv_attempt fin wrong call key s of Inl e \<Rightarrow> 0 | Inr (r, k') \<Rightarrow> k'))"

interpretation skv_retry: retry_loop "\<lambda>i. skv_call_loop fin wrong call query key"
  "\<lambda>i. skv_final fin wrong call key" "skv_next fin wrong call query key" for fin wrong call query key
  by unfold_locales
    (subst skv_call_loop.simps, auto simp: skv_final_def skv_next_def split: prod.splits sum.splits option.splits)+

lemma skv_next_at:
  "fst ((skv_next fin wrong call query key ^^ Suc j) s) = Suc (fst s + j)"
  "fst (snd ((skv_next fin wrong call query key ^^ Suc j) s)) = query (fst s + j)"
  by (induction j) (simp_all add: skv_next_def)

text \<open>
  When the controller has settled, each round makes at least one attempt, so the attempts reach
  any number.
\<close>

definition settled :: "string \<Rightarrow> string list \<Rightarrow> nat \<Rightarrow> (nat \<Rightarrow> config) \<Rightarrow> bool" where
  "settled key servers m query \<longleftrightarrow> servers \<noteq> [] \<and> (\<forall>n. length (Shards (query n)) = NShards) \<and>
     (\<forall>n \<ge> m. map_of (Groups (query n)) (Shards (query n) ! nat (key2shard key)) = Some servers)"

lemma skv_attempt_settled:
  assumes "settled key servers m query" "m \<le> n"
  shows "skv_attempt fin wrong call key (i, query n, k) = Inr (skv_round fin wrong call servers k)"
  using assms by (simp add: skv_attempt_def settled_def go_index_shard)

lemma skv_attempts_reach:
  assumes "settled key servers m query"
  shows "p \<le> snd (snd ((skv_next fin wrong call query key ^^ (Suc m + p)) s))"
proof (induction p)
  case (Suc p)
  let ?t = "(skv_next fin wrong call query key ^^ (Suc m + p)) s"
  obtain i k where t: "?t = (i, query (fst s + (m + p)), k)"
    using skv_next_at(2) [where j = "m + p" and s = s and fin = fin and wrong = wrong and call = call and query = query and key = key] by (cases ?t) auto
  have "skv_attempt fin wrong call key ?t = Inr (skv_round fin wrong call servers k)"
    unfolding t by (rule skv_attempt_settled [OF assms]) simp
  then have "snd (snd (skv_next fin wrong call query key ?t)) = snd (skv_round fin wrong call servers k)"
    by (simp add: skv_next_def split: prod.splits)
  moreover have "k < snd (skv_round fin wrong call servers k)"
    using assms by (intro skv_round_count) (simp add: settled_def)
  ultimately show ?case using Suc t by simp
qed simp

text \<open>So the loop returns, with a final reply to one of its attempts.\<close>

lemma skv_call_returns:
  assumes set: "settled key (before @ srv # behind) m query" and c0: "length (Shards c0) = NShards"
    and srv: "\<And>j. p \<le> j \<Longrightarrow> \<exists>r. call j srv = Some r \<and> fin r"
    and right: "\<And>j s r. p \<le> j \<Longrightarrow> s \<in> set before \<Longrightarrow> call j s = Some r \<Longrightarrow> \<not> fin r \<Longrightarrow> \<not> wrong r"
  shows "\<exists>j s r c. call j s = Some r \<and> fin r \<and> skv_call_loop fin wrong call query key (0, c0, 0) = Some (Inr (r, c))"
proof -
  let ?nxt = "skv_next fin wrong call query key" and ?s = "(0 :: nat, c0, 0 :: nat)"
  let ?t = "(?nxt ^^ (Suc m + p)) ?s"
  obtain i k where t: "?t = (i, query (m + p), k)"
    using skv_next_at(2) [where j = "m + p" and s = ?s and fin = fin and wrong = wrong and call = call and query = query and key = key] by (cases ?t) auto
  have "p \<le> k" using skv_attempts_reach [OF set, where p = p and s = ?s and fin = fin and wrong = wrong and call = call] t by simp
  then have "fst (skv_round fin wrong call (before @ srv # behind) k) \<noteq> None"
    using srv right by (intro skv_round_finds) (meson order_trans)+
  then have "skv_final fin wrong call key ?t \<noteq> None"
    unfolding t skv_final_def by (subst skv_attempt_settled [OF set]) (auto split: prod.splits option.splits)
  then have "\<exists>j < Suc (Suc m + p). skv_final fin wrong call key ((?nxt ^^ j) ?s) \<noteq> None" by blast
  from skv_retry.loop_returns_start [OF this] obtain j r where
    j: "skv_final fin wrong call key ((?nxt ^^ j) ?s) = Some r" "skv_call_loop fin wrong call query key ?s = Some r"
    by metis
  obtain i' c k' where u: "(?nxt ^^ j) ?s = (i', c, k')" by (cases "(?nxt ^^ j) ?s")
  have "length (Shards c) = NShards"
  proof (cases j)
    case (Suc j')
    with skv_next_at(2) [where j = j' and s = ?s and fin = fin and wrong = wrong and call = call and query = query and key = key] u set show ?thesis by (auto simp: settled_def)
  qed (use u c0 in simp)
  with j(1) obtain reply where "r = Inr (reply, c)" "\<exists>servers k''. skv_round fin wrong call servers k' = (Some reply, k'')"
    unfolding u skv_final_def skv_attempt_def
    by (auto simp: go_index_shard split: option.splits prod.splits)
  with skv_round_Some j(2) show ?thesis by metis
qed

text \<open>
  If the first server of the group sends the clerk away in every round, no round ends the call,
  and the loop does not return.
\<close>

lemma skv_call_diverges:
  assumes "settled key (s0 # rest) 0 query" "\<And>j. \<exists>r. call j s0 = Some r \<and> \<not> fin r \<and> wrong r"
  shows "skv_call_loop fin wrong call query key (n, query i, k) = None"
proof -
  have round: "skv_attempt fin wrong call key (n, query i, k) = Inr (None, Suc k)" for n i k
  proof -
    from assms(2) obtain r where "call k s0 = Some r" "\<not> fin r" "wrong r" by blast
    then show ?thesis by (simp add: skv_attempt_settled [OF assms(1)])
  qed
  have "\<not> (\<exists>n i k. s = (n, query i, k))" if "skv_call_loop fin wrong call query key s = Some y" for s y
    using that
  proof (rule skv_call_loop.raw_induct
      [where P = "\<lambda>f w c q ky s y. f = fin \<and> w = wrong \<and> c = call \<and> q = query \<and> ky = key \<longrightarrow>
          \<not> (\<exists>n i k. s = (n, query i, k))", THEN mp, rotated], goal_cases)
    case (2 loop f w c q ky s y)
    show ?case
    proof (intro impI notI, elim conjE exE)
      fix n i k
      assume *: "f = fin" "w = wrong" "c = call" "q = query" "ky = key" "s = (n, query i, k)"
      with 2(2) have "loop fin wrong call query key (Suc n, query n, Suc k) = Some y"
        by (simp add: round)
      from 2(1) [OF this] show False by blast
    qed
  qed auto
  then show ?thesis by (cases "skv_call_loop fin wrong call query key (n, query i, k)") blast+
qed

section \<open>Properties\<close>

text \<open>
  C36. A call of the service comes back. Let the controller settle on configurations that give
  the shard of the key to one group, and let a server of it answer from some attempt on, while
  from then on no server before it in the list of the group says that it is the wrong group.
  Whatever happened earlier (lost messages, other groups, answers that send the clerk away) and
  whatever configuration the clerk held, Get and PutAppend return: Get with the value of an OK
  or ErrNoKey answer to this very request, PutAppend on an OK answer to this very request. The
  next call uses the next request index.
\<close>

theorem skv_clerk_returns:
  fixes ck :: skvClerk and key v :: string and t :: skvOpType
  defines "ga \<equiv> fst (skv_createGetArgs ck key)" and "pa \<equiv> fst (skv_createPutAppendArgs ck key v t)"
  assumes "settled key (before @ srv # behind) m query" "length (Shards (sck_config ck)) = NShards"
    "\<And>j. p \<le> j \<Longrightarrow> \<exists>r. get j srv ga = Some r \<and> (gr_Err r = SkOK \<or> gr_Err r = SkErrNoKey)"
    "\<And>j s r. p \<le> j \<Longrightarrow> s \<in> set before \<Longrightarrow> get j s ga = Some r \<Longrightarrow> gr_Err r \<noteq> SkErrWrongGroup"
    "\<And>j. p \<le> j \<Longrightarrow> \<exists>r. put j srv pa = Some r \<and> pr_Err r = SkOK"
    "\<And>j s r. p \<le> j \<Longrightarrow> s \<in> set before \<Longrightarrow> put j s pa = Some r \<Longrightarrow> pr_Err r \<noteq> SkErrWrongGroup"
  shows "(\<exists>j s r c. get j s ga = Some r \<and> (gr_Err r = SkOK \<or> gr_Err r = SkErrNoKey) \<and>
      skv_ClerkGet get query ck key =
        Some (Inr (gr_Value r, ck\<lparr>sck_requestIndex := sck_requestIndex ck + 1, sck_config := c\<rparr>))) \<and>
    (\<exists>j s r c. put j s pa = Some r \<and> pr_Err r = SkOK \<and>
      skv_ClerkPutAppend put query ck key v t =
        Some (Inr (ck\<lparr>sck_requestIndex := sck_requestIndex ck + 1, sck_config := c\<rparr>)))"
proof -
  from skv_call_returns [OF assms(3,4), of p "\<lambda>k srv. get k srv ga"
      "\<lambda>r. gr_Err r = SkOK \<or> gr_Err r = SkErrNoKey" "\<lambda>r. gr_Err r = SkErrWrongGroup"] assms(5,6)
  obtain j s r c where 1: "get j s ga = Some r" "gr_Err r = SkOK \<or> gr_Err r = SkErrNoKey"
    "skv_call_loop (\<lambda>r. gr_Err r = SkOK \<or> gr_Err r = SkErrNoKey) (\<lambda>r. gr_Err r = SkErrWrongGroup)
      (\<lambda>k srv. get k srv ga) query key (0, sck_config ck, 0) = Some (Inr (r, c))" by blast
  from skv_call_returns [OF assms(3,4), of p "\<lambda>k srv. put k srv pa"
      "\<lambda>r. pr_Err r = SkOK" "\<lambda>r. pr_Err r = SkErrWrongGroup"] assms(7,8)
  obtain j' s' r' c' where 2: "put j' s' pa = Some r'" "pr_Err r' = SkOK"
    "skv_call_loop (\<lambda>r. pr_Err r = SkOK) (\<lambda>r. pr_Err r = SkErrWrongGroup)
      (\<lambda>k srv. put k srv pa) query key (0, sck_config ck, 0) = Some (Inr (r', c'))" by blast
  have "skv_ClerkGet get query ck key =
      Some (Inr (gr_Value r, ck\<lparr>sck_requestIndex := sck_requestIndex ck + 1, sck_config := c\<rparr>))"
    "skv_ClerkPutAppend put query ck key v t =
      Some (Inr (ck\<lparr>sck_requestIndex := sck_requestIndex ck + 1, sck_config := c'\<rparr>))"
    using 1(3) 2(3) unfolding ga_def pa_def
    by (simp_all add: skv_ClerkGet_def skv_ClerkPutAppend_def skv_createGetArgs_def skv_createPutAppendArgs_def)
  with 1 2 show ?thesis by blast
qed

text \<open>
  A new clerk, whose first configuration has no groups; the controller then gives every shard
  to group 1 with two servers. At first both say that they are the wrong group; from attempt 3
  on the first does not lead and the second answers.
\<close>

definition two_servers :: "nat \<Rightarrow> config" where
  "two_servers n = \<lparr>Num = 1, Shards = replicate NShards 1, Groups = [(1, [''a'', ''b''])]\<rparr>"

definition get_second :: "nat \<Rightarrow> string \<Rightarrow> skvGetArgs \<Rightarrow> skvGetReply option" where
  "get_second j s args =
     Some \<lparr>gr_Err = (if j < 3 then SkErrWrongGroup else if s = ''b'' then SkOK else SkErrWrongLeader),
           gr_Value = ''v''\<rparr>"

definition put_second :: "nat \<Rightarrow> string \<Rightarrow> skvPutAppendArgs \<Rightarrow> skvPutAppendReply option" where
  "put_second j s args =
     Some \<lparr>pr_Err = (if j < 3 then SkErrWrongGroup else if s = ''b'' then SkOK else SkErrWrongLeader)\<rparr>"

theorem skv_clerk_returns_witness:
  "\<exists>c w. skv_ClerkGet get_second two_servers (skv_MakeClerk 99) ''k'' =
     Some (Inr (w, (skv_MakeClerk 99)\<lparr>sck_requestIndex := 1, sck_config := c\<rparr>))"
proof -
  let ?ck = "skv_MakeClerk 99"
  have "settled ''k'' ([''a''] @ ''b'' # []) 0 two_servers"
    by (simp add: settled_def two_servers_def key2shard_def NShards_def)
  moreover have "length (Shards (sck_config ?ck)) = NShards" by (simp add: skv_MakeClerk_def zeroConfig_def)
  ultimately have "\<exists>j s r c. get_second j s (fst (skv_createGetArgs ?ck ''k'')) = Some r \<and>
      (gr_Err r = SkOK \<or> gr_Err r = SkErrNoKey) \<and> skv_ClerkGet get_second two_servers ?ck ''k'' =
        Some (Inr (gr_Value r, ?ck\<lparr>sck_requestIndex := sck_requestIndex ?ck + 1, sck_config := c\<rparr>))"
    by (rule skv_clerk_returns [of "''k''" "[''a'']" "''b''" "[]" 0 two_servers ?ck 3 get_second put_second
          "''v''" SkPUT, THEN conjunct1]) (auto simp: get_second_def put_second_def split: if_splits)
  then show ?thesis by (auto simp: skv_MakeClerk_def)
qed

text \<open>
  The condition is needed: if the first server of the group answers ErrWrongGroup every time (it
  has not applied the latest configuration, say, because it is cut off from its group), the
  clerk never asks the second one, which would answer, and the call does not return.
\<close>

definition get_stuck :: "nat \<Rightarrow> string \<Rightarrow> skvGetArgs \<Rightarrow> skvGetReply option" where
  "get_stuck j s args =
     Some \<lparr>gr_Err = (if s = ''a'' then SkErrWrongGroup else SkOK), gr_Value = ''v''\<rparr>"

theorem skv_clerk_diverges:
  "skv_ClerkGet get_stuck two_servers ((skv_MakeClerk 99)\<lparr>sck_config := two_servers 0\<rparr>) ''k'' = None"
proof -
  have "settled ''k'' (''a'' # [''b'']) 0 two_servers"
    by (simp add: settled_def two_servers_def key2shard_def NShards_def)
  from skv_call_diverges [OF this, of "\<lambda>k srv. get_stuck k srv (fst (skv_createGetArgs (skv_MakeClerk 99) ''k''))"
      "\<lambda>r. gr_Err r = SkOK \<or> gr_Err r = SkErrNoKey" "\<lambda>r. gr_Err r = SkErrWrongGroup" 0 0 0]
  show ?thesis by (simp add: skv_ClerkGet_def skv_createGetArgs_def get_stuck_def)
qed

end
