(* ===== verification/MR_Coordinator.thy ===== *)
theory MR_Coordinator
  imports Prelude
begin

text \<open>
  The coordinator of MapReduce (mr/coordinator.go, mr/rpc.go): it hands out the map tasks, then
  the reduce tasks, hands a task out again when it is not reported within ten seconds, and is
  done when all are. One function per RPC and method, each under \<open>c.mu\<close>. Time is in
  nanoseconds; the clock is read once per request.
\<close>

datatype taskStatus = InStore | OnFly | Finished

datatype taskType = MapTask | ReduceTask | WaitTask | DoneTask

datatype requestType = GetRequest | PutRequest

record requestTaskArgs =
  ra_RequestType :: requestType
  ra_TaskType :: taskType
  ra_TaskInd :: int

record requestTaskReply =
  rr_Type :: taskType
  rr_TaskInd :: int
  rr_FileName :: string
  rr_NReduce :: int
  rr_NMap :: int

record coordinator =
  co_files :: "string list"
  nMap :: int
  mapHandoutTime :: "int list"
  mapStatus :: "taskStatus list"
  nReduce :: int
  reduceHandoutTime :: "int list"
  reduceStatus :: "taskStatus list"
  isDone :: bool

text \<open>The loop of \<open>allMapDone\<close> and \<open>allReduceDone\<close>.\<close>

fun all_finished :: "taskStatus list \<Rightarrow> bool" where
  "all_finished [] = True"
| "all_finished (st # rest) = (if st \<noteq> Finished then False else all_finished rest)"

definition allMapDone :: "coordinator \<Rightarrow> bool" where
  "allMapDone c = all_finished (mapStatus c)"

definition allReduceDone :: "coordinator \<Rightarrow> bool" where
  "allReduceDone c = all_finished (reduceStatus c)"

definition allDone :: "coordinator \<Rightarrow> bool" where
  "allDone c = (allMapDone c \<and> allReduceDone c)"

text \<open>
  The loop over the tasks of a kind: the first one that is in store, or that was handed out
  more than ten seconds ago.
\<close>

fun grant_loop :: "int \<Rightarrow> int list \<Rightarrow> (nat \<times> taskStatus) list \<Rightarrow> nat option res" where
  "grant_loop now hs [] = Inr None"
| "grant_loop now hs ((i, st) # rest) =
     (if st = InStore then Inr (Some i)
      else if st = OnFly
      then res_bind (go_index hs (int i)) (\<lambda>t.
             if t < now - 10 * 1000000000 then Inr (Some i) else grant_loop now hs rest)
      else grant_loop now hs rest)"

definition zeroReply :: requestTaskReply where
  "zeroReply = \<lparr>rr_Type = MapTask, rr_TaskInd = 0, rr_FileName = '''', rr_NReduce = 0, rr_NMap = 0\<rparr>"

definition grantMap :: "int \<Rightarrow> coordinator \<Rightarrow> requestTaskReply \<Rightarrow> (coordinator \<times> requestTaskReply) res" where
  "grantMap now c reply =
     res_bind (grant_loop now (mapHandoutTime c) (enumerate 0 (mapStatus c))) (\<lambda>g.
       case g of
         None \<Rightarrow> Inr (c, reply\<lparr>rr_Type := WaitTask\<rparr>)
       | Some i \<Rightarrow>
           res_bind (go_index (co_files c) (int i)) (\<lambda>f.
           res_bind (go_update (mapHandoutTime c) (int i) now) (\<lambda>ts.
           res_bind (go_update (mapStatus c) (int i) OnFly) (\<lambda>ss.
             Inr (c\<lparr>mapHandoutTime := ts, mapStatus := ss\<rparr>,
                  reply\<lparr>rr_TaskInd := int i, rr_FileName := f\<rparr>)))))"

definition grantReduce :: "int \<Rightarrow> coordinator \<Rightarrow> requestTaskReply \<Rightarrow> (coordinator \<times> requestTaskReply) res" where
  "grantReduce now c reply =
     res_bind (grant_loop now (reduceHandoutTime c) (enumerate 0 (reduceStatus c))) (\<lambda>g.
       case g of
         None \<Rightarrow> Inr (c, reply\<lparr>rr_Type := WaitTask\<rparr>)
       | Some i \<Rightarrow>
           res_bind (go_update (reduceHandoutTime c) (int i) now) (\<lambda>ts.
           res_bind (go_update (reduceStatus c) (int i) OnFly) (\<lambda>ss.
             Inr (c\<lparr>reduceHandoutTime := ts, reduceStatus := ss\<rparr>, reply\<lparr>rr_TaskInd := int i\<rparr>))))"

definition HandleRequestTask ::
  "int \<Rightarrow> coordinator \<Rightarrow> requestTaskArgs \<Rightarrow> (coordinator \<times> requestTaskReply) res" where
  "HandleRequestTask now c args =
     (let reply = zeroReply in
      if ra_RequestType args = PutRequest
      then if ra_TaskType args = MapTask
           then res_bind (go_update (mapStatus c) (ra_TaskInd args) Finished) (\<lambda>ss.
                  Inr (c\<lparr>mapStatus := ss\<rparr>, reply))
           else res_bind (go_update (reduceStatus c) (ra_TaskInd args) Finished) (\<lambda>ss.
                  let c1 = c\<lparr>reduceStatus := ss\<rparr> in
                  Inr (if allDone c1 then c1\<lparr>isDone := True\<rparr> else c1, reply))
      else if allMapDone c \<and> allReduceDone c then Inr (c\<lparr>isDone := True\<rparr>, reply\<lparr>rr_Type := DoneTask\<rparr>)
      else
        let reply1 = reply\<lparr>rr_Type := MapTask, rr_NReduce := nReduce c\<rparr> in
        if \<not> allMapDone c then grantMap now c reply1
        else
          let reply2 = reply1\<lparr>rr_Type := ReduceTask, rr_NMap := nMap c\<rparr> in
          if \<not> allReduceDone c then grantReduce now c reply2
          else Inr (c\<lparr>isDone := True\<rparr>, reply2\<lparr>rr_Type := DoneTask\<rparr>))"

definition DoneCall :: "coordinator \<Rightarrow> bool" where
  "DoneCall c = isDone c"

text \<open>
  The status of a task starts as the zero value, which is \<open>InStore\<close>, as the zero time in
  \<open>mapHandoutTime\<close>, which is not read before it is set; the loops write \<open>InStore\<close> once more.
\<close>

definition MakeCoordinator :: "string list \<Rightarrow> nat \<Rightarrow> coordinator" where
  "MakeCoordinator fs n =
     \<lparr>co_files = fs, nMap = int (length fs), mapHandoutTime = replicate (length fs) 0,
      mapStatus = fold (\<lambda>i ss. ss[i := InStore]) [1..<length fs] (replicate (length fs) InStore),
      nReduce = int n, reduceHandoutTime = replicate n 0,
      reduceStatus = fold (\<lambda>i ss. ss[i := InStore]) [1..<n] (replicate n InStore), isDone = False\<rparr>"

section \<open>The coordinator in good order\<close>

definition coord_ok :: "coordinator \<Rightarrow> bool" where
  "coord_ok c \<longleftrightarrow> nMap c = int (length (co_files c)) \<and> length (mapStatus c) = length (co_files c) \<and>
     length (mapHandoutTime c) = length (co_files c) \<and> 0 \<le> nReduce c \<and>
     length (reduceStatus c) = nat (nReduce c) \<and> length (reduceHandoutTime c) = nat (nReduce c) \<and>
     (isDone c \<longrightarrow> allDone c)"

lemma all_finished_iff: "all_finished ss \<longleftrightarrow> (\<forall>s \<in> set ss. s = Finished)"
  by (induction ss) auto

lemma all_finished_nth: "all_finished ss \<longleftrightarrow> (\<forall>i < length ss. ss ! i = Finished)"
  by (auto simp: all_finished_iff all_set_conv_all_nth)

lemma grant_loop_spec:
  assumes "\<forall>(i, st) \<in> set ps. i < length hs"
  obtains "grant_loop now hs ps = Inr None"
    "\<forall>(i, st) \<in> set ps. st = Finished \<or> st = OnFly \<and> now - 10 * 1000000000 \<le> hs ! i"
  | i st where "grant_loop now hs ps = Inr (Some i)" "(i, st) \<in> set ps"
    "st = InStore \<or> st = OnFly \<and> hs ! i < now - 10 * 1000000000"
  using assms
proof (induction now hs ps arbitrary: thesis rule: grant_loop.induct)
  case (2 now hs i st rest)
  have i: "i < length hs" and rest: "\<forall>(i, st) \<in> set rest. i < length hs" using "2.prems"(3) by auto
  show ?case
  proof (cases "st = InStore \<or> st = OnFly \<and> hs ! i < now - 10 * 1000000000")
    case True
    then have "grant_loop now hs ((i, st) # rest) = Inr (Some i)" using i by auto
    with True "2.prems"(2) [of i st] show ?thesis by simp
  next
    case False
    then have st: "st = Finished \<or> st = OnFly \<and> now - 10 * 1000000000 \<le> hs ! i" by (cases st) auto
    then have eq: "grant_loop now hs ((i, st) # rest) = grant_loop now hs rest" using i by auto
    have "grant_loop now hs rest = Inr None \<and>
        (\<forall>(i, st) \<in> set rest. st = Finished \<or> st = OnFly \<and> now - 10 * 1000000000 \<le> hs ! i) \<or>
      (\<exists>j s. grant_loop now hs rest = Inr (Some j) \<and> (j, s) \<in> set rest \<and>
        (s = InStore \<or> s = OnFly \<and> hs ! j < now - 10 * 1000000000))"
      using st
    proof
      assume "st = Finished"
      with 2(2) [OF _ _ _ _ rest] show ?thesis by auto
    next
      assume "st = OnFly \<and> now - 10 * 1000000000 \<le> hs ! i"
      with 2(1) [of "hs ! i", OF _ _ _ _ _ _ rest] i show ?thesis by auto
    qed
    with eq st "2.prems"(1,2) show ?thesis by fastforce
  qed
qed auto

lemma grant_enumerate:
  assumes "length hs = length ss"
  obtains "grant_loop now hs (enumerate 0 ss) = Inr None"
    "\<forall>i < length ss. ss ! i = Finished \<or> ss ! i = OnFly \<and> now - 10 * 1000000000 \<le> hs ! i"
  | i where "grant_loop now hs (enumerate 0 ss) = Inr (Some i)" "i < length ss"
    "ss ! i = InStore \<or> ss ! i = OnFly \<and> hs ! i < now - 10 * 1000000000"
proof -
  have "\<forall>(i, st) \<in> set (enumerate 0 ss). i < length hs" using assms by (auto simp: in_set_enumerate_eq)
  then show ?thesis
  proof (cases rule: grant_loop_spec [where now = now and hs = hs and ps = "enumerate 0 ss"])
    case 1
    have "ss ! i = Finished \<or> ss ! i = OnFly \<and> now - 10 * 1000000000 \<le> hs ! i" if "i < length ss" for i
      using bspec [OF 1(2), of "(i, ss ! i)"] that by (simp add: in_set_enumerate_eq)
    with 1(1) that(1) show ?thesis by blast
  next
    case (2 i st)
    then show ?thesis using that(2) [of i] by (auto simp: in_set_enumerate_eq)
  qed
qed

text \<open>
  A task of a list that is handed out at \<open>now\<close>: it was in store, or out for more than ten
  seconds.
\<close>

definition due :: "int \<Rightarrow> taskStatus list \<Rightarrow> int list \<Rightarrow> nat \<Rightarrow> bool" where
  "due now ss hs i \<longleftrightarrow> i < length ss \<and> (ss ! i = InStore \<or> ss ! i = OnFly \<and> hs ! i < now - 10 * 1000000000)"

definition get_args :: requestTaskArgs where
  "get_args = \<lparr>ra_RequestType = GetRequest, ra_TaskType = MapTask, ra_TaskInd = 0\<rparr>"

definition put_args :: "taskType \<Rightarrow> int \<Rightarrow> requestTaskArgs" where
  "put_args t i = \<lparr>ra_RequestType = PutRequest, ra_TaskType = t, ra_TaskInd = i\<rparr>"

lemma grantMap_spec:
  assumes "coord_ok c"
  obtains "grantMap now c r = Inr (c, r\<lparr>rr_Type := WaitTask\<rparr>)" "\<forall>i. \<not> due now (mapStatus c) (mapHandoutTime c) i"
  | i where "due now (mapStatus c) (mapHandoutTime c) i"
    "grantMap now c r = Inr (c\<lparr>mapHandoutTime := (mapHandoutTime c)[i := now], mapStatus := (mapStatus c)[i := OnFly]\<rparr>,
       r\<lparr>rr_TaskInd := int i, rr_FileName := co_files c ! i\<rparr>)"
proof -
  have len: "length (mapHandoutTime c) = length (mapStatus c)" "length (co_files c) = length (mapStatus c)"
    using assms by (auto simp: coord_ok_def)
  show ?thesis
  proof (cases rule: grant_enumerate [OF len(1), where now = now])
    case 1
    then show ?thesis by (intro that(1)) (auto simp: grantMap_def due_def)
  next
    case (2 i)
    then show ?thesis using len by (intro that(2) [of i]) (auto simp: grantMap_def due_def)
  qed
qed

lemma grantReduce_spec:
  assumes "coord_ok c"
  obtains "grantReduce now c r = Inr (c, r\<lparr>rr_Type := WaitTask\<rparr>)"
    "\<forall>i. \<not> due now (reduceStatus c) (reduceHandoutTime c) i"
  | i where "due now (reduceStatus c) (reduceHandoutTime c) i"
    "grantReduce now c r = Inr (c\<lparr>reduceHandoutTime := (reduceHandoutTime c)[i := now],
       reduceStatus := (reduceStatus c)[i := OnFly]\<rparr>, r\<lparr>rr_TaskInd := int i\<rparr>)"
proof -
  have len: "length (reduceHandoutTime c) = length (reduceStatus c)"
    using assms by (auto simp: coord_ok_def)
  show ?thesis
  proof (cases rule: grant_enumerate [OF len, where now = now])
    case 1
    then show ?thesis by (intro that(1)) (auto simp: grantReduce_def due_def)
  next
    case (2 i)
    then show ?thesis using len by (intro that(2) [of i]) (auto simp: grantReduce_def due_def)
  qed
qed

lemma due_not_all: "due now ss hs i \<Longrightarrow> \<not> all_finished ss \<and> \<not> all_finished (ss[i := OnFly])"
  by (auto simp: due_def all_finished_nth)

text \<open>The answers to a worker that asks for a task.\<close>

lemma get_cases:
  assumes "coord_ok c"
  obtains (Finish) "allDone c" "HandleRequestTask now c get_args = Inr (c\<lparr>isDone := True\<rparr>, zeroReply\<lparr>rr_Type := DoneTask\<rparr>)"
  | (Map) i r where "due now (mapStatus c) (mapHandoutTime c) i"
    "HandleRequestTask now c get_args =
       Inr (c\<lparr>mapHandoutTime := (mapHandoutTime c)[i := now], mapStatus := (mapStatus c)[i := OnFly]\<rparr>, r)"
    "rr_Type r = MapTask" "rr_TaskInd r = int i" "rr_FileName r = co_files c ! i" "rr_NReduce r = nReduce c"
  | (Reduce) i r where "allMapDone c" "due now (reduceStatus c) (reduceHandoutTime c) i"
    "HandleRequestTask now c get_args =
       Inr (c\<lparr>reduceHandoutTime := (reduceHandoutTime c)[i := now], reduceStatus := (reduceStatus c)[i := OnFly]\<rparr>, r)"
    "rr_Type r = ReduceTask" "rr_TaskInd r = int i" "rr_NMap r = nMap c"
  | (Wait) r where "\<not> allDone c" "HandleRequestTask now c get_args = Inr (c, r)" "rr_Type r = WaitTask"
    "if allMapDone c then \<forall>i. \<not> due now (reduceStatus c) (reduceHandoutTime c) i
     else \<forall>i. \<not> due now (mapStatus c) (mapHandoutTime c) i"
proof -
  consider "allDone c" | "\<not> allMapDone c" | "allMapDone c" "\<not> allReduceDone c" by (auto simp: allDone_def)
  then show ?thesis
  proof cases
    case 1
    then show ?thesis
      by (intro Finish) (simp_all add: HandleRequestTask_def get_args_def allDone_def)
  next
    case 2
    let ?r = "zeroReply\<lparr>rr_Type := MapTask, rr_NReduce := nReduce c\<rparr>"
    have eq: "HandleRequestTask now c get_args = grantMap now c ?r"
      using 2 by (simp add: HandleRequestTask_def get_args_def)
    show ?thesis
    proof (cases rule: grantMap_spec [OF assms, where now = now and r = ?r])
      case wait: 1
      show ?thesis by (rule Wait [OF _ eq [unfolded wait(1)]]) (use 2 wait in \<open>auto simp: allDone_def\<close>)
    next
      case grant: (2 i)
      show ?thesis by (rule Map [OF grant(1) eq [unfolded grant(2)]]) (simp_all add: zeroReply_def)
    qed
  next
    case 3
    let ?r = "zeroReply\<lparr>rr_Type := ReduceTask, rr_NReduce := nReduce c, rr_NMap := nMap c\<rparr>"
    have eq: "HandleRequestTask now c get_args = grantReduce now c ?r"
      using 3 by (simp add: HandleRequestTask_def get_args_def zeroReply_def)
    show ?thesis
    proof (cases rule: grantReduce_spec [OF assms, where now = now and r = ?r])
      case wait: 1
      show ?thesis by (rule Wait [OF _ eq [unfolded wait(1)]]) (use 3 wait in \<open>auto simp: allDone_def\<close>)
    next
      case grant: (2 i)
      show ?thesis by (rule Reduce [OF 3(1) grant(1) eq [unfolded grant(2)]]) (simp_all add: zeroReply_def)
    qed
  qed
qed

end
