(* ===== verification/MR_Json.thy ===== *)
theory MR_Json
  imports Prelude
begin

text \<open>
  The intermediate files of MapReduce (mr/worker.go): a map task writes a file with Go's
  \<open>json.Encoder\<close>, one object per key/value pair, and a reduce task reads it with
  \<open>json.Decoder\<close> until the first error. Files and strings are lists of bytes, as in Go. The
  encoder is that of Go 1.15 on a struct of two strings, with its escapes and its replacement of
  bytes that are not UTF-8. The decoder reads strings in full and objects in the layout the
  encoder writes; other objects, which no map task writes, end the stream.
\<close>

record keyValue =
  kv_Key :: string
  kv_Value :: string

section \<open>UTF-8\<close>

abbreviation byte :: "char \<Rightarrow> nat" where
  "byte c \<equiv> of_char c"

definition second_ok :: "nat \<Rightarrow> nat \<Rightarrow> bool" where
  "second_ok b0 b1 \<longleftrightarrow>
     (if b0 = 0xE0 then 0xA0 else if b0 = 0xF0 then 0x90 else 0x80) \<le> b1 \<and>
     b1 \<le> (if b0 = 0xED then 0x9F else if b0 = 0xF4 then 0x8F else 0xBF)"

definition cont_ok :: "nat \<Rightarrow> bool" where
  "cont_ok b \<longleftrightarrow> 0x80 \<le> b \<and> b \<le> 0xBF"

text \<open>The width of the rune at the front, 0 when it is not UTF-8 (\<open>utf8.DecodeRune\<close>).\<close>

fun rune_len :: "string \<Rightarrow> nat" where
  "rune_len [] = 0"
| "rune_len (c0 # s1) =
     (if byte c0 < 0x80 then 1
      else if byte c0 < 0xC2 \<or> 0xF4 < byte c0 then 0
      else (case s1 of [] \<Rightarrow> 0 | c1 # s2 \<Rightarrow>
        if \<not> second_ok (byte c0) (byte c1) then 0
        else if byte c0 < 0xE0 then 2
        else (case s2 of [] \<Rightarrow> 0 | c2 # s3 \<Rightarrow>
          if \<not> cont_ok (byte c2) then 0
          else if byte c0 < 0xF0 then 3
          else (case s3 of [] \<Rightarrow> 0 | c3 # s4 \<Rightarrow> if cont_ok (byte c3) then 4 else 0))))"

text \<open>The bytes of a rune (\<open>utf8.EncodeRune\<close>).\<close>

definition rune_bytes :: "nat \<Rightarrow> string" where
  "rune_bytes n =
     map char_of
      (if n < 0x80 then [n]
       else if n < 0x800 then [0xC0 + n div 64, 0x80 + n mod 64]
       else if n < 0x10000 then [0xE0 + n div 4096, 0x80 + n div 64 mod 64, 0x80 + n mod 64]
       else [0xF0 + n div 262144, 0x80 + n div 4096 mod 64, 0x80 + n div 64 mod 64, 0x80 + n mod 64])"

lemma rune_len_le: "rune_len s \<le> length s"
  by (cases s rule: rune_len.cases) (auto split: list.splits)

lemma rune_len_take: "0 < rune_len s \<Longrightarrow> rune_len (take (rune_len s) s @ x) = rune_len s"
  by (cases s rule: rune_len.cases) (auto split: list.splits if_splits)

lemma rune_len_ascii [simp]: "byte c < 0x80 \<Longrightarrow> rune_len (c # s) = 1"
  by simp

declare rune_len.simps(2) [simp del]

text \<open>A string with the bytes that are not UTF-8 replaced by U+FFFD, one for each.\<close>

function coerce :: "string \<Rightarrow> string" where
  "coerce [] = []"
| "coerce (c # cs) =
     (if rune_len (c # cs) = 0 then rune_bytes 0xFFFD @ coerce cs
      else take (rune_len (c # cs)) (c # cs) @ coerce (drop (rune_len (c # cs)) (c # cs)))"
  by pat_completeness auto
termination
  by (relation "measure length") auto

function valid_utf8 :: "string \<Rightarrow> bool" where
  "valid_utf8 [] = True"
| "valid_utf8 (c # cs) = 
     (if rune_len (c # cs) = 0 then False else valid_utf8 (drop (rune_len (c # cs)) (c # cs)))"
  by pat_completeness auto
termination
  by (relation "measure length") auto

lemma valid_coerce: "valid_utf8 s \<Longrightarrow> coerce s = s"
  by (induction s rule: valid_utf8.induct) (auto split: if_splits)

lemma valid_ascii: "\<forall>c \<in> set s. byte c < 0x80 \<Longrightarrow> valid_utf8 s"
  by (induction s) auto

section \<open>Strings\<close>

definition hex_digit :: "nat \<Rightarrow> char" where
  "hex_digit n = char_of (if n < 10 then 48 + n else 87 + n)"

definition hex_val :: "char \<Rightarrow> nat option" where
  "hex_val c =
     (if 48 \<le> byte c \<and> byte c \<le> 57 then Some (byte c - 48)
      else if 97 \<le> byte c \<and> byte c \<le> 102 then Some (byte c - 87)
      else if 65 \<le> byte c \<and> byte c \<le> 70 then Some (byte c - 55)
      else None)"

text \<open>Four hexadecimal digits, as after \<open>\u\<close>.\<close>

fun hex4 :: "string \<Rightarrow> (nat \<times> string) option" where
  "hex4 (a # b # c # d # rest) =
     (case (hex_val a, hex_val b, hex_val c, hex_val d) of
        (Some x, Some y, Some z, Some w) \<Rightarrow> Some (4096 * x + 256 * y + 16 * z + w, rest)
      | _ \<Rightarrow> None)"
| "hex4 _ = None"

definition backslash :: char where
  "backslash = CHR 0x5C"

definition quote :: char where
  "quote = CHR 0x22"

definition esc_ascii :: "char \<Rightarrow> string" where
  "esc_ascii c =
     (if c = backslash \<or> c = quote then [backslash, c]
      else if c = CHR 0x0A then [backslash, CHR ''n'']
      else if c = CHR 0x0D then [backslash, CHR ''r'']
      else if c = CHR 0x09 then [backslash, CHR ''t'']
      else if byte c < 0x20 \<or> c = CHR ''<'' \<or> c = CHR ''>'' \<or> c = CHR ''&''
      then [backslash, CHR ''u'', CHR ''0'', CHR ''0'', hex_digit (byte c div 16), hex_digit (byte c mod 16)]
      else [c])"

function esc :: "string \<Rightarrow> string" where
  "esc [] = []"
| "esc (c # cs) =
     (if byte c < 0x80 then esc_ascii c @ esc cs
      else if rune_len (c # cs) = 0 then backslash # ''ufffd'' @ esc cs
      else if take (rune_len (c # cs)) (c # cs) = rune_bytes 0x2028
      then backslash # ''u2028'' @ esc (drop (rune_len (c # cs)) (c # cs))
      else if take (rune_len (c # cs)) (c # cs) = rune_bytes 0x2029
      then backslash # ''u2029'' @ esc (drop (rune_len (c # cs)) (c # cs))
      else take (rune_len (c # cs)) (c # cs) @ esc (drop (rune_len (c # cs)) (c # cs)))"
  by pat_completeness auto
termination
  by (relation "measure length") auto

definition unesc :: "char \<Rightarrow> char option" where
  "unesc e =
     (if e = quote \<or> e = backslash \<or> e = CHR ''/'' then Some e
      else if e = CHR ''b'' then Some (CHR 0x08)
      else if e = CHR ''f'' then Some (CHR 0x0C)
      else if e = CHR ''n'' then Some (CHR 0x0A)
      else if e = CHR ''r'' then Some (CHR 0x0D)
      else if e = CHR ''t'' then Some (CHR 0x09)
      else None)"

definition surrogate :: "nat \<Rightarrow> bool" where
  "surrogate n \<longleftrightarrow> 0xD800 \<le> n \<and> n < 0xE000"

text \<open>The second half of a surrogate pair, when the text goes on with one.\<close>

definition low_half :: "nat \<Rightarrow> string \<Rightarrow> (nat \<times> string) option" where
  "low_half n s =
     (case s of
        b # u # r \<Rightarrow>
          if b = backslash \<and> u = CHR ''u''
          then (case hex4 r of
                  Some (m, r') \<Rightarrow>
                    if n < 0xDC00 \<and> 0xDC00 \<le> m \<and> m < 0xE000
                    then Some (0x10000 + (n - 0xD800) * 1024 + (m - 0xDC00), r') else None
                | None \<Rightarrow> None)
          else None
      | _ \<Rightarrow> None)"

definition prepend :: "string \<Rightarrow> (string \<times> string) option \<Rightarrow> (string \<times> string) option" where
  "prepend p m = (case m of None \<Rightarrow> None | Some (s, rest) \<Rightarrow> Some (p @ s, rest))"

lemma prepend_Some [simp]: "prepend p (Some (s, rest)) = Some (p @ s, rest)"
  by (simp add: prepend_def)

lemma prepend_eq_Some: "prepend p m = Some (t, rest) \<longleftrightarrow> (\<exists>s. m = Some (s, rest) \<and> t = p @ s)"
  by (auto simp: prepend_def split: option.splits)

lemma hex4_length: "hex4 s = Some (n, rest) \<Longrightarrow> length rest < length s"
  by (cases s rule: hex4.cases) (auto split: option.splits)

lemma low_half_length: "low_half n s = Some (m, rest) \<Longrightarrow> length rest < length s"
  by (auto simp: low_half_def split: list.splits if_splits option.splits dest!: hex4_length)

text \<open>A string literal after its opening quote: its value and the text after its closing quote.\<close>

function unq :: "string \<Rightarrow> (string \<times> string) option" where
  "unq [] = None"
| "unq (c # cs) =
     (if c = quote then Some ([], cs)
      else if c = backslash
      then (case cs of
              [] \<Rightarrow> None
            | e # r \<Rightarrow>
                if e = CHR ''u''
                then (case hex4 r of
                        None \<Rightarrow> None
                      | Some (n, r1) \<Rightarrow>
                          if surrogate n
                          then (case low_half n r1 of
                                  None \<Rightarrow> prepend (rune_bytes 0xFFFD) (unq r1)
                                | Some (m, r2) \<Rightarrow> prepend (rune_bytes m) (unq r2))
                          else prepend (rune_bytes n) (unq r1))
                else (case unesc e of None \<Rightarrow> None | Some x \<Rightarrow> prepend [x] (unq r)))
      else if byte c < 0x20 then None
      else if rune_len (c # cs) = 0 then prepend (rune_bytes 0xFFFD) (unq cs)
      else prepend (take (rune_len (c # cs)) (c # cs)) (unq (drop (rune_len (c # cs)) (c # cs))))"
  by pat_completeness auto
termination
  by (relation "measure length") (auto dest!: hex4_length low_half_length)

lemma hex_val_digit: "n < 16 \<Longrightarrow> hex_val (hex_digit n) = Some n"
  by (auto simp: hex_val_def hex_digit_def)

lemma unq_quote [simp]: "unq (quote # r) = Some ([], r)"
  by simp

declare unq.simps(2) [simp del]

lemma backslash_not_quote [simp]: "backslash \<noteq> quote" "quote \<noteq> backslash"
  by (simp_all add: backslash_def quote_def)

lemma rune_bytes_ascii: "byte c < 0x80 \<Longrightarrow> rune_bytes (byte c) = [c]"
  by (simp add: rune_bytes_def)

lemma unq_u:
  "hex4 r = Some (n, r1) \<Longrightarrow> \<not> surrogate n \<Longrightarrow>
   unq (backslash # CHR ''u'' # r) = prepend (rune_bytes n) (unq r1)"
  by (simp add: unq.simps(2))

lemma unq_unesc:
  "unesc e = Some x \<Longrightarrow> e \<noteq> CHR ''u'' \<Longrightarrow> unq (backslash # e # r) = prepend [x] (unq r)"
  by (simp add: unq.simps(2))

lemma unq_plain:
  "0x20 \<le> byte c \<Longrightarrow> byte c < 0x80 \<Longrightarrow> c \<noteq> quote \<Longrightarrow> c \<noteq> backslash \<Longrightarrow> unq (c # r) = prepend [c] (unq r)"
  by (simp add: unq.simps(2))

lemma unq_rune:
  assumes "0 < rune_len (c # cs)" and "0x80 \<le> byte c"
  shows "unq (take (rune_len (c # cs)) (c # cs) @ r) = prepend (take (rune_len (c # cs)) (c # cs)) (unq r)"
proof -
  let ?n = "rune_len (c # cs)"
  have n: "take ?n (c # cs) = c # take (?n - 1) cs" using assms(1) by (cases ?n) auto
  have len: "length (take ?n (c # cs)) = ?n" using rune_len_le [of "c # cs"] by simp
  have rl: "rune_len (take ?n (c # cs) @ r) = ?n" using rune_len_take assms(1) by blast
  have "c \<noteq> quote" "c \<noteq> backslash" "\<not> byte c < 0x20"
    using assms(2) by (auto simp: quote_def backslash_def)
  moreover have "take ?n (take ?n (c # cs) @ r) = take ?n (c # cs)" "drop ?n (take ?n (c # cs) @ r) = r"
    using len by simp_all
  ultimately show ?thesis using assms(1) rl unfolding n by (simp add: unq.simps(2) del: take_append drop_append)
qed

lemma hex4_byte:
  "byte c < 0x80 \<Longrightarrow> hex4 (CHR ''0'' # CHR ''0'' # hex_digit (byte c div 16) # hex_digit (byte c mod 16) # r) = Some (byte c, r)"
  by (simp add: hex_val_digit) (simp add: hex_val_def)

lemma unq_esc_ascii:
  assumes "byte c < 0x80"
  shows "unq (esc_ascii c @ r) = prepend [c] (unq r)"
proof (cases "esc_ascii c = [c]")
  case True
  then have "0x20 \<le> byte c" "c \<noteq> quote" "c \<noteq> backslash"
    by (auto simp: esc_ascii_def split: if_splits)
  with True assms show ?thesis by (simp add: unq_plain)
next
  case False
  have u: "unq (backslash # CHR ''u'' # CHR ''0'' # CHR ''0'' # hex_digit (byte c div 16) # hex_digit (byte c mod 16) # r)
      = prepend [c] (unq r)"
    using unq_u [OF hex4_byte [OF assms, of r]] assms by (simp add: rune_bytes_ascii surrogate_def)
  have n: "unq (backslash # CHR ''n'' # r) = prepend [CHR 0x0A] (unq r)"
    "unq (backslash # CHR ''r'' # r) = prepend [CHR 0x0D] (unq r)"
    "unq (backslash # CHR ''t'' # r) = prepend [CHR 0x09] (unq r)"
    "unq (backslash # quote # r) = prepend [quote] (unq r)"
    "unq (backslash # backslash # r) = prepend [backslash] (unq r)"
    by (rule unq_unesc; simp add: unesc_def quote_def backslash_def)+
  from False u n show ?thesis by (auto simp: esc_ascii_def)
qed

lemma hex4_runes:
  "hex4 (''fffd'' @ r) = Some (0xFFFD, r)" "hex4 (''2028'' @ r) = Some (0x2028, r)" "hex4 (''2029'' @ r) = Some (0x2029, r)"
  by (simp_all add: hex_val_def)

lemma unq_rune_escapes:
  "unq (backslash # ''ufffd'' @ r) = prepend (rune_bytes 0xFFFD) (unq r)"
  "unq (backslash # ''u2028'' @ r) = prepend (rune_bytes 0x2028) (unq r)"
  "unq (backslash # ''u2029'' @ r) = prepend (rune_bytes 0x2029) (unq r)"
  using unq_u [OF hex4_runes(1), of r] unq_u [OF hex4_runes(2), of r] unq_u [OF hex4_runes(3), of r]
  by (simp_all add: surrogate_def)

lemma unq_esc: "unq (esc s @ quote # r) = Some (coerce s, r)"
proof (induction s rule: esc.induct)
  case (2 c cs)
  let ?n = "rune_len (c # cs)"
  consider "byte c < 0x80" | "0x80 \<le> byte c" "?n = 0" | "0x80 \<le> byte c" "0 < ?n" by linarith
  then show ?case
  proof cases
    case 1
    then show ?thesis using 2(1) by (simp add: unq_esc_ascii)
  next
    case 2
    then show ?thesis using "2.IH"(2) by (simp add: unq_rune_escapes [simplified])
  next
    case 3
    have co: "coerce (c # cs) = take ?n (c # cs) @ coerce (drop ?n (c # cs))" using 3 by simp
    have IH: "unq (esc (drop ?n (c # cs)) @ quote # r) = Some (coerce (drop ?n (c # cs)), r)"
      using 3 "2.IH"(3,4,5) by (metis less_irrefl not_less)
    show ?thesis
      unfolding co using 3 IH by (simp add: unq_rune unq_rune_escapes [simplified] del: take_Cons drop_Cons)
  qed
qed simp

section \<open>Objects and streams\<close>

definition key_head :: string where
  "key_head = CHR ''{'' # quote # ''Key'' @ quote # CHR '':'' # quote # []"

definition value_head :: string where
  "value_head = CHR '','' # quote # ''Value'' @ quote # CHR '':'' # quote # []"

text \<open>\<open>enc.Encode(&kv)\<close> appends this to the file.\<close>

definition json_Encode :: "keyValue \<Rightarrow> string" where
  "json_Encode kv =
     key_head @ esc (kv_Key kv) @ quote # value_head @ esc (kv_Value kv) @ quote # CHR ''}'' # CHR 0x0A # []"

fun strip :: "string \<Rightarrow> string \<Rightarrow> string option" where
  "strip [] s = Some s"
| "strip (p # ps) [] = None"
| "strip (p # ps) (c # cs) = (if p = c then strip ps cs else None)"

definition is_space :: "char \<Rightarrow> bool" where
  "is_space c \<longleftrightarrow> c \<in> {CHR 0x20, CHR 0x09, CHR 0x0A, CHR 0x0D}"

text \<open>\<open>dec.Decode(&kv)\<close>: the next pair and the rest of the file, or an error.\<close>

definition json_Decode :: "string \<Rightarrow> (keyValue \<times> string) option" where
  "json_Decode s =
     (case strip key_head (dropWhile is_space s) of
        None \<Rightarrow> None
      | Some s1 \<Rightarrow>
          (case unq s1 of
             None \<Rightarrow> None
           | Some (k, s2) \<Rightarrow>
               (case strip value_head s2 of
                  None \<Rightarrow> None
                | Some s3 \<Rightarrow>
                    (case unq s3 of
                       None \<Rightarrow> None
                     | Some (v, s4) \<Rightarrow>
                         (case strip ''}'' s4 of
                            None \<Rightarrow> None
                          | Some s5 \<Rightarrow> Some (\<lparr>kv_Key = k, kv_Value = v\<rparr>, s5))))))"


lemma strip_append [simp]: "strip p (p @ s) = Some s"
  by (induction p) auto

lemma strip_length: "strip p s = Some t \<Longrightarrow> length t \<le> length s"
  by (induction p s rule: strip.induct) (auto split: if_splits)

lemma unq_length: "unq s = Some (t, r) \<Longrightarrow> length r < length s"
proof (induction s arbitrary: t r rule: length_induct)
  case (1 s)
  show ?case
  proof (rule ccontr)
    assume n: "\<not> length r < length s"
    have long: "length s \<le> length s'" if "unq s' = Some (t', r)" for s' t'
      using 1 n that by (meson less_trans not_le)
    obtain c cs where s: "s = c # cs" using 1(2) by (cases s) auto
    show False
      using 1(2) n unfolding s unq.simps(2)
      by (auto simp: prepend_eq_Some s split: if_splits list.splits option.splits
          dest!: hex4_length low_half_length long [unfolded s])
  qed
qed

lemma json_Decode_length: "json_Decode s = Some (kv, t) \<Longrightarrow> length t < length s"
proof -
  assume "json_Decode s = Some (kv, t)"
  then obtain s1 k s2 s3 v s4 where "strip key_head (dropWhile is_space s) = Some s1" "unq s1 = Some (k, s2)"
      "strip value_head s2 = Some s3" "unq s3 = Some (v, s4)" "strip ''}'' s4 = Some t"
    by (auto simp: json_Decode_def split: option.splits)
  then show ?thesis using length_dropWhile_le [of is_space s] by (auto dest!: strip_length unq_length)
qed

text \<open>The loop of \<open>DoReduce\<close> over one file: decode until the first error.\<close>

function decode_all :: "string \<Rightarrow> keyValue list" where
  "decode_all s = (case json_Decode s of None \<Rightarrow> [] | Some (kv, t) \<Rightarrow> kv # decode_all t)"
  by pat_completeness auto
termination
  by (relation "measure length") (auto dest: json_Decode_length)

declare decode_all.simps [simp del]

definition coerce_kv :: "keyValue \<Rightarrow> keyValue" where
  "coerce_kv kv = \<lparr>kv_Key = coerce (kv_Key kv), kv_Value = coerce (kv_Value kv)\<rparr>"

definition valid_kv :: "keyValue \<Rightarrow> bool" where
  "valid_kv kv \<longleftrightarrow> valid_utf8 (kv_Key kv) \<and> valid_utf8 (kv_Value kv)"

lemma valid_coerce_kv: "valid_kv kv \<Longrightarrow> coerce_kv kv = kv"
  by (simp add: valid_kv_def coerce_kv_def valid_coerce)

lemma key_head_strip: "strip key_head (dropWhile is_space (key_head @ s)) = Some s"
proof -
  have "dropWhile is_space (key_head @ s) = key_head @ s" by (simp add: key_head_def is_space_def)
  then show ?thesis by simp
qed

lemma Decode_Encode: "json_Decode (json_Encode kv @ s) = Some (coerce_kv kv, CHR 0x0A # s)"
  by (simp add: json_Decode_def json_Encode_def key_head_strip unq_esc coerce_kv_def)

lemma Decode_space: "is_space c \<Longrightarrow> json_Decode (c # s) = json_Decode s"
  by (simp add: json_Decode_def)

lemma decode_space: "is_space c \<Longrightarrow> decode_all (c # s) = decode_all s"
  by (subst (1 2) decode_all.simps) (simp add: Decode_space)

lemma decode_nil: "decode_all [] = []"
  by (subst decode_all.simps) (simp add: json_Decode_def key_head_def)

lemma decode_encode: "decode_all (concat (map json_Encode kvs)) = map coerce_kv kvs"
proof (induction kvs)
  case (Cons kv kvs)
  have "decode_all (json_Encode kv @ s) = coerce_kv kv # decode_all s" for s
    by (subst decode_all.simps) (simp add: Decode_Encode decode_space is_space_def)
  with Cons show ?case by simp
qed (simp add: decode_nil)

text \<open>
  What a map task writes into an intermediate file is what the reduce task reads: any
  number of pairs written one after the other decode to the same pairs in the same order, as
  long as their strings are UTF-8, whatever characters they contain (quotes, line breaks,
  control characters, the separators of HTML).
\<close>

theorem json_stream_roundtrip:
  assumes "\<forall>kv \<in> set kvs. valid_kv kv"
  shows "decode_all (concat (map json_Encode kvs)) = kvs"
  using assms by (simp add: decode_encode map_idI valid_coerce_kv)

theorem json_stream_roundtrip_witness:
  "\<exists>kv :: keyValue. kv_Key kv = [quote, CHR 0x0A] \<and> decode_all (json_Encode kv) = [kv]"
  using json_stream_roundtrip [of "[\<lparr>kv_Key = [quote, CHR 0x0A], kv_Value = ''1''\<rparr>]"]
  by (intro exI [of _ "\<lparr>kv_Key = [quote, CHR 0x0A], kv_Value = ''1''\<rparr>"])
    (simp add: valid_kv_def valid_ascii quote_def)

end
