(* ===== verification/MR_Worker.thy ===== *)
theory MR_Worker
  imports MR_Json "HOL-Library.Word" "HOL-Library.Multiset" "HOL-Library.Char_ord" "HOL-Library.List_Lexorder"
begin

unbundle bit_operations_syntax

text \<open>
  The tasks of a MapReduce worker (mr/worker.go) and the sequential program they are compared
  with (main/mrsequential.go). The directory the workers share is a map from file names to
  contents. A temporary file is written by its worker alone and enters the directory when it is
  renamed, which replaces the file of that name at once; a task is split at its renames and its
  reads, so that a crash and other workers can come between. The application's \<open>mapf\<close> and
  \<open>reducef\<close> are arguments, as in the source; \<open>sort.Sort\<close>, which puts equal keys in an order
  of its own, is the argument \<open>sortf\<close>.
\<close>

type_synonym directory = "string \<rightharpoonup> string"

section \<open>Buckets\<close>

text \<open>The 32 bit FNV-1a hash of Go's \<open>hash/fnv\<close>, on the bytes of the key.\<close>

definition fnv32a :: "string \<Rightarrow> 32 word" where
  "fnv32a s = foldl (\<lambda>h c. (h XOR of_char c) * 16777619) 2166136261 s"

definition ihash :: "string \<Rightarrow> int" where
  "ihash key = uint (fnv32a key AND 0x7fffffff)"

section \<open>File names\<close>

text \<open>An integer as \<open>%v\<close> prints it.\<close>

fun digits :: "nat \<Rightarrow> string" where
  "digits n = (if n < 10 then [char_of (48 + n)] else digits (n div 10) @ [char_of (48 + n mod 10)])"

declare digits.simps [simp del]

definition itoa :: "int \<Rightarrow> string" where
  "itoa i = (if i < 0 then CHR ''-'' # digits (nat (- i)) else digits (nat i))"

definition GetIntermediateFileName :: "int \<Rightarrow> int \<Rightarrow> string" where
  "GetIntermediateFileName mapInd reduceInd = ''mr-'' @ itoa mapInd @ ''-'' @ itoa reduceInd"

definition GetOutputFileName :: "int \<Rightarrow> string" where
  "GetOutputFileName reduceInd = ''mr-out-'' @ itoa reduceInd"

section \<open>Map tasks\<close>

text \<open>The loop that encodes every pair into the temporary file of its bucket.\<close>

fun encode_loop :: "int \<Rightarrow> keyValue list \<Rightarrow> string list \<Rightarrow> string list res" where
  "encode_loop n [] tmp = Inr tmp"
| "encode_loop n (kv # kva) tmp =
     (if n = 0 then Inl (GoPanic ''integer divide by zero'')
      else
        let reduceInd = ihash (kv_Key kv) mod n in
        res_bind (go_index tmp reduceInd) (\<lambda>f.
        res_bind (go_update tmp reduceInd (f @ json_Encode kv)) (\<lambda>tmp'.
          encode_loop n kva tmp')))"

text \<open>
  The part of \<open>DoMap\<close> between the call of \<open>mapf\<close> and the renames: the renames to
  make, each a file name with the contents of the temporary file.
\<close>

definition map_renames :: "int \<Rightarrow> keyValue list \<Rightarrow> int \<Rightarrow> (string \<times> string) list res" where
  "map_renames taskInd kva n =
     (if n < 0 then Inl (GoPanic ''makeslice: len out of range'')
      else res_bind (encode_loop n kva (replicate (nat n) [])) (\<lambda>tmp.
             Inr (zip (map (GetIntermediateFileName taskInd) [0..n - 1]) tmp)))"

definition rename_file :: "string \<times> string \<Rightarrow> directory \<Rightarrow> directory" where
  "rename_file = (\<lambda>(name, text) fs. fs(name \<mapsto> text))"

definition DoMap ::
  "(string \<Rightarrow> string \<Rightarrow> keyValue list) \<Rightarrow> int \<Rightarrow> string \<Rightarrow> int \<Rightarrow> directory \<Rightarrow> directory res" where
  "DoMap mapf taskInd fileName n fs =
     (case fs fileName of
        None \<Rightarrow> Inl (LogFatal ''cannot open'')
      | Some content \<Rightarrow>
          res_bind (map_renames taskInd (mapf fileName content) n) (\<lambda>rs. Inr (fold rename_file rs fs)))"

section \<open>Reduce tasks\<close>

definition read_file :: "directory \<Rightarrow> int \<Rightarrow> int \<Rightarrow> keyValue list res" where
  "read_file fs i taskInd =
     (case fs (GetIntermediateFileName i taskInd) of
        None \<Rightarrow> Inl (LogFatal ''cannot open intermediate file'')
      | Some text \<Rightarrow> Inr (decode_all text))"

fun read_loop :: "directory \<Rightarrow> int \<Rightarrow> int list \<Rightarrow> keyValue list \<Rightarrow> keyValue list res" where
  "read_loop fs taskInd [] kva = Inr kva"
| "read_loop fs taskInd (i # is) kva =
     res_bind (read_file fs i taskInd) (\<lambda>kvs. read_loop fs taskInd is (kva @ kvs))"

text \<open>The end of the run of equal keys: the loop on \<open>j\<close>.\<close>

function run_end :: "keyValue list \<Rightarrow> string \<Rightarrow> nat \<Rightarrow> nat" where
  "run_end kva k j = (if j < length kva \<and> kv_Key (kva ! j) = k then run_end kva k (Suc j) else j)"
  by pat_completeness auto
termination
  by (relation "measure (\<lambda>(kva, k, j). length kva - j)") auto

declare run_end.simps [simp del]

definition out_line :: "string \<Rightarrow> string \<Rightarrow> string" where
  "out_line k output = k @ CHR '' '' # output @ [CHR 0x0A]"

lemma run_end_ge: "j \<le> run_end kva k j"
proof (induction kva k j rule: run_end.induct)
  case (1 kva k j)
  then show ?case by (subst run_end.simps) (auto intro: Suc_leD)
qed

text \<open>The loop on \<open>i\<close>: one line of output for each run of equal keys.\<close>

function reduce_loop :: "(string \<Rightarrow> string list \<Rightarrow> string) \<Rightarrow> keyValue list \<Rightarrow> nat \<Rightarrow> string list" where
  "reduce_loop reducef kva i =
     (if i < length kva
      then let j = run_end kva (kv_Key (kva ! i)) (Suc i);
               vs = map (\<lambda>k. kv_Value (kva ! k)) [i..<j]
           in out_line (kv_Key (kva ! i)) (reducef (kv_Key (kva ! i)) vs) # reduce_loop reducef kva j
      else [])"
  by pat_completeness auto
termination
proof (relation "measure (\<lambda>(reducef, kva, i). length kva - i)")
  fix reducef :: "string \<Rightarrow> string list \<Rightarrow> string" and kva :: "keyValue list" and i x :: nat
  assume "i < length kva" and "x = run_end kva (kv_Key (kva ! i)) (Suc i)"
  then show "((reducef, kva, x), reducef, kva, i) \<in> measure (\<lambda>(reducef, kva, i). length kva - i)"
    using run_end_ge [of "Suc i" kva "kv_Key (kva ! i)"] by simp
qed simp

declare reduce_loop.simps [simp del]

definition reduce_text ::
  "(keyValue list \<Rightarrow> keyValue list) \<Rightarrow> (string \<Rightarrow> string list \<Rightarrow> string) \<Rightarrow> keyValue list \<Rightarrow> string" where
  "reduce_text sortf reducef kva = concat (reduce_loop reducef (sortf kva) 0)"

definition DoReduce ::
  "(keyValue list \<Rightarrow> keyValue list) \<Rightarrow> (string \<Rightarrow> string list \<Rightarrow> string) \<Rightarrow> int \<Rightarrow> int \<Rightarrow> directory \<Rightarrow> directory res" where
  "DoReduce sortf reducef taskInd n fs =
     res_bind (read_loop fs taskInd [0..n - 1] []) (\<lambda>kva.
       Inr (rename_file (GetOutputFileName taskInd, reduce_text sortf reducef kva) fs))"

section \<open>The sequential program\<close>

fun seq_read ::
  "(string \<Rightarrow> string \<Rightarrow> keyValue list) \<Rightarrow> directory \<Rightarrow> string list \<Rightarrow> keyValue list \<Rightarrow> keyValue list res" where
  "seq_read mapf fs [] intermediate = Inr intermediate"
| "seq_read mapf fs (filename # rest) intermediate =
     (case fs filename of
        None \<Rightarrow> Inl (LogFatal ''cannot open'')
      | Some content \<Rightarrow> seq_read mapf fs rest (intermediate @ mapf filename content))"

definition mrsequential ::
  "(keyValue list \<Rightarrow> keyValue list) \<Rightarrow> (string \<Rightarrow> string \<Rightarrow> keyValue list) \<Rightarrow>
   (string \<Rightarrow> string list \<Rightarrow> string) \<Rightarrow> string list \<Rightarrow> directory \<Rightarrow> directory res" where
  "mrsequential sortf mapf reducef filenames fs =
     (if filenames = [] then Inl (LogFatal ''Usage: mrsequential xxx.so inputfiles'')
      else res_bind (seq_read mapf fs filenames []) (\<lambda>intermediate.
             Inr (fs(''mr-out-0'' \<mapsto> concat (reduce_loop reducef (sortf intermediate) 0)))))"

section \<open>Buckets are in range\<close>

lemma ihash_range: "0 \<le> ihash key" "ihash key < 2 ^ 31"
proof -
  have "uint (fnv32a key AND 0x7fffffff) = uint (fnv32a key) AND 0x7fffffff"
    by (simp add: uint_and)
  also have "\<dots> = uint (fnv32a key) AND mask 31" by (simp add: mask_eq_exp_minus_1)
  also have "\<dots> = uint (fnv32a key) mod 2 ^ 31" by (metis take_bit_eq_mask take_bit_eq_mod)
  finally show "0 \<le> ihash key" "ihash key < 2 ^ 31" by (simp_all add: ihash_def)
qed

section \<open>File names are distinct\<close>

fun digits_val :: "string \<Rightarrow> nat" where
  "digits_val s = foldl (\<lambda>n c. 10 * n + (of_char c - 48)) 0 s"

lemma digits_val_digits: "digits_val (digits n) = n"
proof (induction n rule: digits.induct)
  case (1 n)
  show ?case
  proof (cases "n < 10")
    case False
    with 1 have "digits_val (digits (n div 10)) = n div 10" by simp
    with False show ?thesis by (subst digits.simps) simp
  qed (simp add: digits.simps)
qed

lemma digits_eq_iff [simp]: "digits m = digits n \<longleftrightarrow> m = n"
  by (metis digits_val_digits)

lemma digits_chars: "c \<in> set (digits n) \<Longrightarrow> 48 \<le> (of_char c :: nat) \<and> (of_char c :: nat) \<le> 57"
proof (induction n rule: digits.induct)
  case (1 n)
  then show ?case by (cases "n < 10") (auto simp: digits.simps [of n])
qed

lemma digits_nonempty [simp]: "digits n \<noteq> []"
  by (subst digits.simps) simp

lemma digits_no_dash: "CHR ''-'' \<notin> set (digits n)"
  using digits_chars by force

lemma split_dash:
  assumes "digits m @ CHR ''-'' # s = digits n @ CHR ''-'' # t"
  shows "m = n \<and> s = t"
proof -
  have tw: "takeWhile (\<lambda>c. c \<noteq> CHR ''-'') (digits k @ CHR ''-'' # u) = digits k" for k u
    using digits_no_dash [of k] by (subst takeWhile_append2) auto
  from assms have "digits m = digits n" using tw by metis
  with assms show ?thesis by simp
qed

lemma intermediate_eq_iff [simp]:
  "GetIntermediateFileName (int m) (int r) = GetIntermediateFileName (int m') (int r') \<longleftrightarrow> m = m' \<and> r = r'"
  by (auto simp: GetIntermediateFileName_def itoa_def dest: split_dash)

lemma output_eq_iff [simp]: "GetOutputFileName (int r) = GetOutputFileName (int r') \<longleftrightarrow> r = r'"
  by (simp add: GetOutputFileName_def itoa_def)

lemma intermediate_not_output [simp]:
  "GetIntermediateFileName (int m) r \<noteq> GetOutputFileName r'"
proof
  assume eq: "GetIntermediateFileName (int m) r = GetOutputFileName r'"
  obtain c cs where d: "digits m = c # cs" by (cases "digits m") auto
  with eq have "c = CHR ''o''" by (simp add: GetIntermediateFileName_def GetOutputFileName_def itoa_def)
  with d digits_chars [of c m] show False by simp
qed

lemmas output_not_intermediate [simp] = intermediate_not_output [symmetric]

section \<open>What the tasks write\<close>

definition bucket :: "int \<Rightarrow> int \<Rightarrow> keyValue list \<Rightarrow> keyValue list" where
  "bucket n r kvs = filter (\<lambda>kv. ihash (kv_Key kv) mod n = r) kvs"

lemma bucket_append [simp]: "bucket n r (xs @ ys) = bucket n r xs @ bucket n r ys"
  by (simp add: bucket_def)

lemma bucket_Nil [simp]: "bucket n r [] = []"
  by (simp add: bucket_def)

lemma encode_loop_spec:
  assumes "0 < n" and "length tmp = nat n"
  shows "encode_loop n kva tmp =
    Inr (map (\<lambda>r. tmp ! r @ concat (map json_Encode (bucket n (int r) kva))) [0..<nat n])"
  using assms(2)
proof (induction kva arbitrary: tmp)
  case Nil
  then show ?case by (simp add: bucket_def) (metis map_nth)
next
  case (Cons kv kva)
  define h where "h = ihash (kv_Key kv) mod n"
  have h: "0 \<le> h" "h < int (length tmp)" using assms(1) Cons.prems by (simp_all add: h_def)
  let ?tmp = "tmp[nat h := tmp ! nat h @ json_Encode kv]"
  have "encode_loop n (kv # kva) tmp = encode_loop n kva ?tmp"
    using assms(1) h by (simp add: Let_def flip: h_def)
  also have "\<dots> = Inr (map (\<lambda>r. ?tmp ! r @ concat (map json_Encode (bucket n (int r) kva))) [0..<nat n])"
    using Cons by simp
  also have "?tmp ! r @ concat (map json_Encode (bucket n (int r) kva)) =
      tmp ! r @ concat (map json_Encode (bucket n (int r) (kv # kva)))" if "r < nat n" for r
    using that h Cons.prems by (auto simp: bucket_def nth_list_update h_def [symmetric])
  then have "map (\<lambda>r. ?tmp ! r @ concat (map json_Encode (bucket n (int r) kva))) [0..<nat n] =
      map (\<lambda>r. tmp ! r @ concat (map json_Encode (bucket n (int r) (kv # kva)))) [0..<nat n]"
    by (intro map_cong) auto
  finally show ?case .
qed

definition bucket_files :: "int \<Rightarrow> keyValue list \<Rightarrow> int \<Rightarrow> (string \<times> string) list" where
  "bucket_files taskInd kva n =
     map (\<lambda>r. (GetIntermediateFileName taskInd (int r), concat (map json_Encode (bucket n (int r) kva)))) [0..<nat n]"

lemma upto_int: "[0..n - 1] = map int [0..<nat n]"
proof (cases "0 \<le> n")
  case True
  then show ?thesis by (auto intro!: nth_equalityI)
qed simp

lemma map_renames_spec:
  assumes "0 < n \<or> n = 0 \<and> kva = []"
  shows "map_renames taskInd kva n = Inr (bucket_files taskInd kva n)"
proof (cases "n = 0")
  case False
  with assms have n: "0 < n" by simp
  show ?thesis
    using n encode_loop_spec [OF n, of "replicate (nat n) []"]
    by (simp add: map_renames_def bucket_files_def upto_int zip_map_map map_zip_map zip_same_conv_map)
qed (use assms in \<open>simp add: map_renames_def bucket_files_def\<close>)

lemma map_renames_zero: "kva \<noteq> [] \<Longrightarrow> map_renames taskInd kva 0 = Inl (GoPanic ''integer divide by zero'')"
  by (cases kva) (simp_all add: map_renames_def)

lemma decode_bucket:
  assumes "\<forall>kv \<in> set kva. valid_kv kv"
  shows "decode_all (concat (map json_Encode (bucket n r kva))) = bucket n r kva"
  unfolding decode_encode using assms by (intro map_idI) (auto simp: bucket_def valid_coerce_kv)

text \<open>The buckets are a partition of the pairs.\<close>

lemma mset_buckets:
  assumes "0 < n"
  shows "(\<Sum>r\<leftarrow>[0..<nat n]. mset (bucket n (int r) kva)) = mset kva"
proof (induction kva)
  case Nil
  then show ?case by (simp add: bucket_def)
next
  case (Cons kv kva)
  let ?h = "nat (ihash (kv_Key kv) mod n)"
  have h: "?h < nat n" "int ?h = ihash (kv_Key kv) mod n" using assms by simp_all
  have "mset (bucket n (int r) (kv # kva)) = mset (bucket n (int r) kva) + (if r = ?h then {#kv#} else {#})" for r
    using h(2) by (auto simp: bucket_def)
  then have "(\<Sum>r\<leftarrow>[0..<nat n]. mset (bucket n (int r) (kv # kva))) =
      mset kva + (\<Sum>r\<leftarrow>[0..<nat n]. if r = ?h then {#kv#} else {#})"
    by (simp add: Cons sum_list_addf)
  also have "(\<Sum>r\<leftarrow>[0..<nat n]. if r = ?h then {#kv#} else {#}) = {#kv#}"
    using h(1) by (simp add: sum_list_distinct_conv_sum_set)
  finally show ?case by simp
qed

text \<open>
  C40. A map task splits its pairs into the files of its buckets. For every number of buckets
  and all pairs of UTF-8 strings, keys of any length included, \<open>DoMap\<close> gets through its loop with
  every bucket number within the open files; it makes one rename per bucket, to names that
  differ; the file of bucket \<open>r\<close> decodes to the pairs whose hash falls on \<open>r\<close>, in their order; and all
  files together decode to the pairs, none lost and none repeated. The hash is a number of 31
  bits. Over the whole job, the files of two map tasks or two buckets, the outputs of two
  reduce tasks, and an intermediate file and an output never have the same name.
\<close>

theorem mr_bucket_bounds:
  fixes n :: int
  assumes "0 < n" "\<forall>kv \<in> set kva. valid_kv kv"
  shows "(\<exists>rs. map_renames (int m) kva n = Inr rs \<and> length rs = nat n \<and> distinct (map fst rs) \<and>
      (\<forall>r < nat n. fst (rs ! r) = GetIntermediateFileName (int m) (int r) \<and>
         decode_all (snd (rs ! r)) = filter (\<lambda>kv. ihash (kv_Key kv) mod n = int r) kva) \<and>
      (\<Sum>f\<leftarrow>rs. mset (decode_all (snd f))) = mset kva) \<and>
    0 \<le> ihash key \<and> ihash key < 2 ^ 31 \<and>
    (\<forall>m r m' r'. GetIntermediateFileName (int m) (int r) = GetIntermediateFileName (int m') (int r') \<longrightarrow>
       m = m' \<and> r = r') \<and>
    (\<forall>r r'. GetOutputFileName (int r) = GetOutputFileName (int r') \<longrightarrow> r = r') \<and>
    (\<forall>m r r'. GetIntermediateFileName (int m) (int r) \<noteq> GetOutputFileName (int r'))"
proof -
  let ?rs = "bucket_files (int m) kva n"
  have "map_renames (int m) kva n = Inr ?rs" using assms(1) by (simp add: map_renames_spec)
  moreover have "length ?rs = nat n" "distinct (map fst ?rs)"
    by (simp_all add: bucket_files_def distinct_map inj_on_def comp_def)
  moreover have "\<forall>r < nat n. fst (?rs ! r) = GetIntermediateFileName (int m) (int r) \<and>
      decode_all (snd (?rs ! r)) = filter (\<lambda>kv. ihash (kv_Key kv) mod n = int r) kva"
    using decode_bucket [OF assms(2)] by (simp add: bucket_files_def) (simp add: bucket_def)
  moreover have "(\<Sum>f\<leftarrow>?rs. mset (decode_all (snd f))) = mset kva"
    using mset_buckets [OF assms(1)] by (simp add: bucket_files_def comp_def decode_bucket [OF assms(2)])
  ultimately show ?thesis using ihash_range by auto
qed

theorem mr_bucket_bounds_witness:
  "\<exists>rs. map_renames 0 [\<lparr>kv_Key = ''a'', kv_Value = ''1''\<rparr>, \<lparr>kv_Key = ''b'', kv_Value = ''1''\<rparr>] 2 = Inr rs \<and>
     length rs = 2 \<and> fst (rs ! 1) = ''mr-0-1'' \<and>
     (\<Sum>f\<leftarrow>rs. mset (decode_all (snd f))) =
       {#\<lparr>kv_Key = ''a'', kv_Value = ''1''\<rparr>, \<lparr>kv_Key = ''b'', kv_Value = ''1''\<rparr>#}"
proof -
  let ?kva = "[\<lparr>kv_Key = ''a'', kv_Value = ''1''\<rparr>, \<lparr>kv_Key = ''b'', kv_Value = ''1''\<rparr>]"
  have "\<forall>kv \<in> set ?kva. valid_kv kv" by (simp add: valid_kv_def valid_ascii)
  from mr_bucket_bounds [OF _ this, of 2 0 "''k''"] obtain rs where
    "map_renames 0 ?kva 2 = Inr rs" "length rs = 2" "fst (rs ! 1) = GetIntermediateFileName 0 1"
    "(\<Sum>f\<leftarrow>rs. mset (decode_all (snd f))) = mset ?kva" by force
  moreover have "GetIntermediateFileName 0 1 = ''mr-0-1''" by code_simp
  ultimately show ?thesis by auto
qed

section \<open>The loop over runs of equal keys\<close>

definition values_of :: "string \<Rightarrow> keyValue list \<Rightarrow> string list" where
  "values_of k kvs = map kv_Value (filter (\<lambda>kv. kv_Key kv = k) kvs)"

definition lines_of :: "(string \<Rightarrow> string list \<Rightarrow> string) \<Rightarrow> keyValue list \<Rightarrow> string list" where
  "lines_of reducef kvs = map (\<lambda>k. out_line k (reducef k (values_of k kvs))) (remdups_adj (map kv_Key kvs))"

lemma run_end_takeWhile:
  "run_end kva k j = j + length (takeWhile (\<lambda>kv. kv_Key kv = k) (drop j kva))"
proof (induction kva k j rule: run_end.induct)
  case (1 kva k j)
  show ?case
  proof (cases "j < length kva \<and> kv_Key (kva ! j) = k")
    case True
    then have "drop j kva = kva ! j # drop (Suc j) kva" by (simp add: Cons_nth_drop_Suc)
    with True 1 show ?thesis by (subst run_end.simps) simp
  next
    case False
    then have "takeWhile (\<lambda>kv. kv_Key kv = k) (drop j kva) = []"
      by (cases "j < length kva") (auto simp: Cons_nth_drop_Suc [symmetric])
    with False show ?thesis by (subst run_end.simps) auto
  qed
qed

lemma nth_upt_slice: "j \<le> length xs \<Longrightarrow> map (\<lambda>k. f (xs ! k)) [i..<j] = map f (take (j - i) (drop i xs))"
  by (auto intro!: nth_equalityI)

lemma sorted_dropWhile_key:
  assumes "sorted (map kv_Key (kv # rest))" and "x \<in> set (dropWhile (\<lambda>x. kv_Key x = kv_Key kv) rest)"
  shows "kv_Key kv < kv_Key x"
  using assms
proof (induction rest)
  case (Cons y rest)
  then show ?case by (cases "kv_Key y = kv_Key kv") (auto simp: order.order_iff_strict)
qed simp

lemma remdups_adj_run:
  "remdups_adj (map f (x # xs)) = f x # remdups_adj (map f (dropWhile (\<lambda>y. f y = f x) xs))"
proof (induction xs)
  case (Cons y ys)
  then show ?case by (cases "f y = f x") auto
qed simp

lemma lines_of_run:
  assumes "sorted (map kv_Key (kv # rest))"
  defines "run \<equiv> takeWhile (\<lambda>x. kv_Key x = kv_Key kv) rest"
    and "rest' \<equiv> dropWhile (\<lambda>x. kv_Key x = kv_Key kv) rest"
  shows "lines_of reducef (kv # rest) =
    out_line (kv_Key kv) (reducef (kv_Key kv) (map kv_Value (kv # run))) # lines_of reducef rest'"
proof -
  have split: "rest = run @ rest'" by (simp add: run_def rest'_def)
  have run: "\<forall>x \<in> set run. kv_Key x = kv_Key kv" by (auto simp: run_def dest: set_takeWhileD)
  have gt: "\<forall>x \<in> set rest'. kv_Key kv < kv_Key x"
    using sorted_dropWhile_key [OF assms(1)] by (auto simp: rest'_def)
  have "filter (\<lambda>x. kv_Key x = kv_Key kv) rest = run"
    unfolding split using run gt by (auto simp: filter_empty_conv)
  then have v: "values_of (kv_Key kv) (kv # rest) = map kv_Value (kv # run)" by (simp add: values_of_def)
  have "values_of k (kv # rest) = values_of k rest'" if "k \<in> kv_Key ` set rest'" for k
  proof -
    have "k \<noteq> kv_Key kv" using that gt by auto
    then have "filter (\<lambda>x. kv_Key x = k) run = []" using run by (simp add: filter_empty_conv)
    with \<open>k \<noteq> kv_Key kv\<close> show ?thesis by (simp add: values_of_def split)
  qed
  then have eq: "map (\<lambda>k. out_line k (reducef k (values_of k (kv # rest)))) (remdups_adj (map kv_Key rest')) = lines_of reducef rest'"
    by (auto simp: lines_of_def)
  have r: "remdups_adj (map kv_Key (kv # rest)) = kv_Key kv # remdups_adj (map kv_Key rest')"
    unfolding rest'_def by (rule remdups_adj_run)
  show ?thesis unfolding lines_of_def [of reducef "kv # rest"] r by (simp only: list.map v eq)
qed

lemma reduce_loop_lines:
  "sorted (map kv_Key kva) \<Longrightarrow> reduce_loop reducef kva i = lines_of reducef (drop i kva)"
proof (induction reducef kva i rule: reduce_loop.induct)
  case (1 reducef kva i)
  show ?case
  proof (cases "i < length kva")
    case True
    define run where "run = takeWhile (\<lambda>x. kv_Key x = kv_Key (kva ! i)) (drop (Suc i) kva)"
    define j where "j = run_end kva (kv_Key (kva ! i)) (Suc i)"
    have j: "j = Suc i + length run" by (simp add: j_def run_def run_end_takeWhile)
    have d: "drop i kva = kva ! i # drop (Suc i) kva" using True by (simp add: Cons_nth_drop_Suc)
    have len: "length run \<le> length kva - Suc i" unfolding run_def by (metis length_drop length_takeWhile_le)
    have dw: "drop j kva = dropWhile (\<lambda>x. kv_Key x = kv_Key (kva ! i)) (drop (Suc i) kva)"
      by (simp add: dropWhile_eq_drop j run_def add.commute)
    have tk: "take (length run) (drop (Suc i) kva) = run" by (simp add: run_def flip: takeWhile_eq_take)
    have vs: "map (\<lambda>k. kv_Value (kva ! k)) [i..<j] = map kv_Value (kva ! i # run)"
      using j len True nth_upt_slice [of j kva kv_Value i] by (simp add: d tk Suc_diff_le)
    have s: "sorted (map kv_Key (kva ! i # drop (Suc i) kva))"
      using sorted_wrt_drop [OF "1.prems", of i] unfolding d [symmetric] by (simp add: drop_map)
    have "reduce_loop reducef kva i =
        out_line (kv_Key (kva ! i)) (reducef (kv_Key (kva ! i)) (map kv_Value (kva ! i # run))) # lines_of reducef (drop j kva)"
      using True 1 vs by (subst reduce_loop.simps) (simp add: Let_def flip: j_def)
    then show ?thesis using lines_of_run [OF s] by (simp add: d dw run_def)
  next
    case False
    then show ?thesis by (subst reduce_loop.simps) (simp add: lines_of_def)
  qed
qed


section \<open>Buckets against the whole\<close>

text \<open>
  The contract of \<open>sort.Sort\<close> with \<open>ByKey\<close>: the same pairs, in the order of their keys.
  And the requirement on an application that its reduce function does not depend on the order
  of the values.
\<close>

definition sorts :: "(keyValue list \<Rightarrow> keyValue list) \<Rightarrow> bool" where
  "sorts sortf \<longleftrightarrow> (\<forall>kvs. mset (sortf kvs) = mset kvs \<and> sorted (map kv_Key (sortf kvs)))"

definition order_free :: "(string \<Rightarrow> string list \<Rightarrow> string) \<Rightarrow> bool" where
  "order_free reducef \<longleftrightarrow> (\<forall>k vs ws. mset vs = mset ws \<longrightarrow> reducef k vs = reducef k ws)"

definition key_line :: "(string \<Rightarrow> string list \<Rightarrow> string) \<Rightarrow> keyValue list \<Rightarrow> string \<Rightarrow> string" where
  "key_line reducef kvs k = out_line k (reducef k (values_of k kvs))"

lemma mset_values_of: "mset xs = mset ys \<Longrightarrow> mset (values_of k xs) = mset (values_of k ys)"
  by (simp add: values_of_def flip: mset_filter) (metis mset_filter mset_map)

lemma key_line_mset:
  assumes "order_free reducef" and "mset xs = mset ys"
  shows "key_line reducef xs k = key_line reducef ys k"
proof -
  have "reducef k (values_of k xs) = reducef k (values_of k ys)"
    using assms(1) mset_values_of [OF assms(2)] unfolding order_free_def by blast
  then show ?thesis by (simp add: key_line_def)
qed

lemma sorted_remdups_adj_distinct: "sorted xs \<Longrightarrow> distinct (remdups_adj xs)"
  by (induction xs rule: remdups_adj.induct) auto

lemma mset_reduce_loop:
  assumes "sorts sortf" and "order_free reducef"
  shows "mset (reduce_loop reducef (sortf kvs) 0) = image_mset (key_line reducef kvs) (mset_set (kv_Key ` set kvs))"
proof -
  let ?s = "sortf kvs"
  have s: "sorted (map kv_Key ?s)" and m: "mset ?s = mset kvs" using assms(1) by (simp_all add: sorts_def)
  have "distinct (remdups_adj (map kv_Key ?s))" using s by (rule sorted_remdups_adj_distinct)
  then have "mset (remdups_adj (map kv_Key ?s)) = mset_set (kv_Key ` set kvs)"
    using mset_eq_setD [OF m] by (simp flip: mset_set_set)
  moreover have "reduce_loop reducef ?s 0 = map (key_line reducef ?s) (remdups_adj (map kv_Key ?s))"
    using reduce_loop_lines [OF s] by (simp add: lines_of_def key_line_def)
  moreover have "key_line reducef ?s = key_line reducef kvs" using key_line_mset [OF assms(2) m] by (rule ext)
  ultimately show ?thesis by simp
qed

lemma key_line_bucket: "ihash k mod n = r \<Longrightarrow> key_line reducef (bucket n r kvs) k = key_line reducef kvs k"
proof -
  assume "ihash k mod n = r"
  then have "filter (\<lambda>kv. kv_Key kv = k) (bucket n r kvs) = filter (\<lambda>kv. kv_Key kv = k) kvs"
    by (auto simp: bucket_def intro: filter_cong)
  then show ?thesis by (simp add: key_line_def values_of_def)
qed

lemma bucket_lines:
  assumes "sorts sortf" and "order_free reducef" and "mset b = mset (bucket n r kvs)"
  shows "mset (reduce_loop reducef (sortf b) 0) =
    image_mset (key_line reducef kvs) (mset_set {k \<in> kv_Key ` set kvs. ihash k mod n = r})"
proof -
  have keys: "kv_Key ` set b = {k \<in> kv_Key ` set kvs. ihash k mod n = r}"
    using mset_eq_setD [OF assms(3)] by (auto simp: bucket_def)
  have "key_line reducef b k = key_line reducef kvs k" if "k \<in> {k \<in> kv_Key ` set kvs. ihash k mod n = r}" for k
    using that key_line_mset [OF assms(2,3)] key_line_bucket by auto
  then show ?thesis
    unfolding mset_reduce_loop [OF assms(1,2)] keys by (intro image_mset_cong) auto
qed

lemma buckets_whole:
  assumes "sorts sortf" and "order_free reducef" and "0 < n"
    and "\<And>r. r < nat n \<Longrightarrow> mset (b r) = mset (bucket n (int r) kvs)"
  shows "mset (concat (map (\<lambda>r. reduce_loop reducef (sortf (b r)) 0) [0..<nat n])) =
    mset (reduce_loop reducef (sortf kvs) 0)"
proof -
  have "mset (concat (map (\<lambda>r. reduce_loop reducef (sortf (b r)) 0) [0..<m])) =
      image_mset (key_line reducef kvs) (mset_set {k \<in> kv_Key ` set kvs. ihash k mod n < int m})"
    if "m \<le> nat n" for m
    using that
  proof (induction m)
    case 0
    have "{k \<in> kv_Key ` set kvs. ihash k mod n < int 0} = {}" using assms(3) by (auto simp: not_less)
    then show ?case by (simp only: of_nat_0 upt_0 list.map concat.simps mset.simps mset_set.empty image_mset_empty)
  next
    case (Suc m)
    let ?A = "{k \<in> kv_Key ` set kvs. ihash k mod n < int m}" and ?B = "{k \<in> kv_Key ` set kvs. ihash k mod n = int m}"
    have un: "{k \<in> kv_Key ` set kvs. ihash k mod n < int (Suc m)} = ?A \<union> ?B" by auto
    have "mset_set (?A \<union> ?B) = mset_set ?A + mset_set ?B" by (rule mset_set_Union) auto
    with Suc bucket_lines [OF assms(1,2) assms(4) [of m]] show ?case
      unfolding un by simp
  qed
  from this [of "nat n"] have "mset (concat (map (\<lambda>r. reduce_loop reducef (sortf (b r)) 0) [0..<nat n])) =
      image_mset (key_line reducef kvs) (mset_set {k \<in> kv_Key ` set kvs. ihash k mod n < n})"
    using assms(3) by simp
  moreover have "{k \<in> kv_Key ` set kvs. ihash k mod n < n} = kv_Key ` set kvs" using assms(3) by auto
  ultimately show ?thesis using mset_reduce_loop [OF assms(1,2)] by simp
qed

end
