(* ===== verification/MR_System.thy ===== *)
theory MR_System
  imports MR_Coordinator MR_Worker
begin

text \<open>
  MapReduce as a whole: the coordinator, any number of workers that start and crash at any
  moment, the shared directory and the clock. A step is one RPC, one read or one rename of a
  worker, a crash, a start, or time that passes; steps of different workers interleave. The
  application's map function may list its pairs in a different order every time it runs (as
  that of mrapps/indexer.go does, which ranges over a Go map).
\<close>

text \<open>Where a worker is in the loop of \<open>Worker\<close>, with the variables that are live there.\<close>

datatype workerState =
    Asking
  | MapStart int string int
  | Renaming int "(string \<times> string) list"
  | Reading int int int "keyValue list"
  | Reporting taskType int
  | Exited

record job =
  j_sort :: "keyValue list \<Rightarrow> keyValue list"
  j_map :: "string \<Rightarrow> string \<Rightarrow> keyValue list"
  j_reduce :: "string \<Rightarrow> string list \<Rightarrow> string"
  j_files :: "string list"
  j_n :: nat
  j_dir :: directory

record mrSystem =
  ms_coord :: coordinator
  ms_dir :: directory
  ms_workers :: "workerState list"
  ms_now :: int

text \<open>The dispatch of \<open>Worker\<close> on the reply to its request; on \<open>Wait\<close> it sleeps and asks again.\<close>

definition on_reply :: "requestTaskReply \<Rightarrow> workerState" where
  "on_reply r =
     (case rr_Type r of
        DoneTask \<Rightarrow> Exited
      | MapTask \<Rightarrow> MapStart (rr_TaskInd r) (rr_FileName r) (rr_NReduce r)
      | ReduceTask \<Rightarrow> Reading (rr_TaskInd r) (rr_NMap r) 0 []
      | WaitTask \<Rightarrow> Asking)"

text \<open>The next read or rename of a task; \<open>log.Fatalf\<close> and a panic end the worker.\<close>

fun work ::
  "job \<Rightarrow> (string \<Rightarrow> string \<Rightarrow> keyValue list) \<Rightarrow> directory \<Rightarrow> workerState \<Rightarrow> directory \<times> workerState" where
  "work j mf fs (MapStart ti f n) =
     (case fs f of
        None \<Rightarrow> (fs, Exited)
      | Some content \<Rightarrow>
          (case map_renames ti (mf f content) n of
             Inl _ \<Rightarrow> (fs, Exited)
           | Inr rs \<Rightarrow> (fs, Renaming ti rs)))"
| "work j mf fs (Renaming ti []) = (fs, Reporting MapTask ti)"
| "work j mf fs (Renaming ti (r # rs)) = (rename_file r fs, Renaming ti rs)"
| "work j mf fs (Reading ti n i kva) =
     (if i < n
      then (case read_file fs i ti of
              Inl _ \<Rightarrow> (fs, Exited)
            | Inr kvs \<Rightarrow> (fs, Reading ti n (i + 1) (kva @ kvs)))
      else (rename_file (GetOutputFileName ti, reduce_text (j_sort j) (j_reduce j) kva) fs, Reporting ReduceTask ti))"
| "work j mf fs w = (fs, w)"

definition same_pairs :: "job \<Rightarrow> (string \<Rightarrow> string \<Rightarrow> keyValue list) \<Rightarrow> bool" where
  "same_pairs j mf \<longleftrightarrow> (\<forall>f c. mset (mf f c) = mset (j_map j f c))"

definition mr_init :: "job \<Rightarrow> mrSystem \<Rightarrow> bool" where
  "mr_init j s \<longleftrightarrow> ms_coord s = MakeCoordinator (j_files j) (j_n j) \<and> ms_dir s = j_dir j \<and> ms_workers s = []"

inductive mr_step :: "job \<Rightarrow> mrSystem \<Rightarrow> mrSystem \<Rightarrow> bool" for j :: job where
  mr_ask: "w < length (ms_workers s) \<Longrightarrow> ms_workers s ! w = Asking \<Longrightarrow>
     HandleRequestTask (ms_now s) (ms_coord s) get_args = Inr (c, r) \<Longrightarrow>
     mr_step j s (s\<lparr>ms_coord := c, ms_workers := (ms_workers s)[w := on_reply r]\<rparr>)"
| mr_work: "w < length (ms_workers s) \<Longrightarrow> same_pairs j mf \<Longrightarrow>
     work j mf (ms_dir s) (ms_workers s ! w) = (fs, w') \<Longrightarrow>
     mr_step j s (s\<lparr>ms_dir := fs, ms_workers := (ms_workers s)[w := w']\<rparr>)"
| mr_report: "w < length (ms_workers s) \<Longrightarrow> ms_workers s ! w = Reporting t i \<Longrightarrow>
     HandleRequestTask (ms_now s) (ms_coord s) (put_args t i) = Inr (c, r) \<Longrightarrow>
     mr_step j s (s\<lparr>ms_coord := c, ms_workers := (ms_workers s)[w := Asking]\<rparr>)"
| mr_crash: "w < length (ms_workers s) \<Longrightarrow>
     mr_step j s (s\<lparr>ms_workers := (ms_workers s)[w := Exited]\<rparr>)"
| mr_start: "mr_step j s (s\<lparr>ms_workers := ms_workers s @ [Asking]\<rparr>)"
| mr_tick: "0 < d \<Longrightarrow> mr_step j s (s\<lparr>ms_now := ms_now s + d\<rparr>)"

section \<open>What holds in every reachable state\<close>

definition job_ok :: "job \<Rightarrow> bool" where
  "job_ok j \<longleftrightarrow> 0 < j_n j \<and> sorts (j_sort j) \<and>
     (\<forall>f \<in> set (j_files j). \<forall>c. j_dir j f = Some c \<longrightarrow> (\<forall>kv \<in> set (j_map j f c). valid_kv kv)) \<and>
     (\<forall>f \<in> set (j_files j). \<forall>m r. f \<noteq> GetIntermediateFileName (int m) (int r) \<and> f \<noteq> GetOutputFileName (int r))"

definition pairs_of :: "job \<Rightarrow> nat \<Rightarrow> keyValue list" where
  "pairs_of j m = j_map j (j_files j ! m) (the (j_dir j (j_files j ! m)))"

definition all_pairs :: "job \<Rightarrow> nat \<Rightarrow> keyValue list" where
  "all_pairs j k = concat (map (pairs_of j) [0..<k])"

definition file_ok :: "job \<Rightarrow> directory \<Rightarrow> nat \<Rightarrow> nat \<Rightarrow> bool" where
  "file_ok j fs m r \<longleftrightarrow> j_dir j (j_files j ! m) \<noteq> None \<and>
     (\<exists>kvs. fs (GetIntermediateFileName (int m) (int r)) = Some (concat (map json_Encode kvs)) \<and>
        mset kvs = mset (bucket (int (j_n j)) (int r) (pairs_of j m)))"

definition map_ok :: "job \<Rightarrow> directory \<Rightarrow> nat \<Rightarrow> bool" where
  "map_ok j fs m \<longleftrightarrow> (\<forall>r < j_n j. file_ok j fs m r)"

definition out_ok :: "job \<Rightarrow> directory \<Rightarrow> nat \<Rightarrow> bool" where
  "out_ok j fs r \<longleftrightarrow> (\<exists>kvs. fs (GetOutputFileName (int r)) = Some (reduce_text (j_sort j) (j_reduce j) kvs) \<and>
     mset kvs = mset (bucket (int (j_n j)) (int r) (all_pairs j (length (j_files j)))))"

fun worker_ok :: "job \<Rightarrow> coordinator \<Rightarrow> directory \<Rightarrow> workerState \<Rightarrow> bool" where
  "worker_ok j c fs Asking = True"
| "worker_ok j c fs (MapStart ti f n) \<longleftrightarrow>
     (\<exists>m < length (j_files j). ti = int m \<and> f = j_files j ! m \<and> n = int (j_n j))"
| "worker_ok j c fs (Renaming ti rs) \<longleftrightarrow>
     (\<exists>m < length (j_files j). ti = int m \<and> j_dir j (j_files j ! m) \<noteq> None \<and>
       (\<exists>k kva. mset kva = mset (pairs_of j m) \<and> rs = drop k (bucket_files ti kva (int (j_n j))) \<and>
          (\<forall>r < j_n j. r < k \<longrightarrow> file_ok j fs m r)))"
| "worker_ok j c fs (Reading ti n i kva) \<longleftrightarrow>
     allMapDone c \<and> n = int (length (j_files j)) \<and>
     (\<exists>r < j_n j. ti = int r \<and> (\<exists>k \<le> length (j_files j). i = int k \<and>
        mset kva = mset (bucket (int (j_n j)) ti (all_pairs j k))))"
| "worker_ok j c fs (Reporting t ti) \<longleftrightarrow>
     t = MapTask \<and> (\<exists>m < length (j_files j). ti = int m \<and> map_ok j fs m) \<or>
     t = ReduceTask \<and> allMapDone c \<and> (\<exists>r < j_n j. ti = int r \<and> out_ok j fs r)"
| "worker_ok j c fs Exited = True"

definition coord_good :: "job \<Rightarrow> coordinator \<Rightarrow> directory \<Rightarrow> bool" where
  "coord_good j c fs \<longleftrightarrow> coord_ok c \<and> co_files c = j_files j \<and> nReduce c = int (j_n j) \<and>
     (\<forall>f \<in> set (j_files j). fs f = j_dir j f) \<and>
     (\<forall>m < length (j_files j). mapStatus c ! m = Finished \<longrightarrow> map_ok j fs m) \<and>
     (\<forall>r < j_n j. reduceStatus c ! r \<noteq> InStore \<longrightarrow> allMapDone c) \<and>
     (\<forall>r < j_n j. reduceStatus c ! r = Finished \<longrightarrow> out_ok j fs r)"

definition mr_inv :: "job \<Rightarrow> mrSystem \<Rightarrow> bool" where
  "mr_inv j s \<longleftrightarrow> coord_good j (ms_coord s) (ms_dir s) \<and>
     (\<forall>w \<in> set (ms_workers s). worker_ok j (ms_coord s) (ms_dir s) w)"

lemma worker_ok_mono:
  assumes "worker_ok j c fs w" and "allMapDone c \<Longrightarrow> allMapDone c'"
    and "\<And>m r. m < length (j_files j) \<Longrightarrow> r < j_n j \<Longrightarrow> file_ok j fs m r \<Longrightarrow> file_ok j fs' m r"
    and "\<And>r. r < j_n j \<Longrightarrow> out_ok j fs r \<Longrightarrow> out_ok j fs' r"
  shows "worker_ok j c' fs' w"
proof (cases w)
  case (Renaming ti rs)
  with assms(1,3) show ?thesis by simp blast
next
  case (Reading ti n i kva)
  with assms(1,2) show ?thesis by simp
next
  case (Reporting t ti)
  with assms show ?thesis by (auto simp: map_ok_def)
qed (use assms(1) in auto)

lemma coord_good_mono:
  assumes "coord_good j c fs" and "\<And>f. f \<in> set (j_files j) \<Longrightarrow> fs' f = fs f"
    and "\<And>m r. m < length (j_files j) \<Longrightarrow> r < j_n j \<Longrightarrow> file_ok j fs m r \<Longrightarrow> file_ok j fs' m r"
    and "\<And>r. r < j_n j \<Longrightarrow> out_ok j fs r \<Longrightarrow> out_ok j fs' r"
  shows "coord_good j c fs'"
  using assms by (auto simp: coord_good_def map_ok_def)

lemma coord_good_lengths:
  assumes "coord_good j c fs"
  shows "length (mapStatus c) = length (j_files j)" "length (reduceStatus c) = j_n j"
    "length (mapHandoutTime c) = length (j_files j)" "length (reduceHandoutTime c) = j_n j"
  using assms by (auto simp: coord_good_def coord_ok_def)

lemma coord_good_simps:
  assumes "coord_good j c fs"
  shows "coord_ok c" "co_files c = j_files j" "nReduce c = int (j_n j)" "nMap c = int (length (j_files j))"
    "isDone c \<Longrightarrow> allDone c"
  using assms by (auto simp: coord_good_def coord_ok_def)

text \<open>A request for a task keeps the coordinator in order and puts the worker on a task it may do.\<close>

lemma get_good:
  assumes good: "coord_good j c fs" and h: "HandleRequestTask now c get_args = Inr (c', r)"
  shows "coord_good j c' fs \<and> (allMapDone c \<longrightarrow> allMapDone c') \<and> worker_ok j c' fs (on_reply r)"
  using coord_good_simps(1) [OF good]
proof (cases rule: get_cases [where now = now])
  case Finish
  with good h show ?thesis
    by (auto simp: coord_good_def coord_ok_def allDone_def allMapDone_def allReduceDone_def on_reply_def)
next
  case (Map i r')
  note len = coord_good_lengths [OF good]
  have i: "i < length (j_files j)" "\<not> allMapDone c" "\<not> allMapDone c'"
    using Map due_not_all [OF Map(1)] h len by (auto simp: due_def allMapDone_def)
  then have d: "\<not> isDone c" using coord_good_simps(5) [OF good] by (auto simp: allDone_def)
  have "mapStatus c' ! m = Finished \<Longrightarrow> mapStatus c ! m = Finished" for m
    using Map(2) h i(1) len by (cases "m = i") auto
  then have "coord_good j c' fs"
    using good i d Map(2) h by (auto simp: coord_good_def coord_ok_def)
  moreover have "worker_ok j c' fs (on_reply r)"
    using Map h i(1) coord_good_simps [OF good] by (auto simp: on_reply_def)
  ultimately show ?thesis using i by simp
next
  case (Reduce i r')
  note len = coord_good_lengths [OF good]
  have i: "i < j_n j" "\<not> allReduceDone c" "allMapDone c'"
    using Reduce due_not_all [OF Reduce(2)] h len by (auto simp: due_def allMapDone_def allReduceDone_def)
  then have d: "\<not> isDone c" using coord_good_simps(5) [OF good] by (auto simp: allDone_def)
  have "reduceStatus c' ! m = Finished \<Longrightarrow> reduceStatus c ! m = Finished" for m
    using Reduce(3) h i(1) len by (cases "m = i") auto
  then have "coord_good j c' fs"
    using good i d Reduce(3) h by (auto simp: coord_good_def coord_ok_def)
  moreover have "worker_ok j c' fs (on_reply r)"
    using Reduce h i coord_good_simps [OF good] by (auto simp: on_reply_def all_pairs_def)
  ultimately show ?thesis using i by simp
next
  case (Wait r')
  with good h show ?thesis by (auto simp: on_reply_def)
qed

lemma all_finished_update: "all_finished ss \<Longrightarrow> all_finished (ss[i := Finished])"
  by (auto simp: all_finished_iff dest!: set_update_subset_insert [THEN subsetD])

lemma done_simps [simp]:
  "allDone (isDone_update f c) = allDone c" "allMapDone (isDone_update f c) = allMapDone c"
  "allMapDone (reduceStatus_update g c) = allMapDone c" "allReduceDone (mapStatus_update g c) = allReduceDone c"
  by (simp_all add: allDone_def allMapDone_def allReduceDone_def)

lemma put_map:
  assumes "m < length (mapStatus c)"
  shows "HandleRequestTask now c (put_args MapTask (int m)) =
    Inr (c\<lparr>mapStatus := (mapStatus c)[m := Finished]\<rparr>, zeroReply)"
  using assms by (simp add: HandleRequestTask_def put_args_def)

lemma put_reduce:
  assumes "r < length (reduceStatus c)"
  shows "HandleRequestTask now c (put_args ReduceTask (int r)) =
    Inr (c\<lparr>reduceStatus := (reduceStatus c)[r := Finished],
           isDone := isDone c \<or> allDone (c\<lparr>reduceStatus := (reduceStatus c)[r := Finished]\<rparr>)\<rparr>, zeroReply)"
  using assms by (simp add: HandleRequestTask_def put_args_def Let_def)

text \<open>A report is taken, does not panic, and is true.\<close>

lemma put_good:
  assumes good: "coord_good j c fs" and w: "worker_ok j c fs (Reporting t ti)"
  obtains c' where "HandleRequestTask now c (put_args t ti) = Inr (c', zeroReply)" "coord_good j c' fs"
    "allMapDone c \<Longrightarrow> allMapDone c'"
proof -
  note len = coord_good_lengths [OF good]
  consider (m) m where "t = MapTask" "m < length (j_files j)" "ti = int m" "map_ok j fs m"
    | (r) r where "t = ReduceTask" "r < j_n j" "ti = int r" "allMapDone c" "out_ok j fs r"
    using w by auto
  then show ?thesis
  proof cases
    case m
    let ?c = "c\<lparr>mapStatus := (mapStatus c)[m := Finished]\<rparr>"
    have mono: "allMapDone c \<Longrightarrow> allMapDone ?c" by (simp add: allMapDone_def all_finished_update)
    have st: "map_ok j fs m'" if "m' < length (j_files j)" "mapStatus ?c ! m' = Finished" for m'
      using good m that len by (cases "m' = m") (auto simp: coord_good_def)
    have dn: "isDone c \<Longrightarrow> allDone ?c"
      using coord_good_simps(5) [OF good] mono by (auto simp: allDone_def allReduceDone_def)
    have "coord_good j ?c fs"
      unfolding coord_good_def using good st mono dn by (simp add: coord_good_def coord_ok_def)
    with that [OF _ _ mono] put_map [of m c now] m len show ?thesis by simp
  next
    case r
    let ?rs = "(reduceStatus c)[r := Finished]"
    let ?c = "c\<lparr>reduceStatus := ?rs, isDone := isDone c \<or> allDone (c\<lparr>reduceStatus := ?rs\<rparr>)\<rparr>"
    have mono: "allDone c \<Longrightarrow> allDone (c\<lparr>reduceStatus := ?rs\<rparr>)"
      by (simp add: allDone_def allReduceDone_def all_finished_update)
    have st: "out_ok j fs r'" if "r' < j_n j" "reduceStatus ?c ! r' = Finished" for r'
      using good r that len by (cases "r' = r") (auto simp: coord_good_def)
    have "coord_good j ?c fs"
      unfolding coord_good_def using good r st mono coord_good_simps(5) [OF good]
      by (simp add: coord_good_def coord_ok_def)
    with that put_reduce [of r c now] r len show ?thesis by simp
  qed
qed


text \<open>What a rename keeps: the inputs and every file that was right.\<close>

definition dir_le :: "job \<Rightarrow> directory \<Rightarrow> directory \<Rightarrow> bool" where
  "dir_le j fs fs' \<longleftrightarrow> (\<forall>f \<in> set (j_files j). fs' f = fs f) \<and>
     (\<forall>m r. file_ok j fs m r \<longrightarrow> file_ok j fs' m r) \<and> (\<forall>r. out_ok j fs r \<longrightarrow> out_ok j fs' r)"

lemma dir_le_refl [simp]: "dir_le j fs fs"
  by (simp add: dir_le_def)

lemma mset_bucket: "mset xs = mset ys \<Longrightarrow> mset (bucket n r xs) = mset (bucket n r ys)"
  by (simp add: bucket_def mset_filter)

lemma rename_intermediate:
  fixes fs :: directory and r :: nat
  assumes "job_ok j" and "j_dir j (j_files j ! m) \<noteq> None" and "mset kva = mset (pairs_of j m)"
  defines "fs' \<equiv> fs(GetIntermediateFileName (int m) (int r) \<mapsto> concat (map json_Encode (bucket (int (j_n j)) (int r) kva)))"
  shows "dir_le j fs fs'" "file_ok j fs' m r"
proof -
  show ok: "file_ok j fs' m r"
    using assms(2) mset_bucket [OF assms(3)] by (auto simp: file_ok_def fs'_def)
  have "file_ok j fs' m' r'" if "file_ok j fs m' r'" for m' r'
  proof (cases "m' = m \<and> r' = r")
    case False
    with that show ?thesis by (auto simp: file_ok_def fs'_def)
  qed (use ok in simp)
  moreover have "out_ok j fs' r' = out_ok j fs r'" for r' by (simp add: out_ok_def fs'_def)
  moreover have "fs' f = fs f" if "f \<in> set (j_files j)" for f
    using assms(1) that by (simp add: fs'_def job_ok_def)
  ultimately show "dir_le j fs fs'" by (simp add: dir_le_def)
qed

lemma rename_output:
  fixes fs :: directory
  assumes "job_ok j" and "mset kva = mset (bucket (int (j_n j)) (int r) (all_pairs j (length (j_files j))))"
  defines "fs' \<equiv> fs(GetOutputFileName (int r) \<mapsto> reduce_text (j_sort j) (j_reduce j) kva)"
  shows "dir_le j fs fs'" "out_ok j fs' r"
proof -
  show ok: "out_ok j fs' r" using assms(2) by (auto simp: out_ok_def fs'_def)
  have "out_ok j fs' r'" if "out_ok j fs r'" for r'
  proof (cases "r' = r")
    case False
    with that show ?thesis by (simp add: out_ok_def fs'_def)
  qed (use ok in simp)
  moreover have "file_ok j fs' m' r' = file_ok j fs m' r'" for m' r' by (simp add: file_ok_def fs'_def)
  moreover have "fs' f = fs f" if "f \<in> set (j_files j)" for f
    using assms(1) that by (simp add: fs'_def job_ok_def)
  ultimately show "dir_le j fs fs'" by (simp add: dir_le_def)
qed

lemma read_file_ok:
  assumes "job_ok j" and "m < length (j_files j)" and "file_ok j fs m r"
  obtains kvs where "read_file fs (int m) (int r) = Inr kvs" "mset kvs = mset (bucket (int (j_n j)) (int r) (pairs_of j m))"
proof -
  obtain kvs where kvs: "fs (GetIntermediateFileName (int m) (int r)) = Some (concat (map json_Encode kvs))"
      "mset kvs = mset (bucket (int (j_n j)) (int r) (pairs_of j m))" and ex: "j_dir j (j_files j ! m) \<noteq> None"
    using assms(3) by (auto simp: file_ok_def)
  have "set kvs \<subseteq> set (pairs_of j m)" using mset_eq_setD [OF kvs(2)] by (auto simp: bucket_def)
  moreover have "valid_kv kv" if "kv \<in> set (pairs_of j m)" for kv
    using assms(1) ex that nth_mem [OF assms(2)] unfolding job_ok_def pairs_of_def by fastforce
  ultimately have "\<forall>kv \<in> set kvs. valid_kv kv" by blast
  then have "map coerce_kv kvs = kvs" by (simp add: map_idI valid_coerce_kv)
  with kvs(1) have "read_file fs (int m) (int r) = Inr kvs" by (simp add: read_file_def decode_encode)
  with kvs(2) that show ?thesis by blast
qed

lemma all_pairs_Suc: "all_pairs j (Suc k) = all_pairs j k @ pairs_of j k"
  by (simp add: all_pairs_def)

lemma bucket_files_length [simp]: "length (bucket_files ti kva (int n)) = n"
  by (simp add: bucket_files_def)

lemma bucket_files_nth:
  "r < n \<Longrightarrow> bucket_files ti kva (int n) ! r =
     (GetIntermediateFileName ti (int r), concat (map json_Encode (bucket (int n) (int r) kva)))"
  by (simp add: bucket_files_def)


lemma allMapDone_ok:
  assumes "coord_good j c fs" and "allMapDone c" and "m < length (j_files j)" and "r < j_n j"
  shows "file_ok j fs m r"
  using assms coord_good_lengths(1) [OF assms(1)]
  by (auto simp: coord_good_def allMapDone_def all_finished_nth map_ok_def)

text \<open>A step of a task keeps what is right in the directory and leaves the worker in order.\<close>

lemma work_good:
  assumes job: "job_ok j" and good: "coord_good j c fs" and ok: "worker_ok j c fs w"
    and mf: "same_pairs j mf" and w: "work j mf fs w = (fs', w')"
  shows "dir_le j fs fs' \<and> worker_ok j c fs' w'"
  using ok w
proof (cases "(j, mf, fs, w)" rule: work.cases)
  case (1 j' mf' fs'' ti f n)
  then obtain m where m: "m < length (j_files j)" "ti = int m" "f = j_files j ! m" "n = int (j_n j)" using ok by auto
  have "fs f = j_dir j f" using good m by (simp add: coord_good_def)
  moreover have "mset (mf f content) = mset (pairs_of j m)" if "j_dir j f = Some content" for content
    using mf m that by (simp add: same_pairs_def pairs_of_def)
  moreover have "map_renames ti kva n = Inr (bucket_files ti kva n)" for kva
    using job m by (simp add: map_renames_spec job_ok_def)
  ultimately show ?thesis
    using w 1 m by (cases "j_dir j f") (auto intro!: exI [of _ 0], blast)
next
  case (2 j' mf' fs'' ti)
  then show ?thesis using ok w by (fastforce simp: map_ok_def)
next
  case (3 j' mf' fs'' ti x xs)
  then obtain m k kva where m: "m < length (j_files j)" "ti = int m" "j_dir j (j_files j ! m) \<noteq> None"
      "mset kva = mset (pairs_of j m)" "x # xs = drop k (bucket_files ti kva (int (j_n j)))"
      "\<forall>r < j_n j. r < k \<longrightarrow> file_ok j fs m r"
    using ok by auto
  have k: "k < j_n j" using arg_cong [OF m(5), of length] by simp
  have x: "x = bucket_files ti kva (int (j_n j)) ! k" and xs: "xs = drop (Suc k) (bucket_files ti kva (int (j_n j)))"
    using m(5) k by (metis Cons_nth_drop_Suc bucket_files_length list.inject)+
  have fs': "fs' = fs(GetIntermediateFileName (int m) (int k) \<mapsto> concat (map json_Encode (bucket (int (j_n j)) (int k) kva)))"
    and w': "w' = Renaming ti xs"
    using w 3 m(2) by (auto simp: rename_file_def x bucket_files_nth [OF k])
  note ren = rename_intermediate [OF job m(3,4), of fs k, folded fs']
  have "file_ok j fs' m r" if "r < j_n j" "r < Suc k" for r
    using that ren m(6) by (cases "r = k") (auto simp: dir_le_def)
  then have "worker_ok j c fs' w'"
    unfolding w' worker_ok.simps using m xs by (intro exI [of _ m] conjI exI [of _ "Suc k"] exI [of _ kva]) auto
  with ren show ?thesis by simp
next
  case (4 j' mf' fs'' ti n i kva)
  then obtain r k where r: "r < j_n j" "ti = int r" "k \<le> length (j_files j)" "i = int k" "n = int (length (j_files j))"
      "allMapDone c" "mset kva = mset (bucket (int (j_n j)) (int r) (all_pairs j k))"
    using ok by auto
  show ?thesis
  proof (cases "k < length (j_files j)")
    case True
    obtain kvs where "read_file fs (int k) (int r) = Inr kvs"
        "mset kvs = mset (bucket (int (j_n j)) (int r) (pairs_of j k))"
      using read_file_ok [OF job True allMapDone_ok [OF good r(6) True r(1)]] .
    then show ?thesis using w 4 r True by (auto simp: all_pairs_Suc intro!: exI [of _ "Suc k"])
  next
    case False
    with r(3,7) have "mset kva = mset (bucket (int (j_n j)) (int r) (all_pairs j (length (j_files j))))" by simp
    from rename_output [OF job this, of fs] show ?thesis using w 4 r False by (auto simp: rename_file_def)
  qed
qed (use ok w in auto)


lemma dir_le_good:
  "dir_le j fs fs' \<Longrightarrow> coord_good j c fs \<Longrightarrow> coord_good j c fs'"
  "dir_le j fs fs' \<Longrightarrow> worker_ok j c fs w \<Longrightarrow> worker_ok j c fs' w"
  by (auto simp: dir_le_def intro: coord_good_mono worker_ok_mono)

lemma worker_ok_done:
  "worker_ok j c fs w \<Longrightarrow> (allMapDone c \<Longrightarrow> allMapDone c') \<Longrightarrow> worker_ok j c' fs w"
  by (rule worker_ok_mono)

lemma set_update_all: "\<forall>x \<in> set xs. P x \<Longrightarrow> P y \<Longrightarrow> \<forall>x \<in> set (xs[i := y]). P x"
  by (auto dest!: set_update_subset_insert [THEN subsetD])

lemma fold_update_same: "\<forall>i \<in> set is. xs ! i = v \<Longrightarrow> fold (\<lambda>i ss. ss[i := v]) is xs = xs"
  by (induction "is") auto

lemma MakeCoordinator_status:
  "mapStatus (MakeCoordinator fs n) = replicate (length fs) InStore"
  "reduceStatus (MakeCoordinator fs n) = replicate n InStore"
  by (simp_all add: MakeCoordinator_def fold_update_same)

lemma mr_inv_worker:
  assumes "mr_inv j s" and "w < length (ms_workers s)" and "ms_workers s ! w = v"
  shows "worker_ok j (ms_coord s) (ms_dir s) v"
  using assms(1) nth_mem [OF assms(2)] unfolding mr_inv_def assms(3) by simp

lemma mr_inv_init: "mr_init j s \<Longrightarrow> mr_inv j s"
  by (simp add: mr_inv_def mr_init_def coord_good_def coord_ok_def MakeCoordinator_status)
    (simp add: MakeCoordinator_def)

lemma mr_inv_step:
  assumes "job_ok j" and "mr_inv j s" and "mr_step j s t"
  shows "mr_inv j t"
  using assms(3)
proof cases
  case (mr_ask w c r)
  have "coord_good j (ms_coord s) (ms_dir s)" using assms(2) by (simp add: mr_inv_def)
  from get_good [OF this mr_ask(4)]
  have "coord_good j c (ms_dir s)" "allMapDone (ms_coord s) \<Longrightarrow> allMapDone c" "worker_ok j c (ms_dir s) (on_reply r)"
    by auto
  moreover have "\<forall>w \<in> set (ms_workers s). worker_ok j c (ms_dir s) w"
  proof
    fix v assume "v \<in> set (ms_workers s)"
    with assms(2) have "worker_ok j (ms_coord s) (ms_dir s) v" by (simp add: mr_inv_def)
    then show "worker_ok j c (ms_dir s) v" using calculation(2) by (rule worker_ok_done)
  qed
  ultimately have "coord_good j c (ms_dir s) \<and> (\<forall>v \<in> set ((ms_workers s)[w := on_reply r]). worker_ok j c (ms_dir s) v)"
    by (intro conjI set_update_all) simp_all
  then show ?thesis unfolding mr_ask(1) mr_inv_def by simp
next
  case (mr_work w mf fs w')
  have "coord_good j (ms_coord s) (ms_dir s)" "worker_ok j (ms_coord s) (ms_dir s) (ms_workers s ! w)"
    using assms(2) mr_work(2) by (simp_all add: mr_inv_def)
  from work_good [OF assms(1) this mr_work(3,4)]
  have le: "dir_le j (ms_dir s) fs" and ok: "worker_ok j (ms_coord s) fs w'" by simp_all
  have "coord_good j (ms_coord s) fs" "\<forall>v \<in> set (ms_workers s). worker_ok j (ms_coord s) fs v"
    using dir_le_good [OF le] assms(2) by (simp_all add: mr_inv_def)
  with ok have "coord_good j (ms_coord s) fs \<and> (\<forall>v \<in> set ((ms_workers s)[w := w']). worker_ok j (ms_coord s) fs v)"
    by (intro conjI set_update_all) simp_all
  then show ?thesis unfolding mr_work(1) mr_inv_def by simp
next
  case (mr_report w t i c r)
  have w: "worker_ok j (ms_coord s) (ms_dir s) (Reporting t i)"
    using assms(2) mr_report(2,3) by (rule mr_inv_worker)
  have "coord_good j (ms_coord s) (ms_dir s)" using assms(2) by (simp add: mr_inv_def)
  then obtain "coord_good j c (ms_dir s)" "allMapDone (ms_coord s) \<Longrightarrow> allMapDone c"
    using put_good [OF _ w, of "ms_now s"] mr_report(4) by (metis Inr_inject prod.inject)
  moreover have "\<forall>w \<in> set (ms_workers s). worker_ok j c (ms_dir s) w"
  proof
    fix v assume "v \<in> set (ms_workers s)"
    with assms(2) have "worker_ok j (ms_coord s) (ms_dir s) v" by (simp add: mr_inv_def)
    then show "worker_ok j c (ms_dir s) v" using calculation(2) by (rule worker_ok_done)
  qed
  ultimately have "coord_good j c (ms_dir s) \<and> (\<forall>v \<in> set ((ms_workers s)[w := Asking]). worker_ok j c (ms_dir s) v)"
    by (intro conjI set_update_all) simp_all
  then show ?thesis unfolding mr_report(1) mr_inv_def by simp
next
  case (mr_crash w)
  have "\<forall>v \<in> set ((ms_workers s)[w := Exited]). worker_ok j (ms_coord s) (ms_dir s) v"
    by (rule set_update_all) (use assms(2) in \<open>simp_all add: mr_inv_def\<close>)
  then show ?thesis using assms(2) unfolding mr_crash(1) mr_inv_def by simp
next
  case mr_start
  then show ?thesis using assms(2) by (auto simp: mr_inv_def)
next
  case (mr_tick d)
  then show ?thesis using assms(2) by (simp add: mr_inv_def)
qed

text \<open>The invariant as one of the locale, for the jobs in order; other jobs have no claim on it.\<close>

interpretation mr: invariant_of "\<lambda>s. job_ok j \<and> mr_init j s" "mr_step j" "\<lambda>s. job_ok j \<and> mr_inv j s" for j
  by unfold_locales (auto intro: mr_inv_init mr_inv_step)

lemma mr_reach_inv:
  assumes "job_ok j" and "reach (mr_init j) (mr_step j) s"
  shows "mr_inv j s"
proof -
  have "(\<lambda>s. job_ok j \<and> mr_init j s) = mr_init j" using assms(1) by simp
  with assms(2) have "reach (\<lambda>s. job_ok j \<and> mr_init j s) (mr_step j) s" by simp
  from mr.reach_inv [OF this] show ?thesis by simp
qed


section \<open>The result of a job\<close>

lemma seq_read_all:
  assumes "\<forall>f \<in> set files. fs f \<noteq> None"
  shows "seq_read mapf fs files acc = Inr (acc @ concat (map (\<lambda>f. mapf f (the (fs f))) files))"
  using assms by (induction files arbitrary: acc) auto

lemma all_pairs_files:
  "all_pairs j (length (j_files j)) = concat (map (\<lambda>f. j_map j f (the (j_dir j f))) (j_files j))"
proof -
  have "map (pairs_of j) [0..<length (j_files j)] = map (\<lambda>f. j_map j f (the (j_dir j f))) (j_files j)"
    by (rule nth_equalityI) (simp_all add: pairs_of_def)
  then show ?thesis by (simp add: all_pairs_def)
qed

lemma allDone_results:
  assumes "mr_inv j s" and "job_ok j" and "allDone (ms_coord s)"
  shows "\<forall>f \<in> set (j_files j). j_dir j f \<noteq> None" "\<forall>r < j_n j. out_ok j (ms_dir s) r"
proof -
  have good: "coord_good j (ms_coord s) (ms_dir s)" using assms(1) by (simp add: mr_inv_def)
  have "allMapDone (ms_coord s)" using assms(3) by (simp add: allDone_def)
  moreover have "0 < j_n j" using assms(2) by (simp add: job_ok_def)
  ultimately have "file_ok j (ms_dir s) m 0" if "m < length (j_files j)" for m
    using allMapDone_ok [OF good] that by simp
  then show "\<forall>f \<in> set (j_files j). j_dir j f \<noteq> None"
    by (simp add: file_ok_def all_set_conv_all_nth)
  show "\<forall>r < j_n j. out_ok j (ms_dir s) r"
    using good assms(3) coord_good_lengths [OF good]
    by (auto simp: coord_good_def allDone_def allReduceDone_def all_finished_nth)
qed

text \<open>
  C37. MapReduce computes what the sequential program computes. Whatever the number of workers,
  the interleaving of their reads and renames, the crashes, the tasks that are done twice or
  abandoned half-way and the order in which each run of the map function lists its pairs: when
  the coordinator says that the job is done, all output files are there, and the lines in them
  are, together, the lines that \<open>mrsequential\<close> writes for the same inputs, each as often as
  there. It holds for a reduce function that does not depend on the order of its values and a
  map function that emits UTF-8, on inputs whose names are not those of the job's own files.
\<close>

theorem mapreduce_correct:
  assumes "job_ok j" and "order_free (j_reduce j)" and "j_files j \<noteq> []"
    and "reach (mr_init j) (mr_step j) s" and "DoneCall (ms_coord s)"
  shows "\<exists>kvs outs.
    mrsequential (j_sort j) (j_map j) (j_reduce j) (j_files j) (j_dir j) =
      Inr ((j_dir j)(''mr-out-0'' \<mapsto> concat (reduce_loop (j_reduce j) (j_sort j kvs) 0))) \<and>
    length outs = j_n j \<and>
    (\<forall>r < j_n j. ms_dir s (GetOutputFileName (int r)) = Some (concat (outs ! r))) \<and>
    mset (concat outs) = mset (reduce_loop (j_reduce j) (j_sort j kvs) 0)"
proof -
  let ?kvs = "all_pairs j (length (j_files j))" and ?n = "int (j_n j)"
  have inv: "mr_inv j s" using assms(1,4) by (rule mr_reach_inv)
  then have "allDone (ms_coord s)"
    using assms(5) by (auto simp: mr_inv_def DoneCall_def intro: coord_good_simps(5))
  note res = allDone_results [OF inv assms(1) this]
  have "\<forall>r. \<exists>b. r < j_n j \<longrightarrow> ms_dir s (GetOutputFileName (int r)) = Some (reduce_text (j_sort j) (j_reduce j) b) \<and>
      mset b = mset (bucket ?n (int r) ?kvs)"
    using res(2) unfolding out_ok_def by blast
  then obtain b where b: "\<And>r. r < j_n j \<Longrightarrow> ms_dir s (GetOutputFileName (int r)) = Some (reduce_text (j_sort j) (j_reduce j) (b r))"
      "\<And>r. r < j_n j \<Longrightarrow> mset (b r) = mset (bucket ?n (int r) ?kvs)"
    by metis
  let ?outs = "map (\<lambda>r. reduce_loop (j_reduce j) (j_sort j (b r)) 0) [0..<j_n j]"
  have "mset (concat ?outs) = mset (reduce_loop (j_reduce j) (j_sort j ?kvs) 0)"
    using buckets_whole [of "j_sort j" "j_reduce j" ?n b ?kvs] assms(1,2) b(2) by (simp add: job_ok_def)
  moreover have "mrsequential (j_sort j) (j_map j) (j_reduce j) (j_files j) (j_dir j) =
      Inr ((j_dir j)(''mr-out-0'' \<mapsto> concat (reduce_loop (j_reduce j) (j_sort j ?kvs) 0)))"
    using assms(3) res(1) by (simp add: mrsequential_def seq_read_all all_pairs_files)
  ultimately show ?thesis
    using b(1) by (intro exI [of _ ?kvs] exI [of _ ?outs]) (simp add: reduce_text_def)
qed


section \<open>A job can always be finished\<close>

text \<open>The steps of worker \<open>w\<close> alone: it gets from one state to another with the coordinator as it was.\<close>

definition runs :: "job \<Rightarrow> nat \<Rightarrow> mrSystem \<Rightarrow> workerState \<Rightarrow> bool" where
  "runs j w s v \<longleftrightarrow> (\<exists>t. (mr_step j)\<^sup>*\<^sup>* s t \<and> ms_coord t = ms_coord s \<and> w < length (ms_workers t) \<and> ms_workers t ! w = v)"

lemma work_step:
  assumes "w < length (ms_workers s)" and "work j (j_map j) (ms_dir s) (ms_workers s ! w) = (fs, v)"
  shows "mr_step j s (s\<lparr>ms_dir := fs, ms_workers := (ms_workers s)[w := v]\<rparr>)"
  using assms by (intro mr_work) (simp_all add: same_pairs_def)

lemma runs_step:
  assumes "w < length (ms_workers s)" and "work j (j_map j) (ms_dir s) (ms_workers s ! w) = (fs, v)"
    and "runs j w (s\<lparr>ms_dir := fs, ms_workers := (ms_workers s)[w := v]\<rparr>) u"
  shows "runs j w s u"
proof -
  obtain t where "(mr_step j)\<^sup>*\<^sup>* (s\<lparr>ms_dir := fs, ms_workers := (ms_workers s)[w := v]\<rparr>) t" "ms_coord t = ms_coord s"
      "w < length (ms_workers t)" "ms_workers t ! w = u"
    using assms(3) by (auto simp: runs_def)
  with work_step [OF assms(1,2)] show ?thesis
    unfolding runs_def by (blast intro: converse_rtranclp_into_rtranclp)
qed

lemma runs_here: "w < length (ms_workers s) \<Longrightarrow> ms_workers s ! w = v \<Longrightarrow> runs j w s v"
  by (auto simp: runs_def)

lemma runs_renames:
  "w < length (ms_workers s) \<Longrightarrow> ms_workers s ! w = Renaming ti rs \<Longrightarrow> runs j w s (Reporting MapTask ti)"
proof (induction rs arbitrary: s)
  case Nil
  show ?case
    by (rule runs_step [where v = "Reporting MapTask ti" and fs = "ms_dir s"]) (use Nil in \<open>simp_all add: runs_here\<close>)
next
  case (Cons x xs)
  show ?case
    by (rule runs_step [where v = "Renaming ti xs" and fs = "rename_file x (ms_dir s)"]) (use Cons in simp_all)
qed

lemma runs_map:
  assumes "job_ok j" and "mr_inv j s" and "\<forall>f \<in> set (j_files j). j_dir j f \<noteq> None"
    and "w < length (ms_workers s)" and "ms_workers s ! w = MapStart ti f n"
  shows "runs j w s (Reporting MapTask ti)"
proof -
  have "worker_ok j (ms_coord s) (ms_dir s) (MapStart ti f n)"
    using assms(2,4,5) by (rule mr_inv_worker)
  then have f: "f \<in> set (j_files j)" and n: "n = int (j_n j)" by auto
  then obtain content where "ms_dir s f = Some content"
    using assms(2,3) by (auto simp: mr_inv_def coord_good_def)
  moreover have "map_renames ti kva n = Inr (bucket_files ti kva n)" for kva
    using assms(1) n by (simp add: map_renames_spec job_ok_def)
  ultimately have "work j (j_map j) (ms_dir s) (ms_workers s ! w) =
      (ms_dir s, Renaming ti (bucket_files ti (j_map j f content) n))"
    using assms(5) by simp
  then show ?thesis by (rule runs_step [OF assms(4)]) (use assms(4) in \<open>simp add: runs_renames\<close>)
qed

lemma runs_reduce:
  assumes "job_ok j"
  shows "mr_inv j s \<Longrightarrow> w < length (ms_workers s) \<Longrightarrow> ms_workers s ! w = Reading ti n i kva \<Longrightarrow>
    runs j w s (Reporting ReduceTask ti)"
proof (induction "nat (n - i)" arbitrary: s i kva)
  case 0
  show ?case
    by (rule runs_step [where v = "Reporting ReduceTask ti" and
          fs = "rename_file (GetOutputFileName ti, reduce_text (j_sort j) (j_reduce j) kva) (ms_dir s)"])
      (use 0 in \<open>simp_all add: runs_here\<close>)
next
  case (Suc d)
  have good: "coord_good j (ms_coord s) (ms_dir s)" using Suc.prems(1) by (simp add: mr_inv_def)
  have ok: "worker_ok j (ms_coord s) (ms_dir s) (Reading ti n i kva)" using Suc.prems by (rule mr_inv_worker)
  then obtain r k where r: "r < j_n j" "ti = int r" "i = int k" "k < length (j_files j)" "allMapDone (ms_coord s)"
    using Suc.hyps(2) by auto
  from read_file_ok [OF assms r(4) allMapDone_ok [OF good r(5,4,1)]] obtain kvs
    where kvs: "read_file (ms_dir s) i ti = Inr kvs" using r by metis
  let ?t = "s\<lparr>ms_dir := ms_dir s, ms_workers := (ms_workers s)[w := Reading ti n (i + 1) (kva @ kvs)]\<rparr>"
  have w: "work j (j_map j) (ms_dir s) (ms_workers s ! w) = (ms_dir s, Reading ti n (i + 1) (kva @ kvs))"
    using kvs Suc by simp
  have "mr_inv j ?t" using mr_inv_step [OF assms Suc.prems(1) work_step [OF Suc.prems(2) w]] .
  then have "runs j w ?t (Reporting ReduceTask ti)" using Suc by (intro Suc.hyps(1)) auto
  then show ?case by (rule runs_step [OF Suc.prems(2) w])
qed

definition unfinished :: "coordinator \<Rightarrow> nat" where
  "unfinished c = card {i. i < length (mapStatus c) \<and> mapStatus c ! i \<noteq> Finished} +
     card {i. i < length (reduceStatus c) \<and> reduceStatus c ! i \<noteq> Finished}"

lemma card_finish:
  assumes "i < length xs" and "xs ! i \<noteq> Finished"
  shows "card {k. k < length (xs[i := Finished]) \<and> xs[i := Finished] ! k \<noteq> Finished} <
    card {k. k < length xs \<and> xs ! k \<noteq> Finished}"
  using assms by (intro psubset_card_mono) (auto simp: nth_list_update)

lemma card_onfly:
  assumes "xs ! i \<noteq> Finished"
  shows "{k. k < length (xs[i := OnFly]) \<and> xs[i := OnFly] ! k \<noteq> Finished} = {k. k < length xs \<and> xs ! k \<noteq> Finished}"
proof -
  have "xs[i := OnFly] ! k \<noteq> Finished \<longleftrightarrow> xs ! k \<noteq> Finished" if "k < length xs" for k
    using assms that by (cases "k = i") auto
  then show ?thesis by auto
qed

lemma due_not_finished: "due now ss hs i \<Longrightarrow> ss ! i \<noteq> Finished"
  by (auto simp: due_def)

lemma late_enough:
  obtains d :: int where "0 < d" "\<And>t. t \<in> set hs \<Longrightarrow> t < now + d - 10 * 1000000000"
proof -
  let ?M = "Max (insert 0 (set hs))"
  let ?d = "\<bar>?M\<bar> + \<bar>now\<bar> + 10 * 1000000000 + 1"
  have "t < now + ?d - 10 * 1000000000" if "t \<in> set hs" for t
  proof -
    have "t \<le> ?M" using that by simp
    then show ?thesis by linarith
  qed
  moreover have "0 < ?d" by linarith
  ultimately show ?thesis using that [of ?d] by blast
qed


lemma due_late:
  assumes "\<not> all_finished ss" and "length hs = length ss" and "\<And>t. t \<in> set hs \<Longrightarrow> t < now - 10 * 1000000000"
  shows "\<exists>i. due now ss hs i"
proof -
  obtain i where i: "i < length ss" "ss ! i \<noteq> Finished" using assms(1) by (auto simp: all_finished_nth)
  moreover have "hs ! i < now - 10 * 1000000000" using assms(2,3) i(1) by simp
  ultimately show ?thesis by (cases "ss ! i") (auto simp: due_def)
qed

lemma steps_mr_inv: "job_ok j \<Longrightarrow> (mr_step j)\<^sup>*\<^sup>* s t \<Longrightarrow> mr_inv j s \<Longrightarrow> mr_inv j t"
  using mr.steps_inv [of j s t] by simp

text \<open>A worker that asks when every task that is out is overdue gets a task.\<close>

lemma ask_late:
  assumes "mr_inv j s" and "w < length (ms_workers s)" and "ms_workers s ! w = Asking" and "\<not> allDone (ms_coord s)"
  obtains (Map) t i f n where "(mr_step j)\<^sup>*\<^sup>* s t" "w < length (ms_workers t)" "ms_workers t ! w = MapStart (int i) f n"
      "i < length (mapStatus (ms_coord s))" "mapStatus (ms_coord s) ! i \<noteq> Finished"
      "mapStatus (ms_coord t) = (mapStatus (ms_coord s))[i := OnFly]" "reduceStatus (ms_coord t) = reduceStatus (ms_coord s)"
  | (Reduce) t i n where "(mr_step j)\<^sup>*\<^sup>* s t" "w < length (ms_workers t)" "ms_workers t ! w = Reading (int i) n 0 []"
      "i < length (reduceStatus (ms_coord s))" "reduceStatus (ms_coord s) ! i \<noteq> Finished"
      "reduceStatus (ms_coord t) = (reduceStatus (ms_coord s))[i := OnFly]" "mapStatus (ms_coord t) = mapStatus (ms_coord s)"
proof -
  let ?c = "ms_coord s"
  have good: "coord_good j ?c (ms_dir s)" using assms(1) by (simp add: mr_inv_def)
  note len = coord_good_lengths [OF good]
  obtain d where d: "0 < d" "\<And>t. t \<in> set (mapHandoutTime ?c @ reduceHandoutTime ?c) \<Longrightarrow> t < ms_now s + d - 10 * 1000000000"
    using late_enough by blast
  let ?s = "s\<lparr>ms_now := ms_now s + d\<rparr>"
  have tick: "mr_step j s ?s" using d(1) by (rule mr_tick)
  have ask: "(mr_step j)\<^sup>*\<^sup>* s (?s\<lparr>ms_coord := c, ms_workers := (ms_workers ?s)[w := on_reply r]\<rparr>)"
    if "HandleRequestTask (ms_now s + d) ?c get_args = Inr (c, r)" for c r
  proof -
    have "mr_step j ?s (?s\<lparr>ms_coord := c, ms_workers := (ms_workers ?s)[w := on_reply r]\<rparr>)"
      using assms(2,3) that by (intro mr_ask) simp_all
    with tick show ?thesis by (meson converse_rtranclp_into_rtranclp rtranclp.rtrancl_refl)
  qed
  show ?thesis
    using coord_good_simps(1) [OF good]
  proof (cases rule: get_cases [where now = "ms_now s + d"])
    case Finish
    with assms(4) show ?thesis by simp
  next
    case (Map i r)
    from that(1) [OF ask [OF Map(2)], of i] show ?thesis
      using Map assms(2) due_not_finished [OF Map(1)] by (simp add: on_reply_def due_def)
  next
    case (Reduce i r)
    from that(2) [OF ask [OF Reduce(3)], of i] show ?thesis
      using Reduce assms(2) due_not_finished [OF Reduce(2)] by (simp add: on_reply_def due_def)
  next
    case (Wait r)
    show ?thesis
    proof (cases "allMapDone ?c")
      case True
      then have "\<not> all_finished (reduceStatus ?c)" using assms(4) by (simp add: allDone_def allReduceDone_def)
      with due_late [of "reduceStatus ?c" "reduceHandoutTime ?c" "ms_now s + d"] d(2) len Wait(4) True
      show ?thesis by simp
    next
      case False
      then have "\<not> all_finished (mapStatus ?c)" by (simp add: allMapDone_def)
      with due_late [of "mapStatus ?c" "mapHandoutTime ?c" "ms_now s + d"] d(2) len Wait(4) False
      show ?thesis by simp
    qed
  qed
qed

lemma finish_task:
  assumes "job_ok j" and "\<forall>f \<in> set (j_files j). j_dir j f \<noteq> None" and "mr_inv j s"
    and "w < length (ms_workers s)" and "ms_workers s ! w = Asking" and "\<not> allDone (ms_coord s)"
  shows "\<exists>t. (mr_step j)\<^sup>*\<^sup>* s t \<and> w < length (ms_workers t) \<and> ms_workers t ! w = Asking \<and>
    unfinished (ms_coord t) < unfinished (ms_coord s)"
  using assms(3-6)
proof (cases rule: ask_late)
  case (Map t i f n)
  obtain u where u: "(mr_step j)\<^sup>*\<^sup>* t u" "ms_coord u = ms_coord t" "w < length (ms_workers u)"
      "ms_workers u ! w = Reporting MapTask (int i)"
    using runs_map [OF assms(1) steps_mr_inv [OF assms(1) Map(1) assms(3)] assms(2) Map(2,3)] by (auto simp: runs_def)
  let ?c = "(ms_coord u)\<lparr>mapStatus := (mapStatus (ms_coord u))[i := Finished]\<rparr>"
  have "mr_step j u (u\<lparr>ms_coord := ?c, ms_workers := (ms_workers u)[w := Asking]\<rparr>)"
    using u(3,4) put_map [of i "ms_coord u" "ms_now u"] Map(4,6) u(2) by (intro mr_report) auto
  moreover have "unfinished ?c < unfinished (ms_coord s)"
    using card_finish [OF Map(4,5)] u(2) Map(6,7) by (simp add: unfinished_def)
  ultimately show ?thesis
    using Map(1) u(1,3) by (intro exI [of _ "u\<lparr>ms_coord := ?c, ms_workers := (ms_workers u)[w := Asking]\<rparr>"]) auto
next
  case (Reduce t i n)
  obtain u where u: "(mr_step j)\<^sup>*\<^sup>* t u" "ms_coord u = ms_coord t" "w < length (ms_workers u)"
      "ms_workers u ! w = Reporting ReduceTask (int i)"
    using runs_reduce [OF assms(1) steps_mr_inv [OF assms(1) Reduce(1) assms(3)] Reduce(2,3)] by (auto simp: runs_def)
  let ?rs = "(reduceStatus (ms_coord u))[i := Finished]"
  let ?c = "(ms_coord u)\<lparr>reduceStatus := ?rs, isDone := isDone (ms_coord u) \<or> allDone ((ms_coord u)\<lparr>reduceStatus := ?rs\<rparr>)\<rparr>"
  have "mr_step j u (u\<lparr>ms_coord := ?c, ms_workers := (ms_workers u)[w := Asking]\<rparr>)"
    using u(3,4) put_reduce [of i "ms_coord u" "ms_now u"] Reduce(4,6) u(2) by (intro mr_report) auto
  moreover have "unfinished ?c < unfinished (ms_coord s)"
    using card_finish [OF Reduce(4,5)] u(2) Reduce(6,7) by (simp add: unfinished_def)
  ultimately show ?thesis
    using Reduce(1) u(1,3) by (intro exI [of _ "u\<lparr>ms_coord := ?c, ms_workers := (ms_workers u)[w := Asking]\<rparr>"]) auto
qed


lemma finish_all:
  assumes "job_ok j" and "\<forall>f \<in> set (j_files j). j_dir j f \<noteq> None"
  shows "mr_inv j s \<Longrightarrow> w < length (ms_workers s) \<Longrightarrow> ms_workers s ! w = Asking \<Longrightarrow>
    \<exists>t. (mr_step j)\<^sup>*\<^sup>* s t \<and> isDone (ms_coord t)"
proof (induction "unfinished (ms_coord s)" arbitrary: s rule: less_induct)
  case less
  have good: "coord_good j (ms_coord s) (ms_dir s)" using less.prems(1) by (simp add: mr_inv_def)
  show ?case
  proof (cases "allDone (ms_coord s)")
    case True
    then have "HandleRequestTask (ms_now s) (ms_coord s) get_args =
        Inr ((ms_coord s)\<lparr>isDone := True\<rparr>, zeroReply\<lparr>rr_Type := DoneTask\<rparr>)"
      by (simp add: HandleRequestTask_def get_args_def allDone_def)
    from mr_ask [OF less.prems(2,3) this, of j] show ?thesis by (intro exI conjI) (rule r_into_rtranclp, assumption, simp)
  next
    case False
    from finish_task [OF assms less.prems False] obtain t where t: "(mr_step j)\<^sup>*\<^sup>* s t" "w < length (ms_workers t)"
        "ms_workers t ! w = Asking" "unfinished (ms_coord t) < unfinished (ms_coord s)"
      by blast
    from less.hyps [OF t(4) steps_mr_inv [OF assms(1) t(1) less.prems(1)] t(2,3)] t(1) show ?thesis
      by (blast intro: rtranclp_trans)
  qed
qed

lemma finish_from:
  assumes "job_ok j" and "\<forall>f \<in> set (j_files j). j_dir j f \<noteq> None" and "reach (mr_init j) (mr_step j) s"
  shows "\<exists>t. (mr_step j)\<^sup>*\<^sup>* s t \<and> isDone (ms_coord t)"
proof -
  let ?s = "s\<lparr>ms_workers := ms_workers s @ [Asking]\<rparr>"
  have st: "mr_step j s ?s" by (rule mr_start)
  have "mr_inv j ?s" using mr_inv_step [OF assms(1) mr_reach_inv [OF assms(1,3)] st] .
  from finish_all [OF assms(1,2) this, of "length (ms_workers s)"] st show ?thesis
    by (auto intro: converse_rtranclp_into_rtranclp)
qed

lemma reach_steps: "(step)\<^sup>*\<^sup>* s t \<Longrightarrow> reach init step s \<Longrightarrow> reach init step t"
  by (induction rule: rtranclp_induct) (auto intro: reach_step)

text \<open>
  C38. No crash blocks a job. From every state that a run can reach, with every worker dead or
  stuck with a task, a worker started afresh can bring the job to its end on its own: the tasks
  that are out become overdue, are handed to it one after the other, its reads find every file
  they need, and the coordinator reports that the job is done.
\<close>

theorem mr_can_finish:
  assumes "job_ok j" and "\<forall>f \<in> set (j_files j). j_dir j f \<noteq> None" and "reach (mr_init j) (mr_step j) s"
  shows "\<exists>t. (mr_step j)\<^sup>*\<^sup>* s t \<and> DoneCall (ms_coord t)"
  using finish_from [OF assms] by (simp add: DoneCall_def)

text \<open>
  C39. What the coordinator hands out. A request for a task never panics; a map task is one that
  is in store or that has been out for more than ten seconds, with its file; a reduce task is
  handed out only when every map task is finished, under the same rule; a worker is told to wait
  only when no task may be handed out, and to stop exactly when all tasks are finished. A task
  that is finished is never handed out; one that is handed out is marked as out from now on.
\<close>

theorem mr_handout:
  assumes "coord_ok c"
  shows "\<exists>c' r. HandleRequestTask now c get_args = Inr (c', r) \<and> coord_ok c' \<and>
    (case rr_Type r of
       MapTask \<Rightarrow> (\<exists>i. rr_TaskInd r = int i \<and> due now (mapStatus c) (mapHandoutTime c) i \<and>
          rr_FileName r = co_files c ! i \<and> rr_NReduce r = nReduce c \<and> mapStatus c' = (mapStatus c)[i := OnFly] \<and>
          mapHandoutTime c' = (mapHandoutTime c)[i := now])
     | ReduceTask \<Rightarrow> allMapDone c \<and> (\<exists>i. rr_TaskInd r = int i \<and> due now (reduceStatus c) (reduceHandoutTime c) i \<and>
          rr_NMap r = nMap c \<and> reduceStatus c' = (reduceStatus c)[i := OnFly] \<and>
          reduceHandoutTime c' = (reduceHandoutTime c)[i := now])
     | WaitTask \<Rightarrow> \<not> allDone c \<and> (if allMapDone c then \<forall>i. \<not> due now (reduceStatus c) (reduceHandoutTime c) i
          else \<forall>i. \<not> due now (mapStatus c) (mapHandoutTime c) i)
     | DoneTask \<Rightarrow> allDone c \<and> isDone c')"
  using assms
proof (cases rule: get_cases [where now = now])
  case Finish
  with assms show ?thesis by (simp add: coord_ok_def)
next
  case (Map i r)
  have "\<not> isDone c" using assms due_not_all [OF Map(1)] by (auto simp: coord_ok_def allDone_def allMapDone_def)
  with assms Map show ?thesis by (auto simp: coord_ok_def)
next
  case (Reduce i r)
  have "\<not> isDone c" using assms due_not_all [OF Reduce(2)] by (auto simp: coord_ok_def allDone_def allReduceDone_def)
  with assms Reduce show ?thesis by (auto simp: coord_ok_def)
next
  case (Wait r)
  with assms show ?thesis by simp
qed

text \<open>
  The RPCs of a run never panic: in every reachable state, a worker that asks for a task or
  reports one is answered, and a report marks as finished a task whose files are in place. A
  report with an index that is no task's, which no worker sends, does panic.
\<close>

theorem mr_rpc_safe:
  assumes "job_ok j" and "reach (mr_init j) (mr_step j) s" and "w < length (ms_workers s)"
    and "ms_workers s ! w = Reporting t i"
  shows "(\<exists>c. HandleRequestTask (ms_now s) (ms_coord s) (put_args t i) = Inr (c, zeroReply)) \<and>
    (t = MapTask \<and> (\<forall>r < j_n j. file_ok j (ms_dir s) (nat i) r) \<or> t = ReduceTask \<and> out_ok j (ms_dir s) (nat i)) \<and>
    HandleRequestTask (ms_now s) (ms_coord s) (put_args MapTask (int (length (j_files j)))) = Inl IndexOutOfRange"
proof -
  have inv: "mr_inv j s" using assms(1,2) by (rule mr_reach_inv)
  then have good: "coord_good j (ms_coord s) (ms_dir s)" by (simp add: mr_inv_def)
  have w: "worker_ok j (ms_coord s) (ms_dir s) (Reporting t i)" using inv assms(3,4) by (rule mr_inv_worker)
  obtain c where "HandleRequestTask (ms_now s) (ms_coord s) (put_args t i) = Inr (c, zeroReply)"
    using put_good [OF good w] by blast
  moreover have "HandleRequestTask (ms_now s) (ms_coord s) (put_args MapTask (int (length (j_files j)))) = Inl IndexOutOfRange"
    using coord_good_lengths(1) [OF good] by (simp add: HandleRequestTask_def put_args_def go_update_def)
  ultimately show ?thesis using w by (auto simp: map_ok_def)
qed


section \<open>The steps of a task against the task\<close>

definition task_step ::
  "job \<Rightarrow> (string \<Rightarrow> string \<Rightarrow> keyValue list) \<Rightarrow> directory \<times> workerState \<Rightarrow> directory \<times> workerState \<Rightarrow> bool" where
  "task_step j mf p q \<longleftrightarrow> q = work j mf (fst p) (snd p)"

lemma task_stepI: "work j mf fs w = q \<Longrightarrow> (task_step j mf)\<^sup>*\<^sup>* q u \<Longrightarrow> (task_step j mf)\<^sup>*\<^sup>* (fs, w) u"
  by (rule converse_rtranclp_into_rtranclp [of _ _ q]) (simp_all add: task_step_def)

lemma task_step_1: "work j mf fs w = q \<Longrightarrow> (task_step j mf)\<^sup>*\<^sup>* (fs, w) q"
  by (erule task_stepI) simp

lemma renames_steps: "(task_step j mf)\<^sup>*\<^sup>* (fs, Renaming ti rs) (fold rename_file rs fs, Reporting MapTask ti)"
proof (induction rs arbitrary: fs)
  case Nil
  show ?case by (rule task_step_1) simp
next
  case (Cons r rs)
  then show ?case by (auto intro: task_stepI)
qed

lemma DoMap_steps:
  "(task_step j mf)\<^sup>*\<^sup>* (fs, MapStart ti f n)
     (case DoMap mf ti f n fs of Inl _ \<Rightarrow> (fs, Exited) | Inr fs' \<Rightarrow> (fs', Reporting MapTask ti))"
proof (cases "fs f")
  case None
  then show ?thesis by (intro task_step_1) (simp add: DoMap_def)
next
  case (Some content)
  show ?thesis
  proof (cases "map_renames ti (mf f content) n")
    case (Inl e)
    with Some show ?thesis by (intro task_step_1) (simp add: DoMap_def)
  next
    case (Inr rs)
    show ?thesis
      by (rule task_stepI [where q = "(fs, Renaming ti rs)"]) (use Some Inr renames_steps in \<open>simp_all add: DoMap_def\<close>)
  qed
qed

lemma reads_steps:
  "(task_step j mf)\<^sup>*\<^sup>* (fs, Reading ti n i kva)
     (case read_loop fs ti [i..n - 1] kva of
        Inl _ \<Rightarrow> (fs, Exited)
      | Inr kvs \<Rightarrow> (rename_file (GetOutputFileName ti, reduce_text (j_sort j) (j_reduce j) kvs) fs, Reporting ReduceTask ti))"
proof (induction "nat (n - i)" arbitrary: i kva)
  case 0
  then show ?case by (intro task_step_1) simp
next
  case (Suc d)
  then have up: "[i..n - 1] = i # [i + 1..n - 1]" and i: "i < n" by (simp_all add: upto_rec1)
  show ?case
  proof (cases "read_file fs i ti")
    case (Inl e)
    with i up show ?thesis by (intro task_step_1) simp
  next
    case (Inr kvs)
    have "d = nat (n - (i + 1))" using Suc.hyps(2) by linarith
    note IH = Suc.hyps(1) [OF this, of "kva @ kvs"]
    have eq: "read_loop fs ti [i..n - 1] kva = read_loop fs ti [i + 1..n - 1] (kva @ kvs)"
      by (simp only: up read_loop.simps Inr res_bind_Inr)
    have "work j mf fs (Reading ti n i kva) = (fs, Reading ti n (i + 1) (kva @ kvs))" using i Inr by simp
    then show ?thesis unfolding eq using IH by (rule task_stepI)
  qed
qed

text \<open>
  The reads and renames of the step relation are those of \<open>DoMap\<close> and \<open>DoReduce\<close>: a task
  that no other worker interferes with ends in the directory the function gives and goes on to
  report, and where the function calls \<open>log.Fatalf\<close> or panics (an input or an intermediate
  file that is missing, no reduce task to divide by) the worker ends with the directory unchanged.
\<close>

theorem mr_tasks_refine:
  "(task_step j (j_map j))\<^sup>*\<^sup>* (fs, MapStart ti f n)
     (case DoMap (j_map j) ti f n fs of Inl _ \<Rightarrow> (fs, Exited) | Inr fs' \<Rightarrow> (fs', Reporting MapTask ti)) \<and>
   (task_step j (j_map j))\<^sup>*\<^sup>* (fs, Reading ti n 0 [])
     (case DoReduce (j_sort j) (j_reduce j) ti n fs of
        Inl _ \<Rightarrow> (fs, Exited) | Inr fs' \<Rightarrow> (fs', Reporting ReduceTask ti))"
proof -
  have "(case read_loop fs ti [0..n - 1] [] of
        Inl _ \<Rightarrow> (fs, Exited)
      | Inr kvs \<Rightarrow> (rename_file (GetOutputFileName ti, reduce_text (j_sort j) (j_reduce j) kvs) fs, Reporting ReduceTask ti)) =
      (case DoReduce (j_sort j) (j_reduce j) ti n fs of
        Inl _ \<Rightarrow> (fs, Exited) | Inr fs' \<Rightarrow> (fs', Reporting ReduceTask ti))"
    by (cases "read_loop fs ti [0..n - 1] []") (simp_all add: DoReduce_def)
  with reads_steps [of j "j_map j" fs ti n 0 "[]"] DoMap_steps show ?thesis by simp
qed

section \<open>A job at work\<close>

text \<open>Two files of one word each, counted by two reduce tasks.\<close>

definition demo_job :: job where
  "demo_job =
     \<lparr>j_sort = sort_key kv_Key, j_map = (\<lambda>f c. [\<lparr>kv_Key = c, kv_Value = ''1''\<rparr>]),
      j_reduce = (\<lambda>k vs. digits (length vs)), j_files = [''in1'', ''in2''], j_n = 2,
      j_dir = [''in1'' \<mapsto> ''a'', ''in2'' \<mapsto> ''b'']\<rparr>"

definition demo_start :: mrSystem where
  "demo_start = \<lparr>ms_coord = MakeCoordinator [''in1'', ''in2''] 2, ms_dir = [''in1'' \<mapsto> ''a'', ''in2'' \<mapsto> ''b''],
     ms_workers = [], ms_now = 0\<rparr>"

lemma demo_ok: "job_ok demo_job"
  by (auto simp: job_ok_def demo_job_def sorts_def valid_kv_def valid_ascii GetIntermediateFileName_def GetOutputFileName_def)

lemma demo_free: "order_free (j_reduce demo_job)"
  by (auto simp: order_free_def demo_job_def dest: mset_eq_length)

lemma demo_inputs: "\<forall>f \<in> set (j_files demo_job). j_dir demo_job f \<noteq> None"
  by (simp add: demo_job_def)

lemma demo_init: "reach (mr_init demo_job) (mr_step demo_job) demo_start"
  by (rule reach_init) (simp add: mr_init_def demo_job_def demo_start_def)

lemma demo_done: "\<exists>s. reach (mr_init demo_job) (mr_step demo_job) s \<and> DoneCall (ms_coord s)"
  using finish_from [OF demo_ok demo_inputs demo_init] reach_steps [OF _ demo_init] by (auto simp: DoneCall_def)

lemma demo_reporting:
  "\<exists>s w t i. reach (mr_init demo_job) (mr_step demo_job) s \<and> w < length (ms_workers s) \<and> ms_workers s ! w = Reporting t i"
proof -
  let ?s = "demo_start\<lparr>ms_workers := [Asking]\<rparr>"
  have "mr_step demo_job demo_start ?s" using mr_start [of demo_job demo_start] by (simp add: demo_start_def)
  then have r: "reach (mr_init demo_job) (mr_step demo_job) ?s" by (rule reach_step [OF demo_init])
  note inv = mr_reach_inv [OF demo_ok r]
  have w: "0 < length (ms_workers ?s)" "ms_workers ?s ! 0 = Asking" by simp_all
  have nd: "\<not> allDone (ms_coord ?s)"
    by (simp add: demo_start_def allDone_def allMapDone_def MakeCoordinator_status)
  have "\<exists>t. (mr_step demo_job)\<^sup>*\<^sup>* ?s t \<and> (\<exists>v i. runs demo_job 0 t (Reporting v i))"
    using inv w nd
  proof (cases rule: ask_late)
    case (Map t i f n)
    with runs_map [OF demo_ok steps_mr_inv [OF demo_ok Map(1) inv] demo_inputs Map(2,3)] show ?thesis by blast
  next
    case (Reduce t i n)
    with runs_reduce [OF demo_ok steps_mr_inv [OF demo_ok Reduce(1) inv] Reduce(2,3)] show ?thesis by blast
  qed
  then show ?thesis using reach_steps r unfolding runs_def by (metis (no_types, lifting))
qed

theorem mapreduce_correct_witness:
  "\<exists>s outs kvs. reach (mr_init demo_job) (mr_step demo_job) s \<and> DoneCall (ms_coord s) \<and> length outs = 2 \<and>
     (\<forall>r < 2. ms_dir s (GetOutputFileName (int r)) = Some (concat (outs ! r))) \<and>
     mset (concat outs) = mset (reduce_loop (j_reduce demo_job) (j_sort demo_job kvs) 0)"
proof -
  obtain s where s: "reach (mr_init demo_job) (mr_step demo_job) s" "DoneCall (ms_coord s)" using demo_done by blast
  have "j_files demo_job \<noteq> []" and n: "j_n demo_job = 2" by (simp_all add: demo_job_def)
  from mapreduce_correct [OF demo_ok demo_free this(1) s] s show ?thesis unfolding n by blast
qed

theorem mr_can_finish_witness: "\<exists>t. (mr_step demo_job)\<^sup>*\<^sup>* demo_start t \<and> DoneCall (ms_coord t)"
  using mr_can_finish [OF demo_ok demo_inputs demo_init] .

theorem mr_handout_witness:
  "\<exists>c' r. HandleRequestTask 5 (MakeCoordinator [''in1''] 1) get_args = Inr (c', r) \<and> coord_ok c'"
proof -
  have "coord_ok (MakeCoordinator [''in1''] 1)" by (simp add: coord_ok_def MakeCoordinator_def)
  from mr_handout [OF this, of 5] show ?thesis by blast
qed

theorem mr_rpc_safe_witness:
  "\<exists>s t i c. reach (mr_init demo_job) (mr_step demo_job) s \<and>
     HandleRequestTask (ms_now s) (ms_coord s) (put_args t i) = Inr (c, zeroReply)"
proof -
  obtain s w t i where "reach (mr_init demo_job) (mr_step demo_job) s" "w < length (ms_workers s)"
      "ms_workers s ! w = Reporting t i"
    using demo_reporting by blast
  with mr_rpc_safe [OF demo_ok this] show ?thesis by blast
qed

end
