(* ===== verification/Trace_Event.thy ===== *)
theory Trace_Event
  imports Raft_Vote Raft_Commit "HOL-Library.AList"
begin

text \<open>
  The recorded run. The file raft/2timesvote.ts is, whatever its name says, not a program:
  it is what the Raft test TestFigure8Unreliable2C printed on a run of five peers that
  failed, with one remark of the authors in it. The theories \<open>Trace_1\<close> to \<open>Trace_7\<close> hold
  it line by line. This theory says what a line is and what it takes for a run to conform
  to the rules of the protocol and to the model of the code: it is read line by line, and the
  reader gives up at the first line that does not fit.

  The run was made with an earlier state of the code than the one under src/: messages have
  since been reworded, there were no snapshots, and the bug that the run shows was repaired.
\<close>

section \<open>Lines\<close>

text \<open>
  What a peer reports, of elections (the lines with EEE and with dashes), of replication
  (AAA) and of committing (CCC); the arguments are those of the call of \<open>DPrintf\<close>.
\<close>

datatype election_report =
    Initialized int
  | StartElection
  | BecomeCandidate
  | RequestVoteTo int
  | VoteRequested int int int
  | VoteArgs int int int int int
  | Indices int int
  | TermLower int
  | TermLarger
  | LogTerms int int int int
  | VoteGranted int int int int int
  | RefuseVote
  | LogOutdated
  | VoteReply int int bool
  | VoteGained int
  | CheckElection int int
  | BecomesLeader
  | NotCandidate
  | VoteNotOk int
  | HigherTerm int int

datatype append_report =
    HeartBeat
  | AppendTo int
  | AppendSent int "int list"
  | AppendNotOk int
  | AppendSuccess int
  | AppendRefused int int int int
  | AppendBigger int int
  | NoLongerLeader int
  | AppendFrom int int
  | TermSmaller
  | NoMatch int int
  | OutOfRange int int
  | Appended int int

datatype commit_report =
    TryCommit int int
  | MatchIndex "int list"
  | Logs "(int \<times> int) list"
  | NewCommit int int int int int int
  | FinishCommit int
  | TryApply int int
  | Apply int int int

datatype report = E election_report | A append_report | C commit_report

text \<open>
  A line is the report of a peer, with the peer, its term and its status, or one of the
  test: its view of the leader and of a command, and the two lines with which it stops. The
  remark of the authors is \<open>Remark\<close>; \<open>Console\<close> is a line of the tools that ran the test.
  Times are left out.
\<close>

datatype line =
    Ev int int raftStatus report
  | TestLeader int
  | TestCommitted int int int
  | TestServer int raftStatus
  | TestConflict int int int int int
  | Remark
  | Console

section \<open>What the lines say about a call of the code\<close>

text \<open>
  A request for a vote as its receiver prints it, up to the verdict. The last term of the
  candidate is printed only when the receiver gets as far as comparing the logs.
\<close>

record vote_req =
  q_term :: int
  q_status :: raftStatus
  q_voted :: int
  q_from :: int
  q_argTerm :: int
  q_lastTerm :: int
  q_lastIndex :: int
  q_argLastTerm :: "int option"
  q_argLastIndex :: int

text \<open>A peer \<open>n\<close> that is in the printed state, whatever else its state is, and the arguments.\<close>

definition printed_voter :: "int \<Rightarrow> vote_req \<Rightarrow> ('c, 's) raft \<Rightarrow> bool" where
  "printed_voter n q rf \<longleftrightarrow>
     me rf = n \<and> currentTerm rf = q_term q \<and> status rf = q_status q \<and> votedFor rf = q_voted q \<and>
     getLastLogEntryIndex rf = q_lastIndex q \<and>
     term_at rf (getLastLogEntryIndex rf) = Some (q_lastTerm q)"

definition printed_args :: "vote_req \<Rightarrow> requestVoteArgs \<Rightarrow> bool" where
  "printed_args q args \<longleftrightarrow>
     rva_Term args = q_argTerm q \<and> rva_CandidateId args = q_from q \<and>
     rva_LastLogIndex args = q_argLastIndex q \<and>
     (\<forall>t. q_argLastTerm q = Some t \<longrightarrow> rva_LastLogTerm args = t)"

text \<open>
  What such a peer answers, as far as the print tells: the verdict, and its term and status
  afterwards.
\<close>

definition newer_log :: "vote_req \<Rightarrow> int \<Rightarrow> bool" where
  "newer_log q lt \<longleftrightarrow> q_lastTerm q < lt \<or> q_lastTerm q = lt \<and> q_lastIndex q \<le> q_argLastIndex q"

definition vote_answer :: "int \<Rightarrow> vote_req \<Rightarrow> (bool \<times> int \<times> raftStatus) option" where
  "vote_answer n q =
     (if q_argTerm q < q_term q then Some (False, q_term q, q_status q)
      else case q_argLastTerm q of
        None \<Rightarrow> None
      | Some lt \<Rightarrow>
          if newer_log q lt \<and> (q_term q < q_argTerm q \<or> q_voted q = -1 \<or> q_voted q = q_from q \<or>
               q_voted q = n \<and> q_status q = Candidate)
          then Some (True, q_argTerm q, Follower)
          else if q_term q < q_argTerm q then Some (False, q_argTerm q, Follower)
          else Some (False, q_term q, q_status q))"

lemma vote_answer_right:
  assumes "log_ok rf" "printed_voter n q rf" "printed_args q args" "vote_answer n q = Some (g, t, s)"
  shows "\<exists>rf' reply. RequestVote ev rf args = Inr (rf', reply) \<and> rvr_VoteGranted reply = g \<and>
    currentTerm rf' = t \<and> status rf' = s"
proof -
  have p: "currentTerm rf = q_term q" "status rf = q_status q" "rva_Term args = q_argTerm q"
    using assms(2,3) by (auto simp: printed_voter_def printed_args_def)
  show ?thesis
  proof (cases "q_argTerm q < q_term q")
    case True
    with assms(4) p show ?thesis by (auto simp: RequestVote_closed [OF assms(1)] vote_answer_def)
  next
    case False
    with assms(4) obtain lt where lt: "q_argLastTerm q = Some lt"
      by (auto simp: vote_answer_def split: option.splits)
    have "up_to_date rf args = newer_log q lt" "rva_CandidateId args = q_from q"
      using assms(2,3) lt by (auto simp: printed_voter_def printed_args_def up_to_date_def newer_log_def)
    moreover have "votedFor rf = q_voted q" "me rf = n" using assms(2) by (simp_all add: printed_voter_def)
    ultimately show ?thesis
      using assms(4) p lt False
      by (auto simp: RequestVote_closed [OF assms(1)] vote_answer_def vote_free_def split: if_splits)
  qed
qed

text \<open>
  A candidate that is asked by another one of its own term, with a log that is as new: there
  the code under src/ withdraws and grants. The code that made the run refused.
\<close>

definition gives_way :: "int \<Rightarrow> vote_req \<Rightarrow> bool" where
  "gives_way n q \<longleftrightarrow>
     q_argTerm q = q_term q \<and> q_status q = Candidate \<and> q_voted q = n \<and> q_from q \<noteq> n \<and>
     (case q_argLastTerm q of None \<Rightarrow> False | Some lt \<Rightarrow> newer_log q lt)"

lemma gives_way_answer: "gives_way n q \<Longrightarrow> vote_answer n q = Some (True, q_term q, Follower)"
  by (auto simp: gives_way_def vote_answer_def split: option.splits)

text \<open>A leader that is about to look for a new commit index, as it prints its state.\<close>

record commit_try =
  c_commit :: int
  c_length :: int
  c_match :: "int list"
  c_logs :: "(int \<times> int) list"

text \<open>
  A leader \<open>n\<close> of a group of five in that state; of its entries only the terms matter. The one
  in \<open>sample_leader\<close> is such a leader, and all of them find the same index.
\<close>

definition printed_leader :: "int \<Rightarrow> int \<Rightarrow> commit_try \<Rightarrow> ('c, 's) raft \<Rightarrow> bool" where
  "printed_leader n t c rf \<longleftrightarrow>
     npeers rf = 5 \<and> me rf = n \<and> currentTerm rf = t \<and> commitIndex rf = c_commit c \<and>
     matchIndex rf = c_match c \<and> map Term (logs rf) = map fst (c_logs c) \<and>
     snapshotEntriesAmount rf = 0"

definition sample_leader :: "int \<Rightarrow> int \<Rightarrow> commit_try \<Rightarrow> (int, int) raft" where
  "sample_leader n t c =
     (fresh_raft \<lparr>now = 0, rnd = 0\<rparr> 5 n MakePersister)\<lparr>currentTerm := t, status := Leader,
       commitIndex := c_commit c, matchIndex := c_match c,
       logs := map (\<lambda>(u, x). \<lparr>Term = u, Action = Cmd x\<rparr>) (c_logs c)\<rparr>"

definition commit_answer :: "int \<Rightarrow> int \<Rightarrow> commit_try \<Rightarrow> int option" where
  "commit_answer n t c =
     (case leaderUpdateCommit (sample_leader n t c) of
        Inl e \<Rightarrow> None | Inr rf \<Rightarrow> Some (commitIndex rf))"

text \<open>The search for a commit index looks at the terms of the entries only.\<close>

definition same_terms :: "('c, 's) raft \<Rightarrow> ('d, 'u) raft \<Rightarrow> bool" where
  "same_terms rf rf' \<longleftrightarrow>
     npeers rf' = npeers rf \<and> me rf' = me rf \<and> currentTerm rf' = currentTerm rf \<and>
     commitIndex rf' = commitIndex rf \<and> matchIndex rf' = matchIndex rf \<and>
     map Term (logs rf') = map Term (logs rf) \<and>
     snapshotEntriesAmount rf' = snapshotEntriesAmount rf"

lemma same_terms_entry:
  assumes "same_terms rf rf'"
  shows "logIndexCheck rf' i a b = logIndexCheck rf i a b"
    and "res_bind (getLogEntryAtIndex rf' i) (\<lambda>e. F (Term e)) =
         res_bind (getLogEntryAtIndex rf i) (\<lambda>e. F (Term e))"
proof -
  have len: "length (logs rf') = length (logs rf)"
    using assms by (metis same_terms_def length_map)
  then show chk: "logIndexCheck rf' i a b = logIndexCheck rf i a b" for a b
    using assms by (simp add: logIndexCheck_def log_index_defs same_terms_def)
  have "Term (logs rf' ! k) = Term (logs rf ! k)" if "k < length (logs rf)" for k
    using assms that len unfolding same_terms_def by (metis nth_map)
  then show "res_bind (getLogEntryAtIndex rf' i) (\<lambda>e. F (Term e)) =
      res_bind (getLogEntryAtIndex rf i) (\<lambda>e. F (Term e))"
    using assms len
    by (cases "logIndexCheck rf i True True")
      (auto simp: getLogEntryAtIndex_def chk go_index_def getOffsetIndex_def same_terms_def)
qed

lemma same_terms_count:
  "same_terms rf rf' \<Longrightarrow> count_match rf' i js k = count_match rf i js k"
  by (induction js arbitrary: k) (simp_all add: same_terms_def)

lemma same_terms_loop:
  assumes "same_terms rf rf'"
  shows "commit_loop rf' js k = commit_loop rf js k"
proof (induction js arbitrary: k)
  case (Cons j js)
  have idx: "getIndexFromOffsetIndex rf' j = getIndexFromOffsetIndex rf j"
    unfolding getIndexFromOffsetIndex_def same_terms_entry(1) [OF assms]
    using assms by (simp add: same_terms_def)
  have sel: "npeers rf' = npeers rf" "currentTerm rf' = currentTerm rf"
    using assms by (simp_all add: same_terms_def)
  have entry: "res_bind (getLogEntryAtIndex rf' i)
        (\<lambda>e. commit_loop rf js (if Term e = currentTerm rf then a else b)) =
      res_bind (getLogEntryAtIndex rf i)
        (\<lambda>e. commit_loop rf js (if Term e = currentTerm rf then a else b))" for i a b
    by (rule same_terms_entry(2) [OF assms])
  show ?case
    unfolding commit_loop.simps idx sel same_terms_count [OF assms] Cons.IH entry ..
qed simp

lemma same_terms_commit:
  assumes "same_terms rf rf'" "leaderUpdateCommit rf = Inr rf1"
  shows "leaderUpdateCommit rf' = Inr (rf'\<lparr>commitIndex := commitIndex rf1\<rparr>)"
proof -
  have sel: "commitIndex rf' = commitIndex rf" "currentTerm rf' = currentTerm rf"
    using assms(1) by (simp_all add: same_terms_def)
  have len: "getLogLengthWithoutSnapshot rf' = getLogLengthWithoutSnapshot rf"
    using assms(1) by (metis getLogLengthWithoutSnapshot_def same_terms_def length_map)
  define chk where "chk c = (if c > -1 \<and> commitIndex rf \<noteq> c
      then res_bind (getLogEntryAtIndex rf c) (\<lambda>e. if Term e \<noteq> currentTerm rf
        then Inl (LogFatal ''against 5.4.2'') else Inr ()) else Inr ())" for c
  have chk': "(if c > -1 \<and> commitIndex rf \<noteq> c
      then res_bind (getLogEntryAtIndex rf' c) (\<lambda>e. if Term e \<noteq> currentTerm rf
        then Inl (LogFatal ''against 5.4.2'') else Inr ()) else Inr ()) = chk c" for c
    unfolding chk_def by (simp only: same_terms_entry(2) [OF assms(1),
        where F = "\<lambda>t. if t \<noteq> currentTerm rf then Inl (LogFatal ''against 5.4.2'') else Inr ()"])
  from assms(2) obtain c where
    "commit_loop rf (map int [0..<nat (getLogLengthWithoutSnapshot rf)]) (commitIndex rf) = Inr c"
    "\<not> c < commitIndex rf" "chk c = Inr ()" "rf1 = rf\<lparr>commitIndex := c\<rparr>"
    unfolding leaderUpdateCommit_def chk_def [symmetric] res_bind_eq_Inr by (auto split: if_split_asm)
  then show ?thesis
    unfolding leaderUpdateCommit_def sel len same_terms_loop [OF assms(1)] chk' by simp
qed

lemma sample_leader_printed: "printed_leader n t c (sample_leader n t c)"
  by (simp add: printed_leader_def sample_leader_def fresh_raft_def comp_def case_prod_beta)

lemma commit_answer_right:
  assumes "printed_leader n t c rf" "commit_answer n t c = Some i"
  shows "leaderUpdateCommit rf = Inr (rf\<lparr>commitIndex := i\<rparr>)"
proof -
  have "same_terms (sample_leader n t c) rf"
    using assms(1) sample_leader_printed [of n t c] by (simp add: same_terms_def printed_leader_def)
  with assms(2) show ?thesis
    by (auto simp: commit_answer_def dest: same_terms_commit split: sum.splits)
qed

section \<open>Reading a run\<close>

text \<open>
  A reader takes a run line by line and may give up. The one that reads the recorded run,
  \<open>replay\<close> below, looks at what the lines on elections and commits say.
\<close>

fun read_run :: "('s \<Rightarrow> line \<Rightarrow> 's option) \<Rightarrow> 's \<Rightarrow> line list \<Rightarrow> 's option" where
  "read_run f s [] = Some s"
| "read_run f s (l # ls) = (case f s l of None \<Rightarrow> None | Some s' \<Rightarrow> read_run f s' ls)"

text \<open>A run that is given in pieces.\<close>

fun read_all :: "('s \<Rightarrow> line \<Rightarrow> 's option) \<Rightarrow> 's \<Rightarrow> line list list \<Rightarrow> 's option" where
  "read_all f s [] = Some s"
| "read_all f s (r # rs) = (case read_run f s r of None \<Rightarrow> None | Some s' \<Rightarrow> read_all f s' rs)"

lemma read_run_append:
  "read_run f s (xs @ ys) = (case read_run f s xs of None \<Rightarrow> None | Some s' \<Rightarrow> read_run f s' ys)"
  by (induction xs arbitrary: s) (auto split: option.splits)

lemma read_run_concat: "read_run f s (concat rs) = read_all f s rs"
  by (induction rs arbitrary: s) (auto simp: read_run_append split: option.splits)

section \<open>Elections and commits\<close>

text \<open>
  What is known after a prefix of a run. Per peer: the request for a vote it is working on,
  the reply to its own request that it read last, the count of votes it printed last, the
  commit it is working on, the index it applied last. Of the whole run: the votes granted
  (voter, term, candidate), the votes that were counted in another term than the one they
  were cast in (candidate, term, voter, term of the vote), and the verdicts in which the code
  under src/ differs (voter, term, candidate).
\<close>

record obs =
  o_req :: "(int \<times> vote_req) list"
  o_reply :: "(int \<times> int \<times> int \<times> bool) list"
  o_count :: "(int \<times> int \<times> int \<times> int) list"
  o_try :: "(int \<times> commit_try) list"
  o_index :: "(int \<times> int) list"
  o_votes :: "(int \<times> int \<times> int) list"
  o_stale :: "(int \<times> int \<times> int \<times> int) list"
  o_differs :: "(int \<times> int \<times> int) list"

definition obs_0 :: obs where
  "obs_0 = \<lparr>o_req = [], o_reply = [], o_count = [], o_try = [], o_index = [], o_votes = [],
     o_stale = [], o_differs = []\<rparr>"

text \<open>The verdict that a line states on the request a peer is working on.\<close>

fun verdict :: "election_report \<Rightarrow> bool option" where
  "verdict (VoteGranted u li lt i len) = Some True"
| "verdict RefuseVote = Some False"
| "verdict LogOutdated = Some False"
| "verdict TermLarger = Some False"
| "verdict r = None"

definition note_verdict :: "obs \<Rightarrow> int \<Rightarrow> int \<Rightarrow> bool \<Rightarrow> obs" where
  "note_verdict ob n t granted =
     (case map_of (o_req ob) n of
        None \<Rightarrow> ob
      | Some q \<Rightarrow>
          ob\<lparr>o_req := AList.delete n (o_req ob),
             o_votes := (if granted then (n, t, q_from q) # o_votes ob else o_votes ob),
             o_differs := (if gives_way n q then (n, t, q_from q) # o_differs ob else o_differs ob)\<rparr>)"

text \<open>The knowledge after a line, whatever it says.\<close>

definition note_req :: "obs \<Rightarrow> int \<Rightarrow> (vote_req \<Rightarrow> vote_req) \<Rightarrow> obs" where
  "note_req ob n f =
     (case map_of (o_req ob) n of
        None \<Rightarrow> ob | Some q \<Rightarrow> ob\<lparr>o_req := AList.update n (f q) (o_req ob)\<rparr>)"

definition note_try :: "obs \<Rightarrow> int \<Rightarrow> (commit_try \<Rightarrow> commit_try) \<Rightarrow> obs" where
  "note_try ob n f =
     (case map_of (o_try ob) n of
        None \<Rightarrow> ob | Some c \<Rightarrow> ob\<lparr>o_try := AList.update n (f c) (o_try ob)\<rparr>)"

fun note_election :: "obs \<Rightarrow> int \<Rightarrow> int \<Rightarrow> raftStatus \<Rightarrow> election_report \<Rightarrow> obs" where
  "note_election ob n t s (VoteRequested v c u) =
     ob\<lparr>o_req := AList.update n \<lparr>q_term = t, q_status = s, q_voted = v, q_from = c,
       q_argTerm = u, q_lastTerm = 0, q_lastIndex = 0, q_argLastTerm = None, q_argLastIndex = 0\<rparr>
       (o_req ob)\<rparr>"
| "note_election ob n t s (VoteArgs u li lt i len) =
     note_req ob n (\<lambda>q. q\<lparr>q_lastTerm := lt, q_lastIndex := i, q_argLastIndex := li\<rparr>)"
| "note_election ob n t s (LogTerms lt alt i ali) = note_req ob n (\<lambda>q. q\<lparr>q_argLastTerm := Some alt\<rparr>)"
| "note_election ob n t s (VoteReply v u granted) =
     ob\<lparr>o_reply := AList.update n (v, u, granted) (o_reply ob)\<rparr>"
| "note_election ob n t s (VoteGained v) =
     (case map_of (o_reply ob) n of
        None \<Rightarrow> ob
      | Some (w, u, granted) \<Rightarrow>
          if u = t then ob else ob\<lparr>o_stale := (n, t, v, u) # o_stale ob\<rparr>)"
| "note_election ob n t s (CheckElection k m) =
     ob\<lparr>o_count := AList.update n (t, k, m) (o_count ob)\<rparr>"
| "note_election ob n t s r =
     (case verdict r of None \<Rightarrow> ob | Some granted \<Rightarrow> note_verdict ob n t granted)"

fun note_commit :: "obs \<Rightarrow> int \<Rightarrow> commit_report \<Rightarrow> obs" where
  "note_commit ob n (TryCommit i len) =
     ob\<lparr>o_try := AList.update n \<lparr>c_commit = i, c_length = len, c_match = [], c_logs = []\<rparr> (o_try ob)\<rparr>"
| "note_commit ob n (MatchIndex ms) = note_try ob n (\<lambda>c. c\<lparr>c_match := ms\<rparr>)"
| "note_commit ob n (Logs es) = note_try ob n (\<lambda>c. c\<lparr>c_logs := es\<rparr>)"
| "note_commit ob n (FinishCommit i) = ob\<lparr>o_try := AList.delete n (o_try ob)\<rparr>"
| "note_commit ob n (Apply x i u) = ob\<lparr>o_index := AList.update n i (o_index ob)\<rparr>"
| "note_commit ob n r = ob"

fun note_line :: "obs \<Rightarrow> line \<Rightarrow> obs" where
  "note_line ob (Ev n t s (E e)) = note_election ob n t s e"
| "note_line ob (Ev n t s (C c)) = note_commit ob n c"
| "note_line ob l = ob"

text \<open>
  Whether a line fits what is known. A verdict must be the one of the code under src/, with
  the term and status afterwards, except where that code gives way: there the line must
  refuse, in the same term and as a candidate. A vote that is counted was granted, and not in
  a later term. A leader printed a majority before. The index after a search for commits is
  the one that the code finds, and entries are applied one by one.
\<close>

definition verdict_fits :: "obs \<Rightarrow> int \<Rightarrow> int \<Rightarrow> raftStatus \<Rightarrow> bool \<Rightarrow> bool" where
  "verdict_fits ob n t s granted \<longleftrightarrow>
     (case map_of (o_req ob) n of
        None \<Rightarrow> False
      | Some q \<Rightarrow> if gives_way n q then \<not> granted \<and> t = q_term q \<and> s = Candidate
                 else vote_answer n q = Some (granted, t, s))"

fun election_fits :: "obs \<Rightarrow> int \<Rightarrow> int \<Rightarrow> raftStatus \<Rightarrow> election_report \<Rightarrow> bool" where
  "election_fits ob n t s (VoteArgs u li lt i len) \<longleftrightarrow>
     (case map_of (o_req ob) n of None \<Rightarrow> False | Some q \<Rightarrow> u = q_argTerm q \<and> len = i + 1)"
| "election_fits ob n t s (LogTerms lt alt i ali) \<longleftrightarrow>
     (case map_of (o_req ob) n of
        None \<Rightarrow> False
      | Some q \<Rightarrow> lt = q_lastTerm q \<and> i = q_lastIndex q \<and> ali = q_argLastIndex q)"
| "election_fits ob n t s (VoteGained v) \<longleftrightarrow>
     (case map_of (o_reply ob) n of
        None \<Rightarrow> False
      | Some (w, u, granted) \<Rightarrow> w = v \<and> granted \<and> u \<le> t \<and> List.member (o_votes ob) (v, u, n))"
| "election_fits ob n t s BecomesLeader \<longleftrightarrow>
     (case map_of (o_count ob) n of
        None \<Rightarrow> False
      | Some (u, k, m) \<Rightarrow> t = u + 1 \<and> m < 2 * k)"
| "election_fits ob n t s r \<longleftrightarrow>
     (case verdict r of None \<Rightarrow> True | Some granted \<Rightarrow> verdict_fits ob n t s granted)"

fun commit_fits :: "obs \<Rightarrow> int \<Rightarrow> int \<Rightarrow> commit_report \<Rightarrow> bool" where
  "commit_fits ob n t (MatchIndex ms) \<longleftrightarrow> map_of (o_try ob) n \<noteq> None"
| "commit_fits ob n t (Logs es) \<longleftrightarrow>
     (case map_of (o_try ob) n of None \<Rightarrow> False | Some c \<Rightarrow> int (length es) = c_length c)"
| "commit_fits ob n t (FinishCommit i) \<longleftrightarrow>
     (case map_of (o_try ob) n of None \<Rightarrow> False | Some c \<Rightarrow> commit_answer n t c = Some i)"
| "commit_fits ob n t (Apply x i u) \<longleftrightarrow>
     i = (case map_of (o_index ob) n of None \<Rightarrow> 0 | Some j \<Rightarrow> j + 1)"
| "commit_fits ob n t r \<longleftrightarrow> True"

fun line_fits :: "obs \<Rightarrow> line \<Rightarrow> bool" where
  "line_fits ob (Ev n t s (E e)) = election_fits ob n t s e"
| "line_fits ob (Ev n t s (C c)) = commit_fits ob n t c"
| "line_fits ob l = True"

definition replay :: "obs \<Rightarrow> line \<Rightarrow> obs option" where
  "replay ob l = (if line_fits ob l then Some (note_line ob l) else None)"

text \<open>The lines of a run, each with what is known when it is printed.\<close>

fun scan :: "obs \<Rightarrow> line list \<Rightarrow> (obs \<times> line) list" where
  "scan ob [] = []"
| "scan ob (l # ls) = (ob, l) # scan (note_line ob l) ls"

lemma scan_append: "scan ob (xs @ ys) = scan ob xs @ scan (foldl note_line ob xs) ys"
  by (induction xs arbitrary: ob) auto

section \<open>What it means that a run was read to the end\<close>

text \<open>A run that was replayed to the end: every line fits what was known before it.\<close>

lemma replayed_fits:
  assumes "read_run replay ob ls = Some ob'" "(ob1, l) \<in> set (scan ob ls)"
  shows "line_fits ob1 l"
  using assms by (induction ls arbitrary: ob) (auto simp: replay_def split: if_splits option.splits)

lemma note_stale_grows: "set (o_stale ob) \<subseteq> set (o_stale (note_line ob l))"
proof (cases l)
  case (Ev n t s r)
  then show ?thesis
  proof (cases r)
    case (E e)
    with Ev show ?thesis
      by (cases e) (auto simp: note_verdict_def note_req_def split: option.splits)
  next
    case (C c)
    with Ev show ?thesis by (cases c) (auto simp: note_try_def split: option.splits)
  qed simp
qed simp_all

text \<open>A vote that was counted in a later term is on the list of such votes at the end.\<close>

lemma replayed_stale:
  assumes "read_run replay ob ls = Some ob'"
  shows "set (o_stale ob) \<subseteq> set (o_stale ob') \<and>
    ((ob1, Ev n t s (E (VoteGained v))) \<in> set (scan ob ls) \<and>
     map_of (o_reply ob1) n = Some (v, u, g) \<and> u \<noteq> t \<longrightarrow> (n, t, v, u) \<in> set (o_stale ob'))"
  using assms
proof (induction ls arbitrary: ob)
  case (Cons l ls)
  then have "read_run replay (note_line ob l) ls = Some ob'"
    by (auto simp: replay_def [of ob] split: if_splits)
  note ih = Cons.IH [OF this] and grows = note_stale_grows [of ob l]
  from ih grows have "set (o_stale ob) \<subseteq> set (o_stale ob')" by blast
  moreover have "(n, t, v, u) \<in> set (o_stale ob')"
    if "(ob1, Ev n t s (E (VoteGained v))) = (ob, l)" "map_of (o_reply ob1) n = Some (v, u, g)" "u \<noteq> t"
  proof -
    from that have "(n, t, v, u) \<in> set (o_stale (note_line ob l))" by auto
    with ih show ?thesis by blast
  qed
  ultimately show ?case using ih by auto
qed simp

text \<open>And every vote on that list is one that a line of the run counted.\<close>

lemma note_stale_new:
  assumes "(n, t, v, u) \<in> set (o_stale (note_line ob l))" "(n, t, v, u) \<notin> set (o_stale ob)" "line_fits ob l"
  shows "\<exists>s. l = Ev n t s (E (VoteGained v)) \<and> map_of (o_reply ob) n = Some (v, u, True)"
proof (cases l)
  case (Ev m t' s r)
  then show ?thesis
  proof (cases r)
    case (E e)
    with Ev assms show ?thesis
      by (cases e) (auto simp: note_verdict_def note_req_def split: option.splits if_splits)
  next
    case (C c)
    with Ev assms show ?thesis by (cases c) (auto simp: note_try_def split: option.splits)
  qed (use Ev assms in simp)
qed (use assms in simp_all)

lemma replayed_stale_line:
  assumes "read_run replay ob ls = Some ob'" "(n, t, v, u) \<in> set (o_stale ob')"
    "(n, t, v, u) \<notin> set (o_stale ob)"
  shows "\<exists>ob1 s. (ob1, Ev n t s (E (VoteGained v))) \<in> set (scan ob ls) \<and>
    map_of (o_reply ob1) n = Some (v, u, True)"
  using assms
proof (induction ls arbitrary: ob)
  case (Cons l ls)
  then have 1: "line_fits ob l" "read_run replay (note_line ob l) ls = Some ob'"
    by (auto simp: replay_def [of ob] split: if_splits)
  show ?case
  proof (cases "(n, t, v, u) \<in> set (o_stale (note_line ob l))")
    case True
    with note_stale_new [OF _ Cons.prems(3) 1(1)] show ?thesis by auto
  next
    case False
    with Cons.IH [OF 1(2) Cons.prems(2)] show ?thesis by auto
  qed
qed simp

end
