(* ===== verification/Trace_States.thy ===== *)
theory Trace_States
  imports Trace_Event
begin

text \<open>
  What the reader of the recorded run knows at the end of each of its seven parts. That
  it gets there is shown part by part in \<open>Trace_1\<close> to \<open>Trace_7\<close>, so that the parts can be
  checked independently of each other.
\<close>

definition obs_1 :: obs where
  "obs_1 =
     \<lparr>o_req = [], o_reply = [(4, 1, 1, True), (0, 2, 8, True), (3, 0, 5, True), (1, 2, 10,
     True), (2, 3, 11, False)], o_count = [(4, 1, 3, 5), (0, 8, 3, 5), (3, 5, 3, 5), (1, 10, 2, 5),
     (2, 11, 2, 5)], o_try = [], o_index = [(4, 2), (1, 1), (2, 1), (3, 1), (0, 1)], o_votes = [(1,
     11, 2), (2, 10, 1), (2, 8, 0), (1, 8, 0), (1, 7, 0), (0, 5, 3), (1, 5, 3), (2, 5, 3), (2, 1,
     4), (0, 1, 4), (1, 1, 4), (3, 1, 4)], o_stale = [], o_differs = [(0, 4, 1), (0, 3, 3)]\<rparr>"

definition obs_2 :: obs where
  "obs_2 =
     \<lparr>o_req = [(3, \<lparr>q_term = 20, q_status = Candidate, q_voted = 3, q_from = 1,
     q_argTerm = 20, q_lastTerm = 14, q_lastIndex = 123, q_argLastTerm = None, q_argLastIndex =
     122\<rparr>)], o_reply = [(4, 1, 15, True), (0, 2, 8, True), (3, 2, 20, False), (1, 3, 19,
     False), (2, 1, 18, False)], o_count = [(4, 15, 3, 5), (0, 8, 3, 5), (3, 20, 1, 5), (1, 19, 1,
     5), (2, 19, 0, 5)], o_try = [], o_index = [(4, 122), (1, 2), (2, 2), (3, 1), (0, 1)], o_votes =
     [(3, 17, 1), (2, 17, 1), (1, 15, 4), (2, 15, 4), (1, 13, 3), (2, 13, 3), (2, 12, 3), (1, 12,
     3), (1, 11, 2), (2, 10, 1), (2, 8, 0), (1, 8, 0), (1, 7, 0), (0, 5, 3), (1, 5, 3), (2, 5, 3),
     (2, 1, 4), (0, 1, 4), (1, 1, 4), (3, 1, 4)], o_stale = [], o_differs = [(3, 19, 1), (3, 18, 2),
     (0, 4, 1), (0, 3, 3)]\<rparr>"

definition obs_3 :: obs where
  "obs_3 =
     \<lparr>o_req = [], o_reply = [(4, 1, 15, True), (0, 1, 30, False), (3, 1, 30, False), (1, 0,
     29, True), (2, 3, 27, True)], o_count = [(4, 15, 3, 5), (0, 30, 1, 5), (3, 30, 1, 5), (1, 29,
     2, 5), (2, 27, 3, 5)], o_try = [], o_index = [(4, 122), (1, 2), (2, 2), (3, 1), (0, 1)],
     o_votes = [(3, 29, 1), (0, 29, 1), (1, 27, 2), (3, 27, 2), (3, 21, 1), (3, 17, 1), (2, 17, 1),
     (1, 15, 4), (2, 15, 4), (1, 13, 3), (2, 13, 3), (2, 12, 3), (1, 12, 3), (1, 11, 2), (2, 10, 1),
     (2, 8, 0), (1, 8, 0), (1, 7, 0), (0, 5, 3), (1, 5, 3), (2, 5, 3), (2, 1, 4), (0, 1, 4), (1, 1,
     4), (3, 1, 4)], o_stale = [], o_differs = [(0, 30, 3), (1, 23, 2), (3, 23, 2), (2, 23, 1), (2,
     21, 1), (1, 21, 2), (3, 20, 1), (3, 19, 1), (3, 18, 2), (0, 4, 1), (0, 3, 3)]\<rparr>"

definition obs_4 :: obs where
  "obs_4 =
     \<lparr>o_req = [], o_reply = [(4, 1, 15, True), (0, 1, 36, False), (3, 1, 36, False), (1, 3,
     38, True), (2, 3, 27, True)], o_count = [(4, 15, 3, 5), (0, 37, 0, 5), (3, 38, 0, 5), (1, 38,
     3, 5), (2, 27, 3, 5)], o_try = [], o_index = [(4, 122), (1, 2), (2, 2), (3, 1), (0, 1)],
     o_votes = [(3, 38, 1), (0, 38, 1), (0, 37, 3), (0, 32, 1), (3, 32, 1), (3, 29, 1), (0, 29, 1),
     (1, 27, 2), (3, 27, 2), (3, 21, 1), (3, 17, 1), (2, 17, 1), (1, 15, 4), (2, 15, 4), (1, 13, 3),
     (2, 13, 3), (2, 12, 3), (1, 12, 3), (1, 11, 2), (2, 10, 1), (2, 8, 0), (1, 8, 0), (1, 7, 0),
     (0, 5, 3), (1, 5, 3), (2, 5, 3), (2, 1, 4), (0, 1, 4), (1, 1, 4), (3, 1, 4)], o_stale = [(1,
     33, 0, 32)], o_differs = [(0, 36, 3), (0, 34, 3), (3, 31, 1), (0, 31, 1), (0, 31, 3), (0, 30,
     3), (1, 23, 2), (3, 23, 2), (2, 23, 1), (2, 21, 1), (1, 21, 2), (3, 20, 1), (3, 19, 1), (3, 18,
     2), (0, 4, 1), (0, 3, 3)]\<rparr>"

definition obs_5 :: obs where
  "obs_5 =
     \<lparr>o_req = [], o_reply = [(4, 3, 44, False), (0, 3, 40, False), (3, 4, 43, False), (1, 3,
     38, True), (2, 3, 27, True)], o_count = [(4, 44, 1, 5), (0, 41, 0, 5), (3, 44, 2, 5), (1, 38,
     3, 5), (2, 27, 3, 5)], o_try = [], o_index = [(4, 122), (1, 2), (2, 2), (3, 1), (0, 1)],
     o_votes = [(0, 44, 3), (0, 43, 3), (3, 42, 4), (0, 42, 4), (0, 41, 4), (3, 41, 4), (3, 38, 1),
     (0, 38, 1), (0, 37, 3), (0, 32, 1), (3, 32, 1), (3, 29, 1), (0, 29, 1), (1, 27, 2), (3, 27, 2),
     (3, 21, 1), (3, 17, 1), (2, 17, 1), (1, 15, 4), (2, 15, 4), (1, 13, 3), (2, 13, 3), (2, 12, 3),
     (1, 12, 3), (1, 11, 2), (2, 10, 1), (2, 8, 0), (1, 8, 0), (1, 7, 0), (0, 5, 3), (1, 5, 3), (2,
     5, 3), (2, 1, 4), (0, 1, 4), (1, 1, 4), (3, 1, 4)], o_stale = [(4, 43, 3, 42), (1, 33, 0, 32)],
     o_differs = [(0, 45, 3), (3, 44, 4), (0, 36, 3), (0, 34, 3), (3, 31, 1), (0, 31, 1), (0, 31,
     3), (0, 30, 3), (1, 23, 2), (3, 23, 2), (2, 23, 1), (2, 21, 1), (1, 21, 2), (3, 20, 1), (3, 19,
     1), (3, 18, 2), (0, 4, 1), (0, 3, 3)]\<rparr>"

definition obs_6 :: obs where
  "obs_6 =
     \<lparr>o_req = [], o_reply = [(4, 3, 51, False), (0, 3, 51, False), (3, 0, 52, True), (1, 3,
     38, True), (2, 3, 27, True)], o_count = [(4, 51, 1, 5), (0, 51, 1, 5), (3, 52, 2, 5), (1, 38,
     3, 5), (2, 27, 3, 5)], o_try = [], o_index = [(4, 122), (1, 2), (2, 2), (3, 1), (0, 1)],
     o_votes = [(0, 52, 3), (0, 46, 3), (0, 44, 3), (0, 43, 3), (3, 42, 4), (0, 42, 4), (0, 41, 4),
     (3, 41, 4), (3, 38, 1), (0, 38, 1), (0, 37, 3), (0, 32, 1), (3, 32, 1), (3, 29, 1), (0, 29, 1),
     (1, 27, 2), (3, 27, 2), (3, 21, 1), (3, 17, 1), (2, 17, 1), (1, 15, 4), (2, 15, 4), (1, 13, 3),
     (2, 13, 3), (2, 12, 3), (1, 12, 3), (1, 11, 2), (2, 10, 1), (2, 8, 0), (1, 8, 0), (1, 7, 0),
     (0, 5, 3), (1, 5, 3), (2, 5, 3), (2, 1, 4), (0, 1, 4), (1, 1, 4), (3, 1, 4)], o_stale = [(4,
     43, 3, 42), (1, 33, 0, 32)], o_differs = [(0, 50, 4), (0, 49, 4), (0, 48, 3), (0, 47, 4), (0,
     45, 3), (3, 44, 4), (0, 36, 3), (0, 34, 3), (3, 31, 1), (0, 31, 1), (0, 31, 3), (0, 30, 3), (1,
     23, 2), (3, 23, 2), (2, 23, 1), (2, 21, 1), (1, 21, 2), (3, 20, 1), (3, 19, 1), (3, 18, 2), (0,
     4, 1), (0, 3, 3)]\<rparr>"

definition obs_7 :: obs where
  "obs_7 =
     \<lparr>o_req = [], o_reply = [(4, 3, 55, True), (0, 4, 53, False), (3, 1, 58, False), (1, 3,
     57, False), (2, 3, 27, True)], o_count = [(4, 55, 3, 5), (0, 56, 0, 5), (3, 59, 0, 5), (1, 59,
     0, 5), (2, 27, 3, 5)], o_try = [], o_index = [(4, 122), (1, 2), (2, 2), (3, 3), (0, 1)],
     o_votes = [(1, 60, 0), (4, 60, 0), (0, 58, 3), (0, 57, 3), (0, 55, 4), (3, 55, 4), (0, 54, 3),
     (0, 52, 3), (0, 46, 3), (0, 44, 3), (0, 43, 3), (3, 42, 4), (0, 42, 4), (0, 41, 4), (3, 41, 4),
     (3, 38, 1), (0, 38, 1), (0, 37, 3), (0, 32, 1), (3, 32, 1), (3, 29, 1), (0, 29, 1), (1, 27, 2),
     (3, 27, 2), (3, 21, 1), (3, 17, 1), (2, 17, 1), (1, 15, 4), (2, 15, 4), (1, 13, 3), (2, 13, 3),
     (2, 12, 3), (1, 12, 3), (1, 11, 2), (2, 10, 1), (2, 8, 0), (1, 8, 0), (1, 7, 0), (0, 5, 3), (1,
     5, 3), (2, 5, 3), (2, 1, 4), (0, 1, 4), (1, 1, 4), (3, 1, 4)], o_stale = [(3, 58, 0, 54), (4,
     43, 3, 42), (1, 33, 0, 32)], o_differs = [(3, 57, 1), (3, 54, 4), (0, 50, 4), (0, 49, 4), (0,
     48, 3), (0, 47, 4), (0, 45, 3), (3, 44, 4), (0, 36, 3), (0, 34, 3), (3, 31, 1), (0, 31, 1), (0,
     31, 3), (0, 30, 3), (1, 23, 2), (3, 23, 2), (2, 23, 1), (2, 21, 1), (1, 21, 2), (3, 20, 1), (3,
     19, 1), (3, 18, 2), (0, 4, 1), (0, 3, 3)]\<rparr>"

end
