(* ===== verification/Trace_1.thy ===== *)
theory Trace_1
  imports Trace_States
begin

text \<open>
  The recorded run, lines 1 to 1650 of raft/2timesvote.ts, one element per line in the
  order of the file, and the proof that this part conforms.
\<close>

definition run_01 :: "line list" where
  "run_01 = [
     Console,
     Console,
     Console,
     Console,
     Console,
     Ev 0 0 Follower (E (Initialized 0)),
     Ev 1 0 Follower (E (Initialized 1)),
     Ev 2 0 Follower (E (Initialized 2)),
     Ev 3 0 Follower (E (Initialized 3)),
     Ev 4 0 Follower (E (Initialized 4)),
     Console,
     Ev 4 0 Follower (E StartElection),
     Ev 4 1 Candidate (E BecomeCandidate),
     Ev 4 1 Candidate (E (RequestVoteTo 0)),
     Ev 4 1 Candidate (E (RequestVoteTo 1)),
     Ev 4 1 Candidate (E (RequestVoteTo 2)),
     Ev 4 1 Candidate (E (RequestVoteTo 3)),
     Ev 3 0 Follower (E (VoteRequested (-1) 4 1)),
     Ev 3 0 Follower (E (VoteArgs 1 0 (-1) 0 1)),
     Ev 3 0 Follower (E (Indices (-1) (-1))),
     Ev 3 0 Follower (E (TermLower 4)),
     Ev 3 1 Follower (E (LogTerms (-1) (-1) 0 0)),
     Ev 3 1 Follower (E (VoteGranted 1 0 (-1) 0 1)),
     Ev 3 1 Follower (E (Indices (-1) (-1))),
     Ev 4 1 Candidate (E (VoteReply 3 1 True)),
     Ev 4 1 Candidate (E (Indices (-1) (-1))),
     Ev 4 1 Candidate (E (VoteGained 3)),
     Ev 4 1 Candidate (E (CheckElection 2 5)),
     Ev 1 0 Follower (E (VoteRequested (-1) 4 1)),
     Ev 1 0 Follower (E (VoteArgs 1 0 (-1) 0 1)),
     Ev 1 0 Follower (E (Indices (-1) (-1))),
     Ev 1 0 Follower (E (TermLower 4)),
     Ev 1 1 Follower (E (LogTerms (-1) (-1) 0 0)),
     Ev 0 0 Follower (E (VoteRequested (-1) 4 1)),
     Ev 1 1 Follower (E (VoteGranted 1 0 (-1) 0 1)),
     Ev 1 1 Follower (E (Indices (-1) (-1))),
     Ev 2 0 Follower (E (VoteRequested (-1) 4 1)),
     Ev 0 0 Follower (E (VoteArgs 1 0 (-1) 0 1)),
     Ev 0 0 Follower (E (Indices (-1) (-1))),
     Ev 2 0 Follower (E (VoteArgs 1 0 (-1) 0 1)),
     Ev 0 0 Follower (E (TermLower 4)),
     Ev 2 0 Follower (E (Indices (-1) (-1))),
     Ev 2 0 Follower (E (TermLower 4)),
     Ev 0 1 Follower (E (LogTerms (-1) (-1) 0 0)),
     Ev 2 1 Follower (E (LogTerms (-1) (-1) 0 0)),
     Ev 0 1 Follower (E (VoteGranted 1 0 (-1) 0 1)),
     Ev 0 1 Follower (E (Indices (-1) (-1))),
     Ev 2 1 Follower (E (VoteGranted 1 0 (-1) 0 1)),
     Ev 4 1 Candidate (E (VoteReply 1 1 True)),
     Ev 4 1 Candidate (E (Indices (-1) (-1))),
     Ev 2 1 Follower (E (Indices (-1) (-1))),
     Ev 4 1 Candidate (E (VoteGained 1)),
     Ev 4 1 Candidate (E (CheckElection 3 5)),
     Ev 4 2 Leader (E BecomesLeader),
     Ev 4 2 Leader (A HeartBeat),
     Ev 4 2 Leader (A (AppendTo 0)),
     Ev 4 2 Leader (A (AppendTo 1)),
     Ev 4 2 Leader (A (AppendTo 2)),
     Ev 4 2 Leader (A (AppendTo 3)),
     Ev 4 2 Leader (E (VoteNotOk 0)),
     Ev 4 2 Leader (E (VoteNotOk 2)),
     Ev 4 2 Leader (A (AppendSent 1 [1, 1, 1, 1, 1])),
     Ev 4 2 Leader (A (AppendSent 3 [1, 1, 1, 1, 1])),
     Ev 4 2 Leader (A (AppendSent 0 [1, 1, 1, 1, 1])),
     Ev 4 2 Leader (A (AppendSent 2 [1, 1, 1, 1, 1])),
     Ev 1 1 Follower (A (AppendFrom 4 2)),
     Ev 3 1 Follower (A (AppendFrom 4 2)),
     Ev 0 1 Follower (A (AppendFrom 4 2)),
     Ev 3 2 Follower (A (Appended (-1) 0)),
     Ev 1 2 Follower (A (Appended (-1) 0)),
     Ev 0 2 Follower (A (Appended (-1) 0)),
     Ev 4 2 Leader (A (AppendSuccess 1)),
     Ev 4 2 Leader (C (TryCommit (-1) 1)),
     Ev 4 2 Leader (C (MatchIndex [-1, 0, -1, -1, -1])),
     Ev 4 2 Leader (C (Logs [(-1, -1)])),
     Ev 4 2 Leader (C (FinishCommit (-1))),
     Ev 4 2 Leader (C (TryApply (-1) (-1))),
     Ev 4 2 Leader (A (AppendSuccess 3)),
     Ev 4 2 Leader (C (TryCommit (-1) 1)),
     Ev 4 2 Leader (C (MatchIndex [-1, 0, -1, 0, -1])),
     Ev 4 2 Leader (C (Logs [(-1, -1)])),
     Ev 4 2 Leader (C (FinishCommit (-1))),
     Ev 4 2 Leader (C (TryApply (-1) (-1))),
     Ev 4 2 Leader (A (AppendSuccess 0)),
     Ev 4 2 Leader (C (TryCommit (-1) 1)),
     Ev 4 2 Leader (C (MatchIndex [0, 0, -1, 0, -1])),
     Ev 4 2 Leader (C (Logs [(-1, -1)])),
     Ev 4 2 Leader (C (FinishCommit (-1))),
     Ev 4 2 Leader (C (TryApply (-1) (-1))),
     Ev 2 1 Follower (A (AppendFrom 4 2)),
     Ev 2 2 Follower (A (Appended (-1) 0)),
     Ev 4 2 Leader (A (AppendSuccess 2)),
     Ev 4 2 Leader (C (TryCommit (-1) 1)),
     Ev 4 2 Leader (C (MatchIndex [0, 0, 0, 0, -1])),
     Ev 4 2 Leader (C (Logs [(-1, -1)])),
     Ev 4 2 Leader (C (FinishCommit (-1))),
     Ev 4 2 Leader (C (TryApply (-1) (-1))),
     TestLeader 3,
     TestCommitted 1 0 1,
     TestCommitted 1 0 1,
     Ev 4 2 Leader (A HeartBeat),
     Ev 4 2 Leader (A (AppendTo 0)),
     Ev 4 2 Leader (A (AppendTo 1)),
     Ev 4 2 Leader (A (AppendTo 2)),
     Ev 4 2 Leader (A (AppendTo 3)),
     Ev 4 2 Leader (A (AppendSent 0 [1, 1, 1, 1, 1])),
     Ev 4 2 Leader (A (AppendSent 3 [1, 1, 1, 1, 1])),
     Ev 4 2 Leader (A (AppendSent 2 [1, 1, 1, 1, 1])),
     Ev 4 2 Leader (A (AppendSent 1 [1, 1, 1, 1, 1])),
     Ev 3 2 Follower (A (AppendFrom 4 2)),
     Ev 2 2 Follower (A (AppendFrom 4 2)),
     Ev 3 2 Follower (A (Appended 2 1)),
     Ev 2 2 Follower (A (Appended 2 1)),
     Ev 4 2 Leader (A (AppendSuccess 3)),
     Ev 4 2 Leader (C (TryCommit (-1) 2)),
     Ev 4 2 Leader (C (MatchIndex [0, 0, 0, 1, -1])),
     Ev 4 2 Leader (C (Logs [(-1, -1), (2, 4416)])),
     Ev 4 2 Leader (C (FinishCommit (-1))),
     Ev 4 2 Leader (C (TryApply (-1) (-1))),
     Ev 4 2 Leader (A (AppendNotOk 2)),
     TestCommitted 1 0 1,
     Ev 0 2 Follower (A (AppendFrom 4 2)),
     Ev 1 2 Follower (A (AppendFrom 4 2)),
     Ev 0 2 Follower (A (Appended 2 1)),
     Ev 1 2 Follower (A (Appended 2 1)),
     Ev 4 2 Leader (A (AppendSuccess 1)),
     Ev 4 2 Leader (C (TryCommit (-1) 2)),
     Ev 4 2 Leader (C (MatchIndex [0, 1, 0, 1, -1])),
     Ev 4 2 Leader (C (Logs [(-1, -1), (2, 4416)])),
     Ev 4 2 Leader (C (NewCommit (-1) 1 3 2 2 2)),
     Ev 4 2 Leader (C (FinishCommit 1)),
     Ev 4 2 Leader (C (TryApply (-1) 1)),
     Ev 4 2 Leader (C (Apply (-1) 0 (-1))),
     Ev 4 2 Leader (C (Apply 4416 1 2)),
     Ev 4 2 Leader (A (AppendSuccess 0)),
     Ev 4 2 Leader (C (TryCommit 1 2)),
     Ev 4 2 Leader (C (MatchIndex [1, 1, 0, 1, -1])),
     Ev 4 2 Leader (C (Logs [(-1, -1), (2, 4416)])),
     Ev 4 2 Leader (C (NewCommit 1 1 4 2 2 2)),
     Ev 4 2 Leader (C (FinishCommit 1)),
     Ev 4 2 Leader (C (TryApply 1 1)),
     TestCommitted 1 1 1,
     Ev 4 2 Leader (A HeartBeat),
     Ev 4 2 Leader (A (AppendTo 0)),
     Ev 4 2 Leader (A (AppendTo 1)),
     Ev 4 2 Leader (A (AppendTo 2)),
     Ev 4 2 Leader (A (AppendTo 3)),
     Ev 4 2 Leader (A (AppendSent 0 [2, 2, 1, 2, 1])),
     Ev 4 2 Leader (A (AppendSent 3 [2, 2, 1, 2, 1])),
     Ev 4 2 Leader (A (AppendSent 2 [2, 2, 1, 2, 1]))]"

definition run_02 :: "line list" where
  "run_02 = [
     Ev 4 2 Leader (A (AppendSent 1 [2, 2, 1, 2, 1])),
     Ev 4 2 Leader (A (AppendNotOk 0)),
     Ev 1 2 Follower (A (AppendFrom 4 2)),
     Ev 1 2 Follower (C (TryApply (-1) 1)),
     Ev 1 2 Follower (C (Apply (-1) 0 (-1))),
     Ev 1 2 Follower (C (Apply 4416 1 2)),
     Ev 1 2 Follower (A (Appended 2 2)),
     Ev 4 2 Leader (A (AppendNotOk 1)),
     Ev 2 2 Follower (A (AppendFrom 4 2)),
     Ev 3 2 Follower (A (AppendFrom 4 2)),
     Ev 2 2 Follower (C (TryApply (-1) 1)),
     Ev 2 2 Follower (C (Apply (-1) 0 (-1))),
     Ev 2 2 Follower (C (Apply 4416 1 2)),
     Ev 3 2 Follower (C (TryApply (-1) 1)),
     Ev 2 2 Follower (A (Appended 2 2)),
     Ev 3 2 Follower (C (Apply (-1) 0 (-1))),
     Ev 3 2 Follower (C (Apply 4416 1 2)),
     Ev 3 2 Follower (A (Appended 2 2)),
     Ev 4 2 Leader (A (AppendSuccess 2)),
     Ev 4 2 Leader (C (TryCommit 1 4)),
     Ev 4 2 Leader (C (MatchIndex [1, 1, 2, 1, -1])),
     Ev 4 2 Leader (C (Logs [(-1, -1), (2, 4416), (2, 1773), (2, 1309)])),
     Ev 4 2 Leader (C (NewCommit 1 1 5 2 2 2)),
     Ev 4 2 Leader (C (FinishCommit 1)),
     Ev 4 2 Leader (C (TryApply 1 1)),
     Ev 4 2 Leader (A (AppendSuccess 3)),
     Ev 4 2 Leader (C (TryCommit 1 4)),
     Ev 4 2 Leader (C (MatchIndex [1, 1, 2, 2, -1])),
     Ev 4 2 Leader (C (Logs [(-1, -1), (2, 4416), (2, 1773), (2, 1309)])),
     Ev 4 2 Leader (C (NewCommit 1 1 5 2 2 2)),
     Ev 4 2 Leader (C (NewCommit 1 2 3 2 2 2)),
     Ev 4 2 Leader (C (FinishCommit 2)),
     Ev 4 2 Leader (C (TryApply 1 2)),
     Ev 4 2 Leader (C (Apply 1773 2 2)),
     Ev 4 2 Leader (A HeartBeat),
     Ev 4 2 Leader (A (AppendTo 0)),
     Ev 4 2 Leader (A (AppendTo 1)),
     Ev 4 2 Leader (A (AppendTo 2)),
     Ev 4 2 Leader (A (AppendTo 3)),
     Ev 4 2 Leader (A (AppendSent 3 [2, 2, 3, 3, 1])),
     Ev 4 2 Leader (A (AppendSent 0 [2, 2, 3, 3, 1])),
     Ev 4 2 Leader (A (AppendSent 2 [2, 2, 3, 3, 1])),
     Ev 4 2 Leader (A (AppendSent 1 [2, 2, 3, 3, 1])),
     Ev 4 2 Leader (A (AppendNotOk 3)),
     Ev 4 2 Leader (A (AppendNotOk 0)),
     Ev 4 2 Leader (A (AppendNotOk 2)),
     Ev 4 2 Leader (A (AppendNotOk 1)),
     Ev 4 2 Leader (A HeartBeat),
     Ev 4 2 Leader (A (AppendTo 0)),
     Ev 4 2 Leader (A (AppendTo 1)),
     Ev 4 2 Leader (A (AppendTo 2)),
     Ev 4 2 Leader (A (AppendTo 3)),
     Ev 4 2 Leader (A (AppendSent 3 [2, 2, 3, 3, 1])),
     Ev 4 2 Leader (A (AppendSent 1 [2, 2, 3, 3, 1])),
     Ev 4 2 Leader (A (AppendSent 2 [2, 2, 3, 3, 1])),
     Ev 4 2 Leader (A (AppendSent 0 [2, 2, 3, 3, 1])),
     Ev 4 2 Leader (A (AppendNotOk 2)),
     Ev 4 2 Leader (A (AppendNotOk 0)),
     Ev 4 2 Leader (A (AppendNotOk 3)),
     Ev 4 2 Leader (A HeartBeat),
     Ev 4 2 Leader (A (AppendTo 0)),
     Ev 4 2 Leader (A (AppendTo 1)),
     Ev 4 2 Leader (A (AppendTo 2)),
     Ev 4 2 Leader (A (AppendTo 3)),
     Ev 4 2 Leader (A (AppendSent 3 [2, 2, 3, 3, 1])),
     Ev 4 2 Leader (A (AppendSent 0 [2, 2, 3, 3, 1])),
     Ev 4 2 Leader (A (AppendNotOk 1)),
     Ev 4 2 Leader (A (AppendSent 1 [2, 2, 3, 3, 1])),
     Ev 4 2 Leader (A (AppendSent 2 [2, 2, 3, 3, 1])),
     Ev 4 2 Leader (A (AppendNotOk 3)),
     Ev 4 2 Leader (A (AppendNotOk 0)),
     Ev 4 2 Leader (A (AppendNotOk 1)),
     Ev 4 2 Leader (A (AppendNotOk 2)),
     Ev 0 2 Follower (E StartElection),
     Ev 4 2 Leader (A HeartBeat),
     Ev 4 2 Leader (A (AppendTo 0)),
     Ev 4 2 Leader (A (AppendTo 1)),
     Ev 4 2 Leader (A (AppendTo 2)),
     Ev 4 2 Leader (A (AppendTo 3)),
     Ev 4 2 Leader (A (AppendSent 3 [2, 2, 3, 3, 1])),
     Ev 4 2 Leader (A (AppendSent 0 [2, 2, 3, 3, 1])),
     Ev 0 3 Candidate (E BecomeCandidate),
     Ev 4 2 Leader (A (AppendSent 2 [2, 2, 3, 3, 1])),
     Ev 0 3 Candidate (E (RequestVoteTo 1)),
     Ev 0 3 Candidate (E (RequestVoteTo 2)),
     Ev 0 3 Candidate (E (RequestVoteTo 3)),
     Ev 0 3 Candidate (E (RequestVoteTo 4)),
     Ev 4 2 Leader (A (AppendSent 1 [2, 2, 3, 3, 1])),
     Ev 4 2 Leader (A (AppendNotOk 1)),
     Ev 0 3 Candidate (E (VoteNotOk 3)),
     Ev 2 2 Follower (E (VoteRequested (-1) 0 3)),
     Ev 1 2 Follower (E (VoteRequested (-1) 0 3)),
     Ev 2 2 Follower (E (VoteArgs 3 1 2 2 3)),
     Ev 1 2 Follower (E (VoteArgs 3 1 2 2 3)),
     Ev 2 2 Follower (E (Indices 1 1)),
     Ev 2 2 Follower (E (TermLower 0)),
     Ev 1 2 Follower (E (Indices 1 1)),
     Ev 1 2 Follower (E (TermLower 0)),
     Ev 2 3 Follower (E (LogTerms 2 2 2 1)),
     Ev 2 3 Follower (E LogOutdated),
     Ev 1 3 Follower (E (LogTerms 2 2 2 1)),
     Ev 1 3 Follower (E LogOutdated),
     Ev 0 3 Candidate (E (VoteReply 2 3 False)),
     Ev 0 3 Candidate (E (Indices (-1) (-1))),
     Ev 0 3 Candidate (E (CheckElection 1 5)),
     Ev 0 3 Candidate (E (VoteReply 1 3 False)),
     Ev 0 3 Candidate (E (Indices (-1) (-1))),
     Ev 0 3 Candidate (E (CheckElection 1 5)),
     Ev 0 3 Candidate (E (VoteNotOk 4)),
     Ev 4 2 Leader (A (AppendNotOk 2)),
     Ev 4 2 Leader (A (AppendNotOk 3)),
     Ev 3 2 Follower (E StartElection),
     Ev 4 2 Leader (A HeartBeat),
     Ev 4 2 Leader (A (AppendTo 0)),
     Ev 3 3 Candidate (E BecomeCandidate),
     Ev 3 3 Candidate (E (RequestVoteTo 0)),
     Ev 3 3 Candidate (E (RequestVoteTo 1)),
     Ev 3 3 Candidate (E (RequestVoteTo 2)),
     Ev 3 3 Candidate (E (RequestVoteTo 4)),
     Ev 4 2 Leader (A (AppendTo 1)),
     Ev 4 2 Leader (A (AppendTo 2)),
     Ev 4 2 Leader (A (AppendTo 3)),
     Ev 4 2 Leader (A (AppendNotOk 0)),
     Ev 4 2 Leader (A (AppendSent 0 [2, 2, 3, 3, 1])),
     Ev 4 2 Leader (A (AppendSent 2 [2, 2, 3, 3, 1])),
     Ev 4 2 Leader (A (AppendSent 3 [2, 2, 3, 3, 1])),
     Ev 4 2 Leader (A (AppendSent 1 [2, 2, 3, 3, 1])),
     Ev 4 2 Leader (A (AppendNotOk 3)),
     Ev 4 2 Leader (A (AppendNotOk 0)),
     Ev 0 3 Candidate (E (VoteRequested 0 3 3)),
     Ev 0 3 Candidate (E (VoteArgs 3 2 2 1 2)),
     Ev 0 3 Candidate (E (Indices (-1) (-1))),
     Ev 0 3 Candidate (E (LogTerms 2 2 1 2)),
     Ev 0 3 Candidate (E RefuseVote),
     Ev 3 3 Candidate (E (VoteReply 0 3 False)),
     Ev 3 3 Candidate (E (Indices 1 1)),
     Ev 3 3 Candidate (E (CheckElection 1 5)),
     Ev 2 3 Follower (E (VoteRequested 0 3 3)),
     Ev 2 3 Follower (E (VoteArgs 3 2 2 2 3)),
     Ev 2 3 Follower (E (Indices 1 1)),
     Ev 2 3 Follower (E (LogTerms 2 2 2 2)),
     Ev 2 3 Follower (E RefuseVote),
     Ev 1 3 Follower (E (VoteRequested 0 3 3)),
     Ev 1 3 Follower (E (VoteArgs 3 2 2 2 3)),
     Ev 1 3 Follower (E (Indices 1 1)),
     Ev 1 3 Follower (E (LogTerms 2 2 2 2)),
     Ev 1 3 Follower (E RefuseVote),
     Ev 3 3 Candidate (E (VoteReply 2 3 False)),
     Ev 3 3 Candidate (E (Indices 1 1)),
     Ev 3 3 Candidate (E (CheckElection 1 5))]"

definition run_03 :: "line list" where
  "run_03 = [
     Ev 3 3 Candidate (E (VoteReply 1 3 False)),
     Ev 3 3 Candidate (E (Indices 1 1)),
     Ev 3 3 Candidate (E (CheckElection 1 5)),
     Ev 4 2 Leader (A (AppendNotOk 2)),
     Ev 3 3 Candidate (E (VoteNotOk 4)),
     Ev 4 2 Leader (A (AppendNotOk 1)),
     Ev 4 2 Leader (A HeartBeat),
     Ev 4 2 Leader (A (AppendTo 0)),
     Ev 4 2 Leader (A (AppendTo 1)),
     Ev 4 2 Leader (A (AppendTo 2)),
     Ev 4 2 Leader (A (AppendTo 3)),
     Ev 4 2 Leader (A (AppendSent 0 [2, 2, 3, 3, 1])),
     Ev 4 2 Leader (A (AppendSent 3 [2, 2, 3, 3, 1])),
     Ev 4 2 Leader (A (AppendSent 1 [2, 2, 3, 3, 1])),
     Ev 4 2 Leader (A (AppendSent 2 [2, 2, 3, 3, 1])),
     Ev 4 2 Leader (A (AppendNotOk 0)),
     Ev 4 2 Leader (A (AppendNotOk 3)),
     Ev 4 2 Leader (A (AppendNotOk 2)),
     Ev 4 2 Leader (A (AppendNotOk 1)),
     Ev 4 2 Leader (A HeartBeat),
     Ev 4 2 Leader (A (AppendTo 0)),
     Ev 4 2 Leader (A (AppendTo 1)),
     Ev 4 2 Leader (A (AppendTo 2)),
     Ev 4 2 Leader (A (AppendTo 3)),
     Ev 4 2 Leader (A (AppendSent 3 [2, 2, 3, 3, 1])),
     Ev 4 2 Leader (A (AppendSent 0 [2, 2, 3, 3, 1])),
     Ev 4 2 Leader (A (AppendSent 1 [2, 2, 3, 3, 1])),
     Ev 4 2 Leader (A (AppendSent 2 [2, 2, 3, 3, 1])),
     Ev 4 2 Leader (A (AppendNotOk 1)),
     Ev 4 2 Leader (A (AppendNotOk 3)),
     Ev 4 2 Leader (A (AppendNotOk 2)),
     Ev 4 2 Leader (A (AppendNotOk 0)),
     Ev 4 2 Leader (A HeartBeat),
     Ev 4 2 Leader (A (AppendTo 0)),
     Ev 4 2 Leader (A (AppendTo 1)),
     Ev 4 2 Leader (A (AppendTo 2)),
     Ev 4 2 Leader (A (AppendTo 3)),
     Ev 4 2 Leader (A (AppendSent 3 [2, 2, 3, 3, 1])),
     Ev 4 2 Leader (A (AppendSent 1 [2, 2, 3, 3, 1])),
     Ev 4 2 Leader (A (AppendSent 2 [2, 2, 3, 3, 1])),
     Ev 4 2 Leader (A (AppendSent 0 [2, 2, 3, 3, 1])),
     Ev 4 2 Leader (A (AppendNotOk 0)),
     Ev 4 2 Leader (A (AppendNotOk 1)),
     Ev 4 2 Leader (A (AppendNotOk 2)),
     Ev 4 2 Leader (A (AppendNotOk 3)),
     Ev 0 3 Candidate (E StartElection),
     Ev 4 2 Leader (A HeartBeat),
     Ev 1 3 Follower (E StartElection),
     Ev 4 2 Leader (A (AppendTo 0)),
     Ev 4 2 Leader (A (AppendTo 1)),
     Ev 4 2 Leader (A (AppendTo 2)),
     Ev 4 2 Leader (A (AppendTo 3)),
     Ev 0 4 Candidate (E BecomeCandidate),
     Ev 0 4 Candidate (E (RequestVoteTo 1)),
     Ev 4 2 Leader (A (AppendSent 3 [2, 2, 3, 3, 1])),
     Ev 0 4 Candidate (E (RequestVoteTo 2)),
     Ev 0 4 Candidate (E (RequestVoteTo 3)),
     Ev 0 4 Candidate (E (RequestVoteTo 4)),
     Ev 4 2 Leader (A (AppendSent 1 [2, 2, 3, 3, 1])),
     Ev 1 4 Candidate (E BecomeCandidate),
     Ev 1 4 Candidate (E (RequestVoteTo 0)),
     Ev 1 4 Candidate (E (RequestVoteTo 2)),
     Ev 1 4 Candidate (E (RequestVoteTo 3)),
     Ev 1 4 Candidate (E (RequestVoteTo 4)),
     Ev 4 2 Leader (A (AppendSent 0 [2, 2, 3, 3, 1])),
     Ev 4 2 Leader (A (AppendSent 2 [2, 2, 3, 3, 1])),
     Ev 4 2 Leader (A (AppendNotOk 1)),
     Ev 1 4 Candidate (E (VoteNotOk 4)),
     Ev 0 4 Candidate (E (VoteRequested 0 1 4)),
     Ev 2 3 Follower (E (VoteRequested 0 0 4)),
     Ev 0 4 Candidate (E (VoteArgs 4 2 2 1 2)),
     Ev 3 3 Candidate (E (VoteRequested 3 0 4)),
     Ev 3 3 Candidate (E (VoteArgs 4 1 2 2 3)),
     Ev 0 4 Candidate (E (Indices (-1) (-1))),
     Ev 3 3 Candidate (E (Indices 1 1)),
     Ev 3 3 Candidate (E (TermLower 0)),
     Ev 0 4 Candidate (E (LogTerms 2 2 1 2)),
     Ev 0 4 Candidate (E RefuseVote),
     Ev 2 3 Follower (E (VoteArgs 4 1 2 2 3)),
     Ev 2 3 Follower (E (Indices 1 1)),
     Ev 2 3 Follower (E (TermLower 0)),
     Ev 3 4 Follower (E (LogTerms 2 2 2 1)),
     Ev 3 4 Follower (E LogOutdated),
     Ev 1 4 Candidate (E (VoteNotOk 0)),
     Ev 2 4 Follower (E (LogTerms 2 2 2 1)),
     Ev 2 4 Follower (E LogOutdated),
     Ev 0 4 Candidate (E (VoteReply 3 4 False)),
     Ev 0 4 Candidate (E (Indices (-1) (-1))),
     Ev 0 4 Candidate (E (CheckElection 1 5)),
     Ev 0 4 Candidate (E (VoteReply 2 4 False)),
     Ev 0 4 Candidate (E (Indices (-1) (-1))),
     Ev 0 4 Candidate (E (CheckElection 1 5)),
     Ev 1 4 Candidate (E (VoteNotOk 3)),
     Ev 0 4 Candidate (E (VoteNotOk 4)),
     Ev 2 4 Follower (E (VoteRequested 0 1 4)),
     Ev 1 4 Candidate (E (VoteRequested 1 0 4)),
     Ev 2 4 Follower (E (VoteArgs 4 2 2 2 3)),
     Ev 1 4 Candidate (E (VoteArgs 4 1 2 2 3)),
     Ev 2 4 Follower (E (Indices 1 1)),
     Ev 2 4 Follower (E (LogTerms 2 2 2 2)),
     Ev 1 4 Candidate (E (Indices 1 1)),
     Ev 1 4 Candidate (E (LogTerms 2 2 2 1)),
     Ev 2 4 Follower (E RefuseVote),
     Ev 1 4 Candidate (E LogOutdated),
     Ev 1 4 Candidate (E (VoteReply 2 4 False)),
     Ev 1 4 Candidate (E (Indices 1 1)),
     Ev 1 4 Candidate (E (CheckElection 1 5)),
     Ev 0 4 Candidate (E (VoteReply 1 4 False)),
     Ev 0 4 Candidate (E (Indices (-1) (-1))),
     Ev 0 4 Candidate (E (CheckElection 1 5)),
     Ev 4 2 Leader (A (AppendNotOk 3)),
     Ev 4 2 Leader (A (AppendNotOk 2)),
     Ev 4 2 Leader (A (AppendNotOk 0)),
     Ev 4 2 Leader (A HeartBeat),
     Ev 4 2 Leader (A (AppendTo 0)),
     Ev 4 2 Leader (A (AppendTo 1)),
     Ev 4 2 Leader (A (AppendTo 2)),
     Ev 4 2 Leader (A (AppendTo 3)),
     Ev 4 2 Leader (A (AppendSent 3 [2, 2, 3, 3, 1])),
     Ev 4 2 Leader (A (AppendSent 2 [2, 2, 3, 3, 1])),
     Ev 4 2 Leader (A (AppendSent 0 [2, 2, 3, 3, 1])),
     Ev 4 2 Leader (A (AppendSent 1 [2, 2, 3, 3, 1])),
     Ev 4 2 Leader (A (AppendNotOk 2)),
     Ev 4 2 Leader (A (AppendNotOk 1)),
     Ev 4 2 Leader (A (AppendNotOk 3)),
     Ev 4 2 Leader (A (AppendNotOk 0)),
     Ev 4 2 Leader (A HeartBeat),
     Ev 4 2 Leader (A (AppendTo 0)),
     Ev 4 2 Leader (A (AppendTo 1)),
     Ev 4 2 Leader (A (AppendTo 2)),
     Ev 4 2 Leader (A (AppendTo 3)),
     Ev 4 2 Leader (A (AppendSent 3 [2, 2, 3, 3, 1])),
     Ev 4 2 Leader (A (AppendSent 2 [2, 2, 3, 3, 1])),
     Ev 4 2 Leader (A (AppendSent 0 [2, 2, 3, 3, 1])),
     Ev 4 2 Leader (A (AppendSent 1 [2, 2, 3, 3, 1])),
     Ev 4 2 Leader (A (AppendNotOk 1)),
     Ev 4 2 Leader (A (AppendNotOk 0)),
     Ev 4 2 Leader (A (AppendNotOk 3)),
     Ev 4 2 Leader (A HeartBeat),
     Ev 4 2 Leader (A (AppendTo 0)),
     Ev 4 2 Leader (A (AppendTo 1)),
     Ev 4 2 Leader (A (AppendTo 2)),
     Ev 4 2 Leader (A (AppendTo 3)),
     Ev 4 2 Leader (A (AppendSent 2 [2, 2, 3, 3, 1])),
     Ev 4 2 Leader (A (AppendNotOk 2)),
     Ev 4 2 Leader (A (AppendSent 0 [2, 2, 3, 3, 1])),
     Ev 4 2 Leader (A (AppendSent 1 [2, 2, 3, 3, 1])),
     Ev 4 2 Leader (A (AppendSent 3 [2, 2, 3, 3, 1])),
     Ev 4 2 Leader (A (AppendNotOk 1)),
     Ev 4 2 Leader (A (AppendNotOk 2))]"

definition run_04 :: "line list" where
  "run_04 = [
     Ev 4 2 Leader (A (AppendNotOk 3)),
     Ev 4 2 Leader (A (AppendNotOk 0)),
     Ev 4 2 Leader (A HeartBeat),
     Ev 4 2 Leader (A (AppendTo 0)),
     Ev 4 2 Leader (A (AppendTo 1)),
     Ev 4 2 Leader (A (AppendTo 2)),
     Ev 4 2 Leader (A (AppendTo 3)),
     Ev 4 2 Leader (A (AppendSent 3 [2, 2, 3, 3, 1])),
     Ev 4 2 Leader (A (AppendSent 2 [2, 2, 3, 3, 1])),
     Ev 4 2 Leader (A (AppendSent 0 [2, 2, 3, 3, 1])),
     Ev 4 2 Leader (A (AppendSent 1 [2, 2, 3, 3, 1])),
     Ev 4 2 Leader (A (AppendNotOk 0)),
     Ev 4 2 Leader (A (AppendNotOk 1)),
     Ev 4 2 Leader (A (AppendNotOk 2)),
     Ev 3 4 Follower (E StartElection),
     Ev 3 5 Candidate (E BecomeCandidate),
     Ev 3 5 Candidate (E (RequestVoteTo 0)),
     Ev 3 5 Candidate (E (RequestVoteTo 1)),
     Ev 3 5 Candidate (E (RequestVoteTo 2)),
     Ev 3 5 Candidate (E (RequestVoteTo 4)),
     Ev 4 2 Leader (A HeartBeat),
     Ev 4 2 Leader (A (AppendTo 0)),
     Ev 4 2 Leader (A (AppendTo 1)),
     Ev 4 2 Leader (A (AppendTo 2)),
     Ev 4 2 Leader (A (AppendTo 3)),
     Ev 4 2 Leader (A (AppendNotOk 3)),
     Ev 4 2 Leader (A (AppendSent 0 [2, 2, 3, 3, 1])),
     Ev 4 2 Leader (A (AppendSent 2 [2, 2, 3, 3, 1])),
     Ev 4 2 Leader (A (AppendSent 1 [2, 2, 3, 3, 1])),
     Ev 4 2 Leader (A (AppendSent 3 [2, 2, 3, 3, 1])),
     Ev 4 2 Leader (A (AppendNotOk 1)),
     Ev 4 2 Leader (A (AppendNotOk 2)),
     Ev 1 4 Candidate (E (VoteRequested 1 3 5)),
     Ev 1 4 Candidate (E (VoteArgs 5 2 2 2 3)),
     Ev 2 4 Follower (E (VoteRequested 0 3 5)),
     Ev 1 4 Candidate (E (Indices 1 1)),
     Ev 1 4 Candidate (E (TermLower 3)),
     Ev 2 4 Follower (E (VoteArgs 5 2 2 2 3)),
     Ev 2 4 Follower (E (Indices 1 1)),
     Ev 2 4 Follower (E (TermLower 3)),
     Ev 2 5 Follower (E (LogTerms 2 2 2 2)),
     Ev 1 5 Follower (E (LogTerms 2 2 2 2)),
     Ev 2 5 Follower (E (VoteGranted 5 2 2 2 3)),
     Ev 2 5 Follower (E (Indices 1 1)),
     Ev 1 5 Follower (E (VoteGranted 5 2 2 2 3)),
     Ev 1 5 Follower (E (Indices 1 1)),
     Ev 3 5 Candidate (E (VoteNotOk 1)),
     Ev 3 5 Candidate (E (VoteReply 2 5 True)),
     Ev 3 5 Candidate (E (Indices 1 1)),
     Ev 3 5 Candidate (E (VoteGained 2)),
     Ev 3 5 Candidate (E (CheckElection 2 5)),
     Ev 4 2 Leader (A (AppendNotOk 3)),
     Ev 4 2 Leader (A (AppendNotOk 0)),
     Ev 0 4 Candidate (E (VoteRequested 0 3 5)),
     Ev 0 4 Candidate (E (VoteArgs 5 2 2 1 2)),
     Ev 0 4 Candidate (E (Indices (-1) (-1))),
     Ev 0 4 Candidate (E (TermLower 3)),
     Ev 0 5 Follower (E (LogTerms 2 2 1 2)),
     Ev 0 5 Follower (E (VoteGranted 5 2 2 1 2)),
     Ev 0 5 Follower (E (Indices (-1) (-1))),
     Ev 3 5 Candidate (E (VoteReply 0 5 True)),
     Ev 3 5 Candidate (E (Indices 1 1)),
     Ev 3 5 Candidate (E (VoteGained 0)),
     Ev 3 5 Candidate (E (CheckElection 3 5)),
     Ev 3 6 Leader (E BecomesLeader),
     Ev 3 6 Leader (A HeartBeat),
     Ev 3 6 Leader (A (AppendTo 0)),
     Ev 3 6 Leader (A (AppendTo 1)),
     Ev 3 6 Leader (A (AppendTo 2)),
     Ev 3 6 Leader (A (AppendTo 4)),
     Ev 3 6 Leader (A (AppendSent 4 [3, 3, 3, 3, 3])),
     Ev 3 6 Leader (A (AppendSent 2 [3, 3, 3, 3, 3])),
     Ev 3 6 Leader (A (AppendSent 1 [3, 3, 3, 3, 3])),
     Ev 3 6 Leader (A (AppendSent 0 [3, 3, 3, 3, 3])),
     Ev 3 6 Leader (A (AppendNotOk 1)),
     Ev 3 6 Leader (A (AppendNotOk 4)),
     Ev 2 5 Follower (A (AppendFrom 3 6)),
     Ev 0 5 Follower (A (AppendFrom 3 6)),
     Ev 0 6 Follower (A (OutOfRange 2 2)),
     Ev 2 6 Follower (A (Appended 2 2)),
     Ev 3 6 Leader (A (AppendNotOk 0)),
     Ev 3 6 Leader (A (AppendSuccess 2)),
     Ev 3 6 Leader (C (TryCommit 1 3)),
     Ev 3 6 Leader (C (MatchIndex [-1, -1, 2, -1, -1])),
     Ev 3 6 Leader (C (Logs [(-1, -1), (2, 4416), (2, 1773)])),
     Ev 3 6 Leader (C (FinishCommit 1)),
     Ev 3 6 Leader (C (TryApply 1 1)),
     Ev 3 6 Leader (E (VoteNotOk 4)),
     Ev 3 6 Leader (A HeartBeat),
     Ev 3 6 Leader (A (AppendTo 0)),
     Ev 4 2 Leader (A HeartBeat),
     Ev 4 2 Leader (A (AppendTo 0)),
     Ev 3 6 Leader (A (AppendTo 1)),
     Ev 3 6 Leader (A (AppendTo 2)),
     Ev 3 6 Leader (A (AppendTo 4)),
     Ev 4 2 Leader (A (AppendTo 1)),
     Ev 3 6 Leader (A (AppendSent 2 [3, 3, 3, 3, 3])),
     Ev 4 2 Leader (A (AppendTo 2)),
     Ev 4 2 Leader (A (AppendTo 3)),
     Ev 3 6 Leader (A (AppendSent 0 [3, 3, 3, 3, 3])),
     Ev 3 6 Leader (A (AppendSent 4 [3, 3, 3, 3, 3])),
     Ev 4 2 Leader (A (AppendSent 2 [2, 2, 3, 3, 1])),
     Ev 3 6 Leader (A (AppendSent 1 [3, 3, 3, 3, 3])),
     Ev 4 2 Leader (A (AppendSent 0 [2, 2, 3, 3, 1])),
     Ev 4 2 Leader (A (AppendSent 1 [2, 2, 3, 3, 1])),
     Ev 4 2 Leader (A (AppendSent 3 [2, 2, 3, 3, 1])),
     Ev 3 6 Leader (A (AppendNotOk 4)),
     Ev 2 6 Follower (A (AppendFrom 3 6)),
     Ev 2 6 Follower (A (Appended 2 2)),
     Ev 3 6 Leader (A (AppendSuccess 2)),
     Ev 3 6 Leader (C (TryCommit 1 3)),
     Ev 3 6 Leader (C (MatchIndex [-1, -1, 2, -1, -1])),
     Ev 3 6 Leader (C (Logs [(-1, -1), (2, 4416), (2, 1773)])),
     Ev 3 6 Leader (C (FinishCommit 1)),
     Ev 3 6 Leader (C (TryApply 1 1)),
     Ev 3 6 Leader (A (AppendNotOk 0)),
     Ev 1 5 Follower (A (AppendFrom 3 6)),
     Ev 1 6 Follower (A (Appended 2 2)),
     Ev 3 6 Leader (A (AppendSuccess 1)),
     Ev 3 6 Leader (C (TryCommit 1 3)),
     Ev 3 6 Leader (C (MatchIndex [-1, 2, 2, -1, -1])),
     Ev 3 6 Leader (C (Logs [(-1, -1), (2, 4416), (2, 1773)])),
     Ev 3 6 Leader (C (FinishCommit 1)),
     Ev 3 6 Leader (C (TryApply 1 1)),
     Ev 4 2 Leader (A (AppendNotOk 0)),
     Ev 4 2 Leader (A (AppendNotOk 1)),
     Ev 4 2 Leader (A (AppendNotOk 2)),
     Ev 4 2 Leader (A (AppendNotOk 3)),
     Ev 3 6 Leader (A HeartBeat),
     Ev 4 2 Leader (A HeartBeat),
     Ev 4 2 Leader (A (AppendTo 0)),
     Ev 4 2 Leader (A (AppendTo 1)),
     Ev 3 6 Leader (A (AppendTo 0)),
     Ev 3 6 Leader (A (AppendTo 1)),
     Ev 4 2 Leader (A (AppendTo 2)),
     Ev 3 6 Leader (A (AppendTo 2)),
     Ev 3 6 Leader (A (AppendTo 4)),
     Ev 4 2 Leader (A (AppendTo 3)),
     Ev 3 6 Leader (A (AppendSent 2 [3, 3, 3, 3, 3])),
     Ev 4 2 Leader (A (AppendSent 3 [2, 2, 3, 3, 1])),
     Ev 3 6 Leader (A (AppendSent 1 [3, 3, 3, 3, 3])),
     Ev 4 2 Leader (A (AppendSent 1 [2, 2, 3, 3, 1])),
     Ev 3 6 Leader (A (AppendSent 0 [3, 3, 3, 3, 3])),
     Ev 3 6 Leader (A (AppendSent 4 [3, 3, 3, 3, 3])),
     Ev 4 2 Leader (A (AppendSent 0 [2, 2, 3, 3, 1])),
     Ev 4 2 Leader (A (AppendSent 2 [2, 2, 3, 3, 1])),
     Ev 2 6 Follower (A (AppendFrom 3 6)),
     Ev 2 6 Follower (A (Appended 2 2)),
     Ev 3 6 Leader (A (AppendSuccess 2)),
     Ev 3 6 Leader (C (TryCommit 1 3))]"

definition run_05 :: "line list" where
  "run_05 = [
     Ev 3 6 Leader (C (MatchIndex [-1, 2, 2, -1, -1])),
     Ev 3 6 Leader (C (Logs [(-1, -1), (2, 4416), (2, 1773)])),
     Ev 3 6 Leader (C (FinishCommit 1)),
     Ev 3 6 Leader (C (TryApply 1 1)),
     Ev 4 2 Leader (A (AppendNotOk 1)),
     Ev 1 6 Follower (A (AppendFrom 3 6)),
     Ev 0 6 Follower (A (AppendFrom 3 6)),
     Ev 1 6 Follower (A (Appended 2 2)),
     Ev 0 6 Follower (A (OutOfRange 2 2)),
     Ev 3 6 Leader (A (AppendRefused 0 2 2 3)),
     Ev 3 6 Leader (A (AppendSuccess 1)),
     Ev 3 6 Leader (C (TryCommit 1 3)),
     Ev 3 6 Leader (C (MatchIndex [-1, 2, 2, -1, -1])),
     Ev 3 6 Leader (C (Logs [(-1, -1), (2, 4416), (2, 1773)])),
     Ev 3 6 Leader (C (FinishCommit 1)),
     Ev 3 6 Leader (C (TryApply 1 1)),
     Ev 4 2 Leader (A (AppendNotOk 3)),
     Ev 3 6 Leader (A (AppendNotOk 4)),
     Ev 4 2 Leader (A (AppendNotOk 0)),
     Ev 4 2 Leader (A (AppendNotOk 2)),
     Ev 4 2 Leader (A HeartBeat),
     Ev 4 2 Leader (A (AppendTo 0)),
     Ev 3 6 Leader (A HeartBeat),
     Ev 3 6 Leader (A (AppendTo 0)),
     Ev 3 6 Leader (A (AppendTo 1)),
     Ev 3 6 Leader (A (AppendTo 2)),
     Ev 4 2 Leader (A (AppendTo 1)),
     Ev 4 2 Leader (A (AppendTo 2)),
     Ev 4 2 Leader (A (AppendTo 3)),
     Ev 3 6 Leader (A (AppendTo 4)),
     Ev 4 2 Leader (A (AppendSent 3 [2, 2, 3, 3, 1])),
     Ev 3 6 Leader (A (AppendSent 4 [1, 3, 3, 3, 3])),
     Ev 3 6 Leader (A (AppendSent 2 [1, 3, 3, 3, 3])),
     Ev 4 2 Leader (A (AppendSent 0 [2, 2, 3, 3, 1])),
     Ev 3 6 Leader (A (AppendSent 0 [1, 3, 3, 3, 3])),
     Ev 4 2 Leader (A (AppendSent 1 [2, 2, 3, 3, 1])),
     Ev 3 6 Leader (A (AppendSent 1 [1, 3, 3, 3, 3])),
     Ev 4 2 Leader (A (AppendSent 2 [2, 2, 3, 3, 1])),
     Ev 0 6 Follower (A (AppendFrom 3 6)),
     Ev 0 6 Follower (C (TryApply (-1) 1)),
     Ev 0 6 Follower (C (Apply (-1) 0 (-1))),
     Ev 0 6 Follower (C (Apply 4416 1 2)),
     Ev 0 6 Follower (A (Appended 2 2)),
     Ev 3 6 Leader (A (AppendSuccess 0)),
     Ev 3 6 Leader (C (TryCommit 1 3)),
     Ev 3 6 Leader (C (MatchIndex [2, 2, 2, -1, -1])),
     Ev 3 6 Leader (C (Logs [(-1, -1), (2, 4416), (2, 1773)])),
     Ev 3 6 Leader (C (FinishCommit 1)),
     Ev 3 6 Leader (C (TryApply 1 1)),
     Ev 1 6 Follower (A (AppendFrom 3 6)),
     Ev 2 6 Follower (A (AppendFrom 3 6)),
     Ev 1 6 Follower (A (Appended 2 2)),
     Ev 2 6 Follower (A (Appended 2 2)),
     Ev 3 6 Leader (A (AppendSuccess 1)),
     Ev 3 6 Leader (C (TryCommit 1 3)),
     Ev 3 6 Leader (C (MatchIndex [2, 2, 2, -1, -1])),
     Ev 3 6 Leader (C (Logs [(-1, -1), (2, 4416), (2, 1773)])),
     Ev 3 6 Leader (C (FinishCommit 1)),
     Ev 3 6 Leader (C (TryApply 1 1)),
     Ev 3 6 Leader (A (AppendSuccess 2)),
     Ev 3 6 Leader (C (TryCommit 1 3)),
     Ev 3 6 Leader (C (MatchIndex [2, 2, 2, -1, -1])),
     Ev 3 6 Leader (C (Logs [(-1, -1), (2, 4416), (2, 1773)])),
     Ev 3 6 Leader (C (FinishCommit 1)),
     Ev 3 6 Leader (C (TryApply 1 1)),
     Ev 4 2 Leader (A (AppendNotOk 2)),
     Ev 3 6 Leader (A (AppendNotOk 4)),
     Ev 4 2 Leader (A (AppendNotOk 1)),
     Ev 4 2 Leader (A (AppendNotOk 3)),
     Ev 4 2 Leader (A (AppendNotOk 0)),
     Ev 3 6 Leader (A HeartBeat),
     Ev 4 2 Leader (A HeartBeat),
     Ev 4 2 Leader (A (AppendTo 0)),
     Ev 4 2 Leader (A (AppendTo 1)),
     Ev 3 6 Leader (A (AppendTo 0)),
     Ev 4 2 Leader (A (AppendTo 2)),
     Ev 3 6 Leader (A (AppendTo 1)),
     Ev 3 6 Leader (A (AppendTo 2)),
     Ev 3 6 Leader (A (AppendTo 4)),
     Ev 4 2 Leader (A (AppendTo 3)),
     Ev 3 6 Leader (A (AppendSent 2 [3, 3, 3, 3, 3])),
     Ev 4 2 Leader (A (AppendSent 1 [2, 2, 3, 3, 1])),
     Ev 3 6 Leader (A (AppendSent 1 [3, 3, 3, 3, 3])),
     Ev 4 2 Leader (A (AppendSent 3 [2, 2, 3, 3, 1])),
     Ev 3 6 Leader (A (AppendSent 0 [3, 3, 3, 3, 3])),
     Ev 4 2 Leader (A (AppendSent 0 [2, 2, 3, 3, 1])),
     Ev 4 2 Leader (A (AppendSent 2 [2, 2, 3, 3, 1])),
     Ev 3 6 Leader (A (AppendSent 4 [3, 3, 3, 3, 3])),
     Ev 4 2 Leader (A (AppendNotOk 3)),
     Ev 3 6 Leader (A (AppendNotOk 4)),
     Ev 1 6 Follower (A (AppendFrom 3 6)),
     Ev 2 6 Follower (A (AppendFrom 3 6)),
     Ev 1 6 Follower (A (Appended 2 2)),
     Ev 0 6 Follower (A (AppendFrom 3 6)),
     Ev 2 6 Follower (A (Appended 2 2)),
     Ev 0 6 Follower (A (Appended 2 2)),
     Ev 3 6 Leader (A (AppendSuccess 1)),
     Ev 3 6 Leader (C (TryCommit 1 5)),
     Ev 3 6 Leader (C (MatchIndex [2, 2, 2, -1, -1])),
     Ev 3 6 Leader (C (Logs [(-1, -1), (2, 4416), (2, 1773), (6, 1565), (6, 9839)])),
     Ev 3 6 Leader (C (FinishCommit 1)),
     Ev 3 6 Leader (C (TryApply 1 1)),
     Ev 3 6 Leader (A (AppendSuccess 2)),
     Ev 3 6 Leader (C (TryCommit 1 5)),
     Ev 3 6 Leader (C (MatchIndex [2, 2, 2, -1, -1])),
     Ev 3 6 Leader (C (Logs [(-1, -1), (2, 4416), (2, 1773), (6, 1565), (6, 9839)])),
     Ev 3 6 Leader (C (FinishCommit 1)),
     Ev 3 6 Leader (C (TryApply 1 1)),
     Ev 3 6 Leader (A (AppendSuccess 0)),
     Ev 3 6 Leader (C (TryCommit 1 5)),
     Ev 3 6 Leader (C (MatchIndex [2, 2, 2, -1, -1])),
     Ev 3 6 Leader (C (Logs [(-1, -1), (2, 4416), (2, 1773), (6, 1565), (6, 9839)])),
     Ev 3 6 Leader (C (FinishCommit 1)),
     Ev 3 6 Leader (C (TryApply 1 1)),
     Ev 4 2 Leader (A (AppendNotOk 1)),
     Ev 4 2 Leader (A (AppendNotOk 0)),
     Ev 4 2 Leader (A (AppendNotOk 2)),
     Ev 4 2 Leader (A HeartBeat),
     Ev 4 2 Leader (A (AppendTo 0)),
     Ev 3 6 Leader (A HeartBeat),
     Ev 4 2 Leader (A (AppendTo 1)),
     Ev 3 6 Leader (A (AppendTo 0)),
     Ev 3 6 Leader (A (AppendTo 1)),
     Ev 3 6 Leader (A (AppendTo 2)),
     Ev 3 6 Leader (A (AppendTo 4)),
     Ev 4 2 Leader (A (AppendTo 2)),
     Ev 4 2 Leader (A (AppendTo 3)),
     Ev 3 6 Leader (A (AppendSent 1 [3, 3, 3, 3, 3])),
     Ev 4 2 Leader (A (AppendSent 3 [2, 2, 3, 3, 1])),
     Ev 3 6 Leader (A (AppendSent 0 [3, 3, 3, 3, 3])),
     Ev 4 2 Leader (A (AppendSent 1 [2, 2, 3, 3, 1])),
     Ev 3 6 Leader (A (AppendSent 2 [3, 3, 3, 3, 3])),
     Ev 4 2 Leader (A (AppendSent 0 [2, 2, 3, 3, 1])),
     Ev 4 2 Leader (A (AppendSent 2 [2, 2, 3, 3, 1])),
     Ev 3 6 Leader (A (AppendSent 4 [3, 3, 3, 3, 3])),
     Ev 4 2 Leader (A (AppendNotOk 3)),
     Ev 3 6 Leader (A (AppendNotOk 4)),
     Ev 4 2 Leader (A (AppendNotOk 0)),
     Ev 3 6 Leader (A (AppendNotOk 1)),
     Ev 3 6 Leader (A (AppendNotOk 2)),
     Ev 4 2 Leader (A (AppendNotOk 2)),
     Ev 3 6 Leader (A (AppendNotOk 0)),
     Ev 3 6 Leader (A HeartBeat),
     Ev 4 2 Leader (A HeartBeat),
     Ev 4 2 Leader (A (AppendTo 0)),
     Ev 3 6 Leader (A (AppendTo 0)),
     Ev 3 6 Leader (A (AppendTo 1)),
     Ev 4 2 Leader (A (AppendTo 1)),
     Ev 3 6 Leader (A (AppendTo 2)),
     Ev 3 6 Leader (A (AppendTo 4))]"

definition run_06 :: "line list" where
  "run_06 = [
     Ev 4 2 Leader (A (AppendTo 2)),
     Ev 4 2 Leader (A (AppendTo 3)),
     Ev 4 2 Leader (A (AppendNotOk 1)),
     Ev 3 6 Leader (A (AppendSent 1 [3, 3, 3, 3, 3])),
     Ev 4 2 Leader (A (AppendSent 0 [2, 2, 3, 3, 1])),
     Ev 3 6 Leader (A (AppendSent 0 [3, 3, 3, 3, 3])),
     Ev 3 6 Leader (A (AppendSent 2 [3, 3, 3, 3, 3])),
     Ev 4 2 Leader (A (AppendSent 2 [2, 2, 3, 3, 1])),
     Ev 3 6 Leader (A (AppendSent 4 [3, 3, 3, 3, 3])),
     Ev 4 2 Leader (A (AppendSent 3 [2, 2, 3, 3, 1])),
     Ev 4 2 Leader (A (AppendSent 1 [2, 2, 3, 3, 1])),
     Ev 3 6 Leader (A (AppendNotOk 1)),
     Ev 4 2 Leader (A (AppendNotOk 2)),
     Ev 4 2 Leader (A (AppendNotOk 1)),
     Ev 3 6 Leader (A (AppendNotOk 4)),
     Ev 4 2 Leader (A (AppendNotOk 0)),
     Ev 4 2 Leader (A (AppendNotOk 3)),
     Ev 3 6 Leader (A (AppendNotOk 2)),
     Ev 3 6 Leader (A (AppendNotOk 0)),
     Ev 3 6 Leader (A HeartBeat),
     Ev 3 6 Leader (A (AppendTo 0)),
     Ev 4 2 Leader (A HeartBeat),
     Ev 3 6 Leader (A (AppendTo 1)),
     Ev 3 6 Leader (A (AppendTo 2)),
     Ev 4 2 Leader (A (AppendTo 0)),
     Ev 4 2 Leader (A (AppendTo 1)),
     Ev 4 2 Leader (A (AppendTo 2)),
     Ev 3 6 Leader (A (AppendTo 4)),
     Ev 4 2 Leader (A (AppendTo 3)),
     Ev 3 6 Leader (A (AppendSent 0 [3, 3, 3, 3, 3])),
     Ev 4 2 Leader (A (AppendSent 0 [2, 2, 3, 3, 1])),
     Ev 3 6 Leader (A (AppendSent 2 [3, 3, 3, 3, 3])),
     Ev 4 2 Leader (A (AppendSent 2 [2, 2, 3, 3, 1])),
     Ev 3 6 Leader (A (AppendSent 1 [3, 3, 3, 3, 3])),
     Ev 4 2 Leader (A (AppendSent 1 [2, 2, 3, 3, 1])),
     Ev 3 6 Leader (A (AppendSent 4 [3, 3, 3, 3, 3])),
     Ev 4 2 Leader (A (AppendSent 3 [2, 2, 3, 3, 1])),
     Ev 4 2 Leader (A (AppendNotOk 3)),
     Ev 3 6 Leader (A (AppendNotOk 4)),
     Ev 4 2 Leader (A (AppendNotOk 1)),
     Ev 3 6 Leader (A (AppendNotOk 2)),
     Ev 3 6 Leader (A (AppendNotOk 1)),
     Ev 4 2 Leader (A (AppendNotOk 0)),
     Ev 4 2 Leader (A (AppendNotOk 2)),
     Ev 4 2 Leader (A HeartBeat),
     Ev 4 2 Leader (A (AppendTo 0)),
     Ev 3 6 Leader (A HeartBeat),
     Ev 3 6 Leader (A (AppendTo 0)),
     Ev 3 6 Leader (A (AppendTo 1)),
     Ev 3 6 Leader (A (AppendTo 2)),
     Ev 3 6 Leader (A (AppendTo 4)),
     Ev 4 2 Leader (A (AppendTo 1)),
     Ev 4 2 Leader (A (AppendTo 2)),
     Ev 4 2 Leader (A (AppendTo 3)),
     Ev 3 6 Leader (A (AppendSent 4 [3, 3, 3, 3, 3])),
     Ev 4 2 Leader (A (AppendSent 3 [2, 2, 3, 3, 1])),
     Ev 3 6 Leader (A (AppendSent 2 [3, 3, 3, 3, 3])),
     Ev 4 2 Leader (A (AppendSent 2 [2, 2, 3, 3, 1])),
     Ev 3 6 Leader (A (AppendNotOk 0)),
     Ev 3 6 Leader (A (AppendSent 0 [3, 3, 3, 3, 3])),
     Ev 4 2 Leader (A (AppendSent 0 [2, 2, 3, 3, 1])),
     Ev 3 6 Leader (A (AppendSent 1 [3, 3, 3, 3, 3])),
     Ev 3 6 Leader (A (AppendNotOk 4)),
     Ev 4 2 Leader (A (AppendSent 1 [2, 2, 3, 3, 1])),
     Ev 3 6 Leader (A (AppendNotOk 0)),
     Ev 3 6 Leader (A (AppendNotOk 2)),
     Ev 3 6 Leader (A (AppendNotOk 1)),
     Ev 4 2 Leader (A (AppendNotOk 0)),
     Ev 4 2 Leader (A (AppendNotOk 1)),
     Ev 4 2 Leader (A (AppendNotOk 3)),
     Ev 4 2 Leader (A (AppendNotOk 2)),
     Ev 3 6 Leader (A HeartBeat),
     Ev 3 6 Leader (A (AppendTo 0)),
     Ev 3 6 Leader (A (AppendTo 1)),
     Ev 3 6 Leader (A (AppendTo 2)),
     Ev 4 2 Leader (A HeartBeat),
     Ev 4 2 Leader (A (AppendTo 0)),
     Ev 3 6 Leader (A (AppendTo 4)),
     Ev 4 2 Leader (A (AppendTo 1)),
     Ev 4 2 Leader (A (AppendTo 2)),
     Ev 4 2 Leader (A (AppendTo 3)),
     Ev 4 2 Leader (A (AppendSent 3 [2, 2, 3, 3, 1])),
     Ev 3 6 Leader (A (AppendSent 2 [3, 3, 3, 3, 3])),
     Ev 4 2 Leader (A (AppendSent 0 [2, 2, 3, 3, 1])),
     Ev 3 6 Leader (A (AppendSent 1 [3, 3, 3, 3, 3])),
     Ev 3 6 Leader (A (AppendSent 0 [3, 3, 3, 3, 3])),
     Ev 4 2 Leader (A (AppendSent 1 [2, 2, 3, 3, 1])),
     Ev 3 6 Leader (A (AppendSent 4 [3, 3, 3, 3, 3])),
     Ev 4 2 Leader (A (AppendSent 2 [2, 2, 3, 3, 1])),
     Ev 3 6 Leader (A (AppendNotOk 4)),
     Ev 3 6 Leader (A (AppendNotOk 1)),
     Ev 4 2 Leader (A (AppendNotOk 2)),
     Ev 3 6 Leader (A (AppendNotOk 0)),
     Ev 4 2 Leader (A (AppendNotOk 0)),
     Ev 3 6 Leader (A (AppendNotOk 2)),
     Ev 4 2 Leader (A (AppendNotOk 1)),
     Ev 3 6 Leader (A HeartBeat),
     Ev 3 6 Leader (A (AppendTo 0)),
     Ev 3 6 Leader (A (AppendTo 1)),
     Ev 3 6 Leader (A (AppendTo 2)),
     Ev 3 6 Leader (A (AppendTo 4)),
     Ev 3 6 Leader (A (AppendSent 4 [3, 3, 3, 3, 3])),
     Ev 4 2 Leader (A HeartBeat),
     Ev 4 2 Leader (A (AppendTo 0)),
     Ev 4 2 Leader (A (AppendTo 1)),
     Ev 4 2 Leader (A (AppendTo 2)),
     Ev 4 2 Leader (A (AppendTo 3)),
     Ev 3 6 Leader (A (AppendSent 0 [3, 3, 3, 3, 3])),
     Ev 4 2 Leader (A (AppendSent 1 [2, 2, 3, 3, 1])),
     Ev 3 6 Leader (A (AppendSent 1 [3, 3, 3, 3, 3])),
     Ev 4 2 Leader (A (AppendNotOk 3)),
     Ev 4 2 Leader (A (AppendSent 2 [2, 2, 3, 3, 1])),
     Ev 3 6 Leader (A (AppendSent 2 [3, 3, 3, 3, 3])),
     Ev 4 2 Leader (A (AppendSent 3 [2, 2, 3, 3, 1])),
     Ev 4 2 Leader (A (AppendSent 0 [2, 2, 3, 3, 1])),
     Ev 4 2 Leader (A (AppendNotOk 0)),
     Ev 4 2 Leader (A (AppendNotOk 2)),
     Ev 4 2 Leader (A (AppendNotOk 3)),
     Ev 3 6 Leader (A (AppendNotOk 0)),
     Ev 3 6 Leader (A (AppendNotOk 2)),
     Ev 3 6 Leader (A (AppendNotOk 1)),
     Ev 3 6 Leader (A (AppendNotOk 4)),
     Ev 4 2 Leader (A (AppendNotOk 1)),
     Ev 4 2 Leader (A HeartBeat),
     Ev 4 2 Leader (A (AppendTo 0)),
     Ev 4 2 Leader (A (AppendTo 1)),
     Ev 4 2 Leader (A (AppendTo 2)),
     Ev 4 2 Leader (A (AppendTo 3)),
     Ev 0 6 Follower (E StartElection),
     Ev 3 6 Leader (A HeartBeat),
     Ev 3 6 Leader (A (AppendTo 0)),
     Ev 4 2 Leader (A (AppendSent 3 [2, 2, 3, 3, 1])),
     Ev 3 6 Leader (A (AppendTo 1)),
     Ev 3 6 Leader (A (AppendTo 2)),
     Ev 3 6 Leader (A (AppendTo 4)),
     Ev 3 6 Leader (A (AppendSent 4 [3, 3, 3, 3, 3])),
     Ev 3 6 Leader (A (AppendSent 1 [3, 3, 3, 3, 3])),
     Ev 0 7 Candidate (E BecomeCandidate),
     Ev 0 7 Candidate (E (RequestVoteTo 1)),
     Ev 0 7 Candidate (E (RequestVoteTo 2)),
     Ev 0 7 Candidate (E (RequestVoteTo 3)),
     Ev 0 7 Candidate (E (RequestVoteTo 4)),
     Ev 3 6 Leader (A (AppendSent 2 [3, 3, 3, 3, 3])),
     Ev 3 6 Leader (A (AppendSent 0 [3, 3, 3, 3, 3])),
     Ev 0 7 Candidate (E (VoteNotOk 2)),
     Ev 4 2 Leader (A (AppendSent 0 [2, 2, 3, 3, 1])),
     Ev 4 2 Leader (A (AppendSent 1 [2, 2, 3, 3, 1])),
     Ev 4 2 Leader (A (AppendSent 2 [2, 2, 3, 3, 1])),
     Ev 1 6 Follower (E (VoteRequested (-1) 0 7)),
     Ev 1 6 Follower (E (VoteArgs 7 2 2 2 3))]"

definition run_07 :: "line list" where
  "run_07 = [
     Ev 1 6 Follower (E (Indices 1 1)),
     Ev 1 6 Follower (E (TermLower 0)),
     Ev 1 7 Follower (E (LogTerms 2 2 2 2)),
     Ev 1 7 Follower (E (VoteGranted 7 2 2 2 3)),
     Ev 1 7 Follower (E (Indices 1 1)),
     Ev 0 7 Candidate (E (VoteNotOk 1)),
     Ev 3 6 Leader (A (AppendNotOk 1)),
     Ev 3 6 Leader (A (AppendNotOk 0)),
     Ev 0 7 Candidate (E (VoteNotOk 4)),
     Ev 4 2 Leader (A (AppendNotOk 2)),
     Ev 0 7 Candidate (E (VoteNotOk 3)),
     Ev 4 2 Leader (A (AppendNotOk 0)),
     Ev 4 2 Leader (A (AppendNotOk 1)),
     Ev 4 2 Leader (A (AppendNotOk 3)),
     Ev 3 6 Leader (A (AppendNotOk 4)),
     Ev 3 6 Leader (A HeartBeat),
     Ev 3 6 Leader (A (AppendTo 0)),
     Ev 3 6 Leader (A (AppendTo 1)),
     Ev 3 6 Leader (A (AppendTo 2)),
     Ev 3 6 Leader (A (AppendTo 4)),
     Ev 4 2 Leader (A HeartBeat),
     Ev 4 2 Leader (A (AppendTo 0)),
     Ev 4 2 Leader (A (AppendTo 1)),
     Ev 4 2 Leader (A (AppendTo 2)),
     Ev 3 6 Leader (A (AppendSent 0 [3, 3, 3, 3, 3])),
     Ev 4 2 Leader (A (AppendTo 3)),
     Ev 3 6 Leader (A (AppendNotOk 2)),
     Ev 3 6 Leader (A (AppendSent 1 [3, 3, 3, 3, 3])),
     Ev 4 2 Leader (A (AppendSent 2 [2, 2, 3, 3, 1])),
     Ev 3 6 Leader (A (AppendSent 2 [3, 3, 3, 3, 3])),
     Ev 4 2 Leader (A (AppendSent 1 [2, 2, 3, 3, 1])),
     Ev 3 6 Leader (A (AppendNotOk 0)),
     Ev 4 2 Leader (A (AppendSent 0 [2, 2, 3, 3, 1])),
     Ev 3 6 Leader (A (AppendSent 4 [3, 3, 3, 3, 3])),
     Ev 4 2 Leader (A (AppendSent 3 [2, 2, 3, 3, 1])),
     Ev 3 6 Leader (A (AppendNotOk 2)),
     Ev 3 6 Leader (A (AppendNotOk 4)),
     Ev 4 2 Leader (A (AppendNotOk 0)),
     Ev 3 6 Leader (A (AppendNotOk 1)),
     Ev 4 2 Leader (A (AppendNotOk 1)),
     Ev 4 2 Leader (A HeartBeat),
     Ev 4 2 Leader (A (AppendTo 0)),
     Ev 4 2 Leader (A (AppendTo 1)),
     Ev 4 2 Leader (A (AppendTo 2)),
     Ev 3 6 Leader (A HeartBeat),
     Ev 3 6 Leader (A (AppendTo 0)),
     Ev 3 6 Leader (A (AppendTo 1)),
     Ev 4 2 Leader (A (AppendTo 3)),
     Ev 2 6 Follower (E StartElection),
     Ev 4 2 Leader (A (AppendNotOk 3)),
     Ev 3 6 Leader (A (AppendTo 2)),
     Ev 3 6 Leader (A (AppendTo 4)),
     Ev 4 2 Leader (A (AppendSent 3 [2, 2, 3, 3, 1])),
     Ev 3 6 Leader (A (AppendSent 1 [3, 3, 3, 3, 3])),
     Ev 2 7 Candidate (E BecomeCandidate),
     Ev 2 7 Candidate (E (RequestVoteTo 0)),
     Ev 3 6 Leader (A (AppendSent 2 [3, 3, 3, 3, 3])),
     Ev 3 6 Leader (A (AppendSent 4 [3, 3, 3, 3, 3])),
     Ev 3 6 Leader (A (AppendSent 0 [3, 3, 3, 3, 3])),
     Ev 4 2 Leader (A (AppendSent 2 [2, 2, 3, 3, 1])),
     Ev 2 7 Candidate (E (RequestVoteTo 1)),
     Ev 2 7 Candidate (E (RequestVoteTo 3)),
     Ev 2 7 Candidate (E (RequestVoteTo 4)),
     Ev 4 2 Leader (A (AppendSent 0 [2, 2, 3, 3, 1])),
     Ev 4 2 Leader (A (AppendNotOk 2)),
     Ev 4 2 Leader (A (AppendSent 1 [2, 2, 3, 3, 1])),
     Ev 3 6 Leader (A (AppendNotOk 1)),
     Ev 1 7 Follower (E (VoteRequested 0 2 7)),
     Ev 1 7 Follower (E (VoteArgs 7 2 2 2 3)),
     Ev 1 7 Follower (E (Indices 1 1)),
     Ev 1 7 Follower (E (LogTerms 2 2 2 2)),
     Ev 1 7 Follower (E RefuseVote),
     Ev 2 7 Candidate (E (VoteNotOk 1)),
     Ev 3 6 Leader (A (AppendNotOk 2)),
     Ev 3 6 Leader (A (AppendNotOk 0)),
     Ev 4 2 Leader (A (AppendNotOk 3)),
     Ev 2 7 Candidate (E (VoteNotOk 0)),
     Ev 2 7 Candidate (E (VoteNotOk 4)),
     Ev 2 7 Candidate (E (VoteNotOk 3)),
     Ev 4 2 Leader (A (AppendNotOk 1)),
     Ev 4 2 Leader (A (AppendNotOk 0)),
     Ev 3 6 Leader (A (AppendNotOk 4)),
     Ev 4 2 Leader (A (AppendNotOk 2)),
     Ev 3 6 Leader (A HeartBeat),
     Ev 3 6 Leader (A (AppendTo 0)),
     Ev 3 6 Leader (A (AppendTo 1)),
     Ev 3 6 Leader (A (AppendTo 2)),
     Ev 3 6 Leader (A (AppendTo 4)),
     Ev 3 6 Leader (A (AppendSent 4 [3, 3, 3, 3, 3])),
     Ev 4 2 Leader (A HeartBeat),
     Ev 4 2 Leader (A (AppendTo 0)),
     Ev 4 2 Leader (A (AppendTo 1)),
     Ev 3 6 Leader (A (AppendSent 1 [3, 3, 3, 3, 3])),
     Ev 4 2 Leader (A (AppendTo 2)),
     Ev 4 2 Leader (A (AppendTo 3)),
     Ev 4 2 Leader (A (AppendSent 1 [2, 2, 3, 3, 1])),
     Ev 3 6 Leader (A (AppendSent 0 [3, 3, 3, 3, 3])),
     Ev 4 2 Leader (A (AppendSent 2 [2, 2, 3, 3, 1])),
     Ev 4 2 Leader (A (AppendSent 3 [2, 2, 3, 3, 1])),
     Ev 3 6 Leader (A (AppendSent 2 [3, 3, 3, 3, 3])),
     Ev 4 2 Leader (A (AppendSent 0 [2, 2, 3, 3, 1])),
     Ev 3 6 Leader (A (AppendNotOk 4)),
     Ev 3 6 Leader (A (AppendNotOk 2)),
     Ev 3 6 Leader (A (AppendNotOk 1)),
     Ev 4 2 Leader (A (AppendNotOk 3)),
     Ev 4 2 Leader (A (AppendNotOk 2)),
     Ev 4 2 Leader (A (AppendNotOk 0)),
     Ev 3 6 Leader (A (AppendNotOk 0)),
     Ev 4 2 Leader (A (AppendNotOk 1)),
     Ev 4 2 Leader (A HeartBeat),
     Ev 3 6 Leader (A HeartBeat),
     Ev 3 6 Leader (A (AppendTo 0)),
     Ev 4 2 Leader (A (AppendTo 0)),
     Ev 4 2 Leader (A (AppendTo 1)),
     Ev 3 6 Leader (A (AppendTo 1)),
     Ev 3 6 Leader (A (AppendTo 2)),
     Ev 3 6 Leader (A (AppendTo 4)),
     Ev 4 2 Leader (A (AppendTo 2)),
     Ev 4 2 Leader (A (AppendTo 3)),
     Ev 3 6 Leader (A (AppendSent 0 [3, 3, 3, 3, 3])),
     Ev 4 2 Leader (A (AppendSent 1 [2, 2, 3, 3, 1])),
     Ev 4 2 Leader (A (AppendSent 3 [2, 2, 3, 3, 1])),
     Ev 3 6 Leader (A (AppendSent 4 [3, 3, 3, 3, 3])),
     Ev 3 6 Leader (A (AppendSent 1 [3, 3, 3, 3, 3])),
     Ev 3 6 Leader (A (AppendSent 2 [3, 3, 3, 3, 3])),
     Ev 4 2 Leader (A (AppendSent 0 [2, 2, 3, 3, 1])),
     Ev 4 2 Leader (A (AppendSent 2 [2, 2, 3, 3, 1])),
     Ev 4 2 Leader (A (AppendNotOk 3)),
     Ev 4 2 Leader (A (AppendNotOk 0)),
     Ev 4 2 Leader (A (AppendNotOk 2)),
     Ev 4 2 Leader (A (AppendNotOk 1)),
     Ev 3 6 Leader (A (AppendNotOk 4)),
     Ev 3 6 Leader (A (AppendNotOk 2)),
     Ev 3 6 Leader (A (AppendNotOk 0)),
     Ev 3 6 Leader (A (AppendNotOk 1)),
     Ev 3 6 Leader (A HeartBeat),
     Ev 4 2 Leader (A HeartBeat),
     Ev 4 2 Leader (A (AppendTo 0)),
     Ev 4 2 Leader (A (AppendTo 1)),
     Ev 4 2 Leader (A (AppendTo 2)),
     Ev 4 2 Leader (A (AppendTo 3)),
     Ev 3 6 Leader (A (AppendTo 0)),
     Ev 3 6 Leader (A (AppendTo 1)),
     Ev 3 6 Leader (A (AppendTo 2)),
     Ev 4 2 Leader (A (AppendSent 3 [2, 2, 3, 3, 1])),
     Ev 3 6 Leader (A (AppendTo 4)),
     Ev 4 2 Leader (A (AppendSent 1 [2, 2, 3, 3, 1])),
     Ev 3 6 Leader (A (AppendSent 0 [3, 3, 3, 3, 3])),
     Ev 3 6 Leader (A (AppendSent 4 [3, 3, 3, 3, 3])),
     Ev 3 6 Leader (A (AppendSent 2 [3, 3, 3, 3, 3]))]"

definition run_08 :: "line list" where
  "run_08 = [
     Ev 4 2 Leader (A (AppendSent 0 [2, 2, 3, 3, 1])),
     Ev 4 2 Leader (A (AppendSent 2 [2, 2, 3, 3, 1])),
     Ev 3 6 Leader (A (AppendSent 1 [3, 3, 3, 3, 3])),
     Ev 4 2 Leader (A (AppendNotOk 0)),
     Ev 3 6 Leader (A (AppendNotOk 0)),
     Ev 3 6 Leader (A (AppendNotOk 1)),
     Ev 3 6 Leader (A (AppendNotOk 4)),
     Ev 3 6 Leader (A (AppendNotOk 2)),
     Ev 4 2 Leader (A (AppendNotOk 1)),
     Ev 4 2 Leader (A (AppendNotOk 2)),
     Ev 4 2 Leader (A HeartBeat),
     Ev 4 2 Leader (A (AppendTo 0)),
     Ev 3 6 Leader (A HeartBeat),
     Ev 3 6 Leader (A (AppendTo 0)),
     Ev 4 2 Leader (A (AppendTo 1)),
     Ev 4 2 Leader (A (AppendTo 2)),
     Ev 4 2 Leader (A (AppendTo 3)),
     Ev 3 6 Leader (A (AppendTo 1)),
     Ev 3 6 Leader (A (AppendTo 2)),
     Ev 4 2 Leader (A (AppendSent 1 [2, 2, 3, 3, 1])),
     Ev 3 6 Leader (A (AppendTo 4)),
     Ev 4 2 Leader (A (AppendNotOk 3)),
     Ev 3 6 Leader (A (AppendSent 0 [3, 3, 3, 3, 3])),
     Ev 4 2 Leader (A (AppendSent 0 [2, 2, 3, 3, 1])),
     Ev 3 6 Leader (A (AppendSent 2 [3, 3, 3, 3, 3])),
     Ev 3 6 Leader (A (AppendSent 4 [3, 3, 3, 3, 3])),
     Ev 3 6 Leader (A (AppendSent 1 [3, 3, 3, 3, 3])),
     Ev 4 2 Leader (A (AppendSent 3 [2, 2, 3, 3, 1])),
     Ev 4 2 Leader (A (AppendSent 2 [2, 2, 3, 3, 1])),
     Ev 3 6 Leader (A (AppendNotOk 1)),
     Ev 4 2 Leader (A (AppendNotOk 0)),
     Ev 3 6 Leader (A (AppendNotOk 4)),
     Ev 4 2 Leader (A (AppendNotOk 2)),
     Ev 4 2 Leader (A (AppendNotOk 1)),
     Ev 3 6 Leader (A (AppendNotOk 0)),
     Ev 4 2 Leader (A (AppendNotOk 3)),
     Ev 4 2 Leader (A HeartBeat),
     Ev 4 2 Leader (A (AppendTo 0)),
     Ev 4 2 Leader (A (AppendTo 1)),
     Ev 4 2 Leader (A (AppendTo 2)),
     Ev 4 2 Leader (A (AppendTo 3)),
     Ev 4 2 Leader (A (AppendSent 3 [2, 2, 3, 3, 1])),
     Ev 3 6 Leader (A HeartBeat),
     Ev 3 6 Leader (A (AppendTo 0)),
     Ev 3 6 Leader (A (AppendTo 1)),
     Ev 3 6 Leader (A (AppendTo 2)),
     Ev 3 6 Leader (A (AppendTo 4)),
     Ev 0 7 Candidate (E StartElection),
     Ev 3 6 Leader (A (AppendSent 4 [3, 3, 3, 3, 3])),
     Ev 3 6 Leader (A (AppendSent 0 [3, 3, 3, 3, 3])),
     Ev 0 8 Candidate (E BecomeCandidate),
     Ev 0 8 Candidate (E (RequestVoteTo 1)),
     Ev 0 8 Candidate (E (RequestVoteTo 2)),
     Ev 0 8 Candidate (E (RequestVoteTo 3)),
     Ev 0 8 Candidate (E (RequestVoteTo 4)),
     Ev 3 6 Leader (A (AppendSent 1 [3, 3, 3, 3, 3])),
     Ev 4 2 Leader (A (AppendSent 1 [2, 2, 3, 3, 1])),
     Ev 4 2 Leader (A (AppendSent 2 [2, 2, 3, 3, 1])),
     Ev 3 6 Leader (A (AppendSent 2 [3, 3, 3, 3, 3])),
     Ev 3 6 Leader (A (AppendNotOk 2)),
     Ev 4 2 Leader (A (AppendSent 0 [2, 2, 3, 3, 1])),
     Ev 4 2 Leader (A (AppendNotOk 0)),
     Ev 3 6 Leader (A (AppendNotOk 4)),
     Ev 0 8 Candidate (E (VoteNotOk 4)),
     Ev 4 2 Leader (A (AppendNotOk 1)),
     Ev 1 7 Follower (E (VoteRequested 0 0 8)),
     Ev 1 7 Follower (E (VoteArgs 8 2 2 2 3)),
     Ev 1 7 Follower (E (Indices 1 1)),
     Ev 1 7 Follower (E (TermLower 0)),
     Ev 1 8 Follower (E (LogTerms 2 2 2 2)),
     Ev 1 8 Follower (E (VoteGranted 8 2 2 2 3)),
     Ev 1 8 Follower (E (Indices 1 1)),
     Ev 0 8 Candidate (E (VoteReply 1 8 True)),
     Ev 0 8 Candidate (E (Indices 1 1)),
     Ev 0 8 Candidate (E (VoteGained 1)),
     Ev 0 8 Candidate (E (CheckElection 2 5)),
     Ev 3 6 Leader (A (AppendNotOk 0)),
     Ev 2 7 Candidate (E (VoteRequested 2 0 8)),
     Ev 2 7 Candidate (E (VoteArgs 8 2 2 2 3)),
     Ev 2 7 Candidate (E (Indices 1 1)),
     Ev 2 7 Candidate (E (TermLower 0)),
     Ev 2 8 Follower (E (LogTerms 2 2 2 2)),
     Ev 2 8 Follower (E (VoteGranted 8 2 2 2 3)),
     Ev 2 8 Follower (E (Indices 1 1)),
     Ev 0 8 Candidate (E (VoteReply 2 8 True)),
     Ev 0 8 Candidate (E (Indices 1 1)),
     Ev 0 8 Candidate (E (VoteGained 2)),
     Ev 0 8 Candidate (E (CheckElection 3 5)),
     Ev 0 9 Leader (E BecomesLeader),
     Ev 0 9 Leader (A HeartBeat),
     Ev 0 9 Leader (A (AppendTo 1)),
     Ev 0 9 Leader (A (AppendTo 2)),
     Ev 0 9 Leader (A (AppendTo 3)),
     Ev 0 9 Leader (A (AppendTo 4)),
     Ev 3 6 Leader (A (AppendNotOk 1)),
     Ev 0 9 Leader (A (AppendSent 1 [3, 3, 3, 3, 3])),
     Ev 0 9 Leader (A (AppendSent 4 [3, 3, 3, 3, 3])),
     Ev 0 9 Leader (A (AppendSent 2 [3, 3, 3, 3, 3])),
     Ev 0 9 Leader (A (AppendSent 3 [3, 3, 3, 3, 3])),
     Ev 4 2 Leader (A (AppendNotOk 2)),
     Ev 3 6 Leader (A (AppendNotOk 2)),
     Ev 2 8 Follower (A (AppendFrom 0 9)),
     Ev 2 9 Follower (A (Appended 2 2)),
     Ev 0 9 Leader (A (AppendSuccess 2)),
     Ev 0 9 Leader (C (TryCommit 1 3)),
     Ev 0 9 Leader (C (MatchIndex [-1, -1, 2, -1, -1])),
     Ev 0 9 Leader (C (Logs [(-1, -1), (2, 4416), (2, 1773)])),
     Ev 0 9 Leader (C (FinishCommit 1)),
     Ev 0 9 Leader (C (TryApply 1 1)),
     Ev 4 2 Leader (A (AppendNotOk 3)),
     Ev 1 8 Follower (A (AppendFrom 0 9)),
     Ev 1 9 Follower (A (Appended 2 2)),
     Ev 0 9 Leader (A (AppendSuccess 1)),
     Ev 0 9 Leader (C (TryCommit 1 4)),
     Ev 0 9 Leader (C (MatchIndex [-1, 2, 2, -1, -1])),
     Ev 0 9 Leader (C (Logs [(-1, -1), (2, 4416), (2, 1773), (9, 6869)])),
     Ev 0 9 Leader (C (FinishCommit 1)),
     Ev 0 9 Leader (C (TryApply 1 1)),
     Ev 0 9 Leader (E (VoteNotOk 3)),
     Ev 4 2 Leader (A HeartBeat),
     Ev 4 2 Leader (A (AppendTo 0)),
     Ev 3 6 Leader (A HeartBeat),
     Ev 4 2 Leader (A (AppendTo 1)),
     Ev 3 6 Leader (A (AppendTo 0)),
     Ev 4 2 Leader (A (AppendTo 2)),
     Ev 3 6 Leader (A (AppendTo 1)),
     Ev 3 6 Leader (A (AppendTo 2)),
     Ev 3 6 Leader (A (AppendTo 4)),
     Ev 0 9 Leader (A HeartBeat),
     Ev 0 9 Leader (A (AppendTo 1)),
     Ev 3 6 Leader (A (AppendSent 4 [3, 3, 3, 3, 3])),
     Ev 4 2 Leader (A (AppendTo 3)),
     Ev 0 9 Leader (A (AppendTo 2)),
     Ev 3 6 Leader (A (AppendSent 0 [3, 3, 3, 3, 3])),
     Ev 0 9 Leader (A (AppendTo 3)),
     Ev 0 9 Leader (A (AppendTo 4)),
     Ev 0 9 Leader (A (AppendSent 1 [3, 3, 3, 3, 3])),
     Ev 3 6 Leader (A (AppendSent 1 [3, 3, 3, 3, 3])),
     Ev 4 2 Leader (A (AppendSent 0 [2, 2, 3, 3, 1])),
     Ev 0 9 Leader (A (AppendSent 2 [3, 3, 3, 3, 3])),
     Ev 0 9 Leader (A (AppendSent 3 [3, 3, 3, 3, 3])),
     Ev 3 6 Leader (A (AppendSent 2 [3, 3, 3, 3, 3])),
     Ev 0 9 Leader (A (AppendSent 4 [3, 3, 3, 3, 3])),
     Ev 4 2 Leader (A (AppendSent 2 [2, 2, 3, 3, 1])),
     Ev 4 2 Leader (A (AppendSent 1 [2, 2, 3, 3, 1])),
     Ev 4 2 Leader (A (AppendSent 3 [2, 2, 3, 3, 1])),
     Ev 0 9 Leader (A (AppendNotOk 2)),
     Ev 0 9 Leader (A (AppendNotOk 4)),
     Ev 2 9 Follower (A (AppendFrom 4 2)),
     Ev 2 9 Follower (A TermSmaller)]"

definition run_09 :: "line list" where
  "run_09 = [
     Ev 1 9 Follower (A (AppendFrom 4 2)),
     Ev 1 9 Follower (A TermSmaller),
     Ev 4 2 Leader (A (AppendNotOk 2)),
     Ev 4 2 Leader (A (AppendNotOk 1)),
     Ev 3 6 Leader (A (AppendNotOk 1)),
     Ev 3 6 Leader (A (AppendNotOk 4)),
     Ev 0 9 Leader (A (AppendNotOk 3)),
     Ev 0 9 Leader (A (AppendNotOk 3)),
     Ev 0 9 Leader (A (AppendNotOk 4)),
     Ev 4 2 Leader (A (AppendNotOk 0)),
     Ev 4 2 Leader (A (AppendNotOk 3)),
     Ev 3 6 Leader (A (AppendNotOk 2)),
     Ev 3 6 Leader (A (AppendNotOk 0)),
     Ev 0 9 Leader (A (AppendNotOk 1)),
     Ev 4 2 Leader (A HeartBeat),
     Ev 4 2 Leader (A (AppendTo 0)),
     Ev 0 9 Leader (A HeartBeat),
     Ev 4 2 Leader (A (AppendTo 1)),
     Ev 0 9 Leader (A (AppendTo 1)),
     Ev 0 9 Leader (A (AppendTo 2)),
     Ev 0 9 Leader (A (AppendTo 3)),
     Ev 3 6 Leader (A HeartBeat),
     Ev 4 2 Leader (A (AppendTo 2)),
     Ev 3 6 Leader (A (AppendTo 0)),
     Ev 3 6 Leader (A (AppendTo 1)),
     Ev 3 6 Leader (A (AppendTo 2)),
     Ev 0 9 Leader (A (AppendTo 4)),
     Ev 4 2 Leader (A (AppendTo 3)),
     Ev 3 6 Leader (A (AppendTo 4)),
     Ev 4 2 Leader (A (AppendSent 0 [2, 2, 3, 3, 1])),
     Ev 0 9 Leader (A (AppendSent 3 [3, 3, 3, 3, 3])),
     Ev 4 2 Leader (A (AppendSent 1 [2, 2, 3, 3, 1])),
     Ev 3 6 Leader (A (AppendSent 2 [3, 3, 3, 3, 3])),
     Ev 0 9 Leader (A (AppendSent 1 [3, 3, 3, 3, 3])),
     Ev 3 6 Leader (A (AppendSent 0 [3, 3, 3, 3, 3])),
     Ev 0 9 Leader (A (AppendSent 2 [3, 3, 3, 3, 3])),
     Ev 4 2 Leader (A (AppendSent 2 [2, 2, 3, 3, 1])),
     Ev 3 6 Leader (A (AppendSent 1 [3, 3, 3, 3, 3])),
     Ev 0 9 Leader (A (AppendSent 4 [3, 3, 3, 3, 3])),
     Ev 3 6 Leader (A (AppendSent 4 [3, 3, 3, 3, 3])),
     Ev 4 2 Leader (A (AppendSent 3 [2, 2, 3, 3, 1])),
     Ev 4 2 Leader (A (AppendNotOk 3)),
     Ev 4 2 Leader (A (AppendNotOk 0)),
     Ev 3 6 Leader (A (AppendNotOk 2)),
     Ev 3 6 Leader (A (AppendNotOk 0)),
     Ev 3 6 Leader (A (AppendNotOk 1)),
     Ev 4 2 Leader (A (AppendNotOk 1)),
     Ev 0 9 Leader (A (AppendNotOk 2)),
     Ev 3 6 Leader (A (AppendNotOk 4)),
     Ev 4 2 Leader (A (AppendNotOk 2)),
     Ev 0 9 Leader (A (AppendNotOk 3)),
     Ev 0 9 Leader (A HeartBeat),
     Ev 0 9 Leader (A (AppendTo 1)),
     Ev 0 9 Leader (A (AppendTo 2)),
     Ev 0 9 Leader (A (AppendTo 3)),
     Ev 0 9 Leader (A (AppendTo 4)),
     Ev 0 9 Leader (A (AppendNotOk 1)),
     Ev 4 2 Leader (A HeartBeat),
     Ev 4 2 Leader (A (AppendTo 0)),
     Ev 4 2 Leader (A (AppendTo 1)),
     Ev 4 2 Leader (A (AppendTo 2)),
     Ev 0 9 Leader (A (AppendSent 3 [3, 3, 3, 3, 3])),
     Ev 4 2 Leader (A (AppendTo 3)),
     Ev 4 2 Leader (A (AppendSent 2 [2, 2, 3, 3, 1])),
     Ev 0 9 Leader (A (AppendSent 4 [3, 3, 3, 3, 3])),
     Ev 0 9 Leader (A (AppendNotOk 4)),
     Ev 3 6 Leader (A HeartBeat),
     Ev 3 6 Leader (A (AppendTo 0)),
     Ev 3 6 Leader (A (AppendTo 1)),
     Ev 3 6 Leader (A (AppendTo 2)),
     Ev 3 6 Leader (A (AppendTo 4)),
     Ev 4 2 Leader (A (AppendSent 0 [2, 2, 3, 3, 1])),
     Ev 3 6 Leader (A (AppendSent 4 [3, 3, 3, 3, 3])),
     Ev 0 9 Leader (A (AppendSent 1 [3, 3, 3, 3, 3])),
     Ev 3 6 Leader (A (AppendSent 1 [3, 3, 3, 3, 3])),
     Ev 0 9 Leader (A (AppendSent 2 [3, 3, 3, 3, 3])),
     Ev 4 2 Leader (A (AppendSent 1 [2, 2, 3, 3, 1])),
     Ev 3 6 Leader (A (AppendSent 2 [3, 3, 3, 3, 3])),
     Ev 4 2 Leader (A (AppendSent 3 [2, 2, 3, 3, 1])),
     Ev 3 6 Leader (A (AppendSent 0 [3, 3, 3, 3, 3])),
     Ev 3 6 Leader (A (AppendNotOk 1)),
     Ev 1 9 Follower (A (AppendFrom 4 2)),
     Ev 1 9 Follower (A TermSmaller),
     Ev 4 2 Leader (A (AppendNotOk 1)),
     Ev 3 6 Leader (A (AppendNotOk 2)),
     Ev 2 9 Follower (A (AppendFrom 4 2)),
     Ev 2 9 Follower (A TermSmaller),
     Ev 4 2 Leader (A (AppendNotOk 2)),
     Ev 3 6 Leader (A (AppendNotOk 0)),
     Ev 0 9 Leader (A (AppendNotOk 1)),
     Ev 3 6 Leader (A (AppendNotOk 4)),
     Ev 0 9 Leader (A (AppendNotOk 3)),
     Ev 0 9 Leader (A (AppendNotOk 2)),
     Ev 4 2 Leader (A (AppendNotOk 3)),
     Ev 0 9 Leader (A (AppendNotOk 4)),
     Ev 4 2 Leader (A (AppendNotOk 0)),
     Ev 0 9 Leader (A HeartBeat),
     Ev 0 9 Leader (A (AppendTo 1)),
     Ev 0 9 Leader (A (AppendTo 2)),
     Ev 0 9 Leader (A (AppendTo 3)),
     Ev 3 6 Leader (A HeartBeat),
     Ev 4 2 Leader (A HeartBeat),
     Ev 4 2 Leader (A (AppendTo 0)),
     Ev 3 6 Leader (A (AppendTo 0)),
     Ev 3 6 Leader (A (AppendTo 1)),
     Ev 0 9 Leader (A (AppendTo 4)),
     Ev 4 2 Leader (A (AppendTo 1)),
     Ev 4 2 Leader (A (AppendTo 2)),
     Ev 4 2 Leader (A (AppendTo 3)),
     Ev 3 6 Leader (A (AppendTo 2)),
     Ev 3 6 Leader (A (AppendTo 4)),
     Ev 4 2 Leader (A (AppendSent 0 [2, 2, 3, 3, 1])),
     Ev 0 9 Leader (A (AppendSent 3 [3, 3, 3, 3, 3])),
     Ev 3 6 Leader (A (AppendSent 1 [3, 3, 3, 3, 3])),
     Ev 0 9 Leader (A (AppendSent 4 [3, 3, 3, 3, 3])),
     Ev 3 6 Leader (A (AppendSent 2 [3, 3, 3, 3, 3])),
     Ev 4 2 Leader (A (AppendSent 1 [2, 2, 3, 3, 1])),
     Ev 4 2 Leader (A (AppendSent 3 [2, 2, 3, 3, 1])),
     Ev 0 9 Leader (A (AppendSent 2 [3, 3, 3, 3, 3])),
     Ev 3 6 Leader (A (AppendSent 4 [3, 3, 3, 3, 3])),
     Ev 4 2 Leader (A (AppendSent 2 [2, 2, 3, 3, 1])),
     Ev 0 9 Leader (A (AppendSent 1 [3, 3, 3, 3, 3])),
     Ev 3 6 Leader (A (AppendSent 0 [3, 3, 3, 3, 3])),
     Ev 3 6 Leader (A (AppendNotOk 2)),
     Ev 4 2 Leader (A (AppendNotOk 3)),
     Ev 3 6 Leader (A (AppendNotOk 1)),
     Ev 4 2 Leader (A (AppendNotOk 0)),
     Ev 0 9 Leader (A (AppendNotOk 4)),
     Ev 0 9 Leader (A (AppendNotOk 3)),
     Ev 0 9 Leader (A (AppendNotOk 1)),
     Ev 4 2 Leader (A (AppendNotOk 2)),
     Ev 3 6 Leader (A (AppendNotOk 4)),
     Ev 4 2 Leader (A (AppendNotOk 1)),
     Ev 3 6 Leader (A (AppendNotOk 0)),
     Ev 0 9 Leader (A (AppendNotOk 2)),
     Ev 0 9 Leader (A HeartBeat),
     Ev 0 9 Leader (A (AppendTo 1)),
     Ev 0 9 Leader (A (AppendTo 2)),
     Ev 0 9 Leader (A (AppendTo 3)),
     Ev 0 9 Leader (A (AppendTo 4)),
     Ev 0 9 Leader (A (AppendSent 4 [3, 3, 3, 3, 3])),
     Ev 0 9 Leader (A (AppendSent 1 [3, 3, 3, 3, 3])),
     Ev 3 6 Leader (A HeartBeat),
     Ev 3 6 Leader (A (AppendTo 0)),
     Ev 4 2 Leader (A HeartBeat),
     Ev 4 2 Leader (A (AppendTo 0)),
     Ev 4 2 Leader (A (AppendTo 1)),
     Ev 3 6 Leader (A (AppendTo 1)),
     Ev 0 9 Leader (A (AppendSent 2 [3, 3, 3, 3, 3])),
     Ev 4 2 Leader (A (AppendTo 2))]"

definition run_10 :: "line list" where
  "run_10 = [
     Ev 4 2 Leader (A (AppendTo 3)),
     Ev 3 6 Leader (A (AppendTo 2)),
     Ev 4 2 Leader (A (AppendSent 0 [2, 2, 3, 3, 1])),
     Ev 3 6 Leader (A (AppendTo 4)),
     Ev 4 2 Leader (A (AppendSent 3 [2, 2, 3, 3, 1])),
     Ev 4 2 Leader (A (AppendSent 2 [2, 2, 3, 3, 1])),
     Ev 0 9 Leader (A (AppendSent 3 [3, 3, 3, 3, 3])),
     Ev 4 2 Leader (A (AppendSent 1 [2, 2, 3, 3, 1])),
     Ev 3 6 Leader (A (AppendSent 0 [3, 3, 3, 3, 3])),
     Ev 3 6 Leader (A (AppendSent 1 [3, 3, 3, 3, 3])),
     Ev 3 6 Leader (A (AppendSent 2 [3, 3, 3, 3, 3])),
     Ev 3 6 Leader (A (AppendSent 4 [3, 3, 3, 3, 3])),
     Ev 3 6 Leader (A (AppendNotOk 2)),
     Ev 0 9 Leader (A (AppendNotOk 1)),
     Ev 4 2 Leader (A (AppendNotOk 1)),
     Ev 3 6 Leader (A (AppendNotOk 0)),
     Ev 4 2 Leader (A (AppendNotOk 0)),
     Ev 3 6 Leader (A (AppendNotOk 4)),
     Ev 0 9 Leader (A (AppendNotOk 2)),
     Ev 0 9 Leader (A (AppendNotOk 3)),
     Ev 3 6 Leader (A (AppendNotOk 1)),
     Ev 4 2 Leader (A (AppendNotOk 3)),
     Ev 4 2 Leader (A (AppendNotOk 2)),
     Ev 3 6 Leader (A HeartBeat),
     Ev 3 6 Leader (A (AppendTo 0)),
     Ev 4 2 Leader (A HeartBeat),
     Ev 3 6 Leader (A (AppendTo 1)),
     Ev 4 2 Leader (A (AppendTo 0)),
     Ev 4 2 Leader (A (AppendTo 1)),
     Ev 3 6 Leader (A (AppendTo 2)),
     Ev 0 9 Leader (A (AppendNotOk 4)),
     Ev 3 6 Leader (A (AppendTo 4)),
     Ev 0 9 Leader (A HeartBeat),
     Ev 0 9 Leader (A (AppendTo 1)),
     Ev 0 9 Leader (A (AppendTo 2)),
     Ev 0 9 Leader (A (AppendTo 3)),
     Ev 0 9 Leader (A (AppendTo 4)),
     Ev 3 6 Leader (A (AppendSent 0 [3, 3, 3, 3, 3])),
     Ev 3 6 Leader (A (AppendSent 4 [3, 3, 3, 3, 3])),
     Ev 0 9 Leader (A (AppendSent 4 [3, 3, 3, 3, 3])),
     Ev 4 2 Leader (A (AppendTo 2)),
     Ev 4 2 Leader (A (AppendTo 3)),
     Ev 4 2 Leader (A (AppendSent 1 [2, 2, 3, 3, 1])),
     Ev 0 9 Leader (A (AppendSent 1 [3, 3, 3, 3, 3])),
     Ev 3 6 Leader (A (AppendSent 1 [3, 3, 3, 3, 3])),
     Ev 4 2 Leader (A (AppendSent 2 [2, 2, 3, 3, 1])),
     Ev 4 2 Leader (A (AppendSent 3 [2, 2, 3, 3, 1])),
     Ev 4 2 Leader (A (AppendSent 0 [2, 2, 3, 3, 1])),
     Ev 3 6 Leader (A (AppendSent 2 [3, 3, 3, 3, 3])),
     Ev 0 9 Leader (A (AppendSent 2 [3, 3, 3, 3, 3])),
     Ev 0 9 Leader (A (AppendSent 3 [3, 3, 3, 3, 3])),
     Ev 3 6 Leader (A (AppendNotOk 4)),
     Ev 4 2 Leader (A (AppendNotOk 3)),
     Ev 0 9 Leader (A (AppendNotOk 3)),
     Ev 4 2 Leader (A (AppendNotOk 1)),
     Ev 3 6 Leader (A (AppendNotOk 2)),
     Ev 0 9 Leader (A (AppendNotOk 1)),
     Ev 3 6 Leader (A (AppendNotOk 0)),
     Ev 4 2 Leader (A (AppendNotOk 0)),
     Ev 3 6 Leader (A (AppendNotOk 1)),
     Ev 0 9 Leader (A (AppendNotOk 4)),
     Ev 4 2 Leader (A (AppendNotOk 2)),
     Ev 0 9 Leader (A (AppendNotOk 2)),
     Ev 1 9 Follower (E StartElection),
     Ev 3 6 Leader (A HeartBeat),
     Ev 1 10 Candidate (E BecomeCandidate),
     Ev 1 10 Candidate (E (RequestVoteTo 0)),
     Ev 3 6 Leader (A (AppendTo 0)),
     Ev 3 6 Leader (A (AppendTo 1)),
     Ev 1 10 Candidate (E (RequestVoteTo 2)),
     Ev 1 10 Candidate (E (RequestVoteTo 3)),
     Ev 1 10 Candidate (E (RequestVoteTo 4)),
     Ev 3 6 Leader (A (AppendTo 2)),
     Ev 3 6 Leader (A (AppendTo 4)),
     Ev 4 2 Leader (A HeartBeat),
     Ev 4 2 Leader (A (AppendTo 0)),
     Ev 0 9 Leader (A HeartBeat),
     Ev 0 9 Leader (A (AppendTo 1)),
     Ev 0 9 Leader (A (AppendTo 2)),
     Ev 4 2 Leader (A (AppendTo 1)),
     Ev 4 2 Leader (A (AppendTo 2)),
     Ev 4 2 Leader (A (AppendTo 3)),
     Ev 0 9 Leader (A (AppendTo 3)),
     Ev 3 6 Leader (A (AppendSent 1 [3, 3, 3, 3, 3])),
     Ev 4 2 Leader (A (AppendSent 0 [2, 2, 3, 3, 1])),
     Ev 0 9 Leader (A (AppendTo 4)),
     Ev 3 6 Leader (A (AppendSent 0 [3, 3, 3, 3, 3])),
     Ev 0 9 Leader (A (AppendSent 2 [3, 3, 3, 3, 3])),
     Ev 0 9 Leader (A (AppendSent 4 [3, 3, 3, 3, 3])),
     Ev 0 9 Leader (A (AppendSent 1 [3, 3, 3, 3, 3])),
     Ev 4 2 Leader (A (AppendSent 3 [2, 2, 3, 3, 1])),
     Ev 0 9 Leader (A (AppendSent 3 [3, 3, 3, 3, 3])),
     Ev 4 2 Leader (A (AppendSent 1 [2, 2, 3, 3, 1])),
     Ev 3 6 Leader (A (AppendSent 2 [3, 3, 3, 3, 3])),
     Ev 4 2 Leader (A (AppendSent 2 [2, 2, 3, 3, 1])),
     Ev 3 6 Leader (A (AppendSent 4 [3, 3, 3, 3, 3])),
     Ev 3 6 Leader (A (AppendNotOk 2)),
     Ev 3 6 Leader (A (AppendNotOk 1)),
     Ev 1 10 Candidate (A (AppendFrom 4 2)),
     Ev 2 9 Follower (A (AppendFrom 4 2)),
     Ev 1 10 Candidate (A TermSmaller),
     Ev 2 9 Follower (A TermSmaller),
     Ev 4 2 Leader (A (AppendNotOk 2)),
     Ev 4 2 Leader (A (AppendNotOk 1)),
     Ev 1 10 Candidate (E (VoteNotOk 0)),
     Ev 0 9 Leader (A (AppendNotOk 3)),
     Ev 0 9 Leader (A (AppendNotOk 2)),
     Ev 0 9 Leader (A (AppendNotOk 1)),
     Ev 2 9 Follower (E (VoteRequested (-1) 1 10)),
     Ev 4 2 Leader (E (VoteRequested (-1) 1 10)),
     Ev 2 9 Follower (E (VoteArgs 10 2 2 2 3)),
     Ev 4 2 Leader (E (VoteArgs 10 2 2 99 100)),
     Ev 2 9 Follower (E (Indices 1 1)),
     Ev 4 2 Leader (E (Indices 2 2)),
     Ev 4 2 Leader (E (TermLower 1)),
     Ev 2 9 Follower (E (TermLower 1)),
     Ev 2 10 Follower (E (LogTerms 2 2 2 2)),
     Ev 2 10 Follower (E (VoteGranted 10 2 2 2 3)),
     Ev 2 10 Follower (E (Indices 1 1)),
     Ev 4 10 Follower (E (LogTerms 2 2 99 2)),
     Ev 4 10 Follower (E LogOutdated),
     Ev 1 10 Candidate (E (VoteNotOk 4)),
     Ev 1 10 Candidate (E (VoteReply 2 10 True)),
     Ev 1 10 Candidate (E (Indices 1 1)),
     Ev 1 10 Candidate (E (VoteGained 2)),
     Ev 1 10 Candidate (E (CheckElection 2 5)),
     Ev 0 9 Leader (A (AppendNotOk 4)),
     Ev 3 6 Leader (A (AppendNotOk 0)),
     Ev 3 6 Leader (A (AppendNotOk 4)),
     Ev 4 10 Follower (A (AppendNotOk 3)),
     Ev 4 10 Follower (A (AppendNotOk 0)),
     Ev 1 10 Candidate (E (VoteNotOk 3)),
     Ev 0 9 Leader (A HeartBeat),
     Ev 3 6 Leader (A HeartBeat),
     Ev 3 6 Leader (A (AppendTo 0)),
     Ev 3 6 Leader (A (AppendTo 1)),
     Ev 3 6 Leader (A (AppendTo 2)),
     Ev 3 6 Leader (A (AppendTo 4)),
     Ev 0 9 Leader (A (AppendTo 1)),
     Ev 0 9 Leader (A (AppendTo 2)),
     Ev 0 9 Leader (A (AppendTo 3)),
     Ev 0 9 Leader (A (AppendTo 4)),
     Ev 3 6 Leader (A (AppendSent 4 [3, 3, 3, 3, 3])),
     Ev 0 9 Leader (A (AppendSent 4 [3, 3, 3, 3, 3])),
     Ev 3 6 Leader (A (AppendSent 1 [3, 3, 3, 3, 3])),
     Ev 0 9 Leader (A (AppendSent 3 [3, 3, 3, 3, 3])),
     Ev 0 9 Leader (A (AppendSent 2 [3, 3, 3, 3, 3])),
     Ev 3 6 Leader (A (AppendSent 0 [3, 3, 3, 3, 3])),
     Ev 3 6 Leader (A (AppendSent 2 [3, 3, 3, 3, 3])),
     Ev 0 9 Leader (A (AppendSent 1 [3, 3, 3, 3, 3]))]"

definition run_11 :: "line list" where
  "run_11 = [
     Ev 2 10 Follower (A (AppendFrom 3 6)),
     Ev 2 10 Follower (A TermSmaller),
     Ev 3 6 Leader (A (AppendBigger 2 10)),
     Ev 1 10 Candidate (A (AppendFrom 3 6)),
     Ev 1 10 Candidate (A TermSmaller),
     Ev 3 10 Follower (A (NoLongerLeader 1)),
     Ev 0 9 Leader (A (AppendNotOk 3)),
     Ev 3 10 Follower (A (AppendNotOk 0)),
     Ev 0 9 Leader (A (AppendNotOk 2)),
     Ev 0 9 Leader (A (AppendNotOk 4)),
     Ev 0 9 Leader (A (AppendNotOk 1)),
     Ev 3 10 Follower (A (AppendNotOk 4)),
     Ev 0 9 Leader (A HeartBeat),
     Ev 0 9 Leader (A (AppendTo 1)),
     Ev 0 9 Leader (A (AppendTo 2)),
     Ev 0 9 Leader (A (AppendTo 3)),
     Ev 0 9 Leader (A (AppendTo 4)),
     Ev 0 9 Leader (A (AppendSent 1 [3, 3, 3, 3, 3])),
     Ev 0 9 Leader (A (AppendSent 4 [3, 3, 3, 3, 3])),
     Ev 0 9 Leader (A (AppendSent 2 [3, 3, 3, 3, 3])),
     Ev 0 9 Leader (A (AppendSent 3 [3, 3, 3, 3, 3])),
     Ev 0 9 Leader (A (AppendNotOk 2)),
     Ev 0 9 Leader (A (AppendNotOk 1)),
     Ev 0 9 Leader (A (AppendNotOk 4)),
     Ev 0 9 Leader (A (AppendNotOk 3)),
     Ev 0 9 Leader (A HeartBeat),
     Ev 0 9 Leader (A (AppendTo 1)),
     Ev 0 9 Leader (A (AppendTo 2)),
     Ev 0 9 Leader (A (AppendTo 3)),
     Ev 0 9 Leader (A (AppendTo 4)),
     Ev 0 9 Leader (A (AppendSent 4 [3, 3, 3, 3, 3])),
     Ev 0 9 Leader (A (AppendSent 2 [3, 3, 3, 3, 3])),
     Ev 0 9 Leader (A (AppendSent 1 [3, 3, 3, 3, 3])),
     Ev 0 9 Leader (A (AppendSent 3 [3, 3, 3, 3, 3])),
     Ev 0 9 Leader (A (AppendNotOk 4)),
     Ev 0 9 Leader (A (AppendNotOk 1)),
     Ev 0 9 Leader (A (AppendNotOk 3)),
     Ev 0 9 Leader (A (AppendNotOk 2)),
     Ev 0 9 Leader (A HeartBeat),
     Ev 0 9 Leader (A (AppendTo 1)),
     Ev 0 9 Leader (A (AppendTo 2)),
     Ev 0 9 Leader (A (AppendTo 3)),
     Ev 0 9 Leader (A (AppendTo 4)),
     Ev 0 9 Leader (A (AppendSent 4 [3, 3, 3, 3, 3])),
     Ev 0 9 Leader (A (AppendSent 1 [3, 3, 3, 3, 3])),
     Ev 0 9 Leader (A (AppendSent 3 [3, 3, 3, 3, 3])),
     Ev 0 9 Leader (A (AppendSent 2 [3, 3, 3, 3, 3])),
     Ev 0 9 Leader (A (AppendNotOk 4)),
     Ev 0 9 Leader (A (AppendNotOk 1)),
     Ev 0 9 Leader (A (AppendNotOk 3)),
     Ev 0 9 Leader (A (AppendNotOk 2)),
     Ev 0 9 Leader (A HeartBeat),
     Ev 0 9 Leader (A (AppendTo 1)),
     Ev 0 9 Leader (A (AppendTo 2)),
     Ev 0 9 Leader (A (AppendTo 3)),
     Ev 0 9 Leader (A (AppendTo 4)),
     Ev 0 9 Leader (A (AppendSent 4 [3, 3, 3, 3, 3])),
     Ev 0 9 Leader (A (AppendSent 2 [3, 3, 3, 3, 3])),
     Ev 0 9 Leader (A (AppendSent 1 [3, 3, 3, 3, 3])),
     Ev 0 9 Leader (A (AppendSent 3 [3, 3, 3, 3, 3])),
     Ev 0 9 Leader (A (AppendNotOk 3)),
     Ev 0 9 Leader (A (AppendNotOk 1)),
     Ev 0 9 Leader (A (AppendNotOk 4)),
     Ev 0 9 Leader (A (AppendNotOk 2)),
     Ev 2 10 Follower (E StartElection),
     Ev 0 9 Leader (A HeartBeat),
     Ev 0 9 Leader (A (AppendTo 1)),
     Ev 0 9 Leader (A (AppendTo 2)),
     Ev 0 9 Leader (A (AppendTo 3)),
     Ev 0 9 Leader (A (AppendTo 4)),
     Ev 2 11 Candidate (E BecomeCandidate),
     Ev 2 11 Candidate (E (RequestVoteTo 0)),
     Ev 0 9 Leader (A (AppendSent 4 [3, 3, 3, 3, 3])),
     Ev 2 11 Candidate (E (RequestVoteTo 1)),
     Ev 0 9 Leader (A (AppendSent 2 [3, 3, 3, 3, 3])),
     Ev 2 11 Candidate (E (RequestVoteTo 3)),
     Ev 2 11 Candidate (E (RequestVoteTo 4)),
     Ev 0 9 Leader (A (AppendSent 1 [3, 3, 3, 3, 3])),
     Ev 0 9 Leader (A (AppendSent 3 [3, 3, 3, 3, 3])),
     Ev 2 11 Candidate (E (VoteNotOk 0)),
     Ev 0 9 Leader (A (AppendNotOk 4)),
     Ev 0 9 Leader (A (AppendNotOk 1)),
     Ev 3 10 Follower (E (VoteRequested (-1) 2 11)),
     Ev 1 10 Candidate (E (VoteRequested 1 2 11)),
     Ev 3 10 Follower (E (VoteArgs 11 2 6 70 71)),
     Ev 3 10 Follower (E (Indices 1 1)),
     Ev 3 10 Follower (E (TermLower 2)),
     Ev 1 10 Candidate (E (VoteArgs 11 2 2 2 3)),
     Ev 1 10 Candidate (E (Indices 1 1)),
     Ev 1 10 Candidate (E (TermLower 2)),
     Ev 1 11 Follower (E (LogTerms 2 2 2 2)),
     Ev 1 11 Follower (E (VoteGranted 11 2 2 2 3)),
     Ev 1 11 Follower (E (Indices 1 1)),
     Ev 3 11 Follower (E (LogTerms 6 2 70 2)),
     Ev 3 11 Follower (E LogOutdated),
     Ev 2 11 Candidate (E (VoteReply 1 11 True)),
     Ev 2 11 Candidate (E (Indices 1 1)),
     Ev 2 11 Candidate (E (VoteGained 1)),
     Ev 2 11 Candidate (E (CheckElection 2 5)),
     Ev 2 11 Candidate (E (VoteReply 3 11 False)),
     Ev 2 11 Candidate (E (Indices 1 1)),
     Ev 2 11 Candidate (E (CheckElection 2 5)),
     Ev 0 9 Leader (A (AppendNotOk 2)),
     Ev 2 11 Candidate (E (VoteNotOk 4)),
     Ev 0 9 Leader (A (AppendNotOk 3)),
     Ev 0 9 Leader (A HeartBeat),
     Ev 0 9 Leader (A (AppendTo 1)),
     Ev 0 9 Leader (A (AppendTo 2)),
     Ev 0 9 Leader (A (AppendTo 3)),
     Ev 0 9 Leader (A (AppendTo 4)),
     Ev 0 9 Leader (A (AppendSent 4 [3, 3, 3, 3, 3])),
     Ev 0 9 Leader (A (AppendSent 1 [3, 3, 3, 3, 3])),
     Ev 4 10 Follower (E StartElection),
     Ev 0 9 Leader (A (AppendSent 2 [3, 3, 3, 3, 3])),
     Ev 0 9 Leader (A (AppendSent 3 [3, 3, 3, 3, 3])),
     Ev 4 11 Candidate (E BecomeCandidate),
     Ev 4 11 Candidate (E (RequestVoteTo 0)),
     Ev 4 11 Candidate (E (RequestVoteTo 1)),
     Ev 4 11 Candidate (E (RequestVoteTo 2)),
     Ev 4 11 Candidate (E (RequestVoteTo 3)),
     Ev 0 9 Leader (A (AppendNotOk 1)),
     Ev 0 9 Leader (A (AppendNotOk 2)),
     Ev 4 11 Candidate (E (VoteNotOk 2)),
     Ev 0 9 Leader (A (AppendNotOk 3)),
     Ev 4 11 Candidate (E (VoteNotOk 1)),
     Ev 0 9 Leader (A (AppendNotOk 4)),
     Ev 0 9 Leader (A HeartBeat),
     Ev 0 9 Leader (A (AppendTo 1)),
     Ev 0 9 Leader (A (AppendTo 2)),
     Ev 0 9 Leader (A (AppendTo 3)),
     Ev 0 9 Leader (A (AppendTo 4)),
     Ev 4 11 Candidate (E (VoteNotOk 0)),
     Ev 0 9 Leader (A (AppendSent 4 [3, 3, 3, 3, 3])),
     Ev 0 9 Leader (A (AppendSent 1 [3, 3, 3, 3, 3])),
     Ev 4 11 Candidate (E (VoteNotOk 3)),
     Ev 0 9 Leader (A (AppendSent 2 [3, 3, 3, 3, 3])),
     Ev 0 9 Leader (A (AppendSent 3 [3, 3, 3, 3, 3])),
     Ev 0 9 Leader (A (AppendNotOk 2)),
     Ev 0 9 Leader (A (AppendNotOk 3)),
     Ev 0 9 Leader (A (AppendNotOk 4)),
     Ev 0 9 Leader (A (AppendNotOk 1)),
     Ev 0 9 Leader (A HeartBeat),
     Ev 0 9 Leader (A (AppendTo 1)),
     Ev 0 9 Leader (A (AppendTo 2)),
     Ev 0 9 Leader (A (AppendTo 3)),
     Ev 0 9 Leader (A (AppendTo 4)),
     Ev 0 9 Leader (A (AppendSent 4 [3, 3, 3, 3, 3])),
     Ev 0 9 Leader (A (AppendSent 2 [3, 3, 3, 3, 3])),
     Ev 0 9 Leader (A (AppendSent 1 [3, 3, 3, 3, 3])),
     Ev 0 9 Leader (A (AppendSent 3 [3, 3, 3, 3, 3]))]"

definition part_1 :: "line list list" where
  "part_1 =
     [run_01, run_02, run_03, run_04, run_05, run_06, run_07, run_08, run_09, run_10, run_11]"

lemma part_1_replays: "read_all replay obs_0 part_1 = Some obs_1"
  by code_simp

end
