(* ===== verification/Trace_2.thy ===== *)
theory Trace_2
  imports Trace_States
begin

text \<open>
  The recorded run, lines 1651 to 3150 of raft/2timesvote.ts, one element per line in the
  order of the file, and the proof that this part conforms.
\<close>

definition run_12 :: "line list" where
  "run_12 = [
     Ev 0 9 Leader (A (AppendNotOk 4)),
     Ev 0 9 Leader (A (AppendNotOk 1)),
     Ev 0 9 Leader (A (AppendNotOk 2)),
     Ev 0 9 Leader (A (AppendNotOk 3)),
     Ev 0 9 Leader (A HeartBeat),
     Ev 0 9 Leader (A (AppendTo 1)),
     Ev 0 9 Leader (A (AppendTo 2)),
     Ev 0 9 Leader (A (AppendTo 3)),
     Ev 0 9 Leader (A (AppendTo 4)),
     Ev 0 9 Leader (A (AppendSent 4 [3, 3, 3, 3, 3])),
     Ev 0 9 Leader (A (AppendSent 1 [3, 3, 3, 3, 3])),
     Ev 0 9 Leader (A (AppendSent 2 [3, 3, 3, 3, 3])),
     Ev 0 9 Leader (A (AppendSent 3 [3, 3, 3, 3, 3])),
     Ev 0 9 Leader (A (AppendNotOk 3)),
     Ev 0 9 Leader (A (AppendNotOk 2)),
     Ev 0 9 Leader (A (AppendNotOk 4)),
     Ev 0 9 Leader (A (AppendNotOk 1)),
     Ev 0 9 Leader (A HeartBeat),
     Ev 0 9 Leader (A (AppendTo 1)),
     Ev 3 11 Follower (E StartElection),
     Ev 0 9 Leader (A (AppendTo 2)),
     Ev 0 9 Leader (A (AppendTo 3)),
     Ev 0 9 Leader (A (AppendTo 4)),
     Ev 0 9 Leader (A (AppendSent 1 [3, 3, 3, 3, 3])),
     Ev 0 9 Leader (A (AppendSent 4 [3, 3, 3, 3, 3])),
     Ev 0 9 Leader (A (AppendSent 3 [3, 3, 3, 3, 3])),
     Ev 3 12 Candidate (E BecomeCandidate),
     Ev 0 9 Leader (A (AppendSent 2 [3, 3, 3, 3, 3])),
     Ev 3 12 Candidate (E (RequestVoteTo 0)),
     Ev 3 12 Candidate (E (RequestVoteTo 1)),
     Ev 3 12 Candidate (E (RequestVoteTo 2)),
     Ev 3 12 Candidate (E (RequestVoteTo 4)),
     Ev 1 11 Follower (E (VoteRequested 2 3 12)),
     Ev 1 11 Follower (E (VoteArgs 12 70 2 2 3)),
     Ev 1 11 Follower (E (Indices 1 1)),
     Ev 1 11 Follower (E (TermLower 3)),
     Ev 2 11 Candidate (E (VoteRequested 2 3 12)),
     Ev 2 11 Candidate (E (VoteArgs 12 70 2 2 3)),
     Ev 1 12 Follower (E (LogTerms 2 6 2 70)),
     Ev 2 11 Candidate (E (Indices 1 1)),
     Ev 2 11 Candidate (E (TermLower 3)),
     Ev 1 12 Follower (E (VoteGranted 12 70 2 2 3)),
     Ev 1 12 Follower (E (Indices 1 1)),
     Ev 3 12 Candidate (E (VoteNotOk 1)),
     Ev 2 12 Follower (E (LogTerms 2 6 2 70)),
     Ev 2 12 Follower (E (VoteGranted 12 70 2 2 3)),
     Ev 2 12 Follower (E (Indices 1 1)),
     Ev 3 12 Candidate (E (VoteReply 2 12 True)),
     Ev 3 12 Candidate (E (Indices 1 1)),
     Ev 3 12 Candidate (E (VoteGained 2)),
     Ev 3 12 Candidate (E (CheckElection 2 5)),
     Ev 0 9 Leader (A (AppendNotOk 1)),
     Ev 3 12 Candidate (E (VoteNotOk 0)),
     Ev 0 9 Leader (A (AppendNotOk 3)),
     Ev 0 9 Leader (A (AppendNotOk 2)),
     Ev 0 9 Leader (A (AppendNotOk 4)),
     Ev 3 12 Candidate (E (VoteNotOk 4)),
     Ev 0 9 Leader (A HeartBeat),
     Ev 0 9 Leader (A (AppendTo 1)),
     Ev 0 9 Leader (A (AppendTo 2)),
     Ev 0 9 Leader (A (AppendTo 3)),
     Ev 0 9 Leader (A (AppendTo 4)),
     Ev 0 9 Leader (A (AppendSent 1 [3, 3, 3, 3, 3])),
     Ev 0 9 Leader (A (AppendSent 4 [3, 3, 3, 3, 3])),
     Ev 0 9 Leader (A (AppendSent 2 [3, 3, 3, 3, 3])),
     Ev 0 9 Leader (A (AppendSent 3 [3, 3, 3, 3, 3])),
     Ev 0 9 Leader (A (AppendNotOk 3)),
     Ev 0 9 Leader (A (AppendNotOk 1)),
     Ev 0 9 Leader (A (AppendNotOk 4)),
     Ev 0 9 Leader (A (AppendNotOk 2)),
     Ev 0 9 Leader (A HeartBeat),
     Ev 0 9 Leader (A (AppendTo 1)),
     Ev 4 11 Candidate (E StartElection),
     Ev 0 9 Leader (A (AppendTo 2)),
     Ev 0 9 Leader (A (AppendTo 3)),
     Ev 0 9 Leader (A (AppendTo 4)),
     Ev 0 9 Leader (A (AppendSent 1 [3, 3, 3, 3, 3])),
     Ev 0 9 Leader (A (AppendSent 2 [3, 3, 3, 3, 3])),
     Ev 0 9 Leader (A (AppendSent 3 [3, 3, 3, 3, 3])),
     Ev 4 12 Candidate (E BecomeCandidate),
     Ev 4 12 Candidate (E (RequestVoteTo 0)),
     Ev 0 9 Leader (A (AppendSent 4 [3, 3, 3, 3, 3])),
     Ev 4 12 Candidate (E (RequestVoteTo 1)),
     Ev 4 12 Candidate (E (RequestVoteTo 2)),
     Ev 4 12 Candidate (E (RequestVoteTo 3)),
     Ev 0 9 Leader (A (AppendNotOk 4)),
     Ev 0 9 Leader (A (AppendNotOk 3)),
     Ev 4 12 Candidate (E (VoteNotOk 1)),
     Ev 4 12 Candidate (E (VoteNotOk 0)),
     Ev 0 9 Leader (A (AppendNotOk 1)),
     Ev 4 12 Candidate (E (VoteNotOk 3)),
     Ev 4 12 Candidate (E (VoteNotOk 2)),
     Ev 0 9 Leader (A (AppendNotOk 2)),
     Ev 0 9 Leader (A HeartBeat),
     Ev 0 9 Leader (A (AppendTo 1)),
     Ev 0 9 Leader (A (AppendTo 2)),
     Ev 0 9 Leader (A (AppendTo 3)),
     Ev 0 9 Leader (A (AppendTo 4)),
     Ev 0 9 Leader (A (AppendSent 1 [3, 3, 3, 3, 3])),
     Ev 0 9 Leader (A (AppendSent 4 [3, 3, 3, 3, 3])),
     Ev 0 9 Leader (A (AppendSent 3 [3, 3, 3, 3, 3])),
     Ev 0 9 Leader (A (AppendSent 2 [3, 3, 3, 3, 3])),
     Ev 0 9 Leader (A (AppendNotOk 2)),
     Ev 0 9 Leader (A (AppendNotOk 4)),
     Ev 0 9 Leader (A (AppendNotOk 3)),
     Ev 0 9 Leader (A (AppendNotOk 1)),
     Ev 0 9 Leader (A HeartBeat),
     Ev 0 9 Leader (A (AppendTo 1)),
     Ev 0 9 Leader (A (AppendTo 2)),
     Ev 0 9 Leader (A (AppendTo 3)),
     Ev 0 9 Leader (A (AppendTo 4)),
     Ev 0 9 Leader (A (AppendSent 4 [3, 3, 3, 3, 3])),
     Ev 0 9 Leader (A (AppendSent 1 [3, 3, 3, 3, 3])),
     Ev 0 9 Leader (A (AppendSent 3 [3, 3, 3, 3, 3])),
     Ev 0 9 Leader (A (AppendSent 2 [3, 3, 3, 3, 3])),
     Ev 0 9 Leader (A (AppendNotOk 1)),
     Ev 0 9 Leader (A (AppendNotOk 2)),
     Ev 0 9 Leader (A (AppendNotOk 4)),
     Ev 0 9 Leader (A (AppendNotOk 3)),
     Ev 0 9 Leader (A HeartBeat),
     Ev 0 9 Leader (A (AppendTo 1)),
     Ev 0 9 Leader (A (AppendTo 2)),
     Ev 0 9 Leader (A (AppendTo 3)),
     Ev 0 9 Leader (A (AppendTo 4)),
     Ev 0 9 Leader (A (AppendSent 4 [3, 3, 3, 3, 3])),
     Ev 0 9 Leader (A (AppendSent 1 [3, 3, 3, 3, 3])),
     Ev 0 9 Leader (A (AppendNotOk 1)),
     Ev 0 9 Leader (A (AppendSent 2 [3, 3, 3, 3, 3])),
     Ev 0 9 Leader (A (AppendSent 3 [3, 3, 3, 3, 3])),
     Ev 0 9 Leader (A (AppendNotOk 3)),
     Ev 0 9 Leader (A (AppendNotOk 2)),
     Ev 0 9 Leader (A (AppendNotOk 4)),
     Ev 0 9 Leader (A HeartBeat),
     Ev 0 9 Leader (A (AppendTo 1)),
     Ev 0 9 Leader (A (AppendTo 2)),
     Ev 0 9 Leader (A (AppendTo 3)),
     Ev 0 9 Leader (A (AppendTo 4)),
     Ev 0 9 Leader (A (AppendSent 4 [3, 3, 3, 3, 3])),
     Ev 0 9 Leader (A (AppendSent 2 [3, 3, 3, 3, 3])),
     Ev 0 9 Leader (A (AppendSent 3 [3, 3, 3, 3, 3])),
     Ev 0 9 Leader (A (AppendSent 1 [3, 3, 3, 3, 3])),
     Ev 0 9 Leader (A (AppendNotOk 4)),
     Ev 0 9 Leader (A (AppendNotOk 1)),
     Ev 0 9 Leader (A (AppendNotOk 3)),
     Ev 0 9 Leader (A (AppendNotOk 2)),
     Ev 3 12 Candidate (E StartElection),
     Ev 0 9 Leader (A HeartBeat),
     Ev 0 9 Leader (A (AppendTo 1)),
     Ev 0 9 Leader (A (AppendTo 2)),
     Ev 0 9 Leader (A (AppendTo 3))]"

definition run_13 :: "line list" where
  "run_13 = [
     Ev 0 9 Leader (A (AppendTo 4)),
     Ev 0 9 Leader (A (AppendSent 4 [3, 3, 3, 3, 3])),
     Ev 3 13 Candidate (E BecomeCandidate),
     Ev 3 13 Candidate (E (RequestVoteTo 0)),
     Ev 0 9 Leader (A (AppendSent 1 [3, 3, 3, 3, 3])),
     Ev 3 13 Candidate (E (RequestVoteTo 1)),
     Ev 3 13 Candidate (E (RequestVoteTo 2)),
     Ev 3 13 Candidate (E (RequestVoteTo 4)),
     Ev 0 9 Leader (A (AppendSent 3 [3, 3, 3, 3, 3])),
     Ev 0 9 Leader (A (AppendSent 2 [3, 3, 3, 3, 3])),
     Ev 2 12 Follower (E (VoteRequested 3 3 13)),
     Ev 2 12 Follower (E (VoteArgs 13 70 2 2 3)),
     Ev 1 12 Follower (E (VoteRequested 3 3 13)),
     Ev 2 12 Follower (E (Indices 1 1)),
     Ev 1 12 Follower (E (VoteArgs 13 70 2 2 3)),
     Ev 2 12 Follower (E (TermLower 3)),
     Ev 1 12 Follower (E (Indices 1 1)),
     Ev 1 12 Follower (E (TermLower 3)),
     Ev 2 13 Follower (E (LogTerms 2 6 2 70)),
     Ev 1 13 Follower (E (LogTerms 2 6 2 70)),
     Ev 2 13 Follower (E (VoteGranted 13 70 2 2 3)),
     Ev 1 13 Follower (E (VoteGranted 13 70 2 2 3)),
     Ev 1 13 Follower (E (Indices 1 1)),
     Ev 2 13 Follower (E (Indices 1 1)),
     Ev 3 13 Candidate (E (VoteReply 1 13 True)),
     Ev 3 13 Candidate (E (Indices 1 1)),
     Ev 3 13 Candidate (E (VoteGained 1)),
     Ev 3 13 Candidate (E (CheckElection 2 5)),
     Ev 3 13 Candidate (E (VoteReply 2 13 True)),
     Ev 3 13 Candidate (E (Indices 1 1)),
     Ev 3 13 Candidate (E (VoteGained 2)),
     Ev 3 13 Candidate (E (CheckElection 3 5)),
     Ev 3 14 Leader (E BecomesLeader),
     Ev 3 14 Leader (A HeartBeat),
     Ev 3 14 Leader (A (AppendTo 0)),
     Ev 3 14 Leader (A (AppendTo 1)),
     Ev 3 14 Leader (A (AppendTo 2)),
     Ev 3 14 Leader (A (AppendTo 4)),
     Ev 3 14 Leader (A (AppendSent 4 [71, 71, 71, 71, 71])),
     Ev 3 14 Leader (A (AppendSent 0 [71, 71, 71, 71, 71])),
     Ev 3 14 Leader (A (AppendSent 1 [71, 71, 71, 71, 71])),
     Ev 3 14 Leader (A (AppendSent 2 [71, 71, 71, 71, 71])),
     Ev 3 14 Leader (E (VoteNotOk 4)),
     Ev 3 14 Leader (A (AppendNotOk 2)),
     Ev 3 14 Leader (E (VoteNotOk 0)),
     Ev 1 13 Follower (A (AppendFrom 3 14)),
     Ev 1 14 Follower (A (OutOfRange 70 3)),
     Ev 3 14 Leader (A (AppendRefused 1 70 6 71)),
     Ev 0 9 Leader (A (AppendNotOk 2)),
     Ev 0 9 Leader (A (AppendNotOk 4)),
     Ev 0 9 Leader (A (AppendNotOk 3)),
     Ev 4 12 Candidate (E StartElection),
     Ev 3 14 Leader (A HeartBeat),
     Ev 3 14 Leader (A (AppendTo 0)),
     Ev 3 14 Leader (A (AppendTo 1)),
     Ev 3 14 Leader (A (AppendTo 2)),
     Ev 3 14 Leader (A (AppendTo 4)),
     Ev 3 14 Leader (A (AppendNotOk 4)),
     Ev 3 14 Leader (A (AppendNotOk 0)),
     Ev 3 14 Leader (A (AppendSent 1 [71, 2, 71, 71, 71])),
     Ev 3 14 Leader (A (AppendSent 2 [71, 2, 71, 71, 71])),
     Ev 0 9 Leader (A (AppendNotOk 1)),
     Ev 4 13 Candidate (E BecomeCandidate),
     Ev 4 13 Candidate (E (RequestVoteTo 0)),
     Ev 4 13 Candidate (E (RequestVoteTo 1)),
     Ev 4 13 Candidate (E (RequestVoteTo 2)),
     Ev 4 13 Candidate (E (RequestVoteTo 3)),
     Ev 0 9 Leader (A HeartBeat),
     Ev 0 9 Leader (A (AppendTo 1)),
     Ev 0 9 Leader (A (AppendTo 2)),
     Ev 0 9 Leader (A (AppendTo 3)),
     Ev 0 9 Leader (A (AppendTo 4)),
     Ev 0 9 Leader (A (AppendSent 4 [3, 3, 3, 3, 3])),
     Ev 3 14 Leader (A (AppendSent 4 [71, 2, 71, 71, 71])),
     Ev 0 9 Leader (A (AppendSent 2 [3, 3, 3, 3, 3])),
     Ev 0 9 Leader (A (AppendSent 3 [3, 3, 3, 3, 3])),
     Ev 3 14 Leader (A (AppendSent 0 [71, 2, 71, 71, 71])),
     Ev 0 9 Leader (A (AppendSent 1 [3, 3, 3, 3, 3])),
     Ev 1 14 Follower (E (VoteRequested (-1) 4 13)),
     Ev 1 14 Follower (E (VoteArgs 13 99 2 2 3)),
     Ev 1 14 Follower (E (Indices 1 1)),
     Ev 1 14 Follower (E TermLarger),
     Ev 2 13 Follower (E (VoteRequested 3 4 13)),
     Ev 2 13 Follower (E (VoteArgs 13 99 2 2 3)),
     Ev 2 13 Follower (E (Indices 1 1)),
     Ev 2 13 Follower (E (LogTerms 2 2 2 99)),
     Ev 2 13 Follower (E RefuseVote),
     Ev 4 13 Candidate (E (VoteReply 1 13 False)),
     Ev 4 13 Candidate (E (Indices 2 2)),
     Ev 4 13 Candidate (E (HigherTerm 1 13)),
     Ev 4 14 Follower (E (CheckElection 0 5)),
     Ev 4 14 Follower (E NotCandidate),
     Ev 4 14 Follower (E (VoteReply 2 13 False)),
     Ev 4 14 Follower (E (Indices 2 2)),
     Ev 4 14 Follower (E (CheckElection 0 5)),
     Ev 4 14 Follower (E NotCandidate),
     Ev 4 14 Follower (E (VoteNotOk 3)),
     Ev 0 9 Leader (A (AppendNotOk 1)),
     Ev 3 14 Leader (A (AppendNotOk 0)),
     Ev 3 14 Leader (A (AppendNotOk 4)),
     Ev 0 9 Leader (A (AppendNotOk 3)),
     Ev 3 14 Leader (A (AppendNotOk 1)),
     Ev 0 9 Leader (A (AppendNotOk 4)),
     Ev 4 14 Follower (E (VoteNotOk 0)),
     Ev 3 14 Leader (A (AppendNotOk 2)),
     Ev 3 14 Leader (A HeartBeat),
     Ev 3 14 Leader (A (AppendTo 0)),
     Ev 3 14 Leader (A (AppendTo 1)),
     Ev 3 14 Leader (A (AppendTo 2)),
     Ev 3 14 Leader (A (AppendTo 4)),
     Ev 0 9 Leader (A (AppendNotOk 2)),
     Ev 0 9 Leader (A HeartBeat),
     Ev 3 14 Leader (A (AppendSent 4 [71, 2, 71, 71, 71])),
     Ev 0 9 Leader (A (AppendTo 1)),
     Ev 0 9 Leader (A (AppendTo 2)),
     Ev 0 9 Leader (A (AppendTo 3)),
     Ev 0 9 Leader (A (AppendTo 4)),
     Ev 0 9 Leader (A (AppendSent 4 [3, 3, 3, 3, 3])),
     Ev 0 9 Leader (A (AppendSent 1 [3, 3, 3, 3, 3])),
     Ev 3 14 Leader (A (AppendSent 0 [71, 2, 71, 71, 71])),
     Ev 0 9 Leader (A (AppendSent 2 [3, 3, 3, 3, 3])),
     Ev 3 14 Leader (A (AppendSent 1 [71, 2, 71, 71, 71])),
     Ev 0 9 Leader (A (AppendSent 3 [3, 3, 3, 3, 3])),
     Ev 3 14 Leader (A (AppendSent 2 [71, 2, 71, 71, 71])),
     Ev 0 9 Leader (A (AppendNotOk 3)),
     Ev 3 14 Leader (A (AppendNotOk 2)),
     Ev 3 14 Leader (A (AppendNotOk 0)),
     Ev 3 14 Leader (A (AppendNotOk 4)),
     Ev 0 9 Leader (A (AppendNotOk 2)),
     Ev 0 9 Leader (A (AppendNotOk 1)),
     Ev 0 9 Leader (A (AppendNotOk 4)),
     Ev 0 9 Leader (A HeartBeat),
     Ev 0 9 Leader (A (AppendTo 1)),
     Ev 3 14 Leader (A HeartBeat),
     Ev 3 14 Leader (A (AppendTo 0)),
     Ev 0 9 Leader (A (AppendTo 2)),
     Ev 3 14 Leader (A (AppendTo 1)),
     Ev 3 14 Leader (A (AppendTo 2)),
     Ev 3 14 Leader (A (AppendTo 4)),
     Ev 0 9 Leader (A (AppendTo 3)),
     Ev 0 9 Leader (A (AppendTo 4)),
     Ev 3 14 Leader (A (AppendNotOk 1)),
     Ev 3 14 Leader (A (AppendSent 0 [71, 2, 71, 71, 71])),
     Ev 0 9 Leader (A (AppendSent 1 [3, 3, 3, 3, 3])),
     Ev 3 14 Leader (A (AppendSent 1 [71, 2, 71, 71, 71])),
     Ev 3 14 Leader (A (AppendSent 2 [71, 2, 71, 71, 71])),
     Ev 0 9 Leader (A (AppendSent 3 [3, 3, 3, 3, 3])),
     Ev 3 14 Leader (A (AppendSent 4 [71, 2, 71, 71, 71])),
     Ev 0 9 Leader (A (AppendSent 2 [3, 3, 3, 3, 3])),
     Ev 0 9 Leader (A (AppendSent 4 [3, 3, 3, 3, 3]))]"

definition run_14 :: "line list" where
  "run_14 = [
     Ev 0 9 Leader (A (AppendNotOk 1)),
     Ev 0 9 Leader (A (AppendNotOk 2)),
     Ev 3 14 Leader (A (AppendNotOk 4)),
     Ev 3 14 Leader (A (AppendNotOk 0)),
     Ev 3 14 Leader (A (AppendNotOk 2)),
     Ev 3 14 Leader (A (AppendNotOk 1)),
     Ev 0 9 Leader (A (AppendNotOk 4)),
     Ev 0 9 Leader (A (AppendNotOk 3)),
     Ev 3 14 Leader (A HeartBeat),
     Ev 3 14 Leader (A (AppendTo 0)),
     Ev 3 14 Leader (A (AppendTo 1)),
     Ev 3 14 Leader (A (AppendTo 2)),
     Ev 3 14 Leader (A (AppendTo 4)),
     Ev 0 9 Leader (A HeartBeat),
     Ev 3 14 Leader (A (AppendSent 0 [71, 2, 71, 71, 71])),
     Ev 0 9 Leader (A (AppendTo 1)),
     Ev 0 9 Leader (A (AppendTo 2)),
     Ev 0 9 Leader (A (AppendTo 3)),
     Ev 0 9 Leader (A (AppendTo 4)),
     Ev 0 9 Leader (A (AppendSent 1 [3, 3, 3, 3, 3])),
     Ev 3 14 Leader (A (AppendSent 4 [71, 2, 71, 71, 71])),
     Ev 0 9 Leader (A (AppendSent 4 [3, 3, 3, 3, 3])),
     Ev 3 14 Leader (A (AppendSent 1 [71, 2, 71, 71, 71])),
     Ev 0 9 Leader (A (AppendSent 2 [3, 3, 3, 3, 3])),
     Ev 0 9 Leader (A (AppendSent 3 [3, 3, 3, 3, 3])),
     Ev 3 14 Leader (A (AppendSent 2 [71, 2, 71, 71, 71])),
     Ev 0 9 Leader (A (AppendNotOk 3)),
     Ev 0 9 Leader (A (AppendNotOk 4)),
     Ev 3 14 Leader (A (AppendNotOk 4)),
     Ev 3 14 Leader (A (AppendNotOk 0)),
     Ev 0 9 Leader (A (AppendNotOk 1)),
     Ev 3 14 Leader (A (AppendNotOk 2)),
     Ev 3 14 Leader (A (AppendNotOk 1)),
     Ev 0 9 Leader (A (AppendNotOk 2)),
     Ev 3 14 Leader (A HeartBeat),
     Ev 3 14 Leader (A (AppendTo 0)),
     Ev 3 14 Leader (A (AppendTo 1)),
     Ev 0 9 Leader (A HeartBeat),
     Ev 0 9 Leader (A (AppendTo 1)),
     Ev 3 14 Leader (A (AppendTo 2)),
     Ev 0 9 Leader (A (AppendTo 2)),
     Ev 0 9 Leader (A (AppendTo 3)),
     Ev 0 9 Leader (A (AppendTo 4)),
     Ev 3 14 Leader (A (AppendTo 4)),
     Ev 3 14 Leader (A (AppendSent 1 [71, 2, 71, 71, 71])),
     Ev 0 9 Leader (A (AppendSent 1 [3, 3, 3, 3, 3])),
     Ev 3 14 Leader (A (AppendSent 4 [71, 2, 71, 71, 71])),
     Ev 3 14 Leader (A (AppendSent 0 [71, 2, 71, 71, 71])),
     Ev 0 9 Leader (A (AppendSent 4 [3, 3, 3, 3, 3])),
     Ev 3 14 Leader (A (AppendSent 2 [71, 2, 71, 71, 71])),
     Ev 0 9 Leader (A (AppendSent 2 [3, 3, 3, 3, 3])),
     Ev 0 9 Leader (A (AppendSent 3 [3, 3, 3, 3, 3])),
     Ev 0 9 Leader (A (AppendNotOk 3)),
     Ev 0 9 Leader (A (AppendNotOk 2)),
     Ev 0 9 Leader (A (AppendNotOk 4)),
     Ev 3 14 Leader (A (AppendNotOk 1)),
     Ev 0 9 Leader (A (AppendNotOk 1)),
     Ev 3 14 Leader (A (AppendNotOk 0)),
     Ev 3 14 Leader (A (AppendNotOk 4)),
     Ev 0 9 Leader (A HeartBeat),
     Ev 0 9 Leader (A (AppendTo 1)),
     Ev 0 9 Leader (A (AppendTo 2)),
     Ev 0 9 Leader (A (AppendTo 3)),
     Ev 0 9 Leader (A (AppendTo 4)),
     Ev 3 14 Leader (A HeartBeat),
     Ev 3 14 Leader (A (AppendTo 0)),
     Ev 3 14 Leader (A (AppendTo 1)),
     Ev 3 14 Leader (A (AppendTo 2)),
     Ev 3 14 Leader (A (AppendTo 4)),
     Ev 0 9 Leader (A (AppendSent 4 [3, 3, 3, 3, 3])),
     Ev 3 14 Leader (A (AppendNotOk 2)),
     Ev 0 9 Leader (A (AppendSent 1 [3, 3, 3, 3, 3])),
     Ev 3 14 Leader (A (AppendSent 0 [71, 2, 71, 71, 71])),
     Ev 0 9 Leader (A (AppendSent 2 [3, 3, 3, 3, 3])),
     Ev 3 14 Leader (A (AppendSent 1 [71, 2, 71, 71, 71])),
     Ev 3 14 Leader (A (AppendSent 2 [71, 2, 71, 71, 71])),
     Ev 3 14 Leader (A (AppendSent 4 [71, 2, 71, 71, 71])),
     Ev 0 9 Leader (A (AppendSent 3 [3, 3, 3, 3, 3])),
     Ev 0 9 Leader (A (AppendNotOk 4)),
     Ev 3 14 Leader (A (AppendNotOk 0)),
     Ev 3 14 Leader (A (AppendNotOk 1)),
     Ev 0 9 Leader (A (AppendNotOk 1)),
     Ev 0 9 Leader (A (AppendNotOk 3)),
     Ev 3 14 Leader (A (AppendNotOk 2)),
     Ev 3 14 Leader (A (AppendNotOk 4)),
     Ev 0 9 Leader (A HeartBeat),
     Ev 0 9 Leader (A (AppendTo 1)),
     Ev 0 9 Leader (A (AppendTo 2)),
     Ev 0 9 Leader (A (AppendTo 3)),
     Ev 0 9 Leader (A (AppendTo 4)),
     Ev 0 9 Leader (A (AppendSent 4 [3, 3, 3, 3, 3])),
     Ev 4 14 Follower (E StartElection),
     Ev 3 14 Leader (A HeartBeat),
     Ev 3 14 Leader (A (AppendTo 0)),
     Ev 3 14 Leader (A (AppendTo 1)),
     Ev 3 14 Leader (A (AppendTo 2)),
     Ev 3 14 Leader (A (AppendTo 4)),
     Ev 3 14 Leader (A (AppendSent 4 [71, 2, 71, 71, 71])),
     Ev 0 9 Leader (A (AppendSent 2 [3, 3, 3, 3, 3])),
     Ev 0 9 Leader (A (AppendNotOk 2)),
     Ev 3 14 Leader (A (AppendSent 0 [71, 2, 71, 71, 71])),
     Ev 4 15 Candidate (E BecomeCandidate),
     Ev 4 15 Candidate (E (RequestVoteTo 0)),
     Ev 4 15 Candidate (E (RequestVoteTo 1)),
     Ev 3 14 Leader (A (AppendSent 1 [71, 2, 71, 71, 71])),
     Ev 0 9 Leader (A (AppendSent 3 [3, 3, 3, 3, 3])),
     Ev 3 14 Leader (A (AppendSent 2 [71, 2, 71, 71, 71])),
     Ev 0 9 Leader (A (AppendSent 1 [3, 3, 3, 3, 3])),
     Ev 4 15 Candidate (E (RequestVoteTo 2)),
     Ev 4 15 Candidate (E (RequestVoteTo 3)),
     Ev 0 9 Leader (A (AppendNotOk 3)),
     Ev 2 13 Follower (E (VoteRequested 3 4 15)),
     Ev 2 13 Follower (E (VoteArgs 15 99 2 2 3)),
     Ev 2 13 Follower (E (Indices 1 1)),
     Ev 2 13 Follower (E (TermLower 4)),
     Ev 1 14 Follower (E (VoteRequested (-1) 4 15)),
     Ev 1 14 Follower (E (VoteArgs 15 99 2 2 3)),
     Ev 1 14 Follower (E (Indices 1 1)),
     Ev 1 14 Follower (E (TermLower 4)),
     Ev 2 15 Follower (E (LogTerms 2 2 2 99)),
     Ev 2 15 Follower (E (VoteGranted 15 99 2 2 3)),
     Ev 2 15 Follower (E (Indices 1 1)),
     Ev 1 15 Follower (E (LogTerms 2 2 2 99)),
     Ev 1 15 Follower (E (VoteGranted 15 99 2 2 3)),
     Ev 1 15 Follower (E (Indices 1 1)),
     Ev 4 15 Candidate (E (VoteReply 2 15 True)),
     Ev 4 15 Candidate (E (Indices 2 2)),
     Ev 4 15 Candidate (E (VoteGained 2)),
     Ev 4 15 Candidate (E (CheckElection 2 5)),
     Ev 4 15 Candidate (E (VoteReply 1 15 True)),
     Ev 4 15 Candidate (E (Indices 2 2)),
     Ev 4 15 Candidate (E (VoteGained 1)),
     Ev 4 15 Candidate (E (CheckElection 3 5)),
     Ev 4 16 Leader (E BecomesLeader),
     Ev 4 16 Leader (A HeartBeat),
     Ev 4 16 Leader (A (AppendTo 0)),
     Ev 4 16 Leader (A (AppendTo 1)),
     Ev 4 16 Leader (A (AppendTo 2)),
     Ev 4 16 Leader (A (AppendTo 3)),
     Ev 4 16 Leader (A (AppendSent 1 [100, 100, 100, 100, 100])),
     Ev 4 16 Leader (A (AppendSent 0 [100, 100, 100, 100, 100])),
     Ev 4 16 Leader (A (AppendSent 3 [100, 100, 100, 100, 100])),
     Ev 4 16 Leader (A (AppendSent 2 [100, 100, 100, 100, 100])),
     Ev 0 9 Leader (A (AppendNotOk 2)),
     Ev 2 15 Follower (A (AppendFrom 4 16)),
     Ev 1 15 Follower (A (AppendFrom 4 16)),
     Ev 2 16 Follower (A (OutOfRange 99 3)),
     Ev 1 16 Follower (A (OutOfRange 99 3)),
     Ev 4 16 Leader (A (AppendRefused 2 99 2 100)),
     Ev 4 16 Leader (A (AppendRefused 1 99 2 100))]"

definition run_15 :: "line list" where
  "run_15 = [
     Ev 4 16 Leader (E (VoteNotOk 0)),
     Ev 3 14 Leader (A (AppendNotOk 1)),
     Ev 0 9 Leader (A (AppendNotOk 1)),
     Ev 0 9 Leader (A HeartBeat),
     Ev 0 9 Leader (A (AppendTo 1)),
     Ev 0 9 Leader (A (AppendTo 2)),
     Ev 4 16 Leader (E (VoteNotOk 3)),
     Ev 3 14 Leader (A (AppendNotOk 2)),
     Ev 4 16 Leader (A HeartBeat),
     Ev 3 14 Leader (A HeartBeat),
     Ev 3 14 Leader (A (AppendTo 0)),
     Ev 3 14 Leader (A (AppendTo 1)),
     Ev 3 14 Leader (A (AppendTo 2)),
     Ev 3 14 Leader (A (AppendTo 4)),
     Ev 3 14 Leader (A (AppendNotOk 4)),
     Ev 3 14 Leader (A (AppendNotOk 0)),
     Ev 4 16 Leader (A (AppendTo 0)),
     Ev 4 16 Leader (A (AppendTo 1)),
     Ev 4 16 Leader (A (AppendTo 2)),
     Ev 4 16 Leader (A (AppendTo 3)),
     Ev 4 16 Leader (A (AppendSent 3 [100, 1, 1, 100, 100])),
     Ev 0 9 Leader (A (AppendTo 3)),
     Ev 0 9 Leader (A (AppendTo 4)),
     Ev 0 9 Leader (A (AppendNotOk 4)),
     Ev 3 14 Leader (A (AppendSent 4 [71, 2, 71, 71, 71])),
     Ev 0 9 Leader (A (AppendSent 2 [3, 3, 3, 3, 3])),
     Ev 3 14 Leader (A (AppendSent 2 [71, 2, 71, 71, 71])),
     Ev 3 14 Leader (A (AppendSent 1 [71, 2, 71, 71, 71])),
     Ev 4 16 Leader (A (AppendSent 2 [100, 1, 1, 100, 100])),
     Ev 0 9 Leader (A (AppendSent 3 [3, 3, 3, 3, 3])),
     Ev 4 16 Leader (A (AppendSent 1 [100, 1, 1, 100, 100])),
     Ev 3 14 Leader (A (AppendSent 0 [71, 2, 71, 71, 71])),
     Ev 4 16 Leader (A (AppendSent 0 [100, 1, 1, 100, 100])),
     Ev 0 9 Leader (A (AppendSent 4 [3, 3, 3, 3, 3])),
     Ev 0 9 Leader (A (AppendSent 1 [3, 3, 3, 3, 3])),
     Ev 4 16 Leader (A (AppendNotOk 1)),
     Ev 4 16 Leader (A (AppendNotOk 0)),
     Ev 4 16 Leader (A (AppendNotOk 3)),
     Ev 4 16 Leader (A (AppendNotOk 3)),
     Ev 3 14 Leader (A (AppendNotOk 1)),
     Ev 0 9 Leader (A (AppendNotOk 4)),
     Ev 2 16 Follower (A (AppendFrom 4 16)),
     Ev 2 16 Follower (C (TryApply 1 2)),
     Ev 2 16 Follower (C (Apply 1773 2 2)),
     Ev 2 16 Follower (A (Appended 2 99)),
     Ev 4 16 Leader (A (AppendSuccess 2)),
     Ev 4 16 Leader (C (TryCommit 2 100)),
     Ev 4 16 Leader (C (MatchIndex [-1, -1, 99, -1, -1])),
     Ev 4 16 Leader (C (Logs [(-1, -1), (2, 4416), (2, 1773), (2, 1309), (2, 4482), (2, 8379), (2, 5177), (2,
       1164), (2, 6090), (2, 2806), (2, 7930), (2, 182), (2, 7181), (2, 6600), (2, 3793), (2, 9702), (2, 8908),
       (2, 8007), (2, 2989), (2, 6859), (2, 7889), (2, 5626), (2, 7728), (2, 8876), (2, 9884), (2, 2983), (2,
       4028), (2, 4462), (2, 3792), (2, 4708), (2, 50), (2, 7013), (2, 9572), (2, 9602), (2, 7325), (2, 7361),
       (2, 8025), (2, 1579), (2, 1174), (2, 6091), (2, 7480), (2, 9838), (2, 6477), (2, 5487), (2, 3175), (2,
       718), (2, 6549), (2, 971), (2, 3027), (2, 3157), (2, 7521), (2, 7804), (2, 8539), (2, 134), (2, 3767),
       (2, 8039), (2, 865), (2, 2886), (2, 4108), (2, 3168), (2, 2226), (2, 5469), (2, 7916), (2, 3985), (2,
       4282), (2, 4492), (2, 6867), (2, 7676), (2, 1507), (2, 5470), (2, 3611), (2, 5973), (2, 6824), (2, 2676),
       (2, 3416), (2, 1503), (2, 5433), (2, 5416), (2, 5569), (2, 9230), (2, 3938), (2, 9594), (2, 2616), (2,
       9730), (2, 9779), (2, 2625), (2, 9629), (2, 2057), (2, 1841), (2, 1227), (2, 5897), (2, 5876), (2, 2560),
       (2, 7642), (2, 2942), (2, 8772), (2, 1492), (2, 1909), (2, 7222), (2, 3473)])),
     Ev 4 16 Leader (C (FinishCommit 2)),
     Ev 4 16 Leader (C (TryApply 2 2)),
     Ev 3 14 Leader (A (AppendNotOk 4)),
     Ev 3 14 Leader (A (AppendNotOk 2)),
     Ev 0 9 Leader (A (AppendNotOk 1)),
     Ev 3 14 Leader (A (AppendNotOk 0)),
     Ev 0 9 Leader (A (AppendNotOk 3)),
     Ev 0 9 Leader (A (AppendNotOk 2)),
     Ev 4 16 Leader (A (AppendNotOk 0)),
     Ev 3 14 Leader (A HeartBeat),
     Ev 3 14 Leader (A (AppendTo 0)),
     Ev 3 14 Leader (A (AppendTo 1)),
     Ev 3 14 Leader (A (AppendTo 2)),
     Ev 3 14 Leader (A (AppendTo 4)),
     Ev 3 14 Leader (A (AppendSent 4 [71, 2, 71, 71, 71])),
     Ev 3 14 Leader (A (AppendSent 0 [71, 2, 71, 71, 71])),
     Ev 0 9 Leader (A HeartBeat),
     Ev 3 14 Leader (A (AppendSent 2 [71, 2, 71, 71, 71])),
     Ev 0 9 Leader (A (AppendTo 1)),
     Ev 4 16 Leader (A HeartBeat),
     Ev 4 16 Leader (A (AppendTo 0)),
     Ev 4 16 Leader (A (AppendTo 1)),
     Ev 4 16 Leader (A (AppendTo 2)),
     Ev 4 16 Leader (A (AppendTo 3)),
     Ev 4 16 Leader (A (AppendSent 3 [100, 1, 100, 100, 100])),
     Ev 3 14 Leader (A (AppendSent 1 [71, 2, 71, 71, 71])),
     Ev 4 16 Leader (A (AppendSent 0 [100, 1, 100, 100, 100])),
     Ev 4 16 Leader (A (AppendSent 1 [100, 1, 100, 100, 100])),
     Ev 0 9 Leader (A (AppendTo 2)),
     Ev 0 9 Leader (A (AppendTo 3)),
     Ev 0 9 Leader (A (AppendTo 4)),
     Ev 4 16 Leader (A (AppendSent 2 [100, 1, 100, 100, 100])),
     Ev 0 9 Leader (A (AppendSent 1 [3, 3, 3, 3, 3])),
     Ev 0 9 Leader (A (AppendSent 2 [3, 3, 3, 3, 3])),
     Ev 0 9 Leader (A (AppendSent 3 [3, 3, 3, 3, 3])),
     Ev 0 9 Leader (A (AppendSent 4 [3, 3, 3, 3, 3])),
     Ev 0 9 Leader (A (AppendNotOk 1)),
     Ev 0 9 Leader (A (AppendNotOk 4)),
     Ev 3 14 Leader (A (AppendNotOk 0)),
     Ev 4 16 Leader (A (AppendNotOk 3)),
     Ev 2 16 Follower (A (AppendFrom 4 16)),
     Ev 1 16 Follower (A (AppendFrom 4 16)),
     Ev 1 16 Follower (C (TryApply 1 2)),
     Ev 1 16 Follower (C (Apply 1773 2 2)),
     Ev 2 16 Follower (A (Appended 2 99)),
     Ev 1 16 Follower (A (Appended 2 99)),
     Ev 4 16 Leader (A (AppendSuccess 2)),
     Ev 4 16 Leader (C (TryCommit 2 100)),
     Ev 4 16 Leader (C (MatchIndex [-1, -1, 99, -1, -1])),
     Ev 4 16 Leader (C (Logs [(-1, -1), (2, 4416), (2, 1773), (2, 1309), (2, 4482), (2, 8379), (2, 5177), (2,
       1164), (2, 6090), (2, 2806), (2, 7930), (2, 182), (2, 7181), (2, 6600), (2, 3793), (2, 9702), (2, 8908),
       (2, 8007), (2, 2989), (2, 6859), (2, 7889), (2, 5626), (2, 7728), (2, 8876), (2, 9884), (2, 2983), (2,
       4028), (2, 4462), (2, 3792), (2, 4708), (2, 50), (2, 7013), (2, 9572), (2, 9602), (2, 7325), (2, 7361),
       (2, 8025), (2, 1579), (2, 1174), (2, 6091), (2, 7480), (2, 9838), (2, 6477), (2, 5487), (2, 3175), (2,
       718), (2, 6549), (2, 971), (2, 3027), (2, 3157), (2, 7521), (2, 7804), (2, 8539), (2, 134), (2, 3767),
       (2, 8039), (2, 865), (2, 2886), (2, 4108), (2, 3168), (2, 2226), (2, 5469), (2, 7916), (2, 3985), (2,
       4282), (2, 4492), (2, 6867), (2, 7676), (2, 1507), (2, 5470), (2, 3611), (2, 5973), (2, 6824), (2, 2676),
       (2, 3416), (2, 1503), (2, 5433), (2, 5416), (2, 5569), (2, 9230), (2, 3938), (2, 9594), (2, 2616), (2,
       9730), (2, 9779), (2, 2625), (2, 9629), (2, 2057), (2, 1841), (2, 1227), (2, 5897), (2, 5876), (2, 2560),
       (2, 7642), (2, 2942), (2, 8772), (2, 1492), (2, 1909), (2, 7222), (2, 3473)])),
     Ev 4 16 Leader (C (FinishCommit 2)),
     Ev 4 16 Leader (C (TryApply 2 2)),
     Ev 4 16 Leader (A (AppendSuccess 1)),
     Ev 4 16 Leader (C (TryCommit 2 100)),
     Ev 4 16 Leader (C (MatchIndex [-1, 99, 99, -1, -1])),
     Ev 4 16 Leader (C (Logs [(-1, -1), (2, 4416), (2, 1773), (2, 1309), (2, 4482), (2, 8379), (2, 5177), (2,
       1164), (2, 6090), (2, 2806), (2, 7930), (2, 182), (2, 7181), (2, 6600), (2, 3793), (2, 9702), (2, 8908),
       (2, 8007), (2, 2989), (2, 6859), (2, 7889), (2, 5626), (2, 7728), (2, 8876), (2, 9884), (2, 2983), (2,
       4028), (2, 4462), (2, 3792), (2, 4708), (2, 50), (2, 7013), (2, 9572), (2, 9602), (2, 7325), (2, 7361),
       (2, 8025), (2, 1579), (2, 1174), (2, 6091), (2, 7480), (2, 9838), (2, 6477), (2, 5487), (2, 3175), (2,
       718), (2, 6549), (2, 971), (2, 3027), (2, 3157), (2, 7521), (2, 7804), (2, 8539), (2, 134), (2, 3767),
       (2, 8039), (2, 865), (2, 2886), (2, 4108), (2, 3168), (2, 2226), (2, 5469), (2, 7916), (2, 3985), (2,
       4282), (2, 4492), (2, 6867), (2, 7676), (2, 1507), (2, 5470), (2, 3611), (2, 5973), (2, 6824), (2, 2676),
       (2, 3416), (2, 1503), (2, 5433), (2, 5416), (2, 5569), (2, 9230), (2, 3938), (2, 9594), (2, 2616), (2,
       9730), (2, 9779), (2, 2625), (2, 9629), (2, 2057), (2, 1841), (2, 1227), (2, 5897), (2, 5876), (2, 2560),
       (2, 7642), (2, 2942), (2, 8772), (2, 1492), (2, 1909), (2, 7222), (2, 3473)])),
     Ev 4 16 Leader (C (FinishCommit 2)),
     Ev 4 16 Leader (C (TryApply 2 2)),
     Ev 0 9 Leader (A (AppendNotOk 2)),
     Ev 3 14 Leader (A (AppendNotOk 1)),
     Ev 3 14 Leader (A (AppendNotOk 2)),
     Ev 4 16 Leader (A (AppendNotOk 0)),
     Ev 3 14 Leader (A (AppendNotOk 4)),
     Ev 4 16 Leader (A HeartBeat),
     Ev 4 16 Leader (A (AppendTo 0)),
     Ev 0 9 Leader (A (AppendNotOk 3)),
     Ev 4 16 Leader (A (AppendTo 1)),
     Ev 0 9 Leader (A HeartBeat),
     Ev 4 16 Leader (A (AppendTo 2)),
     Ev 3 14 Leader (A HeartBeat),
     Ev 3 14 Leader (A (AppendTo 0)),
     Ev 4 16 Leader (A (AppendTo 3)),
     Ev 0 9 Leader (A (AppendTo 1)),
     Ev 0 9 Leader (A (AppendTo 2)),
     Ev 0 9 Leader (A (AppendTo 3)),
     Ev 0 9 Leader (A (AppendTo 4)),
     Ev 3 14 Leader (A (AppendTo 1)),
     Ev 3 14 Leader (A (AppendTo 2)),
     Ev 3 14 Leader (A (AppendTo 4)),
     Ev 3 14 Leader (A (AppendSent 0 [71, 2, 71, 71, 71])),
     Ev 0 9 Leader (A (AppendSent 1 [3, 3, 3, 3, 3])),
     Ev 0 9 Leader (A (AppendSent 2 [3, 3, 3, 3, 3])),
     Ev 4 16 Leader (A (AppendSent 0 [100, 100, 100, 100, 100])),
     Ev 3 14 Leader (A (AppendSent 1 [71, 2, 71, 71, 71])),
     Ev 0 9 Leader (A (AppendSent 4 [3, 3, 3, 3, 3])),
     Ev 0 9 Leader (A (AppendSent 3 [3, 3, 3, 3, 3])),
     Ev 3 14 Leader (A (AppendSent 4 [71, 2, 71, 71, 71])),
     Ev 4 16 Leader (A (AppendSent 2 [100, 100, 100, 100, 100])),
     Ev 4 16 Leader (A (AppendSent 1 [100, 100, 100, 100, 100])),
     Ev 3 14 Leader (A (AppendSent 2 [71, 2, 71, 71, 71])),
     Ev 4 16 Leader (A (AppendSent 3 [100, 100, 100, 100, 100])),
     Ev 4 16 Leader (A (AppendNotOk 1)),
     Ev 0 9 Leader (A (AppendNotOk 2)),
     Ev 3 14 Leader (A (AppendNotOk 1)),
     Ev 3 14 Leader (A (AppendNotOk 2)),
     Ev 0 9 Leader (A (AppendNotOk 4)),
     Ev 2 16 Follower (A (AppendFrom 4 16)),
     Ev 2 16 Follower (A (Appended 2 99)),
     Ev 4 16 Leader (A (AppendSuccess 2)),
     Ev 4 16 Leader (C (TryCommit 2 100)),
     Ev 4 16 Leader (C (MatchIndex [-1, 99, 99, -1, -1]))]"

definition run_16 :: "line list" where
  "run_16 = [
     Ev 4 16 Leader (C (Logs [(-1, -1), (2, 4416), (2, 1773), (2, 1309), (2, 4482), (2, 8379), (2, 5177), (2,
       1164), (2, 6090), (2, 2806), (2, 7930), (2, 182), (2, 7181), (2, 6600), (2, 3793), (2, 9702), (2, 8908),
       (2, 8007), (2, 2989), (2, 6859), (2, 7889), (2, 5626), (2, 7728), (2, 8876), (2, 9884), (2, 2983), (2,
       4028), (2, 4462), (2, 3792), (2, 4708), (2, 50), (2, 7013), (2, 9572), (2, 9602), (2, 7325), (2, 7361),
       (2, 8025), (2, 1579), (2, 1174), (2, 6091), (2, 7480), (2, 9838), (2, 6477), (2, 5487), (2, 3175), (2,
       718), (2, 6549), (2, 971), (2, 3027), (2, 3157), (2, 7521), (2, 7804), (2, 8539), (2, 134), (2, 3767),
       (2, 8039), (2, 865), (2, 2886), (2, 4108), (2, 3168), (2, 2226), (2, 5469), (2, 7916), (2, 3985), (2,
       4282), (2, 4492), (2, 6867), (2, 7676), (2, 1507), (2, 5470), (2, 3611), (2, 5973), (2, 6824), (2, 2676),
       (2, 3416), (2, 1503), (2, 5433), (2, 5416), (2, 5569), (2, 9230), (2, 3938), (2, 9594), (2, 2616), (2,
       9730), (2, 9779), (2, 2625), (2, 9629), (2, 2057), (2, 1841), (2, 1227), (2, 5897), (2, 5876), (2, 2560),
       (2, 7642), (2, 2942), (2, 8772), (2, 1492), (2, 1909), (2, 7222), (2, 3473)])),
     Ev 4 16 Leader (C (FinishCommit 2)),
     Ev 4 16 Leader (C (TryApply 2 2)),
     Ev 4 16 Leader (A (AppendNotOk 0)),
     Ev 3 14 Leader (A (AppendNotOk 0)),
     Ev 3 14 Leader (A (AppendNotOk 4)),
     Ev 4 16 Leader (A (AppendNotOk 3)),
     Ev 0 9 Leader (A (AppendNotOk 1)),
     Ev 0 9 Leader (A (AppendNotOk 3)),
     Ev 3 14 Leader (A HeartBeat),
     Ev 3 14 Leader (A (AppendTo 0)),
     Ev 3 14 Leader (A (AppendTo 1)),
     Ev 3 14 Leader (A (AppendTo 2)),
     Ev 3 14 Leader (A (AppendTo 4)),
     Ev 4 16 Leader (A HeartBeat),
     Ev 3 14 Leader (A (AppendSent 0 [71, 2, 71, 71, 71])),
     Ev 4 16 Leader (A (AppendTo 0)),
     Ev 4 16 Leader (A (AppendTo 1)),
     Ev 4 16 Leader (A (AppendTo 2)),
     Ev 0 9 Leader (A HeartBeat),
     Ev 0 9 Leader (A (AppendTo 1)),
     Ev 0 9 Leader (A (AppendTo 2)),
     Ev 4 16 Leader (A (AppendTo 3)),
     Ev 0 9 Leader (A (AppendTo 3)),
     Ev 4 16 Leader (A (AppendSent 2 [100, 100, 100, 100, 100])),
     Ev 4 16 Leader (A (AppendSent 3 [100, 100, 100, 100, 100])),
     Ev 0 9 Leader (A (AppendTo 4)),
     Ev 0 9 Leader (A (AppendSent 2 [3, 3, 3, 3, 3])),
     Ev 0 9 Leader (A (AppendSent 4 [3, 3, 3, 3, 3])),
     Ev 3 14 Leader (A (AppendSent 4 [71, 2, 71, 71, 71])),
     Ev 4 16 Leader (A (AppendSent 0 [100, 100, 100, 100, 100])),
     Ev 4 16 Leader (A (AppendSent 1 [100, 100, 100, 100, 100])),
     Ev 3 14 Leader (A (AppendSent 1 [71, 2, 71, 71, 71])),
     Ev 3 14 Leader (A (AppendSent 2 [71, 2, 71, 71, 71])),
     Ev 0 9 Leader (A (AppendSent 1 [3, 3, 3, 3, 3])),
     Ev 0 9 Leader (A (AppendSent 3 [3, 3, 3, 3, 3])),
     Ev 4 16 Leader (A (AppendNotOk 3)),
     Ev 0 9 Leader (A (AppendNotOk 1)),
     Ev 2 16 Follower (A (AppendFrom 0 9)),
     Ev 2 16 Follower (A TermSmaller),
     Ev 0 9 Leader (A (AppendNotOk 2)),
     Ev 4 16 Leader (A (AppendNotOk 1)),
     Ev 3 14 Leader (A (AppendNotOk 0)),
     Ev 4 16 Leader (A (AppendNotOk 2)),
     Ev 0 9 Leader (A (AppendNotOk 4)),
     Ev 0 9 Leader (A (AppendNotOk 3)),
     Ev 4 16 Leader (A (AppendNotOk 0)),
     Ev 3 14 Leader (A (AppendNotOk 2)),
     Ev 3 14 Leader (A (AppendNotOk 4)),
     Ev 3 14 Leader (A HeartBeat),
     Ev 3 14 Leader (A (AppendTo 0)),
     Ev 3 14 Leader (A (AppendTo 1)),
     Ev 3 14 Leader (A (AppendTo 2)),
     Ev 3 14 Leader (A (AppendTo 4)),
     Ev 3 14 Leader (A (AppendNotOk 1)),
     Ev 3 14 Leader (A (AppendSent 0 [71, 2, 71, 71, 71])),
     Ev 4 16 Leader (A HeartBeat),
     Ev 4 16 Leader (A (AppendTo 0)),
     Ev 4 16 Leader (A (AppendTo 1)),
     Ev 4 16 Leader (A (AppendTo 2)),
     Ev 4 16 Leader (A (AppendTo 3)),
     Ev 4 16 Leader (A (AppendSent 3 [100, 100, 100, 100, 100])),
     Ev 4 16 Leader (A (AppendSent 0 [100, 100, 100, 100, 100])),
     Ev 3 14 Leader (A (AppendSent 1 [71, 2, 71, 71, 71])),
     Ev 4 16 Leader (A (AppendSent 1 [100, 100, 100, 100, 100])),
     Ev 4 16 Leader (A (AppendSent 2 [100, 100, 100, 100, 100])),
     Ev 0 9 Leader (A HeartBeat),
     Ev 0 9 Leader (A (AppendTo 1)),
     Ev 0 9 Leader (A (AppendTo 2)),
     Ev 0 9 Leader (A (AppendTo 3)),
     Ev 0 9 Leader (A (AppendTo 4)),
     Ev 3 14 Leader (A (AppendSent 2 [71, 2, 71, 71, 71])),
     Ev 0 9 Leader (A (AppendSent 1 [3, 3, 3, 3, 3])),
     Ev 3 14 Leader (A (AppendSent 4 [71, 2, 71, 71, 71])),
     Ev 0 9 Leader (A (AppendSent 2 [3, 3, 3, 3, 3])),
     Ev 0 9 Leader (A (AppendSent 3 [3, 3, 3, 3, 3])),
     Ev 0 9 Leader (A (AppendSent 4 [3, 3, 3, 3, 3])),
     Ev 0 9 Leader (A (AppendNotOk 1)),
     Ev 0 9 Leader (A (AppendNotOk 4)),
     Ev 4 16 Leader (A (AppendNotOk 2)),
     Ev 3 14 Leader (A (AppendNotOk 4)),
     Ev 3 14 Leader (A (AppendNotOk 2)),
     Ev 3 14 Leader (A (AppendNotOk 0)),
     Ev 4 16 Leader (A (AppendNotOk 0)),
     Ev 0 9 Leader (A (AppendNotOk 3)),
     Ev 3 14 Leader (A (AppendNotOk 1)),
     Ev 4 16 Leader (A (AppendNotOk 1)),
     Ev 4 16 Leader (A (AppendNotOk 3)),
     Ev 0 9 Leader (A (AppendNotOk 2)),
     Ev 3 14 Leader (A HeartBeat),
     Ev 3 14 Leader (A (AppendTo 0)),
     Ev 4 16 Leader (A HeartBeat),
     Ev 3 14 Leader (A (AppendTo 1)),
     Ev 4 16 Leader (A (AppendTo 0)),
     Ev 4 16 Leader (A (AppendTo 1)),
     Ev 3 14 Leader (A (AppendTo 2)),
     Ev 4 16 Leader (A (AppendTo 2)),
     Ev 4 16 Leader (A (AppendTo 3)),
     Ev 3 14 Leader (A (AppendTo 4)),
     Ev 4 16 Leader (A (AppendSent 2 [100, 100, 100, 100, 100])),
     Ev 3 14 Leader (A (AppendSent 1 [71, 2, 71, 71, 71])),
     Ev 4 16 Leader (A (AppendSent 1 [100, 100, 100, 100, 100])),
     Ev 4 16 Leader (A (AppendSent 0 [100, 100, 100, 100, 100])),
     Ev 0 9 Leader (A HeartBeat),
     Ev 0 9 Leader (A (AppendTo 1)),
     Ev 0 9 Leader (A (AppendTo 2)),
     Ev 0 9 Leader (A (AppendTo 3)),
     Ev 0 9 Leader (A (AppendTo 4)),
     Ev 3 14 Leader (A (AppendSent 0 [71, 2, 71, 71, 71])),
     Ev 0 9 Leader (A (AppendSent 4 [3, 3, 3, 3, 3])),
     Ev 3 14 Leader (A (AppendSent 2 [71, 2, 71, 71, 71])),
     Ev 0 9 Leader (A (AppendSent 1 [3, 3, 3, 3, 3])),
     Ev 4 16 Leader (A (AppendSent 3 [100, 100, 100, 100, 100])),
     Ev 3 14 Leader (A (AppendSent 4 [71, 2, 71, 71, 71])),
     Ev 0 9 Leader (A (AppendSent 2 [3, 3, 3, 3, 3])),
     Ev 0 9 Leader (A (AppendSent 3 [3, 3, 3, 3, 3])),
     Ev 0 9 Leader (A (AppendNotOk 2)),
     Ev 3 14 Leader (A (AppendNotOk 4)),
     Ev 3 14 Leader (A (AppendNotOk 0)),
     Ev 4 16 Leader (A (AppendNotOk 3)),
     Ev 4 16 Leader (A (AppendNotOk 1)),
     Ev 4 16 Leader (A (AppendNotOk 2)),
     Ev 0 9 Leader (A (AppendNotOk 3)),
     Ev 4 16 Leader (A (AppendNotOk 0)),
     Ev 0 9 Leader (A (AppendNotOk 4)),
     Ev 3 14 Leader (A (AppendNotOk 1)),
     Ev 3 14 Leader (A (AppendNotOk 2)),
     Ev 3 14 Leader (A HeartBeat),
     Ev 4 16 Leader (A HeartBeat),
     Ev 4 16 Leader (A (AppendTo 0)),
     Ev 0 9 Leader (A HeartBeat),
     Ev 4 16 Leader (A (AppendTo 1)),
     Ev 3 14 Leader (A (AppendTo 0)),
     Ev 4 16 Leader (A (AppendTo 2)),
     Ev 0 9 Leader (A (AppendTo 1)),
     Ev 3 14 Leader (A (AppendTo 1)),
     Ev 3 14 Leader (A (AppendTo 2)),
     Ev 3 14 Leader (A (AppendTo 4)),
     Ev 0 9 Leader (A (AppendTo 2)),
     Ev 0 9 Leader (A (AppendTo 3)),
     Ev 0 9 Leader (A (AppendTo 4)),
     Ev 4 16 Leader (A (AppendTo 3)),
     Ev 3 14 Leader (A (AppendSent 1 [71, 2, 71, 71, 71])),
     Ev 0 9 Leader (A (AppendSent 2 [3, 3, 3, 3, 3])),
     Ev 4 16 Leader (A (AppendSent 0 [100, 100, 100, 100, 100])),
     Ev 3 14 Leader (A (AppendSent 0 [71, 2, 71, 71, 71])),
     Ev 0 9 Leader (A (AppendNotOk 1)),
     Ev 0 9 Leader (A (AppendSent 1 [3, 3, 3, 3, 3])),
     Ev 3 14 Leader (A (AppendSent 2 [71, 2, 71, 71, 71])),
     Ev 4 16 Leader (A (AppendSent 1 [100, 100, 100, 100, 100]))]"

definition run_17 :: "line list" where
  "run_17 = [
     Ev 0 9 Leader (A (AppendSent 3 [3, 3, 3, 3, 3])),
     Ev 3 14 Leader (A (AppendSent 4 [71, 2, 71, 71, 71])),
     Ev 4 16 Leader (A (AppendSent 2 [100, 100, 100, 100, 100])),
     Ev 4 16 Leader (A (AppendSent 3 [100, 100, 100, 100, 100])),
     Ev 0 9 Leader (A (AppendSent 4 [3, 3, 3, 3, 3])),
     Ev 2 16 Follower (A (AppendFrom 4 16)),
     Ev 2 16 Follower (A (Appended 16 122)),
     Ev 4 16 Leader (A (AppendSuccess 2)),
     Ev 4 16 Leader (C (TryCommit 2 123)),
     Ev 4 16 Leader (C (MatchIndex [-1, 99, 122, -1, -1])),
     Ev 4 16 Leader (C (Logs [(-1, -1), (2, 4416), (2, 1773), (2, 1309), (2, 4482), (2, 8379), (2, 5177), (2,
       1164), (2, 6090), (2, 2806), (2, 7930), (2, 182), (2, 7181), (2, 6600), (2, 3793), (2, 9702), (2, 8908),
       (2, 8007), (2, 2989), (2, 6859), (2, 7889), (2, 5626), (2, 7728), (2, 8876), (2, 9884), (2, 2983), (2,
       4028), (2, 4462), (2, 3792), (2, 4708), (2, 50), (2, 7013), (2, 9572), (2, 9602), (2, 7325), (2, 7361),
       (2, 8025), (2, 1579), (2, 1174), (2, 6091), (2, 7480), (2, 9838), (2, 6477), (2, 5487), (2, 3175), (2,
       718), (2, 6549), (2, 971), (2, 3027), (2, 3157), (2, 7521), (2, 7804), (2, 8539), (2, 134), (2, 3767),
       (2, 8039), (2, 865), (2, 2886), (2, 4108), (2, 3168), (2, 2226), (2, 5469), (2, 7916), (2, 3985), (2,
       4282), (2, 4492), (2, 6867), (2, 7676), (2, 1507), (2, 5470), (2, 3611), (2, 5973), (2, 6824), (2, 2676),
       (2, 3416), (2, 1503), (2, 5433), (2, 5416), (2, 5569), (2, 9230), (2, 3938), (2, 9594), (2, 2616), (2,
       9730), (2, 9779), (2, 2625), (2, 9629), (2, 2057), (2, 1841), (2, 1227), (2, 5897), (2, 5876), (2, 2560),
       (2, 7642), (2, 2942), (2, 8772), (2, 1492), (2, 1909), (2, 7222), (2, 3473), (16, 9249), (16, 7411), (16,
       8552), (16, 8352), (16, 9240), (16, 811), (16, 4361), (16, 749), (16, 9334), (16, 6036), (16, 6085), (16,
       8263), (16, 5985), (16, 349), (16, 7037), (16, 6647), (16, 1347), (16, 1977), (16, 9914), (16, 4295),
       (16, 7135), (16, 139), (16, 4689)])),
     Ev 4 16 Leader (C (FinishCommit 2)),
     Ev 4 16 Leader (C (TryApply 2 2)),
     Ev 1 16 Follower (A (AppendFrom 4 16)),
     Ev 1 16 Follower (A (Appended 16 122)),
     Ev 4 16 Leader (A (AppendSuccess 1)),
     Ev 4 16 Leader (C (TryCommit 2 125)),
     Ev 4 16 Leader (C (MatchIndex [-1, 122, 122, -1, -1])),
     Ev 4 16 Leader (C (Logs [(-1, -1), (2, 4416), (2, 1773), (2, 1309), (2, 4482), (2, 8379), (2, 5177), (2,
       1164), (2, 6090), (2, 2806), (2, 7930), (2, 182), (2, 7181), (2, 6600), (2, 3793), (2, 9702), (2, 8908),
       (2, 8007), (2, 2989), (2, 6859), (2, 7889), (2, 5626), (2, 7728), (2, 8876), (2, 9884), (2, 2983), (2,
       4028), (2, 4462), (2, 3792), (2, 4708), (2, 50), (2, 7013), (2, 9572), (2, 9602), (2, 7325), (2, 7361),
       (2, 8025), (2, 1579), (2, 1174), (2, 6091), (2, 7480), (2, 9838), (2, 6477), (2, 5487), (2, 3175), (2,
       718), (2, 6549), (2, 971), (2, 3027), (2, 3157), (2, 7521), (2, 7804), (2, 8539), (2, 134), (2, 3767),
       (2, 8039), (2, 865), (2, 2886), (2, 4108), (2, 3168), (2, 2226), (2, 5469), (2, 7916), (2, 3985), (2,
       4282), (2, 4492), (2, 6867), (2, 7676), (2, 1507), (2, 5470), (2, 3611), (2, 5973), (2, 6824), (2, 2676),
       (2, 3416), (2, 1503), (2, 5433), (2, 5416), (2, 5569), (2, 9230), (2, 3938), (2, 9594), (2, 2616), (2,
       9730), (2, 9779), (2, 2625), (2, 9629), (2, 2057), (2, 1841), (2, 1227), (2, 5897), (2, 5876), (2, 2560),
       (2, 7642), (2, 2942), (2, 8772), (2, 1492), (2, 1909), (2, 7222), (2, 3473), (16, 9249), (16, 7411), (16,
       8552), (16, 8352), (16, 9240), (16, 811), (16, 4361), (16, 749), (16, 9334), (16, 6036), (16, 6085), (16,
       8263), (16, 5985), (16, 349), (16, 7037), (16, 6647), (16, 1347), (16, 1977), (16, 9914), (16, 4295),
       (16, 7135), (16, 139), (16, 4689), (16, 6732), (16, 7715)])),
     Ev 4 16 Leader (C (NewCommit 2 100 3 2 16 16)),
     Ev 4 16 Leader (C (NewCommit 100 101 3 2 16 16)),
     Ev 4 16 Leader (C (NewCommit 101 102 3 2 16 16)),
     Ev 4 16 Leader (C (NewCommit 102 103 3 2 16 16)),
     Ev 4 16 Leader (C (NewCommit 103 104 3 2 16 16)),
     Ev 4 16 Leader (C (NewCommit 104 105 3 2 16 16)),
     Ev 4 16 Leader (C (NewCommit 105 106 3 2 16 16)),
     Ev 4 16 Leader (C (NewCommit 106 107 3 2 16 16)),
     Ev 4 16 Leader (C (NewCommit 107 108 3 2 16 16)),
     Ev 4 16 Leader (C (NewCommit 108 109 3 2 16 16)),
     Ev 4 16 Leader (C (NewCommit 109 110 3 2 16 16)),
     Ev 4 16 Leader (C (NewCommit 110 111 3 2 16 16)),
     Ev 4 16 Leader (C (NewCommit 111 112 3 2 16 16)),
     Ev 4 16 Leader (C (NewCommit 112 113 3 2 16 16)),
     Ev 4 16 Leader (C (NewCommit 113 114 3 2 16 16)),
     Ev 4 16 Leader (C (NewCommit 114 115 3 2 16 16)),
     Ev 4 16 Leader (C (NewCommit 115 116 3 2 16 16)),
     Ev 4 16 Leader (C (NewCommit 116 117 3 2 16 16)),
     Ev 4 16 Leader (C (NewCommit 117 118 3 2 16 16)),
     Ev 4 16 Leader (C (NewCommit 118 119 3 2 16 16)),
     Ev 4 16 Leader (C (NewCommit 119 120 3 2 16 16)),
     Ev 4 16 Leader (C (NewCommit 120 121 3 2 16 16)),
     Ev 4 16 Leader (C (NewCommit 121 122 3 2 16 16)),
     Ev 4 16 Leader (C (FinishCommit 122)),
     Ev 4 16 Leader (C (TryApply 2 122)),
     Ev 4 16 Leader (C (Apply 1309 3 2)),
     Ev 4 16 Leader (C (Apply 4482 4 2)),
     Ev 4 16 Leader (C (Apply 8379 5 2)),
     Ev 4 16 Leader (C (Apply 5177 6 2)),
     Ev 4 16 Leader (C (Apply 1164 7 2)),
     Ev 4 16 Leader (C (Apply 6090 8 2)),
     Ev 4 16 Leader (C (Apply 2806 9 2)),
     Ev 4 16 Leader (C (Apply 7930 10 2)),
     Ev 4 16 Leader (C (Apply 182 11 2)),
     Ev 4 16 Leader (C (Apply 7181 12 2)),
     Ev 4 16 Leader (C (Apply 6600 13 2)),
     Ev 4 16 Leader (C (Apply 3793 14 2)),
     Ev 4 16 Leader (C (Apply 9702 15 2)),
     Ev 4 16 Leader (C (Apply 8908 16 2)),
     Ev 4 16 Leader (C (Apply 8007 17 2)),
     Ev 4 16 Leader (C (Apply 2989 18 2)),
     Ev 4 16 Leader (C (Apply 6859 19 2)),
     Ev 4 16 Leader (C (Apply 7889 20 2)),
     Ev 4 16 Leader (C (Apply 5626 21 2)),
     Ev 4 16 Leader (C (Apply 7728 22 2)),
     Ev 4 16 Leader (C (Apply 8876 23 2)),
     Ev 4 16 Leader (C (Apply 9884 24 2)),
     Ev 4 16 Leader (C (Apply 2983 25 2)),
     Ev 4 16 Leader (C (Apply 4028 26 2)),
     Ev 4 16 Leader (C (Apply 4462 27 2)),
     Ev 4 16 Leader (C (Apply 3792 28 2)),
     Ev 4 16 Leader (C (Apply 4708 29 2)),
     Ev 4 16 Leader (C (Apply 50 30 2)),
     Ev 4 16 Leader (C (Apply 7013 31 2)),
     Ev 4 16 Leader (C (Apply 9572 32 2)),
     Ev 4 16 Leader (C (Apply 9602 33 2)),
     Ev 4 16 Leader (C (Apply 7325 34 2)),
     Ev 4 16 Leader (C (Apply 7361 35 2)),
     Ev 4 16 Leader (C (Apply 8025 36 2)),
     Ev 4 16 Leader (C (Apply 1579 37 2)),
     Ev 4 16 Leader (C (Apply 1174 38 2)),
     Ev 4 16 Leader (C (Apply 6091 39 2)),
     Ev 4 16 Leader (C (Apply 7480 40 2)),
     Ev 4 16 Leader (C (Apply 9838 41 2)),
     Ev 4 16 Leader (C (Apply 6477 42 2)),
     Ev 4 16 Leader (C (Apply 5487 43 2)),
     Ev 4 16 Leader (C (Apply 3175 44 2)),
     Ev 4 16 Leader (C (Apply 718 45 2)),
     Ev 4 16 Leader (C (Apply 6549 46 2)),
     Ev 4 16 Leader (C (Apply 971 47 2)),
     Ev 4 16 Leader (C (Apply 3027 48 2)),
     Ev 4 16 Leader (C (Apply 3157 49 2)),
     Ev 4 16 Leader (C (Apply 7521 50 2)),
     Ev 4 16 Leader (C (Apply 7804 51 2)),
     Ev 4 16 Leader (C (Apply 8539 52 2)),
     Ev 4 16 Leader (C (Apply 134 53 2)),
     Ev 4 16 Leader (C (Apply 3767 54 2)),
     Ev 4 16 Leader (C (Apply 8039 55 2)),
     Ev 4 16 Leader (C (Apply 865 56 2)),
     Ev 4 16 Leader (C (Apply 2886 57 2)),
     Ev 4 16 Leader (C (Apply 4108 58 2)),
     Ev 4 16 Leader (C (Apply 3168 59 2)),
     Ev 4 16 Leader (C (Apply 2226 60 2)),
     Ev 4 16 Leader (C (Apply 5469 61 2)),
     Ev 4 16 Leader (C (Apply 7916 62 2)),
     Ev 4 16 Leader (C (Apply 3985 63 2)),
     Ev 4 16 Leader (C (Apply 4282 64 2)),
     Ev 4 16 Leader (C (Apply 4492 65 2)),
     Ev 4 16 Leader (C (Apply 6867 66 2)),
     Ev 4 16 Leader (C (Apply 7676 67 2)),
     Ev 4 16 Leader (C (Apply 1507 68 2)),
     Ev 4 16 Leader (C (Apply 5470 69 2)),
     Ev 4 16 Leader (C (Apply 3611 70 2)),
     Ev 4 16 Leader (C (Apply 5973 71 2)),
     Ev 4 16 Leader (C (Apply 6824 72 2)),
     Ev 4 16 Leader (C (Apply 2676 73 2)),
     Ev 4 16 Leader (C (Apply 3416 74 2)),
     Ev 4 16 Leader (C (Apply 1503 75 2)),
     Ev 4 16 Leader (C (Apply 5433 76 2)),
     Ev 4 16 Leader (C (Apply 5416 77 2)),
     Ev 4 16 Leader (C (Apply 5569 78 2)),
     Ev 4 16 Leader (C (Apply 9230 79 2)),
     Ev 4 16 Leader (C (Apply 3938 80 2)),
     Ev 4 16 Leader (C (Apply 9594 81 2)),
     Ev 4 16 Leader (C (Apply 2616 82 2)),
     Ev 4 16 Leader (C (Apply 9730 83 2)),
     Ev 4 16 Leader (C (Apply 9779 84 2)),
     Ev 4 16 Leader (C (Apply 2625 85 2)),
     Ev 4 16 Leader (C (Apply 9629 86 2)),
     Ev 4 16 Leader (C (Apply 2057 87 2)),
     Ev 4 16 Leader (C (Apply 1841 88 2)),
     Ev 4 16 Leader (C (Apply 1227 89 2)),
     Ev 4 16 Leader (C (Apply 5897 90 2)),
     Ev 4 16 Leader (C (Apply 5876 91 2)),
     Ev 4 16 Leader (C (Apply 2560 92 2)),
     Ev 4 16 Leader (C (Apply 7642 93 2)),
     Ev 4 16 Leader (C (Apply 2942 94 2)),
     Ev 4 16 Leader (C (Apply 8772 95 2)),
     Ev 4 16 Leader (C (Apply 1492 96 2)),
     Ev 4 16 Leader (C (Apply 1909 97 2)),
     Ev 4 16 Leader (C (Apply 7222 98 2)),
     Ev 4 16 Leader (C (Apply 3473 99 2)),
     Ev 4 16 Leader (C (Apply 9249 100 16)),
     Ev 4 16 Leader (C (Apply 7411 101 16)),
     Ev 4 16 Leader (C (Apply 8552 102 16)),
     Ev 4 16 Leader (C (Apply 8352 103 16)),
     Ev 4 16 Leader (C (Apply 9240 104 16)),
     Ev 4 16 Leader (C (Apply 811 105 16)),
     Ev 4 16 Leader (C (Apply 4361 106 16)),
     Ev 4 16 Leader (C (Apply 749 107 16)),
     Ev 4 16 Leader (C (Apply 9334 108 16))]"

definition run_18 :: "line list" where
  "run_18 = [
     Ev 4 16 Leader (C (Apply 6036 109 16)),
     Ev 4 16 Leader (C (Apply 6085 110 16)),
     Ev 4 16 Leader (C (Apply 8263 111 16)),
     Ev 4 16 Leader (C (Apply 5985 112 16)),
     Ev 4 16 Leader (C (Apply 349 113 16)),
     Ev 4 16 Leader (C (Apply 7037 114 16)),
     Ev 4 16 Leader (C (Apply 6647 115 16)),
     Ev 4 16 Leader (C (Apply 1347 116 16)),
     Ev 4 16 Leader (C (Apply 1977 117 16)),
     Ev 4 16 Leader (C (Apply 9914 118 16)),
     Ev 4 16 Leader (C (Apply 4295 119 16)),
     Ev 4 16 Leader (C (Apply 7135 120 16)),
     Ev 4 16 Leader (C (Apply 139 121 16)),
     Ev 4 16 Leader (C (Apply 4689 122 16)),
     Ev 0 9 Leader (A (AppendNotOk 3)),
     Ev 3 14 Leader (A (AppendNotOk 1)),
     Ev 0 9 Leader (A (AppendNotOk 4)),
     Ev 3 14 Leader (A (AppendNotOk 0)),
     Ev 0 9 Leader (A (AppendNotOk 2)),
     Ev 4 16 Leader (A (AppendNotOk 3)),
     Ev 3 14 Leader (A (AppendNotOk 2)),
     Ev 3 14 Leader (A (AppendNotOk 4)),
     Ev 4 16 Leader (A (AppendNotOk 0)),
     Ev 0 9 Leader (A (AppendNotOk 1)),
     Ev 0 9 Leader (A HeartBeat),
     Ev 0 9 Leader (A (AppendTo 1)),
     Ev 0 9 Leader (A (AppendTo 2)),
     Ev 0 9 Leader (A (AppendTo 3)),
     Ev 0 9 Leader (A (AppendTo 4)),
     Ev 3 14 Leader (A HeartBeat),
     Ev 3 14 Leader (A (AppendTo 0)),
     Ev 3 14 Leader (A (AppendTo 1)),
     Ev 3 14 Leader (A (AppendTo 2)),
     Ev 3 14 Leader (A (AppendTo 4)),
     Ev 4 16 Leader (A HeartBeat),
     Ev 4 16 Leader (A (AppendTo 0)),
     Ev 4 16 Leader (A (AppendTo 1)),
     Ev 4 16 Leader (A (AppendTo 2)),
     Ev 3 14 Leader (A (AppendSent 4 [71, 2, 71, 71, 71])),
     Ev 4 16 Leader (A (AppendTo 3)),
     Ev 4 16 Leader (A (AppendSent 2 [100, 123, 123, 100, 100])),
     Ev 3 14 Leader (A (AppendSent 0 [71, 2, 71, 71, 71])),
     Ev 4 16 Leader (A (AppendSent 3 [100, 123, 123, 100, 100])),
     Ev 3 14 Leader (A (AppendSent 1 [71, 2, 71, 71, 71])),
     Ev 4 16 Leader (A (AppendSent 0 [100, 123, 123, 100, 100])),
     Ev 0 9 Leader (A (AppendSent 2 [3, 3, 3, 3, 3])),
     Ev 4 16 Leader (A (AppendNotOk 0)),
     Ev 4 16 Leader (A (AppendSent 1 [100, 123, 123, 100, 100])),
     Ev 0 9 Leader (A (AppendSent 1 [3, 3, 3, 3, 3])),
     Ev 3 14 Leader (A (AppendSent 2 [71, 2, 71, 71, 71])),
     Ev 0 9 Leader (A (AppendSent 3 [3, 3, 3, 3, 3])),
     Ev 0 9 Leader (A (AppendSent 4 [3, 3, 3, 3, 3])),
     Ev 1 16 Follower (A (AppendFrom 0 9)),
     Ev 1 16 Follower (A TermSmaller),
     Ev 2 16 Follower (A (AppendFrom 0 9)),
     Ev 2 16 Follower (A TermSmaller),
     Ev 0 9 Leader (A (AppendNotOk 3)),
     Ev 3 14 Leader (A (AppendNotOk 0)),
     Ev 0 9 Leader (A (AppendNotOk 4)),
     Ev 3 14 Leader (A (AppendNotOk 1)),
     Ev 4 16 Leader (A (AppendNotOk 3)),
     Ev 4 16 Leader (A (AppendNotOk 2)),
     Ev 3 14 Leader (A (AppendNotOk 4)),
     Ev 3 14 Leader (A (AppendNotOk 2)),
     Ev 4 16 Leader (A (AppendNotOk 1)),
     Ev 3 14 Leader (A HeartBeat),
     Ev 4 16 Leader (A HeartBeat),
     Ev 3 14 Leader (A (AppendTo 0)),
     Ev 4 16 Leader (A (AppendTo 0)),
     Ev 0 9 Leader (A HeartBeat),
     Ev 0 9 Leader (A (AppendTo 1)),
     Ev 4 16 Leader (A (AppendTo 1)),
     Ev 4 16 Leader (A (AppendTo 2)),
     Ev 3 14 Leader (A (AppendTo 1)),
     Ev 3 14 Leader (A (AppendTo 2)),
     Ev 0 9 Leader (A (AppendTo 2)),
     Ev 4 16 Leader (A (AppendTo 3)),
     Ev 0 9 Leader (A (AppendTo 3)),
     Ev 0 9 Leader (A (AppendTo 4)),
     Ev 3 14 Leader (A (AppendTo 4)),
     Ev 4 16 Leader (A (AppendSent 0 [100, 123, 123, 100, 100])),
     Ev 0 9 Leader (A (AppendSent 1 [3, 3, 3, 3, 3])),
     Ev 3 14 Leader (A (AppendSent 0 [71, 2, 71, 71, 71])),
     Ev 0 9 Leader (A (AppendSent 3 [3, 3, 3, 3, 3])),
     Ev 4 16 Leader (A (AppendSent 1 [100, 123, 123, 100, 100])),
     Ev 3 14 Leader (A (AppendSent 1 [71, 2, 71, 71, 71])),
     Ev 4 16 Leader (A (AppendSent 2 [100, 123, 123, 100, 100])),
     Ev 0 9 Leader (A (AppendSent 4 [3, 3, 3, 3, 3])),
     Ev 4 16 Leader (A (AppendSent 3 [100, 123, 123, 100, 100])),
     Ev 0 9 Leader (A (AppendSent 2 [3, 3, 3, 3, 3])),
     Ev 3 14 Leader (A (AppendSent 2 [71, 2, 71, 71, 71])),
     Ev 3 14 Leader (A (AppendSent 4 [71, 2, 71, 71, 71])),
     Ev 0 9 Leader (A (AppendNotOk 3)),
     Ev 0 9 Leader (A (AppendNotOk 2)),
     Ev 4 16 Leader (A (AppendNotOk 3)),
     Ev 1 16 Follower (A (AppendFrom 0 9)),
     Ev 1 16 Follower (A TermSmaller),
     Ev 0 9 Leader (A (AppendNotOk 1)),
     Ev 4 16 Leader (A (AppendNotOk 0)),
     Ev 3 14 Leader (A (AppendNotOk 2)),
     Ev 3 14 Leader (A (AppendNotOk 1)),
     Ev 4 16 Leader (A (AppendNotOk 2)),
     Ev 3 14 Leader (A (AppendNotOk 0)),
     Ev 3 14 Leader (A (AppendNotOk 4)),
     Ev 4 16 Leader (A (AppendNotOk 1)),
     Ev 0 9 Leader (A (AppendNotOk 4)),
     Ev 3 14 Leader (A HeartBeat),
     Ev 4 16 Leader (A HeartBeat),
     Ev 4 16 Leader (A (AppendTo 0)),
     Ev 3 14 Leader (A (AppendTo 0)),
     Ev 0 9 Leader (A HeartBeat),
     Ev 0 9 Leader (A (AppendTo 1)),
     Ev 3 14 Leader (A (AppendTo 1)),
     Ev 3 14 Leader (A (AppendTo 2)),
     Ev 0 9 Leader (A (AppendTo 2)),
     Ev 0 9 Leader (A (AppendTo 3)),
     Ev 0 9 Leader (A (AppendTo 4)),
     Ev 3 14 Leader (A (AppendTo 4)),
     Ev 4 16 Leader (A (AppendTo 1)),
     Ev 3 14 Leader (A (AppendSent 0 [71, 2, 71, 71, 71])),
     Ev 0 9 Leader (A (AppendSent 4 [3, 3, 3, 3, 3])),
     Ev 3 14 Leader (A (AppendSent 4 [71, 2, 71, 71, 71])),
     Ev 4 16 Leader (A (AppendTo 2)),
     Ev 4 16 Leader (A (AppendTo 3)),
     Ev 4 16 Leader (A (AppendSent 0 [100, 123, 123, 100, 100])),
     Ev 4 16 Leader (A (AppendSent 2 [100, 123, 123, 100, 100])),
     Ev 3 14 Leader (A (AppendSent 2 [71, 2, 71, 71, 71])),
     Ev 4 16 Leader (A (AppendSent 3 [100, 123, 123, 100, 100])),
     Ev 0 9 Leader (A (AppendSent 1 [3, 3, 3, 3, 3])),
     Ev 3 14 Leader (A (AppendSent 1 [71, 2, 71, 71, 71])),
     Ev 4 16 Leader (A (AppendSent 1 [100, 123, 123, 100, 100])),
     Ev 0 9 Leader (A (AppendSent 2 [3, 3, 3, 3, 3])),
     Ev 0 9 Leader (A (AppendSent 3 [3, 3, 3, 3, 3])),
     Ev 4 16 Leader (A (AppendNotOk 0)),
     Ev 0 9 Leader (A (AppendNotOk 2)),
     Ev 4 16 Leader (A (AppendNotOk 3)),
     Ev 4 16 Leader (A (AppendNotOk 1)),
     Ev 3 14 Leader (A (AppendNotOk 0)),
     Ev 0 9 Leader (A (AppendBigger 2 16)),
     Ev 3 14 Leader (A (AppendNotOk 2)),
     Ev 0 16 Follower (A (AppendNotOk 4)),
     Ev 1 16 Follower (A (AppendFrom 0 9)),
     Ev 1 16 Follower (A TermSmaller),
     Ev 0 16 Follower (A (AppendNotOk 1)),
     Ev 4 16 Leader (A (AppendNotOk 2)),
     Ev 0 16 Follower (A (AppendNotOk 3)),
     Ev 3 14 Leader (A (AppendNotOk 1)),
     Ev 3 14 Leader (A (AppendNotOk 4)),
     Ev 4 16 Leader (A HeartBeat),
     Ev 4 16 Leader (A (AppendTo 0))]"

definition run_19 :: "line list" where
  "run_19 = [
     Ev 3 14 Leader (A HeartBeat),
     Ev 4 16 Leader (A (AppendTo 1)),
     Ev 3 14 Leader (A (AppendTo 0)),
     Ev 4 16 Leader (A (AppendTo 2)),
     Ev 4 16 Leader (A (AppendTo 3)),
     Ev 3 14 Leader (A (AppendTo 1)),
     Ev 4 16 Leader (A (AppendSent 2 [100, 123, 123, 100, 100])),
     Ev 3 14 Leader (A (AppendTo 2)),
     Ev 3 14 Leader (A (AppendTo 4)),
     Ev 4 16 Leader (A (AppendSent 3 [100, 123, 123, 100, 100])),
     Ev 3 14 Leader (A (AppendSent 2 [71, 2, 71, 71, 71])),
     Ev 4 16 Leader (A (AppendSent 0 [100, 123, 123, 100, 100])),
     Ev 4 16 Leader (A (AppendSent 1 [100, 123, 123, 100, 100])),
     Ev 3 14 Leader (A (AppendSent 0 [71, 2, 71, 71, 71])),
     Ev 3 14 Leader (A (AppendSent 1 [71, 2, 71, 71, 71])),
     Ev 3 14 Leader (A (AppendSent 4 [71, 2, 71, 71, 71])),
     Ev 3 14 Leader (A (AppendNotOk 4)),
     Ev 4 16 Leader (A (AppendNotOk 3)),
     Ev 1 16 Follower (A (AppendFrom 3 14)),
     Ev 1 16 Follower (A TermSmaller),
     Ev 2 16 Follower (A (AppendFrom 3 14)),
     Ev 2 16 Follower (A TermSmaller),
     Ev 3 14 Leader (A (AppendBigger 2 16)),
     Ev 3 16 Follower (A (AppendNotOk 0)),
     Ev 4 16 Leader (A (AppendNotOk 1)),
     Ev 4 16 Leader (A (AppendNotOk 2)),
     Ev 4 16 Leader (A (AppendNotOk 0)),
     Ev 4 16 Leader (A HeartBeat),
     Ev 4 16 Leader (A (AppendTo 0)),
     Ev 1 16 Follower (E StartElection),
     Ev 4 16 Leader (A (AppendTo 1)),
     Ev 4 16 Leader (A (AppendTo 2)),
     Ev 4 16 Leader (A (AppendTo 3)),
     Ev 4 16 Leader (A (AppendSent 1 [100, 123, 123, 100, 100])),
     Ev 4 16 Leader (A (AppendSent 0 [100, 123, 123, 100, 100])),
     Ev 4 16 Leader (A (AppendSent 3 [100, 123, 123, 100, 100])),
     Ev 4 16 Leader (A (AppendSent 2 [100, 123, 123, 100, 100])),
     Ev 1 17 Candidate (E BecomeCandidate),
     Ev 1 17 Candidate (E (RequestVoteTo 0)),
     Ev 1 17 Candidate (E (RequestVoteTo 2)),
     Ev 1 17 Candidate (E (RequestVoteTo 3)),
     Ev 1 17 Candidate (E (RequestVoteTo 4)),
     Ev 4 16 Leader (A (AppendNotOk 0)),
     Ev 3 16 Follower (E (VoteRequested (-1) 1 17)),
     Ev 2 16 Follower (E (VoteRequested (-1) 1 17)),
     Ev 3 16 Follower (E (VoteArgs 17 122 14 123 124)),
     Ev 3 16 Follower (E (Indices 1 1)),
     Ev 3 16 Follower (E (TermLower 1)),
     Ev 2 16 Follower (E (VoteArgs 17 122 16 122 123)),
     Ev 2 16 Follower (E (Indices 2 2)),
     Ev 2 16 Follower (E (TermLower 1)),
     Ev 2 17 Follower (E (LogTerms 16 16 122 122)),
     Ev 3 17 Follower (E (LogTerms 14 16 123 122)),
     Ev 2 17 Follower (E (VoteGranted 17 122 16 122 123)),
     Ev 2 17 Follower (E (Indices 2 2)),
     Ev 3 17 Follower (E (VoteGranted 17 122 14 123 124)),
     Ev 3 17 Follower (E (Indices 1 1)),
     Ev 1 17 Candidate (E (VoteNotOk 2)),
     Ev 1 17 Candidate (E (VoteNotOk 0)),
     Ev 4 16 Leader (A (AppendNotOk 1)),
     Ev 4 16 Leader (A (AppendNotOk 2)),
     Ev 4 16 Leader (A (AppendNotOk 3)),
     Ev 1 17 Candidate (E (VoteNotOk 4)),
     Ev 4 16 Leader (A HeartBeat),
     Ev 4 16 Leader (A (AppendTo 0)),
     Ev 4 16 Leader (A (AppendTo 1)),
     Ev 4 16 Leader (A (AppendTo 2)),
     Ev 4 16 Leader (A (AppendTo 3)),
     Ev 4 16 Leader (A (AppendSent 0 [100, 123, 123, 100, 100])),
     Ev 4 16 Leader (A (AppendSent 3 [100, 123, 123, 100, 100])),
     Ev 4 16 Leader (A (AppendSent 1 [100, 123, 123, 100, 100])),
     Ev 4 16 Leader (A (AppendSent 2 [100, 123, 123, 100, 100])),
     Ev 4 16 Leader (A (AppendNotOk 1)),
     Ev 4 16 Leader (A (AppendNotOk 0)),
     Ev 0 16 Follower (A (NoLongerLeader 1)),
     Ev 4 16 Leader (A (AppendNotOk 2)),
     Ev 3 17 Follower (A (NoLongerLeader 1)),
     Ev 4 16 Leader (A (AppendNotOk 3)),
     Ev 4 16 Leader (A HeartBeat),
     Ev 1 17 Candidate (E (VoteReply 3 17 True)),
     Ev 1 17 Candidate (E (Indices 2 2)),
     Ev 1 17 Candidate (E (VoteGained 3)),
     Ev 1 17 Candidate (E (CheckElection 2 5)),
     Ev 4 16 Leader (A (AppendTo 0)),
     Ev 4 16 Leader (A (AppendTo 1)),
     Ev 4 16 Leader (A (AppendTo 2)),
     Ev 4 16 Leader (A (AppendTo 3)),
     Ev 4 16 Leader (A (AppendSent 3 [100, 123, 123, 100, 100])),
     Ev 4 16 Leader (A (AppendSent 1 [100, 123, 123, 100, 100])),
     Ev 4 16 Leader (A (AppendSent 0 [100, 123, 123, 100, 100])),
     Ev 4 16 Leader (A (AppendSent 2 [100, 123, 123, 100, 100])),
     Ev 4 16 Leader (A (AppendNotOk 1)),
     Ev 4 16 Leader (A (AppendNotOk 2)),
     Ev 4 16 Leader (A (AppendNotOk 0)),
     Ev 4 16 Leader (A (AppendNotOk 3)),
     Ev 4 16 Leader (A HeartBeat),
     Ev 4 16 Leader (A (AppendTo 0)),
     Ev 4 16 Leader (A (AppendTo 1)),
     Ev 4 16 Leader (A (AppendTo 2)),
     Ev 4 16 Leader (A (AppendTo 3)),
     Ev 4 16 Leader (A (AppendSent 3 [100, 123, 123, 100, 100])),
     Ev 4 16 Leader (A (AppendSent 1 [100, 123, 123, 100, 100])),
     Ev 4 16 Leader (A (AppendSent 2 [100, 123, 123, 100, 100])),
     Ev 4 16 Leader (A (AppendSent 0 [100, 123, 123, 100, 100])),
     Ev 4 16 Leader (A (AppendNotOk 3)),
     Ev 4 16 Leader (A (AppendNotOk 1)),
     Ev 4 16 Leader (A (AppendNotOk 2)),
     Ev 4 16 Leader (A (AppendNotOk 0)),
     Ev 4 16 Leader (A HeartBeat),
     Ev 4 16 Leader (A (AppendTo 0)),
     Ev 4 16 Leader (A (AppendTo 1)),
     Ev 4 16 Leader (A (AppendTo 2)),
     Ev 4 16 Leader (A (AppendTo 3)),
     Ev 4 16 Leader (A (AppendSent 3 [100, 123, 123, 100, 100])),
     Ev 4 16 Leader (A (AppendSent 1 [100, 123, 123, 100, 100])),
     Ev 4 16 Leader (A (AppendSent 0 [100, 123, 123, 100, 100])),
     Ev 4 16 Leader (A (AppendSent 2 [100, 123, 123, 100, 100])),
     Ev 4 16 Leader (A (AppendNotOk 0)),
     Ev 4 16 Leader (A (AppendNotOk 1)),
     Ev 4 16 Leader (A (AppendNotOk 2)),
     Ev 4 16 Leader (A (AppendNotOk 3)),
     Ev 3 17 Follower (E StartElection),
     Ev 4 16 Leader (A HeartBeat),
     Ev 4 16 Leader (A (AppendTo 0)),
     Ev 4 16 Leader (A (AppendTo 1)),
     Ev 4 16 Leader (A (AppendTo 2)),
     Ev 4 16 Leader (A (AppendTo 3)),
     Ev 4 16 Leader (A (AppendSent 3 [100, 123, 123, 100, 100])),
     Ev 4 16 Leader (A (AppendSent 1 [100, 123, 123, 100, 100])),
     Ev 4 16 Leader (A (AppendSent 0 [100, 123, 123, 100, 100])),
     Ev 4 16 Leader (A (AppendSent 2 [100, 123, 123, 100, 100])),
     Ev 3 18 Candidate (E BecomeCandidate),
     Ev 3 18 Candidate (E (RequestVoteTo 0)),
     Ev 3 18 Candidate (E (RequestVoteTo 1)),
     Ev 3 18 Candidate (E (RequestVoteTo 2)),
     Ev 3 18 Candidate (E (RequestVoteTo 4)),
     Ev 3 18 Candidate (E (VoteNotOk 2)),
     Ev 4 16 Leader (A (AppendNotOk 3)),
     Ev 1 17 Candidate (E (VoteRequested 1 3 18)),
     Ev 1 17 Candidate (E (VoteArgs 18 123 16 122 123)),
     Ev 1 17 Candidate (E (Indices 2 2)),
     Ev 1 17 Candidate (E (TermLower 3)),
     Ev 1 18 Follower (E (LogTerms 16 14 122 123)),
     Ev 1 18 Follower (E LogOutdated),
     Ev 4 16 Leader (A (AppendNotOk 1)),
     Ev 3 18 Candidate (E (VoteNotOk 0)),
     Ev 4 16 Leader (A (AppendNotOk 2)),
     Ev 4 16 Leader (A (AppendNotOk 0)),
     Ev 3 18 Candidate (E (VoteNotOk 4)),
     Ev 4 16 Leader (A HeartBeat)]"

definition run_20 :: "line list" where
  "run_20 = [
     Ev 4 16 Leader (A (AppendTo 0)),
     Ev 4 16 Leader (A (AppendTo 1)),
     Ev 4 16 Leader (A (AppendTo 2)),
     Ev 4 16 Leader (A (AppendTo 3)),
     Ev 4 16 Leader (A (AppendSent 0 [100, 123, 123, 100, 100])),
     Ev 4 16 Leader (A (AppendSent 3 [100, 123, 123, 100, 100])),
     Ev 4 16 Leader (A (AppendSent 2 [100, 123, 123, 100, 100])),
     Ev 4 16 Leader (A (AppendSent 1 [100, 123, 123, 100, 100])),
     Ev 4 16 Leader (A (AppendNotOk 3)),
     Ev 4 16 Leader (A (AppendNotOk 0)),
     Ev 4 16 Leader (A (AppendNotOk 1)),
     Ev 4 16 Leader (A (AppendNotOk 2)),
     Ev 4 16 Leader (A HeartBeat),
     Ev 4 16 Leader (A (AppendTo 0)),
     Ev 4 16 Leader (A (AppendTo 1)),
     Ev 0 16 Follower (E StartElection),
     Ev 4 16 Leader (A (AppendTo 2)),
     Ev 4 16 Leader (A (AppendTo 3)),
     Ev 4 16 Leader (A (AppendSent 1 [100, 123, 123, 100, 100])),
     Ev 4 16 Leader (A (AppendSent 3 [100, 123, 123, 100, 100])),
     Ev 4 16 Leader (A (AppendSent 0 [100, 123, 123, 100, 100])),
     Ev 4 16 Leader (A (AppendSent 2 [100, 123, 123, 100, 100])),
     Ev 0 17 Candidate (E BecomeCandidate),
     Ev 0 17 Candidate (E (RequestVoteTo 1)),
     Ev 0 17 Candidate (E (RequestVoteTo 2)),
     Ev 0 17 Candidate (E (RequestVoteTo 3)),
     Ev 0 17 Candidate (E (RequestVoteTo 4)),
     Ev 0 17 Candidate (E (VoteNotOk 2)),
     Ev 0 17 Candidate (E (VoteNotOk 3)),
     Ev 4 16 Leader (A (AppendNotOk 1)),
     Ev 4 16 Leader (A (AppendNotOk 2)),
     Ev 3 18 Candidate (E (VoteReply 1 18 False)),
     Ev 3 18 Candidate (E (Indices 1 1)),
     Ev 3 18 Candidate (E (CheckElection 1 5)),
     Ev 4 16 Leader (A (AppendNotOk 0)),
     Ev 0 17 Candidate (E (VoteNotOk 4)),
     Ev 4 16 Leader (A (AppendNotOk 3)),
     Ev 0 17 Candidate (E (VoteNotOk 1)),
     Ev 2 17 Follower (E StartElection),
     Ev 4 16 Leader (A HeartBeat),
     Ev 4 16 Leader (A (AppendTo 0)),
     Ev 4 16 Leader (A (AppendTo 1)),
     Ev 4 16 Leader (A (AppendTo 2)),
     Ev 4 16 Leader (A (AppendTo 3)),
     Ev 4 16 Leader (A (AppendSent 0 [100, 123, 123, 100, 100])),
     Ev 4 16 Leader (A (AppendSent 3 [100, 123, 123, 100, 100])),
     Ev 2 18 Candidate (E BecomeCandidate),
     Ev 2 18 Candidate (E (RequestVoteTo 0)),
     Ev 2 18 Candidate (E (RequestVoteTo 1)),
     Ev 2 18 Candidate (E (RequestVoteTo 3)),
     Ev 2 18 Candidate (E (RequestVoteTo 4)),
     Ev 4 16 Leader (A (AppendSent 1 [100, 123, 123, 100, 100])),
     Ev 4 16 Leader (A (AppendSent 2 [100, 123, 123, 100, 100])),
     Ev 2 18 Candidate (E (VoteNotOk 0)),
     Ev 3 18 Candidate (E (VoteRequested 3 2 18)),
     Ev 3 18 Candidate (E (VoteArgs 18 122 14 123 124)),
     Ev 3 18 Candidate (E (Indices 1 1)),
     Ev 3 18 Candidate (E (LogTerms 14 16 123 122)),
     Ev 3 18 Candidate (E RefuseVote),
     Ev 1 18 Follower (E (VoteRequested 3 2 18)),
     Ev 2 18 Candidate (E (VoteReply 3 18 False)),
     Ev 2 18 Candidate (E (Indices 2 2)),
     Ev 1 18 Follower (E (VoteArgs 18 122 16 122 123)),
     Ev 1 18 Follower (E (Indices 2 2)),
     Ev 2 18 Candidate (E (CheckElection 1 5)),
     Ev 1 18 Follower (E (LogTerms 16 16 122 122)),
     Ev 1 18 Follower (E RefuseVote),
     Ev 4 16 Leader (A (AppendNotOk 1)),
     Ev 4 16 Leader (A (AppendNotOk 2)),
     Ev 4 16 Leader (A (AppendNotOk 0)),
     Ev 2 18 Candidate (E (VoteNotOk 4)),
     Ev 4 16 Leader (A (AppendNotOk 3)),
     Ev 4 16 Leader (A HeartBeat),
     Ev 4 16 Leader (A (AppendTo 0)),
     Ev 4 16 Leader (A (AppendTo 1)),
     Ev 4 16 Leader (A (AppendTo 2)),
     Ev 4 16 Leader (A (AppendTo 3)),
     Ev 4 16 Leader (A (AppendSent 3 [100, 123, 123, 100, 100])),
     Ev 4 16 Leader (A (AppendSent 1 [100, 123, 123, 100, 100])),
     Ev 4 16 Leader (A (AppendSent 2 [100, 123, 123, 100, 100])),
     Ev 4 16 Leader (A (AppendSent 0 [100, 123, 123, 100, 100])),
     Ev 4 16 Leader (A (AppendNotOk 3)),
     Ev 4 16 Leader (A (AppendNotOk 1)),
     Ev 4 16 Leader (A (AppendNotOk 0)),
     Ev 4 16 Leader (A (AppendNotOk 2)),
     Ev 4 16 Leader (A HeartBeat),
     Ev 4 16 Leader (A (AppendTo 0)),
     Ev 4 16 Leader (A (AppendTo 1)),
     Ev 4 16 Leader (A (AppendTo 2)),
     Ev 4 16 Leader (A (AppendTo 3)),
     Ev 4 16 Leader (A (AppendSent 0 [100, 123, 123, 100, 100])),
     Ev 4 16 Leader (A (AppendSent 3 [100, 123, 123, 100, 100])),
     Ev 4 16 Leader (A (AppendSent 1 [100, 123, 123, 100, 100])),
     Ev 4 16 Leader (A (AppendSent 2 [100, 123, 123, 100, 100])),
     Ev 4 16 Leader (A (AppendNotOk 2)),
     Ev 4 16 Leader (A (AppendNotOk 0)),
     Ev 4 16 Leader (A (AppendNotOk 1)),
     Ev 4 16 Leader (A (AppendNotOk 3)),
     Ev 4 16 Leader (A HeartBeat),
     Ev 4 16 Leader (A (AppendTo 0)),
     Ev 4 16 Leader (A (AppendTo 1)),
     Ev 4 16 Leader (A (AppendTo 2)),
     Ev 4 16 Leader (A (AppendTo 3)),
     Ev 4 16 Leader (A (AppendSent 3 [100, 123, 123, 100, 100])),
     Ev 4 16 Leader (A (AppendSent 1 [100, 123, 123, 100, 100])),
     Ev 4 16 Leader (A (AppendSent 0 [100, 123, 123, 100, 100])),
     Ev 4 16 Leader (A (AppendSent 2 [100, 123, 123, 100, 100])),
     Ev 4 16 Leader (A (AppendNotOk 0)),
     Ev 4 16 Leader (A (AppendNotOk 1)),
     Ev 4 16 Leader (A (AppendNotOk 2)),
     Ev 4 16 Leader (A (AppendNotOk 3)),
     Ev 0 17 Candidate (E StartElection),
     Ev 4 16 Leader (A HeartBeat),
     Ev 4 16 Leader (A (AppendTo 0)),
     Ev 4 16 Leader (A (AppendTo 1)),
     Ev 4 16 Leader (A (AppendTo 2)),
     Ev 4 16 Leader (A (AppendTo 3)),
     Ev 0 18 Candidate (E BecomeCandidate),
     Ev 4 16 Leader (A (AppendSent 3 [100, 123, 123, 100, 100])),
     Ev 0 18 Candidate (E (RequestVoteTo 1)),
     Ev 0 18 Candidate (E (RequestVoteTo 2)),
     Ev 0 18 Candidate (E (RequestVoteTo 3)),
     Ev 4 16 Leader (A (AppendSent 2 [100, 123, 123, 100, 100])),
     Ev 0 18 Candidate (E (RequestVoteTo 4)),
     Ev 4 16 Leader (A (AppendSent 0 [100, 123, 123, 100, 100])),
     Ev 4 16 Leader (A (AppendSent 1 [100, 123, 123, 100, 100])),
     Ev 0 18 Candidate (E (VoteNotOk 4)),
     Ev 0 18 Candidate (E (VoteNotOk 3)),
     Ev 0 18 Candidate (E (VoteNotOk 1)),
     Ev 4 16 Leader (A (AppendNotOk 3)),
     Ev 0 18 Candidate (E (VoteNotOk 2)),
     Ev 4 16 Leader (A (AppendNotOk 0)),
     Ev 4 16 Leader (A (AppendNotOk 2)),
     Ev 3 18 Candidate (E StartElection),
     Ev 4 16 Leader (A (AppendNotOk 1)),
     Ev 1 18 Follower (E StartElection),
     Ev 3 19 Candidate (E BecomeCandidate),
     Ev 3 19 Candidate (E (RequestVoteTo 0)),
     Ev 3 19 Candidate (E (RequestVoteTo 1)),
     Ev 3 19 Candidate (E (RequestVoteTo 2)),
     Ev 3 19 Candidate (E (RequestVoteTo 4)),
     Ev 4 16 Leader (A HeartBeat),
     Ev 4 16 Leader (A (AppendTo 0)),
     Ev 1 19 Candidate (E BecomeCandidate),
     Ev 1 19 Candidate (E (RequestVoteTo 0)),
     Ev 1 19 Candidate (E (RequestVoteTo 2)),
     Ev 1 19 Candidate (E (RequestVoteTo 3)),
     Ev 1 19 Candidate (E (RequestVoteTo 4)),
     Ev 4 16 Leader (A (AppendTo 1)),
     Ev 4 16 Leader (A (AppendTo 2))]"

definition run_21 :: "line list" where
  "run_21 = [
     Ev 4 16 Leader (A (AppendTo 3)),
     Ev 4 16 Leader (A (AppendSent 0 [100, 123, 123, 100, 100])),
     Ev 4 16 Leader (A (AppendSent 1 [100, 123, 123, 100, 100])),
     Ev 4 16 Leader (A (AppendSent 3 [100, 123, 123, 100, 100])),
     Ev 4 16 Leader (A (AppendSent 2 [100, 123, 123, 100, 100])),
     Ev 3 19 Candidate (E (VoteRequested 3 1 19)),
     Ev 3 19 Candidate (E (VoteArgs 19 122 14 123 124)),
     Ev 3 19 Candidate (E (Indices 1 1)),
     Ev 3 19 Candidate (E (LogTerms 14 16 123 122)),
     Ev 3 19 Candidate (E RefuseVote),
     Ev 1 19 Candidate (E (VoteReply 3 19 False)),
     Ev 1 19 Candidate (E (Indices 2 2)),
     Ev 1 19 Candidate (E (CheckElection 1 5)),
     Ev 1 19 Candidate (E (VoteNotOk 4)),
     Ev 3 19 Candidate (E (VoteNotOk 1)),
     Ev 2 18 Candidate (E (VoteRequested 2 3 19)),
     Ev 2 18 Candidate (E (VoteArgs 19 123 16 122 123)),
     Ev 2 18 Candidate (E (Indices 2 2)),
     Ev 2 18 Candidate (E (TermLower 3)),
     Ev 2 19 Follower (E (LogTerms 16 14 122 123)),
     Ev 2 19 Follower (E LogOutdated),
     Ev 3 19 Candidate (E (VoteNotOk 0)),
     Ev 4 16 Leader (A (AppendNotOk 2)),
     Ev 2 19 Follower (E (VoteRequested 3 1 19)),
     Ev 2 19 Follower (E (VoteArgs 19 122 16 122 123)),
     Ev 2 19 Follower (E (Indices 2 2)),
     Ev 2 19 Follower (E (LogTerms 16 16 122 122)),
     Ev 2 19 Follower (E RefuseVote),
     Ev 4 16 Leader (A (AppendNotOk 3)),
     Ev 4 16 Leader (A (AppendNotOk 1)),
     Ev 4 16 Leader (A (AppendNotOk 0)),
     Ev 1 19 Candidate (E (VoteNotOk 0)),
     Ev 3 19 Candidate (E (VoteNotOk 4)),
     Ev 4 16 Leader (A HeartBeat),
     Ev 4 16 Leader (A (AppendTo 0)),
     Ev 4 16 Leader (A (AppendTo 1)),
     Ev 4 16 Leader (A (AppendTo 2)),
     Ev 4 16 Leader (A (AppendTo 3)),
     Ev 4 16 Leader (A (AppendSent 1 [100, 123, 123, 100, 100])),
     Ev 4 16 Leader (A (AppendSent 3 [100, 123, 123, 100, 100])),
     Ev 4 16 Leader (A (AppendSent 0 [100, 123, 123, 100, 100])),
     Ev 4 16 Leader (A (AppendSent 2 [100, 123, 123, 100, 100])),
     Ev 2 19 Follower (E (VoteReply 1 18 False)),
     Ev 2 19 Follower (E (Indices 2 2)),
     Ev 2 19 Follower (E (CheckElection 0 5)),
     Ev 2 19 Follower (E NotCandidate),
     Ev 4 16 Leader (A (AppendNotOk 3)),
     Ev 4 16 Leader (A (AppendNotOk 2)),
     Ev 4 16 Leader (A (AppendNotOk 0)),
     Ev 4 16 Leader (A (AppendNotOk 1)),
     Ev 4 16 Leader (A HeartBeat),
     Ev 4 16 Leader (A (AppendTo 0)),
     Ev 4 16 Leader (A (AppendTo 1)),
     Ev 4 16 Leader (A (AppendTo 2)),
     Ev 4 16 Leader (A (AppendTo 3)),
     Ev 4 16 Leader (A (AppendSent 3 [100, 123, 123, 100, 100])),
     Ev 4 16 Leader (A (AppendSent 0 [100, 123, 123, 100, 100])),
     Ev 4 16 Leader (A (AppendSent 2 [100, 123, 123, 100, 100])),
     Ev 4 16 Leader (A (AppendSent 1 [100, 123, 123, 100, 100])),
     Ev 4 16 Leader (A (AppendNotOk 0)),
     Ev 4 16 Leader (A (AppendNotOk 3)),
     Ev 4 16 Leader (A (AppendNotOk 1)),
     Ev 4 16 Leader (A HeartBeat),
     Ev 4 16 Leader (A (AppendTo 0)),
     Ev 4 16 Leader (A (AppendTo 1)),
     Ev 4 16 Leader (A (AppendTo 2)),
     Ev 4 16 Leader (A (AppendTo 3)),
     Ev 4 16 Leader (A (AppendSent 3 [100, 123, 123, 100, 100])),
     Ev 4 16 Leader (A (AppendSent 2 [100, 123, 123, 100, 100])),
     Ev 4 16 Leader (A (AppendNotOk 2)),
     Ev 4 16 Leader (A (AppendSent 0 [100, 123, 123, 100, 100])),
     Ev 4 16 Leader (A (AppendSent 1 [100, 123, 123, 100, 100])),
     Ev 4 16 Leader (A (AppendNotOk 3)),
     Ev 4 16 Leader (A (AppendNotOk 2)),
     Ev 4 16 Leader (A (AppendNotOk 1)),
     Ev 4 16 Leader (A HeartBeat),
     Ev 4 16 Leader (A (AppendTo 0)),
     Ev 4 16 Leader (A (AppendTo 1)),
     Ev 4 16 Leader (A (AppendTo 2)),
     Ev 4 16 Leader (A (AppendTo 3)),
     Ev 4 16 Leader (A (AppendSent 0 [100, 123, 123, 100, 100])),
     Ev 4 16 Leader (A (AppendNotOk 0)),
     Ev 4 16 Leader (A (AppendSent 1 [100, 123, 123, 100, 100])),
     Ev 4 16 Leader (A (AppendSent 2 [100, 123, 123, 100, 100])),
     Ev 4 16 Leader (A (AppendSent 3 [100, 123, 123, 100, 100])),
     Ev 4 16 Leader (A (AppendNotOk 0)),
     Ev 4 16 Leader (A (AppendNotOk 3)),
     Ev 3 19 Candidate (E (VoteReply 2 19 False)),
     Ev 3 19 Candidate (E (Indices 1 1)),
     Ev 3 19 Candidate (E (CheckElection 1 5)),
     Ev 4 16 Leader (A (AppendNotOk 2)),
     Ev 4 16 Leader (A HeartBeat),
     Ev 4 16 Leader (A (AppendTo 0)),
     Ev 4 16 Leader (A (AppendTo 1)),
     Ev 4 16 Leader (A (AppendTo 2)),
     Ev 4 16 Leader (A (AppendTo 3)),
     Ev 4 16 Leader (A (AppendNotOk 1)),
     Ev 4 16 Leader (A (AppendSent 0 [100, 123, 123, 100, 100])),
     Ev 4 16 Leader (A (AppendSent 1 [100, 123, 123, 100, 100])),
     Ev 4 16 Leader (A (AppendSent 2 [100, 123, 123, 100, 100])),
     Ev 4 16 Leader (A (AppendSent 3 [100, 123, 123, 100, 100])),
     Ev 4 16 Leader (A (AppendNotOk 3)),
     Ev 4 16 Leader (A (AppendNotOk 0)),
     Ev 4 16 Leader (A (AppendNotOk 1)),
     Ev 4 16 Leader (A (AppendNotOk 2)),
     Ev 1 19 Candidate (E StartElection),
     Ev 3 19 Candidate (E StartElection),
     Ev 0 18 Candidate (E StartElection),
     Ev 1 20 Candidate (E BecomeCandidate),
     Ev 1 20 Candidate (E (RequestVoteTo 0)),
     Ev 1 20 Candidate (E (RequestVoteTo 2)),
     Ev 0 19 Candidate (E BecomeCandidate),
     Ev 0 19 Candidate (E (RequestVoteTo 1)),
     Ev 1 20 Candidate (E (RequestVoteTo 3)),
     Ev 1 20 Candidate (E (RequestVoteTo 4)),
     Ev 3 20 Candidate (E BecomeCandidate),
     Ev 4 16 Leader (A HeartBeat),
     Ev 3 20 Candidate (E (RequestVoteTo 0)),
     Ev 4 16 Leader (A (AppendTo 0)),
     Ev 4 16 Leader (A (AppendTo 1)),
     Ev 0 19 Candidate (E (RequestVoteTo 2)),
     Ev 0 19 Candidate (E (RequestVoteTo 3)),
     Ev 0 19 Candidate (E (RequestVoteTo 4)),
     Ev 3 20 Candidate (E (RequestVoteTo 1)),
     Ev 3 20 Candidate (E (RequestVoteTo 2)),
     Ev 3 20 Candidate (E (RequestVoteTo 4)),
     Ev 4 16 Leader (A (AppendTo 2)),
     Ev 4 16 Leader (A (AppendTo 3)),
     Ev 4 16 Leader (A (AppendSent 1 [100, 123, 123, 100, 100])),
     Ev 4 16 Leader (A (AppendSent 2 [100, 123, 123, 100, 100])),
     Ev 4 16 Leader (A (AppendSent 3 [100, 123, 123, 100, 100])),
     Ev 2 19 Follower (E (VoteRequested 3 3 20)),
     Ev 2 19 Follower (E (VoteArgs 20 123 16 122 123)),
     Ev 2 19 Follower (E (Indices 2 2)),
     Ev 2 19 Follower (E (TermLower 3)),
     Ev 4 16 Leader (A (AppendSent 0 [100, 123, 123, 100, 100])),
     Ev 2 20 Follower (E (LogTerms 16 14 122 123)),
     Ev 2 20 Follower (E LogOutdated),
     Ev 3 20 Candidate (E (VoteReply 2 20 False)),
     Ev 3 20 Candidate (E (Indices 1 1)),
     Ev 3 20 Candidate (E (CheckElection 1 5)),
     Ev 3 20 Candidate (E (VoteNotOk 0)),
     Ev 2 20 Follower (E (VoteRequested 3 1 20)),
     Ev 2 20 Follower (E (VoteArgs 20 122 16 122 123)),
     Ev 2 20 Follower (E (Indices 2 2)),
     Ev 3 20 Candidate (E (VoteRequested 3 1 20)),
     Ev 2 20 Follower (E (LogTerms 16 16 122 122)),
     Ev 2 20 Follower (E RefuseVote),
     Ev 3 20 Candidate (E (VoteArgs 20 122 14 123 124)),
     Ev 3 20 Candidate (E (Indices 1 1))]"

definition part_2 :: "line list list" where
  "part_2 =
     [run_12, run_13, run_14, run_15, run_16, run_17, run_18, run_19, run_20, run_21]"

lemma part_2_replays: "read_all replay obs_1 part_2 = Some obs_2"
  by code_simp

end
