(* ===== verification/Trace_3.thy ===== *)
theory Trace_3
  imports Trace_States
begin

text \<open>
  The recorded run, lines 3151 to 4650 of raft/2timesvote.ts, one element per line in the
  order of the file, and the proof that this part conforms.
\<close>

definition run_22 :: "line list" where
  "run_22 = [
     Ev 3 20 Candidate (E (LogTerms 14 16 123 122)),
     Ev 3 20 Candidate (E RefuseVote),
     Ev 1 20 Candidate (E (VoteReply 2 20 False)),
     Ev 1 20 Candidate (E (Indices 2 2)),
     Ev 1 20 Candidate (E (CheckElection 1 5)),
     Ev 0 19 Candidate (E (VoteNotOk 1)),
     Ev 1 20 Candidate (E (VoteRequested 1 3 20)),
     Ev 1 20 Candidate (E (VoteArgs 20 123 16 122 123)),
     Ev 1 20 Candidate (E (Indices 2 2)),
     Ev 1 20 Candidate (E (LogTerms 16 14 122 123)),
     Ev 1 20 Candidate (E LogOutdated),
     Ev 4 16 Leader (A (AppendNotOk 0)),
     Ev 4 16 Leader (A (AppendNotOk 3)),
     Ev 3 20 Candidate (E (VoteNotOk 4)),
     Ev 1 20 Candidate (E (VoteNotOk 4)),
     Ev 1 20 Candidate (E (VoteNotOk 0)),
     Ev 4 16 Leader (A (AppendNotOk 1)),
     Ev 0 19 Candidate (E (VoteNotOk 4)),
     Ev 4 16 Leader (A (AppendNotOk 2)),
     Ev 0 19 Candidate (E (VoteNotOk 2)),
     Ev 0 19 Candidate (E (VoteNotOk 3)),
     Ev 4 16 Leader (A HeartBeat),
     Ev 4 16 Leader (A (AppendTo 0)),
     Ev 4 16 Leader (A (AppendTo 1)),
     Ev 4 16 Leader (A (AppendTo 2)),
     Ev 4 16 Leader (A (AppendTo 3)),
     Ev 4 16 Leader (A (AppendSent 3 [100, 123, 123, 100, 100])),
     Ev 4 16 Leader (A (AppendSent 0 [100, 123, 123, 100, 100])),
     Ev 4 16 Leader (A (AppendSent 1 [100, 123, 123, 100, 100])),
     Ev 4 16 Leader (A (AppendSent 2 [100, 123, 123, 100, 100])),
     Ev 4 16 Leader (A (AppendNotOk 2)),
     Ev 4 16 Leader (A (AppendNotOk 1)),
     Ev 4 16 Leader (A (AppendNotOk 3)),
     Ev 4 16 Leader (A (AppendNotOk 0)),
     Ev 4 16 Leader (A HeartBeat),
     Ev 4 16 Leader (A (AppendTo 0)),
     Ev 4 16 Leader (A (AppendTo 1)),
     Ev 4 16 Leader (A (AppendTo 2)),
     Ev 4 16 Leader (A (AppendTo 3)),
     Ev 4 16 Leader (A (AppendSent 1 [100, 123, 123, 100, 100])),
     Ev 4 16 Leader (A (AppendSent 2 [100, 123, 123, 100, 100])),
     Ev 4 16 Leader (A (AppendSent 3 [100, 123, 123, 100, 100])),
     Ev 4 16 Leader (A (AppendSent 0 [100, 123, 123, 100, 100])),
     Ev 4 16 Leader (A (AppendNotOk 3)),
     Ev 4 16 Leader (A (AppendNotOk 2)),
     Ev 4 16 Leader (A (AppendNotOk 1)),
     Ev 4 16 Leader (A (AppendNotOk 0)),
     Ev 1 20 Candidate (E (VoteReply 2 19 False)),
     Ev 1 20 Candidate (E (Indices 2 2)),
     Ev 1 20 Candidate (E (CheckElection 1 5)),
     Ev 4 16 Leader (A HeartBeat),
     Ev 4 16 Leader (A (AppendTo 0)),
     Ev 4 16 Leader (A (AppendTo 1)),
     Ev 4 16 Leader (A (AppendTo 2)),
     Ev 4 16 Leader (A (AppendTo 3)),
     Ev 4 16 Leader (A (AppendSent 3 [100, 123, 123, 100, 100])),
     Ev 4 16 Leader (A (AppendSent 2 [100, 123, 123, 100, 100])),
     Ev 4 16 Leader (A (AppendSent 1 [100, 123, 123, 100, 100])),
     Ev 4 16 Leader (A (AppendSent 0 [100, 123, 123, 100, 100])),
     Ev 4 16 Leader (A (AppendNotOk 3)),
     Ev 4 16 Leader (A (AppendNotOk 0)),
     Ev 4 16 Leader (A (AppendNotOk 2)),
     Ev 4 16 Leader (A (AppendNotOk 1)),
     Ev 4 16 Leader (A HeartBeat),
     Ev 4 16 Leader (A (AppendTo 0)),
     Ev 4 16 Leader (A (AppendTo 1)),
     Ev 4 16 Leader (A (AppendTo 2)),
     Ev 4 16 Leader (A (AppendTo 3)),
     Ev 4 16 Leader (A (AppendSent 3 [100, 123, 123, 100, 100])),
     Ev 4 16 Leader (A (AppendSent 0 [100, 123, 123, 100, 100])),
     Ev 4 16 Leader (A (AppendSent 1 [100, 123, 123, 100, 100])),
     Ev 4 16 Leader (A (AppendSent 2 [100, 123, 123, 100, 100])),
     Ev 4 16 Leader (A (AppendNotOk 0)),
     Ev 4 16 Leader (A (AppendNotOk 2)),
     Ev 4 16 Leader (A (AppendNotOk 1)),
     Ev 4 16 Leader (A (AppendNotOk 3)),
     Ev 0 19 Candidate (E StartElection),
     Ev 1 20 Candidate (E StartElection),
     Ev 2 20 Follower (E StartElection),
     Ev 1 21 Candidate (E BecomeCandidate),
     Ev 1 21 Candidate (E (RequestVoteTo 0)),
     Ev 0 20 Candidate (E BecomeCandidate),
     Ev 0 20 Candidate (E (RequestVoteTo 1)),
     Ev 1 21 Candidate (E (RequestVoteTo 2)),
     Ev 0 20 Candidate (E (RequestVoteTo 2)),
     Ev 0 20 Candidate (E (RequestVoteTo 3)),
     Ev 0 20 Candidate (E (RequestVoteTo 4)),
     Ev 2 21 Candidate (E BecomeCandidate),
     Ev 2 21 Candidate (E (RequestVoteTo 0)),
     Ev 2 21 Candidate (E (RequestVoteTo 1)),
     Ev 2 21 Candidate (E (RequestVoteTo 3)),
     Ev 2 21 Candidate (E (RequestVoteTo 4)),
     Ev 4 16 Leader (A HeartBeat),
     Ev 4 16 Leader (A (AppendTo 0)),
     Ev 1 21 Candidate (E (RequestVoteTo 3)),
     Ev 1 21 Candidate (E (RequestVoteTo 4)),
     Ev 4 16 Leader (A (AppendTo 1)),
     Ev 4 16 Leader (A (AppendTo 2)),
     Ev 4 16 Leader (A (AppendTo 3)),
     Ev 4 16 Leader (A (AppendSent 1 [100, 123, 123, 100, 100])),
     Ev 4 16 Leader (A (AppendSent 2 [100, 123, 123, 100, 100])),
     Ev 4 16 Leader (A (AppendSent 0 [100, 123, 123, 100, 100])),
     Ev 4 16 Leader (A (AppendSent 3 [100, 123, 123, 100, 100])),
     Ev 2 21 Candidate (E (VoteNotOk 4)),
     Ev 3 20 Candidate (E (VoteRequested 3 1 21)),
     Ev 3 20 Candidate (E (VoteArgs 21 122 14 123 124)),
     Ev 3 20 Candidate (E (Indices 1 1)),
     Ev 3 20 Candidate (E (TermLower 1)),
     Ev 1 21 Candidate (E (VoteRequested 1 2 21)),
     Ev 1 21 Candidate (E (VoteArgs 21 122 16 122 123)),
     Ev 1 21 Candidate (E (Indices 2 2)),
     Ev 1 21 Candidate (E (LogTerms 16 16 122 122)),
     Ev 2 21 Candidate (E (VoteRequested 2 1 21)),
     Ev 1 21 Candidate (E RefuseVote),
     Ev 2 21 Candidate (E (VoteArgs 21 122 16 122 123)),
     Ev 2 21 Candidate (E (Indices 2 2)),
     Ev 2 21 Candidate (E (LogTerms 16 16 122 122)),
     Ev 3 21 Follower (E (LogTerms 14 16 123 122)),
     Ev 2 21 Candidate (E RefuseVote),
     Ev 3 21 Follower (E (VoteGranted 21 122 14 123 124)),
     Ev 3 21 Follower (E (Indices 1 1)),
     Ev 1 21 Candidate (E (VoteReply 3 21 True)),
     Ev 1 21 Candidate (E (Indices 2 2)),
     Ev 1 21 Candidate (E (VoteGained 3)),
     Ev 3 21 Follower (E (VoteRequested 1 2 21)),
     Ev 1 21 Candidate (E (CheckElection 2 5)),
     Ev 3 21 Follower (E (VoteArgs 21 122 14 123 124)),
     Ev 3 21 Follower (E (Indices 1 1)),
     Ev 3 21 Follower (E (LogTerms 14 16 123 122)),
     Ev 3 21 Follower (E RefuseVote),
     Ev 3 21 Follower (E (VoteReply 1 20 False)),
     Ev 3 21 Follower (E (Indices 1 1)),
     Ev 3 21 Follower (E (CheckElection 0 5)),
     Ev 3 21 Follower (E NotCandidate),
     Ev 4 16 Leader (A (AppendNotOk 3)),
     Ev 4 16 Leader (A (AppendNotOk 0)),
     Ev 1 21 Candidate (E (VoteNotOk 0)),
     Ev 1 21 Candidate (E (VoteNotOk 4)),
     Ev 0 20 Candidate (E (VoteNotOk 2)),
     Ev 4 16 Leader (A (AppendNotOk 1)),
     Ev 4 16 Leader (A (AppendNotOk 2)),
     Ev 0 20 Candidate (E (VoteNotOk 4)),
     Ev 0 20 Candidate (E (VoteNotOk 3)),
     Ev 2 21 Candidate (E (VoteNotOk 0)),
     Ev 0 20 Candidate (E (VoteNotOk 1)),
     Ev 4 16 Leader (A HeartBeat),
     Ev 4 16 Leader (A (AppendTo 0)),
     Ev 4 16 Leader (A (AppendTo 1)),
     Ev 4 16 Leader (A (AppendTo 2)),
     Ev 4 16 Leader (A (AppendTo 3))]"

definition run_23 :: "line list" where
  "run_23 = [
     Ev 4 16 Leader (A (AppendSent 3 [100, 123, 123, 100, 100])),
     Ev 4 16 Leader (A (AppendSent 1 [100, 123, 123, 100, 100])),
     Ev 4 16 Leader (A (AppendSent 0 [100, 123, 123, 100, 100])),
     Ev 4 16 Leader (A (AppendSent 2 [100, 123, 123, 100, 100])),
     Ev 4 16 Leader (A (AppendNotOk 2)),
     Ev 4 16 Leader (A (AppendNotOk 3)),
     Ev 4 16 Leader (A (AppendNotOk 0)),
     Ev 4 16 Leader (A (AppendNotOk 1)),
     Ev 4 16 Leader (A HeartBeat),
     Ev 4 16 Leader (A (AppendTo 0)),
     Ev 4 16 Leader (A (AppendTo 1)),
     Ev 4 16 Leader (A (AppendTo 2)),
     Ev 4 16 Leader (A (AppendTo 3)),
     Ev 4 16 Leader (A (AppendSent 3 [100, 123, 123, 100, 100])),
     Ev 4 16 Leader (A (AppendSent 1 [100, 123, 123, 100, 100])),
     Ev 4 16 Leader (A (AppendSent 2 [100, 123, 123, 100, 100])),
     Ev 4 16 Leader (A (AppendSent 0 [100, 123, 123, 100, 100])),
     Ev 4 16 Leader (A (AppendNotOk 1)),
     Ev 4 16 Leader (A (AppendNotOk 3)),
     Ev 4 16 Leader (A (AppendNotOk 2)),
     Ev 4 16 Leader (A (AppendNotOk 0)),
     Ev 4 16 Leader (A HeartBeat),
     Ev 4 16 Leader (A (AppendTo 0)),
     Ev 4 16 Leader (A (AppendTo 1)),
     Ev 4 16 Leader (A (AppendTo 2)),
     Ev 4 16 Leader (A (AppendTo 3)),
     Ev 4 16 Leader (A (AppendSent 0 [100, 123, 123, 100, 100])),
     Ev 4 16 Leader (A (AppendSent 3 [100, 123, 123, 100, 100])),
     Ev 4 16 Leader (A (AppendSent 1 [100, 123, 123, 100, 100])),
     Ev 4 16 Leader (A (AppendSent 2 [100, 123, 123, 100, 100])),
     Ev 4 16 Leader (A (AppendNotOk 1)),
     Ev 4 16 Leader (A (AppendNotOk 3)),
     Ev 4 16 Leader (A (AppendNotOk 0)),
     Ev 4 16 Leader (A (AppendNotOk 2)),
     Ev 4 16 Leader (A HeartBeat),
     Ev 4 16 Leader (A (AppendTo 0)),
     Ev 4 16 Leader (A (AppendTo 1)),
     Ev 4 16 Leader (A (AppendTo 2)),
     Ev 4 16 Leader (A (AppendTo 3)),
     Ev 4 16 Leader (A (AppendSent 3 [100, 123, 123, 100, 100])),
     Ev 4 16 Leader (A (AppendSent 1 [100, 123, 123, 100, 100])),
     Ev 4 16 Leader (A (AppendSent 2 [100, 123, 123, 100, 100])),
     Ev 4 16 Leader (A (AppendSent 0 [100, 123, 123, 100, 100])),
     Ev 4 16 Leader (A (AppendNotOk 3)),
     Ev 4 16 Leader (A (AppendNotOk 0)),
     Ev 4 16 Leader (A (AppendNotOk 2)),
     Ev 4 16 Leader (A (AppendNotOk 1)),
     Ev 4 16 Leader (A HeartBeat),
     Ev 4 16 Leader (A (AppendTo 0)),
     Ev 4 16 Leader (A (AppendTo 1)),
     Ev 4 16 Leader (A (AppendTo 2)),
     Ev 4 16 Leader (A (AppendTo 3)),
     Ev 4 16 Leader (A (AppendSent 0 [100, 123, 123, 100, 100])),
     Ev 3 21 Follower (E StartElection),
     Ev 4 16 Leader (A (AppendSent 3 [100, 123, 123, 100, 100])),
     Ev 4 16 Leader (A (AppendSent 1 [100, 123, 123, 100, 100])),
     Ev 4 16 Leader (A (AppendSent 2 [100, 123, 123, 100, 100])),
     Ev 3 22 Candidate (E BecomeCandidate),
     Ev 3 22 Candidate (E (RequestVoteTo 0)),
     Ev 3 22 Candidate (E (RequestVoteTo 1)),
     Ev 3 22 Candidate (E (RequestVoteTo 2)),
     Ev 3 22 Candidate (E (RequestVoteTo 4)),
     Ev 4 16 Leader (A (AppendNotOk 3)),
     Ev 4 16 Leader (A (AppendNotOk 0)),
     Ev 1 21 Candidate (E (VoteRequested 1 3 22)),
     Ev 2 21 Candidate (E (VoteRequested 2 3 22)),
     Ev 1 21 Candidate (E (VoteArgs 22 123 16 122 123)),
     Ev 1 21 Candidate (E (Indices 2 2)),
     Ev 1 21 Candidate (E (TermLower 3)),
     Ev 2 21 Candidate (E (VoteArgs 22 123 16 122 123)),
     Ev 2 21 Candidate (E (Indices 2 2)),
     Ev 2 21 Candidate (E (TermLower 3)),
     Ev 1 22 Follower (E (LogTerms 16 14 122 123)),
     Ev 1 22 Follower (E LogOutdated),
     Ev 2 22 Follower (E (LogTerms 16 14 122 123)),
     Ev 2 22 Follower (E LogOutdated),
     Ev 2 22 Follower (E (VoteReply 3 21 False)),
     Ev 2 22 Follower (E (Indices 2 2)),
     Ev 2 22 Follower (E (CheckElection 0 5)),
     Ev 2 22 Follower (E NotCandidate),
     Ev 3 22 Candidate (E (VoteReply 2 22 False)),
     Ev 3 22 Candidate (E (Indices 1 1)),
     Ev 3 22 Candidate (E (CheckElection 1 5)),
     Ev 4 16 Leader (A (AppendNotOk 1)),
     Ev 3 22 Candidate (E (VoteNotOk 0)),
     Ev 4 16 Leader (A (AppendNotOk 2)),
     Ev 3 22 Candidate (E (VoteNotOk 4)),
     Ev 4 16 Leader (A HeartBeat),
     Ev 4 16 Leader (A (AppendTo 0)),
     Ev 4 16 Leader (A (AppendTo 1)),
     Ev 4 16 Leader (A (AppendTo 2)),
     Ev 4 16 Leader (A (AppendTo 3)),
     Ev 4 16 Leader (A (AppendSent 0 [100, 123, 123, 100, 100])),
     Ev 4 16 Leader (A (AppendSent 3 [100, 123, 123, 100, 100])),
     Ev 4 16 Leader (A (AppendSent 1 [100, 123, 123, 100, 100])),
     Ev 4 16 Leader (A (AppendSent 2 [100, 123, 123, 100, 100])),
     Ev 4 16 Leader (A (AppendNotOk 0)),
     Ev 4 16 Leader (A (AppendNotOk 2)),
     Ev 4 16 Leader (A (AppendNotOk 1)),
     Ev 4 16 Leader (A (AppendNotOk 3)),
     Ev 4 16 Leader (A HeartBeat),
     Ev 4 16 Leader (A (AppendTo 0)),
     Ev 4 16 Leader (A (AppendTo 1)),
     Ev 4 16 Leader (A (AppendTo 2)),
     Ev 4 16 Leader (A (AppendTo 3)),
     Ev 4 16 Leader (A (AppendSent 3 [100, 123, 123, 100, 100])),
     Ev 4 16 Leader (A (AppendSent 1 [100, 123, 123, 100, 100])),
     Ev 4 16 Leader (A (AppendSent 0 [100, 123, 123, 100, 100])),
     Ev 4 16 Leader (A (AppendSent 2 [100, 123, 123, 100, 100])),
     Ev 4 16 Leader (A (AppendNotOk 2)),
     Ev 4 16 Leader (A (AppendNotOk 1)),
     Ev 4 16 Leader (A (AppendNotOk 0)),
     Ev 4 16 Leader (A (AppendNotOk 3)),
     Ev 4 16 Leader (A HeartBeat),
     Ev 4 16 Leader (A (AppendTo 0)),
     Ev 4 16 Leader (A (AppendTo 1)),
     Ev 4 16 Leader (A (AppendTo 2)),
     Ev 4 16 Leader (A (AppendTo 3)),
     Ev 4 16 Leader (A (AppendSent 3 [100, 123, 123, 100, 100])),
     Ev 4 16 Leader (A (AppendSent 1 [100, 123, 123, 100, 100])),
     Ev 4 16 Leader (A (AppendSent 2 [100, 123, 123, 100, 100])),
     Ev 3 22 Candidate (E (VoteReply 1 22 False)),
     Ev 3 22 Candidate (E (Indices 1 1)),
     Ev 3 22 Candidate (E (CheckElection 1 5)),
     Ev 4 16 Leader (A (AppendSent 0 [100, 123, 123, 100, 100])),
     Ev 4 16 Leader (A (AppendNotOk 0)),
     Ev 4 16 Leader (A (AppendNotOk 3)),
     Ev 4 16 Leader (A (AppendNotOk 1)),
     Ev 4 16 Leader (A (AppendNotOk 2)),
     Ev 4 16 Leader (A HeartBeat),
     Ev 0 20 Candidate (E StartElection),
     Ev 4 16 Leader (A (AppendTo 0)),
     Ev 4 16 Leader (A (AppendTo 1)),
     Ev 4 16 Leader (A (AppendTo 2)),
     Ev 4 16 Leader (A (AppendTo 3)),
     Ev 4 16 Leader (A (AppendSent 3 [100, 123, 123, 100, 100])),
     Ev 0 21 Candidate (E BecomeCandidate),
     Ev 0 21 Candidate (E (RequestVoteTo 1)),
     Ev 0 21 Candidate (E (RequestVoteTo 2)),
     Ev 0 21 Candidate (E (RequestVoteTo 3)),
     Ev 0 21 Candidate (E (RequestVoteTo 4)),
     Ev 4 16 Leader (A (AppendSent 0 [100, 123, 123, 100, 100])),
     Ev 4 16 Leader (A (AppendSent 1 [100, 123, 123, 100, 100])),
     Ev 4 16 Leader (A (AppendSent 2 [100, 123, 123, 100, 100])),
     Ev 0 21 Candidate (E (VoteNotOk 2)),
     Ev 2 22 Follower (E (VoteReply 1 21 False)),
     Ev 2 22 Follower (E (Indices 2 2)),
     Ev 2 22 Follower (E (CheckElection 0 5)),
     Ev 2 22 Follower (E NotCandidate),
     Ev 4 16 Leader (A (AppendNotOk 0))]"

definition run_24 :: "line list" where
  "run_24 = [
     Ev 0 21 Candidate (E (VoteNotOk 4)),
     Ev 4 16 Leader (A (AppendNotOk 1)),
     Ev 0 21 Candidate (E (VoteNotOk 1)),
     Ev 0 21 Candidate (E (VoteNotOk 3)),
     Ev 4 16 Leader (A (AppendNotOk 2)),
     Ev 4 16 Leader (A HeartBeat),
     Ev 4 16 Leader (A (AppendTo 0)),
     Ev 4 16 Leader (A (AppendTo 1)),
     Ev 4 16 Leader (A (AppendTo 2)),
     Ev 4 16 Leader (A (AppendTo 3)),
     Ev 4 16 Leader (A (AppendSent 3 [100, 123, 123, 100, 100])),
     Ev 4 16 Leader (A (AppendSent 2 [100, 123, 123, 100, 100])),
     Ev 4 16 Leader (A (AppendNotOk 3)),
     Ev 4 16 Leader (A (AppendSent 0 [100, 123, 123, 100, 100])),
     Ev 4 16 Leader (A (AppendSent 1 [100, 123, 123, 100, 100])),
     Ev 4 16 Leader (A (AppendNotOk 1)),
     Ev 4 16 Leader (A (AppendNotOk 2)),
     Ev 4 16 Leader (A (AppendNotOk 0)),
     Ev 4 16 Leader (A (AppendNotOk 3)),
     Ev 1 22 Follower (E StartElection),
     Ev 2 22 Follower (E StartElection),
     Ev 4 16 Leader (A HeartBeat),
     Ev 4 16 Leader (A (AppendTo 0)),
     Ev 4 16 Leader (A (AppendTo 1)),
     Ev 4 16 Leader (A (AppendTo 2)),
     Ev 4 16 Leader (A (AppendTo 3)),
     Ev 4 16 Leader (A (AppendSent 3 [100, 123, 123, 100, 100])),
     Ev 4 16 Leader (A (AppendSent 0 [100, 123, 123, 100, 100])),
     Ev 2 23 Candidate (E BecomeCandidate),
     Ev 2 23 Candidate (E (RequestVoteTo 0)),
     Ev 2 23 Candidate (E (RequestVoteTo 1)),
     Ev 2 23 Candidate (E (RequestVoteTo 3)),
     Ev 2 23 Candidate (E (RequestVoteTo 4)),
     Ev 1 23 Candidate (E BecomeCandidate),
     Ev 1 23 Candidate (E (RequestVoteTo 0)),
     Ev 1 23 Candidate (E (RequestVoteTo 2)),
     Ev 1 23 Candidate (E (RequestVoteTo 3)),
     Ev 1 23 Candidate (E (RequestVoteTo 4)),
     Ev 4 16 Leader (A (AppendSent 1 [100, 123, 123, 100, 100])),
     Ev 3 22 Candidate (E StartElection),
     Ev 4 16 Leader (A (AppendSent 2 [100, 123, 123, 100, 100])),
     Ev 3 23 Candidate (E BecomeCandidate),
     Ev 3 23 Candidate (E (RequestVoteTo 0)),
     Ev 3 23 Candidate (E (RequestVoteTo 1)),
     Ev 3 23 Candidate (E (RequestVoteTo 2)),
     Ev 3 23 Candidate (E (RequestVoteTo 4)),
     Ev 1 23 Candidate (E (VoteNotOk 3)),
     Ev 3 23 Candidate (E (VoteNotOk 4)),
     Ev 2 23 Candidate (E (VoteRequested 2 1 23)),
     Ev 1 23 Candidate (E (VoteRequested 1 3 23)),
     Ev 1 23 Candidate (E (VoteArgs 23 123 16 122 123)),
     Ev 1 23 Candidate (E (Indices 2 2)),
     Ev 1 23 Candidate (E (LogTerms 16 14 122 123)),
     Ev 1 23 Candidate (E LogOutdated),
     Ev 2 23 Candidate (E (VoteArgs 23 122 16 122 123)),
     Ev 2 23 Candidate (E (Indices 2 2)),
     Ev 2 23 Candidate (E (LogTerms 16 16 122 122)),
     Ev 2 23 Candidate (E RefuseVote),
     Ev 2 23 Candidate (E (VoteNotOk 0)),
     Ev 4 16 Leader (A (AppendNotOk 0)),
     Ev 1 23 Candidate (E (VoteRequested 1 2 23)),
     Ev 3 23 Candidate (E (VoteRequested 3 2 23)),
     Ev 2 23 Candidate (E (VoteRequested 2 3 23)),
     Ev 3 23 Candidate (E (VoteArgs 23 122 14 123 124)),
     Ev 2 23 Candidate (E (VoteArgs 23 123 16 122 123)),
     Ev 2 23 Candidate (E (Indices 2 2)),
     Ev 3 23 Candidate (E (Indices 1 1)),
     Ev 2 23 Candidate (E (LogTerms 16 14 122 123)),
     Ev 3 23 Candidate (E (LogTerms 14 16 123 122)),
     Ev 3 23 Candidate (E RefuseVote),
     Ev 1 23 Candidate (E (VoteArgs 23 122 16 122 123)),
     Ev 1 23 Candidate (E (Indices 2 2)),
     Ev 1 23 Candidate (E (LogTerms 16 16 122 122)),
     Ev 1 23 Candidate (E RefuseVote),
     Ev 2 23 Candidate (E LogOutdated),
     Ev 2 23 Candidate (E (VoteNotOk 4)),
     Ev 4 16 Leader (A (AppendNotOk 1)),
     Ev 3 23 Candidate (E (VoteNotOk 0)),
     Ev 1 23 Candidate (E (VoteNotOk 4)),
     Ev 1 23 Candidate (E (VoteNotOk 0)),
     Ev 4 16 Leader (A (AppendNotOk 2)),
     Ev 4 16 Leader (A (AppendNotOk 3)),
     Ev 4 16 Leader (A HeartBeat),
     Ev 4 16 Leader (A (AppendTo 0)),
     Ev 4 16 Leader (A (AppendTo 1)),
     Ev 4 16 Leader (A (AppendTo 2)),
     Ev 4 16 Leader (A (AppendTo 3)),
     Ev 4 16 Leader (A (AppendSent 3 [100, 123, 123, 100, 100])),
     Ev 4 16 Leader (A (AppendSent 1 [100, 123, 123, 100, 100])),
     Ev 4 16 Leader (A (AppendSent 0 [100, 123, 123, 100, 100])),
     Ev 4 16 Leader (A (AppendSent 2 [100, 123, 123, 100, 100])),
     Ev 4 16 Leader (A (AppendNotOk 1)),
     Ev 4 16 Leader (A (AppendNotOk 2)),
     Ev 4 16 Leader (A (AppendNotOk 3)),
     Ev 4 16 Leader (A (AppendNotOk 0)),
     Ev 4 16 Leader (A HeartBeat),
     Ev 4 16 Leader (A (AppendTo 0)),
     Ev 4 16 Leader (A (AppendTo 1)),
     Ev 4 16 Leader (A (AppendTo 2)),
     Ev 4 16 Leader (A (AppendTo 3)),
     Ev 4 16 Leader (A (AppendSent 3 [100, 123, 123, 100, 100])),
     Ev 4 16 Leader (A (AppendSent 1 [100, 123, 123, 100, 100])),
     Ev 4 16 Leader (A (AppendSent 2 [100, 123, 123, 100, 100])),
     Ev 4 16 Leader (A (AppendSent 0 [100, 123, 123, 100, 100])),
     Ev 1 23 Candidate (E (VoteReply 3 20 False)),
     Ev 1 23 Candidate (E (Indices 2 2)),
     Ev 1 23 Candidate (E (CheckElection 1 5)),
     Ev 4 16 Leader (A (AppendNotOk 1)),
     Ev 4 16 Leader (A (AppendNotOk 2)),
     Ev 3 23 Candidate (E (VoteReply 1 23 False)),
     Ev 3 23 Candidate (E (Indices 1 1)),
     Ev 3 23 Candidate (E (CheckElection 1 5)),
     Ev 4 16 Leader (A (AppendNotOk 3)),
     Ev 4 16 Leader (A (AppendNotOk 0)),
     Ev 4 16 Leader (A HeartBeat),
     Ev 4 16 Leader (A (AppendTo 0)),
     Ev 4 16 Leader (A (AppendTo 1)),
     Ev 4 16 Leader (A (AppendTo 2)),
     Ev 4 16 Leader (A (AppendTo 3)),
     Ev 4 16 Leader (A (AppendSent 1 [100, 123, 123, 100, 100])),
     Ev 4 16 Leader (A (AppendSent 0 [100, 123, 123, 100, 100])),
     Ev 4 16 Leader (A (AppendSent 2 [100, 123, 123, 100, 100])),
     Ev 4 16 Leader (A (AppendSent 3 [100, 123, 123, 100, 100])),
     Ev 4 16 Leader (A (AppendNotOk 3)),
     Ev 4 16 Leader (A (AppendNotOk 2)),
     Ev 4 16 Leader (A (AppendNotOk 0)),
     Ev 4 16 Leader (A (AppendNotOk 1)),
     Ev 4 16 Leader (A HeartBeat),
     Ev 4 16 Leader (A (AppendTo 0)),
     Ev 4 16 Leader (A (AppendTo 1)),
     Ev 4 16 Leader (A (AppendTo 2)),
     Ev 4 16 Leader (A (AppendTo 3)),
     Ev 4 16 Leader (A (AppendSent 3 [100, 123, 123, 100, 100])),
     Ev 4 16 Leader (A (AppendSent 1 [100, 123, 123, 100, 100])),
     Ev 4 16 Leader (A (AppendSent 2 [100, 123, 123, 100, 100])),
     Ev 4 16 Leader (A (AppendSent 0 [100, 123, 123, 100, 100])),
     Ev 4 16 Leader (A (AppendNotOk 0)),
     Ev 4 16 Leader (A (AppendNotOk 2)),
     Ev 4 16 Leader (A (AppendNotOk 1)),
     Ev 2 23 Candidate (E (VoteReply 3 23 False)),
     Ev 2 23 Candidate (E (Indices 2 2)),
     Ev 2 23 Candidate (E (CheckElection 1 5)),
     Ev 4 16 Leader (A (AppendNotOk 3)),
     Ev 4 16 Leader (A HeartBeat),
     Ev 4 16 Leader (A (AppendTo 0)),
     Ev 4 16 Leader (A (AppendTo 1)),
     Ev 4 16 Leader (A (AppendTo 2)),
     Ev 4 16 Leader (A (AppendTo 3)),
     Ev 4 16 Leader (A (AppendSent 3 [100, 123, 123, 100, 100])),
     Ev 2 23 Candidate (E (VoteReply 1 23 False))]"

definition run_25 :: "line list" where
  "run_25 = [
     Ev 2 23 Candidate (E (Indices 2 2)),
     Ev 2 23 Candidate (E (CheckElection 1 5)),
     Ev 4 16 Leader (A (AppendSent 1 [100, 123, 123, 100, 100])),
     Ev 4 16 Leader (A (AppendSent 2 [100, 123, 123, 100, 100])),
     Ev 4 16 Leader (A (AppendSent 0 [100, 123, 123, 100, 100])),
     Ev 1 23 Candidate (E (VoteReply 2 23 False)),
     Ev 1 23 Candidate (E (Indices 2 2)),
     Ev 1 23 Candidate (E (CheckElection 1 5)),
     Ev 4 16 Leader (A (AppendNotOk 1)),
     Ev 1 23 Candidate (E (VoteReply 2 21 False)),
     Ev 1 23 Candidate (E (Indices 2 2)),
     Ev 1 23 Candidate (E (CheckElection 1 5)),
     Ev 4 16 Leader (A (AppendNotOk 2)),
     Ev 4 16 Leader (A (AppendNotOk 3)),
     Ev 4 16 Leader (A (AppendNotOk 0)),
     Ev 3 23 Candidate (E StartElection),
     Ev 2 23 Candidate (E StartElection),
     Ev 0 21 Candidate (E StartElection),
     Ev 3 24 Candidate (E BecomeCandidate),
     Ev 3 24 Candidate (E (RequestVoteTo 0)),
     Ev 3 24 Candidate (E (RequestVoteTo 1)),
     Ev 3 24 Candidate (E (RequestVoteTo 2)),
     Ev 3 24 Candidate (E (RequestVoteTo 4)),
     Ev 2 24 Candidate (E BecomeCandidate),
     Ev 2 24 Candidate (E (RequestVoteTo 0)),
     Ev 2 24 Candidate (E (RequestVoteTo 1)),
     Ev 2 24 Candidate (E (RequestVoteTo 3)),
     Ev 2 24 Candidate (E (RequestVoteTo 4)),
     Ev 4 16 Leader (A HeartBeat),
     Ev 4 16 Leader (A (AppendTo 0)),
     Ev 4 16 Leader (A (AppendTo 1)),
     Ev 4 16 Leader (A (AppendTo 2)),
     Ev 4 16 Leader (A (AppendTo 3)),
     Ev 4 16 Leader (A (AppendSent 3 [100, 123, 123, 100, 100])),
     Ev 4 16 Leader (A (AppendSent 1 [100, 123, 123, 100, 100])),
     Ev 4 16 Leader (A (AppendSent 2 [100, 123, 123, 100, 100])),
     Ev 4 16 Leader (A (AppendSent 0 [100, 123, 123, 100, 100])),
     Ev 0 22 Candidate (E BecomeCandidate),
     Ev 0 22 Candidate (E (RequestVoteTo 1)),
     Ev 0 22 Candidate (E (RequestVoteTo 2)),
     Ev 0 22 Candidate (E (RequestVoteTo 3)),
     Ev 0 22 Candidate (E (RequestVoteTo 4)),
     Ev 2 24 Candidate (E (VoteNotOk 3)),
     Ev 0 22 Candidate (E (VoteNotOk 4)),
     Ev 2 24 Candidate (E (VoteNotOk 1)),
     Ev 4 16 Leader (A (AppendNotOk 2)),
     Ev 4 16 Leader (A (AppendNotOk 0)),
     Ev 2 24 Candidate (E (VoteRequested 2 3 24)),
     Ev 1 23 Candidate (E (VoteRequested 1 3 24)),
     Ev 2 24 Candidate (E (VoteArgs 24 123 16 122 123)),
     Ev 1 23 Candidate (E (VoteArgs 24 123 16 122 123)),
     Ev 1 23 Candidate (E (Indices 2 2)),
     Ev 2 24 Candidate (E (Indices 2 2)),
     Ev 2 24 Candidate (E (LogTerms 16 14 122 123)),
     Ev 2 24 Candidate (E LogOutdated),
     Ev 1 23 Candidate (E (TermLower 3)),
     Ev 1 24 Follower (E (LogTerms 16 14 122 123)),
     Ev 1 24 Follower (E LogOutdated),
     Ev 4 16 Leader (A (AppendNotOk 1)),
     Ev 2 24 Candidate (E (VoteNotOk 0)),
     Ev 3 24 Candidate (E (VoteNotOk 4)),
     Ev 2 24 Candidate (E (VoteNotOk 4)),
     Ev 0 22 Candidate (E (VoteNotOk 2)),
     Ev 0 22 Candidate (E (VoteNotOk 1)),
     Ev 0 22 Candidate (E (VoteNotOk 3)),
     Ev 3 24 Candidate (E (VoteNotOk 0)),
     Ev 4 16 Leader (A (AppendNotOk 3)),
     Ev 4 16 Leader (A HeartBeat),
     Ev 4 16 Leader (A (AppendTo 0)),
     Ev 4 16 Leader (A (AppendTo 1)),
     Ev 4 16 Leader (A (AppendTo 2)),
     Ev 4 16 Leader (A (AppendTo 3)),
     Ev 4 16 Leader (A (AppendSent 3 [100, 123, 123, 100, 100])),
     Ev 4 16 Leader (A (AppendSent 2 [100, 123, 123, 100, 100])),
     Ev 4 16 Leader (A (AppendSent 1 [100, 123, 123, 100, 100])),
     Ev 4 16 Leader (A (AppendSent 0 [100, 123, 123, 100, 100])),
     Ev 4 16 Leader (A (AppendNotOk 0)),
     Ev 4 16 Leader (A (AppendNotOk 3)),
     Ev 4 16 Leader (A (AppendNotOk 1)),
     Ev 4 16 Leader (A (AppendNotOk 2)),
     Ev 4 16 Leader (A HeartBeat),
     Ev 4 16 Leader (A (AppendTo 0)),
     Ev 4 16 Leader (A (AppendTo 1)),
     Ev 4 16 Leader (A (AppendTo 2)),
     Ev 4 16 Leader (A (AppendTo 3)),
     Ev 4 16 Leader (A (AppendSent 3 [100, 123, 123, 100, 100])),
     Ev 4 16 Leader (A (AppendSent 0 [100, 123, 123, 100, 100])),
     Ev 4 16 Leader (A (AppendSent 2 [100, 123, 123, 100, 100])),
     Ev 4 16 Leader (A (AppendSent 1 [100, 123, 123, 100, 100])),
     Ev 4 16 Leader (A (AppendNotOk 2)),
     Ev 4 16 Leader (A (AppendNotOk 1)),
     Ev 3 24 Candidate (E (VoteReply 2 24 False)),
     Ev 3 24 Candidate (E (Indices 1 1)),
     Ev 3 24 Candidate (E (CheckElection 1 5)),
     Ev 4 16 Leader (A (AppendNotOk 3)),
     Ev 4 16 Leader (A (AppendNotOk 0)),
     Ev 4 16 Leader (A HeartBeat),
     Ev 4 16 Leader (A (AppendTo 0)),
     Ev 4 16 Leader (A (AppendTo 1)),
     Ev 4 16 Leader (A (AppendTo 2)),
     Ev 4 16 Leader (A (AppendTo 3)),
     Ev 4 16 Leader (A (AppendSent 1 [100, 123, 123, 100, 100])),
     Ev 4 16 Leader (A (AppendSent 3 [100, 123, 123, 100, 100])),
     Ev 4 16 Leader (A (AppendSent 2 [100, 123, 123, 100, 100])),
     Ev 4 16 Leader (A (AppendSent 0 [100, 123, 123, 100, 100])),
     Ev 4 16 Leader (A (AppendNotOk 2)),
     Ev 4 16 Leader (A (AppendNotOk 1)),
     Ev 4 16 Leader (A (AppendNotOk 0)),
     Ev 3 24 Candidate (E (VoteReply 1 24 False)),
     Ev 3 24 Candidate (E (Indices 1 1)),
     Ev 3 24 Candidate (E (CheckElection 1 5)),
     Ev 3 24 Candidate (E (VoteReply 2 23 False)),
     Ev 3 24 Candidate (E (Indices 1 1)),
     Ev 3 24 Candidate (E (CheckElection 1 5)),
     Ev 4 16 Leader (A (AppendNotOk 3)),
     Ev 4 16 Leader (A HeartBeat),
     Ev 4 16 Leader (A (AppendTo 0)),
     Ev 4 16 Leader (A (AppendTo 1)),
     Ev 4 16 Leader (A (AppendTo 2)),
     Ev 4 16 Leader (A (AppendTo 3)),
     Ev 4 16 Leader (A (AppendSent 3 [100, 123, 123, 100, 100])),
     Ev 4 16 Leader (A (AppendSent 1 [100, 123, 123, 100, 100])),
     Ev 4 16 Leader (A (AppendSent 2 [100, 123, 123, 100, 100])),
     Ev 4 16 Leader (A (AppendSent 0 [100, 123, 123, 100, 100])),
     Ev 4 16 Leader (A (AppendNotOk 0)),
     Ev 4 16 Leader (A (AppendNotOk 1)),
     Ev 4 16 Leader (A (AppendNotOk 2)),
     Ev 4 16 Leader (A (AppendNotOk 3)),
     Ev 4 16 Leader (A HeartBeat),
     Ev 4 16 Leader (A (AppendTo 0)),
     Ev 4 16 Leader (A (AppendTo 1)),
     Ev 4 16 Leader (A (AppendTo 2)),
     Ev 4 16 Leader (A (AppendTo 3)),
     Ev 4 16 Leader (A (AppendSent 3 [100, 123, 123, 100, 100])),
     Ev 4 16 Leader (A (AppendSent 1 [100, 123, 123, 100, 100])),
     Ev 4 16 Leader (A (AppendSent 0 [100, 123, 123, 100, 100])),
     Ev 4 16 Leader (A (AppendSent 2 [100, 123, 123, 100, 100])),
     Ev 4 16 Leader (A (AppendNotOk 0)),
     Ev 4 16 Leader (A (AppendNotOk 3)),
     Ev 4 16 Leader (A (AppendNotOk 1)),
     Ev 4 16 Leader (A (AppendNotOk 2)),
     Ev 3 24 Candidate (E StartElection),
     Ev 1 24 Follower (E StartElection),
     Ev 3 25 Candidate (E BecomeCandidate),
     Ev 4 16 Leader (A HeartBeat),
     Ev 4 16 Leader (A (AppendTo 0)),
     Ev 3 25 Candidate (E (RequestVoteTo 0)),
     Ev 3 25 Candidate (E (RequestVoteTo 1)),
     Ev 4 16 Leader (A (AppendTo 1)),
     Ev 4 16 Leader (A (AppendTo 2))]"

definition run_26 :: "line list" where
  "run_26 = [
     Ev 4 16 Leader (A (AppendTo 3)),
     Ev 3 25 Candidate (E (RequestVoteTo 2)),
     Ev 4 16 Leader (A (AppendSent 0 [100, 123, 123, 100, 100])),
     Ev 1 25 Candidate (E BecomeCandidate),
     Ev 1 25 Candidate (E (RequestVoteTo 0)),
     Ev 1 25 Candidate (E (RequestVoteTo 2)),
     Ev 1 25 Candidate (E (RequestVoteTo 3)),
     Ev 1 25 Candidate (E (RequestVoteTo 4)),
     Ev 3 25 Candidate (E (RequestVoteTo 4)),
     Ev 4 16 Leader (A (AppendSent 3 [100, 123, 123, 100, 100])),
     Ev 4 16 Leader (A (AppendSent 1 [100, 123, 123, 100, 100])),
     Ev 4 16 Leader (A (AppendSent 2 [100, 123, 123, 100, 100])),
     Ev 4 16 Leader (A (AppendNotOk 2)),
     Ev 1 25 Candidate (E (VoteNotOk 3)),
     Ev 1 25 Candidate (E (VoteRequested 1 3 25)),
     Ev 1 25 Candidate (E (VoteArgs 25 123 16 122 123)),
     Ev 1 25 Candidate (E (Indices 2 2)),
     Ev 1 25 Candidate (E (LogTerms 16 14 122 123)),
     Ev 1 25 Candidate (E LogOutdated),
     Ev 3 25 Candidate (E (VoteReply 1 25 False)),
     Ev 3 25 Candidate (E (Indices 1 1)),
     Ev 3 25 Candidate (E (CheckElection 1 5)),
     Ev 2 24 Candidate (E (VoteRequested 2 3 25)),
     Ev 2 24 Candidate (E (VoteArgs 25 123 16 122 123)),
     Ev 2 24 Candidate (E (Indices 2 2)),
     Ev 2 24 Candidate (E (TermLower 3)),
     Ev 2 25 Follower (E (LogTerms 16 14 122 123)),
     Ev 2 25 Follower (E LogOutdated),
     Ev 2 25 Follower (E (VoteRequested 3 1 25)),
     Ev 2 25 Follower (E (VoteArgs 25 122 16 122 123)),
     Ev 2 25 Follower (E (Indices 2 2)),
     Ev 2 25 Follower (E (LogTerms 16 16 122 122)),
     Ev 2 25 Follower (E RefuseVote),
     Ev 3 25 Candidate (E (VoteNotOk 0)),
     Ev 1 25 Candidate (E (VoteNotOk 0)),
     Ev 4 16 Leader (A (AppendNotOk 3)),
     Ev 4 16 Leader (A (AppendNotOk 1)),
     Ev 3 25 Candidate (E (VoteNotOk 4)),
     Ev 4 16 Leader (A (AppendNotOk 0)),
     Ev 4 16 Leader (A HeartBeat),
     Ev 4 16 Leader (A (AppendTo 0)),
     Ev 4 16 Leader (A (AppendTo 1)),
     Ev 4 16 Leader (A (AppendTo 2)),
     Ev 4 16 Leader (A (AppendTo 3)),
     Ev 1 25 Candidate (E (VoteNotOk 4)),
     Ev 0 22 Candidate (E StartElection),
     Ev 4 16 Leader (A (AppendSent 3 [100, 123, 123, 100, 100])),
     Ev 4 16 Leader (A (AppendSent 1 [100, 123, 123, 100, 100])),
     Ev 4 16 Leader (A (AppendSent 0 [100, 123, 123, 100, 100])),
     Ev 0 23 Candidate (E BecomeCandidate),
     Ev 0 23 Candidate (E (RequestVoteTo 1)),
     Ev 0 23 Candidate (E (RequestVoteTo 2)),
     Ev 4 16 Leader (A (AppendSent 2 [100, 123, 123, 100, 100])),
     Ev 0 23 Candidate (E (RequestVoteTo 3)),
     Ev 0 23 Candidate (E (RequestVoteTo 4)),
     Ev 0 23 Candidate (E (VoteNotOk 3)),
     Ev 0 23 Candidate (E (VoteNotOk 2)),
     Ev 0 23 Candidate (E (VoteNotOk 1)),
     Ev 4 16 Leader (A (AppendNotOk 0)),
     Ev 4 16 Leader (A (AppendNotOk 3)),
     Ev 4 16 Leader (A (AppendNotOk 1)),
     Ev 4 16 Leader (A (AppendNotOk 2)),
     Ev 0 23 Candidate (E (VoteNotOk 4)),
     Ev 4 16 Leader (A HeartBeat),
     Ev 4 16 Leader (A (AppendTo 0)),
     Ev 4 16 Leader (A (AppendTo 1)),
     Ev 4 16 Leader (A (AppendTo 2)),
     Ev 4 16 Leader (A (AppendTo 3)),
     Ev 4 16 Leader (A (AppendSent 3 [100, 123, 123, 100, 100])),
     Ev 4 16 Leader (A (AppendSent 1 [100, 123, 123, 100, 100])),
     Ev 4 16 Leader (A (AppendSent 2 [100, 123, 123, 100, 100])),
     Ev 4 16 Leader (A (AppendSent 0 [100, 123, 123, 100, 100])),
     Ev 4 16 Leader (A (AppendNotOk 0)),
     Ev 4 16 Leader (A (AppendNotOk 2)),
     Ev 4 16 Leader (A (AppendNotOk 3)),
     Ev 4 16 Leader (A (AppendNotOk 1)),
     Ev 4 16 Leader (A HeartBeat),
     Ev 4 16 Leader (A (AppendTo 0)),
     Ev 4 16 Leader (A (AppendTo 1)),
     Ev 4 16 Leader (A (AppendTo 2)),
     Ev 4 16 Leader (A (AppendTo 3)),
     Ev 4 16 Leader (A (AppendSent 3 [100, 123, 123, 100, 100])),
     Ev 4 16 Leader (A (AppendSent 2 [100, 123, 123, 100, 100])),
     Ev 4 16 Leader (A (AppendSent 1 [100, 123, 123, 100, 100])),
     Ev 4 16 Leader (A (AppendSent 0 [100, 123, 123, 100, 100])),
     Ev 4 16 Leader (A (AppendNotOk 3)),
     Ev 4 16 Leader (A (AppendNotOk 1)),
     Ev 4 16 Leader (A (AppendNotOk 0)),
     Ev 4 16 Leader (A (AppendNotOk 2)),
     Ev 4 16 Leader (A HeartBeat),
     Ev 4 16 Leader (A (AppendTo 0)),
     Ev 4 16 Leader (A (AppendTo 1)),
     Ev 4 16 Leader (A (AppendTo 2)),
     Ev 4 16 Leader (A (AppendTo 3)),
     Ev 4 16 Leader (A (AppendSent 1 [100, 123, 123, 100, 100])),
     Ev 4 16 Leader (A (AppendSent 0 [100, 123, 123, 100, 100])),
     Ev 4 16 Leader (A (AppendSent 3 [100, 123, 123, 100, 100])),
     Ev 4 16 Leader (A (AppendSent 2 [100, 123, 123, 100, 100])),
     Ev 4 16 Leader (A (AppendNotOk 1)),
     Ev 4 16 Leader (A (AppendNotOk 0)),
     Ev 4 16 Leader (A (AppendNotOk 2)),
     Ev 4 16 Leader (A (AppendNotOk 3)),
     Ev 4 16 Leader (A HeartBeat),
     Ev 4 16 Leader (A (AppendTo 0)),
     Ev 3 25 Candidate (E StartElection),
     Ev 4 16 Leader (A (AppendTo 1)),
     Ev 4 16 Leader (A (AppendTo 2)),
     Ev 4 16 Leader (A (AppendTo 3)),
     Ev 4 16 Leader (A (AppendSent 0 [100, 123, 123, 100, 100])),
     Ev 3 26 Candidate (E BecomeCandidate),
     Ev 3 26 Candidate (E (RequestVoteTo 0)),
     Ev 3 26 Candidate (E (RequestVoteTo 1)),
     Ev 3 26 Candidate (E (RequestVoteTo 2)),
     Ev 3 26 Candidate (E (RequestVoteTo 4)),
     Ev 4 16 Leader (A (AppendSent 2 [100, 123, 123, 100, 100])),
     Ev 4 16 Leader (A (AppendSent 1 [100, 123, 123, 100, 100])),
     Ev 4 16 Leader (A (AppendSent 3 [100, 123, 123, 100, 100])),
     Ev 4 16 Leader (A (AppendNotOk 1)),
     Ev 4 16 Leader (A (AppendNotOk 3)),
     Ev 1 25 Candidate (E (VoteRequested 1 3 26)),
     Ev 1 25 Candidate (E (VoteArgs 26 123 16 122 123)),
     Ev 2 25 Follower (E (VoteRequested 3 3 26)),
     Ev 1 25 Candidate (E (Indices 2 2)),
     Ev 2 25 Follower (E (VoteArgs 26 123 16 122 123)),
     Ev 2 25 Follower (E (Indices 2 2)),
     Ev 1 25 Candidate (E (TermLower 3)),
     Ev 2 25 Follower (E (TermLower 3)),
     Ev 2 26 Follower (E (LogTerms 16 14 122 123)),
     Ev 2 26 Follower (E LogOutdated),
     Ev 1 26 Follower (E (LogTerms 16 14 122 123)),
     Ev 1 26 Follower (E LogOutdated),
     Ev 3 26 Candidate (E (VoteNotOk 2)),
     Ev 3 26 Candidate (E (VoteReply 1 26 False)),
     Ev 3 26 Candidate (E (Indices 1 1)),
     Ev 3 26 Candidate (E (CheckElection 1 5)),
     Ev 3 26 Candidate (E (VoteNotOk 4)),
     Ev 4 16 Leader (A (AppendNotOk 0)),
     Ev 4 16 Leader (A (AppendNotOk 2)),
     Ev 3 26 Candidate (E (VoteNotOk 0)),
     Ev 4 16 Leader (A HeartBeat),
     Ev 4 16 Leader (A (AppendTo 0)),
     Ev 4 16 Leader (A (AppendTo 1)),
     Ev 4 16 Leader (A (AppendTo 2)),
     Ev 4 16 Leader (A (AppendTo 3)),
     Ev 4 16 Leader (A (AppendSent 0 [100, 123, 123, 100, 100])),
     Ev 4 16 Leader (A (AppendSent 3 [100, 123, 123, 100, 100])),
     Ev 4 16 Leader (A (AppendSent 1 [100, 123, 123, 100, 100])),
     Ev 4 16 Leader (A (AppendSent 2 [100, 123, 123, 100, 100])),
     Ev 4 16 Leader (A (AppendNotOk 2)),
     Ev 4 16 Leader (A (AppendNotOk 0))]"

definition run_27 :: "line list" where
  "run_27 = [
     Ev 4 16 Leader (A (AppendNotOk 3)),
     Ev 4 16 Leader (A (AppendNotOk 1)),
     Ev 4 16 Leader (A HeartBeat),
     Ev 4 16 Leader (A (AppendTo 0)),
     Ev 4 16 Leader (A (AppendTo 1)),
     Ev 4 16 Leader (A (AppendTo 2)),
     Ev 4 16 Leader (A (AppendTo 3)),
     Ev 4 16 Leader (A (AppendSent 3 [100, 123, 123, 100, 100])),
     Ev 4 16 Leader (A (AppendSent 2 [100, 123, 123, 100, 100])),
     Ev 4 16 Leader (A (AppendSent 0 [100, 123, 123, 100, 100])),
     Ev 4 16 Leader (A (AppendSent 1 [100, 123, 123, 100, 100])),
     Ev 4 16 Leader (A (AppendNotOk 3)),
     Ev 4 16 Leader (A (AppendNotOk 1)),
     Ev 1 26 Follower (E (VoteReply 2 25 False)),
     Ev 1 26 Follower (E (Indices 2 2)),
     Ev 1 26 Follower (E (CheckElection 0 5)),
     Ev 1 26 Follower (E NotCandidate),
     Ev 4 16 Leader (A (AppendNotOk 2)),
     Ev 4 16 Leader (A (AppendNotOk 0)),
     Ev 4 16 Leader (A HeartBeat),
     Ev 4 16 Leader (A (AppendTo 0)),
     Ev 4 16 Leader (A (AppendTo 1)),
     Ev 4 16 Leader (A (AppendTo 2)),
     Ev 4 16 Leader (A (AppendTo 3)),
     Ev 4 16 Leader (A (AppendSent 3 [100, 123, 123, 100, 100])),
     Ev 4 16 Leader (A (AppendSent 0 [100, 123, 123, 100, 100])),
     Ev 4 16 Leader (A (AppendSent 1 [100, 123, 123, 100, 100])),
     Ev 4 16 Leader (A (AppendSent 2 [100, 123, 123, 100, 100])),
     Ev 4 16 Leader (A (AppendNotOk 0)),
     Ev 4 16 Leader (A (AppendNotOk 2)),
     Ev 4 16 Leader (A (AppendNotOk 1)),
     Ev 4 16 Leader (A (AppendNotOk 3)),
     Ev 4 16 Leader (A HeartBeat),
     Ev 4 16 Leader (A (AppendTo 0)),
     Ev 4 16 Leader (A (AppendTo 1)),
     Ev 4 16 Leader (A (AppendTo 2)),
     Ev 4 16 Leader (A (AppendTo 3)),
     Ev 0 23 Candidate (E StartElection),
     Ev 4 16 Leader (A (AppendSent 3 [100, 123, 123, 100, 100])),
     Ev 4 16 Leader (A (AppendSent 0 [100, 123, 123, 100, 100])),
     Ev 0 24 Candidate (E BecomeCandidate),
     Ev 0 24 Candidate (E (RequestVoteTo 1)),
     Ev 0 24 Candidate (E (RequestVoteTo 2)),
     Ev 0 24 Candidate (E (RequestVoteTo 3)),
     Ev 0 24 Candidate (E (RequestVoteTo 4)),
     Ev 4 16 Leader (A (AppendSent 1 [100, 123, 123, 100, 100])),
     Ev 4 16 Leader (A (AppendSent 2 [100, 123, 123, 100, 100])),
     Ev 0 24 Candidate (E (VoteNotOk 1)),
     Ev 0 24 Candidate (E (VoteNotOk 4)),
     Ev 4 16 Leader (A (AppendNotOk 3)),
     Ev 0 24 Candidate (E (VoteNotOk 2)),
     Ev 4 16 Leader (A (AppendNotOk 1)),
     Ev 4 16 Leader (A (AppendNotOk 0)),
     Ev 4 16 Leader (A (AppendNotOk 2)),
     Ev 0 24 Candidate (E (VoteNotOk 3)),
     Ev 2 26 Follower (E StartElection),
     Ev 4 16 Leader (A HeartBeat),
     Ev 4 16 Leader (A (AppendTo 0)),
     Ev 4 16 Leader (A (AppendTo 1)),
     Ev 2 27 Candidate (E BecomeCandidate),
     Ev 4 16 Leader (A (AppendTo 2)),
     Ev 4 16 Leader (A (AppendTo 3)),
     Ev 2 27 Candidate (E (RequestVoteTo 0)),
     Ev 2 27 Candidate (E (RequestVoteTo 1)),
     Ev 4 16 Leader (A (AppendSent 1 [100, 123, 123, 100, 100])),
     Ev 2 27 Candidate (E (RequestVoteTo 3)),
     Ev 2 27 Candidate (E (RequestVoteTo 4)),
     Ev 4 16 Leader (A (AppendSent 3 [100, 123, 123, 100, 100])),
     Ev 3 26 Candidate (E (VoteReply 2 25 False)),
     Ev 3 26 Candidate (E (Indices 1 1)),
     Ev 3 26 Candidate (E (CheckElection 1 5)),
     Ev 4 16 Leader (A (AppendSent 0 [100, 123, 123, 100, 100])),
     Ev 4 16 Leader (A (AppendSent 2 [100, 123, 123, 100, 100])),
     Ev 4 16 Leader (A (AppendNotOk 3)),
     Ev 1 26 Follower (E (VoteRequested 3 2 27)),
     Ev 1 26 Follower (E (VoteArgs 27 122 16 122 123)),
     Ev 1 26 Follower (E (Indices 2 2)),
     Ev 1 26 Follower (E (TermLower 2)),
     Ev 3 26 Candidate (E (VoteRequested 3 2 27)),
     Ev 3 26 Candidate (E (VoteArgs 27 122 14 123 124)),
     Ev 3 26 Candidate (E (Indices 1 1)),
     Ev 3 26 Candidate (E (TermLower 2)),
     Ev 1 27 Follower (E (LogTerms 16 16 122 122)),
     Ev 3 27 Follower (E (LogTerms 14 16 123 122)),
     Ev 3 27 Follower (E (VoteGranted 27 122 14 123 124)),
     Ev 3 27 Follower (E (Indices 1 1)),
     Ev 1 27 Follower (E (VoteGranted 27 122 16 122 123)),
     Ev 1 27 Follower (E (Indices 2 2)),
     Ev 4 16 Leader (A (AppendNotOk 1)),
     Ev 4 16 Leader (A (AppendNotOk 2)),
     Ev 2 27 Candidate (E (VoteNotOk 4)),
     Ev 4 16 Leader (A (AppendNotOk 0)),
     Ev 2 27 Candidate (E (VoteNotOk 0)),
     Ev 4 16 Leader (A HeartBeat),
     Ev 4 16 Leader (A (AppendTo 0)),
     Ev 4 16 Leader (A (AppendTo 1)),
     Ev 4 16 Leader (A (AppendTo 2)),
     Ev 4 16 Leader (A (AppendTo 3)),
     Ev 4 16 Leader (A (AppendSent 3 [100, 123, 123, 100, 100])),
     Ev 4 16 Leader (A (AppendSent 0 [100, 123, 123, 100, 100])),
     Ev 4 16 Leader (A (AppendSent 1 [100, 123, 123, 100, 100])),
     Ev 4 16 Leader (A (AppendSent 2 [100, 123, 123, 100, 100])),
     Ev 4 16 Leader (A (AppendNotOk 0)),
     Ev 4 16 Leader (A (AppendNotOk 1)),
     Ev 4 16 Leader (A (AppendNotOk 2)),
     Ev 4 16 Leader (A HeartBeat),
     Ev 4 16 Leader (A (AppendTo 0)),
     Ev 4 16 Leader (A (AppendTo 1)),
     Ev 4 16 Leader (A (AppendTo 2)),
     Ev 4 16 Leader (A (AppendTo 3)),
     Ev 4 16 Leader (A (AppendNotOk 3)),
     Ev 4 16 Leader (A (AppendSent 2 [100, 123, 123, 100, 100])),
     Ev 4 16 Leader (A (AppendSent 1 [100, 123, 123, 100, 100])),
     Ev 4 16 Leader (A (AppendSent 0 [100, 123, 123, 100, 100])),
     Ev 4 16 Leader (A (AppendSent 3 [100, 123, 123, 100, 100])),
     Ev 4 16 Leader (A (AppendNotOk 1)),
     Ev 4 16 Leader (A (AppendNotOk 0)),
     Ev 4 16 Leader (A (AppendNotOk 3)),
     Ev 4 16 Leader (A (AppendNotOk 2)),
     Ev 2 27 Candidate (E (VoteReply 1 27 True)),
     Ev 2 27 Candidate (E (Indices 2 2)),
     Ev 2 27 Candidate (E (VoteGained 1)),
     Ev 2 27 Candidate (E (CheckElection 2 5)),
     Ev 4 16 Leader (A HeartBeat),
     Ev 4 16 Leader (A (AppendTo 0)),
     Ev 4 16 Leader (A (AppendTo 1)),
     Ev 4 16 Leader (A (AppendTo 2)),
     Ev 4 16 Leader (A (AppendTo 3)),
     Ev 4 16 Leader (A (AppendSent 3 [100, 123, 123, 100, 100])),
     Ev 4 16 Leader (A (AppendSent 0 [100, 123, 123, 100, 100])),
     Ev 4 16 Leader (A (AppendSent 1 [100, 123, 123, 100, 100])),
     Ev 4 16 Leader (A (AppendSent 2 [100, 123, 123, 100, 100])),
     Ev 4 16 Leader (A (AppendNotOk 0)),
     Ev 4 16 Leader (A (AppendNotOk 2)),
     Ev 4 16 Leader (A (AppendNotOk 1)),
     Ev 4 16 Leader (A (AppendNotOk 3)),
     Ev 0 24 Candidate (E StartElection),
     Ev 4 16 Leader (A HeartBeat),
     Ev 4 16 Leader (A (AppendTo 0)),
     Ev 4 16 Leader (A (AppendTo 1)),
     Ev 4 16 Leader (A (AppendTo 2)),
     Ev 4 16 Leader (A (AppendTo 3)),
     Ev 4 16 Leader (A (AppendSent 3 [100, 123, 123, 100, 100])),
     Ev 4 16 Leader (A (AppendSent 0 [100, 123, 123, 100, 100])),
     Ev 4 16 Leader (A (AppendSent 1 [100, 123, 123, 100, 100])),
     Ev 0 25 Candidate (E BecomeCandidate),
     Ev 0 25 Candidate (E (RequestVoteTo 1)),
     Ev 0 25 Candidate (E (RequestVoteTo 2)),
     Ev 0 25 Candidate (E (RequestVoteTo 3)),
     Ev 0 25 Candidate (E (RequestVoteTo 4))]"

definition run_28 :: "line list" where
  "run_28 = [
     Ev 4 16 Leader (A (AppendSent 2 [100, 123, 123, 100, 100])),
     Ev 4 16 Leader (A (AppendNotOk 2)),
     Ev 0 25 Candidate (E (VoteNotOk 4)),
     Ev 0 25 Candidate (E (VoteNotOk 3)),
     Ev 4 16 Leader (A (AppendNotOk 1)),
     Ev 0 25 Candidate (E (VoteNotOk 2)),
     Ev 0 25 Candidate (E (VoteNotOk 1)),
     Ev 2 27 Candidate (E (VoteReply 3 27 True)),
     Ev 2 27 Candidate (E (Indices 2 2)),
     Ev 2 27 Candidate (E (VoteGained 3)),
     Ev 2 27 Candidate (E (CheckElection 3 5)),
     Ev 2 28 Leader (E BecomesLeader),
     Ev 2 28 Leader (A HeartBeat),
     Ev 2 28 Leader (A (AppendTo 0)),
     Ev 2 28 Leader (A (AppendTo 1)),
     Ev 2 28 Leader (A (AppendTo 3)),
     Ev 2 28 Leader (A (AppendTo 4)),
     Ev 2 28 Leader (A (AppendSent 1 [123, 123, 123, 123, 123])),
     Ev 2 28 Leader (A (AppendSent 0 [123, 123, 123, 123, 123])),
     Ev 2 28 Leader (A (AppendSent 3 [123, 123, 123, 123, 123])),
     Ev 2 28 Leader (A (AppendSent 4 [123, 123, 123, 123, 123])),
     Ev 2 28 Leader (A (AppendNotOk 4)),
     Ev 1 27 Follower (A (AppendFrom 2 28)),
     Ev 1 28 Follower (A (Appended 16 122)),
     Ev 4 16 Leader (A (AppendNotOk 0)),
     Ev 4 16 Leader (A (AppendNotOk 3)),
     Ev 3 27 Follower (A (AppendFrom 2 28)),
     Ev 3 28 Follower (A (NoMatch 16 122)),
     Ev 2 28 Leader (A (AppendRefused 3 122 16 123)),
     Ev 2 28 Leader (A HeartBeat),
     Ev 2 28 Leader (A (AppendTo 0)),
     Ev 4 16 Leader (A HeartBeat),
     Ev 2 28 Leader (A (AppendTo 1)),
     Ev 4 16 Leader (A (AppendTo 0)),
     Ev 4 16 Leader (A (AppendTo 1)),
     Ev 4 16 Leader (A (AppendTo 2)),
     Ev 2 28 Leader (A (AppendTo 3)),
     Ev 2 28 Leader (A (AppendTo 4)),
     Ev 4 16 Leader (A (AppendTo 3)),
     Ev 2 28 Leader (A (AppendSent 1 [123, 123, 123, 99, 123])),
     Ev 4 16 Leader (A (AppendSent 2 [100, 123, 123, 100, 100])),
     Ev 2 28 Leader (A (AppendSent 0 [123, 123, 123, 99, 123])),
     Ev 2 28 Leader (A (AppendNotOk 0)),
     Ev 2 28 Leader (A (AppendSent 3 [123, 123, 123, 99, 123])),
     Ev 2 28 Leader (A (AppendSent 4 [123, 123, 123, 99, 123])),
     Ev 4 16 Leader (A (AppendSent 0 [100, 123, 123, 100, 100])),
     Ev 4 16 Leader (A (AppendSent 1 [100, 123, 123, 100, 100])),
     Ev 4 16 Leader (A (AppendSent 3 [100, 123, 123, 100, 100])),
     Ev 1 28 Follower (A (AppendFrom 2 28)),
     Ev 3 28 Follower (A (AppendFrom 2 28)),
     Ev 1 28 Follower (A (Appended 16 122)),
     Ev 3 28 Follower (A (NoMatch 2 98)),
     Ev 2 28 Leader (A (AppendNotOk 1)),
     Ev 4 16 Leader (A (AppendNotOk 2)),
     Ev 4 16 Leader (A (AppendNotOk 1)),
     Ev 4 16 Leader (A (AppendNotOk 3)),
     Ev 2 28 Leader (A (AppendNotOk 0)),
     Ev 4 16 Leader (A (AppendNotOk 0)),
     Ev 2 28 Leader (A (AppendNotOk 4)),
     Ev 2 28 Leader (A HeartBeat),
     Ev 2 28 Leader (A (AppendTo 0)),
     Ev 2 28 Leader (A (AppendTo 1)),
     Ev 2 28 Leader (A (AppendTo 3)),
     Ev 2 28 Leader (A (AppendTo 4)),
     Ev 4 16 Leader (A HeartBeat),
     Ev 2 28 Leader (A (AppendSent 4 [123, 123, 123, 99, 123])),
     Ev 4 16 Leader (A (AppendTo 0)),
     Ev 2 28 Leader (A (AppendSent 0 [123, 123, 123, 99, 123])),
     Ev 4 16 Leader (A (AppendTo 1)),
     Ev 4 16 Leader (A (AppendTo 2)),
     Ev 4 16 Leader (A (AppendTo 3)),
     Ev 4 16 Leader (A (AppendSent 0 [100, 123, 123, 100, 100])),
     Ev 2 28 Leader (A (AppendSent 3 [123, 123, 123, 99, 123])),
     Ev 2 28 Leader (A (AppendSent 1 [123, 123, 123, 99, 123])),
     Ev 4 16 Leader (A (AppendSent 2 [100, 123, 123, 100, 100])),
     Ev 4 16 Leader (A (AppendSent 3 [100, 123, 123, 100, 100])),
     Ev 4 16 Leader (A (AppendSent 1 [100, 123, 123, 100, 100])),
     Ev 1 28 Follower (A (AppendFrom 2 28)),
     Ev 1 28 Follower (A (Appended 16 122)),
     Ev 3 28 Follower (A (AppendFrom 2 28)),
     Ev 3 28 Follower (A (NoMatch 2 98)),
     Ev 2 28 Leader (A (AppendNotOk 0)),
     Ev 4 16 Leader (A (AppendNotOk 2)),
     Ev 4 16 Leader (A (AppendNotOk 0)),
     Ev 4 16 Leader (A (AppendNotOk 1)),
     Ev 2 28 Leader (A (AppendNotOk 4)),
     Ev 4 16 Leader (A (AppendNotOk 3)),
     Ev 4 16 Leader (A HeartBeat),
     Ev 4 16 Leader (A (AppendTo 0)),
     Ev 2 28 Leader (A HeartBeat),
     Ev 4 16 Leader (A (AppendTo 1)),
     Ev 2 28 Leader (A (AppendTo 0)),
     Ev 2 28 Leader (A (AppendTo 1)),
     Ev 4 16 Leader (A (AppendTo 2)),
     Ev 4 16 Leader (A (AppendTo 3)),
     Ev 2 28 Leader (A (AppendTo 3)),
     Ev 2 28 Leader (A (AppendTo 4)),
     Ev 4 16 Leader (A (AppendSent 0 [100, 123, 123, 100, 100])),
     Ev 2 28 Leader (A (AppendSent 3 [123, 123, 123, 99, 123])),
     Ev 4 16 Leader (A (AppendSent 2 [100, 123, 123, 100, 100])),
     Ev 4 16 Leader (A (AppendSent 1 [100, 123, 123, 100, 100])),
     Ev 2 28 Leader (A (AppendSent 1 [123, 123, 123, 99, 123])),
     Ev 2 28 Leader (A (AppendSent 0 [123, 123, 123, 99, 123])),
     Ev 2 28 Leader (A (AppendSent 4 [123, 123, 123, 99, 123])),
     Ev 4 16 Leader (A (AppendSent 3 [100, 123, 123, 100, 100])),
     Ev 4 16 Leader (A (AppendNotOk 2)),
     Ev 4 16 Leader (A (AppendNotOk 1)),
     Ev 4 16 Leader (A (AppendNotOk 0)),
     Ev 1 28 Follower (A (AppendFrom 2 28)),
     Ev 2 28 Leader (A (AppendNotOk 0)),
     Ev 1 28 Follower (A (Appended 28 123)),
     Ev 2 28 Leader (A (AppendSuccess 1)),
     Ev 2 28 Leader (C (TryCommit 2 125)),
     Ev 2 28 Leader (C (MatchIndex [-1, 123, -1, -1, -1])),
     Ev 2 28 Leader (C (Logs [(-1, -1), (2, 4416), (2, 1773), (2, 1309), (2, 4482), (2, 8379), (2, 5177), (2,
       1164), (2, 6090), (2, 2806), (2, 7930), (2, 182), (2, 7181), (2, 6600), (2, 3793), (2, 9702), (2, 8908),
       (2, 8007), (2, 2989), (2, 6859), (2, 7889), (2, 5626), (2, 7728), (2, 8876), (2, 9884), (2, 2983), (2,
       4028), (2, 4462), (2, 3792), (2, 4708), (2, 50), (2, 7013), (2, 9572), (2, 9602), (2, 7325), (2, 7361),
       (2, 8025), (2, 1579), (2, 1174), (2, 6091), (2, 7480), (2, 9838), (2, 6477), (2, 5487), (2, 3175), (2,
       718), (2, 6549), (2, 971), (2, 3027), (2, 3157), (2, 7521), (2, 7804), (2, 8539), (2, 134), (2, 3767),
       (2, 8039), (2, 865), (2, 2886), (2, 4108), (2, 3168), (2, 2226), (2, 5469), (2, 7916), (2, 3985), (2,
       4282), (2, 4492), (2, 6867), (2, 7676), (2, 1507), (2, 5470), (2, 3611), (2, 5973), (2, 6824), (2, 2676),
       (2, 3416), (2, 1503), (2, 5433), (2, 5416), (2, 5569), (2, 9230), (2, 3938), (2, 9594), (2, 2616), (2,
       9730), (2, 9779), (2, 2625), (2, 9629), (2, 2057), (2, 1841), (2, 1227), (2, 5897), (2, 5876), (2, 2560),
       (2, 7642), (2, 2942), (2, 8772), (2, 1492), (2, 1909), (2, 7222), (2, 3473), (16, 9249), (16, 7411), (16,
       8552), (16, 8352), (16, 9240), (16, 811), (16, 4361), (16, 749), (16, 9334), (16, 6036), (16, 6085), (16,
       8263), (16, 5985), (16, 349), (16, 7037), (16, 6647), (16, 1347), (16, 1977), (16, 9914), (16, 4295),
       (16, 7135), (16, 139), (16, 4689), (28, 6874), (28, 541)])),
     Ev 2 28 Leader (C (FinishCommit 2)),
     Ev 2 28 Leader (C (TryApply 2 2)),
     Ev 3 28 Follower (A (AppendFrom 2 28)),
     Ev 3 28 Follower (A (NoMatch 2 98)),
     Ev 4 16 Leader (A (AppendNotOk 3)),
     Ev 4 16 Leader (A HeartBeat),
     Ev 4 16 Leader (A (AppendTo 0)),
     Ev 4 16 Leader (A (AppendTo 1)),
     Ev 4 16 Leader (A (AppendTo 2)),
     Ev 4 16 Leader (A (AppendTo 3)),
     Ev 4 16 Leader (A (AppendSent 3 [100, 123, 123, 100, 100])),
     Ev 2 28 Leader (A HeartBeat),
     Ev 2 28 Leader (A (AppendTo 0)),
     Ev 4 16 Leader (A (AppendSent 0 [100, 123, 123, 100, 100])),
     Ev 4 16 Leader (A (AppendSent 2 [100, 123, 123, 100, 100])),
     Ev 2 28 Leader (A (AppendTo 1)),
     Ev 2 28 Leader (A (AppendTo 3)),
     Ev 2 28 Leader (A (AppendTo 4)),
     Ev 2 28 Leader (A (AppendNotOk 4)),
     Ev 2 28 Leader (A (AppendSent 0 [123, 124, 123, 99, 123])),
     Ev 2 28 Leader (A (AppendSent 1 [123, 124, 123, 99, 123])),
     Ev 2 28 Leader (A (AppendSent 3 [123, 124, 123, 99, 123])),
     Ev 2 28 Leader (A (AppendSent 4 [123, 124, 123, 99, 123])),
     Ev 4 16 Leader (A (AppendSent 1 [100, 123, 123, 100, 100])),
     Ev 4 16 Leader (A (AppendNotOk 2)),
     Ev 4 16 Leader (A (AppendNotOk 3)),
     Ev 2 28 Leader (A (AppendNotOk 3)),
     Ev 2 28 Leader (A (AppendNotOk 4)),
     Ev 4 16 Leader (A (AppendNotOk 0)),
     Ev 4 16 Leader (A (AppendNotOk 1)),
     Ev 2 28 Leader (A (AppendNotOk 0)),
     Ev 0 25 Candidate (E StartElection),
     Ev 2 28 Leader (A HeartBeat),
     Ev 2 28 Leader (A (AppendTo 0)),
     Ev 2 28 Leader (A (AppendTo 1))]"

definition run_29 :: "line list" where
  "run_29 = [
     Ev 2 28 Leader (A (AppendTo 3)),
     Ev 2 28 Leader (A (AppendTo 4)),
     Ev 4 16 Leader (A HeartBeat),
     Ev 4 16 Leader (A (AppendTo 0)),
     Ev 4 16 Leader (A (AppendTo 1)),
     Ev 4 16 Leader (A (AppendTo 2)),
     Ev 4 16 Leader (A (AppendTo 3)),
     Ev 4 16 Leader (A (AppendSent 3 [100, 123, 123, 100, 100])),
     Ev 4 16 Leader (A (AppendSent 0 [100, 123, 123, 100, 100])),
     Ev 4 16 Leader (A (AppendSent 2 [100, 123, 123, 100, 100])),
     Ev 0 26 Candidate (E BecomeCandidate),
     Ev 0 26 Candidate (E (RequestVoteTo 1)),
     Ev 0 26 Candidate (E (RequestVoteTo 2)),
     Ev 0 26 Candidate (E (RequestVoteTo 3)),
     Ev 0 26 Candidate (E (RequestVoteTo 4)),
     Ev 2 28 Leader (A (AppendSent 4 [123, 124, 123, 99, 123])),
     Ev 2 28 Leader (A (AppendNotOk 1)),
     Ev 2 28 Leader (A (AppendSent 0 [123, 124, 123, 99, 123])),
     Ev 4 16 Leader (A (AppendSent 1 [100, 123, 123, 100, 100])),
     Ev 2 28 Leader (A (AppendSent 1 [123, 124, 123, 99, 123])),
     Ev 2 28 Leader (A (AppendSent 3 [123, 124, 123, 99, 123])),
     Ev 0 26 Candidate (E (VoteNotOk 1)),
     Ev 0 26 Candidate (E (VoteNotOk 4)),
     Ev 3 28 Follower (E (VoteRequested (-1) 0 26)),
     Ev 3 28 Follower (E (VoteArgs 26 133 14 123 124)),
     Ev 3 28 Follower (E (Indices 1 1)),
     Ev 3 28 Follower (E TermLarger),
     Ev 2 28 Leader (A (AppendNotOk 3)),
     Ev 0 26 Candidate (E (VoteReply 3 26 False)),
     Ev 0 26 Candidate (E (Indices 1 1)),
     Ev 0 26 Candidate (E (HigherTerm 3 26)),
     Ev 0 28 Follower (E (CheckElection 0 5)),
     Ev 0 28 Follower (E NotCandidate),
     Ev 4 16 Leader (A (AppendNotOk 1)),
     Ev 4 16 Leader (A (AppendNotOk 3)),
     Ev 0 28 Follower (E (VoteNotOk 2)),
     Ev 2 28 Leader (A (AppendSuccess 1)),
     Ev 2 28 Leader (C (TryCommit 2 141)),
     Ev 2 28 Leader (C (MatchIndex [-1, 122, -1, -1, -1])),
     Ev 2 28 Leader (C (Logs [(-1, -1), (2, 4416), (2, 1773), (2, 1309), (2, 4482), (2, 8379), (2, 5177), (2,
       1164), (2, 6090), (2, 2806), (2, 7930), (2, 182), (2, 7181), (2, 6600), (2, 3793), (2, 9702), (2, 8908),
       (2, 8007), (2, 2989), (2, 6859), (2, 7889), (2, 5626), (2, 7728), (2, 8876), (2, 9884), (2, 2983), (2,
       4028), (2, 4462), (2, 3792), (2, 4708), (2, 50), (2, 7013), (2, 9572), (2, 9602), (2, 7325), (2, 7361),
       (2, 8025), (2, 1579), (2, 1174), (2, 6091), (2, 7480), (2, 9838), (2, 6477), (2, 5487), (2, 3175), (2,
       718), (2, 6549), (2, 971), (2, 3027), (2, 3157), (2, 7521), (2, 7804), (2, 8539), (2, 134), (2, 3767),
       (2, 8039), (2, 865), (2, 2886), (2, 4108), (2, 3168), (2, 2226), (2, 5469), (2, 7916), (2, 3985), (2,
       4282), (2, 4492), (2, 6867), (2, 7676), (2, 1507), (2, 5470), (2, 3611), (2, 5973), (2, 6824), (2, 2676),
       (2, 3416), (2, 1503), (2, 5433), (2, 5416), (2, 5569), (2, 9230), (2, 3938), (2, 9594), (2, 2616), (2,
       9730), (2, 9779), (2, 2625), (2, 9629), (2, 2057), (2, 1841), (2, 1227), (2, 5897), (2, 5876), (2, 2560),
       (2, 7642), (2, 2942), (2, 8772), (2, 1492), (2, 1909), (2, 7222), (2, 3473), (16, 9249), (16, 7411), (16,
       8552), (16, 8352), (16, 9240), (16, 811), (16, 4361), (16, 749), (16, 9334), (16, 6036), (16, 6085), (16,
       8263), (16, 5985), (16, 349), (16, 7037), (16, 6647), (16, 1347), (16, 1977), (16, 9914), (16, 4295),
       (16, 7135), (16, 139), (16, 4689), (28, 6874), (28, 541), (28, 3587), (28, 4690), (28, 3040), (28, 8322),
       (28, 1603), (28, 679), (28, 8161), (28, 9706), (28, 509), (28, 586), (28, 5996), (28, 4394), (28, 4011),
       (28, 7883), (28, 5637), (28, 8378)])),
     Ev 2 28 Leader (C (FinishCommit 2)),
     Ev 2 28 Leader (C (TryApply 2 2)),
     Ev 2 28 Leader (A (AppendNotOk 1)),
     Ev 4 16 Leader (A (AppendNotOk 2)),
     Ev 2 28 Leader (A (AppendNotOk 0)),
     Ev 2 28 Leader (A (AppendNotOk 4)),
     Ev 4 16 Leader (A (AppendNotOk 0)),
     Ev 4 16 Leader (A HeartBeat),
     Ev 4 16 Leader (A (AppendTo 0)),
     Ev 4 16 Leader (A (AppendTo 1)),
     Ev 4 16 Leader (A (AppendTo 2)),
     Ev 4 16 Leader (A (AppendTo 3)),
     Ev 4 16 Leader (A (AppendSent 3 [100, 123, 123, 100, 100])),
     Ev 2 28 Leader (A HeartBeat),
     Ev 2 28 Leader (A (AppendTo 0)),
     Ev 2 28 Leader (A (AppendTo 1)),
     Ev 2 28 Leader (A (AppendTo 3)),
     Ev 2 28 Leader (A (AppendTo 4)),
     Ev 2 28 Leader (A (AppendSent 4 [123, 123, 123, 99, 123])),
     Ev 4 16 Leader (A (AppendSent 0 [100, 123, 123, 100, 100])),
     Ev 2 28 Leader (A (AppendSent 1 [123, 123, 123, 99, 123])),
     Ev 4 16 Leader (A (AppendSent 1 [100, 123, 123, 100, 100])),
     Ev 2 28 Leader (A (AppendSent 3 [123, 123, 123, 99, 123])),
     Ev 2 28 Leader (A (AppendSent 0 [123, 123, 123, 99, 123])),
     Ev 4 16 Leader (A (AppendSent 2 [100, 123, 123, 100, 100])),
     Ev 4 16 Leader (A (AppendNotOk 1)),
     Ev 4 16 Leader (A (AppendNotOk 0)),
     Ev 2 28 Leader (A (AppendNotOk 3)),
     Ev 4 16 Leader (A (AppendNotOk 2)),
     Ev 2 28 Leader (A (AppendNotOk 1)),
     Ev 2 28 Leader (A (AppendNotOk 4)),
     Ev 2 28 Leader (A (AppendNotOk 0)),
     Ev 4 16 Leader (A HeartBeat),
     Ev 4 16 Leader (A (AppendTo 0)),
     Ev 4 16 Leader (A (AppendTo 1)),
     Ev 4 16 Leader (A (AppendTo 2)),
     Ev 4 16 Leader (A (AppendTo 3)),
     Ev 4 16 Leader (A (AppendNotOk 3)),
     Ev 4 16 Leader (A (AppendSent 0 [100, 123, 123, 100, 100])),
     Ev 2 28 Leader (A HeartBeat),
     Ev 2 28 Leader (A (AppendTo 0)),
     Ev 4 16 Leader (A (AppendSent 1 [100, 123, 123, 100, 100])),
     Ev 2 28 Leader (A (AppendTo 1)),
     Ev 2 28 Leader (A (AppendTo 3)),
     Ev 2 28 Leader (A (AppendTo 4)),
     Ev 2 28 Leader (A (AppendSent 0 [123, 123, 123, 99, 123])),
     Ev 4 16 Leader (A (AppendSent 2 [100, 123, 123, 100, 100])),
     Ev 2 28 Leader (A (AppendSent 4 [123, 123, 123, 99, 123])),
     Ev 2 28 Leader (A (AppendSent 1 [123, 123, 123, 99, 123])),
     Ev 4 16 Leader (A (AppendSent 3 [100, 123, 123, 100, 100])),
     Ev 2 28 Leader (A (AppendSent 3 [123, 123, 123, 99, 123])),
     Ev 4 16 Leader (A (AppendNotOk 2)),
     Ev 4 16 Leader (A (AppendNotOk 0)),
     Ev 2 28 Leader (A (AppendNotOk 0)),
     Ev 4 16 Leader (A (AppendNotOk 1)),
     Ev 2 28 Leader (A (AppendNotOk 4)),
     Ev 2 28 Leader (A (AppendNotOk 3)),
     Ev 4 16 Leader (A (AppendNotOk 3)),
     Ev 2 28 Leader (A (AppendNotOk 1)),
     Ev 4 16 Leader (A HeartBeat),
     Ev 4 16 Leader (A (AppendTo 0)),
     Ev 2 28 Leader (A HeartBeat),
     Ev 1 28 Follower (E StartElection),
     Ev 4 16 Leader (A (AppendTo 1)),
     Ev 4 16 Leader (A (AppendTo 2)),
     Ev 2 28 Leader (A (AppendTo 0)),
     Ev 4 16 Leader (A (AppendTo 3)),
     Ev 2 28 Leader (A (AppendTo 1)),
     Ev 2 28 Leader (A (AppendTo 3)),
     Ev 2 28 Leader (A (AppendTo 4)),
     Ev 2 28 Leader (A (AppendSent 0 [123, 123, 123, 99, 123])),
     Ev 4 16 Leader (A (AppendSent 0 [100, 123, 123, 100, 100])),
     Ev 2 28 Leader (A (AppendSent 1 [123, 123, 123, 99, 123])),
     Ev 2 28 Leader (A (AppendSent 3 [123, 123, 123, 99, 123])),
     Ev 1 29 Candidate (E BecomeCandidate),
     Ev 1 29 Candidate (E (RequestVoteTo 0)),
     Ev 2 28 Leader (A (AppendSent 4 [123, 123, 123, 99, 123])),
     Ev 1 29 Candidate (E (RequestVoteTo 2)),
     Ev 1 29 Candidate (E (RequestVoteTo 3)),
     Ev 1 29 Candidate (E (RequestVoteTo 4)),
     Ev 4 16 Leader (A (AppendSent 2 [100, 123, 123, 100, 100])),
     Ev 4 16 Leader (A (AppendSent 1 [100, 123, 123, 100, 100])),
     Ev 4 16 Leader (A (AppendSent 3 [100, 123, 123, 100, 100])),
     Ev 4 16 Leader (A (AppendNotOk 3)),
     Ev 2 28 Leader (A (AppendNotOk 0)),
     Ev 4 16 Leader (A (AppendNotOk 1)),
     Ev 0 28 Follower (E (VoteRequested (-1) 1 29)),
     Ev 0 28 Follower (E (VoteArgs 29 123 9 133 134)),
     Ev 0 28 Follower (E (Indices 1 1)),
     Ev 0 28 Follower (E (TermLower 1)),
     Ev 0 29 Follower (E (LogTerms 9 28 133 123)),
     Ev 0 29 Follower (E (VoteGranted 29 123 9 133 134)),
     Ev 0 29 Follower (E (Indices 1 1)),
     Ev 2 28 Leader (A (AppendNotOk 1)),
     Ev 1 29 Candidate (E (VoteNotOk 2)),
     Ev 2 28 Leader (A (AppendNotOk 3)),
     Ev 2 28 Leader (A (AppendNotOk 4)),
     Ev 3 28 Follower (E (VoteRequested (-1) 1 29)),
     Ev 3 28 Follower (E (VoteArgs 29 123 14 123 124)),
     Ev 3 28 Follower (E (Indices 1 1)),
     Ev 3 28 Follower (E (TermLower 1)),
     Ev 3 29 Follower (E (LogTerms 14 28 123 123)),
     Ev 3 29 Follower (E (VoteGranted 29 123 14 123 124)),
     Ev 3 29 Follower (E (Indices 1 1)),
     Ev 1 29 Candidate (E (VoteNotOk 3)),
     Ev 4 16 Leader (A (AppendNotOk 0)),
     Ev 4 16 Leader (A (AppendNotOk 2)),
     Ev 2 28 Leader (A (AppendRefused 3 98 2 99)),
     Ev 1 29 Candidate (E (VoteNotOk 4)),
     Ev 2 28 Leader (A HeartBeat)]"

definition run_30 :: "line list" where
  "run_30 = [
     Ev 2 28 Leader (A (AppendTo 0)),
     Ev 2 28 Leader (A (AppendTo 1)),
     Ev 2 28 Leader (A (AppendTo 3)),
     Ev 2 28 Leader (A (AppendTo 4)),
     Ev 4 16 Leader (A HeartBeat),
     Ev 4 16 Leader (A (AppendTo 0)),
     Ev 4 16 Leader (A (AppendTo 1)),
     Ev 4 16 Leader (A (AppendTo 2)),
     Ev 4 16 Leader (A (AppendTo 3)),
     Ev 2 28 Leader (A (AppendSent 4 [123, 123, 123, 1, 123])),
     Ev 4 16 Leader (A (AppendSent 1 [100, 123, 123, 100, 100])),
     Ev 2 28 Leader (A (AppendSent 1 [123, 123, 123, 1, 123])),
     Ev 4 16 Leader (A (AppendSent 3 [100, 123, 123, 100, 100])),
     Ev 2 28 Leader (A (AppendSent 0 [123, 123, 123, 1, 123])),
     Ev 4 16 Leader (A (AppendSent 0 [100, 123, 123, 100, 100])),
     Ev 2 28 Leader (A (AppendSent 3 [123, 123, 123, 1, 123])),
     Ev 4 16 Leader (A (AppendSent 2 [100, 123, 123, 100, 100])),
     Ev 2 28 Leader (A (AppendNotOk 3)),
     Ev 4 16 Leader (A (AppendNotOk 2)),
     Ev 4 16 Leader (A (AppendNotOk 1)),
     Ev 2 28 Leader (A (AppendNotOk 0)),
     Ev 2 28 Leader (A (AppendNotOk 1)),
     Ev 2 28 Leader (A (AppendNotOk 4)),
     Ev 4 16 Leader (A (AppendNotOk 0)),
     Ev 4 16 Leader (A (AppendNotOk 3)),
     Ev 4 16 Leader (A HeartBeat),
     Ev 4 16 Leader (A (AppendTo 0)),
     Ev 4 16 Leader (A (AppendTo 1)),
     Ev 4 16 Leader (A (AppendTo 2)),
     Ev 4 16 Leader (A (AppendTo 3)),
     Ev 4 16 Leader (A (AppendSent 3 [100, 123, 123, 100, 100])),
     Ev 4 16 Leader (A (AppendSent 0 [100, 123, 123, 100, 100])),
     Ev 2 28 Leader (A HeartBeat),
     Ev 2 28 Leader (A (AppendTo 0)),
     Ev 2 28 Leader (A (AppendTo 1)),
     Ev 2 28 Leader (A (AppendTo 3)),
     Ev 2 28 Leader (A (AppendTo 4)),
     Ev 2 28 Leader (A (AppendSent 4 [123, 123, 123, 1, 123])),
     Ev 2 28 Leader (A (AppendSent 0 [123, 123, 123, 1, 123])),
     Ev 2 28 Leader (A (AppendSent 1 [123, 123, 123, 1, 123])),
     Ev 2 28 Leader (A (AppendSent 3 [123, 123, 123, 1, 123])),
     Ev 4 16 Leader (A (AppendSent 1 [100, 123, 123, 100, 100])),
     Ev 4 16 Leader (A (AppendSent 2 [100, 123, 123, 100, 100])),
     Ev 4 16 Leader (A (AppendNotOk 3)),
     Ev 4 16 Leader (A (AppendNotOk 2)),
     Ev 2 28 Leader (A (AppendNotOk 1)),
     Ev 2 28 Leader (A (AppendRefused 3 98 2 1)),
     Ev 2 28 Leader (A (AppendNotOk 3)),
     Ev 2 28 Leader (A (AppendNotOk 4)),
     Ev 4 16 Leader (A (AppendNotOk 1)),
     Ev 4 16 Leader (A (AppendNotOk 0)),
     Ev 2 28 Leader (A (AppendNotOk 0)),
     Ev 4 16 Leader (A HeartBeat),
     Ev 4 16 Leader (A (AppendTo 0)),
     Ev 4 16 Leader (A (AppendTo 1)),
     Ev 4 16 Leader (A (AppendTo 2)),
     Ev 4 16 Leader (A (AppendTo 3)),
     Ev 4 16 Leader (A (AppendSent 3 [100, 123, 123, 100, 100])),
     Ev 2 28 Leader (A HeartBeat),
     Ev 2 28 Leader (A (AppendTo 0)),
     Ev 2 28 Leader (A (AppendTo 1)),
     Ev 2 28 Leader (A (AppendTo 3)),
     Ev 2 28 Leader (A (AppendTo 4)),
     Ev 2 28 Leader (A (AppendSent 4 [123, 123, 123, 1, 123])),
     Ev 4 16 Leader (A (AppendSent 0 [100, 123, 123, 100, 100])),
     Ev 1 29 Candidate (E (VoteReply 0 29 True)),
     Ev 1 29 Candidate (E (Indices 2 2)),
     Ev 1 29 Candidate (E (VoteGained 0)),
     Ev 1 29 Candidate (E (CheckElection 2 5)),
     Ev 2 28 Leader (A (AppendSent 1 [123, 123, 123, 1, 123])),
     Ev 2 28 Leader (A (AppendSent 3 [123, 123, 123, 1, 123])),
     Ev 2 28 Leader (A (AppendSent 0 [123, 123, 123, 1, 123])),
     Ev 4 16 Leader (A (AppendSent 1 [100, 123, 123, 100, 100])),
     Ev 4 16 Leader (A (AppendSent 2 [100, 123, 123, 100, 100])),
     Ev 4 16 Leader (A (AppendNotOk 2)),
     Ev 2 28 Leader (A (AppendNotOk 4)),
     Ev 2 28 Leader (A (AppendNotOk 0)),
     Ev 4 16 Leader (A (AppendNotOk 1)),
     Ev 2 28 Leader (A (AppendNotOk 1)),
     Ev 4 16 Leader (A (AppendNotOk 0)),
     Ev 4 16 Leader (A (AppendNotOk 3)),
     Ev 4 16 Leader (A HeartBeat),
     Ev 4 16 Leader (A (AppendTo 0)),
     Ev 4 16 Leader (A (AppendTo 1)),
     Ev 4 16 Leader (A (AppendTo 2)),
     Ev 4 16 Leader (A (AppendTo 3)),
     Ev 2 28 Leader (A HeartBeat),
     Ev 4 16 Leader (A (AppendSent 0 [100, 123, 123, 100, 100])),
     Ev 2 28 Leader (A (AppendTo 0)),
     Ev 2 28 Leader (A (AppendTo 1)),
     Ev 2 28 Leader (A (AppendTo 3)),
     Ev 2 28 Leader (A (AppendTo 4)),
     Ev 2 28 Leader (A (AppendNotOk 3)),
     Ev 2 28 Leader (A (AppendSent 3 [123, 123, 123, 1, 123])),
     Ev 2 28 Leader (A (AppendSent 0 [123, 123, 123, 1, 123])),
     Ev 4 16 Leader (A (AppendSent 3 [100, 123, 123, 100, 100])),
     Ev 2 28 Leader (A (AppendSent 1 [123, 123, 123, 1, 123])),
     Ev 2 28 Leader (A (AppendNotOk 3)),
     Ev 2 28 Leader (A (AppendSent 4 [123, 123, 123, 1, 123])),
     Ev 4 16 Leader (A (AppendSent 1 [100, 123, 123, 100, 100])),
     Ev 4 16 Leader (A (AppendSent 2 [100, 123, 123, 100, 100])),
     Ev 4 16 Leader (A (AppendNotOk 2)),
     Ev 2 28 Leader (A (AppendNotOk 4)),
     Ev 2 28 Leader (A (AppendNotOk 1)),
     Ev 4 16 Leader (A (AppendNotOk 3)),
     Ev 4 16 Leader (A (AppendNotOk 1)),
     Ev 4 16 Leader (A (AppendNotOk 0)),
     Ev 2 28 Leader (A (AppendNotOk 0)),
     Ev 2 28 Leader (A HeartBeat),
     Ev 2 28 Leader (A (AppendTo 0)),
     Ev 2 28 Leader (A (AppendTo 1)),
     Ev 2 28 Leader (A (AppendTo 3)),
     Ev 2 28 Leader (A (AppendTo 4)),
     Ev 3 29 Follower (E StartElection),
     Ev 2 28 Leader (A (AppendSent 4 [123, 123, 123, 1, 123])),
     Ev 4 16 Leader (A HeartBeat),
     Ev 4 16 Leader (A (AppendTo 0)),
     Ev 4 16 Leader (A (AppendTo 1)),
     Ev 4 16 Leader (A (AppendTo 2)),
     Ev 0 29 Follower (E StartElection),
     Ev 2 28 Leader (A (AppendSent 0 [123, 123, 123, 1, 123])),
     Ev 4 16 Leader (A (AppendTo 3)),
     Ev 4 16 Leader (A (AppendSent 2 [100, 123, 123, 100, 100])),
     Ev 2 28 Leader (A (AppendSent 3 [123, 123, 123, 1, 123])),
     Ev 0 30 Candidate (E BecomeCandidate),
     Ev 0 30 Candidate (E (RequestVoteTo 1)),
     Ev 0 30 Candidate (E (RequestVoteTo 2)),
     Ev 0 30 Candidate (E (RequestVoteTo 3)),
     Ev 0 30 Candidate (E (RequestVoteTo 4)),
     Ev 4 16 Leader (A (AppendSent 3 [100, 123, 123, 100, 100])),
     Ev 2 28 Leader (A (AppendSent 1 [123, 123, 123, 1, 123])),
     Ev 3 30 Candidate (E BecomeCandidate),
     Ev 3 30 Candidate (E (RequestVoteTo 0)),
     Ev 3 30 Candidate (E (RequestVoteTo 1)),
     Ev 3 30 Candidate (E (RequestVoteTo 2)),
     Ev 3 30 Candidate (E (RequestVoteTo 4)),
     Ev 4 16 Leader (A (AppendSent 0 [100, 123, 123, 100, 100])),
     Ev 4 16 Leader (A (AppendSent 1 [100, 123, 123, 100, 100])),
     Ev 2 28 Leader (A (AppendNotOk 1)),
     Ev 0 30 Candidate (E (VoteNotOk 4)),
     Ev 1 29 Candidate (E (VoteRequested 1 0 30)),
     Ev 3 30 Candidate (E (VoteRequested 3 0 30)),
     Ev 3 30 Candidate (E (VoteArgs 30 133 14 123 124)),
     Ev 1 29 Candidate (E (VoteArgs 30 133 28 123 124)),
     Ev 3 30 Candidate (E (Indices 1 1)),
     Ev 1 29 Candidate (E (Indices 2 2)),
     Ev 3 30 Candidate (E (LogTerms 14 9 123 133)),
     Ev 1 29 Candidate (E (TermLower 0)),
     Ev 3 30 Candidate (E LogOutdated),
     Ev 1 30 Follower (E (LogTerms 28 9 123 133))]"

definition run_31 :: "line list" where
  "run_31 = [
     Ev 1 30 Follower (E LogOutdated),
     Ev 0 30 Candidate (E (VoteReply 1 30 False)),
     Ev 0 30 Candidate (E (Indices 1 1)),
     Ev 0 30 Candidate (E (CheckElection 1 5)),
     Ev 0 30 Candidate (E (VoteRequested 0 3 30)),
     Ev 0 30 Candidate (E (VoteArgs 30 123 9 133 134)),
     Ev 0 30 Candidate (E (Indices 1 1)),
     Ev 0 30 Candidate (E (LogTerms 9 14 133 123)),
     Ev 4 16 Leader (A (AppendNotOk 2)),
     Ev 0 30 Candidate (E RefuseVote),
     Ev 1 30 Follower (E (VoteRequested 0 3 30)),
     Ev 1 30 Follower (E (VoteArgs 30 123 28 123 124)),
     Ev 1 30 Follower (E (Indices 2 2)),
     Ev 1 30 Follower (E (LogTerms 28 14 123 123)),
     Ev 1 30 Follower (E LogOutdated),
     Ev 3 30 Candidate (E (VoteReply 1 30 False)),
     Ev 3 30 Candidate (E (Indices 1 1)),
     Ev 3 30 Candidate (E (CheckElection 1 5)),
     Ev 2 28 Leader (A (AppendNotOk 4)),
     Ev 4 16 Leader (A (AppendNotOk 0)),
     Ev 3 30 Candidate (E (VoteNotOk 4)),
     Ev 0 30 Candidate (E (VoteNotOk 2)),
     Ev 2 28 Leader (A (AppendRefused 3 98 2 1)),
     Ev 2 28 Leader (A (AppendNotOk 0)),
     Ev 4 16 Leader (A (AppendNotOk 3)),
     Ev 2 28 Leader (A (AppendNotOk 3)),
     Ev 3 30 Candidate (E (VoteNotOk 2)),
     Ev 4 16 Leader (A HeartBeat),
     Ev 4 16 Leader (A (AppendTo 0)),
     Ev 4 16 Leader (A (AppendTo 1)),
     Ev 4 16 Leader (A (AppendTo 2)),
     Ev 2 28 Leader (A HeartBeat),
     Ev 2 28 Leader (A (AppendTo 0)),
     Ev 4 16 Leader (A (AppendTo 3)),
     Ev 2 28 Leader (A (AppendTo 1)),
     Ev 2 28 Leader (A (AppendTo 3)),
     Ev 2 28 Leader (A (AppendTo 4)),
     Ev 2 28 Leader (A (AppendSent 0 [123, 123, 123, 1, 123])),
     Ev 4 16 Leader (A (AppendSent 3 [100, 123, 123, 100, 100])),
     Ev 2 28 Leader (A (AppendSent 4 [123, 123, 123, 1, 123])),
     Ev 4 16 Leader (A (AppendSent 2 [100, 123, 123, 100, 100])),
     Ev 4 16 Leader (A (AppendSent 0 [100, 123, 123, 100, 100])),
     Ev 2 28 Leader (A (AppendSent 3 [123, 123, 123, 1, 123])),
     Ev 2 28 Leader (A (AppendSent 1 [123, 123, 123, 1, 123])),
     Ev 4 16 Leader (A (AppendNotOk 1)),
     Ev 4 16 Leader (A (AppendSent 1 [100, 123, 123, 100, 100])),
     Ev 4 16 Leader (A (AppendNotOk 0)),
     Ev 2 28 Leader (A (AppendNotOk 3)),
     Ev 2 28 Leader (A (AppendNotOk 0)),
     Ev 2 28 Leader (A (AppendNotOk 1)),
     Ev 2 28 Leader (A (AppendNotOk 4)),
     Ev 4 16 Leader (A (AppendNotOk 3)),
     Ev 4 16 Leader (A (AppendNotOk 1)),
     Ev 4 16 Leader (A (AppendNotOk 2)),
     Ev 4 16 Leader (A HeartBeat),
     Ev 2 28 Leader (A HeartBeat),
     Ev 4 16 Leader (A (AppendTo 0)),
     Ev 2 28 Leader (A (AppendTo 0)),
     Ev 2 28 Leader (A (AppendTo 1)),
     Ev 2 28 Leader (A (AppendTo 3)),
     Ev 2 28 Leader (A (AppendTo 4)),
     Ev 4 16 Leader (A (AppendTo 1)),
     Ev 2 28 Leader (A (AppendSent 4 [123, 123, 123, 1, 123])),
     Ev 4 16 Leader (A (AppendTo 2)),
     Ev 4 16 Leader (A (AppendTo 3)),
     Ev 4 16 Leader (A (AppendSent 1 [100, 123, 123, 100, 100])),
     Ev 2 28 Leader (A (AppendSent 3 [123, 123, 123, 1, 123])),
     Ev 2 28 Leader (A (AppendSuccess 1)),
     Ev 2 28 Leader (C (TryCommit 2 181)),
     Ev 2 28 Leader (C (MatchIndex [-1, 122, -1, -1, -1])),
     Ev 4 16 Leader (A (AppendSent 0 [100, 123, 123, 100, 100])),
     Ev 2 28 Leader (C (Logs [(-1, -1), (2, 4416), (2, 1773), (2, 1309), (2, 4482), (2, 8379), (2, 5177), (2,
       1164), (2, 6090), (2, 2806), (2, 7930), (2, 182), (2, 7181), (2, 6600), (2, 3793), (2, 9702), (2, 8908),
       (2, 8007), (2, 2989), (2, 6859), (2, 7889), (2, 5626), (2, 7728), (2, 8876), (2, 9884), (2, 2983), (2,
       4028), (2, 4462), (2, 3792), (2, 4708), (2, 50), (2, 7013), (2, 9572), (2, 9602), (2, 7325), (2, 7361),
       (2, 8025), (2, 1579), (2, 1174), (2, 6091), (2, 7480), (2, 9838), (2, 6477), (2, 5487), (2, 3175), (2,
       718), (2, 6549), (2, 971), (2, 3027), (2, 3157), (2, 7521), (2, 7804), (2, 8539), (2, 134), (2, 3767),
       (2, 8039), (2, 865), (2, 2886), (2, 4108), (2, 3168), (2, 2226), (2, 5469), (2, 7916), (2, 3985), (2,
       4282), (2, 4492), (2, 6867), (2, 7676), (2, 1507), (2, 5470), (2, 3611), (2, 5973), (2, 6824), (2, 2676),
       (2, 3416), (2, 1503), (2, 5433), (2, 5416), (2, 5569), (2, 9230), (2, 3938), (2, 9594), (2, 2616), (2,
       9730), (2, 9779), (2, 2625), (2, 9629), (2, 2057), (2, 1841), (2, 1227), (2, 5897), (2, 5876), (2, 2560),
       (2, 7642), (2, 2942), (2, 8772), (2, 1492), (2, 1909), (2, 7222), (2, 3473), (16, 9249), (16, 7411), (16,
       8552), (16, 8352), (16, 9240), (16, 811), (16, 4361), (16, 749), (16, 9334), (16, 6036), (16, 6085), (16,
       8263), (16, 5985), (16, 349), (16, 7037), (16, 6647), (16, 1347), (16, 1977), (16, 9914), (16, 4295),
       (16, 7135), (16, 139), (16, 4689), (28, 6874), (28, 541), (28, 3587), (28, 4690), (28, 3040), (28, 8322),
       (28, 1603), (28, 679), (28, 8161), (28, 9706), (28, 509), (28, 586), (28, 5996), (28, 4394), (28, 4011),
       (28, 7883), (28, 5637), (28, 8378), (28, 7196), (28, 4925), (28, 1408), (28, 1161), (28, 7787), (28,
       6668), (28, 3457), (28, 8096), (28, 9561), (28, 4669), (28, 2479), (28, 2778), (28, 8650), (28, 3635),
       (28, 819), (28, 4889), (28, 528), (28, 8994), (28, 24), (28, 3084), (28, 9744), (28, 2547), (28, 1297),
       (28, 5086), (28, 1367), (28, 9894), (28, 3194), (28, 5764), (28, 6535), (28, 5949), (28, 606), (28,
       2883), (28, 1251), (28, 8844), (28, 8887), (28, 8288), (28, 7126), (28, 7877), (28, 7147), (28, 2277)])),
     Ev 2 28 Leader (C (FinishCommit 2)),
     Ev 4 16 Leader (A (AppendSent 2 [100, 123, 123, 100, 100])),
     Ev 4 16 Leader (A (AppendSent 3 [100, 123, 123, 100, 100])),
     Ev 2 28 Leader (C (TryApply 2 2)),
     Ev 2 28 Leader (A (AppendSent 0 [123, 123, 123, 1, 123])),
     Ev 2 28 Leader (A (AppendSent 1 [123, 123, 123, 1, 123])),
     Ev 2 28 Leader (A (AppendNotOk 0)),
     Ev 4 16 Leader (A (AppendNotOk 1)),
     Ev 4 16 Leader (A (AppendNotOk 3)),
     Ev 4 16 Leader (A (AppendNotOk 2)),
     Ev 4 16 Leader (A (AppendNotOk 0)),
     Ev 2 28 Leader (A (AppendNotOk 1)),
     Ev 2 28 Leader (A (AppendNotOk 4)),
     Ev 2 28 Leader (A HeartBeat),
     Ev 2 28 Leader (A (AppendTo 0)),
     Ev 2 28 Leader (A (AppendTo 1)),
     Ev 2 28 Leader (A (AppendTo 3)),
     Ev 2 28 Leader (A (AppendTo 4)),
     Ev 4 16 Leader (A HeartBeat),
     Ev 4 16 Leader (A (AppendTo 0)),
     Ev 4 16 Leader (A (AppendTo 1)),
     Ev 2 28 Leader (A (AppendSent 1 [123, 123, 123, 1, 123])),
     Ev 4 16 Leader (A (AppendTo 2)),
     Ev 4 16 Leader (A (AppendTo 3)),
     Ev 4 16 Leader (A (AppendSent 1 [100, 123, 123, 100, 100])),
     Ev 4 16 Leader (A (AppendSent 2 [100, 123, 123, 100, 100])),
     Ev 2 28 Leader (A (AppendNotOk 3)),
     Ev 4 16 Leader (A (AppendSent 3 [100, 123, 123, 100, 100])),
     Ev 2 28 Leader (A (AppendSent 0 [123, 123, 123, 1, 123])),
     Ev 2 28 Leader (A (AppendSent 3 [123, 123, 123, 1, 123])),
     Ev 2 28 Leader (A (AppendSent 4 [123, 123, 123, 1, 123])),
     Ev 4 16 Leader (A (AppendSent 0 [100, 123, 123, 100, 100])),
     Ev 4 16 Leader (A (AppendNotOk 1)),
     Ev 4 16 Leader (A (AppendNotOk 0)),
     Ev 4 16 Leader (A (AppendNotOk 2)),
     Ev 2 28 Leader (A (AppendNotOk 4)),
     Ev 2 28 Leader (A (AppendNotOk 0)),
     Ev 2 28 Leader (A (AppendNotOk 3)),
     Ev 4 16 Leader (A (AppendNotOk 3)),
     Ev 2 28 Leader (A (AppendNotOk 1)),
     Ev 2 28 Leader (A HeartBeat),
     Ev 2 28 Leader (A (AppendTo 0)),
     Ev 2 28 Leader (A (AppendTo 1)),
     Ev 2 28 Leader (A (AppendTo 3)),
     Ev 2 28 Leader (A (AppendTo 4)),
     Ev 2 28 Leader (A (AppendSent 0 [123, 123, 123, 1, 123])),
     Ev 2 28 Leader (A (AppendSent 4 [123, 123, 123, 1, 123])),
     Ev 2 28 Leader (A (AppendSent 1 [123, 123, 123, 1, 123])),
     Ev 4 16 Leader (A HeartBeat),
     Ev 2 28 Leader (A (AppendSent 3 [123, 123, 123, 1, 123])),
     Ev 4 16 Leader (A (AppendTo 0)),
     Ev 4 16 Leader (A (AppendTo 1)),
     Ev 4 16 Leader (A (AppendTo 2)),
     Ev 4 16 Leader (A (AppendTo 3)),
     Ev 4 16 Leader (A (AppendSent 3 [100, 123, 123, 100, 100])),
     Ev 4 16 Leader (A (AppendSent 1 [100, 123, 123, 100, 100])),
     Ev 4 16 Leader (A (AppendSent 0 [100, 123, 123, 100, 100])),
     Ev 4 16 Leader (A (AppendSent 2 [100, 123, 123, 100, 100])),
     Ev 4 16 Leader (A (AppendNotOk 1)),
     Ev 2 28 Leader (A (AppendNotOk 0)),
     Ev 2 28 Leader (A (AppendNotOk 3)),
     Ev 2 28 Leader (A (AppendNotOk 1)),
     Ev 2 28 Leader (A (AppendNotOk 4)),
     Ev 4 16 Leader (A (AppendNotOk 3)),
     Ev 4 16 Leader (A (AppendNotOk 0)),
     Ev 4 16 Leader (A (AppendNotOk 2)),
     Ev 2 28 Leader (A HeartBeat),
     Ev 4 16 Leader (A HeartBeat),
     Ev 4 16 Leader (A (AppendTo 0)),
     Ev 2 28 Leader (A (AppendTo 0)),
     Ev 4 16 Leader (A (AppendTo 1)),
     Ev 4 16 Leader (A (AppendTo 2)),
     Ev 2 28 Leader (A (AppendTo 1)),
     Ev 4 16 Leader (A (AppendTo 3)),
     Ev 1 30 Follower (E StartElection),
     Ev 2 28 Leader (A (AppendTo 3)),
     Ev 2 28 Leader (A (AppendTo 4)),
     Ev 3 30 Candidate (E StartElection)]"

definition part_3 :: "line list list" where
  "part_3 =
     [run_22, run_23, run_24, run_25, run_26, run_27, run_28, run_29, run_30, run_31]"

lemma part_3_replays: "read_all replay obs_2 part_3 = Some obs_3"
  by code_simp

end
