(* ===== verification/Trace_4.thy ===== *)
theory Trace_4
  imports Trace_States
begin

text \<open>
  The recorded run, lines 4651 to 6150 of raft/2timesvote.ts, one element per line in the
  order of the file, and the proof that this part conforms.
\<close>

definition run_32 :: "line list" where
  "run_32 = [
     Ev 4 16 Leader (A (AppendSent 0 [100, 123, 123, 100, 100])),
     Ev 2 28 Leader (A (AppendSent 4 [123, 123, 123, 1, 123])),
     Ev 1 31 Candidate (E BecomeCandidate),
     Ev 1 31 Candidate (E (RequestVoteTo 0)),
     Ev 1 31 Candidate (E (RequestVoteTo 2)),
     Ev 1 31 Candidate (E (RequestVoteTo 3)),
     Ev 1 31 Candidate (E (RequestVoteTo 4)),
     Ev 0 30 Candidate (E StartElection),
     Ev 2 28 Leader (A (AppendSent 1 [123, 123, 123, 1, 123])),
     Ev 3 31 Candidate (E BecomeCandidate),
     Ev 3 31 Candidate (E (RequestVoteTo 0)),
     Ev 3 31 Candidate (E (RequestVoteTo 1)),
     Ev 3 31 Candidate (E (RequestVoteTo 2)),
     Ev 3 31 Candidate (E (RequestVoteTo 4)),
     Ev 2 28 Leader (A (AppendSent 0 [123, 123, 123, 1, 123])),
     Ev 0 31 Candidate (E BecomeCandidate),
     Ev 0 31 Candidate (E (RequestVoteTo 1)),
     Ev 0 31 Candidate (E (RequestVoteTo 2)),
     Ev 0 31 Candidate (E (RequestVoteTo 3)),
     Ev 4 16 Leader (A (AppendSent 3 [100, 123, 123, 100, 100])),
     Ev 2 28 Leader (A (AppendSent 3 [123, 123, 123, 1, 123])),
     Ev 0 31 Candidate (E (RequestVoteTo 4)),
     Ev 4 16 Leader (A (AppendSent 1 [100, 123, 123, 100, 100])),
     Ev 4 16 Leader (A (AppendSent 2 [100, 123, 123, 100, 100])),
     Ev 2 28 Leader (A (AppendNotOk 1)),
     Ev 3 31 Candidate (E (VoteNotOk 2)),
     Ev 1 31 Candidate (E (VoteRequested 1 0 31)),
     Ev 1 31 Candidate (E (VoteArgs 31 133 28 123 124)),
     Ev 0 31 Candidate (E (VoteRequested 0 3 31)),
     Ev 1 31 Candidate (E (Indices 2 2)),
     Ev 0 31 Candidate (E (VoteArgs 31 123 9 133 134)),
     Ev 0 31 Candidate (E (Indices 1 1)),
     Ev 1 31 Candidate (E (LogTerms 28 9 123 133)),
     Ev 0 31 Candidate (E (LogTerms 9 14 133 123)),
     Ev 1 31 Candidate (E LogOutdated),
     Ev 0 31 Candidate (E RefuseVote),
     Ev 3 31 Candidate (E (VoteReply 0 31 False)),
     Ev 3 31 Candidate (E (Indices 1 1)),
     Ev 3 31 Candidate (E (CheckElection 1 5)),
     Ev 0 31 Candidate (E (VoteNotOk 4)),
     Ev 4 16 Leader (A (AppendNotOk 2)),
     Ev 1 31 Candidate (E (VoteRequested 1 3 31)),
     Ev 3 31 Candidate (E (VoteRequested 3 1 31)),
     Ev 3 31 Candidate (E (VoteArgs 31 123 14 123 124)),
     Ev 0 31 Candidate (E (VoteReply 3 30 False)),
     Ev 0 31 Candidate (E (Indices 1 1)),
     Ev 0 31 Candidate (E (CheckElection 1 5)),
     Ev 3 31 Candidate (E (Indices 1 1)),
     Ev 0 31 Candidate (E (VoteRequested 0 1 31)),
     Ev 0 31 Candidate (E (VoteArgs 31 123 9 133 134)),
     Ev 0 31 Candidate (E (Indices 1 1)),
     Ev 3 31 Candidate (E (LogTerms 14 28 123 123)),
     Ev 0 31 Candidate (E (LogTerms 9 28 133 123)),
     Ev 0 31 Candidate (E RefuseVote),
     Ev 3 31 Candidate (E RefuseVote),
     Ev 1 31 Candidate (E (VoteArgs 31 123 28 123 124)),
     Ev 1 31 Candidate (E (Indices 2 2)),
     Ev 1 31 Candidate (E (LogTerms 28 14 123 123)),
     Ev 1 31 Candidate (E LogOutdated),
     Ev 3 31 Candidate (E (VoteRequested 3 0 31)),
     Ev 3 31 Candidate (E (VoteArgs 31 133 14 123 124)),
     Ev 1 31 Candidate (E (VoteNotOk 0)),
     Ev 3 31 Candidate (E (Indices 1 1)),
     Ev 3 31 Candidate (E (LogTerms 14 9 123 133)),
     Ev 3 31 Candidate (E LogOutdated),
     Ev 3 31 Candidate (E (VoteNotOk 1)),
     Ev 4 16 Leader (A (AppendNotOk 3)),
     Ev 2 28 Leader (A (AppendNotOk 0)),
     Ev 0 31 Candidate (E (VoteNotOk 2)),
     Ev 4 16 Leader (A (AppendNotOk 0)),
     Ev 2 28 Leader (A (AppendNotOk 4)),
     Ev 2 28 Leader (A (AppendNotOk 3)),
     Ev 4 16 Leader (A (AppendNotOk 1)),
     Ev 1 31 Candidate (E (VoteNotOk 4)),
     Ev 3 31 Candidate (E (VoteNotOk 4)),
     Ev 1 31 Candidate (E (VoteNotOk 2)),
     Ev 2 28 Leader (A HeartBeat),
     Ev 4 16 Leader (A HeartBeat),
     Ev 4 16 Leader (A (AppendTo 0)),
     Ev 4 16 Leader (A (AppendTo 1)),
     Ev 2 28 Leader (A (AppendTo 0)),
     Ev 2 28 Leader (A (AppendTo 1)),
     Ev 4 16 Leader (A (AppendTo 2)),
     Ev 4 16 Leader (A (AppendTo 3)),
     Ev 2 28 Leader (A (AppendTo 3)),
     Ev 2 28 Leader (A (AppendTo 4)),
     Ev 4 16 Leader (A (AppendSent 1 [100, 123, 123, 100, 100])),
     Ev 2 28 Leader (A (AppendSent 1 [123, 123, 123, 1, 123])),
     Ev 2 28 Leader (A (AppendSent 3 [123, 123, 123, 1, 123])),
     Ev 4 16 Leader (A (AppendSent 3 [100, 123, 123, 100, 100])),
     Ev 2 28 Leader (A (AppendSent 4 [123, 123, 123, 1, 123])),
     Ev 2 28 Leader (A (AppendSent 0 [123, 123, 123, 1, 123])),
     Ev 4 16 Leader (A (AppendSent 0 [100, 123, 123, 100, 100])),
     Ev 4 16 Leader (A (AppendSent 2 [100, 123, 123, 100, 100])),
     Ev 2 28 Leader (A (AppendNotOk 3)),
     Ev 4 16 Leader (A (AppendNotOk 3)),
     Ev 2 28 Leader (A (AppendNotOk 1)),
     Ev 4 16 Leader (A (AppendNotOk 0)),
     Ev 2 28 Leader (A (AppendNotOk 0)),
     Ev 2 28 Leader (A (AppendNotOk 4)),
     Ev 4 16 Leader (A (AppendNotOk 1)),
     Ev 4 16 Leader (A (AppendNotOk 2)),
     Ev 4 16 Leader (A HeartBeat),
     Ev 4 16 Leader (A (AppendTo 0)),
     Ev 2 28 Leader (A HeartBeat),
     Ev 2 28 Leader (A (AppendTo 0)),
     Ev 2 28 Leader (A (AppendTo 1)),
     Ev 2 28 Leader (A (AppendTo 3)),
     Ev 2 28 Leader (A (AppendTo 4)),
     Ev 4 16 Leader (A (AppendTo 1)),
     Ev 2 28 Leader (A (AppendSent 4 [123, 123, 123, 1, 123])),
     Ev 4 16 Leader (A (AppendTo 2)),
     Ev 4 16 Leader (A (AppendTo 3)),
     Ev 4 16 Leader (A (AppendSent 2 [100, 123, 123, 100, 100])),
     Ev 2 28 Leader (A (AppendSent 3 [123, 123, 123, 1, 123])),
     Ev 4 16 Leader (A (AppendSent 0 [100, 123, 123, 100, 100])),
     Ev 4 16 Leader (A (AppendSent 1 [100, 123, 123, 100, 100])),
     Ev 2 28 Leader (A (AppendSent 0 [123, 123, 123, 1, 123])),
     Ev 4 16 Leader (A (AppendSent 3 [100, 123, 123, 100, 100])),
     Ev 2 28 Leader (A (AppendSent 1 [123, 123, 123, 1, 123])),
     Ev 4 16 Leader (A (AppendNotOk 1)),
     Ev 4 16 Leader (A (AppendNotOk 2)),
     Ev 2 28 Leader (A (AppendNotOk 3)),
     Ev 2 28 Leader (A (AppendNotOk 4)),
     Ev 2 28 Leader (A (AppendNotOk 1)),
     Ev 4 16 Leader (A (AppendNotOk 0)),
     Ev 2 28 Leader (A (AppendNotOk 0)),
     Ev 4 16 Leader (A (AppendNotOk 3)),
     Ev 2 28 Leader (A HeartBeat),
     Ev 2 28 Leader (A (AppendTo 0)),
     Ev 2 28 Leader (A (AppendTo 1)),
     Ev 2 28 Leader (A (AppendTo 3)),
     Ev 4 16 Leader (A HeartBeat),
     Ev 4 16 Leader (A (AppendTo 0)),
     Ev 2 28 Leader (A (AppendTo 4)),
     Ev 4 16 Leader (A (AppendTo 1)),
     Ev 4 16 Leader (A (AppendTo 2)),
     Ev 4 16 Leader (A (AppendTo 3)),
     Ev 2 28 Leader (A (AppendSent 3 [123, 123, 123, 1, 123])),
     Ev 4 16 Leader (A (AppendSent 0 [100, 123, 123, 100, 100])),
     Ev 2 28 Leader (A (AppendSent 0 [123, 123, 123, 1, 123])),
     Ev 4 16 Leader (A (AppendSent 2 [100, 123, 123, 100, 100])),
     Ev 2 28 Leader (A (AppendSent 1 [123, 123, 123, 1, 123])),
     Ev 4 16 Leader (A (AppendSent 1 [100, 123, 123, 100, 100])),
     Ev 2 28 Leader (A (AppendSent 4 [123, 123, 123, 1, 123])),
     Ev 4 16 Leader (A (AppendSent 3 [100, 123, 123, 100, 100])),
     Ev 2 28 Leader (A (AppendNotOk 0)),
     Ev 4 16 Leader (A (AppendNotOk 0)),
     Ev 0 31 Candidate (E (VoteReply 1 31 False)),
     Ev 0 31 Candidate (E (Indices 1 1))]"

definition run_33 :: "line list" where
  "run_33 = [
     Ev 0 31 Candidate (E (CheckElection 1 5)),
     Ev 2 28 Leader (A (AppendNotOk 3)),
     Ev 2 28 Leader (A (AppendNotOk 1)),
     Ev 4 16 Leader (A (AppendNotOk 3)),
     Ev 4 16 Leader (A (AppendNotOk 1)),
     Ev 2 28 Leader (A (AppendNotOk 4)),
     Ev 4 16 Leader (A (AppendNotOk 2)),
     Ev 4 16 Leader (A HeartBeat),
     Ev 4 16 Leader (A (AppendTo 0)),
     Ev 4 16 Leader (A (AppendTo 1)),
     Ev 2 28 Leader (A HeartBeat),
     Ev 4 16 Leader (A (AppendTo 2)),
     Ev 2 28 Leader (A (AppendTo 0)),
     Ev 2 28 Leader (A (AppendTo 1)),
     Ev 2 28 Leader (A (AppendTo 3)),
     Ev 4 16 Leader (A (AppendTo 3)),
     Ev 2 28 Leader (A (AppendTo 4)),
     Ev 2 28 Leader (A (AppendSent 3 [123, 123, 123, 1, 123])),
     Ev 2 28 Leader (A (AppendSent 4 [123, 123, 123, 1, 123])),
     Ev 2 28 Leader (A (AppendSent 0 [123, 123, 123, 1, 123])),
     Ev 2 28 Leader (A (AppendSent 1 [123, 123, 123, 1, 123])),
     Ev 4 16 Leader (A (AppendSent 0 [100, 123, 123, 100, 100])),
     Ev 4 16 Leader (A (AppendSent 1 [100, 123, 123, 100, 100])),
     Ev 4 16 Leader (A (AppendSent 2 [100, 123, 123, 100, 100])),
     Ev 4 16 Leader (A (AppendSent 3 [100, 123, 123, 100, 100])),
     Ev 4 16 Leader (A (AppendNotOk 0)),
     Ev 2 28 Leader (A (AppendNotOk 0)),
     Ev 2 28 Leader (A (AppendNotOk 4)),
     Ev 2 28 Leader (A (AppendNotOk 1)),
     Ev 4 16 Leader (A (AppendNotOk 3)),
     Ev 4 16 Leader (A (AppendNotOk 1)),
     Ev 4 16 Leader (A (AppendNotOk 2)),
     Ev 2 28 Leader (A (AppendNotOk 3)),
     Ev 2 28 Leader (A HeartBeat),
     Ev 2 28 Leader (A (AppendTo 0)),
     Ev 2 28 Leader (A (AppendTo 1)),
     Ev 2 28 Leader (A (AppendTo 3)),
     Ev 2 28 Leader (A (AppendTo 4)),
     Ev 4 16 Leader (A HeartBeat),
     Ev 4 16 Leader (A (AppendTo 0)),
     Ev 2 28 Leader (A (AppendSent 4 [123, 123, 123, 1, 123])),
     Ev 4 16 Leader (A (AppendTo 1)),
     Ev 2 28 Leader (A (AppendSent 1 [123, 123, 123, 1, 123])),
     Ev 4 16 Leader (A (AppendTo 2)),
     Ev 4 16 Leader (A (AppendTo 3)),
     Ev 4 16 Leader (A (AppendSent 1 [100, 123, 123, 100, 100])),
     Ev 2 28 Leader (A (AppendSent 0 [123, 123, 123, 1, 123])),
     Ev 2 28 Leader (A (AppendSent 3 [123, 123, 123, 1, 123])),
     Ev 4 16 Leader (A (AppendSent 0 [100, 123, 123, 100, 100])),
     Ev 4 16 Leader (A (AppendSent 3 [100, 123, 123, 100, 100])),
     Ev 4 16 Leader (A (AppendSent 2 [100, 123, 123, 100, 100])),
     Ev 2 28 Leader (A (AppendNotOk 4)),
     Ev 4 16 Leader (A (AppendNotOk 2)),
     Ev 4 16 Leader (A (AppendNotOk 1)),
     Ev 2 28 Leader (A (AppendNotOk 1)),
     Ev 2 28 Leader (A (AppendNotOk 3)),
     Ev 4 16 Leader (A (AppendNotOk 3)),
     Ev 2 28 Leader (A (AppendNotOk 0)),
     Ev 4 16 Leader (A (AppendNotOk 0)),
     Ev 1 31 Candidate (E StartElection),
     Ev 2 28 Leader (A HeartBeat),
     Ev 2 28 Leader (A (AppendTo 0)),
     Ev 2 28 Leader (A (AppendTo 1)),
     Ev 2 28 Leader (A (AppendTo 3)),
     Ev 4 16 Leader (A HeartBeat),
     Ev 2 28 Leader (A (AppendTo 4)),
     Ev 4 16 Leader (A (AppendTo 0)),
     Ev 4 16 Leader (A (AppendTo 1)),
     Ev 4 16 Leader (A (AppendTo 2)),
     Ev 4 16 Leader (A (AppendTo 3)),
     Ev 2 28 Leader (A (AppendSent 3 [123, 123, 123, 1, 123])),
     Ev 4 16 Leader (A (AppendSent 3 [100, 123, 123, 100, 100])),
     Ev 4 16 Leader (A (AppendSent 2 [100, 123, 123, 100, 100])),
     Ev 1 32 Candidate (E BecomeCandidate),
     Ev 1 32 Candidate (E (RequestVoteTo 0)),
     Ev 1 32 Candidate (E (RequestVoteTo 2)),
     Ev 1 32 Candidate (E (RequestVoteTo 3)),
     Ev 1 32 Candidate (E (RequestVoteTo 4)),
     Ev 2 28 Leader (A (AppendSent 1 [123, 123, 123, 1, 123])),
     Ev 2 28 Leader (A (AppendSent 0 [123, 123, 123, 1, 123])),
     Ev 4 16 Leader (A (AppendSent 1 [100, 123, 123, 100, 100])),
     Ev 4 16 Leader (A (AppendSent 0 [100, 123, 123, 100, 100])),
     Ev 2 28 Leader (A (AppendSent 4 [123, 123, 123, 1, 123])),
     Ev 3 31 Candidate (E (VoteRequested 3 1 32)),
     Ev 3 31 Candidate (E (VoteArgs 32 123 14 123 124)),
     Ev 3 31 Candidate (E (Indices 1 1)),
     Ev 3 31 Candidate (E (TermLower 1)),
     Ev 0 31 Candidate (E (VoteRequested 0 1 32)),
     Ev 0 31 Candidate (E (VoteArgs 32 123 9 133 134)),
     Ev 0 31 Candidate (E (Indices 1 1)),
     Ev 0 31 Candidate (E (TermLower 1)),
     Ev 3 32 Follower (E (LogTerms 14 28 123 123)),
     Ev 0 32 Follower (E (LogTerms 9 28 133 123)),
     Ev 3 32 Follower (E (VoteGranted 32 123 14 123 124)),
     Ev 3 32 Follower (E (Indices 1 1)),
     Ev 1 32 Candidate (E (VoteNotOk 3)),
     Ev 0 32 Follower (E (VoteGranted 32 123 9 133 134)),
     Ev 0 32 Follower (E (Indices 1 1)),
     Ev 2 28 Leader (A (AppendNotOk 0)),
     Ev 4 16 Leader (A (AppendNotOk 3)),
     Ev 4 16 Leader (A (AppendNotOk 1)),
     Ev 4 16 Leader (A (AppendNotOk 2)),
     Ev 1 32 Candidate (E (VoteNotOk 4)),
     Ev 4 16 Leader (A (AppendNotOk 0)),
     Ev 2 28 Leader (A (AppendNotOk 1)),
     Ev 2 28 Leader (A (AppendNotOk 3)),
     Ev 2 28 Leader (A (AppendNotOk 4)),
     Ev 1 32 Candidate (E (VoteNotOk 2)),
     Ev 2 28 Leader (A HeartBeat),
     Ev 4 16 Leader (A HeartBeat),
     Ev 4 16 Leader (A (AppendTo 0)),
     Ev 4 16 Leader (A (AppendTo 1)),
     Ev 4 16 Leader (A (AppendTo 2)),
     Ev 4 16 Leader (A (AppendTo 3)),
     Ev 2 28 Leader (A (AppendTo 0)),
     Ev 2 28 Leader (A (AppendTo 1)),
     Ev 2 28 Leader (A (AppendTo 3)),
     Ev 2 28 Leader (A (AppendTo 4)),
     Ev 4 16 Leader (A (AppendSent 3 [100, 123, 123, 100, 100])),
     Ev 2 28 Leader (A (AppendSent 4 [123, 123, 123, 1, 123])),
     Ev 4 16 Leader (A (AppendSent 1 [100, 123, 123, 100, 100])),
     Ev 2 28 Leader (A (AppendSent 1 [123, 123, 123, 1, 123])),
     Ev 2 28 Leader (A (AppendSent 0 [123, 123, 123, 1, 123])),
     Ev 4 16 Leader (A (AppendSent 0 [100, 123, 123, 100, 100])),
     Ev 2 28 Leader (A (AppendSent 3 [123, 123, 123, 1, 123])),
     Ev 4 16 Leader (A (AppendSent 2 [100, 123, 123, 100, 100])),
     Ev 4 16 Leader (A (AppendNotOk 1)),
     Ev 4 16 Leader (A (AppendNotOk 0)),
     Ev 2 28 Leader (A (AppendNotOk 0)),
     Ev 1 32 Candidate (E (VoteReply 3 31 False)),
     Ev 1 32 Candidate (E (Indices 2 2)),
     Ev 1 32 Candidate (E (CheckElection 1 5)),
     Ev 4 16 Leader (A (AppendNotOk 3)),
     Ev 4 16 Leader (A (AppendNotOk 2)),
     Ev 2 28 Leader (A (AppendNotOk 1)),
     Ev 2 28 Leader (A (AppendNotOk 3)),
     Ev 4 16 Leader (A HeartBeat),
     Ev 4 16 Leader (A (AppendTo 0)),
     Ev 4 16 Leader (A (AppendTo 1)),
     Ev 4 16 Leader (A (AppendTo 2)),
     Ev 4 16 Leader (A (AppendTo 3)),
     Ev 4 16 Leader (A (AppendSent 3 [100, 123, 123, 100, 100])),
     Ev 4 16 Leader (A (AppendSent 1 [100, 123, 123, 100, 100])),
     Ev 4 16 Leader (A (AppendSent 0 [100, 123, 123, 100, 100])),
     Ev 2 28 Leader (A HeartBeat),
     Ev 2 28 Leader (A (AppendTo 0)),
     Ev 2 28 Leader (A (AppendTo 1)),
     Ev 2 28 Leader (A (AppendTo 3)),
     Ev 2 28 Leader (A (AppendTo 4)),
     Ev 2 28 Leader (A (AppendNotOk 4))]"

definition run_34 :: "line list" where
  "run_34 = [
     Ev 2 28 Leader (A (AppendSent 0 [123, 123, 123, 1, 123])),
     Ev 2 28 Leader (A (AppendSent 3 [123, 123, 123, 1, 123])),
     Ev 2 28 Leader (A (AppendSent 1 [123, 123, 123, 1, 123])),
     Ev 2 28 Leader (A (AppendSent 4 [123, 123, 123, 1, 123])),
     Ev 4 16 Leader (A (AppendSent 2 [100, 123, 123, 100, 100])),
     Ev 4 16 Leader (A (AppendNotOk 1)),
     Ev 4 16 Leader (A (AppendNotOk 2)),
     Ev 4 16 Leader (A (AppendNotOk 3)),
     Ev 4 16 Leader (A (AppendNotOk 0)),
     Ev 2 28 Leader (A (AppendNotOk 4)),
     Ev 2 28 Leader (A (AppendNotOk 3)),
     Ev 2 28 Leader (A (AppendNotOk 1)),
     Ev 2 28 Leader (A (AppendNotOk 0)),
     Ev 4 16 Leader (A HeartBeat),
     Ev 4 16 Leader (A (AppendTo 0)),
     Ev 4 16 Leader (A (AppendTo 1)),
     Ev 4 16 Leader (A (AppendTo 2)),
     Ev 4 16 Leader (A (AppendTo 3)),
     Ev 4 16 Leader (A (AppendSent 3 [100, 123, 123, 100, 100])),
     Ev 2 28 Leader (A HeartBeat),
     Ev 2 28 Leader (A (AppendTo 0)),
     Ev 2 28 Leader (A (AppendTo 1)),
     Ev 2 28 Leader (A (AppendTo 3)),
     Ev 2 28 Leader (A (AppendTo 4)),
     Ev 2 28 Leader (A (AppendSent 4 [123, 123, 123, 1, 123])),
     Ev 2 28 Leader (A (AppendSent 1 [123, 123, 123, 1, 123])),
     Ev 4 16 Leader (A (AppendSent 1 [100, 123, 123, 100, 100])),
     Ev 2 28 Leader (A (AppendSent 3 [123, 123, 123, 1, 123])),
     Ev 2 28 Leader (A (AppendSent 0 [123, 123, 123, 1, 123])),
     Ev 4 16 Leader (A (AppendSent 0 [100, 123, 123, 100, 100])),
     Ev 4 16 Leader (A (AppendSent 2 [100, 123, 123, 100, 100])),
     Ev 2 28 Leader (A (AppendNotOk 3)),
     Ev 4 16 Leader (A (AppendNotOk 0)),
     Ev 2 28 Leader (A (AppendNotOk 4)),
     Ev 4 16 Leader (A (AppendNotOk 2)),
     Ev 4 16 Leader (A (AppendNotOk 1)),
     Ev 2 28 Leader (A (AppendNotOk 0)),
     Ev 2 28 Leader (A (AppendNotOk 1)),
     Ev 4 16 Leader (A (AppendNotOk 3)),
     Ev 4 16 Leader (A HeartBeat),
     Ev 4 16 Leader (A (AppendTo 0)),
     Ev 4 16 Leader (A (AppendTo 1)),
     Ev 4 16 Leader (A (AppendTo 2)),
     Ev 4 16 Leader (A (AppendTo 3)),
     Ev 4 16 Leader (A (AppendSent 3 [100, 123, 123, 100, 100])),
     Ev 4 16 Leader (A (AppendSent 1 [100, 123, 123, 100, 100])),
     Ev 3 32 Follower (E (VoteReply 0 30 False)),
     Ev 3 32 Follower (E (Indices 1 1)),
     Ev 2 28 Leader (A HeartBeat),
     Ev 3 32 Follower (E (CheckElection 0 5)),
     Ev 3 32 Follower (E NotCandidate),
     Ev 2 28 Leader (A (AppendTo 0)),
     Ev 2 28 Leader (A (AppendTo 1)),
     Ev 2 28 Leader (A (AppendTo 3)),
     Ev 2 28 Leader (A (AppendTo 4)),
     Ev 2 28 Leader (A (AppendSent 4 [123, 123, 123, 1, 123])),
     Ev 2 28 Leader (A (AppendSent 0 [123, 123, 123, 1, 123])),
     Ev 2 28 Leader (A (AppendSent 1 [123, 123, 123, 1, 123])),
     Ev 2 28 Leader (A (AppendSent 3 [123, 123, 123, 1, 123])),
     Ev 4 16 Leader (A (AppendSent 0 [100, 123, 123, 100, 100])),
     Ev 4 16 Leader (A (AppendSent 2 [100, 123, 123, 100, 100])),
     Ev 4 16 Leader (A (AppendNotOk 3)),
     Ev 2 28 Leader (A (AppendNotOk 4)),
     Ev 2 28 Leader (A (AppendNotOk 3)),
     Ev 2 28 Leader (A (AppendNotOk 1)),
     Ev 2 28 Leader (A (AppendNotOk 0)),
     Ev 4 16 Leader (A (AppendNotOk 0)),
     Ev 4 16 Leader (A (AppendNotOk 2)),
     Ev 4 16 Leader (A (AppendNotOk 1)),
     Ev 2 28 Leader (A HeartBeat),
     Ev 2 28 Leader (A (AppendTo 0)),
     Ev 4 16 Leader (A HeartBeat),
     Ev 0 32 Follower (E StartElection),
     Ev 4 16 Leader (A (AppendTo 0)),
     Ev 4 16 Leader (A (AppendTo 1)),
     Ev 4 16 Leader (A (AppendTo 2)),
     Ev 4 16 Leader (A (AppendTo 3)),
     Ev 2 28 Leader (A (AppendTo 1)),
     Ev 2 28 Leader (A (AppendTo 3)),
     Ev 2 28 Leader (A (AppendTo 4)),
     Ev 4 16 Leader (A (AppendSent 3 [100, 123, 123, 100, 100])),
     Ev 2 28 Leader (A (AppendSent 0 [123, 123, 123, 1, 123])),
     Ev 2 28 Leader (A (AppendSent 4 [123, 123, 123, 1, 123])),
     Ev 2 28 Leader (A (AppendSent 3 [123, 123, 123, 1, 123])),
     Ev 4 16 Leader (A (AppendSent 1 [100, 123, 123, 100, 100])),
     Ev 0 33 Candidate (E BecomeCandidate),
     Ev 0 33 Candidate (E (RequestVoteTo 1)),
     Ev 0 33 Candidate (E (RequestVoteTo 2)),
     Ev 0 33 Candidate (E (RequestVoteTo 3)),
     Ev 0 33 Candidate (E (RequestVoteTo 4)),
     Ev 4 16 Leader (A (AppendSent 0 [100, 123, 123, 100, 100])),
     Ev 2 28 Leader (A (AppendSent 1 [123, 123, 123, 1, 123])),
     Ev 4 16 Leader (A (AppendSent 2 [100, 123, 123, 100, 100])),
     Ev 3 32 Follower (E (VoteRequested 1 0 33)),
     Ev 3 32 Follower (E (VoteArgs 33 133 14 123 124)),
     Ev 0 33 Candidate (E (VoteNotOk 2)),
     Ev 3 32 Follower (E (Indices 1 1)),
     Ev 3 32 Follower (E (TermLower 0)),
     Ev 1 32 Candidate (E (VoteRequested 1 0 33)),
     Ev 1 32 Candidate (E (VoteArgs 33 133 28 123 124)),
     Ev 1 32 Candidate (E (Indices 2 2)),
     Ev 1 32 Candidate (E (TermLower 0)),
     Ev 3 33 Follower (E (LogTerms 14 9 123 133)),
     Ev 3 33 Follower (E LogOutdated),
     Ev 1 33 Follower (E (LogTerms 28 9 123 133)),
     Ev 1 33 Follower (E LogOutdated),
     Ev 2 28 Leader (A (AppendNotOk 3)),
     Ev 4 16 Leader (A (AppendNotOk 0)),
     Ev 2 28 Leader (A (AppendNotOk 1)),
     Ev 4 16 Leader (A (AppendNotOk 3)),
     Ev 4 16 Leader (A (AppendNotOk 1)),
     Ev 2 28 Leader (A (AppendNotOk 0)),
     Ev 0 33 Candidate (E (VoteNotOk 4)),
     Ev 2 28 Leader (A (AppendNotOk 4)),
     Ev 4 16 Leader (A (AppendNotOk 2)),
     Ev 2 28 Leader (A HeartBeat),
     Ev 2 28 Leader (A (AppendTo 0)),
     Ev 2 28 Leader (A (AppendTo 1)),
     Ev 2 28 Leader (A (AppendTo 3)),
     Ev 4 16 Leader (A HeartBeat),
     Ev 4 16 Leader (A (AppendTo 0)),
     Ev 2 28 Leader (A (AppendTo 4)),
     Ev 4 16 Leader (A (AppendTo 1)),
     Ev 2 28 Leader (A (AppendSent 4 [123, 123, 123, 1, 123])),
     Ev 4 16 Leader (A (AppendTo 2)),
     Ev 4 16 Leader (A (AppendTo 3)),
     Ev 4 16 Leader (A (AppendSent 0 [100, 123, 123, 100, 100])),
     Ev 4 16 Leader (A (AppendSent 1 [100, 123, 123, 100, 100])),
     Ev 4 16 Leader (A (AppendSent 3 [100, 123, 123, 100, 100])),
     Ev 2 28 Leader (A (AppendSent 3 [123, 123, 123, 1, 123])),
     Ev 4 16 Leader (A (AppendSent 2 [100, 123, 123, 100, 100])),
     Ev 2 28 Leader (A (AppendSent 0 [123, 123, 123, 1, 123])),
     Ev 2 28 Leader (A (AppendSent 1 [123, 123, 123, 1, 123])),
     Ev 2 28 Leader (A (AppendNotOk 3)),
     Ev 2 28 Leader (A (AppendNotOk 4)),
     Ev 2 28 Leader (A (AppendNotOk 0)),
     Ev 4 16 Leader (A (AppendNotOk 0)),
     Ev 2 28 Leader (A (AppendNotOk 1)),
     Ev 4 16 Leader (A (AppendNotOk 2)),
     Ev 4 16 Leader (A (AppendNotOk 3)),
     Ev 4 16 Leader (A (AppendNotOk 1)),
     Ev 0 33 Candidate (E (VoteReply 3 31 False)),
     Ev 0 33 Candidate (E (Indices 1 1)),
     Ev 0 33 Candidate (E (CheckElection 1 5)),
     Ev 4 16 Leader (A HeartBeat),
     Ev 4 16 Leader (A (AppendTo 0)),
     Ev 2 28 Leader (A HeartBeat),
     Ev 4 16 Leader (A (AppendTo 1)),
     Ev 2 28 Leader (A (AppendTo 0)),
     Ev 2 28 Leader (A (AppendTo 1))]"

definition run_35 :: "line list" where
  "run_35 = [
     Ev 2 28 Leader (A (AppendTo 3)),
     Ev 4 16 Leader (A (AppendTo 2)),
     Ev 4 16 Leader (A (AppendTo 3)),
     Ev 2 28 Leader (A (AppendTo 4)),
     Ev 4 16 Leader (A (AppendSent 0 [100, 123, 123, 100, 100])),
     Ev 4 16 Leader (A (AppendSent 3 [100, 123, 123, 100, 100])),
     Ev 2 28 Leader (A (AppendSent 4 [123, 123, 123, 1, 123])),
     Ev 4 16 Leader (A (AppendSent 1 [100, 123, 123, 100, 100])),
     Ev 2 28 Leader (A (AppendSent 3 [123, 123, 123, 1, 123])),
     Ev 4 16 Leader (A (AppendSent 2 [100, 123, 123, 100, 100])),
     Ev 2 28 Leader (A (AppendSent 0 [123, 123, 123, 1, 123])),
     Ev 2 28 Leader (A (AppendSent 1 [123, 123, 123, 1, 123])),
     Ev 2 28 Leader (A (AppendNotOk 4)),
     Ev 2 28 Leader (A (AppendNotOk 0)),
     Ev 0 33 Candidate (E (VoteReply 1 33 False)),
     Ev 0 33 Candidate (E (Indices 1 1)),
     Ev 0 33 Candidate (E (CheckElection 1 5)),
     Ev 4 16 Leader (A (AppendNotOk 1)),
     Ev 4 16 Leader (A (AppendNotOk 0)),
     Ev 4 16 Leader (A (AppendNotOk 2)),
     Ev 4 16 Leader (A (AppendNotOk 3)),
     Ev 4 16 Leader (A HeartBeat),
     Ev 4 16 Leader (A (AppendTo 0)),
     Ev 4 16 Leader (A (AppendTo 1)),
     Ev 4 16 Leader (A (AppendTo 2)),
     Ev 4 16 Leader (A (AppendTo 3)),
     Ev 4 16 Leader (A (AppendSent 3 [100, 123, 123, 100, 100])),
     Ev 4 16 Leader (A (AppendSent 2 [100, 123, 123, 100, 100])),
     Ev 4 16 Leader (A (AppendSent 1 [100, 123, 123, 100, 100])),
     Ev 2 28 Leader (A (AppendNotOk 3)),
     Ev 2 28 Leader (A HeartBeat),
     Ev 2 28 Leader (A (AppendTo 0)),
     Ev 2 28 Leader (A (AppendTo 1)),
     Ev 2 28 Leader (A (AppendTo 3)),
     Ev 2 28 Leader (A (AppendTo 4)),
     Ev 2 28 Leader (A (AppendNotOk 1)),
     Ev 2 28 Leader (A (AppendSent 0 [123, 123, 123, 1, 123])),
     Ev 2 28 Leader (A (AppendSent 1 [123, 123, 123, 1, 123])),
     Ev 2 28 Leader (A (AppendSent 4 [123, 123, 123, 1, 123])),
     Ev 4 16 Leader (A (AppendSent 0 [100, 123, 123, 100, 100])),
     Ev 2 28 Leader (A (AppendSent 3 [123, 123, 123, 1, 123])),
     Ev 2 28 Leader (A (AppendNotOk 1)),
     Ev 4 16 Leader (A (AppendNotOk 1)),
     Ev 4 16 Leader (A (AppendNotOk 0)),
     Ev 4 16 Leader (A (AppendNotOk 2)),
     Ev 4 16 Leader (A (AppendNotOk 3)),
     Ev 2 28 Leader (A (AppendNotOk 4)),
     Ev 2 28 Leader (A (AppendNotOk 0)),
     Ev 2 28 Leader (A (AppendNotOk 3)),
     Ev 4 16 Leader (A HeartBeat),
     Ev 4 16 Leader (A (AppendTo 0)),
     Ev 2 28 Leader (A HeartBeat),
     Ev 4 16 Leader (A (AppendTo 1)),
     Ev 2 28 Leader (A (AppendTo 0)),
     Ev 2 28 Leader (A (AppendTo 1)),
     Ev 2 28 Leader (A (AppendTo 3)),
     Ev 4 16 Leader (A (AppendTo 2)),
     Ev 4 16 Leader (A (AppendTo 3)),
     Ev 2 28 Leader (A (AppendTo 4)),
     Ev 2 28 Leader (A (AppendSent 3 [123, 123, 123, 1, 123])),
     Ev 4 16 Leader (A (AppendSent 2 [100, 123, 123, 100, 100])),
     Ev 2 28 Leader (A (AppendSent 0 [123, 123, 123, 1, 123])),
     Ev 4 16 Leader (A (AppendSent 1 [100, 123, 123, 100, 100])),
     Ev 2 28 Leader (A (AppendSent 1 [123, 123, 123, 1, 123])),
     Ev 2 28 Leader (A (AppendSent 4 [123, 123, 123, 1, 123])),
     Ev 4 16 Leader (A (AppendSent 0 [100, 123, 123, 100, 100])),
     Ev 4 16 Leader (A (AppendSent 3 [100, 123, 123, 100, 100])),
     Ev 4 16 Leader (A (AppendNotOk 1)),
     Ev 4 16 Leader (A (AppendNotOk 0)),
     Ev 2 28 Leader (A (AppendNotOk 4)),
     Ev 4 16 Leader (A (AppendNotOk 2)),
     Ev 2 28 Leader (A (AppendNotOk 3)),
     Ev 2 28 Leader (A (AppendNotOk 0)),
     Ev 4 16 Leader (A (AppendNotOk 3)),
     Ev 0 33 Candidate (E (VoteReply 3 33 False)),
     Ev 0 33 Candidate (E (Indices 1 1)),
     Ev 0 33 Candidate (E (CheckElection 1 5)),
     Ev 2 28 Leader (A HeartBeat),
     Ev 2 28 Leader (A (AppendTo 0)),
     Ev 2 28 Leader (A (AppendTo 1)),
     Ev 2 28 Leader (A (AppendTo 3)),
     Ev 2 28 Leader (A (AppendTo 4)),
     Ev 2 28 Leader (A (AppendSent 4 [123, 123, 123, 1, 123])),
     Ev 4 16 Leader (A HeartBeat),
     Ev 4 16 Leader (A (AppendTo 0)),
     Ev 2 28 Leader (A (AppendNotOk 1)),
     Ev 4 16 Leader (A (AppendTo 1)),
     Ev 2 28 Leader (A (AppendSent 1 [123, 123, 123, 1, 123])),
     Ev 4 16 Leader (A (AppendTo 2)),
     Ev 4 16 Leader (A (AppendTo 3)),
     Ev 4 16 Leader (A (AppendSent 3 [100, 123, 123, 100, 100])),
     Ev 2 28 Leader (A (AppendSent 0 [123, 123, 123, 1, 123])),
     Ev 2 28 Leader (A (AppendSent 3 [123, 123, 123, 1, 123])),
     Ev 4 16 Leader (A (AppendSent 0 [100, 123, 123, 100, 100])),
     Ev 4 16 Leader (A (AppendSent 1 [100, 123, 123, 100, 100])),
     Ev 4 16 Leader (A (AppendSent 2 [100, 123, 123, 100, 100])),
     Ev 1 33 Follower (E (VoteReply 0 32 True)),
     Ev 1 33 Follower (E (Indices 2 2)),
     Ev 1 33 Follower (E (VoteGained 0)),
     Ev 1 33 Follower (E (CheckElection 0 5)),
     Ev 1 33 Follower (E NotCandidate),
     Ev 2 28 Leader (A (AppendNotOk 4)),
     Ev 2 28 Leader (A (AppendNotOk 0)),
     Ev 2 28 Leader (A (AppendNotOk 1)),
     Ev 4 16 Leader (A (AppendNotOk 2)),
     Ev 4 16 Leader (A (AppendNotOk 1)),
     Ev 4 16 Leader (A (AppendNotOk 3)),
     Ev 4 16 Leader (A (AppendNotOk 0)),
     Ev 2 28 Leader (A (AppendNotOk 3)),
     Ev 4 16 Leader (A HeartBeat),
     Ev 3 33 Follower (E StartElection),
     Ev 4 16 Leader (A (AppendTo 0)),
     Ev 4 16 Leader (A (AppendTo 1)),
     Ev 4 16 Leader (A (AppendTo 2)),
     Ev 4 16 Leader (A (AppendTo 3)),
     Ev 0 33 Candidate (E StartElection),
     Ev 4 16 Leader (A (AppendSent 3 [100, 123, 123, 100, 100])),
     Ev 4 16 Leader (A (AppendSent 1 [100, 123, 123, 100, 100])),
     Ev 3 34 Candidate (E BecomeCandidate),
     Ev 3 34 Candidate (E (RequestVoteTo 0)),
     Ev 3 34 Candidate (E (RequestVoteTo 1)),
     Ev 3 34 Candidate (E (RequestVoteTo 2)),
     Ev 3 34 Candidate (E (RequestVoteTo 4)),
     Ev 0 34 Candidate (E BecomeCandidate),
     Ev 0 34 Candidate (E (RequestVoteTo 1)),
     Ev 0 34 Candidate (E (RequestVoteTo 2)),
     Ev 0 34 Candidate (E (RequestVoteTo 3)),
     Ev 0 34 Candidate (E (RequestVoteTo 4)),
     Ev 2 28 Leader (A HeartBeat),
     Ev 2 28 Leader (A (AppendTo 0)),
     Ev 2 28 Leader (A (AppendTo 1)),
     Ev 2 28 Leader (A (AppendTo 3)),
     Ev 2 28 Leader (A (AppendTo 4)),
     Ev 4 16 Leader (A (AppendSent 2 [100, 123, 123, 100, 100])),
     Ev 2 28 Leader (A (AppendSent 4 [123, 123, 123, 1, 123])),
     Ev 2 28 Leader (A (AppendSent 0 [123, 123, 123, 1, 123])),
     Ev 4 16 Leader (A (AppendSent 0 [100, 123, 123, 100, 100])),
     Ev 2 28 Leader (A (AppendSent 1 [123, 123, 123, 1, 123])),
     Ev 2 28 Leader (A (AppendSent 3 [123, 123, 123, 1, 123])),
     Ev 4 16 Leader (A (AppendNotOk 2)),
     Ev 1 33 Follower (E (VoteRequested 0 0 34)),
     Ev 1 33 Follower (E (VoteArgs 34 133 28 123 124)),
     Ev 1 33 Follower (E (Indices 2 2)),
     Ev 1 33 Follower (E (TermLower 0)),
     Ev 1 34 Follower (E (LogTerms 28 9 123 133)),
     Ev 1 34 Follower (E LogOutdated),
     Ev 3 34 Candidate (E (VoteRequested 3 0 34)),
     Ev 3 34 Candidate (E (VoteArgs 34 133 14 123 124)),
     Ev 3 34 Candidate (E (Indices 1 1)),
     Ev 3 34 Candidate (E (LogTerms 14 9 123 133))]"

definition run_36 :: "line list" where
  "run_36 = [
     Ev 3 34 Candidate (E LogOutdated),
     Ev 0 34 Candidate (E (VoteRequested 0 3 34)),
     Ev 0 34 Candidate (E (VoteArgs 34 123 9 133 134)),
     Ev 0 34 Candidate (E (Indices 1 1)),
     Ev 0 34 Candidate (E (LogTerms 9 14 133 123)),
     Ev 0 34 Candidate (E RefuseVote),
     Ev 1 34 Follower (E (VoteRequested 0 3 34)),
     Ev 1 34 Follower (E (VoteArgs 34 123 28 123 124)),
     Ev 1 34 Follower (E (Indices 2 2)),
     Ev 1 34 Follower (E (LogTerms 28 14 123 123)),
     Ev 1 34 Follower (E LogOutdated),
     Ev 3 34 Candidate (E (VoteNotOk 0)),
     Ev 2 28 Leader (A (AppendNotOk 4)),
     Ev 4 16 Leader (A (AppendNotOk 0)),
     Ev 2 28 Leader (A (AppendNotOk 3)),
     Ev 4 16 Leader (A (AppendNotOk 3)),
     Ev 3 34 Candidate (E (VoteNotOk 4)),
     Ev 2 28 Leader (A (AppendNotOk 1)),
     Ev 4 16 Leader (A (AppendNotOk 1)),
     Ev 3 34 Candidate (E (VoteNotOk 2)),
     Ev 0 34 Candidate (E (VoteNotOk 4)),
     Ev 0 34 Candidate (E (VoteNotOk 2)),
     Ev 2 28 Leader (A (AppendNotOk 0)),
     Ev 4 16 Leader (A HeartBeat),
     Ev 4 16 Leader (A (AppendTo 0)),
     Ev 4 16 Leader (A (AppendTo 1)),
     Ev 4 16 Leader (A (AppendTo 2)),
     Ev 4 16 Leader (A (AppendTo 3)),
     Ev 4 16 Leader (A (AppendSent 2 [100, 123, 123, 100, 100])),
     Ev 4 16 Leader (A (AppendSent 0 [100, 123, 123, 100, 100])),
     Ev 4 16 Leader (A (AppendSent 1 [100, 123, 123, 100, 100])),
     Ev 2 28 Leader (A HeartBeat),
     Ev 2 28 Leader (A (AppendTo 0)),
     Ev 2 28 Leader (A (AppendTo 1)),
     Ev 2 28 Leader (A (AppendTo 3)),
     Ev 2 28 Leader (A (AppendTo 4)),
     Ev 2 28 Leader (A (AppendSent 4 [123, 123, 123, 1, 123])),
     Ev 2 28 Leader (A (AppendSent 0 [123, 123, 123, 1, 123])),
     Ev 2 28 Leader (A (AppendSent 3 [123, 123, 123, 1, 123])),
     Ev 2 28 Leader (A (AppendSent 1 [123, 123, 123, 1, 123])),
     Ev 4 16 Leader (A (AppendSent 3 [100, 123, 123, 100, 100])),
     Ev 4 16 Leader (A (AppendNotOk 2)),
     Ev 2 28 Leader (A (AppendNotOk 1)),
     Ev 2 28 Leader (A (AppendNotOk 4)),
     Ev 4 16 Leader (A (AppendNotOk 3)),
     Ev 2 28 Leader (A (AppendNotOk 0)),
     Ev 2 28 Leader (A (AppendNotOk 3)),
     Ev 4 16 Leader (A (AppendNotOk 0)),
     Ev 4 16 Leader (A (AppendNotOk 1)),
     Ev 4 16 Leader (A HeartBeat),
     Ev 4 16 Leader (A (AppendTo 0)),
     Ev 2 28 Leader (A HeartBeat),
     Ev 2 28 Leader (A (AppendTo 0)),
     Ev 4 16 Leader (A (AppendTo 1)),
     Ev 4 16 Leader (A (AppendTo 2)),
     Ev 2 28 Leader (A (AppendTo 1)),
     Ev 2 28 Leader (A (AppendTo 3)),
     Ev 2 28 Leader (A (AppendTo 4)),
     Ev 4 16 Leader (A (AppendTo 3)),
     Ev 2 28 Leader (A (AppendSent 4 [123, 123, 123, 1, 123])),
     Ev 4 16 Leader (A (AppendSent 0 [100, 123, 123, 100, 100])),
     Ev 2 28 Leader (A (AppendSent 0 [123, 123, 123, 1, 123])),
     Ev 4 16 Leader (A (AppendSent 2 [100, 123, 123, 100, 100])),
     Ev 4 16 Leader (A (AppendSent 1 [100, 123, 123, 100, 100])),
     Ev 2 28 Leader (A (AppendSent 1 [123, 123, 123, 1, 123])),
     Ev 2 28 Leader (A (AppendSent 3 [123, 123, 123, 1, 123])),
     Ev 4 16 Leader (A (AppendSent 3 [100, 123, 123, 100, 100])),
     Ev 4 16 Leader (A (AppendNotOk 2)),
     Ev 2 28 Leader (A (AppendNotOk 1)),
     Ev 2 28 Leader (A (AppendNotOk 3)),
     Ev 4 16 Leader (A (AppendNotOk 3)),
     Ev 4 16 Leader (A (AppendNotOk 1)),
     Ev 2 28 Leader (A (AppendNotOk 0)),
     Ev 4 16 Leader (A (AppendNotOk 0)),
     Ev 2 28 Leader (A (AppendNotOk 4)),
     Ev 2 28 Leader (A HeartBeat),
     Ev 2 28 Leader (A (AppendTo 0)),
     Ev 2 28 Leader (A (AppendTo 1)),
     Ev 2 28 Leader (A (AppendTo 3)),
     Ev 2 28 Leader (A (AppendTo 4)),
     Ev 4 16 Leader (A HeartBeat),
     Ev 4 16 Leader (A (AppendTo 0)),
     Ev 4 16 Leader (A (AppendTo 1)),
     Ev 4 16 Leader (A (AppendTo 2)),
     Ev 4 16 Leader (A (AppendTo 3)),
     Ev 2 28 Leader (A (AppendSent 4 [123, 123, 123, 1, 123])),
     Ev 4 16 Leader (A (AppendSent 0 [100, 123, 123, 100, 100])),
     Ev 2 28 Leader (A (AppendSent 1 [123, 123, 123, 1, 123])),
     Ev 4 16 Leader (A (AppendSent 3 [100, 123, 123, 100, 100])),
     Ev 2 28 Leader (A (AppendSent 0 [123, 123, 123, 1, 123])),
     Ev 2 28 Leader (A (AppendSent 3 [123, 123, 123, 1, 123])),
     Ev 4 16 Leader (A (AppendSent 1 [100, 123, 123, 100, 100])),
     Ev 4 16 Leader (A (AppendSent 2 [100, 123, 123, 100, 100])),
     Ev 4 16 Leader (A (AppendNotOk 2)),
     Ev 2 28 Leader (A (AppendNotOk 3)),
     Ev 2 28 Leader (A (AppendNotOk 1)),
     Ev 4 16 Leader (A (AppendNotOk 0)),
     Ev 2 28 Leader (A (AppendNotOk 0)),
     Ev 4 16 Leader (A (AppendNotOk 3)),
     Ev 4 16 Leader (A (AppendNotOk 1)),
     Ev 4 16 Leader (A HeartBeat),
     Ev 4 16 Leader (A (AppendTo 0)),
     Ev 4 16 Leader (A (AppendTo 1)),
     Ev 4 16 Leader (A (AppendTo 2)),
     Ev 2 28 Leader (A HeartBeat),
     Ev 2 28 Leader (A (AppendTo 0)),
     Ev 4 16 Leader (A (AppendTo 3)),
     Ev 2 28 Leader (A (AppendTo 1)),
     Ev 2 28 Leader (A (AppendTo 3)),
     Ev 2 28 Leader (A (AppendTo 4)),
     Ev 2 28 Leader (A (AppendNotOk 4)),
     Ev 2 28 Leader (A (AppendSent 0 [123, 123, 123, 1, 123])),
     Ev 4 16 Leader (A (AppendSent 2 [100, 123, 123, 100, 100])),
     Ev 2 28 Leader (A (AppendSent 4 [123, 123, 123, 1, 123])),
     Ev 2 28 Leader (A (AppendSent 3 [123, 123, 123, 1, 123])),
     Ev 4 16 Leader (A (AppendSent 0 [100, 123, 123, 100, 100])),
     Ev 4 16 Leader (A (AppendSent 1 [100, 123, 123, 100, 100])),
     Ev 2 28 Leader (A (AppendSent 1 [123, 123, 123, 1, 123])),
     Ev 4 16 Leader (A (AppendSent 3 [100, 123, 123, 100, 100])),
     Ev 0 34 Candidate (E (VoteReply 1 34 False)),
     Ev 0 34 Candidate (E (Indices 1 1)),
     Ev 0 34 Candidate (E (CheckElection 1 5)),
     Ev 4 16 Leader (A (AppendNotOk 2)),
     Ev 4 16 Leader (A (AppendNotOk 1)),
     Ev 2 28 Leader (A (AppendNotOk 0)),
     Ev 2 28 Leader (A (AppendNotOk 1)),
     Ev 4 16 Leader (A (AppendNotOk 0)),
     Ev 2 28 Leader (A (AppendNotOk 3)),
     Ev 2 28 Leader (A (AppendNotOk 4)),
     Ev 2 28 Leader (A HeartBeat),
     Ev 2 28 Leader (A (AppendTo 0)),
     Ev 4 16 Leader (A HeartBeat),
     Ev 4 16 Leader (A (AppendTo 0)),
     Ev 0 34 Candidate (E StartElection),
     Ev 2 28 Leader (A (AppendTo 1)),
     Ev 2 28 Leader (A (AppendTo 3)),
     Ev 2 28 Leader (A (AppendTo 4)),
     Ev 4 16 Leader (A (AppendTo 1)),
     Ev 4 16 Leader (A (AppendTo 2)),
     Ev 2 28 Leader (A (AppendSent 0 [123, 123, 123, 1, 123])),
     Ev 2 28 Leader (A (AppendSent 1 [123, 123, 123, 1, 123])),
     Ev 4 16 Leader (A (AppendTo 3)),
     Ev 4 16 Leader (A (AppendNotOk 3)),
     Ev 4 16 Leader (A (AppendSent 0 [100, 123, 123, 100, 100])),
     Ev 0 35 Candidate (E BecomeCandidate),
     Ev 0 35 Candidate (E (RequestVoteTo 1)),
     Ev 0 35 Candidate (E (RequestVoteTo 2)),
     Ev 0 35 Candidate (E (RequestVoteTo 3)),
     Ev 0 35 Candidate (E (RequestVoteTo 4)),
     Ev 2 28 Leader (A (AppendSent 3 [123, 123, 123, 1, 123]))]"

definition run_37 :: "line list" where
  "run_37 = [
     Ev 4 16 Leader (A (AppendSent 3 [100, 123, 123, 100, 100])),
     Ev 2 28 Leader (A (AppendSent 4 [123, 123, 123, 1, 123])),
     Ev 4 16 Leader (A (AppendSent 2 [100, 123, 123, 100, 100])),
     Ev 4 16 Leader (A (AppendSent 1 [100, 123, 123, 100, 100])),
     Ev 0 35 Candidate (E (VoteNotOk 2)),
     Ev 4 16 Leader (A (AppendNotOk 2)),
     Ev 2 28 Leader (A (AppendNotOk 0)),
     Ev 4 16 Leader (A (AppendNotOk 3)),
     Ev 0 35 Candidate (E (VoteNotOk 4)),
     Ev 3 34 Candidate (E (VoteRequested 3 0 35)),
     Ev 1 34 Follower (E (VoteRequested 0 0 35)),
     Ev 3 34 Candidate (E (VoteArgs 35 133 14 123 124)),
     Ev 1 34 Follower (E (VoteArgs 35 133 28 123 124)),
     Ev 3 34 Candidate (E (Indices 1 1)),
     Ev 1 34 Follower (E (Indices 2 2)),
     Ev 1 34 Follower (E (TermLower 0)),
     Ev 3 34 Candidate (E (TermLower 0)),
     Ev 1 35 Follower (E (LogTerms 28 9 123 133)),
     Ev 1 35 Follower (E LogOutdated),
     Ev 3 35 Follower (E (LogTerms 14 9 123 133)),
     Ev 3 35 Follower (E LogOutdated),
     Ev 0 35 Candidate (E (VoteReply 1 35 False)),
     Ev 0 35 Candidate (E (Indices 1 1)),
     Ev 0 35 Candidate (E (CheckElection 1 5)),
     Ev 3 35 Follower (E (VoteReply 1 34 False)),
     Ev 3 35 Follower (E (Indices 1 1)),
     Ev 3 35 Follower (E (CheckElection 0 5)),
     Ev 3 35 Follower (E NotCandidate),
     Ev 2 28 Leader (A (AppendNotOk 3)),
     Ev 2 28 Leader (A (AppendNotOk 4)),
     Ev 4 16 Leader (A (AppendNotOk 0)),
     Ev 4 16 Leader (A (AppendNotOk 1)),
     Ev 2 28 Leader (A HeartBeat),
     Ev 2 28 Leader (A (AppendTo 0)),
     Ev 2 28 Leader (A (AppendTo 1)),
     Ev 2 28 Leader (A (AppendTo 3)),
     Ev 2 28 Leader (A (AppendTo 4)),
     Ev 2 28 Leader (A (AppendSent 4 [123, 123, 123, 1, 123])),
     Ev 4 16 Leader (A HeartBeat),
     Ev 4 16 Leader (A (AppendTo 0)),
     Ev 2 28 Leader (A (AppendNotOk 1)),
     Ev 4 16 Leader (A (AppendTo 1)),
     Ev 2 28 Leader (A (AppendSent 0 [123, 123, 123, 1, 123])),
     Ev 4 16 Leader (A (AppendTo 2)),
     Ev 4 16 Leader (A (AppendTo 3)),
     Ev 4 16 Leader (A (AppendSent 0 [100, 123, 123, 100, 100])),
     Ev 4 16 Leader (A (AppendSent 1 [100, 123, 123, 100, 100])),
     Ev 2 28 Leader (A (AppendSent 1 [123, 123, 123, 1, 123])),
     Ev 4 16 Leader (A (AppendSent 3 [100, 123, 123, 100, 100])),
     Ev 2 28 Leader (A (AppendSent 3 [123, 123, 123, 1, 123])),
     Ev 4 16 Leader (A (AppendSent 2 [100, 123, 123, 100, 100])),
     Ev 4 16 Leader (A (AppendNotOk 1)),
     Ev 2 28 Leader (A (AppendNotOk 4)),
     Ev 4 16 Leader (A (AppendNotOk 2)),
     Ev 2 28 Leader (A (AppendNotOk 3)),
     Ev 2 28 Leader (A (AppendNotOk 1)),
     Ev 2 28 Leader (A (AppendNotOk 0)),
     Ev 4 16 Leader (A (AppendNotOk 0)),
     Ev 4 16 Leader (A (AppendNotOk 3)),
     Ev 4 16 Leader (A HeartBeat),
     Ev 4 16 Leader (A (AppendTo 0)),
     Ev 2 28 Leader (A HeartBeat),
     Ev 2 28 Leader (A (AppendTo 0)),
     Ev 2 28 Leader (A (AppendTo 1)),
     Ev 4 16 Leader (A (AppendTo 1)),
     Ev 2 28 Leader (A (AppendTo 3)),
     Ev 4 16 Leader (A (AppendTo 2)),
     Ev 4 16 Leader (A (AppendTo 3)),
     Ev 2 28 Leader (A (AppendTo 4)),
     Ev 4 16 Leader (A (AppendSent 0 [100, 123, 123, 100, 100])),
     Ev 2 28 Leader (A (AppendSent 4 [123, 123, 123, 1, 123])),
     Ev 2 28 Leader (A (AppendSent 0 [123, 123, 123, 1, 123])),
     Ev 4 16 Leader (A (AppendSent 1 [100, 123, 123, 100, 100])),
     Ev 2 28 Leader (A (AppendSent 1 [123, 123, 123, 1, 123])),
     Ev 2 28 Leader (A (AppendSent 3 [123, 123, 123, 1, 123])),
     Ev 4 16 Leader (A (AppendSent 2 [100, 123, 123, 100, 100])),
     Ev 4 16 Leader (A (AppendSent 3 [100, 123, 123, 100, 100])),
     Ev 4 16 Leader (A (AppendNotOk 2)),
     Ev 4 16 Leader (A (AppendNotOk 0)),
     Ev 4 16 Leader (A (AppendNotOk 1)),
     Ev 2 28 Leader (A (AppendNotOk 0)),
     Ev 2 28 Leader (A (AppendNotOk 3)),
     Ev 2 28 Leader (A (AppendNotOk 4)),
     Ev 4 16 Leader (A (AppendNotOk 3)),
     Ev 2 28 Leader (A (AppendNotOk 1)),
     Ev 0 35 Candidate (E (VoteReply 3 35 False)),
     Ev 0 35 Candidate (E (Indices 1 1)),
     Ev 0 35 Candidate (E (CheckElection 1 5)),
     Ev 2 28 Leader (A HeartBeat),
     Ev 2 28 Leader (A (AppendTo 0)),
     Ev 2 28 Leader (A (AppendTo 1)),
     Ev 4 16 Leader (A HeartBeat),
     Ev 2 28 Leader (A (AppendTo 3)),
     Ev 2 28 Leader (A (AppendTo 4)),
     Ev 4 16 Leader (A (AppendTo 0)),
     Ev 4 16 Leader (A (AppendTo 1)),
     Ev 4 16 Leader (A (AppendTo 2)),
     Ev 4 16 Leader (A (AppendTo 3)),
     Ev 2 28 Leader (A (AppendSent 1 [123, 123, 123, 1, 123])),
     Ev 4 16 Leader (A (AppendSent 1 [100, 123, 123, 100, 100])),
     Ev 2 28 Leader (A (AppendSent 0 [123, 123, 123, 1, 123])),
     Ev 4 16 Leader (A (AppendSent 3 [100, 123, 123, 100, 100])),
     Ev 2 28 Leader (A (AppendSent 3 [123, 123, 123, 1, 123])),
     Ev 2 28 Leader (A (AppendNotOk 0)),
     Ev 2 28 Leader (A (AppendSent 4 [123, 123, 123, 1, 123])),
     Ev 4 16 Leader (A (AppendSent 2 [100, 123, 123, 100, 100])),
     Ev 4 16 Leader (A (AppendSent 0 [100, 123, 123, 100, 100])),
     Ev 2 28 Leader (A (AppendNotOk 4)),
     Ev 2 28 Leader (A (AppendNotOk 3)),
     Ev 4 16 Leader (A (AppendNotOk 0)),
     Ev 4 16 Leader (A (AppendNotOk 2)),
     Ev 4 16 Leader (A (AppendNotOk 1)),
     Ev 4 16 Leader (A (AppendNotOk 3)),
     Ev 2 28 Leader (A (AppendNotOk 1)),
     Ev 4 16 Leader (A HeartBeat),
     Ev 2 28 Leader (A HeartBeat),
     Ev 2 28 Leader (A (AppendTo 0)),
     Ev 4 16 Leader (A (AppendTo 0)),
     Ev 2 28 Leader (A (AppendTo 1)),
     Ev 4 16 Leader (A (AppendTo 1)),
     Ev 4 16 Leader (A (AppendTo 2)),
     Ev 2 28 Leader (A (AppendTo 3)),
     Ev 2 28 Leader (A (AppendTo 4)),
     Ev 4 16 Leader (A (AppendTo 3)),
     Ev 2 28 Leader (A (AppendSent 1 [123, 123, 123, 1, 123])),
     Ev 4 16 Leader (A (AppendSent 0 [100, 123, 123, 100, 100])),
     Ev 0 35 Candidate (E (VoteReply 3 34 False)),
     Ev 0 35 Candidate (E (Indices 1 1)),
     Ev 2 28 Leader (A (AppendSent 3 [123, 123, 123, 1, 123])),
     Ev 2 28 Leader (A (AppendSent 4 [123, 123, 123, 1, 123])),
     Ev 2 28 Leader (A (AppendSent 0 [123, 123, 123, 1, 123])),
     Ev 4 16 Leader (A (AppendSent 2 [100, 123, 123, 100, 100])),
     Ev 4 16 Leader (A (AppendSent 1 [100, 123, 123, 100, 100])),
     Ev 4 16 Leader (A (AppendSent 3 [100, 123, 123, 100, 100])),
     Ev 0 35 Candidate (E (CheckElection 1 5)),
     Ev 4 16 Leader (A (AppendNotOk 1)),
     Ev 4 16 Leader (A (AppendNotOk 2)),
     Ev 4 16 Leader (A (AppendNotOk 3)),
     Ev 2 28 Leader (A (AppendNotOk 0)),
     Ev 2 28 Leader (A (AppendNotOk 4)),
     Ev 2 28 Leader (A (AppendNotOk 1)),
     Ev 4 16 Leader (A (AppendNotOk 0)),
     Ev 2 28 Leader (A (AppendNotOk 3)),
     Ev 4 16 Leader (A HeartBeat),
     Ev 4 16 Leader (A (AppendTo 0)),
     Ev 4 16 Leader (A (AppendTo 1)),
     Ev 2 28 Leader (A HeartBeat),
     Ev 2 28 Leader (A (AppendTo 0)),
     Ev 4 16 Leader (A (AppendTo 2)),
     Ev 2 28 Leader (A (AppendTo 1))]"

definition run_38 :: "line list" where
  "run_38 = [
     Ev 4 16 Leader (A (AppendTo 3)),
     Ev 2 28 Leader (A (AppendTo 3)),
     Ev 2 28 Leader (A (AppendTo 4)),
     Ev 4 16 Leader (A (AppendSent 2 [100, 123, 123, 100, 100])),
     Ev 2 28 Leader (A (AppendSent 4 [123, 123, 123, 1, 123])),
     Ev 2 28 Leader (A (AppendSent 0 [123, 123, 123, 1, 123])),
     Ev 4 16 Leader (A (AppendSent 0 [100, 123, 123, 100, 100])),
     Ev 2 28 Leader (A (AppendSent 1 [123, 123, 123, 1, 123])),
     Ev 2 28 Leader (A (AppendSent 3 [123, 123, 123, 1, 123])),
     Ev 4 16 Leader (A (AppendSent 1 [100, 123, 123, 100, 100])),
     Ev 4 16 Leader (A (AppendSent 3 [100, 123, 123, 100, 100])),
     Ev 2 28 Leader (A (AppendNotOk 4)),
     Ev 4 16 Leader (A (AppendNotOk 1)),
     Ev 2 28 Leader (A (AppendNotOk 3)),
     Ev 2 28 Leader (A (AppendNotOk 1)),
     Ev 4 16 Leader (A (AppendNotOk 3)),
     Ev 4 16 Leader (A (AppendNotOk 2)),
     Ev 4 16 Leader (A (AppendNotOk 0)),
     Ev 2 28 Leader (A HeartBeat),
     Ev 3 35 Follower (E StartElection),
     Ev 4 16 Leader (A HeartBeat),
     Ev 4 16 Leader (A (AppendTo 0)),
     Ev 4 16 Leader (A (AppendTo 1)),
     Ev 0 35 Candidate (E StartElection),
     Ev 2 28 Leader (A (AppendTo 0)),
     Ev 2 28 Leader (A (AppendTo 1)),
     Ev 2 28 Leader (A (AppendTo 3)),
     Ev 4 16 Leader (A (AppendTo 2)),
     Ev 4 16 Leader (A (AppendTo 3)),
     Ev 2 28 Leader (A (AppendTo 4)),
     Ev 2 28 Leader (A (AppendNotOk 0)),
     Ev 2 28 Leader (A (AppendSent 3 [123, 123, 123, 1, 123])),
     Ev 2 28 Leader (A (AppendSent 4 [123, 123, 123, 1, 123])),
     Ev 3 36 Candidate (E BecomeCandidate),
     Ev 3 36 Candidate (E (RequestVoteTo 0)),
     Ev 3 36 Candidate (E (RequestVoteTo 1)),
     Ev 3 36 Candidate (E (RequestVoteTo 2)),
     Ev 3 36 Candidate (E (RequestVoteTo 4)),
     Ev 0 36 Candidate (E BecomeCandidate),
     Ev 0 36 Candidate (E (RequestVoteTo 1)),
     Ev 0 36 Candidate (E (RequestVoteTo 2)),
     Ev 0 36 Candidate (E (RequestVoteTo 3)),
     Ev 0 36 Candidate (E (RequestVoteTo 4)),
     Ev 4 16 Leader (A (AppendSent 1 [100, 123, 123, 100, 100])),
     Ev 2 28 Leader (A (AppendSent 0 [123, 123, 123, 1, 123])),
     Ev 4 16 Leader (A (AppendSent 0 [100, 123, 123, 100, 100])),
     Ev 2 28 Leader (A (AppendSent 1 [123, 123, 123, 1, 123])),
     Ev 4 16 Leader (A (AppendSent 2 [100, 123, 123, 100, 100])),
     Ev 4 16 Leader (A (AppendSent 3 [100, 123, 123, 100, 100])),
     Ev 2 28 Leader (A (AppendNotOk 0)),
     Ev 0 36 Candidate (E (VoteNotOk 2)),
     Ev 0 36 Candidate (E (VoteNotOk 4)),
     Ev 3 36 Candidate (E (VoteRequested 3 0 36)),
     Ev 3 36 Candidate (E (VoteArgs 36 133 14 123 124)),
     Ev 3 36 Candidate (E (Indices 1 1)),
     Ev 1 35 Follower (E (VoteRequested 0 0 36)),
     Ev 3 36 Candidate (E (LogTerms 14 9 123 133)),
     Ev 1 35 Follower (E (VoteArgs 36 133 28 123 124)),
     Ev 1 35 Follower (E (Indices 2 2)),
     Ev 3 36 Candidate (E LogOutdated),
     Ev 1 35 Follower (E (TermLower 0)),
     Ev 0 36 Candidate (E (VoteNotOk 3)),
     Ev 1 36 Follower (E (LogTerms 28 9 123 133)),
     Ev 1 36 Follower (E LogOutdated),
     Ev 0 36 Candidate (E (VoteRequested 0 3 36)),
     Ev 0 36 Candidate (E (VoteArgs 36 123 9 133 134)),
     Ev 0 36 Candidate (E (Indices 1 1)),
     Ev 0 36 Candidate (E (LogTerms 9 14 133 123)),
     Ev 0 36 Candidate (E RefuseVote),
     Ev 3 36 Candidate (E (VoteNotOk 2)),
     Ev 1 36 Follower (E (VoteRequested 0 3 36)),
     Ev 1 36 Follower (E (VoteArgs 36 123 28 123 124)),
     Ev 1 36 Follower (E (Indices 2 2)),
     Ev 1 36 Follower (E (LogTerms 28 14 123 123)),
     Ev 1 36 Follower (E LogOutdated),
     Ev 4 16 Leader (A (AppendNotOk 0)),
     Ev 4 16 Leader (A (AppendNotOk 1)),
     Ev 3 36 Candidate (E (VoteNotOk 4)),
     Ev 2 28 Leader (A (AppendNotOk 3)),
     Ev 4 16 Leader (A (AppendNotOk 3)),
     Ev 4 16 Leader (A (AppendNotOk 2)),
     Ev 2 28 Leader (A (AppendNotOk 1)),
     Ev 2 28 Leader (A (AppendNotOk 4)),
     Ev 2 28 Leader (A HeartBeat),
     Ev 2 28 Leader (A (AppendTo 0)),
     Ev 2 28 Leader (A (AppendTo 1)),
     Ev 2 28 Leader (A (AppendTo 3)),
     Ev 4 16 Leader (A HeartBeat),
     Ev 4 16 Leader (A (AppendTo 0)),
     Ev 4 16 Leader (A (AppendTo 1)),
     Ev 4 16 Leader (A (AppendTo 2)),
     Ev 2 28 Leader (A (AppendTo 4)),
     Ev 4 16 Leader (A (AppendTo 3)),
     Ev 2 28 Leader (A (AppendSent 3 [123, 123, 123, 1, 123])),
     Ev 4 16 Leader (A (AppendSent 2 [100, 123, 123, 100, 100])),
     Ev 2 28 Leader (A (AppendSent 0 [123, 123, 123, 1, 123])),
     Ev 4 16 Leader (A (AppendSent 0 [100, 123, 123, 100, 100])),
     Ev 2 28 Leader (A (AppendSent 1 [123, 123, 123, 1, 123])),
     Ev 2 28 Leader (A (AppendSent 4 [123, 123, 123, 1, 123])),
     Ev 4 16 Leader (A (AppendSent 1 [100, 123, 123, 100, 100])),
     Ev 4 16 Leader (A (AppendSent 3 [100, 123, 123, 100, 100])),
     Ev 2 28 Leader (A (AppendNotOk 3)),
     Ev 4 16 Leader (A (AppendNotOk 3)),
     Ev 2 28 Leader (A (AppendNotOk 0)),
     Ev 2 28 Leader (A (AppendNotOk 1)),
     Ev 4 16 Leader (A (AppendNotOk 1)),
     Ev 4 16 Leader (A (AppendNotOk 2)),
     Ev 4 16 Leader (A (AppendNotOk 0)),
     Ev 2 28 Leader (A (AppendNotOk 4)),
     Ev 4 16 Leader (A HeartBeat),
     Ev 4 16 Leader (A (AppendTo 0)),
     Ev 2 28 Leader (A HeartBeat),
     Ev 4 16 Leader (A (AppendTo 1)),
     Ev 2 28 Leader (A (AppendTo 0)),
     Ev 2 28 Leader (A (AppendTo 1)),
     Ev 2 28 Leader (A (AppendTo 3)),
     Ev 4 16 Leader (A (AppendTo 2)),
     Ev 4 16 Leader (A (AppendTo 3)),
     Ev 2 28 Leader (A (AppendTo 4)),
     Ev 4 16 Leader (A (AppendSent 0 [100, 123, 123, 100, 100])),
     Ev 2 28 Leader (A (AppendSent 3 [123, 123, 123, 1, 123])),
     Ev 2 28 Leader (A (AppendSent 0 [123, 123, 123, 1, 123])),
     Ev 4 16 Leader (A (AppendSent 1 [100, 123, 123, 100, 100])),
     Ev 2 28 Leader (A (AppendSent 1 [123, 123, 123, 1, 123])),
     Ev 2 28 Leader (A (AppendSent 4 [123, 123, 123, 1, 123])),
     Ev 4 16 Leader (A (AppendSent 2 [100, 123, 123, 100, 100])),
     Ev 4 16 Leader (A (AppendSent 3 [100, 123, 123, 100, 100])),
     Ev 4 16 Leader (A (AppendNotOk 3)),
     Ev 4 16 Leader (A (AppendNotOk 2)),
     Ev 4 16 Leader (A (AppendNotOk 0)),
     Ev 2 28 Leader (A (AppendNotOk 4)),
     Ev 4 16 Leader (A (AppendNotOk 1)),
     Ev 2 28 Leader (A (AppendNotOk 1)),
     Ev 3 36 Candidate (E (VoteReply 0 36 False)),
     Ev 3 36 Candidate (E (Indices 1 1)),
     Ev 3 36 Candidate (E (CheckElection 1 5)),
     Ev 2 28 Leader (A (AppendNotOk 0)),
     Ev 2 28 Leader (A HeartBeat),
     Ev 2 28 Leader (A (AppendTo 0)),
     Ev 2 28 Leader (A (AppendTo 1)),
     Ev 2 28 Leader (A (AppendTo 3)),
     Ev 2 28 Leader (A (AppendTo 4)),
     Ev 2 28 Leader (A (AppendSent 4 [123, 123, 123, 1, 123])),
     Ev 4 16 Leader (A HeartBeat),
     Ev 4 16 Leader (A (AppendTo 0)),
     Ev 4 16 Leader (A (AppendTo 1)),
     Ev 4 16 Leader (A (AppendTo 2)),
     Ev 4 16 Leader (A (AppendTo 3)),
     Ev 2 28 Leader (A (AppendNotOk 3)),
     Ev 4 16 Leader (A (AppendSent 3 [100, 123, 123, 100, 100]))]"

definition run_39 :: "line list" where
  "run_39 = [
     Ev 2 28 Leader (A (AppendSent 1 [123, 123, 123, 1, 123])),
     Ev 2 28 Leader (A (AppendSent 3 [123, 123, 123, 1, 123])),
     Ev 2 28 Leader (A (AppendSent 0 [123, 123, 123, 1, 123])),
     Ev 4 16 Leader (A (AppendSent 0 [100, 123, 123, 100, 100])),
     Ev 4 16 Leader (A (AppendSent 1 [100, 123, 123, 100, 100])),
     Ev 4 16 Leader (A (AppendSent 2 [100, 123, 123, 100, 100])),
     Ev 2 28 Leader (A (AppendNotOk 4)),
     Ev 2 28 Leader (A (AppendNotOk 1)),
     Ev 4 16 Leader (A (AppendNotOk 3)),
     Ev 2 28 Leader (A (AppendNotOk 3)),
     Ev 4 16 Leader (A (AppendNotOk 2)),
     Ev 4 16 Leader (A (AppendNotOk 0)),
     Ev 4 16 Leader (A (AppendNotOk 1)),
     Ev 2 28 Leader (A (AppendNotOk 0)),
     Ev 2 28 Leader (A HeartBeat),
     Ev 2 28 Leader (A (AppendTo 0)),
     Ev 2 28 Leader (A (AppendTo 1)),
     Ev 2 28 Leader (A (AppendTo 3)),
     Ev 2 28 Leader (A (AppendTo 4)),
     Ev 2 28 Leader (A (AppendSent 4 [123, 123, 123, 1, 123])),
     Ev 4 16 Leader (A HeartBeat),
     Ev 4 16 Leader (A (AppendTo 0)),
     Ev 4 16 Leader (A (AppendTo 1)),
     Ev 4 16 Leader (A (AppendTo 2)),
     Ev 4 16 Leader (A (AppendTo 3)),
     Ev 4 16 Leader (A (AppendSent 1 [100, 123, 123, 100, 100])),
     Ev 4 16 Leader (A (AppendSent 0 [100, 123, 123, 100, 100])),
     Ev 2 28 Leader (A (AppendSent 0 [123, 123, 123, 1, 123])),
     Ev 2 28 Leader (A (AppendSent 1 [123, 123, 123, 1, 123])),
     Ev 2 28 Leader (A (AppendSent 3 [123, 123, 123, 1, 123])),
     Ev 4 16 Leader (A (AppendSent 2 [100, 123, 123, 100, 100])),
     Ev 4 16 Leader (A (AppendSent 3 [100, 123, 123, 100, 100])),
     Ev 2 28 Leader (A (AppendNotOk 1)),
     Ev 4 16 Leader (A (AppendNotOk 0)),
     Ev 4 16 Leader (A (AppendNotOk 1)),
     Ev 4 16 Leader (A (AppendNotOk 3)),
     Ev 2 28 Leader (A (AppendNotOk 0)),
     Ev 4 16 Leader (A HeartBeat),
     Ev 4 16 Leader (A (AppendTo 0)),
     Ev 4 16 Leader (A (AppendTo 1)),
     Ev 4 16 Leader (A (AppendTo 2)),
     Ev 4 16 Leader (A (AppendTo 3)),
     Ev 4 16 Leader (A (AppendSent 0 [100, 123, 123, 100, 100])),
     Ev 4 16 Leader (A (AppendNotOk 2)),
     Ev 4 16 Leader (A (AppendSent 1 [100, 123, 123, 100, 100])),
     Ev 4 16 Leader (A (AppendSent 2 [100, 123, 123, 100, 100])),
     Ev 2 28 Leader (A HeartBeat),
     Ev 2 28 Leader (A (AppendTo 0)),
     Ev 2 28 Leader (A (AppendTo 1)),
     Ev 2 28 Leader (A (AppendTo 3)),
     Ev 2 28 Leader (A (AppendTo 4)),
     Ev 2 28 Leader (A (AppendNotOk 4)),
     Ev 2 28 Leader (A (AppendNotOk 3)),
     Ev 2 28 Leader (A (AppendSent 3 [123, 123, 123, 1, 123])),
     Ev 2 28 Leader (A (AppendSent 1 [123, 123, 123, 1, 123])),
     Ev 4 16 Leader (A (AppendSent 3 [100, 123, 123, 100, 100])),
     Ev 2 28 Leader (A (AppendSent 0 [123, 123, 123, 1, 123])),
     Ev 2 28 Leader (A (AppendSent 4 [123, 123, 123, 1, 123])),
     Ev 4 16 Leader (A (AppendNotOk 0)),
     Ev 4 16 Leader (A (AppendNotOk 3)),
     Ev 2 28 Leader (A (AppendNotOk 1)),
     Ev 2 28 Leader (A (AppendNotOk 4)),
     Ev 2 28 Leader (A (AppendNotOk 0)),
     Ev 2 28 Leader (A (AppendNotOk 3)),
     Ev 4 16 Leader (A (AppendNotOk 2)),
     Ev 4 16 Leader (A HeartBeat),
     Ev 4 16 Leader (A (AppendTo 0)),
     Ev 4 16 Leader (A (AppendTo 1)),
     Ev 4 16 Leader (A (AppendTo 2)),
     Ev 4 16 Leader (A (AppendTo 3)),
     Ev 3 36 Candidate (E StartElection),
     Ev 4 16 Leader (A (AppendSent 3 [100, 123, 123, 100, 100])),
     Ev 4 16 Leader (A (AppendNotOk 1)),
     Ev 4 16 Leader (A (AppendSent 0 [100, 123, 123, 100, 100])),
     Ev 3 37 Candidate (E BecomeCandidate),
     Ev 3 37 Candidate (E (RequestVoteTo 0)),
     Ev 3 37 Candidate (E (RequestVoteTo 1)),
     Ev 3 37 Candidate (E (RequestVoteTo 2)),
     Ev 2 28 Leader (A HeartBeat),
     Ev 2 28 Leader (A (AppendTo 0)),
     Ev 3 37 Candidate (E (RequestVoteTo 4)),
     Ev 2 28 Leader (A (AppendTo 1)),
     Ev 2 28 Leader (A (AppendTo 3)),
     Ev 2 28 Leader (A (AppendTo 4)),
     Ev 2 28 Leader (A (AppendSent 0 [123, 123, 123, 1, 123])),
     Ev 2 28 Leader (A (AppendSent 3 [123, 123, 123, 1, 123])),
     Ev 2 28 Leader (A (AppendSent 4 [123, 123, 123, 1, 123])),
     Ev 2 28 Leader (A (AppendSent 1 [123, 123, 123, 1, 123])),
     Ev 4 16 Leader (A (AppendSent 1 [100, 123, 123, 100, 100])),
     Ev 4 16 Leader (A (AppendSent 2 [100, 123, 123, 100, 100])),
     Ev 3 37 Candidate (E (VoteNotOk 2)),
     Ev 4 16 Leader (A (AppendNotOk 0)),
     Ev 1 36 Follower (E (VoteRequested 0 3 37)),
     Ev 1 36 Follower (E (VoteArgs 37 123 28 123 124)),
     Ev 1 36 Follower (E (Indices 2 2)),
     Ev 1 36 Follower (E (TermLower 3)),
     Ev 1 37 Follower (E (LogTerms 28 14 123 123)),
     Ev 1 37 Follower (E LogOutdated),
     Ev 2 28 Leader (A (AppendNotOk 1)),
     Ev 3 37 Candidate (E (VoteNotOk 1)),
     Ev 4 16 Leader (A (AppendNotOk 2)),
     Ev 4 16 Leader (A (AppendNotOk 1)),
     Ev 0 36 Candidate (E (VoteRequested 0 3 37)),
     Ev 0 36 Candidate (E (VoteArgs 37 123 9 133 134)),
     Ev 0 36 Candidate (E (Indices 1 1)),
     Ev 0 36 Candidate (E (TermLower 3)),
     Ev 0 37 Follower (E (LogTerms 9 14 133 123)),
     Ev 0 37 Follower (E (VoteGranted 37 123 9 133 134)),
     Ev 0 37 Follower (E (Indices 1 1)),
     Ev 2 28 Leader (A (AppendNotOk 3)),
     Ev 3 37 Candidate (E (VoteNotOk 4)),
     Ev 2 28 Leader (A (AppendNotOk 0)),
     Ev 2 28 Leader (A (AppendNotOk 4)),
     Ev 4 16 Leader (A HeartBeat),
     Ev 2 28 Leader (A HeartBeat),
     Ev 2 28 Leader (A (AppendTo 0)),
     Ev 4 16 Leader (A (AppendTo 0)),
     Ev 4 16 Leader (A (AppendTo 1)),
     Ev 2 28 Leader (A (AppendTo 1)),
     Ev 2 28 Leader (A (AppendTo 3)),
     Ev 2 28 Leader (A (AppendTo 4)),
     Ev 4 16 Leader (A (AppendTo 2)),
     Ev 2 28 Leader (A (AppendSent 1 [123, 123, 123, 1, 123])),
     Ev 4 16 Leader (A (AppendTo 3)),
     Ev 4 16 Leader (A (AppendNotOk 3)),
     Ev 2 28 Leader (A (AppendSent 0 [123, 123, 123, 1, 123])),
     Ev 4 16 Leader (A (AppendSent 1 [100, 123, 123, 100, 100])),
     Ev 2 28 Leader (A (AppendSent 4 [123, 123, 123, 1, 123])),
     Ev 4 16 Leader (A (AppendSent 0 [100, 123, 123, 100, 100])),
     Ev 4 16 Leader (A (AppendSent 2 [100, 123, 123, 100, 100])),
     Ev 2 28 Leader (A (AppendSent 3 [123, 123, 123, 1, 123])),
     Ev 4 16 Leader (A (AppendSent 3 [100, 123, 123, 100, 100])),
     Ev 4 16 Leader (A (AppendNotOk 3)),
     Ev 4 16 Leader (A (AppendNotOk 0)),
     Ev 2 28 Leader (A (AppendNotOk 3)),
     Ev 4 16 Leader (A (AppendNotOk 2)),
     Ev 2 28 Leader (A (AppendNotOk 4)),
     Ev 2 28 Leader (A (AppendNotOk 0)),
     Ev 4 16 Leader (A (AppendNotOk 1)),
     Ev 2 28 Leader (A (AppendNotOk 1)),
     Ev 2 28 Leader (A HeartBeat),
     Ev 2 28 Leader (A (AppendTo 0)),
     Ev 4 16 Leader (A HeartBeat),
     Ev 4 16 Leader (A (AppendTo 0)),
     Ev 2 28 Leader (A (AppendTo 1)),
     Ev 2 28 Leader (A (AppendTo 3)),
     Ev 4 16 Leader (A (AppendTo 1)),
     Ev 4 16 Leader (A (AppendTo 2)),
     Ev 4 16 Leader (A (AppendTo 3)),
     Ev 2 28 Leader (A (AppendTo 4))]"

definition run_40 :: "line list" where
  "run_40 = [
     Ev 4 16 Leader (A (AppendSent 3 [100, 123, 123, 100, 100])),
     Ev 2 28 Leader (A (AppendSent 0 [123, 123, 123, 1, 123])),
     Ev 4 16 Leader (A (AppendSent 1 [100, 123, 123, 100, 100])),
     Ev 2 28 Leader (A (AppendSent 3 [123, 123, 123, 1, 123])),
     Ev 2 28 Leader (A (AppendSent 1 [123, 123, 123, 1, 123])),
     Ev 4 16 Leader (A (AppendSent 2 [100, 123, 123, 100, 100])),
     Ev 2 28 Leader (A (AppendNotOk 3)),
     Ev 4 16 Leader (A (AppendSent 0 [100, 123, 123, 100, 100])),
     Ev 2 28 Leader (A (AppendSent 4 [123, 123, 123, 1, 123])),
     Ev 2 28 Leader (A (AppendNotOk 4)),
     Ev 4 16 Leader (A (AppendNotOk 1)),
     Ev 4 16 Leader (A (AppendNotOk 3)),
     Ev 2 28 Leader (A (AppendNotOk 0)),
     Ev 4 16 Leader (A (AppendNotOk 0)),
     Ev 2 28 Leader (A (AppendNotOk 1)),
     Ev 2 28 Leader (A HeartBeat),
     Ev 2 28 Leader (A (AppendTo 0)),
     Ev 2 28 Leader (A (AppendTo 1)),
     Ev 2 28 Leader (A (AppendTo 3)),
     Ev 4 16 Leader (A HeartBeat),
     Ev 4 16 Leader (A (AppendTo 0)),
     Ev 2 28 Leader (A (AppendTo 4)),
     Ev 4 16 Leader (A (AppendTo 1)),
     Ev 4 16 Leader (A (AppendTo 2)),
     Ev 4 16 Leader (A (AppendTo 3)),
     Ev 2 28 Leader (A (AppendSent 3 [123, 123, 123, 1, 123])),
     Ev 4 16 Leader (A (AppendSent 1 [100, 123, 123, 100, 100])),
     Ev 4 16 Leader (A (AppendNotOk 2)),
     Ev 4 16 Leader (A (AppendSent 3 [100, 123, 123, 100, 100])),
     Ev 2 28 Leader (A (AppendSent 1 [123, 123, 123, 1, 123])),
     Ev 2 28 Leader (A (AppendSent 0 [123, 123, 123, 1, 123])),
     Ev 2 28 Leader (A (AppendSent 4 [123, 123, 123, 1, 123])),
     Ev 4 16 Leader (A (AppendSent 0 [100, 123, 123, 100, 100])),
     Ev 4 16 Leader (A (AppendSent 2 [100, 123, 123, 100, 100])),
     Ev 4 16 Leader (A (AppendNotOk 0)),
     Ev 2 28 Leader (A (AppendNotOk 1)),
     Ev 2 28 Leader (A (AppendNotOk 4)),
     Ev 4 16 Leader (A (AppendNotOk 2)),
     Ev 0 37 Follower (E (VoteReply 1 36 False)),
     Ev 0 37 Follower (E (Indices 1 1)),
     Ev 0 37 Follower (E (CheckElection 0 5)),
     Ev 0 37 Follower (E NotCandidate),
     Ev 2 28 Leader (A (AppendNotOk 0)),
     Ev 4 16 Leader (A (AppendNotOk 1)),
     Ev 4 16 Leader (A (AppendNotOk 3)),
     Ev 2 28 Leader (A HeartBeat),
     Ev 2 28 Leader (A (AppendTo 0)),
     Ev 2 28 Leader (A (AppendTo 1)),
     Ev 4 16 Leader (A HeartBeat),
     Ev 4 16 Leader (A (AppendTo 0)),
     Ev 2 28 Leader (A (AppendTo 3)),
     Ev 2 28 Leader (A (AppendTo 4)),
     Ev 2 28 Leader (A (AppendNotOk 3)),
     Ev 4 16 Leader (A (AppendTo 1)),
     Ev 4 16 Leader (A (AppendTo 2)),
     Ev 4 16 Leader (A (AppendTo 3)),
     Ev 4 16 Leader (A (AppendSent 1 [100, 123, 123, 100, 100])),
     Ev 2 28 Leader (A (AppendSent 3 [123, 123, 123, 1, 123])),
     Ev 2 28 Leader (A (AppendSent 1 [123, 123, 123, 1, 123])),
     Ev 4 16 Leader (A (AppendSent 0 [100, 123, 123, 100, 100])),
     Ev 2 28 Leader (A (AppendSent 0 [123, 123, 123, 1, 123])),
     Ev 2 28 Leader (A (AppendSent 4 [123, 123, 123, 1, 123])),
     Ev 4 16 Leader (A (AppendSent 3 [100, 123, 123, 100, 100])),
     Ev 4 16 Leader (A (AppendSent 2 [100, 123, 123, 100, 100])),
     Ev 4 16 Leader (A (AppendNotOk 3)),
     Ev 2 28 Leader (A (AppendNotOk 4)),
     Ev 2 28 Leader (A (AppendNotOk 3)),
     Ev 2 28 Leader (A (AppendNotOk 1)),
     Ev 2 28 Leader (A (AppendNotOk 0)),
     Ev 4 16 Leader (A (AppendNotOk 1)),
     Ev 4 16 Leader (A (AppendNotOk 0)),
     Ev 2 28 Leader (A HeartBeat),
     Ev 2 28 Leader (A (AppendTo 0)),
     Ev 4 16 Leader (A HeartBeat),
     Ev 4 16 Leader (A (AppendTo 0)),
     Ev 2 28 Leader (A (AppendTo 1)),
     Ev 4 16 Leader (A (AppendTo 1)),
     Ev 4 16 Leader (A (AppendTo 2)),
     Ev 2 28 Leader (A (AppendTo 3)),
     Ev 4 16 Leader (A (AppendTo 3)),
     Ev 2 28 Leader (A (AppendTo 4)),
     Ev 2 28 Leader (A (AppendSent 0 [123, 123, 123, 1, 123])),
     Ev 4 16 Leader (A (AppendSent 0 [100, 123, 123, 100, 100])),
     Ev 2 28 Leader (A (AppendSent 3 [123, 123, 123, 1, 123])),
     Ev 2 28 Leader (A (AppendSent 4 [123, 123, 123, 1, 123])),
     Ev 2 28 Leader (A (AppendSent 1 [123, 123, 123, 1, 123])),
     Ev 4 16 Leader (A (AppendNotOk 2)),
     Ev 4 16 Leader (A (AppendSent 1 [100, 123, 123, 100, 100])),
     Ev 4 16 Leader (A (AppendSent 2 [100, 123, 123, 100, 100])),
     Ev 4 16 Leader (A (AppendSent 3 [100, 123, 123, 100, 100])),
     Ev 4 16 Leader (A (AppendNotOk 2)),
     Ev 2 28 Leader (A (AppendNotOk 3)),
     Ev 2 28 Leader (A (AppendNotOk 4)),
     Ev 4 16 Leader (A (AppendNotOk 0)),
     Ev 2 28 Leader (A (AppendNotOk 0)),
     Ev 4 16 Leader (A (AppendNotOk 3)),
     Ev 4 16 Leader (A (AppendNotOk 1)),
     Ev 2 28 Leader (A (AppendNotOk 1)),
     Ev 2 28 Leader (A HeartBeat),
     Ev 4 16 Leader (A HeartBeat),
     Ev 4 16 Leader (A (AppendTo 0)),
     Ev 2 28 Leader (A (AppendTo 0)),
     Ev 4 16 Leader (A (AppendTo 1)),
     Ev 4 16 Leader (A (AppendTo 2)),
     Ev 4 16 Leader (A (AppendTo 3)),
     Ev 2 28 Leader (A (AppendTo 1)),
     Ev 2 28 Leader (A (AppendTo 3)),
     Ev 1 37 Follower (E StartElection),
     Ev 4 16 Leader (A (AppendSent 3 [100, 123, 123, 100, 100])),
     Ev 2 28 Leader (A (AppendTo 4)),
     Ev 4 16 Leader (A (AppendSent 2 [100, 123, 123, 100, 100])),
     Ev 2 28 Leader (A (AppendSent 0 [123, 123, 123, 1, 123])),
     Ev 1 38 Candidate (E BecomeCandidate),
     Ev 1 38 Candidate (E (RequestVoteTo 0)),
     Ev 1 38 Candidate (E (RequestVoteTo 2)),
     Ev 1 38 Candidate (E (RequestVoteTo 3)),
     Ev 1 38 Candidate (E (RequestVoteTo 4)),
     Ev 2 28 Leader (A (AppendSent 4 [123, 123, 123, 1, 123])),
     Ev 4 16 Leader (A (AppendSent 0 [100, 123, 123, 100, 100])),
     Ev 2 28 Leader (A (AppendSent 3 [123, 123, 123, 1, 123])),
     Ev 4 16 Leader (A (AppendSent 1 [100, 123, 123, 100, 100])),
     Ev 2 28 Leader (A (AppendSent 1 [123, 123, 123, 1, 123])),
     Ev 4 16 Leader (A (AppendNotOk 0)),
     Ev 4 16 Leader (A (AppendNotOk 2)),
     Ev 4 16 Leader (A (AppendNotOk 3)),
     Ev 0 37 Follower (E (VoteRequested 3 1 38)),
     Ev 0 37 Follower (E (VoteArgs 38 123 9 133 134)),
     Ev 0 37 Follower (E (Indices 1 1)),
     Ev 0 37 Follower (E (TermLower 1)),
     Ev 0 38 Follower (E (LogTerms 9 28 133 123)),
     Ev 0 38 Follower (E (VoteGranted 38 123 9 133 134)),
     Ev 0 38 Follower (E (Indices 1 1)),
     Ev 1 38 Candidate (E (VoteReply 0 38 True)),
     Ev 1 38 Candidate (E (Indices 2 2)),
     Ev 1 38 Candidate (E (VoteGained 0)),
     Ev 1 38 Candidate (E (CheckElection 2 5)),
     Ev 3 37 Candidate (E (VoteReply 0 37 True)),
     Ev 3 37 Candidate (E (Indices 1 1)),
     Ev 3 37 Candidate (E (VoteGained 0)),
     Ev 3 37 Candidate (E (CheckElection 2 5)),
     Ev 3 37 Candidate (E (VoteRequested 3 1 38)),
     Ev 3 37 Candidate (E (VoteArgs 38 123 14 123 124)),
     Ev 3 37 Candidate (E (Indices 1 1)),
     Ev 3 37 Candidate (E (TermLower 1)),
     Ev 3 38 Follower (E (LogTerms 14 28 123 123)),
     Ev 3 38 Follower (E (VoteGranted 38 123 14 123 124)),
     Ev 3 38 Follower (E (Indices 1 1)),
     Ev 1 38 Candidate (E (VoteReply 3 38 True)),
     Ev 1 38 Candidate (E (Indices 2 2)),
     Ev 1 38 Candidate (E (VoteGained 3))]"

definition run_41 :: "line list" where
  "run_41 = [
     Ev 1 38 Candidate (E (CheckElection 3 5)),
     Ev 1 39 Leader (E BecomesLeader),
     Ev 1 39 Leader (A HeartBeat),
     Ev 1 39 Leader (A (AppendTo 0)),
     Ev 1 39 Leader (A (AppendTo 2)),
     Ev 1 39 Leader (A (AppendTo 3)),
     Ev 1 39 Leader (A (AppendTo 4)),
     Ev 1 39 Leader (A (AppendSent 4 [124, 124, 124, 124, 124])),
     Ev 1 39 Leader (A (AppendSent 0 [124, 124, 124, 124, 124])),
     Ev 1 39 Leader (A (AppendSent 2 [124, 124, 124, 124, 124])),
     Ev 1 39 Leader (A (AppendSent 3 [124, 124, 124, 124, 124])),
     Ev 3 38 Follower (E (VoteReply 1 36 False)),
     Ev 3 38 Follower (E (Indices 1 1)),
     Ev 3 38 Follower (E (CheckElection 0 5)),
     Ev 3 38 Follower (E NotCandidate),
     Ev 1 39 Leader (E (VoteNotOk 4)),
     Ev 2 28 Leader (A (AppendNotOk 1)),
     Ev 1 39 Leader (A (AppendNotOk 4)),
     Ev 3 38 Follower (A (AppendFrom 1 39)),
     Ev 0 38 Follower (A (AppendFrom 1 39)),
     Ev 3 39 Follower (A (NoMatch 28 123)),
     Ev 1 39 Leader (A (AppendNotOk 3)),
     Ev 0 39 Follower (A (NoMatch 28 123)),
     Ev 1 39 Leader (A (AppendNotOk 0)),
     Ev 2 28 Leader (A (AppendNotOk 4)),
     Ev 2 28 Leader (A (AppendNotOk 0)),
     Ev 1 39 Leader (A (AppendNotOk 2)),
     Ev 1 39 Leader (E (VoteNotOk 2)),
     Ev 4 16 Leader (A (AppendNotOk 1)),
     Ev 2 28 Leader (A (AppendNotOk 3)),
     Ev 4 16 Leader (A HeartBeat),
     Ev 1 39 Leader (A HeartBeat),
     Ev 1 39 Leader (A (AppendTo 0)),
     Ev 4 16 Leader (A (AppendTo 0)),
     Ev 2 28 Leader (A HeartBeat),
     Ev 2 28 Leader (A (AppendTo 0)),
     Ev 2 28 Leader (A (AppendTo 1)),
     Ev 4 16 Leader (A (AppendTo 1)),
     Ev 1 39 Leader (A (AppendTo 2)),
     Ev 4 16 Leader (A (AppendTo 2)),
     Ev 4 16 Leader (A (AppendTo 3)),
     Ev 2 28 Leader (A (AppendTo 3)),
     Ev 2 28 Leader (A (AppendTo 4)),
     Ev 1 39 Leader (A (AppendTo 3)),
     Ev 2 28 Leader (A (AppendSent 1 [123, 123, 123, 1, 123])),
     Ev 1 39 Leader (A (AppendTo 4)),
     Ev 1 39 Leader (A (AppendSent 0 [124, 124, 124, 124, 124])),
     Ev 2 28 Leader (A (AppendSent 3 [123, 123, 123, 1, 123])),
     Ev 4 16 Leader (A (AppendSent 3 [100, 123, 123, 100, 100])),
     Ev 1 39 Leader (A (AppendSent 2 [124, 124, 124, 124, 124])),
     Ev 4 16 Leader (A (AppendSent 0 [100, 123, 123, 100, 100])),
     Ev 2 28 Leader (A (AppendSent 0 [123, 123, 123, 1, 123])),
     Ev 1 39 Leader (A (AppendSent 3 [124, 124, 124, 124, 124])),
     Ev 1 39 Leader (A (AppendSent 4 [124, 124, 124, 124, 124])),
     Ev 4 16 Leader (A (AppendSent 1 [100, 123, 123, 100, 100])),
     Ev 2 28 Leader (A (AppendSent 4 [123, 123, 123, 1, 123])),
     Ev 4 16 Leader (A (AppendSent 2 [100, 123, 123, 100, 100])),
     Ev 1 39 Leader (A (AppendNotOk 3)),
     Ev 4 16 Leader (A (AppendNotOk 2)),
     Ev 2 28 Leader (A (AppendNotOk 4)),
     Ev 4 16 Leader (A (AppendNotOk 3)),
     Ev 2 28 Leader (A (AppendNotOk 3)),
     Ev 2 28 Leader (A (AppendNotOk 1)),
     Ev 4 16 Leader (A (AppendNotOk 0)),
     Ev 1 39 Leader (A (AppendNotOk 0)),
     Ev 1 39 Leader (A (AppendNotOk 4)),
     Ev 1 39 Leader (A (AppendNotOk 2)),
     Ev 2 28 Leader (A (AppendNotOk 0)),
     Ev 4 16 Leader (A HeartBeat),
     Ev 4 16 Leader (A (AppendTo 0)),
     Ev 4 16 Leader (A (AppendTo 1)),
     Ev 4 16 Leader (A (AppendTo 2)),
     Ev 4 16 Leader (A (AppendTo 3)),
     Ev 2 28 Leader (A HeartBeat),
     Ev 2 28 Leader (A (AppendTo 0)),
     Ev 1 39 Leader (A HeartBeat),
     Ev 1 39 Leader (A (AppendTo 0)),
     Ev 1 39 Leader (A (AppendTo 2)),
     Ev 1 39 Leader (A (AppendTo 3)),
     Ev 4 16 Leader (A (AppendNotOk 1)),
     Ev 2 28 Leader (A (AppendTo 1)),
     Ev 2 28 Leader (A (AppendTo 3)),
     Ev 2 28 Leader (A (AppendTo 4)),
     Ev 1 39 Leader (A (AppendTo 4)),
     Ev 4 16 Leader (A (AppendSent 0 [100, 123, 123, 100, 100])),
     Ev 2 28 Leader (A (AppendSent 0 [123, 123, 123, 1, 123])),
     Ev 1 39 Leader (A (AppendSent 3 [124, 124, 124, 124, 124])),
     Ev 4 16 Leader (A (AppendSent 1 [100, 123, 123, 100, 100])),
     Ev 1 39 Leader (A (AppendSent 0 [124, 124, 124, 124, 124])),
     Ev 1 39 Leader (A (AppendSent 2 [124, 124, 124, 124, 124])),
     Ev 1 39 Leader (A (AppendSent 4 [124, 124, 124, 124, 124])),
     Ev 2 28 Leader (A (AppendSent 1 [123, 123, 123, 1, 123])),
     Ev 4 16 Leader (A (AppendSent 2 [100, 123, 123, 100, 100])),
     Ev 2 28 Leader (A (AppendSent 3 [123, 123, 123, 1, 123])),
     Ev 4 16 Leader (A (AppendSent 3 [100, 123, 123, 100, 100])),
     Ev 2 28 Leader (A (AppendSent 4 [123, 123, 123, 1, 123])),
     Ev 1 39 Leader (A (AppendNotOk 3)),
     Ev 2 28 Leader (A (AppendNotOk 1)),
     Ev 2 28 Leader (A (AppendNotOk 0)),
     Ev 1 39 Leader (A (AppendNotOk 4)),
     Ev 2 28 Leader (A (AppendNotOk 3)),
     Ev 1 39 Leader (A (AppendNotOk 0)),
     Ev 4 16 Leader (A (AppendNotOk 3)),
     Ev 4 16 Leader (A (AppendNotOk 0)),
     Ev 1 39 Leader (A (AppendNotOk 2)),
     Ev 4 16 Leader (A (AppendNotOk 1)),
     Ev 2 28 Leader (A (AppendNotOk 4)),
     Ev 1 39 Leader (A HeartBeat),
     Ev 2 28 Leader (A HeartBeat),
     Ev 2 28 Leader (A (AppendTo 0)),
     Ev 4 16 Leader (A (AppendNotOk 2)),
     Ev 2 28 Leader (A (AppendTo 1)),
     Ev 1 39 Leader (A (AppendTo 0)),
     Ev 4 16 Leader (A HeartBeat),
     Ev 2 28 Leader (A (AppendTo 3)),
     Ev 4 16 Leader (A (AppendTo 0)),
     Ev 4 16 Leader (A (AppendTo 1)),
     Ev 4 16 Leader (A (AppendTo 2)),
     Ev 1 39 Leader (A (AppendTo 2)),
     Ev 1 39 Leader (A (AppendTo 3)),
     Ev 2 28 Leader (A (AppendTo 4)),
     Ev 4 16 Leader (A (AppendTo 3)),
     Ev 1 39 Leader (A (AppendTo 4)),
     Ev 2 28 Leader (A (AppendSent 4 [123, 123, 123, 1, 123])),
     Ev 4 16 Leader (A (AppendSent 2 [100, 123, 123, 100, 100])),
     Ev 2 28 Leader (A (AppendSent 1 [123, 123, 123, 1, 123])),
     Ev 4 16 Leader (A (AppendSent 0 [100, 123, 123, 100, 100])),
     Ev 4 16 Leader (A (AppendSent 1 [100, 123, 123, 100, 100])),
     Ev 1 39 Leader (A (AppendSent 0 [124, 124, 124, 124, 124])),
     Ev 1 39 Leader (A (AppendSent 3 [124, 124, 124, 124, 124])),
     Ev 2 28 Leader (A (AppendSent 0 [123, 123, 123, 1, 123])),
     Ev 1 39 Leader (A (AppendSent 2 [124, 124, 124, 124, 124])),
     Ev 2 28 Leader (A (AppendSent 3 [123, 123, 123, 1, 123])),
     Ev 1 39 Leader (A (AppendSent 4 [124, 124, 124, 124, 124])),
     Ev 4 16 Leader (A (AppendNotOk 2)),
     Ev 4 16 Leader (A (AppendSent 3 [100, 123, 123, 100, 100])),
     Ev 1 39 Leader (A (AppendNotOk 2)),
     Ev 4 16 Leader (A (AppendNotOk 3)),
     Ev 2 28 Leader (A (AppendNotOk 0)),
     Ev 1 39 Leader (A (AppendNotOk 0)),
     Ev 4 16 Leader (A (AppendNotOk 0)),
     Ev 2 28 Leader (A (AppendNotOk 1)),
     Ev 1 39 Leader (A (AppendNotOk 4)),
     Ev 1 39 Leader (A (AppendNotOk 3)),
     Ev 2 28 Leader (A (AppendNotOk 4)),
     Ev 2 28 Leader (A (AppendNotOk 3)),
     Ev 4 16 Leader (A HeartBeat),
     Ev 4 16 Leader (A (AppendTo 0)),
     Ev 1 39 Leader (A HeartBeat),
     Ev 4 16 Leader (A (AppendTo 1))]"

definition part_4 :: "line list list" where
  "part_4 =
     [run_32, run_33, run_34, run_35, run_36, run_37, run_38, run_39, run_40, run_41]"

lemma part_4_replays: "read_all replay obs_3 part_4 = Some obs_4"
  by code_simp

end
