(* ===== verification/Trace_5.thy ===== *)
theory Trace_5
  imports Trace_States
begin

text \<open>
  The recorded run, lines 6151 to 7650 of raft/2timesvote.ts, one element per line in the
  order of the file, and the proof that this part conforms.
\<close>

definition run_42 :: "line list" where
  "run_42 = [
     Ev 1 39 Leader (A (AppendTo 0)),
     Ev 1 39 Leader (A (AppendTo 2)),
     Ev 2 28 Leader (A HeartBeat),
     Ev 4 16 Leader (A (AppendTo 2)),
     Ev 2 28 Leader (A (AppendTo 0)),
     Ev 2 28 Leader (A (AppendTo 1)),
     Ev 2 28 Leader (A (AppendTo 3)),
     Ev 2 28 Leader (A (AppendTo 4)),
     Ev 4 16 Leader (A (AppendTo 3)),
     Ev 2 28 Leader (A (AppendSent 4 [123, 123, 123, 1, 123])),
     Ev 1 39 Leader (A (AppendTo 3)),
     Ev 2 28 Leader (A (AppendSent 3 [123, 123, 123, 1, 123])),
     Ev 1 39 Leader (A (AppendTo 4)),
     Ev 4 16 Leader (A (AppendSent 0 [100, 123, 123, 100, 100])),
     Ev 1 39 Leader (A (AppendSent 0 [124, 124, 124, 124, 124])),
     Ev 1 39 Leader (A (AppendSent 3 [124, 124, 124, 124, 124])),
     Ev 1 39 Leader (A (AppendSent 4 [124, 124, 124, 124, 124])),
     Ev 1 39 Leader (A (AppendSent 2 [124, 124, 124, 124, 124])),
     Ev 4 16 Leader (A (AppendNotOk 1)),
     Ev 4 16 Leader (A (AppendSent 1 [100, 123, 123, 100, 100])),
     Ev 2 28 Leader (A (AppendSent 1 [123, 123, 123, 1, 123])),
     Ev 4 16 Leader (A (AppendSent 2 [100, 123, 123, 100, 100])),
     Ev 4 16 Leader (A (AppendSent 3 [100, 123, 123, 100, 100])),
     Ev 2 28 Leader (A (AppendSent 0 [123, 123, 123, 1, 123])),
     Ev 3 39 Follower (A (AppendFrom 1 39)),
     Ev 3 39 Follower (A (NoMatch 28 123)),
     Ev 1 39 Leader (A (AppendNotOk 0)),
     Ev 4 16 Leader (A (AppendNotOk 0)),
     Ev 2 28 Leader (A (AppendNotOk 3)),
     Ev 2 28 Leader (A (AppendNotOk 4)),
     Ev 2 28 Leader (A (AppendNotOk 1)),
     Ev 2 28 Leader (A (AppendNotOk 0)),
     Ev 1 39 Leader (A (AppendNotOk 4)),
     Ev 4 16 Leader (A (AppendNotOk 3)),
     Ev 1 39 Leader (A (AppendNotOk 2)),
     Ev 4 16 Leader (A (AppendNotOk 2)),
     Ev 4 16 Leader (A (AppendNotOk 1)),
     Ev 4 16 Leader (A HeartBeat),
     Ev 4 16 Leader (A (AppendTo 0)),
     Ev 4 16 Leader (A (AppendTo 1)),
     Ev 4 16 Leader (A (AppendTo 2)),
     Ev 4 16 Leader (A (AppendTo 3)),
     Ev 4 16 Leader (A (AppendSent 3 [100, 123, 123, 100, 100])),
     Ev 2 28 Leader (A HeartBeat),
     Ev 2 28 Leader (A (AppendTo 0)),
     Ev 2 28 Leader (A (AppendTo 1)),
     Ev 2 28 Leader (A (AppendTo 3)),
     Ev 2 28 Leader (A (AppendTo 4)),
     Ev 2 28 Leader (A (AppendSent 4 [123, 123, 123, 1, 123])),
     Ev 2 28 Leader (A (AppendSent 1 [123, 123, 123, 1, 123])),
     Ev 1 39 Leader (A HeartBeat),
     Ev 1 39 Leader (A (AppendTo 0)),
     Ev 1 39 Leader (A (AppendTo 2)),
     Ev 1 39 Leader (A (AppendTo 3)),
     Ev 1 39 Leader (A (AppendTo 4)),
     Ev 1 39 Leader (A (AppendSent 4 [124, 124, 124, 124, 124])),
     Ev 1 39 Leader (A (AppendSent 0 [124, 124, 124, 124, 124])),
     Ev 2 28 Leader (A (AppendSent 0 [123, 123, 123, 1, 123])),
     Ev 2 28 Leader (A (AppendSent 3 [123, 123, 123, 1, 123])),
     Ev 1 39 Leader (A (AppendSent 2 [124, 124, 124, 124, 124])),
     Ev 1 39 Leader (A (AppendSent 3 [124, 124, 124, 124, 124])),
     Ev 4 16 Leader (A (AppendSent 0 [100, 123, 123, 100, 100])),
     Ev 4 16 Leader (A (AppendSent 1 [100, 123, 123, 100, 100])),
     Ev 4 16 Leader (A (AppendSent 2 [100, 123, 123, 100, 100])),
     Ev 0 39 Follower (A (AppendFrom 1 39)),
     Ev 0 39 Follower (A (NoMatch 28 123)),
     Ev 1 39 Leader (A (AppendNotOk 4)),
     Ev 2 28 Leader (A (AppendNotOk 3)),
     Ev 2 28 Leader (A (AppendNotOk 4)),
     Ev 3 39 Follower (A (AppendFrom 1 39)),
     Ev 3 39 Follower (A (NoMatch 28 123)),
     Ev 2 28 Leader (A (AppendNotOk 1)),
     Ev 4 16 Leader (A (AppendNotOk 0)),
     Ev 2 28 Leader (A (AppendNotOk 0)),
     Ev 4 16 Leader (A (AppendNotOk 1)),
     Ev 4 16 Leader (A (AppendNotOk 2)),
     Ev 4 16 Leader (A HeartBeat),
     Ev 4 16 Leader (A (AppendTo 0)),
     Ev 4 16 Leader (A (AppendTo 1)),
     Ev 4 16 Leader (A (AppendTo 2)),
     Ev 4 16 Leader (A (AppendTo 3)),
     Ev 1 39 Leader (A HeartBeat),
     Ev 1 39 Leader (A (AppendTo 0)),
     Ev 1 39 Leader (A (AppendTo 2)),
     Ev 1 39 Leader (A (AppendTo 3)),
     Ev 1 39 Leader (A (AppendTo 4)),
     Ev 4 16 Leader (A (AppendSent 3 [100, 123, 123, 100, 100])),
     Ev 1 39 Leader (A (AppendSent 4 [124, 124, 124, 124, 124])),
     Ev 4 16 Leader (A (AppendSent 2 [100, 123, 123, 100, 100])),
     Ev 2 28 Leader (A HeartBeat),
     Ev 2 28 Leader (A (AppendTo 0)),
     Ev 2 28 Leader (A (AppendTo 1)),
     Ev 2 28 Leader (A (AppendTo 3)),
     Ev 2 28 Leader (A (AppendTo 4)),
     Ev 2 28 Leader (A (AppendSent 4 [123, 123, 123, 1, 123])),
     Ev 1 39 Leader (A (AppendNotOk 2)),
     Ev 1 39 Leader (A (AppendSent 0 [124, 124, 124, 124, 124])),
     Ev 1 39 Leader (A (AppendSent 2 [124, 124, 124, 124, 124])),
     Ev 1 39 Leader (A (AppendSent 3 [124, 124, 124, 124, 124])),
     Ev 2 28 Leader (A (AppendSent 1 [123, 123, 123, 1, 123])),
     Ev 2 28 Leader (A (AppendSent 0 [123, 123, 123, 1, 123])),
     Ev 2 28 Leader (A (AppendSent 3 [123, 123, 123, 1, 123])),
     Ev 4 16 Leader (A (AppendSent 0 [100, 123, 123, 100, 100])),
     Ev 4 16 Leader (A (AppendNotOk 3)),
     Ev 4 16 Leader (A (AppendSent 1 [100, 123, 123, 100, 100])),
     Ev 4 16 Leader (A (AppendNotOk 2)),
     Ev 0 39 Follower (A (AppendFrom 1 39)),
     Ev 3 39 Follower (A (AppendFrom 1 39)),
     Ev 0 39 Follower (A (NoMatch 28 123)),
     Ev 3 39 Follower (A (NoMatch 28 123)),
     Ev 1 39 Leader (A (AppendNotOk 3)),
     Ev 4 16 Leader (A (AppendNotOk 1)),
     Ev 4 16 Leader (A (AppendNotOk 3)),
     Ev 2 28 Leader (A (AppendNotOk 0)),
     Ev 1 39 Leader (A (AppendNotOk 2)),
     Ev 2 28 Leader (A (AppendNotOk 3)),
     Ev 4 16 Leader (A (AppendNotOk 0)),
     Ev 2 28 Leader (A (AppendNotOk 4)),
     Ev 2 28 Leader (A (AppendNotOk 1)),
     Ev 2 28 Leader (A HeartBeat),
     Ev 2 28 Leader (A (AppendTo 0)),
     Ev 2 28 Leader (A (AppendTo 1)),
     Ev 2 28 Leader (A (AppendTo 3)),
     Ev 2 28 Leader (A (AppendTo 4)),
     Ev 2 28 Leader (A (AppendSent 4 [123, 123, 123, 1, 123])),
     Ev 4 16 Leader (A HeartBeat),
     Ev 4 16 Leader (A (AppendTo 0)),
     Ev 4 16 Leader (A (AppendTo 1)),
     Ev 4 16 Leader (A (AppendTo 2)),
     Ev 4 16 Leader (A (AppendTo 3)),
     Ev 4 16 Leader (A (AppendSent 3 [100, 123, 123, 100, 100])),
     Ev 1 39 Leader (A HeartBeat),
     Ev 1 39 Leader (A (AppendTo 0)),
     Ev 1 39 Leader (A (AppendTo 2)),
     Ev 1 39 Leader (A (AppendTo 3)),
     Ev 1 39 Leader (A (AppendTo 4)),
     Ev 2 28 Leader (A (AppendSent 0 [123, 123, 123, 1, 123])),
     Ev 2 28 Leader (A (AppendSent 1 [123, 123, 123, 1, 123])),
     Ev 2 28 Leader (A (AppendSent 3 [123, 123, 123, 1, 123])),
     Ev 4 16 Leader (A (AppendSent 1 [100, 123, 123, 100, 100])),
     Ev 1 39 Leader (A (AppendSent 2 [124, 124, 124, 124, 124])),
     Ev 1 39 Leader (A (AppendNotOk 4)),
     Ev 1 39 Leader (A (AppendSent 0 [124, 124, 124, 124, 124])),
     Ev 1 39 Leader (A (AppendSent 3 [124, 124, 124, 124, 124])),
     Ev 1 39 Leader (A (AppendSent 4 [124, 124, 124, 124, 124])),
     Ev 4 16 Leader (A (AppendSent 0 [100, 123, 123, 100, 100])),
     Ev 4 16 Leader (A (AppendSent 2 [100, 123, 123, 100, 100])),
     Ev 4 16 Leader (A (AppendNotOk 2)),
     Ev 1 39 Leader (A (AppendNotOk 2)),
     Ev 3 39 Follower (A (AppendFrom 1 39))]"

definition run_43 :: "line list" where
  "run_43 = [
     Ev 3 39 Follower (A (NoMatch 28 123)),
     Ev 1 39 Leader (A (AppendNotOk 3)),
     Ev 0 39 Follower (A (AppendFrom 1 39)),
     Ev 0 39 Follower (A (NoMatch 28 123)),
     Ev 1 39 Leader (A (AppendNotOk 0)),
     Ev 1 39 Leader (A (AppendRefused 3 123 28 124)),
     Ev 4 16 Leader (A (AppendNotOk 3)),
     Ev 1 39 Leader (A (AppendNotOk 4)),
     Ev 1 39 Leader (A (AppendRefused 0 123 28 124)),
     Ev 4 16 Leader (A (AppendNotOk 0)),
     Ev 4 16 Leader (A (AppendNotOk 1)),
     Ev 2 28 Leader (A (AppendNotOk 3)),
     Ev 2 28 Leader (A (AppendNotOk 0)),
     Ev 2 28 Leader (A (AppendNotOk 4)),
     Ev 2 28 Leader (A (AppendNotOk 1)),
     Ev 2 28 Leader (A HeartBeat),
     Ev 2 28 Leader (A (AppendTo 0)),
     Ev 2 28 Leader (A (AppendTo 1)),
     Ev 2 28 Leader (A (AppendTo 3)),
     Ev 4 16 Leader (A HeartBeat),
     Ev 2 28 Leader (A (AppendTo 4)),
     Ev 4 16 Leader (A (AppendTo 0)),
     Ev 4 16 Leader (A (AppendTo 1)),
     Ev 2 28 Leader (A (AppendSent 3 [123, 123, 123, 1, 123])),
     Ev 4 16 Leader (A (AppendTo 2)),
     Ev 4 16 Leader (A (AppendTo 3)),
     Ev 4 16 Leader (A (AppendSent 1 [100, 123, 123, 100, 100])),
     Ev 2 28 Leader (A (AppendSent 0 [123, 123, 123, 1, 123])),
     Ev 1 39 Leader (A HeartBeat),
     Ev 1 39 Leader (A (AppendTo 0)),
     Ev 1 39 Leader (A (AppendTo 2)),
     Ev 1 39 Leader (A (AppendTo 3)),
     Ev 1 39 Leader (A (AppendTo 4)),
     Ev 1 39 Leader (A (AppendSent 4 [122, 124, 124, 122, 124])),
     Ev 1 39 Leader (A (AppendSent 0 [122, 124, 124, 122, 124])),
     Ev 2 28 Leader (A (AppendSent 1 [123, 123, 123, 1, 123])),
     Ev 1 39 Leader (A (AppendSent 2 [122, 124, 124, 122, 124])),
     Ev 1 39 Leader (A (AppendSent 3 [122, 124, 124, 122, 124])),
     Ev 4 16 Leader (A (AppendSent 2 [100, 123, 123, 100, 100])),
     Ev 2 28 Leader (A (AppendSent 4 [123, 123, 123, 1, 123])),
     Ev 4 16 Leader (A (AppendSent 3 [100, 123, 123, 100, 100])),
     Ev 4 16 Leader (A (AppendSent 0 [100, 123, 123, 100, 100])),
     Ev 4 16 Leader (A (AppendNotOk 0)),
     Ev 4 16 Leader (A (AppendNotOk 3)),
     Ev 3 39 Follower (A (AppendFrom 1 39)),
     Ev 3 39 Follower (A (NoMatch 16 121)),
     Ev 1 39 Leader (A (AppendNotOk 4)),
     Ev 0 39 Follower (A (AppendFrom 1 39)),
     Ev 0 39 Follower (A (NoMatch 16 121)),
     Ev 1 39 Leader (A (AppendRefused 0 121 16 122)),
     Ev 2 28 Leader (A (AppendNotOk 0)),
     Ev 2 28 Leader (A (AppendNotOk 1)),
     Ev 2 28 Leader (A (AppendNotOk 3)),
     Ev 4 16 Leader (A (AppendNotOk 2)),
     Ev 4 16 Leader (A (AppendNotOk 1)),
     Ev 2 28 Leader (A (AppendNotOk 4)),
     Ev 4 16 Leader (A HeartBeat),
     Ev 4 16 Leader (A (AppendTo 0)),
     Ev 4 16 Leader (A (AppendTo 1)),
     Ev 4 16 Leader (A (AppendTo 2)),
     Ev 4 16 Leader (A (AppendTo 3)),
     Ev 4 16 Leader (A (AppendSent 3 [100, 123, 123, 100, 100])),
     Ev 2 28 Leader (A HeartBeat),
     Ev 2 28 Leader (A (AppendTo 0)),
     Ev 2 28 Leader (A (AppendTo 1)),
     Ev 2 28 Leader (A (AppendTo 3)),
     Ev 2 28 Leader (A (AppendTo 4)),
     Ev 2 28 Leader (A (AppendSent 4 [123, 123, 123, 1, 123])),
     Ev 2 28 Leader (A (AppendSent 0 [123, 123, 123, 1, 123])),
     Ev 4 16 Leader (A (AppendSent 1 [100, 123, 123, 100, 100])),
     Ev 1 39 Leader (A (AppendNotOk 2)),
     Ev 1 39 Leader (A HeartBeat),
     Ev 1 39 Leader (A (AppendTo 0)),
     Ev 1 39 Leader (A (AppendTo 2)),
     Ev 1 39 Leader (A (AppendTo 3)),
     Ev 1 39 Leader (A (AppendTo 4)),
     Ev 1 39 Leader (A (AppendSent 4 [99, 124, 124, 122, 124])),
     Ev 1 39 Leader (A (AppendSent 0 [99, 124, 124, 122, 124])),
     Ev 1 39 Leader (A (AppendSent 2 [99, 124, 124, 122, 124])),
     Ev 1 39 Leader (A (AppendSent 3 [99, 124, 124, 122, 124])),
     Ev 4 16 Leader (A (AppendSent 0 [100, 123, 123, 100, 100])),
     Ev 2 28 Leader (A (AppendSent 1 [123, 123, 123, 1, 123])),
     Ev 2 28 Leader (A (AppendSent 3 [123, 123, 123, 1, 123])),
     Ev 4 16 Leader (A (AppendSent 2 [100, 123, 123, 100, 100])),
     Ev 1 39 Leader (A (AppendNotOk 0)),
     Ev 1 39 Leader (A (AppendNotOk 2)),
     Ev 1 39 Leader (A (AppendNotOk 4)),
     Ev 4 16 Leader (A (AppendNotOk 1)),
     Ev 0 39 Follower (A (AppendFrom 4 16)),
     Ev 0 39 Follower (A TermSmaller),
     Ev 3 39 Follower (A (AppendFrom 4 16)),
     Ev 3 39 Follower (A TermSmaller),
     Ev 4 16 Leader (A (AppendNotOk 0)),
     Ev 4 16 Leader (A (AppendBigger 3 39)),
     Ev 2 28 Leader (A (AppendNotOk 3)),
     Ev 2 28 Leader (A (AppendNotOk 0)),
     Ev 4 39 Follower (A (AppendNotOk 2)),
     Ev 2 28 Leader (A (AppendNotOk 4)),
     Ev 2 28 Leader (A (AppendNotOk 1)),
     Ev 1 39 Leader (A (AppendNotOk 3)),
     Ev 1 39 Leader (A HeartBeat),
     Ev 1 39 Leader (A (AppendTo 0)),
     Ev 1 39 Leader (A (AppendTo 2)),
     Ev 1 39 Leader (A (AppendTo 3)),
     Ev 1 39 Leader (A (AppendTo 4)),
     Ev 1 39 Leader (A (AppendSent 4 [99, 124, 124, 122, 124])),
     Ev 2 28 Leader (A HeartBeat),
     Ev 2 28 Leader (A (AppendTo 0)),
     Ev 2 28 Leader (A (AppendTo 1)),
     Ev 2 28 Leader (A (AppendTo 3)),
     Ev 2 28 Leader (A (AppendTo 4)),
     Ev 1 39 Leader (A (AppendSent 2 [99, 124, 124, 122, 124])),
     Ev 1 39 Leader (A (AppendSent 0 [99, 124, 124, 122, 124])),
     Ev 1 39 Leader (A (AppendSent 3 [99, 124, 124, 122, 124])),
     Ev 2 28 Leader (A (AppendSent 1 [123, 123, 123, 1, 123])),
     Ev 2 28 Leader (A (AppendSent 4 [123, 123, 123, 1, 123])),
     Ev 2 28 Leader (A (AppendSent 0 [123, 123, 123, 1, 123])),
     Ev 2 28 Leader (A (AppendSent 3 [123, 123, 123, 1, 123])),
     Ev 1 39 Leader (A (AppendNotOk 2)),
     Ev 1 39 Leader (A (AppendRefused 3 121 16 122)),
     Ev 1 39 Leader (A (AppendNotOk 4)),
     Ev 2 28 Leader (A (AppendNotOk 4)),
     Ev 1 39 Leader (A (AppendNotOk 0)),
     Ev 2 28 Leader (A (AppendNotOk 0)),
     Ev 2 28 Leader (A (AppendNotOk 3)),
     Ev 2 28 Leader (A (AppendNotOk 1)),
     Ev 2 28 Leader (A HeartBeat),
     Ev 2 28 Leader (A (AppendTo 0)),
     Ev 2 28 Leader (A (AppendTo 1)),
     Ev 2 28 Leader (A (AppendTo 3)),
     Ev 2 28 Leader (A (AppendTo 4)),
     Ev 1 39 Leader (A HeartBeat),
     Ev 1 39 Leader (A (AppendTo 0)),
     Ev 1 39 Leader (A (AppendTo 2)),
     Ev 1 39 Leader (A (AppendTo 3)),
     Ev 1 39 Leader (A (AppendTo 4)),
     Ev 2 28 Leader (A (AppendSent 4 [123, 123, 123, 1, 123])),
     Ev 2 28 Leader (A (AppendSent 0 [123, 123, 123, 1, 123])),
     Ev 2 28 Leader (A (AppendSent 1 [123, 123, 123, 1, 123])),
     Ev 1 39 Leader (A (AppendSent 0 [99, 124, 124, 99, 124])),
     Ev 1 39 Leader (A (AppendSent 3 [99, 124, 124, 99, 124])),
     Ev 1 39 Leader (A (AppendNotOk 3)),
     Ev 1 39 Leader (A (AppendSent 2 [99, 124, 124, 99, 124])),
     Ev 2 28 Leader (A (AppendSent 3 [123, 123, 123, 1, 123])),
     Ev 1 39 Leader (A (AppendSent 4 [99, 124, 124, 99, 124])),
     Ev 1 39 Leader (A (AppendNotOk 3)),
     Ev 2 28 Leader (A (AppendNotOk 3)),
     Ev 1 39 Leader (A (AppendNotOk 2)),
     Ev 2 28 Leader (A (AppendNotOk 4)),
     Ev 2 28 Leader (A (AppendNotOk 1))]"

definition run_44 :: "line list" where
  "run_44 = [
     Ev 2 28 Leader (A (AppendNotOk 0)),
     Ev 1 39 Leader (A (AppendNotOk 4)),
     Ev 1 39 Leader (A (AppendNotOk 0)),
     Ev 2 28 Leader (A HeartBeat),
     Ev 2 28 Leader (A (AppendTo 0)),
     Ev 2 28 Leader (A (AppendTo 1)),
     Ev 2 28 Leader (A (AppendTo 3)),
     Ev 2 28 Leader (A (AppendTo 4)),
     Ev 2 28 Leader (A (AppendSent 4 [123, 123, 123, 1, 123])),
     Ev 1 39 Leader (A HeartBeat),
     Ev 1 39 Leader (A (AppendTo 0)),
     Ev 1 39 Leader (A (AppendTo 2)),
     Ev 1 39 Leader (A (AppendTo 3)),
     Ev 1 39 Leader (A (AppendTo 4)),
     Ev 2 28 Leader (A (AppendSent 1 [123, 123, 123, 1, 123])),
     Ev 1 39 Leader (A (AppendSent 4 [99, 124, 124, 99, 124])),
     Ev 2 28 Leader (A (AppendSent 3 [123, 123, 123, 1, 123])),
     Ev 1 39 Leader (A (AppendSent 2 [99, 124, 124, 99, 124])),
     Ev 1 39 Leader (A (AppendSent 3 [99, 124, 124, 99, 124])),
     Ev 1 39 Leader (A (AppendSent 0 [99, 124, 124, 99, 124])),
     Ev 2 28 Leader (A (AppendSent 0 [123, 123, 123, 1, 123])),
     Ev 1 39 Leader (A (AppendNotOk 2)),
     Ev 2 28 Leader (A (AppendNotOk 3)),
     Ev 2 28 Leader (A (AppendNotOk 0)),
     Ev 2 28 Leader (A (AppendNotOk 4)),
     Ev 1 39 Leader (A (AppendNotOk 3)),
     Ev 2 28 Leader (A (AppendNotOk 1)),
     Ev 1 39 Leader (A (AppendNotOk 0)),
     Ev 1 39 Leader (A (AppendNotOk 4)),
     Ev 2 28 Leader (A HeartBeat),
     Ev 2 28 Leader (A (AppendTo 0)),
     Ev 2 28 Leader (A (AppendTo 1)),
     Ev 2 28 Leader (A (AppendTo 3)),
     Ev 2 28 Leader (A (AppendTo 4)),
     Ev 2 28 Leader (A (AppendSent 4 [123, 123, 123, 1, 123])),
     Ev 1 39 Leader (A HeartBeat),
     Ev 1 39 Leader (A (AppendTo 0)),
     Ev 1 39 Leader (A (AppendTo 2)),
     Ev 2 28 Leader (A (AppendSent 1 [123, 123, 123, 1, 123])),
     Ev 1 39 Leader (A (AppendTo 3)),
     Ev 1 39 Leader (A (AppendTo 4)),
     Ev 1 39 Leader (A (AppendSent 0 [99, 124, 124, 99, 124])),
     Ev 1 39 Leader (A (AppendSent 3 [99, 124, 124, 99, 124])),
     Ev 1 39 Leader (A (AppendSent 4 [99, 124, 124, 99, 124])),
     Ev 1 39 Leader (A (AppendSent 2 [99, 124, 124, 99, 124])),
     Ev 2 28 Leader (A (AppendSent 0 [123, 123, 123, 1, 123])),
     Ev 2 28 Leader (A (AppendSent 3 [123, 123, 123, 1, 123])),
     Ev 1 39 Leader (A (AppendNotOk 2)),
     Ev 1 39 Leader (A (AppendNotOk 3)),
     Ev 1 39 Leader (A (AppendNotOk 4)),
     Ev 1 39 Leader (A (AppendNotOk 0)),
     Ev 2 28 Leader (A (AppendNotOk 3)),
     Ev 2 28 Leader (A (AppendNotOk 1)),
     Ev 1 39 Leader (A (AppendRefused 3 123 28 99)),
     Ev 2 28 Leader (A (AppendNotOk 0)),
     Ev 1 39 Leader (A HeartBeat),
     Ev 1 39 Leader (A (AppendTo 0)),
     Ev 1 39 Leader (A (AppendTo 2)),
     Ev 1 39 Leader (A (AppendTo 3)),
     Ev 1 39 Leader (A (AppendTo 4)),
     Ev 2 28 Leader (A (AppendNotOk 4)),
     Ev 1 39 Leader (A (AppendSent 4 [99, 124, 124, 1, 124])),
     Ev 2 28 Leader (A HeartBeat),
     Ev 2 28 Leader (A (AppendTo 0)),
     Ev 2 28 Leader (A (AppendTo 1)),
     Ev 2 28 Leader (A (AppendTo 3)),
     Ev 2 28 Leader (A (AppendTo 4)),
     Ev 1 39 Leader (A (AppendSent 0 [99, 124, 124, 1, 124])),
     Ev 2 28 Leader (A (AppendSent 4 [123, 123, 123, 1, 123])),
     Ev 2 28 Leader (A (AppendSent 3 [123, 123, 123, 1, 123])),
     Ev 1 39 Leader (A (AppendSent 2 [99, 124, 124, 1, 124])),
     Ev 2 28 Leader (A (AppendSent 0 [123, 123, 123, 1, 123])),
     Ev 1 39 Leader (A (AppendSent 3 [99, 124, 124, 1, 124])),
     Ev 2 28 Leader (A (AppendSent 1 [123, 123, 123, 1, 123])),
     Ev 1 39 Leader (A (AppendNotOk 2)),
     Ev 2 28 Leader (A (AppendNotOk 0)),
     Ev 2 28 Leader (A (AppendNotOk 1)),
     Ev 1 39 Leader (A (AppendNotOk 3)),
     Ev 2 28 Leader (A (AppendNotOk 4)),
     Ev 1 39 Leader (A (AppendNotOk 4)),
     Ev 1 39 Leader (A (AppendRefused 0 123 28 99)),
     Ev 2 28 Leader (A (AppendNotOk 3)),
     Ev 1 39 Leader (A HeartBeat),
     Ev 1 39 Leader (A (AppendTo 0)),
     Ev 1 39 Leader (A (AppendTo 2)),
     Ev 1 39 Leader (A (AppendTo 3)),
     Ev 0 39 Follower (E StartElection),
     Ev 2 28 Leader (A HeartBeat),
     Ev 2 28 Leader (A (AppendTo 0)),
     Ev 2 28 Leader (A (AppendTo 1)),
     Ev 2 28 Leader (A (AppendTo 3)),
     Ev 2 28 Leader (A (AppendTo 4)),
     Ev 1 39 Leader (A (AppendTo 4)),
     Ev 2 28 Leader (A (AppendSent 0 [123, 123, 123, 1, 123])),
     Ev 1 39 Leader (A (AppendNotOk 0)),
     Ev 1 39 Leader (A (AppendSent 3 [1, 124, 124, 1, 124])),
     Ev 0 40 Candidate (E BecomeCandidate),
     Ev 0 40 Candidate (E (RequestVoteTo 1)),
     Ev 0 40 Candidate (E (RequestVoteTo 2)),
     Ev 0 40 Candidate (E (RequestVoteTo 3)),
     Ev 0 40 Candidate (E (RequestVoteTo 4)),
     Ev 2 28 Leader (A (AppendSent 3 [123, 123, 123, 1, 123])),
     Ev 1 39 Leader (A (AppendSent 4 [1, 124, 124, 1, 124])),
     Ev 2 28 Leader (A (AppendSent 4 [123, 123, 123, 1, 123])),
     Ev 1 39 Leader (A (AppendSent 0 [1, 124, 124, 1, 124])),
     Ev 2 28 Leader (A (AppendSent 1 [123, 123, 123, 1, 123])),
     Ev 1 39 Leader (A (AppendSent 2 [1, 124, 124, 1, 124])),
     Ev 3 39 Follower (E (VoteRequested (-1) 0 40)),
     Ev 3 39 Follower (E (VoteArgs 40 133 14 123 124)),
     Ev 3 39 Follower (E (Indices 1 1)),
     Ev 3 39 Follower (E (TermLower 0)),
     Ev 3 40 Follower (E (LogTerms 14 9 123 133)),
     Ev 3 40 Follower (E LogOutdated),
     Ev 2 28 Leader (A (AppendNotOk 3)),
     Ev 4 39 Follower (E (VoteRequested (-1) 0 40)),
     Ev 4 39 Follower (E (VoteArgs 40 133 16 520 521)),
     Ev 4 39 Follower (E (Indices 122 122)),
     Ev 4 39 Follower (E (TermLower 0)),
     Ev 4 40 Follower (E (LogTerms 16 9 520 133)),
     Ev 4 40 Follower (E LogOutdated),
     Ev 0 40 Candidate (E (VoteReply 4 40 False)),
     Ev 0 40 Candidate (E (Indices 1 1)),
     Ev 0 40 Candidate (E (CheckElection 1 5)),
     Ev 0 40 Candidate (E (VoteNotOk 1)),
     Ev 2 28 Leader (A (AppendNotOk 4)),
     Ev 0 40 Candidate (E (VoteNotOk 2)),
     Ev 2 28 Leader (A (AppendNotOk 0)),
     Ev 1 39 Leader (A (AppendNotOk 2)),
     Ev 1 39 Leader (A (AppendNotOk 0)),
     Ev 2 28 Leader (A (AppendNotOk 1)),
     Ev 1 39 Leader (A (AppendNotOk 3)),
     Ev 2 28 Leader (A HeartBeat),
     Ev 2 28 Leader (A (AppendTo 0)),
     Ev 2 28 Leader (A (AppendTo 1)),
     Ev 2 28 Leader (A (AppendTo 3)),
     Ev 2 28 Leader (A (AppendTo 4)),
     Ev 2 28 Leader (A (AppendSent 1 [123, 123, 123, 1, 123])),
     Ev 2 28 Leader (A (AppendSent 0 [123, 123, 123, 1, 123])),
     Ev 2 28 Leader (A (AppendSent 3 [123, 123, 123, 1, 123])),
     Ev 2 28 Leader (A (AppendSent 4 [123, 123, 123, 1, 123])),
     Ev 1 39 Leader (A (AppendNotOk 4)),
     Ev 1 39 Leader (A HeartBeat),
     Ev 1 39 Leader (A (AppendTo 0)),
     Ev 1 39 Leader (A (AppendTo 2)),
     Ev 1 39 Leader (A (AppendTo 3)),
     Ev 1 39 Leader (A (AppendTo 4)),
     Ev 1 39 Leader (A (AppendSent 4 [1, 124, 124, 1, 124])),
     Ev 1 39 Leader (A (AppendSent 0 [1, 124, 124, 1, 124])),
     Ev 1 39 Leader (A (AppendSent 2 [1, 124, 124, 1, 124])),
     Ev 1 39 Leader (A (AppendSent 3 [1, 124, 124, 1, 124]))]"

definition run_45 :: "line list" where
  "run_45 = [
     Ev 1 39 Leader (A (AppendNotOk 4)),
     Ev 2 28 Leader (A (AppendNotOk 1)),
     Ev 2 28 Leader (A (AppendNotOk 0)),
     Ev 1 39 Leader (A (AppendNotOk 2)),
     Ev 1 39 Leader (A (AppendNotOk 3)),
     Ev 2 28 Leader (A (AppendNotOk 3)),
     Ev 2 28 Leader (A (AppendNotOk 4)),
     Ev 2 28 Leader (A HeartBeat),
     Ev 2 28 Leader (A (AppendTo 0)),
     Ev 2 28 Leader (A (AppendTo 1)),
     Ev 2 28 Leader (A (AppendTo 3)),
     Ev 2 28 Leader (A (AppendTo 4)),
     Ev 2 28 Leader (A (AppendSent 4 [123, 123, 123, 1, 123])),
     Ev 1 39 Leader (A HeartBeat),
     Ev 2 28 Leader (A (AppendSent 0 [123, 123, 123, 1, 123])),
     Ev 1 39 Leader (A (AppendTo 0)),
     Ev 1 39 Leader (A (AppendTo 2)),
     Ev 1 39 Leader (A (AppendTo 3)),
     Ev 1 39 Leader (A (AppendTo 4)),
     Ev 1 39 Leader (A (AppendSent 4 [1, 124, 124, 1, 124])),
     Ev 1 39 Leader (A (AppendSent 2 [1, 124, 124, 1, 124])),
     Ev 1 39 Leader (A (AppendSent 3 [1, 124, 124, 1, 124])),
     Ev 1 39 Leader (A (AppendNotOk 0)),
     Ev 2 28 Leader (A (AppendSent 1 [123, 123, 123, 1, 123])),
     Ev 1 39 Leader (A (AppendSent 0 [1, 124, 124, 1, 124])),
     Ev 2 28 Leader (A (AppendSent 3 [123, 123, 123, 1, 123])),
     Ev 2 28 Leader (A (AppendNotOk 1)),
     Ev 1 39 Leader (A (AppendNotOk 0)),
     Ev 2 28 Leader (A (AppendNotOk 0)),
     Ev 1 39 Leader (A (AppendNotOk 2)),
     Ev 1 39 Leader (A (AppendNotOk 3)),
     Ev 2 28 Leader (A (AppendNotOk 3)),
     Ev 2 28 Leader (A (AppendNotOk 4)),
     Ev 2 28 Leader (A HeartBeat),
     Ev 2 28 Leader (A (AppendTo 0)),
     Ev 2 28 Leader (A (AppendTo 1)),
     Ev 2 28 Leader (A (AppendTo 3)),
     Ev 2 28 Leader (A (AppendTo 4)),
     Ev 2 28 Leader (A (AppendSent 4 [123, 123, 123, 1, 123])),
     Ev 2 28 Leader (A (AppendSent 1 [123, 123, 123, 1, 123])),
     Ev 1 39 Leader (A HeartBeat),
     Ev 1 39 Leader (A (AppendTo 0)),
     Ev 1 39 Leader (A (AppendTo 2)),
     Ev 1 39 Leader (A (AppendTo 3)),
     Ev 1 39 Leader (A (AppendTo 4)),
     Ev 1 39 Leader (A (AppendNotOk 4)),
     Ev 1 39 Leader (A (AppendSent 0 [1, 124, 124, 1, 124])),
     Ev 1 39 Leader (A (AppendSent 3 [1, 124, 124, 1, 124])),
     Ev 1 39 Leader (A (AppendSent 2 [1, 124, 124, 1, 124])),
     Ev 1 39 Leader (A (AppendSent 4 [1, 124, 124, 1, 124])),
     Ev 2 28 Leader (A (AppendSent 0 [123, 123, 123, 1, 123])),
     Ev 2 28 Leader (A (AppendSent 3 [123, 123, 123, 1, 123])),
     Ev 1 39 Leader (A (AppendNotOk 2)),
     Ev 2 28 Leader (A (AppendNotOk 1)),
     Ev 2 28 Leader (A (AppendNotOk 3)),
     Ev 2 28 Leader (A (AppendNotOk 0)),
     Ev 1 39 Leader (A (AppendNotOk 0)),
     Ev 2 28 Leader (A (AppendNotOk 4)),
     Ev 1 39 Leader (A (AppendNotOk 3)),
     Ev 2 28 Leader (A HeartBeat),
     Ev 2 28 Leader (A (AppendTo 0)),
     Ev 2 28 Leader (A (AppendTo 1)),
     Ev 2 28 Leader (A (AppendTo 3)),
     Ev 2 28 Leader (A (AppendTo 4)),
     Ev 1 39 Leader (A (AppendNotOk 4)),
     Ev 2 28 Leader (A (AppendSent 4 [123, 123, 123, 1, 123])),
     Ev 1 39 Leader (A HeartBeat),
     Ev 1 39 Leader (A (AppendTo 0)),
     Ev 1 39 Leader (A (AppendTo 2)),
     Ev 2 28 Leader (A (AppendSent 3 [123, 123, 123, 1, 123])),
     Ev 1 39 Leader (A (AppendTo 3)),
     Ev 1 39 Leader (A (AppendTo 4)),
     Ev 1 39 Leader (A (AppendSent 2 [1, 124, 124, 1, 124])),
     Ev 1 39 Leader (A (AppendSent 4 [1, 124, 124, 1, 124])),
     Ev 1 39 Leader (A (AppendSent 0 [1, 124, 124, 1, 124])),
     Ev 1 39 Leader (A (AppendSent 3 [1, 124, 124, 1, 124])),
     Ev 2 28 Leader (A (AppendSent 0 [123, 123, 123, 1, 123])),
     Ev 2 28 Leader (A (AppendSent 1 [123, 123, 123, 1, 123])),
     Ev 2 28 Leader (A (AppendNotOk 0)),
     Ev 2 28 Leader (A (AppendNotOk 1)),
     Ev 2 28 Leader (A (AppendNotOk 4)),
     Ev 1 39 Leader (A (AppendNotOk 0)),
     Ev 1 39 Leader (A (AppendNotOk 4)),
     Ev 2 28 Leader (A (AppendNotOk 3)),
     Ev 1 39 Leader (A (AppendNotOk 3)),
     Ev 1 39 Leader (A (AppendNotOk 2)),
     Ev 2 28 Leader (A HeartBeat),
     Ev 2 28 Leader (A (AppendTo 0)),
     Ev 2 28 Leader (A (AppendTo 1)),
     Ev 2 28 Leader (A (AppendTo 3)),
     Ev 2 28 Leader (A (AppendTo 4)),
     Ev 2 28 Leader (A (AppendSent 0 [123, 123, 123, 1, 123])),
     Ev 2 28 Leader (A (AppendSent 4 [123, 123, 123, 1, 123])),
     Ev 1 39 Leader (A HeartBeat),
     Ev 1 39 Leader (A (AppendTo 0)),
     Ev 1 39 Leader (A (AppendTo 2)),
     Ev 1 39 Leader (A (AppendTo 3)),
     Ev 1 39 Leader (A (AppendTo 4)),
     Ev 1 39 Leader (A (AppendSent 4 [1, 124, 124, 1, 124])),
     Ev 1 39 Leader (A (AppendSent 0 [1, 124, 124, 1, 124])),
     Ev 1 39 Leader (A (AppendSent 3 [1, 124, 124, 1, 124])),
     Ev 2 28 Leader (A (AppendSent 1 [123, 123, 123, 1, 123])),
     Ev 2 28 Leader (A (AppendSent 3 [123, 123, 123, 1, 123])),
     Ev 1 39 Leader (A (AppendSent 2 [1, 124, 124, 1, 124])),
     Ev 1 39 Leader (A (AppendNotOk 4)),
     Ev 1 39 Leader (A (AppendNotOk 3)),
     Ev 2 28 Leader (A (AppendNotOk 1)),
     Ev 2 28 Leader (A (AppendNotOk 0)),
     Ev 1 39 Leader (A (AppendNotOk 2)),
     Ev 2 28 Leader (A (AppendNotOk 4)),
     Ev 2 28 Leader (A (AppendNotOk 3)),
     Ev 1 39 Leader (A (AppendNotOk 0)),
     Ev 2 28 Leader (A HeartBeat),
     Ev 2 28 Leader (A (AppendTo 0)),
     Ev 2 28 Leader (A (AppendTo 1)),
     Ev 2 28 Leader (A (AppendTo 3)),
     Ev 2 28 Leader (A (AppendTo 4)),
     Ev 2 28 Leader (A (AppendSent 4 [123, 123, 123, 1, 123])),
     Ev 4 40 Follower (E StartElection),
     Ev 2 28 Leader (A (AppendSent 1 [123, 123, 123, 1, 123])),
     Ev 1 39 Leader (A HeartBeat),
     Ev 1 39 Leader (A (AppendTo 0)),
     Ev 1 39 Leader (A (AppendTo 2)),
     Ev 1 39 Leader (A (AppendTo 3)),
     Ev 1 39 Leader (A (AppendTo 4)),
     Ev 1 39 Leader (A (AppendSent 4 [1, 124, 124, 1, 124])),
     Ev 1 39 Leader (A (AppendSent 3 [1, 124, 124, 1, 124])),
     Ev 1 39 Leader (A (AppendSent 2 [1, 124, 124, 1, 124])),
     Ev 2 28 Leader (A (AppendSent 3 [123, 123, 123, 1, 123])),
     Ev 4 41 Candidate (E BecomeCandidate),
     Ev 4 41 Candidate (E (RequestVoteTo 0)),
     Ev 4 41 Candidate (E (RequestVoteTo 1)),
     Ev 4 41 Candidate (E (RequestVoteTo 2)),
     Ev 4 41 Candidate (E (RequestVoteTo 3)),
     Ev 1 39 Leader (A (AppendSent 0 [1, 124, 124, 1, 124])),
     Ev 2 28 Leader (A (AppendSent 0 [123, 123, 123, 1, 123])),
     Ev 1 39 Leader (A (AppendNotOk 0)),
     Ev 2 28 Leader (A (AppendNotOk 3)),
     Ev 3 40 Follower (E (VoteRequested 0 4 41)),
     Ev 3 40 Follower (E (VoteArgs 41 520 14 123 124)),
     Ev 3 40 Follower (E (Indices 1 1)),
     Ev 3 40 Follower (E (TermLower 4)),
     Ev 1 39 Leader (A (AppendNotOk 3)),
     Ev 3 41 Follower (E (LogTerms 14 16 123 520)),
     Ev 3 41 Follower (E (VoteGranted 41 520 14 123 124)),
     Ev 3 41 Follower (E (Indices 1 1)),
     Ev 4 41 Candidate (E (VoteNotOk 3)),
     Ev 4 41 Candidate (E (VoteNotOk 2)),
     Ev 0 40 Candidate (E (VoteRequested 0 4 41)),
     Ev 1 39 Leader (A (AppendNotOk 2))]"

definition run_46 :: "line list" where
  "run_46 = [
     Ev 0 40 Candidate (E (VoteArgs 41 520 9 133 134)),
     Ev 0 40 Candidate (E (Indices 1 1)),
     Ev 0 40 Candidate (E (TermLower 4)),
     Ev 0 41 Follower (E (LogTerms 9 16 133 520)),
     Ev 0 41 Follower (E (VoteGranted 41 520 9 133 134)),
     Ev 0 41 Follower (E (Indices 1 1)),
     Ev 2 28 Leader (A (AppendNotOk 0)),
     Ev 4 41 Candidate (E (VoteNotOk 1)),
     Ev 1 39 Leader (A (AppendNotOk 4)),
     Ev 2 28 Leader (A (AppendNotOk 1)),
     Ev 2 28 Leader (A (AppendNotOk 4)),
     Ev 1 39 Leader (A HeartBeat),
     Ev 1 39 Leader (A (AppendTo 0)),
     Ev 2 28 Leader (A HeartBeat),
     Ev 2 28 Leader (A (AppendTo 0)),
     Ev 1 39 Leader (A (AppendTo 2)),
     Ev 2 28 Leader (A (AppendTo 1)),
     Ev 2 28 Leader (A (AppendTo 3)),
     Ev 2 28 Leader (A (AppendTo 4)),
     Ev 1 39 Leader (A (AppendTo 3)),
     Ev 1 39 Leader (A (AppendTo 4)),
     Ev 2 28 Leader (A (AppendSent 4 [123, 123, 123, 1, 123])),
     Ev 1 39 Leader (A (AppendSent 3 [1, 124, 124, 1, 124])),
     Ev 2 28 Leader (A (AppendSent 0 [123, 123, 123, 1, 123])),
     Ev 2 28 Leader (A (AppendSent 1 [123, 123, 123, 1, 123])),
     Ev 1 39 Leader (A (AppendSent 0 [1, 124, 124, 1, 124])),
     Ev 1 39 Leader (A (AppendSent 2 [1, 124, 124, 1, 124])),
     Ev 2 28 Leader (A (AppendSent 3 [123, 123, 123, 1, 123])),
     Ev 1 39 Leader (A (AppendSent 4 [1, 124, 124, 1, 124])),
     Ev 1 39 Leader (A (AppendNotOk 2)),
     Ev 2 28 Leader (A (AppendNotOk 1)),
     Ev 1 39 Leader (A (AppendNotOk 3)),
     Ev 2 28 Leader (A (AppendNotOk 3)),
     Ev 1 39 Leader (A (AppendNotOk 0)),
     Ev 1 39 Leader (A (AppendNotOk 4)),
     Ev 2 28 Leader (A (AppendNotOk 0)),
     Ev 2 28 Leader (A (AppendNotOk 4)),
     Ev 1 39 Leader (A HeartBeat),
     Ev 1 39 Leader (A (AppendTo 0)),
     Ev 1 39 Leader (A (AppendTo 2)),
     Ev 2 28 Leader (A HeartBeat),
     Ev 2 28 Leader (A (AppendTo 0)),
     Ev 1 39 Leader (A (AppendTo 3)),
     Ev 1 39 Leader (A (AppendTo 4)),
     Ev 2 28 Leader (A (AppendTo 1)),
     Ev 2 28 Leader (A (AppendTo 3)),
     Ev 2 28 Leader (A (AppendTo 4)),
     Ev 2 28 Leader (A (AppendSent 0 [123, 123, 123, 1, 123])),
     Ev 1 39 Leader (A (AppendSent 0 [1, 124, 124, 1, 124])),
     Ev 2 28 Leader (A (AppendSent 3 [123, 123, 123, 1, 123])),
     Ev 1 39 Leader (A (AppendSent 2 [1, 124, 124, 1, 124])),
     Ev 1 39 Leader (A (AppendSent 3 [1, 124, 124, 1, 124])),
     Ev 1 39 Leader (A (AppendSent 4 [1, 124, 124, 1, 124])),
     Ev 2 28 Leader (A (AppendSent 1 [123, 123, 123, 1, 123])),
     Ev 2 28 Leader (A (AppendSent 4 [123, 123, 123, 1, 123])),
     Ev 1 39 Leader (A (AppendNotOk 3)),
     Ev 2 28 Leader (A (AppendNotOk 3)),
     Ev 1 39 Leader (A (AppendNotOk 4)),
     Ev 0 41 Follower (E (VoteReply 3 40 False)),
     Ev 0 41 Follower (E (Indices 1 1)),
     Ev 0 41 Follower (E (CheckElection 0 5)),
     Ev 0 41 Follower (E NotCandidate),
     Ev 1 39 Leader (A (AppendNotOk 0)),
     Ev 2 28 Leader (A (AppendNotOk 0)),
     Ev 1 39 Leader (A (AppendNotOk 2)),
     Ev 2 28 Leader (A (AppendNotOk 4)),
     Ev 2 28 Leader (A (AppendNotOk 1)),
     Ev 1 39 Leader (A HeartBeat),
     Ev 1 39 Leader (A (AppendTo 0)),
     Ev 1 39 Leader (A (AppendTo 2)),
     Ev 1 39 Leader (A (AppendTo 3)),
     Ev 1 39 Leader (A (AppendTo 4)),
     Ev 1 39 Leader (A (AppendSent 4 [1, 124, 124, 1, 124])),
     Ev 1 39 Leader (A (AppendSent 2 [1, 124, 124, 1, 124])),
     Ev 1 39 Leader (A (AppendSent 0 [1, 124, 124, 1, 124])),
     Ev 2 28 Leader (A HeartBeat),
     Ev 2 28 Leader (A (AppendTo 0)),
     Ev 2 28 Leader (A (AppendTo 1)),
     Ev 2 28 Leader (A (AppendTo 3)),
     Ev 2 28 Leader (A (AppendTo 4)),
     Ev 2 28 Leader (A (AppendSent 0 [123, 123, 123, 1, 123])),
     Ev 2 28 Leader (A (AppendSent 3 [123, 123, 123, 1, 123])),
     Ev 2 28 Leader (A (AppendSent 4 [123, 123, 123, 1, 123])),
     Ev 1 39 Leader (A (AppendSent 3 [1, 124, 124, 1, 124])),
     Ev 2 28 Leader (A (AppendSent 1 [123, 123, 123, 1, 123])),
     Ev 2 28 Leader (A (AppendNotOk 0)),
     Ev 2 28 Leader (A (AppendNotOk 1)),
     Ev 2 28 Leader (A (AppendNotOk 3)),
     Ev 1 39 Leader (A (AppendNotOk 0)),
     Ev 1 39 Leader (A (AppendNotOk 4)),
     Ev 1 39 Leader (A (AppendNotOk 3)),
     Ev 1 39 Leader (A (AppendNotOk 2)),
     Ev 2 28 Leader (A (AppendNotOk 4)),
     Ev 1 39 Leader (A HeartBeat),
     Ev 1 39 Leader (A (AppendTo 0)),
     Ev 1 39 Leader (A (AppendTo 2)),
     Ev 1 39 Leader (A (AppendTo 3)),
     Ev 1 39 Leader (A (AppendTo 4)),
     Ev 1 39 Leader (A (AppendSent 4 [1, 124, 124, 1, 124])),
     Ev 2 28 Leader (A HeartBeat),
     Ev 2 28 Leader (A (AppendTo 0)),
     Ev 2 28 Leader (A (AppendTo 1)),
     Ev 2 28 Leader (A (AppendTo 3)),
     Ev 2 28 Leader (A (AppendTo 4)),
     Ev 2 28 Leader (A (AppendSent 4 [123, 123, 123, 1, 123])),
     Ev 1 39 Leader (A (AppendSent 0 [1, 124, 124, 1, 124])),
     Ev 1 39 Leader (A (AppendSent 3 [1, 124, 124, 1, 124])),
     Ev 2 28 Leader (A (AppendSent 1 [123, 123, 123, 1, 123])),
     Ev 1 39 Leader (A (AppendSent 2 [1, 124, 124, 1, 124])),
     Ev 2 28 Leader (A (AppendSent 3 [123, 123, 123, 1, 123])),
     Ev 2 28 Leader (A (AppendSent 0 [123, 123, 123, 1, 123])),
     Ev 2 28 Leader (A (AppendNotOk 3)),
     Ev 1 39 Leader (A (AppendNotOk 0)),
     Ev 2 28 Leader (A (AppendNotOk 1)),
     Ev 2 28 Leader (A (AppendNotOk 4)),
     Ev 1 39 Leader (A (AppendNotOk 4)),
     Ev 1 39 Leader (A (AppendNotOk 3)),
     Ev 1 39 Leader (A (AppendNotOk 2)),
     Ev 2 28 Leader (A HeartBeat),
     Ev 2 28 Leader (A (AppendTo 0)),
     Ev 2 28 Leader (A (AppendTo 1)),
     Ev 2 28 Leader (A (AppendTo 3)),
     Ev 2 28 Leader (A (AppendTo 4)),
     Ev 2 28 Leader (A (AppendNotOk 0)),
     Ev 2 28 Leader (A (AppendSent 0 [123, 123, 123, 1, 123])),
     Ev 2 28 Leader (A (AppendSent 3 [123, 123, 123, 1, 123])),
     Ev 1 39 Leader (A HeartBeat),
     Ev 1 39 Leader (A (AppendTo 0)),
     Ev 1 39 Leader (A (AppendTo 2)),
     Ev 1 39 Leader (A (AppendTo 3)),
     Ev 1 39 Leader (A (AppendTo 4)),
     Ev 1 39 Leader (A (AppendSent 4 [1, 124, 124, 1, 124])),
     Ev 1 39 Leader (A (AppendSent 2 [1, 124, 124, 1, 124])),
     Ev 1 39 Leader (A (AppendSent 0 [1, 124, 124, 1, 124])),
     Ev 1 39 Leader (A (AppendSent 3 [1, 124, 124, 1, 124])),
     Ev 2 28 Leader (A (AppendSent 1 [123, 123, 123, 1, 123])),
     Ev 2 28 Leader (A (AppendSent 4 [123, 123, 123, 1, 123])),
     Ev 2 28 Leader (A (AppendNotOk 0)),
     Ev 1 39 Leader (A (AppendNotOk 4)),
     Ev 2 28 Leader (A (AppendNotOk 3)),
     Ev 1 39 Leader (A (AppendNotOk 3)),
     Ev 2 28 Leader (A (AppendNotOk 1)),
     Ev 1 39 Leader (A (AppendNotOk 0)),
     Ev 2 28 Leader (A (AppendNotOk 4)),
     Ev 1 39 Leader (A (AppendNotOk 2)),
     Ev 1 39 Leader (A HeartBeat),
     Ev 1 39 Leader (A (AppendTo 0)),
     Ev 1 39 Leader (A (AppendTo 2)),
     Ev 1 39 Leader (A (AppendTo 3)),
     Ev 2 28 Leader (A HeartBeat)]"

definition run_47 :: "line list" where
  "run_47 = [
     Ev 2 28 Leader (A (AppendTo 0)),
     Ev 1 39 Leader (A (AppendTo 4)),
     Ev 2 28 Leader (A (AppendTo 1)),
     Ev 2 28 Leader (A (AppendTo 3)),
     Ev 2 28 Leader (A (AppendTo 4)),
     Ev 1 39 Leader (A (AppendSent 3 [1, 124, 124, 1, 124])),
     Ev 2 28 Leader (A (AppendSent 4 [123, 123, 123, 1, 123])),
     Ev 1 39 Leader (A (AppendSent 0 [1, 124, 124, 1, 124])),
     Ev 4 41 Candidate (E (VoteReply 0 41 True)),
     Ev 4 41 Candidate (E (Indices 122 122)),
     Ev 4 41 Candidate (E (VoteGained 0)),
     Ev 4 41 Candidate (E (CheckElection 2 5)),
     Ev 1 39 Leader (A (AppendSent 2 [1, 124, 124, 1, 124])),
     Ev 2 28 Leader (A (AppendSent 0 [123, 123, 123, 1, 123])),
     Ev 1 39 Leader (A (AppendSent 4 [1, 124, 124, 1, 124])),
     Ev 2 28 Leader (A (AppendSent 1 [123, 123, 123, 1, 123])),
     Ev 2 28 Leader (A (AppendSent 3 [123, 123, 123, 1, 123])),
     Ev 1 39 Leader (A (AppendNotOk 0)),
     Ev 1 39 Leader (A (AppendNotOk 4)),
     Ev 2 28 Leader (A (AppendNotOk 0)),
     Ev 2 28 Leader (A (AppendNotOk 3)),
     Ev 1 39 Leader (A (AppendNotOk 3)),
     Ev 1 39 Leader (A (AppendNotOk 2)),
     Ev 2 28 Leader (A (AppendNotOk 1)),
     Ev 2 28 Leader (A (AppendNotOk 4)),
     Ev 2 28 Leader (A HeartBeat),
     Ev 2 28 Leader (A (AppendTo 0)),
     Ev 2 28 Leader (A (AppendTo 1)),
     Ev 2 28 Leader (A (AppendTo 3)),
     Ev 2 28 Leader (A (AppendTo 4)),
     Ev 2 28 Leader (A (AppendSent 4 [123, 123, 123, 1, 123])),
     Ev 4 41 Candidate (E StartElection),
     Ev 2 28 Leader (A (AppendSent 0 [123, 123, 123, 1, 123])),
     Ev 1 39 Leader (A HeartBeat),
     Ev 1 39 Leader (A (AppendTo 0)),
     Ev 1 39 Leader (A (AppendTo 2)),
     Ev 1 39 Leader (A (AppendTo 3)),
     Ev 1 39 Leader (A (AppendTo 4)),
     Ev 2 28 Leader (A (AppendSent 1 [123, 123, 123, 1, 123])),
     Ev 2 28 Leader (A (AppendSent 3 [123, 123, 123, 1, 123])),
     Ev 1 39 Leader (A (AppendSent 4 [1, 124, 124, 1, 124])),
     Ev 1 39 Leader (A (AppendSent 0 [1, 124, 124, 1, 124])),
     Ev 1 39 Leader (A (AppendSent 2 [1, 124, 124, 1, 124])),
     Ev 4 42 Candidate (E BecomeCandidate),
     Ev 4 42 Candidate (E (RequestVoteTo 0)),
     Ev 4 42 Candidate (E (RequestVoteTo 1)),
     Ev 4 42 Candidate (E (RequestVoteTo 2)),
     Ev 4 42 Candidate (E (RequestVoteTo 3)),
     Ev 1 39 Leader (A (AppendSent 3 [1, 124, 124, 1, 124])),
     Ev 4 42 Candidate (E (VoteNotOk 2)),
     Ev 2 28 Leader (A (AppendNotOk 3)),
     Ev 1 39 Leader (A (AppendNotOk 0)),
     Ev 1 39 Leader (A (AppendNotOk 3)),
     Ev 2 28 Leader (A (AppendNotOk 1)),
     Ev 0 41 Follower (E (VoteRequested 4 4 42)),
     Ev 3 41 Follower (E (VoteRequested 4 4 42)),
     Ev 0 41 Follower (E (VoteArgs 42 520 9 133 134)),
     Ev 3 41 Follower (E (VoteArgs 42 520 14 123 124)),
     Ev 0 41 Follower (E (Indices 1 1)),
     Ev 3 41 Follower (E (Indices 1 1)),
     Ev 0 41 Follower (E (TermLower 4)),
     Ev 3 41 Follower (E (TermLower 4)),
     Ev 0 42 Follower (E (LogTerms 9 16 133 520)),
     Ev 3 42 Follower (E (LogTerms 14 16 123 520)),
     Ev 0 42 Follower (E (VoteGranted 42 520 9 133 134)),
     Ev 0 42 Follower (E (Indices 1 1)),
     Ev 3 42 Follower (E (VoteGranted 42 520 14 123 124)),
     Ev 3 42 Follower (E (Indices 1 1)),
     Ev 1 39 Leader (A (AppendNotOk 2)),
     Ev 2 28 Leader (A (AppendNotOk 4)),
     Ev 1 39 Leader (A (AppendNotOk 4)),
     Ev 4 42 Candidate (E (VoteNotOk 1)),
     Ev 2 28 Leader (A HeartBeat),
     Ev 2 28 Leader (A (AppendTo 0)),
     Ev 2 28 Leader (A (AppendTo 1)),
     Ev 2 28 Leader (A (AppendTo 3)),
     Ev 2 28 Leader (A (AppendTo 4)),
     Ev 2 28 Leader (A (AppendSent 0 [123, 123, 123, 1, 123])),
     Ev 2 28 Leader (A (AppendNotOk 0)),
     Ev 2 28 Leader (A (AppendSent 4 [123, 123, 123, 1, 123])),
     Ev 1 39 Leader (A HeartBeat),
     Ev 1 39 Leader (A (AppendTo 0)),
     Ev 1 39 Leader (A (AppendTo 2)),
     Ev 1 39 Leader (A (AppendTo 3)),
     Ev 1 39 Leader (A (AppendTo 4)),
     Ev 1 39 Leader (A (AppendSent 4 [1, 124, 124, 1, 124])),
     Ev 1 39 Leader (A (AppendSent 2 [1, 124, 124, 1, 124])),
     Ev 1 39 Leader (A (AppendSent 3 [1, 124, 124, 1, 124])),
     Ev 1 39 Leader (A (AppendSent 0 [1, 124, 124, 1, 124])),
     Ev 2 28 Leader (A (AppendSent 1 [123, 123, 123, 1, 123])),
     Ev 2 28 Leader (A (AppendSent 3 [123, 123, 123, 1, 123])),
     Ev 1 39 Leader (A (AppendNotOk 2)),
     Ev 2 28 Leader (A (AppendNotOk 4)),
     Ev 2 28 Leader (A (AppendNotOk 3)),
     Ev 2 28 Leader (A (AppendNotOk 1)),
     Ev 1 39 Leader (A (AppendNotOk 4)),
     Ev 1 39 Leader (A (AppendNotOk 0)),
     Ev 2 28 Leader (A (AppendNotOk 0)),
     Ev 1 39 Leader (A (AppendNotOk 3)),
     Ev 1 39 Leader (A HeartBeat),
     Ev 1 39 Leader (A (AppendTo 0)),
     Ev 1 39 Leader (A (AppendTo 2)),
     Ev 1 39 Leader (A (AppendTo 3)),
     Ev 2 28 Leader (A HeartBeat),
     Ev 2 28 Leader (A (AppendTo 0)),
     Ev 2 28 Leader (A (AppendTo 1)),
     Ev 2 28 Leader (A (AppendTo 3)),
     Ev 2 28 Leader (A (AppendTo 4)),
     Ev 1 39 Leader (A (AppendTo 4)),
     Ev 2 28 Leader (A (AppendSent 4 [123, 123, 123, 1, 123])),
     Ev 1 39 Leader (A (AppendSent 3 [1, 124, 124, 1, 124])),
     Ev 2 28 Leader (A (AppendSent 1 [123, 123, 123, 1, 123])),
     Ev 1 39 Leader (A (AppendSent 4 [1, 124, 124, 1, 124])),
     Ev 2 28 Leader (A (AppendSent 3 [123, 123, 123, 1, 123])),
     Ev 1 39 Leader (A (AppendSent 2 [1, 124, 124, 1, 124])),
     Ev 2 28 Leader (A (AppendSent 0 [123, 123, 123, 1, 123])),
     Ev 1 39 Leader (A (AppendSent 0 [1, 124, 124, 1, 124])),
     Ev 1 39 Leader (A (AppendNotOk 0)),
     Ev 1 39 Leader (A (AppendNotOk 3)),
     Ev 2 28 Leader (A (AppendNotOk 1)),
     Ev 2 28 Leader (A (AppendNotOk 3)),
     Ev 2 28 Leader (A (AppendNotOk 0)),
     Ev 2 28 Leader (A (AppendNotOk 4)),
     Ev 1 39 Leader (A (AppendNotOk 2)),
     Ev 1 39 Leader (A (AppendNotOk 4)),
     Ev 1 39 Leader (A HeartBeat),
     Ev 1 39 Leader (A (AppendTo 0)),
     Ev 2 28 Leader (A HeartBeat),
     Ev 2 28 Leader (A (AppendTo 0)),
     Ev 1 39 Leader (A (AppendTo 2)),
     Ev 1 39 Leader (A (AppendTo 3)),
     Ev 1 39 Leader (A (AppendTo 4)),
     Ev 2 28 Leader (A (AppendTo 1)),
     Ev 2 28 Leader (A (AppendTo 3)),
     Ev 2 28 Leader (A (AppendTo 4)),
     Ev 2 28 Leader (A (AppendSent 1 [123, 123, 123, 1, 123])),
     Ev 1 39 Leader (A (AppendSent 0 [1, 124, 124, 1, 124])),
     Ev 1 39 Leader (A (AppendSent 4 [1, 124, 124, 1, 124])),
     Ev 1 39 Leader (A (AppendSent 2 [1, 124, 124, 1, 124])),
     Ev 1 39 Leader (A (AppendSent 3 [1, 124, 124, 1, 124])),
     Ev 2 28 Leader (A (AppendSent 0 [123, 123, 123, 1, 123])),
     Ev 2 28 Leader (A (AppendSent 3 [123, 123, 123, 1, 123])),
     Ev 2 28 Leader (A (AppendSent 4 [123, 123, 123, 1, 123])),
     Ev 2 28 Leader (A (AppendNotOk 3)),
     Ev 1 39 Leader (A (AppendNotOk 4)),
     Ev 2 28 Leader (A (AppendNotOk 1)),
     Ev 1 39 Leader (A (AppendNotOk 3)),
     Ev 2 28 Leader (A (AppendNotOk 4)),
     Ev 1 39 Leader (A (AppendNotOk 0)),
     Ev 2 28 Leader (A (AppendNotOk 0))]"

definition run_48 :: "line list" where
  "run_48 = [
     Ev 2 28 Leader (A HeartBeat),
     Ev 2 28 Leader (A (AppendTo 0)),
     Ev 2 28 Leader (A (AppendTo 1)),
     Ev 2 28 Leader (A (AppendTo 3)),
     Ev 2 28 Leader (A (AppendTo 4)),
     Ev 2 28 Leader (A (AppendSent 4 [123, 123, 123, 1, 123])),
     Ev 2 28 Leader (A (AppendSent 3 [123, 123, 123, 1, 123])),
     Ev 1 39 Leader (A HeartBeat),
     Ev 1 39 Leader (A (AppendTo 0)),
     Ev 1 39 Leader (A (AppendTo 2)),
     Ev 1 39 Leader (A (AppendTo 3)),
     Ev 1 39 Leader (A (AppendTo 4)),
     Ev 1 39 Leader (A (AppendNotOk 2)),
     Ev 1 39 Leader (A (AppendSent 0 [1, 124, 124, 1, 124])),
     Ev 2 28 Leader (A (AppendSent 1 [123, 123, 123, 1, 123])),
     Ev 1 39 Leader (A (AppendSent 4 [1, 124, 124, 1, 124])),
     Ev 2 28 Leader (A (AppendSent 0 [123, 123, 123, 1, 123])),
     Ev 1 39 Leader (A (AppendSent 3 [1, 124, 124, 1, 124])),
     Ev 1 39 Leader (A (AppendSent 2 [1, 124, 124, 1, 124])),
     Ev 1 39 Leader (A (AppendNotOk 2)),
     Ev 1 39 Leader (A (AppendNotOk 0)),
     Ev 2 28 Leader (A (AppendNotOk 0)),
     Ev 2 28 Leader (A (AppendNotOk 3)),
     Ev 2 28 Leader (A (AppendNotOk 4)),
     Ev 2 28 Leader (A (AppendNotOk 1)),
     Ev 2 28 Leader (A HeartBeat),
     Ev 2 28 Leader (A (AppendTo 0)),
     Ev 2 28 Leader (A (AppendTo 1)),
     Ev 2 28 Leader (A (AppendTo 3)),
     Ev 2 28 Leader (A (AppendTo 4)),
     Ev 2 28 Leader (A (AppendSent 4 [123, 123, 123, 1, 123])),
     Ev 1 39 Leader (A (AppendNotOk 3)),
     Ev 1 39 Leader (A (AppendNotOk 4)),
     Ev 1 39 Leader (A HeartBeat),
     Ev 1 39 Leader (A (AppendTo 0)),
     Ev 2 28 Leader (A (AppendSent 0 [123, 123, 123, 1, 123])),
     Ev 1 39 Leader (A (AppendTo 2)),
     Ev 1 39 Leader (A (AppendTo 3)),
     Ev 1 39 Leader (A (AppendTo 4)),
     Ev 2 28 Leader (A (AppendSent 1 [123, 123, 123, 1, 123])),
     Ev 1 39 Leader (A (AppendSent 0 [1, 124, 124, 1, 124])),
     Ev 1 39 Leader (A (AppendSent 4 [1, 124, 124, 1, 124])),
     Ev 2 28 Leader (A (AppendSent 3 [123, 123, 123, 1, 123])),
     Ev 1 39 Leader (A (AppendSent 3 [1, 124, 124, 1, 124])),
     Ev 1 39 Leader (A (AppendSent 2 [1, 124, 124, 1, 124])),
     Ev 2 28 Leader (A (AppendNotOk 3)),
     Ev 2 28 Leader (A (AppendNotOk 4)),
     Ev 1 39 Leader (A (AppendNotOk 2)),
     Ev 1 39 Leader (A (AppendNotOk 3)),
     Ev 1 39 Leader (A (AppendNotOk 0)),
     Ev 2 28 Leader (A (AppendNotOk 0)),
     Ev 2 28 Leader (A (AppendNotOk 1)),
     Ev 1 39 Leader (A (AppendNotOk 4)),
     Ev 2 28 Leader (A HeartBeat),
     Ev 2 28 Leader (A (AppendTo 0)),
     Ev 1 39 Leader (A HeartBeat),
     Ev 1 39 Leader (A (AppendTo 0)),
     Ev 1 39 Leader (A (AppendTo 2)),
     Ev 2 28 Leader (A (AppendTo 1)),
     Ev 3 42 Follower (E StartElection),
     Ev 2 28 Leader (A (AppendTo 3)),
     Ev 2 28 Leader (A (AppendTo 4)),
     Ev 2 28 Leader (A (AppendSent 0 [123, 123, 123, 1, 123])),
     Ev 1 39 Leader (A (AppendTo 3)),
     Ev 1 39 Leader (A (AppendTo 4)),
     Ev 2 28 Leader (A (AppendSent 4 [123, 123, 123, 1, 123])),
     Ev 1 39 Leader (A (AppendSent 2 [1, 124, 124, 1, 124])),
     Ev 3 43 Candidate (E BecomeCandidate),
     Ev 3 43 Candidate (E (RequestVoteTo 0)),
     Ev 3 43 Candidate (E (RequestVoteTo 1)),
     Ev 3 43 Candidate (E (RequestVoteTo 2)),
     Ev 3 43 Candidate (E (RequestVoteTo 4)),
     Ev 1 39 Leader (A (AppendSent 3 [1, 124, 124, 1, 124])),
     Ev 2 28 Leader (A (AppendSent 1 [123, 123, 123, 1, 123])),
     Ev 1 39 Leader (A (AppendSent 4 [1, 124, 124, 1, 124])),
     Ev 2 28 Leader (A (AppendSent 3 [123, 123, 123, 1, 123])),
     Ev 1 39 Leader (A (AppendSent 0 [1, 124, 124, 1, 124])),
     Ev 2 28 Leader (A (AppendNotOk 4)),
     Ev 4 42 Candidate (E (VoteReply 0 42 True)),
     Ev 4 42 Candidate (E (Indices 122 122)),
     Ev 4 42 Candidate (E (VoteGained 0)),
     Ev 4 42 Candidate (E (CheckElection 2 5)),
     Ev 1 39 Leader (A (AppendNotOk 4)),
     Ev 1 39 Leader (A (AppendNotOk 0)),
     Ev 0 42 Follower (E (VoteRequested 4 3 43)),
     Ev 0 42 Follower (E (VoteArgs 43 123 9 133 134)),
     Ev 0 42 Follower (E (Indices 1 1)),
     Ev 0 42 Follower (E (TermLower 3)),
     Ev 0 43 Follower (E (LogTerms 9 14 133 123)),
     Ev 0 43 Follower (E (VoteGranted 43 123 9 133 134)),
     Ev 0 43 Follower (E (Indices 1 1)),
     Ev 4 42 Candidate (E (VoteRequested 4 3 43)),
     Ev 4 42 Candidate (E (VoteArgs 43 123 16 520 521)),
     Ev 4 42 Candidate (E (Indices 122 122)),
     Ev 4 42 Candidate (E (TermLower 3)),
     Ev 4 43 Follower (E (LogTerms 16 14 520 123)),
     Ev 4 43 Follower (E LogOutdated),
     Ev 1 39 Leader (A (AppendNotOk 2)),
     Ev 2 28 Leader (A (AppendNotOk 3)),
     Ev 2 28 Leader (A (AppendNotOk 1)),
     Ev 2 28 Leader (A (AppendNotOk 0)),
     Ev 3 43 Candidate (E (VoteNotOk 2)),
     Ev 3 43 Candidate (E (VoteNotOk 1)),
     Ev 2 28 Leader (A HeartBeat),
     Ev 2 28 Leader (A (AppendTo 0)),
     Ev 2 28 Leader (A (AppendTo 1)),
     Ev 2 28 Leader (A (AppendTo 3)),
     Ev 2 28 Leader (A (AppendTo 4)),
     Ev 2 28 Leader (A (AppendSent 4 [123, 123, 123, 1, 123])),
     Ev 2 28 Leader (A (AppendSent 0 [123, 123, 123, 1, 123])),
     Ev 2 28 Leader (A (AppendSent 1 [123, 123, 123, 1, 123])),
     Ev 2 28 Leader (A (AppendSent 3 [123, 123, 123, 1, 123])),
     Ev 1 39 Leader (A HeartBeat),
     Ev 1 39 Leader (A (AppendTo 0)),
     Ev 1 39 Leader (A (AppendTo 2)),
     Ev 1 39 Leader (A (AppendTo 3)),
     Ev 1 39 Leader (A (AppendTo 4)),
     Ev 1 39 Leader (A (AppendNotOk 3)),
     Ev 1 39 Leader (A (AppendSent 0 [1, 124, 124, 1, 124])),
     Ev 1 39 Leader (A (AppendSent 3 [1, 124, 124, 1, 124])),
     Ev 1 39 Leader (A (AppendSent 4 [1, 124, 124, 1, 124])),
     Ev 1 39 Leader (A (AppendSent 2 [1, 124, 124, 1, 124])),
     Ev 1 39 Leader (A (AppendNotOk 4)),
     Ev 2 28 Leader (A (AppendNotOk 4)),
     Ev 1 39 Leader (A (AppendNotOk 2)),
     Ev 1 39 Leader (A (AppendNotOk 0)),
     Ev 2 28 Leader (A (AppendNotOk 1)),
     Ev 2 28 Leader (A (AppendNotOk 3)),
     Ev 2 28 Leader (A HeartBeat),
     Ev 2 28 Leader (A (AppendTo 0)),
     Ev 1 39 Leader (A (AppendNotOk 3)),
     Ev 2 28 Leader (A (AppendTo 1)),
     Ev 1 39 Leader (A HeartBeat),
     Ev 2 28 Leader (A (AppendTo 3)),
     Ev 1 39 Leader (A (AppendTo 0)),
     Ev 1 39 Leader (A (AppendTo 2)),
     Ev 2 28 Leader (A (AppendTo 4)),
     Ev 2 28 Leader (A (AppendNotOk 0)),
     Ev 1 39 Leader (A (AppendTo 3)),
     Ev 2 28 Leader (A (AppendSent 4 [123, 123, 123, 1, 123])),
     Ev 1 39 Leader (A (AppendTo 4)),
     Ev 2 28 Leader (A (AppendSent 0 [123, 123, 123, 1, 123])),
     Ev 1 39 Leader (A (AppendSent 3 [1, 124, 124, 1, 124])),
     Ev 1 39 Leader (A (AppendSent 2 [1, 124, 124, 1, 124])),
     Ev 1 39 Leader (A (AppendSent 0 [1, 124, 124, 1, 124])),
     Ev 2 28 Leader (A (AppendSent 1 [123, 123, 123, 1, 123])),
     Ev 1 39 Leader (A (AppendSent 4 [1, 124, 124, 1, 124])),
     Ev 2 28 Leader (A (AppendSent 3 [123, 123, 123, 1, 123])),
     Ev 2 28 Leader (A (AppendNotOk 1)),
     Ev 1 39 Leader (A (AppendNotOk 2))]"

definition run_49 :: "line list" where
  "run_49 = [
     Ev 2 28 Leader (A (AppendNotOk 3)),
     Ev 2 28 Leader (A (AppendNotOk 0)),
     Ev 1 39 Leader (A (AppendNotOk 4)),
     Ev 1 39 Leader (A (AppendNotOk 3)),
     Ev 2 28 Leader (A (AppendNotOk 4)),
     Ev 1 39 Leader (A (AppendNotOk 0)),
     Ev 2 28 Leader (A HeartBeat),
     Ev 2 28 Leader (A (AppendTo 0)),
     Ev 1 39 Leader (A HeartBeat),
     Ev 2 28 Leader (A (AppendTo 1)),
     Ev 1 39 Leader (A (AppendTo 0)),
     Ev 1 39 Leader (A (AppendTo 2)),
     Ev 1 39 Leader (A (AppendTo 3)),
     Ev 1 39 Leader (A (AppendTo 4)),
     Ev 2 28 Leader (A (AppendTo 3)),
     Ev 2 28 Leader (A (AppendTo 4)),
     Ev 1 39 Leader (A (AppendSent 4 [1, 124, 124, 1, 124])),
     Ev 1 39 Leader (A (AppendSent 0 [1, 124, 124, 1, 124])),
     Ev 2 28 Leader (A (AppendSent 3 [123, 123, 123, 1, 123])),
     Ev 2 28 Leader (A (AppendSent 1 [123, 123, 123, 1, 123])),
     Ev 1 39 Leader (A (AppendSent 2 [1, 124, 124, 1, 124])),
     Ev 1 39 Leader (A (AppendSent 3 [1, 124, 124, 1, 124])),
     Ev 2 28 Leader (A (AppendSent 0 [123, 123, 123, 1, 123])),
     Ev 2 28 Leader (A (AppendSent 4 [123, 123, 123, 1, 123])),
     Ev 1 39 Leader (A (AppendNotOk 4)),
     Ev 2 28 Leader (A (AppendNotOk 4)),
     Ev 1 39 Leader (A (AppendNotOk 3)),
     Ev 2 28 Leader (A (AppendNotOk 1)),
     Ev 1 39 Leader (A (AppendNotOk 0)),
     Ev 2 28 Leader (A (AppendNotOk 3)),
     Ev 2 28 Leader (A (AppendNotOk 0)),
     Ev 1 39 Leader (A (AppendNotOk 2)),
     Ev 1 39 Leader (A HeartBeat),
     Ev 1 39 Leader (A (AppendTo 0)),
     Ev 1 39 Leader (A (AppendTo 2)),
     Ev 1 39 Leader (A (AppendTo 3)),
     Ev 1 39 Leader (A (AppendTo 4)),
     Ev 1 39 Leader (A (AppendSent 4 [1, 124, 124, 1, 124])),
     Ev 1 39 Leader (A (AppendSent 0 [1, 124, 124, 1, 124])),
     Ev 1 39 Leader (A (AppendSent 2 [1, 124, 124, 1, 124])),
     Ev 2 28 Leader (A HeartBeat),
     Ev 2 28 Leader (A (AppendTo 0)),
     Ev 1 39 Leader (A (AppendSent 3 [1, 124, 124, 1, 124])),
     Ev 2 28 Leader (A (AppendTo 1)),
     Ev 2 28 Leader (A (AppendTo 3)),
     Ev 2 28 Leader (A (AppendTo 4)),
     Ev 2 28 Leader (A (AppendSent 0 [123, 123, 123, 1, 123])),
     Ev 2 28 Leader (A (AppendSent 3 [123, 123, 123, 1, 123])),
     Ev 2 28 Leader (A (AppendSent 1 [123, 123, 123, 1, 123])),
     Ev 2 28 Leader (A (AppendSent 4 [123, 123, 123, 1, 123])),
     Ev 2 28 Leader (A (AppendNotOk 3)),
     Ev 1 39 Leader (A (AppendNotOk 2)),
     Ev 2 28 Leader (A (AppendNotOk 0)),
     Ev 1 39 Leader (A (AppendNotOk 3)),
     Ev 1 39 Leader (A (AppendNotOk 4)),
     Ev 2 28 Leader (A (AppendNotOk 1)),
     Ev 1 39 Leader (A (AppendNotOk 0)),
     Ev 4 43 Follower (E (VoteReply 3 42 True)),
     Ev 4 43 Follower (E (Indices 122 122)),
     Ev 4 43 Follower (E (VoteGained 3)),
     Ev 4 43 Follower (E (CheckElection 0 5)),
     Ev 4 43 Follower (E NotCandidate),
     Ev 2 28 Leader (A (AppendNotOk 4)),
     Ev 2 28 Leader (A HeartBeat),
     Ev 2 28 Leader (A (AppendTo 0)),
     Ev 2 28 Leader (A (AppendTo 1)),
     Ev 1 39 Leader (A HeartBeat),
     Ev 2 28 Leader (A (AppendTo 3)),
     Ev 1 39 Leader (A (AppendTo 0)),
     Ev 1 39 Leader (A (AppendTo 2)),
     Ev 2 28 Leader (A (AppendTo 4)),
     Ev 1 39 Leader (A (AppendTo 3)),
     Ev 1 39 Leader (A (AppendTo 4)),
     Ev 2 28 Leader (A (AppendSent 1 [123, 123, 123, 1, 123])),
     Ev 1 39 Leader (A (AppendSent 3 [1, 124, 124, 1, 124])),
     Ev 2 28 Leader (A (AppendSent 3 [123, 123, 123, 1, 123])),
     Ev 1 39 Leader (A (AppendSent 2 [1, 124, 124, 1, 124])),
     Ev 1 39 Leader (A (AppendSent 0 [1, 124, 124, 1, 124])),
     Ev 1 39 Leader (A (AppendSent 4 [1, 124, 124, 1, 124])),
     Ev 2 28 Leader (A (AppendNotOk 1)),
     Ev 2 28 Leader (A (AppendSent 0 [123, 123, 123, 1, 123])),
     Ev 2 28 Leader (A (AppendSent 4 [123, 123, 123, 1, 123])),
     Ev 3 43 Candidate (E (VoteReply 0 43 True)),
     Ev 3 43 Candidate (E (Indices 1 1)),
     Ev 3 43 Candidate (E (VoteGained 0)),
     Ev 3 43 Candidate (E (CheckElection 2 5)),
     Ev 1 39 Leader (A (AppendNotOk 2)),
     Ev 2 28 Leader (A (AppendNotOk 0)),
     Ev 1 39 Leader (A (AppendNotOk 0)),
     Ev 1 39 Leader (A (AppendNotOk 3)),
     Ev 2 28 Leader (A (AppendNotOk 4)),
     Ev 2 28 Leader (A (AppendNotOk 3)),
     Ev 1 39 Leader (A (AppendNotOk 4)),
     Ev 1 39 Leader (A HeartBeat),
     Ev 1 39 Leader (A (AppendTo 0)),
     Ev 1 39 Leader (A (AppendTo 2)),
     Ev 3 43 Candidate (E StartElection),
     Ev 2 28 Leader (A HeartBeat),
     Ev 2 28 Leader (A (AppendTo 0)),
     Ev 1 39 Leader (A (AppendTo 3)),
     Ev 2 28 Leader (A (AppendTo 1)),
     Ev 1 39 Leader (A (AppendTo 4)),
     Ev 2 28 Leader (A (AppendTo 3)),
     Ev 2 28 Leader (A (AppendTo 4)),
     Ev 1 39 Leader (A (AppendSent 2 [1, 124, 124, 1, 124])),
     Ev 2 28 Leader (A (AppendSent 0 [123, 123, 123, 1, 123])),
     Ev 3 44 Candidate (E BecomeCandidate),
     Ev 3 44 Candidate (E (RequestVoteTo 0)),
     Ev 3 44 Candidate (E (RequestVoteTo 1)),
     Ev 3 44 Candidate (E (RequestVoteTo 2)),
     Ev 3 44 Candidate (E (RequestVoteTo 4)),
     Ev 1 39 Leader (A (AppendSent 4 [1, 124, 124, 1, 124])),
     Ev 1 39 Leader (A (AppendSent 0 [1, 124, 124, 1, 124])),
     Ev 2 28 Leader (A (AppendSent 3 [123, 123, 123, 1, 123])),
     Ev 2 28 Leader (A (AppendSent 4 [123, 123, 123, 1, 123])),
     Ev 1 39 Leader (A (AppendSent 3 [1, 124, 124, 1, 124])),
     Ev 2 28 Leader (A (AppendSent 1 [123, 123, 123, 1, 123])),
     Ev 3 44 Candidate (E (VoteNotOk 4)),
     Ev 2 28 Leader (A (AppendNotOk 3)),
     Ev 1 39 Leader (A (AppendNotOk 2)),
     Ev 1 39 Leader (A (AppendNotOk 4)),
     Ev 1 39 Leader (A (AppendNotOk 3)),
     Ev 0 43 Follower (E (VoteRequested 3 3 44)),
     Ev 0 43 Follower (E (VoteArgs 44 123 9 133 134)),
     Ev 0 43 Follower (E (Indices 1 1)),
     Ev 0 43 Follower (E (TermLower 3)),
     Ev 0 44 Follower (E (LogTerms 9 14 133 123)),
     Ev 0 44 Follower (E (VoteGranted 44 123 9 133 134)),
     Ev 0 44 Follower (E (Indices 1 1)),
     Ev 3 44 Candidate (E (VoteReply 0 44 True)),
     Ev 3 44 Candidate (E (Indices 1 1)),
     Ev 3 44 Candidate (E (VoteGained 0)),
     Ev 3 44 Candidate (E (CheckElection 2 5)),
     Ev 1 39 Leader (A (AppendNotOk 0)),
     Ev 2 28 Leader (A (AppendNotOk 4)),
     Ev 3 44 Candidate (E (VoteNotOk 1)),
     Ev 2 28 Leader (A (AppendNotOk 0)),
     Ev 2 28 Leader (A (AppendNotOk 1)),
     Ev 4 43 Follower (E StartElection),
     Ev 2 28 Leader (A HeartBeat),
     Ev 3 44 Candidate (E (VoteNotOk 2)),
     Ev 2 28 Leader (A (AppendTo 0)),
     Ev 2 28 Leader (A (AppendTo 1)),
     Ev 2 28 Leader (A (AppendTo 3)),
     Ev 2 28 Leader (A (AppendTo 4)),
     Ev 1 39 Leader (A HeartBeat),
     Ev 1 39 Leader (A (AppendTo 0)),
     Ev 1 39 Leader (A (AppendTo 2)),
     Ev 2 28 Leader (A (AppendSent 4 [123, 123, 123, 1, 123])),
     Ev 1 39 Leader (A (AppendTo 3))]"

definition run_50 :: "line list" where
  "run_50 = [
     Ev 1 39 Leader (A (AppendTo 4)),
     Ev 2 28 Leader (A (AppendSent 1 [123, 123, 123, 1, 123])),
     Ev 1 39 Leader (A (AppendSent 2 [1, 124, 124, 1, 124])),
     Ev 1 39 Leader (A (AppendSent 0 [1, 124, 124, 1, 124])),
     Ev 2 28 Leader (A (AppendSent 0 [123, 123, 123, 1, 123])),
     Ev 4 44 Candidate (E BecomeCandidate),
     Ev 4 44 Candidate (E (RequestVoteTo 0)),
     Ev 4 44 Candidate (E (RequestVoteTo 1)),
     Ev 4 44 Candidate (E (RequestVoteTo 2)),
     Ev 4 44 Candidate (E (RequestVoteTo 3)),
     Ev 1 39 Leader (A (AppendSent 3 [1, 124, 124, 1, 124])),
     Ev 2 28 Leader (A (AppendSent 3 [123, 123, 123, 1, 123])),
     Ev 1 39 Leader (A (AppendSent 4 [1, 124, 124, 1, 124])),
     Ev 4 44 Candidate (E (VoteNotOk 1)),
     Ev 3 44 Candidate (E (VoteReply 4 43 False)),
     Ev 3 44 Candidate (E (Indices 1 1)),
     Ev 3 44 Candidate (E (CheckElection 2 5)),
     Ev 2 28 Leader (A (AppendNotOk 4)),
     Ev 3 44 Candidate (E (VoteRequested 3 4 44)),
     Ev 3 44 Candidate (E (VoteArgs 44 520 14 123 124)),
     Ev 3 44 Candidate (E (Indices 1 1)),
     Ev 3 44 Candidate (E (LogTerms 14 16 123 520)),
     Ev 3 44 Candidate (E RefuseVote),
     Ev 0 44 Follower (E (VoteRequested 3 4 44)),
     Ev 0 44 Follower (E (VoteArgs 44 520 9 133 134)),
     Ev 0 44 Follower (E (Indices 1 1)),
     Ev 0 44 Follower (E (LogTerms 9 16 133 520)),
     Ev 0 44 Follower (E RefuseVote),
     Ev 1 39 Leader (A (AppendNotOk 0)),
     Ev 4 44 Candidate (E (VoteReply 0 44 False)),
     Ev 4 44 Candidate (E (Indices 122 122)),
     Ev 4 44 Candidate (E (CheckElection 1 5)),
     Ev 1 39 Leader (A (AppendNotOk 3)),
     Ev 2 28 Leader (A (AppendNotOk 3)),
     Ev 2 28 Leader (A (AppendNotOk 1)),
     Ev 2 28 Leader (A (AppendNotOk 0)),
     Ev 4 44 Candidate (E (VoteNotOk 2)),
     Ev 1 39 Leader (A (AppendNotOk 2)),
     Ev 1 39 Leader (A (AppendNotOk 4)),
     Ev 2 28 Leader (A HeartBeat),
     Ev 1 39 Leader (A HeartBeat),
     Ev 2 28 Leader (A (AppendTo 0)),
     Ev 1 39 Leader (A (AppendTo 0)),
     Ev 2 28 Leader (A (AppendTo 1)),
     Ev 2 28 Leader (A (AppendTo 3)),
     Ev 2 28 Leader (A (AppendTo 4)),
     Ev 1 39 Leader (A (AppendTo 2)),
     Ev 1 39 Leader (A (AppendTo 3)),
     Ev 1 39 Leader (A (AppendTo 4)),
     Ev 2 28 Leader (A (AppendSent 4 [123, 123, 123, 1, 123])),
     Ev 1 39 Leader (A (AppendSent 0 [1, 124, 124, 1, 124])),
     Ev 2 28 Leader (A (AppendSent 1 [123, 123, 123, 1, 123])),
     Ev 2 28 Leader (A (AppendSent 3 [123, 123, 123, 1, 123])),
     Ev 1 39 Leader (A (AppendSent 2 [1, 124, 124, 1, 124])),
     Ev 1 39 Leader (A (AppendSent 3 [1, 124, 124, 1, 124])),
     Ev 2 28 Leader (A (AppendSent 0 [123, 123, 123, 1, 123])),
     Ev 1 39 Leader (A (AppendSent 4 [1, 124, 124, 1, 124])),
     Ev 2 28 Leader (A (AppendNotOk 3)),
     Ev 2 28 Leader (A (AppendNotOk 0)),
     Ev 2 28 Leader (A (AppendNotOk 4)),
     Ev 1 39 Leader (A (AppendNotOk 0)),
     Ev 2 28 Leader (A (AppendNotOk 1)),
     Ev 1 39 Leader (A (AppendNotOk 4)),
     Ev 1 39 Leader (A (AppendNotOk 2)),
     Ev 2 28 Leader (A HeartBeat),
     Ev 2 28 Leader (A (AppendTo 0)),
     Ev 2 28 Leader (A (AppendTo 1)),
     Ev 2 28 Leader (A (AppendTo 3)),
     Ev 2 28 Leader (A (AppendTo 4)),
     Ev 1 39 Leader (A (AppendNotOk 3)),
     Ev 2 28 Leader (A (AppendSent 4 [123, 123, 123, 1, 123])),
     Ev 1 39 Leader (A HeartBeat),
     Ev 1 39 Leader (A (AppendTo 0)),
     Ev 1 39 Leader (A (AppendTo 2)),
     Ev 1 39 Leader (A (AppendTo 3)),
     Ev 1 39 Leader (A (AppendTo 4)),
     Ev 1 39 Leader (A (AppendSent 4 [1, 124, 124, 1, 124])),
     Ev 1 39 Leader (A (AppendSent 0 [1, 124, 124, 1, 124])),
     Ev 2 28 Leader (A (AppendSent 0 [123, 123, 123, 1, 123])),
     Ev 1 39 Leader (A (AppendSent 2 [1, 124, 124, 1, 124])),
     Ev 2 28 Leader (A (AppendSent 1 [123, 123, 123, 1, 123])),
     Ev 1 39 Leader (A (AppendSent 3 [1, 124, 124, 1, 124])),
     Ev 2 28 Leader (A (AppendSent 3 [123, 123, 123, 1, 123])),
     Ev 1 39 Leader (A (AppendNotOk 3)),
     Ev 2 28 Leader (A (AppendNotOk 3)),
     Ev 1 39 Leader (A (AppendNotOk 4)),
     Ev 1 39 Leader (A (AppendNotOk 2)),
     Ev 1 39 Leader (A (AppendNotOk 0)),
     Ev 2 28 Leader (A (AppendNotOk 4)),
     Ev 2 28 Leader (A (AppendNotOk 1)),
     Ev 2 28 Leader (A HeartBeat),
     Ev 2 28 Leader (A (AppendTo 0)),
     Ev 2 28 Leader (A (AppendTo 1)),
     Ev 2 28 Leader (A (AppendTo 3)),
     Ev 2 28 Leader (A (AppendTo 4)),
     Ev 2 28 Leader (A (AppendNotOk 0)),
     Ev 1 39 Leader (A HeartBeat),
     Ev 1 39 Leader (A (AppendTo 0)),
     Ev 1 39 Leader (A (AppendTo 2)),
     Ev 1 39 Leader (A (AppendTo 3)),
     Ev 1 39 Leader (A (AppendTo 4)),
     Ev 2 28 Leader (A (AppendSent 4 [123, 123, 123, 1, 123])),
     Ev 1 39 Leader (A (AppendSent 4 [1, 124, 124, 1, 124])),
     Ev 1 39 Leader (A (AppendSent 0 [1, 124, 124, 1, 124])),
     Ev 2 28 Leader (A (AppendSent 0 [123, 123, 123, 1, 123])),
     Ev 1 39 Leader (A (AppendSent 2 [1, 124, 124, 1, 124])),
     Ev 2 28 Leader (A (AppendSent 1 [123, 123, 123, 1, 123])),
     Ev 1 39 Leader (A (AppendSent 3 [1, 124, 124, 1, 124])),
     Ev 2 28 Leader (A (AppendSent 3 [123, 123, 123, 1, 123])),
     Ev 2 28 Leader (A (AppendNotOk 0)),
     Ev 1 39 Leader (A (AppendNotOk 4)),
     Ev 2 28 Leader (A (AppendNotOk 1)),
     Ev 2 28 Leader (A (AppendNotOk 3)),
     Ev 1 39 Leader (A (AppendNotOk 0)),
     Ev 1 39 Leader (A (AppendNotOk 3)),
     Ev 2 28 Leader (A (AppendNotOk 4)),
     Ev 1 39 Leader (A (AppendNotOk 2)),
     Ev 2 28 Leader (A HeartBeat),
     Ev 2 28 Leader (A (AppendTo 0)),
     Ev 2 28 Leader (A (AppendTo 1)),
     Ev 2 28 Leader (A (AppendTo 3)),
     Ev 2 28 Leader (A (AppendTo 4)),
     Ev 1 39 Leader (A HeartBeat),
     Ev 1 39 Leader (A (AppendTo 0)),
     Ev 2 28 Leader (A (AppendSent 4 [123, 123, 123, 1, 123])),
     Ev 1 39 Leader (A (AppendTo 2)),
     Ev 1 39 Leader (A (AppendTo 3)),
     Ev 1 39 Leader (A (AppendTo 4)),
     Ev 1 39 Leader (A (AppendSent 4 [1, 124, 124, 1, 124])),
     Ev 1 39 Leader (A (AppendSent 0 [1, 124, 124, 1, 124])),
     Ev 2 28 Leader (A (AppendSent 1 [123, 123, 123, 1, 123])),
     Ev 1 39 Leader (A (AppendSent 3 [1, 124, 124, 1, 124])),
     Ev 1 39 Leader (A (AppendSent 2 [1, 124, 124, 1, 124])),
     Ev 2 28 Leader (A (AppendSent 0 [123, 123, 123, 1, 123])),
     Ev 2 28 Leader (A (AppendSent 3 [123, 123, 123, 1, 123])),
     Ev 2 28 Leader (A (AppendNotOk 1)),
     Ev 2 28 Leader (A (AppendNotOk 4)),
     Ev 1 39 Leader (A (AppendNotOk 4)),
     Ev 4 44 Candidate (E (VoteReply 3 44 False)),
     Ev 4 44 Candidate (E (Indices 122 122)),
     Ev 4 44 Candidate (E (CheckElection 1 5)),
     Ev 1 39 Leader (A (AppendNotOk 0)),
     Ev 2 28 Leader (A (AppendNotOk 3)),
     Ev 2 28 Leader (A (AppendNotOk 0)),
     Ev 1 39 Leader (A (AppendNotOk 3)),
     Ev 1 39 Leader (A (AppendNotOk 2)),
     Ev 1 39 Leader (A HeartBeat),
     Ev 1 39 Leader (A (AppendTo 0)),
     Ev 1 39 Leader (A (AppendTo 2)),
     Ev 1 39 Leader (A (AppendTo 3))]"

definition run_51 :: "line list" where
  "run_51 = [
     Ev 1 39 Leader (A (AppendTo 4)),
     Ev 2 28 Leader (A HeartBeat),
     Ev 2 28 Leader (A (AppendTo 0)),
     Ev 2 28 Leader (A (AppendTo 1)),
     Ev 2 28 Leader (A (AppendTo 3)),
     Ev 2 28 Leader (A (AppendTo 4)),
     Ev 2 28 Leader (A (AppendSent 4 [123, 123, 123, 1, 123])),
     Ev 1 39 Leader (A (AppendSent 0 [1, 124, 124, 1, 124])),
     Ev 2 28 Leader (A (AppendSent 3 [123, 123, 123, 1, 123])),
     Ev 2 28 Leader (A (AppendSent 1 [123, 123, 123, 1, 123])),
     Ev 2 28 Leader (A (AppendSent 0 [123, 123, 123, 1, 123])),
     Ev 1 39 Leader (A (AppendSent 4 [1, 124, 124, 1, 124])),
     Ev 1 39 Leader (A (AppendSent 2 [1, 124, 124, 1, 124])),
     Ev 1 39 Leader (A (AppendSent 3 [1, 124, 124, 1, 124])),
     Ev 2 28 Leader (A (AppendNotOk 4)),
     Ev 2 28 Leader (A (AppendNotOk 0)),
     Ev 1 39 Leader (A (AppendNotOk 3)),
     Ev 2 28 Leader (A (AppendNotOk 1)),
     Ev 2 28 Leader (A (AppendNotOk 3)),
     Ev 1 39 Leader (A (AppendNotOk 0)),
     Ev 2 28 Leader (A HeartBeat),
     Ev 2 28 Leader (A (AppendTo 0)),
     Ev 2 28 Leader (A (AppendTo 1)),
     Ev 2 28 Leader (A (AppendTo 3)),
     Ev 2 28 Leader (A (AppendTo 4)),
     Ev 2 28 Leader (A (AppendSent 4 [123, 123, 123, 1, 123])),
     Ev 2 28 Leader (A (AppendSent 0 [123, 123, 123, 1, 123])),
     Ev 1 39 Leader (A HeartBeat),
     Ev 1 39 Leader (A (AppendTo 0)),
     Ev 1 39 Leader (A (AppendTo 2)),
     Ev 2 28 Leader (A (AppendSent 1 [123, 123, 123, 1, 123])),
     Ev 1 39 Leader (A (AppendTo 3)),
     Ev 1 39 Leader (A (AppendTo 4)),
     Ev 1 39 Leader (A (AppendNotOk 4)),
     Ev 1 39 Leader (A (AppendNotOk 2)),
     Ev 1 39 Leader (A (AppendSent 2 [1, 124, 124, 1, 124])),
     Ev 1 39 Leader (A (AppendSent 4 [1, 124, 124, 1, 124])),
     Ev 2 28 Leader (A (AppendSent 3 [123, 123, 123, 1, 123])),
     Ev 1 39 Leader (A (AppendSent 0 [1, 124, 124, 1, 124])),
     Ev 1 39 Leader (A (AppendSent 3 [1, 124, 124, 1, 124])),
     Ev 2 28 Leader (A (AppendNotOk 4)),
     Ev 2 28 Leader (A (AppendNotOk 0)),
     Ev 2 28 Leader (A (AppendNotOk 1)),
     Ev 1 39 Leader (A (AppendNotOk 2)),
     Ev 1 39 Leader (A (AppendNotOk 0)),
     Ev 1 39 Leader (A (AppendNotOk 4)),
     Ev 2 28 Leader (A (AppendNotOk 3)),
     Ev 1 39 Leader (A (AppendNotOk 3)),
     Ev 2 28 Leader (A HeartBeat),
     Ev 2 28 Leader (A (AppendTo 0)),
     Ev 0 44 Follower (E StartElection),
     Ev 3 44 Candidate (E StartElection),
     Ev 1 39 Leader (A HeartBeat),
     Ev 1 39 Leader (A (AppendTo 0)),
     Ev 1 39 Leader (A (AppendTo 2)),
     Ev 1 39 Leader (A (AppendTo 3)),
     Ev 1 39 Leader (A (AppendTo 4)),
     Ev 1 39 Leader (A (AppendSent 4 [1, 124, 124, 1, 124])),
     Ev 3 45 Candidate (E BecomeCandidate),
     Ev 3 45 Candidate (E (RequestVoteTo 0)),
     Ev 3 45 Candidate (E (RequestVoteTo 1)),
     Ev 3 45 Candidate (E (RequestVoteTo 2)),
     Ev 3 45 Candidate (E (RequestVoteTo 4)),
     Ev 0 45 Candidate (E BecomeCandidate),
     Ev 0 45 Candidate (E (RequestVoteTo 1)),
     Ev 0 45 Candidate (E (RequestVoteTo 2)),
     Ev 0 45 Candidate (E (RequestVoteTo 3)),
     Ev 0 45 Candidate (E (RequestVoteTo 4)),
     Ev 1 39 Leader (A (AppendSent 0 [1, 124, 124, 1, 124])),
     Ev 1 39 Leader (A (AppendSent 2 [1, 124, 124, 1, 124])),
     Ev 2 28 Leader (A (AppendTo 1)),
     Ev 2 28 Leader (A (AppendTo 3)),
     Ev 2 28 Leader (A (AppendTo 4)),
     Ev 2 28 Leader (A (AppendSent 0 [123, 123, 123, 1, 123])),
     Ev 1 39 Leader (A (AppendSent 3 [1, 124, 124, 1, 124])),
     Ev 3 45 Candidate (E (VoteNotOk 1)),
     Ev 2 28 Leader (A (AppendSent 3 [123, 123, 123, 1, 123])),
     Ev 2 28 Leader (A (AppendSent 4 [123, 123, 123, 1, 123])),
     Ev 2 28 Leader (A (AppendSent 1 [123, 123, 123, 1, 123])),
     Ev 4 44 Candidate (E (VoteRequested 4 3 45)),
     Ev 4 44 Candidate (E (VoteArgs 45 123 16 520 521)),
     Ev 4 44 Candidate (E (Indices 122 122)),
     Ev 4 44 Candidate (E (TermLower 3)),
     Ev 0 45 Candidate (E (VoteNotOk 3)),
     Ev 1 39 Leader (A (AppendNotOk 2)),
     Ev 4 45 Follower (E (LogTerms 16 14 520 123)),
     Ev 4 45 Follower (E LogOutdated),
     Ev 0 45 Candidate (E (VoteNotOk 1)),
     Ev 0 45 Candidate (E (VoteRequested 0 3 45)),
     Ev 0 45 Candidate (E (VoteArgs 45 123 9 133 134)),
     Ev 0 45 Candidate (E (Indices 1 1)),
     Ev 0 45 Candidate (E (LogTerms 9 14 133 123)),
     Ev 0 45 Candidate (E RefuseVote),
     Ev 4 45 Follower (E (VoteRequested 3 0 45)),
     Ev 4 45 Follower (E (VoteArgs 45 133 16 520 521)),
     Ev 4 45 Follower (E (Indices 122 122)),
     Ev 4 45 Follower (E (LogTerms 16 9 520 133)),
     Ev 4 45 Follower (E LogOutdated),
     Ev 2 28 Leader (A (AppendNotOk 3)),
     Ev 3 45 Candidate (E (VoteNotOk 2)),
     Ev 2 28 Leader (A (AppendNotOk 4)),
     Ev 1 39 Leader (A (AppendNotOk 3)),
     Ev 1 39 Leader (A (AppendNotOk 4)),
     Ev 0 45 Candidate (E (VoteNotOk 2)),
     Ev 2 28 Leader (A (AppendNotOk 1)),
     Ev 2 28 Leader (A (AppendNotOk 0)),
     Ev 2 28 Leader (A HeartBeat),
     Ev 2 28 Leader (A (AppendTo 0)),
     Ev 2 28 Leader (A (AppendTo 1)),
     Ev 2 28 Leader (A (AppendTo 3)),
     Ev 2 28 Leader (A (AppendTo 4)),
     Ev 2 28 Leader (A (AppendSent 4 [123, 123, 123, 1, 123])),
     Ev 2 28 Leader (A (AppendSent 0 [123, 123, 123, 1, 123])),
     Ev 1 39 Leader (A (AppendNotOk 0)),
     Ev 1 39 Leader (A HeartBeat),
     Ev 1 39 Leader (A (AppendTo 0)),
     Ev 1 39 Leader (A (AppendTo 2)),
     Ev 1 39 Leader (A (AppendTo 3)),
     Ev 2 28 Leader (A (AppendSent 1 [123, 123, 123, 1, 123])),
     Ev 1 39 Leader (A (AppendTo 4)),
     Ev 1 39 Leader (A (AppendSent 3 [1, 124, 124, 1, 124])),
     Ev 1 39 Leader (A (AppendSent 4 [1, 124, 124, 1, 124])),
     Ev 2 28 Leader (A (AppendSent 3 [123, 123, 123, 1, 123])),
     Ev 1 39 Leader (A (AppendSent 0 [1, 124, 124, 1, 124])),
     Ev 1 39 Leader (A (AppendSent 2 [1, 124, 124, 1, 124])),
     Ev 1 39 Leader (A (AppendNotOk 0)),
     Ev 2 28 Leader (A (AppendNotOk 4)),
     Ev 1 39 Leader (A (AppendNotOk 2)),
     Ev 2 28 Leader (A (AppendNotOk 3)),
     Ev 2 28 Leader (A (AppendNotOk 1)),
     Ev 1 39 Leader (A (AppendNotOk 4)),
     Ev 1 39 Leader (A (AppendNotOk 3)),
     Ev 2 28 Leader (A HeartBeat),
     Ev 2 28 Leader (A (AppendTo 0)),
     Ev 1 39 Leader (A HeartBeat),
     Ev 2 28 Leader (A (AppendTo 1)),
     Ev 2 28 Leader (A (AppendTo 3)),
     Ev 2 28 Leader (A (AppendTo 4)),
     Ev 1 39 Leader (A (AppendTo 0)),
     Ev 1 39 Leader (A (AppendTo 2)),
     Ev 1 39 Leader (A (AppendTo 3)),
     Ev 1 39 Leader (A (AppendTo 4)),
     Ev 2 28 Leader (A (AppendSent 4 [123, 123, 123, 1, 123])),
     Ev 1 39 Leader (A (AppendSent 4 [1, 124, 124, 1, 124])),
     Ev 2 28 Leader (A (AppendNotOk 0)),
     Ev 1 39 Leader (A (AppendSent 0 [1, 124, 124, 1, 124])),
     Ev 2 28 Leader (A (AppendSent 1 [123, 123, 123, 1, 123])),
     Ev 1 39 Leader (A (AppendSent 3 [1, 124, 124, 1, 124])),
     Ev 2 28 Leader (A (AppendSent 3 [123, 123, 123, 1, 123])),
     Ev 2 28 Leader (A (AppendSent 0 [123, 123, 123, 1, 123]))]"

definition part_5 :: "line list list" where
  "part_5 =
     [run_42, run_43, run_44, run_45, run_46, run_47, run_48, run_49, run_50, run_51]"

lemma part_5_replays: "read_all replay obs_4 part_5 = Some obs_5"
  by code_simp

end
