(* ===== verification/Trace_6.thy ===== *)
theory Trace_6
  imports Trace_States
begin

text \<open>
  The recorded run, lines 7651 to 9150 of raft/2timesvote.ts, one element per line in the
  order of the file, and the proof that this part conforms.
\<close>

definition run_52 :: "line list" where
  "run_52 = [
     Ev 1 39 Leader (A (AppendSent 2 [1, 124, 124, 1, 124])),
     Ev 1 39 Leader (A (AppendNotOk 0)),
     Ev 1 39 Leader (A (AppendNotOk 2)),
     Ev 2 28 Leader (A (AppendNotOk 0)),
     Ev 2 28 Leader (A (AppendNotOk 3)),
     Ev 2 28 Leader (A (AppendNotOk 1)),
     Ev 1 39 Leader (A (AppendNotOk 3)),
     Ev 1 39 Leader (A (AppendNotOk 4)),
     Ev 2 28 Leader (A (AppendNotOk 4)),
     Ev 2 28 Leader (A HeartBeat),
     Ev 2 28 Leader (A (AppendTo 0)),
     Ev 2 28 Leader (A (AppendTo 1)),
     Ev 2 28 Leader (A (AppendTo 3)),
     Ev 2 28 Leader (A (AppendTo 4)),
     Ev 2 28 Leader (A (AppendSent 4 [123, 123, 123, 1, 123])),
     Ev 2 28 Leader (A (AppendSent 0 [123, 123, 123, 1, 123])),
     Ev 1 39 Leader (A HeartBeat),
     Ev 1 39 Leader (A (AppendTo 0)),
     Ev 1 39 Leader (A (AppendTo 2)),
     Ev 1 39 Leader (A (AppendTo 3)),
     Ev 1 39 Leader (A (AppendTo 4)),
     Ev 2 28 Leader (A (AppendSent 3 [123, 123, 123, 1, 123])),
     Ev 2 28 Leader (A (AppendSent 1 [123, 123, 123, 1, 123])),
     Ev 1 39 Leader (A (AppendSent 4 [1, 124, 124, 1, 124])),
     Ev 1 39 Leader (A (AppendSent 0 [1, 124, 124, 1, 124])),
     Ev 1 39 Leader (A (AppendSent 2 [1, 124, 124, 1, 124])),
     Ev 1 39 Leader (A (AppendSent 3 [1, 124, 124, 1, 124])),
     Ev 1 39 Leader (A (AppendNotOk 2)),
     Ev 1 39 Leader (A (AppendNotOk 3)),
     Ev 1 39 Leader (A (AppendNotOk 4)),
     Ev 1 39 Leader (A (AppendNotOk 0)),
     Ev 2 28 Leader (A (AppendNotOk 4)),
     Ev 2 28 Leader (A (AppendNotOk 3)),
     Ev 2 28 Leader (A (AppendNotOk 1)),
     Ev 2 28 Leader (A (AppendNotOk 0)),
     Ev 2 28 Leader (A HeartBeat),
     Ev 1 39 Leader (A HeartBeat),
     Ev 2 28 Leader (A (AppendTo 0)),
     Ev 1 39 Leader (A (AppendTo 0)),
     Ev 2 28 Leader (A (AppendTo 1)),
     Ev 2 28 Leader (A (AppendTo 3)),
     Ev 2 28 Leader (A (AppendTo 4)),
     Ev 1 39 Leader (A (AppendTo 2)),
     Ev 2 28 Leader (A (AppendSent 4 [123, 123, 123, 1, 123])),
     Ev 1 39 Leader (A (AppendTo 3)),
     Ev 1 39 Leader (A (AppendTo 4)),
     Ev 1 39 Leader (A (AppendSent 0 [1, 124, 124, 1, 124])),
     Ev 1 39 Leader (A (AppendSent 2 [1, 124, 124, 1, 124])),
     Ev 0 45 Candidate (E (VoteReply 4 45 False)),
     Ev 0 45 Candidate (E (Indices 1 1)),
     Ev 0 45 Candidate (E (CheckElection 1 5)),
     Ev 1 39 Leader (A (AppendSent 4 [1, 124, 124, 1, 124])),
     Ev 2 28 Leader (A (AppendSent 0 [123, 123, 123, 1, 123])),
     Ev 1 39 Leader (A (AppendSent 3 [1, 124, 124, 1, 124])),
     Ev 2 28 Leader (A (AppendSent 3 [123, 123, 123, 1, 123])),
     Ev 2 28 Leader (A (AppendSent 1 [123, 123, 123, 1, 123])),
     Ev 1 39 Leader (A (AppendNotOk 0)),
     Ev 3 45 Candidate (E (VoteReply 0 45 False)),
     Ev 3 45 Candidate (E (Indices 1 1)),
     Ev 3 45 Candidate (E (CheckElection 1 5)),
     Ev 2 28 Leader (A (AppendNotOk 3)),
     Ev 2 28 Leader (A (AppendNotOk 1)),
     Ev 2 28 Leader (A (AppendNotOk 0)),
     Ev 1 39 Leader (A (AppendNotOk 2)),
     Ev 1 39 Leader (A (AppendNotOk 3)),
     Ev 1 39 Leader (A (AppendNotOk 4)),
     Ev 1 39 Leader (A HeartBeat),
     Ev 1 39 Leader (A (AppendTo 0)),
     Ev 1 39 Leader (A (AppendTo 2)),
     Ev 1 39 Leader (A (AppendTo 3)),
     Ev 1 39 Leader (A (AppendTo 4)),
     Ev 1 39 Leader (A (AppendSent 4 [1, 124, 124, 1, 124])),
     Ev 1 39 Leader (A (AppendSent 2 [1, 124, 124, 1, 124])),
     Ev 2 28 Leader (A HeartBeat),
     Ev 2 28 Leader (A (AppendTo 0)),
     Ev 2 28 Leader (A (AppendTo 1)),
     Ev 2 28 Leader (A (AppendTo 3)),
     Ev 2 28 Leader (A (AppendTo 4)),
     Ev 2 28 Leader (A (AppendSent 4 [123, 123, 123, 1, 123])),
     Ev 2 28 Leader (A (AppendSent 1 [123, 123, 123, 1, 123])),
     Ev 1 39 Leader (A (AppendSent 3 [1, 124, 124, 1, 124])),
     Ev 2 28 Leader (A (AppendSent 3 [123, 123, 123, 1, 123])),
     Ev 1 39 Leader (A (AppendSent 0 [1, 124, 124, 1, 124])),
     Ev 2 28 Leader (A (AppendSent 0 [123, 123, 123, 1, 123])),
     Ev 2 28 Leader (A (AppendNotOk 4)),
     Ev 1 39 Leader (A (AppendNotOk 4)),
     Ev 2 28 Leader (A (AppendNotOk 0)),
     Ev 1 39 Leader (A (AppendNotOk 2)),
     Ev 2 28 Leader (A (AppendNotOk 3)),
     Ev 2 28 Leader (A (AppendNotOk 4)),
     Ev 1 39 Leader (A (AppendNotOk 0)),
     Ev 1 39 Leader (A (AppendNotOk 3)),
     Ev 2 28 Leader (A (AppendNotOk 1)),
     Ev 3 45 Candidate (E StartElection),
     Ev 2 28 Leader (A HeartBeat),
     Ev 2 28 Leader (A (AppendTo 0)),
     Ev 2 28 Leader (A (AppendTo 1)),
     Ev 2 28 Leader (A (AppendTo 3)),
     Ev 2 28 Leader (A (AppendTo 4)),
     Ev 2 28 Leader (A (AppendSent 4 [123, 123, 123, 1, 123])),
     Ev 3 46 Candidate (E BecomeCandidate),
     Ev 3 46 Candidate (E (RequestVoteTo 0)),
     Ev 3 46 Candidate (E (RequestVoteTo 1)),
     Ev 3 46 Candidate (E (RequestVoteTo 2)),
     Ev 3 46 Candidate (E (RequestVoteTo 4)),
     Ev 2 28 Leader (A (AppendSent 3 [123, 123, 123, 1, 123])),
     Ev 1 39 Leader (A HeartBeat),
     Ev 1 39 Leader (A (AppendTo 0)),
     Ev 1 39 Leader (A (AppendTo 2)),
     Ev 1 39 Leader (A (AppendTo 3)),
     Ev 1 39 Leader (A (AppendTo 4)),
     Ev 1 39 Leader (A (AppendSent 4 [1, 124, 124, 1, 124])),
     Ev 1 39 Leader (A (AppendSent 2 [1, 124, 124, 1, 124])),
     Ev 1 39 Leader (A (AppendSent 3 [1, 124, 124, 1, 124])),
     Ev 1 39 Leader (A (AppendSent 0 [1, 124, 124, 1, 124])),
     Ev 2 28 Leader (A (AppendSent 1 [123, 123, 123, 1, 123])),
     Ev 2 28 Leader (A (AppendSent 0 [123, 123, 123, 1, 123])),
     Ev 1 39 Leader (A (AppendNotOk 2)),
     Ev 1 39 Leader (A (AppendNotOk 4)),
     Ev 4 45 Follower (E (VoteRequested 3 3 46)),
     Ev 2 28 Leader (A (AppendNotOk 4)),
     Ev 4 45 Follower (E (VoteArgs 46 123 16 520 521)),
     Ev 4 45 Follower (E (Indices 122 122)),
     Ev 4 45 Follower (E (TermLower 3)),
     Ev 0 45 Candidate (E (VoteRequested 0 3 46)),
     Ev 0 45 Candidate (E (VoteArgs 46 123 9 133 134)),
     Ev 0 45 Candidate (E (Indices 1 1)),
     Ev 0 45 Candidate (E (TermLower 3)),
     Ev 1 39 Leader (A (AppendNotOk 3)),
     Ev 0 46 Follower (E (LogTerms 9 14 133 123)),
     Ev 0 46 Follower (E (VoteGranted 46 123 9 133 134)),
     Ev 0 46 Follower (E (Indices 1 1)),
     Ev 3 46 Candidate (E (VoteNotOk 0)),
     Ev 4 46 Follower (E (LogTerms 16 14 520 123)),
     Ev 4 46 Follower (E LogOutdated),
     Ev 3 46 Candidate (E (VoteReply 4 46 False)),
     Ev 3 46 Candidate (E (Indices 1 1)),
     Ev 3 46 Candidate (E (CheckElection 1 5)),
     Ev 3 46 Candidate (E (VoteNotOk 1)),
     Ev 2 28 Leader (A (AppendNotOk 3)),
     Ev 3 46 Candidate (E (VoteNotOk 2)),
     Ev 2 28 Leader (A (AppendNotOk 0)),
     Ev 2 28 Leader (A (AppendNotOk 1)),
     Ev 1 39 Leader (A (AppendNotOk 0)),
     Ev 2 28 Leader (A HeartBeat),
     Ev 2 28 Leader (A (AppendTo 0)),
     Ev 1 39 Leader (A HeartBeat),
     Ev 1 39 Leader (A (AppendTo 0)),
     Ev 1 39 Leader (A (AppendTo 2)),
     Ev 2 28 Leader (A (AppendTo 1))]"

definition run_53 :: "line list" where
  "run_53 = [
     Ev 2 28 Leader (A (AppendTo 3)),
     Ev 2 28 Leader (A (AppendTo 4)),
     Ev 1 39 Leader (A (AppendTo 3)),
     Ev 1 39 Leader (A (AppendTo 4)),
     Ev 2 28 Leader (A (AppendSent 4 [123, 123, 123, 1, 123])),
     Ev 1 39 Leader (A (AppendSent 4 [1, 124, 124, 1, 124])),
     Ev 1 39 Leader (A (AppendSent 0 [1, 124, 124, 1, 124])),
     Ev 2 28 Leader (A (AppendSent 0 [123, 123, 123, 1, 123])),
     Ev 2 28 Leader (A (AppendSent 1 [123, 123, 123, 1, 123])),
     Ev 2 28 Leader (A (AppendSent 3 [123, 123, 123, 1, 123])),
     Ev 1 39 Leader (A (AppendSent 2 [1, 124, 124, 1, 124])),
     Ev 1 39 Leader (A (AppendSent 3 [1, 124, 124, 1, 124])),
     Ev 1 39 Leader (A (AppendNotOk 2)),
     Ev 1 39 Leader (A (AppendNotOk 0)),
     Ev 2 28 Leader (A (AppendNotOk 3)),
     Ev 2 28 Leader (A (AppendNotOk 0)),
     Ev 1 39 Leader (A (AppendNotOk 3)),
     Ev 2 28 Leader (A (AppendNotOk 1)),
     Ev 2 28 Leader (A (AppendNotOk 4)),
     Ev 1 39 Leader (A (AppendNotOk 4)),
     Ev 3 46 Candidate (E (VoteReply 4 45 False)),
     Ev 3 46 Candidate (E (Indices 1 1)),
     Ev 3 46 Candidate (E (CheckElection 1 5)),
     Ev 2 28 Leader (A HeartBeat),
     Ev 2 28 Leader (A (AppendTo 0)),
     Ev 1 39 Leader (A HeartBeat),
     Ev 1 39 Leader (A (AppendTo 0)),
     Ev 1 39 Leader (A (AppendTo 2)),
     Ev 2 28 Leader (A (AppendTo 1)),
     Ev 2 28 Leader (A (AppendTo 3)),
     Ev 1 39 Leader (A (AppendTo 3)),
     Ev 1 39 Leader (A (AppendTo 4)),
     Ev 2 28 Leader (A (AppendTo 4)),
     Ev 1 39 Leader (A (AppendSent 0 [1, 124, 124, 1, 124])),
     Ev 2 28 Leader (A (AppendSent 0 [123, 123, 123, 1, 123])),
     Ev 1 39 Leader (A (AppendSent 2 [1, 124, 124, 1, 124])),
     Ev 2 28 Leader (A (AppendSent 3 [123, 123, 123, 1, 123])),
     Ev 1 39 Leader (A (AppendSent 3 [1, 124, 124, 1, 124])),
     Ev 1 39 Leader (A (AppendSent 4 [1, 124, 124, 1, 124])),
     Ev 2 28 Leader (A (AppendSent 1 [123, 123, 123, 1, 123])),
     Ev 2 28 Leader (A (AppendSent 4 [123, 123, 123, 1, 123])),
     Ev 2 28 Leader (A (AppendNotOk 0)),
     Ev 1 39 Leader (A (AppendNotOk 3)),
     Ev 2 28 Leader (A (AppendNotOk 4)),
     Ev 2 28 Leader (A (AppendNotOk 1)),
     Ev 1 39 Leader (A (AppendNotOk 4)),
     Ev 1 39 Leader (A (AppendNotOk 2)),
     Ev 2 28 Leader (A (AppendNotOk 3)),
     Ev 1 39 Leader (A HeartBeat),
     Ev 2 28 Leader (A HeartBeat),
     Ev 2 28 Leader (A (AppendTo 0)),
     Ev 1 39 Leader (A (AppendTo 0)),
     Ev 2 28 Leader (A (AppendTo 1)),
     Ev 2 28 Leader (A (AppendTo 3)),
     Ev 1 39 Leader (A (AppendTo 2)),
     Ev 1 39 Leader (A (AppendTo 3)),
     Ev 1 39 Leader (A (AppendTo 4)),
     Ev 2 28 Leader (A (AppendTo 4)),
     Ev 1 39 Leader (A (AppendSent 0 [1, 124, 124, 1, 124])),
     Ev 2 28 Leader (A (AppendSent 4 [123, 123, 123, 1, 123])),
     Ev 1 39 Leader (A (AppendNotOk 0)),
     Ev 2 28 Leader (A (AppendSent 3 [123, 123, 123, 1, 123])),
     Ev 1 39 Leader (A (AppendSent 4 [1, 124, 124, 1, 124])),
     Ev 1 39 Leader (A (AppendSent 2 [1, 124, 124, 1, 124])),
     Ev 2 28 Leader (A (AppendSent 0 [123, 123, 123, 1, 123])),
     Ev 2 28 Leader (A (AppendSent 1 [123, 123, 123, 1, 123])),
     Ev 1 39 Leader (A (AppendSent 3 [1, 124, 124, 1, 124])),
     Ev 1 39 Leader (A (AppendNotOk 4)),
     Ev 1 39 Leader (A (AppendNotOk 0)),
     Ev 2 28 Leader (A (AppendNotOk 4)),
     Ev 2 28 Leader (A (AppendNotOk 1)),
     Ev 2 28 Leader (A (AppendNotOk 0)),
     Ev 1 39 Leader (A (AppendNotOk 3)),
     Ev 2 28 Leader (A (AppendNotOk 3)),
     Ev 1 39 Leader (A (AppendNotOk 2)),
     Ev 2 28 Leader (A HeartBeat),
     Ev 2 28 Leader (A (AppendTo 0)),
     Ev 2 28 Leader (A (AppendTo 1)),
     Ev 2 28 Leader (A (AppendTo 3)),
     Ev 2 28 Leader (A (AppendTo 4)),
     Ev 2 28 Leader (A (AppendSent 0 [123, 123, 123, 1, 123])),
     Ev 2 28 Leader (A (AppendSent 4 [123, 123, 123, 1, 123])),
     Ev 2 28 Leader (A (AppendSent 1 [123, 123, 123, 1, 123])),
     Ev 1 39 Leader (A HeartBeat),
     Ev 1 39 Leader (A (AppendTo 0)),
     Ev 1 39 Leader (A (AppendTo 2)),
     Ev 1 39 Leader (A (AppendTo 3)),
     Ev 1 39 Leader (A (AppendTo 4)),
     Ev 1 39 Leader (A (AppendSent 4 [1, 124, 124, 1, 124])),
     Ev 1 39 Leader (A (AppendSent 0 [1, 124, 124, 1, 124])),
     Ev 1 39 Leader (A (AppendSent 3 [1, 124, 124, 1, 124])),
     Ev 1 39 Leader (A (AppendSent 2 [1, 124, 124, 1, 124])),
     Ev 2 28 Leader (A (AppendSent 3 [123, 123, 123, 1, 123])),
     Ev 2 28 Leader (A (AppendNotOk 3)),
     Ev 1 39 Leader (A (AppendNotOk 0)),
     Ev 2 28 Leader (A (AppendNotOk 4)),
     Ev 1 39 Leader (A (AppendNotOk 4)),
     Ev 1 39 Leader (A (AppendNotOk 3)),
     Ev 2 28 Leader (A (AppendNotOk 0)),
     Ev 2 28 Leader (A (AppendNotOk 1)),
     Ev 1 39 Leader (A HeartBeat),
     Ev 1 39 Leader (A (AppendTo 0)),
     Ev 1 39 Leader (A (AppendTo 2)),
     Ev 1 39 Leader (A (AppendTo 3)),
     Ev 1 39 Leader (A (AppendTo 4)),
     Ev 2 28 Leader (A HeartBeat),
     Ev 2 28 Leader (A (AppendTo 0)),
     Ev 1 39 Leader (A (AppendNotOk 2)),
     Ev 2 28 Leader (A (AppendTo 1)),
     Ev 2 28 Leader (A (AppendTo 3)),
     Ev 2 28 Leader (A (AppendTo 4)),
     Ev 1 39 Leader (A (AppendSent 0 [1, 124, 124, 1, 124])),
     Ev 1 39 Leader (A (AppendSent 2 [1, 124, 124, 1, 124])),
     Ev 2 28 Leader (A (AppendSent 1 [123, 123, 123, 1, 123])),
     Ev 2 28 Leader (A (AppendSent 0 [123, 123, 123, 1, 123])),
     Ev 1 39 Leader (A (AppendSent 3 [1, 124, 124, 1, 124])),
     Ev 2 28 Leader (A (AppendSent 3 [123, 123, 123, 1, 123])),
     Ev 1 39 Leader (A (AppendSent 4 [1, 124, 124, 1, 124])),
     Ev 2 28 Leader (A (AppendSent 4 [123, 123, 123, 1, 123])),
     Ev 1 39 Leader (A (AppendNotOk 3)),
     Ev 2 28 Leader (A (AppendNotOk 3)),
     Ev 1 39 Leader (A (AppendNotOk 4)),
     Ev 2 28 Leader (A (AppendNotOk 1)),
     Ev 2 28 Leader (A (AppendNotOk 0)),
     Ev 1 39 Leader (A (AppendNotOk 2)),
     Ev 1 39 Leader (A (AppendNotOk 0)),
     Ev 2 28 Leader (A HeartBeat),
     Ev 2 28 Leader (A (AppendTo 0)),
     Ev 2 28 Leader (A (AppendTo 1)),
     Ev 1 39 Leader (A HeartBeat),
     Ev 1 39 Leader (A (AppendTo 0)),
     Ev 2 28 Leader (A (AppendTo 3)),
     Ev 2 28 Leader (A (AppendTo 4)),
     Ev 2 28 Leader (A (AppendNotOk 4)),
     Ev 1 39 Leader (A (AppendTo 2)),
     Ev 1 39 Leader (A (AppendTo 3)),
     Ev 2 28 Leader (A (AppendSent 1 [123, 123, 123, 1, 123])),
     Ev 1 39 Leader (A (AppendTo 4)),
     Ev 2 28 Leader (A (AppendSent 0 [123, 123, 123, 1, 123])),
     Ev 1 39 Leader (A (AppendSent 0 [1, 124, 124, 1, 124])),
     Ev 1 39 Leader (A (AppendSent 4 [1, 124, 124, 1, 124])),
     Ev 1 39 Leader (A (AppendSent 2 [1, 124, 124, 1, 124])),
     Ev 2 28 Leader (A (AppendSent 4 [123, 123, 123, 1, 123])),
     Ev 1 39 Leader (A (AppendSent 3 [1, 124, 124, 1, 124])),
     Ev 2 28 Leader (A (AppendSent 3 [123, 123, 123, 1, 123])),
     Ev 2 28 Leader (A (AppendNotOk 1)),
     Ev 1 39 Leader (A (AppendNotOk 0)),
     Ev 2 28 Leader (A (AppendNotOk 4)),
     Ev 2 28 Leader (A (AppendNotOk 0)),
     Ev 1 39 Leader (A (AppendNotOk 2))]"

definition run_54 :: "line list" where
  "run_54 = [
     Ev 1 39 Leader (A (AppendNotOk 4)),
     Ev 2 28 Leader (A (AppendNotOk 3)),
     Ev 1 39 Leader (A (AppendNotOk 3)),
     Ev 1 39 Leader (A HeartBeat),
     Ev 1 39 Leader (A (AppendTo 0)),
     Ev 1 39 Leader (A (AppendTo 2)),
     Ev 1 39 Leader (A (AppendTo 3)),
     Ev 1 39 Leader (A (AppendTo 4)),
     Ev 1 39 Leader (A (AppendSent 4 [1, 124, 124, 1, 124])),
     Ev 2 28 Leader (A HeartBeat),
     Ev 2 28 Leader (A (AppendTo 0)),
     Ev 2 28 Leader (A (AppendTo 1)),
     Ev 1 39 Leader (A (AppendSent 0 [1, 124, 124, 1, 124])),
     Ev 0 46 Follower (E StartElection),
     Ev 2 28 Leader (A (AppendTo 3)),
     Ev 2 28 Leader (A (AppendTo 4)),
     Ev 2 28 Leader (A (AppendSent 1 [123, 123, 123, 1, 123])),
     Ev 1 39 Leader (A (AppendSent 3 [1, 124, 124, 1, 124])),
     Ev 0 47 Candidate (E BecomeCandidate),
     Ev 0 47 Candidate (E (RequestVoteTo 1)),
     Ev 0 47 Candidate (E (RequestVoteTo 2)),
     Ev 0 47 Candidate (E (RequestVoteTo 3)),
     Ev 0 47 Candidate (E (RequestVoteTo 4)),
     Ev 2 28 Leader (A (AppendSent 3 [123, 123, 123, 1, 123])),
     Ev 2 28 Leader (A (AppendSent 4 [123, 123, 123, 1, 123])),
     Ev 2 28 Leader (A (AppendSent 0 [123, 123, 123, 1, 123])),
     Ev 1 39 Leader (A (AppendSent 2 [1, 124, 124, 1, 124])),
     Ev 1 39 Leader (A (AppendNotOk 3)),
     Ev 2 28 Leader (A (AppendNotOk 1)),
     Ev 0 47 Candidate (E (VoteNotOk 4)),
     Ev 3 46 Candidate (E (VoteRequested 3 0 47)),
     Ev 3 46 Candidate (E (VoteArgs 47 133 14 123 124)),
     Ev 3 46 Candidate (E (Indices 1 1)),
     Ev 3 46 Candidate (E (TermLower 0)),
     Ev 1 39 Leader (A (AppendNotOk 4)),
     Ev 3 47 Follower (E (LogTerms 14 9 123 133)),
     Ev 3 47 Follower (E LogOutdated),
     Ev 0 47 Candidate (E (VoteNotOk 1)),
     Ev 2 28 Leader (A (AppendNotOk 3)),
     Ev 0 47 Candidate (E (VoteNotOk 2)),
     Ev 2 28 Leader (A (AppendNotOk 0)),
     Ev 1 39 Leader (A (AppendNotOk 2)),
     Ev 2 28 Leader (A (AppendNotOk 4)),
     Ev 1 39 Leader (A (AppendNotOk 0)),
     Ev 2 28 Leader (A HeartBeat),
     Ev 2 28 Leader (A (AppendTo 0)),
     Ev 2 28 Leader (A (AppendTo 1)),
     Ev 2 28 Leader (A (AppendTo 3)),
     Ev 1 39 Leader (A HeartBeat),
     Ev 1 39 Leader (A (AppendTo 0)),
     Ev 4 46 Follower (E StartElection),
     Ev 2 28 Leader (A (AppendTo 4)),
     Ev 1 39 Leader (A (AppendTo 2)),
     Ev 1 39 Leader (A (AppendTo 3)),
     Ev 1 39 Leader (A (AppendTo 4)),
     Ev 1 39 Leader (A (AppendSent 2 [1, 124, 124, 1, 124])),
     Ev 2 28 Leader (A (AppendSent 3 [123, 123, 123, 1, 123])),
     Ev 1 39 Leader (A (AppendSent 0 [1, 124, 124, 1, 124])),
     Ev 4 47 Candidate (E BecomeCandidate),
     Ev 4 47 Candidate (E (RequestVoteTo 0)),
     Ev 2 28 Leader (A (AppendSent 0 [123, 123, 123, 1, 123])),
     Ev 4 47 Candidate (E (RequestVoteTo 1)),
     Ev 4 47 Candidate (E (RequestVoteTo 2)),
     Ev 4 47 Candidate (E (RequestVoteTo 3)),
     Ev 1 39 Leader (A (AppendSent 3 [1, 124, 124, 1, 124])),
     Ev 1 39 Leader (A (AppendSent 4 [1, 124, 124, 1, 124])),
     Ev 2 28 Leader (A (AppendSent 1 [123, 123, 123, 1, 123])),
     Ev 2 28 Leader (A (AppendSent 4 [123, 123, 123, 1, 123])),
     Ev 0 47 Candidate (E (VoteRequested 0 4 47)),
     Ev 0 47 Candidate (E (VoteArgs 47 520 9 133 134)),
     Ev 0 47 Candidate (E (Indices 1 1)),
     Ev 0 47 Candidate (E (LogTerms 9 16 133 520)),
     Ev 0 47 Candidate (E RefuseVote),
     Ev 4 47 Candidate (E (VoteReply 0 47 False)),
     Ev 4 47 Candidate (E (Indices 122 122)),
     Ev 4 47 Candidate (E (CheckElection 1 5)),
     Ev 3 47 Follower (E (VoteRequested 0 4 47)),
     Ev 3 47 Follower (E (VoteArgs 47 520 14 123 124)),
     Ev 3 47 Follower (E (Indices 1 1)),
     Ev 3 47 Follower (E (LogTerms 14 16 123 520)),
     Ev 3 47 Follower (E RefuseVote),
     Ev 4 47 Candidate (E (VoteReply 3 47 False)),
     Ev 4 47 Candidate (E (Indices 122 122)),
     Ev 4 47 Candidate (E (CheckElection 1 5)),
     Ev 4 47 Candidate (E (VoteNotOk 2)),
     Ev 1 39 Leader (A (AppendNotOk 0)),
     Ev 1 39 Leader (A (AppendNotOk 4)),
     Ev 2 28 Leader (A (AppendNotOk 0)),
     Ev 2 28 Leader (A (AppendNotOk 4)),
     Ev 2 28 Leader (A (AppendNotOk 1)),
     Ev 1 39 Leader (A (AppendNotOk 2)),
     Ev 4 47 Candidate (E (VoteNotOk 1)),
     Ev 2 28 Leader (A (AppendNotOk 3)),
     Ev 1 39 Leader (A HeartBeat),
     Ev 1 39 Leader (A (AppendTo 0)),
     Ev 1 39 Leader (A (AppendTo 2)),
     Ev 1 39 Leader (A (AppendTo 3)),
     Ev 1 39 Leader (A (AppendTo 4)),
     Ev 2 28 Leader (A HeartBeat),
     Ev 2 28 Leader (A (AppendTo 0)),
     Ev 1 39 Leader (A (AppendNotOk 3)),
     Ev 2 28 Leader (A (AppendTo 1)),
     Ev 2 28 Leader (A (AppendTo 3)),
     Ev 2 28 Leader (A (AppendTo 4)),
     Ev 1 39 Leader (A (AppendSent 0 [1, 124, 124, 1, 124])),
     Ev 2 28 Leader (A (AppendSent 1 [123, 123, 123, 1, 123])),
     Ev 1 39 Leader (A (AppendSent 2 [1, 124, 124, 1, 124])),
     Ev 2 28 Leader (A (AppendSent 0 [123, 123, 123, 1, 123])),
     Ev 1 39 Leader (A (AppendSent 3 [1, 124, 124, 1, 124])),
     Ev 1 39 Leader (A (AppendSent 4 [1, 124, 124, 1, 124])),
     Ev 2 28 Leader (A (AppendSent 4 [123, 123, 123, 1, 123])),
     Ev 2 28 Leader (A (AppendSent 3 [123, 123, 123, 1, 123])),
     Ev 1 39 Leader (A (AppendNotOk 2)),
     Ev 2 28 Leader (A (AppendNotOk 0)),
     Ev 1 39 Leader (A (AppendNotOk 0)),
     Ev 2 28 Leader (A (AppendNotOk 3)),
     Ev 2 28 Leader (A (AppendNotOk 4)),
     Ev 2 28 Leader (A (AppendNotOk 1)),
     Ev 1 39 Leader (A (AppendNotOk 4)),
     Ev 1 39 Leader (A HeartBeat),
     Ev 1 39 Leader (A (AppendTo 0)),
     Ev 2 28 Leader (A HeartBeat),
     Ev 2 28 Leader (A (AppendTo 0)),
     Ev 1 39 Leader (A (AppendTo 2)),
     Ev 2 28 Leader (A (AppendTo 1)),
     Ev 2 28 Leader (A (AppendTo 3)),
     Ev 1 39 Leader (A (AppendTo 3)),
     Ev 1 39 Leader (A (AppendTo 4)),
     Ev 2 28 Leader (A (AppendTo 4)),
     Ev 1 39 Leader (A (AppendNotOk 3)),
     Ev 2 28 Leader (A (AppendSent 0 [123, 123, 123, 1, 123])),
     Ev 1 39 Leader (A (AppendSent 3 [1, 124, 124, 1, 124])),
     Ev 1 39 Leader (A (AppendSent 0 [1, 124, 124, 1, 124])),
     Ev 1 39 Leader (A (AppendSent 2 [1, 124, 124, 1, 124])),
     Ev 1 39 Leader (A (AppendSent 4 [1, 124, 124, 1, 124])),
     Ev 2 28 Leader (A (AppendSent 3 [123, 123, 123, 1, 123])),
     Ev 2 28 Leader (A (AppendSent 1 [123, 123, 123, 1, 123])),
     Ev 2 28 Leader (A (AppendSent 4 [123, 123, 123, 1, 123])),
     Ev 2 28 Leader (A (AppendNotOk 0)),
     Ev 1 39 Leader (A (AppendNotOk 3)),
     Ev 2 28 Leader (A (AppendNotOk 4)),
     Ev 1 39 Leader (A (AppendNotOk 0)),
     Ev 2 28 Leader (A (AppendNotOk 3)),
     Ev 1 39 Leader (A (AppendNotOk 4)),
     Ev 2 28 Leader (A (AppendNotOk 1)),
     Ev 1 39 Leader (A (AppendNotOk 2)),
     Ev 2 28 Leader (A HeartBeat),
     Ev 2 28 Leader (A (AppendTo 0)),
     Ev 1 39 Leader (A HeartBeat),
     Ev 1 39 Leader (A (AppendTo 0))]"

definition run_55 :: "line list" where
  "run_55 = [
     Ev 1 39 Leader (A (AppendTo 2)),
     Ev 1 39 Leader (A (AppendTo 3)),
     Ev 2 28 Leader (A (AppendTo 1)),
     Ev 1 39 Leader (A (AppendTo 4)),
     Ev 1 39 Leader (A (AppendSent 4 [1, 124, 124, 1, 124])),
     Ev 1 39 Leader (A (AppendSent 3 [1, 124, 124, 1, 124])),
     Ev 2 28 Leader (A (AppendTo 3)),
     Ev 2 28 Leader (A (AppendTo 4)),
     Ev 2 28 Leader (A (AppendSent 0 [123, 123, 123, 1, 123])),
     Ev 2 28 Leader (A (AppendSent 3 [123, 123, 123, 1, 123])),
     Ev 2 28 Leader (A (AppendSent 4 [123, 123, 123, 1, 123])),
     Ev 1 39 Leader (A (AppendSent 2 [1, 124, 124, 1, 124])),
     Ev 2 28 Leader (A (AppendSent 1 [123, 123, 123, 1, 123])),
     Ev 1 39 Leader (A (AppendSent 0 [1, 124, 124, 1, 124])),
     Ev 1 39 Leader (A (AppendNotOk 4)),
     Ev 2 28 Leader (A (AppendNotOk 1)),
     Ev 1 39 Leader (A (AppendNotOk 2)),
     Ev 2 28 Leader (A (AppendNotOk 4)),
     Ev 1 39 Leader (A (AppendNotOk 3)),
     Ev 1 39 Leader (A (AppendNotOk 0)),
     Ev 2 28 Leader (A (AppendNotOk 0)),
     Ev 0 47 Candidate (E StartElection),
     Ev 2 28 Leader (A HeartBeat),
     Ev 2 28 Leader (A (AppendTo 0)),
     Ev 2 28 Leader (A (AppendTo 1)),
     Ev 2 28 Leader (A (AppendTo 3)),
     Ev 2 28 Leader (A (AppendTo 4)),
     Ev 1 39 Leader (A HeartBeat),
     Ev 1 39 Leader (A (AppendTo 0)),
     Ev 1 39 Leader (A (AppendTo 2)),
     Ev 1 39 Leader (A (AppendTo 3)),
     Ev 1 39 Leader (A (AppendTo 4)),
     Ev 3 47 Follower (E StartElection),
     Ev 1 39 Leader (A (AppendSent 4 [1, 124, 124, 1, 124])),
     Ev 1 39 Leader (A (AppendSent 0 [1, 124, 124, 1, 124])),
     Ev 0 48 Candidate (E BecomeCandidate),
     Ev 0 48 Candidate (E (RequestVoteTo 1)),
     Ev 0 48 Candidate (E (RequestVoteTo 2)),
     Ev 0 48 Candidate (E (RequestVoteTo 3)),
     Ev 0 48 Candidate (E (RequestVoteTo 4)),
     Ev 3 48 Candidate (E BecomeCandidate),
     Ev 3 48 Candidate (E (RequestVoteTo 0)),
     Ev 3 48 Candidate (E (RequestVoteTo 1)),
     Ev 3 48 Candidate (E (RequestVoteTo 2)),
     Ev 3 48 Candidate (E (RequestVoteTo 4)),
     Ev 2 28 Leader (A (AppendNotOk 3)),
     Ev 1 39 Leader (A (AppendSent 2 [1, 124, 124, 1, 124])),
     Ev 2 28 Leader (A (AppendSent 0 [123, 123, 123, 1, 123])),
     Ev 1 39 Leader (A (AppendSent 3 [1, 124, 124, 1, 124])),
     Ev 2 28 Leader (A (AppendSent 1 [123, 123, 123, 1, 123])),
     Ev 1 39 Leader (A (AppendNotOk 4)),
     Ev 2 28 Leader (A (AppendSent 3 [123, 123, 123, 1, 123])),
     Ev 2 28 Leader (A (AppendSent 4 [123, 123, 123, 1, 123])),
     Ev 2 28 Leader (A (AppendNotOk 0)),
     Ev 3 48 Candidate (E (VoteRequested 3 0 48)),
     Ev 3 48 Candidate (E (VoteArgs 48 133 14 123 124)),
     Ev 3 48 Candidate (E (Indices 1 1)),
     Ev 3 48 Candidate (E (LogTerms 14 9 123 133)),
     Ev 3 48 Candidate (E LogOutdated),
     Ev 0 48 Candidate (E (VoteReply 3 48 False)),
     Ev 0 48 Candidate (E (Indices 1 1)),
     Ev 0 48 Candidate (E (CheckElection 1 5)),
     Ev 1 39 Leader (A (AppendNotOk 3)),
     Ev 4 47 Candidate (E (VoteRequested 4 0 48)),
     Ev 4 47 Candidate (E (VoteArgs 48 133 16 520 521)),
     Ev 4 47 Candidate (E (Indices 122 122)),
     Ev 4 47 Candidate (E (TermLower 0)),
     Ev 0 48 Candidate (E (VoteRequested 0 3 48)),
     Ev 0 48 Candidate (E (VoteArgs 48 123 9 133 134)),
     Ev 0 48 Candidate (E (Indices 1 1)),
     Ev 0 48 Candidate (E (LogTerms 9 14 133 123)),
     Ev 0 48 Candidate (E RefuseVote),
     Ev 3 48 Candidate (E (VoteReply 0 48 False)),
     Ev 3 48 Candidate (E (Indices 1 1)),
     Ev 3 48 Candidate (E (CheckElection 1 5)),
     Ev 4 48 Follower (E (LogTerms 16 9 520 133)),
     Ev 4 48 Follower (E LogOutdated),
     Ev 0 48 Candidate (E (VoteReply 4 48 False)),
     Ev 0 48 Candidate (E (Indices 1 1)),
     Ev 0 48 Candidate (E (CheckElection 1 5)),
     Ev 4 48 Follower (E (VoteRequested 0 3 48)),
     Ev 4 48 Follower (E (VoteArgs 48 123 16 520 521)),
     Ev 4 48 Follower (E (Indices 122 122)),
     Ev 4 48 Follower (E (LogTerms 16 14 520 123)),
     Ev 4 48 Follower (E LogOutdated),
     Ev 2 28 Leader (A (AppendNotOk 4)),
     Ev 0 48 Candidate (E (VoteNotOk 2)),
     Ev 0 48 Candidate (E (VoteNotOk 1)),
     Ev 2 28 Leader (A (AppendNotOk 1)),
     Ev 3 48 Candidate (E (VoteNotOk 1)),
     Ev 1 39 Leader (A (AppendNotOk 2)),
     Ev 1 39 Leader (A (AppendNotOk 0)),
     Ev 2 28 Leader (A (AppendNotOk 3)),
     Ev 3 48 Candidate (E (VoteNotOk 2)),
     Ev 2 28 Leader (A HeartBeat),
     Ev 2 28 Leader (A (AppendTo 0)),
     Ev 1 39 Leader (A HeartBeat),
     Ev 2 28 Leader (A (AppendTo 1)),
     Ev 1 39 Leader (A (AppendTo 0)),
     Ev 1 39 Leader (A (AppendTo 2)),
     Ev 2 28 Leader (A (AppendTo 3)),
     Ev 2 28 Leader (A (AppendTo 4)),
     Ev 1 39 Leader (A (AppendTo 3)),
     Ev 1 39 Leader (A (AppendTo 4)),
     Ev 2 28 Leader (A (AppendSent 1 [123, 123, 123, 1, 123])),
     Ev 1 39 Leader (A (AppendSent 3 [1, 124, 124, 1, 124])),
     Ev 1 39 Leader (A (AppendSent 2 [1, 124, 124, 1, 124])),
     Ev 2 28 Leader (A (AppendSent 0 [123, 123, 123, 1, 123])),
     Ev 1 39 Leader (A (AppendSent 0 [1, 124, 124, 1, 124])),
     Ev 1 39 Leader (A (AppendSent 4 [1, 124, 124, 1, 124])),
     Ev 2 28 Leader (A (AppendSent 4 [123, 123, 123, 1, 123])),
     Ev 2 28 Leader (A (AppendSent 3 [123, 123, 123, 1, 123])),
     Ev 1 39 Leader (A (AppendNotOk 0)),
     Ev 1 39 Leader (A (AppendNotOk 3)),
     Ev 2 28 Leader (A (AppendNotOk 4)),
     Ev 1 39 Leader (A (AppendNotOk 4)),
     Ev 2 28 Leader (A (AppendNotOk 1)),
     Ev 1 39 Leader (A (AppendNotOk 2)),
     Ev 2 28 Leader (A (AppendNotOk 0)),
     Ev 2 28 Leader (A HeartBeat),
     Ev 2 28 Leader (A (AppendTo 0)),
     Ev 2 28 Leader (A (AppendTo 1)),
     Ev 2 28 Leader (A (AppendTo 3)),
     Ev 2 28 Leader (A (AppendTo 4)),
     Ev 2 28 Leader (A (AppendNotOk 3)),
     Ev 2 28 Leader (A (AppendSent 1 [123, 123, 123, 1, 123])),
     Ev 2 28 Leader (A (AppendSent 3 [123, 123, 123, 1, 123])),
     Ev 1 39 Leader (A HeartBeat),
     Ev 1 39 Leader (A (AppendTo 0)),
     Ev 1 39 Leader (A (AppendTo 2)),
     Ev 1 39 Leader (A (AppendTo 3)),
     Ev 1 39 Leader (A (AppendTo 4)),
     Ev 1 39 Leader (A (AppendSent 0 [1, 124, 124, 1, 124])),
     Ev 2 28 Leader (A (AppendSent 4 [123, 123, 123, 1, 123])),
     Ev 1 39 Leader (A (AppendSent 4 [1, 124, 124, 1, 124])),
     Ev 1 39 Leader (A (AppendSent 2 [1, 124, 124, 1, 124])),
     Ev 1 39 Leader (A (AppendSent 3 [1, 124, 124, 1, 124])),
     Ev 2 28 Leader (A (AppendSent 0 [123, 123, 123, 1, 123])),
     Ev 2 28 Leader (A (AppendNotOk 0)),
     Ev 2 28 Leader (A (AppendNotOk 3)),
     Ev 2 28 Leader (A (AppendNotOk 4)),
     Ev 1 39 Leader (A (AppendNotOk 2)),
     Ev 1 39 Leader (A (AppendNotOk 4)),
     Ev 1 39 Leader (A (AppendNotOk 3)),
     Ev 1 39 Leader (A (AppendNotOk 0)),
     Ev 2 28 Leader (A HeartBeat),
     Ev 2 28 Leader (A (AppendTo 0)),
     Ev 2 28 Leader (A (AppendTo 1)),
     Ev 2 28 Leader (A (AppendTo 3)),
     Ev 2 28 Leader (A (AppendTo 4))]"

definition run_56 :: "line list" where
  "run_56 = [
     Ev 2 28 Leader (A (AppendSent 1 [123, 123, 123, 1, 123])),
     Ev 2 28 Leader (A (AppendNotOk 1)),
     Ev 2 28 Leader (A (AppendSent 0 [123, 123, 123, 1, 123])),
     Ev 2 28 Leader (A (AppendSent 4 [123, 123, 123, 1, 123])),
     Ev 1 39 Leader (A HeartBeat),
     Ev 1 39 Leader (A (AppendTo 0)),
     Ev 1 39 Leader (A (AppendTo 2)),
     Ev 1 39 Leader (A (AppendTo 3)),
     Ev 1 39 Leader (A (AppendTo 4)),
     Ev 1 39 Leader (A (AppendSent 4 [1, 124, 124, 1, 124])),
     Ev 1 39 Leader (A (AppendSent 0 [1, 124, 124, 1, 124])),
     Ev 1 39 Leader (A (AppendSent 3 [1, 124, 124, 1, 124])),
     Ev 2 28 Leader (A (AppendSent 3 [123, 123, 123, 1, 123])),
     Ev 1 39 Leader (A (AppendSent 2 [1, 124, 124, 1, 124])),
     Ev 1 39 Leader (A (AppendNotOk 2)),
     Ev 2 28 Leader (A (AppendNotOk 3)),
     Ev 2 28 Leader (A (AppendNotOk 0)),
     Ev 1 39 Leader (A (AppendNotOk 3)),
     Ev 2 28 Leader (A (AppendNotOk 1)),
     Ev 2 28 Leader (A (AppendNotOk 4)),
     Ev 1 39 Leader (A (AppendNotOk 0)),
     Ev 1 39 Leader (A (AppendNotOk 4)),
     Ev 1 39 Leader (A HeartBeat),
     Ev 1 39 Leader (A (AppendTo 0)),
     Ev 2 28 Leader (A HeartBeat),
     Ev 2 28 Leader (A (AppendTo 0)),
     Ev 1 39 Leader (A (AppendTo 2)),
     Ev 1 39 Leader (A (AppendTo 3)),
     Ev 1 39 Leader (A (AppendTo 4)),
     Ev 2 28 Leader (A (AppendTo 1)),
     Ev 1 39 Leader (A (AppendSent 2 [1, 124, 124, 1, 124])),
     Ev 2 28 Leader (A (AppendTo 3)),
     Ev 2 28 Leader (A (AppendTo 4)),
     Ev 2 28 Leader (A (AppendSent 3 [123, 123, 123, 1, 123])),
     Ev 1 39 Leader (A (AppendSent 4 [1, 124, 124, 1, 124])),
     Ev 2 28 Leader (A (AppendSent 0 [123, 123, 123, 1, 123])),
     Ev 1 39 Leader (A (AppendSent 3 [1, 124, 124, 1, 124])),
     Ev 2 28 Leader (A (AppendSent 1 [123, 123, 123, 1, 123])),
     Ev 2 28 Leader (A (AppendSent 4 [123, 123, 123, 1, 123])),
     Ev 1 39 Leader (A (AppendSent 0 [1, 124, 124, 1, 124])),
     Ev 2 28 Leader (A (AppendNotOk 0)),
     Ev 1 39 Leader (A (AppendNotOk 3)),
     Ev 2 28 Leader (A (AppendNotOk 1)),
     Ev 1 39 Leader (A (AppendNotOk 2)),
     Ev 1 39 Leader (A (AppendNotOk 0)),
     Ev 2 28 Leader (A (AppendNotOk 3)),
     Ev 1 39 Leader (A (AppendNotOk 4)),
     Ev 1 39 Leader (A HeartBeat),
     Ev 2 28 Leader (A (AppendNotOk 4)),
     Ev 2 28 Leader (A HeartBeat),
     Ev 2 28 Leader (A (AppendTo 0)),
     Ev 1 39 Leader (A (AppendTo 0)),
     Ev 1 39 Leader (A (AppendTo 2)),
     Ev 1 39 Leader (A (AppendTo 3)),
     Ev 2 28 Leader (A (AppendTo 1)),
     Ev 2 28 Leader (A (AppendTo 3)),
     Ev 2 28 Leader (A (AppendTo 4)),
     Ev 1 39 Leader (A (AppendTo 4)),
     Ev 1 39 Leader (A (AppendSent 2 [1, 124, 124, 1, 124])),
     Ev 2 28 Leader (A (AppendSent 3 [123, 123, 123, 1, 123])),
     Ev 2 28 Leader (A (AppendSent 0 [123, 123, 123, 1, 123])),
     Ev 1 39 Leader (A (AppendSent 0 [1, 124, 124, 1, 124])),
     Ev 2 28 Leader (A (AppendSent 1 [123, 123, 123, 1, 123])),
     Ev 1 39 Leader (A (AppendSent 3 [1, 124, 124, 1, 124])),
     Ev 1 39 Leader (A (AppendSent 4 [1, 124, 124, 1, 124])),
     Ev 2 28 Leader (A (AppendSent 4 [123, 123, 123, 1, 123])),
     Ev 1 39 Leader (A (AppendNotOk 0)),
     Ev 1 39 Leader (A (AppendNotOk 3)),
     Ev 2 28 Leader (A (AppendNotOk 3)),
     Ev 2 28 Leader (A (AppendNotOk 0)),
     Ev 2 28 Leader (A (AppendNotOk 4)),
     Ev 1 39 Leader (A (AppendNotOk 4)),
     Ev 1 39 Leader (A (AppendNotOk 2)),
     Ev 2 28 Leader (A HeartBeat),
     Ev 2 28 Leader (A (AppendTo 0)),
     Ev 2 28 Leader (A (AppendTo 1)),
     Ev 2 28 Leader (A (AppendTo 3)),
     Ev 2 28 Leader (A (AppendTo 4)),
     Ev 1 39 Leader (A HeartBeat),
     Ev 1 39 Leader (A (AppendTo 0)),
     Ev 1 39 Leader (A (AppendTo 2)),
     Ev 1 39 Leader (A (AppendTo 3)),
     Ev 1 39 Leader (A (AppendTo 4)),
     Ev 2 28 Leader (A (AppendNotOk 1)),
     Ev 1 39 Leader (A (AppendSent 4 [1, 124, 124, 1, 124])),
     Ev 2 28 Leader (A (AppendSent 0 [123, 123, 123, 1, 123])),
     Ev 1 39 Leader (A (AppendSent 2 [1, 124, 124, 1, 124])),
     Ev 1 39 Leader (A (AppendSent 3 [1, 124, 124, 1, 124])),
     Ev 1 39 Leader (A (AppendSent 0 [1, 124, 124, 1, 124])),
     Ev 2 28 Leader (A (AppendSent 1 [123, 123, 123, 1, 123])),
     Ev 2 28 Leader (A (AppendSent 3 [123, 123, 123, 1, 123])),
     Ev 2 28 Leader (A (AppendSent 4 [123, 123, 123, 1, 123])),
     Ev 1 39 Leader (A (AppendNotOk 2)),
     Ev 2 28 Leader (A (AppendNotOk 3)),
     Ev 2 28 Leader (A (AppendNotOk 1)),
     Ev 1 39 Leader (A (AppendNotOk 4)),
     Ev 1 39 Leader (A (AppendNotOk 0)),
     Ev 4 48 Follower (E StartElection),
     Ev 2 28 Leader (A (AppendNotOk 4)),
     Ev 2 28 Leader (A HeartBeat),
     Ev 2 28 Leader (A (AppendTo 0)),
     Ev 2 28 Leader (A (AppendTo 1)),
     Ev 2 28 Leader (A (AppendTo 3)),
     Ev 2 28 Leader (A (AppendTo 4)),
     Ev 2 28 Leader (A (AppendSent 0 [123, 123, 123, 1, 123])),
     Ev 0 48 Candidate (E StartElection),
     Ev 0 49 Candidate (E BecomeCandidate),
     Ev 0 49 Candidate (E (RequestVoteTo 1)),
     Ev 0 49 Candidate (E (RequestVoteTo 2)),
     Ev 0 49 Candidate (E (RequestVoteTo 3)),
     Ev 0 49 Candidate (E (RequestVoteTo 4)),
     Ev 1 39 Leader (A (AppendNotOk 3)),
     Ev 1 39 Leader (A HeartBeat),
     Ev 1 39 Leader (A (AppendTo 0)),
     Ev 1 39 Leader (A (AppendTo 2)),
     Ev 1 39 Leader (A (AppendTo 3)),
     Ev 1 39 Leader (A (AppendTo 4)),
     Ev 2 28 Leader (A (AppendNotOk 0)),
     Ev 1 39 Leader (A (AppendSent 4 [1, 124, 124, 1, 124])),
     Ev 2 28 Leader (A (AppendSent 4 [123, 123, 123, 1, 123])),
     Ev 4 49 Candidate (E BecomeCandidate),
     Ev 4 49 Candidate (E (RequestVoteTo 0)),
     Ev 4 49 Candidate (E (RequestVoteTo 1)),
     Ev 4 49 Candidate (E (RequestVoteTo 2)),
     Ev 4 49 Candidate (E (RequestVoteTo 3)),
     Ev 1 39 Leader (A (AppendSent 0 [1, 124, 124, 1, 124])),
     Ev 1 39 Leader (A (AppendSent 2 [1, 124, 124, 1, 124])),
     Ev 2 28 Leader (A (AppendSent 1 [123, 123, 123, 1, 123])),
     Ev 2 28 Leader (A (AppendSent 3 [123, 123, 123, 1, 123])),
     Ev 1 39 Leader (A (AppendSent 3 [1, 124, 124, 1, 124])),
     Ev 2 28 Leader (A (AppendNotOk 4)),
     Ev 4 49 Candidate (E (VoteRequested 4 0 49)),
     Ev 4 49 Candidate (E (VoteArgs 49 133 16 520 521)),
     Ev 4 49 Candidate (E (Indices 122 122)),
     Ev 4 49 Candidate (E (LogTerms 16 9 520 133)),
     Ev 4 49 Candidate (E LogOutdated),
     Ev 0 49 Candidate (E (VoteReply 4 49 False)),
     Ev 0 49 Candidate (E (Indices 1 1)),
     Ev 0 49 Candidate (E (CheckElection 1 5)),
     Ev 4 49 Candidate (E (VoteNotOk 3)),
     Ev 1 39 Leader (A (AppendNotOk 2)),
     Ev 4 49 Candidate (E (VoteNotOk 1)),
     Ev 0 49 Candidate (E (VoteNotOk 1)),
     Ev 3 48 Candidate (E (VoteRequested 3 0 49)),
     Ev 3 48 Candidate (E (VoteArgs 49 133 14 123 124)),
     Ev 3 48 Candidate (E (Indices 1 1)),
     Ev 3 48 Candidate (E (TermLower 0)),
     Ev 0 49 Candidate (E (VoteRequested 0 4 49)),
     Ev 0 49 Candidate (E (VoteArgs 49 520 9 133 134)),
     Ev 0 49 Candidate (E (Indices 1 1))]"

definition run_57 :: "line list" where
  "run_57 = [
     Ev 0 49 Candidate (E (LogTerms 9 16 133 520)),
     Ev 0 49 Candidate (E RefuseVote),
     Ev 3 49 Follower (E (LogTerms 14 9 123 133)),
     Ev 3 49 Follower (E LogOutdated),
     Ev 4 49 Candidate (E (VoteReply 0 49 False)),
     Ev 4 49 Candidate (E (Indices 122 122)),
     Ev 4 49 Candidate (E (CheckElection 1 5)),
     Ev 0 49 Candidate (E (VoteNotOk 3)),
     Ev 2 28 Leader (A (AppendNotOk 3)),
     Ev 2 28 Leader (A (AppendNotOk 0)),
     Ev 1 39 Leader (A (AppendNotOk 3)),
     Ev 1 39 Leader (A (AppendNotOk 0)),
     Ev 4 49 Candidate (E (VoteNotOk 2)),
     Ev 0 49 Candidate (E (VoteNotOk 2)),
     Ev 1 39 Leader (A (AppendNotOk 4)),
     Ev 2 28 Leader (A (AppendNotOk 1)),
     Ev 2 28 Leader (A HeartBeat),
     Ev 2 28 Leader (A (AppendTo 0)),
     Ev 1 39 Leader (A HeartBeat),
     Ev 2 28 Leader (A (AppendTo 1)),
     Ev 1 39 Leader (A (AppendTo 0)),
     Ev 1 39 Leader (A (AppendTo 2)),
     Ev 2 28 Leader (A (AppendTo 3)),
     Ev 1 39 Leader (A (AppendTo 3)),
     Ev 2 28 Leader (A (AppendTo 4)),
     Ev 1 39 Leader (A (AppendTo 4)),
     Ev 2 28 Leader (A (AppendSent 1 [123, 123, 123, 1, 123])),
     Ev 1 39 Leader (A (AppendSent 2 [1, 124, 124, 1, 124])),
     Ev 2 28 Leader (A (AppendSent 4 [123, 123, 123, 1, 123])),
     Ev 2 28 Leader (A (AppendSent 0 [123, 123, 123, 1, 123])),
     Ev 1 39 Leader (A (AppendSent 0 [1, 124, 124, 1, 124])),
     Ev 2 28 Leader (A (AppendSent 3 [123, 123, 123, 1, 123])),
     Ev 1 39 Leader (A (AppendSent 3 [1, 124, 124, 1, 124])),
     Ev 1 39 Leader (A (AppendSent 4 [1, 124, 124, 1, 124])),
     Ev 1 39 Leader (A (AppendNotOk 2)),
     Ev 1 39 Leader (A (AppendNotOk 0)),
     Ev 2 28 Leader (A (AppendNotOk 4)),
     Ev 2 28 Leader (A (AppendNotOk 1)),
     Ev 1 39 Leader (A (AppendNotOk 4)),
     Ev 1 39 Leader (A (AppendNotOk 3)),
     Ev 2 28 Leader (A (AppendNotOk 0)),
     Ev 2 28 Leader (A (AppendNotOk 3)),
     Ev 0 49 Candidate (E (VoteReply 3 47 False)),
     Ev 0 49 Candidate (E (Indices 1 1)),
     Ev 0 49 Candidate (E (CheckElection 1 5)),
     Ev 1 39 Leader (A HeartBeat),
     Ev 2 28 Leader (A HeartBeat),
     Ev 1 39 Leader (A (AppendTo 0)),
     Ev 2 28 Leader (A (AppendTo 0)),
     Ev 1 39 Leader (A (AppendTo 2)),
     Ev 1 39 Leader (A (AppendTo 3)),
     Ev 1 39 Leader (A (AppendTo 4)),
     Ev 2 28 Leader (A (AppendTo 1)),
     Ev 1 39 Leader (A (AppendSent 4 [1, 124, 124, 1, 124])),
     Ev 2 28 Leader (A (AppendTo 3)),
     Ev 1 39 Leader (A (AppendSent 3 [1, 124, 124, 1, 124])),
     Ev 2 28 Leader (A (AppendTo 4)),
     Ev 2 28 Leader (A (AppendSent 0 [123, 123, 123, 1, 123])),
     Ev 2 28 Leader (A (AppendSent 4 [123, 123, 123, 1, 123])),
     Ev 1 39 Leader (A (AppendSent 0 [1, 124, 124, 1, 124])),
     Ev 1 39 Leader (A (AppendSent 2 [1, 124, 124, 1, 124])),
     Ev 2 28 Leader (A (AppendSent 1 [123, 123, 123, 1, 123])),
     Ev 2 28 Leader (A (AppendSent 3 [123, 123, 123, 1, 123])),
     Ev 2 28 Leader (A (AppendNotOk 3)),
     Ev 2 28 Leader (A (AppendNotOk 0)),
     Ev 2 28 Leader (A (AppendNotOk 1)),
     Ev 1 39 Leader (A (AppendNotOk 2)),
     Ev 1 39 Leader (A (AppendNotOk 0)),
     Ev 1 39 Leader (A (AppendNotOk 4)),
     Ev 2 28 Leader (A (AppendNotOk 4)),
     Ev 1 39 Leader (A HeartBeat),
     Ev 1 39 Leader (A (AppendTo 0)),
     Ev 1 39 Leader (A (AppendTo 2)),
     Ev 1 39 Leader (A (AppendTo 3)),
     Ev 1 39 Leader (A (AppendTo 4)),
     Ev 1 39 Leader (A (AppendSent 4 [1, 124, 124, 1, 124])),
     Ev 1 39 Leader (A (AppendSent 2 [1, 124, 124, 1, 124])),
     Ev 2 28 Leader (A HeartBeat),
     Ev 2 28 Leader (A (AppendTo 0)),
     Ev 2 28 Leader (A (AppendTo 1)),
     Ev 2 28 Leader (A (AppendTo 3)),
     Ev 2 28 Leader (A (AppendTo 4)),
     Ev 1 39 Leader (A (AppendNotOk 3)),
     Ev 2 28 Leader (A (AppendSent 4 [123, 123, 123, 1, 123])),
     Ev 1 39 Leader (A (AppendSent 3 [1, 124, 124, 1, 124])),
     Ev 2 28 Leader (A (AppendSent 1 [123, 123, 123, 1, 123])),
     Ev 2 28 Leader (A (AppendSent 3 [123, 123, 123, 1, 123])),
     Ev 1 39 Leader (A (AppendSent 0 [1, 124, 124, 1, 124])),
     Ev 2 28 Leader (A (AppendSent 0 [123, 123, 123, 1, 123])),
     Ev 2 28 Leader (A (AppendNotOk 0)),
     Ev 1 39 Leader (A (AppendNotOk 0)),
     Ev 2 28 Leader (A (AppendNotOk 1)),
     Ev 2 28 Leader (A (AppendNotOk 3)),
     Ev 1 39 Leader (A (AppendNotOk 3)),
     Ev 2 28 Leader (A (AppendNotOk 4)),
     Ev 1 39 Leader (A (AppendNotOk 4)),
     Ev 1 39 Leader (A (AppendNotOk 2)),
     Ev 1 39 Leader (A HeartBeat),
     Ev 1 39 Leader (A (AppendTo 0)),
     Ev 1 39 Leader (A (AppendTo 2)),
     Ev 2 28 Leader (A HeartBeat),
     Ev 2 28 Leader (A (AppendTo 0)),
     Ev 2 28 Leader (A (AppendTo 1)),
     Ev 2 28 Leader (A (AppendTo 3)),
     Ev 2 28 Leader (A (AppendTo 4)),
     Ev 1 39 Leader (A (AppendTo 3)),
     Ev 2 28 Leader (A (AppendSent 4 [123, 123, 123, 1, 123])),
     Ev 1 39 Leader (A (AppendTo 4)),
     Ev 2 28 Leader (A (AppendSent 1 [123, 123, 123, 1, 123])),
     Ev 1 39 Leader (A (AppendSent 2 [1, 124, 124, 1, 124])),
     Ev 1 39 Leader (A (AppendSent 3 [1, 124, 124, 1, 124])),
     Ev 1 39 Leader (A (AppendSent 4 [1, 124, 124, 1, 124])),
     Ev 2 28 Leader (A (AppendSent 3 [123, 123, 123, 1, 123])),
     Ev 2 28 Leader (A (AppendSent 0 [123, 123, 123, 1, 123])),
     Ev 1 39 Leader (A (AppendSent 0 [1, 124, 124, 1, 124])),
     Ev 1 39 Leader (A (AppendNotOk 3)),
     Ev 2 28 Leader (A (AppendNotOk 1)),
     Ev 2 28 Leader (A (AppendNotOk 0)),
     Ev 1 39 Leader (A (AppendNotOk 0)),
     Ev 1 39 Leader (A (AppendNotOk 2)),
     Ev 1 39 Leader (A (AppendNotOk 4)),
     Ev 2 28 Leader (A (AppendNotOk 4)),
     Ev 2 28 Leader (A HeartBeat),
     Ev 2 28 Leader (A (AppendTo 0)),
     Ev 1 39 Leader (A HeartBeat),
     Ev 1 39 Leader (A (AppendTo 0)),
     Ev 2 28 Leader (A (AppendTo 1)),
     Ev 1 39 Leader (A (AppendTo 2)),
     Ev 1 39 Leader (A (AppendTo 3)),
     Ev 1 39 Leader (A (AppendTo 4)),
     Ev 2 28 Leader (A (AppendTo 3)),
     Ev 2 28 Leader (A (AppendTo 4)),
     Ev 1 39 Leader (A (AppendSent 4 [1, 124, 124, 1, 124])),
     Ev 2 28 Leader (A (AppendSent 3 [123, 123, 123, 1, 123])),
     Ev 1 39 Leader (A (AppendSent 3 [1, 124, 124, 1, 124])),
     Ev 2 28 Leader (A (AppendNotOk 3)),
     Ev 2 28 Leader (A (AppendSent 0 [123, 123, 123, 1, 123])),
     Ev 2 28 Leader (A (AppendSent 1 [123, 123, 123, 1, 123])),
     Ev 1 39 Leader (A (AppendSent 0 [1, 124, 124, 1, 124])),
     Ev 2 28 Leader (A (AppendSent 4 [123, 123, 123, 1, 123])),
     Ev 1 39 Leader (A (AppendSent 2 [1, 124, 124, 1, 124])),
     Ev 1 39 Leader (A (AppendNotOk 4)),
     Ev 2 28 Leader (A (AppendNotOk 4)),
     Ev 3 49 Follower (E (VoteReply 4 48 False)),
     Ev 3 49 Follower (E (Indices 1 1)),
     Ev 3 49 Follower (E (CheckElection 0 5)),
     Ev 3 49 Follower (E NotCandidate),
     Ev 2 28 Leader (A (AppendNotOk 3)),
     Ev 1 39 Leader (A (AppendNotOk 3)),
     Ev 1 39 Leader (A (AppendNotOk 2))]"

definition run_58 :: "line list" where
  "run_58 = [
     Ev 1 39 Leader (A (AppendNotOk 0)),
     Ev 2 28 Leader (A (AppendNotOk 0)),
     Ev 2 28 Leader (A (AppendNotOk 1)),
     Ev 0 49 Candidate (E StartElection),
     Ev 1 39 Leader (A HeartBeat),
     Ev 4 49 Candidate (E StartElection),
     Ev 1 39 Leader (A (AppendTo 0)),
     Ev 1 39 Leader (A (AppendTo 2)),
     Ev 1 39 Leader (A (AppendTo 3)),
     Ev 2 28 Leader (A HeartBeat),
     Ev 2 28 Leader (A (AppendTo 0)),
     Ev 2 28 Leader (A (AppendTo 1)),
     Ev 2 28 Leader (A (AppendTo 3)),
     Ev 1 39 Leader (A (AppendTo 4)),
     Ev 2 28 Leader (A (AppendTo 4)),
     Ev 1 39 Leader (A (AppendSent 3 [1, 124, 124, 1, 124])),
     Ev 2 28 Leader (A (AppendSent 3 [123, 123, 123, 1, 123])),
     Ev 0 50 Candidate (E BecomeCandidate),
     Ev 0 50 Candidate (E (RequestVoteTo 1)),
     Ev 0 50 Candidate (E (RequestVoteTo 2)),
     Ev 0 50 Candidate (E (RequestVoteTo 3)),
     Ev 0 50 Candidate (E (RequestVoteTo 4)),
     Ev 2 28 Leader (A (AppendSent 0 [123, 123, 123, 1, 123])),
     Ev 1 39 Leader (A (AppendSent 4 [1, 124, 124, 1, 124])),
     Ev 2 28 Leader (A (AppendSent 4 [123, 123, 123, 1, 123])),
     Ev 1 39 Leader (A (AppendSent 0 [1, 124, 124, 1, 124])),
     Ev 2 28 Leader (A (AppendSent 1 [123, 123, 123, 1, 123])),
     Ev 4 50 Candidate (E BecomeCandidate),
     Ev 4 50 Candidate (E (RequestVoteTo 0)),
     Ev 4 50 Candidate (E (RequestVoteTo 1)),
     Ev 4 50 Candidate (E (RequestVoteTo 2)),
     Ev 4 50 Candidate (E (RequestVoteTo 3)),
     Ev 1 39 Leader (A (AppendSent 2 [1, 124, 124, 1, 124])),
     Ev 2 28 Leader (A (AppendNotOk 1)),
     Ev 1 39 Leader (A (AppendNotOk 4)),
     Ev 3 49 Follower (E (VoteRequested 0 0 50)),
     Ev 3 49 Follower (E (VoteArgs 50 133 14 123 124)),
     Ev 3 49 Follower (E (Indices 1 1)),
     Ev 3 49 Follower (E (TermLower 0)),
     Ev 4 50 Candidate (E (VoteRequested 4 0 50)),
     Ev 4 50 Candidate (E (VoteArgs 50 133 16 520 521)),
     Ev 4 50 Candidate (E (Indices 122 122)),
     Ev 4 50 Candidate (E (LogTerms 16 9 520 133)),
     Ev 4 50 Candidate (E LogOutdated),
     Ev 3 50 Follower (E (LogTerms 14 9 123 133)),
     Ev 3 50 Follower (E LogOutdated),
     Ev 0 50 Candidate (E (VoteReply 4 50 False)),
     Ev 0 50 Candidate (E (Indices 1 1)),
     Ev 0 50 Candidate (E (CheckElection 1 5)),
     Ev 1 39 Leader (A (AppendNotOk 3)),
     Ev 2 28 Leader (A (AppendNotOk 0)),
     Ev 1 39 Leader (A (AppendNotOk 2)),
     Ev 3 50 Follower (E (VoteRequested 0 4 50)),
     Ev 0 50 Candidate (E (VoteRequested 0 4 50)),
     Ev 3 50 Follower (E (VoteArgs 50 520 14 123 124)),
     Ev 0 50 Candidate (E (VoteArgs 50 520 9 133 134)),
     Ev 3 50 Follower (E (Indices 1 1)),
     Ev 0 50 Candidate (E (Indices 1 1)),
     Ev 3 50 Follower (E (LogTerms 14 16 123 520)),
     Ev 3 50 Follower (E RefuseVote),
     Ev 0 50 Candidate (E (LogTerms 9 16 133 520)),
     Ev 0 50 Candidate (E RefuseVote),
     Ev 4 50 Candidate (E (VoteReply 3 50 False)),
     Ev 4 50 Candidate (E (Indices 122 122)),
     Ev 4 50 Candidate (E (CheckElection 1 5)),
     Ev 2 28 Leader (A (AppendNotOk 3)),
     Ev 1 39 Leader (A (AppendNotOk 0)),
     Ev 4 50 Candidate (E (VoteNotOk 2)),
     Ev 4 50 Candidate (E (VoteNotOk 1)),
     Ev 2 28 Leader (A (AppendNotOk 4)),
     Ev 0 50 Candidate (E (VoteNotOk 1)),
     Ev 0 50 Candidate (E (VoteNotOk 2)),
     Ev 2 28 Leader (A HeartBeat),
     Ev 1 39 Leader (A HeartBeat),
     Ev 2 28 Leader (A (AppendTo 0)),
     Ev 1 39 Leader (A (AppendTo 0)),
     Ev 2 28 Leader (A (AppendTo 1)),
     Ev 2 28 Leader (A (AppendTo 3)),
     Ev 2 28 Leader (A (AppendTo 4)),
     Ev 1 39 Leader (A (AppendTo 2)),
     Ev 1 39 Leader (A (AppendTo 3)),
     Ev 1 39 Leader (A (AppendTo 4)),
     Ev 2 28 Leader (A (AppendSent 4 [123, 123, 123, 1, 123])),
     Ev 1 39 Leader (A (AppendSent 0 [1, 124, 124, 1, 124])),
     Ev 2 28 Leader (A (AppendSent 0 [123, 123, 123, 1, 123])),
     Ev 1 39 Leader (A (AppendSent 3 [1, 124, 124, 1, 124])),
     Ev 2 28 Leader (A (AppendSent 1 [123, 123, 123, 1, 123])),
     Ev 1 39 Leader (A (AppendSent 2 [1, 124, 124, 1, 124])),
     Ev 2 28 Leader (A (AppendSent 3 [123, 123, 123, 1, 123])),
     Ev 1 39 Leader (A (AppendSent 4 [1, 124, 124, 1, 124])),
     Ev 1 39 Leader (A (AppendNotOk 3)),
     Ev 2 28 Leader (A (AppendNotOk 4)),
     Ev 1 39 Leader (A (AppendNotOk 2)),
     Ev 1 39 Leader (A (AppendNotOk 0)),
     Ev 2 28 Leader (A (AppendNotOk 1)),
     Ev 2 28 Leader (A (AppendNotOk 3)),
     Ev 2 28 Leader (A (AppendNotOk 0)),
     Ev 1 39 Leader (A (AppendNotOk 4)),
     Ev 1 39 Leader (A HeartBeat),
     Ev 1 39 Leader (A (AppendTo 0)),
     Ev 2 28 Leader (A HeartBeat),
     Ev 2 28 Leader (A (AppendTo 0)),
     Ev 2 28 Leader (A (AppendTo 1)),
     Ev 2 28 Leader (A (AppendTo 3)),
     Ev 1 39 Leader (A (AppendTo 2)),
     Ev 2 28 Leader (A (AppendTo 4)),
     Ev 1 39 Leader (A (AppendTo 3)),
     Ev 1 39 Leader (A (AppendTo 4)),
     Ev 1 39 Leader (A (AppendSent 0 [1, 124, 124, 1, 124])),
     Ev 2 28 Leader (A (AppendSent 3 [123, 123, 123, 1, 123])),
     Ev 2 28 Leader (A (AppendSent 1 [123, 123, 123, 1, 123])),
     Ev 1 39 Leader (A (AppendSent 2 [1, 124, 124, 1, 124])),
     Ev 2 28 Leader (A (AppendSent 0 [123, 123, 123, 1, 123])),
     Ev 1 39 Leader (A (AppendSent 3 [1, 124, 124, 1, 124])),
     Ev 1 39 Leader (A (AppendSent 4 [1, 124, 124, 1, 124])),
     Ev 2 28 Leader (A (AppendSent 4 [123, 123, 123, 1, 123])),
     Ev 1 39 Leader (A (AppendNotOk 3)),
     Ev 1 39 Leader (A (AppendNotOk 0)),
     Ev 1 39 Leader (A (AppendNotOk 4)),
     Ev 2 28 Leader (A (AppendNotOk 0)),
     Ev 2 28 Leader (A (AppendNotOk 4)),
     Ev 4 50 Candidate (E (VoteReply 0 50 False)),
     Ev 4 50 Candidate (E (Indices 122 122)),
     Ev 4 50 Candidate (E (CheckElection 1 5)),
     Ev 1 39 Leader (A (AppendNotOk 2)),
     Ev 1 39 Leader (A HeartBeat),
     Ev 1 39 Leader (A (AppendTo 0)),
     Ev 1 39 Leader (A (AppendTo 2)),
     Ev 1 39 Leader (A (AppendTo 3)),
     Ev 1 39 Leader (A (AppendTo 4)),
     Ev 1 39 Leader (A (AppendSent 4 [1, 124, 124, 1, 124])),
     Ev 2 28 Leader (A (AppendNotOk 3)),
     Ev 1 39 Leader (A (AppendSent 0 [1, 124, 124, 1, 124])),
     Ev 1 39 Leader (A (AppendSent 2 [1, 124, 124, 1, 124])),
     Ev 2 28 Leader (A (AppendNotOk 1)),
     Ev 2 28 Leader (A HeartBeat),
     Ev 2 28 Leader (A (AppendTo 0)),
     Ev 2 28 Leader (A (AppendTo 1)),
     Ev 2 28 Leader (A (AppendTo 3)),
     Ev 2 28 Leader (A (AppendTo 4)),
     Ev 2 28 Leader (A (AppendSent 4 [123, 123, 123, 1, 123])),
     Ev 2 28 Leader (A (AppendSent 0 [123, 123, 123, 1, 123])),
     Ev 1 39 Leader (A (AppendSent 3 [1, 124, 124, 1, 124])),
     Ev 2 28 Leader (A (AppendSent 3 [123, 123, 123, 1, 123])),
     Ev 2 28 Leader (A (AppendSent 1 [123, 123, 123, 1, 123])),
     Ev 2 28 Leader (A (AppendNotOk 4)),
     Ev 1 39 Leader (A (AppendNotOk 3)),
     Ev 2 28 Leader (A (AppendNotOk 1)),
     Ev 1 39 Leader (A (AppendNotOk 2)),
     Ev 1 39 Leader (A (AppendNotOk 0))]"

definition run_59 :: "line list" where
  "run_59 = [
     Ev 2 28 Leader (A (AppendNotOk 3)),
     Ev 2 28 Leader (A (AppendNotOk 0)),
     Ev 0 50 Candidate (E (VoteReply 3 50 False)),
     Ev 0 50 Candidate (E (Indices 1 1)),
     Ev 0 50 Candidate (E (CheckElection 1 5)),
     Ev 1 39 Leader (A HeartBeat),
     Ev 2 28 Leader (A HeartBeat),
     Ev 2 28 Leader (A (AppendTo 0)),
     Ev 1 39 Leader (A (AppendTo 0)),
     Ev 1 39 Leader (A (AppendTo 2)),
     Ev 1 39 Leader (A (AppendTo 3)),
     Ev 2 28 Leader (A (AppendTo 1)),
     Ev 2 28 Leader (A (AppendTo 3)),
     Ev 1 39 Leader (A (AppendTo 4)),
     Ev 2 28 Leader (A (AppendTo 4)),
     Ev 1 39 Leader (A (AppendNotOk 4)),
     Ev 2 28 Leader (A (AppendSent 0 [123, 123, 123, 1, 123])),
     Ev 1 39 Leader (A (AppendSent 3 [1, 124, 124, 1, 124])),
     Ev 1 39 Leader (A (AppendSent 0 [1, 124, 124, 1, 124])),
     Ev 2 28 Leader (A (AppendSent 3 [123, 123, 123, 1, 123])),
     Ev 1 39 Leader (A (AppendSent 2 [1, 124, 124, 1, 124])),
     Ev 2 28 Leader (A (AppendSent 1 [123, 123, 123, 1, 123])),
     Ev 1 39 Leader (A (AppendSent 4 [1, 124, 124, 1, 124])),
     Ev 2 28 Leader (A (AppendSent 4 [123, 123, 123, 1, 123])),
     Ev 2 28 Leader (A (AppendNotOk 4)),
     Ev 1 39 Leader (A (AppendNotOk 3)),
     Ev 2 28 Leader (A (AppendNotOk 3)),
     Ev 1 39 Leader (A (AppendNotOk 0)),
     Ev 1 39 Leader (A (AppendNotOk 2)),
     Ev 2 28 Leader (A (AppendNotOk 0)),
     Ev 2 28 Leader (A (AppendNotOk 1)),
     Ev 2 28 Leader (A HeartBeat),
     Ev 2 28 Leader (A (AppendTo 0)),
     Ev 1 39 Leader (A (AppendNotOk 4)),
     Ev 1 39 Leader (A HeartBeat),
     Ev 1 39 Leader (A (AppendTo 0)),
     Ev 2 28 Leader (A (AppendTo 1)),
     Ev 1 39 Leader (A (AppendTo 2)),
     Ev 1 39 Leader (A (AppendTo 3)),
     Ev 1 39 Leader (A (AppendTo 4)),
     Ev 2 28 Leader (A (AppendTo 3)),
     Ev 1 39 Leader (A (AppendSent 4 [1, 124, 124, 1, 124])),
     Ev 2 28 Leader (A (AppendTo 4)),
     Ev 2 28 Leader (A (AppendSent 0 [123, 123, 123, 1, 123])),
     Ev 1 39 Leader (A (AppendSent 0 [1, 124, 124, 1, 124])),
     Ev 2 28 Leader (A (AppendSent 4 [123, 123, 123, 1, 123])),
     Ev 1 39 Leader (A (AppendSent 2 [1, 124, 124, 1, 124])),
     Ev 2 28 Leader (A (AppendSent 1 [123, 123, 123, 1, 123])),
     Ev 1 39 Leader (A (AppendSent 3 [1, 124, 124, 1, 124])),
     Ev 2 28 Leader (A (AppendSent 3 [123, 123, 123, 1, 123])),
     Ev 1 39 Leader (A (AppendNotOk 2)),
     Ev 2 28 Leader (A (AppendNotOk 4)),
     Ev 1 39 Leader (A (AppendNotOk 0)),
     Ev 1 39 Leader (A (AppendNotOk 4)),
     Ev 2 28 Leader (A (AppendNotOk 3)),
     Ev 2 28 Leader (A (AppendNotOk 1)),
     Ev 2 28 Leader (A (AppendNotOk 0)),
     Ev 1 39 Leader (A (AppendNotOk 3)),
     Ev 2 28 Leader (A HeartBeat),
     Ev 2 28 Leader (A (AppendTo 0)),
     Ev 1 39 Leader (A HeartBeat),
     Ev 1 39 Leader (A (AppendTo 0)),
     Ev 1 39 Leader (A (AppendTo 2)),
     Ev 2 28 Leader (A (AppendTo 1)),
     Ev 2 28 Leader (A (AppendTo 3)),
     Ev 1 39 Leader (A (AppendTo 3)),
     Ev 1 39 Leader (A (AppendTo 4)),
     Ev 2 28 Leader (A (AppendTo 4)),
     Ev 1 39 Leader (A (AppendSent 2 [1, 124, 124, 1, 124])),
     Ev 2 28 Leader (A (AppendSent 0 [123, 123, 123, 1, 123])),
     Ev 2 28 Leader (A (AppendSent 4 [123, 123, 123, 1, 123])),
     Ev 1 39 Leader (A (AppendSent 4 [1, 124, 124, 1, 124])),
     Ev 1 39 Leader (A (AppendSent 0 [1, 124, 124, 1, 124])),
     Ev 1 39 Leader (A (AppendSent 3 [1, 124, 124, 1, 124])),
     Ev 2 28 Leader (A (AppendSent 3 [123, 123, 123, 1, 123])),
     Ev 2 28 Leader (A (AppendSent 1 [123, 123, 123, 1, 123])),
     Ev 2 28 Leader (A (AppendNotOk 1)),
     Ev 1 39 Leader (A (AppendNotOk 3)),
     Ev 2 28 Leader (A (AppendNotOk 0)),
     Ev 1 39 Leader (A (AppendNotOk 4)),
     Ev 1 39 Leader (A (AppendNotOk 2)),
     Ev 2 28 Leader (A (AppendNotOk 3)),
     Ev 1 39 Leader (A (AppendNotOk 0)),
     Ev 2 28 Leader (A (AppendNotOk 4)),
     Ev 2 28 Leader (A HeartBeat),
     Ev 2 28 Leader (A (AppendTo 0)),
     Ev 0 50 Candidate (E StartElection),
     Ev 4 50 Candidate (E StartElection),
     Ev 2 28 Leader (A (AppendTo 1)),
     Ev 2 28 Leader (A (AppendTo 3)),
     Ev 2 28 Leader (A (AppendTo 4)),
     Ev 2 28 Leader (A (AppendSent 0 [123, 123, 123, 1, 123])),
     Ev 0 51 Candidate (E BecomeCandidate),
     Ev 0 51 Candidate (E (RequestVoteTo 1)),
     Ev 0 51 Candidate (E (RequestVoteTo 2)),
     Ev 0 51 Candidate (E (RequestVoteTo 3)),
     Ev 0 51 Candidate (E (RequestVoteTo 4)),
     Ev 4 51 Candidate (E BecomeCandidate),
     Ev 4 51 Candidate (E (RequestVoteTo 0)),
     Ev 4 51 Candidate (E (RequestVoteTo 1)),
     Ev 4 51 Candidate (E (RequestVoteTo 2)),
     Ev 4 51 Candidate (E (RequestVoteTo 3)),
     Ev 1 39 Leader (A HeartBeat),
     Ev 1 39 Leader (A (AppendTo 0)),
     Ev 1 39 Leader (A (AppendTo 2)),
     Ev 1 39 Leader (A (AppendTo 3)),
     Ev 1 39 Leader (A (AppendTo 4)),
     Ev 1 39 Leader (A (AppendSent 4 [1, 124, 124, 1, 124])),
     Ev 1 39 Leader (A (AppendSent 0 [1, 124, 124, 1, 124])),
     Ev 2 28 Leader (A (AppendSent 3 [123, 123, 123, 1, 123])),
     Ev 2 28 Leader (A (AppendSent 1 [123, 123, 123, 1, 123])),
     Ev 1 39 Leader (A (AppendSent 3 [1, 124, 124, 1, 124])),
     Ev 2 28 Leader (A (AppendSent 4 [123, 123, 123, 1, 123])),
     Ev 1 39 Leader (A (AppendSent 2 [1, 124, 124, 1, 124])),
     Ev 4 51 Candidate (E (VoteNotOk 0)),
     Ev 3 50 Follower (E (VoteRequested 0 0 51)),
     Ev 3 50 Follower (E (VoteArgs 51 133 14 123 124)),
     Ev 3 50 Follower (E (Indices 1 1)),
     Ev 3 50 Follower (E (TermLower 0)),
     Ev 4 51 Candidate (E (VoteRequested 4 0 51)),
     Ev 4 51 Candidate (E (VoteArgs 51 133 16 520 521)),
     Ev 4 51 Candidate (E (Indices 122 122)),
     Ev 4 51 Candidate (E (LogTerms 16 9 520 133)),
     Ev 4 51 Candidate (E LogOutdated),
     Ev 3 51 Follower (E (LogTerms 14 9 123 133)),
     Ev 3 51 Follower (E LogOutdated),
     Ev 0 51 Candidate (E (VoteReply 4 51 False)),
     Ev 0 51 Candidate (E (Indices 1 1)),
     Ev 0 51 Candidate (E (CheckElection 1 5)),
     Ev 0 51 Candidate (E (VoteReply 3 51 False)),
     Ev 0 51 Candidate (E (Indices 1 1)),
     Ev 0 51 Candidate (E (CheckElection 1 5)),
     Ev 2 28 Leader (A (AppendNotOk 3)),
     Ev 3 51 Follower (E (VoteRequested 0 4 51)),
     Ev 3 51 Follower (E (VoteArgs 51 520 14 123 124)),
     Ev 3 51 Follower (E (Indices 1 1)),
     Ev 3 51 Follower (E (LogTerms 14 16 123 520)),
     Ev 3 51 Follower (E RefuseVote),
     Ev 1 39 Leader (A (AppendNotOk 0)),
     Ev 1 39 Leader (A (AppendNotOk 4)),
     Ev 2 28 Leader (A (AppendNotOk 0)),
     Ev 2 28 Leader (A (AppendNotOk 4)),
     Ev 0 51 Candidate (E (VoteNotOk 1)),
     Ev 4 51 Candidate (E (VoteNotOk 2)),
     Ev 4 51 Candidate (E (VoteNotOk 1)),
     Ev 2 28 Leader (A (AppendNotOk 1)),
     Ev 1 39 Leader (A (AppendNotOk 3)),
     Ev 1 39 Leader (A (AppendNotOk 2)),
     Ev 0 51 Candidate (E (VoteNotOk 2)),
     Ev 2 28 Leader (A HeartBeat)]"

definition run_60 :: "line list" where
  "run_60 = [
     Ev 2 28 Leader (A (AppendTo 0)),
     Ev 2 28 Leader (A (AppendTo 1)),
     Ev 2 28 Leader (A (AppendTo 3)),
     Ev 2 28 Leader (A (AppendTo 4)),
     Ev 2 28 Leader (A (AppendSent 4 [123, 123, 123, 1, 123])),
     Ev 2 28 Leader (A (AppendSent 3 [123, 123, 123, 1, 123])),
     Ev 2 28 Leader (A (AppendSent 1 [123, 123, 123, 1, 123])),
     Ev 1 39 Leader (A HeartBeat),
     Ev 1 39 Leader (A (AppendTo 0)),
     Ev 1 39 Leader (A (AppendTo 2)),
     Ev 1 39 Leader (A (AppendTo 3)),
     Ev 1 39 Leader (A (AppendTo 4)),
     Ev 1 39 Leader (A (AppendSent 4 [1, 124, 124, 1, 124])),
     Ev 1 39 Leader (A (AppendSent 2 [1, 124, 124, 1, 124])),
     Ev 1 39 Leader (A (AppendSent 3 [1, 124, 124, 1, 124])),
     Ev 1 39 Leader (A (AppendSent 0 [1, 124, 124, 1, 124])),
     Ev 2 28 Leader (A (AppendSent 0 [123, 123, 123, 1, 123])),
     Ev 2 28 Leader (A (AppendNotOk 4)),
     Ev 1 39 Leader (A (AppendNotOk 2)),
     Ev 2 28 Leader (A (AppendNotOk 1)),
     Ev 1 39 Leader (A (AppendNotOk 3)),
     Ev 2 28 Leader (A (AppendNotOk 3)),
     Ev 2 28 Leader (A (AppendNotOk 0)),
     Ev 1 39 Leader (A (AppendNotOk 4)),
     Ev 1 39 Leader (A (AppendNotOk 0)),
     Ev 2 28 Leader (A HeartBeat),
     Ev 2 28 Leader (A (AppendTo 0)),
     Ev 2 28 Leader (A (AppendTo 1)),
     Ev 2 28 Leader (A (AppendTo 3)),
     Ev 2 28 Leader (A (AppendTo 4)),
     Ev 1 39 Leader (A HeartBeat),
     Ev 1 39 Leader (A (AppendTo 0)),
     Ev 1 39 Leader (A (AppendTo 2)),
     Ev 1 39 Leader (A (AppendTo 3)),
     Ev 1 39 Leader (A (AppendTo 4)),
     Ev 1 39 Leader (A (AppendSent 4 [1, 124, 124, 1, 124])),
     Ev 1 39 Leader (A (AppendSent 0 [1, 124, 124, 1, 124])),
     Ev 1 39 Leader (A (AppendSent 2 [1, 124, 124, 1, 124])),
     Ev 2 28 Leader (A (AppendSent 1 [123, 123, 123, 1, 123])),
     Ev 1 39 Leader (A (AppendSent 3 [1, 124, 124, 1, 124])),
     Ev 2 28 Leader (A (AppendSent 3 [123, 123, 123, 1, 123])),
     Ev 1 39 Leader (A (AppendNotOk 3)),
     Ev 2 28 Leader (A (AppendSent 4 [123, 123, 123, 1, 123])),
     Ev 2 28 Leader (A (AppendSent 0 [123, 123, 123, 1, 123])),
     Ev 2 28 Leader (A (AppendNotOk 3)),
     Ev 2 28 Leader (A (AppendNotOk 0)),
     Ev 1 39 Leader (A (AppendNotOk 4)),
     Ev 2 28 Leader (A (AppendNotOk 4)),
     Ev 4 51 Candidate (E (VoteReply 3 51 False)),
     Ev 4 51 Candidate (E (Indices 122 122)),
     Ev 4 51 Candidate (E (CheckElection 1 5)),
     Ev 2 28 Leader (A HeartBeat),
     Ev 2 28 Leader (A (AppendTo 0)),
     Ev 2 28 Leader (A (AppendTo 1)),
     Ev 2 28 Leader (A (AppendTo 3)),
     Ev 2 28 Leader (A (AppendTo 4)),
     Ev 2 28 Leader (A (AppendNotOk 1)),
     Ev 1 39 Leader (A HeartBeat),
     Ev 1 39 Leader (A (AppendTo 0)),
     Ev 1 39 Leader (A (AppendTo 2)),
     Ev 2 28 Leader (A (AppendSent 4 [123, 123, 123, 1, 123])),
     Ev 1 39 Leader (A (AppendTo 3)),
     Ev 1 39 Leader (A (AppendTo 4)),
     Ev 1 39 Leader (A (AppendNotOk 2)),
     Ev 1 39 Leader (A (AppendSent 4 [1, 124, 124, 1, 124])),
     Ev 2 28 Leader (A (AppendSent 0 [123, 123, 123, 1, 123])),
     Ev 1 39 Leader (A (AppendNotOk 0)),
     Ev 1 39 Leader (A (AppendSent 2 [1, 124, 124, 1, 124])),
     Ev 2 28 Leader (A (AppendSent 1 [123, 123, 123, 1, 123])),
     Ev 1 39 Leader (A (AppendSent 0 [1, 124, 124, 1, 124])),
     Ev 1 39 Leader (A (AppendSent 3 [1, 124, 124, 1, 124])),
     Ev 2 28 Leader (A (AppendSent 3 [123, 123, 123, 1, 123])),
     Ev 2 28 Leader (A (AppendNotOk 0)),
     Ev 1 39 Leader (A (AppendNotOk 2)),
     Ev 1 39 Leader (A (AppendNotOk 3)),
     Ev 2 28 Leader (A (AppendNotOk 4)),
     Ev 1 39 Leader (A (AppendNotOk 0)),
     Ev 2 28 Leader (A (AppendNotOk 1)),
     Ev 2 28 Leader (A (AppendNotOk 3)),
     Ev 2 28 Leader (A HeartBeat),
     Ev 2 28 Leader (A (AppendTo 0)),
     Ev 2 28 Leader (A (AppendTo 1)),
     Ev 1 39 Leader (A (AppendNotOk 4)),
     Ev 2 28 Leader (A (AppendTo 3)),
     Ev 1 39 Leader (A HeartBeat),
     Ev 1 39 Leader (A (AppendTo 0)),
     Ev 1 39 Leader (A (AppendTo 2)),
     Ev 2 28 Leader (A (AppendTo 4)),
     Ev 1 39 Leader (A (AppendTo 3)),
     Ev 1 39 Leader (A (AppendTo 4)),
     Ev 2 28 Leader (A (AppendSent 1 [123, 123, 123, 1, 123])),
     Ev 1 39 Leader (A (AppendSent 4 [1, 124, 124, 1, 124])),
     Ev 2 28 Leader (A (AppendSent 4 [123, 123, 123, 1, 123])),
     Ev 1 39 Leader (A (AppendSent 2 [1, 124, 124, 1, 124])),
     Ev 2 28 Leader (A (AppendSent 0 [123, 123, 123, 1, 123])),
     Ev 2 28 Leader (A (AppendSent 3 [123, 123, 123, 1, 123])),
     Ev 1 39 Leader (A (AppendSent 0 [1, 124, 124, 1, 124])),
     Ev 1 39 Leader (A (AppendSent 3 [1, 124, 124, 1, 124])),
     Ev 1 39 Leader (A (AppendNotOk 3)),
     Ev 2 28 Leader (A (AppendNotOk 0)),
     Ev 1 39 Leader (A (AppendNotOk 4)),
     Ev 2 28 Leader (A (AppendNotOk 1)),
     Ev 1 39 Leader (A (AppendNotOk 0)),
     Ev 2 28 Leader (A (AppendNotOk 4)),
     Ev 1 39 Leader (A (AppendNotOk 2)),
     Ev 2 28 Leader (A (AppendNotOk 3)),
     Ev 2 28 Leader (A HeartBeat),
     Ev 2 28 Leader (A (AppendTo 0)),
     Ev 3 51 Follower (E StartElection),
     Ev 2 28 Leader (A (AppendTo 1)),
     Ev 2 28 Leader (A (AppendTo 3)),
     Ev 2 28 Leader (A (AppendTo 4)),
     Ev 2 28 Leader (A (AppendSent 4 [123, 123, 123, 1, 123])),
     Ev 2 28 Leader (A (AppendSent 0 [123, 123, 123, 1, 123])),
     Ev 3 52 Candidate (E BecomeCandidate),
     Ev 3 52 Candidate (E (RequestVoteTo 0)),
     Ev 3 52 Candidate (E (RequestVoteTo 1)),
     Ev 3 52 Candidate (E (RequestVoteTo 2)),
     Ev 3 52 Candidate (E (RequestVoteTo 4)),
     Ev 1 39 Leader (A HeartBeat),
     Ev 1 39 Leader (A (AppendTo 0)),
     Ev 1 39 Leader (A (AppendTo 2)),
     Ev 1 39 Leader (A (AppendTo 3)),
     Ev 1 39 Leader (A (AppendTo 4)),
     Ev 1 39 Leader (A (AppendSent 4 [1, 124, 124, 1, 124])),
     Ev 1 39 Leader (A (AppendSent 2 [1, 124, 124, 1, 124])),
     Ev 1 39 Leader (A (AppendSent 0 [1, 124, 124, 1, 124])),
     Ev 2 28 Leader (A (AppendSent 1 [123, 123, 123, 1, 123])),
     Ev 1 39 Leader (A (AppendSent 3 [1, 124, 124, 1, 124])),
     Ev 2 28 Leader (A (AppendSent 3 [123, 123, 123, 1, 123])),
     Ev 1 39 Leader (A (AppendNotOk 0)),
     Ev 3 52 Candidate (E (VoteNotOk 2)),
     Ev 1 39 Leader (A (AppendNotOk 2)),
     Ev 2 28 Leader (A (AppendNotOk 1)),
     Ev 3 52 Candidate (E (VoteNotOk 1)),
     Ev 0 51 Candidate (E (VoteRequested 0 3 52)),
     Ev 4 51 Candidate (E (VoteRequested 4 3 52)),
     Ev 0 51 Candidate (E (VoteArgs 52 123 9 133 134)),
     Ev 4 51 Candidate (E (VoteArgs 52 123 16 520 521)),
     Ev 0 51 Candidate (E (Indices 1 1)),
     Ev 0 51 Candidate (E (TermLower 3)),
     Ev 4 51 Candidate (E (Indices 122 122)),
     Ev 4 51 Candidate (E (TermLower 3)),
     Ev 0 52 Follower (E (LogTerms 9 14 133 123)),
     Ev 0 52 Follower (E (VoteGranted 52 123 9 133 134)),
     Ev 0 52 Follower (E (Indices 1 1)),
     Ev 4 52 Follower (E (LogTerms 16 14 520 123)),
     Ev 4 52 Follower (E LogOutdated),
     Ev 3 52 Candidate (E (VoteNotOk 4)),
     Ev 2 28 Leader (A (AppendNotOk 3))]"

definition run_61 :: "line list" where
  "run_61 = [
     Ev 1 39 Leader (A (AppendNotOk 3)),
     Ev 1 39 Leader (A (AppendNotOk 4)),
     Ev 2 28 Leader (A (AppendNotOk 0)),
     Ev 1 39 Leader (A HeartBeat),
     Ev 1 39 Leader (A (AppendTo 0)),
     Ev 1 39 Leader (A (AppendTo 2)),
     Ev 1 39 Leader (A (AppendTo 3)),
     Ev 1 39 Leader (A (AppendTo 4)),
     Ev 2 28 Leader (A (AppendNotOk 4)),
     Ev 1 39 Leader (A (AppendSent 4 [1, 124, 124, 1, 124])),
     Ev 2 28 Leader (A HeartBeat),
     Ev 1 39 Leader (A (AppendSent 3 [1, 124, 124, 1, 124])),
     Ev 2 28 Leader (A (AppendTo 0)),
     Ev 2 28 Leader (A (AppendTo 1)),
     Ev 2 28 Leader (A (AppendTo 3)),
     Ev 2 28 Leader (A (AppendTo 4)),
     Ev 2 28 Leader (A (AppendSent 4 [123, 123, 123, 1, 123])),
     Ev 2 28 Leader (A (AppendSent 0 [123, 123, 123, 1, 123])),
     Ev 2 28 Leader (A (AppendSent 3 [123, 123, 123, 1, 123])),
     Ev 2 28 Leader (A (AppendSent 1 [123, 123, 123, 1, 123])),
     Ev 1 39 Leader (A (AppendSent 0 [1, 124, 124, 1, 124])),
     Ev 1 39 Leader (A (AppendSent 2 [1, 124, 124, 1, 124])),
     Ev 1 39 Leader (A (AppendNotOk 0)),
     Ev 2 28 Leader (A (AppendNotOk 3)),
     Ev 1 39 Leader (A (AppendNotOk 2)),
     Ev 2 28 Leader (A (AppendNotOk 1)),
     Ev 1 39 Leader (A (AppendNotOk 4)),
     Ev 1 39 Leader (A (AppendNotOk 3)),
     Ev 2 28 Leader (A (AppendNotOk 0)),
     Ev 1 39 Leader (A HeartBeat),
     Ev 1 39 Leader (A (AppendTo 0)),
     Ev 2 28 Leader (A HeartBeat),
     Ev 2 28 Leader (A (AppendTo 0)),
     Ev 1 39 Leader (A (AppendTo 2)),
     Ev 1 39 Leader (A (AppendTo 3)),
     Ev 1 39 Leader (A (AppendTo 4)),
     Ev 2 28 Leader (A (AppendTo 1)),
     Ev 2 28 Leader (A (AppendTo 3)),
     Ev 2 28 Leader (A (AppendTo 4)),
     Ev 1 39 Leader (A (AppendSent 0 [1, 124, 124, 1, 124])),
     Ev 2 28 Leader (A (AppendNotOk 4)),
     Ev 2 28 Leader (A (AppendSent 0 [123, 123, 123, 1, 123])),
     Ev 1 39 Leader (A (AppendSent 3 [1, 124, 124, 1, 124])),
     Ev 1 39 Leader (A (AppendSent 2 [1, 124, 124, 1, 124])),
     Ev 2 28 Leader (A (AppendSent 1 [123, 123, 123, 1, 123])),
     Ev 1 39 Leader (A (AppendSent 4 [1, 124, 124, 1, 124])),
     Ev 2 28 Leader (A (AppendSent 3 [123, 123, 123, 1, 123])),
     Ev 2 28 Leader (A (AppendSent 4 [123, 123, 123, 1, 123])),
     Ev 2 28 Leader (A (AppendNotOk 4)),
     Ev 2 28 Leader (A (AppendNotOk 1)),
     Ev 2 28 Leader (A (AppendNotOk 3)),
     Ev 1 39 Leader (A (AppendNotOk 4)),
     Ev 1 39 Leader (A (AppendNotOk 2)),
     Ev 1 39 Leader (A (AppendNotOk 3)),
     Ev 1 39 Leader (A (AppendNotOk 0)),
     Ev 2 28 Leader (A (AppendNotOk 0)),
     Ev 2 28 Leader (A HeartBeat),
     Ev 2 28 Leader (A (AppendTo 0)),
     Ev 2 28 Leader (A (AppendTo 1)),
     Ev 2 28 Leader (A (AppendTo 3)),
     Ev 2 28 Leader (A (AppendTo 4)),
     Ev 1 39 Leader (A HeartBeat),
     Ev 1 39 Leader (A (AppendTo 0)),
     Ev 2 28 Leader (A (AppendSent 0 [123, 123, 123, 1, 123])),
     Ev 1 39 Leader (A (AppendTo 2)),
     Ev 2 28 Leader (A (AppendSent 4 [123, 123, 123, 1, 123])),
     Ev 1 39 Leader (A (AppendTo 3)),
     Ev 1 39 Leader (A (AppendTo 4)),
     Ev 1 39 Leader (A (AppendSent 4 [1, 124, 124, 1, 124])),
     Ev 1 39 Leader (A (AppendSent 3 [1, 124, 124, 1, 124])),
     Ev 2 28 Leader (A (AppendSent 1 [123, 123, 123, 1, 123])),
     Ev 1 39 Leader (A (AppendSent 0 [1, 124, 124, 1, 124])),
     Ev 2 28 Leader (A (AppendSent 3 [123, 123, 123, 1, 123])),
     Ev 1 39 Leader (A (AppendSent 2 [1, 124, 124, 1, 124])),
     Ev 2 28 Leader (A (AppendNotOk 4)),
     Ev 1 39 Leader (A (AppendNotOk 0)),
     Ev 1 39 Leader (A (AppendNotOk 2)),
     Ev 1 39 Leader (A (AppendNotOk 4)),
     Ev 1 39 Leader (A (AppendNotOk 3)),
     Ev 2 28 Leader (A (AppendNotOk 3)),
     Ev 2 28 Leader (A (AppendNotOk 1)),
     Ev 1 39 Leader (A HeartBeat),
     Ev 1 39 Leader (A (AppendTo 0)),
     Ev 1 39 Leader (A (AppendTo 2)),
     Ev 1 39 Leader (A (AppendTo 3)),
     Ev 1 39 Leader (A (AppendTo 4)),
     Ev 1 39 Leader (A (AppendSent 4 [1, 124, 124, 1, 124])),
     Ev 2 28 Leader (A HeartBeat),
     Ev 2 28 Leader (A (AppendTo 0)),
     Ev 2 28 Leader (A (AppendTo 1)),
     Ev 2 28 Leader (A (AppendTo 3)),
     Ev 1 39 Leader (A (AppendSent 2 [1, 124, 124, 1, 124])),
     Ev 1 39 Leader (A (AppendSent 0 [1, 124, 124, 1, 124])),
     Ev 1 39 Leader (A (AppendSent 3 [1, 124, 124, 1, 124])),
     Ev 2 28 Leader (A (AppendTo 4)),
     Ev 2 28 Leader (A (AppendSent 3 [123, 123, 123, 1, 123])),
     Ev 2 28 Leader (A (AppendSent 0 [123, 123, 123, 1, 123])),
     Ev 2 28 Leader (A (AppendSent 1 [123, 123, 123, 1, 123])),
     Ev 2 28 Leader (A (AppendNotOk 0)),
     Ev 2 28 Leader (A (AppendSent 4 [123, 123, 123, 1, 123])),
     Ev 2 28 Leader (A (AppendNotOk 0)),
     Ev 1 39 Leader (A (AppendNotOk 0)),
     Ev 2 28 Leader (A (AppendNotOk 1)),
     Ev 2 28 Leader (A (AppendNotOk 3)),
     Ev 1 39 Leader (A (AppendNotOk 4)),
     Ev 3 52 Candidate (E (VoteReply 0 52 True)),
     Ev 3 52 Candidate (E (Indices 1 1)),
     Ev 3 52 Candidate (E (VoteGained 0)),
     Ev 3 52 Candidate (E (CheckElection 2 5)),
     Ev 1 39 Leader (A (AppendNotOk 2)),
     Ev 2 28 Leader (A (AppendNotOk 4)),
     Ev 1 39 Leader (A (AppendNotOk 3)),
     Ev 2 28 Leader (A HeartBeat),
     Ev 2 28 Leader (A (AppendTo 0)),
     Ev 2 28 Leader (A (AppendTo 1)),
     Ev 2 28 Leader (A (AppendTo 3)),
     Ev 2 28 Leader (A (AppendTo 4)),
     Ev 2 28 Leader (A (AppendSent 4 [123, 123, 123, 1, 123])),
     Ev 2 28 Leader (A (AppendSent 3 [123, 123, 123, 1, 123])),
     Ev 0 52 Follower (E StartElection),
     Ev 1 39 Leader (A HeartBeat),
     Ev 1 39 Leader (A (AppendTo 0)),
     Ev 1 39 Leader (A (AppendTo 2)),
     Ev 1 39 Leader (A (AppendTo 3)),
     Ev 1 39 Leader (A (AppendTo 4)),
     Ev 0 53 Candidate (E BecomeCandidate),
     Ev 1 39 Leader (A (AppendSent 4 [1, 124, 124, 1, 124])),
     Ev 0 53 Candidate (E (RequestVoteTo 1)),
     Ev 0 53 Candidate (E (RequestVoteTo 2)),
     Ev 0 53 Candidate (E (RequestVoteTo 3)),
     Ev 0 53 Candidate (E (RequestVoteTo 4)),
     Ev 1 39 Leader (A (AppendSent 2 [1, 124, 124, 1, 124])),
     Ev 2 28 Leader (A (AppendSent 1 [123, 123, 123, 1, 123])),
     Ev 1 39 Leader (A (AppendSent 3 [1, 124, 124, 1, 124])),
     Ev 3 52 Candidate (E (VoteRequested 3 0 53)),
     Ev 3 52 Candidate (E (VoteArgs 53 133 14 123 124)),
     Ev 3 52 Candidate (E (Indices 1 1)),
     Ev 3 52 Candidate (E (TermLower 0)),
     Ev 1 39 Leader (A (AppendSent 0 [1, 124, 124, 1, 124])),
     Ev 3 53 Follower (E (LogTerms 14 9 123 133)),
     Ev 3 53 Follower (E LogOutdated),
     Ev 2 28 Leader (A (AppendSent 0 [123, 123, 123, 1, 123])),
     Ev 0 53 Candidate (E (VoteNotOk 1)),
     Ev 0 53 Candidate (E (VoteNotOk 2)),
     Ev 4 52 Follower (E (VoteRequested 3 0 53)),
     Ev 4 52 Follower (E (VoteArgs 53 133 16 520 521)),
     Ev 4 52 Follower (E (Indices 122 122)),
     Ev 4 52 Follower (E (TermLower 0)),
     Ev 4 53 Follower (E (LogTerms 16 9 520 133)),
     Ev 4 53 Follower (E LogOutdated)]"

definition part_6 :: "line list list" where
  "part_6 =
     [run_52, run_53, run_54, run_55, run_56, run_57, run_58, run_59, run_60, run_61]"

lemma part_6_replays: "read_all replay obs_5 part_6 = Some obs_6"
  by code_simp

end
