(* ===== verification/Trace_7.thy ===== *)
theory Trace_7
  imports Trace_States
begin

text \<open>
  The recorded run, lines 9151 to 10605 of raft/2timesvote.ts, one element per line in the
  order of the file, and the proof that this part conforms.
\<close>

definition run_62 :: "line list" where
  "run_62 = [
     Ev 2 28 Leader (A (AppendNotOk 0)),
     Ev 2 28 Leader (A (AppendNotOk 3)),
     Ev 1 39 Leader (A (AppendNotOk 0)),
     Ev 2 28 Leader (A (AppendNotOk 1)),
     Ev 1 39 Leader (A (AppendNotOk 4)),
     Ev 2 28 Leader (A (AppendNotOk 4)),
     Ev 1 39 Leader (A (AppendNotOk 3)),
     Ev 1 39 Leader (A (AppendNotOk 2)),
     Ev 1 39 Leader (A HeartBeat),
     Ev 1 39 Leader (A (AppendTo 0)),
     Ev 2 28 Leader (A HeartBeat),
     Ev 2 28 Leader (A (AppendTo 0)),
     Ev 2 28 Leader (A (AppendTo 1)),
     Ev 2 28 Leader (A (AppendTo 3)),
     Ev 1 39 Leader (A (AppendTo 2)),
     Ev 1 39 Leader (A (AppendTo 3)),
     Ev 1 39 Leader (A (AppendTo 4)),
     Ev 2 28 Leader (A (AppendTo 4)),
     Ev 1 39 Leader (A (AppendSent 0 [1, 124, 124, 1, 124])),
     Ev 2 28 Leader (A (AppendSent 3 [123, 123, 123, 1, 123])),
     Ev 2 28 Leader (A (AppendSent 4 [123, 123, 123, 1, 123])),
     Ev 1 39 Leader (A (AppendSent 3 [1, 124, 124, 1, 124])),
     Ev 1 39 Leader (A (AppendSent 4 [1, 124, 124, 1, 124])),
     Ev 1 39 Leader (A (AppendSent 2 [1, 124, 124, 1, 124])),
     Ev 2 28 Leader (A (AppendSent 0 [123, 123, 123, 1, 123])),
     Ev 2 28 Leader (A (AppendSent 1 [123, 123, 123, 1, 123])),
     Ev 2 28 Leader (A (AppendNotOk 4)),
     Ev 2 28 Leader (A (AppendNotOk 1)),
     Ev 1 39 Leader (A (AppendNotOk 4)),
     Ev 2 28 Leader (A (AppendNotOk 3)),
     Ev 1 39 Leader (A (AppendNotOk 2)),
     Ev 1 39 Leader (A (AppendNotOk 0)),
     Ev 1 39 Leader (A (AppendNotOk 3)),
     Ev 2 28 Leader (A (AppendNotOk 0)),
     Ev 2 28 Leader (A HeartBeat),
     Ev 2 28 Leader (A (AppendTo 0)),
     Ev 2 28 Leader (A (AppendTo 1)),
     Ev 2 28 Leader (A (AppendTo 3)),
     Ev 2 28 Leader (A (AppendTo 4)),
     Ev 2 28 Leader (A (AppendSent 4 [123, 123, 123, 1, 123])),
     Ev 2 28 Leader (A (AppendSent 1 [123, 123, 123, 1, 123])),
     Ev 2 28 Leader (A (AppendSent 3 [123, 123, 123, 1, 123])),
     Ev 1 39 Leader (A HeartBeat),
     Ev 1 39 Leader (A (AppendTo 0)),
     Ev 1 39 Leader (A (AppendTo 2)),
     Ev 1 39 Leader (A (AppendTo 3)),
     Ev 1 39 Leader (A (AppendTo 4)),
     Ev 1 39 Leader (A (AppendSent 4 [1, 124, 124, 1, 124])),
     Ev 1 39 Leader (A (AppendSent 2 [1, 124, 124, 1, 124])),
     Ev 1 39 Leader (A (AppendSent 0 [1, 124, 124, 1, 124])),
     Ev 2 28 Leader (A (AppendSent 0 [123, 123, 123, 1, 123])),
     Ev 1 39 Leader (A (AppendSent 3 [1, 124, 124, 1, 124])),
     Ev 1 39 Leader (A (AppendNotOk 2)),
     Ev 1 39 Leader (A (AppendNotOk 3)),
     Ev 2 28 Leader (A (AppendNotOk 1)),
     Ev 1 39 Leader (A (AppendNotOk 0)),
     Ev 2 28 Leader (A (AppendNotOk 3)),
     Ev 2 28 Leader (A (AppendNotOk 4)),
     Ev 2 28 Leader (A (AppendNotOk 0)),
     Ev 1 39 Leader (A (AppendNotOk 4)),
     Ev 2 28 Leader (A HeartBeat),
     Ev 2 28 Leader (A (AppendTo 0)),
     Ev 2 28 Leader (A (AppendTo 1)),
     Ev 2 28 Leader (A (AppendTo 3)),
     Ev 2 28 Leader (A (AppendTo 4)),
     Ev 2 28 Leader (A (AppendSent 0 [123, 123, 123, 1, 123])),
     Ev 2 28 Leader (A (AppendSent 4 [123, 123, 123, 1, 123])),
     Ev 2 28 Leader (A (AppendSent 1 [123, 123, 123, 1, 123])),
     Ev 2 28 Leader (A (AppendSent 3 [123, 123, 123, 1, 123])),
     Ev 1 39 Leader (A HeartBeat),
     Ev 1 39 Leader (A (AppendTo 0)),
     Ev 1 39 Leader (A (AppendTo 2)),
     Ev 1 39 Leader (A (AppendTo 3)),
     Ev 1 39 Leader (A (AppendTo 4)),
     Ev 1 39 Leader (A (AppendSent 4 [1, 124, 124, 1, 124])),
     Ev 1 39 Leader (A (AppendSent 0 [1, 124, 124, 1, 124])),
     Ev 1 39 Leader (A (AppendSent 2 [1, 124, 124, 1, 124])),
     Ev 1 39 Leader (A (AppendSent 3 [1, 124, 124, 1, 124])),
     Ev 2 28 Leader (A (AppendNotOk 4)),
     Ev 1 39 Leader (A (AppendNotOk 0)),
     Ev 1 39 Leader (A (AppendNotOk 3)),
     Ev 2 28 Leader (A (AppendNotOk 3)),
     Ev 1 39 Leader (A (AppendNotOk 2)),
     Ev 1 39 Leader (A (AppendNotOk 4)),
     Ev 2 28 Leader (A (AppendNotOk 1)),
     Ev 1 39 Leader (A HeartBeat),
     Ev 1 39 Leader (A (AppendTo 0)),
     Ev 1 39 Leader (A (AppendTo 2)),
     Ev 1 39 Leader (A (AppendTo 3)),
     Ev 1 39 Leader (A (AppendTo 4)),
     Ev 1 39 Leader (A (AppendSent 4 [1, 124, 124, 1, 124])),
     Ev 2 28 Leader (A (AppendNotOk 0)),
     Ev 2 28 Leader (A HeartBeat),
     Ev 2 28 Leader (A (AppendTo 0)),
     Ev 2 28 Leader (A (AppendTo 1)),
     Ev 2 28 Leader (A (AppendTo 3)),
     Ev 0 53 Candidate (E (VoteReply 3 53 False)),
     Ev 0 53 Candidate (E (Indices 1 1)),
     Ev 0 53 Candidate (E (CheckElection 1 5)),
     Ev 2 28 Leader (A (AppendTo 4)),
     Ev 2 28 Leader (A (AppendSent 3 [123, 123, 123, 1, 123])),
     Ev 2 28 Leader (A (AppendSent 4 [123, 123, 123, 1, 123])),
     Ev 1 39 Leader (A (AppendSent 2 [1, 124, 124, 1, 124])),
     Ev 1 39 Leader (A (AppendSent 0 [1, 124, 124, 1, 124])),
     Ev 1 39 Leader (A (AppendSent 3 [1, 124, 124, 1, 124])),
     Ev 2 28 Leader (A (AppendSent 0 [123, 123, 123, 1, 123])),
     Ev 2 28 Leader (A (AppendSent 1 [123, 123, 123, 1, 123])),
     Ev 2 28 Leader (A (AppendNotOk 3)),
     Ev 1 39 Leader (A (AppendNotOk 4)),
     Ev 2 28 Leader (A (AppendNotOk 1)),
     Ev 2 28 Leader (A (AppendNotOk 0)),
     Ev 1 39 Leader (A (AppendNotOk 3)),
     Ev 1 39 Leader (A (AppendNotOk 0)),
     Ev 1 39 Leader (A (AppendNotOk 2)),
     Ev 2 28 Leader (A (AppendNotOk 4)),
     Ev 2 28 Leader (A HeartBeat),
     Ev 2 28 Leader (A (AppendTo 0)),
     Ev 2 28 Leader (A (AppendTo 1)),
     Ev 2 28 Leader (A (AppendTo 3)),
     Ev 2 28 Leader (A (AppendTo 4)),
     Ev 2 28 Leader (A (AppendSent 0 [123, 123, 123, 1, 123])),
     Ev 2 28 Leader (A (AppendSent 4 [123, 123, 123, 1, 123])),
     Ev 2 28 Leader (A (AppendSent 1 [123, 123, 123, 1, 123])),
     Ev 1 39 Leader (A HeartBeat),
     Ev 1 39 Leader (A (AppendTo 0)),
     Ev 1 39 Leader (A (AppendTo 2)),
     Ev 1 39 Leader (A (AppendTo 3)),
     Ev 1 39 Leader (A (AppendTo 4)),
     Ev 1 39 Leader (A (AppendSent 4 [1, 124, 124, 1, 124])),
     Ev 1 39 Leader (A (AppendSent 2 [1, 124, 124, 1, 124])),
     Ev 1 39 Leader (A (AppendSent 3 [1, 124, 124, 1, 124])),
     Ev 2 28 Leader (A (AppendSent 3 [123, 123, 123, 1, 123])),
     Ev 1 39 Leader (A (AppendSent 0 [1, 124, 124, 1, 124])),
     Ev 1 39 Leader (A (AppendNotOk 2)),
     Ev 2 28 Leader (A (AppendNotOk 4)),
     Ev 1 39 Leader (A (AppendNotOk 0)),
     Ev 2 28 Leader (A (AppendNotOk 3)),
     Ev 1 39 Leader (A (AppendNotOk 4)),
     Ev 1 39 Leader (A (AppendNotOk 3)),
     Ev 2 28 Leader (A (AppendNotOk 1)),
     Ev 2 28 Leader (A (AppendNotOk 0)),
     Ev 2 28 Leader (A HeartBeat),
     Ev 2 28 Leader (A (AppendTo 0)),
     Ev 1 39 Leader (A HeartBeat),
     Ev 1 39 Leader (A (AppendTo 0)),
     Ev 4 53 Follower (E StartElection),
     Ev 2 28 Leader (A (AppendTo 1)),
     Ev 3 53 Follower (E StartElection),
     Ev 2 28 Leader (A (AppendTo 3)),
     Ev 1 39 Leader (A (AppendTo 2))]"

definition run_63 :: "line list" where
  "run_63 = [
     Ev 2 28 Leader (A (AppendTo 4)),
     Ev 1 39 Leader (A (AppendTo 3)),
     Ev 1 39 Leader (A (AppendTo 4)),
     Ev 2 28 Leader (A (AppendSent 0 [123, 123, 123, 1, 123])),
     Ev 3 54 Candidate (E BecomeCandidate),
     Ev 3 54 Candidate (E (RequestVoteTo 0)),
     Ev 3 54 Candidate (E (RequestVoteTo 1)),
     Ev 3 54 Candidate (E (RequestVoteTo 2)),
     Ev 3 54 Candidate (E (RequestVoteTo 4)),
     Ev 1 39 Leader (A (AppendSent 3 [1, 124, 124, 1, 124])),
     Ev 1 39 Leader (A (AppendSent 2 [1, 124, 124, 1, 124])),
     Ev 2 28 Leader (A (AppendSent 3 [123, 123, 123, 1, 123])),
     Ev 1 39 Leader (A (AppendSent 4 [1, 124, 124, 1, 124])),
     Ev 4 54 Candidate (E BecomeCandidate),
     Ev 4 54 Candidate (E (RequestVoteTo 0)),
     Ev 4 54 Candidate (E (RequestVoteTo 1)),
     Ev 4 54 Candidate (E (RequestVoteTo 2)),
     Ev 4 54 Candidate (E (RequestVoteTo 3)),
     Ev 1 39 Leader (A (AppendSent 0 [1, 124, 124, 1, 124])),
     Ev 2 28 Leader (A (AppendSent 4 [123, 123, 123, 1, 123])),
     Ev 2 28 Leader (A (AppendSent 1 [123, 123, 123, 1, 123])),
     Ev 1 39 Leader (A (AppendNotOk 0)),
     Ev 0 53 Candidate (E (VoteRequested 0 3 54)),
     Ev 4 54 Candidate (E (VoteRequested 4 3 54)),
     Ev 0 53 Candidate (E (VoteArgs 54 123 9 133 134)),
     Ev 4 54 Candidate (E (VoteArgs 54 123 16 520 521)),
     Ev 4 54 Candidate (E (Indices 122 122)),
     Ev 0 53 Candidate (E (Indices 1 1)),
     Ev 4 54 Candidate (E (LogTerms 16 14 520 123)),
     Ev 0 53 Candidate (E (TermLower 3)),
     Ev 4 54 Candidate (E LogOutdated),
     Ev 3 54 Candidate (E (VoteRequested 3 4 54)),
     Ev 3 54 Candidate (E (VoteArgs 54 520 14 123 124)),
     Ev 3 54 Candidate (E (Indices 1 1)),
     Ev 3 54 Candidate (E (LogTerms 14 16 123 520)),
     Ev 3 54 Candidate (E RefuseVote),
     Ev 4 54 Candidate (E (VoteNotOk 2)),
     Ev 3 54 Candidate (E (VoteReply 4 54 False)),
     Ev 3 54 Candidate (E (Indices 1 1)),
     Ev 0 54 Follower (E (LogTerms 9 14 133 123)),
     Ev 3 54 Candidate (E (CheckElection 1 5)),
     Ev 0 54 Follower (E (VoteGranted 54 123 9 133 134)),
     Ev 0 54 Follower (E (Indices 1 1)),
     Ev 2 28 Leader (A (AppendNotOk 1)),
     Ev 3 54 Candidate (E (VoteNotOk 2)),
     Ev 0 54 Follower (E (VoteRequested 3 4 54)),
     Ev 0 54 Follower (E (VoteArgs 54 520 9 133 134)),
     Ev 0 54 Follower (E (Indices 1 1)),
     Ev 0 54 Follower (E (LogTerms 9 16 133 520)),
     Ev 0 54 Follower (E RefuseVote),
     Ev 4 54 Candidate (E (VoteNotOk 0)),
     Ev 2 28 Leader (A (AppendNotOk 4)),
     Ev 2 28 Leader (A (AppendNotOk 0)),
     Ev 1 39 Leader (A (AppendNotOk 3)),
     Ev 1 39 Leader (A (AppendNotOk 4)),
     Ev 3 54 Candidate (E (VoteNotOk 1)),
     Ev 2 28 Leader (A (AppendNotOk 3)),
     Ev 4 54 Candidate (E (VoteNotOk 1)),
     Ev 1 39 Leader (A (AppendNotOk 2)),
     Ev 2 28 Leader (A HeartBeat),
     Ev 2 28 Leader (A (AppendTo 0)),
     Ev 2 28 Leader (A (AppendTo 1)),
     Ev 2 28 Leader (A (AppendTo 3)),
     Ev 2 28 Leader (A (AppendTo 4)),
     Ev 2 28 Leader (A (AppendSent 4 [123, 123, 123, 1, 123])),
     Ev 2 28 Leader (A (AppendSent 1 [123, 123, 123, 1, 123])),
     Ev 2 28 Leader (A (AppendSent 3 [123, 123, 123, 1, 123])),
     Ev 1 39 Leader (A HeartBeat),
     Ev 1 39 Leader (A (AppendTo 0)),
     Ev 1 39 Leader (A (AppendTo 2)),
     Ev 1 39 Leader (A (AppendTo 3)),
     Ev 1 39 Leader (A (AppendTo 4)),
     Ev 1 39 Leader (A (AppendSent 0 [1, 124, 124, 1, 124])),
     Ev 2 28 Leader (A (AppendSent 0 [123, 123, 123, 1, 123])),
     Ev 1 39 Leader (A (AppendSent 4 [1, 124, 124, 1, 124])),
     Ev 2 28 Leader (A (AppendNotOk 1)),
     Ev 1 39 Leader (A (AppendSent 2 [1, 124, 124, 1, 124])),
     Ev 1 39 Leader (A (AppendSent 3 [1, 124, 124, 1, 124])),
     Ev 1 39 Leader (A (AppendNotOk 3)),
     Ev 1 39 Leader (A (AppendNotOk 2)),
     Ev 1 39 Leader (A (AppendNotOk 4)),
     Ev 1 39 Leader (A (AppendNotOk 0)),
     Ev 2 28 Leader (A (AppendNotOk 4)),
     Ev 2 28 Leader (A (AppendNotOk 3)),
     Ev 2 28 Leader (A (AppendNotOk 0)),
     Ev 1 39 Leader (A HeartBeat),
     Ev 2 28 Leader (A HeartBeat),
     Ev 2 28 Leader (A (AppendTo 0)),
     Ev 1 39 Leader (A (AppendTo 0)),
     Ev 1 39 Leader (A (AppendTo 2)),
     Ev 2 28 Leader (A (AppendTo 1)),
     Ev 2 28 Leader (A (AppendTo 3)),
     Ev 2 28 Leader (A (AppendTo 4)),
     Ev 1 39 Leader (A (AppendTo 3)),
     Ev 1 39 Leader (A (AppendTo 4)),
     Ev 2 28 Leader (A (AppendSent 3 [123, 123, 123, 1, 123])),
     Ev 2 28 Leader (A (AppendSent 0 [123, 123, 123, 1, 123])),
     Ev 2 28 Leader (A (AppendSent 4 [123, 123, 123, 1, 123])),
     Ev 1 39 Leader (A (AppendSent 2 [1, 124, 124, 1, 124])),
     Ev 1 39 Leader (A (AppendSent 0 [1, 124, 124, 1, 124])),
     Ev 1 39 Leader (A (AppendSent 3 [1, 124, 124, 1, 124])),
     Ev 1 39 Leader (A (AppendSent 4 [1, 124, 124, 1, 124])),
     Ev 2 28 Leader (A (AppendSent 1 [123, 123, 123, 1, 123])),
     Ev 2 28 Leader (A (AppendNotOk 4)),
     Ev 2 28 Leader (A (AppendNotOk 0)),
     Ev 1 39 Leader (A (AppendNotOk 3)),
     Ev 1 39 Leader (A (AppendNotOk 2)),
     Ev 1 39 Leader (A (AppendNotOk 4)),
     Ev 1 39 Leader (A (AppendNotOk 0)),
     Ev 2 28 Leader (A (AppendNotOk 1)),
     Ev 2 28 Leader (A (AppendNotOk 3)),
     Ev 2 28 Leader (A HeartBeat),
     Ev 1 39 Leader (A HeartBeat),
     Ev 1 39 Leader (A (AppendTo 0)),
     Ev 1 39 Leader (A (AppendTo 2)),
     Ev 2 28 Leader (A (AppendTo 0)),
     Ev 1 39 Leader (A (AppendTo 3)),
     Ev 1 39 Leader (A (AppendTo 4)),
     Ev 2 28 Leader (A (AppendTo 1)),
     Ev 2 28 Leader (A (AppendTo 3)),
     Ev 2 28 Leader (A (AppendTo 4)),
     Ev 1 39 Leader (A (AppendSent 2 [1, 124, 124, 1, 124])),
     Ev 1 39 Leader (A (AppendSent 4 [1, 124, 124, 1, 124])),
     Ev 1 39 Leader (A (AppendSent 3 [1, 124, 124, 1, 124])),
     Ev 2 28 Leader (A (AppendSent 4 [123, 123, 123, 1, 123])),
     Ev 1 39 Leader (A (AppendSent 0 [1, 124, 124, 1, 124])),
     Ev 2 28 Leader (A (AppendSent 0 [123, 123, 123, 1, 123])),
     Ev 2 28 Leader (A (AppendSent 1 [123, 123, 123, 1, 123])),
     Ev 2 28 Leader (A (AppendSent 3 [123, 123, 123, 1, 123])),
     Ev 2 28 Leader (A (AppendNotOk 0)),
     Ev 2 28 Leader (A (AppendNotOk 1)),
     Ev 1 39 Leader (A (AppendNotOk 2)),
     Ev 1 39 Leader (A (AppendNotOk 3)),
     Ev 2 28 Leader (A (AppendNotOk 3)),
     Ev 2 28 Leader (A (AppendNotOk 4)),
     Ev 4 54 Candidate (E (VoteReply 3 54 False)),
     Ev 4 54 Candidate (E (Indices 122 122)),
     Ev 4 54 Candidate (E (CheckElection 1 5)),
     Ev 1 39 Leader (A (AppendNotOk 4)),
     Ev 1 39 Leader (A (AppendNotOk 0)),
     Ev 1 39 Leader (A HeartBeat),
     Ev 1 39 Leader (A (AppendTo 0)),
     Ev 1 39 Leader (A (AppendTo 2)),
     Ev 2 28 Leader (A HeartBeat),
     Ev 1 39 Leader (A (AppendTo 3)),
     Ev 2 28 Leader (A (AppendTo 0)),
     Ev 2 28 Leader (A (AppendTo 1)),
     Ev 1 39 Leader (A (AppendTo 4)),
     Ev 2 28 Leader (A (AppendTo 3)),
     Ev 1 39 Leader (A (AppendSent 2 [1, 124, 124, 1, 124]))]"

definition run_64 :: "line list" where
  "run_64 = [
     Ev 2 28 Leader (A (AppendTo 4)),
     Ev 2 28 Leader (A (AppendSent 1 [123, 123, 123, 1, 123])),
     Ev 2 28 Leader (A (AppendSent 3 [123, 123, 123, 1, 123])),
     Ev 1 39 Leader (A (AppendSent 0 [1, 124, 124, 1, 124])),
     Ev 1 39 Leader (A (AppendSent 3 [1, 124, 124, 1, 124])),
     Ev 1 39 Leader (A (AppendSent 4 [1, 124, 124, 1, 124])),
     Ev 2 28 Leader (A (AppendSent 0 [123, 123, 123, 1, 123])),
     Ev 2 28 Leader (A (AppendSent 4 [123, 123, 123, 1, 123])),
     Ev 1 39 Leader (A (AppendNotOk 3)),
     Ev 2 28 Leader (A (AppendNotOk 4)),
     Ev 1 39 Leader (A (AppendNotOk 4)),
     Ev 1 39 Leader (A (AppendNotOk 2)),
     Ev 2 28 Leader (A (AppendNotOk 1)),
     Ev 2 28 Leader (A (AppendNotOk 3)),
     Ev 2 28 Leader (A (AppendNotOk 0)),
     Ev 1 39 Leader (A (AppendNotOk 0)),
     Ev 2 28 Leader (A HeartBeat),
     Ev 1 39 Leader (A HeartBeat),
     Ev 1 39 Leader (A (AppendTo 0)),
     Ev 4 54 Candidate (E StartElection),
     Ev 1 39 Leader (A (AppendTo 2)),
     Ev 2 28 Leader (A (AppendTo 0)),
     Ev 2 28 Leader (A (AppendTo 1)),
     Ev 1 39 Leader (A (AppendTo 3)),
     Ev 2 28 Leader (A (AppendTo 3)),
     Ev 2 28 Leader (A (AppendTo 4)),
     Ev 1 39 Leader (A (AppendTo 4)),
     Ev 2 28 Leader (A (AppendSent 1 [123, 123, 123, 1, 123])),
     Ev 1 39 Leader (A (AppendSent 0 [1, 124, 124, 1, 124])),
     Ev 2 28 Leader (A (AppendSent 3 [123, 123, 123, 1, 123])),
     Ev 2 28 Leader (A (AppendSent 4 [123, 123, 123, 1, 123])),
     Ev 4 55 Candidate (E BecomeCandidate),
     Ev 4 55 Candidate (E (RequestVoteTo 0)),
     Ev 4 55 Candidate (E (RequestVoteTo 1)),
     Ev 4 55 Candidate (E (RequestVoteTo 2)),
     Ev 4 55 Candidate (E (RequestVoteTo 3)),
     Ev 2 28 Leader (A (AppendSent 0 [123, 123, 123, 1, 123])),
     Ev 1 39 Leader (A (AppendSent 2 [1, 124, 124, 1, 124])),
     Ev 1 39 Leader (A (AppendSent 3 [1, 124, 124, 1, 124])),
     Ev 1 39 Leader (A (AppendSent 4 [1, 124, 124, 1, 124])),
     Ev 0 54 Follower (E (VoteRequested 3 4 55)),
     Ev 0 54 Follower (E (VoteArgs 55 520 9 133 134)),
     Ev 0 54 Follower (E (Indices 1 1)),
     Ev 0 54 Follower (E (TermLower 4)),
     Ev 3 54 Candidate (E (VoteRequested 3 4 55)),
     Ev 3 54 Candidate (E (VoteArgs 55 520 14 123 124)),
     Ev 3 54 Candidate (E (Indices 1 1)),
     Ev 3 54 Candidate (E (TermLower 4)),
     Ev 0 55 Follower (E (LogTerms 9 16 133 520)),
     Ev 3 55 Follower (E (LogTerms 14 16 123 520)),
     Ev 3 55 Follower (E (VoteGranted 55 520 14 123 124)),
     Ev 3 55 Follower (E (Indices 1 1)),
     Ev 0 55 Follower (E (VoteGranted 55 520 9 133 134)),
     Ev 0 55 Follower (E (Indices 1 1)),
     Ev 4 55 Candidate (E (VoteReply 0 55 True)),
     Ev 4 55 Candidate (E (Indices 122 122)),
     Ev 4 55 Candidate (E (VoteGained 0)),
     Ev 4 55 Candidate (E (CheckElection 2 5)),
     Ev 4 55 Candidate (E (VoteReply 3 55 True)),
     Ev 4 55 Candidate (E (Indices 122 122)),
     Ev 4 55 Candidate (E (VoteGained 3)),
     Ev 4 55 Candidate (E (CheckElection 3 5)),
     Ev 4 56 Leader (E BecomesLeader),
     Ev 4 56 Leader (A HeartBeat),
     Ev 4 56 Leader (A (AppendTo 0)),
     Ev 4 56 Leader (A (AppendTo 1)),
     Ev 4 56 Leader (A (AppendTo 2)),
     Ev 4 56 Leader (A (AppendTo 3)),
     Ev 4 56 Leader (A (AppendSent 0 [521, 521, 521, 521, 521])),
     Ev 4 56 Leader (A (AppendSent 1 [521, 521, 521, 521, 521])),
     Ev 4 56 Leader (A (AppendSent 3 [521, 521, 521, 521, 521])),
     Ev 4 56 Leader (A (AppendSent 2 [521, 521, 521, 521, 521])),
     Ev 0 55 Follower (A (AppendFrom 4 56)),
     Ev 4 56 Leader (E (VoteNotOk 2)),
     Ev 4 56 Leader (E (VoteNotOk 1)),
     Ev 3 55 Follower (A (AppendFrom 4 56)),
     Ev 0 56 Follower (A (OutOfRange 520 134)),
     Ev 3 56 Follower (A (OutOfRange 520 124)),
     Ev 2 28 Leader (A (AppendNotOk 3)),
     Ev 2 28 Leader (A (AppendNotOk 4)),
     Ev 1 39 Leader (A (AppendNotOk 4)),
     Ev 2 28 Leader (A (AppendNotOk 1)),
     Ev 1 39 Leader (A (AppendNotOk 3)),
     Ev 2 28 Leader (A (AppendNotOk 0)),
     Ev 4 56 Leader (A (AppendNotOk 1)),
     Ev 1 39 Leader (A (AppendNotOk 0)),
     Ev 4 56 Leader (A HeartBeat),
     Ev 4 56 Leader (A (AppendTo 0)),
     Ev 4 56 Leader (A (AppendTo 1)),
     Ev 4 56 Leader (A (AppendTo 2)),
     Ev 4 56 Leader (A (AppendTo 3)),
     Ev 1 39 Leader (A HeartBeat),
     Ev 1 39 Leader (A (AppendTo 0)),
     Ev 4 56 Leader (A (AppendSent 3 [521, 521, 521, 521, 521])),
     Ev 4 56 Leader (A (AppendSent 0 [521, 521, 521, 521, 521])),
     Ev 2 28 Leader (A HeartBeat),
     Ev 2 28 Leader (A (AppendTo 0)),
     Ev 2 28 Leader (A (AppendTo 1)),
     Ev 4 56 Leader (A (AppendNotOk 2)),
     Ev 2 28 Leader (A (AppendTo 3)),
     Ev 2 28 Leader (A (AppendTo 4)),
     Ev 4 56 Leader (A (AppendSent 2 [521, 521, 521, 521, 521])),
     Ev 4 56 Leader (A (AppendSent 1 [521, 521, 521, 521, 521])),
     Ev 2 28 Leader (A (AppendSent 1 [123, 123, 123, 1, 123])),
     Ev 1 39 Leader (A (AppendTo 2)),
     Ev 1 39 Leader (A (AppendTo 3)),
     Ev 1 39 Leader (A (AppendTo 4)),
     Ev 1 39 Leader (A (AppendSent 0 [1, 124, 124, 1, 124])),
     Ev 1 39 Leader (A (AppendSent 4 [1, 124, 124, 1, 124])),
     Ev 1 39 Leader (A (AppendNotOk 2)),
     Ev 1 39 Leader (A (AppendSent 2 [1, 124, 124, 1, 124])),
     Ev 1 39 Leader (A (AppendSent 3 [1, 124, 124, 1, 124])),
     Ev 2 28 Leader (A (AppendSent 0 [123, 123, 123, 1, 123])),
     Ev 2 28 Leader (A (AppendSent 3 [123, 123, 123, 1, 123])),
     Ev 2 28 Leader (A (AppendSent 4 [123, 123, 123, 1, 123])),
     Ev 1 39 Leader (A (AppendNotOk 4)),
     Ev 3 56 Follower (A (AppendFrom 4 56)),
     Ev 0 56 Follower (A (AppendFrom 4 56)),
     Ev 3 56 Follower (A (OutOfRange 520 124)),
     Ev 0 56 Follower (A (OutOfRange 520 134)),
     Ev 4 56 Leader (A (AppendRefused 0 520 16 521)),
     Ev 2 28 Leader (A (AppendNotOk 1)),
     Ev 2 28 Leader (A (AppendNotOk 4)),
     Ev 2 28 Leader (A (AppendNotOk 0)),
     Ev 4 56 Leader (A (AppendNotOk 2)),
     Ev 1 39 Leader (A (AppendNotOk 0)),
     Ev 2 28 Leader (A (AppendNotOk 3)),
     Ev 4 56 Leader (A (AppendNotOk 1)),
     Ev 1 39 Leader (A (AppendNotOk 3)),
     Ev 2 28 Leader (A HeartBeat),
     Ev 4 56 Leader (A HeartBeat),
     Ev 4 56 Leader (A (AppendTo 0)),
     Ev 4 56 Leader (A (AppendTo 1)),
     Ev 4 56 Leader (A (AppendTo 2)),
     Ev 2 28 Leader (A (AppendTo 0)),
     Ev 2 28 Leader (A (AppendTo 1)),
     Ev 1 39 Leader (A HeartBeat),
     Ev 1 39 Leader (A (AppendTo 0)),
     Ev 1 39 Leader (A (AppendTo 2)),
     Ev 1 39 Leader (A (AppendTo 3)),
     Ev 4 56 Leader (A (AppendTo 3)),
     Ev 1 39 Leader (A (AppendTo 4)),
     Ev 4 56 Leader (A (AppendSent 2 [99, 521, 521, 521, 521])),
     Ev 1 39 Leader (A (AppendNotOk 2)),
     Ev 2 28 Leader (A (AppendTo 3)),
     Ev 2 28 Leader (A (AppendTo 4)),
     Ev 4 56 Leader (A (AppendSent 1 [99, 521, 521, 521, 521])),
     Ev 2 28 Leader (A (AppendSent 1 [123, 123, 123, 1, 123])),
     Ev 1 39 Leader (A (AppendSent 4 [1, 124, 124, 1, 124])),
     Ev 4 56 Leader (A (AppendSent 0 [99, 521, 521, 521, 521]))]"

definition run_65 :: "line list" where
  "run_65 = [
     Ev 2 28 Leader (A (AppendSent 3 [123, 123, 123, 1, 123])),
     Ev 2 28 Leader (A (AppendSent 4 [123, 123, 123, 1, 123])),
     Ev 4 56 Leader (A (AppendSent 3 [99, 521, 521, 521, 521])),
     Ev 1 39 Leader (A (AppendSent 0 [1, 124, 124, 1, 124])),
     Ev 1 39 Leader (A (AppendSent 2 [1, 124, 124, 1, 124])),
     Ev 1 39 Leader (A (AppendSent 3 [1, 124, 124, 1, 124])),
     Ev 2 28 Leader (A (AppendSent 0 [123, 123, 123, 1, 123])),
     Ev 3 56 Follower (A (AppendFrom 4 56)),
     Ev 3 56 Follower (A (OutOfRange 520 124)),
     Ev 4 56 Leader (A (AppendNotOk 3)),
     Ev 0 56 Follower (A (AppendFrom 4 56)),
     Ev 0 56 Follower (A (NoMatch 2 98)),
     Ev 4 56 Leader (A (AppendNotOk 0)),
     Ev 1 39 Leader (A (AppendNotOk 4)),
     Ev 0 56 Follower (E (VoteReply 4 53 False)),
     Ev 0 56 Follower (E (Indices 1 1)),
     Ev 0 56 Follower (E (CheckElection 0 5)),
     Ev 0 56 Follower (E NotCandidate),
     Ev 2 28 Leader (A (AppendNotOk 1)),
     Ev 2 28 Leader (A (AppendNotOk 4)),
     Ev 1 39 Leader (A (AppendNotOk 0)),
     Ev 2 28 Leader (A (AppendNotOk 3)),
     Ev 1 39 Leader (A (AppendNotOk 3)),
     Ev 4 56 Leader (A (AppendNotOk 1)),
     Ev 2 28 Leader (A (AppendNotOk 0)),
     Ev 1 39 Leader (A (AppendNotOk 2)),
     Ev 4 56 Leader (A HeartBeat),
     Ev 4 56 Leader (A (AppendTo 0)),
     Ev 4 56 Leader (A (AppendTo 1)),
     Ev 4 56 Leader (A (AppendTo 2)),
     Ev 4 56 Leader (A (AppendTo 3)),
     Ev 4 56 Leader (A (AppendSent 3 [99, 521, 521, 521, 521])),
     Ev 2 28 Leader (A HeartBeat),
     Ev 2 28 Leader (A (AppendTo 0)),
     Ev 2 28 Leader (A (AppendTo 1)),
     Ev 2 28 Leader (A (AppendTo 3)),
     Ev 2 28 Leader (A (AppendTo 4)),
     Ev 4 56 Leader (A (AppendSent 0 [99, 521, 521, 521, 521])),
     Ev 1 39 Leader (A HeartBeat),
     Ev 1 39 Leader (A (AppendTo 0)),
     Ev 1 39 Leader (A (AppendTo 2)),
     Ev 1 39 Leader (A (AppendTo 3)),
     Ev 1 39 Leader (A (AppendTo 4)),
     Ev 4 56 Leader (A (AppendSent 1 [99, 521, 521, 521, 521])),
     Ev 4 56 Leader (A (AppendSent 2 [99, 521, 521, 521, 521])),
     Ev 4 56 Leader (A (AppendNotOk 2)),
     Ev 2 28 Leader (A (AppendSent 4 [123, 123, 123, 1, 123])),
     Ev 2 28 Leader (A (AppendSent 3 [123, 123, 123, 1, 123])),
     Ev 2 28 Leader (A (AppendSent 0 [123, 123, 123, 1, 123])),
     Ev 1 39 Leader (A (AppendSent 2 [1, 124, 124, 1, 124])),
     Ev 1 39 Leader (A (AppendSent 0 [1, 124, 124, 1, 124])),
     Ev 1 39 Leader (A (AppendSent 3 [1, 124, 124, 1, 124])),
     Ev 1 39 Leader (A (AppendSent 4 [1, 124, 124, 1, 124])),
     Ev 2 28 Leader (A (AppendSent 1 [123, 123, 123, 1, 123])),
     Ev 4 56 Leader (A (AppendNotOk 0)),
     Ev 0 56 Follower (A (AppendFrom 1 39)),
     Ev 0 56 Follower (A TermSmaller),
     Ev 1 39 Leader (A (AppendNotOk 0)),
     Ev 4 56 Leader (A (AppendNotOk 1)),
     Ev 2 28 Leader (A (AppendNotOk 1)),
     Ev 3 56 Follower (A (AppendFrom 1 39)),
     Ev 3 56 Follower (A TermSmaller),
     Ev 1 39 Leader (A (AppendBigger 3 56)),
     Ev 1 56 Follower (A (AppendNotOk 4)),
     Ev 2 28 Leader (A (AppendNotOk 4)),
     Ev 1 56 Follower (A (AppendNotOk 2)),
     Ev 4 56 Leader (A (AppendNotOk 3)),
     Ev 4 56 Leader (A (AppendNotOk 2)),
     Ev 2 28 Leader (A (AppendNotOk 3)),
     Ev 4 56 Leader (A (AppendRefused 3 520 16 521)),
     Ev 2 28 Leader (A (AppendNotOk 0)),
     Ev 4 56 Leader (A HeartBeat),
     Ev 4 56 Leader (A (AppendTo 0)),
     Ev 2 28 Leader (A HeartBeat),
     Ev 2 28 Leader (A (AppendTo 0)),
     Ev 4 56 Leader (A (AppendTo 1)),
     Ev 4 56 Leader (A (AppendTo 2)),
     Ev 4 56 Leader (A (AppendTo 3)),
     Ev 2 28 Leader (A (AppendTo 1)),
     Ev 4 56 Leader (A (AppendSent 3 [99, 521, 521, 99, 521])),
     Ev 2 28 Leader (A (AppendTo 3)),
     Ev 2 28 Leader (A (AppendTo 4)),
     Ev 4 56 Leader (A (AppendSent 0 [99, 521, 521, 99, 521])),
     Ev 4 56 Leader (A (AppendSent 1 [99, 521, 521, 99, 521])),
     Ev 2 28 Leader (A (AppendSent 3 [123, 123, 123, 1, 123])),
     Ev 4 56 Leader (A (AppendSent 2 [99, 521, 521, 99, 521])),
     Ev 2 28 Leader (A (AppendSent 0 [123, 123, 123, 1, 123])),
     Ev 2 28 Leader (A (AppendSent 1 [123, 123, 123, 1, 123])),
     Ev 2 28 Leader (A (AppendSent 4 [123, 123, 123, 1, 123])),
     Ev 2 28 Leader (A (AppendNotOk 4)),
     Ev 2 28 Leader (A (AppendNotOk 1)),
     Ev 2 28 Leader (A (AppendNotOk 3)),
     Ev 4 56 Leader (A (AppendNotOk 0)),
     Ev 4 56 Leader (A (AppendNotOk 1)),
     Ev 2 28 Leader (A (AppendNotOk 0)),
     Ev 4 56 Leader (A (AppendNotOk 3)),
     Ev 4 56 Leader (A (AppendNotOk 2)),
     Ev 2 28 Leader (A HeartBeat),
     Ev 2 28 Leader (A (AppendTo 0)),
     Ev 2 28 Leader (A (AppendTo 1)),
     Ev 2 28 Leader (A (AppendTo 3)),
     Ev 2 28 Leader (A (AppendTo 4)),
     Ev 2 28 Leader (A (AppendSent 4 [123, 123, 123, 1, 123])),
     Ev 4 56 Leader (A HeartBeat),
     Ev 4 56 Leader (A (AppendTo 0)),
     Ev 4 56 Leader (A (AppendTo 1)),
     Ev 4 56 Leader (A (AppendTo 2)),
     Ev 4 56 Leader (A (AppendTo 3)),
     Ev 2 28 Leader (A (AppendSent 0 [123, 123, 123, 1, 123])),
     Ev 4 56 Leader (A (AppendSent 3 [99, 521, 521, 99, 521])),
     Ev 4 56 Leader (A (AppendSent 1 [99, 521, 521, 99, 521])),
     Ev 4 56 Leader (A (AppendSent 2 [99, 521, 521, 99, 521])),
     Ev 4 56 Leader (A (AppendSent 0 [99, 521, 521, 99, 521])),
     Ev 2 28 Leader (A (AppendSent 1 [123, 123, 123, 1, 123])),
     Ev 2 28 Leader (A (AppendSent 3 [123, 123, 123, 1, 123])),
     Ev 4 56 Leader (A (AppendNotOk 2)),
     Ev 2 28 Leader (A (AppendNotOk 3)),
     Ev 4 56 Leader (A (AppendNotOk 1)),
     Ev 2 28 Leader (A (AppendNotOk 0)),
     Ev 4 56 Leader (A (AppendNotOk 3)),
     Ev 4 56 Leader (A (AppendNotOk 0)),
     Ev 2 28 Leader (A (AppendNotOk 4)),
     Ev 2 28 Leader (A (AppendNotOk 1)),
     Ev 2 28 Leader (A HeartBeat),
     Ev 2 28 Leader (A (AppendTo 0)),
     Ev 2 28 Leader (A (AppendTo 1)),
     Ev 4 56 Leader (A HeartBeat),
     Ev 4 56 Leader (A (AppendTo 0)),
     Ev 4 56 Leader (A (AppendTo 1)),
     Ev 4 56 Leader (A (AppendTo 2)),
     Ev 4 56 Leader (A (AppendTo 3)),
     Ev 4 56 Leader (A (AppendSent 3 [99, 521, 521, 99, 521])),
     Ev 4 56 Leader (A (AppendSent 0 [99, 521, 521, 99, 521])),
     Ev 4 56 Leader (A (AppendSent 2 [99, 521, 521, 99, 521])),
     Ev 2 28 Leader (A (AppendTo 3)),
     Ev 2 28 Leader (A (AppendTo 4)),
     Ev 2 28 Leader (A (AppendSent 1 [123, 123, 123, 1, 123])),
     Ev 4 56 Leader (A (AppendRefused 0 520 16 99)),
     Ev 2 28 Leader (A (AppendSent 3 [123, 123, 123, 1, 123])),
     Ev 4 56 Leader (A (AppendSent 1 [1, 521, 521, 99, 521])),
     Ev 2 28 Leader (A (AppendSent 4 [123, 123, 123, 1, 123])),
     Ev 2 28 Leader (A (AppendSent 0 [123, 123, 123, 1, 123])),
     Ev 2 28 Leader (A (AppendNotOk 1)),
     Ev 4 56 Leader (A (AppendNotOk 1)),
     Ev 4 56 Leader (A (AppendNotOk 3)),
     Ev 4 56 Leader (A (AppendNotOk 0)),
     Ev 2 28 Leader (A (AppendNotOk 4)),
     Ev 2 28 Leader (A (AppendNotOk 0)),
     Ev 2 28 Leader (A (AppendNotOk 3)),
     Ev 4 56 Leader (A (AppendNotOk 2))]"

definition run_66 :: "line list" where
  "run_66 = [
     Ev 2 28 Leader (A HeartBeat),
     Ev 2 28 Leader (A (AppendTo 0)),
     Ev 4 56 Leader (A HeartBeat),
     Ev 4 56 Leader (A (AppendTo 0)),
     Ev 2 28 Leader (A (AppendTo 1)),
     Ev 4 56 Leader (A (AppendTo 1)),
     Ev 4 56 Leader (A (AppendTo 2)),
     Ev 4 56 Leader (A (AppendTo 3)),
     Ev 2 28 Leader (A (AppendTo 3)),
     Ev 2 28 Leader (A (AppendTo 4)),
     Ev 4 56 Leader (A (AppendSent 3 [1, 521, 521, 99, 521])),
     Ev 2 28 Leader (A (AppendSent 0 [123, 123, 123, 1, 123])),
     Ev 2 28 Leader (A (AppendSent 4 [123, 123, 123, 1, 123])),
     Ev 4 56 Leader (A (AppendSent 0 [1, 521, 521, 99, 521])),
     Ev 4 56 Leader (A (AppendSent 2 [1, 521, 521, 99, 521])),
     Ev 4 56 Leader (A (AppendSent 1 [1, 521, 521, 99, 521])),
     Ev 2 28 Leader (A (AppendSent 1 [123, 123, 123, 1, 123])),
     Ev 2 28 Leader (A (AppendSent 3 [123, 123, 123, 1, 123])),
     Ev 2 28 Leader (A (AppendNotOk 1)),
     Ev 2 28 Leader (A (AppendNotOk 4)),
     Ev 2 28 Leader (A (AppendNotOk 0)),
     Ev 4 56 Leader (A (AppendNotOk 1)),
     Ev 4 56 Leader (A (AppendNotOk 2)),
     Ev 4 56 Leader (A (AppendNotOk 0)),
     Ev 4 56 Leader (A (AppendNotOk 3)),
     Ev 2 28 Leader (A (AppendNotOk 3)),
     Ev 2 28 Leader (A HeartBeat),
     Ev 3 56 Follower (E StartElection),
     Ev 4 56 Leader (A HeartBeat),
     Ev 4 56 Leader (A (AppendTo 0)),
     Ev 2 28 Leader (A (AppendTo 0)),
     Ev 4 56 Leader (A (AppendTo 1)),
     Ev 4 56 Leader (A (AppendTo 2)),
     Ev 2 28 Leader (A (AppendTo 1)),
     Ev 2 28 Leader (A (AppendTo 3)),
     Ev 2 28 Leader (A (AppendTo 4)),
     Ev 4 56 Leader (A (AppendTo 3)),
     Ev 4 56 Leader (A (AppendSent 0 [1, 521, 521, 99, 521])),
     Ev 2 28 Leader (A (AppendSent 1 [123, 123, 123, 1, 123])),
     Ev 4 56 Leader (A (AppendSent 2 [1, 521, 521, 99, 521])),
     Ev 4 56 Leader (A (AppendSent 1 [1, 521, 521, 99, 521])),
     Ev 3 57 Candidate (E BecomeCandidate),
     Ev 3 57 Candidate (E (RequestVoteTo 0)),
     Ev 3 57 Candidate (E (RequestVoteTo 1)),
     Ev 3 57 Candidate (E (RequestVoteTo 2)),
     Ev 3 57 Candidate (E (RequestVoteTo 4)),
     Ev 4 56 Leader (A (AppendSent 3 [1, 521, 521, 99, 521])),
     Ev 2 28 Leader (A (AppendSent 0 [123, 123, 123, 1, 123])),
     Ev 2 28 Leader (A (AppendSent 4 [123, 123, 123, 1, 123])),
     Ev 2 28 Leader (A (AppendSent 3 [123, 123, 123, 1, 123])),
     Ev 4 56 Leader (A (AppendNotOk 2)),
     Ev 3 57 Candidate (E (VoteNotOk 1)),
     Ev 0 56 Follower (E (VoteRequested (-1) 3 57)),
     Ev 0 56 Follower (E (VoteArgs 57 123 9 133 134)),
     Ev 0 56 Follower (E (Indices 1 1)),
     Ev 0 56 Follower (E (TermLower 3)),
     Ev 0 57 Follower (E (LogTerms 9 14 133 123)),
     Ev 0 57 Follower (E (VoteGranted 57 123 9 133 134)),
     Ev 0 57 Follower (E (Indices 1 1)),
     Ev 4 56 Leader (A (AppendNotOk 0)),
     Ev 3 57 Candidate (E (VoteNotOk 4)),
     Ev 2 28 Leader (A (AppendNotOk 3)),
     Ev 4 56 Leader (A (AppendNotOk 3)),
     Ev 2 28 Leader (A (AppendNotOk 1)),
     Ev 2 28 Leader (A (AppendNotOk 4)),
     Ev 2 28 Leader (A (AppendNotOk 0)),
     Ev 3 57 Candidate (E (VoteNotOk 2)),
     Ev 4 56 Leader (A (AppendNotOk 1)),
     Ev 4 56 Leader (A HeartBeat),
     Ev 4 56 Leader (A (AppendTo 0)),
     Ev 4 56 Leader (A (AppendTo 1)),
     Ev 4 56 Leader (A (AppendTo 2)),
     Ev 4 56 Leader (A (AppendTo 3)),
     Ev 4 56 Leader (A (AppendSent 3 [1, 521, 521, 99, 521])),
     Ev 4 56 Leader (A (AppendSent 1 [1, 521, 521, 99, 521])),
     Ev 2 28 Leader (A HeartBeat),
     Ev 2 28 Leader (A (AppendTo 0)),
     Ev 2 28 Leader (A (AppendTo 1)),
     Ev 2 28 Leader (A (AppendTo 3)),
     Ev 2 28 Leader (A (AppendTo 4)),
     Ev 2 28 Leader (A (AppendSent 4 [123, 123, 123, 1, 123])),
     Ev 2 28 Leader (A (AppendSent 0 [123, 123, 123, 1, 123])),
     Ev 4 56 Leader (A (AppendSent 0 [1, 521, 521, 99, 521])),
     Ev 2 28 Leader (A (AppendSent 1 [123, 123, 123, 1, 123])),
     Ev 4 56 Leader (A (AppendSent 2 [1, 521, 521, 99, 521])),
     Ev 2 28 Leader (A (AppendSent 3 [123, 123, 123, 1, 123])),
     Ev 4 56 Leader (A (AppendRefused 3 520 16 99)),
     Ev 4 56 Leader (A (AppendNotOk 3)),
     Ev 4 56 Leader (A (AppendNotOk 1)),
     Ev 4 56 Leader (A (AppendNotOk 0)),
     Ev 2 28 Leader (A (AppendNotOk 0)),
     Ev 2 28 Leader (A (AppendNotOk 1)),
     Ev 4 56 Leader (A (AppendNotOk 2)),
     Ev 4 56 Leader (A HeartBeat),
     Ev 4 56 Leader (A (AppendTo 0)),
     Ev 4 56 Leader (A (AppendTo 1)),
     Ev 4 56 Leader (A (AppendTo 2)),
     Ev 4 56 Leader (A (AppendTo 3)),
     Ev 4 56 Leader (A (AppendSent 3 [1, 521, 521, 1, 521])),
     Ev 2 28 Leader (A HeartBeat),
     Ev 2 28 Leader (A (AppendTo 0)),
     Ev 4 56 Leader (A (AppendSent 0 [1, 521, 521, 1, 521])),
     Ev 2 28 Leader (A (AppendTo 1)),
     Ev 2 28 Leader (A (AppendTo 3)),
     Ev 2 28 Leader (A (AppendTo 4)),
     Ev 2 28 Leader (A (AppendNotOk 4)),
     Ev 4 56 Leader (A (AppendSent 1 [1, 521, 521, 1, 521])),
     Ev 2 28 Leader (A (AppendNotOk 3)),
     Ev 2 28 Leader (A (AppendSent 0 [123, 123, 123, 1, 123])),
     Ev 2 28 Leader (A (AppendSent 1 [123, 123, 123, 1, 123])),
     Ev 2 28 Leader (A (AppendSent 3 [123, 123, 123, 1, 123])),
     Ev 2 28 Leader (A (AppendSent 4 [123, 123, 123, 1, 123])),
     Ev 4 56 Leader (A (AppendSent 2 [1, 521, 521, 1, 521])),
     Ev 4 56 Leader (A (AppendNotOk 3)),
     Ev 4 56 Leader (A (AppendNotOk 2)),
     Ev 4 56 Leader (A (AppendNotOk 0)),
     Ev 3 57 Candidate (E (VoteReply 0 57 True)),
     Ev 3 57 Candidate (E (Indices 1 1)),
     Ev 3 57 Candidate (E (VoteGained 0)),
     Ev 3 57 Candidate (E (CheckElection 2 5)),
     Ev 2 28 Leader (A (AppendNotOk 1)),
     Ev 4 56 Leader (A (AppendNotOk 1)),
     Ev 2 28 Leader (A (AppendNotOk 0)),
     Ev 4 56 Leader (A HeartBeat),
     Ev 4 56 Leader (A (AppendTo 0)),
     Ev 2 28 Leader (A (AppendNotOk 3)),
     Ev 4 56 Leader (A (AppendTo 1)),
     Ev 2 28 Leader (A HeartBeat),
     Ev 2 28 Leader (A (AppendTo 0)),
     Ev 2 28 Leader (A (AppendTo 1)),
     Ev 2 28 Leader (A (AppendTo 3)),
     Ev 2 28 Leader (A (AppendTo 4)),
     Ev 4 56 Leader (A (AppendTo 2)),
     Ev 4 56 Leader (A (AppendTo 3)),
     Ev 4 56 Leader (A (AppendSent 0 [1, 521, 521, 1, 521])),
     Ev 2 28 Leader (A (AppendSent 4 [123, 123, 123, 1, 123])),
     Ev 4 56 Leader (A (AppendSent 1 [1, 521, 521, 1, 521])),
     Ev 2 28 Leader (A (AppendSent 0 [123, 123, 123, 1, 123])),
     Ev 4 56 Leader (A (AppendSent 2 [1, 521, 521, 1, 521])),
     Ev 4 56 Leader (A (AppendSent 3 [1, 521, 521, 1, 521])),
     Ev 2 28 Leader (A (AppendNotOk 4)),
     Ev 2 28 Leader (A (AppendSent 1 [123, 123, 123, 1, 123])),
     Ev 2 28 Leader (A (AppendSent 3 [123, 123, 123, 1, 123])),
     Ev 4 56 Leader (A (AppendNotOk 3)),
     Ev 2 28 Leader (A (AppendNotOk 3)),
     Ev 2 28 Leader (A (AppendNotOk 4)),
     Ev 4 56 Leader (A (AppendNotOk 1)),
     Ev 4 56 Leader (A (AppendNotOk 2)),
     Ev 2 28 Leader (A (AppendNotOk 1)),
     Ev 2 28 Leader (A (AppendNotOk 0))]"

definition run_67 :: "line list" where
  "run_67 = [
     Ev 1 56 Follower (E StartElection),
     Ev 2 28 Leader (A HeartBeat),
     Ev 2 28 Leader (A (AppendTo 0)),
     Ev 2 28 Leader (A (AppendTo 1)),
     Ev 2 28 Leader (A (AppendTo 3)),
     Ev 2 28 Leader (A (AppendTo 4)),
     Ev 4 56 Leader (A HeartBeat),
     Ev 2 28 Leader (A (AppendSent 4 [123, 123, 123, 1, 123])),
     Ev 4 56 Leader (A (AppendTo 0)),
     Ev 4 56 Leader (A (AppendTo 1)),
     Ev 4 56 Leader (A (AppendTo 2)),
     Ev 4 56 Leader (A (AppendTo 3)),
     Ev 4 56 Leader (A (AppendSent 0 [1, 521, 521, 1, 521])),
     Ev 2 28 Leader (A (AppendSent 1 [123, 123, 123, 1, 123])),
     Ev 1 57 Candidate (E BecomeCandidate),
     Ev 1 57 Candidate (E (RequestVoteTo 0)),
     Ev 1 57 Candidate (E (RequestVoteTo 2)),
     Ev 1 57 Candidate (E (RequestVoteTo 3)),
     Ev 1 57 Candidate (E (RequestVoteTo 4)),
     Ev 2 28 Leader (A (AppendSent 0 [123, 123, 123, 1, 123])),
     Ev 4 56 Leader (A (AppendNotOk 0)),
     Ev 2 28 Leader (A (AppendSent 3 [123, 123, 123, 1, 123])),
     Ev 4 56 Leader (A (AppendSent 3 [1, 521, 521, 1, 521])),
     Ev 4 56 Leader (A (AppendSent 1 [1, 521, 521, 1, 521])),
     Ev 4 56 Leader (A (AppendSent 2 [1, 521, 521, 1, 521])),
     Ev 4 56 Leader (A (AppendNotOk 2)),
     Ev 4 56 Leader (A (AppendNotOk 1)),
     Ev 3 57 Candidate (E (VoteRequested 3 1 57)),
     Ev 3 57 Candidate (E (VoteArgs 57 486 14 123 124)),
     Ev 3 57 Candidate (E (Indices 1 1)),
     Ev 1 57 Candidate (E (VoteNotOk 2)),
     Ev 1 57 Candidate (E (VoteNotOk 4)),
     Ev 3 57 Candidate (E (LogTerms 14 39 123 486)),
     Ev 3 57 Candidate (E RefuseVote),
     Ev 0 57 Follower (E (VoteRequested 3 1 57)),
     Ev 0 57 Follower (E (VoteArgs 57 486 9 133 134)),
     Ev 0 57 Follower (E (Indices 1 1)),
     Ev 0 57 Follower (E (LogTerms 9 39 133 486)),
     Ev 0 57 Follower (E RefuseVote),
     Ev 1 57 Candidate (E (VoteReply 0 57 False)),
     Ev 1 57 Candidate (E (Indices 2 2)),
     Ev 1 57 Candidate (E (CheckElection 1 5)),
     Ev 4 56 Leader (A (AppendNotOk 0)),
     Ev 2 28 Leader (A (AppendNotOk 4)),
     Ev 2 28 Leader (A (AppendNotOk 1)),
     Ev 2 28 Leader (A (AppendNotOk 0)),
     Ev 2 28 Leader (A (AppendNotOk 3)),
     Ev 4 56 Leader (A (AppendNotOk 3)),
     Ev 4 56 Leader (A HeartBeat),
     Ev 4 56 Leader (A (AppendTo 0)),
     Ev 2 28 Leader (A HeartBeat),
     Ev 2 28 Leader (A (AppendTo 0)),
     Ev 4 56 Leader (A (AppendTo 1)),
     Ev 2 28 Leader (A (AppendTo 1)),
     Ev 2 28 Leader (A (AppendTo 3)),
     Ev 4 56 Leader (A (AppendTo 2)),
     Ev 4 56 Leader (A (AppendTo 3)),
     Ev 2 28 Leader (A (AppendTo 4)),
     Ev 4 56 Leader (A (AppendSent 0 [1, 521, 521, 1, 521])),
     Ev 2 28 Leader (A (AppendSent 3 [123, 123, 123, 1, 123])),
     Ev 4 56 Leader (A (AppendSent 2 [1, 521, 521, 1, 521])),
     Ev 2 28 Leader (A (AppendSent 0 [123, 123, 123, 1, 123])),
     Ev 4 56 Leader (A (AppendSent 1 [1, 521, 521, 1, 521])),
     Ev 4 56 Leader (A (AppendSent 3 [1, 521, 521, 1, 521])),
     Ev 2 28 Leader (A (AppendSent 1 [123, 123, 123, 1, 123])),
     Ev 2 28 Leader (A (AppendSent 4 [123, 123, 123, 1, 123])),
     Ev 2 28 Leader (A (AppendNotOk 0)),
     Ev 2 28 Leader (A (AppendNotOk 1)),
     Ev 4 56 Leader (A (AppendNotOk 3)),
     Ev 4 56 Leader (A (AppendNotOk 2)),
     Ev 2 28 Leader (A (AppendNotOk 4)),
     Ev 4 56 Leader (A (AppendNotOk 1)),
     Ev 4 56 Leader (A HeartBeat),
     Ev 2 28 Leader (A HeartBeat),
     Ev 2 28 Leader (A (AppendTo 0)),
     Ev 2 28 Leader (A (AppendTo 1)),
     Ev 2 28 Leader (A (AppendTo 3)),
     Ev 2 28 Leader (A (AppendTo 4)),
     Ev 3 57 Candidate (E StartElection),
     Ev 4 56 Leader (A (AppendTo 0)),
     Ev 2 28 Leader (A (AppendSent 4 [123, 123, 123, 1, 123])),
     Ev 4 56 Leader (A (AppendTo 1)),
     Ev 4 56 Leader (A (AppendTo 2)),
     Ev 4 56 Leader (A (AppendTo 3)),
     Ev 4 56 Leader (A (AppendSent 1 [1, 521, 521, 1, 521])),
     Ev 2 28 Leader (A (AppendSent 0 [123, 123, 123, 1, 123])),
     Ev 4 56 Leader (A (AppendNotOk 0)),
     Ev 4 56 Leader (A (AppendSent 0 [1, 521, 521, 1, 521])),
     Ev 3 58 Candidate (E BecomeCandidate),
     Ev 3 58 Candidate (E (RequestVoteTo 0)),
     Ev 3 58 Candidate (E (RequestVoteTo 1)),
     Ev 3 58 Candidate (E (RequestVoteTo 2)),
     Ev 3 58 Candidate (E (RequestVoteTo 4)),
     Ev 4 56 Leader (A (AppendSent 3 [1, 521, 521, 1, 521])),
     Ev 2 28 Leader (A (AppendNotOk 3)),
     Ev 2 28 Leader (A (AppendSent 1 [123, 123, 123, 1, 123])),
     Ev 4 56 Leader (A (AppendSent 2 [1, 521, 521, 1, 521])),
     Ev 2 28 Leader (A (AppendSent 3 [123, 123, 123, 1, 123])),
     Ev 3 58 Candidate (E (VoteNotOk 2)),
     Ev 2 28 Leader (A (AppendNotOk 1)),
     Ev 1 57 Candidate (E (VoteRequested 1 3 58)),
     Ev 1 57 Candidate (E (VoteArgs 58 123 39 486 487)),
     Ev 1 57 Candidate (E (Indices 2 2)),
     Ev 1 57 Candidate (E (TermLower 3)),
     Ev 0 57 Follower (E (VoteRequested 3 3 58)),
     Ev 0 57 Follower (E (VoteArgs 58 123 9 133 134)),
     Ev 0 57 Follower (E (Indices 1 1)),
     Ev 0 57 Follower (E (TermLower 3)),
     Ev 0 58 Follower (E (LogTerms 9 14 133 123)),
     Ev 0 58 Follower (E (VoteGranted 58 123 9 133 134)),
     Ev 0 58 Follower (E (Indices 1 1)),
     Ev 1 58 Follower (E (LogTerms 39 14 486 123)),
     Ev 1 58 Follower (E LogOutdated),
     Ev 3 58 Candidate (E (VoteReply 0 58 True)),
     Ev 3 58 Candidate (E (Indices 1 1)),
     Remark,
     Ev 3 58 Candidate (E (VoteGained 0)),
     Ev 3 58 Candidate (E (CheckElection 2 5)),
     Ev 2 28 Leader (A (AppendNotOk 3)),
     Ev 2 28 Leader (A (AppendNotOk 0)),
     Ev 4 56 Leader (A (AppendNotOk 3)),
     Ev 3 58 Candidate (E (VoteNotOk 4)),
     Ev 4 56 Leader (A (AppendNotOk 2)),
     Ev 4 56 Leader (A (AppendNotOk 0)),
     Ev 2 28 Leader (A (AppendNotOk 4)),
     Ev 4 56 Leader (A (AppendNotOk 1)),
     Ev 3 58 Candidate (E (VoteReply 0 54 True)),
     Ev 3 58 Candidate (E (Indices 1 1)),
     Ev 3 58 Candidate (E (VoteGained 0)),
     Ev 4 56 Leader (A HeartBeat),
     Ev 4 56 Leader (A (AppendTo 0)),
     Ev 3 58 Candidate (E (CheckElection 3 5)),
     Ev 3 59 Leader (E BecomesLeader),
     Ev 4 56 Leader (A (AppendTo 1)),
     Ev 3 59 Leader (A HeartBeat),
     Ev 3 59 Leader (A (AppendTo 0)),
     Ev 4 56 Leader (A (AppendTo 2)),
     Ev 3 59 Leader (A (AppendTo 1)),
     Ev 3 59 Leader (A (AppendTo 2)),
     Ev 3 59 Leader (A (AppendTo 4)),
     Ev 4 56 Leader (A (AppendTo 3)),
     Ev 2 28 Leader (A HeartBeat),
     Ev 2 28 Leader (A (AppendTo 0)),
     Ev 2 28 Leader (A (AppendTo 1)),
     Ev 4 56 Leader (A (AppendSent 1 [1, 521, 521, 1, 521])),
     Ev 2 28 Leader (A (AppendTo 3)),
     Ev 2 28 Leader (A (AppendTo 4)),
     Ev 4 56 Leader (A (AppendSent 0 [1, 521, 521, 1, 521])),
     Ev 3 59 Leader (A (AppendSent 0 [124, 124, 124, 124, 124])),
     Ev 2 28 Leader (A (AppendSent 1 [123, 123, 123, 1, 123]))]"

definition run_68 :: "line list" where
  "run_68 = [
     Ev 2 28 Leader (A (AppendSent 3 [123, 123, 123, 1, 123])),
     Ev 3 59 Leader (A (AppendSent 2 [124, 124, 124, 124, 124])),
     Ev 3 59 Leader (A (AppendSent 1 [124, 124, 124, 124, 124])),
     Ev 2 28 Leader (A (AppendSent 4 [123, 123, 123, 1, 123])),
     Ev 2 28 Leader (A (AppendSent 0 [123, 123, 123, 1, 123])),
     Ev 3 59 Leader (A (AppendSent 4 [124, 124, 124, 124, 124])),
     Ev 4 56 Leader (A (AppendSent 2 [1, 521, 521, 1, 521])),
     Ev 4 56 Leader (A (AppendSent 3 [1, 521, 521, 1, 521])),
     Ev 4 56 Leader (A (AppendNotOk 3)),
     Ev 0 58 Follower (A (AppendFrom 3 59)),
     Ev 1 58 Follower (A (AppendFrom 3 59)),
     Ev 0 59 Follower (A (NoMatch 14 123)),
     Ev 1 59 Follower (A (NoMatch 14 123)),
     Ev 3 59 Leader (A (AppendRefused 1 123 14 124)),
     Ev 4 56 Leader (A (AppendNotOk 1)),
     Ev 3 59 Leader (A (AppendNotOk 4)),
     Ev 2 28 Leader (A (AppendNotOk 3)),
     Ev 2 28 Leader (A (AppendNotOk 1)),
     Ev 2 28 Leader (A (AppendNotOk 4)),
     Ev 2 28 Leader (A (AppendNotOk 0)),
     Ev 3 59 Leader (A (AppendNotOk 2)),
     Ev 3 59 Leader (A HeartBeat),
     Ev 3 59 Leader (A (AppendTo 0)),
     Ev 2 28 Leader (A HeartBeat),
     Ev 2 28 Leader (A (AppendTo 0)),
     Ev 4 56 Leader (A HeartBeat),
     Ev 2 28 Leader (A (AppendTo 1)),
     Ev 4 56 Leader (A (AppendTo 0)),
     Ev 4 56 Leader (A (AppendTo 1)),
     Ev 4 56 Leader (A (AppendTo 2)),
     Ev 3 59 Leader (A (AppendTo 1)),
     Ev 2 28 Leader (A (AppendTo 3)),
     Ev 2 28 Leader (A (AppendTo 4)),
     Ev 3 59 Leader (A (AppendTo 2)),
     Ev 3 59 Leader (A (AppendTo 4)),
     Ev 4 56 Leader (A (AppendTo 3)),
     Ev 2 28 Leader (A (AppendSent 0 [123, 123, 123, 1, 123])),
     Ev 3 59 Leader (A (AppendSent 0 [124, 70, 124, 124, 124])),
     Ev 3 59 Leader (A (AppendSent 4 [124, 70, 124, 124, 124])),
     Ev 2 28 Leader (A (AppendSent 1 [123, 123, 123, 1, 123])),
     Ev 4 56 Leader (A (AppendNotOk 0)),
     Ev 4 56 Leader (A (AppendNotOk 2)),
     Ev 3 59 Leader (A (AppendSent 1 [124, 70, 124, 124, 124])),
     Ev 4 56 Leader (A (AppendSent 0 [1, 521, 521, 1, 521])),
     Ev 3 59 Leader (A (AppendSent 2 [124, 70, 124, 124, 124])),
     Ev 4 56 Leader (A (AppendSent 1 [1, 521, 521, 1, 521])),
     Ev 4 56 Leader (A (AppendSent 2 [1, 521, 521, 1, 521])),
     Ev 4 56 Leader (A (AppendNotOk 2)),
     Ev 4 56 Leader (A (AppendSent 3 [1, 521, 521, 1, 521])),
     Ev 2 28 Leader (A (AppendSent 3 [123, 123, 123, 1, 123])),
     Ev 2 28 Leader (A (AppendSent 4 [123, 123, 123, 1, 123])),
     Ev 2 28 Leader (A (AppendNotOk 4)),
     Ev 1 59 Follower (A (AppendFrom 3 59)),
     Ev 1 59 Follower (A (NoMatch 6 69)),
     Ev 4 56 Leader (A (AppendNotOk 1)),
     Ev 0 59 Follower (A (AppendFrom 3 59)),
     Ev 0 59 Follower (A (NoMatch 14 123)),
     Ev 2 28 Leader (A (AppendNotOk 1)),
     Ev 3 59 Leader (A (AppendNotOk 2)),
     Ev 2 28 Leader (A (AppendNotOk 0)),
     Ev 4 56 Leader (A (AppendNotOk 3)),
     Ev 3 59 Leader (A (AppendNotOk 4)),
     Ev 4 56 Leader (A (AppendNotOk 0)),
     Ev 2 28 Leader (A (AppendNotOk 3)),
     Ev 3 59 Leader (A HeartBeat),
     Ev 4 56 Leader (A HeartBeat),
     Ev 4 56 Leader (A (AppendTo 0)),
     Ev 3 59 Leader (A (AppendTo 0)),
     Ev 4 56 Leader (A (AppendTo 1)),
     Ev 4 56 Leader (A (AppendTo 2)),
     Ev 3 59 Leader (A (AppendTo 1)),
     Ev 2 28 Leader (A HeartBeat),
     Ev 2 28 Leader (A (AppendTo 0)),
     Ev 4 56 Leader (A (AppendTo 3)),
     Ev 3 59 Leader (A (AppendTo 2)),
     Ev 4 56 Leader (A (AppendSent 2 [1, 521, 521, 1, 521])),
     Ev 3 59 Leader (A (AppendTo 4)),
     Ev 2 28 Leader (A (AppendTo 1)),
     Ev 2 28 Leader (A (AppendTo 3)),
     Ev 2 28 Leader (A (AppendTo 4)),
     Ev 3 59 Leader (A (AppendSent 0 [124, 70, 124, 124, 124])),
     Ev 2 28 Leader (A (AppendSent 0 [123, 123, 123, 1, 123])),
     Ev 3 59 Leader (A (AppendSent 2 [124, 70, 124, 124, 124])),
     Ev 3 59 Leader (A (AppendSent 4 [124, 70, 124, 124, 124])),
     Ev 3 59 Leader (A (AppendSent 1 [124, 70, 124, 124, 124])),
     Ev 2 28 Leader (A (AppendSent 3 [123, 123, 123, 1, 123])),
     Ev 4 56 Leader (A (AppendSent 0 [1, 521, 521, 1, 521])),
     Ev 2 28 Leader (A (AppendSent 1 [123, 123, 123, 1, 123])),
     Ev 2 28 Leader (A (AppendSent 4 [123, 123, 123, 1, 123])),
     Ev 4 56 Leader (A (AppendSent 1 [1, 521, 521, 1, 521])),
     Ev 4 56 Leader (A (AppendSent 3 [1, 521, 521, 1, 521])),
     Ev 4 56 Leader (A (AppendNotOk 0)),
     Ev 2 28 Leader (A (AppendNotOk 3)),
     Ev 0 59 Follower (A (AppendFrom 3 59)),
     Ev 1 59 Follower (A (AppendFrom 3 59)),
     Ev 0 59 Follower (A (NoMatch 14 123)),
     Ev 1 59 Follower (A (NoMatch 6 69)),
     Ev 3 59 Leader (A (AppendNotOk 1)),
     Ev 2 28 Leader (A (AppendNotOk 0)),
     Ev 3 59 Leader (A (AppendNotOk 4)),
     Ev 2 28 Leader (A (AppendNotOk 1)),
     Ev 4 56 Leader (A (AppendNotOk 3)),
     Ev 3 59 Leader (A (AppendNotOk 2)),
     Ev 2 28 Leader (A (AppendNotOk 4)),
     Ev 4 56 Leader (A (AppendNotOk 2)),
     Ev 3 59 Leader (A HeartBeat),
     Ev 4 56 Leader (A (AppendNotOk 1)),
     Ev 4 56 Leader (A HeartBeat),
     Ev 4 56 Leader (A (AppendTo 0)),
     Ev 3 59 Leader (A (AppendTo 0)),
     Ev 2 28 Leader (A HeartBeat),
     Ev 2 28 Leader (A (AppendTo 0)),
     Ev 4 56 Leader (A (AppendTo 1)),
     Ev 3 59 Leader (A (AppendTo 1)),
     Ev 3 59 Leader (A (AppendTo 2)),
     Ev 2 28 Leader (A (AppendTo 1)),
     Ev 4 56 Leader (A (AppendTo 2)),
     Ev 3 59 Leader (A (AppendTo 4)),
     Ev 4 56 Leader (A (AppendTo 3)),
     Ev 3 59 Leader (A (AppendSent 0 [124, 70, 124, 124, 124])),
     Ev 2 28 Leader (A (AppendTo 3)),
     Ev 2 28 Leader (A (AppendTo 4)),
     Ev 4 56 Leader (A (AppendSent 0 [1, 521, 521, 1, 521])),
     Ev 2 28 Leader (A (AppendSent 0 [123, 123, 123, 1, 123])),
     Ev 2 28 Leader (A (AppendSent 4 [123, 123, 123, 1, 123])),
     Ev 3 59 Leader (A (AppendSent 4 [124, 70, 124, 124, 124])),
     Ev 3 59 Leader (A (AppendRefused 1 69 6 70)),
     Ev 3 59 Leader (A (AppendSent 2 [124, 2, 124, 124, 124])),
     Ev 3 59 Leader (A (AppendSent 1 [124, 2, 124, 124, 124])),
     Ev 4 56 Leader (A (AppendSent 1 [1, 521, 521, 1, 521])),
     Ev 4 56 Leader (A (AppendSent 2 [1, 521, 521, 1, 521])),
     Ev 4 56 Leader (A (AppendSent 3 [1, 521, 521, 1, 521])),
     Ev 2 28 Leader (A (AppendSent 1 [123, 123, 123, 1, 123])),
     Ev 2 28 Leader (A (AppendSent 3 [123, 123, 123, 1, 123])),
     Ev 2 28 Leader (A (AppendNotOk 3)),
     Ev 3 59 Leader (A (AppendNotOk 1)),
     Ev 2 28 Leader (A (AppendNotOk 1)),
     Ev 2 28 Leader (A (AppendNotOk 0)),
     Ev 4 56 Leader (A (AppendNotOk 0)),
     Ev 0 59 Follower (A (AppendFrom 3 59)),
     Ev 0 59 Follower (A (NoMatch 14 123)),
     Ev 2 28 Leader (A (AppendNotOk 4)),
     Ev 4 56 Leader (A (AppendNotOk 3)),
     Ev 4 56 Leader (A (AppendNotOk 2)),
     Ev 3 59 Leader (A (AppendNotOk 2)),
     Ev 4 56 Leader (A (AppendNotOk 1)),
     Ev 4 56 Leader (A HeartBeat),
     Ev 4 56 Leader (A (AppendTo 0)),
     Ev 2 28 Leader (A HeartBeat),
     Ev 2 28 Leader (A (AppendTo 0))]"

definition run_69 :: "line list" where
  "run_69 = [
     Ev 2 28 Leader (A (AppendTo 1)),
     Ev 4 56 Leader (A (AppendTo 1)),
     Ev 4 56 Leader (A (AppendTo 2)),
     Ev 4 56 Leader (A (AppendTo 3)),
     Ev 3 59 Leader (A HeartBeat),
     Ev 3 59 Leader (A (AppendTo 0)),
     Ev 3 59 Leader (A (AppendTo 1)),
     Ev 3 59 Leader (A (AppendTo 2)),
     Ev 3 59 Leader (A (AppendTo 4)),
     Ev 2 28 Leader (A (AppendTo 3)),
     Ev 3 59 Leader (A (AppendSent 0 [124, 2, 124, 124, 124])),
     Ev 2 28 Leader (A (AppendTo 4)),
     Ev 4 56 Leader (A (AppendSent 2 [1, 521, 521, 1, 521])),
     Ev 2 28 Leader (A (AppendSent 4 [123, 123, 123, 1, 123])),
     Ev 3 59 Leader (A (AppendNotOk 4)),
     Ev 3 59 Leader (A (AppendSent 4 [124, 2, 124, 124, 124])),
     Ev 3 59 Leader (A (AppendSent 1 [124, 2, 124, 124, 124])),
     Ev 3 59 Leader (A (AppendSent 2 [124, 2, 124, 124, 124])),
     Ev 4 56 Leader (A (AppendSent 0 [1, 521, 521, 1, 521])),
     Ev 2 28 Leader (A (AppendSent 1 [123, 123, 123, 1, 123])),
     Ev 4 56 Leader (A (AppendSent 1 [1, 521, 521, 1, 521])),
     Ev 4 56 Leader (A (AppendSent 3 [1, 521, 521, 1, 521])),
     Ev 2 28 Leader (A (AppendSent 0 [123, 123, 123, 1, 123])),
     Ev 2 28 Leader (A (AppendSent 3 [123, 123, 123, 1, 123])),
     Ev 3 59 Leader (A (AppendNotOk 4)),
     Ev 2 28 Leader (A (AppendNotOk 1)),
     Ev 2 28 Leader (A (AppendNotOk 3)),
     Ev 4 56 Leader (A (AppendNotOk 0)),
     Ev 3 59 Leader (A (AppendNotOk 2)),
     Ev 0 59 Follower (A (AppendFrom 3 59)),
     Ev 1 59 Follower (A (AppendFrom 3 59)),
     Ev 0 59 Follower (A (NoMatch 14 123)),
     Ev 3 59 Leader (A (AppendRefused 0 123 14 124)),
     Ev 1 59 Follower (A (Appended 59 126)),
     Ev 2 28 Leader (A (AppendNotOk 0)),
     Ev 4 56 Leader (A (AppendNotOk 1)),
     Ev 2 28 Leader (A (AppendNotOk 4)),
     Ev 4 56 Leader (A (AppendNotOk 3)),
     Ev 4 56 Leader (A (AppendNotOk 2)),
     Ev 4 56 Leader (A HeartBeat),
     Ev 4 56 Leader (A (AppendTo 0)),
     Ev 4 56 Leader (A (AppendTo 1)),
     Ev 4 56 Leader (A (AppendTo 2)),
     Ev 4 56 Leader (A (AppendTo 3)),
     Ev 4 56 Leader (A (AppendSent 3 [1, 521, 521, 1, 521])),
     Ev 3 59 Leader (A (AppendRefused 0 123 14 70)),
     Ev 3 59 Leader (A HeartBeat),
     Ev 3 59 Leader (A (AppendTo 0)),
     Ev 3 59 Leader (A (AppendTo 1)),
     Ev 3 59 Leader (A (AppendTo 2)),
     Ev 3 59 Leader (A (AppendTo 4)),
     Ev 3 59 Leader (A (AppendSent 4 [2, 2, 124, 124, 124])),
     Ev 2 28 Leader (A HeartBeat),
     Ev 2 28 Leader (A (AppendTo 0)),
     Ev 2 28 Leader (A (AppendTo 1)),
     Ev 3 59 Leader (A (AppendSent 1 [2, 2, 124, 124, 124])),
     Ev 4 56 Leader (A (AppendSent 0 [1, 521, 521, 1, 521])),
     Ev 3 59 Leader (A (AppendSent 2 [2, 2, 124, 124, 124])),
     Ev 4 56 Leader (A (AppendSent 1 [1, 521, 521, 1, 521])),
     Ev 4 56 Leader (A (AppendSent 2 [1, 521, 521, 1, 521])),
     Ev 3 59 Leader (A (AppendSent 0 [2, 2, 124, 124, 124])),
     Ev 2 28 Leader (A (AppendTo 3)),
     Ev 2 28 Leader (A (AppendTo 4)),
     Ev 2 28 Leader (A (AppendSent 1 [123, 123, 123, 1, 123])),
     Ev 2 28 Leader (A (AppendSent 3 [123, 123, 123, 1, 123])),
     Ev 2 28 Leader (A (AppendSent 4 [123, 123, 123, 1, 123])),
     Ev 2 28 Leader (A (AppendSent 0 [123, 123, 123, 1, 123])),
     Ev 2 28 Leader (A (AppendNotOk 4)),
     Ev 1 59 Follower (A (AppendFrom 3 59)),
     Ev 0 59 Follower (A (AppendFrom 3 59)),
     Ev 1 59 Follower (A (Appended 59 126)),
     Ev 0 59 Follower (A (Appended 59 126)),
     Ev 3 59 Leader (A (AppendSuccess 1)),
     Ev 3 59 Leader (C (TryCommit 1 127)),
     Ev 3 59 Leader (C (MatchIndex [-1, 126, -1, -1, -1])),
     Ev 3 59 Leader (C (Logs [(-1, -1), (2, 4416), (2, 1773), (6, 1565), (6, 9839), (6, 8884), (6, 1730), (6,
       7856), (6, 3801), (6, 5962), (6, 601), (6, 7603), (6, 2561), (6, 1354), (6, 9073), (6, 8378), (6, 6357),
       (6, 4744), (6, 8770), (6, 5495), (6, 6522), (6, 6480), (6, 216), (6, 4004), (6, 7676), (6, 7306), (6,
       5019), (6, 1798), (6, 7021), (6, 9495), (6, 6139), (6, 1267), (6, 7041), (6, 6140), (6, 607), (6, 9070),
       (6, 7386), (6, 72), (6, 6604), (6, 8243), (6, 7046), (6, 3880), (6, 7616), (6, 4955), (6, 4865), (6,
       6739), (6, 6454), (6, 8604), (6, 4722), (6, 8891), (6, 8892), (6, 1624), (6, 2915), (6, 3879), (6, 4539),
       (6, 2530), (6, 338), (6, 3223), (6, 8553), (6, 5848), (6, 4011), (6, 1042), (6, 794), (6, 3165), (6,
       3415), (6, 2492), (6, 2211), (6, 9387), (6, 650), (6, 128), (6, 198), (14, 1943), (14, 3700), (14, 3217),
       (14, 8424), (14, 333), (14, 4822), (14, 9515), (14, 320), (14, 209), (14, 7169), (14, 5812), (14, 2399),
       (14, 9933), (14, 9071), (14, 1487), (14, 6101), (14, 1581), (14, 7208), (14, 9608), (14, 7618), (14,
       4656), (14, 8295), (14, 8041), (14, 7384), (14, 862), (14, 7586), (14, 5121), (14, 1426), (14, 6171),
       (14, 4502), (14, 732), (14, 3895), (14, 3835), (14, 1128), (14, 7173), (14, 9594), (14, 9000), (14,
       2885), (14, 4717), (14, 6248), (14, 7434), (14, 1012), (14, 3762), (14, 4915), (14, 9645), (14, 7201),
       (14, 751), (14, 8649), (14, 9542), (14, 362), (14, 6669), (14, 5109), (14, 129), (59, 4333), (59, 655),
       (59, 6260)])),
     Ev 3 59 Leader (C (FinishCommit 1)),
     Ev 3 59 Leader (C (TryApply 1 1)),
     Ev 2 28 Leader (A (AppendNotOk 1)),
     Ev 3 59 Leader (A (AppendNotOk 2)),
     Ev 2 28 Leader (A (AppendNotOk 0)),
     Ev 4 56 Leader (A (AppendNotOk 1)),
     Ev 4 56 Leader (A (AppendNotOk 0)),
     Ev 4 56 Leader (A (AppendNotOk 2)),
     Ev 2 28 Leader (A (AppendNotOk 3)),
     Ev 3 59 Leader (A (AppendNotOk 4)),
     Ev 4 56 Leader (A (AppendNotOk 3)),
     Ev 2 28 Leader (A HeartBeat),
     Ev 3 59 Leader (A HeartBeat),
     Ev 2 28 Leader (A (AppendTo 0)),
     Ev 2 28 Leader (A (AppendTo 1)),
     Ev 2 28 Leader (A (AppendTo 3)),
     Ev 3 59 Leader (A (AppendTo 0)),
     Ev 4 56 Leader (A HeartBeat),
     Ev 3 59 Leader (A (AppendTo 1)),
     Ev 3 59 Leader (A (AppendTo 2)),
     Ev 3 59 Leader (A (AppendTo 4)),
     Ev 4 56 Leader (A (AppendTo 0)),
     Ev 4 56 Leader (A (AppendTo 1)),
     Ev 4 56 Leader (A (AppendTo 2)),
     Ev 2 28 Leader (A (AppendTo 4)),
     Ev 3 59 Leader (A (AppendSent 1 [2, 127, 124, 124, 124])),
     Ev 4 56 Leader (A (AppendTo 3)),
     Ev 2 28 Leader (A (AppendSent 3 [123, 123, 123, 1, 123])),
     Ev 3 59 Leader (A (AppendSent 0 [2, 127, 124, 124, 124])),
     Ev 4 56 Leader (A (AppendSent 2 [1, 521, 521, 1, 521])),
     Ev 2 28 Leader (A (AppendSent 0 [123, 123, 123, 1, 123])),
     Ev 4 56 Leader (A (AppendSent 0 [1, 521, 521, 1, 521])),
     Ev 3 59 Leader (A (AppendSent 2 [2, 127, 124, 124, 124])),
     Ev 3 59 Leader (A (AppendSent 4 [2, 127, 124, 124, 124])),
     Ev 2 28 Leader (A (AppendSent 1 [123, 123, 123, 1, 123])),
     Ev 4 56 Leader (A (AppendSent 1 [1, 521, 521, 1, 521])),
     Ev 2 28 Leader (A (AppendSent 4 [123, 123, 123, 1, 123])),
     Ev 4 56 Leader (A (AppendSent 3 [1, 521, 521, 1, 521])),
     Ev 2 28 Leader (A (AppendNotOk 3)),
     Ev 3 59 Leader (A (AppendRefused 0 123 14 2)),
     Ev 1 59 Follower (A (AppendFrom 3 59)),
     Ev 0 59 Follower (A (AppendFrom 3 59)),
     Ev 1 59 Follower (A (Appended 59 126)),
     Ev 3 59 Leader (A (AppendSuccess 1)),
     Ev 3 59 Leader (C (TryCommit 1 127)),
     Ev 0 59 Follower (A (Appended 59 126)),
     Ev 3 59 Leader (C (MatchIndex [-1, 126, -1, -1, -1])),
     Ev 3 59 Leader (C (Logs [(-1, -1), (2, 4416), (2, 1773), (6, 1565), (6, 9839), (6, 8884), (6, 1730), (6,
       7856), (6, 3801), (6, 5962), (6, 601), (6, 7603), (6, 2561), (6, 1354), (6, 9073), (6, 8378), (6, 6357),
       (6, 4744), (6, 8770), (6, 5495), (6, 6522), (6, 6480), (6, 216), (6, 4004), (6, 7676), (6, 7306), (6,
       5019), (6, 1798), (6, 7021), (6, 9495), (6, 6139), (6, 1267), (6, 7041), (6, 6140), (6, 607), (6, 9070),
       (6, 7386), (6, 72), (6, 6604), (6, 8243), (6, 7046), (6, 3880), (6, 7616), (6, 4955), (6, 4865), (6,
       6739), (6, 6454), (6, 8604), (6, 4722), (6, 8891), (6, 8892), (6, 1624), (6, 2915), (6, 3879), (6, 4539),
       (6, 2530), (6, 338), (6, 3223), (6, 8553), (6, 5848), (6, 4011), (6, 1042), (6, 794), (6, 3165), (6,
       3415), (6, 2492), (6, 2211), (6, 9387), (6, 650), (6, 128), (6, 198), (14, 1943), (14, 3700), (14, 3217),
       (14, 8424), (14, 333), (14, 4822), (14, 9515), (14, 320), (14, 209), (14, 7169), (14, 5812), (14, 2399),
       (14, 9933), (14, 9071), (14, 1487), (14, 6101), (14, 1581), (14, 7208), (14, 9608), (14, 7618), (14,
       4656), (14, 8295), (14, 8041), (14, 7384), (14, 862), (14, 7586), (14, 5121), (14, 1426), (14, 6171),
       (14, 4502), (14, 732), (14, 3895), (14, 3835), (14, 1128), (14, 7173), (14, 9594), (14, 9000), (14,
       2885), (14, 4717), (14, 6248), (14, 7434), (14, 1012), (14, 3762), (14, 4915), (14, 9645), (14, 7201),
       (14, 751), (14, 8649), (14, 9542), (14, 362), (14, 6669), (14, 5109), (14, 129), (59, 4333), (59, 655),
       (59, 6260)])),
     Ev 3 59 Leader (C (FinishCommit 1)),
     Ev 3 59 Leader (C (TryApply 1 1)),
     Ev 3 59 Leader (A (AppendNotOk 0)),
     Ev 4 56 Leader (A (AppendNotOk 1)),
     Ev 4 56 Leader (A (AppendNotOk 3)),
     Ev 3 59 Leader (A (AppendNotOk 4)),
     Ev 4 56 Leader (A (AppendNotOk 2)),
     Ev 2 28 Leader (A (AppendNotOk 4)),
     Ev 4 56 Leader (A (AppendNotOk 0)),
     Ev 3 59 Leader (A (AppendNotOk 2)),
     Ev 2 28 Leader (A (AppendNotOk 0)),
     Ev 2 28 Leader (A HeartBeat),
     Ev 4 56 Leader (A HeartBeat),
     Ev 4 56 Leader (A (AppendTo 0)),
     Ev 2 28 Leader (A (AppendTo 0)),
     Ev 2 28 Leader (A (AppendTo 1)),
     Ev 2 28 Leader (A (AppendTo 3)),
     Ev 3 59 Leader (A HeartBeat),
     Ev 4 56 Leader (A (AppendTo 1)),
     Ev 3 59 Leader (A (AppendTo 0)),
     Ev 3 59 Leader (A (AppendTo 1)),
     Ev 2 28 Leader (A (AppendTo 4)),
     Ev 4 56 Leader (A (AppendTo 2)),
     Ev 4 56 Leader (A (AppendTo 3)),
     Ev 2 28 Leader (A (AppendNotOk 1)),
     Ev 3 59 Leader (A (AppendTo 2))]"

definition run_70 :: "line list" where
  "run_70 = [
     Ev 4 56 Leader (A (AppendSent 0 [1, 521, 521, 1, 521])),
     Ev 3 59 Leader (A (AppendTo 4)),
     Ev 2 28 Leader (A (AppendSent 3 [123, 123, 123, 1, 123])),
     Ev 4 56 Leader (A (AppendSent 3 [1, 521, 521, 1, 521])),
     Ev 3 59 Leader (A (AppendSent 0 [1, 127, 124, 124, 124])),
     Ev 3 59 Leader (A (AppendSent 2 [1, 127, 124, 124, 124])),
     Ev 3 59 Leader (A (AppendSent 4 [1, 127, 124, 124, 124])),
     Ev 3 59 Leader (A (AppendSent 1 [1, 127, 124, 124, 124])),
     Ev 2 28 Leader (A (AppendSent 0 [123, 123, 123, 1, 123])),
     Ev 4 56 Leader (A (AppendSent 1 [1, 521, 521, 1, 521])),
     Ev 2 28 Leader (A (AppendSent 1 [123, 123, 123, 1, 123])),
     Ev 4 56 Leader (A (AppendSent 2 [1, 521, 521, 1, 521])),
     Ev 2 28 Leader (A (AppendSent 4 [123, 123, 123, 1, 123])),
     Ev 2 28 Leader (A (AppendNotOk 0)),
     Ev 1 59 Follower (E (VoteReply 3 57 False)),
     Ev 1 59 Follower (E (Indices 2 2)),
     Ev 1 59 Follower (E (CheckElection 0 5)),
     Ev 1 59 Follower (E NotCandidate),
     Ev 4 56 Leader (A (AppendNotOk 0)),
     Ev 2 28 Leader (A (AppendNotOk 1)),
     Ev 3 59 Leader (A (AppendNotOk 1)),
     Ev 2 28 Leader (A (AppendNotOk 3)),
     Ev 4 56 Leader (A (AppendNotOk 3)),
     Ev 3 59 Leader (A (AppendNotOk 4)),
     Ev 3 59 Leader (A (AppendRefused 0 123 14 1)),
     Ev 2 28 Leader (A (AppendNotOk 4)),
     Ev 3 59 Leader (A (AppendNotOk 2)),
     Ev 4 56 Leader (A (AppendNotOk 2)),
     Ev 2 28 Leader (A HeartBeat),
     Ev 2 28 Leader (A (AppendTo 0)),
     Ev 2 28 Leader (A (AppendTo 1)),
     Ev 4 56 Leader (A HeartBeat),
     Ev 4 56 Leader (A (AppendTo 0)),
     Ev 4 56 Leader (A (AppendTo 1)),
     Ev 2 28 Leader (A (AppendTo 3)),
     Ev 3 59 Leader (A (AppendNotOk 0)),
     Ev 2 28 Leader (A (AppendTo 4)),
     Ev 3 59 Leader (A HeartBeat),
     Ev 3 59 Leader (A (AppendTo 0)),
     Ev 3 59 Leader (A (AppendTo 1)),
     Ev 4 56 Leader (A (AppendTo 2)),
     Ev 2 28 Leader (A (AppendSent 1 [123, 123, 123, 1, 123])),
     Ev 3 59 Leader (A (AppendTo 2)),
     Ev 3 59 Leader (A (AppendTo 4)),
     Ev 4 56 Leader (A (AppendTo 3)),
     Ev 3 59 Leader (A (AppendSent 1 [1, 127, 124, 124, 124])),
     Ev 2 28 Leader (A (AppendSent 4 [123, 123, 123, 1, 123])),
     Ev 4 56 Leader (A (AppendSent 1 [1, 521, 521, 1, 521])),
     Ev 3 59 Leader (A (AppendSent 2 [1, 127, 124, 124, 124])),
     Ev 3 59 Leader (A (AppendSent 4 [1, 127, 124, 124, 124])),
     Ev 3 59 Leader (A (AppendSent 0 [1, 127, 124, 124, 124])),
     Ev 4 56 Leader (A (AppendSent 3 [1, 521, 521, 1, 521])),
     Ev 3 59 Leader (E (VoteReply 1 58 False)),
     Ev 3 59 Leader (E (Indices 1 1)),
     Ev 3 59 Leader (E (CheckElection 0 5)),
     Ev 3 59 Leader (E NotCandidate),
     Ev 4 56 Leader (A (AppendSent 0 [1, 521, 521, 1, 521])),
     Ev 4 56 Leader (A (AppendNotOk 1)),
     Ev 4 56 Leader (A (AppendSent 2 [1, 521, 521, 1, 521])),
     Ev 2 28 Leader (A (AppendSent 0 [123, 123, 123, 1, 123])),
     Ev 2 28 Leader (A (AppendSent 3 [123, 123, 123, 1, 123])),
     Ev 3 59 Leader (A (AppendNotOk 0)),
     Ev 4 56 Leader (A (AppendNotOk 0)),
     Ev 4 56 Leader (A (AppendNotOk 2)),
     Ev 1 59 Follower (A (AppendFrom 2 28)),
     Ev 1 59 Follower (A TermSmaller),
     Ev 0 59 Follower (A (AppendFrom 2 28)),
     Ev 0 59 Follower (A TermSmaller),
     Ev 3 59 Leader (A (AppendNotOk 2)),
     Ev 2 28 Leader (A (AppendNotOk 4)),
     Ev 4 56 Leader (A (AppendNotOk 3)),
     Ev 3 59 Leader (A (AppendNotOk 4)),
     Ev 3 59 Leader (A (AppendNotOk 1)),
     Ev 4 56 Leader (A (AppendNotOk 1)),
     Ev 2 28 Leader (A HeartBeat),
     Ev 2 28 Leader (A (AppendTo 0)),
     Ev 2 28 Leader (A (AppendTo 1)),
     Ev 4 56 Leader (A HeartBeat),
     Ev 3 59 Leader (A HeartBeat),
     Ev 3 59 Leader (A (AppendTo 0)),
     Ev 3 59 Leader (A (AppendTo 1)),
     Ev 3 59 Leader (A (AppendTo 2)),
     Ev 4 56 Leader (A (AppendTo 0)),
     Ev 4 56 Leader (A (AppendTo 1)),
     Ev 4 56 Leader (A (AppendTo 2)),
     Ev 2 28 Leader (A (AppendTo 3)),
     Ev 3 59 Leader (A (AppendTo 4)),
     Ev 4 56 Leader (A (AppendTo 3)),
     Ev 3 59 Leader (A (AppendSent 2 [1, 127, 124, 124, 124])),
     Ev 4 56 Leader (A (AppendSent 0 [1, 521, 521, 1, 521])),
     Ev 2 28 Leader (A (AppendTo 4)),
     Ev 2 28 Leader (A (AppendNotOk 3)),
     Ev 3 59 Leader (A (AppendSent 0 [1, 127, 124, 124, 124])),
     Ev 2 28 Leader (A (AppendSent 0 [123, 123, 123, 1, 123])),
     Ev 2 28 Leader (A (AppendSent 4 [123, 123, 123, 1, 123])),
     Ev 3 59 Leader (A (AppendSent 1 [1, 127, 124, 124, 124])),
     Ev 3 59 Leader (A (AppendSent 4 [1, 127, 124, 124, 124])),
     Ev 4 56 Leader (A (AppendSent 3 [1, 521, 521, 1, 521])),
     Ev 4 56 Leader (A (AppendSent 2 [1, 521, 521, 1, 521])),
     Ev 4 56 Leader (A (AppendSent 1 [1, 521, 521, 1, 521])),
     Ev 2 28 Leader (A (AppendSent 1 [123, 123, 123, 1, 123])),
     Ev 2 28 Leader (A (AppendSent 3 [123, 123, 123, 1, 123])),
     Ev 4 56 Leader (A (AppendNotOk 2)),
     Ev 2 28 Leader (A (AppendNotOk 4)),
     Ev 2 28 Leader (A (AppendNotOk 1)),
     Ev 4 56 Leader (A (AppendNotOk 3)),
     Ev 3 59 Leader (A (AppendNotOk 0)),
     Ev 3 59 Leader (A (AppendNotOk 1)),
     Ev 0 59 Follower (A (AppendFrom 2 28)),
     Ev 0 59 Follower (A TermSmaller),
     Ev 3 59 Leader (A (AppendNotOk 4)),
     Ev 2 28 Leader (A (AppendNotOk 3)),
     Ev 4 56 Leader (A (AppendNotOk 1)),
     Ev 4 56 Leader (A (AppendNotOk 0)),
     Ev 3 59 Leader (A (AppendNotOk 2)),
     Ev 4 56 Leader (A HeartBeat),
     Ev 4 56 Leader (A (AppendTo 0)),
     Ev 4 56 Leader (A (AppendTo 1)),
     Ev 4 56 Leader (A (AppendTo 2)),
     Ev 4 56 Leader (A (AppendTo 3)),
     Ev 4 56 Leader (A (AppendSent 3 [1, 521, 521, 1, 521])),
     Ev 3 59 Leader (A HeartBeat),
     Ev 3 59 Leader (A (AppendTo 0)),
     Ev 3 59 Leader (A (AppendTo 1)),
     Ev 3 59 Leader (A (AppendTo 2)),
     Ev 2 28 Leader (A HeartBeat),
     Ev 2 28 Leader (A (AppendTo 0)),
     Ev 2 28 Leader (A (AppendTo 1)),
     Ev 2 28 Leader (A (AppendTo 3)),
     Ev 2 28 Leader (A (AppendTo 4)),
     Ev 4 56 Leader (A (AppendSent 0 [1, 521, 521, 1, 521])),
     Ev 4 56 Leader (A (AppendSent 1 [1, 521, 521, 1, 521])),
     Ev 4 56 Leader (A (AppendSent 2 [1, 521, 521, 1, 521])),
     Ev 3 59 Leader (A (AppendTo 4)),
     Ev 3 59 Leader (A (AppendSent 2 [1, 127, 124, 124, 124])),
     Ev 3 59 Leader (A (AppendSent 4 [1, 127, 124, 124, 124])),
     Ev 3 59 Leader (A (AppendSent 0 [1, 127, 124, 124, 124])),
     Ev 3 59 Leader (A (AppendSent 1 [1, 127, 124, 124, 124])),
     Ev 2 28 Leader (A (AppendSent 4 [123, 123, 123, 1, 123])),
     Ev 2 28 Leader (A (AppendSent 0 [123, 123, 123, 1, 123])),
     Ev 2 28 Leader (A (AppendSent 1 [123, 123, 123, 1, 123])),
     Ev 2 28 Leader (A (AppendSent 3 [123, 123, 123, 1, 123])),
     Ev 4 56 Leader (A (AppendNotOk 2)),
     Ev 1 59 Follower (A (AppendFrom 2 28)),
     Ev 1 59 Follower (A TermSmaller),
     Ev 0 59 Follower (A (AppendFrom 2 28)),
     Ev 0 59 Follower (A TermSmaller),
     Ev 3 59 Leader (A (AppendNotOk 4)),
     Ev 3 59 Leader (A (AppendNotOk 0)),
     Ev 3 59 Leader (A (AppendNotOk 2))]"

definition run_71 :: "line list" where
  "run_71 = [
     Ev 2 28 Leader (A (AppendBigger 0 59)),
     Ev 4 56 Leader (A (AppendNotOk 0)),
     Ev 4 56 Leader (A (AppendNotOk 1)),
     Ev 4 56 Leader (A (AppendNotOk 3)),
     Ev 2 59 Follower (A (AppendNotOk 3)),
     Ev 3 59 Leader (A (AppendNotOk 1)),
     Ev 3 59 Leader (A (AppendSuccess 1)),
     Ev 3 59 Leader (C (TryCommit 1 142)),
     Ev 3 59 Leader (C (MatchIndex [-1, 126, -1, -1, -1])),
     Ev 3 59 Leader (C (Logs [(-1, -1), (2, 4416), (2, 1773), (6, 1565), (6, 9839), (6, 8884), (6, 1730), (6,
       7856), (6, 3801), (6, 5962), (6, 601), (6, 7603), (6, 2561), (6, 1354), (6, 9073), (6, 8378), (6, 6357),
       (6, 4744), (6, 8770), (6, 5495), (6, 6522), (6, 6480), (6, 216), (6, 4004), (6, 7676), (6, 7306), (6,
       5019), (6, 1798), (6, 7021), (6, 9495), (6, 6139), (6, 1267), (6, 7041), (6, 6140), (6, 607), (6, 9070),
       (6, 7386), (6, 72), (6, 6604), (6, 8243), (6, 7046), (6, 3880), (6, 7616), (6, 4955), (6, 4865), (6,
       6739), (6, 6454), (6, 8604), (6, 4722), (6, 8891), (6, 8892), (6, 1624), (6, 2915), (6, 3879), (6, 4539),
       (6, 2530), (6, 338), (6, 3223), (6, 8553), (6, 5848), (6, 4011), (6, 1042), (6, 794), (6, 3165), (6,
       3415), (6, 2492), (6, 2211), (6, 9387), (6, 650), (6, 128), (6, 198), (14, 1943), (14, 3700), (14, 3217),
       (14, 8424), (14, 333), (14, 4822), (14, 9515), (14, 320), (14, 209), (14, 7169), (14, 5812), (14, 2399),
       (14, 9933), (14, 9071), (14, 1487), (14, 6101), (14, 1581), (14, 7208), (14, 9608), (14, 7618), (14,
       4656), (14, 8295), (14, 8041), (14, 7384), (14, 862), (14, 7586), (14, 5121), (14, 1426), (14, 6171),
       (14, 4502), (14, 732), (14, 3895), (14, 3835), (14, 1128), (14, 7173), (14, 9594), (14, 9000), (14,
       2885), (14, 4717), (14, 6248), (14, 7434), (14, 1012), (14, 3762), (14, 4915), (14, 9645), (14, 7201),
       (14, 751), (14, 8649), (14, 9542), (14, 362), (14, 6669), (14, 5109), (14, 129), (59, 4333), (59, 655),
       (59, 6260), (59, 6), (59, 8718), (59, 3092), (59, 1210), (59, 6933), (59, 3458), (59, 6044), (59, 7886),
       (59, 2743), (59, 8834), (59, 4452), (59, 4997), (59, 196), (59, 6633), (59, 1219)])),
     Ev 3 59 Leader (C (FinishCommit 1)),
     Ev 3 59 Leader (C (TryApply 1 1)),
     Ev 0 59 Follower (E StartElection),
     Ev 4 56 Leader (A HeartBeat),
     Ev 4 56 Leader (A (AppendTo 0)),
     Ev 2 59 Follower (A (AppendNotOk 4)),
     Ev 4 56 Leader (A (AppendTo 1)),
     Ev 3 59 Leader (A HeartBeat),
     Ev 3 59 Leader (A (AppendTo 0)),
     Ev 3 59 Leader (A (AppendTo 1)),
     Ev 3 59 Leader (A (AppendTo 2)),
     Ev 3 59 Leader (A (AppendTo 4)),
     Ev 4 56 Leader (A (AppendTo 2)),
     Ev 4 56 Leader (A (AppendTo 3)),
     Ev 3 59 Leader (A (AppendSent 0 [1, 127, 124, 124, 124])),
     Ev 4 56 Leader (A (AppendSent 1 [1, 521, 521, 1, 521])),
     Ev 3 59 Leader (A (AppendSent 4 [1, 127, 124, 124, 124])),
     Ev 0 60 Candidate (E BecomeCandidate),
     Ev 3 59 Leader (A (AppendSent 2 [1, 127, 124, 124, 124])),
     Ev 0 60 Candidate (E (RequestVoteTo 1)),
     Ev 0 60 Candidate (E (RequestVoteTo 2)),
     Ev 0 60 Candidate (E (RequestVoteTo 3)),
     Ev 0 60 Candidate (E (RequestVoteTo 4)),
     Ev 4 56 Leader (A (AppendSent 2 [1, 521, 521, 1, 521])),
     Ev 4 56 Leader (A (AppendSent 3 [1, 521, 521, 1, 521])),
     Ev 4 56 Leader (A (AppendSent 0 [1, 521, 521, 1, 521])),
     Ev 3 59 Leader (A (AppendSent 1 [1, 127, 124, 124, 124])),
     Ev 3 59 Leader (A (AppendNotOk 0)),
     Ev 4 56 Leader (A (AppendNotOk 3)),
     Ev 4 56 Leader (E (VoteRequested (-1) 0 60)),
     Ev 4 56 Leader (E (VoteArgs 60 126 56 577 578)),
     Ev 4 56 Leader (E (Indices 122 122)),
     Ev 4 56 Leader (E (TermLower 0)),
     Ev 1 59 Follower (A (AppendFrom 4 56)),
     Ev 1 59 Follower (A TermSmaller),
     Ev 4 60 Follower (E (LogTerms 56 59 577 126)),
     Ev 4 60 Follower (E (VoteGranted 60 126 56 577 578)),
     Ev 4 60 Follower (E (Indices 122 122)),
     Ev 0 60 Candidate (E (VoteNotOk 4)),
     Ev 4 60 Follower (A (AppendNotOk 1)),
     Ev 1 59 Follower (E (VoteRequested (-1) 0 60)),
     Ev 1 59 Follower (E (VoteArgs 60 126 59 126 127)),
     Ev 1 59 Follower (E (Indices 2 2)),
     Ev 1 59 Follower (E (TermLower 0)),
     Ev 1 60 Follower (E (LogTerms 59 59 126 126)),
     Ev 1 60 Follower (E (VoteGranted 60 126 59 126 127)),
     Ev 1 60 Follower (E (Indices 2 2)),
     Ev 0 60 Candidate (A (AppendFrom 4 56)),
     Ev 0 60 Candidate (A TermSmaller),
     Ev 0 60 Candidate (E (VoteNotOk 2)),
     Ev 4 60 Follower (A (AppendNotOk 2)),
     Ev 3 59 Leader (A (AppendNotOk 2)),
     Ev 3 59 Leader (A (AppendNotOk 1)),
     Ev 0 60 Candidate (E (VoteNotOk 3)),
     Ev 3 59 Leader (A (AppendNotOk 4)),
     Ev 3 59 Leader (A HeartBeat),
     Ev 3 59 Leader (A (AppendTo 0)),
     Ev 3 59 Leader (A (AppendTo 1)),
     Ev 3 59 Leader (A (AppendTo 2)),
     Ev 3 59 Leader (A (AppendTo 4)),
     Ev 3 59 Leader (A (AppendSent 4 [1, 127, 124, 124, 124])),
     Ev 3 59 Leader (A (AppendSent 1 [1, 127, 124, 124, 124])),
     Ev 3 59 Leader (A (AppendSent 0 [1, 127, 124, 124, 124])),
     Ev 3 59 Leader (A (AppendSent 2 [1, 127, 124, 124, 124])),
     Ev 2 59 Follower (A (NoLongerLeader 1)),
     Ev 3 59 Leader (A (AppendNotOk 2)),
     Ev 3 59 Leader (A (AppendNotOk 1)),
     Ev 3 59 Leader (A (AppendNotOk 4)),
     Ev 3 59 Leader (A (AppendNotOk 0)),
     Ev 3 59 Leader (A HeartBeat),
     Ev 3 59 Leader (A (AppendTo 0)),
     Ev 3 59 Leader (A (AppendTo 1)),
     Ev 3 59 Leader (A (AppendTo 2)),
     Ev 3 59 Leader (A (AppendTo 4)),
     Ev 3 59 Leader (A (AppendSent 0 [1, 127, 124, 124, 124])),
     Ev 3 59 Leader (A (AppendSent 4 [1, 127, 124, 124, 124])),
     Ev 3 59 Leader (A (AppendSent 1 [1, 127, 124, 124, 124])),
     Ev 3 59 Leader (A (AppendSent 2 [1, 127, 124, 124, 124])),
     Ev 3 59 Leader (A (AppendSuccess 0)),
     Ev 3 59 Leader (C (TryCommit 1 148)),
     Ev 3 59 Leader (C (MatchIndex [126, 126, -1, -1, -1])),
     Ev 3 59 Leader (C (Logs [(-1, -1), (2, 4416), (2, 1773), (6, 1565), (6, 9839), (6, 8884), (6, 1730), (6,
       7856), (6, 3801), (6, 5962), (6, 601), (6, 7603), (6, 2561), (6, 1354), (6, 9073), (6, 8378), (6, 6357),
       (6, 4744), (6, 8770), (6, 5495), (6, 6522), (6, 6480), (6, 216), (6, 4004), (6, 7676), (6, 7306), (6,
       5019), (6, 1798), (6, 7021), (6, 9495), (6, 6139), (6, 1267), (6, 7041), (6, 6140), (6, 607), (6, 9070),
       (6, 7386), (6, 72), (6, 6604), (6, 8243), (6, 7046), (6, 3880), (6, 7616), (6, 4955), (6, 4865), (6,
       6739), (6, 6454), (6, 8604), (6, 4722), (6, 8891), (6, 8892), (6, 1624), (6, 2915), (6, 3879), (6, 4539),
       (6, 2530), (6, 338), (6, 3223), (6, 8553), (6, 5848), (6, 4011), (6, 1042), (6, 794), (6, 3165), (6,
       3415), (6, 2492), (6, 2211), (6, 9387), (6, 650), (6, 128), (6, 198), (14, 1943), (14, 3700), (14, 3217),
       (14, 8424), (14, 333), (14, 4822), (14, 9515), (14, 320), (14, 209), (14, 7169), (14, 5812), (14, 2399),
       (14, 9933), (14, 9071), (14, 1487), (14, 6101), (14, 1581), (14, 7208), (14, 9608), (14, 7618), (14,
       4656), (14, 8295), (14, 8041), (14, 7384), (14, 862), (14, 7586), (14, 5121), (14, 1426), (14, 6171),
       (14, 4502), (14, 732), (14, 3895), (14, 3835), (14, 1128), (14, 7173), (14, 9594), (14, 9000), (14,
       2885), (14, 4717), (14, 6248), (14, 7434), (14, 1012), (14, 3762), (14, 4915), (14, 9645), (14, 7201),
       (14, 751), (14, 8649), (14, 9542), (14, 362), (14, 6669), (14, 5109), (14, 129), (59, 4333), (59, 655),
       (59, 6260), (59, 6), (59, 8718), (59, 3092), (59, 1210), (59, 6933), (59, 3458), (59, 6044), (59, 7886),
       (59, 2743), (59, 8834), (59, 4452), (59, 4997), (59, 196), (59, 6633), (59, 1219), (59, 2087), (59,
       2357), (59, 5708), (59, 8396), (59, 3415), (59, 985)])),
     Ev 3 59 Leader (C (NewCommit 1 124 3 2 59 59)),
     Ev 3 59 Leader (C (NewCommit 124 125 3 2 59 59)),
     Ev 3 59 Leader (C (NewCommit 125 126 3 2 59 59)),
     Ev 3 59 Leader (C (FinishCommit 126)),
     Ev 3 59 Leader (C (TryApply 1 126)),
     Ev 3 59 Leader (C (Apply 1773 2 2)),
     TestServer 3 Leader,
     TestConflict 3 1565 3 4 1309,
     Ev 3 59 Leader (C (Apply 1565 3 6)),
     Console,
     Console,
     Console,
     Console]"

definition part_7 :: "line list list" where
  "part_7 =
     [run_62, run_63, run_64, run_65, run_66, run_67, run_68, run_69, run_70, run_71]"

lemma part_7_replays: "read_all replay obs_6 part_7 = Some obs_7"
  by code_simp

end
