(* ===== verification/Trace_Run.thy ===== *)
theory Trace_Run
  imports Trace_1 Trace_2 Trace_3 Trace_4 Trace_5 Trace_6 Trace_7
begin

text \<open>
  The recorded run as a whole against the code under src/: at every point where a peer of
  the run printed its state and what it decided on a vote, on the count of its votes or on its
  commit index, what the code does in every state that agrees with the print.
\<close>

definition recorded_parts :: "line list list" where
  "recorded_parts = part_1 @ part_2 @ part_3 @ part_4 @ part_5 @ part_6 @ part_7"

definition recorded_run :: "line list" where
  "recorded_run = concat recorded_parts"

lemma recorded_replay: "read_run replay obs_0 recorded_run = Some obs_7"
  by (simp add: recorded_run_def recorded_parts_def read_run_append read_run_concat part_1_replays
      part_2_replays part_3_replays part_4_replays part_5_replays part_6_replays part_7_replays)

text \<open>
  What a line of the run is about: \<open>recorded ob l\<close> says that the run has the line \<open>l\<close> at a point
  where the lines before it tell \<open>ob\<close>.
\<close>

definition recorded :: "obs \<Rightarrow> line \<Rightarrow> bool" where
  "recorded ob l \<longleftrightarrow> (ob, l) \<in> set (scan obs_0 recorded_run)"

lemmas recorded_fits = replayed_fits [OF recorded_replay, folded recorded_def]


lemma verdict_election_fits:
  "election_fits ob n t s r \<Longrightarrow> verdict r = Some granted \<Longrightarrow> verdict_fits ob n t s granted"
  by (cases r) auto

text \<open>The first lines of the run, for concrete points of it.\<close>

lemma recorded_first:
  assumes "(ob, l) \<in> set (scan obs_0 run_01)"
  shows "recorded ob l"
  using assms by (simp add: recorded_def recorded_run_def recorded_parts_def part_1_def scan_append)

section \<open>Properties\<close>

text \<open>
  C23. The verdicts on votes. At every point of the recorded run where a peer states its
  verdict on a request for its vote, the request is known, and \<open>RequestVote\<close> of the code under
  src/ returns for every peer with the printed term, role, vote and last entry, whatever its
  log is otherwise. If the peer is not a candidate that is asked in its own term by another
  one with a log as new, it comes to the recorded verdict and has the recorded term and role
  afterwards. If it is, the run refused and the peer remained a candidate, while the code
  grants the vote and becomes a follower in the same term.
\<close>

theorem recorded_votes_conform:
  assumes "recorded ob (Ev n t s (E r))" "verdict r = Some granted"
  shows "\<exists>q. map_of (o_req ob) n = Some q \<and>
    (\<forall>rf args ev. log_ok rf \<and> printed_voter n q rf \<and> printed_args q args \<longrightarrow>
      (\<exists>rf' reply. RequestVote ev rf args = Inr (rf', reply) \<and>
        (if gives_way n q
         then rvr_VoteGranted reply \<and> currentTerm rf' = t \<and> status rf' = Follower \<and>
           \<not> granted \<and> s = Candidate
         else rvr_VoteGranted reply = granted \<and> currentTerm rf' = t \<and> status rf' = s)))"
proof -
  from recorded_fits [OF assms(1)] assms(2) have "verdict_fits ob n t s granted"
    by (auto intro: verdict_election_fits)
  then obtain q where q: "map_of (o_req ob) n = Some q"
    "if gives_way n q then \<not> granted \<and> t = q_term q \<and> s = Candidate
     else vote_answer n q = Some (granted, t, s)"
    by (auto simp: verdict_fits_def split: option.splits)
  show ?thesis
  proof (intro exI [of _ q] conjI allI impI q(1))
    fix rf :: "('a, 'b) raft" and args ev
    assume *: "log_ok rf \<and> printed_voter n q rf \<and> printed_args q args"
    show "\<exists>rf' reply. RequestVote ev rf args = Inr (rf', reply) \<and>
        (if gives_way n q
         then rvr_VoteGranted reply \<and> currentTerm rf' = t \<and> status rf' = Follower \<and>
           \<not> granted \<and> s = Candidate
         else rvr_VoteGranted reply = granted \<and> currentTerm rf' = t \<and> status rf' = s)"
    proof (cases "gives_way n q")
      case True
      with vote_answer_right [of rf n q args, OF _ _ _ gives_way_answer] * q(2) show ?thesis by fastforce
    next
      case False
      with vote_answer_right [of rf n q args] * q(2) show ?thesis by fastforce
    qed
  qed
qed

text \<open>The first request for a vote in the run: peer 4 asks peer 3 (line 23).\<close>

definition req_23 :: vote_req where
  "req_23 = \<lparr>q_term = 0, q_status = Follower, q_voted = -1, q_from = 4, q_argTerm = 1,
     q_lastTerm = -1, q_lastIndex = 0, q_argLastTerm = Some (-1), q_argLastIndex = 0\<rparr>"

definition obs_23 :: obs where
  "obs_23 = foldl note_line obs_0 (take 22 run_01)"

lemma line_23: "recorded obs_23 (Ev 3 1 Follower (E (VoteGranted 1 0 (-1) 0 1)))"
  "map_of (o_req obs_23) 3 = Some req_23"
proof -
  have "(obs_23, Ev 3 1 Follower (E (VoteGranted 1 0 (-1) 0 1))) \<in> set (scan obs_0 run_01)" by code_simp
  then show "recorded obs_23 (Ev 3 1 Follower (E (VoteGranted 1 0 (-1) 0 1)))" by (rule recorded_first)
  show "map_of (o_req obs_23) 3 = Some req_23" by code_simp
qed

theorem recorded_votes_conform_witness:
  "\<exists>rf' reply. RequestVote \<lparr>now = 7, rnd = 3\<rparr> (fresh_raft \<lparr>now = 0, rnd = 0\<rparr> 5 3 MakePersister :: (int, int) raft)
     \<lparr>rva_Term = 1, rva_CandidateId = 4, rva_LastLogIndex = 0, rva_LastLogTerm = -1\<rparr> = Inr (rf', reply) \<and>
     rvr_VoteGranted reply \<and> currentTerm rf' = 1 \<and> status rf' = Follower"
proof -
  let ?rf = "fresh_raft \<lparr>now = 0, rnd = 0\<rparr> 5 3 MakePersister :: (int, int) raft"
  let ?args = "\<lparr>rva_Term = 1, rva_CandidateId = 4, rva_LastLogIndex = 0, rva_LastLogTerm = -1\<rparr>"
  have "log_ok ?rf" "printed_voter 3 req_23 ?rf" "\<not> gives_way 3 req_23" by code_simp+
  moreover have "printed_args req_23 ?args" by (simp add: printed_args_def req_23_def)
  ultimately show ?thesis
    using recorded_votes_conform [OF line_23(1)] line_23(2) by fastforce
qed







text \<open>
  C25. The commit index. At every point of the recorded run where a leader has looked for
  a new commit index, \<open>leaderUpdateCommit\<close> of the code under src/, on every leader of five
  peers with the printed term, commit index, table of acknowledged indices and terms of
  the log, returns and finds the index that the run printed.
\<close>

theorem recorded_commits_conform:
  assumes "recorded ob (Ev n t s (C (FinishCommit i)))"
  shows "\<exists>c. map_of (o_try ob) n = Some c \<and>
    (\<forall>rf. printed_leader n t c rf \<longrightarrow> leaderUpdateCommit rf = Inr (rf\<lparr>commitIndex := i\<rparr>))"
proof -
  from recorded_fits [OF assms] obtain c where "map_of (o_try ob) n = Some c" "commit_answer n t c = Some i"
    by (auto split: option.splits)
  with commit_answer_right show ?thesis by blast
qed

text \<open>The first commit of the run: leader 4 commits the entry at index 1 (line 131).\<close>

definition try_131 :: commit_try where
  "try_131 = \<lparr>c_commit = -1, c_length = 2, c_match = [0, 1, 0, 1, -1], c_logs = [(-1, -1), (2, 4416)]\<rparr>"

definition obs_131 :: obs where
  "obs_131 = foldl note_line obs_0 (take 130 run_01)"

lemma line_131: "recorded obs_131 (Ev 4 2 Leader (C (FinishCommit 1)))"
  "map_of (o_try obs_131) 4 = Some try_131"
proof -
  have "(obs_131, Ev 4 2 Leader (C (FinishCommit 1))) \<in> set (scan obs_0 run_01)" by code_simp
  then show "recorded obs_131 (Ev 4 2 Leader (C (FinishCommit 1)))" by (rule recorded_first)
  show "map_of (o_try obs_131) 4 = Some try_131" by code_simp
qed

theorem recorded_commits_conform_witness:
  "leaderUpdateCommit (sample_leader 4 2 try_131) = Inr ((sample_leader 4 2 try_131)\<lparr>commitIndex := 1\<rparr>)"
  using recorded_commits_conform [OF line_131(1)] line_131(2) sample_leader_printed [of 4 2 try_131] by auto

text \<open>
  The rule for commits (\<open>commit_rule\<close>) at that point of the run: a leader in the printed state,
  in good order, moves its commit index to 1, and the entry there is stored by a majority.
\<close>

definition leader_131 :: "(int, int) raft" where
  "leader_131 = persist ((sample_leader 4 2 try_131)\<lparr>nextIndex := [1, 2, 1, 2, 2]\<rparr>)"

theorem commit_rule_witness:
  "recorded obs_131 (Ev 4 2 Leader (C (FinishCommit 1))) \<and>
   map_of (o_try obs_131) 4 = Some try_131 \<and> printed_leader 4 2 try_131 leader_131 \<and>
   leaderUpdateCommit leader_131 = Inr (leader_131\<lparr>commitIndex := 1\<rparr>) \<and> committable leader_131 1"
proof -
  have ok: "raft_ok leader_131" "status leader_131 = Leader" "commitIndex leader_131 = -1"
    "printed_leader 4 2 try_131 leader_131"
    "leaderUpdateCommit leader_131 = Inr (leader_131\<lparr>commitIndex := 1\<rparr>)" by code_simp+
  from commit_rule [OF ok(1,2)] obtain c where c:
    "leaderUpdateCommit leader_131 = Inr (leader_131\<lparr>commitIndex := c\<rparr>)"
    "c \<noteq> commitIndex leader_131 \<longrightarrow> committable leader_131 c" by blast
  from ok(5) c(1) have "leader_131\<lparr>commitIndex := c\<rparr> = leader_131\<lparr>commitIndex := 1\<rparr>" by simp
  from arg_cong [OF this, of commitIndex] have "c = 1" by simp
  with ok c(2) line_131 show ?thesis by simp
qed

end
