(* ===== verification/Spec2Isabelle.thy ===== *)
theory Spec2Isabelle
  imports Raft_Runs KV_Clerk SC_Clerk SKV_Shards SKV_Clerk MR_System Trace_Run
begin

text \<open>
  A verification development of the distributed systems labs under src/code/src: the Raft
  consensus library (raft), a replicated key/value service (kvraft), the shard controller
  (shardctrler), the sharded key/value service (shardkv) and MapReduce (mr, with
  main/mrsequential.go), all written in Go, and the record of a test run of Raft
  (raft/2timesvote.ts).

  \<^bold>\<open>How the parts interact.\<close> A service hands commands to its Raft peer with \<open>Start\<close>; the peers
  of a group agree on a log over RPCs; each peer sends the committed entries, or a snapshot,
  over \<open>applyCh\<close> to its service, which executes every request of a client at most once and
  answers the RPC handler that waits for it. Clerks try the servers of a group until one
  answers. kvraft, shardctrler and shardkv are built this way. The groups of shardkv follow the
  configurations of the shard controller, and ask each other for the shards that move.

  \<^bold>\<open>Conventions.\<close> A Go struct is a record, an enumeration a datatype; \<open>int\<close> is the
  unbounded type of integers (terms, indices and sizes stay far below the width of an int).
  Panics, \<open>log.Fatal\<close> and out-of-range accesses are faults, the left side of the result type
  \<open>'a res\<close> of Prelude. Every critical section of the code, from the acquisition of a lock
  to its release, is one function on the state of its object; RPCs that a section sends and
  goroutines that it starts are part of its result. The clock and random draws are an
  argument (\<open>env\<close>). labgob is modelled by streams of values (Persister), channels are numbers
  with a table of the closed ones (Service). Go maps that are ranged over are association
  lists; a theorem shows where the order does not matter.

  \<^bold>\<open>Raft.\<close> Persister (persister.go), Raft_Log (logUtils.go), Raft_State (raft.go, raftUtils.go:
  state, persistence, roles, \<open>Start\<close>, \<open>Make\<close>, \<open>ticker\<close>), Raft_Vote (requestVotes.go),
  Raft_Commit (commitAndApplyUtils.go), Raft_Append (appendEntities.go) and Raft_Snapshot
  (installSnapshot.go) hold one definition per function, with the two halves of a sender
  before and after its RPC as two functions. The locale \<open>log_store\<close> is the view of a log with
  a compacted prefix, \<open>codec\<close> the round trip of an encoding, \<open>peer_op\<close> the contract of every
  critical section; each is interpreted on the code's functions. Raft_Cluster composes the
  peers into a group with messages that are lost, delayed, repeated and reordered, and with
  crashes, as an inductive step relation, and proves its invariants by rule induction;
  Raft_Election adds where votes come from: only a granted reply of the current term that is
  consumed adds to the count of a candidate, and the one that completes the majority elects it.
  Raft_Runs states what holds of every run and three executable schedules that show what does
  not: two leaders in a term, two services that are given different commands at an index, and a
  leader of five peers that was elected by two of them because one was counted twice.

  \<^bold>\<open>kvraft.\<close> Service holds the interfaces of the replicated services: \<open>dedup_machine\<close> (execute
  every request once), \<open>channel_table\<close> (the table of waiting handlers), \<open>retry_loop\<close> (the
  loop of a clerk). KV_Server (common.go, server.go, utils.go, kvServerApplyTicker.go,
  kvServerSnapshot.go), KV_Handlers (server side of kvServerGet.go and kvServerPutAppend.go,
  with a step relation for all handlers that run on a server) and KV_Clerk (client.go and the
  client side) interpret them. The theorems: exactly-once execution, agreement of replicas
  also over snapshots, the answers, that handlers complete, that clerks return, and a deadlock.

  \<^bold>\<open>shardctrler.\<close> SC_Config (the helpers of util.go and the changes of a configuration):
  \<open>redistributeShards\<close> terminates and balances, Join and Leave keep configurations valid, the
  order of Go's maps does not show. SC_Server (server.go, util.go, applyTicker.go,
  snapshot.go): every operation on the history of configurations, exactly-once execution, a
  restart recovers the state, a snapshot from Raft is dropped, a Move out of range panics.
  SC_Handlers and SC_Clerk (join.go, leave.go, move.go, query.go, client.go): a request that is
  confirmed stands in the history of executed commands (a field that the model adds to the
  state) and was carried out there; clerks return.

  \<^bold>\<open>shardkv.\<close> SKV_State (common.go, util.go and the operations of applyTicker.go) is the state
  machine of a group: configurations, shards with time stamps, requests. SKV_Group shows what a
  log of operations does to it: every log is executed, requests are served only by the owner of
  the shard when no shard is missing, and once. SKV_Server holds the server (server.go,
  snapshot.go, the table and the apply loop) and the two tickers (shardConfigTicker.go,
  acquireShardTicker.go), whose unlocked looks at the server are separate arguments; SKV_Apply
  interprets \<open>channel_table\<close> and \<open>codec\<close> and shows that the apply loop gets through. SKV_Shards
  composes groups and the controller: when a group leaves a configuration, what is handed over
  with a shard, that the ticker stays in bounds, and four ways in which the code goes wrong (a
  lost write, a repeated one, a check that is outrun, a shard that nobody can hand over and that
  stops its group).
  SKV_Handlers and SKV_Clerk (get.go, putAppend.go, client.go) hold the sections of the handlers
  and the loops of the clerk, which return when the controller settles, a server answers and
  none before it in the list sends the clerk away; without that last condition they may not.

  \<^bold>\<open>MapReduce.\<close> MR_Coordinator (coordinator.go, rpc.go) is the coordinator, with the clock as an
  argument. MR_Json holds the intermediate files: the encoder and decoder of Go for a pair of
  strings, byte by byte, and that a stream of pairs is read back as written. MR_Worker
  (worker.go) holds the hash that picks a bucket, the names of the files, \<open>DoMap\<close> and
  \<open>DoReduce\<close>, and the sequential program of main/mrsequential.go; it shows that a map task
  splits its pairs into the files of the buckets, that the loop over runs of equal keys gives a line per key, and that the buckets together give the lines of the
  whole. MR_System composes the coordinator with any number of workers that start, crash and
  interleave between single reads and renames, and with an application that may list its pairs
  in any order: the invariant of all reachable states, that a finished job has the output of the
  sequential program, and that a job can always be finished. The application, and the order in
  which \<open>sort.Sort\<close> leaves equal keys, are arguments (\<open>sorts\<close>, \<open>order_free\<close>). A temporary file
  enters the shared directory when it is renamed; that its random name is not that of another
  file is part of the model.

  \<^bold>\<open>The recorded run.\<close> raft/2timesvote.ts is not a program in spite of its extension: it is the
  output of a test run that failed, made with an earlier state of raft. Trace_1 to Trace_7
  transcribe its 10605 lines (without the times), Trace_Event defines what a line is, what is
  known at each point of a run and when a line fits it, Trace_States the knowledge between the
  parts, and Trace_Run concludes: wherever a peer of the run printed its state and a decision,
  \<open>RequestVote\<close>, \<open>handleRequestVoteReply\<close> and \<open>leaderUpdateCommit\<close> of the code under src/, on every
  state that agrees with the print, decide the same, with two kinds of exceptions that are
  spelled out: a candidate now gives way to another one of its term, and three votes of earlier
  terms, to which the failure of the run is due, are no longer counted.
  The lines of that file that the development covers say nothing about how much of the Go
  code it covers.

  \<^bold>\<open>Bounds and fuel.\<close> There is no fuel: recursions are structural or have a termination proof;
  \<open>redistributeShards\<close> and the loops of the clerks are partial functions into option, and that
  they return is a theorem. The recorded run is evaluated by the simplifier, part by part.

  \<^bold>\<open>Not modelled.\<close> Debug output; real time (a timer may fire at any moment); the byte encoding
  of labgob and the sizes that depend on it (a parameter); labrpc (its losses and delays are
  steps of the group); porcupine, models, the test harness, the MapReduce applications and
  the entry points under main. In shardkv a handler and the apply loop are not composed into one
  step relation as in kvraft and shardctrler, whose code is the same. In MapReduce the transport
  of the RPCs: a call that fails ends the worker, which is a crash.
\<close>

end
